(* ===== verification/Runpod_Prelude.thy ===== *)
theory Runpod_Prelude
  imports Main "HOL-Library.Multiset"
begin

text \<open>
  Shared vocabulary of the development: time-zone aware and naive timestamps, the exception
  classes the package raises, the state-and-exception programs in which the stateful
  components are written, first-failure validation lists for the dataclass
  \<^verbatim>\<open>__post_init__\<close> methods, and the rely/guarantee triple with its rules.
\<close>

named_theorems safe_rules \<open>introduction rules for the rely/guarantee triple\<close>
named_theorems contract_defs \<open>validators of the frozen dataclasses\<close>
named_theorems prog_simps \<open>evaluation rules for programs\<close>

subsection \<open>Timestamps\<close>

text \<open>
  A Python \<^verbatim>\<open>datetime\<close> is either naive or aware.  Every operation the package performs on an
  aware value (comparison, equality, difference, \<^verbatim>\<open>astimezone(UTC)\<close>) depends only on the
  instant, so an aware value is the instant in microseconds since the epoch.
\<close>

datatype datetime = Naive (usec: int) | Aware (usec: int)

instantiation datetime :: linorder
begin

fun less_eq_datetime :: "datetime \<Rightarrow> datetime \<Rightarrow> bool" where
  "less_eq_datetime (Naive a) (Naive b) = (a \<le> b)"
| "less_eq_datetime (Naive a) (Aware b) = True"
| "less_eq_datetime (Aware a) (Naive b) = False"
| "less_eq_datetime (Aware a) (Aware b) = (a \<le> b)"

definition less_datetime :: "datetime \<Rightarrow> datetime \<Rightarrow> bool" where
  "less_datetime s t \<longleftrightarrow> s \<le> t \<and> \<not> t \<le> (s :: datetime)"

instance
proof
  fix x y z :: datetime
  show "(x < y) = (x \<le> y \<and> \<not> y \<le> x)" by (simp add: less_datetime_def)
  show "x \<le> x" by (cases x) auto
  show "x \<le> y \<Longrightarrow> y \<le> z \<Longrightarrow> x \<le> z" by (cases x; cases y; cases z) auto
  show "x \<le> y \<Longrightarrow> y \<le> x \<Longrightarrow> x = y" by (cases x; cases y) auto
  show "x \<le> y \<or> y \<le> x" by (cases x; cases y) auto
qed

end

lemma less_datetime_simps [simp]:
  "(Naive a < Naive b) = (a < b)" "Naive a < Aware b" "\<not> Aware a < Naive b"
  "(Aware a < Aware b) = (a < b)"
  by (auto simp: less_datetime_def)

fun is_aware :: "datetime \<Rightarrow> bool" where
  "is_aware (Aware _) = True"
| "is_aware (Naive _) = False"

fun dt_add :: "datetime \<Rightarrow> int \<Rightarrow> datetime" where
  "dt_add (Aware t) d = Aware (t + d)"
| "dt_add (Naive t) d = Naive (t + d)"

definition seconds :: "int \<Rightarrow> int" where
  "seconds n = n * 1000000"

lemma is_aware_dt_add [simp]: "is_aware (dt_add t d) = is_aware t"
  by (cases t) auto

subsection \<open>Exceptions\<close>

datatype TrainingPodCleanupState =
  C_NOT_REQUESTED | C_PENDING | C_RETRYABLE_FAILURE | C_COMPLETE | C_NOT_OWNED

text \<open>
  The payloads kept are those the code inspects again.  \<^verbatim>\<open>Diverged\<close> is not an exception of the
  program: it is the outcome of a loop of the model that has used up its fuel.
\<close>

datatype py_error =
    RunPodManagerError
  | RunPodAPIError "int option"
  | RunPodAmbiguousResultError
  | TrainingPodConflictError
  | TrainingPodLifecycleError string string "string option" TrainingPodCleanupState bool
  | TrainingPodCleanupError string string "string option" TrainingPodCleanupState bool
  | PodCapacityCreatedMismatchError string
  | CatalogPodTransportError
  | CatalogPodTransportConflictError
  | OllamaLeaseConflictError
  | OllamaLeaseAuthorizationError
  | OllamaLeaseReadinessError
  | OllamaLeaseTeardownError
  | ServerlessEndpointActivationError string "string list"
  | ServerlessEndpointCleanupError string string
  | SignedInvocationError
  | ResourceUnsupported
  | ResourceOutcomeUnknown
  | CpuPodMismatch string
  | CpuPodReadinessUnknown string
  | ValueError
  | TypeError
  | InvalidOperation
  | OverflowError
  | KeyError
  | AttributeError
  | HttpxConnectError
  | HttpxStatusError
  | HttpxTimeoutException string
  | HttpxOtherError string
  | CancelledError
  | Diverged

fun is_manager_error :: "py_error \<Rightarrow> bool" where
  "is_manager_error ValueError = False"
| "is_manager_error SignedInvocationError = False"
| "is_manager_error ResourceUnsupported = False"
| "is_manager_error ResourceOutcomeUnknown = False"
| "is_manager_error (CpuPodMismatch _) = False"
| "is_manager_error (CpuPodReadinessUnknown _) = False"
| "is_manager_error TypeError = False"
| "is_manager_error InvalidOperation = False"
| "is_manager_error OverflowError = False"
| "is_manager_error KeyError = False"
| "is_manager_error AttributeError = False"
| "is_manager_error HttpxConnectError = False"
| "is_manager_error HttpxStatusError = False"
| "is_manager_error (HttpxTimeoutException _) = False"
| "is_manager_error (HttpxOtherError _) = False"
| "is_manager_error CancelledError = False"
| "is_manager_error Diverged = False"
| "is_manager_error _ = True"

fun is_cleanup_error :: "py_error \<Rightarrow> bool" where
  "is_cleanup_error (TrainingPodCleanupError _ _ _ _ _) = True"
| "is_cleanup_error _ = False"

fun is_lifecycle_error :: "py_error \<Rightarrow> bool" where
  "is_lifecycle_error (TrainingPodLifecycleError _ _ _ _ _) = True"
| "is_lifecycle_error (TrainingPodCleanupError _ _ _ _ _) = True"
| "is_lifecycle_error _ = False"

fun is_transport_error :: "py_error \<Rightarrow> bool" where
  "is_transport_error CatalogPodTransportError = True"
| "is_transport_error CatalogPodTransportConflictError = True"
| "is_transport_error _ = False"

fun sanitize_training_error :: "py_error \<Rightarrow> string" where
  "sanitize_training_error RunPodManagerError = ''RunPodManagerError''"
| "sanitize_training_error (RunPodAPIError _) = ''RunPodAPIError''"
| "sanitize_training_error RunPodAmbiguousResultError = ''RunPodAmbiguousResultError''"
| "sanitize_training_error TrainingPodConflictError = ''TrainingPodConflictError''"
| "sanitize_training_error (TrainingPodLifecycleError _ _ _ _ _) = ''TrainingPodLifecycleError''"
| "sanitize_training_error (TrainingPodCleanupError _ _ _ _ _) = ''TrainingPodCleanupError''"
| "sanitize_training_error (PodCapacityCreatedMismatchError _) = ''PodCapacityCreatedMismatchError''"
| "sanitize_training_error CatalogPodTransportError = ''CatalogPodTransportError''"
| "sanitize_training_error CatalogPodTransportConflictError = ''CatalogPodTransportConflictError''"
| "sanitize_training_error OllamaLeaseConflictError = ''OllamaLeaseConflictError''"
| "sanitize_training_error OllamaLeaseAuthorizationError = ''OllamaLeaseAuthorizationError''"
| "sanitize_training_error OllamaLeaseReadinessError = ''OllamaLeaseReadinessError''"
| "sanitize_training_error OllamaLeaseTeardownError = ''OllamaLeaseTeardownError''"
| "sanitize_training_error (ServerlessEndpointActivationError _ _) = ''ServerlessEndpointActivationError''"
| "sanitize_training_error (ServerlessEndpointCleanupError _ _) = ''ServerlessEndpointCleanupError''"
| "sanitize_training_error SignedInvocationError = ''SignedInvocationError''"
| "sanitize_training_error ResourceUnsupported = ''ResourceUnsupported''"
| "sanitize_training_error ResourceOutcomeUnknown = ''ResourceOutcomeUnknown''"
| "sanitize_training_error (CpuPodMismatch _) = ''CpuPodMismatch''"
| "sanitize_training_error (CpuPodReadinessUnknown _) = ''CpuPodReadinessUnknown''"
| "sanitize_training_error ValueError = ''ValueError''"
| "sanitize_training_error TypeError = ''TypeError''"
| "sanitize_training_error InvalidOperation = ''InvalidOperation''"
| "sanitize_training_error OverflowError = ''OverflowError''"
| "sanitize_training_error KeyError = ''KeyError''"
| "sanitize_training_error AttributeError = ''AttributeError''"
| "sanitize_training_error HttpxConnectError = ''ConnectError''"
| "sanitize_training_error HttpxStatusError = ''HTTPStatusError''"
| "sanitize_training_error (HttpxTimeoutException name) = name"
| "sanitize_training_error (HttpxOtherError name) = name"
| "sanitize_training_error CancelledError = ''CancelledError''"
| "sanitize_training_error Diverged = ''Diverged''"

subsection \<open>Validation lists\<close>

text \<open>
  A \<^verbatim>\<open>__post_init__\<close> method is a sequence of \<^verbatim>\<open>if bad: raise E\<close> statements: the list of its
  (bad, error) pairs in source order, of which the first that is bad is raised.
\<close>

fun first_error :: "(bool \<times> py_error) list \<Rightarrow> py_error option" where
  "first_error [] = None"
| "first_error ((bad, e) # checks) = (if bad then Some e else first_error checks)"

lemma first_error_None: "first_error cs = None \<longleftrightarrow> (\<forall>(bad, e) \<in> set cs. \<not> bad)"
  by (induction cs rule: first_error.induct) auto

lemma first_error_append:
  "first_error (xs @ ys) = (case first_error xs of None \<Rightarrow> first_error ys | Some e \<Rightarrow> Some e)"
  by (induction xs rule: first_error.induct) auto

lemma first_error_ValueError:
  "list_all (\<lambda>(b, e). e = ValueError) checks \<Longrightarrow> first_error checks = Some e \<Longrightarrow> e = ValueError"
  by (induction checks rule: first_error.induct) (auto split: if_splits)

lemma first_error_mem: "first_error checks = Some e \<Longrightarrow> e \<in> snd ` set checks"
  by (induction checks rule: first_error.induct) (auto split: if_splits)

lemma checked_Inr: "(case x of Some e \<Rightarrow> Inl e | None \<Rightarrow> y) = Inr m \<Longrightarrow> x = None \<and> y = Inr m"
  by (cases x) auto

lemma checked_Inl: "(case x of Some e \<Rightarrow> Inl e | None \<Rightarrow> y) = Inl e \<Longrightarrow> x = Some e \<or> y = Inl e"
  by (cases x) auto

lemma found_Inl: "(case x of None \<Rightarrow> Inl e' | Some y \<Rightarrow> f y) = Inl e \<Longrightarrow> e = e' \<or> (\<exists>y. f y = Inl e)"
  by (cases x) auto

lemma found_Inr: "(case x of None \<Rightarrow> Inl e | Some y \<Rightarrow> f y) = Inr m \<Longrightarrow> \<exists>y. x = Some y \<and> f y = Inr m"
  by (cases x) auto

definition nested_error :: "py_error option \<Rightarrow> (bool \<times> py_error) list" where
  "nested_error oe = (case oe of None \<Rightarrow> [] | Some e \<Rightarrow> [(True, e)])"

subsection \<open>State and exception programs\<close>

text \<open>
  A program maps a state to an outcome and the state left behind: a raised exception keeps
  every effect that was performed before it.
\<close>

type_synonym ('w, 'a) prog = "'w \<Rightarrow> (py_error + 'a) \<times> 'w"

definition ret :: "'a \<Rightarrow> ('w, 'a) prog" where
  "ret x = (\<lambda>w. (Inr x, w))"

definition raiseM :: "py_error \<Rightarrow> ('w, 'a) prog" where
  "raiseM e = (\<lambda>w. (Inl e, w))"

definition seqM :: "('w, 'a) prog \<Rightarrow> ('a \<Rightarrow> ('w, 'b) prog) \<Rightarrow> ('w, 'b) prog" where
  "seqM m f = (\<lambda>w. case m w of (Inl e, w') \<Rightarrow> (Inl e, w') | (Inr x, w') \<Rightarrow> f x w')"

definition tryM :: "('w, 'a) prog \<Rightarrow> (py_error \<Rightarrow> ('w, 'a) prog) \<Rightarrow> ('w, 'a) prog" where
  "tryM m h = (\<lambda>w. case m w of (Inl e, w') \<Rightarrow> h e w' | (Inr x, w') \<Rightarrow> (Inr x, w'))"

text \<open>\<^verbatim>\<open>try: m; except ...: h; else: f\<close>: exceptions of the continuation are not caught.\<close>

definition try_elseM ::
    "('w, 'a) prog \<Rightarrow> (py_error \<Rightarrow> ('w, 'b) prog) \<Rightarrow> ('a \<Rightarrow> ('w, 'b) prog) \<Rightarrow> ('w, 'b) prog" where
  "try_elseM m h f = (\<lambda>w. case m w of (Inl e, w') \<Rightarrow> h e w' | (Inr x, w') \<Rightarrow> f x w')"

definition liftM :: "py_error + 'a \<Rightarrow> ('w, 'a) prog" where
  "liftM r = (\<lambda>w. (r, w))"

lemmas prog_defs = ret_def raiseM_def seqM_def tryM_def try_elseM_def liftM_def

lemma seqM_ret [simp]: "seqM (ret x) f = f x"
  by (simp add: seqM_def ret_def)

lemma seqM_raise [simp]: "seqM (raiseM e) f = raiseM e"
  by (simp add: seqM_def raiseM_def)

lemma seqM_assoc: "seqM (seqM m f) g = seqM m (\<lambda>x. seqM (f x) g)"
  by (auto simp: seqM_def fun_eq_iff split: prod.splits sum.splits)

lemma tryM_ret [simp]: "tryM (ret x) h = ret x"
  by (simp add: tryM_def ret_def)

lemma tryM_raise [simp]: "tryM (raiseM e) h = h e"
  by (simp add: tryM_def raiseM_def)

subsection \<open>Rely/guarantee triples\<close>

text \<open>
  \<^verbatim>\<open>safe I G P m Q\<close>: started in a state with invariant \<^verbatim>\<open>I\<close> and precondition \<^verbatim>\<open>P\<close>, the program
  \<^verbatim>\<open>m\<close> re-establishes \<^verbatim>\<open>I\<close>, changes the state only as \<^verbatim>\<open>G\<close> allows (on every outcome, also when
  it raises), and a returned value satisfies \<^verbatim>\<open>Q\<close>.
\<close>

definition safe :: "('w \<Rightarrow> bool) \<Rightarrow> ('w \<Rightarrow> 'w \<Rightarrow> bool) \<Rightarrow> ('w \<Rightarrow> bool) \<Rightarrow> ('w, 'a) prog \<Rightarrow>
    ('a \<Rightarrow> 'w \<Rightarrow> bool) \<Rightarrow> bool" where
  "safe I G P m Q \<longleftrightarrow> (\<forall>w r w'. I w \<longrightarrow> P w \<longrightarrow> m w = (r, w') \<longrightarrow>
     I w' \<and> G w w' \<and> (\<forall>x. r = Inr x \<longrightarrow> Q x w'))"

lemma safeI:
  assumes "\<And>w r w'. I w \<Longrightarrow> P w \<Longrightarrow> m w = (r, w') \<Longrightarrow>
      I w' \<and> G w w' \<and> (\<forall>x. r = Inr x \<longrightarrow> Q x w')"
  shows "safe I G P m Q"
  using assms by (simp add: safe_def)

lemma safeD:
  assumes "safe I G P m Q" "I w" "P w" "m w = (r, w')"
  shows "I w'" "G w w'" "r = Inr x \<Longrightarrow> Q x w'"
  using assms by (auto simp: safe_def)

lemma safe_conseq:
  assumes "safe I G P' m Q'" "\<And>w. I w \<Longrightarrow> P w \<Longrightarrow> P' w" "\<And>x w. I w \<Longrightarrow> Q' x w \<Longrightarrow> Q x w"
  shows "safe I G P m Q"
  using assms unfolding safe_def by blast

lemma safe_pre: "safe I G P' m Q \<Longrightarrow> (\<And>w. I w \<Longrightarrow> P w \<Longrightarrow> P' w) \<Longrightarrow> safe I G P m Q"
  by (rule safe_conseq)

lemma safe_post: "safe I G P m Q' \<Longrightarrow> (\<And>x w. I w \<Longrightarrow> Q' x w \<Longrightarrow> Q x w) \<Longrightarrow> safe I G P m Q"
  by (rule safe_conseq)

lemma safe_false [simp]: "safe I G (\<lambda>w. False) m Q"
  by (simp add: safe_def)

text \<open>
  The interface between a store and its client programs: the guarantee is a preorder.  Rules
  for every program former follow from that alone.
\<close>

locale guarantee_preorder =
  fixes I :: "'w \<Rightarrow> bool" and G :: "'w \<Rightarrow> 'w \<Rightarrow> bool"
  assumes G_refl: "G w w"
    and G_trans: "G u v \<Longrightarrow> G v w \<Longrightarrow> G u w"
begin

definition stable :: "('w \<Rightarrow> bool) \<Rightarrow> bool" where
  "stable P \<longleftrightarrow> (\<forall>w w'. P w \<longrightarrow> G w w' \<longrightarrow> P w')"

lemma stableD: "stable P \<Longrightarrow> G w w' \<Longrightarrow> P w \<Longrightarrow> P w'"
  by (auto simp: stable_def)

lemma stable_const [simp]: "stable (\<lambda>w. c)"
  by (simp add: stable_def)

lemma stable_conj: "stable P \<Longrightarrow> stable Q \<Longrightarrow> stable (\<lambda>w. P w \<and> Q w)"
  by (auto simp: stable_def)

lemma stable_ex: "(\<And>x. stable (P x)) \<Longrightarrow> stable (\<lambda>w. \<exists>x. P x w)"
  by (fastforce simp: stable_def)

lemma safe_ret: "(\<And>w. I w \<Longrightarrow> P w \<Longrightarrow> Q x w) \<Longrightarrow> safe I G P (ret x) Q"
  by (auto simp: safe_def ret_def G_refl)

lemma safe_raise: "safe I G P (raiseM e) Q"
  by (auto simp: safe_def raiseM_def G_refl)

lemma safe_lift: "(\<And>x w. r = Inr x \<Longrightarrow> I w \<Longrightarrow> P w \<Longrightarrow> Q x w) \<Longrightarrow> safe I G P (liftM r) Q"
  by (auto simp: safe_def liftM_def G_refl)

text \<open>The first program may start from more than what is stable.\<close>

lemma safe_seq_from:
  assumes m: "safe I G P' m R" and st: "stable P" and P: "\<And>w. I w \<Longrightarrow> P' w \<Longrightarrow> P w"
    and f: "\<And>x. safe I G (\<lambda>w. P w \<and> R x w) (f x) Q"
  shows "safe I G P' (seqM m f) Q"
proof (rule safeI)
  fix w r w'
  assume w: "I w" "P' w" and run: "seqM m f w = (r, w')"
  obtain r1 w1 where m1: "m w = (r1, w1)" by (cases "m w") auto
  from safeD [OF m w m1] have 1: "I w1" "G w w1" "\<And>x. r1 = Inr x \<Longrightarrow> R x w1" by auto
  have P1: "P w1" using stableD [OF st 1(2) P [OF w]] .
  show "I w' \<and> G w w' \<and> (\<forall>x. r = Inr x \<longrightarrow> Q x w')"
  proof (cases r1)
    case (Inl e)
    with run m1 have "r = Inl e" "w' = w1" by (auto simp: seqM_def)
    with 1 show ?thesis by simp
  next
    case (Inr x)
    with run m1 have "f x w1 = (r, w')" by (simp add: seqM_def)
    from safeD [OF f 1(1) _ this] P1 1(3) [OF Inr]
    have "I w'" "G w1 w'" "\<And>y. r = Inr y \<Longrightarrow> Q y w'" by auto
    with 1(2) G_trans show ?thesis by blast
  qed
qed

lemma safe_seq:
  assumes "safe I G P m R" "stable P" "\<And>x. safe I G (\<lambda>w. P w \<and> R x w) (f x) Q"
  shows "safe I G P (seqM m f) Q"
  by (rule safe_seq_from [OF assms(1,2) _ assms(3)])

lemma safe_try_else_from:
  assumes m: "safe I G P' m R" and st: "stable P" and P: "\<And>w. I w \<Longrightarrow> P' w \<Longrightarrow> P w"
    and h: "\<And>e. safe I G P (h e) Q"
    and f: "\<And>x. safe I G (\<lambda>w. P w \<and> R x w) (f x) Q"
  shows "safe I G P' (try_elseM m h f) Q"
proof (rule safeI)
  fix w r w'
  assume w: "I w" "P' w" and run: "try_elseM m h f w = (r, w')"
  obtain r1 w1 where m1: "m w = (r1, w1)" by (cases "m w") auto
  from safeD [OF m w m1] have 1: "I w1" "G w w1" "\<And>x. r1 = Inr x \<Longrightarrow> R x w1" by auto
  have P1: "P w1" using stableD [OF st 1(2) P [OF w]] .
  have "I w' \<and> G w1 w' \<and> (\<forall>x. r = Inr x \<longrightarrow> Q x w')"
  proof (cases r1)
    case (Inl e)
    with run m1 have "h e w1 = (r, w')" by (simp add: try_elseM_def)
    from safeD [OF h 1(1) P1 this] show ?thesis by auto
  next
    case (Inr x)
    with run m1 have "f x w1 = (r, w')" by (simp add: try_elseM_def)
    from safeD [OF f 1(1) _ this] P1 1(3) [OF Inr] show ?thesis by auto
  qed
  with 1(2) G_trans show "I w' \<and> G w w' \<and> (\<forall>x. r = Inr x \<longrightarrow> Q x w')" by blast
qed

lemma safe_try_else:
  assumes "safe I G P m R" "stable P" "\<And>e. safe I G P (h e) Q"
    "\<And>x. safe I G (\<lambda>w. P w \<and> R x w) (f x) Q"
  shows "safe I G P (try_elseM m h f) Q"
  by (rule safe_try_else_from [OF assms(1,2) _ assms(3,4)])

lemma safe_try:
  assumes "safe I G P m Q" "stable P" "\<And>e. safe I G P (h e) Q"
  shows "safe I G P (tryM m h) Q"
proof -
  have "tryM m h = try_elseM m h ret"
    by (auto simp: tryM_def try_elseM_def ret_def fun_eq_iff split: prod.splits sum.splits)
  moreover have "safe I G P (try_elseM m h ret) Q"
    by (rule safe_try_else [OF assms]) (auto intro: safe_ret)
  ultimately show ?thesis by simp
qed

lemma safe_if:
  "(b \<Longrightarrow> safe I G P m Q) \<Longrightarrow> (\<not> b \<Longrightarrow> safe I G P m' Q) \<Longrightarrow> safe I G P (if b then m else m') Q"
  by simp

lemma safe_option:
  "(x = None \<Longrightarrow> safe I G P m Q) \<Longrightarrow> (\<And>y. x = Some y \<Longrightarrow> safe I G P (f y) Q) \<Longrightarrow>
   safe I G P (case x of None \<Rightarrow> m | Some y \<Rightarrow> f y) Q"
  by (cases x) auto

lemma safe_sum:
  "(\<And>e. x = Inl e \<Longrightarrow> safe I G P (g e) Q) \<Longrightarrow> (\<And>y. x = Inr y \<Longrightarrow> safe I G P (f y) Q) \<Longrightarrow>
   safe I G P (case x of Inl e \<Rightarrow> g e | Inr y \<Rightarrow> f y) Q"
  by (cases x) auto

lemma safe_let: "(\<And>y. y = x \<Longrightarrow> safe I G P (f y) Q) \<Longrightarrow> safe I G P (let y = x in f y) Q"
  by (simp add: Let_def)

end

subsection \<open>Write-once values\<close>

definition keeps :: "'a option \<Rightarrow> 'a option \<Rightarrow> bool" where
  "keeps x y \<longleftrightarrow> x = None \<or> y = x"

lemma keeps_refl [simp]: "keeps x x" and keeps_None [simp]: "keeps None y"
  by (simp_all add: keeps_def)

lemma keeps_trans: "keeps x y \<Longrightarrow> keeps y z \<Longrightarrow> keeps x z"
  by (auto simp: keeps_def)

subsection \<open>Association lists and tables as lists\<close>

lemma find_Some_mem: "find P xs = Some x \<Longrightarrow> x \<in> set xs \<and> P x"
  by (auto simp: find_Some_iff)

lemma find_None_mem: "find P xs = None \<Longrightarrow> x \<in> set xs \<Longrightarrow> \<not> P x"
  by (auto simp: find_None_iff)

lemma find_distinct_key:
  "distinct (map k xs) \<Longrightarrow> x \<in> set xs \<Longrightarrow> find (\<lambda>y. k y = k x) xs = Some x"
  by (induction xs) auto

text \<open>\<^verbatim>\<open>dict.fromkeys\<close>: the first occurrence of every key, in order.\<close>

fun dict_fromkeys :: "'a list \<Rightarrow> 'a list" where
  "dict_fromkeys [] = []"
| "dict_fromkeys (x # xs) = x # dict_fromkeys (filter (\<lambda>y. y \<noteq> x) xs)"

lemma set_dict_fromkeys [simp]: "set (dict_fromkeys xs) = set xs"
  by (induction xs rule: dict_fromkeys.induct) auto

lemma distinct_dict_fromkeys [simp]: "distinct (dict_fromkeys xs)"
  by (induction xs rule: dict_fromkeys.induct) auto

end
