(* ===== verification/Decimal_Arith.thy ===== *)
theory Decimal_Arith
  imports Complex_Main Runpod_Prelude
begin

text \<open>
  Python's \<^verbatim>\<open>decimal\<close> module as the package uses it.  A finite \<^verbatim>\<open>Decimal\<close> is a signed
  coefficient and an exponent; its numeric value is a rational.  Context operations compute
  the exact result and round it to the context precision, half to even; the value of the
  result depends only on the values of the operands.
\<close>

subsection \<open>Representation and value\<close>

datatype decimal = Dec (coeff: int) (expo: int) | NonFinite

fun dval :: "decimal \<Rightarrow> rat" where
  "dval (Dec c e) = of_int c * 10 powi e"
| "dval NonFinite = 0"

fun is_finite :: "decimal \<Rightarrow> bool" where
  "is_finite (Dec _ _) = True"
| "is_finite NonFinite = False"

text \<open>The number of decimal digits \<^verbatim>\<open>str\<close> prints for a natural number.\<close>

function ndigits :: "int \<Rightarrow> nat" where
  "ndigits n = (if n < 10 then 1 else Suc (ndigits (n div 10)))"
  by pat_completeness auto
termination
  by (relation "measure nat") auto

declare ndigits.simps [simp del]

lemma ndigits_pos [simp]: "0 < ndigits n"
  by (subst ndigits.simps) simp

lemma ndigits_bounds: "0 \<le> n \<Longrightarrow> n < 10 ^ ndigits n \<and> (0 < n \<longrightarrow> 10 ^ (ndigits n - 1) \<le> n)"
proof (induction n rule: ndigits.induct)
  case (1 n)
  show ?case
  proof (cases "n < 10")
    case True
    with 1 show ?thesis by (simp add: ndigits.simps [of n])
  next
    case False
    with 1 have IH: "n div 10 < 10 ^ ndigits (n div 10)" "10 ^ (ndigits (n div 10) - 1) \<le> n div 10"
      by auto
    have "n < 10 * 10 ^ ndigits (n div 10)" using IH(1) by linarith
    moreover have "10 * 10 ^ (ndigits (n div 10) - 1) \<le> n" using IH(2) by linarith
    moreover have "(10::int) * 10 ^ (ndigits (n div 10) - 1) = 10 ^ ndigits (n div 10)"
      using ndigits_pos [of "n div 10"] by (cases "ndigits (n div 10)") auto
    ultimately show ?thesis using False by (simp add: ndigits.simps [of n])
  qed
qed

lemma less_ndigits: "0 \<le> n \<Longrightarrow> n < 10 ^ ndigits n"
  using ndigits_bounds by blast

subsection \<open>Rounding to a context precision\<close>

definition round_half_even :: "rat \<Rightarrow> int" where
  "round_half_even x = (let f = \<lfloor>x\<rfloor>; d = x - of_int f in
     if d < 1 / 2 then f else if 1 / 2 < d then f + 1 else if even f then f else f + 1)"

lemma round_half_even_int [simp]: "round_half_even (of_int n) = n"
  by (simp add: round_half_even_def)

lemma round_half_even_error: "\<bar>of_int (round_half_even x) - x\<bar> \<le> 1 / 2"
proof -
  have "of_int \<lfloor>x\<rfloor> \<le> x" "x < of_int \<lfloor>x\<rfloor> + 1" by linarith+
  then show ?thesis unfolding round_half_even_def Let_def by (auto split: if_splits)
qed

lemma round_half_even_le: "x \<le> of_int n \<Longrightarrow> round_half_even x \<le> n"
proof -
  assume "x \<le> of_int n"
  then have "\<lfloor>x\<rfloor> \<le> n" by linarith
  moreover have "\<lfloor>x\<rfloor> = n \<Longrightarrow> x = of_int n" using \<open>x \<le> of_int n\<close> by linarith
  ultimately show ?thesis
    by (cases "\<lfloor>x\<rfloor> = n") (auto simp: round_half_even_def Let_def)
qed

text \<open>The exponent of the most significant digit of a positive rational.\<close>

definition flog10 :: "rat \<Rightarrow> int" where
  "flog10 x = (case quotient_of x of (a, b) \<Rightarrow>
     let k = int (ndigits a) - int (ndigits b) in
     if 10 powi k \<le> x then k else k - 1)"

definition round_sig :: "nat \<Rightarrow> rat \<Rightarrow> rat" where
  "round_sig p x = (if x = 0 then 0 else
     let e = flog10 \<bar>x\<bar> - (int p - 1) in of_int (round_half_even (x / 10 powi e)) * 10 powi e)"

lemma powi_10_mono: "a \<le> b \<Longrightarrow> (10::rat) powi a \<le> 10 powi b"
  by (simp add: power_int_increasing)

lemma powi_10_mono_strict: "a < b \<Longrightarrow> (10::rat) powi a < 10 powi b"
  by (simp add: power_int_strict_increasing)

lemma powi_10_less_iff: "(10::rat) powi a < 10 powi b \<longleftrightarrow> a < b"
  using powi_10_mono [of b a] powi_10_mono_strict [of a b] by (meson not_le)

lemma flog10_bounds:
  assumes "0 < x"
  shows "10 powi (flog10 x) \<le> x" "x < 10 powi (flog10 x + 1)"
proof -
  obtain a b where ab: "quotient_of x = (a, b)" by fastforce
  have b: "0 < b" using quotient_of_denom_pos [OF ab] .
  have x: "x = of_int a / of_int b" using quotient_of_div [OF ab] .
  have a: "0 < a" using assms b x by (simp add: zero_less_divide_iff)
  define da db k where "da = ndigits a" and "db = ndigits b" and "k = int da - int db"
  have flog: "flog10 x = (if 10 powi k \<le> x then k else k - 1)"
    by (simp add: flog10_def ab Let_def da_def db_def k_def)
  have nat_bounds: "10 ^ (ndigits n - 1) \<le> (of_int n :: rat) \<and> (of_int n :: rat) < 10 ^ ndigits n"
    if "0 < n" for n :: int
  proof -
    have "10 ^ (ndigits n - 1) \<le> n" "n < 10 ^ ndigits n" using ndigits_bounds [of n] that by auto
    then have "(of_int (10 ^ (ndigits n - 1)) :: rat) \<le> of_int n"
      "of_int n < (of_int (10 ^ ndigits n) :: rat)" by (simp_all only: of_int_le_iff of_int_less_iff)
    then show ?thesis by simp
  qed
  note na = nat_bounds [OF a, folded da_def] and nb = nat_bounds [OF b, folded db_def]
  have dpos: "0 < da" "0 < db" by (simp_all add: da_def db_def)
  have p1: "(10::rat) ^ (da - 1) = 10 powi (int da - 1)" "(10::rat) ^ da = 10 powi int da"
    "(10::rat) ^ (db - 1) = 10 powi (int db - 1)" "(10::rat) ^ db = 10 powi int db"
    using dpos by (simp_all add: power_int_def nat_diff_distrib)
  have lo: "10 powi (k - 1) \<le> x"
  proof -
    have "10 powi (k - 1) = (10::rat) powi ((int da - 1) - int db)"
      by (simp add: k_def algebra_simps)
    also have "\<dots> = 10 powi (int da - 1) / 10 powi int db"
      by (rule power_int_diff) simp
    also have "\<dots> \<le> of_int a / of_int b"
      using na nb a b unfolding p1 by (intro frac_le) simp_all
    finally show ?thesis by (simp add: x)
  qed
  have hi: "x < 10 powi (k + 1)"
  proof -
    have "of_int a / of_int b < (10::rat) powi int da / 10 powi (int db - 1)"
      using na nb a b unfolding p1 by (intro frac_less) simp_all
    also have "\<dots> = 10 powi (int da - (int db - 1))"
      by (rule power_int_diff [symmetric]) simp
    also have "\<dots> = 10 powi (k + 1)"
      by (simp add: k_def algebra_simps)
    finally show ?thesis by (simp add: x)
  qed
  show "10 powi (flog10 x) \<le> x" "x < 10 powi (flog10 x + 1)"
    using lo hi by (auto simp: flog)
qed

lemma flog10_less: "0 < x \<Longrightarrow> x < 10 powi k \<Longrightarrow> flog10 x < k"
  using flog10_bounds(1) [of x] powi_10_less_iff by (meson le_less_trans)

text \<open>A multiple of a power of ten with at most \<open>p\<close> significant digits is not rounded.\<close>

lemma round_sig_exact:
  assumes "\<bar>n\<bar> < 10 ^ p"
  shows "round_sig p (of_int n * 10 powi e) = of_int n * 10 powi e"
proof (cases "n = 0")
  case True
  then show ?thesis by (simp add: round_sig_def)
next
  case False
  define x where "x = of_int n * (10::rat) powi e"
  have x0: "x \<noteq> 0" using False by (simp add: x_def)
  define g where "g = flog10 \<bar>x\<bar> - (int p - 1)"
  have "(of_int \<bar>n\<bar> :: rat) < of_int (10 ^ p)" using assms by (simp only: of_int_less_iff)
  then have "\<bar>x\<bar> < 10 ^ p * 10 powi e"
    unfolding x_def by (simp add: abs_mult)
  also have "\<dots> = 10 powi (int p + e)"
    by (simp add: power_int_add)
  finally have "flog10 \<bar>x\<bar> < int p + e" using x0 by (intro flog10_less) auto
  then have g: "g \<le> e" by (simp add: g_def)
  have scale: "x / 10 powi g = of_int (n * 10 ^ nat (e - g))"
  proof -
    have "x / 10 powi g = of_int n * 10 powi (e - g)"
      by (simp add: x_def power_int_diff)
    also have "(10::rat) powi (e - g) = 10 ^ nat (e - g)" using g by (simp add: power_int_def)
    finally show ?thesis by simp
  qed
  have "round_sig p x = of_int (n * 10 ^ nat (e - g)) * 10 powi g"
    using x0 by (simp only: round_sig_def g_def [symmetric] Let_def if_False scale round_half_even_int)
  also have "\<dots> = x" unfolding scale [symmetric] by simp
  finally show ?thesis by (simp add: x_def)
qed

lemma round_sig_error:
  assumes "0 < x" "x < 10 powi k"
  shows "\<bar>round_sig p x - x\<bar> \<le> 10 powi (k - int p) / 2"
proof -
  define g where "g = flog10 x - (int p - 1)"
  have g: "g \<le> k - int p" using flog10_less [OF assms] by (simp add: g_def)
  have "round_sig p x - x = (of_int (round_half_even (x / 10 powi g)) - x / 10 powi g) * 10 powi g"
    using assms by (simp add: round_sig_def g_def Let_def left_diff_distrib)
  then have "\<bar>round_sig p x - x\<bar> = \<bar>of_int (round_half_even (x / 10 powi g)) - x / 10 powi g\<bar> * 10 powi g"
    by (simp add: abs_mult)
  also have "\<dots> \<le> 1 / 2 * 10 powi g"
    by (intro mult_right_mono round_half_even_error) simp
  also have "\<dots> \<le> 1 / 2 * 10 powi (k - int p)"
    using powi_10_mono [OF g] by simp
  finally show ?thesis by simp
qed

lemma round_sig_le_grid:
  assumes "0 < x" "x < 10 powi k" "x \<le> of_int n * 10 powi e" "k - int p \<le> e"
  shows "round_sig p x \<le> of_int n * 10 powi e"
proof -
  define g where "g = flog10 x - (int p - 1)"
  have g: "g \<le> e" using flog10_less [OF assms(1,2)] assms(4) by (simp add: g_def)
  have eq: "of_int n * 10 powi e = of_int (n * 10 ^ nat (e - g)) * (10::rat) powi g"
  proof -
    have "(10::rat) powi e = 10 powi (e - g) * 10 powi g" by (simp add: power_int_diff)
    also have "(10::rat) powi (e - g) = 10 ^ nat (e - g)" using g by (simp add: power_int_def)
    finally show ?thesis by simp
  qed
  have "x / 10 powi g \<le> of_int (n * 10 ^ nat (e - g))"
    using assms(3) unfolding eq by (simp add: pos_divide_le_eq del: of_int_mult)
  then have "round_half_even (x / 10 powi g) \<le> n * 10 ^ nat (e - g)"
    by (rule round_half_even_le)
  then have "(of_int (round_half_even (x / 10 powi g)) :: rat) \<le> of_int (n * 10 ^ nat (e - g))"
    by (simp only: of_int_le_iff)
  then have "of_int (round_half_even (x / 10 powi g)) * 10 powi g
      \<le> of_int (n * 10 ^ nat (e - g)) * (10::rat) powi g"
    by (intro mult_right_mono) simp_all
  then show ?thesis using assms(1) unfolding eq by (simp add: round_sig_def g_def Let_def)
qed

end
