(* ===== verification/Billing.thy ===== *)
theory Billing
  imports Decimal_Arith
begin

text \<open>
  The shared billing arithmetic of \<^verbatim>\<open>billing.py\<close> (closed UTC hours, exact sums, canonical
  amounts, component/total equality) and the rate-derived cost bound \<^verbatim>\<open>pod_cost_usd\<close> of
  \<^verbatim>\<open>pod_capacity_contracts.py\<close>.
\<close>

section \<open>Definitions\<close>

subsection \<open>Closed hours\<close>

definition hour :: int where
  "hour = 3600000000"

definition floor_hour :: "int \<Rightarrow> int" where
  "floor_hour t = t - t mod hour"

definition billing_hour_bounds :: "datetime \<Rightarrow> datetime \<Rightarrow> py_error + (datetime \<times> datetime)" where
  "billing_hour_bounds started_at coverage_until =
     (if \<not> is_aware started_at \<or> \<not> is_aware coverage_until then Inl ValueError
      else if coverage_until \<le> started_at then Inl ValueError
      else
        let start = usec started_at; end_at = usec coverage_until; until = floor_hour end_at
        in Inr (Aware (floor_hour start), Aware (if end_at \<noteq> until then until + hour else until)))"

subsection \<open>Exact sums\<close>

fun sum_rounded :: "nat \<Rightarrow> rat \<Rightarrow> decimal list \<Rightarrow> rat" where
  "sum_rounded p acc [] = acc"
| "sum_rounded p acc (x # xs) = sum_rounded p (round_sig p (acc + dval x)) xs"

definition min_expo :: "decimal list \<Rightarrow> int" where
  "min_expo items = Min (expo ` set items)"

definition max_digits :: "decimal list \<Rightarrow> int" where
  "max_digits items =
     Max ((\<lambda>i. int (ndigits \<bar>coeff i\<bar>) + expo i - min_expo items) ` set items)"

definition exact_decimal_sum :: "nat \<Rightarrow> decimal list \<Rightarrow> py_error + rat" where
  "exact_decimal_sum prec items =
     (if \<exists>i \<in> set items. \<not> is_finite i then Inl ValueError
      else if items = [] then Inr 0
      else
        let p = max prec (nat (max_digits items) + ndigits (int (length items)) + 1)
        in Inr (sum_rounded p 0 items))"

subsection \<open>Decimal text and canonical identity\<close>

definition digit_char :: "int \<Rightarrow> char" where
  "digit_char d = char_of (48 + d)"

function nat_text :: "int \<Rightarrow> string" where
  "nat_text n = (if n < 10 then [digit_char n] else nat_text (n div 10) @ [digit_char (n mod 10)])"
  by pat_completeness auto
termination
  by (relation "measure nat") auto

declare nat_text.simps [simp del]

fun pad_text :: "nat \<Rightarrow> int \<Rightarrow> string" where
  "pad_text 0 n = []"
| "pad_text (Suc k) n = pad_text k (n div 10) @ [digit_char (n mod 10)]"

fun decimal_text :: "decimal \<Rightarrow> string" where
  "decimal_text (Dec c e) =
     (if c < 0 then ''-'' else []) @
     (if 0 \<le> e then nat_text (\<bar>c\<bar> * 10 ^ nat e)
      else let k = nat (- e) in
        nat_text (\<bar>c\<bar> div 10 ^ k) @ ''.'' @ pad_text k (\<bar>c\<bar> mod 10 ^ k))"
| "decimal_text NonFinite = ''NaN''"

definition rstrip :: "char \<Rightarrow> string \<Rightarrow> string" where
  "rstrip c s = rev (dropWhile (\<lambda>x. x = c) (rev s))"

definition billing_identity_amount :: "decimal \<Rightarrow> py_error + string" where
  "billing_identity_amount v =
     (if \<not> is_finite v then Inl ValueError
      else if dval v = 0 then Inr ''0''
      else let text = decimal_text v in
        Inr (if CHR ''.'' \<in> set text then rstrip (CHR ''.'') (rstrip (CHR ''0'') text) else text))"

text \<open>The \<^verbatim>\<open>Decimal\<close> constructor on the texts printed above.\<close>

fun digits_val :: "int \<Rightarrow> string \<Rightarrow> int" where
  "digits_val acc [] = acc"
| "digits_val acc (c # cs) = digits_val (10 * acc + (of_char c - 48)) cs"

definition decimal_of_text :: "string \<Rightarrow> decimal" where
  "decimal_of_text s =
     (let neg = (s \<noteq> [] \<and> hd s = CHR ''-''); body = (if neg then tl s else s);
          ip = takeWhile (\<lambda>c. c \<noteq> CHR ''.'') body;
          fp = tl (dropWhile (\<lambda>c. c \<noteq> CHR ''.'') body)
      in Dec ((if neg then -1 else 1) * digits_val 0 (ip @ fp)) (- int (length fp)))"

subsection \<open>Component and total equality\<close>

text \<open>
  A JSON number is the decimal its \<^verbatim>\<open>str\<close> denotes; \<^verbatim>\<open>raw\<close> maps a field to that number, or to
  \<^verbatim>\<open>None\<close> where the field is missing or not a number.  Every accepted amount is normalized
  through its canonical text.
\<close>

fun parse_amounts :: "(string \<Rightarrow> decimal option) \<Rightarrow> string list \<Rightarrow> py_error + (string \<times> decimal) list" where
  "parse_amounts raw [] = Inr []"
| "parse_amounts raw (name # names) =
     (case raw name of
        None \<Rightarrow> Inl RunPodManagerError
      | Some amount \<Rightarrow>
          if \<not> is_finite amount \<or> dval amount < 0 then Inl RunPodManagerError
          else (case billing_identity_amount amount of
              Inl e \<Rightarrow> Inl e
            | Inr text \<Rightarrow>
                (case parse_amounts raw names of
                   Inl e \<Rightarrow> Inl e
                 | Inr rest \<Rightarrow> Inr ((name, decimal_of_text text) # rest))))"

definition billing_amounts ::
    "nat \<Rightarrow> (string \<Rightarrow> decimal option) \<Rightarrow> string list \<Rightarrow> py_error + (string \<times> decimal) list" where
  "billing_amounts prec raw components =
     (case parse_amounts raw (''totalAmount'' # components) of
        Inl e \<Rightarrow> Inl e
      | Inr amounts \<Rightarrow>
          (case exact_decimal_sum prec (map snd (tl amounts)) of
             Inl e \<Rightarrow> Inl e
           | Inr components_sum \<Rightarrow>
               if dval (snd (hd amounts)) \<noteq> components_sum then Inl RunPodManagerError else Inr amounts))"

subsection \<open>Rate-derived cost bound\<close>

text \<open>
  Amounts of the contract dataclasses are compared and multiplied only, so they are numeric
  values; \<^verbatim>\<open>NaNInf\<close> stands for the non-finite decimals the validators reject.
\<close>

datatype amount = Fin (usd: rat) | NaNInf

fun finite_amount :: "amount \<Rightarrow> bool" where
  "finite_amount (Fin _) = True"
| "finite_amount NaNInf = False"

definition default_prec :: nat where
  "default_prec = 28"

definition dec_mul :: "rat \<Rightarrow> rat \<Rightarrow> rat" where
  "dec_mul x y = round_sig default_prec (x * y)"

definition dec_div :: "rat \<Rightarrow> rat \<Rightarrow> rat" where
  "dec_div x y = round_sig default_prec (x / y)"

definition quantize_micro_ceiling :: "rat \<Rightarrow> py_error + rat" where
  "quantize_micro_ceiling x =
     (let n = \<lceil>x * 10 ^ 6\<rceil> in
      if 10 ^ default_prec \<le> \<bar>n\<bar> then Inl InvalidOperation else Inr (of_int n / 10 ^ 6))"

definition pod_cost_usd :: "amount \<Rightarrow> int \<Rightarrow> int \<Rightarrow> py_error + amount" where
  "pod_cost_usd hourly_cost_usd billed_seconds gpu_count =
     (if \<not> finite_amount hourly_cost_usd \<or> usd hourly_cost_usd \<le> 0
         \<or> billed_seconds < 0 \<or> gpu_count < 1
      then Inl ValueError
      else
        let value = dec_div (dec_mul (dec_mul (usd hourly_cost_usd) (of_int billed_seconds))
                      (of_int gpu_count)) 3600
        in case quantize_micro_ceiling value of Inl e \<Rightarrow> Inl e | Inr x \<Rightarrow> Inr (Fin x))"

section \<open>Closed hours cover the interval minimally\<close>

lemma hour_pos [simp]: "0 < hour"
  by (simp add: hour_def)

lemma floor_hour_props: "floor_hour t \<le> t" "t < floor_hour t + hour" "hour dvd floor_hour t"
proof -
  show "floor_hour t \<le> t" by (simp add: floor_hour_def)
  show "t < floor_hour t + hour" by (simp add: floor_hour_def)
  show "hour dvd floor_hour t" by (simp add: floor_hour_def minus_mod_eq_mult_div)
qed

lemma floor_hour_eq_iff: "floor_hour t = t \<longleftrightarrow> hour dvd t"
  by (auto simp: floor_hour_def)

lemma floor_hour_mono: "s \<le> t \<Longrightarrow> floor_hour s \<le> floor_hour t"
  by (simp add: floor_hour_def minus_mod_eq_mult_div zdiv_mono1)

text \<open>
  For every aware, positive interval the bounds are the whole UTC hours the half-open
  interval touches: both are hour-aligned, they cover the interval, less than one hour is
  added on either side, and at least one hour is covered.  Every other input raises
  \<^verbatim>\<open>ValueError\<close>.
\<close>

theorem billing_hour_bounds_cover:
  "(case billing_hour_bounds s e of
      Inr (first, until) \<Rightarrow> is_aware s \<and> is_aware e \<and> s < e \<and> is_aware first \<and> is_aware until
        \<and> hour dvd usec first \<and> hour dvd usec until
        \<and> usec first \<le> usec s \<and> usec s < usec first + hour
        \<and> usec e \<le> usec until \<and> usec until < usec e + hour
        \<and> usec first + hour \<le> usec until
    | Inl err \<Rightarrow> err = ValueError \<and> \<not> (is_aware s \<and> is_aware e \<and> s < e))"
proof (cases "is_aware s \<and> is_aware e \<and> s < e")
  case False
  then show ?thesis by (auto simp: billing_hour_bounds_def)
next
  case True
  then obtain a b where ab: "s = Aware a" "e = Aware b" "a < b"
    by (cases s; cases e) auto
  define first where "first = floor_hour a"
  define until where "until = (if b \<noteq> floor_hour b then floor_hour b + hour else floor_hour b)"
  have dvd: "hour dvd first" "hour dvd until"
    using floor_hour_props(3) [of a] floor_hour_props(3) [of b] by (auto simp: first_def until_def)
  have until: "b \<le> until" "until < b + hour"
    using floor_hour_props(1,2) [of b] hour_pos by (auto simp: until_def)
  have first: "first \<le> a" "a < first + hour"
    using floor_hour_props [of a] by (auto simp: first_def)
  have "first < until" using first(1) ab(3) until(1) by linarith
  with dvd have "first + hour \<le> until"
    by (metis add_le_cancel_left diff_add_cancel dvd_diff hour_pos zdvd_imp_le zless_iff_Suc_zadd
        diff_gt_0_iff_gt add.commute)
  moreover have "billing_hour_bounds s e = Inr (Aware first, Aware until)"
    using ab by (simp add: billing_hour_bounds_def first_def until_def Let_def)
  ultimately show ?thesis using True ab dvd until first by simp
qed

section \<open>Exactness of the sum\<close>

lemma sum_rounded_exact:
  assumes "\<And>i. i \<in> set xs \<Longrightarrow> is_finite i \<and> m \<le> expo i \<and> \<bar>coeff i\<bar> * 10 ^ nat (expo i - m) < 10 ^ d"
    and "\<bar>n\<bar> + int (length xs) * 10 ^ d < 10 ^ p"
  shows "sum_rounded p (of_int n * 10 powi m) xs = of_int n * 10 powi m + sum_list (map dval xs)"
  using assms
proof (induction xs arbitrary: n)
  case Nil
  then show ?case by simp
next
  case (Cons x xs)
  from Cons.prems(1) [of x] obtain c e where x: "x = Dec c e" "m \<le> e"
      "\<bar>c\<bar> * 10 ^ nat (e - m) < 10 ^ d"
    by (cases x) auto
  define k where "k = c * 10 ^ nat (e - m)"
  have "(10::rat) powi e = 10 powi (e - m) * 10 powi m" by (simp add: power_int_diff)
  also have "(10::rat) powi (e - m) = 10 ^ nat (e - m)" using x(2) by (simp add: power_int_def)
  finally have dx: "dval x = of_int k * 10 powi m" by (simp add: x(1) k_def)
  have k: "\<bar>k\<bar> < 10 ^ d" using x(3) by (simp add: k_def abs_mult)
  have step: "\<bar>n + k\<bar> + int (length xs) * 10 ^ d < 10 ^ p"
  proof -
    have "\<bar>n + k\<bar> \<le> \<bar>n\<bar> + 10 ^ d" using k by linarith
    with Cons.prems(2) show ?thesis by (simp add: algebra_simps)
  qed
  have "0 \<le> int (length xs) * 10 ^ d" by simp
  then have "\<bar>n + k\<bar> < 10 ^ p" using step by linarith
  then have "round_sig p (of_int n * 10 powi m + dval x) = of_int (n + k) * 10 powi m"
    using round_sig_exact [of "n + k" p m] by (simp add: dx ring_distribs)
  then show ?case
    using Cons.IH [OF Cons.prems(1) step] by (simp add: dx ring_distribs)
qed

lemma max_digits_bound:
  assumes "i \<in> set xs" "is_finite i"
  shows "min_expo xs \<le> expo i" "\<bar>coeff i\<bar> * 10 ^ nat (expo i - min_expo xs) < 10 ^ nat (max_digits xs)"
proof -
  show le: "min_expo xs \<le> expo i" using assms by (simp add: min_expo_def)
  let ?m = "min_expo xs" and ?nd = "ndigits \<bar>coeff i\<bar>"
  have "int ?nd + expo i - ?m \<le> max_digits xs"
    unfolding max_digits_def using assms by (intro Max_ge) auto
  then have "?nd + nat (expo i - ?m) \<le> nat (max_digits xs)" using le by linarith
  then have "(10::int) ^ (?nd + nat (expo i - ?m)) \<le> 10 ^ nat (max_digits xs)"
    by (intro power_increasing) auto
  moreover have "\<bar>coeff i\<bar> < 10 ^ ?nd" by (rule less_ndigits) simp
  moreover have "\<bar>coeff i\<bar> * 10 ^ nat (expo i - ?m) < 10 ^ ?nd * 10 ^ nat (expo i - ?m)"
    using calculation(2) by (intro mult_strict_right_mono) simp_all
  ultimately show "\<bar>coeff i\<bar> * 10 ^ nat (expo i - ?m) < 10 ^ nat (max_digits xs)"
    unfolding power_add by linarith
qed

lemma exact_decimal_sum_value:
  "exact_decimal_sum prec items =
     (if \<forall>i \<in> set items. is_finite i then Inr (sum_list (map dval items)) else Inl ValueError)"
proof (cases "(\<forall>i \<in> set items. is_finite i) \<and> items \<noteq> []")
  case False
  then show ?thesis by (auto simp: exact_decimal_sum_def)
next
  case True
  define d where "d = nat (max_digits items)"
  define p where "p = max prec (d + ndigits (int (length items)) + 1)"
  have "int (length items) * 10 ^ d < 10 ^ ndigits (int (length items)) * 10 ^ d"
    using less_ndigits [of "int (length items)"] by (intro mult_strict_right_mono) simp_all
  also have "\<dots> \<le> 10 ^ p"
    unfolding power_add [symmetric] by (intro power_increasing) (auto simp: p_def)
  finally have len: "\<bar>0\<bar> + int (length items) * 10 ^ d < 10 ^ p" by simp
  have "sum_rounded p (of_int 0 * 10 powi (min_expo items)) items
      = of_int 0 * 10 powi (min_expo items) + sum_list (map dval items)"
    using True max_digits_bound by (intro sum_rounded_exact [OF _ len]) (auto simp: d_def)
  with True show ?thesis
    by (auto simp: exact_decimal_sum_def Let_def p_def d_def)
qed



section \<open>The cost bound never underfunds\<close>

lemma exact_mul:
  assumes "0 \<le> a" "0 \<le> b" "a * b < 10 ^ 15"
  shows "dec_mul (of_int a / 10 ^ k) (of_int b) = of_int (a * b) / 10 ^ k"
proof -
  have "\<bar>a * b\<bar> < 10 ^ default_prec" using assms by (simp add: default_prec_def)
  from round_sig_exact [OF this, of "- int k"] show ?thesis
    by (simp add: dec_mul_def power_int_minus field_simps)
qed

lemma ceiling_of_rounded_quotient:
  fixes n :: int and k :: nat
  assumes "0 < n" "n < 10 ^ 15"
  defines "q \<equiv> of_int n / 10 ^ k / (3600 :: rat)"
  shows "\<lceil>round_sig default_prec q * 10 ^ 6\<rceil> = \<lceil>q * 10 ^ 6\<rceil>"
proof -
  define j where "j = 12 - int k"
  define m where "m = \<lceil>q * 10 ^ 6\<rceil>"
  define v where "v = round_sig default_prec q"
  have q0: "0 < q" using assms by (simp add: q_def)
  have n: "(of_int n :: rat) < 10 ^ 15" using assms(2) by (metis of_int_less_iff of_int_numeral of_int_power)
  have "q < 10 ^ 15 / 10 ^ k / 3600" unfolding q_def by (intro divide_strict_right_mono n) simp_all
  also have "\<dots> \<le> 10 ^ 12 / 10 ^ k" by (simp add: field_simps)
  also have "\<dots> = 10 powi j" by (simp add: j_def power_int_diff)
  finally have qj: "q < 10 powi j" .
  have m1: "q \<le> of_int m / 10 ^ 6" unfolding m_def by (simp add: field_simps)
  have grid: "of_int m * 10 powi (- 6) = (of_int m / 10 ^ 6 :: rat)" by (simp add: power_int_minus field_simps)
  have up: "v \<le> of_int m / 10 ^ 6"
    using round_sig_le_grid [OF q0 qj, of m "- 6" default_prec] m1 unfolding grid v_def
    by (simp add: j_def default_prec_def)
  have err: "q - 10 powi (j - 28) / 2 \<le> v"
    using round_sig_error [OF q0 qj, of default_prec] unfolding v_def default_prec_def of_nat_numeral by linarith
  have gap: "of_int (m - 1) / 10 ^ 6 + 1 / (3600 * 10 ^ 6 * 10 ^ k) \<le> q"
  proof -
    have "of_int m - 1 < q * 10 ^ 6" unfolding m_def by linarith
    then have "(of_int m - 1) * (3600 * 10 ^ k) < of_int n * (10 ^ 6 :: rat)"
      by (simp add: q_def field_simps)
    then have "(of_int ((m - 1) * (3600 * 10 ^ k)) :: rat) < of_int (n * 10 ^ 6)" by simp
    then have "(m - 1) * (3600 * 10 ^ k) + 1 \<le> n * 10 ^ 6" by (simp only: of_int_less_iff)
    then have "(of_int ((m - 1) * (3600 * 10 ^ k) + 1) :: rat) \<le> of_int (n * 10 ^ 6)"
      by (simp only: of_int_le_iff)
    then have "of_int ((m - 1) * (3600 * 10 ^ k) + 1) / (3600 * 10 ^ 6 * 10 ^ k)
        \<le> of_int (n * 10 ^ 6) / (3600 * 10 ^ 6 * 10 ^ k :: rat)"
      by (rule divide_right_mono) simp
    moreover have "of_int (n * 10 ^ 6) / (3600 * 10 ^ 6 * 10 ^ k :: rat) = q" by (simp add: q_def)
    moreover have "of_int ((m - 1) * (3600 * 10 ^ k) + 1) / (3600 * 10 ^ 6 * 10 ^ k :: rat)
        = of_int (m - 1) / 10 ^ 6 + 1 / (3600 * 10 ^ 6 * 10 ^ k)"
      by (simp add: add_divide_distrib)
    ultimately show ?thesis by simp
  qed
  have "10 powi (j - 28) / 2 < (1 :: rat) / (3600 * 10 ^ 6 * 10 ^ k)"
    by (simp add: j_def power_int_diff power_int_minus field_simps)
  with err gap have "of_int (m - 1) / 10 ^ 6 < v" by linarith
  then have "of_int (m - 1) < v * 10 ^ 6" by (simp add: field_simps)
  moreover have "v * 10 ^ 6 \<le> of_int m" using up by (simp add: field_simps)
  ultimately have "\<lceil>v * 10 ^ 6\<rceil> = m" by (intro ceiling_unique) simp_all
  then show ?thesis by (simp add: v_def m_def)
qed

lemma micro_ceiling_small:
  fixes n :: int and k :: nat
  assumes "0 \<le> n" "n < 10 ^ 15"
  shows "\<bar>\<lceil>of_int n / 10 ^ k / (3600 :: rat) * 10 ^ 6\<rceil>\<bar> < 10 ^ default_prec"
proof -
  let ?x = "of_int n / 10 ^ k / (3600 :: rat) * 10 ^ 6"
  have "(of_int n :: rat) < 10 ^ 15" using assms(2) by (metis of_int_less_iff of_int_numeral of_int_power)
  moreover have "of_int n / 10 ^ k \<le> (of_int n :: rat)"
    using assms(1) by (simp add: divide_le_eq mult_le_cancel_left1)
  ultimately have "?x \<le> 10 ^ 22" by simp
  then have "\<lceil>?x\<rceil> \<le> 10 ^ 22" by (simp add: ceiling_le_iff)
  moreover have "0 \<le> ?x" using assms(1) by simp
  then have "0 \<le> \<lceil>?x\<rceil>" by linarith
  ultimately show ?thesis by (simp add: default_prec_def)
qed



section \<open>Canonical amounts\<close>

subsection \<open>Digit strings\<close>

lemma of_char_digit: "0 \<le> d \<Longrightarrow> d < 10 \<Longrightarrow> (of_char (digit_char d) :: int) = 48 + d"
  by (simp add: digit_char_def of_char_of)

lemma digit_char_neq [simp]:
  "0 \<le> d \<Longrightarrow> d < 10 \<Longrightarrow> digit_char d \<noteq> CHR ''.''" "0 \<le> d \<Longrightarrow> d < 10 \<Longrightarrow> digit_char d \<noteq> CHR ''-''"
  using of_char_digit [of d] by (auto dest: arg_cong [of _ _ "of_char :: char \<Rightarrow> int"])

lemma digit_char_zero: "0 \<le> d \<Longrightarrow> d < 10 \<Longrightarrow> digit_char d = CHR ''0'' \<longleftrightarrow> d = 0"
proof -
  assume d: "0 \<le> d" "d < 10"
  have "digit_char d = CHR ''0'' \<longleftrightarrow> (of_char (digit_char d) :: int) = of_char (CHR ''0'')"
    by (simp only: of_char_eq_iff)
  also have "\<dots> \<longleftrightarrow> d = 0" using of_char_digit [OF d] by simp
  finally show ?thesis .
qed

lemma digits_val_append: "digits_val a (xs @ ys) = digits_val (digits_val a xs) ys"
  by (induction xs arbitrary: a) auto

lemma digits_val_pad:
  "0 \<le> n \<Longrightarrow> n < 10 ^ k \<Longrightarrow> digits_val a (pad_text k n) = a * 10 ^ k + n"
proof (induction k arbitrary: n)
  case 0
  then show ?case by simp
next
  case (Suc k)
  then have "n div 10 < 10 ^ k" by (simp add: div_less_iff_less_mult)
  with Suc.IH [of "n div 10"] Suc.prems show ?case
    by (simp add: digits_val_append of_char_digit algebra_simps)
qed

lemma digits_val_nat_text: "0 \<le> n \<Longrightarrow> digits_val 0 (nat_text n) = n"
proof (induction n rule: nat_text.induct)
  case (1 n)
  show ?case
  proof (cases "n < 10")
    case True
    with 1 show ?thesis by (simp add: nat_text.simps [of n] of_char_digit)
  next
    case False
    with 1 show ?thesis by (simp add: nat_text.simps [of n] digits_val_append of_char_digit)
  qed
qed

lemma digit_set_nat_text: "0 \<le> n \<Longrightarrow> CHR ''.'' \<notin> set (nat_text n) \<and> CHR ''-'' \<notin> set (nat_text n)"
proof (induction n rule: nat_text.induct)
  case (1 n)
  then show ?case by (cases "n < 10") (auto simp: nat_text.simps [of n] dest: sym)
qed

lemma nat_text_not_Nil [simp]: "nat_text n \<noteq> []"
  by (subst nat_text.simps) simp

lemma length_pad_text [simp]: "length (pad_text k n) = k"
  by (induction k arbitrary: n) auto

subsection \<open>Canonical scaled integers\<close>

text \<open>\<open>canon c k\<close> is \<open>c / 10 ^ k\<close> in lowest decimal terms.\<close>

fun canon :: "int \<Rightarrow> nat \<Rightarrow> int \<times> nat" where
  "canon c 0 = (c, 0)"
| "canon c (Suc k) = (if 10 dvd c then canon (c div 10) k else (c, Suc k))"

definition amount_text :: "int \<Rightarrow> nat \<Rightarrow> string" where
  "amount_text c k = (if c < 0 then ''-'' else []) @
     (if k = 0 then nat_text \<bar>c\<bar> else nat_text (\<bar>c\<bar> div 10 ^ k) @ ''.'' @ pad_text k (\<bar>c\<bar> mod 10 ^ k))"

definition strip_text :: "string \<Rightarrow> string" where
  "strip_text t = (if CHR ''.'' \<in> set t then rstrip (CHR ''.'') (rstrip (CHR ''0'') t) else t)"

lemma rstrip_snoc: "rstrip c (xs @ [x]) = (if x = c then rstrip c xs else xs @ [x])"
  by (simp add: rstrip_def)

lemma digit_char_0: "digit_char 0 = CHR ''0''"
  by (simp add: digit_char_zero)

lemma pad_text_times_10: "0 \<le> n \<Longrightarrow> pad_text (Suc k) (10 * n) = pad_text k n @ ''0''"
  by (simp add: digit_char_0)

lemma abs_div_10: "10 dvd c \<Longrightarrow> \<bar>c\<bar> = 10 * \<bar>c div 10 :: int\<bar>"
  by (elim dvdE) (simp add: abs_mult)

lemma rstrip_dot_zero: "rstrip (CHR ''.'') (rstrip (CHR ''0'') (xs @ ''.0'')) = rstrip (CHR ''.'') xs"
  by (simp add: rstrip_def)

lemma amount_text_Suc:
  assumes "10 dvd c"
  shows "amount_text c (Suc (Suc k)) = amount_text (c div 10) (Suc k) @ ''0''"
    "amount_text c (Suc 0) = amount_text (c div 10) 0 @ ''.0''"
proof -
  have sgn: "c < 0 \<longleftrightarrow> c div 10 < 0" using assms by (elim dvdE) simp
  have 1: "\<bar>c\<bar> div 10 ^ Suc j = \<bar>c div 10\<bar> div 10 ^ j" for j
    by (subst abs_div_10 [OF assms]) simp
  have 2: "\<bar>c\<bar> mod 10 ^ Suc j = 10 * (\<bar>c div 10\<bar> mod 10 ^ j)" for j
    by (subst abs_div_10 [OF assms]) (simp only: power_Suc mult_mod_right)
  have 3: "pad_text (Suc j) (\<bar>c\<bar> mod 10 ^ Suc j) = pad_text j (\<bar>c div 10\<bar> mod 10 ^ j) @ ''0''" for j
    unfolding 2 by (rule pad_text_times_10) simp
  show "amount_text c (Suc (Suc k)) = amount_text (c div 10) (Suc k) @ ''0''"
    unfolding amount_text_def 1 3 sgn by simp
  show "amount_text c (Suc 0) = amount_text (c div 10) 0 @ ''.0''"
    unfolding amount_text_def 1 [of 0] 3 [of 0] sgn by simp
qed

lemma dot_in_amount_text: "CHR ''.'' \<in> set (amount_text c k) \<longleftrightarrow> k \<noteq> 0"
  using digit_set_nat_text by (auto simp: amount_text_def)

lemma strip_amount_text: "strip_text (amount_text c k) = (case canon c k of (c', k') \<Rightarrow> amount_text c' k')"
proof (induction c k rule: canon.induct)
  case (1 c)
  then show ?case by (simp add: strip_text_def dot_in_amount_text)
next
  case (2 c k)
  show ?case
  proof (cases "10 dvd c")
    case True
    show ?thesis
    proof (cases k)
      case 0
      then have eq: "amount_text c (Suc k) = amount_text (c div 10) 0 @ ''.0''"
        using amount_text_Suc(2) [OF True] by simp
      have "strip_text (amount_text c (Suc k)) = rstrip (CHR ''.'') (amount_text (c div 10) 0)"
        unfolding eq by (simp add: strip_text_def rstrip_dot_zero)
      also have "\<dots> = amount_text (c div 10) 0"
        using dot_in_amount_text [of "c div 10" 0] unfolding rstrip_def
        by (cases "rev (amount_text (c div 10) 0)") (auto simp: rev_swap)
      finally show ?thesis using True 0 by simp
    next
      case (Suc j)
      then have "strip_text (amount_text c (Suc k)) = strip_text (amount_text (c div 10) k)"
        using amount_text_Suc(1) [OF True, of j]
        by (simp add: strip_text_def rstrip_snoc dot_in_amount_text)
      then show ?thesis using 2 True by simp
    qed
  next
    case False
    then have "\<bar>c\<bar> mod 10 ^ Suc k mod 10 \<noteq> 0"
      by (simp add: mod_mod_cancel dvd_eq_mod_eq_0 [symmetric])
    then have "digit_char (\<bar>c\<bar> mod 10 ^ Suc k mod 10) \<noteq> CHR ''0''"
      by (simp add: digit_char_zero)
    moreover obtain pre where "amount_text c (Suc k) = pre @ [digit_char (\<bar>c\<bar> mod 10 ^ Suc k mod 10)]"
      by (simp add: amount_text_def)
    moreover have "digit_char (\<bar>c\<bar> mod 10 ^ Suc k mod 10) \<noteq> CHR ''.''" by (intro digit_char_neq) simp_all
    ultimately show ?thesis using False by (simp add: strip_text_def rstrip_snoc)
  qed
qed

lemma canon_value: "canon c k = (c', k') \<Longrightarrow> of_int c / 10 ^ k = (of_int c' / 10 ^ k' :: rat)"
proof (induction c k arbitrary: c' k' rule: canon.induct)
  case (2 c k)
  show ?case
  proof (cases "10 dvd c")
    case True
    then have "(of_int c :: rat) = 10 * of_int (c div 10)"
      by (metis dvd_mult_div_cancel of_int_mult of_int_numeral)
    with 2 True show ?thesis by simp
  qed (use 2 in auto)
qed simp

lemma canon_lowest: "canon c k = (c', k') \<Longrightarrow> k' = 0 \<or> \<not> 10 dvd c'"
  by (induction c k rule: canon.induct) (auto split: if_splits)

lemma lowest_unique:
  assumes "of_int c / 10 ^ k = (of_int d / 10 ^ j :: rat)" "k = 0 \<or> \<not> 10 dvd c" "j = 0 \<or> \<not> 10 dvd d"
  shows "c = d \<and> k = j"
proof -
  have no_gap: "\<not> k < j" if "of_int c / 10 ^ k = (of_int d / 10 ^ j :: rat)" "j = 0 \<or> \<not> 10 dvd d" for c d k j
  proof
    assume kj: "k < j"
    have "(of_int (c * 10 ^ j) :: rat) = of_int (d * 10 ^ k)" using that(1) by (simp add: field_simps)
    then have "c * 10 ^ j = d * 10 ^ k" by (simp only: of_int_eq_iff)
    moreover have "(10::int) ^ j = 10 ^ (j - k) * 10 ^ k" using kj by (simp flip: power_add)
    ultimately have "d = c * 10 ^ (j - k)" by simp
    moreover have "10 dvd (10::int) ^ (j - k)" using kj by simp
    ultimately have "10 dvd d" by (simp add: dvd_mult)
    with that(2) kj show False by simp
  qed
  have "k = j" using no_gap [OF assms(1,3)] no_gap [OF assms(1) [symmetric] assms(2)] by simp
  with assms(1) show ?thesis by simp
qed

lemma decimal_of_amount_text: "decimal_of_text (amount_text c k) = Dec c (- int k)"
proof -
  define ip fp where "ip = nat_text (\<bar>c\<bar> div 10 ^ k)" and "fp = pad_text k (\<bar>c\<bar> mod 10 ^ k)"
  have ip: "CHR ''.'' \<notin> set ip" "CHR ''-'' \<notin> set ip" "ip \<noteq> []"
    using digit_set_nat_text [of "\<bar>c\<bar> div 10 ^ k"] by (simp_all add: pos_imp_zdiv_nonneg_iff ip_def)
  have fp: "length fp = k" by (simp add: fp_def)
  have val: "digits_val 0 (ip @ fp) = \<bar>c\<bar>"
    by (simp add: digits_val_append digits_val_nat_text digits_val_pad pos_imp_zdiv_nonneg_iff
        div_mult_mod_eq ip_def fp_def)
  define body where "body = ip @ (if k = 0 then [] else CHR ''.'' # fp)"
  have body: "amount_text c k = (if c < 0 then [CHR ''-''] else []) @ body"
    by (simp add: amount_text_def body_def ip_def fp_def)
  have tw: "takeWhile (\<lambda>c. c \<noteq> CHR ''.'') body = ip" "tl (dropWhile (\<lambda>c. c \<noteq> CHR ''.'') body) = fp"
    using ip(1) fp by (auto simp: body_def takeWhile_append dropWhile_append takeWhile_eq_all_conv
        dropWhile_eq_Nil_conv)
  have hd: "hd body \<noteq> CHR ''-''" using ip(2,3) by (cases ip) (auto simp: body_def)
  show ?thesis
    unfolding decimal_of_text_def Let_def body using hd by (cases "c < 0") (simp_all add: tw val fp)
qed

subsection \<open>Canonical identity\<close>

fun scaled :: "decimal \<Rightarrow> int \<times> nat" where
  "scaled (Dec c e) = (if 0 \<le> e then (c * 10 ^ nat e, 0) else (c, nat (- e)))"
| "scaled NonFinite = (0, 0)"

lemma dval_scaled: "scaled v = (c, k) \<Longrightarrow> dval v = of_int c / 10 ^ k"
  by (cases v) (auto simp: power_int_def field_simps split: if_splits)

lemma decimal_text_scaled: "is_finite v \<Longrightarrow> scaled v = (c, k) \<Longrightarrow> decimal_text v = amount_text c k"
  by (cases v) (auto simp: amount_text_def abs_mult mult_less_0_iff split: if_splits)

lemma identity_amount_text:
  assumes "is_finite v"
  obtains c k where "billing_identity_amount v = Inr (amount_text c k)"
    "dval v = of_int c / 10 ^ k" "k = 0 \<or> \<not> 10 dvd c"
proof (cases "dval v = 0")
  case True
  have "amount_text 0 0 = ''0''" by (simp add: amount_text_def nat_text.simps digit_char_0)
  with True assms have "billing_identity_amount v = Inr (amount_text 0 0)"
    by (simp add: billing_identity_amount_def)
  with that [of 0 0] True show ?thesis by simp
next
  case False
  obtain c k where ck: "scaled v = (c, k)" by fastforce
  obtain c' k' where ck': "canon c k = (c', k')" by fastforce
  have "billing_identity_amount v = Inr (strip_text (amount_text c k))"
    using assms False decimal_text_scaled [OF assms ck]
    by (simp add: billing_identity_amount_def strip_text_def Let_def)
  also have "\<dots> = Inr (amount_text c' k')" by (simp add: strip_amount_text ck')
  finally show ?thesis
    using that [of c' k'] dval_scaled [OF ck] canon_value [OF ck'] canon_lowest [OF ck'] by simp
qed

lemma identity_amount_value:
  assumes "is_finite v" "billing_identity_amount v = Inr tx"
  shows "dval (decimal_of_text tx) = dval v" "is_finite (decimal_of_text tx)"
proof -
  obtain c k where "billing_identity_amount v = Inr (amount_text c k)" "dval v = of_int c / 10 ^ k"
    using identity_amount_text [OF assms(1)] .
  moreover from this assms(2) have "decimal_of_text tx = Dec c (- int k)"
    using decimal_of_amount_text [of c k] by simp
  ultimately show "dval (decimal_of_text tx) = dval v" "is_finite (decimal_of_text tx)"
    by (simp_all add: power_int_minus field_simps)
qed

text \<open>
  The canonical amount is a numerical identity: parsing it gives the amount's value back,
  and two finite amounts have the same canonical text exactly when they are numerically equal,
  whatever trailing zeros or exponents they carry.
\<close>

theorem billing_identity_amount_canonical:
  assumes "is_finite v" "is_finite u"
  shows "(billing_identity_amount v = billing_identity_amount u \<longleftrightarrow> dval v = dval u)
    \<and> (\<exists>tx. billing_identity_amount v = Inr tx \<and> dval (decimal_of_text tx) = dval v)"
proof -
  obtain c k where v: "billing_identity_amount v = Inr (amount_text c k)"
    "dval v = of_int c / 10 ^ k" "k = 0 \<or> \<not> 10 dvd c" using identity_amount_text [OF assms(1)] .
  obtain d j where u: "billing_identity_amount u = Inr (amount_text d j)"
    "dval u = of_int d / 10 ^ j" "j = 0 \<or> \<not> 10 dvd d" using identity_amount_text [OF assms(2)] .
  have val: "dval (decimal_of_text (amount_text a i)) = of_int a / 10 ^ i" for a i
    by (simp add: decimal_of_amount_text power_int_minus field_simps)
  have "amount_text c k = amount_text d j \<longleftrightarrow> dval v = dval u"
    using lowest_unique [of c k d j] v u val [of c k] val [of d j] by metis
  then show ?thesis using v u val by simp
qed

theorem billing_identity_amount_canonical_witness:
  "(billing_identity_amount (Dec 1230 (-2)) = billing_identity_amount (Dec 123 (-1))
      \<longleftrightarrow> dval (Dec 1230 (-2)) = dval (Dec 123 (-1)))
    \<and> (\<exists>tx. billing_identity_amount (Dec 1230 (-2)) = Inr tx
        \<and> dval (decimal_of_text tx) = dval (Dec 1230 (-2)))"
  by (rule billing_identity_amount_canonical) simp_all

lemma parse_amounts_Inr:
  "parse_amounts raw names = Inr ams \<Longrightarrow>
     map fst ams = names \<and> (\<forall>(n, a) \<in> set ams. is_finite a \<and> 0 \<le> dval a
       \<and> (\<exists>v. raw n = Some v \<and> dval v = dval a))"
proof (induction names arbitrary: ams)
  case (Cons n ns)
  from Cons.prems obtain v tx rest where
    r: "raw n = Some v" "is_finite v" "0 \<le> dval v" "billing_identity_amount v = Inr tx"
      "parse_amounts raw ns = Inr rest" "ams = (n, decimal_of_text tx) # rest"
    by (auto split: option.splits if_splits sum.splits)
  then show ?case using Cons.IH [OF r(5)] identity_amount_value [OF r(2,4)] by auto
qed simp

text \<open>
  An accepted billing row carries its total and every component, each the finite
  nonnegative number of the API observation, and the total equals the exact sum of the
  components.
\<close>

theorem billing_amounts_balanced:
  assumes "billing_amounts prec raw components = Inr ams"
  shows "map fst ams = ''totalAmount'' # components
    \<and> (\<forall>(n, a) \<in> set ams. is_finite a \<and> 0 \<le> dval a \<and> (\<exists>v. raw n = Some v \<and> dval v = dval a))
    \<and> dval (snd (hd ams)) = sum_list (map (\<lambda>(n, a). dval a) (tl ams))"
proof -
  from assms obtain s where s: "parse_amounts raw (''totalAmount'' # components) = Inr ams"
    "exact_decimal_sum prec (map snd (tl ams)) = Inr s" "dval (snd (hd ams)) = s"
    by (auto simp only: billing_amounts_def split: sum.splits if_splits)
  have "s = sum_list (map (\<lambda>(n, a). dval a) (tl ams))"
    using s(2) unfolding exact_decimal_sum_value
    by (auto simp: comp_def case_prod_beta' split: if_splits)
  with parse_amounts_Inr [OF s(1)] s(3) show ?thesis by simp
qed

theorem billing_amounts_balanced_witness:
  "dval (snd (hd [(''totalAmount'', Dec 3 0), (''gpuAmount'', Dec 21 (-1)), (''diskAmount'', Dec 9 (-1))]))
     = sum_list (map (\<lambda>(n, a). dval a)
        (tl [(''totalAmount'', Dec 3 0), (''gpuAmount'', Dec 21 (-1)), (''diskAmount'', Dec 9 (-1))]))"
proof -
  let ?raw = "\<lambda>n. if n = ''totalAmount'' then Some (Dec 30 (-1)) else
      if n = ''gpuAmount'' then Some (Dec 21 (-1)) else if n = ''diskAmount'' then Some (Dec 9 (-1)) else None"
  have "billing_amounts 28 ?raw [''gpuAmount'', ''diskAmount''] =
      Inr [(''totalAmount'', Dec 3 0), (''gpuAmount'', Dec 21 (-1)), (''diskAmount'', Dec 9 (-1))]"
    by code_simp
  from billing_amounts_balanced [OF this] show ?thesis by blast
qed

end
