(* ===== verification/Placement.thy ===== *)
theory Placement
  imports Billing "HOL-Library.Char_ord" "HOL-Library.List_Lexorder" "HOL-Library.Product_Lexorder"
begin

text \<open>
  The catalog data of \<^verbatim>\<open>models.py\<close> that placement uses and the deterministic GPU selection of
  \<^verbatim>\<open>placement.py\<close>.  A \<^verbatim>\<open>float\<close> price is the decimal number its shortest \<^verbatim>\<open>repr\<close> denotes, which
  preserves the order and the equality of floats; \<^verbatim>\<open>NaNInf\<close> is a price that is not finite.
\<close>

section \<open>Definitions\<close>

subsection \<open>Catalog data\<close>

datatype CloudType = SECURE | COMMUNITY

datatype ComputeProduct = POD | SERVERLESS

datatype Availability = AV_NONE | AV_LOW | AV_MEDIUM | AV_HIGH

fun cloud_value :: "CloudType \<Rightarrow> string" where
  "cloud_value SECURE = ''SECURE''"
| "cloud_value COMMUNITY = ''COMMUNITY''"

fun availability_value :: "Availability \<Rightarrow> string" where
  "availability_value AV_NONE = ''NONE''"
| "availability_value AV_LOW = ''LOW''"
| "availability_value AV_MEDIUM = ''MEDIUM''"
| "availability_value AV_HIGH = ''HIGH''"

record PlacementRequirements =
  pr_product :: ComputeProduct
  pr_min_vram_gb :: int
  pr_gpu_count :: int
  pr_cloud :: CloudType
  pr_min_cuda_version :: "string option"
  pr_max_cost_per_hr :: "amount option"
  pr_allowed_gpu_ids :: "string list"
  pr_allowed_gpu_pools :: "string list"
  pr_allowed_data_center_ids :: "string list"
  pr_minimum_availability :: Availability
  pr_benchmark_id :: "string option"

record DataCenter =
  dc_id :: "string option"
  dc_availability :: "string option"

record GPUOffer =
  go_id :: string
  go_name :: string
  go_pool :: "string option"
  go_manufacturer :: string
  go_memory_gb :: int
  go_secure :: bool
  go_community :: bool
  go_secure_price_per_hr :: amount
  go_community_price_per_hr :: amount
  go_secure_max_count :: int
  go_community_max_count :: int
  go_availability :: "Availability option"
  go_data_centers :: "DataCenter list"
  go_availability_min_cuda_version :: "string option"
  go_serverless_price_per_hr :: "amount option"

record PlacementDecision =
  pd_gpu_id :: string
  pd_gpu_pool :: "string option"
  pd_gpu_name :: string
  pd_memory_gb :: int
  pd_cloud :: CloudType
  pd_gpu_count :: int
  pd_offered_cost_per_hr :: amount
  pd_availability :: "Availability option"
  pd_catalog_observed_at :: datetime
  pd_requirements :: PlacementRequirements

subsection \<open>CUDA floors\<close>

definition is_digit_char :: "char \<Rightarrow> bool" where
  "is_digit_char c \<longleftrightarrow> CHR ''0'' \<le> c \<and> c \<le> CHR ''9''"

definition digit_text :: "string \<Rightarrow> bool" where
  "digit_text s \<longleftrightarrow> s \<noteq> [] \<and> list_all is_digit_char s"

text \<open>\<^verbatim>\<open>str.partition(".")\<close>: the text before the first dot, and the text after it if there is one.\<close>

definition partition_dot :: "string \<Rightarrow> string \<times> string option" where
  "partition_dot s =
     (takeWhile (\<lambda>c. c \<noteq> CHR ''.'') s,
      case dropWhile (\<lambda>c. c \<noteq> CHR ''.'') s of [] \<Rightarrow> None | _ # rest \<Rightarrow> Some rest)"

definition normalize_cuda_floor :: "string option \<Rightarrow> py_error + string option" where
  "normalize_cuda_floor value =
     (case value of
        None \<Rightarrow> Inr None
      | Some v \<Rightarrow>
          (case partition_dot v of
             (major, None) \<Rightarrow>
               if digit_text major
               then Inr (Some (nat_text (digits_val 0 major) @ ''.'' @ nat_text 0)) else Inl ValueError
           | (major, Some minor) \<Rightarrow>
               if digit_text major \<and> digit_text minor
               then Inr (Some (nat_text (digits_val 0 major) @ ''.'' @ nat_text (digits_val 0 minor)))
               else Inl ValueError))"

definition requirements_post_init :: "PlacementRequirements \<Rightarrow> py_error option" where
  "requirements_post_init r = first_error
     [(pr_min_vram_gb r < 1, ValueError),
      (pr_gpu_count r < 1, ValueError),
      (case pr_max_cost_per_hr r of Some (Fin m) \<Rightarrow> m \<le> 0 | _ \<Rightarrow> False, ValueError),
      (case normalize_cuda_floor (pr_min_cuda_version r) of Inl _ \<Rightarrow> True | Inr _ \<Rightarrow> False, ValueError)]"

subsection \<open>Offers\<close>

definition price_for :: "GPUOffer \<Rightarrow> CloudType \<Rightarrow> ComputeProduct \<Rightarrow> py_error + amount" where
  "price_for offer cloud product =
     (if product = SERVERLESS
      then (case go_serverless_price_per_hr offer of None \<Rightarrow> Inl RunPodManagerError | Some p \<Rightarrow> Inr p)
      else Inr (if cloud = SECURE then go_secure_price_per_hr offer else go_community_price_per_hr offer))"

definition max_count_for :: "GPUOffer \<Rightarrow> CloudType \<Rightarrow> int" where
  "max_count_for offer cloud =
     (if cloud = SECURE then go_secure_max_count offer else go_community_max_count offer)"

definition supports_cloud :: "GPUOffer \<Rightarrow> CloudType \<Rightarrow> bool" where
  "supports_cloud offer cloud = (if cloud = SECURE then go_secure offer else go_community offer)"

fun availability_rank :: "Availability \<Rightarrow> int" where
  "availability_rank AV_NONE = 0"
| "availability_rank AV_LOW = 1"
| "availability_rank AV_MEDIUM = 2"
| "availability_rank AV_HIGH = 3"

definition offer_rank :: "GPUOffer \<Rightarrow> int" where
  "offer_rank offer =
     availability_rank (case go_availability offer of None \<Rightarrow> AV_NONE | Some a \<Rightarrow> a)"

text \<open>A pool is truthy when it is present and not the empty string.\<close>

definition has_pool :: "GPUOffer \<Rightarrow> bool" where
  "has_pool offer \<longleftrightarrow> (case go_pool offer of None \<Rightarrow> False | Some p \<Rightarrow> p \<noteq> [])"

definition is_compatible :: "GPUOffer \<Rightarrow> PlacementRequirements \<Rightarrow> bool" where
  "is_compatible offer r =
     (if go_memory_gb offer < pr_min_vram_gb r then False
      else if pr_min_cuda_version r \<noteq> None
         \<and> go_availability_min_cuda_version offer \<noteq> pr_min_cuda_version r then False
      else if \<not> supports_cloud offer (pr_cloud r) then False
      else if pr_product r = POD \<and> max_count_for offer (pr_cloud r) < pr_gpu_count r then False
      else if pr_product r = SERVERLESS
         \<and> (\<not> has_pool offer \<or> go_serverless_price_per_hr offer = None) then False
      else if pr_allowed_gpu_ids r \<noteq> [] \<and> go_id offer \<notin> set (pr_allowed_gpu_ids r) then False
      else if pr_allowed_gpu_pools r \<noteq> []
         \<and> (case go_pool offer of None \<Rightarrow> True | Some p \<Rightarrow> p \<notin> set (pr_allowed_gpu_pools r)) then False
      else (case price_for offer (pr_cloud r) (pr_product r) of
          Inl _ \<Rightarrow> False
        | Inr price \<Rightarrow>
            if \<not> finite_amount price \<or> usd price < 0 then False
            else if (case pr_max_cost_per_hr r of Some (Fin m) \<Rightarrow> m < usd price | _ \<Rightarrow> False) then False
            else if offer_rank offer < availability_rank (pr_minimum_availability r) then False
            else if pr_allowed_data_center_ids r \<noteq> []
              then (\<exists>item \<in> set (go_data_centers offer).
                (case dc_id item of None \<Rightarrow> False | Some i \<Rightarrow> i \<in> set (pr_allowed_data_center_ids r))
                \<and> dc_availability item \<noteq> Some (availability_value AV_NONE))
            else True))"

subsection \<open>Selection\<close>

definition placement_key :: "PlacementRequirements \<Rightarrow> GPUOffer \<Rightarrow> int \<times> rat \<times> int \<times> string" where
  "placement_key r offer =
     (- offer_rank offer,
      (case price_for offer (pr_cloud r) (pr_product r) of Inr p \<Rightarrow> usd p | Inl _ \<Rightarrow> 0),
      go_memory_gb offer, go_id offer)"

definition pool_members :: "GPUOffer list \<Rightarrow> string option \<Rightarrow> nat" where
  "pool_members catalog pool = length (filter (\<lambda>o'. has_pool o' \<and> go_pool o' = pool) catalog)"

definition candidates :: "GPUOffer list \<Rightarrow> PlacementRequirements \<Rightarrow> GPUOffer list" where
  "candidates catalog r =
     (let compatible = filter (\<lambda>offer. is_compatible offer r) catalog in
      if pr_product r = SERVERLESS
      then filter (\<lambda>offer. pool_members catalog (go_pool offer) = 1) compatible else compatible)"

definition select_gpu ::
    "GPUOffer list \<Rightarrow> PlacementRequirements \<Rightarrow> datetime \<Rightarrow> py_error + PlacementDecision" where
  "select_gpu catalog r observed_at =
     (case sort_key (placement_key r) (candidates catalog r) of
        [] \<Rightarrow> Inl RunPodManagerError
      | selected # _ \<Rightarrow>
          (case price_for selected (pr_cloud r) (pr_product r) of
             Inl e \<Rightarrow> Inl e
           | Inr price \<Rightarrow> Inr
               \<lparr> pd_gpu_id = go_id selected, pd_gpu_pool = go_pool selected,
                 pd_gpu_name = go_name selected, pd_memory_gb = go_memory_gb selected,
                 pd_cloud = pr_cloud r, pd_gpu_count = pr_gpu_count r,
                 pd_offered_cost_per_hr = price, pd_availability = go_availability selected,
                 pd_catalog_observed_at = observed_at, pd_requirements = r \<rparr>))"

section \<open>Selection is sound, complete and optimal\<close>

lemma is_compatible_price:
  assumes "is_compatible offer r"
  obtains p where "price_for offer (pr_cloud r) (pr_product r) = Inr (Fin p)" "0 \<le> p"
    "\<And>m. pr_max_cost_per_hr r = Some (Fin m) \<Longrightarrow> p \<le> m"
proof -
  from assms obtain price where p: "price_for offer (pr_cloud r) (pr_product r) = Inr price"
    "finite_amount price" "0 \<le> usd price"
    "\<not> (case pr_max_cost_per_hr r of Some (Fin m) \<Rightarrow> m < usd price | _ \<Rightarrow> False)"
    unfolding is_compatible_def by (auto split: if_splits sum.splits)
  then show ?thesis by (cases price) (auto intro: that)
qed

lemma set_candidates: "offer \<in> set (candidates catalog r) \<longleftrightarrow> offer \<in> set catalog \<and> is_compatible offer r
    \<and> (pr_product r = SERVERLESS \<longrightarrow> pool_members catalog (go_pool offer) = 1)"
  by (auto simp: candidates_def Let_def)

lemma hd_sort_key_least:
  "sort_key f xs = y # ys \<Longrightarrow> y \<in> set xs \<and> (\<forall>x \<in> set xs. f y \<le> f x)"
proof -
  assume s: "sort_key f xs = y # ys"
  have "set (y # ys) = set xs" by (simp flip: s)
  moreover have "sorted (map f (y # ys))" by (simp flip: s)
  ultimately show ?thesis by (metis insertE list.set(2) list.set_intros(1) list.simps(9)
        order_refl sorted_simps(2) imageI list.set_map)
qed

text \<open>
  GPU selection succeeds exactly when some catalog offer is compatible (and, for
  Serverless, alone in its pool).  The decision then carries the identity, price and
  availability of such an offer, its price is finite, nonnegative and within the cost limit,
  and no eligible offer has a higher availability, or the same availability at a lower price,
  or a smaller remaining key.
\<close>

theorem select_gpu_optimal:
  "(case select_gpu catalog r t of
      Inl e \<Rightarrow> e = RunPodManagerError \<and> candidates catalog r = []
    | Inr d \<Rightarrow> \<exists>offer p. offer \<in> set catalog \<and> is_compatible offer r
        \<and> (pr_product r = SERVERLESS \<longrightarrow> pool_members catalog (go_pool offer) = 1)
        \<and> pd_gpu_id d = go_id offer \<and> pd_gpu_name d = go_name offer
        \<and> pd_cloud d = pr_cloud r \<and> pd_gpu_count d = pr_gpu_count r
        \<and> pd_availability d = go_availability offer \<and> pd_offered_cost_per_hr d = Fin p \<and> 0 \<le> p
        \<and> (\<forall>m. pr_max_cost_per_hr r = Some (Fin m) \<longrightarrow> p \<le> m)
        \<and> (\<forall>other \<in> set (candidates catalog r). placement_key r offer \<le> placement_key r other))"
proof (cases "sort_key (placement_key r) (candidates catalog r)")
  case Nil
  then have "candidates catalog r = []" by (metis length_0_conv length_sort)
  with Nil show ?thesis by (simp add: select_gpu_def)
next
  case (Cons offer rest)
  from hd_sort_key_least [OF this] have least: "offer \<in> set (candidates catalog r)"
    "\<forall>x \<in> set (candidates catalog r). placement_key r offer \<le> placement_key r x" by auto
  then have "is_compatible offer r" by (simp add: set_candidates)
  then obtain p where "price_for offer (pr_cloud r) (pr_product r) = Inr (Fin p)" "0 \<le> p"
    "\<And>m. pr_max_cost_per_hr r = Some (Fin m) \<Longrightarrow> p \<le> m" by (rule is_compatible_price) blast
  with Cons least show ?thesis
    by (auto simp: select_gpu_def set_candidates intro!: exI [of _ offer])
qed

end
