(* ===== verification/Pod_Contracts.thy ===== *)
theory Pod_Contracts
  imports Placement
begin

text \<open>
  The durable contracts of \<^verbatim>\<open>pod_capacity_contracts.py\<close>: the state enums, the frozen dataclasses
  with the checks of their \<^verbatim>\<open>__post_init__\<close> methods in source order, the evidence and handoff
  records, and the lease.  A character is a code point below 256.  Hash functions are arguments
  (\<^verbatim>\<open>jsha\<close> hashes a canonical JSON value, \<^verbatim>\<open>sha\<close> a text).
\<close>

section \<open>Enumerations\<close>

datatype TrainingPodSource = CONFIGURED_PERSISTENT | STOPPED_REUSE | CREATED

datatype TrainingPodOwnership = O_PROVISIONAL | O_OWNED | O_PREEXISTING_RUNNING

datatype TrainingPodState =
  S_REQUESTED | S_STARTING | S_READY | S_JOB_SUBMITTED | S_JOB_COMPLETED | S_RESULT_RETRIEVED
  | S_CANCEL_REQUESTED | S_RECONCILE_REQUIRED | S_RELEASING | S_RELEASED

datatype PodCapacityBillingState = B_NOT_APPLICABLE | B_PENDING | B_AUTHORITATIVE | B_UNRESOLVED

datatype CatalogPodWorkloadState =
  W_NOT_SUBMITTED | W_IDLE | W_RUNNING | W_CANCEL_REQUESTED | W_SUCCEEDED | W_AWAITING_ACK
  | W_ACKNOWLEDGED | W_FAILED | W_CANCELLED

section \<open>JSON values\<close>

text \<open>
  The strings that \<^verbatim>\<open>decimal_text\<close> and \<^verbatim>\<open>iso_datetime\<close> print are kept as the amount and the instant
  they denote.
\<close>

datatype json =
  JNull | JBool bool | JInt int | JNum decimal | JStr string | JAmount amount | JTime datetime
  | JList "json list" | JObj "(string \<times> json) list"

fun jget :: "json \<Rightarrow> string \<Rightarrow> json" where
  "jget (JObj kvs) k = (case map_of kvs k of None \<Rightarrow> JNull | Some v \<Rightarrow> v)"
| "jget _ k = JNull"

fun is_jobj :: "json \<Rightarrow> bool" where
  "is_jobj (JObj _) = True"
| "is_jobj _ = False"

section \<open>Text formats\<close>

definition is_alnum :: "char \<Rightarrow> bool" where
  "is_alnum c \<longleftrightarrow> (CHR ''A'' \<le> c \<and> c \<le> CHR ''Z'') \<or> (CHR ''a'' \<le> c \<and> c \<le> CHR ''z'') \<or> is_digit_char c"

definition is_ident_char :: "char \<Rightarrow> bool" where
  "is_ident_char c \<longleftrightarrow> is_alnum c \<or> c \<in> {CHR ''.'', CHR ''_'', CHR '':'', CHR ''-''}"

definition is_lower_hex :: "char \<Rightarrow> bool" where
  "is_lower_hex c \<longleftrightarrow> is_digit_char c \<or> (CHR ''a'' \<le> c \<and> c \<le> CHR ''f'')"

definition is_space :: "char \<Rightarrow> bool" where
  "is_space c \<longleftrightarrow> (let n = (of_char c :: int) in
     (9 \<le> n \<and> n \<le> 13) \<or> (28 \<le> n \<and> n \<le> 32) \<or> n = 133 \<or> n = 160)"

definition nonblank :: "string \<Rightarrow> bool" where
  "nonblank s \<longleftrightarrow> (\<exists>c \<in> set s. \<not> is_space c)"

definition safe_identifier :: "string \<Rightarrow> bool" where
  "safe_identifier s \<longleftrightarrow> 8 \<le> length s \<and> length s \<le> 128 \<and> is_alnum (hd s) \<and> list_all is_ident_char s"

definition provider_identifier :: "string \<Rightarrow> bool" where
  "provider_identifier s \<longleftrightarrow>
     1 \<le> length s \<and> length s \<le> 128 \<and> is_alnum (hd s) \<and> list_all is_ident_char s"

definition sha256_text :: "string \<Rightarrow> bool" where
  "sha256_text s \<longleftrightarrow> length s = 64 \<and> list_all is_lower_hex s"

definition display_name :: "string \<Rightarrow> bool" where
  "display_name s \<longleftrightarrow> nonblank s \<and> length s \<le> 128 \<and> list_all (\<lambda>c. 32 \<le> (of_char c :: int)) s"

definition image_digest :: "string \<Rightarrow> bool" where
  "image_digest s \<longleftrightarrow> take 7 s = ''sha256:'' \<and> sha256_text (drop 7 s)"

definition pinned_image :: "string \<Rightarrow> bool" where
  "pinned_image s \<longleftrightarrow> (let n = length s - 72 in
     72 < length s \<and> list_all (\<lambda>c. \<not> is_space c) (take n s)
     \<and> take 8 (drop n s) = ''@sha256:'' \<and> sha256_text (drop (n + 8) s))"

text \<open>\<^verbatim>\<open>reference.rsplit("@", 1)[1]\<close>\<close>

definition after_last_at :: "string \<Rightarrow> string" where
  "after_last_at s = rev (takeWhile (\<lambda>c. c \<noteq> CHR ''@'') (rev s))"

section \<open>Quotes\<close>

record PodCapacityConstraints =
  cn_min_vram_gb :: int
  cn_gpu_count :: int
  cn_cloud :: CloudType
  cn_min_cuda_version :: "string option"
  cn_allowed_gpu_ids :: "string list"
  cn_allowed_data_center_ids :: "string list"
  cn_max_hourly_rate_usd :: "amount option"
  cn_benchmark_id :: string
  cn_allowed_products :: "ComputeProduct list"

definition constraints_post_init :: "PodCapacityConstraints \<Rightarrow> py_error option" where
  "constraints_post_init c = first_error
     [(cn_min_vram_gb c < 1, ValueError),
      (cn_gpu_count c < 1, ValueError),
      (cn_allowed_products c \<noteq> [POD], ValueError),
      (\<not> nonblank (cn_benchmark_id c), ValueError),
      (case cn_max_hourly_rate_usd c of None \<Rightarrow> False
         | Some m \<Rightarrow> \<not> finite_amount m \<or> usd m \<le> 0, ValueError)]"

text \<open>\<^verbatim>\<open>to_float\<close> is the conversion of a decimal limit to the nearest float.\<close>

definition placement_requirements :: "(amount \<Rightarrow> amount) \<Rightarrow> PodCapacityConstraints \<Rightarrow> PlacementRequirements" where
  "placement_requirements to_float c =
     \<lparr> pr_product = POD, pr_min_vram_gb = cn_min_vram_gb c, pr_gpu_count = cn_gpu_count c,
       pr_cloud = cn_cloud c, pr_min_cuda_version = cn_min_cuda_version c,
       pr_max_cost_per_hr = map_option to_float (cn_max_hourly_rate_usd c),
       pr_allowed_gpu_ids = cn_allowed_gpu_ids c, pr_allowed_gpu_pools = [],
       pr_allowed_data_center_ids = cn_allowed_data_center_ids c,
       pr_minimum_availability = AV_LOW, pr_benchmark_id = Some (cn_benchmark_id c) \<rparr>"

record PodCapacityQuoteRequest =
  qr_constraints :: PodCapacityConstraints
  qr_workload_kind :: string
  qr_parameters_sha256 :: string
  qr_estimated_startup_seconds :: int
  qr_estimated_execution_seconds :: int
  qr_maximum_runtime_seconds :: int
  qr_quote_ttl_seconds :: int

definition quote_request_post_init :: "PodCapacityQuoteRequest \<Rightarrow> py_error option" where
  "quote_request_post_init q = first_error
     [(\<not> safe_identifier (qr_workload_kind q), ValueError),
      (\<not> sha256_text (qr_parameters_sha256 q), ValueError),
      (qr_estimated_startup_seconds q < 0, ValueError),
      (qr_estimated_execution_seconds q < 1, ValueError),
      (qr_maximum_runtime_seconds q < 1, ValueError),
      (qr_quote_ttl_seconds q < 1, ValueError),
      (qr_maximum_runtime_seconds q < qr_estimated_startup_seconds q + qr_estimated_execution_seconds q,
        ValueError)]"

record PodCapacityQuote =
  qt_schema_version :: int
  qt_capability_version :: string
  qt_provider_quote_id :: string
  qt_workload_kind :: string
  qt_parameters_sha256 :: string
  qt_constraints :: PodCapacityConstraints
  qt_gpu_type_id :: string
  qt_gpu_display_name :: string
  qt_hourly_cost_usd :: amount
  qt_estimated_cost_usd :: amount
  qt_cost_ceiling_usd :: amount
  qt_estimated_startup_seconds :: int
  qt_estimated_execution_seconds :: int
  qt_maximum_runtime_seconds :: int
  qt_observed_at :: datetime
  qt_expires_at :: datetime
  qt_placement :: PlacementDecision

definition positive_amount :: "amount \<Rightarrow> bool" where
  "positive_amount a \<longleftrightarrow> finite_amount a \<and> 0 < usd a"

definition quote_post_init :: "PodCapacityQuote \<Rightarrow> py_error option" where
  "quote_post_init q = first_error
     ([(qt_schema_version q \<noteq> 3, ValueError),
       (\<not> nonblank (qt_capability_version q), ValueError),
       (\<not> nonblank (qt_provider_quote_id q), ValueError),
       (\<not> nonblank (qt_workload_kind q), ValueError),
       (\<not> nonblank (qt_gpu_type_id q), ValueError),
       (\<not> nonblank (qt_gpu_display_name q), ValueError),
       (\<not> sha256_text (qt_parameters_sha256 q), ValueError),
       (\<not> positive_amount (qt_hourly_cost_usd q), ValueError),
       (\<not> positive_amount (qt_estimated_cost_usd q), ValueError),
       (\<not> positive_amount (qt_cost_ceiling_usd q), ValueError),
       (usd (qt_cost_ceiling_usd q) < usd (qt_estimated_cost_usd q), ValueError),
       (qt_estimated_startup_seconds q < 0, ValueError),
       (qt_estimated_execution_seconds q < 1, ValueError),
       (qt_maximum_runtime_seconds q < 1, ValueError),
       (qt_maximum_runtime_seconds q
          < qt_estimated_startup_seconds q + qt_estimated_execution_seconds q, ValueError),
       (pd_gpu_count (qt_placement q) \<noteq> cn_gpu_count (qt_constraints q), ValueError)]
      @ (case pod_cost_usd (qt_hourly_cost_usd q)
              (qt_estimated_startup_seconds q + qt_estimated_execution_seconds q)
              (pd_gpu_count (qt_placement q)) of
           Inl e \<Rightarrow> [(True, e)]
         | Inr expected_estimate \<Rightarrow>
             (case pod_cost_usd (qt_hourly_cost_usd q) (qt_maximum_runtime_seconds q)
                     (pd_gpu_count (qt_placement q)) of
                Inl e \<Rightarrow> [(True, e)]
              | Inr expected_ceiling \<Rightarrow>
                  [(qt_estimated_cost_usd q \<noteq> expected_estimate
                    \<or> qt_cost_ceiling_usd q \<noteq> expected_ceiling, ValueError)]))
      @ [(\<not> is_aware (qt_observed_at q), ValueError),
         (\<not> is_aware (qt_expires_at q), ValueError),
         (qt_expires_at q \<le> qt_observed_at q, ValueError),
         (pd_gpu_id (qt_placement q) \<noteq> qt_gpu_type_id q, ValueError),
         (pd_offered_cost_per_hr (qt_placement q) \<noteq> qt_hourly_cost_usd q, ValueError)])"

section \<open>Capabilities and catalog requests\<close>

record CatalogAttemptCapability =
  cap_secret_id :: string
  cap_bearer_token :: string
  cap_token_sha256 :: string
  cap_expires_at :: datetime

definition is_token_char :: "char \<Rightarrow> bool" where
  "is_token_char c \<longleftrightarrow> is_alnum c \<or> c \<in> {CHR ''.'', CHR ''_'', CHR ''~'', CHR ''-''}"

definition capability_post_init :: "(string \<Rightarrow> string) \<Rightarrow> CatalogAttemptCapability \<Rightarrow> py_error option" where
  "capability_post_init sha c = first_error
     [(\<not> safe_identifier (cap_secret_id c), ValueError),
      (\<not> (32 \<le> length (cap_bearer_token c) \<and> length (cap_bearer_token c) \<le> 4096
          \<and> list_all is_token_char (cap_bearer_token c)), ValueError),
      (\<not> sha256_text (cap_token_sha256 c), ValueError),
      (sha (cap_bearer_token c) \<noteq> cap_token_sha256 c, ValueError),
      (\<not> is_aware (cap_expires_at c), ValueError)]"

definition forbidden_workload_env :: "string list" where
  "forbidden_workload_env =
     [''DATABASE_URL'', ''CATALOG_DATABASE_URL'', ''CLOUD_SQL_CONNECTION_NAME'', ''PGPASSWORD'',
      ''RUNPOD_API_KEY'', ''RUNPOD_CONTROL_PLANE_API_KEY'', ''RUNPOD_SERVERLESS_API_KEY'',
      ''CATALOG_WORKER_MODE'', ''CATALOG_POD_ATTEMPT_ID'', ''CATALOG_POD_BEARER_TOKEN'',
      ''CATALOG_POD_BEARER_EXPIRES_AT'', ''CATALOG_POD_IMAGE_DIGEST'', ''CATALOG_POD_REQUEST_SHA256'',
      ''CONTAINER_DIGEST'']"

definition env_key :: "string \<Rightarrow> bool" where
  "env_key s \<longleftrightarrow> 2 \<le> length s \<and> length s \<le> 128 \<and> CHR ''A'' \<le> hd s \<and> hd s \<le> CHR ''Z''
     \<and> list_all (\<lambda>c. (CHR ''A'' \<le> c \<and> c \<le> CHR ''Z'') \<or> is_digit_char c \<or> c = CHR ''_'') s"

definition env_value :: "string \<Rightarrow> bool" where
  "env_value s \<longleftrightarrow> list_all (\<lambda>c. (of_char c :: int) \<notin> {0, 13, 10}) s"

definition validate_attempt_environment :: "(string \<times> string) list \<Rightarrow> py_error option" where
  "validate_attempt_environment env =
     (if (\<exists>(k, v) \<in> set env. \<not> env_key k \<or> \<not> env_value v)
         \<or> (\<exists>(k, v) \<in> set env. k \<in> set forbidden_workload_env)
      then Some ValueError else None)"

record CatalogPodCapacityRequest =
  cr_capacity_id :: string
  cr_cleanup_family_id :: string
  cr_owner_id :: string
  cr_workload_id :: string
  cr_attempt_id :: string
  cr_idempotency_key :: string
  cr_request_sha256 :: string
  cr_workload_kind :: string
  cr_parameters_sha256 :: string
  cr_image_reference :: string
  cr_profile_id :: string
  cr_quote :: PodCapacityQuote
  cr_accepted_max_cost_usd :: amount
  cr_created_at :: datetime
  cr_readiness_deadline :: datetime
  cr_hard_deadline :: datetime
  cr_bearer_expires_at :: datetime
  cr_idle_timeout_seconds :: int
  cr_cleanup_grace_seconds :: int
  cr_attempt_environment :: "(string \<times> string) list"
  cr_artifact_handoff_protocol_version :: "int option"

definition catalog_request_post_init :: "CatalogPodCapacityRequest \<Rightarrow> py_error option" where
  "catalog_request_post_init r = first_error
     ([(case cr_artifact_handoff_protocol_version r of None \<Rightarrow> False | Some v \<Rightarrow> v \<noteq> 1, ValueError)]
      @ map (\<lambda>s. (\<not> safe_identifier s, ValueError))
          [cr_capacity_id r, cr_cleanup_family_id r, cr_owner_id r, cr_workload_id r,
           cr_attempt_id r, cr_idempotency_key r, cr_workload_kind r, cr_profile_id r]
      @ [(\<not> sha256_text (cr_request_sha256 r), ValueError),
         (\<not> sha256_text (cr_parameters_sha256 r), ValueError),
         (cr_parameters_sha256 r \<noteq> qt_parameters_sha256 (cr_quote r), ValueError),
         (cr_workload_kind r \<noteq> qt_workload_kind (cr_quote r), ValueError),
         (cr_accepted_max_cost_usd r \<noteq> qt_cost_ceiling_usd (cr_quote r), ValueError),
         (\<not> pinned_image (cr_image_reference r), ValueError),
         (\<not> is_aware (cr_created_at r), ValueError),
         (\<not> is_aware (cr_readiness_deadline r), ValueError),
         (\<not> is_aware (cr_hard_deadline r), ValueError),
         (\<not> is_aware (cr_bearer_expires_at r), ValueError),
         (qt_expires_at (cr_quote r) \<le> cr_created_at r, ValueError),
         (\<not> (cr_created_at r < cr_readiness_deadline r \<and> cr_readiness_deadline r < cr_hard_deadline r
             \<and> cr_hard_deadline r < cr_bearer_expires_at r), ValueError),
         (dt_add (cr_created_at r) (seconds (24 * 3600)) < cr_bearer_expires_at r, ValueError),
         (cr_idle_timeout_seconds r < 1, ValueError),
         (cr_cleanup_grace_seconds r < 1, ValueError),
         (cr_bearer_expires_at r < dt_add (cr_hard_deadline r) (seconds (cr_cleanup_grace_seconds r)),
           ValueError),
         (dt_add (cr_created_at r) (seconds (qt_maximum_runtime_seconds (cr_quote r))) < cr_hard_deadline r,
           ValueError)]
      @ nested_error (validate_attempt_environment (cr_attempt_environment r)))"

record PodCapacitySpec =
  sp_request :: CatalogPodCapacityRequest
  sp_capability_secret_id :: string
  sp_capability_token_sha256 :: string
  sp_capability_expires_at :: datetime
  sp_attempt_environment_sha256 :: string

definition spec_post_init :: "PodCapacitySpec \<Rightarrow> py_error option" where
  "spec_post_init s = first_error
     [(\<not> safe_identifier (sp_capability_secret_id s), ValueError),
      (\<not> sha256_text (sp_capability_token_sha256 s), ValueError),
      (\<not> sha256_text (sp_attempt_environment_sha256 s), ValueError),
      (\<not> is_aware (sp_capability_expires_at s), ValueError),
      (sp_capability_expires_at s \<noteq> cr_bearer_expires_at (sp_request s), ValueError)]"

text \<open>
  \<^verbatim>\<open>PodCapacitySpec.to_dict\<close> stores the environment keys with every value replaced; a spec read
  back from the store has the replaced values.
\<close>

definition redacted_environment :: "(string \<times> string) list \<Rightarrow> (string \<times> string) list" where
  "redacted_environment env = map (\<lambda>k. (k, ''[REDACTED]'')) (sort (map fst env))"

definition stored_spec :: "PodCapacitySpec \<Rightarrow> PodCapacitySpec" where
  "stored_spec s = s\<lparr>sp_request := (sp_request s)\<lparr>cr_attempt_environment :=
     redacted_environment (cr_attempt_environment (sp_request s))\<rparr>\<rparr>"

section \<open>Canonical dictionaries and fingerprints\<close>

definition jopt :: "('a \<Rightarrow> json) \<Rightarrow> 'a option \<Rightarrow> json" where
  "jopt f x = (case x of None \<Rightarrow> JNull | Some v \<Rightarrow> f v)"

definition jstrs :: "string list \<Rightarrow> json" where
  "jstrs xs = JList (map JStr xs)"

fun product_value :: "ComputeProduct \<Rightarrow> string" where
  "product_value POD = ''POD''"
| "product_value SERVERLESS = ''SERVERLESS''"

definition constraints_to_dict :: "PodCapacityConstraints \<Rightarrow> json" where
  "constraints_to_dict c = JObj
     [(''min_vram_gb'', JInt (cn_min_vram_gb c)),
      (''gpu_count'', JInt (cn_gpu_count c)),
      (''cloud'', JStr (cloud_value (cn_cloud c))),
      (''min_cuda_version'', jopt JStr (cn_min_cuda_version c)),
      (''allowed_gpu_ids'', jstrs (cn_allowed_gpu_ids c)),
      (''allowed_data_center_ids'', jstrs (cn_allowed_data_center_ids c)),
      (''max_hourly_rate_usd'', jopt JAmount (cn_max_hourly_rate_usd c)),
      (''benchmark_id'', JStr (cn_benchmark_id c)),
      (''allowed_products'', jstrs (map product_value (cn_allowed_products c)))]"

definition placement_to_dict :: "PlacementDecision \<Rightarrow> json" where
  "placement_to_dict p = JObj
     [(''gpu_id'', JStr (pd_gpu_id p)),
      (''gpu_pool'', jopt JStr (pd_gpu_pool p)),
      (''gpu_name'', JStr (pd_gpu_name p)),
      (''memory_gb'', JInt (pd_memory_gb p)),
      (''cloud'', JStr (cloud_value (pd_cloud p))),
      (''gpu_count'', JInt (pd_gpu_count p)),
      (''offered_cost_per_hr'', JAmount (pd_offered_cost_per_hr p)),
      (''availability'', jopt (JStr \<circ> availability_value) (pd_availability p)),
      (''catalog_observed_at'', JTime (pd_catalog_observed_at p))]"

definition quote_to_dict :: "PodCapacityQuote \<Rightarrow> json" where
  "quote_to_dict q = JObj
     [(''schema_version'', JInt (qt_schema_version q)),
      (''capability_version'', JStr (qt_capability_version q)),
      (''provider_quote_id'', JStr (qt_provider_quote_id q)),
      (''workload_kind'', JStr (qt_workload_kind q)),
      (''parameters_sha256'', JStr (qt_parameters_sha256 q)),
      (''constraints'', constraints_to_dict (qt_constraints q)),
      (''gpu_type_id'', JStr (qt_gpu_type_id q)),
      (''gpu_display_name'', JStr (qt_gpu_display_name q)),
      (''hourly_cost_usd'', JAmount (qt_hourly_cost_usd q)),
      (''estimated_cost_usd'', JAmount (qt_estimated_cost_usd q)),
      (''cost_ceiling_usd'', JAmount (qt_cost_ceiling_usd q)),
      (''estimated_startup_seconds'', JInt (qt_estimated_startup_seconds q)),
      (''estimated_execution_seconds'', JInt (qt_estimated_execution_seconds q)),
      (''maximum_runtime_seconds'', JInt (qt_maximum_runtime_seconds q)),
      (''observed_at'', JTime (qt_observed_at q)),
      (''expires_at'', JTime (qt_expires_at q)),
      (''placement'', placement_to_dict (qt_placement q))]"

definition protocol_field :: "CatalogPodCapacityRequest \<Rightarrow> (string \<times> json) list" where
  "protocol_field r = (case cr_artifact_handoff_protocol_version r of
     None \<Rightarrow> [] | Some v \<Rightarrow> [(''artifact_handoff_protocol_version'', JInt v)])"

definition catalog_fingerprint :: "(json \<Rightarrow> string) \<Rightarrow> CatalogPodCapacityRequest \<Rightarrow> string" where
  "catalog_fingerprint jsha r = jsha (JObj
     ([(''capacity_id'', JStr (cr_capacity_id r)),
       (''cleanup_family_id'', JStr (cr_cleanup_family_id r)),
       (''owner_id'', JStr (cr_owner_id r)),
       (''workload_id'', JStr (cr_workload_id r)),
       (''attempt_id'', JStr (cr_attempt_id r)),
       (''idempotency_key'', JStr (cr_idempotency_key r)),
       (''request_sha256'', JStr (cr_request_sha256 r)),
       (''workload_kind'', JStr (cr_workload_kind r)),
       (''parameters_sha256'', JStr (cr_parameters_sha256 r)),
       (''image_reference'', JStr (cr_image_reference r)),
       (''profile_id'', JStr (cr_profile_id r)),
       (''provider_quote_id'', JStr (qt_provider_quote_id (cr_quote r))),
       (''accepted_max_cost_usd'', JAmount (cr_accepted_max_cost_usd r)),
       (''created_at'', JTime (cr_created_at r)),
       (''readiness_deadline'', JTime (cr_readiness_deadline r)),
       (''hard_deadline'', JTime (cr_hard_deadline r)),
       (''bearer_expires_at'', JTime (cr_bearer_expires_at r)),
       (''idle_timeout_seconds'', JInt (cr_idle_timeout_seconds r)),
       (''cleanup_grace_seconds'', JInt (cr_cleanup_grace_seconds r)),
       (''attempt_environment_keys'', jstrs (sort (map fst (cr_attempt_environment r))))]
      @ protocol_field r))"

definition pod_capacity_name_text :: "(string \<Rightarrow> string) \<Rightarrow> string \<Rightarrow> string \<Rightarrow> string" where
  "pod_capacity_name_text sha capacity_id request_fingerprint =
     ''kestrel-cap-'' @ take 12 (sha capacity_id) @ ''-'' @ take 12 request_fingerprint"

definition durable_pod_capacity_name ::
    "(string \<Rightarrow> string) \<Rightarrow> string \<Rightarrow> string \<Rightarrow> py_error + string" where
  "durable_pod_capacity_name sha capacity_id request_fingerprint =
     (case first_error [(\<not> safe_identifier capacity_id, ValueError),
                        (\<not> sha256_text request_fingerprint, ValueError)] of
        Some e \<Rightarrow> Inl e
      | None \<Rightarrow> Inr (pod_capacity_name_text sha capacity_id request_fingerprint))"

text \<open>
  A constructed request has a checked capacity id and its fingerprint is a SHA-256 digest, so
  neither check of the name can fail here.
\<close>

definition catalog_resource_name ::
    "(string \<Rightarrow> string) \<Rightarrow> (json \<Rightarrow> string) \<Rightarrow> CatalogPodCapacityRequest \<Rightarrow> string" where
  "catalog_resource_name sha jsha r =
     pod_capacity_name_text sha (cr_capacity_id r) (catalog_fingerprint jsha r)"

definition attempt_environment_sha256 ::
    "(json \<Rightarrow> string) \<Rightarrow> (string \<times> string) list \<Rightarrow> py_error + string" where
  "attempt_environment_sha256 jsha env =
     (case validate_attempt_environment env of
        Some e \<Rightarrow> Inl e
      | None \<Rightarrow> Inr (jsha (JObj (map (\<lambda>(k, v). (k, JStr v)) (sort_key fst env)))))"

text \<open>\<^verbatim>\<open>durable_training_name\<close> and \<^verbatim>\<open>fallback_training_cleanup_token\<close>; the UUID text is an argument.\<close>

definition durable_training_name :: "(string \<Rightarrow> string) \<Rightarrow> string \<Rightarrow> string" where
  "durable_training_name sha cleanup_token = ''kestrel-lora-'' @ take 20 (sha cleanup_token)"

definition fallback_training_cleanup_token :: "(string \<Rightarrow> string) \<Rightarrow> string \<Rightarrow> string \<Rightarrow> string" where
  "fallback_training_cleanup_token uuid5_url root_token profile_id =
     ''training:'' @ uuid5_url (''kestrel-runpod-training'' @ CHR 0x00 # root_token @ CHR 0x00 # profile_id)"

definition spec_to_dict :: "PodCapacitySpec \<Rightarrow> json" where
  "spec_to_dict s = (let r = sp_request s in JObj
     [(''request'', JObj
        ([(''capacity_id'', JStr (cr_capacity_id r)),
          (''cleanup_family_id'', JStr (cr_cleanup_family_id r)),
          (''owner_id'', JStr (cr_owner_id r)),
          (''workload_id'', JStr (cr_workload_id r)),
          (''attempt_id'', JStr (cr_attempt_id r)),
          (''idempotency_key'', JStr (cr_idempotency_key r)),
          (''request_sha256'', JStr (cr_request_sha256 r)),
          (''workload_kind'', JStr (cr_workload_kind r)),
          (''parameters_sha256'', JStr (cr_parameters_sha256 r)),
          (''image_reference'', JStr (cr_image_reference r)),
          (''profile_id'', JStr (cr_profile_id r)),
          (''quote'', quote_to_dict (cr_quote r)),
          (''accepted_max_cost_usd'', JAmount (cr_accepted_max_cost_usd r)),
          (''created_at'', JTime (cr_created_at r)),
          (''readiness_deadline'', JTime (cr_readiness_deadline r)),
          (''hard_deadline'', JTime (cr_hard_deadline r)),
          (''bearer_expires_at'', JTime (cr_bearer_expires_at r)),
          (''idle_timeout_seconds'', JInt (cr_idle_timeout_seconds r)),
          (''cleanup_grace_seconds'', JInt (cr_cleanup_grace_seconds r)),
          (''attempt_environment'', JObj (map (\<lambda>(k, v). (k, JStr v))
             (redacted_environment (cr_attempt_environment r))))]
         @ protocol_field r)),
      (''capability_secret_id'', JStr (sp_capability_secret_id s)),
      (''capability_token_sha256'', JStr (sp_capability_token_sha256 s)),
      (''capability_expires_at'', JTime (sp_capability_expires_at s)),
      (''attempt_environment_sha256'', JStr (sp_attempt_environment_sha256 s))])"

end
