(* ===== verification/Pod_Evidence.thy ===== *)
theory Pod_Evidence
  imports Pod_Contracts
begin

text \<open>
  The evidence half of \<^verbatim>\<open>pod_capacity_contracts.py\<close>: billing receipts, realized placements,
  worker telemetry, first-observation lifecycle timestamps, the artifact handoff, the lease
  request and the lease, with their validation and derived properties.
\<close>

section \<open>Billing receipts\<close>

record PodBillingReceipt =
  pb_provider_billing_id :: string
  pb_provider_pod_id :: "string option"
  pb_billed_from :: datetime
  pb_billed_until :: datetime
  pb_billed_seconds :: int
  pb_hourly_price_usd :: amount
  pb_actual_cost_usd :: amount
  pb_reconciled_at :: datetime

definition receipt_post_init :: "PodBillingReceipt \<Rightarrow> py_error option" where
  "receipt_post_init b = first_error
     [(\<not> safe_identifier (pb_provider_billing_id b), ValueError),
      (case pb_provider_pod_id b of None \<Rightarrow> False | Some p \<Rightarrow> \<not> safe_identifier p, ValueError),
      (\<not> is_aware (pb_billed_from b), ValueError),
      (\<not> is_aware (pb_billed_until b), ValueError),
      (\<not> is_aware (pb_reconciled_at b), ValueError),
      (pb_billed_seconds b < 0 \<or> pb_billed_until b < pb_billed_from b, ValueError),
      (pb_billed_seconds b \<noteq> (usec (pb_billed_until b) - usec (pb_billed_from b)) div 1000000, ValueError),
      (pb_reconciled_at b < pb_billed_until b, ValueError),
      (\<not> finite_amount (pb_hourly_price_usd b) \<or> usd (pb_hourly_price_usd b) < 0
        \<or> \<not> finite_amount (pb_actual_cost_usd b) \<or> usd (pb_actual_cost_usd b) < 0, ValueError),
      (0 < usd (pb_actual_cost_usd b) \<and> pb_provider_pod_id b = None, ValueError),
      (pb_provider_pod_id b = None \<and> (pb_billed_from b \<noteq> pb_billed_until b
        \<or> pb_billed_seconds b \<noteq> 0 \<or> usd (pb_actual_cost_usd b) \<noteq> 0), ValueError)]"

section \<open>Realized placement\<close>

record PodRealizedPlacement =
  rp_provider_pod_id :: string
  rp_gpu_type_id :: string
  rp_gpu_display_name :: string
  rp_gpu_count :: int
  rp_cloud :: CloudType
  rp_data_center_id :: string
  rp_hourly_rate_usd :: amount
  rp_observed_at :: datetime

definition realized_post_init :: "PodRealizedPlacement \<Rightarrow> py_error option" where
  "realized_post_init p = first_error
     [(\<not> safe_identifier (rp_provider_pod_id p), ValueError),
      (\<not> provider_identifier (rp_data_center_id p), ValueError),
      (\<not> display_name (rp_gpu_type_id p), ValueError),
      (\<not> display_name (rp_gpu_display_name p), ValueError),
      (rp_gpu_count p < 1, ValueError),
      (\<not> finite_amount (rp_hourly_rate_usd p) \<or> usd (rp_hourly_rate_usd p) < 0, ValueError),
      (\<not> is_aware (rp_observed_at p), ValueError)]"

text \<open>The whole-Pod rate a quote authorizes.\<close>

definition whole_pod_rate :: "PodCapacityQuote \<Rightarrow> rat" where
  "whole_pod_rate q = dec_mul (usd (qt_hourly_cost_usd q)) (of_int (cn_gpu_count (qt_constraints q)))"

definition validate_against :: "PodRealizedPlacement \<Rightarrow> PodCapacityQuote \<Rightarrow> py_error option" where
  "validate_against p q = first_error
     [(rp_gpu_type_id p \<noteq> qt_gpu_type_id q
       \<or> rp_gpu_display_name p \<noteq> qt_gpu_display_name q
       \<or> rp_gpu_count p \<noteq> cn_gpu_count (qt_constraints q)
       \<or> rp_cloud p \<noteq> cn_cloud (qt_constraints q)
       \<or> whole_pod_rate q < usd (rp_hourly_rate_usd p)
       \<or> (cn_allowed_data_center_ids (qt_constraints q) \<noteq> []
          \<and> rp_data_center_id p \<notin> set (cn_allowed_data_center_ids (qt_constraints q))), ValueError)]"

section \<open>Worker telemetry\<close>

record CatalogWorkerEvidence =
  wk_schema_version :: int
  wk_attempt_id :: string
  wk_request_sha256 :: string
  wk_image_digest :: string
  wk_container_process_started_at :: "datetime option"
  wk_image_pull_and_container_boot_seconds :: "amount option"
  wk_image_pull_seconds :: "amount option"
  wk_container_boot_seconds :: "amount option"
  wk_model_load_seconds :: "amount option"
  wk_execution_seconds :: "amount option"
  wk_training_seconds :: "amount option"
  wk_artifact_upload_seconds :: "amount option"
  wk_peak_vram_bytes :: "int option"
  wk_peak_host_ram_bytes :: "int option"
  wk_gpu_seconds :: "amount option"
  wk_idle_seconds :: "amount option"

definition bad_quantity :: "amount option \<Rightarrow> bool" where
  "bad_quantity x = (case x of None \<Rightarrow> False | Some a \<Rightarrow> \<not> finite_amount a \<or> usd a < 0)"

definition bad_count :: "int option \<Rightarrow> bool" where
  "bad_count x = (case x of None \<Rightarrow> False | Some n \<Rightarrow> n < 0)"

definition worker_post_init :: "CatalogWorkerEvidence \<Rightarrow> py_error option" where
  "worker_post_init k = first_error
     ([(wk_schema_version k \<noteq> 1, ValueError),
       (\<not> safe_identifier (wk_attempt_id k), ValueError),
       (\<not> sha256_text (wk_request_sha256 k), ValueError),
       (\<not> image_digest (wk_image_digest k), ValueError),
       (case wk_container_process_started_at k of None \<Rightarrow> False | Some t \<Rightarrow> \<not> is_aware t, ValueError)]
      @ map (\<lambda>x. (bad_quantity x, ValueError))
          [wk_image_pull_and_container_boot_seconds k, wk_image_pull_seconds k,
           wk_container_boot_seconds k, wk_model_load_seconds k, wk_execution_seconds k,
           wk_training_seconds k, wk_artifact_upload_seconds k]
      @ map (\<lambda>x. (bad_count x, ValueError)) [wk_peak_vram_bytes k, wk_peak_host_ram_bytes k]
      @ map (\<lambda>x. (bad_quantity x, ValueError)) [wk_gpu_seconds k, wk_idle_seconds k]
      @ [((wk_image_pull_seconds k = None) \<noteq> (wk_container_boot_seconds k = None), ValueError),
         (case (wk_image_pull_seconds k, wk_container_boot_seconds k) of
            (Some p, Some b) \<Rightarrow>
              (case wk_image_pull_and_container_boot_seconds k of
                 None \<Rightarrow> True
               | Some c \<Rightarrow> usd c \<noteq> round_sig default_prec (usd p + usd b))
          | _ \<Rightarrow> False, ValueError)])"

section \<open>Lifecycle timestamps\<close>

record PodCapacityLifecycleEvidence =
  lc_reservation_at :: datetime
  lc_provider_create_accepted_at :: "datetime option"
  lc_provider_adopted_at :: "datetime option"
  lc_first_running_observed_at :: "datetime option"
  lc_worker_ready_at :: "datetime option"
  lc_workload_submitted_at :: "datetime option"
  lc_workload_running_at :: "datetime option"
  lc_workload_terminal_at :: "datetime option"
  lc_stop_confirmed_at :: "datetime option"
  lc_billing_reconciled_at :: "datetime option"

definition option_or :: "'a option \<Rightarrow> 'a option \<Rightarrow> 'a option" where
  "option_or x y = (case x of None \<Rightarrow> y | Some _ \<Rightarrow> x)"

definition lifecycle_values :: "PodCapacityLifecycleEvidence \<Rightarrow> datetime option list" where
  "lifecycle_values l =
     [Some (lc_reservation_at l), lc_provider_create_accepted_at l, lc_provider_adopted_at l,
      lc_first_running_observed_at l, lc_worker_ready_at l, lc_workload_submitted_at l,
      lc_workload_running_at l, lc_workload_terminal_at l, lc_stop_confirmed_at l,
      lc_billing_reconciled_at l]"

definition lifecycle_ordered :: "PodCapacityLifecycleEvidence \<Rightarrow> datetime option list" where
  "lifecycle_ordered l =
     [Some (lc_reservation_at l),
      option_or (lc_provider_create_accepted_at l) (lc_provider_adopted_at l),
      lc_first_running_observed_at l, lc_worker_ready_at l, lc_workload_submitted_at l,
      lc_workload_running_at l, lc_workload_terminal_at l, lc_stop_confirmed_at l,
      lc_billing_reconciled_at l]"

definition somes :: "'a option list \<Rightarrow> 'a list" where
  "somes xs = List.map_filter (\<lambda>x. x) xs"

text \<open>\<^verbatim>\<open>any(later < earlier for earlier, later in pairwise(observed))\<close>\<close>

fun runs_backwards :: "datetime list \<Rightarrow> bool" where
  "runs_backwards (a # b # rest) = (b < a \<or> runs_backwards (b # rest))"
| "runs_backwards _ = False"

definition lifecycle_post_init :: "PodCapacityLifecycleEvidence \<Rightarrow> py_error option" where
  "lifecycle_post_init l = first_error
     [(\<exists>t \<in> set (somes (lifecycle_values l)). \<not> is_aware t, ValueError),
      (runs_backwards (somes (lifecycle_ordered l)), ValueError),
      (lc_provider_create_accepted_at l \<noteq> None \<and> lc_provider_adopted_at l \<noteq> None, ValueError)]"

section \<open>Capacity evidence\<close>

record PodCapacityEvidence =
  ev_schema_version :: int
  ev_capacity_id :: string
  ev_resource_name :: string
  ev_provider_quote_id :: string
  ev_catalog_observed_at :: datetime
  ev_attempt_id :: string
  ev_request_sha256 :: string
  ev_image_digest :: string
  ev_accepted_gpu_type_id :: string
  ev_accepted_gpu_display_name :: string
  ev_accepted_gpu_count :: int
  ev_accepted_cloud :: CloudType
  ev_accepted_hourly_rate_usd :: amount
  ev_lifecycle :: PodCapacityLifecycleEvidence
  ev_realized_placement :: "PodRealizedPlacement option"
  ev_worker :: "CatalogWorkerEvidence option"
  ev_billing :: "PodBillingReceipt option"

definition evidence_post_init :: "PodCapacityEvidence \<Rightarrow> py_error option" where
  "evidence_post_init e = first_error
     [(ev_schema_version e \<noteq> 1, ValueError),
      (\<not> safe_identifier (ev_capacity_id e), ValueError),
      (\<not> safe_identifier (ev_resource_name e), ValueError),
      (\<not> safe_identifier (ev_provider_quote_id e), ValueError),
      (\<not> safe_identifier (ev_attempt_id e), ValueError),
      (\<not> display_name (ev_accepted_gpu_type_id e), ValueError),
      (\<not> display_name (ev_accepted_gpu_display_name e), ValueError),
      (\<not> is_aware (ev_catalog_observed_at e), ValueError),
      (\<not> sha256_text (ev_request_sha256 e), ValueError),
      (\<not> image_digest (ev_image_digest e), ValueError),
      (ev_accepted_gpu_count e < 1, ValueError),
      (\<not> positive_amount (ev_accepted_hourly_rate_usd e), ValueError),
      (lc_reservation_at (ev_lifecycle e) < ev_catalog_observed_at e, ValueError),
      (case ev_realized_placement e of None \<Rightarrow> False | Some p \<Rightarrow>
         rp_gpu_type_id p \<noteq> ev_accepted_gpu_type_id e
         \<or> rp_gpu_display_name p \<noteq> ev_accepted_gpu_display_name e
         \<or> rp_gpu_count p \<noteq> ev_accepted_gpu_count e
         \<or> rp_cloud p \<noteq> ev_accepted_cloud e
         \<or> usd (ev_accepted_hourly_rate_usd e) < usd (rp_hourly_rate_usd p), ValueError),
      (case ev_worker e of None \<Rightarrow> False | Some k \<Rightarrow>
         wk_attempt_id k \<noteq> ev_attempt_id e \<or> wk_request_sha256 k \<noteq> ev_request_sha256 e
         \<or> wk_image_digest k \<noteq> ev_image_digest e, ValueError),
      (case ev_billing e of None \<Rightarrow> False | Some b \<Rightarrow>
         (case ev_realized_placement e of None \<Rightarrow> False | Some p \<Rightarrow>
            pb_provider_pod_id b \<noteq> Some (rp_provider_pod_id p)
            \<or> pb_hourly_price_usd b \<noteq> rp_hourly_rate_usd p), ValueError),
      (case ev_billing e of None \<Rightarrow> False | Some b \<Rightarrow>
         (case lc_billing_reconciled_at (ev_lifecycle e) of None \<Rightarrow> False | Some t \<Rightarrow>
            t \<noteq> pb_reconciled_at b), ValueError)]"

definition evidence_from_spec ::
    "(string \<Rightarrow> string) \<Rightarrow> (json \<Rightarrow> string) \<Rightarrow> PodCapacitySpec \<Rightarrow> PodCapacityEvidence" where
  "evidence_from_spec sha jsha s = (let r = sp_request s; q = cr_quote r in
     \<lparr> ev_schema_version = 1, ev_capacity_id = cr_capacity_id r,
       ev_resource_name = catalog_resource_name sha jsha r,
       ev_provider_quote_id = qt_provider_quote_id q, ev_catalog_observed_at = qt_observed_at q,
       ev_attempt_id = cr_attempt_id r, ev_request_sha256 = cr_request_sha256 r,
       ev_image_digest = after_last_at (cr_image_reference r),
       ev_accepted_gpu_type_id = qt_gpu_type_id q,
       ev_accepted_gpu_display_name = qt_gpu_display_name q,
       ev_accepted_gpu_count = cn_gpu_count (qt_constraints q),
       ev_accepted_cloud = cn_cloud (qt_constraints q),
       ev_accepted_hourly_rate_usd = Fin (whole_pod_rate q),
       ev_lifecycle = \<lparr> lc_reservation_at = cr_created_at r,
         lc_provider_create_accepted_at = None, lc_provider_adopted_at = None,
         lc_first_running_observed_at = None, lc_worker_ready_at = None,
         lc_workload_submitted_at = None, lc_workload_running_at = None,
         lc_workload_terminal_at = None, lc_stop_confirmed_at = None,
         lc_billing_reconciled_at = None \<rparr>,
       ev_realized_placement = None, ev_worker = None, ev_billing = None \<rparr>)"

definition evidence_is_complete :: "PodCapacityEvidence \<Rightarrow> bool" where
  "evidence_is_complete e = (let l = ev_lifecycle e in
     ev_realized_placement e \<noteq> None \<and> ev_worker e \<noteq> None
     \<and> (lc_provider_create_accepted_at l \<noteq> None \<or> lc_provider_adopted_at l \<noteq> None)
     \<and> lc_first_running_observed_at l \<noteq> None \<and> lc_worker_ready_at l \<noteq> None
     \<and> lc_workload_submitted_at l \<noteq> None \<and> lc_workload_running_at l \<noteq> None
     \<and> lc_workload_terminal_at l \<noteq> None \<and> lc_billing_reconciled_at l \<noteq> None
     \<and> (case (lc_stop_confirmed_at l, ev_billing e) of
          (Some stopped, Some b) \<Rightarrow> stopped \<le> pb_billed_until b | _ \<Rightarrow> False))"

section \<open>Artifact handoff\<close>

record CatalogArtifactHandoffEvidence =
  ho_attempt_id :: string
  ho_request_sha256 :: string
  ho_result_sha256 :: string
  ho_receipt_sha256 :: string
  ho_acknowledgement_sha256 :: "string option"
  ho_acknowledgement_payload_sha256 :: "string option"
  ho_remote_ack_observed_at :: "datetime option"
  ho_host_confirmation_declared_at :: "datetime option"

definition bad_sha_opt :: "string option \<Rightarrow> bool" where
  "bad_sha_opt x = (case x of None \<Rightarrow> True | Some s \<Rightarrow> \<not> sha256_text s)"

definition bad_time_opt :: "datetime option \<Rightarrow> bool" where
  "bad_time_opt x = (case x of None \<Rightarrow> False | Some t \<Rightarrow> \<not> is_aware t)"

definition handoff_post_init :: "CatalogArtifactHandoffEvidence \<Rightarrow> py_error option" where
  "handoff_post_init h = first_error
     [(\<not> safe_identifier (ho_attempt_id h), ValueError),
      (\<not> sha256_text (ho_request_sha256 h), ValueError),
      (\<not> sha256_text (ho_result_sha256 h), ValueError),
      (\<not> sha256_text (ho_receipt_sha256 h), ValueError),
      ((ho_acknowledgement_sha256 h \<noteq> None \<or> ho_acknowledgement_payload_sha256 h \<noteq> None)
        \<and> (bad_sha_opt (ho_acknowledgement_sha256 h) \<or> bad_sha_opt (ho_acknowledgement_payload_sha256 h)),
        ValueError),
      (bad_time_opt (ho_remote_ack_observed_at h), ValueError),
      (ho_remote_ack_observed_at h \<noteq> None \<and> ho_acknowledgement_sha256 h = None, ValueError),
      (bad_time_opt (ho_host_confirmation_declared_at h), ValueError),
      (ho_host_confirmation_declared_at h \<noteq> None \<and> ho_remote_ack_observed_at h = None, ValueError)]"

definition bind_acknowledgement ::
    "(json \<Rightarrow> string) \<Rightarrow> CatalogArtifactHandoffEvidence \<Rightarrow> json
      \<Rightarrow> py_error + CatalogArtifactHandoffEvidence" where
  "bind_acknowledgement jsha h payload =
     (if jget payload ''attempt_id'' \<noteq> JStr (ho_attempt_id h)
         \<or> jget payload ''request_sha256'' \<noteq> JStr (ho_request_sha256 h)
         \<or> jget payload ''result_sha256'' \<noteq> JStr (ho_result_sha256 h)
         \<or> jget payload ''receipt_sha256'' \<noteq> JStr (ho_receipt_sha256 h)
      then Inl ValueError
      else (case jget payload ''acknowledgement_sha256'' of
          JStr ack_sha \<Rightarrow>
            if \<not> sha256_text ack_sha then Inl ValueError
            else let payload_sha = jsha payload in
              if ho_acknowledgement_sha256 h \<noteq> None
                 \<and> (Some ack_sha \<noteq> ho_acknowledgement_sha256 h
                    \<or> Some payload_sha \<noteq> ho_acknowledgement_payload_sha256 h)
              then Inl ValueError
              else let bound = h\<lparr>ho_acknowledgement_sha256 := Some ack_sha,
                                  ho_acknowledgement_payload_sha256 := Some payload_sha\<rparr> in
                (case handoff_post_init bound of Some e \<Rightarrow> Inl e | None \<Rightarrow> Inr bound)
        | _ \<Rightarrow> Inl ValueError))"

section \<open>Lease requests\<close>

record TrainingPodRequest =
  tr_cleanup_token :: string
  tr_root_cleanup_token :: string
  tr_companion_id :: string
  tr_profile_id :: string
  tr_source :: TrainingPodSource
  tr_resource_name :: string
  tr_provider_pod_id :: "string option"
  tr_created_at :: datetime
  tr_readiness_deadline :: datetime
  tr_hard_deadline :: datetime
  tr_capacity_spec :: "PodCapacitySpec option"

definition request_post_init ::
    "(string \<Rightarrow> string) \<Rightarrow> (json \<Rightarrow> string) \<Rightarrow> TrainingPodRequest \<Rightarrow> py_error option" where
  "request_post_init sha jsha r = first_error
     (map (\<lambda>s. (\<not> nonblank s, ValueError))
        [tr_cleanup_token r, tr_root_cleanup_token r, tr_companion_id r, tr_profile_id r,
         tr_resource_name r]
      @ [(\<not> safe_identifier (tr_cleanup_token r), ValueError),
         (\<not> safe_identifier (tr_root_cleanup_token r), ValueError),
         (case tr_provider_pod_id r of None \<Rightarrow> False | Some p \<Rightarrow> \<not> nonblank p, ValueError),
         (\<not> is_aware (tr_created_at r), ValueError),
         (\<not> is_aware (tr_readiness_deadline r), ValueError),
         (\<not> is_aware (tr_hard_deadline r), ValueError),
         (tr_readiness_deadline r \<le> tr_created_at r, ValueError),
         (tr_hard_deadline r \<le> tr_readiness_deadline r, ValueError),
         (tr_source r = CREATED \<and> tr_provider_pod_id r \<noteq> None, ValueError),
         (tr_source r \<noteq> CREATED \<and> tr_provider_pod_id r = None, ValueError),
         (tr_capacity_spec r \<noteq> None \<and> tr_source r \<noteq> CREATED, ValueError),
         (case tr_capacity_spec r of None \<Rightarrow> False | Some s \<Rightarrow> (let c = sp_request s in
            tr_cleanup_token r \<noteq> cr_capacity_id c
            \<or> tr_root_cleanup_token r \<noteq> cr_cleanup_family_id c
            \<or> tr_companion_id r \<noteq> cr_owner_id c
            \<or> tr_profile_id r \<noteq> cr_profile_id c
            \<or> tr_resource_name r \<noteq> catalog_resource_name sha jsha c
            \<or> tr_created_at r \<noteq> cr_created_at c
            \<or> tr_readiness_deadline r \<noteq> cr_readiness_deadline c
            \<or> tr_hard_deadline r \<noteq> cr_hard_deadline c), ValueError)])"

fun source_value :: "TrainingPodSource \<Rightarrow> string" where
  "source_value CONFIGURED_PERSISTENT = ''configured_persistent''"
| "source_value STOPPED_REUSE = ''stopped_reuse''"
| "source_value CREATED = ''created''"

definition request_fingerprint :: "(json \<Rightarrow> string) \<Rightarrow> TrainingPodRequest \<Rightarrow> string" where
  "request_fingerprint jsha r = jsha (JObj
     ([(''cleanup_token'', JStr (tr_cleanup_token r)),
       (''companion_id'', JStr (tr_companion_id r)),
       (''profile_id'', JStr (tr_profile_id r)),
       (''source'', JStr (source_value (tr_source r))),
       (''resource_name'', JStr (tr_resource_name r)),
       (''provider_pod_id'', jopt JStr (tr_provider_pod_id r)),
       (''readiness_deadline'', JTime (tr_readiness_deadline r)),
       (''hard_deadline'', JTime (tr_hard_deadline r))]
      @ (if tr_root_cleanup_token r \<noteq> tr_cleanup_token r
         then [(''root_cleanup_token'', JStr (tr_root_cleanup_token r))] else [])
      @ (case tr_capacity_spec r of None \<Rightarrow> [] | Some s \<Rightarrow> [(''capacity_spec'', spec_to_dict s)])))"

section \<open>Leases\<close>

record TrainingPodLease =
  l_cleanup_token :: string
  l_root_cleanup_token :: string
  l_request_fingerprint :: string
  l_companion_id :: string
  l_profile_id :: string
  l_source :: TrainingPodSource
  l_resource_name :: string
  l_provider_pod_id :: "string option"
  l_ownership :: TrainingPodOwnership
  l_state :: TrainingPodState
  l_cleanup_state :: TrainingPodCleanupState
  l_family_release_requested :: bool
  l_family_release_complete :: bool
  l_creation_uncertain :: bool
  l_backend_base_url :: "string option"
  l_provider_job_id :: "string option"
  l_created_at :: datetime
  l_updated_at :: datetime
  l_last_heartbeat_at :: datetime
  l_readiness_deadline :: datetime
  l_hard_deadline :: datetime
  l_last_provider_error :: "string option"
  l_stop_attempts :: int
  l_revision :: int
  l_capacity_spec :: "PodCapacitySpec option"
  l_workload_state :: CatalogPodWorkloadState
  l_workload_error_type :: "string option"
  l_billing_state :: PodCapacityBillingState
  l_billing_receipt :: "PodBillingReceipt option"
  l_terminated_at :: "datetime option"
  l_evidence :: "PodCapacityEvidence option"
  l_artifact_handoff :: "CatalogArtifactHandoffEvidence option"

definition protocol_of :: "PodCapacitySpec \<Rightarrow> int option" where
  "protocol_of s = cr_artifact_handoff_protocol_version (sp_request s)"

definition lease_post_init :: "TrainingPodLease \<Rightarrow> py_error option" where
  "lease_post_init l = first_error
     [(case l_artifact_handoff l of None \<Rightarrow> False | Some h \<Rightarrow>
         (case l_capacity_spec l of None \<Rightarrow> True | Some s \<Rightarrow> protocol_of s \<noteq> Some 1), ValueError),
      (case (l_artifact_handoff l, l_capacity_spec l) of (Some h, Some s) \<Rightarrow>
         ho_attempt_id h \<noteq> cr_attempt_id (sp_request s)
         \<or> ho_request_sha256 h \<noteq> cr_request_sha256 (sp_request s) | _ \<Rightarrow> False, ValueError),
      (l_workload_state l \<in> {W_AWAITING_ACK, W_ACKNOWLEDGED} \<and> l_artifact_handoff l = None, ValueError),
      (l_workload_state l = W_ACKNOWLEDGED \<and>
         (case l_artifact_handoff l of None \<Rightarrow> False | Some h \<Rightarrow> ho_remote_ack_observed_at h = None),
        ValueError)]"

definition is_terminal :: "TrainingPodLease \<Rightarrow> bool" where
  "is_terminal l \<longleftrightarrow> l_state l = S_RELEASED"

definition owns_billing_capacity :: "TrainingPodLease \<Rightarrow> bool" where
  "owns_billing_capacity l \<longleftrightarrow> l_ownership l \<in> {O_PROVISIONAL, O_OWNED} \<and> \<not> is_terminal l"

definition is_catalog_attempt :: "TrainingPodLease \<Rightarrow> bool" where
  "is_catalog_attempt l \<longleftrightarrow> l_capacity_spec l \<noteq> None"

definition settlement_ready :: "TrainingPodLease \<Rightarrow> bool" where
  "settlement_ready l \<longleftrightarrow>
     is_terminal l \<and> l_billing_state l = B_AUTHORITATIVE \<and> l_billing_receipt l \<noteq> None"

definition terminal_success_evidence_complete :: "TrainingPodLease \<Rightarrow> bool" where
  "terminal_success_evidence_complete l \<longleftrightarrow>
     (let protocol = (case l_capacity_spec l of None \<Rightarrow> None | Some s \<Rightarrow> protocol_of s);
          success = (if protocol = None then l_workload_state l = W_SUCCEEDED
            else l_workload_state l = W_ACKNOWLEDGED
              \<and> (case l_artifact_handoff l of None \<Rightarrow> False | Some h \<Rightarrow>
                   ho_remote_ack_observed_at h \<noteq> None \<and> ho_host_confirmation_declared_at h \<noteq> None))
      in success \<and> settlement_ready l
         \<and> (case l_evidence l of None \<Rightarrow> False | Some e \<Rightarrow> evidence_is_complete e))"

end
