(* ===== verification/Pod_Repository.thy ===== *)
theory Pod_Repository
  imports Pod_Evidence
begin

text \<open>
  The SQLite lease store of \<^verbatim>\<open>pod_capacity_repository.py\<close>.  The table is the list of its rows in
  insertion order; a row holds the decoded column values.  Every transaction may be preceded by
  committed transactions of other processes: the interference argument of the environment
  replaces the table before each transaction.
\<close>

section \<open>Definitions\<close>

subsection \<open>Environment and state\<close>

text \<open>The provider mutations and secret revocations a run has performed, oldest first.\<close>

datatype effect =
    EffStart string
  | EffCreate string
  | EffStop string
  | EffTerminate string
  | EffRevoke string
  | EffSubmit string
  | EffAck string
  | EffCancelWork string

record world =
  w_table :: "TrainingPodLease list"
  w_tick :: nat
  w_effects :: "effect list"

record repo_env =
  re_interfere :: "nat \<Rightarrow> TrainingPodLease list \<Rightarrow> TrainingPodLease list"
  re_wall_clock :: "nat \<Rightarrow> datetime"
  re_sha :: "string \<Rightarrow> string"
  re_jsha :: "json \<Rightarrow> string"

definition begin_transaction :: "('e repo_env_scheme) \<Rightarrow> world \<Rightarrow> world" where
  "begin_transaction E w =
     w\<lparr>w_table := re_interfere E (w_tick w) (w_table w), w_tick := Suc (w_tick w)\<rparr>"

subsection \<open>Decoding a row\<close>

definition opt_error :: "('a \<Rightarrow> py_error option) \<Rightarrow> 'a option \<Rightarrow> (bool \<times> py_error) list" where
  "opt_error f x = (case x of None \<Rightarrow> [] | Some v \<Rightarrow> nested_error (f v))"

definition spec_errors :: "PodCapacitySpec \<Rightarrow> py_error option" where
  "spec_errors s = first_error
     (nested_error (constraints_post_init (qt_constraints (cr_quote (sp_request s))))
      @ nested_error (quote_post_init (cr_quote (sp_request s)))
      @ nested_error (catalog_request_post_init (sp_request s))
      @ nested_error (spec_post_init s))"

definition evidence_errors :: "PodCapacityEvidence \<Rightarrow> py_error option" where
  "evidence_errors e = first_error
     (nested_error (lifecycle_post_init (ev_lifecycle e))
      @ opt_error realized_post_init (ev_realized_placement e)
      @ opt_error worker_post_init (ev_worker e)
      @ opt_error receipt_post_init (ev_billing e)
      @ nested_error (evidence_post_init e))"

definition lease_from_row :: "TrainingPodLease \<Rightarrow> py_error + TrainingPodLease" where
  "lease_from_row r =
     (case first_error
        (opt_error receipt_post_init (l_billing_receipt r)
         @ opt_error evidence_errors (l_evidence r)
         @ [(case l_evidence r of None \<Rightarrow> False | Some e \<Rightarrow> ev_billing e \<noteq> l_billing_receipt r,
              RunPodManagerError)]
         @ opt_error spec_errors (l_capacity_spec r)
         @ opt_error handoff_post_init (l_artifact_handoff r)
         @ nested_error (lease_post_init r)) of
        Some e \<Rightarrow> Inl e
      | None \<Rightarrow> Inr r)"

fun leases_from_rows :: "TrainingPodLease list \<Rightarrow> py_error + TrainingPodLease list" where
  "leases_from_rows [] = Inr []"
| "leases_from_rows (r # rs) =
     (case lease_from_row r of
        Inl e \<Rightarrow> Inl e
      | Inr l \<Rightarrow> (case leases_from_rows rs of Inl e \<Rightarrow> Inl e | Inr ls \<Rightarrow> Inr (l # ls)))"

subsection \<open>Column updates\<close>

text \<open>\<^verbatim>\<open>_COLUMNS\<close>: the columns an update may set; every other column is fixed at insertion.\<close>

datatype column_change =
    Ch_provider_pod_id "string option"
  | Ch_ownership TrainingPodOwnership
  | Ch_state TrainingPodState
  | Ch_cleanup_state TrainingPodCleanupState
  | Ch_family_release_requested bool
  | Ch_family_release_complete bool
  | Ch_creation_uncertain bool
  | Ch_backend_base_url "string option"
  | Ch_provider_job_id "string option"
  | Ch_updated_at datetime
  | Ch_last_heartbeat_at datetime
  | Ch_last_provider_error "string option"
  | Ch_stop_attempts int
  | Ch_workload_state CatalogPodWorkloadState
  | Ch_workload_error_type "string option"
  | Ch_billing_state PodCapacityBillingState
  | Ch_billing_receipt "PodBillingReceipt option"
  | Ch_terminated_at "datetime option"
  | Ch_evidence "PodCapacityEvidence option"
  | Ch_artifact_handoff "CatalogArtifactHandoffEvidence option"

fun apply_change :: "column_change \<Rightarrow> TrainingPodLease \<Rightarrow> TrainingPodLease" where
  "apply_change (Ch_provider_pod_id x) r = r\<lparr>l_provider_pod_id := x\<rparr>"
| "apply_change (Ch_ownership x) r = r\<lparr>l_ownership := x\<rparr>"
| "apply_change (Ch_state x) r = r\<lparr>l_state := x\<rparr>"
| "apply_change (Ch_cleanup_state x) r = r\<lparr>l_cleanup_state := x\<rparr>"
| "apply_change (Ch_family_release_requested x) r = r\<lparr>l_family_release_requested := x\<rparr>"
| "apply_change (Ch_family_release_complete x) r = r\<lparr>l_family_release_complete := x\<rparr>"
| "apply_change (Ch_creation_uncertain x) r = r\<lparr>l_creation_uncertain := x\<rparr>"
| "apply_change (Ch_backend_base_url x) r = r\<lparr>l_backend_base_url := x\<rparr>"
| "apply_change (Ch_provider_job_id x) r = r\<lparr>l_provider_job_id := x\<rparr>"
| "apply_change (Ch_updated_at x) r = r\<lparr>l_updated_at := x\<rparr>"
| "apply_change (Ch_last_heartbeat_at x) r = r\<lparr>l_last_heartbeat_at := x\<rparr>"
| "apply_change (Ch_last_provider_error x) r = r\<lparr>l_last_provider_error := x\<rparr>"
| "apply_change (Ch_stop_attempts x) r = r\<lparr>l_stop_attempts := x\<rparr>"
| "apply_change (Ch_workload_state x) r = r\<lparr>l_workload_state := x\<rparr>"
| "apply_change (Ch_workload_error_type x) r = r\<lparr>l_workload_error_type := x\<rparr>"
| "apply_change (Ch_billing_state x) r = r\<lparr>l_billing_state := x\<rparr>"
| "apply_change (Ch_billing_receipt x) r = r\<lparr>l_billing_receipt := x\<rparr>"
| "apply_change (Ch_terminated_at x) r = r\<lparr>l_terminated_at := x\<rparr>"
| "apply_change (Ch_evidence x) r = r\<lparr>l_evidence := x\<rparr>"
| "apply_change (Ch_artifact_handoff x) r = r\<lparr>l_artifact_handoff := x\<rparr>"

definition apply_changes :: "column_change list \<Rightarrow> TrainingPodLease \<Rightarrow> TrainingPodLease" where
  "apply_changes cs r = fold apply_change cs r"

subsection \<open>Table operations\<close>

definition row_at :: "TrainingPodLease list \<Rightarrow> string \<Rightarrow> TrainingPodLease option" where
  "row_at t k = find (\<lambda>r. l_cleanup_token r = k) t"

text \<open>
  The three partial unique indexes: active resource name, active provider Pod, active cleanup
  family.  \<open>clashes x r\<close>: the active rows \<open>x\<close> and \<open>r\<close> of different leases violate one of them.
\<close>

definition clashes :: "TrainingPodLease \<Rightarrow> TrainingPodLease \<Rightarrow> bool" where
  "clashes x r \<longleftrightarrow> l_cleanup_token x \<noteq> l_cleanup_token r
     \<and> l_state x \<noteq> S_RELEASED \<and> l_state r \<noteq> S_RELEASED
     \<and> (l_resource_name x = l_resource_name r
        \<or> (l_provider_pod_id x \<noteq> None \<and> l_provider_pod_id x = l_provider_pod_id r)
        \<or> l_root_cleanup_token x = l_root_cleanup_token r)"

definition integrity_error :: "TrainingPodLease list \<Rightarrow> TrainingPodLease \<Rightarrow> bool" where
  "integrity_error t r \<longleftrightarrow> (\<exists>x \<in> set t. clashes x r)"

definition update_row :: "TrainingPodLease list \<Rightarrow> TrainingPodLease \<Rightarrow> TrainingPodLease list" where
  "update_row t r' = map (\<lambda>r. if l_cleanup_token r = l_cleanup_token r' then r' else r) t"

text \<open>\<^verbatim>\<open>UPDATE ... SET ..., revision = revision + 1 WHERE cleanup_token = ? AND revision = ?\<close>\<close>

definition table_cas :: "TrainingPodLease list \<Rightarrow> string \<Rightarrow> int \<Rightarrow> column_change list
    \<Rightarrow> py_error + (TrainingPodLease \<times> TrainingPodLease list)" where
  "table_cas t k n changes =
     (case find (\<lambda>r. l_cleanup_token r = k \<and> l_revision r = n) t of
        None \<Rightarrow> Inl TrainingPodConflictError
      | Some r \<Rightarrow>
          let r' = (apply_changes changes r)\<lparr>l_revision := l_revision r + 1\<rparr> in
          if integrity_error t r' then Inl TrainingPodConflictError
          else Inr (r', update_row t r'))"

subsection \<open>Repository methods\<close>

fun sets_updated_at :: "column_change \<Rightarrow> bool" where
  "sets_updated_at (Ch_updated_at t) = True"
| "sets_updated_at c = False"

definition compare_and_set :: "('e repo_env_scheme) \<Rightarrow> TrainingPodLease \<Rightarrow> column_change list
    \<Rightarrow> (world, TrainingPodLease) prog" where
  "compare_and_set E lease changes = (\<lambda>w0.
     let w = begin_transaction E w0;
         serialized = (if list_ex sets_updated_at changes then changes
           else changes @ [Ch_updated_at (re_wall_clock E (w_tick w0))])
     in case table_cas (w_table w) (l_cleanup_token lease) (l_revision lease) serialized of
          Inl e \<Rightarrow> (Inl e, w)
        | Inr (r', t') \<Rightarrow> (lease_from_row r', w\<lparr>w_table := t'\<rparr>))"

definition repo_get :: "('e repo_env_scheme) \<Rightarrow> string \<Rightarrow> (world, TrainingPodLease option) prog" where
  "repo_get E k = (\<lambda>w0. let w = begin_transaction E w0 in
     case row_at (w_table w) k of
       None \<Rightarrow> (Inr None, w)
     | Some r \<Rightarrow> (case lease_from_row r of Inl e \<Rightarrow> (Inl e, w) | Inr l \<Rightarrow> (Inr (Some l), w)))"

definition select_rows :: "('e repo_env_scheme) \<Rightarrow> (TrainingPodLease list \<Rightarrow> TrainingPodLease list)
    \<Rightarrow> (world, TrainingPodLease list) prog" where
  "select_rows E query = (\<lambda>w0. let w = begin_transaction E w0 in
     (leases_from_rows (query (w_table w)), w))"

definition family_order :: "TrainingPodLease \<Rightarrow> datetime \<times> string" where
  "family_order r = (l_created_at r, l_cleanup_token r)"

definition list_cleanup_family :: "('e repo_env_scheme) \<Rightarrow> string \<Rightarrow> string list
    \<Rightarrow> (world, TrainingPodLease list) prog" where
  "list_cleanup_family E root_token legacy_tokens =
     (let candidate_tokens = dict_fromkeys (root_token # legacy_tokens) in
      select_rows E (\<lambda>t. sort_key family_order
        (filter (\<lambda>r. l_root_cleanup_token r = root_token \<or> l_cleanup_token r \<in> set candidate_tokens) t)))"

definition list_incomplete_family_releases ::
    "('e repo_env_scheme) \<Rightarrow> (world, TrainingPodLease list) prog" where
  "list_incomplete_family_releases E =
     select_rows E (\<lambda>t. sort_key family_order
       (filter (\<lambda>r. l_cleanup_token r = l_root_cleanup_token r
          \<and> l_family_release_requested r \<and> \<not> l_family_release_complete r) t))"

definition list_for_reconciliation :: "('e repo_env_scheme) \<Rightarrow> (world, TrainingPodLease list) prog" where
  "list_for_reconciliation E =
     select_rows E (\<lambda>t. sort_key l_created_at
       (filter (\<lambda>r. l_state r \<noteq> S_RELEASED \<or> l_billing_state r \<in> {B_PENDING, B_UNRESOLVED}) t))"

subsection \<open>Reservation\<close>

definition new_row :: "('e repo_env_scheme) \<Rightarrow> TrainingPodRequest \<Rightarrow> TrainingPodLease" where
  "new_row E q =
     \<lparr> l_cleanup_token = tr_cleanup_token q, l_root_cleanup_token = tr_root_cleanup_token q,
       l_request_fingerprint = request_fingerprint (re_jsha E) q,
       l_companion_id = tr_companion_id q, l_profile_id = tr_profile_id q, l_source = tr_source q,
       l_resource_name = tr_resource_name q, l_provider_pod_id = tr_provider_pod_id q,
       l_ownership = O_PROVISIONAL, l_state = S_REQUESTED, l_cleanup_state = C_NOT_REQUESTED,
       l_family_release_requested = False, l_family_release_complete = False,
       l_creation_uncertain = False, l_backend_base_url = None, l_provider_job_id = None,
       l_created_at = tr_created_at q, l_updated_at = tr_created_at q,
       l_last_heartbeat_at = tr_created_at q, l_readiness_deadline = tr_readiness_deadline q,
       l_hard_deadline = tr_hard_deadline q, l_last_provider_error = None, l_stop_attempts = 0,
       l_revision = 0, l_capacity_spec = map_option stored_spec (tr_capacity_spec q),
       l_workload_state = W_NOT_SUBMITTED, l_workload_error_type = None,
       l_billing_state = (if tr_capacity_spec q \<noteq> None then B_PENDING else B_NOT_APPLICABLE),
       l_billing_receipt = None, l_terminated_at = None,
       l_evidence = map_option (evidence_from_spec (re_sha E) (re_jsha E)) (tr_capacity_spec q),
       l_artifact_handoff = None \<rparr>"

text \<open>The lookup of the family root that a fallback attempt needs before it may be inserted.\<close>

definition family_guard :: "TrainingPodLease list \<Rightarrow> TrainingPodRequest \<Rightarrow> bool" where
  "family_guard t q \<longleftrightarrow> tr_root_cleanup_token q = tr_cleanup_token q \<or>
     (case find (\<lambda>r. l_cleanup_token r = tr_root_cleanup_token q
               \<and> l_root_cleanup_token r = l_cleanup_token r) t of
        None \<Rightarrow> False
      | Some family_root \<Rightarrow> \<not> l_family_release_requested family_root)"

definition table_reserve :: "TrainingPodLease list \<Rightarrow> TrainingPodRequest \<Rightarrow> TrainingPodLease
    \<Rightarrow> py_error + (TrainingPodLease \<times> bool \<times> TrainingPodLease list)" where
  "table_reserve t q row =
     (if \<not> family_guard t q then Inl TrainingPodConflictError
      else (case row_at t (tr_cleanup_token q) of
          Some existing \<Rightarrow> Inr (existing, False, t)
        | None \<Rightarrow> if integrity_error t row then Inl TrainingPodConflictError
                  else Inr (row, True, t @ [row])))"

definition reserve :: "('e repo_env_scheme) \<Rightarrow> TrainingPodRequest
    \<Rightarrow> (world, TrainingPodLease \<times> bool) prog" where
  "reserve E q = (\<lambda>w0.
     case (case tr_capacity_spec q of None \<Rightarrow> None
             | Some s \<Rightarrow> evidence_errors (evidence_from_spec (re_sha E) (re_jsha E) s)) of
       Some e \<Rightarrow> (Inl e, w0)
     | None \<Rightarrow>
         let w = begin_transaction E w0 in
         (case table_reserve (w_table w) q (new_row E q) of
            Inl e \<Rightarrow> (Inl e, w)
          | Inr (row, inserted, t') \<Rightarrow>
              let w' = w\<lparr>w_table := t'\<rparr> in
              (case lease_from_row row of
                 Inl e \<Rightarrow> (Inl e, w')
               | Inr lease \<Rightarrow>
                   if l_request_fingerprint lease \<noteq> request_fingerprint (re_jsha E) q
                   then (Inl TrainingPodConflictError, w') else (Inr (lease, inserted), w'))))"

section \<open>Identity columns\<close>

definition identity_columns :: "TrainingPodLease \<Rightarrow> (string \<times> string \<times> string \<times> string \<times> string)
    \<times> (TrainingPodSource \<times> string) \<times> (datetime \<times> datetime \<times> datetime) \<times> PodCapacitySpec option" where
  "identity_columns r =
     ((l_cleanup_token r, l_root_cleanup_token r, l_request_fingerprint r, l_companion_id r, l_profile_id r),
      (l_source r, l_resource_name r), (l_created_at r, l_readiness_deadline r, l_hard_deadline r),
      l_capacity_spec r)"

lemma apply_change_fixed: "identity_columns (apply_change c r) = identity_columns r
    \<and> l_revision (apply_change c r) = l_revision r"
  by (cases c) (simp_all add: identity_columns_def)

lemma apply_changes_fixed:
  "identity_columns (apply_changes cs r) = identity_columns r" "l_revision (apply_changes cs r) = l_revision r"
  unfolding apply_changes_def by (induction cs arbitrary: r) (simp_all add: apply_change_fixed)

lemma identity_columns_revision [simp]: "identity_columns (r\<lparr>l_revision := n\<rparr>) = identity_columns r"
  by (simp add: identity_columns_def)

lemma identity_columnsD:
  assumes "identity_columns r = identity_columns r'"
  shows "l_cleanup_token r = l_cleanup_token r'" "l_root_cleanup_token r = l_root_cleanup_token r'"
    "l_request_fingerprint r = l_request_fingerprint r'" "l_companion_id r = l_companion_id r'"
    "l_profile_id r = l_profile_id r'" "l_source r = l_source r'" "l_resource_name r = l_resource_name r'"
    "l_created_at r = l_created_at r'" "l_readiness_deadline r = l_readiness_deadline r'"
    "l_hard_deadline r = l_hard_deadline r'" "l_capacity_spec r = l_capacity_spec r'"
  using assms by (simp_all add: identity_columns_def)

lemmas apply_changes_columns [simp] = identity_columnsD [OF apply_changes_fixed(1)] apply_changes_fixed(2)

section \<open>The store contract\<close>

text \<open>
  What the lease service relies on: a compare-and-set either fails and leaves the store alone,
  or replaces exactly the addressed row, whose revision was the expected one, by a row with the
  next revision.
\<close>

locale cas_store =
  fixes wf :: "'s \<Rightarrow> bool" and get :: "'s \<Rightarrow> 'k \<Rightarrow> 'v option"
    and cas :: "'s \<Rightarrow> 'k \<Rightarrow> int \<Rightarrow> 'c \<Rightarrow> 'e + ('v \<times> 's)" and rev :: "'v \<Rightarrow> int"
  assumes cas_replaces: "wf s \<Longrightarrow> cas s k n c = Inr (v', s') \<Longrightarrow>
      (\<exists>v. get s k = Some v \<and> rev v = n) \<and> rev v' = n + 1 \<and> get s' = (get s)(k \<mapsto> v') \<and> wf s'"
begin

lemma cas_get: "wf s \<Longrightarrow> cas s k n c = Inr (v', s') \<Longrightarrow> get s' k = Some v'"
  using cas_replaces by fastforce

lemma cas_frame: "wf s \<Longrightarrow> cas s k n c = Inr (v', s') \<Longrightarrow> j \<noteq> k \<Longrightarrow> get s' j = get s j"
  using cas_replaces by fastforce

lemma stale_cas_fails:
  assumes "wf s" "cas s k n c = Inr (v', s')" "m \<le> n"
  shows "\<exists>e. cas s' k m d = Inl e"
proof (cases "cas s' k m d")
  case (Inr r)
  then obtain v'' s'' where 2: "cas s' k m d = Inr (v'', s'')" by (cases r) auto
  from cas_replaces [OF assms(1,2)] have "get s' k = Some v'" "rev v' = n + 1" "wf s'" by auto
  with cas_replaces [OF \<open>wf s'\<close> 2] assms(3) show ?thesis by auto
qed simp

end

definition table_wf :: "TrainingPodLease list \<Rightarrow> bool" where
  "table_wf t \<longleftrightarrow> distinct (map l_cleanup_token t) \<and> (\<forall>x \<in> set t. \<forall>y \<in> set t. \<not> clashes x y)"

lemma clashes_sym: "clashes x y \<longleftrightarrow> clashes y x"
  unfolding clashes_def by metis

lemma row_at_Some: "row_at t k = Some r \<Longrightarrow> r \<in> set t \<and> l_cleanup_token r = k"
  unfolding row_at_def by (auto dest: find_Some_mem)

lemma row_at_mem: "table_wf t \<Longrightarrow> r \<in> set t \<Longrightarrow> row_at t (l_cleanup_token r) = Some r"
  unfolding row_at_def table_wf_def by (rule find_distinct_key) auto

lemma find_row: "table_wf t \<Longrightarrow> find (\<lambda>r. l_cleanup_token r = k \<and> P r) t
    = (case row_at t k of None \<Rightarrow> None | Some r \<Rightarrow> if P r then Some r else None)"
proof -
  assume "table_wf t"
  then have "distinct (map l_cleanup_token t)" by (simp add: table_wf_def)
  then show ?thesis
  proof (induction t)
    case Nil
    then show ?case by (simp add: row_at_def)
  next
    case (Cons x t)
    from Cons.prems have "\<forall>r \<in> set t. l_cleanup_token x \<noteq> l_cleanup_token r"
      by (simp add: image_iff)
    then have "find (\<lambda>r. l_cleanup_token r = l_cleanup_token x \<and> P r) t = None"
      by (force simp: find_None_iff)
    with Cons show ?case by (cases "l_cleanup_token x = k") (auto simp: row_at_def)
  qed
qed

lemma update_row_tokens [simp]: "map l_cleanup_token (update_row t r') = map l_cleanup_token t"
  by (auto simp: update_row_def)

lemma set_update_row:
  "x \<in> set (update_row t r') \<Longrightarrow> x = r' \<or> (x \<in> set t \<and> l_cleanup_token x \<noteq> l_cleanup_token r')"
  by (auto simp: update_row_def split: if_splits)

lemma row_at_update: "r \<in> set t \<Longrightarrow> l_cleanup_token r = l_cleanup_token r' \<Longrightarrow>
    row_at (update_row t r') = (row_at t)(l_cleanup_token r' \<mapsto> r')"
proof
  fix k
  assume r: "r \<in> set t" "l_cleanup_token r = l_cleanup_token r'"
  show "row_at (update_row t r') k = ((row_at t)(l_cleanup_token r' \<mapsto> r')) k"
  proof (cases "k = l_cleanup_token r'")
    case True
    have "find (\<lambda>x. l_cleanup_token x = k) (update_row t r') = Some r'"
      using r True unfolding update_row_def by (induction t) auto
    then show ?thesis using True by (simp add: row_at_def)
  next
    case False
    then show ?thesis unfolding row_at_def update_row_def by (induction t) auto
  qed
qed

lemma table_cas_Inr:
  assumes wf: "table_wf t" and cas: "table_cas t k n cs = Inr (r', t')"
  obtains r where "row_at t k = Some r" "l_revision r = n"
    "r' = (apply_changes cs r)\<lparr>l_revision := n + 1\<rparr>" "t' = update_row t r'"
    "row_at t' = (row_at t)(k \<mapsto> r')" "table_wf t'"
proof -
  from cas obtain r where r: "row_at t k = Some r" "l_revision r = n"
    "r' = (apply_changes cs r)\<lparr>l_revision := n + 1\<rparr>" "t' = update_row t r'" "\<not> integrity_error t r'"
    unfolding table_cas_def find_row [OF wf] Let_def by (auto split: option.splits if_splits)
  have mem: "r \<in> set t" "l_cleanup_token r = k" using row_at_Some [OF r(1)] by auto
  have key: "l_cleanup_token r' = k" using mem(2) by (simp add: r(3))
  have "row_at t' = (row_at t)(k \<mapsto> r')"
    using row_at_update [of r t r'] mem key by (simp add: r(4))
  moreover have "table_wf t'"
    using wf r(5) unfolding table_wf_def integrity_error_def r(4)
    by (auto dest!: set_update_row simp: clashes_sym) (auto simp: clashes_def)
  ultimately show ?thesis using that r by blast
qed

interpretation lease_store: cas_store table_wf row_at table_cas l_revision
proof
  fix s k n c v' s'
  assume "table_wf s" "table_cas s k n c = Inr (v', s')"
  then show "(\<exists>v. row_at s k = Some v \<and> l_revision v = n) \<and> l_revision v' = n + 1
      \<and> row_at s' = (row_at s)(k \<mapsto> v') \<and> table_wf s'"
    by (rule table_cas_Inr) auto
qed

section \<open>Properties of the store\<close>

text \<open>
  C8.  No lost update: once one writer's compare-and-set of a lease revision has committed,
  every further compare-and-set that was prepared against that revision or an older one fails.
\<close>

theorem no_lost_update:
  assumes "table_wf t" "table_cas t k n cs = Inr (r', t')" "m \<le> n"
  shows "\<exists>e. table_cas t' k m ds = Inl e"
  using assms by (rule lease_store.stale_cas_fails)

text \<open>
  Whatever columns a compare-and-set names, it changes one row only, keeps every identity
  column of that row (tokens, fingerprint, owner, profile, source, name, deadlines, capacity
  spec), increments its revision by one, and keeps the uniqueness of active resource names,
  Pod ids and cleanup families.
\<close>

theorem compare_and_set_frame:
  assumes "table_wf t" "table_cas t k n cs = Inr (r', t')"
  shows "\<exists>r. row_at t k = Some r \<and> l_revision r = n \<and> l_revision r' = n + 1
     \<and> identity_columns r' = identity_columns r \<and> row_at t' = (row_at t)(k \<mapsto> r') \<and> table_wf t'"
  using assms by (rule table_cas_Inr) (auto simp: apply_changes_fixed)

lemma find_snoc: "find P (xs @ [x]) = (case find P xs of Some y \<Rightarrow> Some y | None \<Rightarrow> if P x then Some x else None)"
  by (induction xs) auto

lemma table_reserve_Inr:
  assumes "table_wf t" "table_reserve t q row = Inr (r, ins, t')"
    "l_cleanup_token row = tr_cleanup_token q"
  shows "table_wf t' \<and> row_at t' (tr_cleanup_token q) = Some r \<and> family_guard t q
    \<and> (if ins then row_at t (tr_cleanup_token q) = None \<and> r = row \<and> t' = t @ [row] else t' = t)"
proof (cases "row_at t (tr_cleanup_token q)")
  case (Some e)
  with assms show ?thesis by (auto simp: table_reserve_def split: if_splits)
next
  case None
  with assms(2) have ins: "ins" "r = row" "t' = t @ [row]" "\<not> integrity_error t row" "family_guard t q"
    by (auto simp: table_reserve_def split: if_splits)
  have new: "l_cleanup_token row \<notin> l_cleanup_token ` set t"
    using None assms(3) by (auto simp: row_at_def find_None_iff)
  have "table_wf t'"
    using assms(1) ins(4) new unfolding table_wf_def integrity_error_def ins(3)
    by (auto simp: clashes_sym) (auto simp: clashes_def)
  then show ?thesis using None ins assms(3) by (simp add: row_at_def find_snoc)
qed

lemma family_guard_snoc:
  "family_guard t q \<Longrightarrow> family_guard (t @ [row]) q"
  by (auto simp: family_guard_def find_snoc split: option.splits)

lemma lease_from_row_Inr: "lease_from_row r = Inr l \<Longrightarrow> l = r"
  by (auto simp: lease_from_row_def split: option.splits)

lemma new_row_token [simp]: "l_cleanup_token (new_row E q) = tr_cleanup_token q"
  by (simp add: new_row_def)

lemma reserve_Inr:
  assumes wf: "table_wf (re_interfere E (w_tick w) (w_table w))"
    and run: "reserve E q w = (Inr (lease, ins), w')"
  shows "table_reserve (re_interfere E (w_tick w) (w_table w)) q (new_row E q) = Inr (lease, ins, w_table w')
     \<and> lease_from_row lease = Inr lease \<and> l_request_fingerprint lease = request_fingerprint (re_jsha E) q
     \<and> table_wf (w_table w') \<and> row_at (w_table w') (tr_cleanup_token q) = Some lease"
proof -
  from run have 1: "table_reserve (re_interfere E (w_tick w) (w_table w)) q (new_row E q)
        = Inr (lease, ins, w_table w')"
    and 2: "lease_from_row lease = Inr lease" "l_request_fingerprint lease = request_fingerprint (re_jsha E) q"
    by (auto simp: reserve_def begin_transaction_def Let_def dest: lease_from_row_Inr
        split: option.splits sum.splits if_splits prod.splits)
  from table_reserve_Inr [OF wf 1 new_row_token] 1 2 show ?thesis by blast
qed

text \<open>
  A reservation is durable and idempotent.  If it returns a lease, that lease is the row of
  the table under the requested token and carries the request's fingerprint.  A second
  reservation under the same tokens, with no other transaction in between, leaves the table as
  it is; it returns the same lease, reported as not inserted, when it repeats the request, and
  raises when its request has another fingerprint.
\<close>

theorem reserve_idempotent:
  assumes "table_wf (re_interfere E (w_tick w) (w_table w))" "reserve E q w = (Inr (lease, ins), w')"
    "re_interfere E (w_tick w') (w_table w') = w_table w'" "reserve E q' w' = (again, w'')"
    "tr_cleanup_token q' = tr_cleanup_token q" "tr_root_cleanup_token q' = tr_root_cleanup_token q"
  shows "row_at (w_table w') (tr_cleanup_token q) = Some lease \<and> table_wf (w_table w')
    \<and> l_request_fingerprint lease = request_fingerprint (re_jsha E) q
    \<and> w_table w'' = w_table w' \<and> (q' = q \<longrightarrow> again = Inr (lease, False))
    \<and> (request_fingerprint (re_jsha E) q' \<noteq> request_fingerprint (re_jsha E) q \<longrightarrow> (\<exists>e. again = Inl e))"
proof -
  note first = reserve_Inr [OF assms(1,2)]
  have "family_guard (w_table w') q"
    using table_reserve_Inr [OF assms(1) _ new_row_token] first family_guard_snoc
    by (metis (full_types))
  then have guard: "family_guard (w_table w') q'" using assms(5,6) by (simp add: family_guard_def)
  have second: "table_reserve (w_table w') q' row' = Inr (lease, False, w_table w')" for row'
    using guard first assms(5) by (simp add: table_reserve_def)
  have "w_table w'' = w_table w'"
    using assms(3,4) second first by (auto simp: reserve_def begin_transaction_def Let_def
        split: option.splits if_splits)
  moreover have "again = Inr (lease, False)" if "q' = q"
    using assms(2,3,4) second first that by (auto simp: reserve_def begin_transaction_def Let_def
        split: option.splits if_splits)
  moreover have "\<exists>e. again = Inl e"
    if "request_fingerprint (re_jsha E) q' \<noteq> request_fingerprint (re_jsha E) q"
    using assms(3,4) second first that by (auto simp: reserve_def begin_transaction_def Let_def
        split: option.splits if_splits)
  ultimately show ?thesis using first by blast
qed

end
