(* ===== verification/Pod_Transitions.thy ===== *)
theory Pod_Transitions
  imports Pod_Repository
begin

text \<open>
  The environment of \<^verbatim>\<open>PodCapacityLeaseService\<close> (\<^verbatim>\<open>pod_capacity_service.py\<close>) and the operations every
  lease transition is built from: the clock, the guarded reads, the compare-and-set loops, the
  evidence merge and the legacy training mutations.

  Calls that leave the process (provider, capability store, workload transport, clock) are
  functions of the environment indexed by the number of steps made so far, so that every
  sequence of responses, cancellations included, is an environment.  Provider mutations and
  secret revocations are logged when they are issued, whatever they answer.
\<close>

section \<open>Definitions\<close>

subsection \<open>Values exchanged with the collaborators\<close>

record GPUProfile =
  gp_id :: string
  gp_name :: string
  gp_task_type :: string
  gp_image_name :: string
  gp_container_disk_gb :: int
  gp_volume_gb :: int
  gp_ports :: "string list"
  gp_inference_port :: int
  gp_inference_protocol :: string
  gp_inference_base_path :: string
  gp_image_invoke_path :: "string option"
  gp_default_model :: "string option"
  gp_pod_type :: "string option"
  gp_min_vram_gb :: int
  gp_min_cuda_version :: "string option"
  gp_max_cost_per_hr :: "amount option"
  gp_gpu_count :: int
  gp_cloud :: CloudType
  gp_allowed_gpu_ids :: "string list"
  gp_allowed_data_center_ids :: "string list"
  gp_max_context_window :: "int option"
  gp_readiness_timeout_seconds :: "int option"
  gp_registry_id :: "string option"
  gp_network_volume_id :: "string option"
  gp_volume_mount_path :: "string option"
  gp_persistent_pod_id :: "string option"
  gp_env :: "(string \<times> string) list"

definition gpu_profile_post_init :: "GPUProfile \<Rightarrow> py_error option" where
  "gpu_profile_post_init p = first_error
     [(gp_container_disk_gb p < 1, ValueError),
      (gp_volume_gb p \<noteq> 0 \<and> gp_volume_gb p < 10, ValueError),
      (gp_min_vram_gb p < 1, ValueError),
      (gp_gpu_count p < 1, ValueError),
      (case gp_max_cost_per_hr p of None \<Rightarrow> False | Some m \<Rightarrow> finite_amount m \<and> usd m \<le> 0, ValueError)]"

record TrainingPodObservation =
  ob_provider_pod_id :: string
  ob_status :: string
  ob_backend_base_url :: "string option"

definition upper_char :: "char \<Rightarrow> char" where
  "upper_char c = (if CHR ''a'' \<le> c \<and> c \<le> CHR ''z'' then char_of ((of_char c :: nat) - 32) else c)"

definition lower_char :: "char \<Rightarrow> char" where
  "lower_char c = (if CHR ''A'' \<le> c \<and> c \<le> CHR ''Z'' then char_of ((of_char c :: nat) + 32) else c)"

definition upper :: "string \<Rightarrow> string" where
  "upper s = map upper_char s"

definition strip_lower :: "string \<Rightarrow> string" where
  "strip_lower s = map lower_char (rev (dropWhile is_space (rev (dropWhile is_space s))))"

definition is_running :: "TrainingPodObservation \<Rightarrow> bool" where
  "is_running ob \<longleftrightarrow> upper (ob_status ob) = ''RUNNING''"

definition is_stopped :: "TrainingPodObservation \<Rightarrow> bool" where
  "is_stopped ob \<longleftrightarrow> upper (ob_status ob) \<in> {''EXITED'', ''STOPPED'', ''TERMINATED''}"

definition is_failed :: "TrainingPodObservation \<Rightarrow> bool" where
  "is_failed ob \<longleftrightarrow> upper (ob_status ob) \<in> {''FAILED'', ''ERROR''}"

record CreatedTrainingPod =
  cp_provider_pod_id :: string
  cp_placement :: "PlacementDecision option"
  cp_realized_placement :: "PodRealizedPlacement option"

record CatalogPodWorkloadObservation =
  wo_attempt_id :: string
  wo_request_sha256 :: "string option"
  wo_state :: CatalogPodWorkloadState
  wo_error_type :: "string option"
  wo_result_available :: bool
  wo_result_sha256 :: "string option"
  wo_receipt_sha256 :: "string option"
  wo_acknowledgement_sha256 :: "string option"

definition observation_post_init :: "CatalogPodWorkloadObservation \<Rightarrow> py_error option" where
  "observation_post_init ob = first_error
     (map (\<lambda>v. (case v of None \<Rightarrow> False | Some s \<Rightarrow> \<not> sha256_text s, CatalogPodTransportError))
        [wo_result_sha256 ob, wo_receipt_sha256 ob, wo_acknowledgement_sha256 ob]
      @ [(wo_state ob \<in> {W_AWAITING_ACK, W_ACKNOWLEDGED}
           \<and> (\<not> wo_result_available ob \<or> wo_request_sha256 ob = None
              \<or> wo_result_sha256 ob = None \<or> wo_receipt_sha256 ob = None), CatalogPodTransportError),
         (wo_state ob = W_ACKNOWLEDGED \<and> wo_acknowledgement_sha256 ob = None, CatalogPodTransportError)])"

subsection \<open>The collaborators\<close>

text \<open>\<^verbatim>\<open>TrainingPodCapacityProvider\<close>, \<^verbatim>\<open>CatalogAttemptCapabilityStore\<close>, \<^verbatim>\<open>CatalogPodWorkloadTransport\<close>.\<close>

record capacity_provider =
  pv_observe :: "nat \<Rightarrow> string \<Rightarrow> GPUProfile \<Rightarrow> py_error + TrainingPodObservation"
  pv_start :: "nat \<Rightarrow> string \<Rightarrow> int \<Rightarrow> py_error + unit"
  pv_create :: "nat \<Rightarrow> GPUProfile \<Rightarrow> string \<Rightarrow> string \<Rightarrow> (string \<times> json) list option
      \<Rightarrow> PodCapacitySpec option \<Rightarrow> py_error + CreatedTrainingPod"
  pv_find_by_name :: "nat \<Rightarrow> string \<Rightarrow> py_error + string option"
  pv_find_exact :: "nat \<Rightarrow> string \<Rightarrow> PodCapacitySpec \<Rightarrow> py_error + CreatedTrainingPod option"
  pv_stop :: "nat \<Rightarrow> string \<Rightarrow> py_error + bool"
  pv_terminate :: "nat \<Rightarrow> string \<Rightarrow> py_error + bool"
  pv_final_billing :: "nat \<Rightarrow> string \<Rightarrow> PodCapacitySpec \<Rightarrow> datetime \<Rightarrow> datetime \<Rightarrow> amount
      \<Rightarrow> py_error + PodBillingReceipt option"

record capability_store =
  cs_load_or_create :: "nat \<Rightarrow> string \<Rightarrow> datetime \<Rightarrow> py_error + CatalogAttemptCapability"
  cs_load :: "nat \<Rightarrow> string \<Rightarrow> py_error + CatalogAttemptCapability option"
  cs_revoke :: "nat \<Rightarrow> string \<Rightarrow> py_error + unit"

record workload_transport =
  wt_health :: "nat \<Rightarrow> string \<Rightarrow> py_error + unit"
  wt_submit :: "nat \<Rightarrow> string \<Rightarrow> string \<Rightarrow> string \<Rightarrow> string \<Rightarrow> json \<Rightarrow> py_error + CatalogPodWorkloadObservation"
  wt_status :: "nat \<Rightarrow> string \<Rightarrow> string \<Rightarrow> string \<Rightarrow> string \<Rightarrow> py_error + CatalogPodWorkloadObservation"
  wt_result :: "nat \<Rightarrow> string \<Rightarrow> string \<Rightarrow> string \<Rightarrow> string \<Rightarrow> int option \<Rightarrow> py_error + json"
  wt_acknowledge :: "nat \<Rightarrow> string \<Rightarrow> string \<Rightarrow> string \<Rightarrow> string \<Rightarrow> json
      \<Rightarrow> py_error + CatalogPodWorkloadObservation"
  wt_recover_handoff :: "nat \<Rightarrow> string \<Rightarrow> string \<Rightarrow> string \<Rightarrow> string \<Rightarrow> json
      \<Rightarrow> py_error + CatalogPodWorkloadObservation"
  wt_cancel :: "nat \<Rightarrow> string \<Rightarrow> string \<Rightarrow> string \<Rightarrow> string \<Rightarrow> py_error + CatalogPodWorkloadObservation"

record svc_env = repo_env +
  sv_profiles :: "(string \<times> GPUProfile) list"
  sv_orphan_timeout :: int
  sv_fuel :: nat
  sv_clock :: "nat \<Rightarrow> datetime"
  sv_cancelled :: "nat \<Rightarrow> bool"
  sv_uuid5_url :: "string \<Rightarrow> string"
  sv_provider :: capacity_provider
  sv_store :: "capability_store option"
  sv_transport :: "workload_transport option"
  sv_observer :: "(nat \<Rightarrow> TrainingPodLease \<Rightarrow> py_error + string option) option"
  sv_sleep :: "nat \<Rightarrow> py_error + unit"

definition external :: "(nat \<Rightarrow> py_error + 'a) \<Rightarrow> (world, 'a) prog" where
  "external f = (\<lambda>w. (f (w_tick w), w\<lparr>w_tick := Suc (w_tick w)\<rparr>))"

definition issue :: "effect \<Rightarrow> (nat \<Rightarrow> py_error + 'a) \<Rightarrow> (world, 'a) prog" where
  "issue eff f = (\<lambda>w. (f (w_tick w), w\<lparr>w_tick := Suc (w_tick w), w_effects := w_effects w @ [eff]\<rparr>))"

text \<open>
  \<^verbatim>\<open>await_owned_effect\<close>: the effect runs to its end; its failure takes precedence, and a caller
  cancellation is raised only afterwards.
\<close>

definition await_owned_effect :: "svc_env \<Rightarrow> (world, 'a) prog \<Rightarrow> (world, 'a) prog" where
  "await_owned_effect E effect = seqM effect (\<lambda>x.
     external (\<lambda>n. if sv_cancelled E n then Inl CancelledError else Inr x))"

subsection \<open>Guards and small helpers\<close>

definition now :: "svc_env \<Rightarrow> (world, datetime) prog" where
  "now E = external (\<lambda>n. if is_aware (sv_clock E n) then Inr (sv_clock E n) else Inl ValueError)"

definition required :: "svc_env \<Rightarrow> string \<Rightarrow> (world, TrainingPodLease) prog" where
  "required E cleanup_token = seqM (repo_get E cleanup_token) (\<lambda>lease.
     case lease of None \<Rightarrow> raiseM RunPodManagerError | Some l \<Rightarrow> ret l)"

definition capacity_spec_of :: "TrainingPodLease \<Rightarrow> py_error + PodCapacitySpec" where
  "capacity_spec_of lease =
     (case l_capacity_spec lease of None \<Rightarrow> Inl RunPodManagerError | Some s \<Rightarrow> Inr s)"

definition profile_of :: "svc_env \<Rightarrow> string \<Rightarrow> py_error + GPUProfile" where
  "profile_of E profile_id =
     (case map_of (sv_profiles E) profile_id of None \<Rightarrow> Inl RunPodManagerError | Some p \<Rightarrow> Inr p)"

definition pod_id_of :: "TrainingPodLease \<Rightarrow> py_error + string" where
  "pod_id_of lease =
     (case l_provider_pod_id lease of
        None \<Rightarrow> Inl RunPodManagerError
      | Some p \<Rightarrow> if p = [] then Inl RunPodManagerError else Inr p)"

definition route :: "TrainingPodLease \<Rightarrow> py_error + string" where
  "route lease =
     (case l_backend_base_url lease of
        None \<Rightarrow> Inl RunPodManagerError
      | Some u \<Rightarrow> if u = [] then Inl RunPodManagerError else Inr u)"

definition cleanup_error :: "string \<Rightarrow> TrainingPodLease \<Rightarrow> py_error" where
  "cleanup_error reason lease =
     TrainingPodCleanupError reason (l_cleanup_token lease) (l_provider_pod_id lease)
       (l_cleanup_state lease) True"

definition lifecycle_error :: "string \<Rightarrow> TrainingPodLease \<Rightarrow> bool \<Rightarrow> py_error" where
  "lifecycle_error operation lease billing_risk =
     TrainingPodLifecycleError operation (l_cleanup_token lease) (l_provider_pod_id lease)
       (l_cleanup_state lease) billing_risk"

definition require_capability_store :: "svc_env \<Rightarrow> py_error + capability_store" where
  "require_capability_store E =
     (case sv_store E of None \<Rightarrow> Inl RunPodManagerError | Some s \<Rightarrow> Inr s)"

definition require_workload_transport :: "svc_env \<Rightarrow> py_error + workload_transport" where
  "require_workload_transport E =
     (case sv_transport E of None \<Rightarrow> Inl RunPodManagerError | Some t \<Rightarrow> Inr t)"

definition require_legacy_training_mutation :: "TrainingPodLease \<Rightarrow> py_error + unit" where
  "require_legacy_training_mutation lease =
     (case l_capacity_spec lease of
        None \<Rightarrow> Inr ()
      | Some s \<Rightarrow> if protocol_of s = Some 1 then Inl RunPodManagerError else Inr ())"

definition catalog_result_ready :: "TrainingPodLease \<Rightarrow> py_error + bool" where
  "catalog_result_ready lease =
     (case capacity_spec_of lease of
        Inl e \<Rightarrow> Inl e
      | Inr s \<Rightarrow> Inr (if protocol_of s = None then l_workload_state lease = W_SUCCEEDED
                      else l_workload_state lease \<in> {W_AWAITING_ACK, W_ACKNOWLEDGED}))"

definition validate_capability ::
    "CatalogPodCapacityRequest \<Rightarrow> CatalogAttemptCapability \<Rightarrow> py_error + unit" where
  "validate_capability request capability =
     (if cap_expires_at capability \<noteq> cr_bearer_expires_at request then Inl RunPodManagerError else Inr ())"

definition load_capability :: "svc_env \<Rightarrow> PodCapacitySpec \<Rightarrow> (world, CatalogAttemptCapability) prog" where
  "load_capability E spec =
     seqM (liftM (require_capability_store E)) (\<lambda>store.
     seqM (external (\<lambda>n. cs_load store n (cr_attempt_id (sp_request spec)))) (\<lambda>capability.
     case capability of
       None \<Rightarrow> raiseM RunPodManagerError
     | Some c \<Rightarrow>
         seqM (liftM (validate_capability (sp_request spec) c)) (\<lambda>_.
         if cap_secret_id c \<noteq> sp_capability_secret_id spec
            \<or> cap_token_sha256 c \<noteq> sp_capability_token_sha256 spec
         then raiseM RunPodManagerError
         else seqM (now E) (\<lambda>t. if cap_expires_at c \<le> t then raiseM RunPodManagerError else ret c))))"

definition zero_cost_receipt :: "svc_env \<Rightarrow> TrainingPodLease \<Rightarrow> string \<Rightarrow> (world, PodBillingReceipt) prog" where
  "zero_cost_receipt E lease reason =
     seqM (liftM (capacity_spec_of lease)) (\<lambda>spec.
     seqM (now E) (\<lambda>t.
     let digest = re_sha E (l_cleanup_token lease @ CHR 0x00 # reason @ CHR 0x00 # l_request_fingerprint lease);
         receipt = \<lparr> pb_provider_billing_id = ''runpod-no-pod:'' @ digest, pb_provider_pod_id = None,
           pb_billed_from = t, pb_billed_until = t, pb_billed_seconds = 0,
           pb_hourly_price_usd = Fin (whole_pod_rate (cr_quote (sp_request spec))),
           pb_actual_cost_usd = Fin 0, pb_reconciled_at = t \<rparr>
     in case receipt_post_init receipt of Some e \<Rightarrow> raiseM e | None \<Rightarrow> ret receipt))"

subsection \<open>Compare-and-set loops\<close>

text \<open>
  The \<^verbatim>\<open>while\<close> loops retry on \<^verbatim>\<open>TrainingPodConflictError\<close> with a fresh read and have no bound of their
  own; in the model they stop with the outcome \<^verbatim>\<open>Diverged\<close> when the fuel is used up.
\<close>

fun transition_loop :: "nat \<Rightarrow> svc_env \<Rightarrow> string \<Rightarrow> column_change list \<Rightarrow> TrainingPodLease
    \<Rightarrow> (world, TrainingPodLease) prog" where
  "transition_loop 0 E token changes current = raiseM Diverged"
| "transition_loop (Suc n) E token changes current =
     (if is_terminal current then ret current
      else tryM (compare_and_set E current changes) (\<lambda>e.
        if e = TrainingPodConflictError
        then seqM (required E token) (transition_loop n E token changes)
        else raiseM e))"

definition transition_nonterminal :: "svc_env \<Rightarrow> TrainingPodLease \<Rightarrow> column_change list
    \<Rightarrow> (world, TrainingPodLease) prog" where
  "transition_nonterminal E lease changes =
     transition_loop (sv_fuel E) E (l_cleanup_token lease) changes lease"

fun family_flag_loop :: "nat \<Rightarrow> svc_env \<Rightarrow> string \<Rightarrow> (TrainingPodLease \<Rightarrow> bool)
    \<Rightarrow> (datetime \<Rightarrow> column_change list) \<Rightarrow> TrainingPodLease \<Rightarrow> (world, TrainingPodLease) prog" where
  "family_flag_loop 0 E token marked changes current = raiseM Diverged"
| "family_flag_loop (Suc n) E token marked changes current =
     (if marked current then ret current
      else tryM (seqM (now E) (\<lambda>t. compare_and_set E current (changes t))) (\<lambda>e.
        if e = TrainingPodConflictError
        then seqM (required E token) (family_flag_loop n E token marked changes)
        else raiseM e))"

definition mark_family_release_requested :: "svc_env \<Rightarrow> TrainingPodLease
    \<Rightarrow> (world, TrainingPodLease) prog" where
  "mark_family_release_requested E family_root =
     seqM (required E (l_cleanup_token family_root))
       (family_flag_loop (sv_fuel E) E (l_cleanup_token family_root) l_family_release_requested
         (\<lambda>t. [Ch_family_release_requested True, Ch_family_release_complete False,
               Ch_last_heartbeat_at t]))"

definition mark_family_release_complete :: "svc_env \<Rightarrow> TrainingPodLease
    \<Rightarrow> (world, TrainingPodLease) prog" where
  "mark_family_release_complete E family_root =
     seqM (required E (l_cleanup_token family_root))
       (family_flag_loop (sv_fuel E) E (l_cleanup_token family_root) l_family_release_complete
         (\<lambda>t. [Ch_family_release_complete True, Ch_last_heartbeat_at t]))"

subsection \<open>First-observation evidence\<close>

datatype lifecycle_field =
    LF_provider_create_accepted_at | LF_provider_adopted_at | LF_first_running_observed_at
  | LF_worker_ready_at | LF_workload_submitted_at | LF_workload_running_at
  | LF_workload_terminal_at | LF_stop_confirmed_at | LF_billing_reconciled_at

fun lc_field :: "lifecycle_field \<Rightarrow> PodCapacityLifecycleEvidence \<Rightarrow> datetime option" where
  "lc_field LF_provider_create_accepted_at = lc_provider_create_accepted_at"
| "lc_field LF_provider_adopted_at = lc_provider_adopted_at"
| "lc_field LF_first_running_observed_at = lc_first_running_observed_at"
| "lc_field LF_worker_ready_at = lc_worker_ready_at"
| "lc_field LF_workload_submitted_at = lc_workload_submitted_at"
| "lc_field LF_workload_running_at = lc_workload_running_at"
| "lc_field LF_workload_terminal_at = lc_workload_terminal_at"
| "lc_field LF_stop_confirmed_at = lc_stop_confirmed_at"
| "lc_field LF_billing_reconciled_at = lc_billing_reconciled_at"

fun lc_set :: "lifecycle_field \<Rightarrow> datetime \<Rightarrow> PodCapacityLifecycleEvidence
    \<Rightarrow> PodCapacityLifecycleEvidence" where
  "lc_set LF_provider_create_accepted_at t l = l\<lparr>lc_provider_create_accepted_at := Some t\<rparr>"
| "lc_set LF_provider_adopted_at t l = l\<lparr>lc_provider_adopted_at := Some t\<rparr>"
| "lc_set LF_first_running_observed_at t l = l\<lparr>lc_first_running_observed_at := Some t\<rparr>"
| "lc_set LF_worker_ready_at t l = l\<lparr>lc_worker_ready_at := Some t\<rparr>"
| "lc_set LF_workload_submitted_at t l = l\<lparr>lc_workload_submitted_at := Some t\<rparr>"
| "lc_set LF_workload_running_at t l = l\<lparr>lc_workload_running_at := Some t\<rparr>"
| "lc_set LF_workload_terminal_at t l = l\<lparr>lc_workload_terminal_at := Some t\<rparr>"
| "lc_set LF_stop_confirmed_at t l = l\<lparr>lc_stop_confirmed_at := Some t\<rparr>"
| "lc_set LF_billing_reconciled_at t l = l\<lparr>lc_billing_reconciled_at := Some t\<rparr>"

definition first_observation :: "lifecycle_field \<times> datetime \<Rightarrow> PodCapacityLifecycleEvidence
    \<Rightarrow> PodCapacityLifecycleEvidence" where
  "first_observation = (\<lambda>(f, t) l. if lc_field f l = None then lc_set f t l else l)"

definition merge_lifecycle :: "(lifecycle_field \<times> datetime) list \<Rightarrow> PodCapacityLifecycleEvidence
    \<Rightarrow> py_error + PodCapacityLifecycleEvidence" where
  "merge_lifecycle observed l =
     (if observed = [] then Inr l
      else let l' = fold first_observation observed l in
        case lifecycle_post_init l' of Some e \<Rightarrow> Inl e | None \<Rightarrow> Inr l')"

text \<open>The optional arguments of \<^verbatim>\<open>_transition_with_evidence\<close>; \<^verbatim>\<open>None\<close> is \<^verbatim>\<open>_EVIDENCE_UNSET\<close>.\<close>

record evidence_args =
  ea_lifecycle :: "(lifecycle_field \<times> datetime) list"
  ea_realized_placement :: "PodRealizedPlacement option option"
  ea_worker :: "CatalogWorkerEvidence option"
  ea_billing :: "PodBillingReceipt option option"
  ea_expected_states :: "TrainingPodState list option"
  ea_retry_on_conflict :: bool

definition no_evidence :: evidence_args where
  "no_evidence = \<lparr> ea_lifecycle = [], ea_realized_placement = None, ea_worker = None,
     ea_billing = None, ea_expected_states = None, ea_retry_on_conflict = True \<rparr>"

definition merge_realized :: "PodRealizedPlacement option option \<Rightarrow> PodRealizedPlacement option
    \<Rightarrow> py_error + PodRealizedPlacement option" where
  "merge_realized given stored =
     (case given of
        None \<Rightarrow> Inr stored
      | Some None \<Rightarrow> Inl RunPodManagerError
      | Some (Some p) \<Rightarrow>
          if stored \<noteq> None \<and> stored \<noteq> Some p then Inl TrainingPodConflictError else Inr (Some p))"

definition merge_worker :: "CatalogWorkerEvidence option \<Rightarrow> CatalogWorkerEvidence option
    \<Rightarrow> py_error + CatalogWorkerEvidence option" where
  "merge_worker given stored =
     (case given of
        None \<Rightarrow> Inr stored
      | Some k \<Rightarrow> if stored \<noteq> None \<and> stored \<noteq> Some k then Inl TrainingPodConflictError else Inr (Some k))"

definition merge_billing :: "PodBillingReceipt option option \<Rightarrow> PodBillingReceipt option
    \<Rightarrow> py_error + PodBillingReceipt option" where
  "merge_billing given stored =
     (case given of
        None \<Rightarrow> Inr stored
      | Some b \<Rightarrow> if stored \<noteq> None \<and> stored \<noteq> b then Inl TrainingPodConflictError
                  else Inr (if stored = None then b else stored))"

definition merge_evidence :: "evidence_args \<Rightarrow> PodCapacityEvidence \<Rightarrow> py_error + PodCapacityEvidence" where
  "merge_evidence a e =
     (case merge_lifecycle (ea_lifecycle a) (ev_lifecycle e) of Inl x \<Rightarrow> Inl x | Inr lifecycle \<Rightarrow>
      (case merge_realized (ea_realized_placement a) (ev_realized_placement e) of Inl x \<Rightarrow> Inl x | Inr realized \<Rightarrow>
       (case merge_worker (ea_worker a) (ev_worker e) of Inl x \<Rightarrow> Inl x | Inr worker \<Rightarrow>
        (case merge_billing (ea_billing a) (ev_billing e) of Inl x \<Rightarrow> Inl x | Inr billing \<Rightarrow>
          (let e' = e\<lparr>ev_lifecycle := lifecycle, ev_realized_placement := realized,
                       ev_worker := worker, ev_billing := billing\<rparr> in
           case evidence_post_init e' of Some x \<Rightarrow> Inl x | None \<Rightarrow> Inr e')))))"

definition persisted_changes :: "column_change list \<Rightarrow> evidence_args \<Rightarrow> TrainingPodLease
    \<Rightarrow> py_error + column_change list" where
  "persisted_changes changes a current =
     (case l_evidence current of
        None \<Rightarrow> Inr changes
      | Some e \<Rightarrow> (case merge_evidence a e of Inl x \<Rightarrow> Inl x
                   | Inr e' \<Rightarrow> Inr (changes @ [Ch_evidence (Some e')])))"

fun evidence_loop :: "nat \<Rightarrow> svc_env \<Rightarrow> string \<Rightarrow> column_change list \<Rightarrow> evidence_args
    \<Rightarrow> TrainingPodLease \<Rightarrow> (world, TrainingPodLease) prog" where
  "evidence_loop 0 E token changes a current = raiseM Diverged"
| "evidence_loop (Suc n) E token changes a current =
     (if is_terminal current then ret current
      else if (case ea_expected_states a of None \<Rightarrow> False | Some ss \<Rightarrow> l_state current \<notin> set ss)
      then ret current
      else seqM (liftM (persisted_changes changes a current)) (\<lambda>persisted.
        tryM (compare_and_set E current persisted) (\<lambda>e.
          if e = TrainingPodConflictError \<and> ea_retry_on_conflict a
          then seqM (required E token) (evidence_loop n E token changes a)
          else raiseM e)))"

definition transition_with_evidence :: "svc_env \<Rightarrow> TrainingPodLease \<Rightarrow> column_change list \<Rightarrow> evidence_args
    \<Rightarrow> (world, TrainingPodLease) prog" where
  "transition_with_evidence E lease changes a =
     evidence_loop (sv_fuel E) E (l_cleanup_token lease) changes a lease"

subsection \<open>Failure recording\<close>

definition release_unowned_claim :: "svc_env \<Rightarrow> TrainingPodLease \<Rightarrow> py_error option
    \<Rightarrow> (world, TrainingPodLease) prog" where
  "release_unowned_claim E lease err = seqM (now E) (\<lambda>t.
     transition_nonterminal E lease
       [Ch_ownership O_PREEXISTING_RUNNING, Ch_state S_RELEASED, Ch_cleanup_state C_NOT_OWNED,
        Ch_backend_base_url None, Ch_last_provider_error (map_option sanitize_training_error err),
        Ch_last_heartbeat_at t])"

definition record_retryable_failure :: "svc_env \<Rightarrow> TrainingPodLease \<Rightarrow> py_error \<Rightarrow> bool option
    \<Rightarrow> (world, TrainingPodLease) prog" where
  "record_retryable_failure E lease err creation_uncertain =
     seqM (required E (l_cleanup_token lease)) (\<lambda>current.
     if is_terminal current then ret current
     else seqM (now E) (\<lambda>t.
       transition_nonterminal E current
         ([Ch_state S_RECONCILE_REQUIRED, Ch_cleanup_state C_RETRYABLE_FAILURE,
           Ch_last_provider_error (Some (sanitize_training_error err)), Ch_last_heartbeat_at t]
          @ (case creation_uncertain of None \<Rightarrow> [] | Some b \<Rightarrow> [Ch_creation_uncertain b]))))"

definition record_reconcile_error :: "svc_env \<Rightarrow> string \<Rightarrow> py_error
    \<Rightarrow> (world, TrainingPodLease option) prog" where
  "record_reconcile_error E cleanup_token err =
     seqM (repo_get E cleanup_token) (\<lambda>found.
     case found of
       None \<Rightarrow> ret None
     | Some lease \<Rightarrow>
         if is_terminal lease \<and> l_billing_state lease \<notin> {B_PENDING, B_UNRESOLVED} then ret (Some lease)
         else tryM
           (seqM (compare_and_set E lease [Ch_last_provider_error (Some (sanitize_training_error err))])
             (\<lambda>l. ret (Some l)))
           (\<lambda>e. if e = TrainingPodConflictError then repo_get E cleanup_token else raiseM e))"

subsection \<open>Lease mutations of the training API\<close>

definition heartbeat :: "svc_env \<Rightarrow> string \<Rightarrow> (world, TrainingPodLease) prog" where
  "heartbeat E cleanup_token =
     seqM (required E cleanup_token) (\<lambda>lease.
     if is_terminal lease
     then raiseM (TrainingPodLifecycleError ''heartbeat'' cleanup_token (l_provider_pod_id lease)
                    (l_cleanup_state lease) False)
     else seqM (now E) (\<lambda>t. compare_and_set E lease [Ch_last_heartbeat_at t]))"

definition record_job :: "svc_env \<Rightarrow> string \<Rightarrow> string \<Rightarrow> (world, TrainingPodLease) prog" where
  "record_job E cleanup_token provider_job_id =
     (if provider_job_id = [] then raiseM ValueError
      else seqM (required E cleanup_token) (\<lambda>lease.
        seqM (liftM (require_legacy_training_mutation lease)) (\<lambda>_.
        if l_state lease \<notin> {S_READY, S_JOB_SUBMITTED} then raiseM RunPodManagerError
        else if l_provider_job_id lease \<notin> {None, Some provider_job_id}
        then raiseM TrainingPodConflictError
        else seqM (now E) (\<lambda>t.
          compare_and_set E lease
            [Ch_state S_JOB_SUBMITTED, Ch_provider_job_id (Some provider_job_id),
             Ch_last_heartbeat_at t, Ch_last_provider_error None]))))"

definition record_operation_error :: "svc_env \<Rightarrow> string \<Rightarrow> py_error \<Rightarrow> (world, TrainingPodLease) prog" where
  "record_operation_error E cleanup_token err =
     seqM (required E cleanup_token) (\<lambda>lease.
     if is_terminal lease then ret lease
     else seqM (now E) (\<lambda>t.
       transition_nonterminal E lease
         [Ch_last_heartbeat_at t, Ch_last_provider_error (Some (sanitize_training_error err))]))"

definition record_status :: "svc_env \<Rightarrow> string \<Rightarrow> string \<Rightarrow> (world, TrainingPodLease) prog" where
  "record_status E cleanup_token status =
     seqM (required E cleanup_token) (\<lambda>lease.
     seqM (liftM (require_legacy_training_mutation lease)) (\<lambda>_.
     if is_terminal lease then ret lease
     else let normalized = strip_lower status in seqM (now E) (\<lambda>t.
       transition_nonterminal E lease
         ([Ch_last_heartbeat_at t, Ch_last_provider_error None]
          @ (if normalized \<in> {''completed'', ''succeeded''} then [Ch_state S_JOB_COMPLETED]
             else if normalized \<in> {''cancelled'', ''canceled'', ''failed''}
             then [Ch_state S_CANCEL_REQUESTED] else [])))))"

definition record_result_retrieved :: "svc_env \<Rightarrow> string \<Rightarrow> (world, TrainingPodLease) prog" where
  "record_result_retrieved E cleanup_token =
     seqM (required E cleanup_token) (\<lambda>lease.
     seqM (liftM (require_legacy_training_mutation lease)) (\<lambda>_.
     if l_state lease \<notin> {S_JOB_SUBMITTED, S_JOB_COMPLETED} then raiseM RunPodManagerError
     else seqM (now E) (\<lambda>t.
       compare_and_set E lease
         [Ch_state S_RESULT_RETRIEVED, Ch_last_heartbeat_at t, Ch_last_provider_error None])))"

definition request_cancellation :: "svc_env \<Rightarrow> string \<Rightarrow> (world, TrainingPodLease) prog" where
  "request_cancellation E cleanup_token =
     seqM (required E cleanup_token) (\<lambda>lease.
     if is_terminal lease then ret lease
     else seqM (now E) (\<lambda>t.
       compare_and_set E lease
         ([Ch_state S_CANCEL_REQUESTED, Ch_last_heartbeat_at t]
          @ (if is_catalog_attempt lease then [Ch_workload_state W_CANCEL_REQUESTED] else []))))"

end
