(* ===== verification/Pod_Release.thy ===== *)
theory Pod_Release
  imports Pod_Transitions
begin

text \<open>
  Teardown: resolving a create whose response was lost, stopping or terminating the Pod, the
  final billing receipt, bearer revocation and the terminal transition, and the release of a
  whole cleanup family.
\<close>

section \<open>Definitions\<close>

definition revoke_and_release :: "svc_env \<Rightarrow> TrainingPodLease \<Rightarrow> (world, TrainingPodLease) prog" where
  "revoke_and_release E lease =
     (if l_billing_state lease \<noteq> B_AUTHORITATIVE then raiseM RunPodManagerError
      else seqM (liftM (require_capability_store E)) (\<lambda>store.
        seqM (liftM (capacity_spec_of lease)) (\<lambda>spec.
        seqM (issue (EffRevoke (cr_attempt_id (sp_request spec)))
               (\<lambda>n. cs_revoke store n (cr_attempt_id (sp_request spec)))) (\<lambda>_.
        seqM (required E (l_cleanup_token lease)) (\<lambda>current.
        if is_terminal current then ret current
        else seqM (now E) (\<lambda>t.
          compare_and_set E current [Ch_state S_RELEASED, Ch_last_heartbeat_at t]))))))"

definition record_receipt :: "svc_env \<Rightarrow> TrainingPodLease \<Rightarrow> PodBillingReceipt
    \<Rightarrow> (world, TrainingPodLease) prog" where
  "record_receipt E lease receipt =
     seqM (tryM
       (transition_with_evidence E lease
          [Ch_billing_state B_AUTHORITATIVE, Ch_billing_receipt (Some receipt),
           Ch_last_provider_error None, Ch_last_heartbeat_at (pb_reconciled_at receipt)]
          (no_evidence\<lparr>ea_lifecycle := [(LF_billing_reconciled_at, pb_reconciled_at receipt)],
                       ea_billing := Some (Some receipt)\<rparr>))
       (\<lambda>e. if e = TrainingPodConflictError
            then seqM (required E (l_cleanup_token lease)) (\<lambda>current.
              if l_billing_state current \<noteq> B_AUTHORITATIVE then raiseM e else ret current)
            else raiseM e))
     (revoke_and_release E)"

definition reconcile_billing :: "svc_env \<Rightarrow> TrainingPodLease \<Rightarrow> (world, TrainingPodLease) prog" where
  "reconcile_billing E lease =
     (if \<not> is_catalog_attempt lease then ret lease
      else if l_billing_state lease = B_AUTHORITATIVE then revoke_and_release E lease
      else case l_provider_pod_id lease of
        None \<Rightarrow>
          if l_creation_uncertain lease
          then compare_and_set E lease
                 [Ch_billing_state B_UNRESOLVED,
                  Ch_last_provider_error (Some ''AmbiguousCreateBillingUnresolved'')]
          else seqM (zero_cost_receipt E lease ''no-provider-capacity'') (record_receipt E lease)
      | Some pod_id \<Rightarrow>
          (case l_terminated_at lease of
             None \<Rightarrow> raiseM RunPodManagerError
           | Some terminated_at \<Rightarrow>
               (case (case l_evidence lease of None \<Rightarrow> None | Some e \<Rightarrow> ev_realized_placement e) of
                  None \<Rightarrow> compare_and_set E lease
                    [Ch_billing_state B_UNRESOLVED,
                     Ch_last_provider_error (Some ''RealizedPlacementBillingUnresolved'')]
                | Some realized \<Rightarrow>
                    if rp_provider_pod_id realized \<noteq> pod_id
                    then compare_and_set E lease
                      [Ch_billing_state B_UNRESOLVED,
                       Ch_last_provider_error (Some ''RealizedPlacementBillingUnresolved'')]
                    else seqM (liftM (capacity_spec_of lease)) (\<lambda>spec.
                      seqM (external (\<lambda>n. pv_final_billing (sv_provider E) n pod_id spec
                              (l_created_at lease) terminated_at (rp_hourly_rate_usd realized))) (\<lambda>found.
                      case found of
                        None \<Rightarrow> if l_billing_state lease = B_PENDING then ret lease
                                else compare_and_set E lease [Ch_billing_state B_PENDING]
                      | Some receipt \<Rightarrow>
                          if pb_provider_pod_id receipt \<noteq> Some pod_id
                             \<or> pb_billed_until receipt < terminated_at
                             \<or> pb_hourly_price_usd receipt \<noteq> rp_hourly_rate_usd realized
                          then raiseM RunPodManagerError
                          else record_receipt E lease receipt)))))"

definition find_created :: "svc_env \<Rightarrow> TrainingPodLease
    \<Rightarrow> (world, string option \<times> PodRealizedPlacement option option) prog" where
  "find_created E lease =
     (case l_capacity_spec lease of
        Some spec \<Rightarrow>
          seqM (external (\<lambda>n. pv_find_exact (sv_provider E) n (l_resource_name lease) spec)) (\<lambda>recovered.
          ret (map_option cp_provider_pod_id recovered, map_option cp_realized_placement recovered))
      | None \<Rightarrow>
          seqM (external (\<lambda>n. pv_find_by_name (sv_provider E) n (l_resource_name lease))) (\<lambda>pod_id.
          ret (pod_id, None)))"

definition resolve_uncertain_creation :: "svc_env \<Rightarrow> TrainingPodLease \<Rightarrow> string
    \<Rightarrow> (world, TrainingPodLease) prog" where
  "resolve_uncertain_creation E lease reason =
     try_elseM (find_created E lease)
       (\<lambda>e. if is_manager_error e then record_retryable_failure E lease e (Some True) else raiseM e)
       (\<lambda>(pod_id, recovered).
         case pod_id of
           Some p \<Rightarrow> seqM (now E) (\<lambda>adopted_at.
             transition_with_evidence E lease
               [Ch_provider_pod_id (Some p), Ch_ownership O_OWNED, Ch_creation_uncertain False,
                Ch_state S_RECONCILE_REQUIRED, Ch_cleanup_state C_PENDING, Ch_last_provider_error None]
               (no_evidence\<lparr>ea_lifecycle := (if is_catalog_attempt lease
                              then [(LF_provider_adopted_at, adopted_at)] else []),
                            ea_realized_placement := recovered\<rparr>))
         | None \<Rightarrow> seqM (now E) (\<lambda>t.
             if t < l_readiness_deadline lease \<or> is_catalog_attempt lease
             then transition_nonterminal E lease
               [Ch_state S_RECONCILE_REQUIRED, Ch_cleanup_state C_RETRYABLE_FAILURE,
                Ch_billing_state (if is_catalog_attempt lease then B_UNRESOLVED else l_billing_state lease),
                Ch_last_provider_error (Some (reason @ '':AwaitingCreateReconciliation''))]
             else transition_nonterminal E lease
               [Ch_state S_RELEASED, Ch_cleanup_state C_COMPLETE, Ch_creation_uncertain False,
                Ch_last_provider_error None]))"

text \<open>The release of a lease that holds no provider Pod.\<close>

definition release_without_pod :: "svc_env \<Rightarrow> TrainingPodLease \<Rightarrow> (world, TrainingPodLease) prog" where
  "release_without_pod E lease =
     seqM (now E) (\<lambda>terminal_at.
     let changes = [Ch_state S_RELEASED, Ch_cleanup_state C_COMPLETE, Ch_backend_base_url None,
                    Ch_last_provider_error None, Ch_last_heartbeat_at terminal_at]
     in if is_catalog_attempt lease
        then seqM (zero_cost_receipt E lease ''no-provider-capacity'') (\<lambda>receipt.
          seqM (transition_with_evidence E lease
            (changes @ [Ch_state S_RELEASING, Ch_billing_state B_AUTHORITATIVE,
                        Ch_billing_receipt (Some receipt), Ch_terminated_at (Some terminal_at)])
            (no_evidence\<lparr>ea_lifecycle := [(LF_billing_reconciled_at, terminal_at)],
                         ea_billing := Some (Some receipt)\<rparr>))
          (\<lambda>released. if is_catalog_attempt released then revoke_and_release E released else ret released))
        else seqM (transition_with_evidence E lease changes no_evidence)
          (\<lambda>released. if is_catalog_attempt released then revoke_and_release E released else ret released))"

fun stop_attempt_loop :: "nat \<Rightarrow> svc_env \<Rightarrow> string \<Rightarrow> TrainingPodLease
    \<Rightarrow> (world, TrainingPodLease) prog" where
  "stop_attempt_loop 0 E token lease = raiseM Diverged"
| "stop_attempt_loop (Suc n) E token lease =
     (if is_terminal lease then ret lease
      else tryM (compare_and_set E lease [Ch_stop_attempts (l_stop_attempts lease + 1)]) (\<lambda>e.
        if e = TrainingPodConflictError
        then seqM (required E token) (stop_attempt_loop n E token)
        else raiseM e))"

definition stop_provider_pod :: "svc_env \<Rightarrow> TrainingPodLease \<Rightarrow> (world, bool) prog" where
  "stop_provider_pod E lease =
     seqM (liftM (pod_id_of lease)) (\<lambda>p.
     if is_catalog_attempt lease
     then issue (EffTerminate p) (\<lambda>n. pv_terminate (sv_provider E) n p)
     else issue (EffStop p) (\<lambda>n. pv_stop (sv_provider E) n p))"

definition confirm_stopped :: "svc_env \<Rightarrow> TrainingPodLease \<Rightarrow> (world, TrainingPodLease) prog" where
  "confirm_stopped E lease =
     seqM (now E) (\<lambda>completed_at.
     seqM (transition_with_evidence E lease
       ([Ch_state (if is_catalog_attempt lease then S_RELEASING else S_RELEASED),
         Ch_cleanup_state C_COMPLETE, Ch_creation_uncertain False, Ch_backend_base_url None,
         Ch_last_provider_error None, Ch_last_heartbeat_at completed_at]
        @ (if is_catalog_attempt lease
           then [Ch_billing_state B_PENDING, Ch_terminated_at (Some completed_at)] else []))
       (no_evidence\<lparr>ea_lifecycle := (if is_catalog_attempt lease
          then [(LF_stop_confirmed_at, completed_at)] else [])\<rparr>))
     (\<lambda>released. if is_catalog_attempt released then reconcile_billing E released else ret released))"

definition release_with_pod :: "svc_env \<Rightarrow> string \<Rightarrow> string \<Rightarrow> TrainingPodLease
    \<Rightarrow> (world, TrainingPodLease) prog" where
  "release_with_pod E cleanup_token reason lease0 =
     seqM (if l_state lease0 = S_RELEASING then ret lease0
           else seqM (now E) (\<lambda>t. transition_nonterminal E lease0
             [Ch_state S_RELEASING, Ch_cleanup_state C_PENDING, Ch_backend_base_url None,
              Ch_last_heartbeat_at t])) (\<lambda>lease1.
     seqM (stop_attempt_loop (sv_fuel E) E cleanup_token lease1) (\<lambda>lease.
     if is_terminal lease then ret lease
     else try_elseM (stop_provider_pod E lease)
       (\<lambda>e. if is_manager_error e
            then seqM (record_retryable_failure E lease e None) (\<lambda>l.
              if is_terminal l then ret l else raiseM (cleanup_error reason l))
            else raiseM e)
       (\<lambda>confirmed.
         if \<not> confirmed
         then seqM (now E) (\<lambda>t.
           seqM (transition_nonterminal E lease
             [Ch_cleanup_state C_PENDING, Ch_last_provider_error (Some ''StopPending''),
              Ch_last_heartbeat_at t]) (\<lambda>l.
           if is_terminal l then ret l else raiseM (cleanup_error reason l)))
         else confirm_stopped E lease)))"

definition release_one :: "svc_env \<Rightarrow> string \<Rightarrow> string \<Rightarrow> (world, TrainingPodLease) prog" where
  "release_one E cleanup_token reason =
     seqM (required E cleanup_token) (\<lambda>lease0.
     if is_terminal lease0 then ret lease0
     else if is_catalog_attempt lease0 \<and> l_cleanup_state lease0 = C_COMPLETE
        \<and> l_terminated_at lease0 \<noteq> None \<and> l_billing_state lease0 \<in> {B_PENDING, B_UNRESOLVED}
     then reconcile_billing E lease0
     else if l_ownership lease0 = O_PREEXISTING_RUNNING
     then seqM (now E) (\<lambda>t. transition_nonterminal E lease0
       [Ch_state S_RELEASED, Ch_cleanup_state C_NOT_OWNED, Ch_backend_base_url None,
        Ch_last_provider_error None, Ch_last_heartbeat_at t])
     else seqM
       (if l_provider_pod_id lease0 = None \<and> l_creation_uncertain lease0
        then seqM (resolve_uncertain_creation E lease0 reason) (\<lambda>l.
          if l_provider_pod_id l = None \<and> l_creation_uncertain l
          then raiseM (cleanup_error reason l) else ret l)
        else ret lease0) (\<lambda>lease.
       if l_provider_pod_id lease = None then release_without_pod E lease
       else release_with_pod E cleanup_token reason lease))"

subsection \<open>Cleanup families\<close>

definition TRAINING_PROFILE_IDS :: "string list" where
  "TRAINING_PROFILE_IDS = [''training'', ''training-h100'', ''training-flex'']"

definition cleanup_family :: "svc_env \<Rightarrow> string \<Rightarrow> (world, TrainingPodLease list) prog" where
  "cleanup_family E root_token =
     (let profile_ids = dict_fromkeys (TRAINING_PROFILE_IDS @ map fst (sv_profiles E));
          legacy_tokens = map (fallback_training_cleanup_token (sv_uuid5_url E) root_token) profile_ids
      in list_cleanup_family E root_token legacy_tokens)"

definition get_active_family_attempt :: "svc_env \<Rightarrow> string \<Rightarrow> (world, TrainingPodLease option) prog" where
  "get_active_family_attempt E root_token =
     seqM (repo_get E root_token) (\<lambda>found.
     case found of
       None \<Rightarrow> ret None
     | Some family_root \<Rightarrow>
         if l_family_release_requested family_root then raiseM TrainingPodConflictError
         else seqM (cleanup_family E root_token) (\<lambda>family.
           case filter (\<lambda>l. \<not> is_terminal l) family of
             [] \<Rightarrow> ret None
           | [l] \<Rightarrow> ret (Some l)
           | _ \<Rightarrow> raiseM TrainingPodConflictError))"

fun release_members :: "svc_env \<Rightarrow> string \<Rightarrow> TrainingPodLease list \<Rightarrow> py_error list
    \<Rightarrow> (world, py_error list) prog" where
  "release_members E reason [] failures = ret failures"
| "release_members E reason (member # members) failures =
     (if is_terminal member then release_members E reason members failures
      else seqM
        (try_elseM (release_one E (l_cleanup_token member) reason)
          (\<lambda>e. if is_cleanup_error e then ret [e]
               else if is_manager_error e
               then seqM (required E (l_cleanup_token member)) (\<lambda>current. ret [cleanup_error reason current])
               else raiseM e)
          (\<lambda>_. ret []))
        (\<lambda>new. release_members E reason members (failures @ new)))"

fun family_failure :: "string \<Rightarrow> string \<Rightarrow> py_error \<Rightarrow> py_error" where
  "family_failure reason token (TrainingPodCleanupError _ _ pod_id cleanup_state _) =
     TrainingPodCleanupError reason token pod_id cleanup_state True"
| "family_failure reason token e = e"

definition release :: "svc_env \<Rightarrow> string \<Rightarrow> string \<Rightarrow> (world, TrainingPodLease) prog" where
  "release E cleanup_token reason =
     seqM (required E cleanup_token) (\<lambda>exact.
     if l_root_cleanup_token exact \<noteq> cleanup_token then release_one E cleanup_token reason
     else seqM (mark_family_release_requested E exact) (\<lambda>family_root.
       seqM (cleanup_family E cleanup_token) (\<lambda>members.
       seqM (release_members E reason members []) (\<lambda>failures.
       if failures \<noteq> [] then raiseM (family_failure reason cleanup_token (last failures))
       else mark_family_release_complete E family_root))))"

end
