(* ===== verification/Pod_Acquire.thy ===== *)
theory Pod_Acquire
  imports Pod_Release
begin

text \<open>
  Acquisition: the durable claim before any provider mutation, the create or start of the Pod
  with every failure branch, readiness observation and its deadline, and the catalog entry
  points.
\<close>

section \<open>Definitions\<close>

subsection \<open>Cleanup after a failed acquisition\<close>

definition raise_after_cleanup :: "svc_env \<Rightarrow> TrainingPodLease \<Rightarrow> string \<Rightarrow> (world, 'a) prog" where
  "raise_after_cleanup E lease operation =
     seqM (release_one E (l_cleanup_token lease) operation) (\<lambda>released.
     raiseM (lifecycle_error operation released False))"

definition cleanup_cancelled_acquisition :: "svc_env \<Rightarrow> TrainingPodLease \<Rightarrow> string
    \<Rightarrow> (world, TrainingPodLease) prog" where
  "cleanup_cancelled_acquisition E lease operation =
     await_owned_effect E (release_one E (l_cleanup_token lease) operation)"

definition enforce_readiness_deadline :: "svc_env \<Rightarrow> TrainingPodLease
    \<Rightarrow> (world, TrainingPodLease) prog" where
  "enforce_readiness_deadline E lease =
     seqM (now E) (\<lambda>t.
     if t < min (l_readiness_deadline lease) (l_hard_deadline lease) then ret lease
     else raise_after_cleanup E lease ''readiness timeout'')"

subsection \<open>Existing Pods\<close>

definition acquire_existing :: "svc_env \<Rightarrow> TrainingPodLease \<Rightarrow> GPUProfile
    \<Rightarrow> (world, TrainingPodLease) prog" where
  "acquire_existing E lease profile =
     seqM (liftM (pod_id_of lease)) (\<lambda>pod_id.
     try_elseM (external (\<lambda>n. pv_observe (sv_provider E) n pod_id profile))
       (\<lambda>e. if e = CancelledError
            then seqM (release_unowned_claim E lease None) (\<lambda>_. raiseM e)
            else if is_manager_error e
            then seqM (release_unowned_claim E lease (Some e)) (\<lambda>released.
              raiseM (lifecycle_error ''Pod discovery'' released False))
            else raiseM e)
       (\<lambda>observation.
         if is_running observation
         then seqM (now E) (\<lambda>t. compare_and_set E lease
           [Ch_ownership O_PREEXISTING_RUNNING, Ch_state S_STARTING,
            Ch_backend_base_url (ob_backend_base_url observation),
            Ch_last_heartbeat_at t, Ch_last_provider_error None])
         else if is_stopped observation
         then seqM (now E) (\<lambda>t.
           seqM (compare_and_set E lease
             [Ch_ownership O_PROVISIONAL, Ch_state S_STARTING, Ch_last_heartbeat_at t]) (\<lambda>claimed.
           try_elseM (issue (EffStart pod_id) (\<lambda>n. pv_start (sv_provider E) n pod_id (gp_gpu_count profile)))
             (\<lambda>e. if e = CancelledError
                  then seqM (cleanup_cancelled_acquisition E claimed ''Pod start cancellation'')
                    (\<lambda>_. raiseM e)
                  else if is_manager_error e
                  then seqM (record_retryable_failure E claimed e None) (\<lambda>l.
                    seqM (release_one E (l_cleanup_token l) ''Pod start failure'') (\<lambda>_.
                    seqM (required E (l_cleanup_token l)) (\<lambda>current.
                    raiseM (lifecycle_error ''Pod start'' current False))))
                  else raiseM e)
             (\<lambda>_. seqM (required E (l_cleanup_token claimed)) (\<lambda>current.
               seqM (now E) (\<lambda>t'. compare_and_set E current
                 [Ch_ownership O_OWNED, Ch_last_heartbeat_at t', Ch_last_provider_error None])))))
         else seqM (release_unowned_claim E lease (Some RunPodManagerError)) (\<lambda>released.
           raiseM (lifecycle_error ''Pod acquisition'' released False))))"

subsection \<open>Created Pods\<close>

definition create_pod :: "svc_env \<Rightarrow> TrainingPodLease \<Rightarrow> GPUProfile \<Rightarrow> (string \<times> json) list option
    \<Rightarrow> (world, CreatedTrainingPod) prog" where
  "create_pod E lease profile environment =
     seqM (issue (EffCreate (l_resource_name lease))
       (\<lambda>n. pv_create (sv_provider E) n profile (l_resource_name lease) (l_companion_id lease)
              (if l_capacity_spec lease \<noteq> None
               then Some (case environment of None \<Rightarrow> [] | Some env \<Rightarrow> env) else None)
              (l_capacity_spec lease))) (\<lambda>created.
     if is_catalog_attempt lease \<and> cp_realized_placement created = None
     then if nonblank (cp_provider_pod_id created)
          then raiseM (PodCapacityCreatedMismatchError (cp_provider_pod_id created))
          else raiseM ValueError
     else ret created)"

definition create_mismatch :: "svc_env \<Rightarrow> TrainingPodLease \<Rightarrow> string \<Rightarrow> (world, TrainingPodLease) prog" where
  "create_mismatch E lease pod_id =
     seqM (now E) (\<lambda>accepted_at.
     seqM (required E (l_cleanup_token lease)) (\<lambda>current.
     seqM (transition_with_evidence E current
       [Ch_provider_pod_id (Some pod_id), Ch_ownership O_OWNED, Ch_creation_uncertain False,
        Ch_last_provider_error (Some (sanitize_training_error (PodCapacityCreatedMismatchError pod_id))),
        Ch_last_heartbeat_at accepted_at]
       (no_evidence\<lparr>ea_lifecycle := [(LF_provider_create_accepted_at, accepted_at)]\<rparr>)) (\<lambda>l.
     seqM (release_one E (l_cleanup_token l) ''created Pod validation failure'') (\<lambda>released.
     raiseM (lifecycle_error ''Pod create validation'' released False)))))"

definition create_ambiguous :: "svc_env \<Rightarrow> TrainingPodLease \<Rightarrow> py_error \<Rightarrow> (world, TrainingPodLease) prog" where
  "create_ambiguous E lease e =
     seqM (record_retryable_failure E lease e (Some True)) (\<lambda>l.
     if is_catalog_attempt l then raiseM (lifecycle_error ''Pod create'' l True)
     else seqM (release_one E (l_cleanup_token l) ''ambiguous Pod create'') (\<lambda>_.
       seqM (required E (l_cleanup_token l)) (\<lambda>current.
       raiseM (lifecycle_error ''Pod create'' current False))))"

definition create_rejected :: "svc_env \<Rightarrow> TrainingPodLease \<Rightarrow> py_error \<Rightarrow> (world, TrainingPodLease) prog" where
  "create_rejected E lease e =
     seqM (now E) (\<lambda>t.
     let changes = [Ch_state S_RELEASED, Ch_cleanup_state C_COMPLETE, Ch_creation_uncertain False,
                    Ch_last_provider_error (Some (sanitize_training_error e)), Ch_last_heartbeat_at t]
     in seqM
       (if is_catalog_attempt lease
        then seqM (zero_cost_receipt E lease ''create-rejected'') (\<lambda>receipt.
          seqM (now E) (\<lambda>reconciled_at.
          transition_with_evidence E lease
            (changes @ [Ch_state S_RELEASING, Ch_billing_state B_AUTHORITATIVE,
                        Ch_billing_receipt (Some receipt), Ch_terminated_at (Some reconciled_at)])
            (no_evidence\<lparr>ea_lifecycle := [(LF_billing_reconciled_at, reconciled_at)],
                         ea_billing := Some (Some receipt)\<rparr>)))
        else transition_with_evidence E lease changes no_evidence) (\<lambda>released.
     seqM (if is_catalog_attempt released then revoke_and_release E released else ret released)
       (\<lambda>final. raiseM (lifecycle_error ''Pod create'' final False))))"

definition create_failed :: "svc_env \<Rightarrow> TrainingPodLease \<Rightarrow> py_error \<Rightarrow> (world, TrainingPodLease) prog" where
  "create_failed E lease e =
     (case e of
        CancelledError \<Rightarrow>
          seqM (required E (l_cleanup_token lease)) (\<lambda>current.
          seqM (cleanup_cancelled_acquisition E current ''Pod create cancellation'') (\<lambda>_. raiseM e))
      | PodCapacityCreatedMismatchError pod_id \<Rightarrow> create_mismatch E lease pod_id
      | RunPodAmbiguousResultError \<Rightarrow> create_ambiguous E lease e
      | _ \<Rightarrow> if is_manager_error e then create_rejected E lease e else raiseM e)"

definition acquire_created :: "svc_env \<Rightarrow> TrainingPodLease \<Rightarrow> GPUProfile \<Rightarrow> (string \<times> json) list option
    \<Rightarrow> (world, TrainingPodLease) prog" where
  "acquire_created E lease0 profile environment =
     seqM (now E) (\<lambda>t.
     seqM (compare_and_set E lease0
       [Ch_state S_STARTING, Ch_ownership O_PROVISIONAL, Ch_creation_uncertain True,
        Ch_last_heartbeat_at t]) (\<lambda>lease.
     try_elseM (create_pod E lease profile environment) (create_failed E lease) (\<lambda>created.
       seqM (now E) (\<lambda>accepted_at.
       seqM (required E (l_cleanup_token lease)) (\<lambda>current.
       transition_with_evidence E current
         [Ch_provider_pod_id (Some (cp_provider_pod_id created)), Ch_ownership O_OWNED,
          Ch_creation_uncertain False, Ch_last_heartbeat_at accepted_at, Ch_last_provider_error None]
         (no_evidence\<lparr>ea_lifecycle := [(LF_provider_create_accepted_at, accepted_at)],
                      ea_realized_placement := Some (cp_realized_placement created)\<rparr>))))))"

subsection \<open>Readiness\<close>

text \<open>The body of the \<^verbatim>\<open>try\<close> statement either returns a lease or falls through to the promotion.\<close>

datatype readiness_step = Returned TrainingPodLease | Proceed

definition starting_only :: evidence_args where
  "starting_only = no_evidence\<lparr>ea_expected_states := Some [S_STARTING]\<rparr>"

definition worker_unready :: "svc_env \<Rightarrow> string \<Rightarrow> py_error \<Rightarrow> (world, readiness_step) prog" where
  "worker_unready E token e =
     seqM (required E token) (\<lambda>current.
     if l_state current \<noteq> S_STARTING then ret (Returned current)
     else seqM (now E) (\<lambda>t.
       seqM (transition_with_evidence E current
         [Ch_last_provider_error (Some (sanitize_training_error e)), Ch_last_heartbeat_at t] starting_only)
       (\<lambda>l. ret (Returned l))))"

definition observe_starting :: "svc_env \<Rightarrow> TrainingPodLease \<Rightarrow> GPUProfile \<Rightarrow> (world, readiness_step) prog" where
  "observe_starting E lease profile =
     seqM (liftM (pod_id_of lease)) (\<lambda>pod_id.
     seqM (external (\<lambda>n. pv_observe (sv_provider E) n pod_id profile)) (\<lambda>observation.
     seqM (required E (l_cleanup_token lease)) (\<lambda>current.
     if l_state current \<noteq> S_STARTING then ret (Returned current)
     else seqM (now E) (\<lambda>observed_at.
       seqM (transition_with_evidence E current
         [Ch_backend_base_url (ob_backend_base_url observation), Ch_last_heartbeat_at observed_at,
          Ch_last_provider_error None]
         (starting_only\<lparr>ea_lifecycle := (if is_running observation
            then [(LF_first_running_observed_at, observed_at)] else [])\<rparr>)) (\<lambda>l.
       if l_state l \<noteq> S_STARTING then ret (Returned l)
       else if is_failed observation \<or> is_stopped observation
       then raise_after_cleanup E l ''readiness''
       else if \<not> is_running observation then ret (Returned l)
       else case ob_backend_base_url observation of
           None \<Rightarrow> ret (Returned l)
         | Some url \<Rightarrow>
             if url = [] then ret (Returned l)
             else if is_catalog_attempt l
             then try_elseM
               (seqM (liftM (require_workload_transport E)) (\<lambda>transport.
                  external (\<lambda>n. wt_health transport n url)))
               (\<lambda>e. if is_transport_error e then worker_unready E (l_cleanup_token l) e else raiseM e)
               (\<lambda>_. ret Proceed)
             else ret Proceed)))))"

definition observe_readiness :: "svc_env \<Rightarrow> TrainingPodLease \<Rightarrow> GPUProfile
    \<Rightarrow> (world, TrainingPodLease) prog" where
  "observe_readiness E lease0 profile =
     seqM (required E (l_cleanup_token lease0)) (\<lambda>lease1.
     if l_state lease1 \<noteq> S_STARTING then ret lease1
     else seqM (enforce_readiness_deadline E lease1) (\<lambda>lease.
       try_elseM (observe_starting E lease profile)
         (\<lambda>e. if e = CancelledError
              then seqM (cleanup_cancelled_acquisition E lease ''readiness cancellation'') (\<lambda>_. raiseM e)
              else if is_lifecycle_error e then raiseM e
              else if is_manager_error e
              then seqM (required E (l_cleanup_token lease)) (\<lambda>current.
                seqM (record_retryable_failure E current e None) (\<lambda>failed.
                raise_after_cleanup E failed ''readiness observation''))
              else raiseM e)
         (\<lambda>step. case step of
            Returned l \<Rightarrow> ret l
          | Proceed \<Rightarrow>
              seqM (required E (l_cleanup_token lease)) (\<lambda>current0.
              if l_state current0 \<noteq> S_STARTING then ret current0
              else seqM (enforce_readiness_deadline E current0) (\<lambda>current.
                seqM (now E) (\<lambda>ready_at.
                transition_with_evidence E current
                  [Ch_state S_READY, Ch_last_heartbeat_at ready_at]
                  (starting_only\<lparr>ea_lifecycle := [(LF_worker_ready_at, ready_at)]\<rparr>)))))))"

fun wait_ready :: "nat \<Rightarrow> svc_env \<Rightarrow> TrainingPodLease \<Rightarrow> GPUProfile \<Rightarrow> (world, TrainingPodLease) prog" where
  "wait_ready 0 E lease profile = raiseM Diverged"
| "wait_ready (Suc n) E lease profile =
     seqM (observe_readiness E lease profile) (\<lambda>l.
     if l_state l \<noteq> S_STARTING then ret l
     else try_elseM (external (sv_sleep E))
       (\<lambda>e. if e = CancelledError
            then seqM (cleanup_cancelled_acquisition E l ''readiness cancellation'') (\<lambda>_. raiseM e)
            else raiseM e)
       (\<lambda>_. wait_ready n E l profile))"

subsection \<open>Entry points\<close>

definition acquire_lease :: "svc_env \<Rightarrow> TrainingPodRequest \<Rightarrow> (string \<times> json) list option \<Rightarrow> bool
    \<Rightarrow> (world, TrainingPodLease) prog" where
  "acquire_lease E request environment wait_for_ready =
     (if (case tr_capacity_spec request of None \<Rightarrow> False | Some s \<Rightarrow> protocol_of s \<noteq> Some 1)
      then raiseM RunPodManagerError
      else seqM (reserve E request) (\<lambda>(lease0, inserted).
        if \<not> inserted
        then if l_state lease0 = S_READY then heartbeat E (l_cleanup_token lease0)
             else raiseM TrainingPodConflictError
        else seqM (liftM (profile_of E (l_profile_id lease0))) (\<lambda>profile.
          seqM (if tr_source request = CREATED then acquire_created E lease0 profile environment
                else acquire_existing E lease0 profile) (\<lambda>lease.
          if wait_for_ready then wait_ready (sv_fuel E) E lease profile else ret lease))))"

definition acquire :: "svc_env \<Rightarrow> TrainingPodRequest \<Rightarrow> (string \<times> json) list option
    \<Rightarrow> (world, TrainingPodLease) prog" where
  "acquire E request environment = acquire_lease E request environment True"

definition find_catalog_capacity :: "svc_env \<Rightarrow> string \<Rightarrow> string \<Rightarrow> string
    \<Rightarrow> (world, TrainingPodLease option) prog" where
  "find_catalog_capacity E capacity_id owner_id workload_id =
     seqM (repo_get E capacity_id) (\<lambda>found.
     case found of
       None \<Rightarrow> ret None
     | Some lease \<Rightarrow> seqM (liftM (capacity_spec_of lease)) (\<lambda>spec.
         if cr_owner_id (sp_request spec) \<noteq> owner_id \<or> cr_workload_id (sp_request spec) \<noteq> workload_id
         then raiseM TrainingPodConflictError else ret (Some lease)))"

definition catalog_lease :: "svc_env \<Rightarrow> string \<Rightarrow> string \<Rightarrow> string \<Rightarrow> (world, TrainingPodLease) prog" where
  "catalog_lease E capacity_id owner_id workload_id =
     seqM (find_catalog_capacity E capacity_id owner_id workload_id) (\<lambda>found.
     case found of None \<Rightarrow> raiseM RunPodManagerError | Some lease \<Rightarrow> ret lease)"

definition poll_catalog_readiness :: "svc_env \<Rightarrow> string \<Rightarrow> string \<Rightarrow> string
    \<Rightarrow> (world, TrainingPodLease) prog" where
  "poll_catalog_readiness E capacity_id owner_id workload_id =
     seqM (catalog_lease E capacity_id owner_id workload_id) (\<lambda>lease.
     if l_state lease \<noteq> S_STARTING then ret lease
     else if l_provider_pod_id lease = None \<or> l_creation_uncertain lease
     then raiseM TrainingPodConflictError
     else seqM (heartbeat E capacity_id) (\<lambda>alive.
       seqM (liftM (profile_of E (l_profile_id alive))) (observe_readiness E alive)))"

definition replay_catalog :: "svc_env \<Rightarrow> CatalogPodCapacityRequest \<Rightarrow> bool \<Rightarrow> TrainingPodLease
    \<Rightarrow> (world, TrainingPodLease) prog" where
  "replay_catalog E request wait_for_ready existing =
     seqM (liftM (capacity_spec_of existing)) (\<lambda>existing_spec.
     if catalog_fingerprint (re_jsha E) (sp_request existing_spec) \<noteq> catalog_fingerprint (re_jsha E) request
     then raiseM TrainingPodConflictError
     else seqM (liftM (attempt_environment_sha256 (re_jsha E) (cr_attempt_environment request))) (\<lambda>env_sha.
       if sp_attempt_environment_sha256 existing_spec \<noteq> env_sha then raiseM TrainingPodConflictError
       else if l_state existing = S_READY
          \<or> (\<not> wait_for_ready \<and> l_state existing = S_STARTING \<and> l_provider_pod_id existing \<noteq> None
              \<and> \<not> l_creation_uncertain existing)
       then heartbeat E (l_cleanup_token existing)
       else raiseM TrainingPodConflictError))"

definition catalog_environment :: "CatalogPodCapacityRequest \<Rightarrow> CatalogAttemptCapability
    \<Rightarrow> (string \<times> json) list" where
  "catalog_environment request capability =
     (let image_digest_text = after_last_at (cr_image_reference request) in
      map (\<lambda>(k, v). (k, JStr v)) (cr_attempt_environment request)
      @ [(''CATALOG_WORKER_MODE'', JStr ''pod''),
         (''CATALOG_POD_ATTEMPT_ID'', JStr (cr_attempt_id request)),
         (''CATALOG_POD_BEARER_TOKEN'', JStr (cap_bearer_token capability)),
         (''CATALOG_POD_BEARER_EXPIRES_AT'', JTime (cap_expires_at capability)),
         (''CONTAINER_DIGEST'', JStr image_digest_text),
         (''CATALOG_POD_IMAGE_DIGEST'', JStr image_digest_text),
         (''CATALOG_POD_REQUEST_SHA256'', JStr (cr_request_sha256 request))])"

definition internal_request :: "svc_env \<Rightarrow> CatalogPodCapacityRequest \<Rightarrow> PodCapacitySpec
    \<Rightarrow> TrainingPodRequest" where
  "internal_request E request spec =
     \<lparr> tr_cleanup_token = cr_capacity_id request, tr_root_cleanup_token = cr_cleanup_family_id request,
       tr_companion_id = cr_owner_id request, tr_profile_id = cr_profile_id request,
       tr_source = CREATED, tr_resource_name = catalog_resource_name (re_sha E) (re_jsha E) request,
       tr_provider_pod_id = None, tr_created_at = cr_created_at request,
       tr_readiness_deadline = cr_readiness_deadline request,
       tr_hard_deadline = cr_hard_deadline request, tr_capacity_spec = Some spec \<rparr>"

definition acquire_catalog_new :: "svc_env \<Rightarrow> CatalogPodCapacityRequest \<Rightarrow> bool
    \<Rightarrow> (world, TrainingPodLease) prog" where
  "acquire_catalog_new E request wait_for_ready =
     seqM (now E) (\<lambda>t.
     if t < cr_created_at request \<or> cr_created_at request < qt_observed_at (cr_quote request)
     then raiseM RunPodManagerError
     else if qt_expires_at (cr_quote request) \<le> t then raiseM RunPodManagerError
     else seqM (liftM (require_capability_store E)) (\<lambda>store.
       seqM (external (\<lambda>n. cs_load_or_create store n (cr_attempt_id request)
               (cr_bearer_expires_at request))) (\<lambda>capability.
       seqM (liftM (validate_capability request capability)) (\<lambda>_.
       seqM (now E) (\<lambda>t'.
       if min (qt_expires_at (cr_quote request))
              (min (cr_readiness_deadline request) (cr_hard_deadline request)) \<le> t'
       then raiseM RunPodManagerError
       else seqM (liftM (attempt_environment_sha256 (re_jsha E) (cr_attempt_environment request))) (\<lambda>env_sha.
         let spec = \<lparr> sp_request = request, sp_capability_secret_id = cap_secret_id capability,
               sp_capability_token_sha256 = cap_token_sha256 capability,
               sp_capability_expires_at = cap_expires_at capability,
               sp_attempt_environment_sha256 = env_sha \<rparr>;
             internal = internal_request E request spec
         in case first_error (nested_error (spec_post_init spec)
                @ nested_error (request_post_init (re_sha E) (re_jsha E) internal)) of
              Some e \<Rightarrow> raiseM e
            | None \<Rightarrow> acquire_lease E internal (Some (catalog_environment request capability))
                        wait_for_ready))))))"

definition acquire_catalog_request :: "svc_env \<Rightarrow> CatalogPodCapacityRequest \<Rightarrow> bool
    \<Rightarrow> (world, TrainingPodLease) prog" where
  "acquire_catalog_request E request wait_for_ready =
     seqM (liftM (require_workload_transport E)) (\<lambda>_.
     if cr_artifact_handoff_protocol_version request \<noteq> Some 1 then raiseM RunPodManagerError
     else seqM (repo_get E (cr_capacity_id request)) (\<lambda>found.
       case found of
         Some existing \<Rightarrow> replay_catalog E request wait_for_ready existing
       | None \<Rightarrow> acquire_catalog_new E request wait_for_ready))"

definition acquire_catalog :: "svc_env \<Rightarrow> CatalogPodCapacityRequest \<Rightarrow> (world, TrainingPodLease) prog" where
  "acquire_catalog E request = acquire_catalog_request E request True"

definition provision_catalog :: "svc_env \<Rightarrow> CatalogPodCapacityRequest \<Rightarrow> (world, TrainingPodLease) prog" where
  "provision_catalog E request = acquire_catalog_request E request False"

definition validate_catalog_reconciler_dependencies :: "svc_env \<Rightarrow> (world, unit) prog" where
  "validate_catalog_reconciler_dependencies E =
     seqM (liftM (require_capability_store E)) (\<lambda>_.
     seqM (liftM (require_workload_transport E)) (\<lambda>_.
     if sv_profiles E = [] then raiseM RunPodManagerError
     else seqM (list_for_reconciliation E) (\<lambda>leases.
       if \<exists>l \<in> set leases. is_catalog_attempt l \<and> l_profile_id l \<notin> fst ` set (sv_profiles E)
       then raiseM RunPodManagerError else ret ())))"

end
