(* ===== verification/Pod_Codec.thy ===== *)
theory Pod_Codec
  imports Pod_Evidence
begin

text \<open>
  The dictionary forms of the stored evidence (\<^verbatim>\<open>to_dict\<close>, \<^verbatim>\<open>from_dict\<close>, \<^verbatim>\<open>from_envelope\<close> of
  \<^verbatim>\<open>pod_capacity_contracts.py\<close>).  The texts that \<^verbatim>\<open>decimal_text\<close> and \<^verbatim>\<open>iso_datetime\<close> print are the
  tagged values \<^verbatim>\<open>JAmount\<close> and \<^verbatim>\<open>JTime\<close>; the \<^verbatim>\<open>Decimal\<close> and \<^verbatim>\<open>fromisoformat\<close> readers of any other
  text are arguments.
\<close>

section \<open>Definitions\<close>

record text_readers =
  read_decimal :: "string \<Rightarrow> amount option"
  read_datetime :: "string \<Rightarrow> datetime option"

fun jkeys :: "json \<Rightarrow> string list" where
  "jkeys (JObj kvs) = map fst kvs"
| "jkeys _ = []"

definition exact_keys :: "json \<Rightarrow> string list \<Rightarrow> py_error + unit" where
  "exact_keys v expected =
     (if set (jkeys v) \<noteq> set expected then Inl RunPodManagerError else Inr ())"

definition required_mapping :: "json \<Rightarrow> string \<Rightarrow> py_error + json" where
  "required_mapping v k = (if is_jobj (jget v k) then Inr (jget v k) else Inl RunPodManagerError)"

definition required_string :: "json \<Rightarrow> string \<Rightarrow> py_error + string" where
  "required_string v k = (case jget v k of
     JStr s \<Rightarrow> if s = [] then Inl RunPodManagerError else Inr s | _ \<Rightarrow> Inl RunPodManagerError)"

definition required_int :: "json \<Rightarrow> string \<Rightarrow> py_error + int" where
  "required_int v k = (case jget v k of JInt n \<Rightarrow> Inr n | _ \<Rightarrow> Inl RunPodManagerError)"

definition nonnegative :: "amount \<Rightarrow> py_error + amount option" where
  "nonnegative a = (if \<not> finite_amount a \<or> usd a < 0 then Inl ValueError else Inr (Some a))"

definition envelope_optional_decimal :: "text_readers \<Rightarrow> json \<Rightarrow> py_error + amount option" where
  "envelope_optional_decimal R v =
     (case v of
        JNull \<Rightarrow> Inr None
      | JInt n \<Rightarrow> nonnegative (Fin (of_int n))
      | JNum d \<Rightarrow> nonnegative (if is_finite d then Fin (dval d) else NaNInf)
      | JAmount a \<Rightarrow> nonnegative a
      | JStr s \<Rightarrow> (case read_decimal R s of None \<Rightarrow> Inl ValueError | Some a \<Rightarrow> nonnegative a)
      | JTime t \<Rightarrow> Inl ValueError
      | _ \<Rightarrow> Inl TypeError)"

definition optional_nonnegative_int :: "json \<Rightarrow> py_error + int option" where
  "optional_nonnegative_int v =
     (case v of JNull \<Rightarrow> Inr None | JInt n \<Rightarrow> if n < 0 then Inl ValueError else Inr (Some n)
      | _ \<Rightarrow> Inl ValueError)"

definition stored_datetime :: "datetime option \<Rightarrow> py_error + datetime option" where
  "stored_datetime t =
     (case t of None \<Rightarrow> Inl RunPodManagerError
      | Some d \<Rightarrow> if is_aware d then Inr (Some d) else Inl ValueError)"

definition optional_started :: "text_readers \<Rightarrow> json \<Rightarrow> py_error + datetime option" where
  "optional_started R v =
     (case v of
        JNull \<Rightarrow> Inr None
      | JTime t \<Rightarrow> stored_datetime (Some t)
      | JStr s \<Rightarrow> stored_datetime (read_datetime R s)
      | JAmount a \<Rightarrow> Inl RunPodManagerError
      | _ \<Rightarrow> Inl ValueError)"

definition bindE :: "'e + 'a \<Rightarrow> ('a \<Rightarrow> 'e + 'b) \<Rightarrow> 'e + 'b" where
  "bindE r f = (case r of Inl e \<Rightarrow> Inl e | Inr x \<Rightarrow> f x)"

lemma bindE_simps [simp]: "bindE (Inl e) f = Inl e" "bindE (Inr x) f = f x"
  by (simp_all add: bindE_def)

definition worker_timing_fields :: "string list" where
  "worker_timing_fields = [''artifact_upload_seconds'', ''container_boot_seconds'', ''execution_seconds'',
     ''image_pull_and_container_boot_seconds'', ''image_pull_seconds'', ''model_load_seconds'',
     ''training_seconds'']"

definition worker_metric_fields :: "string list" where
  "worker_metric_fields = [''peak_vram_bytes'', ''peak_host_ram_bytes'', ''gpu_seconds'', ''idle_seconds'']"

definition worker_to_dict :: "CatalogWorkerEvidence \<Rightarrow> json" where
  "worker_to_dict k = JObj
     [(''schema_version'', JInt (wk_schema_version k)),
      (''attempt_id'', JStr (wk_attempt_id k)),
      (''request_sha256'', JStr (wk_request_sha256 k)),
      (''image_digest'', JStr (wk_image_digest k)),
      (''container_process_started_at'', jopt JTime (wk_container_process_started_at k)),
      (''timings_seconds'', JObj
        [(''artifact_upload_seconds'', jopt JAmount (wk_artifact_upload_seconds k)),
         (''container_boot_seconds'', jopt JAmount (wk_container_boot_seconds k)),
         (''execution_seconds'', jopt JAmount (wk_execution_seconds k)),
         (''image_pull_and_container_boot_seconds'',
            jopt JAmount (wk_image_pull_and_container_boot_seconds k)),
         (''image_pull_seconds'', jopt JAmount (wk_image_pull_seconds k)),
         (''model_load_seconds'', jopt JAmount (wk_model_load_seconds k)),
         (''training_seconds'', jopt JAmount (wk_training_seconds k))]),
      (''metrics'', JObj
        [(''peak_vram_bytes'', jopt JInt (wk_peak_vram_bytes k)),
         (''peak_host_ram_bytes'', jopt JInt (wk_peak_host_ram_bytes k)),
         (''gpu_seconds'', jopt JAmount (wk_gpu_seconds k)),
         (''idle_seconds'', jopt JAmount (wk_idle_seconds k))])]"

text \<open>
  The timing fields are read in an unspecified set order; every error of an entry is raised
  before the object is built, and the order below is one of the possible ones.
\<close>

definition worker_from_envelope :: "text_readers \<Rightarrow> json \<Rightarrow> py_error + CatalogWorkerEvidence" where
  "worker_from_envelope R v =
     bindE (exact_keys v [''schema_version'', ''attempt_id'', ''request_sha256'', ''image_digest'',
              ''container_process_started_at'', ''timings_seconds'', ''metrics'']) (\<lambda>_.
     bindE (required_mapping v ''timings_seconds'') (\<lambda>timings.
     bindE (required_mapping v ''metrics'') (\<lambda>metrics.
     bindE (exact_keys timings worker_timing_fields) (\<lambda>_.
     bindE (exact_keys metrics worker_metric_fields) (\<lambda>_.
     let seconds_of = (\<lambda>m name. envelope_optional_decimal R (jget m name)) in
     bindE (case jget v ''container_process_started_at'' of
              JNull \<Rightarrow> Inr () | JStr _ \<Rightarrow> Inr () | JTime _ \<Rightarrow> Inr () | JAmount _ \<Rightarrow> Inr ()
            | _ \<Rightarrow> Inl ValueError) (\<lambda>_.
     bindE (required_int v ''schema_version'') (\<lambda>schema_version.
     bindE (required_string v ''attempt_id'') (\<lambda>attempt_id.
     bindE (required_string v ''request_sha256'') (\<lambda>request_sha256.
     bindE (required_string v ''image_digest'') (\<lambda>digest.
     bindE (optional_started R (jget v ''container_process_started_at'')) (\<lambda>started.
     bindE (seconds_of timings ''image_pull_and_container_boot_seconds'') (\<lambda>pull_boot.
     bindE (seconds_of timings ''image_pull_seconds'') (\<lambda>pull.
     bindE (seconds_of timings ''container_boot_seconds'') (\<lambda>boot.
     bindE (seconds_of timings ''model_load_seconds'') (\<lambda>load.
     bindE (seconds_of timings ''execution_seconds'') (\<lambda>execution.
     bindE (seconds_of timings ''training_seconds'') (\<lambda>training.
     bindE (seconds_of timings ''artifact_upload_seconds'') (\<lambda>upload.
     bindE (optional_nonnegative_int (jget metrics ''peak_vram_bytes'')) (\<lambda>vram.
     bindE (optional_nonnegative_int (jget metrics ''peak_host_ram_bytes'')) (\<lambda>ram.
     bindE (seconds_of metrics ''gpu_seconds'') (\<lambda>gpu.
     bindE (seconds_of metrics ''idle_seconds'') (\<lambda>idle.
     let k = \<lparr> wk_schema_version = schema_version, wk_attempt_id = attempt_id,
               wk_request_sha256 = request_sha256, wk_image_digest = digest,
               wk_container_process_started_at = started,
               wk_image_pull_and_container_boot_seconds = pull_boot, wk_image_pull_seconds = pull,
               wk_container_boot_seconds = boot, wk_model_load_seconds = load,
               wk_execution_seconds = execution, wk_training_seconds = training,
               wk_artifact_upload_seconds = upload, wk_peak_vram_bytes = vram,
               wk_peak_host_ram_bytes = ram, wk_gpu_seconds = gpu, wk_idle_seconds = idle \<rparr>
     in case worker_post_init k of Some e \<Rightarrow> Inl e | None \<Rightarrow> Inr k))))))))))))))))))))))"

end
