(* ===== verification/Pod_Catalog.thy ===== *)
theory Pod_Catalog
  imports Pod_Acquire Pod_Codec
begin

text \<open>
  The catalog workload lifecycle: submission, observation and its effect on the lease, result
  retrieval, worker evidence, the artifact handoff with the host acknowledgement, confirmed
  release and cancellation.
\<close>

section \<open>Definitions\<close>

subsection \<open>What an observation changes\<close>

fun workload_rank :: "CatalogPodWorkloadState \<Rightarrow> nat option" where
  "workload_rank W_NOT_SUBMITTED = Some 0"
| "workload_rank W_IDLE = Some 0"
| "workload_rank W_RUNNING = Some 1"
| "workload_rank W_SUCCEEDED = Some 2"
| "workload_rank W_AWAITING_ACK = Some 2"
| "workload_rank W_ACKNOWLEDGED = Some 3"
| "workload_rank _ = None"

definition rank_or_4 :: "CatalogPodWorkloadState \<Rightarrow> nat" where
  "rank_or_4 s = (case workload_rank s of None \<Rightarrow> 4 | Some n \<Rightarrow> n)"

definition observed_binding :: "PodCapacitySpec \<Rightarrow> CatalogPodWorkloadObservation
    \<Rightarrow> py_error + CatalogArtifactHandoffEvidence" where
  "observed_binding spec ob =
     (case (wo_result_sha256 ob, wo_receipt_sha256 ob) of
        (Some result_sha, Some receipt_sha) \<Rightarrow>
          (let h = \<lparr> ho_attempt_id = wo_attempt_id ob, ho_request_sha256 = cr_request_sha256 (sp_request spec),
                     ho_result_sha256 = result_sha, ho_receipt_sha256 = receipt_sha,
                     ho_acknowledgement_sha256 = None, ho_acknowledgement_payload_sha256 = None,
                     ho_remote_ack_observed_at = None, ho_host_confirmation_declared_at = None \<rparr>
           in case handoff_post_init h of Some e \<Rightarrow> Inl e | None \<Rightarrow> Inr h)
      | _ \<Rightarrow> Inl ValueError)"

definition observed_handoff :: "PodCapacitySpec \<Rightarrow> CatalogPodWorkloadObservation \<Rightarrow> datetime
    \<Rightarrow> CatalogArtifactHandoffEvidence option \<Rightarrow> py_error + CatalogArtifactHandoffEvidence option" where
  "observed_handoff spec ob observed_at stored =
     (if wo_state ob \<notin> {W_AWAITING_ACK, W_ACKNOWLEDGED} then Inr stored
      else (case observed_binding spec ob of
          Inl e \<Rightarrow> Inl e
        | Inr binding \<Rightarrow>
            if (case stored of None \<Rightarrow> False | Some h \<Rightarrow>
                  ho_result_sha256 h \<noteq> ho_result_sha256 binding
                  \<or> ho_receipt_sha256 h \<noteq> ho_receipt_sha256 binding)
            then Inl TrainingPodConflictError
            else let h = (case stored of None \<Rightarrow> binding | Some h \<Rightarrow> h) in
              if wo_state ob \<noteq> W_ACKNOWLEDGED then Inr (Some h)
              else if ho_acknowledgement_sha256 h = None
                 \<or> ho_acknowledgement_sha256 h \<noteq> wo_acknowledgement_sha256 ob
              then Inl TrainingPodConflictError
              else let h' = h\<lparr>ho_remote_ack_observed_at :=
                     option_or (ho_remote_ack_observed_at h) (Some observed_at)\<rparr> in
                (case handoff_post_init h' of Some e \<Rightarrow> Inl e | None \<Rightarrow> Inr (Some h'))))"

definition observation_conflict :: "PodCapacitySpec \<Rightarrow> CatalogPodWorkloadObservation \<Rightarrow> bool" where
  "observation_conflict spec ob \<longleftrightarrow>
     (protocol_of spec = Some 1 \<and> wo_state ob = W_SUCCEEDED)
     \<or> (protocol_of spec = None \<and> wo_state ob \<in> {W_AWAITING_ACK, W_ACKNOWLEDGED})"

definition observed_state_changes :: "CatalogPodWorkloadObservation \<Rightarrow> datetime
    \<Rightarrow> column_change list \<times> (lifecycle_field \<times> datetime) list" where
  "observed_state_changes ob observed_at =
     (case wo_state ob of
        W_RUNNING \<Rightarrow> ([Ch_state S_JOB_SUBMITTED, Ch_provider_job_id (Some (wo_attempt_id ob))],
                      [(LF_workload_running_at, observed_at)])
      | W_SUCCEEDED \<Rightarrow> ([Ch_state S_JOB_COMPLETED, Ch_provider_job_id (Some (wo_attempt_id ob))],
                        [(LF_workload_terminal_at, observed_at)])
      | W_AWAITING_ACK \<Rightarrow> ([Ch_state S_JOB_COMPLETED, Ch_provider_job_id (Some (wo_attempt_id ob))],
                           [(LF_workload_terminal_at, observed_at)])
      | W_ACKNOWLEDGED \<Rightarrow> ([Ch_state S_JOB_COMPLETED, Ch_provider_job_id (Some (wo_attempt_id ob))],
                           [(LF_workload_terminal_at, observed_at)])
      | W_FAILED \<Rightarrow> ([Ch_state S_CANCEL_REQUESTED], [(LF_workload_terminal_at, observed_at)])
      | W_CANCELLED \<Rightarrow> ([Ch_state S_CANCEL_REQUESTED], [(LF_workload_terminal_at, observed_at)])
      | W_CANCEL_REQUESTED \<Rightarrow> ([Ch_state S_CANCEL_REQUESTED], [])
      | _ \<Rightarrow> ([], []))"

definition observation_ignored :: "TrainingPodLease \<Rightarrow> CatalogPodWorkloadObservation \<Rightarrow> bool" where
  "observation_ignored lease ob \<longleftrightarrow>
     is_terminal lease \<or> l_state lease \<notin> {S_READY, S_JOB_SUBMITTED, S_JOB_COMPLETED}
     \<or> l_workload_state lease = W_CANCEL_REQUESTED
     \<or> (case workload_rank (wo_state ob) of None \<Rightarrow> False | Some n \<Rightarrow> n < rank_or_4 (l_workload_state lease))"

definition catalog_observation_changes :: "svc_env \<Rightarrow> TrainingPodLease \<Rightarrow> CatalogPodWorkloadObservation
    \<Rightarrow> bool \<Rightarrow> (world, column_change list \<times> (lifecycle_field \<times> datetime) list) prog" where
  "catalog_observation_changes E lease ob submitted =
     seqM (liftM (capacity_spec_of lease)) (\<lambda>spec.
     if wo_attempt_id ob \<noteq> cr_attempt_id (sp_request spec)
        \<or> wo_request_sha256 ob \<noteq> Some (cr_request_sha256 (sp_request spec))
     then raiseM TrainingPodConflictError
     else seqM (now E) (\<lambda>observed_at.
       if observation_conflict spec ob then raiseM TrainingPodConflictError
       else seqM (liftM (observed_handoff spec ob observed_at (l_artifact_handoff lease))) (\<lambda>handoff.
         let proof_changes = (if handoff \<noteq> l_artifact_handoff lease then [Ch_artifact_handoff handoff] else []);
             (state_changes, lifecycle) = observed_state_changes ob observed_at
         in if observation_ignored lease ob then ret (proof_changes, [])
            else ret (proof_changes @ [Ch_workload_state (wo_state ob),
                        Ch_workload_error_type (wo_error_type ob), Ch_last_provider_error None,
                        Ch_last_heartbeat_at observed_at] @ state_changes,
                      (if submitted then [(LF_workload_submitted_at, observed_at)] else []) @ lifecycle))))"

fun record_observation_loop :: "nat \<Rightarrow> svc_env \<Rightarrow> string \<Rightarrow> CatalogPodWorkloadObservation \<Rightarrow> bool
    \<Rightarrow> (world, TrainingPodLease) prog" where
  "record_observation_loop 0 E capacity_id ob submitted = raiseM Diverged"
| "record_observation_loop (Suc n) E capacity_id ob submitted =
     seqM (required E capacity_id) (\<lambda>lease.
     seqM (catalog_observation_changes E lease ob submitted) (\<lambda>(changes, lifecycle).
     if changes = [] then ret lease
     else tryM
       (if is_terminal lease then compare_and_set E lease changes
        else transition_with_evidence E lease changes
          (no_evidence\<lparr>ea_lifecycle := lifecycle, ea_retry_on_conflict := False\<rparr>))
       (\<lambda>e. if e = TrainingPodConflictError then record_observation_loop n E capacity_id ob submitted
            else raiseM e)))"

definition record_catalog_observation :: "svc_env \<Rightarrow> string \<Rightarrow> CatalogPodWorkloadObservation \<Rightarrow> bool
    \<Rightarrow> (world, TrainingPodLease) prog" where
  "record_catalog_observation E capacity_id ob submitted =
     record_observation_loop (sv_fuel E) E capacity_id ob submitted"

subsection \<open>Submission and observation\<close>

definition submission_lease :: "svc_env \<Rightarrow> string \<Rightarrow> string \<Rightarrow> string \<Rightarrow> (world, TrainingPodLease) prog" where
  "submission_lease E capacity_id owner_id workload_id =
     seqM (catalog_lease E capacity_id owner_id workload_id) (\<lambda>lease.
     seqM (liftM (capacity_spec_of lease)) (\<lambda>spec.
     if protocol_of spec \<noteq> Some 1 then raiseM RunPodManagerError
     else if l_state lease \<notin> {S_READY, S_JOB_SUBMITTED} then raiseM RunPodManagerError
     else seqM (now E) (\<lambda>t. if l_hard_deadline lease \<le> t then raiseM RunPodManagerError else ret lease)))"

definition submit_catalog_workload :: "svc_env \<Rightarrow> string \<Rightarrow> string \<Rightarrow> string \<Rightarrow> json
    \<Rightarrow> (world, CatalogPodWorkloadObservation) prog" where
  "submit_catalog_workload E capacity_id owner_id workload_id payload =
     seqM (submission_lease E capacity_id owner_id workload_id) (\<lambda>lease0.
     seqM (liftM (capacity_spec_of lease0)) (\<lambda>spec.
     seqM (load_capability E spec) (\<lambda>capability.
     seqM (submission_lease E capacity_id owner_id workload_id) (\<lambda>lease.
     seqM (liftM (require_workload_transport E)) (\<lambda>transport.
     seqM (liftM (route lease)) (\<lambda>url.
     seqM (issue (EffSubmit (cr_attempt_id (sp_request spec)))
       (\<lambda>n. wt_submit transport n url (cr_attempt_id (sp_request spec))
              (cr_request_sha256 (sp_request spec)) (cap_bearer_token capability) payload)) (\<lambda>observation.
     seqM (record_catalog_observation E (l_cleanup_token lease) observation True) (\<lambda>_.
     ret observation))))))))"

definition observe_catalog_workload :: "svc_env \<Rightarrow> string \<Rightarrow> string \<Rightarrow> string
    \<Rightarrow> (world, CatalogPodWorkloadObservation) prog" where
  "observe_catalog_workload E capacity_id owner_id workload_id =
     seqM (catalog_lease E capacity_id owner_id workload_id) (\<lambda>lease.
     seqM (liftM (capacity_spec_of lease)) (\<lambda>spec.
     seqM (load_capability E spec) (\<lambda>capability.
     seqM (liftM (require_workload_transport E)) (\<lambda>transport.
     seqM (liftM (route lease)) (\<lambda>url.
     seqM (external (\<lambda>n. wt_status transport n url (cr_attempt_id (sp_request spec))
              (cr_request_sha256 (sp_request spec)) (cap_bearer_token capability))) (\<lambda>observation.
     seqM (record_catalog_observation E capacity_id observation False) (\<lambda>updated.
     if l_workload_state updated = W_CANCEL_REQUESTED
     then seqM (release E capacity_id ''cancelled catalog attempt'') (\<lambda>_.
       ret \<lparr> wo_attempt_id = wo_attempt_id observation, wo_request_sha256 = wo_request_sha256 observation,
             wo_state = W_CANCEL_REQUESTED, wo_error_type = None, wo_result_available = False,
             wo_result_sha256 = None, wo_receipt_sha256 = None, wo_acknowledgement_sha256 = None \<rparr>)
     else if l_workload_state updated \<in> {W_FAILED, W_CANCELLED}
     then seqM (release E capacity_id ''terminal catalog workload'') (\<lambda>_. ret observation)
     else ret observation)))))))"

definition receipt_matches_handoff :: "json \<Rightarrow> CatalogArtifactHandoffEvidence option \<Rightarrow> bool" where
  "receipt_matches_handoff payload handoff \<longleftrightarrow>
     (let receipt = jget payload ''receipt'' in
      is_jobj receipt \<and> (case handoff of None \<Rightarrow> False | Some h \<Rightarrow>
        jget receipt ''result_sha256'' = JStr (ho_result_sha256 h)
        \<and> jget receipt ''receipt_sha256'' = JStr (ho_receipt_sha256 h)))"

definition retrieve_catalog_result :: "svc_env \<Rightarrow> string \<Rightarrow> string \<Rightarrow> string \<Rightarrow> (world, json) prog" where
  "retrieve_catalog_result E capacity_id owner_id workload_id =
     seqM (catalog_lease E capacity_id owner_id workload_id) (\<lambda>lease0.
     seqM (liftM (catalog_result_ready lease0)) (\<lambda>ready.
     if \<not> ready then raiseM RunPodManagerError
     else seqM (liftM (capacity_spec_of lease0)) (\<lambda>spec.
       seqM (load_capability E spec) (\<lambda>capability.
       seqM (heartbeat E (l_cleanup_token lease0)) (\<lambda>lease.
       seqM (liftM (require_workload_transport E)) (\<lambda>transport.
       seqM (liftM (route lease)) (\<lambda>url.
       seqM (external (\<lambda>n. wt_result transport n url (cr_attempt_id (sp_request spec))
                (cr_request_sha256 (sp_request spec)) (cap_bearer_token capability) (protocol_of spec)))
         (\<lambda>payload.
       seqM (required E capacity_id) (\<lambda>current.
       if l_workload_state current = W_CANCEL_REQUESTED
       then seqM (release E capacity_id ''late result after cancellation'') (\<lambda>_. raiseM RunPodManagerError)
       else if protocol_of spec = Some 1 \<and> \<not> receipt_matches_handoff payload (l_artifact_handoff current)
       then raiseM TrainingPodConflictError
       else ret payload)))))))))"

definition record_catalog_worker_evidence :: "svc_env \<Rightarrow> text_readers \<Rightarrow> string \<Rightarrow> string \<Rightarrow> string \<Rightarrow> json
    \<Rightarrow> (world, TrainingPodLease) prog" where
  "record_catalog_worker_evidence E R capacity_id owner_id workload_id envelope =
     seqM (catalog_lease E capacity_id owner_id workload_id) (\<lambda>lease.
     seqM (liftM (capacity_spec_of lease)) (\<lambda>spec.
     case l_evidence lease of
       None \<Rightarrow> raiseM RunPodManagerError
     | Some evidence \<Rightarrow>
         seqM (liftM (worker_from_envelope R envelope)) (\<lambda>worker.
         if wk_attempt_id worker \<noteq> cr_attempt_id (sp_request spec)
            \<or> wk_request_sha256 worker \<noteq> cr_request_sha256 (sp_request spec)
            \<or> wk_image_digest worker \<noteq> after_last_at (cr_image_reference (sp_request spec))
         then raiseM TrainingPodConflictError
         else seqM (liftM (catalog_result_ready lease)) (\<lambda>ready.
           if \<not> ready then raiseM RunPodManagerError
           else seqM (case wk_container_process_started_at worker of
                  None \<Rightarrow> ret ()
                | Some started \<Rightarrow> seqM (now E) (\<lambda>t. if t < started then raiseM RunPodManagerError else ret ()))
             (\<lambda>_. case ev_worker evidence of
                Some recorded \<Rightarrow>
                  if recorded \<noteq> worker then raiseM TrainingPodConflictError else ret lease
              | None \<Rightarrow>
                  if is_terminal lease then raiseM RunPodManagerError
                  else seqM (now E) (\<lambda>t.
                    transition_with_evidence E lease [Ch_last_heartbeat_at t]
                      (no_evidence\<lparr>ea_worker := Some worker\<rparr>)))))))"

subsection \<open>Artifact handoff\<close>

fun json_finite :: "json \<Rightarrow> bool" where
  "json_finite (JNum d) = is_finite d"
| "json_finite (JList xs) = (\<forall>x \<in> set xs. json_finite x)"
| "json_finite (JObj kvs) = (\<forall>v \<in> set (map snd kvs). json_finite v)"
| "json_finite _ = True"

text \<open>The value that \<^verbatim>\<open>json.loads(canonical_catalog_acknowledgement(payload))\<close> gives back.\<close>

definition canonical_snapshot :: "json \<Rightarrow> py_error + json" where
  "canonical_snapshot payload =
     (if is_jobj payload \<and> json_finite payload then Inr payload else Inl ValueError)"

definition jsha256 :: "json \<Rightarrow> bool" where
  "jsha256 v = (case v of JStr s \<Rightarrow> sha256_text s | _ \<Rightarrow> False)"

definition snapshot_catalog_handoff_recovery :: "json \<Rightarrow> string \<Rightarrow> string \<Rightarrow> string option
    \<Rightarrow> py_error + json" where
  "snapshot_catalog_handoff_recovery payload attempt_id request_sha256 image_digest_opt =
     (case canonical_snapshot payload of
        Inl e \<Rightarrow> Inl e
      | Inr snapshot \<Rightarrow>
          if set (jkeys snapshot) \<noteq> {''handoff'', ''acknowledgement''} then Inl ValueError
          else let handoff = jget snapshot ''handoff''; ack = jget snapshot ''acknowledgement'' in
            if \<not> is_jobj handoff \<or> \<not> is_jobj ack then Inl TypeError
            else if \<not> jsha256 (jget ack ''result_sha256'') \<or> \<not> jsha256 (jget ack ''receipt_sha256'')
                 \<or> \<not> jsha256 (jget ack ''acknowledgement_sha256'')
            then Inl ValueError
            else let receipt = jget handoff ''receipt''; result = jget handoff ''result'' in
              if jget handoff ''protocol_version'' \<noteq> JInt 1 \<or> \<not> is_jobj receipt \<or> \<not> is_jobj result
              then Inl ValueError
              else if jget receipt ''attempt_id'' \<noteq> JStr attempt_id
                 \<or> jget receipt ''request_sha256'' \<noteq> JStr request_sha256
                 \<or> jget result ''dispatch_attempt_id'' \<noteq> JStr attempt_id
                 \<or> jget result ''request_sha256'' \<noteq> JStr request_sha256
                 \<or> jget ack ''attempt_id'' \<noteq> JStr attempt_id
                 \<or> jget ack ''request_sha256'' \<noteq> JStr request_sha256
                 \<or> jget receipt ''result_sha256'' \<noteq> jget ack ''result_sha256''
                 \<or> jget receipt ''receipt_sha256'' \<noteq> jget ack ''receipt_sha256''
                 \<or> (case image_digest_opt of None \<Rightarrow> False
                     | Some d \<Rightarrow> jget receipt ''image_digest'' \<noteq> JStr d)
              then Inl ValueError else Inr snapshot)"

definition require_catalog_ack_admission :: "svc_env \<Rightarrow> TrainingPodLease \<Rightarrow> (world, unit) prog" where
  "require_catalog_ack_admission E lease =
     (if is_terminal lease \<or> l_state lease \<noteq> S_JOB_COMPLETED then raiseM RunPodManagerError
      else seqM (liftM (catalog_result_ready lease)) (\<lambda>ready.
        if \<not> ready then raiseM RunPodManagerError
        else seqM (now E) (\<lambda>t. if l_hard_deadline lease \<le> t then raiseM RunPodManagerError else ret ())))"

text \<open>The loop that persists the acknowledgement intent; \<^verbatim>\<open>Inl\<close> is a lease that was acknowledged before.\<close>

fun ack_intent_loop :: "nat \<Rightarrow> svc_env \<Rightarrow> string \<Rightarrow> string \<Rightarrow> string \<Rightarrow> json
    \<Rightarrow> (world, TrainingPodLease + TrainingPodLease) prog" where
  "ack_intent_loop 0 E capacity_id owner_id workload_id payload = raiseM Diverged"
| "ack_intent_loop (Suc n) E capacity_id owner_id workload_id payload =
     seqM (catalog_lease E capacity_id owner_id workload_id) (\<lambda>lease.
     case l_artifact_handoff lease of
       None \<Rightarrow> raiseM RunPodManagerError
     | Some evidence \<Rightarrow>
         (case bind_acknowledgement (re_jsha E) evidence payload of
            Inl e \<Rightarrow> raiseM (if e = ValueError then TrainingPodConflictError else e)
          | Inr intent \<Rightarrow>
              if ho_remote_ack_observed_at intent \<noteq> None then ret (Inl lease)
              else seqM (require_catalog_ack_admission E lease) (\<lambda>_.
                tryM (seqM (compare_and_set E lease [Ch_artifact_handoff (Some intent)]) (\<lambda>l. ret (Inr l)))
                  (\<lambda>e. if e = TrainingPodConflictError
                       then ack_intent_loop n E capacity_id owner_id workload_id payload
                       else raiseM e))))"

definition acknowledge_handoff :: "svc_env \<Rightarrow> string \<Rightarrow> string \<Rightarrow> string \<Rightarrow> json \<Rightarrow> json option
    \<Rightarrow> (world, TrainingPodLease) prog" where
  "acknowledge_handoff E capacity_id owner_id workload_id payload recovery_payload =
     seqM (ack_intent_loop (sv_fuel E) E capacity_id owner_id workload_id payload) (\<lambda>intent.
     case intent of
       Inl lease \<Rightarrow> ret lease
     | Inr lease \<Rightarrow>
         seqM (liftM (capacity_spec_of lease)) (\<lambda>spec.
         seqM (load_capability E spec) (\<lambda>capability.
         seqM (catalog_lease E capacity_id owner_id workload_id) (\<lambda>current.
         seqM (require_catalog_ack_admission E current) (\<lambda>_.
         seqM (liftM (require_workload_transport E)) (\<lambda>transport.
         seqM (liftM (route current)) (\<lambda>url.
         seqM (issue (EffAck (cr_attempt_id (sp_request spec)))
           (\<lambda>n. case recovery_payload of
              None \<Rightarrow> wt_acknowledge transport n url (cr_attempt_id (sp_request spec))
                        (cr_request_sha256 (sp_request spec)) (cap_bearer_token capability) payload
            | Some recovery \<Rightarrow> wt_recover_handoff transport n url (cr_attempt_id (sp_request spec))
                        (cr_request_sha256 (sp_request spec)) (cap_bearer_token capability) recovery))
           (\<lambda>observation.
         if wo_state observation \<noteq> W_ACKNOWLEDGED then raiseM TrainingPodConflictError
         else record_catalog_observation E capacity_id observation False))))))))"

definition host_confirmation :: "svc_env \<Rightarrow> int option \<Rightarrow> CatalogArtifactHandoffEvidence option
    \<Rightarrow> (world, column_change list) prog" where
  "host_confirmation E protocol evidence =
     (case (protocol = Some 1, evidence) of
        (True, Some h) \<Rightarrow>
          (case ho_host_confirmation_declared_at h of
             Some _ \<Rightarrow> (case handoff_post_init h of Some e \<Rightarrow> raiseM e
                          | None \<Rightarrow> ret [Ch_artifact_handoff (Some h)])
           | None \<Rightarrow> seqM (now E) (\<lambda>t.
               let h' = h\<lparr>ho_host_confirmation_declared_at := Some t\<rparr> in
               case handoff_post_init h' of Some e \<Rightarrow> raiseM e | None \<Rightarrow> ret [Ch_artifact_handoff (Some h')]))
      | _ \<Rightarrow> ret [])"

definition confirmation_missing :: "int option \<Rightarrow> CatalogArtifactHandoffEvidence option \<Rightarrow> bool" where
  "confirmation_missing protocol evidence \<longleftrightarrow> protocol = Some 1 \<and>
     (case evidence of None \<Rightarrow> True | Some h \<Rightarrow> ho_host_confirmation_declared_at h = None)"

definition release_catalog_result :: "svc_env \<Rightarrow> string \<Rightarrow> string \<Rightarrow> string \<Rightarrow> string option
    \<Rightarrow> (world, TrainingPodLease) prog" where
  "release_catalog_result E capacity_id owner_id workload_id confirmed_sha =
     seqM (catalog_lease E capacity_id owner_id workload_id) (\<lambda>lease.
     seqM (liftM (capacity_spec_of lease)) (\<lambda>spec.
     let protocol = protocol_of spec; evidence = l_artifact_handoff lease in
     if protocol = Some 1 \<and> (case evidence of None \<Rightarrow> True | Some h \<Rightarrow>
          ho_remote_ack_observed_at h = None \<or> confirmed_sha \<noteq> ho_acknowledgement_sha256 h)
     then raiseM TrainingPodConflictError
     else if protocol \<noteq> Some 1 \<and> confirmed_sha \<noteq> None then raiseM TrainingPodConflictError
     else seqM (liftM (catalog_result_ready lease)) (\<lambda>ready.
       if \<not> ready then raiseM RunPodManagerError
       else if is_terminal lease
       then if confirmation_missing protocol evidence then raiseM TrainingPodConflictError else ret lease
       else seqM
         (if l_state lease = S_JOB_COMPLETED
          then seqM (host_confirmation E protocol evidence) (\<lambda>confirmation.
            seqM (now E) (\<lambda>t.
            seqM (compare_and_set E lease
              (confirmation @ [Ch_state S_RESULT_RETRIEVED, Ch_last_heartbeat_at t,
                               Ch_last_provider_error None])) (\<lambda>_. ret ())))
          else if l_state lease \<notin> {S_RESULT_RETRIEVED, S_RELEASING} then raiseM RunPodManagerError
          else if confirmation_missing protocol evidence then raiseM TrainingPodConflictError
          else ret ())
         (\<lambda>_. release E capacity_id ''catalog result durably confirmed by host''))))"

definition acknowledge_catalog_result :: "svc_env \<Rightarrow> string \<Rightarrow> string \<Rightarrow> string \<Rightarrow> json option
    \<Rightarrow> (world, TrainingPodLease) prog" where
  "acknowledge_catalog_result E capacity_id owner_id workload_id acknowledgement =
     seqM (catalog_lease E capacity_id owner_id workload_id) (\<lambda>lease.
     seqM (liftM (capacity_spec_of lease)) (\<lambda>spec.
     if protocol_of spec = None
     then if acknowledgement \<noteq> None then raiseM RunPodManagerError
          else release_catalog_result E capacity_id owner_id workload_id None
     else case acknowledgement of
         None \<Rightarrow> raiseM RunPodManagerError
       | Some ack \<Rightarrow> seqM (liftM (canonical_snapshot ack)) (\<lambda>payload.
           await_owned_effect E
             (acknowledge_handoff E capacity_id owner_id workload_id payload None))))"

definition recover_catalog_result :: "svc_env \<Rightarrow> string \<Rightarrow> string \<Rightarrow> string \<Rightarrow> json
    \<Rightarrow> (world, TrainingPodLease) prog" where
  "recover_catalog_result E capacity_id owner_id workload_id recovery =
     seqM (catalog_lease E capacity_id owner_id workload_id) (\<lambda>lease.
     seqM (liftM (capacity_spec_of lease)) (\<lambda>spec.
     if protocol_of spec \<noteq> Some 1 then raiseM RunPodManagerError
     else seqM (liftM (snapshot_catalog_handoff_recovery recovery (cr_attempt_id (sp_request spec))
              (cr_request_sha256 (sp_request spec))
              (Some (after_last_at (cr_image_reference (sp_request spec)))))) (\<lambda>payload.
       await_owned_effect E
         (acknowledge_handoff E capacity_id owner_id workload_id
           (jget payload ''acknowledgement'') (Some payload)))))"

definition cancel_remote_workload :: "svc_env \<Rightarrow> TrainingPodLease \<Rightarrow> string
    \<Rightarrow> (world, CatalogPodWorkloadObservation) prog" where
  "cancel_remote_workload E lease url =
     seqM (liftM (capacity_spec_of lease)) (\<lambda>spec.
     seqM (load_capability E spec) (\<lambda>capability.
     seqM (liftM (require_workload_transport E)) (\<lambda>transport.
     issue (EffCancelWork (cr_attempt_id (sp_request spec)))
       (\<lambda>n. wt_cancel transport n url (cr_attempt_id (sp_request spec))
              (cr_request_sha256 (sp_request spec)) (cap_bearer_token capability)))))"

definition cancel_catalog_workload :: "svc_env \<Rightarrow> string \<Rightarrow> string \<Rightarrow> string
    \<Rightarrow> (world, TrainingPodLease) prog" where
  "cancel_catalog_workload E capacity_id owner_id workload_id =
     seqM (catalog_lease E capacity_id owner_id workload_id) (\<lambda>lease0.
     if is_terminal lease0 then ret lease0
     else seqM (now E) (\<lambda>t.
       seqM (compare_and_set E lease0
         [Ch_state S_CANCEL_REQUESTED, Ch_workload_state W_CANCEL_REQUESTED, Ch_last_heartbeat_at t])
         (\<lambda>lease.
       seqM (case l_backend_base_url lease of
               None \<Rightarrow> ret ()
             | Some url \<Rightarrow> try_elseM (cancel_remote_workload E lease url)
                 (\<lambda>e. if is_manager_error e
                      then seqM (record_operation_error E capacity_id e) (\<lambda>_. ret ())
                      else raiseM e)
                 (\<lambda>_. ret ()))
         (\<lambda>_. release E capacity_id ''catalog cancellation''))))"

end
