(* ===== verification/Pod_Reconcile.thy ===== *)
theory Pod_Reconcile
  imports Pod_Catalog
begin

text \<open>
  The reconciliation pass of the service and the one-shot command around it
  (\<^verbatim>\<open>pod_capacity_reconciler.py\<close>): recovery of abandoned claims, retries of teardown and billing,
  per-lease error isolation, the summary and the exit status.
\<close>

section \<open>Definitions\<close>

subsection \<open>One lease\<close>

text \<open>A claim that never reached the provider and has outlived its owner.\<close>

definition release_abandoned_claim :: "svc_env \<Rightarrow> TrainingPodLease \<Rightarrow> datetime
    \<Rightarrow> (world, TrainingPodLease) prog" where
  "release_abandoned_claim E lease t =
     (if l_source lease \<noteq> CREATED then release_unowned_claim E lease None
      else let changes = [Ch_state S_RELEASED, Ch_cleanup_state C_COMPLETE, Ch_last_provider_error None] in
        seqM (if is_catalog_attempt lease
              then seqM (zero_cost_receipt E lease ''before-create'') (\<lambda>receipt.
                transition_with_evidence E lease
                  (changes @ [Ch_state S_RELEASING, Ch_billing_state B_AUTHORITATIVE,
                              Ch_billing_receipt (Some receipt), Ch_terminated_at (Some t)])
                  (no_evidence\<lparr>ea_lifecycle := [(LF_billing_reconciled_at, t)],
                               ea_billing := Some (Some receipt)\<rparr>))
              else transition_with_evidence E lease changes no_evidence) (\<lambda>released.
        if is_catalog_attempt released then revoke_and_release E released else ret released))"

definition observe_held_pod :: "svc_env \<Rightarrow> TrainingPodLease \<Rightarrow> datetime \<Rightarrow> string
    \<Rightarrow> (world, TrainingPodLease) prog" where
  "observe_held_pod E lease t pod_id =
     (if l_profile_id lease \<notin> fst ` set (sv_profiles E) then ret lease
      else seqM (liftM (profile_of E (l_profile_id lease))) (\<lambda>profile.
        seqM (external (\<lambda>n. pv_observe (sv_provider E) n pod_id profile)) (\<lambda>observation.
        if is_stopped observation
        then seqM (transition_with_evidence E lease
            ([Ch_state S_RELEASED, Ch_cleanup_state C_COMPLETE, Ch_backend_base_url None,
              Ch_last_provider_error None]
             @ (if is_catalog_attempt lease
                then [Ch_state S_RELEASING, Ch_billing_state B_PENDING, Ch_terminated_at (Some t)] else []))
            (no_evidence\<lparr>ea_lifecycle := (if is_catalog_attempt lease
               then [(LF_stop_confirmed_at, t)] else [])\<rparr>)) (\<lambda>stopped.
          if is_catalog_attempt stopped then reconcile_billing E stopped else ret stopped)
        else compare_and_set E lease
          [Ch_backend_base_url (ob_backend_base_url observation), Ch_last_provider_error None])))"

text \<open>The tail of \<^verbatim>\<open>_reconcile_one\<close> for leases in acquisition that no rule above has handled.\<close>

definition reconcile_acquisition :: "svc_env \<Rightarrow> TrainingPodLease \<Rightarrow> datetime \<Rightarrow> bool
    \<Rightarrow> (world, TrainingPodLease) prog" where
  "reconcile_acquisition E lease t stale =
     (if l_state lease \<in> {S_STARTING, S_READY} \<and> stale
      then release_one E (l_cleanup_token lease) ''orphaned acquisition''
      else case l_provider_pod_id lease of
          None \<Rightarrow> ret lease
        | Some pod_id \<Rightarrow>
            if pod_id \<noteq> [] \<and> l_state lease \<in> {S_STARTING, S_READY}
            then observe_held_pod E lease t pod_id else ret lease)"

definition reconcile_job :: "svc_env \<Rightarrow> TrainingPodLease \<Rightarrow> datetime \<Rightarrow> bool
    \<Rightarrow> (nat \<Rightarrow> TrainingPodLease \<Rightarrow> py_error + string option) \<Rightarrow> (world, TrainingPodLease) prog" where
  "reconcile_job E lease t stale observer =
     try_elseM (external (\<lambda>n. observer n lease))
       (\<lambda>e. if is_manager_error e then record_operation_error E (l_cleanup_token lease) e else raiseM e)
       (\<lambda>status. case status of
          None \<Rightarrow> reconcile_acquisition E lease t stale
        | Some text' \<Rightarrow> seqM (record_status E (l_cleanup_token lease) text') (\<lambda>l.
            if l_state l = S_CANCEL_REQUESTED
            then release_one E (l_cleanup_token lease) ''terminal training job'' else ret l))"

definition reconcile_active :: "svc_env \<Rightarrow> TrainingPodLease \<Rightarrow> datetime \<Rightarrow> bool
    \<Rightarrow> (world, TrainingPodLease) prog" where
  "reconcile_active E lease t stale =
     (if l_state lease \<in> {S_RELEASING, S_CANCEL_REQUESTED, S_RECONCILE_REQUIRED, S_RESULT_RETRIEVED}
      then release_one E (l_cleanup_token lease) ''retry teardown''
      else if l_hard_deadline lease \<le> t then release_one E (l_cleanup_token lease) ''hard deadline''
      else if is_catalog_attempt lease \<and> l_state lease = S_JOB_SUBMITTED
      then seqM (liftM (capacity_spec_of lease)) (\<lambda>spec.
        seqM (observe_catalog_workload E (l_cleanup_token lease) (cr_owner_id (sp_request spec))
                (cr_workload_id (sp_request spec))) (\<lambda>_.
        required E (l_cleanup_token lease)))
      else case (l_state lease = S_JOB_SUBMITTED, sv_observer E) of
          (True, Some observer) \<Rightarrow> reconcile_job E lease t stale observer
        | _ \<Rightarrow> reconcile_acquisition E lease t stale)"

definition idle_timeout :: "svc_env \<Rightarrow> TrainingPodLease \<Rightarrow> int" where
  "idle_timeout E lease =
     (case l_capacity_spec lease of
        None \<Rightarrow> sv_orphan_timeout E
      | Some spec \<Rightarrow> seconds (cr_idle_timeout_seconds (sp_request spec)))"

definition reconcile_one :: "svc_env \<Rightarrow> string \<Rightarrow> (world, TrainingPodLease option) prog" where
  "reconcile_one E cleanup_token =
     seqM (repo_get E cleanup_token) (\<lambda>found.
     case found of
       None \<Rightarrow> ret None
     | Some lease \<Rightarrow> seqM
         (if is_terminal lease
          then if l_billing_state lease \<in> {B_PENDING, B_UNRESOLVED} then reconcile_billing E lease
               else ret lease
          else seqM (now E) (\<lambda>t.
            let stale = (dt_add (l_last_heartbeat_at lease) (idle_timeout E lease) \<le> t) in
            if l_state lease = S_REQUESTED
            then if stale \<or> l_readiness_deadline lease \<le> t then release_abandoned_claim E lease t
                 else ret lease
            else if l_provider_pod_id lease = None \<and> l_creation_uncertain lease
            then if \<not> stale \<and> t < l_hard_deadline lease then ret lease
                 else seqM (resolve_uncertain_creation E lease ''reconcile'') (\<lambda>l.
                   if l_provider_pod_id l \<noteq> None
                   then release_one E cleanup_token ''recovered create'' else ret l)
            else reconcile_active E lease t stale))
         (\<lambda>l. ret (Some l)))"

subsection \<open>One pass\<close>

definition reconcile_step :: "svc_env \<Rightarrow> string \<Rightarrow> (world, TrainingPodLease option) prog
    \<Rightarrow> (world, TrainingPodLease option) prog" where
  "reconcile_step E cleanup_token m =
     tryM m (\<lambda>e. if is_manager_error e then record_reconcile_error E cleanup_token e else raiseM e)"

fun reconcile_each :: "(string \<Rightarrow> (world, TrainingPodLease option) prog) \<Rightarrow> TrainingPodLease list
    \<Rightarrow> TrainingPodLease list \<Rightarrow> (world, TrainingPodLease list) prog" where
  "reconcile_each step [] results = ret results"
| "reconcile_each step (l # ls) results =
     seqM (step (l_cleanup_token l)) (\<lambda>r.
     reconcile_each step ls (results @ (case r of None \<Rightarrow> [] | Some x \<Rightarrow> [x])))"

definition reconcile :: "svc_env \<Rightarrow> (world, TrainingPodLease list) prog" where
  "reconcile E =
     seqM (list_incomplete_family_releases E) (\<lambda>roots.
     seqM (reconcile_each (\<lambda>k. reconcile_step E k
            (seqM (release E k ''restart family release'') (\<lambda>l. ret (Some l)))) roots []) (\<lambda>results.
     seqM (list_for_reconciliation E) (\<lambda>leases.
     reconcile_each (\<lambda>k. reconcile_step E k (reconcile_one E k)) leases results)))"

subsection \<open>The one-shot command\<close>

record PodCapacityReconcileSummary =
  su_reconciled_count :: nat
  su_catalog_count :: nat
  su_retryable_error_count :: nat
  su_unresolved_billing_count :: nat
  su_pending_billing_count :: nat
  su_states :: "(TrainingPodState \<times> nat) list"

text \<open>\<^verbatim>\<open>{lease.cleanup_token: lease for lease in leases}\<close>: the last lease under the first position of its token.\<close>

definition unique_leases :: "TrainingPodLease list \<Rightarrow> TrainingPodLease list" where
  "unique_leases leases =
     map (\<lambda>k. last (filter (\<lambda>l. l_cleanup_token l = k) leases)) (dict_fromkeys (map l_cleanup_token leases))"

definition count_if :: "('a \<Rightarrow> bool) \<Rightarrow> 'a list \<Rightarrow> nat" where
  "count_if P xs = length (filter P xs)"

definition summarize :: "TrainingPodLease list \<Rightarrow> PodCapacityReconcileSummary" where
  "summarize leases =
     (let values = unique_leases leases; catalog = filter is_catalog_attempt values in
      \<lparr> su_reconciled_count = length values, su_catalog_count = length catalog,
        su_retryable_error_count =
          count_if (\<lambda>l. l_state l \<noteq> S_RELEASED \<and> l_last_provider_error l \<noteq> None) values,
        su_unresolved_billing_count = count_if (\<lambda>l. l_billing_state l = B_UNRESOLVED) catalog,
        su_pending_billing_count = count_if (\<lambda>l. l_billing_state l = B_PENDING) catalog,
        su_states = map (\<lambda>s. (s, count_if (\<lambda>l. l_state l = s) values)) (dict_fromkeys (map l_state values)) \<rparr>)"

definition requires_retry :: "PodCapacityReconcileSummary \<Rightarrow> bool" where
  "requires_retry s \<longleftrightarrow> 0 < su_retryable_error_count s \<or> 0 < su_unresolved_billing_count s"

definition EXIT_OK :: int where "EXIT_OK = 0"
definition EXIT_RUNTIME_ERROR :: int where "EXIT_RUNTIME_ERROR = 70"
definition EXIT_RETRYABLE :: int where "EXIT_RETRYABLE = 75"
definition EXIT_CONFIGURATION_ERROR :: int where "EXIT_CONFIGURATION_ERROR = 78"

text \<open>
  \<^verbatim>\<open>run_cli\<close> after argument parsing and factory loading: a service whose dependencies are missing is
  a configuration error, another holder of the lock is retryable, and an exception that is no
  \<^verbatim>\<open>RunPodManagerError\<close> leaves the command (\<^verbatim>\<open>None\<close>).  The expiry of the timeout cancels the pass,
  which is retryable.  \<open>lock\<close> is the answer of the advisory lock.
\<close>

definition run_cli :: "svc_env \<Rightarrow> bool \<Rightarrow> world \<Rightarrow> int option \<times> world" where
  "run_cli E lock w =
     (case validate_catalog_reconciler_dependencies E w of
        (Inl e, w1) \<Rightarrow>
          (if is_manager_error e \<or> e = TypeError \<or> e = ValueError then Some EXIT_CONFIGURATION_ERROR else None, w1)
      | (Inr _, w1) \<Rightarrow>
          if \<not> lock then (Some EXIT_RETRYABLE, w1)
          else (case reconcile E w1 of
              (Inl e, w2) \<Rightarrow> (if e = CancelledError then Some EXIT_RETRYABLE
                 else if is_manager_error e then Some EXIT_RUNTIME_ERROR else None, w2)
            | (Inr leases, w2) \<Rightarrow>
                (Some (if requires_retry (summarize leases) then EXIT_RETRYABLE else EXIT_OK), w2)))"

end
