(* ===== verification/Pod_Safety.thy ===== *)
theory Pod_Safety
  imports Pod_Reconcile
begin

text \<open>
  What no operation of the lease service ever undoes.  \<open>row_evolves\<close> relates an earlier and a later
  version of a lease row; \<open>lease_inv\<close> is the invariant of the table.  Every operation is proved to
  re-establish the invariant and to change rows only along \<open>row_evolves\<close>, on every outcome, when
  the transactions of other processes that run in between do the same.
\<close>

section \<open>Definitions\<close>

definition evidence_binding :: "PodCapacityEvidence \<Rightarrow> (int \<times> string \<times> string \<times> string \<times> datetime)
    \<times> (string \<times> string \<times> string) \<times> string \<times> string \<times> int \<times> CloudType \<times> amount" where
  "evidence_binding e =
     ((ev_schema_version e, ev_capacity_id e, ev_resource_name e, ev_provider_quote_id e,
       ev_catalog_observed_at e), (ev_attempt_id e, ev_request_sha256 e, ev_image_digest e),
      ev_accepted_gpu_type_id e, ev_accepted_gpu_display_name e, ev_accepted_gpu_count e,
      ev_accepted_cloud e, ev_accepted_hourly_rate_usd e)"

definition evidence_evolves :: "PodCapacityEvidence \<Rightarrow> PodCapacityEvidence \<Rightarrow> bool" where
  "evidence_evolves e e' \<longleftrightarrow> evidence_binding e' = evidence_binding e
     \<and> lc_reservation_at (ev_lifecycle e') = lc_reservation_at (ev_lifecycle e)
     \<and> (\<forall>f. keeps (lc_field f (ev_lifecycle e)) (lc_field f (ev_lifecycle e')))
     \<and> keeps (ev_realized_placement e) (ev_realized_placement e')
     \<and> keeps (ev_worker e) (ev_worker e') \<and> keeps (ev_billing e) (ev_billing e')"

definition handoff_evolves :: "CatalogArtifactHandoffEvidence \<Rightarrow> CatalogArtifactHandoffEvidence \<Rightarrow> bool" where
  "handoff_evolves h h' \<longleftrightarrow>
     ho_attempt_id h' = ho_attempt_id h \<and> ho_request_sha256 h' = ho_request_sha256 h
     \<and> ho_result_sha256 h' = ho_result_sha256 h \<and> ho_receipt_sha256 h' = ho_receipt_sha256 h
     \<and> keeps (ho_acknowledgement_sha256 h) (ho_acknowledgement_sha256 h')
     \<and> keeps (ho_acknowledgement_payload_sha256 h) (ho_acknowledgement_payload_sha256 h')
     \<and> keeps (ho_remote_ack_observed_at h) (ho_remote_ack_observed_at h')
     \<and> keeps (ho_host_confirmation_declared_at h) (ho_host_confirmation_declared_at h')"

definition opt_evolves :: "('a \<Rightarrow> 'a \<Rightarrow> bool) \<Rightarrow> 'a option \<Rightarrow> 'a option \<Rightarrow> bool" where
  "opt_evolves R x y = (case x of None \<Rightarrow> True | Some a \<Rightarrow> (case y of None \<Rightarrow> False | Some b \<Rightarrow> R a b))"

definition in_teardown :: "TrainingPodLease \<Rightarrow> bool" where
  "in_teardown l \<longleftrightarrow> l_state l \<in> {S_CANCEL_REQUESTED, S_RECONCILE_REQUIRED, S_RESULT_RETRIEVED,
     S_RELEASING, S_RELEASED}"

definition protocol1 :: "TrainingPodLease \<Rightarrow> bool" where
  "protocol1 l = (case l_capacity_spec l of None \<Rightarrow> False | Some s \<Rightarrow> protocol_of s = Some 1)"

definition base_evolves :: "TrainingPodLease \<Rightarrow> TrainingPodLease \<Rightarrow> bool" where
  "base_evolves r r' \<longleftrightarrow>
     identity_columns r' = identity_columns r
     \<and> (is_terminal r \<longrightarrow> is_terminal r')
     \<and> (protocol1 r \<and> in_teardown r \<longrightarrow> in_teardown r')
     \<and> (l_workload_state r = W_CANCEL_REQUESTED \<longrightarrow> l_workload_state r' = W_CANCEL_REQUESTED)
     \<and> (l_provider_pod_id r \<noteq> None \<longrightarrow> l_provider_pod_id r' \<noteq> None)
     \<and> (l_billing_receipt r \<noteq> None \<longrightarrow> l_billing_receipt r' \<noteq> None)
     \<and> opt_evolves handoff_evolves (l_artifact_handoff r) (l_artifact_handoff r')
     \<and> (l_family_release_requested r \<longrightarrow> l_family_release_requested r')"

definition record_evolves :: "TrainingPodLease \<Rightarrow> TrainingPodLease \<Rightarrow> bool" where
  "record_evolves r r' \<longleftrightarrow>
     (case l_evidence r of
        None \<Rightarrow> l_evidence r' = None
      | Some e \<Rightarrow> opt_evolves evidence_evolves (l_evidence r) (l_evidence r')
          \<and> keeps (l_billing_receipt r) (l_billing_receipt r'))"

definition row_evolves :: "TrainingPodLease \<Rightarrow> TrainingPodLease \<Rightarrow> bool" where
  "row_evolves r r' \<longleftrightarrow> base_evolves r r' \<and> record_evolves r r' \<and> l_revision r \<le> l_revision r'
     \<and> (l_revision r' = l_revision r \<longrightarrow> r' = r)"

definition row_inv :: "TrainingPodLease \<Rightarrow> bool" where
  "row_inv r \<longleftrightarrow> (is_catalog_attempt r \<longrightarrow> l_source r = CREATED)
     \<and> (l_source r = CREATED \<longrightarrow> l_ownership r \<noteq> O_PREEXISTING_RUNNING)
     \<and> (l_billing_state r = B_AUTHORITATIVE \<longrightarrow> l_billing_receipt r \<noteq> None)
     \<and> (is_catalog_attempt r \<and> is_terminal r \<longrightarrow> l_billing_receipt r \<noteq> None)"

definition table_inv :: "TrainingPodLease list \<Rightarrow> bool" where
  "table_inv t \<longleftrightarrow> table_wf t \<and> (\<forall>r \<in> set t. row_inv r)"

definition table_evolves :: "TrainingPodLease list \<Rightarrow> TrainingPodLease list \<Rightarrow> bool" where
  "table_evolves t t' \<longleftrightarrow> (\<forall>k r. row_at t k = Some r \<longrightarrow> (\<exists>r'. row_at t' k = Some r' \<and> row_evolves r r'))"

text \<open>Every create that was issued belongs to a row of the table, written before it.\<close>

definition creates_claimed :: "world \<Rightarrow> bool" where
  "creates_claimed w \<longleftrightarrow> (\<forall>n. EffCreate n \<in> set (w_effects w) \<longrightarrow>
     (\<exists>r \<in> set (w_table w). l_resource_name r = n \<and> l_source r = CREATED))"

definition lease_inv :: "world \<Rightarrow> bool" where
  "lease_inv w \<longleftrightarrow> table_inv (w_table w) \<and> creates_claimed w"

definition lease_guar :: "world \<Rightarrow> world \<Rightarrow> bool" where
  "lease_guar w w' \<longleftrightarrow> table_evolves (w_table w) (w_table w') \<and> (\<exists>es. w_effects w' = w_effects w @ es)"

text \<open>The other processes that commit to the same database keep the same rules.\<close>

definition rely :: "'e repo_env_scheme \<Rightarrow> bool" where
  "rely E \<longleftrightarrow> (\<forall>n t. table_inv t \<longrightarrow>
     table_inv (re_interfere E n t) \<and> table_evolves t (re_interfere E n t))"

definition decoded :: "TrainingPodLease \<Rightarrow> bool" where
  "decoded l \<longleftrightarrow> lease_from_row l = Inr l"

text \<open>\<open>snap l w\<close>: the lease value \<open>l\<close> is a decoded earlier version of a row of \<open>w\<close>.\<close>

definition snap :: "TrainingPodLease \<Rightarrow> world \<Rightarrow> bool" where
  "snap l w \<longleftrightarrow> decoded l \<and> row_inv l \<and>
     (\<exists>r. row_at (w_table w) (l_cleanup_token l) = Some r \<and> row_evolves l r)"

definition good :: "TrainingPodLease \<Rightarrow> column_change list \<Rightarrow> bool" where
  "good l cs \<longleftrightarrow> base_evolves l (apply_changes cs l) \<and> record_evolves l (apply_changes cs l)
     \<and> row_inv (apply_changes cs l)"

definition updated :: "TrainingPodLease \<Rightarrow> column_change list \<Rightarrow> TrainingPodLease \<Rightarrow> bool" where
  "updated l cs l' \<longleftrightarrow> (\<exists>t. l' = (apply_changes cs l)\<lparr>l_updated_at := t, l_revision := l_revision l + 1\<rparr>)"

section \<open>The order on rows\<close>

lemma opt_evolves_refl: "(\<And>a. R a a) \<Longrightarrow> opt_evolves R x x"
  by (cases x) (auto simp: opt_evolves_def)

lemma opt_evolves_trans:
  "(\<And>a b c. R a b \<Longrightarrow> R b c \<Longrightarrow> R a c) \<Longrightarrow> opt_evolves R x y \<Longrightarrow> opt_evolves R y z \<Longrightarrow> opt_evolves R x z"
  by (auto simp: opt_evolves_def split: option.splits)

lemma opt_evolves_None [simp]: "opt_evolves R None y"
  by (simp add: opt_evolves_def)

lemma opt_evolves_Some [simp]: "opt_evolves R (Some a) (Some b) = R a b"
  by (simp add: opt_evolves_def)

lemma evidence_evolves_refl [simp]: "evidence_evolves e e"
  by (simp add: evidence_evolves_def)

lemma evidence_evolves_trans: "evidence_evolves a b \<Longrightarrow> evidence_evolves b c \<Longrightarrow> evidence_evolves a c"
  unfolding evidence_evolves_def by (auto intro: keeps_trans)

lemma handoff_evolves_refl [simp]: "handoff_evolves h h"
  by (simp add: handoff_evolves_def)

lemma handoff_evolves_trans: "handoff_evolves a b \<Longrightarrow> handoff_evolves b c \<Longrightarrow> handoff_evolves a c"
  unfolding handoff_evolves_def by (auto intro: keeps_trans)

lemma evolves_refl [simp]: "opt_evolves evidence_evolves x x" "opt_evolves handoff_evolves y y"
  by (simp_all add: opt_evolves_refl)

lemma opt_handoff_trans: "opt_evolves handoff_evolves x y \<Longrightarrow> opt_evolves handoff_evolves y z \<Longrightarrow>
    opt_evolves handoff_evolves x z"
  by (rule opt_evolves_trans [OF handoff_evolves_trans])

lemma base_evolves_refl [simp]: "base_evolves r r"
  by (simp add: base_evolves_def)

lemma protocol1_identity: "identity_columns r' = identity_columns r \<Longrightarrow> protocol1 r' = protocol1 r"
  by (drule identity_columnsD(11)) (simp add: protocol1_def)

lemma base_evolves_trans:
  assumes "base_evolves a b" "base_evolves b c"
  shows "base_evolves a c"
proof -
  from assms have "opt_evolves handoff_evolves (l_artifact_handoff a) (l_artifact_handoff c)"
    unfolding base_evolves_def by (elim conjE) (erule (1) opt_handoff_trans)
  moreover from assms have "protocol1 b = protocol1 a"
    unfolding base_evolves_def by (elim conjE) (erule protocol1_identity)
  ultimately show ?thesis using assms unfolding base_evolves_def by simp
qed

lemma record_evolves_refl [simp]: "record_evolves r r"
  by (simp add: record_evolves_def split: option.splits)

lemma record_evolves_trans: "record_evolves a b \<Longrightarrow> record_evolves b c \<Longrightarrow> record_evolves a c"
  unfolding record_evolves_def
  by (auto intro: evidence_evolves_trans keeps_trans simp: opt_evolves_def split: option.splits)

lemma row_evolves_refl [simp]: "row_evolves r r"
  by (simp add: row_evolves_def)

lemma row_evolves_trans: "row_evolves a b \<Longrightarrow> row_evolves b c \<Longrightarrow> row_evolves a c"
  unfolding row_evolves_def by (auto intro: base_evolves_trans record_evolves_trans)

lemma row_evolves_identity: "row_evolves a b \<Longrightarrow> identity_columns b = identity_columns a"
  by (simp add: row_evolves_def base_evolves_def)

lemma row_evolves_columns:
  assumes "row_evolves a b"
  shows "l_cleanup_token b = l_cleanup_token a" "l_source b = l_source a"
    "is_catalog_attempt b = is_catalog_attempt a" "protocol1 b = protocol1 a"
    "l_capacity_spec b = l_capacity_spec a" "l_resource_name b = l_resource_name a"
  using identity_columnsD [OF row_evolves_identity [OF assms]]
  unfolding is_catalog_attempt_def protocol1_def by argo+

lemma table_evolves_refl [simp]: "table_evolves t t"
  by (auto simp: table_evolves_def)

lemma table_evolves_trans: "table_evolves s t \<Longrightarrow> table_evolves t u \<Longrightarrow> table_evolves s u"
  unfolding table_evolves_def by (meson row_evolves_trans)

lemma table_evolvesD:
  "table_evolves t t' \<Longrightarrow> row_at t k = Some r \<Longrightarrow> \<exists>r'. row_at t' k = Some r' \<and> row_evolves r r'"
  by (simp add: table_evolves_def)

interpretation svc: guarantee_preorder lease_inv lease_guar
proof
  show "lease_guar w w" for w by (simp add: lease_guar_def)
  show "lease_guar u w" if "lease_guar u v" "lease_guar v w" for u v w
    using that unfolding lease_guar_def by (auto intro: table_evolves_trans)
qed

abbreviation ok :: "(world \<Rightarrow> bool) \<Rightarrow> (world, 'a) prog \<Rightarrow> ('a \<Rightarrow> world \<Rightarrow> bool) \<Rightarrow> bool" where
  "ok P m Q \<equiv> safe lease_inv lease_guar P m Q"

lemma stable_snap [simp]: "svc.stable (snap l)"
  unfolding svc.stable_def snap_def lease_guar_def
  by (blast dest: table_evolvesD intro: row_evolves_trans)

lemma stable_all_snap [simp]: "svc.stable (\<lambda>w. \<forall>l \<in> set ls. snap l w)"
  using stable_snap unfolding svc.stable_def by blast

section \<open>Transactions\<close>

lemma row_at_inv: "table_inv t \<Longrightarrow> row_at t k = Some r \<Longrightarrow> row_inv r \<and> l_cleanup_token r = k \<and> r \<in> set t"
  unfolding table_inv_def by (blast dest: row_at_Some)

lemma creates_claimed_evolves:
  assumes inv: "table_inv (w_table w)" and cc: "creates_claimed w"
    and ev: "table_evolves (w_table w) t'" and inv': "table_inv t'"
  shows "creates_claimed (w\<lparr>w_table := t'\<rparr>)"
  unfolding creates_claimed_def
proof (intro allI impI)
  fix n
  assume "EffCreate n \<in> set (w_effects (w\<lparr>w_table := t'\<rparr>))"
  with cc obtain r where r: "r \<in> set (w_table w)" "l_resource_name r = n" "l_source r = CREATED"
    unfolding creates_claimed_def by auto
  from inv r(1) have "row_at (w_table w) (l_cleanup_token r) = Some r"
    unfolding table_inv_def by (blast intro: row_at_mem)
  from table_evolvesD [OF ev this] obtain r' where r': "row_at t' (l_cleanup_token r) = Some r'" "row_evolves r r'"
    by blast
  from row_evolves_columns [OF r'(2)] r have "l_resource_name r' = n" "l_source r' = CREATED" by simp_all
  moreover have "r' \<in> set t'" using row_at_Some [OF r'(1)] by simp
  ultimately show "\<exists>r \<in> set (w_table (w\<lparr>w_table := t'\<rparr>)). l_resource_name r = n \<and> l_source r = CREATED"
    by auto
qed

lemma tick_inv [simp]: "lease_inv (w\<lparr>w_tick := n\<rparr>) = lease_inv w" "lease_guar w (w\<lparr>w_tick := n\<rparr>)"
  "snap l (w\<lparr>w_tick := n\<rparr>) = snap l w"
  by (simp_all add: lease_inv_def creates_claimed_def lease_guar_def snap_def)

lemma begin_transaction_ok:
  assumes "rely E" "lease_inv w"
  shows "lease_inv (begin_transaction E w) \<and> lease_guar w (begin_transaction E w)"
proof -
  let ?t = "re_interfere E (w_tick w) (w_table w)"
  from assms have t: "table_inv ?t" "table_evolves (w_table w) ?t"
    by (auto simp: rely_def lease_inv_def)
  have "creates_claimed (w\<lparr>w_table := ?t\<rparr>)"
    using assms(2) t by (auto simp: lease_inv_def intro: creates_claimed_evolves)
  then show ?thesis using t
    by (simp add: begin_transaction_def lease_inv_def lease_guar_def creates_claimed_def)
qed

lemma commit_ok:
  assumes "lease_inv w" "table_evolves (w_table w) t'" "table_inv t'"
  shows "lease_inv (w\<lparr>w_table := t'\<rparr>) \<and> lease_guar w (w\<lparr>w_table := t'\<rparr>)"
  using assms creates_claimed_evolves [of w t'] by (simp add: lease_inv_def lease_guar_def)

lemma snap_stableD: "lease_guar w w' \<Longrightarrow> snap l w \<Longrightarrow> snap l w'"
  using stable_snap by (auto simp: svc.stable_def)

lemma repo_get_ok:
  assumes "rely E"
  shows "ok P (repo_get E k) (\<lambda>found w. \<forall>l. found = Some l \<longrightarrow> snap l w \<and> l_cleanup_token l = k)"
proof (rule safeI)
  fix w r w'
  assume w: "lease_inv w" and run: "repo_get E k w = (r, w')"
  note b = begin_transaction_ok [OF assms w]
  from run have w': "w' = begin_transaction E w"
    by (auto simp: repo_get_def Let_def split: option.splits sum.splits)
  have "snap l w' \<and> l_cleanup_token l = k" if "r = Inr (Some l)" for l
  proof -
    from run that obtain x where x: "row_at (w_table w') k = Some x" "lease_from_row x = Inr l"
      unfolding w' by (auto simp: repo_get_def Let_def split: option.splits sum.splits)
    from lease_from_row_Inr [OF x(2)] have "x = l" by simp
    with x have "row_at (w_table w') k = Some l" "decoded l" by (simp_all add: decoded_def)
    with row_at_inv [of "w_table w'" k l] b w' show ?thesis
      by (auto simp: snap_def lease_inv_def)
  qed
  with b w' show "lease_inv w' \<and> lease_guar w w'
      \<and> (\<forall>x. r = Inr x \<longrightarrow> (\<forall>l. x = Some l \<longrightarrow> snap l w' \<and> l_cleanup_token l = k))" by blast
qed

text \<open>A read of a lease that was read before returns a later version of it.\<close>

lemma repo_get_later:
  assumes "rely E" "\<And>w. lease_inv w \<Longrightarrow> P w \<Longrightarrow> snap prior w" "l_cleanup_token prior = k"
  shows "ok P (repo_get E k) (\<lambda>found w. \<forall>l. found = Some l \<longrightarrow> snap l w \<and> row_evolves prior l)"
proof (rule safeI)
  fix w r w'
  assume w: "lease_inv w" "P w" and run: "repo_get E k w = (r, w')"
  note g = safeD [OF repo_get_ok [OF assms(1)] w(1) _ run, of "\<lambda>_. True"]
  have s0: "snap prior w'" using snap_stableD [OF g(2) assms(2) [OF w]] by simp
  have "snap l w' \<and> row_evolves prior l" if "r = Inr (Some l)" for l
  proof -
    from run that have w': "w' = begin_transaction E w"
      by (auto simp: repo_get_def Let_def split: option.splits sum.splits)
    from run that obtain x where x: "row_at (w_table w') k = Some x" "lease_from_row x = Inr l"
      unfolding w' by (auto simp: repo_get_def Let_def split: option.splits sum.splits)
    with lease_from_row_Inr s0 assms(3) have "row_evolves prior l" by (fastforce simp: snap_def)
    with g(3) [OF _ that] show ?thesis by simp
  qed
  with g(1,2) show "lease_inv w' \<and> lease_guar w w'
      \<and> (\<forall>x. r = Inr x \<longrightarrow> (\<forall>l. x = Some l \<longrightarrow> snap l w' \<and> row_evolves prior l))" by simp
qed

lemma required_later:
  assumes "rely E" "\<And>w. lease_inv w \<Longrightarrow> P w \<Longrightarrow> snap prior w" "l_cleanup_token prior = k"
  shows "ok P (required E k) (\<lambda>l w. snap l w \<and> row_evolves prior l)"
proof -
  have "ok (snap prior) (required E k) (\<lambda>l w. snap l w \<and> row_evolves prior l)"
    unfolding required_def
    by (rule svc.safe_seq [OF repo_get_later [OF assms(1) _ assms(3)]])
      (auto intro!: svc.safe_option svc.safe_raise svc.safe_ret)
  then show ?thesis by (rule safe_pre) (rule assms(2))
qed

lemma required_ok:
  assumes "rely E"
  shows "ok P (required E k) (\<lambda>l w. snap l w \<and> l_cleanup_token l = k)"
proof -
  have "ok (\<lambda>_. True) (required E k) (\<lambda>l w. snap l w \<and> l_cleanup_token l = k)"
    unfolding required_def
    by (rule svc.safe_seq [OF repo_get_ok [OF assms]])
      (auto intro!: svc.safe_option svc.safe_raise svc.safe_ret)
  then show ?thesis by (rule safe_pre) simp
qed

lemma leases_from_rows_Inr: "leases_from_rows rs = Inr ls \<Longrightarrow> ls = rs \<and> (\<forall>l \<in> set ls. decoded l)"
proof (induction rs arbitrary: ls)
  case (Cons a rs)
  then obtain l ls' where "lease_from_row a = Inr l" "leases_from_rows rs = Inr ls'" "ls = l # ls'"
    by (auto split: sum.splits)
  with Cons.IH [of ls'] lease_from_row_Inr [of a l] show ?case by (auto simp: decoded_def)
qed simp

lemma select_rows_ok:
  assumes "rely E" "\<And>t. set (query t) \<subseteq> set t"
  shows "ok P (select_rows E query) (\<lambda>ls w. \<forall>l \<in> set ls. snap l w)"
proof (rule safeI)
  fix w r w'
  assume w: "lease_inv w" and run: "select_rows E query w = (r, w')"
  note b = begin_transaction_ok [OF assms(1) w]
  from run have w': "w' = begin_transaction E w" and r: "r = leases_from_rows (query (w_table w'))"
    by (auto simp: select_rows_def Let_def)
  have "snap l w'" if "r = Inr ls" "l \<in> set ls" for ls l
  proof -
    from that r have "leases_from_rows (query (w_table w')) = Inr ls" by simp
    from leases_from_rows_Inr [OF this] that(2) assms(2) [of "w_table w'"]
    have l: "l \<in> set (w_table w')" "decoded l" by auto
    from b w' have inv: "table_inv (w_table w')" by (simp add: lease_inv_def)
    from inv l(1) have "row_at (w_table w') (l_cleanup_token l) = Some l"
      unfolding table_inv_def by (blast intro: row_at_mem)
    with l(2) inv l(1) show ?thesis by (auto simp: snap_def table_inv_def)
  qed
  with b w' show "lease_inv w' \<and> lease_guar w w' \<and> (\<forall>x. r = Inr x \<longrightarrow> (\<forall>l \<in> set x. snap l w'))" by blast
qed

lemma good_updated:
  assumes "good l cs" "updated l cs l'"
  shows "row_evolves l l' \<and> row_inv l' \<and> l_cleanup_token l' = l_cleanup_token l"
proof -
  from assms(2) obtain t where l': "l' = (apply_changes cs l)\<lparr>l_updated_at := t, l_revision := l_revision l + 1\<rparr>"
    unfolding updated_def by blast
  have "base_evolves l l' = base_evolves l (apply_changes cs l)"
    "record_evolves l l' = record_evolves l (apply_changes cs l)" "row_inv l' = row_inv (apply_changes cs l)"
    unfolding l' base_evolves_def record_evolves_def row_inv_def is_terminal_def in_teardown_def
      is_catalog_attempt_def identity_columns_def by (simp_all split: option.splits)
  with assms(1) show ?thesis unfolding good_def row_evolves_def by (simp add: l')
qed

lemma apply_changes_snoc: "apply_changes (cs @ [c]) r = apply_change c (apply_changes cs r)"
  by (simp add: apply_changes_def)

lemma table_cas_ok:
  assumes inv: "table_inv t" and row: "row_at t (l_cleanup_token l) = Some r" and ev: "row_evolves l r"
    and good: "good l cs" and cas: "table_cas t (l_cleanup_token l) (l_revision l) (cs @ us) = Inr (r', t')"
    and us: "us = [] \<or> (\<exists>u. us = [Ch_updated_at u])"
  shows "updated l cs r' \<and> table_inv t' \<and> table_evolves t t' \<and> row_at t' (l_cleanup_token l) = Some r'"
proof -
  from inv have wf: "table_wf t" by (simp add: table_inv_def)
  from table_cas_Inr [OF wf cas] row obtain
    r0: "l_revision r = l_revision l" "r' = (apply_changes (cs @ us) r)\<lparr>l_revision := l_revision l + 1\<rparr>"
      "row_at t' = (row_at t)(l_cleanup_token l \<mapsto> r')" "t' = update_row t r'" "table_wf t'"
    by (metis option.inject)
  have eq: "r = l" using ev r0(1) by (simp add: row_evolves_def)
  have upd: "updated l cs r'"
    using us
  proof
    assume "us = []"
    then have "r' = (apply_changes cs l)\<lparr>l_updated_at := l_updated_at (apply_changes cs l),
        l_revision := l_revision l + 1\<rparr>" using r0(2) unfolding eq by simp
    then show ?thesis unfolding updated_def by blast
  next
    assume "\<exists>u. us = [Ch_updated_at u]"
    then show ?thesis using r0(2) unfolding eq updated_def by (auto simp: apply_changes_snoc)
  qed
  note new = good_updated [OF good upd]
  have "table_inv t'"
    using inv new r0(4,5) set_update_row unfolding table_inv_def by blast
  moreover have "table_evolves t t'"
    using new row unfolding table_evolves_def r0(3) eq by (auto simp: fun_upd_def)
  ultimately show ?thesis using upd r0(3) by simp
qed

lemma compare_and_set_ok:
  assumes rely: "rely E" and pre: "\<And>w. lease_inv w \<Longrightarrow> P w \<Longrightarrow> snap l w \<and> good l cs"
  shows "ok P (compare_and_set E l cs) 
    (\<lambda>l' w. snap l' w \<and> updated l cs l' \<and> row_evolves l l' \<and> decoded l \<and> row_inv l)"
proof (rule safeI)
  fix w r w'
  assume w: "lease_inv w" "P w" and run: "compare_and_set E l cs w = (r, w')"
  let ?w = "begin_transaction E w"
  note b = begin_transaction_ok [OF rely w(1)]
  from pre [OF w] have "snap l w" and good: "good l cs" by auto
  with b have s: "snap l ?w" by (blast intro: snap_stableD)
  then obtain x where x: "row_at (w_table ?w) (l_cleanup_token l) = Some x" "row_evolves l x"
    and dec: "decoded l \<and> row_inv l"
    by (auto simp: snap_def)
  define us where "us = (if list_ex sets_updated_at cs then []
    else [Ch_updated_at (re_wall_clock E (w_tick w))])"
  have us: "us = [] \<or> (\<exists>u. us = [Ch_updated_at u])" by (simp add: us_def)
  have ser: "(if list_ex sets_updated_at cs then cs
      else cs @ [Ch_updated_at (re_wall_clock E (w_tick w))]) = cs @ us" by (simp add: us_def)
  have inv: "table_inv (w_table ?w)" using b by (simp add: lease_inv_def)
  show "lease_inv w' \<and> lease_guar w w' \<and>
      (\<forall>x. r = Inr x \<longrightarrow> snap x w' \<and> updated l cs x \<and> row_evolves l x
        \<and> decoded l \<and> row_inv l)"
  proof (cases "table_cas (w_table ?w) (l_cleanup_token l) (l_revision l) (cs @ us)")
    case (Inl e)
    with run have "w' = ?w" "r = Inl e" by (auto simp: compare_and_set_def Let_def ser)
    with b show ?thesis by simp
  next
    case (Inr p)
    then obtain r' t' where c: "table_cas (w_table ?w) (l_cleanup_token l) (l_revision l) (cs @ us) = Inr (r', t')"
      by (cases p) auto
    with run have r: "r = lease_from_row r'" and w': "w' = ?w\<lparr>w_table := t'\<rparr>"
      by (auto simp: compare_and_set_def Let_def ser)
    note t = table_cas_ok [OF inv x good c us]
    have cm: "lease_inv w' \<and> lease_guar ?w w'" unfolding w' using b t commit_ok by blast
    note new = good_updated [OF good]
    have "snap y w' \<and> updated l cs y \<and> row_evolves l y" if "r = Inr y" for y
    proof -
      from that r have row: "lease_from_row r' = Inr y" by simp
      with lease_from_row_Inr [OF row] have "y = r'" "decoded r'" by (simp_all add: decoded_def)
      with t new [of r'] w' show ?thesis by (auto simp: snap_def)
    qed
    with cm b dec svc.G_trans show ?thesis by blast
  qed
qed

section \<open>External calls\<close>

lemma external_ok:
  assumes "\<And>w. lease_inv w \<Longrightarrow> P w \<Longrightarrow> True"
  shows "ok P (external f) (\<lambda>x w. \<exists>n. f n = Inr x)"
  by (rule safeI) (auto simp: external_def)

lemma issue_ok:
  assumes "\<And>w n. lease_inv w \<Longrightarrow> P w \<Longrightarrow> eff = EffCreate n \<Longrightarrow>
      \<exists>l. snap l w \<and> l_resource_name l = n \<and> l_source l = CREATED"
  shows "ok P (issue eff f) (\<lambda>x w. \<exists>n. f n = Inr x)"
proof (rule safeI)
  fix w r w'
  assume w: "lease_inv w" "P w" and run: "issue eff f w = (r, w')"
  then have w': "w' = w\<lparr>w_tick := Suc (w_tick w), w_effects := w_effects w @ [eff]\<rparr>"
    by (simp add: issue_def)
  have "\<exists>x \<in> set (w_table w). l_resource_name x = n \<and> l_source x = CREATED" if e: "eff = EffCreate n" for n
  proof -
    from assms [OF w e] obtain l where l: "snap l w" "l_resource_name l = n" "l_source l = CREATED" by blast
    then obtain x where x: "row_at (w_table w) (l_cleanup_token l) = Some x" "row_evolves l x"
      by (auto simp: snap_def)
    with l row_evolves_columns(2,6) [OF x(2)] row_at_Some [OF x(1)] show ?thesis by auto
  qed
  with w(1) have "lease_inv w'" by (auto simp: w' lease_inv_def creates_claimed_def)
  moreover have "lease_guar w w'" by (simp add: w' lease_guar_def)
  moreover have "\<exists>n. f n = Inr x" if "r = Inr x" for x using run that by (auto simp: issue_def)
  ultimately show "lease_inv w' \<and> lease_guar w w' \<and> (\<forall>x. r = Inr x \<longrightarrow> (\<exists>n. f n = Inr x))" by blast
qed

lemma now_ok: "ok P (now E) (\<lambda>t w. is_aware t)"
  unfolding now_def by (rule safe_post [OF external_ok]) (auto split: if_splits)

lemma safe_pure: "(A \<Longrightarrow> ok P m Q) \<Longrightarrow> ok (\<lambda>w. P w \<and> A) m Q"
  by (auto simp: safe_def)

lemma safe_True_post: "ok P m Q \<Longrightarrow> ok P m (\<lambda>_ _. True)"
  by (rule safe_post) auto

lemma safe_case_prod: "(\<And>a b. x = (a, b) \<Longrightarrow> ok P (f a b) Q) \<Longrightarrow> ok P (case x of (a, b) \<Rightarrow> f a b) Q"
  by (cases x) auto

section \<open>The evidence merge is write-once\<close>

lemma lc_field_set: "lc_field f (lc_set g t l) = (if f = g then Some t else lc_field f l)"
  by (cases f; cases g) simp_all

lemma lc_reservation_set [simp]: "lc_reservation_at (lc_set g t l) = lc_reservation_at l"
  by (cases g) simp_all

lemma first_observation_keeps: "keeps (lc_field f l) (lc_field f (first_observation o1 l))
    \<and> lc_reservation_at (first_observation o1 l) = lc_reservation_at l"
  by (cases o1) (auto simp: first_observation_def keeps_def lc_field_set)

lemma fold_first_observation: "keeps (lc_field f l) (lc_field f (fold first_observation os l))
    \<and> lc_reservation_at (fold first_observation os l) = lc_reservation_at l"
proof (induction os arbitrary: l)
  case (Cons o1 os)
  then show ?case
    using Cons.IH [of "first_observation o1 l"] first_observation_keeps [of f l o1] keeps_trans by fastforce
qed simp

lemma merge_lifecycle_keeps: "merge_lifecycle os l = Inr l' \<Longrightarrow>
    lc_reservation_at l' = lc_reservation_at l \<and> (\<forall>f. keeps (lc_field f l) (lc_field f l'))"
  using fold_first_observation [of _ l os]
  by (auto simp: merge_lifecycle_def Let_def split: if_splits option.splits)

lemma merge_realized_keeps: "merge_realized g s = Inr s' \<Longrightarrow> keeps s s'"
  by (auto simp: merge_realized_def keeps_def split: option.splits if_splits)

lemma merge_worker_keeps: "merge_worker g s = Inr s' \<Longrightarrow> keeps s s'"
  by (auto simp: merge_worker_def keeps_def split: option.splits if_splits)

lemma merge_billing_keeps: "merge_billing g s = Inr s' \<Longrightarrow>
    keeps s s' \<and> (\<forall>b. g = Some (Some b) \<longrightarrow> s' = Some b \<and> (s = None \<or> s = Some b))"
  by (auto simp: merge_billing_def keeps_def split: option.splits if_splits)

lemma merge_evidence_evolves:
  assumes "merge_evidence a e = Inr e'"
  shows "evidence_evolves e e' \<and> evidence_post_init e' = None
    \<and> (\<forall>b. ea_billing a = Some (Some b) \<longrightarrow> ev_billing e' = Some b \<and> (ev_billing e = None \<or> ev_billing e = Some b))"
  using assms merge_lifecycle_keeps merge_realized_keeps merge_worker_keeps merge_billing_keeps
  unfolding merge_evidence_def
  by (auto simp: Let_def evidence_evolves_def evidence_binding_def split: sum.splits option.splits)

lemma decoded_billing: "decoded c \<Longrightarrow> l_evidence c = Some e \<Longrightarrow> ev_billing e = l_billing_receipt c"
  by (auto simp: decoded_def lease_from_row_def first_error_append split: option.splits if_splits)

text \<open>
  A change list that leaves the evidence column alone and writes the receipt column only
  together with the billing evidence extends to a good one.
\<close>

definition settles :: "TrainingPodLease \<Rightarrow> column_change list \<Rightarrow> evidence_args \<Rightarrow> bool" where
  "settles c cs a \<longleftrightarrow> base_evolves c (apply_changes cs c) \<and> row_inv (apply_changes cs c)
     \<and> l_evidence (apply_changes cs c) = l_evidence c
     \<and> (l_billing_receipt (apply_changes cs c) = l_billing_receipt c
        \<or> (\<exists>b. ea_billing a = Some (Some b) \<and> l_billing_receipt (apply_changes cs c) = Some b))"

lemma settles_good:
  assumes "decoded c" "settles c cs a" "persisted_changes cs a c = Inr cs'"
  shows "good c cs'"
proof (cases "l_evidence c")
  case None
  with assms(2,3) show ?thesis
    by (simp add: persisted_changes_def settles_def good_def record_evolves_def)
next
  case (Some e)
  with assms(3) obtain e' where e': "merge_evidence a e = Inr e'" "cs' = cs @ [Ch_evidence (Some e')]"
    by (auto simp: persisted_changes_def split: sum.splits)
  let ?c = "apply_changes cs c"
  have eq: "apply_changes cs' c = ?c\<lparr>l_evidence := Some e'\<rparr>" by (simp add: e' apply_changes_snoc)
  note m = merge_evidence_evolves [OF e'(1)] and b = decoded_billing [OF assms(1) Some]
  from assms(2) m b have "keeps (l_billing_receipt c) (l_billing_receipt ?c)"
    unfolding settles_def keeps_def by metis
  with m have "record_evolves c (apply_changes cs' c)"
    by (simp add: record_evolves_def Some eq)
  moreover have "base_evolves c (apply_changes cs' c)" "row_inv (apply_changes cs' c)"
    using assms(2) unfolding eq settles_def base_evolves_def row_inv_def is_terminal_def in_teardown_def
      is_catalog_attempt_def identity_columns_def by simp_all
  ultimately show ?thesis by (simp add: good_def)
qed

section \<open>Compare-and-set loops\<close>

text \<open>What a change list must satisfy at every later, still active version of a lease.\<close>

definition later :: "TrainingPodLease \<Rightarrow> TrainingPodLease \<Rightarrow> bool" where
  "later l c \<longleftrightarrow> decoded c \<and> row_inv c \<and> row_evolves l c \<and> \<not> is_terminal c"

lemma laterI: "snap c w \<Longrightarrow> row_evolves l c \<Longrightarrow> \<not> is_terminal c \<Longrightarrow> later l c"
  by (simp add: later_def snap_def)

lemma transition_loop_ok:
  assumes rely: "rely E" and token: "l_cleanup_token prior = k"
    and good: "\<And>c. later prior c \<Longrightarrow> good c cs"
  shows "row_evolves prior cur \<Longrightarrow>
    ok (snap cur) (transition_loop n E k cs cur) (\<lambda>l w. snap l w \<and> row_evolves prior l)"
proof (induction n arbitrary: cur)
  case (Suc n)
  have key: "l_cleanup_token cur = k" using row_evolves_columns(1) [OF Suc.prems] token by simp
  have retry: "ok (snap cur) (seqM (required E k) (transition_loop n E k cs))
      (\<lambda>l w. snap l w \<and> row_evolves prior l)"
  proof (rule svc.safe_seq [OF required_later [OF rely _ key] stable_snap])
    show "ok (\<lambda>w. snap cur w \<and> (snap l w \<and> row_evolves cur l)) (transition_loop n E k cs l)
      (\<lambda>l w. snap l w \<and> row_evolves prior l)" for l
      using Suc.IH [of l] row_evolves_trans [OF Suc.prems]
      by (cases "row_evolves cur l") (auto elim: safe_pre)
  qed
  show ?case
    by (auto intro!: svc.safe_if svc.safe_ret svc.safe_try retry svc.safe_raise
        safe_post [OF compare_and_set_ok [OF rely]] simp: Suc.prems
        intro: row_evolves_trans [OF Suc.prems] good laterI [OF _ Suc.prems])
qed (simp add: svc.safe_raise)

lemma transition_nonterminal_ok:
  assumes "rely E" "\<And>w. lease_inv w \<Longrightarrow> P w \<Longrightarrow> snap l w" "\<And>w c. P w \<Longrightarrow> later l c \<Longrightarrow> good c cs"
  shows "ok P (transition_nonterminal E l cs) (\<lambda>l' w. snap l' w \<and> row_evolves l l')"
proof (cases "\<forall>c. later l c \<longrightarrow> good c cs")
  case True
  then show ?thesis unfolding transition_nonterminal_def
    by (intro safe_pre [OF transition_loop_ok [OF assms(1) refl]]) (auto dest: assms(2))
next
  case False
  with assms(3) have "\<not> P w" for w by blast
  then show ?thesis by (simp add: safe_def)
qed

lemma evidence_loop_ok:
  assumes rely: "rely E" and token: "l_cleanup_token prior = k"
    and settles: "\<And>c. later prior c \<Longrightarrow>
      (case ea_expected_states a of None \<Rightarrow> True | Some ss \<Rightarrow> l_state c \<in> set ss) \<Longrightarrow> settles c cs a"
  shows "row_evolves prior cur \<Longrightarrow>
    ok (snap cur) (evidence_loop n E k cs a cur) (\<lambda>l w. snap l w \<and> row_evolves prior l)"
proof (induction n arbitrary: cur)
  case (Suc n)
  have key: "l_cleanup_token cur = k" using row_evolves_columns(1) [OF Suc.prems] token by simp
  have retry: "ok (snap cur) (seqM (required E k) (evidence_loop n E k cs a))
      (\<lambda>l w. snap l w \<and> row_evolves prior l)"
  proof (rule svc.safe_seq [OF required_later [OF rely _ key] stable_snap])
    show "ok (\<lambda>w. snap cur w \<and> (snap l w \<and> row_evolves cur l)) (evidence_loop n E k cs a l)
      (\<lambda>l w. snap l w \<and> row_evolves prior l)" for l
      using Suc.IH [of l] row_evolves_trans [OF Suc.prems]
      by (cases "row_evolves cur l") (auto elim: safe_pre)
  qed
  have commit: "ok (snap cur) (seqM (liftM (persisted_changes cs a cur)) (\<lambda>persisted.
      tryM (compare_and_set E cur persisted) (\<lambda>e.
        if e = TrainingPodConflictError \<and> ea_retry_on_conflict a
        then seqM (required E k) (evidence_loop n E k cs a) else raiseM e)))
      (\<lambda>l w. snap l w \<and> row_evolves prior l)"
    if active: "\<not> is_terminal cur"
      and expected: "case ea_expected_states a of None \<Rightarrow> True | Some ss \<Rightarrow> l_state cur \<in> set ss"
  proof (rule svc.safe_seq [OF svc.safe_lift [where Q = "\<lambda>cs' w. snap cur w \<and> good cur cs'"] stable_snap])
    fix cs' w
    assume p: "persisted_changes cs a cur = Inr cs'" and w: "snap cur w"
    from settles [OF laterI [OF w Suc.prems active] expected] have "settles cur cs a" .
    with settles_good [OF _ this p] w show "snap cur w \<and> good cur cs'" by (simp add: snap_def)
  next
    fix cs'
    have "ok (\<lambda>w. snap cur w \<and> good cur cs') (tryM (compare_and_set E cur cs') (\<lambda>e.
        if e = TrainingPodConflictError \<and> ea_retry_on_conflict a
        then seqM (required E k) (evidence_loop n E k cs a) else raiseM e))
      (\<lambda>l w. snap l w \<and> row_evolves prior l)"
      by (intro svc.safe_try svc.safe_if svc.safe_raise safe_pre [OF retry]
          safe_post [OF compare_and_set_ok [OF rely]] svc.stable_conj stable_snap svc.stable_const)
        (auto intro: row_evolves_trans [OF Suc.prems])
    then show "ok (\<lambda>w. snap cur w \<and> (snap cur w \<and> good cur cs')) (tryM (compare_and_set E cur cs') (\<lambda>e.
        if e = TrainingPodConflictError \<and> ea_retry_on_conflict a
        then seqM (required E k) (evidence_loop n E k cs a) else raiseM e))
      (\<lambda>l w. snap l w \<and> row_evolves prior l)" by (rule safe_pre) auto
  qed
  show ?case
    by (auto intro!: svc.safe_if svc.safe_ret commit simp: Suc.prems split: option.splits)
qed (simp add: svc.safe_raise)

lemma transition_with_evidence_ok:
  assumes "rely E" "\<And>w. lease_inv w \<Longrightarrow> P w \<Longrightarrow> snap l w"
    "\<And>w c. P w \<Longrightarrow> later l c \<Longrightarrow>
      (case ea_expected_states a of None \<Rightarrow> True | Some ss \<Rightarrow> l_state c \<in> set ss) \<Longrightarrow> settles c cs a"
  shows "ok P (transition_with_evidence E l cs a) (\<lambda>l' w. snap l' w \<and> row_evolves l l')"
proof (cases "\<forall>c. later l c \<longrightarrow>
    (case ea_expected_states a of None \<Rightarrow> True | Some ss \<Rightarrow> l_state c \<in> set ss) \<longrightarrow> settles c cs a")
  case True
  then show ?thesis unfolding transition_with_evidence_def
    by (intro safe_pre [OF evidence_loop_ok [OF assms(1) refl]]) (auto dest: assms(2))
next
  case False
  with assms(3) have "\<not> P w" for w by blast
  then show ?thesis by (simp add: safe_def)
qed

section \<open>Checking change lists\<close>

text \<open>What is left to check of a change list once the columns it cannot touch are accounted for.\<close>

definition step_ok :: "TrainingPodLease \<Rightarrow> TrainingPodLease \<Rightarrow> bool" where
  "step_ok c c' \<longleftrightarrow>
     (l_state c = S_RELEASED \<longrightarrow> l_state c' = S_RELEASED)
     \<and> (protocol1 c \<and> in_teardown c \<longrightarrow> in_teardown c')
     \<and> (l_workload_state c = W_CANCEL_REQUESTED \<longrightarrow> l_workload_state c' = W_CANCEL_REQUESTED)
     \<and> (l_provider_pod_id c \<noteq> None \<longrightarrow> l_provider_pod_id c' \<noteq> None)
     \<and> (l_billing_receipt c \<noteq> None \<longrightarrow> l_billing_receipt c' \<noteq> None)
     \<and> opt_evolves handoff_evolves (l_artifact_handoff c) (l_artifact_handoff c')
     \<and> (l_family_release_requested c \<longrightarrow> l_family_release_requested c')
     \<and> (l_source c = CREATED \<longrightarrow> l_ownership c' \<noteq> O_PREEXISTING_RUNNING)
     \<and> (l_billing_state c' = B_AUTHORITATIVE \<longrightarrow> l_billing_receipt c' \<noteq> None)
     \<and> (is_catalog_attempt c \<and> l_state c' = S_RELEASED \<longrightarrow> l_billing_receipt c' \<noteq> None)"

lemma step_ok_checks:
  assumes "row_inv c" "step_ok c (apply_changes cs c)"
  shows "base_evolves c (apply_changes cs c) \<and> row_inv (apply_changes cs c)"
  using assms apply_changes_fixed(1) [of cs c] unfolding step_ok_def base_evolves_def row_inv_def
  by (simp add: is_terminal_def is_catalog_attempt_def)

lemma goodI:
  assumes "row_inv c" "step_ok c (apply_changes cs c)"
    "l_evidence (apply_changes cs c) = l_evidence c" "l_billing_receipt (apply_changes cs c) = l_billing_receipt c"
  shows "good c cs"
  using step_ok_checks [OF assms(1,2)] assms(3,4)
  by (simp add: good_def record_evolves_def split: option.splits)

lemma settlesI:
  assumes "row_inv c" "step_ok c (apply_changes cs c)"
    "l_evidence (apply_changes cs c) = l_evidence c"
    "l_billing_receipt (apply_changes cs c) = l_billing_receipt c
      \<or> (\<exists>b. ea_billing a = Some (Some b) \<and> l_billing_receipt (apply_changes cs c) = Some b)"
  shows "settles c cs a"
  using step_ok_checks [OF assms(1,2)] assms(3,4) by (simp add: settles_def)

lemmas change_simps = step_ok_def apply_changes_def row_inv_def in_teardown_def is_terminal_def

lemma laterD:
  assumes "later l c"
  shows "row_inv c" "l_state c \<noteq> S_RELEASED" "l_source c = l_source l"
    "is_catalog_attempt c = is_catalog_attempt l" "protocol1 c = protocol1 l"
    "l_cleanup_token c = l_cleanup_token l" "decoded c"
    "l_billing_receipt l \<noteq> None \<Longrightarrow> l_billing_receipt c \<noteq> None"
  using assms row_evolves_columns [of l c]
  by (auto simp: later_def is_terminal_def row_evolves_def base_evolves_def)

lemma snap_inv: "snap l w \<Longrightarrow> row_inv l" "snap l w \<Longrightarrow> decoded l"
  by (simp_all add: snap_def)

text \<open>Triples in the form the operations use them: a snapshot in, a snapshot out.\<close>

lemma cas_snap:
  assumes "rely E" "\<And>w. lease_inv w \<Longrightarrow> P w \<Longrightarrow> snap l w" "\<And>w. P w \<Longrightarrow> row_inv l \<Longrightarrow> decoded l \<Longrightarrow> good l cs"
  shows "ok P (compare_and_set E l cs) snap"
proof (rule safe_post [OF compare_and_set_ok [OF assms(1)]])
  fix w
  assume w: "lease_inv w" "P w"
  with assms(2) [OF w] assms(3) snap_inv show "snap l w \<and> good l cs" by blast
qed auto

lemma nonterminal_snap:
  assumes "rely E" "\<And>w. lease_inv w \<Longrightarrow> P w \<Longrightarrow> snap l w" "\<And>w c. P w \<Longrightarrow> later l c \<Longrightarrow> good c cs"
  shows "ok P (transition_nonterminal E l cs) snap"
  by (rule safe_post [OF transition_nonterminal_ok [OF assms]]) auto

lemma evidence_snap:
  assumes "rely E" "\<And>w. lease_inv w \<Longrightarrow> P w \<Longrightarrow> snap l w"
    "\<And>w c. P w \<Longrightarrow> later l c \<Longrightarrow>
      (case ea_expected_states a of None \<Rightarrow> True | Some ss \<Rightarrow> l_state c \<in> set ss) \<Longrightarrow> settles c cs a"
  shows "ok P (transition_with_evidence E l cs a) snap"
  by (rule safe_post [OF transition_with_evidence_ok [OF assms]]) auto

lemma required_snap:
  assumes "rely E"
  shows "ok P (required E k) snap"
  by (rule safe_post [OF required_ok [OF assms]]) auto

subsection \<open>Sequencing rules\<close>

lemma seq_snap:
  "ok P m snap \<Longrightarrow> svc.stable P \<Longrightarrow> (\<And>l. ok (\<lambda>w. P w \<and> snap l w) (f l) Q) \<Longrightarrow> ok P (seqM m f) Q"
  by (rule svc.safe_seq)

lemma seq_any:
  assumes "ok P m R" "svc.stable P" "\<And>x. ok P (f x) Q"
  shows "ok P (seqM m f) Q"
  by (rule svc.safe_seq [OF safe_True_post [OF assms(1)] assms(2)]) (simp add: assms(3))

lemma seq_pure:
  assumes "ok P m (\<lambda>x w. A x)" "svc.stable P" "\<And>x. A x \<Longrightarrow> ok P (f x) Q"
  shows "ok P (seqM m f) Q"
  by (rule svc.safe_seq [OF assms(1,2)]) (rule safe_pure, rule assms(3))

lemma seq_now: "svc.stable P \<Longrightarrow> (\<And>t. is_aware t \<Longrightarrow> ok P (f t) Q) \<Longrightarrow> ok P (seqM (now E) f) Q"
  by (rule seq_pure [OF now_ok])

lemma seq_external: "svc.stable P \<Longrightarrow> (\<And>x. \<exists>n. g n = Inr x \<Longrightarrow> ok P (f x) Q) \<Longrightarrow> ok P (seqM (external g) f) Q"
  by (rule seq_pure [OF external_ok]) auto

lemma seq_issue:
  "(\<And>n. eff \<noteq> EffCreate n) \<Longrightarrow> svc.stable P \<Longrightarrow> (\<And>x. \<exists>n. g n = Inr x \<Longrightarrow> ok P (f x) Q) \<Longrightarrow>
   ok P (seqM (issue eff g) f) Q"
  by (rule seq_pure [OF issue_ok]) auto

lemma seq_lift: "(\<And>x. r = Inr x \<Longrightarrow> ok P (f x) Q) \<Longrightarrow> ok P (seqM (liftM r) f) Q"
  by (cases r) (auto simp: seqM_def liftM_def safe_def lease_guar_def)

lemma seq_required:
  "rely E \<Longrightarrow> svc.stable P \<Longrightarrow> (\<And>l. l_cleanup_token l = k \<Longrightarrow> ok (\<lambda>w. P w \<and> snap l w) (f l) Q) \<Longrightarrow>
   ok P (seqM (required E k) f) Q"
proof -
  assume a: "rely E" "svc.stable P" "\<And>l. l_cleanup_token l = k \<Longrightarrow> ok (\<lambda>w. P w \<and> snap l w) (f l) Q"
  have "ok (\<lambda>w. P w \<and> (snap l w \<and> l_cleanup_token l = k)) (f l) Q" for l
    using safe_pure [OF a(3)] by (simp add: conj_assoc)
  with svc.safe_seq [OF required_ok [OF a(1)] a(2)] show ?thesis by blast
qed

lemma seq_required_later:
  assumes "rely E" "\<And>w. lease_inv w \<Longrightarrow> P w \<Longrightarrow> snap prior w" "l_cleanup_token prior = k" "svc.stable P"
    "\<And>l. row_evolves prior l \<Longrightarrow> ok (\<lambda>w. P w \<and> snap l w) (f l) Q"
  shows "ok P (seqM (required E k) f) Q"
proof -
  have "ok (\<lambda>w. P w \<and> (snap l w \<and> row_evolves prior l)) (f l) Q" for l
    using safe_pure [OF assms(5)] by (simp add: conj_assoc)
  with svc.safe_seq [OF required_later [OF assms(1-3)] assms(4)] show ?thesis by blast
qed

lemma seq_get:
  "rely E \<Longrightarrow> svc.stable P \<Longrightarrow> ok P (f None) Q \<Longrightarrow>
   (\<And>l. l_cleanup_token l = k \<Longrightarrow> ok (\<lambda>w. P w \<and> snap l w) (f (Some l)) Q) \<Longrightarrow> ok P (seqM (repo_get E k) f) Q"
proof -
  assume a: "rely E" "svc.stable P" "ok P (f None) Q"
    "\<And>l. l_cleanup_token l = k \<Longrightarrow> ok (\<lambda>w. P w \<and> snap l w) (f (Some l)) Q"
  have "ok (\<lambda>w. P w \<and> (\<forall>l. found = Some l \<longrightarrow> snap l w \<and> l_cleanup_token l = k)) (f found) Q" for found
    using a(3) safe_pure [OF a(4)] by (cases found) (auto simp: conj_assoc)
  with svc.safe_seq [OF repo_get_ok [OF a(1)] a(2)] show ?thesis by blast
qed

lemma seq_cas:
  assumes "rely E" "\<And>w. lease_inv w \<Longrightarrow> P w \<Longrightarrow> snap l w"
    "\<And>w. P w \<Longrightarrow> row_inv l \<Longrightarrow> decoded l \<Longrightarrow> good l cs" "svc.stable P"
    "\<And>l'. updated l cs l' \<Longrightarrow> row_evolves l l' \<Longrightarrow> ok (\<lambda>w. P w \<and> snap l' w) (f l') Q"
  shows "ok P (seqM (compare_and_set E l cs) f) Q"
proof -
  have pre: "snap l w \<and> good l cs" if "lease_inv w" "P w" for w
    using assms(2,3) that snap_inv by blast
  have "ok (\<lambda>w. P w \<and> (snap l' w \<and> updated l cs l' \<and> row_evolves l l' \<and> decoded l \<and> row_inv l)) (f l') Q" for l'
    using safe_pure [of "updated l cs l' \<and> row_evolves l l'", OF assms(5)]
    by (rule safe_pre) auto
  with svc.safe_seq [OF compare_and_set_ok [OF assms(1) pre] assms(4)] show ?thesis by blast
qed

lemma try_else_any:
  assumes "ok P m R" "svc.stable P" "\<And>e. ok P (h e) Q" "\<And>x. ok P (f x) Q"
  shows "ok P (try_elseM m h f) Q"
  by (rule svc.safe_try_else [OF safe_True_post [OF assms(1)] assms(2)]) (simp_all add: assms)

lemma try_else_external:
  assumes "svc.stable P" "\<And>e. ok P (h e) Q" "\<And>x. \<exists>n. g n = Inr x \<Longrightarrow> ok P (f x) Q"
  shows "ok P (try_elseM (external g) h f) Q"
  by (rule svc.safe_try_else [OF external_ok assms(1,2)]) (auto intro: safe_pure assms(3))

lemma try_else_issue:
  assumes "\<And>n. eff \<noteq> EffCreate n" "svc.stable P" "\<And>e. ok P (h e) Q"
    "\<And>x. \<exists>n. g n = Inr x \<Longrightarrow> ok P (f x) Q"
  shows "ok P (try_elseM (issue eff g) h f) Q"
  by (rule svc.safe_try_else [OF issue_ok assms(2,3)]) (auto simp: assms(1) intro: safe_pure assms(4))

lemmas seq_nonterminal = seq_snap [OF nonterminal_snap]
lemmas seq_evidence = seq_snap [OF evidence_snap]

lemmas svc_core = seq_now seq_external seq_issue seq_lift seq_get seq_cas seq_nonterminal
  seq_evidence svc.safe_try try_else_external try_else_issue svc.safe_if svc.safe_option svc.safe_sum
  svc.safe_let safe_case_prod svc.safe_raise svc.safe_ret
  svc.stable_conj stable_snap stable_all_snap svc.stable_const
  cas_snap nonterminal_snap evidence_snap required_snap

lemmas svc_intros = svc_core seq_required

lemma ok_any: "ok (\<lambda>_. True) m Q \<Longrightarrow> ok P m Q"
  by (erule safe_pre) (rule TrueI)

end
