(* ===== verification/Pod_Guarantee.thy ===== *)
theory Pod_Guarantee
  imports Pod_Safety
begin

text \<open>
  Every operation of \<^verbatim>\<open>PodCapacityLeaseService\<close> keeps the guarantee of \<^verbatim>\<open>Pod_Safety\<close>.
\<close>

section \<open>Lease mutations\<close>

lemma laterE:
  assumes "later l c"
    "row_inv c \<Longrightarrow> l_state c \<noteq> S_RELEASED \<Longrightarrow> l_source c = l_source l \<Longrightarrow>
     is_catalog_attempt c = is_catalog_attempt l \<Longrightarrow> protocol1 c = protocol1 l \<Longrightarrow>
     (l_billing_receipt l \<noteq> None \<longrightarrow> l_billing_receipt c \<noteq> None) \<Longrightarrow> R"
  shows R
  using assms(2) laterD [OF assms(1)] by blast

lemma row_evolvesE:
  assumes "row_evolves l c"
    "l_source c = l_source l \<Longrightarrow> is_catalog_attempt c = is_catalog_attempt l \<Longrightarrow> protocol1 c = protocol1 l \<Longrightarrow>
     (l_billing_receipt l \<noteq> None \<longrightarrow> l_billing_receipt c \<noteq> None) \<Longrightarrow> R"
  shows R
  using assms(2) row_evolves_columns [OF assms(1)] assms(1) by (auto simp: row_evolves_def base_evolves_def)

lemma heartbeat_ok: "rely E \<Longrightarrow> ok P (heartbeat E k) snap"
  unfolding heartbeat_def
  by (rule ok_any, intro svc_intros) (auto intro!: goodI simp: change_simps)

lemma legacy_not_protocol1: "require_legacy_training_mutation l = Inr x \<Longrightarrow> \<not> protocol1 l"
  by (auto simp: require_legacy_training_mutation_def protocol1_def split: option.splits if_splits)

lemma record_job_ok: "rely E \<Longrightarrow> ok P (record_job E k j) snap"
  unfolding record_job_def
  by (rule ok_any, intro svc_intros) (auto intro!: goodI dest!: legacy_not_protocol1 simp: change_simps)

lemma record_operation_error_ok: "rely E \<Longrightarrow> ok P (record_operation_error E k err) snap"
  unfolding record_operation_error_def
  by (rule ok_any, intro svc_intros) (auto intro!: goodI elim!: laterE simp: change_simps)

lemma record_status_ok: "rely E \<Longrightarrow> ok P (record_status E k status) snap"
  unfolding record_status_def
  by (rule ok_any, intro svc_intros)
    (auto intro!: goodI elim!: laterE dest!: legacy_not_protocol1 simp: change_simps)

lemma record_result_retrieved_ok: "rely E \<Longrightarrow> ok P (record_result_retrieved E k) snap"
  unfolding record_result_retrieved_def
  by (rule ok_any, intro svc_intros) (auto intro!: goodI dest!: legacy_not_protocol1 simp: change_simps)

lemma request_cancellation_ok: "rely E \<Longrightarrow> ok P (request_cancellation E k) snap"
  unfolding request_cancellation_def
  by (rule ok_any, intro svc_intros) (auto intro!: goodI simp: change_simps)

section \<open>Teardown\<close>

lemma await_owned_effect_ok: "ok P m snap \<Longrightarrow> svc.stable P \<Longrightarrow> ok P (await_owned_effect E m) snap"
  unfolding await_owned_effect_def
  by (rule seq_snap, assumption, assumption, rule safeI)
    (auto simp: external_def split: if_splits)

lemma zero_cost_receipt_ok: "svc.stable P \<Longrightarrow> ok P (zero_cost_receipt E l reason) (\<lambda>b w. True)"
  unfolding zero_cost_receipt_def by (intro svc_intros) auto

lemma capacity_spec_of_Inr: "capacity_spec_of l = Inr s \<Longrightarrow> is_catalog_attempt l"
  by (auto simp: capacity_spec_of_def is_catalog_attempt_def split: option.splits)

lemma revoke_and_release_ok:
  assumes rely: "rely E" and pre: "\<And>w. lease_inv w \<Longrightarrow> P w \<Longrightarrow> snap lease w"
  shows "ok P (revoke_and_release E lease) snap"
proof -
  have "ok (snap lease) (revoke_and_release E lease) snap"
    unfolding revoke_and_release_def
    by (intro svc_core seq_required_later [where prior = lease])
      (auto intro!: goodI dest!: capacity_spec_of_Inr snap_inv(1) elim!: row_evolvesE simp: rely change_simps)
  then show ?thesis by (rule safe_pre) (rule pre)
qed

lemmas seq_revoke = seq_snap [OF revoke_and_release_ok]

lemma record_receipt_ok:
  assumes rely: "rely E" and pre: "\<And>w. lease_inv w \<Longrightarrow> P w \<Longrightarrow> snap lease w"
  shows "ok P (record_receipt E lease receipt) snap"
proof -
  have settle: "ok (snap lease) (transition_with_evidence E lease
          [Ch_billing_state B_AUTHORITATIVE, Ch_billing_receipt (Some receipt),
           Ch_last_provider_error None, Ch_last_heartbeat_at (pb_reconciled_at receipt)]
          (no_evidence\<lparr>ea_lifecycle := [(LF_billing_reconciled_at, pb_reconciled_at receipt)],
                       ea_billing := Some (Some receipt)\<rparr>)) snap"
    by (rule evidence_snap [OF rely]) (auto intro!: settlesI elim!: laterE simp: change_simps)
  have "ok (snap lease) (record_receipt E lease receipt) snap"
    unfolding record_receipt_def
    by (rule seq_snap, rule svc.safe_try [OF settle])
      (intro svc_intros revoke_and_release_ok; auto simp: rely)+
  then show ?thesis by (rule safe_pre) (rule pre)
qed

lemma reconcile_billing_ok:
  assumes rely: "rely E" and pre: "\<And>w. lease_inv w \<Longrightarrow> P w \<Longrightarrow> snap lease w"
  shows "ok P (reconcile_billing E lease) snap"
proof -
  have "ok (snap lease) (reconcile_billing E lease) snap"
    unfolding reconcile_billing_def
    by (intro svc_intros revoke_and_release_ok record_receipt_ok seq_any [OF zero_cost_receipt_ok])
      (auto intro!: goodI simp: rely change_simps)
  then show ?thesis by (rule safe_pre) (rule pre)
qed

lemma record_retryable_failure_ok: "rely E \<Longrightarrow> ok P (record_retryable_failure E l err b) snap"
  unfolding record_retryable_failure_def
  by (rule ok_any, intro svc_intros) (auto intro!: goodI elim!: laterE simp: change_simps split: option.splits)

lemma release_unowned_claim_ok:
  assumes rely: "rely E" and pre: "\<And>w. lease_inv w \<Longrightarrow> P w \<Longrightarrow> snap lease w"
    and source: "l_source lease \<noteq> CREATED"
  shows "ok P (release_unowned_claim E lease err) snap"
proof -
  have "ok (snap lease) (release_unowned_claim E lease err) snap"
    unfolding release_unowned_claim_def
    by (intro svc_intros) (auto intro!: goodI elim!: laterE simp: rely change_simps source)
  then show ?thesis by (rule safe_pre) (rule pre)
qed

lemma find_created_ok: "ok P (find_created E lease) (\<lambda>_ _. True)"
  unfolding find_created_def by (rule ok_any, intro svc_intros) auto

lemma resolve_uncertain_creation_ok:
  assumes rely: "rely E" and pre: "\<And>w. lease_inv w \<Longrightarrow> P w \<Longrightarrow> snap lease w"
  shows "ok P (resolve_uncertain_creation E lease reason) snap"
proof -
  have "ok (snap lease) (resolve_uncertain_creation E lease reason) snap"
    unfolding resolve_uncertain_creation_def
    by (intro svc_intros try_else_any [OF find_created_ok] record_retryable_failure_ok)
      (auto intro!: goodI settlesI elim!: laterE dest!: snap_inv(1) simp: rely change_simps)
  then show ?thesis by (rule safe_pre) (rule pre)
qed

lemma release_without_pod_ok:
  assumes rely: "rely E" and pre: "\<And>w. lease_inv w \<Longrightarrow> P w \<Longrightarrow> snap lease w"
  shows "ok P (release_without_pod E lease) snap"
proof -
  have "ok (snap lease) (release_without_pod E lease) snap"
    unfolding release_without_pod_def
    by (intro svc_intros seq_evidence revoke_and_release_ok seq_any [OF zero_cost_receipt_ok])
      (auto intro!: settlesI elim!: laterE simp: rely change_simps)
  then show ?thesis by (rule safe_pre) (rule pre)
qed

lemma stop_attempt_loop_ok:
  assumes rely: "rely E"
  shows "ok (snap lease) (stop_attempt_loop n E k lease) snap"
proof (induction n arbitrary: lease)
  case (Suc n)
  have step: "ok (\<lambda>w. snap lease w \<and> snap l w) (stop_attempt_loop n E k l) snap" for l
    using Suc.IH by (rule safe_pre) simp
  show ?case
    by (simp, intro svc_intros step impI conjI) (auto intro!: goodI simp: rely change_simps)
qed (simp add: svc.safe_raise)

lemma stop_provider_pod_ok: "ok P (stop_provider_pod E lease) (\<lambda>_ _. True)"
  unfolding stop_provider_pod_def
  by (rule ok_any, intro seq_lift svc.safe_if safe_True_post [OF issue_ok]) auto

lemma confirm_stopped_ok:
  assumes rely: "rely E" and pre: "\<And>w. lease_inv w \<Longrightarrow> P w \<Longrightarrow> snap lease w"
  shows "ok P (confirm_stopped E lease) snap"
proof -
  have "ok (snap lease) (confirm_stopped E lease) snap"
    unfolding confirm_stopped_def
    by (intro svc_intros reconcile_billing_ok)
      (auto intro!: settlesI elim!: laterE simp: rely change_simps)
  then show ?thesis by (rule safe_pre) (rule pre)
qed

lemma mark_releasing_ok:
  assumes rely: "rely E"
  shows "ok (snap lease) (if l_state lease = S_RELEASING then ret lease
    else seqM (now E) (\<lambda>t. transition_nonterminal E lease
      [Ch_state S_RELEASING, Ch_cleanup_state C_PENDING, Ch_backend_base_url None, Ch_last_heartbeat_at t])) snap"
  by (intro svc_intros) (auto intro!: goodI elim!: laterE simp: rely change_simps)

lemma release_with_pod_ok:
  assumes rely: "rely E" and pre: "\<And>w. lease_inv w \<Longrightarrow> P w \<Longrightarrow> snap lease w"
  shows "ok P (release_with_pod E k reason lease) snap"
proof -
  have loop: "ok (\<lambda>w. snap lease w \<and> snap l w) (stop_attempt_loop n E k l) snap" for n l
    using stop_attempt_loop_ok [OF rely] by (rule safe_pre) simp
  have "ok (snap lease) (release_with_pod E k reason lease) snap"
    unfolding release_with_pod_def
    by (rule seq_snap [OF mark_releasing_ok [OF rely] stable_snap],
        intro svc_intros seq_snap [OF loop] seq_snap [OF record_retryable_failure_ok [OF rely]]
          confirm_stopped_ok try_else_any [OF stop_provider_pod_ok])
      (auto intro!: goodI elim!: laterE simp: rely change_simps)
  then show ?thesis by (rule safe_pre) (rule pre)
qed

lemma release_one_ok: "rely E \<Longrightarrow> ok P (release_one E k reason) snap"
proof -
  assume rely: "rely E"
  have recover: "ok (snap lease) (if l_provider_pod_id lease = None \<and> l_creation_uncertain lease
      then seqM (resolve_uncertain_creation E lease reason) (\<lambda>l.
        if l_provider_pod_id l = None \<and> l_creation_uncertain l
        then raiseM (cleanup_error reason l) else ret l) else ret lease) snap" for lease
    by (intro svc_intros seq_snap [OF resolve_uncertain_creation_ok]) (auto simp: rely)
  have "ok (\<lambda>_. True) (release_one E k reason) snap"
    unfolding release_one_def
    by (intro svc_intros seq_snap [OF safe_pre [OF recover]] reconcile_billing_ok release_with_pod_ok
          release_without_pod_ok)
      (auto intro!: goodI elim!: laterE dest!: snap_inv(1) simp: rely change_simps)
  then show ?thesis by (rule ok_any)
qed

section \<open>Cleanup families\<close>

lemma cleanup_family_ok: "rely E \<Longrightarrow> ok P (cleanup_family E k) (\<lambda>ls w. \<forall>l \<in> set ls. snap l w)"
  unfolding cleanup_family_def list_cleanup_family_def Let_def by (rule select_rows_ok) auto

lemma family_flag_loop_ok:
  assumes rely: "rely E" and good: "\<And>t c. row_inv c \<Longrightarrow> good c (changes t)"
  shows "ok (snap lease) (family_flag_loop n E k marked changes lease) snap"
proof (induction n arbitrary: lease)
  case (Suc n)
  have step: "ok (\<lambda>w. snap lease w \<and> snap l w) (family_flag_loop n E k marked changes l) snap" for l
    using Suc.IH by (rule safe_pre) simp
  show ?case
    by (simp, intro svc_intros step impI conjI) (auto simp: rely good)
qed (simp add: svc.safe_raise)

lemma mark_family_release_requested_ok: "rely E \<Longrightarrow> ok P (mark_family_release_requested E l) snap"
  unfolding mark_family_release_requested_def
  by (rule ok_any, intro seq_required, assumption, simp, rule safe_pre [OF family_flag_loop_ok])
    (auto intro!: goodI simp: change_simps)

lemma mark_family_release_complete_ok: "rely E \<Longrightarrow> ok P (mark_family_release_complete E l) snap"
  unfolding mark_family_release_complete_def
  by (rule ok_any, intro seq_required, assumption, simp, rule safe_pre [OF family_flag_loop_ok])
    (auto intro!: goodI simp: change_simps)

lemma get_active_family_attempt_ok: "rely E \<Longrightarrow> ok P (get_active_family_attempt E k) (\<lambda>_ _. True)"
  unfolding get_active_family_attempt_def
  by (rule ok_any, intro svc_core seq_any [OF cleanup_family_ok])
    (auto split: list.splits intro!: svc.safe_ret svc.safe_raise)

lemma release_members_ok: "rely E \<Longrightarrow> ok P (release_members E reason members failures) (\<lambda>_ _. True)"
proof (rule ok_any, induction members arbitrary: failures)
  case (Cons m ms)
  have one: "ok (\<lambda>_. True) (try_elseM (release_one E (l_cleanup_token m) reason)
      (\<lambda>e. if is_cleanup_error e then ret [e]
           else if is_manager_error e
           then seqM (required E (l_cleanup_token m)) (\<lambda>current. ret [cleanup_error reason current])
           else raiseM e) (\<lambda>_. ret [])) (\<lambda>_ _. True)"
    by (intro svc_intros try_else_any [OF release_one_ok]) (auto simp: Cons.prems)
  show ?case using Cons by (simp, intro conjI impI seq_any [OF one]) auto
qed (simp add: svc.safe_ret)

lemma release_ok: "rely E \<Longrightarrow> ok P (release E k reason) snap"
  unfolding release_def
  by (rule ok_any, intro svc_intros release_one_ok seq_snap [OF mark_family_release_requested_ok]
      seq_any [OF cleanup_family_ok] seq_any [OF release_members_ok] mark_family_release_complete_ok) auto

section \<open>Reservation\<close>

text \<open>What \<^verbatim>\<open>TrainingPodRequest.__post_init__\<close> grants about the claim of a request.\<close>

definition claim_ok :: "TrainingPodRequest \<Rightarrow> bool" where
  "claim_ok q \<longleftrightarrow> (tr_capacity_spec q \<noteq> None \<longrightarrow> tr_source q = CREATED)"

lemma request_post_init_claim: "request_post_init sha jsha q = None \<Longrightarrow> claim_ok q"
  by (auto simp: request_post_init_def first_error_append claim_ok_def split: option.splits if_splits)

lemma row_at_snoc: "row_at t k = Some r \<Longrightarrow> row_at (t @ [x]) k = Some r"
  by (simp add: row_at_def find_snoc)

lemma table_reserve_ok:
  assumes inv: "table_inv t" and res: "table_reserve t q row = Inr (r, ins, t')"
    and row: "l_cleanup_token row = tr_cleanup_token q" "row_inv row"
  shows "table_inv t' \<and> table_evolves t t' \<and> row_at t' (tr_cleanup_token q) = Some r \<and> (ins \<longrightarrow> r = row)"
proof -
  from inv have wf: "table_wf t" by (simp add: table_inv_def)
  note r = table_reserve_Inr [OF wf res row(1)]
  show ?thesis
  proof (cases ins)
    case True
    with r have t': "t' = t @ [row]" "r = row" by simp_all
    have "table_evolves t t'"
      unfolding table_evolves_def t' by (auto dest: row_at_snoc)
    with r t' inv row(2) show ?thesis by (auto simp: table_inv_def)
  next
    case False
    with r inv show ?thesis by auto
  qed
qed

lemma new_row_inv: "claim_ok q \<Longrightarrow> row_inv (new_row E q)"
  by (auto simp: row_inv_def new_row_def is_catalog_attempt_def is_terminal_def claim_ok_def)

lemma reserve_ok:
  assumes rely: "rely E" and claim: "claim_ok q"
  shows "ok P (reserve E q) (\<lambda>res w. snap (fst res) w \<and> (snd res \<longrightarrow> fst res = new_row E q))"
proof (rule safeI)
  fix w r w'
  assume w: "lease_inv w" and run: "reserve E q w = (r, w')"
  let ?Q = "\<lambda>res w. snap (fst res) w \<and> (snd res \<longrightarrow> fst res = new_row E q)"
  let ?w = "begin_transaction E w"
  note b = begin_transaction_ok [OF rely w]
  show "lease_inv w' \<and> lease_guar w w' \<and> (\<forall>x. r = Inr x \<longrightarrow> ?Q x w')"
  proof (cases "case tr_capacity_spec q of None \<Rightarrow> None
             | Some s \<Rightarrow> evidence_errors (evidence_from_spec (re_sha E) (re_jsha E) s)")
    case (Some e)
    with run w show ?thesis by (auto simp: reserve_def svc.G_refl)
  next
    case ok_spec: None
    show ?thesis
    proof (cases "table_reserve (w_table ?w) q (new_row E q)")
      case (Inl e)
      with run b ok_spec show ?thesis by (auto simp: reserve_def Let_def)
    next
      case (Inr p)
      then obtain row ins t' where res: "table_reserve (w_table ?w) q (new_row E q) = Inr (row, ins, t')"
        by (cases p) auto
      have inv: "table_inv (w_table ?w)" using b by (simp add: lease_inv_def)
      note t = table_reserve_ok [OF inv res new_row_token new_row_inv [OF claim]]
      from run res ok_spec have w': "w' = ?w\<lparr>w_table := t'\<rparr>"
        by (auto simp: reserve_def Let_def split: sum.splits if_splits)
      have cm: "lease_inv w' \<and> lease_guar ?w w'" unfolding w' using b t commit_ok by blast
      have "?Q x w'" if "r = Inr x" for x
      proof -
        from run res ok_spec that obtain l where l: "lease_from_row row = Inr l" "x = (l, ins)"
          by (auto simp: reserve_def Let_def split: sum.splits if_splits)
        from lease_from_row_Inr [OF l(1)] l have x: "x = (row, ins)" "decoded row" by (simp_all add: decoded_def)
        from t have at: "row_at t' (tr_cleanup_token q) = Some row" "table_inv t'" by simp_all
        from row_at_inv [OF at(2,1)] at(1) have "row_inv row" "row_at t' (l_cleanup_token row) = Some row"
          by simp_all
        with x t w' show ?thesis by (simp add: snap_def)
      qed
      with cm b svc.G_trans show ?thesis by blast
    qed
  qed
qed

section \<open>Acquisition\<close>

lemma raise_after_cleanup_ok: "rely E \<Longrightarrow> ok P (raise_after_cleanup E lease operation) Q"
  unfolding raise_after_cleanup_def
  by (rule ok_any, intro seq_snap [OF release_one_ok] svc.safe_raise) auto

lemma cleanup_cancelled_acquisition_ok: "rely E \<Longrightarrow> ok P (cleanup_cancelled_acquisition E lease operation) snap"
  unfolding cleanup_cancelled_acquisition_def
  by (rule ok_any, rule await_owned_effect_ok [OF release_one_ok]) auto

lemma enforce_readiness_deadline_ok:
  assumes "rely E" "\<And>w. lease_inv w \<Longrightarrow> P w \<Longrightarrow> snap lease w"
  shows "ok P (enforce_readiness_deadline E lease) snap"
proof -
  have "ok (snap lease) (enforce_readiness_deadline E lease) snap"
    unfolding enforce_readiness_deadline_def
    by (intro svc_intros raise_after_cleanup_ok) (auto simp: assms(1))
  then show ?thesis by (rule safe_pre) (rule assms(2))
qed

lemmas seq_release_one = seq_snap [OF release_one_ok]
lemmas seq_cleanup_cancelled = seq_snap [OF cleanup_cancelled_acquisition_ok]
lemmas seq_retryable = seq_snap [OF record_retryable_failure_ok]
lemmas seq_unowned = seq_snap [OF release_unowned_claim_ok]

lemma acquire_existing_ok:
  assumes rely: "rely E" and pre: "\<And>w. lease_inv w \<Longrightarrow> P w \<Longrightarrow> snap lease w"
    and fresh: "l_state lease = S_REQUESTED" "l_source lease \<noteq> CREATED"
  shows "ok P (acquire_existing E lease profile) snap"
proof -
  have "ok (snap lease) (acquire_existing E lease profile) snap"
    unfolding acquire_existing_def
    by (intro svc_intros seq_unowned seq_cleanup_cancelled seq_retryable seq_release_one)
      (auto intro!: goodI simp: rely fresh change_simps)
  then show ?thesis by (rule safe_pre) (rule pre)
qed

lemma create_pod_ok:
  assumes "\<And>w. lease_inv w \<Longrightarrow> P w \<Longrightarrow> snap lease w" "l_source lease = CREATED"
  shows "ok P (create_pod E lease profile environment) (\<lambda>_ _. True)"
proof -
  have "ok (snap lease) (create_pod E lease profile environment) (\<lambda>_ _. True)"
    unfolding create_pod_def
    by (intro seq_any [OF issue_ok] svc_intros) (auto simp: assms(2))
  then show ?thesis by (rule safe_pre) (rule assms(1))
qed

lemma create_mismatch_ok: "rely E \<Longrightarrow> ok P (create_mismatch E lease pod_id) Q"
  unfolding create_mismatch_def
  by (rule ok_any, intro svc_intros seq_release_one)
    (auto intro!: settlesI elim!: laterE simp: change_simps)

lemma create_ambiguous_ok: "rely E \<Longrightarrow> ok P (create_ambiguous E lease e) Q"
  unfolding create_ambiguous_def
  by (rule ok_any, intro svc_intros seq_retryable seq_release_one) auto

lemma create_rejected_ok:
  assumes rely: "rely E" and pre: "\<And>w. lease_inv w \<Longrightarrow> P w \<Longrightarrow> snap lease w"
  shows "ok P (create_rejected E lease e) Q"
proof -
  let ?changes = "\<lambda>t. [Ch_state S_RELEASED, Ch_cleanup_state C_COMPLETE, Ch_creation_uncertain False,
     Ch_last_provider_error (Some (sanitize_training_error e)), Ch_last_heartbeat_at t]"
  have settle: "ok (snap lease) (if is_catalog_attempt lease
     then seqM (zero_cost_receipt E lease ''create-rejected'') (\<lambda>receipt. seqM (now E) (\<lambda>reconciled_at.
       transition_with_evidence E lease
         (?changes t @ [Ch_state S_RELEASING, Ch_billing_state B_AUTHORITATIVE,
            Ch_billing_receipt (Some receipt), Ch_terminated_at (Some reconciled_at)])
         (no_evidence\<lparr>ea_lifecycle := [(LF_billing_reconciled_at, reconciled_at)],
                      ea_billing := Some (Some receipt)\<rparr>)))
     else transition_with_evidence E lease (?changes t) no_evidence) snap" for t
    by (intro svc_intros seq_any [OF zero_cost_receipt_ok])
      (auto intro!: settlesI elim!: laterE simp: rely change_simps)
  have finish: "ok (snap l) (if is_catalog_attempt l then revoke_and_release E l else ret l) snap" for l
    by (intro svc_intros revoke_and_release_ok) (auto simp: rely)
  have "ok (snap lease) (create_rejected E lease e) Q"
    unfolding create_rejected_def Let_def
    by (intro seq_now stable_snap seq_snap [OF settle] seq_snap [OF safe_pre [OF finish]]
        svc.stable_conj svc.safe_raise) auto
  then show ?thesis by (rule safe_pre) (rule pre)
qed

lemma create_failed_ok:
  assumes rely: "rely E" and pre: "\<And>w. lease_inv w \<Longrightarrow> P w \<Longrightarrow> snap lease w"
  shows "ok P (create_failed E lease e) Q"
proof -
  have "ok (snap lease) (create_failed E lease e) Q"
    unfolding create_failed_def
    by (cases e) (auto intro!: svc.safe_raise create_rejected_ok create_mismatch_ok create_ambiguous_ok
        seq_required seq_cleanup_cancelled svc.stable_conj simp: rely)
  then show ?thesis by (rule safe_pre) (rule pre)
qed

lemma acquire_created_ok:
  assumes rely: "rely E" and pre: "\<And>w. lease_inv w \<Longrightarrow> P w \<Longrightarrow> snap lease w"
    and fresh: "l_state lease = S_REQUESTED" "l_source lease = CREATED"
  shows "ok P (acquire_created E lease profile environment) snap"
proof -
  have src: "row_evolves lease l \<Longrightarrow> l_source l = CREATED" for l
    using row_evolves_columns(2) fresh(2) by simp
  have "ok (snap lease) (acquire_created E lease profile environment) snap"
    unfolding acquire_created_def
    by (intro svc_intros try_else_any [OF create_pod_ok] create_failed_ok)
      (auto intro!: goodI settlesI src elim!: laterE simp: rely fresh change_simps)
  then show ?thesis by (rule safe_pre) (rule pre)
qed

section \<open>Readiness\<close>

fun step_snap :: "readiness_step \<Rightarrow> world \<Rightarrow> bool" where
  "step_snap (Returned l) w = snap l w"
| "step_snap Proceed w = True"

lemma starting_simps [simp]: "ea_expected_states starting_only = Some [S_STARTING]"
  "ea_billing starting_only = None"
  by (simp_all add: starting_only_def no_evidence_def)

lemma worker_unready_ok: "rely E \<Longrightarrow> ok P (worker_unready E k e) step_snap"
  unfolding worker_unready_def
  by (rule ok_any, intro svc_intros) (auto intro!: settlesI elim!: laterE simp: change_simps)

lemma health_ok: "ok P (seqM (liftM (require_workload_transport E))
    (\<lambda>transport. external (\<lambda>n. wt_health transport n url))) (\<lambda>_ _. True)"
  by (intro seq_lift safe_True_post [OF external_ok]) simp

lemma observe_starting_ok:
  assumes rely: "rely E"
  shows "ok P (observe_starting E lease profile) step_snap"
  unfolding observe_starting_def
  by (rule ok_any, intro svc_intros worker_unready_ok raise_after_cleanup_ok
      try_else_any [OF health_ok])
    (auto intro!: settlesI elim!: laterE simp: rely change_simps)

lemma step_snap_eqs: "step_snap (Returned l) = snap l" "step_snap Proceed = (\<lambda>_. True)"
  by (rule ext, simp)+

lemma stable_step_snap [simp]: "svc.stable (step_snap s)"
  by (cases s) (simp_all add: step_snap_eqs)

lemma observe_readiness_ok:
  assumes rely: "rely E"
  shows "ok P (observe_readiness E lease0 profile) snap"
proof -
  have promote: "ok (\<lambda>w. P w \<and> step_snap s w) (case s of Returned l \<Rightarrow> ret l
      | Proceed \<Rightarrow> seqM (required E (l_cleanup_token lease)) (\<lambda>current0.
          if l_state current0 \<noteq> S_STARTING then ret current0
          else seqM (enforce_readiness_deadline E current0) (\<lambda>current.
            seqM (now E) (\<lambda>ready_at.
            transition_with_evidence E current
              [Ch_state S_READY, Ch_last_heartbeat_at ready_at]
              (starting_only\<lparr>ea_lifecycle := [(LF_worker_ready_at, ready_at)]\<rparr>))))) snap"
    if "svc.stable P" for P lease s
    using that
    by (cases s) (simp_all, intro svc.safe_ret, simp,
        intro svc_intros seq_snap [OF enforce_readiness_deadline_ok],
        auto intro!: settlesI elim!: laterE simp: rely change_simps)
  show ?thesis
    unfolding observe_readiness_def
    by (rule ok_any, intro svc_core seq_required seq_snap [OF enforce_readiness_deadline_ok]
        svc.safe_try_else [OF observe_starting_ok] promote seq_retryable seq_cleanup_cancelled
        raise_after_cleanup_ok)
      (auto simp: rely)
qed

lemma wait_ready_ok:
  assumes rely: "rely E"
  shows "ok P (wait_ready n E lease profile) snap"
proof (rule ok_any, induction n arbitrary: lease)
  case (Suc n)
  have step: "ok P (wait_ready n E l profile) snap" for P l using Suc.IH by (rule ok_any)
  show ?case
    by (simp, intro seq_snap [OF observe_readiness_ok [OF rely]] svc_intros seq_cleanup_cancelled step)
      (auto simp: rely)
qed (simp add: svc.safe_raise)

section \<open>Acquisition entry points\<close>

lemma acquire_lease_ok:
  assumes rely: "rely E" and claim: "claim_ok q"
  shows "ok P (acquire_lease E q environment wait) snap"
proof -
  have claimed: "ok (\<lambda>w. snap (new_row E q) w) (seqM
      (if tr_source q = CREATED then acquire_created E (new_row E q) profile environment
       else acquire_existing E (new_row E q) profile) (\<lambda>lease.
      if wait then wait_ready (sv_fuel E) E lease profile else ret lease)) snap" for profile
    by (intro seq_snap svc.safe_if acquire_created_ok acquire_existing_ok wait_ready_ok svc.safe_ret)
      (auto simp: rely new_row_def)
  have "ok (\<lambda>w. snap (fst res) w \<and> (snd res \<longrightarrow> fst res = new_row E q))
     (case res of (lease0, inserted) \<Rightarrow>
        if \<not> inserted
        then if l_state lease0 = S_READY then heartbeat E (l_cleanup_token lease0)
             else raiseM TrainingPodConflictError
        else seqM (liftM (profile_of E (l_profile_id lease0))) (\<lambda>profile.
          seqM (if tr_source q = CREATED then acquire_created E lease0 profile environment
                else acquire_existing E lease0 profile) (\<lambda>lease.
          if wait then wait_ready (sv_fuel E) E lease profile else ret lease))) snap" for res
  proof (cases res)
    case (Pair l ins)
    then show ?thesis
      by (cases "ins \<longrightarrow> l = new_row E q")
        (auto intro!: svc.safe_if seq_lift heartbeat_ok svc.safe_raise safe_pre [OF claimed] simp: rely)
  qed
  then have "ok (\<lambda>_. True) (acquire_lease E q environment wait) snap"
    unfolding acquire_lease_def
    by (intro svc.safe_if svc.safe_raise svc.safe_seq [OF reserve_ok [OF rely claim]]) simp_all
  then show ?thesis by (rule ok_any)
qed

lemma catalog_lease_ok: "rely E \<Longrightarrow> ok P (catalog_lease E k o1 wl) snap"
  unfolding catalog_lease_def find_catalog_capacity_def seqM_assoc
  by (rule ok_any, intro svc_core) (auto intro!: seq_lift svc.safe_ret svc.safe_raise simp: seqM_assoc)

lemmas seq_catalog_lease = seq_snap [OF catalog_lease_ok]
lemmas seq_heartbeat = seq_snap [OF heartbeat_ok]

lemma poll_catalog_readiness_ok: "rely E \<Longrightarrow> ok P (poll_catalog_readiness E k o1 wl) snap"
  unfolding poll_catalog_readiness_def
  by (rule ok_any, intro svc_core seq_catalog_lease seq_heartbeat observe_readiness_ok) auto

lemma replay_catalog_ok: "rely E \<Longrightarrow> ok P (replay_catalog E q b l) snap"
  unfolding replay_catalog_def
  by (rule ok_any, intro svc_core heartbeat_ok) auto

lemma internal_claim: "claim_ok (internal_request E q spec)"
  by (simp add: claim_ok_def internal_request_def)

lemma acquire_catalog_new_ok: "rely E \<Longrightarrow> ok P (acquire_catalog_new E q b) snap"
  unfolding acquire_catalog_new_def
  by (rule ok_any, intro svc_core acquire_lease_ok) (auto simp: internal_claim)

lemma acquire_catalog_request_ok: "rely E \<Longrightarrow> ok P (acquire_catalog_request E q b) snap"
  unfolding acquire_catalog_request_def
  by (rule ok_any, intro svc_core acquire_catalog_new_ok replay_catalog_ok) auto

section \<open>Workload observations\<close>

lemma evidence_once_ok:
  assumes rely: "rely E" and once: "\<not> ea_retry_on_conflict a"
    and pre: "\<And>w. lease_inv w \<Longrightarrow> P w \<Longrightarrow> snap l w" and settles: "settles l cs a"
  shows "ok P (transition_with_evidence E l cs a) snap"
proof (cases "sv_fuel E")
  case (Suc n)
  have "ok (snap l) (evidence_loop (Suc n) E (l_cleanup_token l) cs a l) snap"
    using once
    by (simp, intro conjI impI svc_intros; (auto simp: rely intro: settles_good [OF _ settles] split: option.splits))
  then have "ok P (evidence_loop (Suc n) E (l_cleanup_token l) cs a l) snap"
    by (rule safe_pre) (rule pre)
  then show ?thesis by (simp only: transition_with_evidence_def Suc)
qed (simp add: transition_with_evidence_def svc.safe_raise)

lemma observed_handoff_evolves:
  "observed_handoff spec ob t stored = Inr h \<Longrightarrow> opt_evolves handoff_evolves stored h"
  by (auto simp: observed_handoff_def Let_def handoff_evolves_def option_or_def keeps_def
      split: if_splits sum.splits option.splits)

definition plain_ok :: "TrainingPodLease \<Rightarrow> column_change list \<Rightarrow> bool" where
  "plain_ok l cs \<longleftrightarrow> step_ok l (apply_changes cs l) \<and> l_evidence (apply_changes cs l) = l_evidence l
     \<and> l_billing_receipt (apply_changes cs l) = l_billing_receipt l"

lemma plain_good: "plain_ok l cs \<Longrightarrow> row_inv l \<Longrightarrow> good l cs"
  by (simp add: plain_ok_def goodI)

lemma plain_settles: "plain_ok l cs \<Longrightarrow> row_inv l \<Longrightarrow> settles l cs a"
  by (simp add: plain_ok_def settlesI)

lemma proof_plain:
  assumes "row_inv l" "opt_evolves handoff_evolves (l_artifact_handoff l) h"
  shows "plain_ok l (if h \<noteq> l_artifact_handoff l then [Ch_artifact_handoff h] else [])"
  using assms by (auto simp: plain_ok_def change_simps)

lemma observation_plain:
  assumes "row_inv l" "opt_evolves handoff_evolves (l_artifact_handoff l) h" "\<not> observation_ignored l ob"
  shows "plain_ok l ((if h \<noteq> l_artifact_handoff l then [Ch_artifact_handoff h] else [])
    @ [Ch_workload_state (wo_state ob), Ch_workload_error_type x, Ch_last_provider_error None,
       Ch_last_heartbeat_at t] @ fst (observed_state_changes ob t))"
proof -
  from assms(3) have "l_state l \<noteq> S_RELEASED" "\<not> in_teardown l" "l_workload_state l \<noteq> W_CANCEL_REQUESTED"
    by (auto simp: observation_ignored_def in_teardown_def is_terminal_def)
  with assms(1,2) show ?thesis
    by (cases "wo_state ob"; cases "h = l_artifact_handoff l")
      (simp_all add: observed_state_changes_def plain_ok_def step_ok_def apply_changes_def row_inv_def)
qed

lemma catalog_observation_changes_ok:
  "ok (snap l) (catalog_observation_changes E l ob submitted) (\<lambda>cl w. plain_ok l (fst cl))"
  unfolding catalog_observation_changes_def Let_def
proof (intro seq_lift svc.safe_if svc.safe_raise seq_now stable_snap safe_case_prod svc.safe_ret)
  fix spec t h cs lf w
  assume h: "observed_handoff spec ob t (l_artifact_handoff l) = Inr h" and w: "snap l w"
    and cs: "observed_state_changes ob t = (cs, lf)"
  note e = observed_handoff_evolves [OF h] and inv = snap_inv(1) [OF w]
  show "plain_ok l (fst (if h \<noteq> l_artifact_handoff l then [Ch_artifact_handoff h] else [], []))"
    using proof_plain [OF inv e] by simp
  show "plain_ok l (fst ((if h \<noteq> l_artifact_handoff l then [Ch_artifact_handoff h] else []) @
     [Ch_workload_state (wo_state ob), Ch_workload_error_type (wo_error_type ob),
      Ch_last_provider_error None, Ch_last_heartbeat_at t] @ cs,
     (if submitted then [(LF_workload_submitted_at, t)] else []) @ lf))"
    if "\<not> observation_ignored l ob"
    using observation_plain [OF inv e that, of "wo_error_type ob" t] by (simp add: cs)
qed

lemma record_observation_loop_ok:
  assumes rely: "rely E"
  shows "ok P (record_observation_loop n E k ob submitted) snap"
proof (rule ok_any, induction n)
  case (Suc n)
  have retry: "ok P (record_observation_loop n E k ob submitted) snap" for P using Suc.IH by (rule ok_any)
  have apply_it: "ok (\<lambda>w. snap l w \<and> plain_ok l (fst cl)) (case cl of (changes, lifecycle) \<Rightarrow>
     if changes = [] then ret l
     else tryM
       (if is_terminal l then compare_and_set E l changes
        else transition_with_evidence E l changes
          (no_evidence\<lparr>ea_lifecycle := lifecycle, ea_retry_on_conflict := False\<rparr>))
       (\<lambda>e. if e = TrainingPodConflictError then record_observation_loop n E k ob submitted
            else raiseM e)) snap" for l cl
  proof (cases "plain_ok l (fst cl) \<and> row_inv l")
    case True
    then show ?thesis
      by (cases cl) (auto intro!: svc.safe_if svc.safe_ret svc.safe_try retry svc.safe_raise cas_snap
          evidence_once_ok svc.stable_conj plain_good plain_settles simp: rely)
  next
    case False
    then have "\<not> (snap l w \<and> plain_ok l (fst cl))" for w using snap_inv(1) by blast
    then show ?thesis unfolding safe_def by blast
  qed
  show ?case
    unfolding record_observation_loop.simps
    by (rule seq_required [OF rely], simp,
        rule svc.safe_seq [OF safe_pre [OF catalog_observation_changes_ok]], simp, simp,
        rule safe_pre [OF apply_it], simp)
qed (simp add: svc.safe_raise)

lemma record_catalog_observation_ok: "rely E \<Longrightarrow> ok P (record_catalog_observation E k ob submitted) snap"
  unfolding record_catalog_observation_def by (rule record_observation_loop_ok)

lemmas seq_record_observation = seq_snap [OF record_catalog_observation_ok]

section \<open>The catalog workload lifecycle\<close>

lemma load_capability_ok: "ok P (load_capability E spec) (\<lambda>_ _. True)"
  unfolding load_capability_def by (rule ok_any, intro svc_core) auto

lemmas seq_capability = seq_any [OF load_capability_ok]

lemma submission_lease_ok: "rely E \<Longrightarrow> ok P (submission_lease E k o1 wl) snap"
  unfolding submission_lease_def
  by (rule ok_any, intro svc_core seq_catalog_lease) auto

lemma submit_catalog_workload_ok: "rely E \<Longrightarrow> ok P (submit_catalog_workload E k o1 wl payload) (\<lambda>_ _. True)"
  unfolding submit_catalog_workload_def
  by (rule ok_any, intro svc_core seq_snap [OF submission_lease_ok] seq_capability seq_record_observation) auto

lemma observe_catalog_workload_ok: "rely E \<Longrightarrow> ok P (observe_catalog_workload E k o1 wl) (\<lambda>_ _. True)"
  unfolding observe_catalog_workload_def
  by (rule ok_any, intro svc_core seq_catalog_lease seq_capability seq_record_observation
      seq_snap [OF release_ok]) auto

lemma retrieve_catalog_result_ok: "rely E \<Longrightarrow> ok P (retrieve_catalog_result E k o1 wl) (\<lambda>_ _. True)"
  unfolding retrieve_catalog_result_def
  by (rule ok_any, intro svc_intros seq_catalog_lease seq_capability seq_heartbeat seq_snap [OF release_ok]) auto

lemma record_catalog_worker_evidence_ok:
  assumes rely: "rely E"
  shows "ok P (record_catalog_worker_evidence E R k o1 wl envelope) snap"
proof -
  have started: "ok P (case s of None \<Rightarrow> ret ()
      | Some started \<Rightarrow> seqM (now E) (\<lambda>t. if t < started then raiseM RunPodManagerError else ret ())) (\<lambda>_ _. True)"
    for P s by (rule ok_any, intro svc_core) auto
  show ?thesis
    unfolding record_catalog_worker_evidence_def
    by (rule ok_any, intro svc_core seq_catalog_lease seq_any [OF started])
      (auto intro!: settlesI elim!: laterE simp: rely change_simps)
qed

lemma require_catalog_ack_admission_ok: "ok P (require_catalog_ack_admission E l) (\<lambda>_ _. True)"
  unfolding require_catalog_ack_admission_def by (rule ok_any, intro svc_core) auto

lemma decoded_handoff: "decoded c \<Longrightarrow> l_artifact_handoff c = Some h \<Longrightarrow> handoff_post_init h = None"
  by (auto simp: decoded_def lease_from_row_def first_error_append opt_error_def nested_error_def
      split: option.splits if_splits)

lemma handoff_intent_complete:
  "handoff_post_init h = None \<Longrightarrow> ho_acknowledgement_sha256 h = None \<Longrightarrow>
   ho_acknowledgement_payload_sha256 h = None"
  by (auto simp: handoff_post_init_def bad_sha_opt_def split: if_splits)

lemma bind_acknowledgement_evolves:
  "bind_acknowledgement jsha h payload = Inr h' \<Longrightarrow> handoff_post_init h = None \<Longrightarrow> handoff_evolves h h'"
  using handoff_intent_complete [of h]
  by (auto simp: bind_acknowledgement_def handoff_evolves_def keeps_def Let_def
      split: if_splits json.splits option.splits)

lemma ack_intent_loop_ok:
  assumes rely: "rely E"
  shows "ok P (ack_intent_loop n E k o1 wl payload) (case_sum snap snap)"
proof (rule ok_any, induction n)
  case (Suc n)
  have retry: "ok P (ack_intent_loop n E k o1 wl payload) (case_sum snap snap)" for P
    using Suc.IH by (rule ok_any)
  show ?case
    unfolding ack_intent_loop.simps
    by (intro svc_core seq_catalog_lease retry seq_any [OF require_catalog_ack_admission_ok])
      (auto intro!: goodI dest: decoded_handoff bind_acknowledgement_evolves simp: rely change_simps)
qed (simp add: svc.safe_raise)

lemma acknowledge_handoff_ok:
  assumes rely: "rely E"
  shows "ok P (acknowledge_handoff E k o1 wl payload recovery) snap"
proof -
  have rest: "ok (\<lambda>w. True \<and> case_sum snap snap r w) (case r of Inl l \<Rightarrow> ret l | Inr l \<Rightarrow> f l) snap"
    if "\<And>P l. ok P (f l) snap" for r f
    using that by (cases r) (simp_all add: svc.safe_ret)
  show ?thesis
    unfolding acknowledge_handoff_def
    by (rule ok_any, rule svc.safe_seq [OF ack_intent_loop_ok [OF rely]], simp, rule rest, rule ok_any,
        intro svc_core seq_capability seq_catalog_lease seq_any [OF require_catalog_ack_admission_ok]
          record_catalog_observation_ok)
      (auto simp: rely)
qed

lemma host_confirmation_ok:
  "ok (snap l) (host_confirmation E protocol (l_artifact_handoff l)) (\<lambda>cs w. plain_ok l cs)"
  unfolding host_confirmation_def
  by (intro svc_core)
    (auto dest!: snap_inv(1) simp: plain_ok_def change_simps handoff_evolves_def Let_def
      split: bool.splits option.splits intro!: svc_core)

lemma step_ok_retrieved: "step_ok l c \<Longrightarrow> l_state l = S_JOB_COMPLETED \<Longrightarrow>
    step_ok l (c\<lparr>l_state := S_RESULT_RETRIEVED, l_last_heartbeat_at := t, l_last_provider_error := None\<rparr>)"
  by (simp add: step_ok_def in_teardown_def)

lemma plain_append_retrieved:
  assumes "plain_ok l cs" "row_inv l" "l_state l = S_JOB_COMPLETED"
  shows "good l (cs @ [Ch_state S_RESULT_RETRIEVED, Ch_last_heartbeat_at t, Ch_last_provider_error None])"
proof -
  have eq: "apply_changes (cs @ [Ch_state S_RESULT_RETRIEVED, Ch_last_heartbeat_at t, Ch_last_provider_error None]) l
    = (apply_changes cs l)\<lparr>l_state := S_RESULT_RETRIEVED, l_last_heartbeat_at := t, l_last_provider_error := None\<rparr>"
    by (simp add: apply_changes_def)
  from assms show ?thesis
    by (intro goodI) (simp_all only: eq plain_ok_def step_ok_retrieved, simp_all)
qed

lemma declare_confirmation_ok:
  assumes rely: "rely E"
  shows "ok (snap l) (if l_state l = S_JOB_COMPLETED
      then seqM (host_confirmation E protocol (l_artifact_handoff l)) (\<lambda>confirmation.
        seqM (now E) (\<lambda>t.
        seqM (compare_and_set E l
          (confirmation @ [Ch_state S_RESULT_RETRIEVED, Ch_last_heartbeat_at t, Ch_last_provider_error None]))
          (\<lambda>_. ret ())))
      else if l_state l \<notin> {S_RESULT_RETRIEVED, S_RELEASING} then raiseM RunPodManagerError
      else if confirmation_missing protocol (l_artifact_handoff l) then raiseM TrainingPodConflictError
      else ret ()) (\<lambda>_ _. True)"
  by (intro svc.safe_if svc.safe_raise svc.safe_ret svc.safe_seq [OF host_confirmation_ok] stable_snap
      seq_now seq_cas svc.stable_conj svc.stable_const)
    (auto intro: plain_append_retrieved simp: rely)

lemma release_catalog_result_ok: "rely E \<Longrightarrow> ok P (release_catalog_result E k o1 wl sha) snap"
  unfolding release_catalog_result_def Let_def
  by (rule ok_any, intro svc_core seq_catalog_lease release_ok seq_any [OF safe_pre [OF declare_confirmation_ok]])
    auto

lemma acknowledge_catalog_result_ok: "rely E \<Longrightarrow> ok P (acknowledge_catalog_result E k o1 wl ack) snap"
  unfolding acknowledge_catalog_result_def
  by (rule ok_any, intro svc_core seq_catalog_lease release_catalog_result_ok await_owned_effect_ok
      acknowledge_handoff_ok) auto

lemma recover_catalog_result_ok: "rely E \<Longrightarrow> ok P (recover_catalog_result E k o1 wl payload) snap"
  unfolding recover_catalog_result_def
  by (rule ok_any, intro svc_core seq_catalog_lease await_owned_effect_ok acknowledge_handoff_ok) auto

lemma cancel_remote_workload_ok: "ok P (cancel_remote_workload E lease url) (\<lambda>_ _. True)"
  unfolding cancel_remote_workload_def
  by (rule ok_any, intro svc_core seq_capability safe_True_post [OF issue_ok]) auto

lemma cancel_catalog_workload_ok:
  assumes rely: "rely E"
  shows "ok P (cancel_catalog_workload E k o1 wl) snap"
proof -
  have remote: "ok P (case l_backend_base_url lease of
      None \<Rightarrow> ret ()
    | Some url \<Rightarrow> try_elseM (cancel_remote_workload E lease url)
        (\<lambda>e. if is_manager_error e then seqM (record_operation_error E k e) (\<lambda>_. ret ()) else raiseM e)
        (\<lambda>_. ret ())) (\<lambda>_ _. True)" for P lease
    by (rule ok_any, intro svc_core try_else_any [OF cancel_remote_workload_ok]
        seq_snap [OF record_operation_error_ok]) (auto simp: rely)
  show ?thesis
    unfolding cancel_catalog_workload_def
    by (rule ok_any, intro svc_core seq_catalog_lease seq_any [OF remote] release_ok)
      (auto intro!: goodI simp: rely change_simps)
qed

section \<open>Reconciliation\<close>

lemma release_abandoned_claim_ok:
  assumes rely: "rely E" and pre: "\<And>w. lease_inv w \<Longrightarrow> P w \<Longrightarrow> snap lease w"
  shows "ok P (release_abandoned_claim E lease t) snap"
proof -
  let ?changes = "[Ch_state S_RELEASED, Ch_cleanup_state C_COMPLETE, Ch_last_provider_error None]"
  have settle: "ok (snap lease) (if is_catalog_attempt lease
     then seqM (zero_cost_receipt E lease ''before-create'') (\<lambda>receipt.
       transition_with_evidence E lease
         (?changes @ [Ch_state S_RELEASING, Ch_billing_state B_AUTHORITATIVE,
            Ch_billing_receipt (Some receipt), Ch_terminated_at (Some t)])
         (no_evidence\<lparr>ea_lifecycle := [(LF_billing_reconciled_at, t)],
                      ea_billing := Some (Some receipt)\<rparr>))
     else transition_with_evidence E lease ?changes no_evidence) snap"
    by (intro svc_core seq_any [OF zero_cost_receipt_ok])
      (auto intro!: settlesI elim!: laterE simp: rely change_simps)
  have "ok (snap lease) (release_abandoned_claim E lease t) snap"
    unfolding release_abandoned_claim_def Let_def
    by (intro svc.safe_if release_unowned_claim_ok seq_snap [OF settle] revoke_and_release_ok svc.safe_ret)
      (auto simp: rely)
  then show ?thesis by (rule safe_pre) (rule pre)
qed

lemma observe_held_pod_ok:
  assumes rely: "rely E" and pre: "\<And>w. lease_inv w \<Longrightarrow> P w \<Longrightarrow> snap lease w"
  shows "ok P (observe_held_pod E lease t pod_id) snap"
proof -
  have "ok (snap lease) (observe_held_pod E lease t pod_id) snap"
    unfolding observe_held_pod_def
    by (intro svc_core reconcile_billing_ok)
      (auto intro!: goodI settlesI elim!: laterE simp: rely change_simps)
  then show ?thesis by (rule safe_pre) (rule pre)
qed

lemma reconcile_acquisition_ok:
  assumes rely: "rely E" and pre: "\<And>w. lease_inv w \<Longrightarrow> P w \<Longrightarrow> snap lease w"
  shows "ok P (reconcile_acquisition E lease t stale) snap"
  unfolding reconcile_acquisition_def
  by (intro svc_core release_one_ok observe_held_pod_ok) (auto simp: rely pre)

lemma reconcile_active_ok:
  assumes rely: "rely E" and pre: "\<And>w. lease_inv w \<Longrightarrow> P w \<Longrightarrow> snap lease w"
  shows "ok P (reconcile_active E lease t stale) snap"
proof -
  have job: "ok (snap lease) (reconcile_job E lease t stale observer) snap" for observer
    unfolding reconcile_job_def
    by (intro svc_core record_operation_error_ok reconcile_acquisition_ok seq_snap [OF record_status_ok]
        release_one_ok) (auto simp: rely)
  have "ok (snap lease) (reconcile_active E lease t stale) snap"
    unfolding reconcile_active_def
    by (intro svc_core release_one_ok seq_any [OF observe_catalog_workload_ok])
      (auto simp: rely job reconcile_acquisition_ok split: bool.splits option.splits)
  then show ?thesis by (rule safe_pre) (rule pre)
qed

lemma reconcile_one_ok: "rely E \<Longrightarrow> ok P (reconcile_one E k) (\<lambda>_ _. True)"
proof -
  assume rely: "rely E"
  have body: "ok (snap lease) (if is_terminal lease
      then if l_billing_state lease \<in> {B_PENDING, B_UNRESOLVED} then reconcile_billing E lease else ret lease
      else seqM (now E) (\<lambda>t.
        let stale = (dt_add (l_last_heartbeat_at lease) (idle_timeout E lease) \<le> t) in
        if l_state lease = S_REQUESTED
        then if stale \<or> l_readiness_deadline lease \<le> t then release_abandoned_claim E lease t
             else ret lease
        else if l_provider_pod_id lease = None \<and> l_creation_uncertain lease
        then if \<not> stale \<and> t < l_hard_deadline lease then ret lease
             else seqM (resolve_uncertain_creation E lease ''reconcile'') (\<lambda>l.
               if l_provider_pod_id l \<noteq> None
               then release_one E k ''recovered create'' else ret l)
        else reconcile_active E lease t stale)) snap" for lease
    by (intro svc_core reconcile_billing_ok release_abandoned_claim_ok
        seq_snap [OF resolve_uncertain_creation_ok] release_one_ok reconcile_active_ok) (auto simp: rely)
  have "ok (\<lambda>_. True) (reconcile_one E k) (\<lambda>_ _. True)"
    unfolding reconcile_one_def
    by (intro seq_get svc.safe_option svc.safe_ret seq_snap [OF safe_pre [OF body]]) (auto simp: rely svc.safe_ret
        intro!: seq_snap [OF safe_pre [OF body]])
  then show ?thesis by (rule ok_any)
qed

lemma record_reconcile_error_ok:
  assumes rely: "rely E"
  shows "ok P (record_reconcile_error E k err) (\<lambda>_ _. True)"
proof (rule ok_any)
  have get: "ok P (repo_get E k) (\<lambda>_ _. True)" for P
    by (rule safe_True_post [OF repo_get_ok [OF rely]])
  show "ok (\<lambda>_. True) (record_reconcile_error E k err) (\<lambda>_ _. True)"
    unfolding record_reconcile_error_def
    by (intro seq_get svc.safe_option svc.safe_ret svc.safe_if svc.safe_try svc.safe_raise get)
      (auto intro!: svc.safe_if svc.safe_ret svc.safe_try seq_cas svc.safe_raise goodI get svc.stable_conj
        simp: rely change_simps)
qed

lemma reconcile_step_ok:
  "rely E \<Longrightarrow> (\<And>P. ok P m (\<lambda>_ _. True)) \<Longrightarrow> ok P (reconcile_step E k m) (\<lambda>_ _. True)"
  unfolding reconcile_step_def
  by (rule ok_any, intro svc.safe_try svc.safe_if record_reconcile_error_ok svc.safe_raise) auto

lemma reconcile_each_ok:
  "(\<And>P k. ok P (step k) (\<lambda>_ _. True)) \<Longrightarrow> ok P (reconcile_each step ls results) (\<lambda>_ _. True)"
proof (rule ok_any, induction ls arbitrary: results)
  case (Cons l ls)
  then show ?case by (simp, intro seq_any [OF Cons.prems]) simp_all
qed (simp add: svc.safe_ret)

lemma reconcile_ok: "rely E \<Longrightarrow> ok P (reconcile E) (\<lambda>_ _. True)"
proof -
  assume rely: "rely E"
  have sel: "ok P (list_incomplete_family_releases E) (\<lambda>_ _. True)" "ok P (list_for_reconciliation E) (\<lambda>_ _. True)"
    for P unfolding list_incomplete_family_releases_def list_for_reconciliation_def
    by (rule safe_True_post [OF select_rows_ok [OF rely]], auto)+
  have rel: "ok P (seqM (release E k r) (\<lambda>l. ret (Some l))) (\<lambda>_ _. True)" for P k r
    by (rule ok_any, intro seq_snap [OF release_ok [OF rely]] svc.safe_ret) auto
  show ?thesis unfolding reconcile_def
    by (rule ok_any, intro seq_any [OF sel(1)] seq_any [OF sel(2)] seq_any [OF reconcile_each_ok]
        reconcile_each_ok reconcile_step_ok rely rel reconcile_one_ok) simp_all
qed

end
