(* ===== verification/Pod_Samples.thy ===== *)
theory Pod_Samples
  imports Pod_Repository
begin

text \<open>
  Concrete, valid contract values: a quote for one GPU, a protocol-1 catalog request on it, the
  lease request and the lease rows derived from it.  The witnesses of the properties use them.
\<close>

section \<open>Definitions\<close>

definition hex_digest :: string where
  "hex_digest = replicate 64 (CHR ''a'')"

definition sample_constraints :: PodCapacityConstraints where
  "sample_constraints = \<lparr> cn_min_vram_gb = 24, cn_gpu_count = 1, cn_cloud = SECURE,
     cn_min_cuda_version = None, cn_allowed_gpu_ids = [], cn_allowed_data_center_ids = [],
     cn_max_hourly_rate_usd = None, cn_benchmark_id = ''bench'', cn_allowed_products = [POD] \<rparr>"

definition sample_placement :: PlacementDecision where
  "sample_placement = \<lparr> pd_gpu_id = ''NVIDIA L4'', pd_gpu_pool = None, pd_gpu_name = ''L4'',
     pd_memory_gb = 24, pd_cloud = SECURE, pd_gpu_count = 1, pd_offered_cost_per_hr = Fin (69 / 100),
     pd_availability = Some AV_HIGH, pd_catalog_observed_at = Aware 900000000,
     pd_requirements = \<lparr> pr_product = POD, pr_min_vram_gb = 24, pr_gpu_count = 1, pr_cloud = SECURE,
       pr_min_cuda_version = None, pr_max_cost_per_hr = None, pr_allowed_gpu_ids = [],
       pr_allowed_gpu_pools = [], pr_allowed_data_center_ids = [], pr_minimum_availability = AV_LOW,
       pr_benchmark_id = Some ''bench'' \<rparr> \<rparr>"

definition sample_quote :: PodCapacityQuote where
  "sample_quote = \<lparr> qt_schema_version = 3, qt_capability_version = ''runpod-pod-capacity-v1'',
     qt_provider_quote_id = ''runpod-pod:quote'', qt_workload_kind = ''training-lora'',
     qt_parameters_sha256 = hex_digest, qt_constraints = sample_constraints,
     qt_gpu_type_id = ''NVIDIA L4'', qt_gpu_display_name = ''L4'', qt_hourly_cost_usd = Fin (69 / 100),
     qt_estimated_cost_usd = Fin (1265 / 10000), qt_cost_ceiling_usd = Fin (69 / 100),
     qt_estimated_startup_seconds = 60, qt_estimated_execution_seconds = 600,
     qt_maximum_runtime_seconds = 3600, qt_observed_at = Aware 900000000,
     qt_expires_at = Aware 2000000000, qt_placement = sample_placement \<rparr>"

definition sample_catalog_request :: CatalogPodCapacityRequest where
  "sample_catalog_request = \<lparr> cr_capacity_id = ''capacity-1'', cr_cleanup_family_id = ''capacity-1'',
     cr_owner_id = ''owner-001'', cr_workload_id = ''workload-1'', cr_attempt_id = ''attempt-1'',
     cr_idempotency_key = ''idempotent-1'', cr_request_sha256 = hex_digest,
     cr_workload_kind = ''training-lora'', cr_parameters_sha256 = hex_digest,
     cr_image_reference = ''worker@sha256:'' @ hex_digest, cr_profile_id = ''training'',
     cr_quote = sample_quote, cr_accepted_max_cost_usd = Fin (69 / 100),
     cr_created_at = Aware 1000000000, cr_readiness_deadline = Aware 1600000000,
     cr_hard_deadline = Aware 4000000000, cr_bearer_expires_at = Aware 4600000000,
     cr_idle_timeout_seconds = 120, cr_cleanup_grace_seconds = 300,
     cr_attempt_environment = [], cr_artifact_handoff_protocol_version = Some 1 \<rparr>"

definition sample_spec :: PodCapacitySpec where
  "sample_spec = \<lparr> sp_request = sample_catalog_request, sp_capability_secret_id = ''secret-001'',
     sp_capability_token_sha256 = hex_digest, sp_capability_expires_at = Aware 4600000000,
     sp_attempt_environment_sha256 = hex_digest \<rparr>"

definition sample_sha :: "string \<Rightarrow> string" where
  "sample_sha s = hex_digest"

definition sample_jsha :: "json \<Rightarrow> string" where
  "sample_jsha v = hex_digest"

definition sample_request :: TrainingPodRequest where
  "sample_request = \<lparr> tr_cleanup_token = ''capacity-1'', tr_root_cleanup_token = ''capacity-1'',
     tr_companion_id = ''owner-001'', tr_profile_id = ''training'', tr_source = CREATED,
     tr_resource_name = ''kestrel-cap-aaaaaaaaaaaa-aaaaaaaaaaaa'', tr_provider_pod_id = None,
     tr_created_at = Aware 1000000000, tr_readiness_deadline = Aware 1600000000,
     tr_hard_deadline = Aware 4000000000, tr_capacity_spec = Some sample_spec \<rparr>"

definition sample_repo :: "repo_env" where
  "sample_repo = \<lparr> re_interfere = \<lambda>n t. t, re_wall_clock = \<lambda>n. Aware 1000000000,
     re_sha = sample_sha, re_jsha = sample_jsha \<rparr>"

definition sample_row :: TrainingPodLease where
  "sample_row = new_row sample_repo sample_request"

definition empty_world :: world where
  "empty_world = \<lparr> w_table = [], w_tick = 0, w_effects = [] \<rparr>"

definition sample_world :: world where
  "sample_world = \<lparr> w_table = [sample_row], w_tick = 0, w_effects = [] \<rparr>"

definition sample_offer :: "string \<Rightarrow> rat \<Rightarrow> GPUOffer" where
  "sample_offer name price = \<lparr> go_id = name, go_name = name, go_pool = None, go_manufacturer = ''NVIDIA'',
     go_memory_gb = 24, go_secure = True, go_community = False, go_secure_price_per_hr = Fin price,
     go_community_price_per_hr = NaNInf, go_secure_max_count = 4, go_community_max_count = 0,
     go_availability = Some AV_HIGH, go_data_centers = [], go_availability_min_cuda_version = None,
     go_serverless_price_per_hr = None \<rparr>"

definition sample_offers :: "GPUOffer list" where
  "sample_offers = [sample_offer ''NVIDIA L40'' (99 / 100), sample_offer ''NVIDIA L4'' (69 / 100)]"

section \<open>Validity\<close>

lemma sample_spec_valid: "spec_errors sample_spec = None"
  by code_simp

lemma sample_stored: "stored_spec sample_spec = sample_spec"
  by (simp add: stored_spec_def sample_spec_def sample_catalog_request_def redacted_environment_def)

lemma sample_request_valid: "request_post_init sample_sha sample_jsha sample_request = None"
  by code_simp

lemma sample_evidence_valid:
  "evidence_errors (evidence_from_spec sample_sha sample_jsha sample_spec) = None"
  by code_simp

lemma sample_row_columns [simp]:
  "l_cleanup_token sample_row = ''capacity-1''" "l_root_cleanup_token sample_row = ''capacity-1''"
  "l_request_fingerprint sample_row = hex_digest" "l_capacity_spec sample_row = Some sample_spec"
  "l_state sample_row = S_REQUESTED" "l_revision sample_row = 0" "l_billing_receipt sample_row = None"
  "l_evidence sample_row = Some (evidence_from_spec sample_sha sample_jsha sample_spec)"
  "l_source sample_row = CREATED" "l_ownership sample_row = O_PROVISIONAL"
  "l_artifact_handoff sample_row = None" "l_workload_state sample_row = W_NOT_SUBMITTED"
  "l_billing_state sample_row = B_PENDING" "l_provider_pod_id sample_row = None"
  by (simp_all add: sample_row_def new_row_def sample_request_def sample_repo_def sample_jsha_def
      request_fingerprint_def sample_stored)

lemma sample_spec_protocol [simp]: "protocol_of sample_spec = Some 1"
  by (simp add: protocol_of_def sample_spec_def sample_catalog_request_def)

lemma evidence_from_spec_billing [simp]: "ev_billing (evidence_from_spec sha jsha s) = None"
  by (simp add: evidence_from_spec_def Let_def)

lemma sample_row_decoded: "lease_from_row sample_row = Inr sample_row"
  by (simp add: lease_from_row_def opt_error_def sample_spec_valid sample_evidence_valid lease_post_init_def
      nested_error_def)

lemma sample_reserve:
  "reserve sample_repo sample_request empty_world
     = (Inr (sample_row, True), \<lparr> w_table = [sample_row], w_tick = 1, w_effects = [] \<rparr>)"
proof -
  have repo: "re_sha sample_repo = sample_sha" "re_jsha sample_repo = sample_jsha"
    "re_interfere sample_repo n t = t" for n t by (simp_all add: sample_repo_def)
  have req: "tr_capacity_spec sample_request = Some sample_spec" "tr_root_cleanup_token sample_request = tr_cleanup_token sample_request"
    by (simp_all add: sample_request_def)
  have fp: "request_fingerprint sample_jsha sample_request = hex_digest"
    by (simp add: request_fingerprint_def sample_jsha_def)
  show ?thesis
    by (simp add: reserve_def repo req sample_evidence_valid begin_transaction_def empty_world_def Let_def
        table_reserve_def family_guard_def row_at_def integrity_error_def sample_row_def [symmetric]
        sample_row_decoded fp)
qed

lemma sample_wf: "table_wf [sample_row]"
  by (simp add: table_wf_def clashes_def)

section \<open>Witnesses of the store properties\<close>

lemma sample_cas:
  obtains r' where "table_cas [sample_row] ''capacity-1'' 0 [Ch_stop_attempts 1] = Inr (r', [r'])"
    "l_revision r' = 1" "l_stop_attempts r' = 1"
  by (auto simp: table_cas_def Let_def apply_changes_def integrity_error_def clashes_def update_row_def)

theorem no_lost_update_witness:
  "\<exists>r' t'. table_cas [sample_row] ''capacity-1'' 0 [Ch_stop_attempts 1] = Inr (r', t')
     \<and> (\<exists>e. table_cas t' ''capacity-1'' 0 [Ch_stop_attempts 7] = Inl e)"
proof -
  obtain r' where r': "table_cas [sample_row] ''capacity-1'' 0 [Ch_stop_attempts 1] = Inr (r', [r'])"
    by (rule sample_cas)
  from no_lost_update [OF sample_wf r', of 0] show ?thesis using r' by blast
qed

theorem compare_and_set_frame_witness:
  "\<exists>r' t'. table_cas [sample_row] ''capacity-1'' 0 [Ch_stop_attempts 1] = Inr (r', t')
     \<and> l_revision r' = 1 \<and> identity_columns r' = identity_columns sample_row \<and> table_wf t'"
proof -
  obtain r' where r': "table_cas [sample_row] ''capacity-1'' 0 [Ch_stop_attempts 1] = Inr (r', [r'])"
    by (rule sample_cas)
  from compare_and_set_frame [OF sample_wf r'] show ?thesis using r' by (auto simp: row_at_def split: if_splits)
qed

theorem reserve_idempotent_witness:
  "\<exists>w' w''. reserve sample_repo sample_request empty_world = (Inr (sample_row, True), w')
     \<and> reserve sample_repo sample_request w' = (Inr (sample_row, False), w'') \<and> w_table w'' = [sample_row]"
proof -
  let ?w' = "\<lparr> w_table = [sample_row], w_tick = 1, w_effects = [] \<rparr> :: world"
  obtain again w'' where again: "reserve sample_repo sample_request ?w' = (again, w'')"
    by (cases "reserve sample_repo sample_request ?w'") auto
  have quiet: "re_interfere sample_repo n t = t" for n t by (simp add: sample_repo_def)
  have "table_wf (re_interfere sample_repo (w_tick empty_world) (w_table empty_world))"
    by (simp add: quiet empty_world_def table_wf_def)
  from reserve_idempotent [OF this sample_reserve _ again refl refl] quiet
  have "again = Inr (sample_row, False)" "w_table w'' = [sample_row]" by auto
  then show ?thesis using sample_reserve again by auto
qed

section \<open>Witness of the placement property\<close>

lemma sample_candidates: "candidates sample_offers (pd_requirements sample_placement) \<noteq> []"
  by code_simp

theorem select_gpu_optimal_witness:
  "\<exists>d p. select_gpu sample_offers (pd_requirements sample_placement) (Aware 0) = Inr d
     \<and> pd_offered_cost_per_hr d = Fin p \<and> 0 \<le> p
     \<and> (\<exists>offer \<in> set sample_offers. pd_gpu_id d = go_id offer)"
  using select_gpu_optimal [of sample_offers "pd_requirements sample_placement" "Aware 0"] sample_candidates
  by (auto split: sum.splits)

end
