(* ===== verification/Pod_Properties.thy ===== *)
theory Pod_Properties
  imports Pod_Guarantee Pod_Samples
begin

text \<open>
  The lease service as a whole: any sequence of its public operations, each in an environment of
  its own, and what holds of every lease row at its end.
\<close>

section \<open>Definitions\<close>

text \<open>The public operations that can change a lease or issue a provider mutation.\<close>

datatype service_call =
    Call_acquire TrainingPodRequest "(string \<times> json) list option"
  | Call_acquire_catalog CatalogPodCapacityRequest
  | Call_provision_catalog CatalogPodCapacityRequest
  | Call_poll_catalog_readiness string string string
  | Call_heartbeat string
  | Call_record_job string string
  | Call_record_operation_error string py_error
  | Call_record_status string string
  | Call_record_result_retrieved string
  | Call_request_cancellation string
  | Call_submit_catalog_workload string string string json
  | Call_observe_catalog_workload string string string
  | Call_retrieve_catalog_result string string string
  | Call_record_catalog_worker_evidence text_readers string string string json
  | Call_acknowledge_catalog_result string string string "json option"
  | Call_recover_catalog_result string string string json
  | Call_release_catalog_result string string string "string option"
  | Call_cancel_catalog_workload string string string
  | Call_release string string
  | Call_reconcile

text \<open>
  A call leaves the world behind, whether it returns or raises.  The argument of \<^verbatim>\<open>acquire\<close> is a
  constructed request, so its \<^verbatim>\<open>__post_init__\<close> comes first.
\<close>

fun exec_call :: "svc_env \<Rightarrow> service_call \<Rightarrow> world \<Rightarrow> world" where
  "exec_call E (Call_acquire q env) w =
     (case request_post_init (re_sha E) (re_jsha E) q of Some e \<Rightarrow> w | None \<Rightarrow> snd (acquire E q env w))"
| "exec_call E (Call_acquire_catalog q) w = snd (acquire_catalog E q w)"
| "exec_call E (Call_provision_catalog q) w = snd (provision_catalog E q w)"
| "exec_call E (Call_poll_catalog_readiness k o1 wl) w = snd (poll_catalog_readiness E k o1 wl w)"
| "exec_call E (Call_heartbeat k) w = snd (heartbeat E k w)"
| "exec_call E (Call_record_job k j) w = snd (record_job E k j w)"
| "exec_call E (Call_record_operation_error k e) w = snd (record_operation_error E k e w)"
| "exec_call E (Call_record_status k s) w = snd (record_status E k s w)"
| "exec_call E (Call_record_result_retrieved k) w = snd (record_result_retrieved E k w)"
| "exec_call E (Call_request_cancellation k) w = snd (request_cancellation E k w)"
| "exec_call E (Call_submit_catalog_workload k o1 wl p) w = snd (submit_catalog_workload E k o1 wl p w)"
| "exec_call E (Call_observe_catalog_workload k o1 wl) w = snd (observe_catalog_workload E k o1 wl w)"
| "exec_call E (Call_retrieve_catalog_result k o1 wl) w = snd (retrieve_catalog_result E k o1 wl w)"
| "exec_call E (Call_record_catalog_worker_evidence R k o1 wl p) w =
     snd (record_catalog_worker_evidence E R k o1 wl p w)"
| "exec_call E (Call_acknowledge_catalog_result k o1 wl p) w = snd (acknowledge_catalog_result E k o1 wl p w)"
| "exec_call E (Call_recover_catalog_result k o1 wl p) w = snd (recover_catalog_result E k o1 wl p w)"
| "exec_call E (Call_release_catalog_result k o1 wl s) w = snd (release_catalog_result E k o1 wl s w)"
| "exec_call E (Call_cancel_catalog_workload k o1 wl) w = snd (cancel_catalog_workload E k o1 wl w)"
| "exec_call E (Call_release k r) w = snd (release E k r w)"
| "exec_call E Call_reconcile w = snd (reconcile E w)"

fun exec_calls :: "(svc_env \<times> service_call) list \<Rightarrow> world \<Rightarrow> world" where
  "exec_calls [] w = w"
| "exec_calls ((E, c) # calls) w = exec_calls calls (exec_call E c w)"

text \<open>A concrete environment: no other process, and a provider that answers every call with an error.\<close>

definition failing_provider :: capacity_provider where
  "failing_provider = \<lparr> pv_observe = \<lambda>n p g. Inl RunPodManagerError, pv_start = \<lambda>n p c. Inl RunPodManagerError,
     pv_create = \<lambda>n g r c e s. Inl RunPodManagerError, pv_find_by_name = \<lambda>n r. Inl RunPodManagerError,
     pv_find_exact = \<lambda>n r s. Inl RunPodManagerError, pv_stop = \<lambda>n p. Inl RunPodManagerError,
     pv_terminate = \<lambda>n p. Inl RunPodManagerError,
     pv_final_billing = \<lambda>n p s c t r. Inl RunPodManagerError \<rparr>"

definition sample_env :: svc_env where
  "sample_env = \<lparr> re_interfere = \<lambda>n t. t, re_wall_clock = \<lambda>n. Aware 1000000000,
     re_sha = sample_sha, re_jsha = sample_jsha, sv_profiles = [], sv_orphan_timeout = 900000000,
     sv_fuel = 10, sv_clock = \<lambda>n. Aware (1000000000 + int n), sv_cancelled = \<lambda>n. False,
     sv_uuid5_url = \<lambda>s. s, sv_provider = failing_provider, sv_store = None, sv_transport = None,
     sv_observer = None, sv_sleep = \<lambda>n. Inr () \<rparr>"

definition sample_calls :: "(svc_env \<times> service_call) list" where
  "sample_calls = [(sample_env, Call_request_cancellation ''capacity-1''),
     (sample_env, Call_release ''capacity-1'' ''stop''), (sample_env, Call_reconcile)]"

definition world_of :: "TrainingPodLease \<Rightarrow> world" where
  "world_of r = \<lparr> w_table = [r], w_tick = 0, w_effects = [] \<rparr>"

section \<open>Every operation keeps the guarantee\<close>

lemma ok_exec: "ok (\<lambda>_. True) m Q \<Longrightarrow> lease_inv w \<Longrightarrow> lease_inv (snd (m w)) \<and> lease_guar w (snd (m w))"
  by (cases "m w") (auto simp: safe_def)

lemmas call_oks = acquire_lease_ok acquire_catalog_request_ok poll_catalog_readiness_ok heartbeat_ok record_job_ok
  record_operation_error_ok record_status_ok record_result_retrieved_ok request_cancellation_ok
  submit_catalog_workload_ok observe_catalog_workload_ok retrieve_catalog_result_ok
  record_catalog_worker_evidence_ok acknowledge_catalog_result_ok recover_catalog_result_ok
  release_catalog_result_ok cancel_catalog_workload_ok release_ok reconcile_ok

lemma exec_call_ok:
  assumes "rely E" "lease_inv w"
  shows "lease_inv (exec_call E c w) \<and> lease_guar w (exec_call E c w)"
proof (cases c)
  case (Call_acquire q env)
  then show ?thesis
    using assms request_post_init_claim [of "re_sha E" "re_jsha E" q]
    by (auto simp: acquire_def svc.G_refl split: option.splits
        intro: ok_exec [OF acquire_lease_ok, THEN conjunct1] ok_exec [OF acquire_lease_ok, THEN conjunct2])
qed (simp_all add: acquire_catalog_def provision_catalog_def ok_exec [OF call_oks(2)] ok_exec [OF call_oks(3)]
  ok_exec [OF call_oks(4)] ok_exec [OF call_oks(5)] ok_exec [OF call_oks(6)] ok_exec [OF call_oks(7)]
  ok_exec [OF call_oks(8)] ok_exec [OF call_oks(9)] ok_exec [OF call_oks(10)] ok_exec [OF call_oks(11)]
  ok_exec [OF call_oks(12)] ok_exec [OF call_oks(13)] ok_exec [OF call_oks(14)] ok_exec [OF call_oks(15)]
  ok_exec [OF call_oks(16)] ok_exec [OF call_oks(17)] ok_exec [OF call_oks(18)] ok_exec [OF call_oks(19)] assms)

lemma exec_calls_ok:
  "\<forall>(E, c) \<in> set calls. rely E \<Longrightarrow> lease_inv w \<Longrightarrow>
   lease_inv (exec_calls calls w) \<and> lease_guar w (exec_calls calls w)"
proof (induction calls arbitrary: w)
  case (Cons Ec calls)
  obtain E c where Ec: "Ec = (E, c)" by (cases Ec)
  with Cons.prems exec_call_ok [of E w c] Cons.IH [of "exec_call E c w"] svc.G_trans
  show ?case by fastforce
qed (simp add: svc.G_refl)

lemma exec_calls_row:
  assumes "\<forall>(E, c) \<in> set calls. rely E" "lease_inv w" "row_at (w_table w) k = Some r"
  obtains r' where "row_at (w_table (exec_calls calls w)) k = Some r'" "row_evolves r r'" "row_inv r'"
proof -
  note e = exec_calls_ok [OF assms(1,2)]
  then obtain r' where r': "row_at (w_table (exec_calls calls w)) k = Some r'" "row_evolves r r'"
    using assms(3) by (auto simp: lease_guar_def dest: table_evolvesD)
  moreover have "row_inv r'" using e row_at_inv [OF _ r'(1)] by (simp add: lease_inv_def)
  ultimately show ?thesis using that by blast
qed

lemma sample_rely [simp]: "rely sample_env"
  by (simp add: rely_def sample_env_def)

lemma sample_calls_rely: "\<forall>(E, c) \<in> set sample_calls. rely E"
  by (simp add: sample_calls_def)

lemma world_of_inv: "row_inv r \<Longrightarrow> lease_inv (world_of r)"
  by (simp add: lease_inv_def table_inv_def table_wf_def clashes_def creates_claimed_def world_of_def)

lemma world_of_row: "l_cleanup_token r = k \<Longrightarrow> row_at (w_table (world_of r)) k = Some r"
  by (simp add: world_of_def row_at_def)

section \<open>Properties of every run of the service\<close>

text \<open>
  C1.  Released is final.  Whatever sequence of service operations runs, with whatever answers of
  the provider, the store and the worker, and with other processes writing the same database
  under the same rules, a lease that is RELEASED is never active again.
\<close>

theorem released_is_final:
  assumes "\<forall>(E, c) \<in> set calls. rely E" "lease_inv w" "row_at (w_table w) k = Some r"
    "l_state r = S_RELEASED"
  shows "\<exists>r'. row_at (w_table (exec_calls calls w)) k = Some r' \<and> l_state r' = S_RELEASED"
  using assms(4) by (auto simp: row_evolves_def base_evolves_def is_terminal_def
      intro: exec_calls_row [OF assms(1-3)])

theorem released_is_final_witness:
  "\<exists>r'. row_at (w_table (exec_calls sample_calls
       (world_of (sample_row\<lparr>l_state := S_RELEASED, l_capacity_spec := None\<rparr>)))) ''capacity-1'' = Some r'
     \<and> l_state r' = S_RELEASED"
proof -
  let ?r = "sample_row\<lparr>l_state := S_RELEASED, l_capacity_spec := None\<rparr>"
  have inv: "lease_inv (world_of ?r)"
    by (rule world_of_inv) (simp add: row_inv_def is_catalog_attempt_def)
  show ?thesis by (rule released_is_final [OF sample_calls_rely inv world_of_row]) simp_all
qed

text \<open>
  A stopped attempt is never revived.  Once a protocol-1 catalog lease is in one of the
  teardown states (cancellation requested, reconciliation required, result retrieved, releasing,
  released), no operation and no interleaving brings it back to a state in which work may be
  acquired, submitted or completed.
\<close>

theorem stopped_attempt_is_not_revived:
  assumes "\<forall>(E, c) \<in> set calls. rely E" "lease_inv w" "row_at (w_table w) k = Some r"
    "protocol1 r" "in_teardown r"
  shows "\<exists>r'. row_at (w_table (exec_calls calls w)) k = Some r'
     \<and> l_state r' \<notin> {S_REQUESTED, S_STARTING, S_READY, S_JOB_SUBMITTED, S_JOB_COMPLETED}"
proof -
  obtain r' where r': "row_at (w_table (exec_calls calls w)) k = Some r'" "row_evolves r r'"
    by (rule exec_calls_row [OF assms(1-3)])
  then have "in_teardown r'" using assms(4,5) by (auto simp: row_evolves_def base_evolves_def)
  then have "l_state r' \<notin> {S_REQUESTED, S_STARTING, S_READY, S_JOB_SUBMITTED, S_JOB_COMPLETED}"
    by (auto simp: in_teardown_def)
  with r' show ?thesis by blast
qed

theorem stopped_attempt_is_not_revived_witness:
  "\<exists>r'. row_at (w_table (exec_calls sample_calls
       (world_of (sample_row\<lparr>l_state := S_CANCEL_REQUESTED\<rparr>)))) ''capacity-1'' = Some r'
     \<and> l_state r' \<notin> {S_REQUESTED, S_STARTING, S_READY, S_JOB_SUBMITTED, S_JOB_COMPLETED}"
proof -
  let ?r = "sample_row\<lparr>l_state := S_CANCEL_REQUESTED\<rparr>"
  have inv: "lease_inv (world_of ?r)"
    by (rule world_of_inv) (simp add: row_inv_def is_terminal_def)
  show ?thesis
    by (rule stopped_attempt_is_not_revived [OF sample_calls_rely inv world_of_row])
      (simp_all add: protocol1_def in_teardown_def)
qed

text \<open>
  C6.  Cancellation is sticky: a workload whose cancellation was requested is never reported as
  running, succeeded, awaiting acknowledgement or acknowledged by a later observation.
\<close>

theorem cancellation_is_sticky:
  assumes "\<forall>(E, c) \<in> set calls. rely E" "lease_inv w" "row_at (w_table w) k = Some r"
    "l_workload_state r = W_CANCEL_REQUESTED"
  shows "\<exists>r'. row_at (w_table (exec_calls calls w)) k = Some r' \<and> l_workload_state r' = W_CANCEL_REQUESTED"
  using assms(4) by (auto simp: row_evolves_def base_evolves_def intro: exec_calls_row [OF assms(1-3)])

theorem cancellation_is_sticky_witness:
  "\<exists>r'. row_at (w_table (exec_calls sample_calls
       (world_of (sample_row\<lparr>l_workload_state := W_CANCEL_REQUESTED\<rparr>)))) ''capacity-1'' = Some r'
     \<and> l_workload_state r' = W_CANCEL_REQUESTED"
proof -
  let ?r = "sample_row\<lparr>l_workload_state := W_CANCEL_REQUESTED\<rparr>"
  have inv: "lease_inv (world_of ?r)"
    by (rule world_of_inv) (simp add: row_inv_def is_terminal_def)
  show ?thesis by (rule cancellation_is_sticky [OF sample_calls_rely inv world_of_row]) simp_all
qed

text \<open>
  A lease keeps its identity: tokens, request fingerprint, owner, profile, source, resource
  name, creation time, deadlines and capacity specification never change, its revision never
  decreases, and two versions with the same revision are equal.
\<close>

theorem lease_identity_is_fixed:
  assumes "\<forall>(E, c) \<in> set calls. rely E" "lease_inv w" "row_at (w_table w) k = Some r"
  shows "\<exists>r'. row_at (w_table (exec_calls calls w)) k = Some r' \<and> identity_columns r' = identity_columns r
     \<and> l_revision r \<le> l_revision r' \<and> (l_revision r' = l_revision r \<longrightarrow> r' = r)"
  by (auto simp: row_evolves_def base_evolves_def intro: exec_calls_row [OF assms])

theorem lease_identity_is_fixed_witness:
  "\<exists>r'. row_at (w_table (exec_calls sample_calls (world_of sample_row))) ''capacity-1'' = Some r'
     \<and> identity_columns r' = identity_columns sample_row \<and> 0 \<le> l_revision r'"
proof -
  have inv: "lease_inv (world_of sample_row)"
    by (rule world_of_inv) (simp add: row_inv_def is_terminal_def)
  show ?thesis using lease_identity_is_fixed [OF sample_calls_rely inv world_of_row [OF sample_row_columns(1)]]
    by auto
qed

lemma keepsD: "keeps a b \<Longrightarrow> a = Some x \<Longrightarrow> b = Some x"
  by (auto simp: keeps_def)

text \<open>
  C4.  Evidence is written once.  The first-observation instants, the realized placement, the
  worker telemetry and the billing receipt that a lease has recorded are never overwritten or
  erased, and the attempt binding of the evidence never changes.
\<close>

theorem evidence_is_write_once:
  assumes "\<forall>(E, c) \<in> set calls. rely E" "lease_inv w" "row_at (w_table w) k = Some r"
    "l_evidence r = Some e"
  shows "\<exists>r' e'. row_at (w_table (exec_calls calls w)) k = Some r' \<and> l_evidence r' = Some e'
     \<and> evidence_binding e' = evidence_binding e
     \<and> (\<forall>f t. lc_field f (ev_lifecycle e) = Some t \<longrightarrow> lc_field f (ev_lifecycle e') = Some t)
     \<and> (\<forall>p. ev_realized_placement e = Some p \<longrightarrow> ev_realized_placement e' = Some p)
     \<and> (\<forall>v. ev_worker e = Some v \<longrightarrow> ev_worker e' = Some v)
     \<and> (\<forall>b. l_billing_receipt r = Some b \<longrightarrow> l_billing_receipt r' = Some b)"
proof -
  obtain r' where r': "row_at (w_table (exec_calls calls w)) k = Some r'" "row_evolves r r'"
    by (rule exec_calls_row [OF assms(1-3)])
  then obtain e' where e': "l_evidence r' = Some e'" "evidence_evolves e e'"
    "keeps (l_billing_receipt r) (l_billing_receipt r')"
    using assms(4) by (auto simp: row_evolves_def record_evolves_def opt_evolves_def split: option.splits)
  from e'(2) have evs: "evidence_binding e' = evidence_binding e"
    "\<forall>f. keeps (lc_field f (ev_lifecycle e)) (lc_field f (ev_lifecycle e'))"
    "keeps (ev_realized_placement e) (ev_realized_placement e')" "keeps (ev_worker e) (ev_worker e')"
    by (simp_all add: evidence_evolves_def)
  show ?thesis
    by (rule exI [of _ r'], rule exI [of _ e'])
      (simp add: r'(1) e'(1) evs(1) keepsD [OF evs(2) [rule_format]] keepsD [OF evs(3)] keepsD [OF evs(4)]
        keepsD [OF e'(3)])
qed

theorem evidence_is_write_once_witness:
  "\<exists>r' e'. row_at (w_table (exec_calls sample_calls (world_of sample_row))) ''capacity-1'' = Some r'
     \<and> l_evidence r' = Some e'
     \<and> evidence_binding e' = evidence_binding (evidence_from_spec sample_sha sample_jsha sample_spec)"
proof -
  have inv: "lease_inv (world_of sample_row)"
    by (rule world_of_inv) (simp add: row_inv_def is_terminal_def)
  show ?thesis
    using evidence_is_write_once [OF sample_calls_rely inv world_of_row [OF sample_row_columns(1)]
        sample_row_columns(8)] by blast
qed


definition sample_handoff :: CatalogArtifactHandoffEvidence where
  "sample_handoff = \<lparr> ho_attempt_id = ''attempt-1'', ho_request_sha256 = hex_digest,
     ho_result_sha256 = hex_digest, ho_receipt_sha256 = hex_digest, ho_acknowledgement_sha256 = None,
     ho_acknowledgement_payload_sha256 = None, ho_remote_ack_observed_at = None,
     ho_host_confirmation_declared_at = None \<rparr>"




text \<open>
  C2.  No Pod is created without a durable claim: after any run, every resource name for which a
  create was issued to the provider is the name of a lease row of source CREATED, which was
  committed before the create and is never deleted.
\<close>

theorem creates_are_claimed:
  assumes "\<forall>(E, c) \<in> set calls. rely E" "lease_inv w" "EffCreate n \<in> set (w_effects (exec_calls calls w))"
  shows "\<exists>r \<in> set (w_table (exec_calls calls w)). l_resource_name r = n \<and> l_source r = CREATED"
  using exec_calls_ok [OF assms(1,2)] assms(3) by (simp add: lease_inv_def creates_claimed_def)

definition sample_profile :: GPUProfile where
  "sample_profile = \<lparr> gp_id = ''training'', gp_name = ''training'', gp_task_type = ''training'',
     gp_image_name = ''worker'', gp_container_disk_gb = 50, gp_volume_gb = 0, gp_ports = [''8000/http''],
     gp_inference_port = 8000, gp_inference_protocol = ''http'', gp_inference_base_path = [],
     gp_image_invoke_path = None, gp_default_model = None, gp_pod_type = None, gp_min_vram_gb = 24,
     gp_min_cuda_version = None, gp_max_cost_per_hr = None, gp_gpu_count = 1, gp_cloud = SECURE,
     gp_allowed_gpu_ids = [], gp_allowed_data_center_ids = [], gp_max_context_window = None,
     gp_readiness_timeout_seconds = None, gp_registry_id = None,
     gp_network_volume_id = None, gp_volume_mount_path = None, gp_persistent_pod_id = None, gp_env = [] \<rparr>"
definition create_env :: svc_env where
  "create_env = sample_env\<lparr>sv_profiles := [(''training'', sample_profile)]\<rparr>"
definition create_calls :: "(svc_env \<times> service_call) list" where
  "create_calls = [(create_env, Call_acquire sample_request None)]"

lemma create_effect: "EffCreate ''kestrel-cap-aaaaaaaaaaaa-aaaaaaaaaaaa''
    \<in> set (w_effects (snd (acquire_lease create_env sample_request None True empty_world)))"
  by code_simp

lemma create_calls_effect:
  "EffCreate ''kestrel-cap-aaaaaaaaaaaa-aaaaaaaaaaaa'' \<in> set (w_effects (exec_calls create_calls empty_world))"
  using create_effect sample_request_valid
  by (simp add: create_calls_def create_env_def sample_env_def acquire_def)

theorem creates_are_claimed_witness:
  "\<exists>r \<in> set (w_table (exec_calls create_calls empty_world)).
     l_resource_name r = ''kestrel-cap-aaaaaaaaaaaa-aaaaaaaaaaaa'' \<and> l_source r = CREATED"
proof -
  have relies: "\<forall>(E, c) \<in> set create_calls. rely E"
    by (simp add: create_calls_def create_env_def rely_def sample_env_def)
  have "lease_inv empty_world"
    by (simp add: lease_inv_def table_inv_def table_wf_def creates_claimed_def empty_world_def)
  from creates_are_claimed [OF relies this create_calls_effect] show ?thesis .
qed

text \<open>
  C7.  The rely condition is what the service itself guarantees: the transactions of any service
  operation, run by another process between two steps, keep the table invariant and change every
  row only along its history order.
\<close>

theorem service_satisfies_rely:
  assumes "rely E" "table_inv t"
  shows "table_inv (w_table (exec_call E c \<lparr> w_table = t, w_tick = n, w_effects = [] \<rparr>))
     \<and> table_evolves t (w_table (exec_call E c \<lparr> w_table = t, w_tick = n, w_effects = [] \<rparr>))"
proof -
  have "lease_inv \<lparr> w_table = t, w_tick = n, w_effects = [] \<rparr>"
    using assms(2) by (simp add: lease_inv_def creates_claimed_def)
  from exec_call_ok [OF assms(1) this, of c] show ?thesis by (simp add: lease_inv_def lease_guar_def)
qed

theorem service_satisfies_rely_witness:
  "table_inv (w_table (exec_call sample_env Call_reconcile \<lparr> w_table = [sample_row], w_tick = 3, w_effects = [] \<rparr>))"
proof -
  have "table_inv [sample_row]" using sample_wf by (simp add: table_inv_def row_inv_def is_terminal_def)
  from service_satisfies_rely [OF sample_rely this] show ?thesis by blast
qed

end
