(* ===== verification/Py_Text.thy ===== *)
theory Py_Text
  imports Pod_Contracts
begin

text \<open>
  The text functions of the Python standard library that the HTTP side of the program uses:
  \<^verbatim>\<open>int(str)\<close>, \<^verbatim>\<open>str.partition\<close>, \<^verbatim>\<open>urllib.parse.quote\<close> and \<^verbatim>\<open>urllib.parse.urlsplit\<close>.  A character
  is a code point below 256.
\<close>

section \<open>Definitions\<close>

subsection \<open>Splitting and trimming\<close>

definition partition_at :: "char \<Rightarrow> string \<Rightarrow> string \<times> string option" where
  "partition_at c s =
     (takeWhile (\<lambda>x. x \<noteq> c) s,
      case dropWhile (\<lambda>x. x \<noteq> c) s of [] \<Rightarrow> None | _ # rest \<Rightarrow> Some rest)"

definition trim :: "(char \<Rightarrow> bool) \<Rightarrow> string \<Rightarrow> string" where
  "trim P s = rev (dropWhile P (rev (dropWhile P s)))"

definition strip_trailing :: "char \<Rightarrow> string \<Rightarrow> string" where
  "strip_trailing c s = rev (dropWhile (\<lambda>x. x = c) (rev s))"

subsection \<open>Integers\<close>

text \<open>Decimal digits with single underscores between them, after an optional sign.\<close>

fun int_digits :: "int \<Rightarrow> bool \<Rightarrow> string \<Rightarrow> int option" where
  "int_digits acc ok [] = (if ok then Some acc else None)"
| "int_digits acc ok (c # cs) =
     (if is_digit_char c then int_digits (10 * acc + (of_char c - 48)) True cs
      else if c = CHR ''_'' \<and> ok then int_digits acc False cs else None)"

definition python_int :: "string \<Rightarrow> int option" where
  "python_int s =
     (case trim is_space s of
        [] \<Rightarrow> None
      | c # cs \<Rightarrow>
          if c = CHR ''-'' then (case int_digits 0 False cs of None \<Rightarrow> None | Some n \<Rightarrow> Some (- n))
          else if c = CHR ''+'' then int_digits 0 False cs
          else int_digits 0 False (c # cs))"

subsection \<open>Percent encoding\<close>

definition is_unreserved :: "char \<Rightarrow> bool" where
  "is_unreserved c \<longleftrightarrow> is_alnum c \<or> c \<in> {CHR ''_'', CHR ''.'', CHR ''-'', CHR ''~''}"

definition hex_digit :: "nat \<Rightarrow> char" where
  "hex_digit n = char_of (if n < 10 then n + 48 else n + 55)"

definition quote_byte :: "nat \<Rightarrow> string" where
  "quote_byte n = [CHR ''%'', hex_digit (n div 16), hex_digit (n mod 16)]"

text \<open>The UTF-8 encoding of a code point below 256 has one or two bytes.\<close>

definition utf8 :: "char \<Rightarrow> nat list" where
  "utf8 c = (let n = of_char c in if n < 128 then [n] else [192 + n div 64, 128 + n mod 64])"

definition quote_char :: "char \<Rightarrow> string" where
  "quote_char c = (if is_unreserved c then [c] else concat (map quote_byte (utf8 c)))"

definition quote_segment :: "string \<Rightarrow> string" where
  "quote_segment s = concat (map quote_char s)"

subsection \<open>URLs\<close>

record split_url =
  su_scheme :: string
  su_netloc :: string
  su_path :: string
  su_query :: string
  su_fragment :: string

definition is_scheme_char :: "char \<Rightarrow> bool" where
  "is_scheme_char c \<longleftrightarrow> is_alnum c \<or> c \<in> {CHR ''+'', CHR ''-'', CHR ''.''}"

definition is_letter :: "char \<Rightarrow> bool" where
  "is_letter c \<longleftrightarrow> is_alnum c \<and> \<not> is_digit_char c"

definition ascii_lower :: "char \<Rightarrow> char" where
  "ascii_lower c = (if CHR ''A'' \<le> c \<and> c \<le> CHR ''Z'' then char_of ((of_char c :: nat) + 32) else c)"

text \<open>Leading control characters and blanks are dropped, tabs and line breaks removed everywhere.\<close>

definition url_clean :: "string \<Rightarrow> string" where
  "url_clean s =
     filter (\<lambda>c. c \<notin> {CHR 0x09, CHR 0x0A, CHR 0x0D})
       (dropWhile (\<lambda>c. (of_char c :: nat) \<le> 32) s)"

definition url_scheme :: "string \<Rightarrow> string \<times> string" where
  "url_scheme url =
     (case partition_at (CHR '':'') url of
        (prefix, Some rest) \<Rightarrow>
          if prefix \<noteq> [] \<and> is_letter (hd prefix) \<and> list_all is_scheme_char prefix
          then (map ascii_lower prefix, rest) else ([], url)
      | (_, None) \<Rightarrow> ([], url))"

definition is_netloc_char :: "char \<Rightarrow> bool" where
  "is_netloc_char c \<longleftrightarrow> c \<notin> {CHR ''/'', CHR ''?'', CHR ''#''}"

definition url_netloc :: "string \<Rightarrow> string \<times> string" where
  "url_netloc url =
     (if take 2 url = ''//''
      then (takeWhile is_netloc_char (drop 2 url), dropWhile is_netloc_char (drop 2 url))
      else ([], url))"

definition tail_of :: "string option \<Rightarrow> string" where
  "tail_of x = (case x of None \<Rightarrow> [] | Some s \<Rightarrow> s)"

text \<open>
  \<^verbatim>\<open>urlsplit\<close>; unbalanced brackets in the network location are a \<^verbatim>\<open>ValueError\<close>, and a bracketed
  host is accepted when \<open>bracketed\<close> (the address parser of \<^verbatim>\<open>ipaddress\<close>) accepts it.
\<close>

definition urlsplit :: "(string \<Rightarrow> bool) \<Rightarrow> string \<Rightarrow> py_error + split_url" where
  "urlsplit bracketed s =
     (let (scheme, rest) = url_scheme (url_clean s);
          (netloc, rest') = url_netloc rest;
          opening = CHR ''['' \<in> set netloc; closing = CHR '']'' \<in> set netloc;
          (before_fragment, fragment) = partition_at (CHR ''#'') rest';
          (path, query) = partition_at (CHR ''?'') before_fragment
      in if opening \<noteq> closing \<or> (opening \<and> \<not> bracketed netloc) then Inl ValueError
         else Inr \<lparr> su_scheme = scheme, su_netloc = netloc, su_path = path,
                    su_query = tail_of query, su_fragment = tail_of fragment \<rparr>)"

text \<open>\<^verbatim>\<open>SplitResult.username\<close> and \<^verbatim>\<open>password\<close> are present only when the network location has an \<^verbatim>\<open>@\<close>.\<close>

definition has_userinfo :: "split_url \<Rightarrow> bool" where
  "has_userinfo u \<longleftrightarrow> CHR ''@'' \<in> set (su_netloc u)"

section \<open>Lemmas\<close>

lemma quote_unreserved: "list_all is_unreserved s \<Longrightarrow> quote_segment s = s"
  by (induction s) (auto simp: quote_segment_def quote_char_def)

lemma hex_digit_alnum: "n < 16 \<Longrightarrow> is_alnum (hex_digit n)"
proof -
  have "list_all (\<lambda>n. is_alnum (hex_digit n)) [0..<16]" by code_simp
  then show "n < 16 \<Longrightarrow> is_alnum (hex_digit n)" by (simp add: list_all_iff)
qed

lemma utf8_bytes: "n \<in> set (utf8 c) \<Longrightarrow> n < 256"
proof -
  have "(of_char c :: nat) div 64 < 64" using nat_of_char_less_256 [of c] by linarith
  then show "n \<in> set (utf8 c) \<Longrightarrow> n < 256" by (auto simp: utf8_def Let_def split: if_splits)
qed

lemma quote_chars:
  assumes "c \<in> set (quote_segment s)"
  shows "is_unreserved c \<or> c = CHR ''%''"
proof -
  obtain x where x: "c \<in> set (quote_char x)" using assms by (auto simp: quote_segment_def)
  show ?thesis
  proof (cases "is_unreserved x")
    case False
    then obtain n where n: "n \<in> set (utf8 x)" "c \<in> set (quote_byte n)"
      using x by (auto simp: quote_char_def)
    have "n div 16 < 16" using utf8_bytes [OF n(1)] by auto
    then have "is_alnum (hex_digit (n div 16))" "is_alnum (hex_digit (n mod 16))"
      by (simp_all add: hex_digit_alnum)
    then show ?thesis using n(2) by (auto simp: quote_byte_def is_unreserved_def)
  qed (use x in \<open>simp add: quote_char_def\<close>)
qed

lemma strip_trailing_set: "set (strip_trailing c s) \<subseteq> set s"
  by (auto simp: strip_trailing_def dest: set_dropWhileD)

lemma strip_trailing_hd: "strip_trailing c (x # xs) = [] \<or> hd (strip_trailing c (x # xs)) = x"
proof -
  obtain ys where ys: "rev (x # xs) = ys @ dropWhile (\<lambda>y. y = c) (rev (x # xs))"
    by (metis takeWhile_dropWhile_id)
  then have "x # xs = strip_trailing c (x # xs) @ rev ys"
    unfolding strip_trailing_def by (metis rev_append rev_rev_ident)
  then show ?thesis by (cases "strip_trailing c (x # xs)") auto
qed

text \<open>The path of a split URL has neither query nor fragment and is empty or absolute.\<close>

lemma urlsplit_path:
  assumes "urlsplit b s = Inr u" "su_netloc u \<noteq> []"
  shows "CHR ''?'' \<notin> set (su_path u)" "CHR ''#'' \<notin> set (su_path u)"
    "su_path u = [] \<or> hd (su_path u) = CHR ''/''"
proof -
  obtain scheme rest where sch: "url_scheme (url_clean s) = (scheme, rest)" by force
  define rest' where "rest' = dropWhile is_netloc_char (drop 2 rest)"
  have net: "url_netloc rest = (takeWhile is_netloc_char (drop 2 rest), rest')"
    using assms sch by (auto simp: urlsplit_def url_netloc_def rest'_def Let_def
        split: prod.splits if_splits)
  have path: "su_path u = takeWhile (\<lambda>x. x \<noteq> CHR ''?'') (takeWhile (\<lambda>x. x \<noteq> CHR ''#'') rest')"
    using assms(1) by (auto simp: urlsplit_def sch net partition_at_def Let_def split: if_splits)
  show "CHR ''?'' \<notin> set (su_path u)" by (auto simp: path dest: set_takeWhileD)
  show "CHR ''#'' \<notin> set (su_path u)" by (auto simp: path dest!: set_takeWhileD)
  show "su_path u = [] \<or> hd (su_path u) = CHR ''/''"
  proof (cases rest')
    case (Cons c cs)
    then have "\<not> is_netloc_char c"
      using hd_dropWhile [of is_netloc_char "drop 2 rest"] by (auto simp: rest'_def)
    then show ?thesis by (auto simp: path Cons is_netloc_char_def)
  qed (simp add: path)
qed

lemma urlsplit_netloc:
  "urlsplit b s = Inr u \<Longrightarrow> \<forall>c \<in> set (su_netloc u). is_netloc_char c"
  by (auto simp: urlsplit_def url_netloc_def Let_def split: prod.splits if_splits dest: set_takeWhileD)

end
