(* ===== verification/Pod_Transport.thy ===== *)
theory Pod_Transport
  imports Pod_Catalog Py_Text "HOL-Library.Sublist"
begin

text \<open>
  The worker client of \<^verbatim>\<open>pod_transport.py\<close>: the requests it builds, the replies it accepts, and the
  \<^verbatim>\<open>CatalogPodWorkloadTransport\<close> it provides to the lease service.  The HTTP library is an argument:
  \<open>he_send n q\<close> is the outcome of sending the request \<open>q\<close> as the \<open>n\<close>-th call.
\<close>

section \<open>Definitions\<close>

subsection \<open>Requests\<close>

record http_request =
  hr_method :: string
  hr_url :: string
  hr_bearer :: "string option"
  hr_json :: "json option"

text \<open>A body that is no JSON text is \<^verbatim>\<open>None\<close>.\<close>

datatype http_reply =
    Http_timeout
  | Http_transport_failed
  | Http_raises py_error
  | Http_response int "json option"

record http_env =
  he_bracketed :: "string \<Rightarrow> bool"
  he_send :: "nat \<Rightarrow> http_request \<Rightarrow> http_reply"

definition tls_base_url :: "(string \<Rightarrow> bool) \<Rightarrow> string \<Rightarrow> py_error + string" where
  "tls_base_url bracketed value =
     bindE (urlsplit bracketed value) (\<lambda>parsed.
     if su_scheme parsed \<noteq> ''https'' \<or> su_netloc parsed = [] \<or> has_userinfo parsed
        \<or> su_query parsed \<noteq> [] \<or> su_fragment parsed \<noteq> []
     then Inl CatalogPodTransportError
     else Inr (''https://'' @ su_netloc parsed @ strip_trailing (CHR ''/'') (su_path parsed)))"

definition job_path :: "string \<Rightarrow> py_error + string" where
  "job_path attempt_id =
     (if safe_identifier attempt_id then Inr (''/v1/catalog/jobs/'' @ quote_segment attempt_id)
      else Inl ValueError)"

definition transport_request :: "http_env \<Rightarrow> nat \<Rightarrow> string \<Rightarrow> string \<Rightarrow> string \<Rightarrow> string option
    \<Rightarrow> json option \<Rightarrow> py_error + int \<times> json option" where
  "transport_request E n method base_url path bearer payload =
     bindE (tls_base_url (he_bracketed E) base_url) (\<lambda>base.
     case he_send E n \<lparr> hr_method = method, hr_url = base @ path, hr_bearer = bearer,
                        hr_json = payload \<rparr> of
       Http_timeout \<Rightarrow> Inl CatalogPodTransportError
     | Http_transport_failed \<Rightarrow> Inl CatalogPodTransportError
     | Http_raises e \<Rightarrow> Inl e
     | Http_response status body \<Rightarrow> Inr (status, body))"

definition job_request :: "http_env \<Rightarrow> nat \<Rightarrow> string \<Rightarrow> string \<Rightarrow> string \<Rightarrow> string \<Rightarrow> string
    \<Rightarrow> json option \<Rightarrow> py_error + int \<times> json option" where
  "job_request E n method base_url attempt_id subpath bearer payload =
     bindE (job_path attempt_id) (\<lambda>path.
     transport_request E n method base_url (path @ subpath) (Some bearer) payload)"

subsection \<open>Replies\<close>

definition json_object :: "json option \<Rightarrow> py_error + json" where
  "json_object body =
     (case body of None \<Rightarrow> Inl CatalogPodTransportError
      | Some v \<Rightarrow> if is_jobj v then Inr v else Inl CatalogPodTransportError)"

definition workload_states :: "(string \<times> CatalogPodWorkloadState) list" where
  "workload_states = [(''not_submitted'', W_NOT_SUBMITTED), (''idle'', W_IDLE), (''running'', W_RUNNING),
     (''cancel_requested'', W_CANCEL_REQUESTED), (''succeeded'', W_SUCCEEDED),
     (''awaiting_ack'', W_AWAITING_ACK), (''acknowledged'', W_ACKNOWLEDGED), (''failed'', W_FAILED),
     (''cancelled'', W_CANCELLED)]"

definition error_type_text :: "string \<Rightarrow> bool" where
  "error_type_text s \<longleftrightarrow> 1 \<le> length s \<and> length s \<le> 128 \<and> (is_letter (hd s) \<or> hd s = CHR ''_'')
     \<and> list_all (\<lambda>c. is_alnum c \<or> c = CHR ''_'' \<or> c = CHR ''.'') s"

text \<open>A digest that is present must be a text; \<^verbatim>\<open>__post_init__\<close> rejects every other value.\<close>

definition digest_field :: "json \<Rightarrow> string \<Rightarrow> py_error + string option" where
  "digest_field payload name =
     (case jget payload name of JNull \<Rightarrow> Inr None | JStr s \<Rightarrow> Inr (Some s)
      | _ \<Rightarrow> Inl CatalogPodTransportError)"

definition workload_observation :: "CatalogPodWorkloadObservation
    \<Rightarrow> py_error + CatalogPodWorkloadObservation" where
  "workload_observation ob = (case observation_post_init ob of Some e \<Rightarrow> Inl e | None \<Rightarrow> Inr ob)"

definition observation_of :: "json option \<Rightarrow> string \<Rightarrow> string
    \<Rightarrow> py_error + CatalogPodWorkloadObservation" where
  "observation_of body attempt_id request_sha256 =
     bindE (json_object body) (\<lambda>payload.
     if jget payload ''attempt_id'' \<noteq> JStr attempt_id then Inl CatalogPodTransportConflictError
     else if jget payload ''request_sha256'' \<notin> {JNull, JStr request_sha256}
     then Inl CatalogPodTransportConflictError
     else case (case jget payload ''state'' of JStr s \<Rightarrow> map_of workload_states s | _ \<Rightarrow> None) of
       None \<Rightarrow> Inl CatalogPodTransportError
     | Some state \<Rightarrow>
         bindE (case jget payload ''error_type'' of
             JNull \<Rightarrow> Inr None
           | JStr s \<Rightarrow> if error_type_text s then Inr (Some s) else Inl CatalogPodTransportError
           | _ \<Rightarrow> Inl CatalogPodTransportError) (\<lambda>error_type.
         bindE (case jget payload ''result_available'' of
             JBool b \<Rightarrow> Inr b | _ \<Rightarrow> Inl CatalogPodTransportError) (\<lambda>result_available.
         bindE (digest_field payload ''result_sha256'') (\<lambda>result_sha256.
         bindE (digest_field payload ''receipt_sha256'') (\<lambda>receipt_sha256.
         bindE (digest_field payload ''acknowledgement_sha256'') (\<lambda>acknowledgement_sha256.
         workload_observation
           \<lparr> wo_attempt_id = attempt_id,
             wo_request_sha256 = (if jget payload ''request_sha256'' = JNull then None
                                  else Some request_sha256),
             wo_state = state, wo_error_type = error_type, wo_result_available = result_available,
             wo_result_sha256 = result_sha256, wo_receipt_sha256 = receipt_sha256,
             wo_acknowledgement_sha256 = acknowledgement_sha256 \<rparr>))))))"

subsection \<open>Operations\<close>

definition transport_health :: "http_env \<Rightarrow> nat \<Rightarrow> string \<Rightarrow> py_error + unit" where
  "transport_health E n base_url =
     bindE (transport_request E n ''GET'' base_url ''/health'' None None) (\<lambda>(status, body).
     if status \<noteq> 200 then Inl CatalogPodTransportError
     else bindE (json_object body) (\<lambda>payload.
       if payload \<noteq> JObj [(''status'', JStr ''ready'')] then Inl CatalogPodTransportError
       else Inr ()))"

definition transport_submit :: "http_env \<Rightarrow> nat \<Rightarrow> string \<Rightarrow> string \<Rightarrow> string \<Rightarrow> string \<Rightarrow> json
    \<Rightarrow> py_error + CatalogPodWorkloadObservation" where
  "transport_submit E n base_url attempt_id request_sha256 bearer payload =
     (if \<not> safe_identifier attempt_id then Inl ValueError
      else if \<not> sha256_text request_sha256 then Inl ValueError
      else if jget payload ''dispatch_attempt_id'' \<noteq> JStr attempt_id
      then Inl CatalogPodTransportConflictError
      else if jget payload ''request_sha256'' \<noteq> JStr request_sha256
      then Inl CatalogPodTransportConflictError
      else bindE (job_request E n ''POST'' base_url attempt_id [] bearer (Some payload)) (\<lambda>(status, body).
        if status = 409 then Inl CatalogPodTransportConflictError
        else if status \<notin> {200, 202} then Inl CatalogPodTransportError
        else observation_of body attempt_id request_sha256))"

definition transport_status :: "http_env \<Rightarrow> nat \<Rightarrow> string \<Rightarrow> string \<Rightarrow> string \<Rightarrow> string
    \<Rightarrow> py_error + CatalogPodWorkloadObservation" where
  "transport_status E n base_url attempt_id request_sha256 bearer =
     bindE (job_request E n ''GET'' base_url attempt_id [] bearer None) (\<lambda>(status, body).
     if status \<noteq> 200 then Inl CatalogPodTransportError
     else observation_of body attempt_id request_sha256)"

definition bound_to :: "json \<Rightarrow> string \<Rightarrow> string \<Rightarrow> string \<Rightarrow> bool" where
  "bound_to v key attempt_id request_sha256 \<longleftrightarrow>
     jget v key = JStr attempt_id \<and> jget v ''request_sha256'' = JStr request_sha256"

definition transport_result :: "http_env \<Rightarrow> nat \<Rightarrow> string \<Rightarrow> string \<Rightarrow> string \<Rightarrow> string \<Rightarrow> int option
    \<Rightarrow> py_error + json" where
  "transport_result E n base_url attempt_id request_sha256 bearer protocol =
     bindE (job_request E n ''GET'' base_url attempt_id ''/result'' bearer None) (\<lambda>(status, body).
     if status = 409 then Inl CatalogPodTransportConflictError
     else if status \<noteq> 200 then Inl CatalogPodTransportError
     else bindE (json_object body) (\<lambda>payload.
       bindE (case protocol of
           None \<Rightarrow> Inr payload
         | Some version \<Rightarrow>
             if version \<noteq> 1 then Inl CatalogPodTransportError
             else if jget payload ''protocol_version'' \<noteq> JInt 1 then Inl CatalogPodTransportError
             else if \<not> is_jobj (jget payload ''receipt'') \<or> \<not> is_jobj (jget payload ''result'')
             then Inl CatalogPodTransportError
             else if \<not> bound_to (jget payload ''receipt'') ''attempt_id'' attempt_id request_sha256
             then Inl CatalogPodTransportConflictError
             else Inr (jget payload ''result'')) (\<lambda>binding.
       if \<not> bound_to binding ''dispatch_attempt_id'' attempt_id request_sha256
       then Inl CatalogPodTransportConflictError else Inr payload)))"

definition transport_ack :: "http_env \<Rightarrow> nat \<Rightarrow> string \<Rightarrow> string \<Rightarrow> string \<Rightarrow> string \<Rightarrow> json \<Rightarrow> json
    \<Rightarrow> string \<Rightarrow> py_error + CatalogPodWorkloadObservation" where
  "transport_ack E n base_url attempt_id request_sha256 bearer payload acknowledgement subpath =
     (if \<not> bound_to acknowledgement ''attempt_id'' attempt_id request_sha256
      then Inl CatalogPodTransportConflictError
      else bindE (job_request E n ''POST'' base_url attempt_id subpath bearer (Some payload)) (\<lambda>(status, body).
        if status = 409 then Inl CatalogPodTransportConflictError
        else if status \<noteq> 200 then Inl CatalogPodTransportError
        else bindE (observation_of body attempt_id request_sha256) (\<lambda>ob.
          if wo_state ob \<noteq> W_ACKNOWLEDGED
             \<or> jopt JStr (wo_result_sha256 ob) \<noteq> jget acknowledgement ''result_sha256''
             \<or> jopt JStr (wo_receipt_sha256 ob) \<noteq> jget acknowledgement ''receipt_sha256''
             \<or> jopt JStr (wo_acknowledgement_sha256 ob) \<noteq> jget acknowledgement ''acknowledgement_sha256''
          then Inl CatalogPodTransportConflictError else Inr ob)))"

definition transport_acknowledge :: "http_env \<Rightarrow> nat \<Rightarrow> string \<Rightarrow> string \<Rightarrow> string \<Rightarrow> string \<Rightarrow> json
    \<Rightarrow> py_error + CatalogPodWorkloadObservation" where
  "transport_acknowledge E n base_url attempt_id request_sha256 bearer payload =
     transport_ack E n base_url attempt_id request_sha256 bearer payload payload ''/acknowledgement''"

definition transport_recover_handoff :: "http_env \<Rightarrow> nat \<Rightarrow> string \<Rightarrow> string \<Rightarrow> string \<Rightarrow> string \<Rightarrow> json
    \<Rightarrow> py_error + CatalogPodWorkloadObservation" where
  "transport_recover_handoff E n base_url attempt_id request_sha256 bearer payload =
     (case snapshot_catalog_handoff_recovery payload attempt_id request_sha256 None of
        Inl e \<Rightarrow> Inl (if e \<in> {TypeError, ValueError} then CatalogPodTransportConflictError else e)
      | Inr recovery \<Rightarrow>
          transport_ack E n base_url attempt_id request_sha256 bearer recovery
            (jget recovery ''acknowledgement'') ''/handoff-recovery'')"

definition transport_cancel :: "http_env \<Rightarrow> nat \<Rightarrow> string \<Rightarrow> string \<Rightarrow> string \<Rightarrow> string
    \<Rightarrow> py_error + CatalogPodWorkloadObservation" where
  "transport_cancel E n base_url attempt_id request_sha256 bearer =
     bindE (job_request E n ''POST'' base_url attempt_id ''/cancel'' bearer None) (\<lambda>(status, body).
     if status \<notin> {200, 404} then Inl CatalogPodTransportError
     else if status = 404
     then workload_observation \<lparr> wo_attempt_id = attempt_id, wo_request_sha256 = None,
            wo_state = W_CANCELLED, wo_error_type = None, wo_result_available = False,
            wo_result_sha256 = None, wo_receipt_sha256 = None, wo_acknowledgement_sha256 = None \<rparr>
     else observation_of body attempt_id request_sha256)"

text \<open>The transport object as the lease service sees it.\<close>

definition transport_of :: "http_env \<Rightarrow> workload_transport" where
  "transport_of E = \<lparr> wt_health = transport_health E, wt_submit = transport_submit E,
     wt_status = transport_status E, wt_result = transport_result E,
     wt_acknowledge = transport_acknowledge E, wt_recover_handoff = transport_recover_handoff E,
     wt_cancel = transport_cancel E \<rparr>"

text \<open>An HTTPS request to a plain authority, without query; only job paths carry the bearer token.\<close>

definition tls_request :: "http_request \<Rightarrow> bool" where
  "tls_request q \<longleftrightarrow>
     (let authority = takeWhile is_netloc_char (drop 8 (hr_url q)) in
      take 8 (hr_url q) = ''https://'' \<and> authority \<noteq> [] \<and> CHR ''@'' \<notin> set authority
      \<and> CHR ''?'' \<notin> set (hr_url q) \<and> CHR ''#'' \<notin> set (hr_url q)
      \<and> (hr_bearer q = None \<or> sublist ''/v1/catalog/jobs/'' (hr_url q)))"

section \<open>Lemmas\<close>

lemma tls_base_urlD:
  assumes "tls_base_url b s = Inr base"
  obtains netloc path where "base = ''https://'' @ netloc @ path" "netloc \<noteq> []"
    "\<forall>c \<in> set netloc. is_netloc_char c \<and> c \<noteq> CHR ''@''" "path = [] \<or> hd path = CHR ''/''"
    "CHR ''?'' \<notin> set path" "CHR ''#'' \<notin> set path"
proof -
  obtain u where u: "urlsplit b s = Inr u" "su_netloc u \<noteq> []" "\<not> has_userinfo u"
    "base = ''https://'' @ su_netloc u @ strip_trailing (CHR ''/'') (su_path u)"
    using assms by (auto simp: tls_base_url_def bindE_def split: sum.splits if_splits)
  let ?p = "strip_trailing (CHR ''/'') (su_path u)"
  note path = urlsplit_path [OF u(1,2)]
  have hd: "?p = [] \<or> hd ?p = CHR ''/''"
    using path(3) strip_trailing_hd by (cases "su_path u") (auto simp: strip_trailing_def)
  have "CHR ''?'' \<notin> set ?p" "CHR ''#'' \<notin> set ?p" using path(1,2) strip_trailing_set by blast+
  moreover have "\<forall>c \<in> set (su_netloc u). is_netloc_char c \<and> c \<noteq> CHR ''@''"
    using urlsplit_netloc [OF u(1)] u(3) by (auto simp: has_userinfo_def)
  ultimately show ?thesis using that u(2,4) hd by blast
qed

lemma tls_request_built:
  assumes "tls_base_url b s = Inr base" "subpath \<noteq> []" "hd subpath = CHR ''/''"
    "CHR ''?'' \<notin> set subpath" "CHR ''#'' \<notin> set subpath"
    "bearer = None \<or> sublist ''/v1/catalog/jobs/'' subpath"
  shows "tls_request \<lparr> hr_method = m, hr_url = base @ subpath, hr_bearer = bearer, hr_json = j \<rparr>"
proof -
  obtain netloc path where base: "base = ''https://'' @ netloc @ path" "netloc \<noteq> []"
    "\<forall>c \<in> set netloc. is_netloc_char c \<and> c \<noteq> CHR ''@''" "path = [] \<or> hd path = CHR ''/''"
    "CHR ''?'' \<notin> set path" "CHR ''#'' \<notin> set path"
    using tls_base_urlD [OF assms(1)] .
  obtain rest where rest: "path @ subpath = CHR ''/'' # rest"
    using base(4) assms(2,3) by (cases path; cases subpath) auto
  have "takeWhile is_netloc_char (netloc @ path @ subpath) = netloc"
    using base(3) by (simp add: rest takeWhile_append is_netloc_char_def)
  moreover have "CHR ''?'' \<notin> set netloc" "CHR ''#'' \<notin> set netloc" "CHR ''@'' \<notin> set netloc"
    using base(3) by (auto simp: is_netloc_char_def)
  moreover have "bearer = None \<or> sublist ''/v1/catalog/jobs/'' (base @ subpath)"
    using assms(6) by (metis sublist_append)
  ultimately show ?thesis using base assms(4,5) by (simp add: tls_request_def Let_def)
qed

lemma transport_request_cong:
  assumes "\<And>q. tls_request q \<Longrightarrow> he_send E n q = he_send E' n q" "he_bracketed E = he_bracketed E'"
    "subpath \<noteq> []" "hd subpath = CHR ''/''" "CHR ''?'' \<notin> set subpath" "CHR ''#'' \<notin> set subpath"
    "bearer = None \<or> sublist ''/v1/catalog/jobs/'' subpath"
  shows "transport_request E n m base_url subpath bearer j = transport_request E' n m base_url subpath bearer j"
  using tls_request_built [OF _ assms(3-7)] assms(1,2)
  by (auto simp: transport_request_def bindE_def split: sum.splits)

lemma job_request_cong:
  assumes "\<And>q. tls_request q \<Longrightarrow> he_send E n q = he_send E' n q" "he_bracketed E = he_bracketed E'"
    "CHR ''?'' \<notin> set subpath" "CHR ''#'' \<notin> set subpath"
  shows "job_request E n m base_url a subpath bearer j = job_request E' n m base_url a subpath bearer j"
proof (cases "job_path a")
  case (Inr path)
  then have path: "path = ''/v1/catalog/jobs/'' @ quote_segment a"
    by (auto simp: job_path_def split: if_splits)
  have "CHR ''?'' \<notin> set (quote_segment a)" "CHR ''#'' \<notin> set (quote_segment a)"
    using quote_chars by (fastforce simp: is_unreserved_def is_alnum_def is_digit_char_def)+
  then have "CHR ''?'' \<notin> set (path @ subpath)" "CHR ''#'' \<notin> set (path @ subpath)"
    using assms(3,4) by (auto simp: path)
  moreover have "sublist ''/v1/catalog/jobs/'' (path @ subpath)" by (simp add: path sublist_append)
  moreover have "path @ subpath \<noteq> []" "hd (path @ subpath) = CHR ''/''" by (simp_all add: path)
  ultimately show ?thesis
    using transport_request_cong [OF assms(1,2), of "path @ subpath"] by (simp add: job_request_def Inr)
qed (simp add: job_request_def)

lemma observation_ofD:
  assumes "observation_of body attempt_id request_sha256 = Inr ob"
  shows "wo_attempt_id ob = attempt_id" "wo_request_sha256 ob \<in> {None, Some request_sha256}"
    "observation_post_init ob = None"
  using assms
  by (auto simp: observation_of_def workload_observation_def bindE_def
      split: sum.splits if_splits option.splits json.splits)

text \<open>\<open>bound attempt sha ob\<close>: a valid observation of the leased attempt.\<close>

definition bound :: "string \<Rightarrow> string \<Rightarrow> CatalogPodWorkloadObservation \<Rightarrow> bool" where
  "bound attempt_id request_sha256 ob \<longleftrightarrow> wo_attempt_id ob = attempt_id
     \<and> wo_request_sha256 ob \<in> {None, Some request_sha256} \<and> observation_post_init ob = None"

lemma observation_of_bound: "observation_of body a h = Inr ob \<Longrightarrow> bound a h ob"
  by (auto simp: bound_def dest: observation_ofD)

lemma ack_bound:
  assumes "transport_ack E n url a h t payload ack subpath = Inr ob"
  shows "bound a h ob" "wo_state ob = W_ACKNOWLEDGED"
    "jget ack ''result_sha256'' = jopt JStr (wo_result_sha256 ob)"
    "jget ack ''receipt_sha256'' = jopt JStr (wo_receipt_sha256 ob)"
    "jget ack ''acknowledgement_sha256'' = jopt JStr (wo_acknowledgement_sha256 ob)"
  using assms by (auto simp: transport_ack_def bindE_def observation_of_bound
      split: sum.splits if_splits)

lemma submit_bound: "transport_submit E n url a h t p = Inr ob \<Longrightarrow> bound a h ob"
  unfolding transport_submit_def bindE_def
  by (auto intro: observation_of_bound split: sum.splits if_splits prod.splits)

lemma status_bound: "transport_status E n url a h t = Inr ob \<Longrightarrow> bound a h ob"
  unfolding transport_status_def bindE_def
  by (auto intro: observation_of_bound split: sum.splits if_splits prod.splits)

lemma missing_job_bound:
  "workload_observation \<lparr> wo_attempt_id = a, wo_request_sha256 = None, wo_state = W_CANCELLED,
     wo_error_type = None, wo_result_available = False, wo_result_sha256 = None,
     wo_receipt_sha256 = None, wo_acknowledgement_sha256 = None \<rparr> = Inr ob \<Longrightarrow> bound a h ob"
  by (auto simp: workload_observation_def bound_def observation_post_init_def split: option.splits)

lemma cancel_bound: "transport_cancel E n url a h t = Inr ob \<Longrightarrow> bound a h ob"
  unfolding transport_cancel_def bindE_def
  by (auto intro: observation_of_bound missing_job_bound split: sum.splits if_splits prod.splits)

lemma acknowledge_bound:
  assumes "transport_acknowledge E n url a h t p = Inr ob"
  shows "bound a h ob" "wo_state ob = W_ACKNOWLEDGED"
    "jget p ''result_sha256'' = jopt JStr (wo_result_sha256 ob)"
    "jget p ''receipt_sha256'' = jopt JStr (wo_receipt_sha256 ob)"
    "jget p ''acknowledgement_sha256'' = jopt JStr (wo_acknowledgement_sha256 ob)"
  using ack_bound [OF assms [unfolded transport_acknowledge_def]] by simp_all

lemma recover_bound: "transport_recover_handoff E n url a h t p = Inr ob \<Longrightarrow> bound a h ob"
  unfolding transport_recover_handoff_def by (auto intro: ack_bound(1) split: sum.splits)

section \<open>Properties\<close>



end
