(* ===== verification/Runpod_Models.thy ===== *)
theory Runpod_Models
  imports Pod_Codec Py_Text
begin

text \<open>
  The wire contracts of \<^verbatim>\<open>models.py\<close>: the readers of response fields, the redaction of echoed
  credentials, the resource and billing views built from responses, and the create and update
  requests with their payloads.  The conversion of an integer to a float is an argument (it may
  overflow); a float is the decimal its \<^verbatim>\<open>repr\<close> denotes.
\<close>

section \<open>Definitions\<close>

subsection \<open>Field readers\<close>

text \<open>Truthiness of a JSON value.\<close>

fun truthy :: "json \<Rightarrow> bool" where
  "truthy JNull = False"
| "truthy (JBool b) = b"
| "truthy (JInt n) = (n \<noteq> 0)"
| "truthy (JNum d) = (\<not> is_finite d \<or> dval d \<noteq> 0)"
| "truthy (JStr s) = (s \<noteq> [])"
| "truthy (JAmount a) = True"
| "truthy (JTime t) = True"
| "truthy (JList xs) = (xs \<noteq> [])"
| "truthy (JObj kvs) = (kvs \<noteq> [])"

definition json_or :: "json \<Rightarrow> json \<Rightarrow> json" where
  "json_or a b = (if truthy a then a else b)"

definition has_key :: "json \<Rightarrow> string \<Rightarrow> bool" where
  "has_key v k \<longleftrightarrow> k \<in> set (jkeys v)"

definition mapping_field :: "json \<Rightarrow> string \<Rightarrow> py_error + json" where
  "mapping_field v k = (if is_jobj (jget v k) then Inr (jget v k) else Inl RunPodManagerError)"

definition string_field :: "json \<Rightarrow> string \<Rightarrow> py_error + string" where
  "string_field v k = (case jget v k of
     JStr s \<Rightarrow> if s = [] then Inl RunPodManagerError else Inr s | _ \<Rightarrow> Inl RunPodManagerError)"

definition optional_string :: "json \<Rightarrow> py_error + string option" where
  "optional_string v = (case v of JNull \<Rightarrow> Inr None | JStr s \<Rightarrow> Inr (Some s)
     | _ \<Rightarrow> Inl RunPodManagerError)"

definition integer_field :: "json \<Rightarrow> string \<Rightarrow> py_error + int" where
  "integer_field v k = (case jget v k of JInt n \<Rightarrow> Inr n | _ \<Rightarrow> Inl RunPodManagerError)"

definition optional_integer :: "json \<Rightarrow> py_error + int option" where
  "optional_integer v = (case v of JNull \<Rightarrow> Inr None | JInt n \<Rightarrow> Inr (Some n)
     | _ \<Rightarrow> Inl RunPodManagerError)"

type_synonym float_of = "int \<Rightarrow> py_error + amount"

definition number_of :: "float_of \<Rightarrow> json \<Rightarrow> py_error + amount" where
  "number_of fl v = (case v of
       JInt n \<Rightarrow> fl n
     | JNum d \<Rightarrow> Inr (if is_finite d then Fin (dval d) else NaNInf)
     | _ \<Rightarrow> Inl RunPodManagerError)"

definition optional_number :: "float_of \<Rightarrow> json \<Rightarrow> py_error + amount option" where
  "optional_number fl v =
     (if v = JNull then Inr None else bindE (number_of fl v) (\<lambda>a. Inr (Some a)))"

definition boolean_field :: "json \<Rightarrow> string \<Rightarrow> py_error + bool" where
  "boolean_field v k = (case jget v k of JBool b \<Rightarrow> Inr b | _ \<Rightarrow> Inl RunPodManagerError)"

fun mapE :: "('a \<Rightarrow> 'e + 'b) \<Rightarrow> 'a list \<Rightarrow> 'e + 'b list" where
  "mapE f [] = Inr []"
| "mapE f (x # xs) = bindE (f x) (\<lambda>y. bindE (mapE f xs) (\<lambda>ys. Inr (y # ys)))"

definition mapping_item :: "json \<Rightarrow> py_error + json" where
  "mapping_item v = (if is_jobj v then Inr v else Inl RunPodManagerError)"

subsection \<open>Redaction of resource payloads\<close>

definition contains_text :: "string \<Rightarrow> string \<Rightarrow> bool" where
  "contains_text needle s \<longleftrightarrow>
     list_ex (\<lambda>i. take (length needle) (drop i s) = needle) [0..<Suc (length s)]"

definition normalized_key :: "string \<Rightarrow> string" where
  "normalized_key key =
     filter (\<lambda>c. (CHR ''a'' \<le> c \<and> c \<le> CHR ''z'') \<or> is_digit_char c) (map ascii_lower key)"

definition credential_markers :: "string list" where
  "credential_markers = [''apikey'', ''authorization'', ''password'', ''secret'', ''token'']"

definition is_credential_key :: "string \<Rightarrow> bool" where
  "is_credential_key key \<longleftrightarrow>
     list_ex (\<lambda>marker. contains_text marker (normalized_key key)) credential_markers"

definition redacted :: json where
  "redacted = JStr ''[REDACTED]''"

fun sanitize_value :: "string \<Rightarrow> json \<Rightarrow> json" where
  "sanitize_value key (JObj kvs) =
     (if normalized_key key = ''env'' then JObj (map (\<lambda>(k, _). (k, redacted)) kvs)
      else if is_credential_key key then redacted
      else JObj (map (\<lambda>(k, v). (k, sanitize_value k v)) kvs))"
| "sanitize_value key (JList xs) =
     (if is_credential_key key then redacted else JList (map (sanitize_value key) xs))"
| "sanitize_value key v = (if is_credential_key key then redacted else v)"

fun sanitize_resource_payload :: "json \<Rightarrow> json" where
  "sanitize_resource_payload (JObj kvs) = JObj (map (\<lambda>(k, v). (k, sanitize_value k v)) kvs)"
| "sanitize_resource_payload v = v"

subsection \<open>Resources\<close>

record PodResource =
  po_id :: string
  po_name :: string
  po_status :: string
  po_gpu_id :: "string option"
  po_gpu_count :: int
  po_cost_per_hr :: "amount option"
  po_raw :: json

definition pod_from_dict :: "float_of \<Rightarrow> json \<Rightarrow> py_error + PodResource" where
  "pod_from_dict fl value =
     (let gpu = json_or (jget value ''gpu'') (JObj []) in
      if \<not> is_jobj gpu then Inl RunPodManagerError
      else bindE (case optional_number fl (jget value ''cost'') of
          Inl e \<Rightarrow> Inl (if e = OverflowError then RunPodManagerError else e)
        | Inr c \<Rightarrow> Inr c) (\<lambda>cost.
      if (case cost of None \<Rightarrow> False | Some c \<Rightarrow> \<not> finite_amount c \<or> usd c < 0)
      then Inl RunPodManagerError
      else
      bindE (string_field value ''id'') (\<lambda>pod_id.
      bindE (string_field value ''name'') (\<lambda>name.
      bindE (string_field value ''status'') (\<lambda>status.
      bindE (optional_string (jget gpu ''id'')) (\<lambda>gpu_id.
      bindE (optional_integer (jget gpu ''count'')) (\<lambda>gpu_count.
      Inr \<lparr> po_id = pod_id, po_name = name, po_status = status, po_gpu_id = gpu_id,
            po_gpu_count = (case gpu_count of None \<Rightarrow> 0 | Some n \<Rightarrow> n), po_cost_per_hr = cost,
            po_raw = sanitize_resource_payload value \<rparr>)))))))"

record EndpointResource =
  er_id :: string
  er_name :: string
  er_endpoint_type :: "string option"
  er_request_urls :: "(string \<times> string) list"
  er_raw :: json

fun string_entries :: "(string \<times> json) list \<Rightarrow> (string \<times> string) list option" where
  "string_entries [] = Some []"
| "string_entries ((k, JStr s) # kvs) =
     (case string_entries kvs of None \<Rightarrow> None | Some es \<Rightarrow> Some ((k, s) # es))"
| "string_entries _ = None"

definition endpoint_from_dict :: "json \<Rightarrow> py_error + EndpointResource" where
  "endpoint_from_dict value =
     (case json_or (jget value ''requestUrls'') (JObj []) of
        JObj kvs \<Rightarrow> (case string_entries kvs of
            None \<Rightarrow> Inl RunPodManagerError
          | Some urls \<Rightarrow>
              bindE (string_field value ''id'') (\<lambda>endpoint_id.
              bindE (string_field value ''name'') (\<lambda>name.
              bindE (optional_string (jget value ''type'')) (\<lambda>endpoint_type.
              Inr \<lparr> er_id = endpoint_id, er_name = name, er_endpoint_type = endpoint_type,
                    er_request_urls = urls, er_raw = sanitize_resource_payload value \<rparr>))))
      | _ \<Rightarrow> Inl RunPodManagerError)"

datatype VolumeType = V_STANDARD | V_HIGH_PERFORMANCE

record NetworkVolume =
  nv_id :: string
  nv_name :: string
  nv_size_gb :: int
  nv_data_center :: string
  nv_volume_type :: VolumeType

definition volume_types :: "(string \<times> VolumeType) list" where
  "volume_types = [(''STANDARD'', V_STANDARD), (''HIGH_PERFORMANCE'', V_HIGH_PERFORMANCE)]"

definition volume_from_dict :: "json \<Rightarrow> py_error + NetworkVolume" where
  "volume_from_dict value =
     bindE (string_field value ''type'') (\<lambda>raw_type.
     case map_of volume_types raw_type of
       None \<Rightarrow> Inl RunPodManagerError
     | Some volume_type \<Rightarrow>
         bindE (integer_field value ''size'') (\<lambda>size_gb.
         if \<not> (10 \<le> size_gb \<and> size_gb \<le> 4096) then Inl RunPodManagerError
         else bindE (string_field value ''id'') (\<lambda>volume_id.
              bindE (string_field value ''name'') (\<lambda>name.
              bindE (string_field value ''dataCenter'') (\<lambda>data_center.
              Inr \<lparr> nv_id = volume_id, nv_name = name, nv_size_gb = size_gb,
                    nv_data_center = data_center, nv_volume_type = volume_type \<rparr>)))))"

record BillingPage =
  bp_records :: "json list"
  bp_metadata :: json

definition billing_page_from_dict :: "json \<Rightarrow> py_error + BillingPage" where
  "billing_page_from_dict value =
     (if set (jkeys value) \<noteq> {''records'', ''metadata''} then Inl RunPodManagerError
      else case (jget value ''records'', is_jobj (jget value ''metadata'')) of
          (JList records, True) \<Rightarrow>
            bindE (mapE mapping_item records) (\<lambda>items.
            Inr \<lparr> bp_records = items, bp_metadata = jget value ''metadata'' \<rparr>)
        | _ \<Rightarrow> Inl RunPodManagerError)"

record ServerlessJob =
  sj_id :: string
  sj_status :: string
  sj_output :: json
  sj_error :: "string option"
  sj_delay_time_ms :: "int option"
  sj_execution_time_ms :: "int option"
  sj_raw :: json

definition serverless_job_from_dict :: "json \<Rightarrow> py_error + ServerlessJob" where
  "serverless_job_from_dict value =
     bindE (string_field value ''id'') (\<lambda>job_id.
     bindE (string_field value ''status'') (\<lambda>status.
     bindE (optional_string (jget value ''error'')) (\<lambda>error.
     bindE (optional_integer (jget value ''delayTime'')) (\<lambda>delay.
     bindE (optional_integer (jget value ''executionTime'')) (\<lambda>execution.
     Inr \<lparr> sj_id = job_id, sj_status = status, sj_output = jget value ''output'', sj_error = error,
           sj_delay_time_ms = delay, sj_execution_time_ms = execution, sj_raw = value \<rparr>)))))"

definition validate_endpoint_mounts :: "json \<Rightarrow> string list \<Rightarrow> py_error + unit" where
  "validate_endpoint_mounts raw expected =
     bindE (mapping_field raw ''mounts'') (\<lambda>mounts.
     if set (jkeys mounts) \<noteq> {''network'', ''global''} then Inl RunPodManagerError
     else case (jget mounts ''network'', jget mounts ''global'') of
         (JList network, JList global_mounts) \<Rightarrow>
           if global_mounts \<noteq> [] then Inl RunPodManagerError
           else bindE (mapE (\<lambda>mount.
               if \<not> is_jobj mount \<or> set (jkeys mount) \<noteq> {''volumeId''} then Inl RunPodManagerError
               else string_field mount ''volumeId'') network) (\<lambda>ids.
             if ids \<noteq> expected then Inl RunPodManagerError else Inr ())
       | _ \<Rightarrow> Inl RunPodManagerError)"

subsection \<open>Catalog offers\<close>

definition availabilities :: "(string \<times> Availability) list" where
  "availabilities = map (\<lambda>a. (availability_value a, a)) [AV_NONE, AV_LOW, AV_MEDIUM, AV_HIGH]"

text \<open>
  \<^verbatim>\<open>for item in value.get("dataCenters", ())\<close>: a string and a mapping iterate over strings, a number
  or \<^verbatim>\<open>null\<close> is not iterable.  A data center keeps the two fields placement compares with strings.
\<close>

definition json_items :: "json \<Rightarrow> string \<Rightarrow> py_error + json list" where
  "json_items value k =
     (if \<not> has_key value k then Inr []
      else case jget value k of
          JList xs \<Rightarrow> Inr xs
        | JStr s \<Rightarrow> Inr (map (\<lambda>c. JStr [c]) s)
        | JObj kvs \<Rightarrow> Inr (map (\<lambda>(key, _). JStr key) kvs)
        | _ \<Rightarrow> Inl TypeError)"

definition text_of :: "json \<Rightarrow> string option" where
  "text_of v = (case v of JStr s \<Rightarrow> Some s | _ \<Rightarrow> None)"

definition data_center_of :: "json \<Rightarrow> DataCenter" where
  "data_center_of item =
     \<lparr> dc_id = text_of (jget item ''id''), dc_availability = text_of (jget item ''availability'') \<rparr>"

definition offer_from_dict :: "float_of \<Rightarrow> string option \<Rightarrow> json \<Rightarrow> py_error + GPUOffer" where
  "offer_from_dict fl cuda value =
     bindE (mapping_field value ''price'') (\<lambda>price.
     bindE (mapping_field value ''maxCount'') (\<lambda>max_count.
     bindE (string_field value ''id'') (\<lambda>offer_id.
     bindE (string_field value ''name'') (\<lambda>name.
     bindE (optional_string (jget value ''pool'')) (\<lambda>pool.
     bindE (string_field value ''manufacturer'') (\<lambda>manufacturer.
     bindE (integer_field value ''memory'') (\<lambda>memory.
     bindE (boolean_field value ''secure'') (\<lambda>secure.
     bindE (boolean_field value ''community'') (\<lambda>community.
     bindE (number_of fl (jget price ''secure'')) (\<lambda>secure_price.
     bindE (number_of fl (jget price ''community'')) (\<lambda>community_price.
     bindE (if has_key price ''serverless''
            then bindE (number_of fl (jget price ''serverless'')) (\<lambda>a. Inr (Some a)) else Inr None)
       (\<lambda>serverless_price.
     bindE (integer_field max_count ''secure'') (\<lambda>secure_max.
     bindE (integer_field max_count ''community'') (\<lambda>community_max.
     bindE (case jget value ''availability'' of
          JNull \<Rightarrow> Inr None
        | JStr s \<Rightarrow> (case map_of availabilities s of None \<Rightarrow> Inl RunPodManagerError | Some a \<Rightarrow> Inr (Some a))
        | _ \<Rightarrow> Inl RunPodManagerError) (\<lambda>availability.
     bindE (json_items value ''dataCenters'') (\<lambda>items.
     bindE (mapE mapping_item items) (\<lambda>centers.
     Inr \<lparr> go_id = offer_id, go_name = name, go_pool = pool, go_manufacturer = manufacturer,
           go_memory_gb = memory, go_secure = secure, go_community = community,
           go_secure_price_per_hr = secure_price, go_community_price_per_hr = community_price,
           go_secure_max_count = secure_max, go_community_max_count = community_max,
           go_availability = availability, go_data_centers = map data_center_of centers,
           go_availability_min_cuda_version = cuda,
           go_serverless_price_per_hr = serverless_price \<rparr>)))))))))))))))))"

subsection \<open>Create and update requests\<close>

datatype cloud_config = Config_cloud CloudType | Config_text string

text \<open>The blanks \<^verbatim>\<open>str.strip\<close> removes, and upper case for the letters that can occur in a value.\<close>

definition ascii_upper :: "char \<Rightarrow> char" where
  "ascii_upper c = (if CHR ''a'' \<le> c \<and> c \<le> CHR ''z'' then char_of ((of_char c :: nat) - 32) else c)"

fun cloud_from_config :: "cloud_config \<Rightarrow> py_error + CloudType" where
  "cloud_from_config (Config_cloud c) = Inr c"
| "cloud_from_config (Config_text s) =
     (let t = map ascii_upper (trim is_space s) in
      if t = ''SECURE'' then Inr SECURE else if t = ''COMMUNITY'' then Inr COMMUNITY else Inl ValueError)"

record PodContainerRequest =
  pc_name :: string
  pc_image :: string
  pc_cloud :: CloudType
  pc_disk_gb :: int
  pc_ports :: "string list"
  pc_env :: "(string \<times> string) list"
  pc_args :: "string option"
  pc_registry_id :: "string option"
  pc_data_center_ids :: "string list"
  pc_mounts :: "json option"
  pc_global_networking :: bool

record PodCreateRequest = PodContainerRequest +
  pc_gpu_id :: string
  pc_gpu_count :: int
  pc_min_cuda_version :: "string option"

record CpuPodCreateRequest = PodContainerRequest +
  pc_cpu_id :: string
  pc_vcpu_count :: int

definition container_post_init :: "'a PodContainerRequest_scheme \<Rightarrow> py_error option" where
  "container_post_init r = first_error
     [(pc_name r = [] \<or> pc_image r = [], ValueError), (pc_disk_gb r < 1, ValueError)]"

definition pod_request_post_init :: "PodCreateRequest \<Rightarrow> py_error option" where
  "pod_request_post_init r = first_error
     (nested_error (container_post_init r)
      @ [(pc_gpu_id r = [], ValueError), (pc_gpu_count r < 1, ValueError),
         (case normalize_cuda_floor (pc_min_cuda_version r) of Inl _ \<Rightarrow> True | Inr _ \<Rightarrow> False, ValueError)])"

definition power_of_two :: "int \<Rightarrow> bool" where
  "power_of_two n \<longleftrightarrow> and n (n - 1) = 0"

definition bad_network_mount :: "json \<Rightarrow> bool" where
  "bad_network_mount mount \<longleftrightarrow> \<not> is_jobj mount \<or> set (jkeys mount) \<noteq> {''volumeId'', ''path''}
     \<or> (\<exists>k \<in> {''volumeId'', ''path''}. text_of (jget mount k) \<in> {None, Some []})"

definition cpu_request_post_init :: "CpuPodCreateRequest \<Rightarrow> py_error option" where
  "cpu_request_post_init r = first_error
     (nested_error (container_post_init r)
      @ [(pc_cpu_id r = [], ValueError),
         (pc_vcpu_count r < 2 \<or> \<not> power_of_two (pc_vcpu_count r), ValueError),
         (pc_global_networking r, ValueError)]
      @ (case pc_mounts r of None \<Rightarrow> []
         | Some mounts \<Rightarrow>
             [(\<not> is_jobj mounts \<or> \<not> set (jkeys mounts) \<subseteq> {''network''}, ValueError),
              (has_key mounts ''network'' \<and> (case jget mounts ''network'' of
                 JList ms \<Rightarrow> 1 < length ms \<or> list_ex bad_network_mount ms | _ \<Rightarrow> True), ValueError)]))"

definition text_object :: "(string \<times> string) list \<Rightarrow> json" where
  "text_object kvs = JObj (map (\<lambda>(k, v). (k, JStr v)) kvs)"

definition optional_entry :: "string \<Rightarrow> ('a \<Rightarrow> json) \<Rightarrow> 'a option \<Rightarrow> (string \<times> json) list" where
  "optional_entry k f x = (case x of None \<Rightarrow> [] | Some v \<Rightarrow> [(k, f v)])"

definition container_payload :: "'a PodContainerRequest_scheme \<Rightarrow> (string \<times> json) list" where
  "container_payload r =
     [(''name'', JStr (pc_name r)), (''image'', JStr (pc_image r)),
      (''cloud'', JStr (cloud_value (pc_cloud r))), (''disk'', JInt (pc_disk_gb r)),
      (''ports'', jstrs (pc_ports r)), (''env'', text_object (pc_env r)),
      (''globalNetworking'', JBool (pc_global_networking r))]
     @ optional_entry ''args'' JStr (pc_args r)
     @ optional_entry ''registry'' JStr (pc_registry_id r)
     @ (if pc_data_center_ids r = [] then [] else [(''dataCenterIds'', jstrs (pc_data_center_ids r))])
     @ optional_entry ''mounts'' id (pc_mounts r)"

definition pod_request_payload :: "PodCreateRequest \<Rightarrow> py_error + json" where
  "pod_request_payload r =
     (case pod_request_post_init r of Some e \<Rightarrow> Inl e
      | None \<Rightarrow> bindE (normalize_cuda_floor (pc_min_cuda_version r)) (\<lambda>cuda.
          Inr (JObj (container_payload r
            @ [(''gpu'', JObj ([(''id'', JStr (pc_gpu_id r)), (''count'', JInt (pc_gpu_count r))]
                 @ optional_entry ''minCudaVersion'' JStr cuda))]))))"

definition cpu_request_payload :: "CpuPodCreateRequest \<Rightarrow> py_error + json" where
  "cpu_request_payload r =
     (case cpu_request_post_init r of Some e \<Rightarrow> Inl e
      | None \<Rightarrow> Inr (JObj (container_payload r
          @ [(''cpu'', JObj [(''id'', JStr (pc_cpu_id r)), (''vcpuCount'', JInt (pc_vcpu_count r))])])))"

datatype FlashBoot = FB_OFF | FB_FLASHBOOT | FB_PRIORITY_FLASHBOOT

fun flashboot_value :: "FlashBoot \<Rightarrow> string" where
  "flashboot_value FB_OFF = ''OFF''"
| "flashboot_value FB_FLASHBOOT = ''FLASHBOOT''"
| "flashboot_value FB_PRIORITY_FLASHBOOT = ''PRIORITY_FLASHBOOT''"

datatype EndpointResourceVersion = ERV_LEGACY | ERV_GA

record EndpointCreateRequest =
  ec_name :: string
  ec_image :: string
  ec_gpu_pools :: "string list"
  ec_endpoint_type :: string
  ec_scaling :: json
  ec_gpu_count :: int
  ec_workers_min :: int
  ec_workers_max :: int
  ec_idle_timeout_seconds :: "int option"
  ec_disk_gb :: int
  ec_ports :: "string list"
  ec_env :: "(string \<times> string) list"
  ec_args :: "string option"
  ec_registry_id :: "string option"
  ec_data_center_ids :: "string list"
  ec_network_volume_ids :: "string list"
  ec_execution_timeout_ms :: int
  ec_flashboot :: FlashBoot
  ec_min_cuda_version :: "string option"
  ec_resource_schema_version :: EndpointResourceVersion

definition endpoint_request_post_init :: "EndpointCreateRequest \<Rightarrow> py_error option" where
  "endpoint_request_post_init r =
     (let scaling_type = text_of (jget (ec_scaling r) ''type'') in first_error
     [(ec_name r = [] \<or> ec_image r = [] \<or> ec_gpu_pools r = [], ValueError),
      (ec_endpoint_type r \<notin> {''QUEUE'', ''LOAD_BALANCER''}, ValueError),
      (scaling_type \<notin> {Some ''QUEUE_DELAY'', Some ''REQUEST_COUNT''}, ValueError),
      (ec_endpoint_type r = ''LOAD_BALANCER'' \<and> scaling_type \<noteq> Some ''REQUEST_COUNT'', ValueError),
      (ec_endpoint_type r = ''QUEUE'' \<and> scaling_type = Some ''REQUEST_COUNT''
         \<and> ec_idle_timeout_seconds r \<noteq> None, ValueError),
      (ec_gpu_count r < 1 \<or> ec_workers_min r < 0 \<or> ec_workers_max r < ec_workers_min r, ValueError),
      (case normalize_cuda_floor (ec_min_cuda_version r) of Inl _ \<Rightarrow> True | Inr _ \<Rightarrow> False, ValueError)])"

definition endpoint_request_payload :: "EndpointCreateRequest \<Rightarrow> py_error + json" where
  "endpoint_request_payload r =
     bindE (if ec_resource_schema_version r = ERV_GA
            then normalize_cuda_floor (ec_min_cuda_version r) else Inr None) (\<lambda>cuda.
     Inr (JObj
      ([(''name'', JStr (ec_name r)), (''image'', JStr (ec_image r)),
        (''type'', JStr (ec_endpoint_type r)),
        (''gpu'', JObj ([(''pools'', jstrs (ec_gpu_pools r)), (''count'', JInt (ec_gpu_count r))]
           @ optional_entry ''minCudaVersion'' JStr cuda)),
        (''workers'', JObj ([(''min'', JInt (ec_workers_min r)), (''max'', JInt (ec_workers_max r))]
           @ optional_entry ''idleTimeout'' JInt (ec_idle_timeout_seconds r))),
        (''scaling'', ec_scaling r), (''disk'', JInt (ec_disk_gb r)), (''ports'', jstrs (ec_ports r)),
        (''env'', text_object (ec_env r)), (''dataCenterIds'', jstrs (ec_data_center_ids r)),
        (''networkVolumes'', jstrs (ec_network_volume_ids r)),
        (''timeout'', JInt (ec_execution_timeout_ms r)),
        (''flashboot'', JStr (flashboot_value (ec_flashboot r)))]
       @ optional_entry ''args'' JStr (ec_args r)
       @ optional_entry ''registry'' JStr (ec_registry_id r)
       @ (if ec_resource_schema_version r = ERV_GA
          then [(''mounts'', JObj
             [(''network'', JList (map (\<lambda>v. JObj [(''volumeId'', JStr v)]) (ec_network_volume_ids r))),
              (''global'', JList [])])] else []))))"

record EndpointUpdateRequest =
  eu_name :: "string option"
  eu_image :: "string option"
  eu_gpu_pools :: "string list option"
  eu_gpu_count :: "int option"
  eu_workers_min :: "int option"
  eu_workers_max :: "int option"
  eu_idle_timeout_seconds :: "int option"
  eu_scaling :: "json option"
  eu_data_center_ids :: "string list option"
  eu_network_volume_ids :: "string list option"
  eu_execution_timeout_ms :: "int option"
  eu_flashboot :: "FlashBoot option"

definition endpoint_update_payload :: "EndpointUpdateRequest \<Rightarrow> py_error + json" where
  "endpoint_update_payload u =
     bindE (case eu_gpu_pools u of
         Some pools \<Rightarrow> Inr [(''gpu'', JObj ((''pools'', jstrs pools)
             # optional_entry ''count'' JInt (eu_gpu_count u)))]
       | None \<Rightarrow> if eu_gpu_count u \<noteq> None then Inl ValueError else Inr []) (\<lambda>gpu.
     let workers = optional_entry ''min'' JInt (eu_workers_min u)
           @ optional_entry ''max'' JInt (eu_workers_max u)
           @ optional_entry ''idleTimeout'' JInt (eu_idle_timeout_seconds u);
         payload = optional_entry ''name'' JStr (eu_name u)
           @ optional_entry ''image'' JStr (eu_image u) @ gpu
           @ (if workers = [] then [] else [(''workers'', JObj workers)])
           @ optional_entry ''scaling'' id (eu_scaling u)
           @ optional_entry ''dataCenterIds'' jstrs (eu_data_center_ids u)
           @ optional_entry ''networkVolumes'' jstrs (eu_network_volume_ids u)
           @ optional_entry ''timeout'' JInt (eu_execution_timeout_ms u)
           @ optional_entry ''flashboot'' (\<lambda>f. JStr (flashboot_value f)) (eu_flashboot u)
     in if payload = [] then Inl ValueError else Inr (JObj payload))"

section \<open>Redaction removes every echoed credential\<close>

text \<open>
  \<open>redacted_under key v\<close>: no credential is left in the value \<open>v\<close> of \<open>key\<close>, at any depth.  \<open>plain key v\<close>:
  the value has no environment and no credential key at any depth.
\<close>

fun redacted_under :: "string \<Rightarrow> json \<Rightarrow> bool" where
  "redacted_under key (JObj kvs) =
     (if normalized_key key = ''env'' then list_all (\<lambda>(_, v). v = redacted) kvs
      else \<not> is_credential_key key \<and> list_all (\<lambda>(k, v). redacted_under k v) kvs)"
| "redacted_under key (JList xs) = (\<not> is_credential_key key \<and> list_all (redacted_under key) xs)"
| "redacted_under key v = (is_credential_key key \<longrightarrow> v = redacted)"

fun plain :: "string \<Rightarrow> json \<Rightarrow> bool" where
  "plain key (JObj kvs) =
     (normalized_key key \<noteq> ''env'' \<and> \<not> is_credential_key key \<and> list_all (\<lambda>(k, v). plain k v) kvs)"
| "plain key (JList xs) = (\<not> is_credential_key key \<and> list_all (plain key) xs)"
| "plain key v = (\<not> is_credential_key key)"

lemma env_is_no_credential: "normalized_key key = ''env'' \<Longrightarrow> \<not> is_credential_key key"
proof -
  have "\<not> list_ex (\<lambda>marker. contains_text marker ''env'') credential_markers" by code_simp
  then show "normalized_key key = ''env'' \<Longrightarrow> \<not> is_credential_key key"
    by (simp add: is_credential_key_def)
qed

lemma redacted_under_redacted [simp]: "redacted_under key redacted"
  by (simp add: redacted_def)

lemma sanitize_value_redacts: "redacted_under key (sanitize_value key v)"
  by (induction key v rule: sanitize_value.induct) (auto simp: list_all_iff)

lemma sanitize_value_plain: "plain key v \<Longrightarrow> sanitize_value key v = v"
proof (induction key v rule: sanitize_value.induct)
  case (1 key kvs)
  then have "map (\<lambda>(k, v). (k, sanitize_value k v)) kvs = kvs"
    by (intro map_idI) (auto simp: list_all_iff)
  with 1 show ?case by simp
next
  case (2 key xs)
  then have "map (sanitize_value key) xs = xs" by (intro map_idI) (auto simp: list_all_iff)
  with 2 show ?case by simp
qed auto

lemma sanitize_value_idem: "sanitize_value key (sanitize_value key v) = sanitize_value key v"
  by (induction key v rule: sanitize_value.induct) (auto simp: redacted_def)

text \<open>
  The raw view of a provider resource carries no echoed credential: under every key that names
  an API key, authorization, password, secret or token, and in every environment mapping, at any
  depth, only the redaction mark is left.  The fields keep their names and order, values
  without such keys are unchanged, and redacting twice changes nothing more.
\<close>

theorem resource_payload_redacted:
  "\<exists>kvs'. sanitize_resource_payload (JObj kvs) = JObj kvs'
     \<and> list_all (\<lambda>(k, v). redacted_under k v) kvs' \<and> map fst kvs' = map fst kvs
     \<and> list_all (\<lambda>((k, v), (_, v')). plain k v \<le> (v' = v)) (zip kvs kvs')
     \<and> sanitize_resource_payload (JObj kvs') = JObj kvs'"
proof -
  let ?f = "\<lambda>(k, v). (k, sanitize_value k v)"
  have "list_all (\<lambda>((k, v), (_, v')). plain k v \<le> (v' = v)) (zip kvs (map ?f kvs))"
    by (auto simp: list_all_iff zip_map2 zip_same_conv_map sanitize_value_plain)
  then show ?thesis
    by (intro exI [of _ "map ?f kvs"])
      (auto simp: list_all_iff sanitize_value_redacts sanitize_value_idem)
qed

end
