(* ===== verification/Runpod_Client.thy ===== *)
theory Runpod_Client
  imports Runpod_Models
begin

text \<open>
  The control plane and data plane clients of \<^verbatim>\<open>clients.py\<close>: the authenticated request with its
  retry rule, the classification of failures, the typed operations and the complete inventory walk.
  The HTTP library is an argument: \<open>ce_send n q\<close> answers the request \<open>q\<close> sent as the \<open>n\<close>-th one.  The
  state records every request sent; retry delays and rate limit notes are not part of it.
\<close>

section \<open>Definitions\<close>

subsection \<open>The transport\<close>

record api_request =
  ar_method :: string
  ar_resource :: string
  ar_params :: "(string \<times> json) list"
  ar_body :: "json option"

datatype api_body = Body_empty | Body_invalid | Body_json json

text \<open>\<open>Api_failed\<close> is any \<^verbatim>\<open>httpx.HTTPError\<close>, \<open>Api_raises\<close> any other exception of the library.\<close>

datatype api_reply = Api_failed | Api_raises py_error | Api_reply int api_body

record client_env =
  ce_send :: "nat \<Rightarrow> api_request \<Rightarrow> api_reply"
  ce_clock :: "nat \<Rightarrow> datetime"
  ce_float :: float_of
  ce_max_safe_retries :: nat
  ce_max_inventory_pages :: nat

record client_world =
  cw_tick :: nat
  cw_log :: "api_request list"

definition send :: "client_env \<Rightarrow> api_request \<Rightarrow> (client_world, api_reply) prog" where
  "send E q = (\<lambda>w. (Inr (ce_send E (cw_tick w) q),
     w\<lparr>cw_tick := Suc (cw_tick w), cw_log := cw_log w @ [q]\<rparr>))"

definition safe_methods :: "string list" where
  "safe_methods = [''GET'', ''HEAD'', ''OPTIONS'']"

definition retryable_statuses :: "int list" where
  "retryable_statuses = [429, 502, 503, 504]"

definition safe_to_retry :: "api_request \<Rightarrow> bool" where
  "safe_to_retry q \<longleftrightarrow> ar_method q \<in> set safe_methods"

definition success_status :: "int \<Rightarrow> bool" where
  "success_status s \<longleftrightarrow> 200 \<le> s \<and> s < 300"

text \<open>What a reply means: a final outcome, or an error that a safe request may retry.\<close>

datatype verdict = Final "py_error + int \<times> api_body" | Retryable py_error

definition failure :: "bool \<Rightarrow> int option \<Rightarrow> py_error" where
  "failure ambiguous status =
     (if ambiguous \<and> (case status of None \<Rightarrow> True | Some s \<Rightarrow> success_status s \<or> 500 \<le> s)
      then RunPodAmbiguousResultError else RunPodAPIError status)"

definition judge :: "int list \<Rightarrow> bool \<Rightarrow> api_reply \<Rightarrow> verdict" where
  "judge expected ambiguous reply =
     (case reply of
        Api_raises e \<Rightarrow> Final (Inl e)
      | Api_failed \<Rightarrow> Retryable (failure ambiguous None)
      | Api_reply status body \<Rightarrow>
          if status \<in> set expected then Final (Inr (status, body))
          else if status \<in> set retryable_statuses then Retryable (failure ambiguous (Some status))
          else Final (Inl (failure ambiguous (Some status))))"

fun request_attempts :: "nat \<Rightarrow> client_env \<Rightarrow> api_request \<Rightarrow> int list \<Rightarrow> bool
    \<Rightarrow> (client_world, int \<times> api_body) prog" where
  "request_attempts 0 E q expected ambiguous =
     seqM (send E q) (\<lambda>reply. case judge expected ambiguous reply of
         Final r \<Rightarrow> liftM r
       | Retryable e \<Rightarrow> raiseM e)"
| "request_attempts (Suc k) E q expected ambiguous =
     seqM (send E q) (\<lambda>reply. case judge expected ambiguous reply of
         Final r \<Rightarrow> liftM r
       | Retryable e \<Rightarrow> if safe_to_retry q then request_attempts k E q expected ambiguous else raiseM e)"

definition request_json :: "client_env \<Rightarrow> api_request \<Rightarrow> int list \<Rightarrow> bool
    \<Rightarrow> (client_world, json option) prog" where
  "request_json E q expected ambiguous =
     seqM (request_attempts (ce_max_safe_retries E) E q expected ambiguous) (\<lambda>(status, body).
     if status = 204 then ret None
     else case body of
         Body_empty \<Rightarrow> ret None
       | Body_json v \<Rightarrow> if is_jobj v then ret (Some v)
           else raiseM (if ambiguous then RunPodAmbiguousResultError else RunPodAPIError (Some status))
       | Body_invalid \<Rightarrow>
           raiseM (if ambiguous then RunPodAmbiguousResultError else RunPodAPIError (Some status)))"

definition required_payload :: "json option \<Rightarrow> py_error + json" where
  "required_payload value = (case value of None \<Rightarrow> Inl RunPodManagerError | Some v \<Rightarrow> Inr v)"

definition get_json :: "client_env \<Rightarrow> string \<Rightarrow> (string \<times> json) list \<Rightarrow> (client_world, json) prog" where
  "get_json E resource params =
     seqM (request_json E \<lparr> ar_method = ''GET'', ar_resource = resource, ar_params = params,
       ar_body = None \<rparr> [200] False) (\<lambda>payload. liftM (required_payload payload))"

definition post :: "string \<Rightarrow> json option \<Rightarrow> api_request" where
  "post resource body = \<lparr> ar_method = ''POST'', ar_resource = resource, ar_params = [], ar_body = body \<rparr>"

definition segment :: "string \<Rightarrow> py_error + string" where
  "segment value = (if value = [] then Inl ValueError else Inr (quote_segment value))"

definition list_envelope :: "json \<Rightarrow> string \<Rightarrow> py_error + json list" where
  "list_envelope payload key =
     (case jget payload key of JList items \<Rightarrow> mapE mapping_item items | _ \<Rightarrow> Inl RunPodManagerError)"

subsection \<open>Catalog and Pods\<close>

definition gpu_query :: "ComputeProduct list \<Rightarrow> int \<Rightarrow> CloudType \<Rightarrow> string option
    \<Rightarrow> (string \<times> json) list" where
  "gpu_query products gpu_count cloud cuda =
     [(''include'', JStr ''AVAILABILITY''),
      (''product'', JStr (case products of [] \<Rightarrow> [] | p # _ \<Rightarrow> product_value p)),
      (''count'', JInt gpu_count), (''cloud'', JStr (cloud_value cloud))]
     @ (case cuda of None \<Rightarrow> [] | Some c \<Rightarrow> if c = [] then [] else [(''minCudaVersion'', JStr c)])"

definition list_gpus :: "client_env \<Rightarrow> bool \<Rightarrow> ComputeProduct list \<Rightarrow> int \<Rightarrow> CloudType \<Rightarrow> string option
    \<Rightarrow> (client_world, GPUOffer list) prog" where
  "list_gpus E include_availability products gpu_count cloud cuda =
     (if include_availability \<and> length products \<noteq> 1 then raiseM ValueError
      else seqM (get_json E ''/catalog/gpus''
             (if include_availability then gpu_query products gpu_count cloud cuda else [])) (\<lambda>payload.
        seqM (liftM (list_envelope payload ''gpus'')) (\<lambda>items.
        liftM (mapE (offer_from_dict (ce_float E) (if include_availability then cuda else None)) items))))"

definition get_gpu :: "client_env \<Rightarrow> string \<Rightarrow> (client_world, GPUOffer) prog" where
  "get_gpu E gpu_id =
     seqM (liftM (segment gpu_id)) (\<lambda>s.
     seqM (get_json E (''/catalog/gpus/'' @ s) []) (\<lambda>payload.
     liftM (offer_from_dict (ce_float E) None payload)))"

text \<open>
  A malformed success receipt of a paid create is an ambiguous result.  The payload is built, and
  may be rejected, before anything is sent.
\<close>

definition create_pod_request :: "client_env \<Rightarrow> py_error + json \<Rightarrow> (client_world, PodResource) prog" where
  "create_pod_request E body =
     seqM (liftM body) (\<lambda>payload.
     seqM (request_json E (post ''/pods'' (Some payload)) [201] True) (\<lambda>reply.
     liftM (case bindE (required_payload reply) (pod_from_dict (ce_float E)) of
         Inr pod \<Rightarrow> Inr pod
       | Inl e \<Rightarrow> Inl (if is_manager_error e then RunPodAmbiguousResultError else e))))"

definition get_pod :: "client_env \<Rightarrow> string \<Rightarrow> (client_world, PodResource) prog" where
  "get_pod E pod_id =
     seqM (liftM (segment pod_id)) (\<lambda>s.
     seqM (get_json E (''/pods/'' @ s) []) (\<lambda>payload. liftM (pod_from_dict (ce_float E) payload)))"

definition pod_action :: "client_env \<Rightarrow> string \<Rightarrow> string \<Rightarrow> (client_world, PodResource option) prog" where
  "pod_action E pod_id action =
     (if action \<notin> {''start'', ''stop'', ''restart'', ''terminate''} then raiseM ValueError
      else seqM (liftM (segment pod_id)) (\<lambda>s.
        seqM (request_json E (post (''/pods/'' @ s @ ''/action'') (Some (JObj [(''action'', JStr action)])))
               [200, 204] True) (\<lambda>payload.
        liftM (case payload of None \<Rightarrow> Inr None
               | Some v \<Rightarrow> bindE (pod_from_dict (ce_float E) v) (\<lambda>pod. Inr (Some pod))))))"

definition delete_resource :: "client_env \<Rightarrow> string \<Rightarrow> string \<Rightarrow> bool \<Rightarrow> (client_world, unit) prog" where
  "delete_resource E kind resource_id ambiguous =
     seqM (liftM (segment resource_id)) (\<lambda>s.
     seqM (request_json E \<lparr> ar_method = ''DELETE'', ar_resource = kind @ s, ar_params = [],
       ar_body = None \<rparr> [204] ambiguous) (\<lambda>_. ret ()))"

definition delete_pod :: "client_env \<Rightarrow> string \<Rightarrow> (client_world, unit) prog" where
  "delete_pod E pod_id = delete_resource E ''/pods/'' pod_id False"

definition delete_endpoint :: "client_env \<Rightarrow> string \<Rightarrow> (client_world, unit) prog" where
  "delete_endpoint E endpoint_id = delete_resource E ''/serverless/'' endpoint_id True"

subsection \<open>The inventory walk\<close>

text \<open>The checks of one page: the next cursor, if there is a next page.\<close>

definition page_cursor :: "json \<Rightarrow> string list \<Rightarrow> py_error + string option" where
  "page_cursor payload seen =
     (let pagination = jget payload ''pagination'' in
      if \<not> is_jobj pagination then Inl RunPodManagerError
      else case jget pagination ''hasNextPage'' of
          JBool has_next \<Rightarrow>
            if \<not> has_key pagination ''nextCursor'' then Inl RunPodManagerError
            else (case (has_next, jget pagination ''nextCursor'') of
                (True, JStr cursor) \<Rightarrow>
                  if \<not> nonblank cursor \<or> cursor \<in> set seen then Inl RunPodManagerError
                  else Inr (Some cursor)
              | (True, _) \<Rightarrow> Inl RunPodManagerError
              | (False, JNull) \<Rightarrow> Inr None
              | (False, _) \<Rightarrow> Inl RunPodManagerError)
        | _ \<Rightarrow> Inl RunPodManagerError)"

text \<open>One page: every item needs a fresh identity and is parsed before the next is looked at.\<close>

fun page_items :: "(json \<Rightarrow> py_error + 'a) \<Rightarrow> string list \<Rightarrow> json list
    \<Rightarrow> py_error + 'a list \<times> string list" where
  "page_items parse seen [] = Inr ([], seen)"
| "page_items parse seen (item # items) =
     (case jget item ''id'' of
        JStr i \<Rightarrow>
          if i = [] \<or> i \<in> set seen then Inl RunPodManagerError
          else bindE (parse item) (\<lambda>x.
            bindE (page_items parse (i # seen) items) (\<lambda>(xs, seen'). Inr (x # xs, seen')))
      | _ \<Rightarrow> Inl RunPodManagerError)"

fun walk_pages :: "nat \<Rightarrow> client_env \<Rightarrow> string \<Rightarrow> string \<Rightarrow> (string \<times> json) list
    \<Rightarrow> (json \<Rightarrow> py_error + 'a) \<Rightarrow> string option \<Rightarrow> string list \<Rightarrow> string list
    \<Rightarrow> (client_world, 'a list) prog" where
  "walk_pages 0 E path key params parse cursor cursors ids = raiseM RunPodManagerError"
| "walk_pages (Suc n) E path key params parse cursor cursors ids =
     seqM (get_json E path (params @ optional_entry ''cursor'' JStr cursor)) (\<lambda>payload.
     seqM (liftM (list_envelope payload key)) (\<lambda>items.
     seqM (liftM (page_cursor payload cursors)) (\<lambda>next_cursor.
     seqM (liftM (page_items parse ids items)) (\<lambda>(xs, ids').
     case next_cursor of
       None \<Rightarrow> ret xs
     | Some c \<Rightarrow>
         seqM (walk_pages n E path key params parse (Some c) (c # cursors) ids') (\<lambda>ys.
         ret (xs @ ys))))))"

definition list_resources :: "client_env \<Rightarrow> string \<Rightarrow> string \<Rightarrow> (string \<times> json) list
    \<Rightarrow> (json \<Rightarrow> py_error + 'a) \<Rightarrow> (client_world, 'a list) prog" where
  "list_resources E path key params parse =
     walk_pages (ce_max_inventory_pages E) E path key params parse None [] []"

definition list_pods :: "client_env \<Rightarrow> (client_world, PodResource list) prog" where
  "list_pods E = list_resources E ''/pods'' ''pods'' [(''includeClusterPods'', JBool True)]
     (pod_from_dict (ce_float E))"

definition list_network_volumes :: "client_env \<Rightarrow> (client_world, NetworkVolume list) prog" where
  "list_network_volumes E =
     list_resources E ''/network-volumes'' ''networkVolumes'' [] volume_from_dict"

definition list_endpoints :: "client_env \<Rightarrow> (client_world, EndpointResource list) prog" where
  "list_endpoints E = list_resources E ''/serverless'' ''endpoints'' [] endpoint_from_dict"

subsection \<open>Endpoints and billing\<close>

definition create_endpoint :: "client_env \<Rightarrow> EndpointCreateRequest
    \<Rightarrow> (client_world, EndpointResource) prog" where
  "create_endpoint E request =
     (if ec_resource_schema_version request \<noteq> ERV_GA then raiseM RunPodManagerError
      else seqM (liftM (endpoint_request_payload request)) (\<lambda>body.
        seqM (request_json E (post ''/serverless'' (Some body)) [201] True) (\<lambda>reply.
        liftM (bindE (required_payload reply) endpoint_from_dict))))"

definition get_endpoint :: "client_env \<Rightarrow> string \<Rightarrow> (client_world, EndpointResource) prog" where
  "get_endpoint E endpoint_id =
     seqM (liftM (segment endpoint_id)) (\<lambda>s.
     seqM (get_json E (''/serverless/'' @ s) []) (\<lambda>payload. liftM (endpoint_from_dict payload)))"

definition update_endpoint :: "client_env \<Rightarrow> string \<Rightarrow> EndpointUpdateRequest
    \<Rightarrow> (client_world, EndpointResource) prog" where
  "update_endpoint E endpoint_id changes =
     seqM (liftM (segment endpoint_id)) (\<lambda>s.
     seqM (liftM (endpoint_update_payload changes)) (\<lambda>body.
     seqM (request_json E \<lparr> ar_method = ''PATCH'', ar_resource = ''/serverless/'' @ s,
       ar_params = [], ar_body = Some body \<rparr> [200] False) (\<lambda>reply.
     liftM (bindE (required_payload reply) endpoint_from_dict))))"

definition list_endpoint_workers :: "client_env \<Rightarrow> string \<Rightarrow> (client_world, json) prog" where
  "list_endpoint_workers E endpoint_id =
     seqM (liftM (segment endpoint_id)) (\<lambda>s.
     seqM (get_json E (''/serverless/'' @ s @ ''/workers'') []) (\<lambda>payload.
     seqM (liftM (list_envelope payload ''workers'')) (\<lambda>_.
     if is_jobj (jget payload ''summary'') then ret payload else raiseM RunPodManagerError)))"

definition billing_params :: "datetime option \<Rightarrow> datetime option \<Rightarrow> string option \<Rightarrow> int option
    \<Rightarrow> (string \<times> json) list" where
  "billing_params start_time end_time bucket_size last_n =
     optional_entry ''startTime'' JTime start_time @ optional_entry ''endTime'' JTime end_time
     @ optional_entry ''bucketSize'' JStr bucket_size @ optional_entry ''lastN'' JInt last_n"

definition filter_entry :: "string \<Rightarrow> string option \<Rightarrow> (string \<times> json) list" where
  "filter_entry k x = (case x of None \<Rightarrow> [] | Some s \<Rightarrow> if s = [] then [] else [(k, JStr s)])"

definition pod_billing :: "client_env \<Rightarrow> datetime option \<Rightarrow> datetime option \<Rightarrow> string option
    \<Rightarrow> int option \<Rightarrow> string option \<Rightarrow> (client_world, BillingPage) prog" where
  "pod_billing E start_time end_time bucket_size last_n pod_id =
     seqM (get_json E ''/billing/pods'' (billing_params start_time end_time bucket_size last_n
             @ filter_entry ''podId'' pod_id)) (\<lambda>payload.
     liftM (billing_page_from_dict payload))"

definition serverless_billing :: "client_env \<Rightarrow> datetime option \<Rightarrow> datetime option \<Rightarrow> string option
    \<Rightarrow> int option \<Rightarrow> string option \<Rightarrow> (client_world, BillingPage) prog" where
  "serverless_billing E start_time end_time bucket_size last_n endpoint_id =
     seqM (get_json E ''/billing/serverless'' (billing_params start_time end_time bucket_size last_n
             @ filter_entry ''serverlessId'' endpoint_id)) (\<lambda>payload.
     liftM (billing_page_from_dict payload))"

subsection \<open>Queue jobs\<close>

definition run_job :: "client_env \<Rightarrow> string \<Rightarrow> json \<Rightarrow> string option \<Rightarrow> int option \<Rightarrow> int option
    \<Rightarrow> (client_world, ServerlessJob) prog" where
  "run_job E endpoint_id input_data webhook_url execution_timeout_ms ttl_ms =
     (let policy = optional_entry ''executionTimeout'' JInt execution_timeout_ms
            @ optional_entry ''ttl'' JInt ttl_ms;
          body = JObj ([(''input'', input_data)] @ filter_entry ''webhook'' webhook_url
            @ (if policy = [] then [] else [(''policy'', JObj policy)]))
      in seqM (liftM (segment endpoint_id)) (\<lambda>s.
         seqM (request_json E (post (''/'' @ s @ ''/run'') (Some body)) [200] True) (\<lambda>reply.
         liftM (bindE (required_payload reply) serverless_job_from_dict))))"

definition job_status :: "client_env \<Rightarrow> string \<Rightarrow> string \<Rightarrow> int option
    \<Rightarrow> (client_world, ServerlessJob) prog" where
  "job_status E endpoint_id job_id ttl_ms =
     seqM (liftM (segment endpoint_id)) (\<lambda>s.
     seqM (liftM (segment job_id)) (\<lambda>j.
     seqM (get_json E (''/'' @ s @ ''/status/'' @ j) (optional_entry ''ttl'' JInt ttl_ms)) (\<lambda>payload.
     liftM (serverless_job_from_dict payload))))"

definition job_command :: "client_env \<Rightarrow> string \<Rightarrow> string \<Rightarrow> string
    \<Rightarrow> (client_world, ServerlessJob) prog" where
  "job_command E command endpoint_id job_id =
     seqM (liftM (segment endpoint_id)) (\<lambda>s.
     seqM (liftM (segment job_id)) (\<lambda>j.
     seqM (request_json E (post (''/'' @ s @ ''/'' @ command @ ''/'' @ j) None) [200] False) (\<lambda>reply.
     liftM (bindE (required_payload reply) serverless_job_from_dict))))"

definition cancel_job :: "client_env \<Rightarrow> string \<Rightarrow> string \<Rightarrow> (client_world, ServerlessJob) prog" where
  "cancel_job E = job_command E ''cancel''"

definition retry_job :: "client_env \<Rightarrow> string \<Rightarrow> string \<Rightarrow> (client_world, ServerlessJob) prog" where
  "retry_job E = job_command E ''retry''"

definition endpoint_health :: "client_env \<Rightarrow> string \<Rightarrow> (client_world, json) prog" where
  "endpoint_health E endpoint_id =
     seqM (liftM (segment endpoint_id)) (\<lambda>s. get_json E (''/'' @ s @ ''/health'') [])"

section \<open>Requests and retries\<close>

lemma send_eq: "send E q w = (Inr (ce_send E (cw_tick w) q),
    w\<lparr>cw_tick := Suc (cw_tick w), cw_log := cw_log w @ [q]\<rparr>)"
  by (simp add: send_def)

lemma request_attempts_log:
  "\<exists>m \<le> k. (safe_to_retry q \<or> m = 0)
     \<and> cw_log (snd (request_attempts k E q expected ambiguous w)) = cw_log w @ replicate (Suc m) q"
proof (induction k arbitrary: w)
  case (Suc k)
  show ?case
  proof (cases "judge expected ambiguous (ce_send E (cw_tick w) q)")
    case (Final r)
    then show ?thesis by (auto simp: seqM_def send_eq liftM_def)
  next
    case (Retryable e)
    obtain m where "m \<le> k" "safe_to_retry q \<or> m = 0" "cw_log (snd (request_attempts k E q expected ambiguous
        (w\<lparr>cw_tick := Suc (cw_tick w), cw_log := cw_log w @ [q]\<rparr>))) = cw_log w @ replicate (Suc (Suc m)) q"
      using Suc.IH [of "w\<lparr>cw_tick := Suc (cw_tick w), cw_log := cw_log w @ [q]\<rparr>"] by auto
    with Retryable show ?thesis
      by (cases "safe_to_retry q") (auto simp: seqM_def send_eq raiseM_def intro: exI [of _ "Suc m"])
  qed
qed (auto simp: seqM_def send_eq liftM_def raiseM_def split: verdict.splits)

lemma request_json_world:
  "snd (request_json E q expected ambiguous w)
     = snd (request_attempts (ce_max_safe_retries E) E q expected ambiguous w)"
  by (auto simp: request_json_def seqM_def ret_def raiseM_def split: prod.splits sum.splits api_body.splits)

text \<open>The outcome is the verdict of some reply; without retries it is that of the one reply.\<close>

lemma request_attempts_verdict:
  "\<exists>n. judge expected ambiguous (ce_send E n q) = Final (fst (request_attempts k E q expected ambiguous w))
     \<or> (\<exists>e. judge expected ambiguous (ce_send E n q) = Retryable e
          \<and> fst (request_attempts k E q expected ambiguous w) = Inl e)"
proof (induction k arbitrary: w)
  case (Suc k)
  show ?case
  proof (cases "judge expected ambiguous (ce_send E (cw_tick w) q)")
    case (Final r)
    then show ?thesis by (intro exI [of _ "cw_tick w"]) (simp add: seqM_def send_eq liftM_def)
  next
    case (Retryable e)
    show ?thesis
    proof (cases "safe_to_retry q")
      case True
      with Suc.IH [of "w\<lparr>cw_tick := Suc (cw_tick w), cw_log := cw_log w @ [q]\<rparr>"] Retryable
      show ?thesis by (simp add: seqM_def send_eq)
    next
      case False
      with Retryable show ?thesis
        by (intro exI [of _ "cw_tick w"]) (simp add: seqM_def send_eq raiseM_def)
    qed
  qed
qed (auto simp: seqM_def send_eq liftM_def raiseM_def split: verdict.splits intro: exI [of _ "cw_tick w"])

lemma request_attempts_once:
  assumes "\<not> safe_to_retry q"
  shows "request_attempts k E q expected ambiguous w =
    ((case judge expected ambiguous (ce_send E (cw_tick w) q) of Final r \<Rightarrow> r | Retryable e \<Rightarrow> Inl e),
     w\<lparr>cw_tick := Suc (cw_tick w), cw_log := cw_log w @ [q]\<rparr>)"
  using assms by (cases k) (auto simp: seqM_def send_eq liftM_def raiseM_def split: verdict.splits)

text \<open>
  C36.  A mutating request is sent exactly once, whatever its outcome; a safe request is repeated
  at most \<^verbatim>\<open>max_safe_retries\<close> times.  Nothing else is sent, and the call ends.
\<close>

theorem mutations_sent_once:
  "\<exists>m. m \<le> ce_max_safe_retries E \<and> (safe_to_retry q \<or> m = 0)
     \<and> cw_log (snd (request_json E q expected ambiguous w)) = cw_log w @ replicate (Suc m) q"
  using request_attempts_log [of "ce_max_safe_retries E" q E expected ambiguous w]
  by (auto simp: request_json_world)

section \<open>A paid create is a known failure only when the provider refused it\<close>

definition create_request :: "json \<Rightarrow> api_request" where
  "create_request payload = post ''/pods'' (Some payload)"

lemma create_request_unsafe: "\<not> safe_to_retry (create_request payload)"
  by (simp add: create_request_def post_def safe_to_retry_def safe_methods_def)

lemma create_pod_request_sent:
  "create_pod_request E (Inr payload) w =
     ((case ce_send E (cw_tick w) (create_request payload) of
         Api_raises e \<Rightarrow> Inl e
       | Api_failed \<Rightarrow> Inl RunPodAmbiguousResultError
       | Api_reply status body \<Rightarrow>
           if status \<noteq> 201 then Inl (failure True (Some status))
           else case body of
               Body_json v \<Rightarrow> (if is_jobj v then (case pod_from_dict (ce_float E) v of
                    Inr pod \<Rightarrow> Inr pod
                  | Inl e \<Rightarrow> Inl (if is_manager_error e then RunPodAmbiguousResultError else e))
                  else Inl RunPodAmbiguousResultError)
             | _ \<Rightarrow> Inl RunPodAmbiguousResultError),
      w\<lparr>cw_tick := Suc (cw_tick w), cw_log := cw_log w @ [create_request payload]\<rparr>)"
  using request_attempts_once [OF create_request_unsafe [of payload], of "ce_max_safe_retries E" E "[201]" True w]
  by (auto simp: create_pod_request_def request_json_def create_request_def [symmetric] seqM_def liftM_def
      ret_def raiseM_def judge_def failure_def required_payload_def
      split: api_reply.splits api_body.splits sum.splits prod.splits)

lemma field_errors:
  "string_field v k = Inl e \<Longrightarrow> e = RunPodManagerError"
  "optional_string v = Inl e \<Longrightarrow> e = RunPodManagerError"
  "optional_integer v = Inl e \<Longrightarrow> e = RunPodManagerError"
  by (auto simp: string_field_def optional_string_def optional_integer_def split: json.splits if_splits)

lemma optional_number_errors: "optional_number fl v = Inl e \<Longrightarrow> e = RunPodManagerError \<or> (\<exists>n. fl n = Inl e)"
  by (cases v) (auto simp: optional_number_def number_of_def bindE_def split: sum.splits)

lemma pod_from_dict_errors: "pod_from_dict fl v = Inl e \<Longrightarrow> is_manager_error e \<or> (\<exists>n. fl n = Inl e)"
  unfolding pod_from_dict_def bindE_def Let_def
  by (auto dest!: field_errors optional_number_errors split: sum.splits if_splits)

text \<open>
  A paid create fails for certain only when the provider refused it.  The payload is rejected
  before anything is sent, or exactly one create is sent.  In the second case a
  failure other than \<^verbatim>\<open>RunPodAmbiguousResultError\<close> means that the provider answered with a status that
  is neither a success nor a server error, or that the HTTP library or the float conversion raised
  an exception of its own; a returned Pod comes from the
  provider's answer 201.
\<close>

theorem create_failure_is_certain:
  "case body of
     Inl e \<Rightarrow> create_pod_request E body w = (Inl e, w)
   | Inr payload \<Rightarrow>
       cw_log (snd (create_pod_request E body w)) = cw_log w @ [create_request payload]
       \<and> (case fst (create_pod_request E body w) of
            Inr pod \<Rightarrow> (\<exists>v. ce_send E (cw_tick w) (create_request payload) = Api_reply 201 (Body_json v)
                        \<and> pod_from_dict (ce_float E) v = Inr pod)
          | Inl e \<Rightarrow> e = RunPodAmbiguousResultError
              \<or> ce_send E (cw_tick w) (create_request payload) = Api_raises e
              \<or> (\<exists>n. ce_float E n = Inl e)
              \<or> (\<exists>status reply. ce_send E (cw_tick w) (create_request payload) = Api_reply status reply
                    \<and> e = RunPodAPIError (Some status) \<and> \<not> success_status status \<and> status < 500))"
proof (cases body)
  case (Inl e)
  then show ?thesis by (simp add: create_pod_request_def seqM_def liftM_def)
next
  case (Inr payload)
  show ?thesis
    unfolding Inr create_pod_request_sent
    by (auto simp: failure_def success_status_def dest: pod_from_dict_errors
        split: api_reply.splits api_body.splits sum.splits)
qed

section \<open>An inventory is complete or an error\<close>

text \<open>The cursor a page announces, and whether the pages form a chain that ends with a last page.\<close>

definition next_cursor :: "json \<Rightarrow> string option" where
  "next_cursor p = (case page_cursor p [] of Inr c \<Rightarrow> c | Inl _ \<Rightarrow> None)"

fun complete_chain :: "json list \<Rightarrow> bool" where
  "complete_chain [] = False"
| "complete_chain [p] = (page_cursor p [] = Inr None)"
| "complete_chain (p # ps) = (next_cursor p \<noteq> None \<and> complete_chain ps)"

definition page_contents :: "string \<Rightarrow> json \<Rightarrow> json list" where
  "page_contents key p = (case list_envelope p key of Inr items \<Rightarrow> items | Inl _ \<Rightarrow> [])"

definition page_request :: "string \<Rightarrow> (string \<times> json) list \<Rightarrow> string option \<Rightarrow> api_request" where
  "page_request path params c = \<lparr> ar_method = ''GET'', ar_resource = path,
     ar_params = params @ optional_entry ''cursor'' JStr c, ar_body = None \<rparr>"

text \<open>Every page answers the request for the cursor that the page before it announced.\<close>

fun answered :: "client_env \<Rightarrow> string \<Rightarrow> (string \<times> json) list \<Rightarrow> string option \<Rightarrow> json list \<Rightarrow> bool" where
  "answered E path params c [] = True"
| "answered E path params c (p # ps) =
     ((\<exists>n. ce_send E n (page_request path params c) = Api_reply 200 (Body_json p))
      \<and> answered E path params (next_cursor p) ps)"

lemma mapE_append: "mapE f (xs @ ys) = bindE (mapE f xs) (\<lambda>as. bindE (mapE f ys) (\<lambda>bs. Inr (as @ bs)))"
proof (induction xs)
  case Nil
  show ?case by (cases "mapE f ys") auto
next
  case (Cons x xs)
  then show ?case by (cases "f x"; cases "mapE f xs"; cases "mapE f ys") auto
qed

lemma page_cursor_seen: "page_cursor p seen = Inr c \<Longrightarrow> page_cursor p [] = Inr c"
  by (auto simp: page_cursor_def Let_def split: if_splits json.splits bool.splits)

definition ids_of :: "json list \<Rightarrow> json list" where
  "ids_of items = map (\<lambda>i. jget i ''id'') items"

lemma ids_of_simps [simp]: "ids_of [] = []" "ids_of (x # xs) = jget x ''id'' # ids_of xs"
  "ids_of (xs @ ys) = ids_of xs @ ids_of ys"
  by (simp_all add: ids_of_def)

lemma page_items_ConsE:
  assumes "page_items parse seen (item # items) = Inr (xs, seen')"
  obtains i x xs' where "jget item ''id'' = JStr i" "i \<notin> set seen" "parse item = Inr x"
    "page_items parse (i # seen) items = Inr (xs', seen')" "xs = x # xs'"
  using assms by (auto simp: bindE_def split: json.splits if_splits sum.splits)

lemma page_itemsD:
  "page_items parse seen items = Inr (xs, seen') \<Longrightarrow>
     mapE parse items = Inr xs \<and> distinct (ids_of items)
     \<and> JStr ` set seen \<inter> set (ids_of items) = {}
     \<and> JStr ` set seen' = JStr ` set seen \<union> set (ids_of items)"
proof (induction items arbitrary: seen xs)
  case (Cons item items)
  then obtain i x xs' where i: "jget item ''id'' = JStr i" "i \<notin> set seen" "parse item = Inr x"
    "page_items parse (i # seen) items = Inr (xs', seen')" "xs = x # xs'"
    using page_items_ConsE by metis
  from Cons.IH [OF i(4)] i show ?case by auto
qed auto

lemma get_jsonD:
  assumes "get_json E resource params w = (Inr v, w')"
  shows "\<exists>n. ce_send E n \<lparr> ar_method = ''GET'', ar_resource = resource, ar_params = params,
      ar_body = None \<rparr> = Api_reply 200 (Body_json v)"
proof -
  let ?q = "\<lparr> ar_method = ''GET'', ar_resource = resource, ar_params = params, ar_body = None \<rparr>"
  let ?r = "fst (request_attempts (ce_max_safe_retries E) E ?q [200] False w)"
  obtain status where r: "?r = Inr (status, Body_json v)"
    using assms by (auto simp: get_json_def request_json_def required_payload_def seqM_def liftM_def
        ret_def raiseM_def split: prod.splits sum.splits if_splits api_body.splits option.splits)
  obtain n where "judge [200] False (ce_send E n ?q) = Final ?r"
    using request_attempts_verdict [of "[200]" False E ?q "ce_max_safe_retries E" w] r by auto
  then show ?thesis
    using r by (auto simp: judge_def split: api_reply.splits if_splits)
qed

lemma walk_pagesD:
  assumes "walk_pages n E path key params parse c cursors ids w = (Inr xs, w')"
  shows "\<exists>pages. complete_chain pages \<and> answered E path params c pages \<and> length pages \<le> n
    \<and> mapE parse (concat (map (page_contents key) pages)) = Inr xs
    \<and> distinct (ids_of (concat (map (page_contents key) pages)))
    \<and> JStr ` set ids \<inter> set (ids_of (concat (map (page_contents key) pages))) = {}"
  using assms
proof (induction n arbitrary: c cursors ids w xs w')
  case (Suc n)
  obtain p w1 where p: "get_json E path (params @ optional_entry ''cursor'' JStr c) w = (Inr p, w1)"
    using Suc.prems by (auto simp: seqM_def split: prod.splits sum.splits)
  obtain items where items: "list_envelope p key = Inr items"
    using Suc.prems by (auto simp: seqM_def p liftM_def split: prod.splits sum.splits)
  obtain nc where nc: "page_cursor p cursors = Inr nc"
    using Suc.prems by (auto simp: seqM_def p items liftM_def split: prod.splits sum.splits)
  obtain ys ids' where ys: "page_items parse ids items = Inr (ys, ids')"
    using Suc.prems by (auto simp: seqM_def p items nc liftM_def split: prod.splits sum.splits)
  note page = page_itemsD [OF ys, THEN conjunct1] page_itemsD [OF ys, THEN conjunct2]
  have contents: "page_contents key p = items" by (simp add: page_contents_def items)
  have answer: "\<exists>n. ce_send E n (page_request path params c) = Api_reply 200 (Body_json p)"
    using get_jsonD [OF p] by (simp add: page_request_def)
  show ?case
  proof (cases nc)
    case None
    then have "xs = ys" using Suc.prems by (simp add: seqM_def p items nc ys liftM_def ret_def)
    with page page_cursor_seen [OF nc] None answer show ?thesis
      by (intro exI [of _ "[p]"]) (simp add: contents)
  next
    case (Some c')
    obtain zs where zs: "walk_pages n E path key params parse (Some c') (c' # cursors) ids' w1 = (Inr zs, w')"
      "xs = ys @ zs"
      using Suc.prems Some
      by (auto simp: seqM_def p items nc ys liftM_def ret_def split: prod.splits sum.splits)
    obtain pages where pages: "complete_chain pages" "answered E path params (Some c') pages"
      "length pages \<le> n" "mapE parse (concat (map (page_contents key) pages)) = Inr zs"
      "distinct (ids_of (concat (map (page_contents key) pages)))"
      "JStr ` set ids' \<inter> set (ids_of (concat (map (page_contents key) pages))) = {}"
      using Suc.IH [OF zs(1)] by blast
    have "next_cursor p = Some c'" using page_cursor_seen [OF nc] Some by (simp add: next_cursor_def)
    then have "complete_chain (p # pages)" "answered E path params c (p # pages)"
      using pages(1,2) answer by (cases pages; simp)+
    moreover have "distinct (ids_of (items @ concat (map (page_contents key) pages)))"
      using page pages(5,6) by auto
    moreover have "JStr ` set ids \<inter> set (ids_of (items @ concat (map (page_contents key) pages))) = {}"
      using page pages(6) by (simp only: ids_of_simps set_append) blast
    moreover have "mapE parse (items @ concat (map (page_contents key) pages)) = Inr xs"
      using page(1) pages(4) zs(2) by (simp add: mapE_append)
    ultimately show ?thesis
      using pages(3) by (intro exI [of _ "p # pages"]) (simp add: contents)
  qed
qed (simp add: raiseM_def)

text \<open>
  C37.  An inventory that is returned is complete.  It is the parsed content of a chain of pages,
  the first requested without a cursor and every other with the cursor of the page before it, whose
  last page announces no further one; no more pages than the configured bound are read and
  no resource identity occurs twice.  Any other inventory is an error.
\<close>

theorem inventory_complete:
  "case fst (list_resources E path key params parse w) of
     Inl e \<Rightarrow> True
   | Inr xs \<Rightarrow> \<exists>pages. complete_chain pages \<and> answered E path params None pages
       \<and> length pages \<le> ce_max_inventory_pages E
       \<and> mapE parse (concat (map (page_contents key) pages)) = Inr xs
       \<and> distinct (ids_of (concat (map (page_contents key) pages)))"
proof (cases "list_resources E path key params parse w")
  case (Pair r w')
  then show ?thesis
    using walk_pagesD [of "ce_max_inventory_pages E" E path key params parse None "[]" "[]" w]
    by (cases r) (auto simp: list_resources_def)
qed

end
