(* ===== verification/Runpod_Providers.thy ===== *)
theory Runpod_Providers
  imports Runpod_Client Pod_Transitions "HOL-Library.AList"
begin

text \<open>
  The direct provider of \<^verbatim>\<open>providers.py\<close>: environment references, GPU selection on the live catalog,
  the create request and the Pod actions, on top of the control plane client.
\<close>

section \<open>Definitions\<close>

subsection \<open>Environment references\<close>

text \<open>The reference \<^verbatim>\<open>${NAME}\<close> at the start of a text: its name and the text behind it.\<close>

definition ref_at :: "string \<Rightarrow> (string \<times> string) option" where
  "ref_at s =
     (if take 2 s = ''${''
      then (case partition_at (CHR ''}'') (drop 2 s) of
          (name, Some rest) \<Rightarrow> if name = [] then None else Some (name, rest)
        | (_, None) \<Rightarrow> None)
      else None)"

lemma ref_at_shorter: "ref_at s = Some (name, rest) \<Longrightarrow> length rest < length s"
proof -
  assume "ref_at s = Some (name, rest)"
  then obtain c where "dropWhile (\<lambda>x. x \<noteq> CHR ''}'') (drop 2 s) = c # rest"
    by (auto simp: ref_at_def partition_at_def split: if_splits list.splits)
  moreover have "length (dropWhile (\<lambda>x. x \<noteq> CHR ''}'') (drop 2 s)) \<le> length s"
    using length_dropWhile_le [of "\<lambda>x. x \<noteq> CHR ''}''" "drop 2 s"] by simp
  ultimately show "length rest < length s" by simp
qed

function expand_refs :: "(string \<Rightarrow> string option) \<Rightarrow> string \<Rightarrow> py_error + string" where
  "expand_refs env [] = Inr []"
| "expand_refs env (c # cs) =
     (case ref_at (c # cs) of
        None \<Rightarrow> bindE (expand_refs env cs) (\<lambda>t. Inr (c # t))
      | Some (name, rest) \<Rightarrow> (case env name of
            None \<Rightarrow> Inl RunPodManagerError
          | Some value \<Rightarrow> bindE (expand_refs env rest) (\<lambda>t. Inr (value @ t))))"
  by pat_completeness auto
termination
  by (relation "measure (\<lambda>(env, s). length s)") (auto dest: ref_at_shorter)

record provider_env = client_env +
  pe_environ :: "string \<Rightarrow> string option"
  pe_str :: "json \<Rightarrow> string"
  pe_to_float :: "amount \<Rightarrow> amount"
  pe_jsha :: "json \<Rightarrow> string"
  pe_read_datetime :: "string \<Rightarrow> datetime option"
  pe_cancelled :: "nat \<Rightarrow> bool"

definition python_str :: "provider_env \<Rightarrow> json \<Rightarrow> string" where
  "python_str E v = (case v of JStr s \<Rightarrow> s | _ \<Rightarrow> pe_str E v)"

fun resolve_env_vars :: "provider_env \<Rightarrow> (string \<times> json) list \<Rightarrow> py_error + (string \<times> string) list" where
  "resolve_env_vars E [] = Inr []"
| "resolve_env_vars E ((key, raw_value) # kvs) =
     (if raw_value = JNull then resolve_env_vars E kvs
      else bindE (expand_refs (pe_environ E) (python_str E raw_value)) (\<lambda>value.
           bindE (resolve_env_vars E kvs) (\<lambda>resolved. Inr ((key, value) # resolved))))"

text \<open>\<^verbatim>\<open>{**base, **overrides}\<close>\<close>

definition dict_merge :: "(string \<times> 'a) list \<Rightarrow> (string \<times> 'a) list \<Rightarrow> (string \<times> 'a) list" where
  "dict_merge base overrides = fold (\<lambda>(k, v). AList.update k v) overrides base"

subsection \<open>Pod operations\<close>

record pod_metadata =
  md_name :: "string option"
  md_env_overrides :: "(string \<times> json) list"
  md_cloud_type :: "cloud_config option"
  md_docker_args :: "string option"

definition client_now :: "('e client_env_scheme) \<Rightarrow> (client_world, datetime) prog" where
  "client_now E = (\<lambda>w. (Inr (ce_clock E (cw_tick w)), w\<lparr>cw_tick := Suc (cw_tick w)\<rparr>))"

definition profile_requirements :: "GPUProfile \<Rightarrow> CloudType \<Rightarrow> PlacementRequirements" where
  "profile_requirements profile cloud =
     \<lparr> pr_product = POD, pr_min_vram_gb = gp_min_vram_gb profile, pr_gpu_count = gp_gpu_count profile,
       pr_cloud = cloud, pr_min_cuda_version = gp_min_cuda_version profile,
       pr_max_cost_per_hr = gp_max_cost_per_hr profile, pr_allowed_gpu_ids = gp_allowed_gpu_ids profile,
       pr_allowed_gpu_pools = [], pr_allowed_data_center_ids = gp_allowed_data_center_ids profile,
       pr_minimum_availability = AV_LOW, pr_benchmark_id = Some (gp_task_type profile) \<rparr>"

definition text_or :: "string option \<Rightarrow> string \<Rightarrow> string" where
  "text_or x d = (case x of None \<Rightarrow> d | Some s \<Rightarrow> if s = [] then d else s)"

definition profile_mounts :: "GPUProfile \<Rightarrow> json option" where
  "profile_mounts profile =
     (if text_or (gp_network_volume_id profile) [] \<noteq> []
      then Some (JObj [(''network'', JList [JObj
             [(''volumeId'', JStr (text_or (gp_network_volume_id profile) [])),
              (''path'', JStr (text_or (gp_volume_mount_path profile) ''/runpod-volume''))]])])
      else if gp_volume_gb profile \<noteq> 0
      then Some (JObj [(''persistent'', JObj
             [(''size'', JInt (gp_volume_gb profile)),
              (''path'', JStr (text_or (gp_volume_mount_path profile) ''/workspace''))])])
      else None)"

definition profile_request :: "GPUProfile \<Rightarrow> pod_metadata \<Rightarrow> (string \<times> string) list
    \<Rightarrow> PlacementDecision \<Rightarrow> PodCreateRequest" where
  "profile_request profile metadata pod_env placement =
     \<lparr> pc_name = (case md_name metadata of None \<Rightarrow> ''kestrel-'' @ gp_id profile | Some n \<Rightarrow> n),
       pc_image = gp_image_name profile, pc_cloud = pd_cloud placement,
       pc_disk_gb = gp_container_disk_gb profile, pc_ports = gp_ports profile, pc_env = pod_env,
       pc_args = md_docker_args metadata, pc_registry_id = gp_registry_id profile,
       pc_data_center_ids = gp_allowed_data_center_ids profile, pc_mounts = profile_mounts profile,
       pc_global_networking = False, pc_gpu_id = pd_gpu_id placement,
       pc_gpu_count = pd_gpu_count placement,
       pc_min_cuda_version = pr_min_cuda_version (pd_requirements placement) \<rparr>"

text \<open>The result of a create is the raw Pod together with the placement (\<^verbatim>\<open>_kestrel_placement\<close>).\<close>

definition start_pod :: "provider_env \<Rightarrow> GPUProfile \<Rightarrow> pod_metadata
    \<Rightarrow> (client_world, json \<times> PlacementDecision) prog" where
  "start_pod E profile metadata =
     seqM (liftM (resolve_env_vars E (dict_merge (map (\<lambda>(k, v). (k, JStr v)) (gp_env profile))
             (md_env_overrides metadata)))) (\<lambda>pod_env.
     seqM (liftM (case cloud_from_config (case md_cloud_type metadata of
                 None \<Rightarrow> Config_cloud (gp_cloud profile) | Some c \<Rightarrow> c) of
               Inl e \<Rightarrow> Inl RunPodManagerError | Inr c \<Rightarrow> Inr c)) (\<lambda>cloud.
     let requirements = profile_requirements profile cloud in
     seqM (liftM (case requirements_post_init requirements of Some e \<Rightarrow> Inl e | None \<Rightarrow> Inr ())) (\<lambda>_.
     seqM (list_gpus (client_env.truncate E) True [POD] (pr_gpu_count requirements) (pr_cloud requirements)
             (pr_min_cuda_version requirements)) (\<lambda>offers.
     seqM (client_now E) (\<lambda>observed_at.
     seqM (liftM (select_gpu offers requirements observed_at)) (\<lambda>placement.
     let request = profile_request profile metadata pod_env placement in
     seqM (liftM (case pod_request_post_init request of Some e \<Rightarrow> Inl e | None \<Rightarrow> Inr ())) (\<lambda>_.
     seqM (create_pod_request (client_env.truncate E) (pod_request_payload request)) (\<lambda>pod.
     ret (po_raw pod, placement)))))))))"

definition get_status :: "provider_env \<Rightarrow> string \<Rightarrow> (client_world, json) prog" where
  "get_status E pod_id = seqM (get_pod (client_env.truncate E) pod_id) (\<lambda>pod. ret (po_raw pod))"

definition act_on_pod :: "provider_env \<Rightarrow> string \<Rightarrow> string \<Rightarrow> string \<Rightarrow> (client_world, json) prog" where
  "act_on_pod E action default_status pod_id =
     seqM (pod_action (client_env.truncate E) pod_id action) (\<lambda>pod.
     ret (case pod of None \<Rightarrow> JObj [(''id'', JStr pod_id), (''status'', JStr default_status)]
          | Some p \<Rightarrow> po_raw p))"

definition stop_pod :: "provider_env \<Rightarrow> string \<Rightarrow> (client_world, json) prog" where
  "stop_pod E = act_on_pod E ''stop'' ''EXITED''"

definition resume_pod :: "provider_env \<Rightarrow> string \<Rightarrow> int \<Rightarrow> (client_world, json) prog" where
  "resume_pod E pod_id gpu_count = act_on_pod E ''start'' ''STARTING'' pod_id"

definition terminate_pod :: "provider_env \<Rightarrow> string \<Rightarrow> (client_world, json) prog" where
  "terminate_pod E = act_on_pod E ''terminate'' ''TERMINATED''"

definition list_raw_pods :: "provider_env \<Rightarrow> (client_world, json list) prog" where
  "list_raw_pods E = seqM (list_pods (client_env.truncate E)) (\<lambda>pods. ret (map po_raw pods))"

end
