(* ===== verification/Pod_Billing.thy ===== *)
theory Pod_Billing
  imports Runpod_Providers
begin

text \<open>
  The exact Pod billing reader of \<^verbatim>\<open>pod_billing.py\<close>: the query for the closed hours of a Pod and the
  validation of the returned page against the requested coverage.
\<close>

section \<open>Definitions\<close>

definition amount_components :: "string list" where
  "amount_components = [''gpuAmount'', ''cpuAmount'', ''diskAmount'']"

definition amount_keys :: "string list" where
  "amount_keys = ''totalAmount'' # amount_components"

definition billing_keys :: "json \<Rightarrow> string list \<Rightarrow> py_error + unit" where
  "billing_keys v expected =
     (if \<not> is_jobj v \<or> set (jkeys v) \<noteq> set expected then Inl RunPodManagerError else Inr ())"

text \<open>A timestamp is a text in ISO format with an offset; \<open>read\<close> is \<^verbatim>\<open>datetime.fromisoformat\<close>.\<close>

definition billing_timestamp :: "(string \<Rightarrow> datetime option) \<Rightarrow> json \<Rightarrow> py_error + datetime" where
  "billing_timestamp read v =
     (case v of
        JStr s \<Rightarrow> (case read s of
            Some t \<Rightarrow> if is_aware t then Inr t else Inl RunPodManagerError
          | None \<Rightarrow> Inl RunPodManagerError)
      | JTime t \<Rightarrow> if is_aware t then Inr t else Inl RunPodManagerError
      | _ \<Rightarrow> Inl RunPodManagerError)"

text \<open>The number in a field of a JSON object, as \<^verbatim>\<open>Decimal(str(value))\<close> reads it.\<close>

definition raw_amount :: "json \<Rightarrow> string \<Rightarrow> decimal option" where
  "raw_amount v k = (case jget v k of JInt n \<Rightarrow> Some (Dec n 0) | JNum d \<Rightarrow> Some d | _ \<Rightarrow> None)"

record billed_hour =
  bh_start :: datetime
  bh_end :: datetime
  bh_amounts :: "(string \<times> decimal) list"

definition parse_record :: "(string \<Rightarrow> datetime option) \<Rightarrow> string \<Rightarrow> json \<Rightarrow> py_error + billed_hour" where
  "parse_record read pod_id row =
     bindE (billing_keys row ([''podId'', ''startTime'', ''endTime''] @ amount_keys)) (\<lambda>_.
     if jget row ''podId'' \<noteq> JStr pod_id then Inl RunPodManagerError
     else bindE (billing_timestamp read (jget row ''startTime'')) (\<lambda>start.
          bindE (billing_timestamp read (jget row ''endTime'')) (\<lambda>end_time.
          bindE (billing_amounts default_prec (raw_amount row) amount_components) (\<lambda>amounts.
          Inr \<lparr> bh_start = start, bh_end = end_time, bh_amounts = amounts \<rparr>))))"

definition amount_at :: "(string \<times> decimal) list \<Rightarrow> string \<Rightarrow> decimal" where
  "amount_at amounts k = (case map_of amounts k of Some d \<Rightarrow> d | None \<Rightarrow> Dec 0 0)"

text \<open>The sum of every amount over the records equals the total of the page.\<close>

definition totals_agree :: "billed_hour list \<Rightarrow> (string \<times> decimal) list \<Rightarrow> py_error + unit" where
  "totals_agree parsed totals =
     foldr (\<lambda>k rest. bindE (exact_decimal_sum default_prec (map (\<lambda>r. amount_at (bh_amounts r) k) parsed))
              (\<lambda>total. if total \<noteq> dval (amount_at totals k) then Inl RunPodManagerError else rest))
       amount_keys (Inr ())"

definition sorted_amount_keys :: "string list" where
  "sorted_amount_keys = [''cpuAmount'', ''diskAmount'', ''gpuAmount'', ''totalAmount'']"

definition normalized_row :: "string \<Rightarrow> billed_hour \<Rightarrow> py_error + json" where
  "normalized_row pod_id r =
     bindE (mapE (\<lambda>k. bindE (billing_identity_amount (amount_at (bh_amounts r) k)) (\<lambda>t. Inr (k, JStr t)))
              sorted_amount_keys) (\<lambda>entries.
     Inr (JObj ([(''podId'', JStr pod_id), (''startTime'', JTime (bh_start r)), (''endTime'', JTime (bh_end r))]
            @ entries)))"

text \<open>The walk over the records in the order of their start; the flag is \<^verbatim>\<open>incomplete\<close>.\<close>

fun hour_walk :: "string \<Rightarrow> datetime \<Rightarrow> datetime \<Rightarrow> datetime \<Rightarrow> bool \<Rightarrow> billed_hour list
    \<Rightarrow> py_error + json list \<times> datetime \<times> bool" where
  "hour_walk pod_id first until cursor incomplete [] = Inr ([], cursor, incomplete)"
| "hour_walk pod_id first until cursor incomplete (r # rs) =
     (if bh_start r < cursor \<or> bh_start r < first \<or> bh_end r \<le> bh_start r \<or> until < bh_end r
      then Inl RunPodManagerError
      else if floor_hour (usec (bh_start r)) \<noteq> usec (bh_start r) then Inl RunPodManagerError
      else if dt_add (bh_start r) hour < bh_end r then Inl RunPodManagerError
      else bindE (normalized_row pod_id r) (\<lambda>row.
           bindE (hour_walk pod_id first until (bh_end r)
                    (incomplete \<or> cursor < bh_start r \<or> bh_end r < dt_add (bh_start r) hour) rs)
             (\<lambda>(rows, cursor', incomplete'). Inr (row # rows, cursor', incomplete'))))"

definition query_echo :: "(string \<Rightarrow> datetime option) \<Rightarrow> string \<Rightarrow> datetime \<Rightarrow> datetime \<Rightarrow> json
    \<Rightarrow> py_error + unit" where
  "query_echo read pod_id first until query =
     (if jget query ''podId'' \<noteq> JStr pod_id \<or> jget query ''bucketSize'' \<noteq> JStr ''hour''
      then Inl RunPodManagerError
      else bindE (billing_timestamp read (jget query ''startTime'')) (\<lambda>start.
           if start \<noteq> first then Inl RunPodManagerError
           else bindE (billing_timestamp read (jget query ''endTime'')) (\<lambda>end_time.
                if end_time \<noteq> until then Inl RunPodManagerError else Inr ())))"

definition exact_hours :: "(string \<Rightarrow> datetime option) \<Rightarrow> string \<Rightarrow> datetime \<Rightarrow> datetime \<Rightarrow> BillingPage
    \<Rightarrow> py_error + json list option" where
  "exact_hours read pod_id first until page =
     (let metadata = bp_metadata page; query = jget metadata ''query''; totals = jget metadata ''totals'';
          records = bp_records page in
      bindE (billing_keys metadata [''query'', ''recordCount'', ''uniquePodCount'', ''totals'']) (\<lambda>_.
      bindE (billing_keys query [''startTime'', ''endTime'', ''bucketSize'', ''podId'']) (\<lambda>_.
      bindE (billing_keys totals amount_keys) (\<lambda>_.
      bindE (query_echo read pod_id first until query) (\<lambda>_.
      if jget metadata ''recordCount'' \<noteq> JInt (int (length records)) then Inl RunPodManagerError
      else if jget metadata ''uniquePodCount'' \<noteq> JInt (if records = [] then 0 else 1)
      then Inl RunPodManagerError
      else bindE (billing_amounts default_prec (raw_amount totals) amount_components) (\<lambda>expected_totals.
           bindE (mapE (parse_record read pod_id) records) (\<lambda>parsed.
           bindE (totals_agree parsed expected_totals) (\<lambda>_.
           bindE (hour_walk pod_id first until first (parsed = []) (sort_key bh_start parsed))
             (\<lambda>(rows, cursor, incomplete).
             if incomplete \<or> cursor < until then Inr None else Inr (Some rows))))))))))"

text \<open>
  The reader itself.  \<open>clock\<close> is the caller's clock; the thread that asks the provider is an
  owned effect.
\<close>

definition row_total :: "json \<Rightarrow> decimal" where
  "row_total row = (case jget row ''totalAmount'' of JStr s \<Rightarrow> decimal_of_text s | _ \<Rightarrow> NonFinite)"

definition billing_receipt :: "(json \<Rightarrow> string) \<Rightarrow> string \<Rightarrow> datetime \<Rightarrow> datetime \<Rightarrow> amount \<Rightarrow> json list
    \<Rightarrow> datetime \<Rightarrow> py_error + PodBillingReceipt" where
  "billing_receipt jsha pod_id first until rate rows reconciled_at =
     (let identity = JObj [(''source'', JStr ''runpod-v2-pod-billing''), (''pod_id'', JStr pod_id),
            (''hourly_price_usd'', JAmount rate), (''hours'', JList rows)] in
      bindE (exact_decimal_sum default_prec (map row_total rows)) (\<lambda>total.
      let receipt = \<lparr> pb_provider_billing_id = ''runpod-billing:'' @ jsha identity,
            pb_provider_pod_id = Some pod_id, pb_billed_from = first, pb_billed_until = until,
            pb_billed_seconds = (usec until - usec first) div 1000000, pb_hourly_price_usd = rate,
            pb_actual_cost_usd = Fin total, pb_reconciled_at = reconciled_at \<rparr>
      in case receipt_post_init receipt of Some e \<Rightarrow> Inl e | None \<Rightarrow> Inr receipt))"

definition owned :: "provider_env \<Rightarrow> (client_world, 'a) prog \<Rightarrow> (client_world, 'a) prog" where
  "owned E effect = seqM effect (\<lambda>x w.
     (if pe_cancelled E (cw_tick w) then Inl CancelledError else Inr x, w\<lparr>cw_tick := Suc (cw_tick w)\<rparr>))"

definition aware_clock :: "(client_world, datetime) prog \<Rightarrow> (client_world, datetime) prog" where
  "aware_clock clock = seqM clock (\<lambda>t. if is_aware t then ret t else raiseM ValueError)"

definition read_exact_pod_billing :: "provider_env \<Rightarrow> (client_world, datetime) prog \<Rightarrow> string
    \<Rightarrow> datetime \<Rightarrow> datetime \<Rightarrow> amount \<Rightarrow> (client_world, PodBillingReceipt option) prog" where
  "read_exact_pod_billing E clock pod_id created_at terminated_at rate =
     (if \<not> safe_identifier pod_id then raiseM ValueError
      else if \<not> finite_amount rate \<or> usd rate < 0 then raiseM ValueError
      else seqM (liftM (billing_hour_bounds created_at terminated_at)) (\<lambda>(first, until).
        seqM (aware_clock clock) (\<lambda>t.
        if t < until then ret None
        else seqM (owned E (pod_billing (client_env.truncate E) (Some first) (Some until) (Some ''hour'') None
                     (Some pod_id))) (\<lambda>page.
          seqM (liftM (exact_hours (pe_read_datetime E) pod_id first until page)) (\<lambda>rows.
          case rows of
            None \<Rightarrow> ret None
          | Some hours \<Rightarrow>
              seqM (aware_clock clock) (\<lambda>reconciled_at.
              seqM (liftM (billing_receipt (pe_jsha E) pod_id first until rate hours reconciled_at))
                (\<lambda>receipt. ret (Some receipt))))))))"

section \<open>An accepted page covers every hour once, and the total is the sum\<close>

definition consecutive_hours :: "datetime \<Rightarrow> nat \<Rightarrow> (datetime \<times> datetime) list" where
  "consecutive_hours first n =
     map (\<lambda>i. (dt_add first (int i * hour), dt_add first (int (Suc i) * hour))) [0..<n]"

lemma dt_add_zero [simp]: "dt_add t 0 = t"
  by (cases t) auto

lemma dt_add_add: "dt_add (dt_add t a) b = dt_add t (a + b)"
  by (cases t) auto

lemma consecutive_hours_Suc:
  "consecutive_hours t (Suc n) = (t, dt_add t hour) # consecutive_hours (dt_add t hour) n"
proof -
  have "[0..<Suc n] = 0 # map Suc [0..<n]" by (simp only: upt_conv_Cons map_Suc_upt)
  then show ?thesis by (simp add: consecutive_hours_def dt_add_add o_def algebra_simps)
qed

lemma bindE_Inr: "bindE r f = Inr y \<longleftrightarrow> (\<exists>x. r = Inr x \<and> f x = Inr y)"
  by (cases r) auto

lemma bindE_Inl: "bindE r f = Inl e \<longleftrightarrow> r = Inl e \<or> (\<exists>x. r = Inr x \<and> f x = Inl e)"
  by (cases r) auto

definition finite_amounts :: "billed_hour \<Rightarrow> bool" where
  "finite_amounts r \<longleftrightarrow> list_all (\<lambda>k. is_finite (amount_at (bh_amounts r) k)) amount_keys"

lemma identity_amount_finite: "is_finite v \<Longrightarrow> \<exists>t. billing_identity_amount v = Inr t"
  by (simp add: billing_identity_amount_def Let_def)

lemma normalized_row_ok:
  assumes "finite_amounts r"
  obtains row where "normalized_row pod_id r = Inr row" "jget row ''podId'' = JStr pod_id"
    "jget row ''startTime'' = JTime (bh_start r)" "jget row ''endTime'' = JTime (bh_end r)"
    "is_finite (row_total row)" "dval (row_total row) = dval (amount_at (bh_amounts r) ''totalAmount'')"
proof -
  have fin: "is_finite (amount_at (bh_amounts r) ''cpuAmount'')" "is_finite (amount_at (bh_amounts r) ''diskAmount'')"
      "is_finite (amount_at (bh_amounts r) ''gpuAmount'')" "is_finite (amount_at (bh_amounts r) ''totalAmount'')"
    using assms by (simp_all add: finite_amounts_def amount_keys_def amount_components_def)
  from fin [THEN identity_amount_finite] obtain a b c d where
    "billing_identity_amount (amount_at (bh_amounts r) ''cpuAmount'') = Inr a"
    "billing_identity_amount (amount_at (bh_amounts r) ''diskAmount'') = Inr b"
    "billing_identity_amount (amount_at (bh_amounts r) ''gpuAmount'') = Inr c"
    and d: "billing_identity_amount (amount_at (bh_amounts r) ''totalAmount'') = Inr d" by blast
  with identity_amount_value [OF fin(4) d] show thesis
    by (intro that) (auto simp: normalized_row_def sorted_amount_keys_def row_total_def)
qed

lemma hour_walk_ok:
  assumes "list_all finite_amounts rs"
  shows "case hour_walk pod_id first until cursor incomplete rs of
      Inl e \<Rightarrow> e = RunPodManagerError
    | Inr (rows, c, inc) \<Rightarrow> \<not> inc \<longrightarrow> \<not> incomplete
        \<and> map (\<lambda>r. (jget r ''startTime'', jget r ''endTime'')) rows
            = map (map_prod JTime JTime) (consecutive_hours cursor (length rs))
        \<and> c = dt_add cursor (int (length rs) * hour) \<and> (rs \<noteq> [] \<longrightarrow> c \<le> until)
        \<and> list_all (\<lambda>r. jget r ''podId'' = JStr pod_id \<and> is_finite (row_total r)) rows
        \<and> map (dval \<circ> row_total) rows = map (\<lambda>r. dval (amount_at (bh_amounts r) ''totalAmount'')) rs"
  using assms
proof (induction rs arbitrary: cursor incomplete)
  case (Cons r rs)
  obtain row where row: "normalized_row pod_id r = Inr row" "jget row ''podId'' = JStr pod_id"
    "jget row ''startTime'' = JTime (bh_start r)" "jget row ''endTime'' = JTime (bh_end r)"
    "is_finite (row_total row)" "dval (row_total row) = dval (amount_at (bh_amounts r) ''totalAmount'')"
    using Cons.prems by (auto elim: normalized_row_ok)
  let ?inc = "incomplete \<or> cursor < bh_start r \<or> bh_end r < dt_add (bh_start r) hour"
  have IH: "case hour_walk pod_id first until (bh_end r) ?inc rs of
      Inl e \<Rightarrow> e = RunPodManagerError
    | Inr (rows, c, inc) \<Rightarrow> \<not> inc \<longrightarrow> \<not> ?inc
        \<and> map (\<lambda>r. (jget r ''startTime'', jget r ''endTime'')) rows
            = map (map_prod JTime JTime) (consecutive_hours (bh_end r) (length rs))
        \<and> c = dt_add (bh_end r) (int (length rs) * hour) \<and> (rs \<noteq> [] \<longrightarrow> c \<le> until)
        \<and> list_all (\<lambda>r. jget r ''podId'' = JStr pod_id \<and> is_finite (row_total r)) rows
        \<and> map (dval \<circ> row_total) rows = map (\<lambda>r. dval (amount_at (bh_amounts r) ''totalAmount'')) rs"
    using Cons.prems by (intro Cons.IH) simp
  show ?case
  proof (cases "bh_start r < cursor \<or> bh_start r < first \<or> bh_end r \<le> bh_start r \<or> until < bh_end r
      \<or> floor_hour (usec (bh_start r)) \<noteq> usec (bh_start r) \<or> dt_add (bh_start r) hour < bh_end r")
    case True
    then show ?thesis by (simp only: hour_walk.simps) (auto split: if_splits)
  next
    case False
    then have walk: "hour_walk pod_id first until cursor incomplete (r # rs) =
        bindE (hour_walk pod_id first until (bh_end r) ?inc rs)
             (\<lambda>(rows, cursor', incomplete'). Inr (row # rows, cursor', incomplete'))"
      by (simp add: row)
    have eqs: "\<not> ?inc \<Longrightarrow> bh_start r = cursor \<and> bh_end r = dt_add cursor hour"
      using False by (metis not_less_iff_gr_or_eq)
    have shift: "dt_add (dt_add cursor hour) (int n * hour) = dt_add cursor (int (Suc n) * hour)" for n
      by (simp add: dt_add_add algebra_simps)
    show ?thesis
    proof (cases "hour_walk pod_id first until (bh_end r) ?inc rs")
      case (Inl e)
      with IH show ?thesis unfolding walk Inl by simp
    next
      case (Inr x)
      obtain rows c inc where x: "x = (rows, c, inc)" by (cases x) auto
      have le: "bh_end r \<le> until" using False by auto
      show ?thesis
      proof (cases inc)
        case True
        then show ?thesis unfolding walk Inr x by simp
      next
        case inc: False
        from IH inc have ih: "\<not> ?inc"
          "map (\<lambda>r. (jget r ''startTime'', jget r ''endTime'')) rows
            = map (map_prod JTime JTime) (consecutive_hours (bh_end r) (length rs))"
          "c = dt_add (bh_end r) (int (length rs) * hour)" "rs \<noteq> [] \<longrightarrow> c \<le> until"
          "list_all (\<lambda>r. jget r ''podId'' = JStr pod_id \<and> is_finite (row_total r)) rows"
          "map (dval \<circ> row_total) rows = map (\<lambda>r. dval (amount_at (bh_amounts r) ''totalAmount'')) rs"
          unfolding Inr x by auto
        note e = eqs [OF ih(1)]
        have "c \<le> until" using ih(3,4) le by (cases "rs = []") auto
        with ih e show ?thesis
          unfolding walk Inr x by (simp add: row consecutive_hours_Suc shift)
      qed
    qed
  qed
qed (simp add: consecutive_hours_def)

lemma sort_key_Nil_iff: "sort_key f xs = [] \<longleftrightarrow> xs = []"
  by (metis length_0_conv length_sort)

lemma mapE_Inr_length: "mapE f xs = Inr ys \<Longrightarrow> length ys = length xs"
  by (induction xs arbitrary: ys) (auto simp: bindE_Inr)

lemma mapE_Inr_all: "mapE f xs = Inr ys \<Longrightarrow> (\<And>x y. f x = Inr y \<Longrightarrow> P y) \<Longrightarrow> list_all P ys"
  by (induction xs arbitrary: ys) (auto simp: bindE_Inr)

lemma mapE_Inl: "mapE f xs = Inl e \<Longrightarrow> \<exists>x \<in> set xs. f x = Inl e"
  by (induction xs) (auto simp: bindE_Inl)

lemma billing_amounts_Inr:
  assumes "billing_amounts prec raw amount_components = Inr ams" "k \<in> set amount_keys"
  shows "is_finite (amount_at ams k)" "\<exists>v. raw k = Some v \<and> dval v = dval (amount_at ams k)"
proof -
  from assms(1) have p: "parse_amounts raw amount_keys = Inr ams"
    by (auto simp: billing_amounts_def amount_keys_def split: sum.splits if_splits)
  note * = parse_amounts_Inr [OF this]
  then have "k \<in> fst ` set ams" using assms(2) by (metis list.set_map)
  then obtain a where "map_of ams k = Some a" by (metis map_of_eq_None_iff not_Some_eq)
  with * map_of_SomeD [OF this] show "is_finite (amount_at ams k)" "\<exists>v. raw k = Some v \<and> dval v = dval (amount_at ams k)"
    by (auto simp: amount_at_def)
qed

lemma parse_amounts_error: "parse_amounts raw names = Inl e \<Longrightarrow> e = RunPodManagerError"
  by (induction names arbitrary: e)
    (auto simp: billing_identity_amount_def Let_def split: option.splits if_splits sum.splits)

lemma billing_amounts_error: "billing_amounts prec raw names = Inl e \<Longrightarrow> e = RunPodManagerError"
proof -
  assume a: "billing_amounts prec raw names = Inl e"
  show ?thesis
  proof (cases "parse_amounts raw (''totalAmount'' # names)")
    case (Inl e')
    with a parse_amounts_error [OF this] show ?thesis by (simp add: billing_amounts_def)
  next
    case (Inr ams)
    then have "\<forall>d \<in> set (map snd (tl ams)). is_finite d"
      using parse_amounts_Inr [OF Inr] by (auto dest: list.set_sel(2) [rotated])
    with a Inr show ?thesis
      by (auto simp: billing_amounts_def exact_decimal_sum_value split: if_splits)
  qed
qed

lemma billing_timestamp_error: "billing_timestamp read v = Inl e \<Longrightarrow> e = RunPodManagerError"
  by (auto simp: billing_timestamp_def split: json.splits option.splits if_splits)

lemma billing_keys_error: "billing_keys v ks = Inl e \<Longrightarrow> e = RunPodManagerError"
  by (auto simp: billing_keys_def split: if_splits)

lemma query_echo_error: "query_echo read p a b q = Inl e \<Longrightarrow> e = RunPodManagerError"
  by (auto simp: query_echo_def bindE_Inl dest: billing_timestamp_error split: if_splits)

lemma parse_record_error: "parse_record read p row = Inl e \<Longrightarrow> e = RunPodManagerError"
  by (auto simp: parse_record_def bindE_Inl split: if_splits
      dest: billing_timestamp_error billing_keys_error billing_amounts_error)

lemma parse_record_finite: "parse_record read p row = Inr r \<Longrightarrow> finite_amounts r"
  by (auto simp: parse_record_def bindE_Inr finite_amounts_def list_all_iff split: if_splits
      dest: billing_amounts_Inr)

text \<open>The comparison of one amount of the totals, for records whose amounts are finite.\<close>

lemma totals_agree_step:
  assumes "list_all finite_amounts parsed"
  shows "totals_agree parsed totals =
    (if \<forall>k \<in> set amount_keys. sum_list (map (\<lambda>r. dval (amount_at (bh_amounts r) k)) parsed) = dval (amount_at totals k)
     then Inr () else Inl RunPodManagerError)"
proof -
  have "exact_decimal_sum default_prec (map (\<lambda>r. amount_at (bh_amounts r) k) parsed)
      = Inr (sum_list (map (\<lambda>r. dval (amount_at (bh_amounts r) k)) parsed))" if "k \<in> set amount_keys" for k
    using assms that by (auto simp: exact_decimal_sum_value finite_amounts_def list_all_iff o_def)
  then show ?thesis
    by (simp add: totals_agree_def amount_keys_def amount_components_def)
qed

lemma exact_hours_cases:
  "case exact_hours read pod_id first until page of
     Inl e \<Rightarrow> e = RunPodManagerError
   | Inr None \<Rightarrow> True
   | Inr (Some rows) \<Rightarrow>
       rows \<noteq> [] \<and> length rows = length (bp_records page)
       \<and> map (\<lambda>r. (jget r ''startTime'', jget r ''endTime'')) rows
           = map (map_prod JTime JTime) (consecutive_hours first (length rows))
       \<and> until = dt_add first (int (length rows) * hour)
       \<and> list_all (\<lambda>r. jget r ''podId'' = JStr pod_id \<and> is_finite (row_total r)) rows
       \<and> (\<exists>t. raw_amount (jget (bp_metadata page) ''totals'') ''totalAmount'' = Some t
            \<and> dval t = sum_list (map (dval \<circ> row_total) rows))"
proof -
  let ?m = "bp_metadata page"
  let ?walk = "\<lambda>parsed. hour_walk pod_id first until first (parsed = []) (sort_key bh_start parsed)"
  have walk: "list_all finite_amounts parsed \<Longrightarrow> case ?walk parsed of
      Inl e \<Rightarrow> e = RunPodManagerError
    | Inr (rows, c, inc) \<Rightarrow> \<not> inc \<longrightarrow> parsed \<noteq> []
        \<and> map (\<lambda>r. (jget r ''startTime'', jget r ''endTime'')) rows
            = map (map_prod JTime JTime) (consecutive_hours first (length parsed))
        \<and> c = dt_add first (int (length parsed) * hour) \<and> (parsed \<noteq> [] \<longrightarrow> c \<le> until)
        \<and> list_all (\<lambda>r. jget r ''podId'' = JStr pod_id \<and> is_finite (row_total r)) rows
        \<and> map (dval \<circ> row_total) rows
            = map (\<lambda>r. dval (amount_at (bh_amounts r) ''totalAmount'')) (sort_key bh_start parsed)" for parsed
    using hour_walk_ok [where rs = "sort_key bh_start parsed" and pod_id = pod_id and first = first
        and until = until and cursor = first and incomplete = "parsed = []"]
    by (auto simp: list_all_iff sort_key_Nil_iff split: sum.splits)
  have perm: "sum_list (map f (sort_key bh_start xs)) = sum_list (map f xs)" for f :: "billed_hour \<Rightarrow> rat" and xs
    by (metis mset_map mset_sort sum_mset_sum_list)
  have fine: "mapE (parse_record read pod_id) (bp_records page) = Inr parsed \<Longrightarrow> list_all finite_amounts parsed" for parsed
    by (erule mapE_Inr_all) (rule parse_record_finite)
  have errors: "mapE (parse_record read pod_id) (bp_records page) = Inr parsed \<Longrightarrow>
      ?walk parsed = Inl e \<or> totals_agree parsed totals = Inl e \<Longrightarrow> e = RunPodManagerError" for parsed e totals
    using walk [OF fine, of parsed] by (auto simp: totals_agree_step [OF fine] split: if_splits)
  have errors0: "totals_agree [] totals = Inl e \<Longrightarrow> e = RunPodManagerError" for e totals
    by (auto simp: totals_agree_step split: if_splits)
  show ?thesis
  proof (cases "exact_hours read pod_id first until page")
    case (Inl e)
    then have "e = RunPodManagerError"
      unfolding exact_hours_def Let_def
      by (auto simp: bindE_Inl split: if_splits prod.splits dest: errors errors0
        dest!: billing_keys_error query_echo_error billing_amounts_error mapE_Inl parse_record_error)
    with Inl show ?thesis by simp
  next
    case (Inr x)
    show ?thesis
    proof (cases x)
      case (Some rows)
      from Inr [unfolded Some exact_hours_def Let_def bindE_Inr]
      obtain totals parsed c where
        totals: "billing_amounts default_prec (raw_amount (jget ?m ''totals'')) amount_components = Inr totals"
        and parsed: "mapE (parse_record read pod_id) (bp_records page) = Inr parsed"
        and agree: "totals_agree parsed totals = Inr ()"
        and w: "?walk parsed = Inr (rows, c, False)" "until \<le> c"
        by (auto simp: bindE_Inr split: if_splits)
      note fin = fine [OF parsed]
      have key: "''totalAmount'' \<in> set amount_keys" by (simp add: amount_keys_def)
      from walk [OF fin] w have rows: "parsed \<noteq> []"
        "map (\<lambda>r. (jget r ''startTime'', jget r ''endTime'')) rows
            = map (map_prod JTime JTime) (consecutive_hours first (length parsed))"
        "until = dt_add first (int (length parsed) * hour)"
        "list_all (\<lambda>r. jget r ''podId'' = JStr pod_id \<and> is_finite (row_total r)) rows"
        "map (dval \<circ> row_total) rows
            = map (\<lambda>r. dval (amount_at (bh_amounts r) ''totalAmount'')) (sort_key bh_start parsed)"
        by auto
      have len: "length rows = length parsed" "length parsed = length (bp_records page)"
        using arg_cong [OF rows(5), of length] mapE_Inr_length [OF parsed] by auto
      have "sum_list (map (dval \<circ> row_total) rows) = dval (amount_at totals ''totalAmount'')"
        using agree key unfolding totals_agree_step [OF fin] rows(5) perm by (auto split: if_splits)
      with billing_amounts_Inr(2) [OF totals key] rows len show ?thesis
        unfolding Inr Some by auto
    qed (simp add: Inr)
  qed
qed

lemma exact_hours_accepted:
  assumes "exact_hours read pod_id first until page = Inr (Some rows)"
  shows "list_all (\<lambda>r. jget r ''podId'' = JStr pod_id \<and> is_finite (row_total r)) rows
    \<and> (\<exists>t. raw_amount (jget (bp_metadata page) ''totals'') ''totalAmount'' = Some t
         \<and> dval t = sum_list (map (dval \<circ> row_total) rows))"
  using exact_hours_cases [where read = read and pod_id = pod_id and first = first and until = until
      and page = page] assms by simp

text \<open>
  The page reader \<^verbatim>\<open>_exact_hours\<close> accepts a page only if its records are the consecutive hours from
  the start of the window to its end, each once, all of the requested Pod, and the total that the
  provider states is the exact sum of the totals of the rows.  It fails only with
  \<^verbatim>\<open>RunPodManagerError\<close>.
\<close>

theorem exact_hours_cover:
  "case exact_hours read pod_id first until page of
     Inl e \<Rightarrow> e = RunPodManagerError
   | Inr None \<Rightarrow> True
   | Inr (Some rows) \<Rightarrow>
       rows \<noteq> [] \<and> length rows = length (bp_records page)
       \<and> map (\<lambda>r. (jget r ''startTime'', jget r ''endTime'')) rows
           = map (map_prod JTime JTime) (consecutive_hours first (length rows))
       \<and> until = dt_add first (int (length rows) * hour)
       \<and> list_all (\<lambda>r. jget r ''podId'' = JStr pod_id \<and> is_finite (row_total r)) rows
       \<and> (\<exists>t. raw_amount (jget (bp_metadata page) ''totals'') ''totalAmount'' = Some t
            \<and> dval t = sum_list (map (dval \<circ> row_total) rows))"
  by (rule exact_hours_cases)

lemma fst_seqM_Inr: "fst (seqM m f w) = Inr y \<longleftrightarrow> (\<exists>x w'. m w = (Inr x, w') \<and> fst (f x w') = Inr y)"
  by (auto simp: seqM_def split: prod.splits sum.splits)

lemma seqM_Inr: "seqM m f w = (Inr y, w2) \<longleftrightarrow> (\<exists>x w'. m w = (Inr x, w') \<and> f x w' = (Inr y, w2))"
  by (auto simp: seqM_def split: prod.splits sum.splits)

lemma billing_receipt_fields:
  assumes "billing_receipt jsha pod_id first until rate rows t = Inr receipt"
  shows "receipt_post_init receipt = None" "pb_billed_from receipt = first" "pb_billed_until receipt = until"
    "pb_provider_pod_id receipt = Some pod_id" "pb_hourly_price_usd receipt = rate"
    "list_all (\<lambda>r. is_finite (row_total r)) rows \<Longrightarrow>
       pb_actual_cost_usd receipt = Fin (sum_list (map (dval \<circ> row_total) rows))"
  using assms by (auto simp: billing_receipt_def Let_def bindE_Inr exact_decimal_sum_value list_all_iff o_def
      split: option.splits)

lemma truncate_send [simp]: "ce_send (client_env.truncate E) = ce_send E"
  by (simp add: client_env.truncate_def)

lemma pod_billingD:
  assumes "pod_billing E a b c d p w = (Inr page, w')"
  shows "\<exists>n q v. ce_send E n q = Api_reply 200 (Body_json v) \<and> billing_page_from_dict v = Inr page"
  using assms by (auto simp: pod_billing_def seqM_Inr liftM_def dest!: get_jsonD)


section \<open>A complete page\<close>

definition sample_amounts :: "int \<Rightarrow> (string \<times> json) list" where
  "sample_amounts cents = [(''totalAmount'', JNum (Dec cents (-2))), (''gpuAmount'', JNum (Dec cents (-2))),
     (''cpuAmount'', JInt 0), (''diskAmount'', JInt 0)]"

definition sample_row :: "int \<Rightarrow> json" where
  "sample_row i = JObj ([(''podId'', JStr ''pod-12345''), (''startTime'', JTime (Aware (i * hour))),
     (''endTime'', JTime (Aware ((i + 1) * hour)))] @ sample_amounts 69)"

definition sample_page :: "json list \<Rightarrow> BillingPage" where
  "sample_page rows = \<lparr> bp_records = rows,
     bp_metadata = JObj [(''query'', JObj [(''startTime'', JTime (Aware 0)), (''endTime'', JTime (Aware (2 * hour))),
         (''bucketSize'', JStr ''hour''), (''podId'', JStr ''pod-12345'')]),
       (''recordCount'', JInt (int (length rows))), (''uniquePodCount'', JInt (if rows = [] then 0 else 1)),
       (''totals'', JObj (sample_amounts (69 * int (length rows))))] \<rparr>"

lemma sample_page_complete:
  "map_sum id (map_option length) (exact_hours (\<lambda>_. None) ''pod-12345'' (Aware 0) (Aware (2 * hour))
     (sample_page [sample_row 1, sample_row 0])) = Inr (Some 2)"
  by code_simp

end
