(* ===== verification/Pod_Provider.thy ===== *)
theory Pod_Provider
  imports Pod_Billing
begin

text \<open>
  The REST adapter of \<^verbatim>\<open>pod_capacity_provider.py\<close>: quotes from the live catalog, observation and
  routes, create with the check of the realized Pod, recovery by name, stop and terminate.  Every operation is a
  program over the state of the control plane client; \<open>provider_of\<close> offers them to the lease
  service.
\<close>

section \<open>Definitions\<close>

subsection \<open>Threads and the clock\<close>

text \<open>
  \<^verbatim>\<open>asyncio.to_thread\<close> without ownership: a cancelled caller raises although the thread has run.
\<close>

definition threaded :: "provider_env \<Rightarrow> (client_world, 'a) prog \<Rightarrow> (client_world, 'a) prog" where
  "threaded E m = (\<lambda>w. case m w of (r, w') \<Rightarrow>
     (if pe_cancelled E (cw_tick w') then Inl CancelledError else r, w'\<lparr>cw_tick := Suc (cw_tick w')\<rparr>))"

definition provider_now :: "provider_env \<Rightarrow> (client_world, datetime) prog" where
  "provider_now E = aware_clock (client_now E)"

subsection \<open>Quotes\<close>

definition quote_identity :: "PodCapacityQuoteRequest \<Rightarrow> PlacementDecision \<Rightarrow> amount \<Rightarrow> amount \<Rightarrow> amount
    \<Rightarrow> datetime \<Rightarrow> json" where
  "quote_identity request placement hourly estimated cost_ceiling observed_at = JObj
     [(''capability_version'', JStr ''runpod-pod-capacity-v1''),
      (''workload_kind'', JStr (qr_workload_kind request)),
      (''parameters_sha256'', JStr (qr_parameters_sha256 request)),
      (''gpu_type_id'', JStr (pd_gpu_id placement)),
      (''gpu_display_name'', JStr (pd_gpu_name placement)),
      (''hourly_cost_usd'', JAmount hourly), (''estimated_cost_usd'', JAmount estimated),
      (''cost_ceiling_usd'', JAmount cost_ceiling),
      (''estimated_startup_seconds'', JInt (qr_estimated_startup_seconds request)),
      (''estimated_execution_seconds'', JInt (qr_estimated_execution_seconds request)),
      (''maximum_runtime_seconds'', JInt (qr_maximum_runtime_seconds request)),
      (''observed_at'', JTime observed_at), (''constraints'', constraints_to_dict (qr_constraints request))]"

definition quote_of :: "(json \<Rightarrow> string) \<Rightarrow> PodCapacityQuoteRequest \<Rightarrow> PlacementDecision \<Rightarrow> datetime
    \<Rightarrow> py_error + PodCapacityQuote" where
  "quote_of jsha request placement observed_at =
     (let hourly = pd_offered_cost_per_hr placement in
      bindE (pod_cost_usd hourly (qr_estimated_startup_seconds request + qr_estimated_execution_seconds request)
               (pd_gpu_count placement)) (\<lambda>estimated.
      bindE (pod_cost_usd hourly (qr_maximum_runtime_seconds request) (pd_gpu_count placement)) (\<lambda>cost_ceiling.
      let q = \<lparr> qt_schema_version = 3, qt_capability_version = ''runpod-pod-capacity-v1'',
            qt_provider_quote_id = ''runpod-pod:''
              @ jsha (quote_identity request placement hourly estimated cost_ceiling observed_at),
            qt_workload_kind = qr_workload_kind request,
            qt_parameters_sha256 = qr_parameters_sha256 request, qt_constraints = qr_constraints request,
            qt_gpu_type_id = pd_gpu_id placement, qt_gpu_display_name = pd_gpu_name placement,
            qt_hourly_cost_usd = hourly, qt_estimated_cost_usd = estimated, qt_cost_ceiling_usd = cost_ceiling,
            qt_estimated_startup_seconds = qr_estimated_startup_seconds request,
            qt_estimated_execution_seconds = qr_estimated_execution_seconds request,
            qt_maximum_runtime_seconds = qr_maximum_runtime_seconds request,
            qt_observed_at = observed_at,
            qt_expires_at = dt_add observed_at (seconds (qr_quote_ttl_seconds request)),
            qt_placement = placement \<rparr>
      in case quote_post_init q of Some e \<Rightarrow> Inl e | None \<Rightarrow> Inr q)))"

definition provider_quote :: "provider_env \<Rightarrow> PodCapacityQuoteRequest
    \<Rightarrow> (client_world, PodCapacityQuote) prog" where
  "provider_quote E request =
     (let requirements = placement_requirements (pe_to_float E) (qr_constraints request) in
      seqM (liftM (case requirements_post_init requirements of Some e \<Rightarrow> Inl e | None \<Rightarrow> Inr ())) (\<lambda>_.
      seqM (threaded E (list_gpus (client_env.truncate E) True [POD] (pr_gpu_count requirements)
              (pr_cloud requirements) (pr_min_cuda_version requirements))) (\<lambda>offers.
      seqM (provider_now E) (\<lambda>observed_at.
      seqM (liftM (select_gpu offers requirements observed_at)) (\<lambda>placement.
      liftM (quote_of (pe_jsha E) request placement observed_at))))))"

subsection \<open>Status and routes\<close>

definition status_of :: "json \<Rightarrow> string option" where
  "status_of raw = (case json_or (jget raw ''status'') (jget raw ''desiredStatus'') of
     JStr s \<Rightarrow> if s = [] then None else Some s | _ \<Rightarrow> None)"

text \<open>\<^verbatim>\<open>int(value)\<close> of a text or an integer that is not a boolean\<close>

definition int_of_json :: "json \<Rightarrow> int option" where
  "int_of_json v = (case v of JInt n \<Rightarrow> Some n | JStr s \<Rightarrow> python_int s | _ \<Rightarrow> None)"

definition int_text :: "int \<Rightarrow> string" where
  "int_text n = (if n < 0 then ''-'' @ nat_text (- n) else nat_text n)"

definition text_entry :: "provider_env \<Rightarrow> json \<Rightarrow> string \<Rightarrow> string" where
  "text_entry E v k = (if has_key v k then python_str E (jget v k) else [])"

text \<open>The result of one port entry: not this one, an error, or the route.\<close>

definition port_route :: "provider_env \<Rightarrow> string \<Rightarrow> GPUProfile \<Rightarrow> json \<Rightarrow> (py_error + string) option" where
  "port_route E pod_id profile item =
     (if \<not> is_jobj item
         \<or> int_of_json (json_or (jget item ''private'') (jget item ''privatePort''))
             \<noteq> Some (gp_inference_port profile)
      then None
      else if map lower_char (text_entry E item ''type'') = ''http''
      then Some (Inr (''https://'' @ pod_id @ ''-'' @ int_text (gp_inference_port profile)
                 @ ''.proxy.runpod.net''))
      else
        let public_port = json_or (jget item ''public'') (jget item ''publicPort'');
            protocol = strip_lower (gp_inference_protocol profile)
        in case jget item ''ip'' of
            JStr ip \<Rightarrow>
              (case public_port of
                 JInt n \<Rightarrow> Some (if protocol \<notin> {''http'', ''https''} then Inl RunPodManagerError
                              else Inr (protocol @ ''://'' @ ip @ '':'' @ int_text n))
               | JStr s \<Rightarrow> Some (if protocol \<notin> {''http'', ''https''} then Inl RunPodManagerError
                              else case python_int s of
                                  None \<Rightarrow> Inl ValueError
                                | Some n \<Rightarrow> Inr (protocol @ ''://'' @ ip @ '':'' @ int_text n))
               | _ \<Rightarrow> None)
          | _ \<Rightarrow> None)"

fun first_route :: "provider_env \<Rightarrow> string \<Rightarrow> GPUProfile \<Rightarrow> json list \<Rightarrow> py_error + string option" where
  "first_route E pod_id profile [] = Inr None"
| "first_route E pod_id profile (item # items) =
     (case port_route E pod_id profile item of
        None \<Rightarrow> first_route E pod_id profile items
      | Some (Inl e) \<Rightarrow> Inl e
      | Some (Inr url) \<Rightarrow> Inr (Some url))"

definition pod_base_url :: "provider_env \<Rightarrow> string \<Rightarrow> json \<Rightarrow> GPUProfile \<Rightarrow> py_error + string option" where
  "pod_base_url E pod_id payload profile =
     (let runtime = jget payload ''runtime'' in
      if \<not> is_jobj runtime then Inr None
      else case jget runtime ''ports'' of
          JList items \<Rightarrow> first_route E pod_id profile items
        | _ \<Rightarrow> Inr None)"

definition provider_observe :: "provider_env \<Rightarrow> string \<Rightarrow> GPUProfile
    \<Rightarrow> (client_world, TrainingPodObservation) prog" where
  "provider_observe E pod_id profile =
     seqM (threaded E (get_status E pod_id)) (\<lambda>raw.
     case status_of raw of
       None \<Rightarrow> raiseM RunPodManagerError
     | Some status \<Rightarrow> seqM (liftM (pod_base_url E pod_id raw profile)) (\<lambda>url.
         ret \<lparr> ob_provider_pod_id = pod_id, ob_status = status, ob_backend_base_url = url \<rparr>))"

definition provider_start :: "provider_env \<Rightarrow> string \<Rightarrow> int \<Rightarrow> (client_world, unit) prog" where
  "provider_start E pod_id gpu_count =
     seqM (owned E (resume_pod E pod_id gpu_count)) (\<lambda>_. ret ())"

subsection \<open>Validation of a created or recovered Pod\<close>

definition provider_decimal :: "json \<Rightarrow> py_error + amount" where
  "provider_decimal v =
     (case v of
        JInt n \<Rightarrow> if n < 0 then Inl RunPodManagerError else Inr (Fin (of_int n))
      | JNum d \<Rightarrow> if \<not> is_finite d \<or> dval d < 0 then Inl RunPodManagerError else Inr (Fin (dval d))
      | _ \<Rightarrow> Inl RunPodManagerError)"

definition validate_realized_placement :: "PlacementDecision \<Rightarrow> PodCapacitySpec \<Rightarrow> py_error + unit" where
  "validate_realized_placement placement spec =
     (let q = cr_quote (sp_request spec) in
      if pd_gpu_id placement \<noteq> qt_gpu_type_id q
         \<or> pd_gpu_count placement \<noteq> cn_gpu_count (qt_constraints q)
         \<or> pd_cloud placement \<noteq> cn_cloud (qt_constraints q)
         \<or> \<not> finite_amount (pd_offered_cost_per_hr placement)
         \<or> usd (qt_hourly_cost_usd q) < usd (pd_offered_cost_per_hr placement)
      then Inl RunPodManagerError else Inr ())"

definition validate_recovery_payload :: "json \<Rightarrow> string \<Rightarrow> PodCapacitySpec \<Rightarrow> py_error + unit" where
  "validate_recovery_payload payload resource_name spec =
     (let request = sp_request spec; constraints = qt_constraints (cr_quote request);
          gpu = jget payload ''gpu''; image = json_or (jget payload ''image'') (jget payload ''imageName'');
          gpu_count = (case int_of_json (jget gpu ''count'') of Some n \<Rightarrow> n | None \<Rightarrow> 0)
      in if \<not> is_jobj gpu then Inl RunPodManagerError
         else if jget payload ''name'' = JStr resource_name
           \<and> image = JStr (cr_image_reference request)
           \<and> jget gpu ''id'' = JStr (qt_gpu_type_id (cr_quote request))
           \<and> gpu_count = cn_gpu_count constraints
           \<and> jget payload ''cloud'' = JStr (cloud_value (cn_cloud constraints))
         then Inr () else Inl RunPodManagerError)"

definition cloud_of_value :: "string \<Rightarrow> CloudType option" where
  "cloud_of_value s = (if s = ''SECURE'' then Some SECURE else if s = ''COMMUNITY'' then Some COMMUNITY else None)"

definition realized_placement :: "provider_env \<Rightarrow> json \<Rightarrow> string \<Rightarrow> PodCapacitySpec \<Rightarrow> datetime
    \<Rightarrow> py_error + PodRealizedPlacement" where
  "realized_placement E payload pod_id spec observed_at =
     (let gpu = jget payload ''gpu''; q = cr_quote (sp_request spec) in
      if \<not> is_jobj gpu then Inl RunPodManagerError
      else case (int_of_json (jget gpu ''count''), jget payload ''dataCenterId'', jget payload ''cloud'') of
          (Some gpu_count, JStr data_center, JStr raw_cloud) \<Rightarrow>
            if \<not> nonblank data_center then Inl RunPodManagerError
            else (case cloud_of_value (upper raw_cloud) of
                None \<Rightarrow> Inl RunPodManagerError
              | Some cloud \<Rightarrow>
                  bindE (provider_decimal (jget payload ''cost'')) (\<lambda>rate.
                  let realized = \<lparr> rp_provider_pod_id = pod_id, rp_gpu_type_id = text_entry E gpu ''id'',
                        rp_gpu_display_name = qt_gpu_display_name q, rp_gpu_count = gpu_count,
                        rp_cloud = cloud, rp_data_center_id = data_center, rp_hourly_rate_usd = rate,
                        rp_observed_at = observed_at \<rparr>
                  in if realized_post_init realized = None \<and> validate_against realized q = None
                     then Inr realized else Inl RunPodManagerError))
        | _ \<Rightarrow> Inl RunPodManagerError)"

subsection \<open>Create\<close>

text \<open>The profile of a catalog attempt is taken from the accepted quote.\<close>

definition effective_profile :: "provider_env \<Rightarrow> GPUProfile \<Rightarrow> PodCapacitySpec \<Rightarrow> py_error + GPUProfile" where
  "effective_profile E profile spec =
     (let request = sp_request spec; q = cr_quote request; constraints = qt_constraints q in
      if text_or (gp_network_volume_id profile) [] \<noteq> [] \<or> gp_volume_gb profile \<noteq> 0
      then Inl RunPodManagerError
      else
        let p = profile\<lparr> gp_image_name := cr_image_reference request,
              gp_min_vram_gb := cn_min_vram_gb constraints,
              gp_min_cuda_version := cn_min_cuda_version constraints,
              gp_max_cost_per_hr := Some (pe_to_float E (qt_hourly_cost_usd q)),
              gp_gpu_count := cn_gpu_count constraints, gp_cloud := cn_cloud constraints,
              gp_allowed_gpu_ids := [qt_gpu_type_id q],
              gp_allowed_data_center_ids := cn_allowed_data_center_ids constraints, gp_env := [] \<rparr>
        in case gpu_profile_post_init p of Some e \<Rightarrow> Inl e | None \<Rightarrow> Inr p)"

definition mismatch_error :: "string \<Rightarrow> py_error" where
  "mismatch_error pod_id = (if nonblank pod_id then PodCapacityCreatedMismatchError pod_id else ValueError)"

definition accept_created :: "provider_env \<Rightarrow> string \<Rightarrow> PodCapacitySpec option \<Rightarrow> json
    \<Rightarrow> PlacementDecision \<Rightarrow> string \<Rightarrow> (client_world, PodRealizedPlacement option) prog" where
  "accept_created E resource_name capacity_spec result placement pod_id =
     (case capacity_spec of
        None \<Rightarrow> ret None
      | Some spec \<Rightarrow>
          tryM (seqM (liftM (validate_realized_placement placement spec)) (\<lambda>_.
                seqM (liftM (validate_recovery_payload result resource_name spec)) (\<lambda>_.
                seqM (provider_now E) (\<lambda>t.
                seqM (liftM (realized_placement E result pod_id spec t)) (\<lambda>realized.
                ret (Some realized))))))
            (\<lambda>e. raiseM (if is_manager_error e then mismatch_error pod_id else e)))"

definition pod_id_field :: "json \<Rightarrow> string option" where
  "pod_id_field v = (case v of JStr s \<Rightarrow> if s = [] then None else Some s | _ \<Rightarrow> None)"

definition provider_create :: "provider_env \<Rightarrow> GPUProfile \<Rightarrow> string \<Rightarrow> (string \<times> json) list option
    \<Rightarrow> PodCapacitySpec option \<Rightarrow> (client_world, CreatedTrainingPod) prog" where
  "provider_create E profile resource_name environment capacity_spec =
     seqM (liftM (case capacity_spec of None \<Rightarrow> Inr profile | Some spec \<Rightarrow> effective_profile E profile spec))
       (\<lambda>effective.
     let metadata = \<lparr> md_name = Some resource_name,
           md_env_overrides = (case environment of None \<Rightarrow> [] | Some e \<Rightarrow> e),
           md_cloud_type = None, md_docker_args = None \<rparr>
     in seqM (owned E (start_pod E effective metadata)) (\<lambda>(result, placement).
     case pod_id_field (json_or (jget result ''id'') (jget result ''podId'')) of
       None \<Rightarrow> raiseM RunPodAmbiguousResultError
     | Some pod_id \<Rightarrow>
         seqM (accept_created E resource_name capacity_spec result placement pod_id) (\<lambda>realized.
         ret \<lparr> cp_provider_pod_id = pod_id, cp_placement = Some placement,
               cp_realized_placement = realized \<rparr>)))"

subsection \<open>Recovery by name\<close>

definition named_pods :: "string \<Rightarrow> json list \<Rightarrow> json list" where
  "named_pods resource_name pods = filter (\<lambda>pod. jget pod ''name'' = JStr resource_name) pods"

definition provider_find_by_name :: "provider_env \<Rightarrow> string \<Rightarrow> (client_world, string option) prog" where
  "provider_find_by_name E resource_name =
     seqM (threaded E (list_raw_pods E)) (\<lambda>pods.
     case named_pods resource_name pods of
       [] \<Rightarrow> ret None
     | [pod] \<Rightarrow> (case pod_id_field (jget pod ''id'') of
          None \<Rightarrow> raiseM RunPodManagerError
        | Some pod_id \<Rightarrow> ret (Some pod_id))
     | _ \<Rightarrow> raiseM RunPodManagerError)"

definition provider_find_exact :: "provider_env \<Rightarrow> string \<Rightarrow> PodCapacitySpec
    \<Rightarrow> (client_world, CreatedTrainingPod option) prog" where
  "provider_find_exact E resource_name spec =
     seqM (threaded E (list_raw_pods E)) (\<lambda>pods.
     case named_pods resource_name pods of
       [] \<Rightarrow> ret None
     | [pod] \<Rightarrow>
         seqM (liftM (validate_recovery_payload pod resource_name spec)) (\<lambda>_.
         case pod_id_field (jget pod ''id'') of
           None \<Rightarrow> raiseM RunPodManagerError
         | Some pod_id \<Rightarrow>
             seqM (provider_now E) (\<lambda>t.
             seqM (liftM (realized_placement E pod pod_id spec t)) (\<lambda>realized.
             ret (Some \<lparr> cp_provider_pod_id = pod_id, cp_placement = None,
                         cp_realized_placement = Some realized \<rparr>))))
     | _ \<Rightarrow> raiseM RunPodManagerError)"

subsection \<open>Stop and terminate\<close>

text \<open>A Pod that the provider does not know is not billed.\<close>

definition unless_missing :: "(client_world, bool) prog \<Rightarrow> (client_world, bool) prog" where
  "unless_missing m = tryM m (\<lambda>e. if e = RunPodAPIError (Some 404) then ret True else raiseM e)"

definition status_in :: "json \<Rightarrow> string list \<Rightarrow> bool" where
  "status_in raw statuses = (case status_of raw of None \<Rightarrow> False | Some s \<Rightarrow> upper s \<in> set statuses)"

definition provider_stop :: "provider_env \<Rightarrow> string \<Rightarrow> (client_world, bool) prog" where
  "provider_stop E pod_id =
     try_elseM (owned E (stop_pod E pod_id))
       (\<lambda>e. if e = RunPodAPIError (Some 404) then ret True else raiseM e)
       (\<lambda>result.
         if status_in result [''EXITED'', ''STOPPED'', ''TERMINATED''] then ret True
         else unless_missing (seqM (threaded E (get_status E pod_id)) (\<lambda>raw.
           if status_of raw = None then raiseM RunPodManagerError
           else ret (status_in raw [''EXITED'', ''STOPPED'', ''TERMINATED'']))))"

definition provider_terminate :: "provider_env \<Rightarrow> string \<Rightarrow> (client_world, bool) prog" where
  "provider_terminate E pod_id =
     try_elseM (owned E (terminate_pod E pod_id))
       (\<lambda>e. if e = RunPodAPIError (Some 404) then ret True else raiseM e)
       (\<lambda>result.
         if status_in result [''TERMINATED''] then ret True
         else unless_missing (seqM (threaded E (get_status E pod_id)) (\<lambda>raw.
           ret (status_in raw [''TERMINATED'', ''EXITED'']))))"

definition provider_final_billing :: "provider_env \<Rightarrow> string \<Rightarrow> datetime \<Rightarrow> datetime \<Rightarrow> amount
    \<Rightarrow> (client_world, PodBillingReceipt option) prog" where
  "provider_final_billing E pod_id created_at terminated_at rate =
     read_exact_pod_billing E (provider_now E) pod_id created_at terminated_at rate"

subsection \<open>The provider as the lease service sees it\<close>

definition fresh_client :: "client_world" where
  "fresh_client = \<lparr> cw_tick = 0, cw_log = [] \<rparr>"

definition provider_of :: "(nat \<Rightarrow> provider_env) \<Rightarrow> capacity_provider" where
  "provider_of Es =
     \<lparr> pv_observe = (\<lambda>n pod_id profile. fst (provider_observe (Es n) pod_id profile fresh_client)),
       pv_start = (\<lambda>n pod_id gpu_count. fst (provider_start (Es n) pod_id gpu_count fresh_client)),
       pv_create = (\<lambda>n profile resource_name companion_id environment spec.
         fst (provider_create (Es n) profile resource_name environment spec fresh_client)),
       pv_find_by_name = (\<lambda>n resource_name. fst (provider_find_by_name (Es n) resource_name fresh_client)),
       pv_find_exact = (\<lambda>n resource_name spec.
         fst (provider_find_exact (Es n) resource_name spec fresh_client)),
       pv_stop = (\<lambda>n pod_id. fst (provider_stop (Es n) pod_id fresh_client)),
       pv_terminate = (\<lambda>n pod_id. fst (provider_terminate (Es n) pod_id fresh_client)),
       pv_final_billing = (\<lambda>n pod_id spec created_at terminated_at rate.
         fst (provider_final_billing (Es n) pod_id created_at terminated_at rate fresh_client)) \<rparr>"

section \<open>A create that fails for certain was never billed\<close>

text \<open>
  The lease service books a zero cost for a create whose error is neither ambiguous nor a mismatch
  (\<^verbatim>\<open>create_rejected\<close>).
\<close>

definition known_failure :: "py_error \<Rightarrow> bool" where
  "known_failure e \<longleftrightarrow> is_manager_error e \<and> e \<noteq> RunPodAmbiguousResultError
     \<and> (case e of PodCapacityCreatedMismatchError _ \<Rightarrow> False | _ \<Rightarrow> True)"

definition mutations :: "client_world \<Rightarrow> api_request list" where
  "mutations w = filter (\<lambda>q. \<not> safe_to_retry q) (cw_log w)"

text \<open>The provider answered a create with a status that is neither a success nor a server error.\<close>

definition refused :: "provider_env \<Rightarrow> api_request \<Rightarrow> bool" where
  "refused E q \<longleftrightarrow> (\<exists>n status body. ce_send E n q = Api_reply status body
     \<and> \<not> success_status status \<and> status < 500)"

text \<open>The HTTP library and the float conversion do not raise exceptions of the package.\<close>

definition library_exceptions_foreign :: "provider_env \<Rightarrow> bool" where
  "library_exceptions_foreign E \<longleftrightarrow>
     (\<forall>n q e. ce_send E n q = Api_raises e \<longrightarrow> \<not> is_manager_error e)
     \<and> (\<forall>d e. ce_float E d = Inl e \<longrightarrow> \<not> is_manager_error e)"

definition quiet :: "(client_world, 'a) prog \<Rightarrow> bool" where
  "quiet m \<longleftrightarrow> (\<forall>w. mutations (snd (m w)) = mutations w)"

definition certain_outcome :: "provider_env \<Rightarrow> api_request list \<Rightarrow> py_error + 'a \<Rightarrow> api_request list \<Rightarrow> bool" where
  "certain_outcome E before r after \<longleftrightarrow>
     (case r of
        Inl e \<Rightarrow> if after = before then True
          else \<exists>payload. after = before @ [create_request payload]
             \<and> (if known_failure e then refused E (create_request payload) else True)
      | Inr _ \<Rightarrow> \<exists>payload. after = before @ [create_request payload])"

definition certain :: "provider_env \<Rightarrow> (client_world, 'a) prog \<Rightarrow> bool" where
  "certain E m \<longleftrightarrow> (\<forall>w. certain_outcome E (mutations w) (fst (m w)) (mutations (snd (m w))))"

lemma quiet_ret [simp]: "quiet (ret x)" "quiet (raiseM e)" "quiet (liftM r)"
  by (simp_all add: quiet_def ret_def raiseM_def liftM_def)

lemma quiet_seq: "quiet m \<Longrightarrow> (\<And>x. quiet (f x)) \<Longrightarrow> quiet (seqM m f)"
  by (simp add: quiet_def seqM_def split: prod.splits sum.splits) (metis snd_conv)

lemma quiet_try: "quiet m \<Longrightarrow> (\<And>e. quiet (h e)) \<Longrightarrow> quiet (tryM m h)"
  by (simp add: quiet_def tryM_def split: prod.splits sum.splits) (metis snd_conv)

lemma quiet_tick: "quiet (\<lambda>w. (r w, w\<lparr>cw_tick := Suc (cw_tick w)\<rparr>))"
  by (simp add: quiet_def mutations_def)

lemma quiet_client_now: "quiet (client_now E)"
  unfolding client_now_def by (rule quiet_tick)

lemma quiet_aware_clock: "quiet m \<Longrightarrow> quiet (aware_clock m)"
  unfolding aware_clock_def by (rule quiet_seq) simp_all

lemma quiet_provider_now: "quiet (provider_now E)"
  unfolding provider_now_def by (intro quiet_aware_clock quiet_client_now)

lemma quiet_request_json: "safe_to_retry q \<Longrightarrow> quiet (request_json E q expected ambiguous)"
  unfolding quiet_def
proof
  fix w
  assume "safe_to_retry q"
  with request_attempts_log [of "ce_max_safe_retries E" q E expected ambiguous w]
  show "mutations (snd (request_json E q expected ambiguous w)) = mutations w"
    by (auto simp: mutations_def request_json_world)
qed

lemma quiet_get_json: "quiet (get_json E resource params)"
  unfolding get_json_def
  by (intro quiet_seq quiet_request_json) (simp_all add: safe_to_retry_def safe_methods_def)

lemma quiet_list_gpus: "quiet (list_gpus E a products n cloud cuda)"
  unfolding list_gpus_def by (auto intro!: quiet_seq quiet_get_json)

lemma certain_quiet_seq:
  assumes m: "quiet m" and f: "\<And>x. certain E (f x)"
  shows "certain E (seqM m f)"
  unfolding certain_def
proof
  fix w
  obtain r w1 where run: "m w = (r, w1)" by (cases "m w")
  with m have q: "mutations w1 = mutations w" by (metis quiet_def snd_conv)
  show "certain_outcome E (mutations w) (fst (seqM m f w)) (mutations (snd (seqM m f w)))"
  proof (cases r)
    case (Inl e)
    with run q show ?thesis by (simp add: seqM_def certain_outcome_def)
  next
    case (Inr x)
    have "certain_outcome E (mutations w1) (fst (f x w1)) (mutations (snd (f x w1)))"
      using f [of x] by (simp add: certain_def)
    with run q Inr show ?thesis by (simp add: seqM_def)
  qed
qed

text \<open>After the create only errors that are not known failures are raised, and nothing is sent.\<close>

definition after_create :: "(client_world, 'a) prog \<Rightarrow> bool" where
  "after_create m \<longleftrightarrow> quiet m \<and> (\<forall>w e. fst (m w) = Inl e \<longrightarrow> \<not> known_failure e)"

lemma certain_seq:
  assumes m: "certain E m" and f: "\<And>x. after_create (f x)"
  shows "certain E (seqM m f)"
  unfolding certain_def
proof
  fix w
  obtain r w1 where run: "m w = (r, w1)" by (cases "m w")
  from m have c: "certain_outcome E (mutations w) r (mutations w1)"
    using run by (metis certain_def fst_conv snd_conv)
  show "certain_outcome E (mutations w) (fst (seqM m f w)) (mutations (snd (seqM m f w)))"
  proof (cases r)
    case (Inl e)
    with run c show ?thesis by (simp add: seqM_def certain_outcome_def)
  next
    case (Inr x)
    from f [of x] have q: "mutations (snd (f x w1)) = mutations w1"
        "\<And>e. fst (f x w1) = Inl e \<Longrightarrow> \<not> known_failure e"
      by (auto simp: after_create_def quiet_def)
    from c Inr obtain payload where "mutations w1 = mutations w @ [create_request payload]"
      by (auto simp: certain_outcome_def)
    with run q Inr show ?thesis
      by (cases "fst (f x w1)") (auto simp: seqM_def certain_outcome_def)
  qed
qed

lemma refusedI: "ce_send E n q = Api_reply status body \<Longrightarrow> \<not> success_status status \<Longrightarrow> status < 500 \<Longrightarrow> refused E q"
  by (auto simp: refused_def)

lemma certain_create:
  assumes "library_exceptions_foreign E"
  shows "certain E (create_pod_request (client_env.truncate E) body)"
  unfolding certain_def
proof
  fix w
  show "certain_outcome E (mutations w) (fst (create_pod_request (client_env.truncate E) body w))
      (mutations (snd (create_pod_request (client_env.truncate E) body w)))"
  proof (cases body)
    case (Inl e)
    then show ?thesis by (simp add: create_pod_request_def seqM_def liftM_def certain_outcome_def)
  next
    case (Inr payload)
    let ?q = "create_request payload"
    let ?reply = "ce_send E (cw_tick w) ?q"
    have known: "known_failure e \<Longrightarrow> refused E ?q"
      if e: "fst (create_pod_request (client_env.truncate E) (Inr payload) w) = Inl e" for e
      using e assms
      by (auto simp: create_pod_request_sent library_exceptions_foreign_def known_failure_def failure_def
          intro: refusedI split: api_reply.splits api_body.splits sum.splits if_splits)
    then show ?thesis
      by (auto simp: Inr create_pod_request_sent certain_outcome_def mutations_def create_request_unsafe
          split: sum.splits)
  qed
qed

lemma after_create_owned:
  assumes "certain E m"
  shows "certain E (owned E m)"
  unfolding owned_def
proof (rule certain_seq [OF assms])
  show "after_create (\<lambda>w. (if pe_cancelled E (cw_tick w) then Inl CancelledError else Inr x,
      w\<lparr>cw_tick := Suc (cw_tick w)\<rparr>))" for x
    unfolding after_create_def by (intro conjI quiet_tick) (auto simp: known_failure_def)
qed

lemma certain_start_pod:
  assumes "library_exceptions_foreign E"
  shows "certain E (start_pod E profile metadata)"
proof -
  have create_then: "certain E (seqM (create_pod_request (client_env.truncate E) body) (\<lambda>pod. ret (po_raw pod, placement)))"
    for body placement
    by (rule certain_seq [OF certain_create [OF assms]]) (simp add: after_create_def ret_def quiet_def)
  show ?thesis
    unfolding start_pod_def Let_def
    by (rule create_then certain_quiet_seq quiet_ret quiet_list_gpus quiet_client_now)+
qed

lemma accept_created_error:
  assumes "accept_created E name spec result placement pod_id w = (Inl e, w')"
  shows "\<not> known_failure e"
proof (cases spec)
  case (Some s)
  have "e = mismatch_error pod_id \<or> \<not> is_manager_error e"
    using assms by (auto simp: accept_created_def Some tryM_def raiseM_def split: prod.splits sum.splits if_splits)
  then show ?thesis by (auto simp: known_failure_def mismatch_error_def split: if_splits)
qed (use assms in \<open>simp add: accept_created_def ret_def\<close>)

lemma quiet_accept_created: "quiet (accept_created E name spec result placement pod_id)"
  by (cases spec) (auto simp: accept_created_def intro!: quiet_try quiet_seq quiet_provider_now)

text \<open>
  C33.  A create of the REST adapter sends at most one create request and no other change.
  When it fails with an error that the lease service books as a create that never happened (neither an ambiguous
  result nor a mismatch of the created Pod), then either nothing was sent, or the provider refused that request with a status that is neither a
  success nor a server error.  A returned Pod has its create request in the log.
\<close>

theorem provider_create_certain:
  assumes "library_exceptions_foreign E"
  shows "case provider_create E profile name environment spec w of
      (Inl e, w') \<Rightarrow> if mutations w' = mutations w then True
        else \<exists>payload. mutations w' = mutations w @ [create_request payload]
          \<and> (if known_failure e then refused E (create_request payload) else True)
    | (Inr pod, w') \<Rightarrow> \<exists>payload. mutations w' = mutations w @ [create_request payload]"
proof -
  have "after_create (case x of (result, placement) \<Rightarrow>
      (case pod_id_field (json_or (jget result ''id'') (jget result ''podId'')) of
         None \<Rightarrow> raiseM RunPodAmbiguousResultError
       | Some pod_id \<Rightarrow> seqM (accept_created E name spec result placement pod_id) (\<lambda>realized.
           ret \<lparr> cp_provider_pod_id = pod_id, cp_placement = Some placement,
                 cp_realized_placement = realized \<rparr>)))" for x
    by (auto simp: after_create_def intro!: quiet_seq quiet_accept_created split: prod.splits option.splits)
      (auto simp: raiseM_def seqM_def ret_def known_failure_def[of RunPodAmbiguousResultError]
        split: prod.splits sum.splits dest: accept_created_error)
  then have "certain E (provider_create E profile name environment spec)"
    unfolding provider_create_def Let_def
    by (intro certain_quiet_seq quiet_ret certain_seq after_create_owned certain_start_pod assms)
  then have "certain_outcome E (mutations w) (fst (provider_create E profile name environment spec w))
      (mutations (snd (provider_create E profile name environment spec w)))"
    by (simp add: certain_def)
  then show ?thesis
    by (cases "provider_create E profile name environment spec w")
      (auto simp: certain_outcome_def split: sum.splits)
qed

definition refusing_env :: provider_env where
  "refusing_env = \<lparr> ce_send = (\<lambda>n q. if n = 0 then Api_raises ValueError else Api_reply 400 Body_empty),
     ce_clock = (\<lambda>n. Aware (int n)), ce_float = (\<lambda>n. Inr (Fin (of_int n))), ce_max_safe_retries = 1,
     ce_max_inventory_pages = 1, pe_environ = (\<lambda>_. None), pe_str = (\<lambda>_. []), pe_to_float = id,
     pe_jsha = (\<lambda>_. []), pe_read_datetime = (\<lambda>_. None), pe_cancelled = (\<lambda>_. False) \<rparr>"

lemma refusing_env_foreign: "library_exceptions_foreign refusing_env"
  by (simp add: library_exceptions_foreign_def refusing_env_def)

theorem provider_create_certain_witness:
  "\<forall>profile name environment spec w. case provider_create refusing_env profile name environment spec w of
      (Inl e, w') \<Rightarrow> if mutations w' = mutations w then True
        else \<exists>payload. mutations w' = mutations w @ [create_request payload]
          \<and> (if known_failure e then refused refusing_env (create_request payload) else True)
    | (Inr pod, w') \<Rightarrow> \<exists>payload. mutations w' = mutations w @ [create_request payload]"
  by (intro allI provider_create_certain refusing_env_foreign)

section \<open>Recovery finds exactly one Pod of a complete inventory\<close>

lemma threaded_Inr: "threaded E m w = (Inr x, w') \<Longrightarrow> \<exists>w1. m w = (Inr x, w1)"
  by (auto simp: threaded_def split: prod.splits if_splits)

lemma realized_placement_valid:
  "realized_placement E payload pod_id spec t = Inr realized \<Longrightarrow>
     rp_provider_pod_id realized = pod_id \<and> realized_post_init realized = None
     \<and> validate_against realized (cr_quote (sp_request spec)) = None"
  by (auto simp: realized_placement_def Let_def bindE_Inr split: if_splits json.splits option.splits)

lemma validate_recovery_payload_ok:
  "validate_recovery_payload payload name spec = Inr u \<Longrightarrow>
     jget payload ''name'' = JStr name
     \<and> json_or (jget payload ''image'') (jget payload ''imageName'') = JStr (cr_image_reference (sp_request spec))
     \<and> jget (jget payload ''gpu'') ''id'' = JStr (qt_gpu_type_id (cr_quote (sp_request spec)))"
  by (auto simp: validate_recovery_payload_def Let_def split: if_splits)

lemma pod_id_field_Some: "pod_id_field v = Some s \<Longrightarrow> v = JStr s"
  by (auto simp: pod_id_field_def split: json.splits if_splits)

text \<open>
  C34.  \<^verbatim>\<open>find_exact\<close> recovers a Pod only when the complete inventory has exactly one Pod of the resource name,
  and that Pod carries the image, GPU, count and cloud of the accepted request, a valid
  realized placement within the quote, and the returned identity.  It answers that there is none only when no Pod of the
  inventory has the name.
\<close>

theorem find_exact_is_unique:
  "case fst (provider_find_exact E resource_name spec w) of
     Inl e \<Rightarrow> True
   | Inr None \<Rightarrow> \<exists>pods w'. list_raw_pods E w = (Inr pods, w') \<and> named_pods resource_name pods = []
   | Inr (Some created) \<Rightarrow> \<exists>pods w' pod realized.
       list_raw_pods E w = (Inr pods, w') \<and> named_pods resource_name pods = [pod]
       \<and> jget pod ''id'' = JStr (cp_provider_pod_id created)
       \<and> json_or (jget pod ''image'') (jget pod ''imageName'') = JStr (cr_image_reference (sp_request spec))
       \<and> jget (jget pod ''gpu'') ''id'' = JStr (qt_gpu_type_id (cr_quote (sp_request spec)))
       \<and> cp_realized_placement created = Some realized
       \<and> rp_provider_pod_id realized = cp_provider_pod_id created
       \<and> realized_post_init realized = None
       \<and> validate_against realized (cr_quote (sp_request spec)) = None"
proof (cases "threaded E (list_raw_pods E) w")
  case (Pair r w1)
  show ?thesis
  proof (cases r)
    case (Inl e)
    with Pair show ?thesis by (simp add: provider_find_exact_def seqM_def)
  next
    case (Inr pods)
    with Pair obtain w2 where listed: "list_raw_pods E w = (Inr pods, w2)"
      using threaded_Inr by metis
    have run: "provider_find_exact E resource_name spec w =
        (case named_pods resource_name pods of
           [] \<Rightarrow> ret None
         | [pod] \<Rightarrow> seqM (liftM (validate_recovery_payload pod resource_name spec)) (\<lambda>_.
             case pod_id_field (jget pod ''id'') of
               None \<Rightarrow> raiseM RunPodManagerError
             | Some pod_id \<Rightarrow>
                 seqM (provider_now E) (\<lambda>t.
                 seqM (liftM (realized_placement E pod pod_id spec t)) (\<lambda>realized.
                 ret (Some \<lparr> cp_provider_pod_id = pod_id, cp_placement = None,
                             cp_realized_placement = Some realized \<rparr>))))
         | _ \<Rightarrow> raiseM RunPodManagerError) w1"
      using Pair Inr by (simp add: provider_find_exact_def seqM_def)
    show ?thesis
    proof (cases "named_pods resource_name pods")
      case Nil
      with listed show ?thesis by (simp add: run ret_def)
    next
      case (Cons pod rest)
      show ?thesis
      proof (cases rest)
        case Nil
        with Cons listed show ?thesis
          by (auto simp: run seqM_def liftM_def ret_def raiseM_def split: sum.splits option.splits prod.splits
              dest!: realized_placement_valid validate_recovery_payload_ok pod_id_field_Some)
      qed (simp add: run Cons raiseM_def)
    qed
  qed
qed

section \<open>Stopped or terminated only on the provider's word\<close>

definition pod_query :: "string \<Rightarrow> api_request" where
  "pod_query pod_id = \<lparr> ar_method = ''GET'', ar_resource = ''/pods/'' @ quote_segment pod_id,
     ar_params = [], ar_body = None \<rparr>"

definition pod_command :: "string \<Rightarrow> string \<Rightarrow> api_request" where
  "pod_command pod_id action = post (''/pods/'' @ quote_segment pod_id @ ''/action'')
     (Some (JObj [(''action'', JStr action)]))"

text \<open>
  The provider said of this Pod that it does not exist, or that the command was carried out (an empty answer), or
  reported one of the given states.
\<close>

definition carried_out :: "provider_env \<Rightarrow> api_request \<Rightarrow> bool" where
  "carried_out E q \<longleftrightarrow> (\<exists>n status body. ce_send E n q = Api_reply status body
     \<and> (status = 204 \<or> status = 200 \<and> body = Body_empty))"

definition confirmed :: "provider_env \<Rightarrow> string \<Rightarrow> string \<Rightarrow> string list \<Rightarrow> bool" where
  "confirmed E pod_id action statuses \<longleftrightarrow>
     (\<exists>n q body. q \<in> {pod_query pod_id, pod_command pod_id action} \<and> ce_send E n q = Api_reply 404 body)
     \<or> carried_out E (pod_command pod_id action)
     \<or> (\<exists>n q v. q \<in> {pod_query pod_id, pod_command pod_id action}
          \<and> ce_send E n q = Api_reply 200 (Body_json v) \<and> status_in (sanitize_resource_payload v) statuses)"

lemma carried_outI:
  "ce_send E n q = Api_reply 204 body \<Longrightarrow> carried_out E q"
  "ce_send E n q = Api_reply 200 Body_empty \<Longrightarrow> carried_out E q"
  by (auto simp: carried_out_def)

lemma request_json_cases:
  "case fst (request_json E q expected ambiguous w) of
     Inr None \<Rightarrow> \<exists>n status body. ce_send E n q = Api_reply status body \<and> status \<in> set expected
        \<and> (status = 204 \<or> body = Body_empty)
   | Inr (Some v) \<Rightarrow> \<exists>n status. ce_send E n q = Api_reply status (Body_json v) \<and> status \<in> set expected
        \<and> status \<noteq> 204
   | Inl e \<Rightarrow> (\<exists>n. ce_send E n q = Api_raises e) \<or> e = RunPodAmbiguousResultError \<or> e = RunPodAPIError None
        \<or> (\<exists>n status body. ce_send E n q = Api_reply status body \<and> e = RunPodAPIError (Some status))"
proof -
  let ?r = "fst (request_attempts (ce_max_safe_retries E) E q expected ambiguous w)"
  obtain n where n: "judge expected ambiguous (ce_send E n q) = Final ?r
      \<or> (\<exists>e. judge expected ambiguous (ce_send E n q) = Retryable e \<and> ?r = Inl e)"
    using request_attempts_verdict by blast
  show ?thesis
  proof (cases ?r)
    case (Inl e)
    then have "fst (request_json E q expected ambiguous w) = Inl e"
      by (auto simp: request_json_def seqM_def split: prod.splits)
    with n Inl show ?thesis
      by (auto simp: judge_def failure_def split: api_reply.splits if_splits)
  next
    case (Inr sb)
    obtain status body where sb: "sb = (status, body)" by (cases sb)
    from n Inr sb have "ce_send E n q = Api_reply status body" "status \<in> set expected"
      by (auto simp: judge_def split: api_reply.splits if_splits)
    moreover have "fst (request_json E q expected ambiguous w) =
       (if status = 204 then Inr None else case body of
         Body_empty \<Rightarrow> Inr None
       | Body_json v \<Rightarrow> if is_jobj v then Inr (Some v)
           else Inl (if ambiguous then RunPodAmbiguousResultError else RunPodAPIError (Some status))
       | Body_invalid \<Rightarrow> Inl (if ambiguous then RunPodAmbiguousResultError else RunPodAPIError (Some status)))"
      using Inr sb by (auto simp: request_json_def seqM_def ret_def raiseM_def split: prod.splits api_body.splits)
    ultimately show ?thesis by (cases body) (auto split: if_splits)
  qed
qed

lemma pod_from_dict_error_kinds: "pod_from_dict fl v = Inl e \<Longrightarrow> e = RunPodManagerError \<or> (\<exists>n. fl n = Inl e)"
  unfolding pod_from_dict_def bindE_def Let_def
  by (auto dest!: field_errors optional_number_errors split: sum.splits if_splits)

lemma pod_from_dict_raw: "pod_from_dict fl v = Inr p \<Longrightarrow> po_raw p = sanitize_resource_payload v"
  unfolding pod_from_dict_def bindE_def Let_def
  by (auto split: sum.splits if_splits)

lemma not_found_send:
  assumes "library_exceptions_foreign E"
    "fst (request_json (client_env.truncate E) q expected ambiguous w) = Inl (RunPodAPIError (Some 404))"
  shows "\<exists>n body. ce_send E n q = Api_reply 404 body"
  using request_json_cases [of "client_env.truncate E" q expected ambiguous w] assms
  by (fastforce simp: library_exceptions_foreign_def)

lemma get_status_run:
  "fst (get_status E pod_id w) =
     (if pod_id = [] then Inl ValueError
      else bindE (fst (request_json (client_env.truncate E) (pod_query pod_id) [200] False w)) (\<lambda>reply.
           bindE (required_payload reply) (\<lambda>v.
           bindE (pod_from_dict (ce_float (client_env.truncate E)) v) (\<lambda>p. Inr (po_raw p)))))"
  by (auto simp: get_status_def get_pod_def get_json_def segment_def pod_query_def seqM_def liftM_def ret_def
      bindE_def split: prod.splits sum.splits)

lemma act_on_pod_run:
  assumes "action \<in> {''start'', ''stop'', ''restart'', ''terminate''}"
  shows "fst (act_on_pod E action default_status pod_id w) =
     (if pod_id = [] then Inl ValueError
      else bindE (fst (request_json (client_env.truncate E) (pod_command pod_id action) [200, 204] True w)) (\<lambda>reply.
           case reply of
             None \<Rightarrow> Inr (JObj [(''id'', JStr pod_id), (''status'', JStr default_status)])
           | Some v \<Rightarrow> bindE (pod_from_dict (ce_float (client_env.truncate E)) v) (\<lambda>p. Inr (po_raw p))))"
  using assms
  by (auto simp: act_on_pod_def pod_action_def segment_def pod_command_def seqM_def liftM_def ret_def
      bindE_def split: prod.splits sum.splits option.splits)

lemma truncate_float [simp]: "ce_float (client_env.truncate E) = ce_float E"
  by (simp add: client_env.truncate_def)

lemma foreign_not_404:
  assumes "library_exceptions_foreign E"
  shows "pod_from_dict (ce_float E) v \<noteq> Inl (RunPodAPIError s)"
  using assms pod_from_dict_error_kinds [of "ce_float E" v "RunPodAPIError s"]
  by (fastforce simp: library_exceptions_foreign_def)

lemma get_status_cases:
  assumes "library_exceptions_foreign E"
  shows "case fst (get_status E pod_id w) of
      Inr raw \<Rightarrow> \<exists>n v. ce_send E n (pod_query pod_id) = Api_reply 200 (Body_json v)
        \<and> raw = sanitize_resource_payload v
    | Inl e \<Rightarrow> if e = RunPodAPIError (Some 404)
        then \<exists>n body. ce_send E n (pod_query pod_id) = Api_reply 404 body else True"
proof (cases "fst (request_json (client_env.truncate E) (pod_query pod_id) [200] False w)")
  case (Inl e)
  with not_found_send [OF assms, of "pod_query pod_id" "[200]" False w] show ?thesis
    by (auto simp: get_status_run)
next
  case (Inr reply)
  with request_json_cases [of "client_env.truncate E" "pod_query pod_id" "[200]" False w]
  show ?thesis
    by (cases reply)
      (auto simp: get_status_run required_payload_def foreign_not_404 [OF assms] bindE_def
        dest: pod_from_dict_raw split: sum.splits option.splits)
qed

lemma act_on_pod_cases:
  assumes "library_exceptions_foreign E" "action \<in> {''start'', ''stop'', ''restart'', ''terminate''}"
  shows "case fst (act_on_pod E action default_status pod_id w) of
      Inr raw \<Rightarrow> (\<exists>n v. ce_send E n (pod_command pod_id action) = Api_reply 200 (Body_json v)
          \<and> raw = sanitize_resource_payload v)
        \<or> carried_out E (pod_command pod_id action)
    | Inl e \<Rightarrow> if e = RunPodAPIError (Some 404)
        then \<exists>n body. ce_send E n (pod_command pod_id action) = Api_reply 404 body else True"
proof (cases "fst (request_json (client_env.truncate E) (pod_command pod_id action) [200, 204] True w)")
  case (Inl e)
  with not_found_send [OF assms(1), of "pod_command pod_id action" "[200, 204]" True w] show ?thesis
    by (auto simp: act_on_pod_run [OF assms(2)])
next
  case (Inr reply)
  with request_json_cases [of "client_env.truncate E" "pod_command pod_id action" "[200, 204]" True w]
  show ?thesis
    by (cases reply)
      (auto simp: act_on_pod_run [OF assms(2)] foreign_not_404 [OF assms(1)] bindE_def
        dest: pod_from_dict_raw intro: carried_outI split: sum.splits option.splits)
qed

lemma confirmedI:
  "ce_send E n (pod_query pod_id) = Api_reply 404 body \<Longrightarrow> confirmed E pod_id action statuses"
  "ce_send E n (pod_command pod_id action) = Api_reply 404 body \<Longrightarrow> confirmed E pod_id action statuses"
  "carried_out E (pod_command pod_id action) \<Longrightarrow> confirmed E pod_id action statuses"
  "ce_send E n (pod_query pod_id) = Api_reply 200 (Body_json v) \<Longrightarrow>
     status_in (sanitize_resource_payload v) statuses \<Longrightarrow> confirmed E pod_id action statuses"
  "ce_send E n (pod_command pod_id action) = Api_reply 200 (Body_json v) \<Longrightarrow>
     status_in (sanitize_resource_payload v) statuses \<Longrightarrow> confirmed E pod_id action statuses"
  unfolding confirmed_def by blast+

lemma status_in_mono: "status_in raw xs \<Longrightarrow> set xs \<subseteq> set ys \<Longrightarrow> status_in raw ys"
  by (auto simp: status_in_def split: option.splits)

lemma query_confirmed:
  assumes "library_exceptions_foreign E"
    and f: "\<And>raw u1 u2. f raw u1 = (Inr True, u2) \<Longrightarrow> status_in raw statuses"
    and f404: "\<And>raw u1 u2. f raw u1 \<noteq> (Inl (RunPodAPIError (Some 404)), u2)"
    and run: "fst (unless_missing (seqM (threaded E (get_status E pod_id)) f) u) = Inr True"
  shows "confirmed E pod_id action statuses"
proof -
  obtain r u1 where g: "get_status E pod_id u = (r, u1)" by (cases "get_status E pod_id u")
  have "(\<exists>raw. r = Inr raw \<and> status_in raw statuses) \<or> r = Inl (RunPodAPIError (Some 404))"
    using run g f f404
    by (cases r) (auto simp: unless_missing_def tryM_def seqM_def threaded_def ret_def raiseM_def
        split: prod.splits sum.splits if_splits)
  with get_status_cases [OF assms(1), of pod_id u] g show ?thesis
    by (auto intro: confirmedI)
qed

lemma action_confirmed:
  assumes E: "library_exceptions_foreign E" "action \<in> {''start'', ''stop'', ''restart'', ''terminate''}"
    and f: "\<And>raw u1 u2. f raw u1 = (Inr True, u2) \<Longrightarrow> status_in raw statuses"
    and f404: "\<And>raw u1 u2. f raw u1 \<noteq> (Inl (RunPodAPIError (Some 404)), u2)"
    and sub: "set own \<subseteq> set statuses"
    and run: "fst (try_elseM (owned E (act_on_pod E action default_status pod_id))
       (\<lambda>e. if e = RunPodAPIError (Some 404) then ret True else raiseM e)
       (\<lambda>result. if status_in result own then ret True
         else unless_missing (seqM (threaded E (get_status E pod_id)) f)) w) = Inr True"
  shows "confirmed E pod_id action statuses"
proof -
  obtain r u where a: "act_on_pod E action default_status pod_id w = (r, u)"
    by (cases "act_on_pod E action default_status pod_id w")
  note act = act_on_pod_cases [OF E, where default_status = default_status and pod_id = pod_id and w = w]
  show ?thesis
  proof (cases r)
    case (Inl e)
    with run a have "e = RunPodAPIError (Some 404)"
      by (auto simp: try_elseM_def owned_def seqM_def raiseM_def split: if_splits)
    with act a Inl show ?thesis by (auto intro: confirmedI)
  next
    case (Inr raw)
    show ?thesis
    proof (cases "status_in raw own")
      case True
      with act a Inr status_in_mono [OF True sub] show ?thesis by (auto intro: confirmedI)
    next
      case False
      with run a Inr show ?thesis
        by (auto simp: try_elseM_def owned_def seqM_def raiseM_def split: if_splits
            intro: query_confirmed [OF E(1) f f404])
    qed
  qed
qed

text \<open>
  \<^verbatim>\<open>stop\<close> reports a Pod as not billing only on the provider's word about that Pod: it does not know it, it
  carried the stop out with an empty answer, or it reported a stopped state.  \<^verbatim>\<open>terminate\<close> likewise.
\<close>

theorem stop_and_terminate_confirmed:
  assumes "library_exceptions_foreign E"
  shows "(case fst (provider_stop E pod_id w) of
      Inr True \<Rightarrow> confirmed E pod_id ''stop'' [''EXITED'', ''STOPPED'', ''TERMINATED''] | _ \<Rightarrow> True)
    \<and> (case fst (provider_terminate E pod_id w) of
      Inr True \<Rightarrow> confirmed E pod_id ''terminate'' [''TERMINATED'', ''EXITED''] | _ \<Rightarrow> True)"
proof
  have "confirmed E pod_id ''stop'' [''EXITED'', ''STOPPED'', ''TERMINATED'']"
    if "fst (provider_stop E pod_id w) = Inr True"
    using that unfolding provider_stop_def stop_pod_def
    by (rule action_confirmed [OF assms, rotated -1]) (auto simp: ret_def raiseM_def split: if_splits)
  then show "case fst (provider_stop E pod_id w) of
      Inr True \<Rightarrow> confirmed E pod_id ''stop'' [''EXITED'', ''STOPPED'', ''TERMINATED''] | _ \<Rightarrow> True"
    by (auto split: sum.splits bool.splits)
  have "confirmed E pod_id ''terminate'' [''TERMINATED'', ''EXITED'']"
    if "fst (provider_terminate E pod_id w) = Inr True"
    using that unfolding provider_terminate_def terminate_pod_def
    by (rule action_confirmed [OF assms, rotated -1]) (auto simp: ret_def raiseM_def split: if_splits)
  then show "case fst (provider_terminate E pod_id w) of
      Inr True \<Rightarrow> confirmed E pod_id ''terminate'' [''TERMINATED'', ''EXITED''] | _ \<Rightarrow> True"
    by (auto split: sum.splits bool.splits)
qed

theorem stop_and_terminate_confirmed_witness:
  "\<forall>pod_id w. (case fst (provider_stop refusing_env pod_id w) of
      Inr True \<Rightarrow> confirmed refusing_env pod_id ''stop'' [''EXITED'', ''STOPPED'', ''TERMINATED''] | _ \<Rightarrow> True)
    \<and> (case fst (provider_terminate refusing_env pod_id w) of
      Inr True \<Rightarrow> confirmed refusing_env pod_id ''terminate'' [''TERMINATED'', ''EXITED''] | _ \<Rightarrow> True)"
  by (intro allI stop_and_terminate_confirmed refusing_env_foreign)

section \<open>Quotes\<close>

lemma quote_of_fields:
  assumes "quote_of jsha request placement t = Inr q"
  shows "quote_post_init q = None" "qt_placement q = placement" "qt_observed_at q = t"
    "qt_hourly_cost_usd q = pd_offered_cost_per_hr placement"
    "pod_cost_usd (pd_offered_cost_per_hr placement) (qr_estimated_startup_seconds request
       + qr_estimated_execution_seconds request) (pd_gpu_count placement) = Inr (qt_estimated_cost_usd q)"
    "pod_cost_usd (pd_offered_cost_per_hr placement) (qr_maximum_runtime_seconds request)
       (pd_gpu_count placement) = Inr (qt_cost_ceiling_usd q)"
    "qt_expires_at q = dt_add t (seconds (qr_quote_ttl_seconds request))"
  using assms by (auto simp: quote_of_def Let_def bindE_Inr split: option.splits)

text \<open>
  A returned quote is valid and rests on the live catalog: its placement is the one that \<^verbatim>\<open>select_gpu\<close> chooses
  from the offers the provider returned for these requirements, its price is the price of that
  placement, the estimate and the ceiling are the rate-derived costs of the requested times, and it expires the
  requested time after the observation.
\<close>

theorem quote_rests_on_catalog:
  "case fst (provider_quote E request w) of
     Inl e \<Rightarrow> True
   | Inr q \<Rightarrow> quote_post_init q = None
       \<and> (\<exists>offers w1.
            list_gpus (client_env.truncate E) True [POD] (cn_gpu_count (qr_constraints request))
              (cn_cloud (qr_constraints request)) (cn_min_cuda_version (qr_constraints request)) w = (Inr offers, w1)
            \<and> select_gpu offers (placement_requirements (pe_to_float E) (qr_constraints request))
                (qt_observed_at q) = Inr (qt_placement q))
       \<and> qt_hourly_cost_usd q = pd_offered_cost_per_hr (qt_placement q)
       \<and> pod_cost_usd (qt_hourly_cost_usd q) (qr_estimated_startup_seconds request
            + qr_estimated_execution_seconds request) (pd_gpu_count (qt_placement q)) = Inr (qt_estimated_cost_usd q)
       \<and> pod_cost_usd (qt_hourly_cost_usd q) (qr_maximum_runtime_seconds request)
            (pd_gpu_count (qt_placement q)) = Inr (qt_cost_ceiling_usd q)
       \<and> qt_expires_at q = dt_add (qt_observed_at q) (seconds (qr_quote_ttl_seconds request))"
proof (cases "fst (provider_quote E request w)")
  case (Inr q)
  let ?r = "placement_requirements (pe_to_float E) (qr_constraints request)"
  from Inr obtain offers w1 t placement where
    run: "threaded E (list_gpus (client_env.truncate E) True [POD] (pr_gpu_count ?r) (pr_cloud ?r)
       (pr_min_cuda_version ?r)) w = (Inr offers, w1)"
    and select: "select_gpu offers ?r t = Inr placement"
    and q: "quote_of (pe_jsha E) request placement t = Inr q"
    by (auto simp: provider_quote_def Let_def fst_seqM_Inr liftM_def)
  obtain w2 where "list_gpus (client_env.truncate E) True [POD] (cn_gpu_count (qr_constraints request))
      (cn_cloud (qr_constraints request)) (cn_min_cuda_version (qr_constraints request)) w = (Inr offers, w2)"
    using threaded_Inr [OF run] by (auto simp: placement_requirements_def)
  with quote_of_fields [OF q] select show ?thesis
    unfolding Inr by auto
qed simp

text \<open>A route whose public port is a text that is no number ends in a bare \<^verbatim>\<open>ValueError\<close>.\<close>

lemma bad_public_port_raises:
  assumes "gp_inference_port profile = 8000" "gp_inference_protocol profile = ''http''"
  shows "pod_base_url E pod_id (JObj [(''runtime'', JObj [(''ports'', JList [JObj
    [(''private'', JInt 8000), (''type'', JStr ''tcp''), (''ip'', JStr ''10.0.0.1''),
     (''public'', JStr ''n/a'')]])])]) profile = Inl ValueError"
proof -
  have "python_int ''n/a'' = None" "strip_lower ''http'' = ''http''" "map lower_char ''tcp'' = ''tcp''" by code_simp+
  with assms show ?thesis
    by (simp add: pod_base_url_def port_route_def int_of_json_def json_or_def text_entry_def has_key_def python_str_def)
qed

end
