(* ===== verification/Cpu_Catalog.thy ===== *)
theory Cpu_Catalog
  imports Pod_Provider
begin

text \<open>
  The CPU catalog of \<^verbatim>\<open>cpu_catalog.py\<close>: offers, the snapshot of one product and count query, and the
  explicit match of a Pod request; with the client call \<^verbatim>\<open>list_cpus\<close> of \<^verbatim>\<open>clients.py\<close>.
\<close>

section \<open>Definitions\<close>

subsection \<open>Field readers\<close>

definition validate_cpu_query :: "int \<Rightarrow> py_error option" where
  "validate_cpu_query vcpu_count =
     (if vcpu_count < 2 \<or> \<not> power_of_two vcpu_count then Some ValueError else None)"

definition catalog_text :: "json \<Rightarrow> py_error + string" where
  "catalog_text v = (case v of JStr s \<Rightarrow> if s = [] then Inl ValueError else Inr s | _ \<Rightarrow> Inl ValueError)"

definition checked_number :: "bool \<Rightarrow> decimal \<Rightarrow> py_error + decimal option" where
  "checked_number positive d =
     (if \<not> is_finite d \<or> dval d < 0 \<or> positive \<and> dval d = 0 then Inl ValueError else Inr (Some d))"

definition catalog_number :: "bool \<Rightarrow> json \<Rightarrow> py_error + decimal option" where
  "catalog_number positive v =
     (case v of
        JNull \<Rightarrow> Inr None
      | JInt n \<Rightarrow> checked_number positive (Dec n 0)
      | JNum d \<Rightarrow> checked_number positive d
      | _ \<Rightarrow> Inl ValueError)"

definition catalog_availability :: "json \<Rightarrow> py_error + Availability option" where
  "catalog_availability v =
     (case v of
        JNull \<Rightarrow> Inr None
      | JStr s \<Rightarrow> (case map_of availabilities s of
            None \<Rightarrow> Inl ValueError | Some a \<Rightarrow> Inr (Some a))
      | _ \<Rightarrow> Inl ValueError)"

text \<open>
  \<^verbatim>\<open>Context.multiply\<close>: the exact product, rounded half to even to the precision when it has more
  digits; the exponent range of the context is unbounded here.
\<close>

definition context_multiply :: "nat \<Rightarrow> decimal \<Rightarrow> decimal \<Rightarrow> decimal" where
  "context_multiply prec x y =
     (case (x, y) of
        (Dec a e, Dec b f) \<Rightarrow>
          (let n = a * b; excess = ndigits \<bar>n\<bar> - prec in
           if excess = 0 then Dec n (e + f)
           else Dec (round_half_even (of_int n / 10 ^ excess)) (e + f + int excess))
      | _ \<Rightarrow> NonFinite)"

definition scale :: "decimal \<Rightarrow> int \<Rightarrow> decimal" where
  "scale number n =
     context_multiply (max 28 (ndigits \<bar>coeff number\<bar> + length (nat_text n))) number (Dec n 0)"

subsection \<open>Offers\<close>

record CpuDataCenter =
  cc_id :: string
  cc_availability :: "Availability option"

record CpuOffer =
  co_id :: string
  co_name :: string
  co_group :: string
  co_min_vcpu :: int
  co_max_vcpu :: int
  co_ram_gb_per_vcpu :: decimal
  co_secure_price_per_vcpu :: "decimal option"
  co_serverless_price_per_vcpu :: "decimal option"
  co_availability :: "Availability option"
  co_data_centers :: "CpuDataCenter list"

definition cpu_data_center :: "json \<Rightarrow> py_error + CpuDataCenter" where
  "cpu_data_center item =
     bindE (catalog_text (jget item ''id'')) (\<lambda>i.
     bindE (catalog_availability (jget item ''availability'')) (\<lambda>a.
     Inr \<lparr> cc_id = i, cc_availability = a \<rparr>))"

definition cpu_bounds :: "json \<Rightarrow> py_error + int \<times> int" where
  "cpu_bounds v =
     (case (jget v ''min'', jget v ''max'') of
        (JInt lo, JInt hi) \<Rightarrow> if lo < 2 \<or> hi < lo then Inl ValueError else Inr (lo, hi)
      | _ \<Rightarrow> Inl ValueError)"

definition default_field :: "json \<Rightarrow> string \<Rightarrow> json \<Rightarrow> json" where
  "default_field v k d = (if has_key v k then jget v k else d)"

text \<open>
  Every error inside \<^verbatim>\<open>from_dict\<close> becomes the same \<^verbatim>\<open>RunPodManagerError\<close>.  A field that is missing reads as
  \<open>JNull\<close>, which every reader of a required field rejects.
\<close>

definition cpu_offer_fields :: "json \<Rightarrow> py_error + CpuOffer" where
  "cpu_offer_fields value =
     bindE (cpu_bounds (jget value ''vcpu'')) (\<lambda>(minimum, maximum).
     bindE (catalog_number True (jget value ''ramGbPerVcpu'')) (\<lambda>ram.
     case (ram, default_field value ''price'' (JObj []), default_field value ''dataCenters'' (JList [])) of
       (Some ram_ratio, JObj price, JList raw_centers) \<Rightarrow>
         bindE (mapE cpu_data_center raw_centers) (\<lambda>centers.
         if \<not> distinct (map cc_id centers) then Inl ValueError
         else
           bindE (catalog_text (jget value ''id'')) (\<lambda>i.
           bindE (catalog_text (jget value ''name'')) (\<lambda>name.
           bindE (catalog_text (jget value ''group'')) (\<lambda>group.
           bindE (catalog_number False (jget (JObj price) ''securePerVcpu'')) (\<lambda>secure.
           bindE (catalog_number False (jget (JObj price) ''serverlessPerVcpu'')) (\<lambda>serverless.
           bindE (catalog_availability (jget value ''availability'')) (\<lambda>availability.
           Inr \<lparr> co_id = i, co_name = name, co_group = group, co_min_vcpu = minimum,
                 co_max_vcpu = maximum, co_ram_gb_per_vcpu = ram_ratio,
                 co_secure_price_per_vcpu = secure, co_serverless_price_per_vcpu = serverless,
                 co_availability = availability, co_data_centers = centers \<rparr>)))))))
     | _ \<Rightarrow> Inl ValueError))"

definition cpu_offer_from_dict :: "json \<Rightarrow> py_error + CpuOffer" where
  "cpu_offer_from_dict value =
     (case cpu_offer_fields value of Inl _ \<Rightarrow> Inl RunPodManagerError | Inr offer \<Rightarrow> Inr offer)"

subsection \<open>Snapshots and matching\<close>

record CpuPodCatalogMatch =
  cm_cpu_id :: string
  cm_vcpu_count :: int
  cm_data_center_ids :: "string list"
  cm_ram_gb :: decimal
  cm_compute_cost_per_hr :: decimal
  cm_observed_at :: datetime

record CpuCatalogSnapshot =
  cs_product :: ComputeProduct
  cs_vcpu_count :: int
  cs_observed_at :: datetime
  cs_offers :: "CpuOffer list"

definition snapshot_from_response :: "json \<Rightarrow> ComputeProduct \<Rightarrow> int \<Rightarrow> datetime
    \<Rightarrow> py_error + CpuCatalogSnapshot" where
  "snapshot_from_response value product vcpu_count observed_at =
     (case validate_cpu_query vcpu_count of
        Some e \<Rightarrow> Inl e
      | None \<Rightarrow>
          if \<not> is_aware observed_at then Inl ValueError
          else case jget value ''cpus'' of
              JList raw \<Rightarrow>
                if \<not> list_all is_jobj raw then Inl RunPodManagerError
                else bindE (mapE cpu_offer_from_dict raw) (\<lambda>offers.
                  if \<not> distinct (map co_id offers) then Inl RunPodManagerError
                  else Inr \<lparr> cs_product = product, cs_vcpu_count = vcpu_count,
                             cs_observed_at = observed_at, cs_offers = offers \<rparr>)
            | _ \<Rightarrow> Inl RunPodManagerError)"

definition sufficient :: "Availability \<Rightarrow> Availability option \<Rightarrow> bool" where
  "sufficient minimum a = (case a of None \<Rightarrow> False | Some x \<Rightarrow> availability_rank minimum \<le> availability_rank x)"

text \<open>\<^verbatim>\<open>{item.id: item.availability for item in offer.data_centers}\<close>: the last entry of an id counts.\<close>

definition center_availability :: "CpuOffer \<Rightarrow> string \<Rightarrow> Availability option" where
  "center_availability offer i =
     (case map_of (rev (map (\<lambda>c. (cc_id c, cc_availability c)) (co_data_centers offer))) i of
        None \<Rightarrow> None | Some a \<Rightarrow> a)"

definition offered_match :: "CpuCatalogSnapshot \<Rightarrow> CpuPodCreateRequest \<Rightarrow> Availability \<Rightarrow> CpuOffer
    \<Rightarrow> py_error + CpuPodCatalogMatch" where
  "offered_match snapshot request minimum offer =
     (if pc_vcpu_count request < co_min_vcpu offer \<or> co_max_vcpu offer < pc_vcpu_count request
      then Inl RunPodManagerError
      else if \<not> sufficient minimum (co_availability offer) then Inl RunPodManagerError
      else if pc_data_center_ids request = []
        \<or> list_ex (\<lambda>i. \<not> sufficient minimum (center_availability offer i)) (pc_data_center_ids request)
      then Inl RunPodManagerError
      else case co_secure_price_per_vcpu offer of
          None \<Rightarrow> Inl RunPodManagerError
        | Some rate \<Rightarrow> Inr
            \<lparr> cm_cpu_id = co_id offer, cm_vcpu_count = pc_vcpu_count request,
              cm_data_center_ids = pc_data_center_ids request,
              cm_ram_gb = scale (co_ram_gb_per_vcpu offer) (pc_vcpu_count request),
              cm_compute_cost_per_hr = scale rate (pc_vcpu_count request),
              cm_observed_at = cs_observed_at snapshot \<rparr>)"

definition match_pod :: "CpuCatalogSnapshot \<Rightarrow> CpuPodCreateRequest \<Rightarrow> datetime \<Rightarrow> int \<Rightarrow> Availability
    \<Rightarrow> py_error + CpuPodCatalogMatch" where
  "match_pod snapshot request t max_age minimum =
     bindE (cpu_request_payload request) (\<lambda>_.
     case first_error
         [(\<not> is_aware t \<or> max_age \<le> 0, ValueError),
          (minimum = AV_NONE, ValueError),
          (usec t - usec (cs_observed_at snapshot) < 0
            \<or> max_age < usec t - usec (cs_observed_at snapshot), RunPodManagerError),
          (cs_product snapshot \<noteq> POD \<or> cs_vcpu_count snapshot \<noteq> pc_vcpu_count request, RunPodManagerError),
          (pc_cloud request \<noteq> SECURE, RunPodManagerError)] of
       Some e \<Rightarrow> Inl e
     | None \<Rightarrow>
         case find (\<lambda>o'. co_id o' = pc_cpu_id request) (cs_offers snapshot) of
           None \<Rightarrow> Inl RunPodManagerError
         | Some offer \<Rightarrow> offered_match snapshot request minimum offer)"

text \<open>The time of the observation is taken before the request is sent.\<close>

definition list_cpus :: "('e client_env_scheme) \<Rightarrow> ComputeProduct \<Rightarrow> int
    \<Rightarrow> (client_world, CpuCatalogSnapshot) prog" where
  "list_cpus E product vcpu_count =
     (case validate_cpu_query vcpu_count of
        Some e \<Rightarrow> raiseM e
      | None \<Rightarrow>
          seqM (client_now E) (\<lambda>observed_at.
          seqM (get_json (client_env.truncate E) ''/catalog/cpus''
                 [(''include'', JStr ''AVAILABILITY''), (''product'', JStr (product_value product)),
                  (''vcpuCount'', JInt vcpu_count)]) (\<lambda>payload.
          liftM (snapshot_from_response payload product vcpu_count observed_at))))"

section \<open>Scaling is exact\<close>

lemma ndigits_nat_text: "0 \<le> n \<Longrightarrow> ndigits n = length (nat_text n)"
proof (induction n rule: nat_text.induct)
  case (1 n)
  then show ?case by (cases "n < 10") (simp_all add: nat_text.simps [of n] ndigits.simps [of n])
qed

lemma ndigits_le: "0 \<le> n \<Longrightarrow> n < 10 ^ k \<Longrightarrow> 0 < k \<Longrightarrow> ndigits n \<le> k"
proof (rule ccontr)
  assume n: "0 \<le> n" "n < 10 ^ k" "0 < k" and "\<not> ndigits n \<le> k"
  then have le: "k \<le> ndigits n - 1" by simp
  have "0 < n" using n \<open>\<not> ndigits n \<le> k\<close> by (cases "n = 0") (auto simp: ndigits.simps [of 0])
  then have "10 ^ (ndigits n - 1) \<le> n" using ndigits_bounds n(1) by blast
  moreover have "(10::int) ^ k \<le> 10 ^ (ndigits n - 1)" using le by (rule power_increasing) simp
  ultimately show False using n(2) by linarith
qed

lemma scale_exact:
  assumes "is_finite d" "0 \<le> n"
  shows "is_finite (scale d n)" "dval (scale d n) = dval d * of_int n"
proof -
  obtain c e where d: "d = Dec c e" using assms(1) by (cases d) auto
  let ?k = "ndigits \<bar>c\<bar> + length (nat_text n)"
  have "\<bar>c * n\<bar> < 10 ^ ?k"
    using less_ndigits [of "\<bar>c\<bar>"] less_ndigits [OF assms(2)] assms(2)
    by (simp add: abs_mult power_add ndigits_nat_text mult_strict_mono')
  then have "ndigits \<bar>c * n\<bar> \<le> ?k" by (intro ndigits_le) simp_all
  then have "ndigits \<bar>c * n\<bar> \<le> max 28 ?k" by simp
  then have "scale d n = Dec (c * n) e" by (simp add: scale_def context_multiply_def d Let_def)
  then show "is_finite (scale d n)" "dval (scale d n) = dval d * of_int n" by (simp_all add: d)
qed

lemma cpu_request_errors: "cpu_request_post_init r = Some e \<Longrightarrow> e = ValueError"
  unfolding cpu_request_post_init_def
  by (erule first_error_ValueError [rotated])
    (auto simp: nested_error_def container_post_init_def split: option.splits
      dest: first_error_ValueError [rotated])

lemma cpu_payload_ok: "cpu_request_payload r = Inr p \<Longrightarrow> cpu_request_post_init r = None"
  by (auto simp: cpu_request_payload_def split: option.splits)

lemma power_of_two_nonneg: "cpu_request_post_init r = None \<Longrightarrow> 2 \<le> pc_vcpu_count r"
  by (auto simp: cpu_request_post_init_def first_error_None)

lemma offered_match_error: "offered_match snapshot request minimum offer = Inl e \<Longrightarrow> e = RunPodManagerError"
  by (auto simp: offered_match_def split: if_splits option.splits)

lemma offered_match_fields:
  assumes "offered_match snapshot request minimum offer = Inr m" "co_secure_price_per_vcpu offer = Some rate"
  shows "co_min_vcpu offer \<le> pc_vcpu_count request" "pc_vcpu_count request \<le> co_max_vcpu offer"
    "sufficient minimum (co_availability offer)" "pc_data_center_ids request \<noteq> []"
    "list_all (\<lambda>i. sufficient minimum (center_availability offer i)) (pc_data_center_ids request)"
    "m = \<lparr> cm_cpu_id = co_id offer, cm_vcpu_count = pc_vcpu_count request,
           cm_data_center_ids = pc_data_center_ids request,
           cm_ram_gb = scale (co_ram_gb_per_vcpu offer) (pc_vcpu_count request),
           cm_compute_cost_per_hr = scale rate (pc_vcpu_count request),
           cm_observed_at = cs_observed_at snapshot \<rparr>"
  using assms by (auto simp: offered_match_def list_all_iff list_ex_iff split: if_splits)

abbreviation match_checks :: "CpuCatalogSnapshot \<Rightarrow> CpuPodCreateRequest \<Rightarrow> datetime \<Rightarrow> int \<Rightarrow> Availability
    \<Rightarrow> (bool \<times> py_error) list" where
  "match_checks snapshot request t max_age minimum \<equiv>
     [(\<not> is_aware t \<or> max_age \<le> 0, ValueError),
      (minimum = AV_NONE, ValueError),
      (usec t - usec (cs_observed_at snapshot) < 0
        \<or> max_age < usec t - usec (cs_observed_at snapshot), RunPodManagerError),
      (cs_product snapshot \<noteq> POD \<or> cs_vcpu_count snapshot \<noteq> pc_vcpu_count request, RunPodManagerError),
      (pc_cloud request \<noteq> SECURE, RunPodManagerError)]"

abbreviation match_offer :: "CpuCatalogSnapshot \<Rightarrow> CpuPodCreateRequest \<Rightarrow> Availability
    \<Rightarrow> py_error + CpuPodCatalogMatch" where
  "match_offer snapshot request minimum \<equiv>
     (case find (\<lambda>o'. co_id o' = pc_cpu_id request) (cs_offers snapshot) of
        None \<Rightarrow> Inl RunPodManagerError
      | Some offer \<Rightarrow> offered_match snapshot request minimum offer)"

lemma match_pod_steps:
  "match_pod snapshot request t max_age minimum =
     bindE (cpu_request_payload request) (\<lambda>_.
       case first_error (match_checks snapshot request t max_age minimum) of
         Some e \<Rightarrow> Inl e
       | None \<Rightarrow> match_offer snapshot request minimum)"
  unfolding match_pod_def by (rule refl)

lemma match_pod_error:
  assumes "match_pod snapshot request t max_age minimum = Inl e"
  shows "e \<in> {RunPodManagerError, ValueError}"
  using assms unfolding match_pod_steps bindE_Inl
proof (elim disjE exE conjE)
  assume "cpu_request_payload request = Inl e"
  then show ?thesis by (auto simp: cpu_request_payload_def dest: cpu_request_errors split: option.splits)
next
  assume "(case first_error (match_checks snapshot request t max_age minimum) of Some e \<Rightarrow> Inl e
      | None \<Rightarrow> match_offer snapshot request minimum) = Inl e"
  from checked_Inl [OF this] show ?thesis
  proof
    assume "first_error (match_checks snapshot request t max_age minimum) = Some e"
    from first_error_mem [OF this] show ?thesis by auto
  next
    assume "match_offer snapshot request minimum = Inl e"
    from found_Inl [OF this] show ?thesis by (auto dest: offered_match_error)
  qed
qed

lemma match_pod_accepts:
  assumes "match_pod snapshot request t max_age minimum = Inr m"
  obtains offer rate where "cpu_request_post_init request = None"
    "first_error (match_checks snapshot request t max_age minimum) = None"
    "offer \<in> set (cs_offers snapshot)" "co_id offer = pc_cpu_id request"
    "offered_match snapshot request minimum offer = Inr m" "co_secure_price_per_vcpu offer = Some rate"
proof -
  from assms obtain p where payload: "cpu_request_payload request = Inr p"
    and rest: "(case first_error (match_checks snapshot request t max_age minimum) of Some e \<Rightarrow> Inl e
      | None \<Rightarrow> match_offer snapshot request minimum) = Inr m"
    unfolding match_pod_steps bindE_Inr by blast
  note c = checked_Inr [OF rest]
  obtain offer where f: "find (\<lambda>o'. co_id o' = pc_cpu_id request) (cs_offers snapshot) = Some offer"
    and o: "offered_match snapshot request minimum offer = Inr m"
    using found_Inr [OF c [THEN conjunct2]] by blast
  from o obtain rate where "co_secure_price_per_vcpu offer = Some rate"
    by (auto simp: offered_match_def split: if_splits option.splits)
  with cpu_payload_ok [OF payload] c [THEN conjunct1] find_Some_mem [OF f] o show ?thesis
    by (intro that) simp_all
qed

text \<open>
  A CPU match is exact and current: the snapshot answers the same Pod count query and is not older than the
  limit nor from the future, the request is valid and for the secure cloud, the flavor is offered for
  the count with a known rate, every requested data center (at least one) has
  sufficient known stock, and memory and hourly cost are the exact products with the count.
\<close>

theorem match_pod_sound:
  "case match_pod snapshot request t max_age minimum of
     Inl e \<Rightarrow> e \<in> {RunPodManagerError, ValueError}
   | Inr m \<Rightarrow> \<exists>offer rate.
       cpu_request_post_init request = None \<and> minimum \<noteq> AV_NONE \<and> pc_cloud request = SECURE
       \<and> cs_product snapshot = POD \<and> cs_vcpu_count snapshot = pc_vcpu_count request
       \<and> usec (cs_observed_at snapshot) \<le> usec t \<and> usec t \<le> usec (cs_observed_at snapshot) + max_age
       \<and> offer \<in> set (cs_offers snapshot) \<and> co_id offer = pc_cpu_id request
       \<and> co_min_vcpu offer \<le> pc_vcpu_count request \<and> pc_vcpu_count request \<le> co_max_vcpu offer
       \<and> sufficient minimum (co_availability offer)
       \<and> pc_data_center_ids request \<noteq> []
       \<and> list_all (\<lambda>i. sufficient minimum (center_availability offer i)) (pc_data_center_ids request)
       \<and> co_secure_price_per_vcpu offer = Some rate
       \<and> cm_cpu_id m = pc_cpu_id request \<and> cm_vcpu_count m = pc_vcpu_count request
       \<and> cm_data_center_ids m = pc_data_center_ids request \<and> cm_observed_at m = cs_observed_at snapshot
       \<and> (if is_finite rate
          then is_finite (cm_compute_cost_per_hr m)
            \<and> dval (cm_compute_cost_per_hr m) = dval rate * of_int (pc_vcpu_count request) else True)
       \<and> (if is_finite (co_ram_gb_per_vcpu offer)
          then dval (cm_ram_gb m) = dval (co_ram_gb_per_vcpu offer) * of_int (pc_vcpu_count request) else True)"
proof (cases "match_pod snapshot request t max_age minimum")
  case (Inl e)
  with match_pod_error show ?thesis by simp
next
  case (Inr m)
  then obtain offer rate where ok: "cpu_request_post_init request = None"
    and checks: "first_error (match_checks snapshot request t max_age minimum) = None"
    and mem: "offer \<in> set (cs_offers snapshot)" "co_id offer = pc_cpu_id request"
    and offered: "offered_match snapshot request minimum offer = Inr m"
    and rate: "co_secure_price_per_vcpu offer = Some rate"
    by (rule match_pod_accepts)
  have n: "0 \<le> pc_vcpu_count request" using power_of_two_nonneg [OF ok] by simp
  note f = rate offered_match_fields [OF offered rate]
  from checks have c: "minimum \<noteq> AV_NONE" "usec (cs_observed_at snapshot) \<le> usec t"
    "usec t \<le> usec (cs_observed_at snapshot) + max_age" "cs_product snapshot = POD"
    "cs_vcpu_count snapshot = pc_vcpu_count request" "pc_cloud request = SECURE"
    by (simp_all add: first_error_None del: first_error.simps)
  show ?thesis
    unfolding Inr sum.case
    by (intro exI [of _ offer] exI [of _ rate]) (use f c mem ok scale_exact [OF _ n] in simp)
qed

end
