(* ===== verification/Cpu_Environment.thy ===== *)
theory Cpu_Environment
  imports Cpu_Catalog
begin

text \<open>
  The CPU acquisition planner of \<^verbatim>\<open>cpu_environment.py\<close>.  The contract types of \<^verbatim>\<open>kestrel_sdk\<close> are not in
  the repository: \<open>sdk\<close> holds their validators, their JSON forms and the digest of a request, and
  \<open>EnvironmentRequest\<close> the fields of a request that the planner reads.  Instants of a validated
  request are aware.
\<close>

section \<open>Definitions\<close>

record EnvironmentRequest =
  eq_provider_id :: string
  eq_profile_id :: string
  eq_image :: string
  eq_region :: string
  eq_location :: string
  eq_surface :: string
  eq_required_capabilities :: "string list"
  eq_requested_at :: datetime
  eq_expires_at :: datetime
  eq_ready_timeout_seconds :: int
  eq_max_hourly_cost_usd :: rat
  eq_max_total_cost_usd :: rat

record CpuEnvironmentProfile =
  ep_provider_id :: string
  ep_profile_id :: string
  ep_image :: string
  ep_cpu_id :: string
  ep_vcpu_count :: int
  ep_data_center_id :: string
  ep_disk_gb :: int
  ep_max_lifetime_seconds :: int
  ep_cleanup_grace_seconds :: int

record CpuNonComputeCostPolicy =
  np_policy_id :: string
  np_provider_id :: string
  np_profile_id :: string
  np_profile_sha256 :: string
  np_disk_gb :: int
  np_data_center_id :: string
  np_covered_components :: "string list"
  np_observed_at :: datetime
  np_expires_at :: datetime
  np_hourly_usd :: decimal
  np_fixed_usd :: decimal

record sdk =
  sk_request_valid :: "EnvironmentRequest \<Rightarrow> bool"
  sk_request_digest :: "EnvironmentRequest \<Rightarrow> string"
  sk_identifier :: "string \<Rightarrow> bool"
  sk_pinned_image :: "string \<Rightarrow> bool"
  sk_image_digest :: "string \<Rightarrow> bool"
  sk_positive :: "int \<Rightarrow> bool"
  sk_usd :: "decimal \<Rightarrow> bool"
  sk_profile_dump :: "CpuEnvironmentProfile \<Rightarrow> json"
  sk_policy_dump :: "CpuNonComputeCostPolicy \<Rightarrow> (string \<times> json) list"
  sk_jsha :: "json \<Rightarrow> string"

subsection \<open>Digests and bounds\<close>

definition contract_digest :: "sdk \<Rightarrow> string \<Rightarrow> json \<Rightarrow> string" where
  "contract_digest K kind payload =
     sk_jsha K (JObj [(''kind'', JStr kind), (''version'', JInt 1), (''payload'', payload)])"

definition require_catalog_age :: "int \<Rightarrow> py_error option" where
  "require_catalog_age age = (if 0 < age \<and> age \<le> seconds 60 then None else Some ValueError)"

definition bad_decimal :: "bool \<Rightarrow> decimal \<Rightarrow> bool" where
  "bad_decimal positive d =
     (case d of
        NonFinite \<Rightarrow> True
      | Dec c e \<Rightarrow> c < 0 \<or> positive \<and> c = 0 \<or> 36 < ndigits \<bar>c\<bar> \<or> e < - 12 \<or> 24 < int (ndigits \<bar>c\<bar>) + e)"

subsection \<open>The profile\<close>

definition profile_post_init :: "sdk \<Rightarrow> CpuEnvironmentProfile \<Rightarrow> py_error option" where
  "profile_post_init K p = first_error
     (map (\<lambda>s. (\<not> sk_identifier K s, ValueError))
        [ep_provider_id p, ep_profile_id p, ep_cpu_id p, ep_data_center_id p]
      @ [(\<not> sk_pinned_image K (ep_image p), ValueError)]
      @ map (\<lambda>n. (\<not> sk_positive K n, ValueError))
        [ep_vcpu_count p, ep_disk_gb p, ep_max_lifetime_seconds p, ep_cleanup_grace_seconds p]
      @ [(7 * 86400 < ep_max_lifetime_seconds p, ValueError),
         (86400 < ep_cleanup_grace_seconds p, ValueError),
         (ep_vcpu_count p < 2 \<or> \<not> power_of_two (ep_vcpu_count p), ValueError)])"

definition browser_capabilities :: "string list" where
  "browser_capabilities = [''screenshot'', ''click'', ''type'', ''key'', ''scroll'', ''wait'', ''navigate'',
     ''takeover'']"

definition require_request :: "CpuEnvironmentProfile \<Rightarrow> EnvironmentRequest \<Rightarrow> datetime \<Rightarrow> py_error option" where
  "require_request p q t = first_error
     [(\<not> is_aware t, ValueError),
      (eq_provider_id q \<noteq> ep_provider_id p \<or> eq_profile_id q \<noteq> ep_profile_id p
        \<or> eq_image q \<noteq> ep_image p \<or> eq_region q \<noteq> ep_data_center_id p, ResourceUnsupported),
      (eq_location q \<noteq> ''remote'' \<or> eq_surface q \<noteq> ''browser'', ResourceUnsupported),
      (\<not> set (eq_required_capabilities q) \<subseteq> set browser_capabilities, ResourceUnsupported),
      (\<not> (usec (eq_requested_at q) \<le> usec t \<and> usec t < usec (eq_expires_at q)), ResourceUnsupported),
      (seconds (ep_max_lifetime_seconds p) < usec (eq_expires_at q) - usec (eq_requested_at q), ResourceUnsupported),
      (usec (eq_expires_at q) - seconds (eq_ready_timeout_seconds q) \<le> usec t, ResourceUnsupported)]"

definition profile_digest :: "sdk \<Rightarrow> CpuEnvironmentProfile \<Rightarrow> string" where
  "profile_digest K p = contract_digest K ''runpod.cpu-environment-profile'' (sk_profile_dump K p)"

definition cpu_pod_name :: "sdk \<Rightarrow> EnvironmentRequest \<Rightarrow> string" where
  "cpu_pod_name K q = ''kestrel-cpu-'' @ take 32 (sk_request_digest K q)"

definition cpu_pod_request :: "sdk \<Rightarrow> CpuEnvironmentProfile \<Rightarrow> EnvironmentRequest
    \<Rightarrow> py_error + CpuPodCreateRequest" where
  "cpu_pod_request K p q =
     (let r = \<lparr> pc_name = cpu_pod_name K q, pc_image = ep_image p, pc_cloud = SECURE,
            pc_disk_gb = ep_disk_gb p, pc_ports = [], pc_env = [], pc_args = None, pc_registry_id = None,
            pc_data_center_ids = [ep_data_center_id p], pc_mounts = None, pc_global_networking = False,
            pc_cpu_id = ep_cpu_id p, pc_vcpu_count = ep_vcpu_count p \<rparr>
      in case cpu_request_post_init r of Some e \<Rightarrow> Inl e | None \<Rightarrow> Inr r)"

subsection \<open>The cost policy\<close>

definition cost_components :: "string list" where
  "cost_components = [''container_disk'', ''transfer'', ''cleanup'']"

definition policy_post_init :: "sdk \<Rightarrow> CpuNonComputeCostPolicy \<Rightarrow> py_error option" where
  "policy_post_init K n = first_error
     (map (\<lambda>s. (\<not> sk_identifier K s, ValueError))
        [np_policy_id n, np_provider_id n, np_profile_id n, np_data_center_id n]
      @ [(\<not> sk_image_digest K (np_profile_sha256 n), ValueError),
         (\<not> sk_positive K (np_disk_gb n), ValueError),
         (\<not> set (np_covered_components n) \<subseteq> set cost_components, ValueError),
         (\<not> is_aware (np_observed_at n) \<or> \<not> is_aware (np_expires_at n), ValueError),
         (\<not> sk_usd K (np_hourly_usd n) \<or> bad_decimal False (np_hourly_usd n), ValueError),
         (\<not> sk_usd K (np_fixed_usd n) \<or> bad_decimal False (np_fixed_usd n), ValueError),
         (usec (np_expires_at n) \<le> usec (np_observed_at n), ValueError),
         (set (np_covered_components n) \<noteq> set cost_components, ValueError)])"

text \<open>The texts that the digest puts for amounts and instants are the values they denote.\<close>

definition decimal_amount :: "decimal \<Rightarrow> amount" where
  "decimal_amount d = (if is_finite d then Fin (dval d) else NaNInf)"

definition policy_digest :: "sdk \<Rightarrow> CpuNonComputeCostPolicy \<Rightarrow> string" where
  "policy_digest K n = contract_digest K ''runpod.cpu-noncompute-policy'' (JObj
     (AList.update ''covered_components'' (jstrs (sort (remdups (np_covered_components n))))
     (AList.update ''disk_transfer_cleanup_hourly_usd'' (JAmount (decimal_amount (np_hourly_usd n)))
     (AList.update ''disk_transfer_cleanup_fixed_usd'' (JAmount (decimal_amount (np_fixed_usd n)))
     (AList.update ''observed_at'' (JTime (np_observed_at n))
     (AList.update ''expires_at'' (JTime (np_expires_at n)) (sk_policy_dump K n)))))))"

definition require_coverage :: "sdk \<Rightarrow> CpuNonComputeCostPolicy \<Rightarrow> EnvironmentRequest
    \<Rightarrow> CpuEnvironmentProfile \<Rightarrow> datetime \<Rightarrow> py_error option" where
  "require_coverage K n q p t = first_error
     [(\<not> is_aware t, ValueError),
      (np_provider_id n \<noteq> ep_provider_id p \<or> np_profile_id n \<noteq> ep_profile_id p
        \<or> np_profile_sha256 n \<noteq> profile_digest K p \<or> np_disk_gb n \<noteq> ep_disk_gb p
        \<or> np_data_center_id n \<noteq> ep_data_center_id p
        \<or> set (np_covered_components n) \<noteq> set cost_components, ResourceUnsupported),
      (\<not> (usec (np_observed_at n) \<le> usec t \<and> usec t < usec (np_expires_at n)), ResourceUnsupported),
      (usec (np_expires_at n) - usec (eq_expires_at q) < seconds (ep_cleanup_grace_seconds p), ResourceUnsupported)]"

text \<open>
  The ceiling of \<^verbatim>\<open>_duration_cost\<close> at twelve decimals; \<open>quotient_of\<close> is \<^verbatim>\<open>as_integer_ratio\<close>.  The digits of
  a negative number are no digits.
\<close>

definition duration_cost :: "rat \<Rightarrow> int \<Rightarrow> py_error + decimal" where
  "duration_cost rate micros =
     (let (numerator, denominator) = quotient_of rate;
          dividend = numerator * micros * 10 ^ 12; divisor = denominator * 3600000000;
          units = dividend div divisor + (if dividend mod divisor \<noteq> 0 then 1 else 0)
      in if units < 0 then Inl ValueError else Inr (Dec units (- 12)))"

subsection \<open>The plan\<close>

record CpuEnvironmentAcquisitionPlan =
  ap_request :: EnvironmentRequest
  ap_profile :: CpuEnvironmentProfile
  ap_noncompute :: CpuNonComputeCostPolicy
  ap_catalog :: CpuPodCatalogMatch
  ap_planned_at :: datetime
  ap_expires_at :: datetime
  ap_catalog_max_age :: int

definition plan_deadline :: "CpuEnvironmentAcquisitionPlan \<Rightarrow> int" where
  "plan_deadline a = Min {usec (eq_expires_at (ap_request a)), usec (np_expires_at (ap_noncompute a)),
     usec (cm_observed_at (ap_catalog a)) + ap_catalog_max_age a,
     usec (eq_expires_at (ap_request a)) - seconds (eq_ready_timeout_seconds (ap_request a))}"

definition plan_post_init :: "sdk \<Rightarrow> CpuEnvironmentAcquisitionPlan \<Rightarrow> py_error option" where
  "plan_post_init K a = first_error
     ([(\<not> sk_request_valid K (ap_request a), ValueError)]
      @ nested_error (profile_post_init K (ap_profile a))
      @ nested_error (policy_post_init K (ap_noncompute a))
      @ [(\<not> is_aware (ap_planned_at a), ValueError), (\<not> is_aware (ap_expires_at a), ValueError),
         (\<not> is_aware (cm_observed_at (ap_catalog a)), ValueError)]
      @ nested_error (require_catalog_age (ap_catalog_max_age a))
      @ nested_error (require_request (ap_profile a) (ap_request a) (ap_planned_at a))
      @ nested_error (require_coverage K (ap_noncompute a) (ap_request a) (ap_profile a) (ap_planned_at a))
      @ [(cm_cpu_id (ap_catalog a) \<noteq> ep_cpu_id (ap_profile a)
           \<or> cm_vcpu_count (ap_catalog a) \<noteq> ep_vcpu_count (ap_profile a)
           \<or> cm_data_center_ids (ap_catalog a) \<noteq> [ep_data_center_id (ap_profile a)], ValueError),
         (bad_decimal True (cm_ram_gb (ap_catalog a)), ValueError),
         (bad_decimal True (cm_compute_cost_per_hr (ap_catalog a)), ValueError),
         (of_int \<lfloor>dval (cm_ram_gb (ap_catalog a))\<rfloor> \<noteq> dval (cm_ram_gb (ap_catalog a)), ValueError),
         (\<not> (usec (cm_observed_at (ap_catalog a)) \<le> usec (ap_planned_at a)
             \<and> usec (ap_planned_at a) < usec (ap_expires_at a)
             \<and> usec (ap_expires_at a) \<le> plan_deadline a), ValueError)])"

definition all_in_hourly_usd :: "CpuEnvironmentAcquisitionPlan \<Rightarrow> py_error + rat" where
  "all_in_hourly_usd a = exact_decimal_sum default_prec
     [cm_compute_cost_per_hr (ap_catalog a), np_hourly_usd (ap_noncompute a)]"

text \<open>The whole admitted lifetime is priced, with the cleanup grace.\<close>

definition admitted_duration :: "CpuEnvironmentAcquisitionPlan \<Rightarrow> int" where
  "admitted_duration a = usec (eq_expires_at (ap_request a)) - usec (eq_requested_at (ap_request a))
     + seconds (ep_cleanup_grace_seconds (ap_profile a))"

definition estimated_total_usd :: "CpuEnvironmentAcquisitionPlan \<Rightarrow> py_error + rat" where
  "estimated_total_usd a =
     bindE (all_in_hourly_usd a) (\<lambda>hourly.
     bindE (duration_cost hourly (admitted_duration a)) (\<lambda>cost.
     exact_decimal_sum default_prec [cost, np_fixed_usd (ap_noncompute a)]))"

definition plan_digest :: "sdk \<Rightarrow> CpuEnvironmentAcquisitionPlan \<Rightarrow> py_error + string" where
  "plan_digest K a =
     bindE (all_in_hourly_usd a) (\<lambda>hourly.
     bindE (estimated_total_usd a) (\<lambda>total.
     Inr (contract_digest K ''runpod.cpu-environment-plan'' (JObj
       [(''request_sha256'', JStr (sk_request_digest K (ap_request a))),
        (''profile_sha256'', JStr (profile_digest K (ap_profile a))),
        (''noncompute_sha256'', JStr (policy_digest K (ap_noncompute a))),
        (''cpu_id'', JStr (cm_cpu_id (ap_catalog a))),
        (''vcpu_count'', JInt (cm_vcpu_count (ap_catalog a))),
        (''data_center_ids'', jstrs (cm_data_center_ids (ap_catalog a))),
        (''ram_gb'', JAmount (decimal_amount (cm_ram_gb (ap_catalog a)))),
        (''compute_hourly_usd'', JAmount (decimal_amount (cm_compute_cost_per_hr (ap_catalog a)))),
        (''all_in_hourly_usd'', JAmount (Fin hourly)), (''estimated_total_usd'', JAmount (Fin total)),
        (''planned_at'', JTime (ap_planned_at a)), (''expires_at'', JTime (ap_expires_at a)),
        (''catalog_observed_at'', JTime (cm_observed_at (ap_catalog a))),
        (''catalog_max_age_us'', JInt (ap_catalog_max_age a))]))))"

definition plan_pod_request :: "sdk \<Rightarrow> CpuEnvironmentAcquisitionPlan \<Rightarrow> EnvironmentRequest
    \<Rightarrow> CpuEnvironmentProfile \<Rightarrow> CpuNonComputeCostPolicy \<Rightarrow> datetime \<Rightarrow> py_error + CpuPodCreateRequest" where
  "plan_pod_request K a request profile noncompute t =
     (case first_error
        ([(sk_request_digest K request \<noteq> sk_request_digest K (ap_request a)
            \<or> profile_digest K profile \<noteq> profile_digest K (ap_profile a)
            \<or> policy_digest K noncompute \<noteq> policy_digest K (ap_noncompute a), ResourceUnsupported)]
         @ nested_error (require_request (ap_profile a) (ap_request a) t)
         @ nested_error (require_coverage K (ap_noncompute a) (ap_request a) (ap_profile a) t)
         @ [(\<not> (usec (ap_planned_at a) \<le> usec t \<and> usec t < usec (ap_expires_at a)), ResourceUnsupported)]) of
        Some e \<Rightarrow> Inl e
      | None \<Rightarrow>
          bindE (all_in_hourly_usd a) (\<lambda>hourly.
          if eq_max_hourly_cost_usd (ap_request a) < hourly then Inl ResourceUnsupported
          else bindE (estimated_total_usd a) (\<lambda>total.
            if eq_max_total_cost_usd (ap_request a) < total then Inl ResourceUnsupported
            else cpu_pod_request K (ap_profile a) (ap_request a))))"

subsection \<open>The planner\<close>

definition check :: "py_error option \<Rightarrow> ('w, unit) prog" where
  "check oe = (case oe of None \<Rightarrow> ret () | Some e \<Rightarrow> raiseM e)"

definition acquisition_plan :: "sdk \<Rightarrow> int \<Rightarrow> EnvironmentRequest \<Rightarrow> CpuEnvironmentProfile
    \<Rightarrow> CpuNonComputeCostPolicy \<Rightarrow> CpuPodCatalogMatch \<Rightarrow> datetime \<Rightarrow> datetime
    \<Rightarrow> py_error + CpuEnvironmentAcquisitionPlan" where
  "acquisition_plan K max_age request profile noncompute m observed_at t =
     (let a = \<lparr> ap_request = request, ap_profile = profile, ap_noncompute = noncompute, ap_catalog = m,
            ap_planned_at = t,
            ap_expires_at = Aware (Min {usec (eq_expires_at request) - seconds (eq_ready_timeout_seconds request),
              usec (np_expires_at noncompute), usec observed_at + max_age}),
            ap_catalog_max_age = max_age \<rparr>
      in case plan_post_init K a of Some e \<Rightarrow> Inl e | None \<Rightarrow> Inr a)"

definition positive_price :: "CpuPodCatalogMatch \<Rightarrow> bool" where
  "positive_price m \<longleftrightarrow> is_finite (cm_compute_cost_per_hr m) \<and> 0 < dval (cm_compute_cost_per_hr m)"

definition plan_acquisition :: "sdk \<Rightarrow> ('e client_env_scheme) \<Rightarrow> int \<Rightarrow> EnvironmentRequest
    \<Rightarrow> CpuEnvironmentProfile \<Rightarrow> CpuNonComputeCostPolicy \<Rightarrow> (client_world, CpuEnvironmentAcquisitionPlan) prog" where
  "plan_acquisition K E max_age request profile noncompute =
     seqM (check (if sk_request_valid K request then None else Some ValueError)) (\<lambda>_.
     seqM (check (profile_post_init K profile)) (\<lambda>_.
     seqM (check (policy_post_init K noncompute)) (\<lambda>_.
     seqM (client_now E) (\<lambda>initial.
     seqM (check (require_request profile request initial)) (\<lambda>_.
     seqM (check (require_coverage K noncompute request profile initial)) (\<lambda>_.
     seqM (list_cpus E POD (ep_vcpu_count profile)) (\<lambda>snapshot.
     seqM (client_now E) (\<lambda>t.
     seqM (check (require_request profile request t)) (\<lambda>_.
     seqM (check (require_coverage K noncompute request profile t)) (\<lambda>_.
     seqM (check (first_error
       [(\<not> is_aware (cs_observed_at snapshot), ResourceUnsupported),
        (\<not> (usec initial \<le> usec (cs_observed_at snapshot) \<and> usec (cs_observed_at snapshot) \<le> usec t),
          ResourceUnsupported),
        (usec (cs_observed_at snapshot) + max_age \<le> usec t, ResourceUnsupported)])) (\<lambda>_.
     seqM (liftM (bindE (cpu_pod_request K profile request) (\<lambda>r. match_pod snapshot r t max_age AV_LOW))) (\<lambda>m.
     seqM (check (if positive_price m then None else Some ResourceUnsupported)) (\<lambda>_.
     seqM (liftM (acquisition_plan K max_age request profile noncompute m (cs_observed_at snapshot) t)) (\<lambda>a.
     seqM (liftM (plan_pod_request K a request profile noncompute t)) (\<lambda>_.
     ret a)))))))))))))))"

section \<open>The duration cost is a tight ceiling\<close>

lemma div_ceiling:
  fixes a b :: int
  assumes "0 < b"
  shows "a div b + (if a mod b \<noteq> 0 then 1 else 0) = \<lceil>of_int a / (of_int b :: rat)\<rceil>"
proof -
  have "\<lceil>of_int a / (of_int b :: rat)\<rceil> = - \<lfloor>of_int (- a) / (of_int b :: rat)\<rfloor>"
    by (simp add: ceiling_def)
  also have "\<dots> = - (- a div b)"
    by (simp only: floor_divide_of_int_eq)
  also have "- (- a div b) = a div b + (if a mod b \<noteq> 0 then 1 else 0)"
    using zdiv_zminus1_eq_if [of b a] assms by auto
  finally show ?thesis by simp
qed

lemma duration_units:
  "duration_cost rate micros =
     (let units = \<lceil>rate * of_int micros / 3600000000 * 10 ^ 12\<rceil> in
      if units < 0 then Inl ValueError else Inr (Dec units (- 12)))"
proof -
  obtain p q where pq: "quotient_of rate = (p, q)" by (cases "quotient_of rate")
  have q: "0 < q" using quotient_of_denom_pos [OF pq] .
  have rate: "rate = of_int p / of_int q" using quotient_of_div [OF pq] .
  have "of_int (p * micros * 10 ^ 12) / (of_int (q * 3600000000) :: rat)
      = rate * of_int micros / 3600000000 * 10 ^ 12"
    using q by (simp add: rate field_simps)
  moreover have "0 < q * 3600000000" using q by simp
  ultimately have units: "p * micros * 10 ^ 12 div (q * 3600000000)
      + (if p * micros * 10 ^ 12 mod (q * 3600000000) \<noteq> 0 then 1 else 0)
      = \<lceil>rate * of_int micros / 3600000000 * 10 ^ 12\<rceil>"
    by (simp only: div_ceiling)
  show ?thesis
    unfolding duration_cost_def pq Let_def prod.case units by (rule refl)
qed

text \<open>
  The cost of a duration at an hourly rate is the least multiple of a picodollar that is not below the exact
  cost: it never underfunds, and by less than a picodollar overfunds.  It fails only for
  a negative cost.
\<close>

theorem duration_cost_ceiling:
  "case duration_cost rate micros of
     Inr d \<Rightarrow> is_finite d \<and> rate * of_int micros / 3600000000 \<le> dval d
       \<and> dval d < rate * of_int micros / 3600000000 + 1 / 10 ^ 12
   | Inl e \<Rightarrow> e = ValueError \<and> rate * of_int micros < 0"
proof -
  let ?x = "rate * of_int micros / 3600000000"
  let ?u = "\<lceil>?x * 10 ^ 12\<rceil>"
  have u: "?x * 10 ^ 12 \<le> of_int ?u" "of_int ?u < ?x * 10 ^ 12 + 1" by linarith+
  show ?thesis
  proof (cases "?u < 0")
    case True
    then have "of_int ?u < (0 :: rat)" by (simp only: of_int_less_0_iff)
    with u(1) have "?x * 10 ^ 12 < 0" by (rule le_less_trans)
    then have "rate * of_int micros < 0" by simp
    with True show ?thesis by (simp only: duration_units Let_def if_True sum.case)
  next
    case False
    have d: "dval (Dec ?u (- 12)) = of_int ?u / 10 ^ 12" by (simp add: power_int_def divide_simps)
    have "?x * 10 ^ 12 / 10 ^ 12 \<le> of_int ?u / 10 ^ 12" using u(1) by (rule divide_right_mono) simp
    moreover have "of_int ?u / 10 ^ 12 < (?x * 10 ^ 12 + 1) / 10 ^ 12" using u(2)
      by (rule divide_strict_right_mono) simp
    moreover have "?x * 10 ^ 12 / 10 ^ 12 = ?x" "(?x * 10 ^ 12 + 1) / 10 ^ 12 = ?x + 1 / 10 ^ 12"
      by (simp_all add: add_divide_distrib)
    ultimately have "?x \<le> of_int ?u / 10 ^ 12" "of_int ?u / 10 ^ 12 < ?x + 1 / 10 ^ 12"
      by (simp_all only:)
    with False d show ?thesis by (simp only: duration_units Let_def if_False sum.case is_finite.simps simp_thms)
  qed
qed

section \<open>A plan stays within the request\<close>

lemma quiet_check: "quiet (check oe)"
  by (cases oe) (simp_all add: check_def)

lemma quiet_list_cpus: "quiet (list_cpus E product n)"
  by (auto simp: list_cpus_def intro!: quiet_seq quiet_client_now quiet_get_json split: option.splits)

text \<open>
  C40.  The planner only reads: no mutating request is sent, whatever the outcome.  A returned plan is valid, was
  made within its lifetime, its all-in hourly rate and its estimated total are within the ceilings of the
  request, and the Pod it would create is the one of the profile.
\<close>

theorem plan_within_ceilings:
  "mutations (snd (plan_acquisition K E max_age request profile noncompute w)) = mutations w
   \<and> (case fst (plan_acquisition K E max_age request profile noncompute w) of
        Inl e \<Rightarrow> True
      | Inr a \<Rightarrow> plan_post_init K a = None \<and> ap_request a = request \<and> ap_profile a = profile
          \<and> ap_noncompute a = noncompute
          \<and> usec (ap_planned_at a) < usec (ap_expires_at a) \<and> usec (ap_expires_at a) \<le> plan_deadline a
          \<and> (\<exists>hourly total pod. all_in_hourly_usd a = Inr hourly \<and> estimated_total_usd a = Inr total
               \<and> hourly \<le> eq_max_hourly_cost_usd request \<and> total \<le> eq_max_total_cost_usd request
               \<and> cpu_pod_request K profile request = Inr pod
               \<and> plan_pod_request K a request profile noncompute (ap_planned_at a) = Inr pod))"
proof -
  have "quiet (plan_acquisition K E max_age request profile noncompute)"
    unfolding plan_acquisition_def
    by (intro quiet_seq quiet_check quiet_client_now quiet_list_cpus quiet_ret)
  then have reads: "mutations (snd (plan_acquisition K E max_age request profile noncompute w)) = mutations w"
    by (simp add: quiet_def)
  show ?thesis
  proof (cases "fst (plan_acquisition K E max_age request profile noncompute w)")
    case (Inl e)
    with reads show ?thesis by simp
  next
    case (Inr a)
    from Inr obtain m observed t pod where
      plan: "acquisition_plan K max_age request profile noncompute m observed t = Inr a"
      and pod: "plan_pod_request K a request profile noncompute t = Inr pod"
      by (auto simp: plan_acquisition_def fst_seqM_Inr liftM_def ret_def)
    from plan have a: "plan_post_init K a = None" "ap_request a = request" "ap_profile a = profile"
      "ap_noncompute a = noncompute" "ap_planned_at a = t"
      by (auto simp: acquisition_plan_def Let_def split: option.splits)
    have "usec (ap_planned_at a) < usec (ap_expires_at a)" "usec (ap_expires_at a) \<le> plan_deadline a"
      using a(1) by (auto simp: plan_post_init_def first_error_None simp del: first_error.simps)
    moreover have "\<exists>hourly total. all_in_hourly_usd a = Inr hourly \<and> estimated_total_usd a = Inr total
        \<and> hourly \<le> eq_max_hourly_cost_usd request \<and> total \<le> eq_max_total_cost_usd request
        \<and> cpu_pod_request K profile request = Inr pod"
      using pod a(2,3) by (auto simp: plan_pod_request_def bindE_Inr split: option.splits if_splits)
    ultimately show ?thesis using reads a pod unfolding Inr by auto
  qed
qed

end
