(* ===== verification/Cpu_Realized.thy ===== *)
theory Cpu_Realized
  imports Cpu_Environment
begin

text \<open>
  The observation of an owned CPU Pod of \<^verbatim>\<open>cpu_realized.py\<close>: a contradiction with the plan requires
  teardown, a missing fact leaves the Pod unknown, and only then is the Pod pending or running.
\<close>

section \<open>Definitions\<close>

datatype cpu_phase = Phase_pending | Phase_running

record CpuPodObservation =
  oc_pod_id :: string
  oc_request_sha256 :: string
  oc_observed_at :: datetime
  oc_phase :: cpu_phase
  oc_started_at :: "datetime option"
  oc_compute_hourly_usd :: "rat option"

definition require_same_incarnation :: "CpuPodObservation \<Rightarrow> CpuPodObservation \<Rightarrow> py_error option" where
  "require_same_incarnation ob original =
     (if oc_pod_id ob \<noteq> oc_pod_id original \<or> oc_request_sha256 ob \<noteq> oc_request_sha256 original
         \<or> oc_started_at ob \<noteq> oc_started_at original
         \<or> oc_phase ob \<noteq> Phase_running \<or> oc_phase original \<noteq> Phase_running
      then Some (CpuPodMismatch (oc_pod_id original)) else None)"

text \<open>
  Every fact of the Pod is as expected, missing or contradictory.  Equality of JSON values
  includes their types.
\<close>

datatype fact = As_expected | Missing | Contradiction

definition optional_fact :: "json \<Rightarrow> string \<Rightarrow> json \<Rightarrow> fact" where
  "optional_fact v k expected =
     (if jget v k = JNull then Missing else if jget v k = expected then As_expected else Contradiction)"

definition present_fact :: "json \<Rightarrow> string \<Rightarrow> json \<Rightarrow> fact" where
  "present_fact v k expected =
     (if \<not> has_key v k then Missing else if jget v k = expected then As_expected else Contradiction)"

definition absent_fact :: "json \<Rightarrow> string \<Rightarrow> fact" where
  "absent_fact v k = (if has_key v k then Contradiction else As_expected)"

definition empty_command_fact :: "json \<Rightarrow> string \<Rightarrow> fact" where
  "empty_command_fact v k = (if has_key v k \<and> jget v k \<noteq> JList [] then Contradiction else As_expected)"

definition networking_fact :: "json \<Rightarrow> fact" where
  "networking_fact raw =
     (let networking = jget raw ''globalNetworking'' in
      if networking = JNull then Missing
      else if \<not> is_jobj networking then Contradiction
      else if has_key networking ''ip'' \<or> has_key networking ''internalDns'' then Contradiction
      else if \<not> has_key networking ''enabled'' then Missing
      else if jget networking ''enabled'' \<noteq> JBool False then Contradiction else As_expected)"

definition shape_facts :: "CpuEnvironmentAcquisitionPlan \<Rightarrow> json \<Rightarrow> fact list" where
  "shape_facts plan raw =
     (let cpu = jget raw ''cpu'' in
      if cpu = JNull then [Missing]
      else if \<not> is_jobj cpu then [Contradiction]
      else [optional_fact cpu ''id'' (JStr (ep_cpu_id (ap_profile plan))),
            optional_fact cpu ''vcpuCount'' (JInt (ep_vcpu_count (ap_profile plan))),
            optional_fact cpu ''memory'' (JInt \<lfloor>dval (cm_ram_gb (ap_catalog plan))\<rfloor>)])"

definition pod_statuses :: "string list" where
  "pod_statuses = [''RUNNING'', ''PROVISIONING'', ''STARTING'']"

definition status_fact :: "json \<Rightarrow> fact" where
  "status_fact raw =
     (case jget raw ''status'' of
        JNull \<Rightarrow> Missing
      | JStr s \<Rightarrow> if s \<in> set pod_statuses then As_expected else Contradiction
      | _ \<Rightarrow> Contradiction)"

definition placement_facts :: "sdk \<Rightarrow> CpuEnvironmentAcquisitionPlan \<Rightarrow> json \<Rightarrow> fact list" where
  "placement_facts K plan raw =
     [optional_fact raw ''name'' (JStr (cpu_pod_name K (ap_request plan))),
      optional_fact raw ''image'' (JStr (ep_image (ap_profile plan))),
      optional_fact raw ''cloud'' (JStr ''SECURE''),
      optional_fact raw ''disk'' (JInt (ep_disk_gb (ap_profile plan))),
      optional_fact raw ''dataCenterId'' (JStr (ep_data_center_id (ap_profile plan))),
      present_fact raw ''ports'' (JList []), present_fact raw ''env'' (JObj []),
      present_fact raw ''mounts'' (JObj []), present_fact raw ''args'' (JStr []),
      present_fact raw ''registry'' JNull, present_fact raw ''locked'' (JBool False),
      present_fact raw ''template'' JNull,
      empty_command_fact raw ''cmd'', empty_command_fact raw ''entrypoint'',
      absent_fact raw ''gpu'', absent_fact raw ''cluster'', networking_fact raw]
     @ shape_facts plan raw @ [status_fact raw]"

text \<open>The running rate: a number that is positive and finite.\<close>

definition running_rate :: "json \<Rightarrow> rat option" where
  "running_rate v =
     (case v of
        JInt n \<Rightarrow> if 0 < n then Some (of_int n) else None
      | JNum d \<Rightarrow> if is_finite d \<and> 0 < dval d then Some (dval d) else None
      | _ \<Rightarrow> None)"

definition started_at :: "(string \<Rightarrow> datetime option) \<Rightarrow> json \<Rightarrow> int \<Rightarrow> int \<Rightarrow> datetime option" where
  "started_at read v earliest latest =
     (case (case v of JStr s \<Rightarrow> read s | JTime t \<Rightarrow> Some t | _ \<Rightarrow> None) of
        None \<Rightarrow> None
      | Some t \<Rightarrow> if is_aware t \<and> earliest \<le> usec t \<and> usec t \<le> latest then Some t else None)"

definition ready_deadline :: "CpuEnvironmentAcquisitionPlan \<Rightarrow> int" where
  "ready_deadline plan = min (usec (eq_expires_at (ap_request plan)))
     (usec (ap_planned_at plan) + seconds (eq_ready_timeout_seconds (ap_request plan)))"

definition running_observation :: "(string \<Rightarrow> datetime option) \<Rightarrow> sdk \<Rightarrow> json
    \<Rightarrow> CpuEnvironmentAcquisitionPlan \<Rightarrow> string \<Rightarrow> datetime \<Rightarrow> py_error + CpuPodObservation" where
  "running_observation read K raw plan expected_pod_id t =
     (case running_rate (jget raw ''cost'') of
        None \<Rightarrow> Inl (CpuPodReadinessUnknown expected_pod_id)
      | Some rate \<Rightarrow>
          if dval (cm_compute_cost_per_hr (ap_catalog plan)) < rate then Inl (CpuPodMismatch expected_pod_id)
          else case started_at read (jget raw ''startedAt'') (usec (ap_planned_at plan)) (usec t) of
              None \<Rightarrow> Inl (CpuPodReadinessUnknown expected_pod_id)
            | Some started \<Rightarrow> Inr \<lparr> oc_pod_id = expected_pod_id,
                oc_request_sha256 = sk_request_digest K (ap_request plan), oc_observed_at = t,
                oc_phase = Phase_running, oc_started_at = Some started, oc_compute_hourly_usd = Some rate \<rparr>)"

definition inspect_cpu_readiness :: "(string \<Rightarrow> datetime option) \<Rightarrow> sdk \<Rightarrow> PodResource
    \<Rightarrow> CpuEnvironmentAcquisitionPlan \<Rightarrow> string \<Rightarrow> datetime \<Rightarrow> py_error + CpuPodObservation" where
  "inspect_cpu_readiness read K pod plan expected_pod_id t =
     (let raw = po_raw pod; facts = placement_facts K plan raw in
      if \<not> is_aware t then Inl ResourceUnsupported
      else if expected_pod_id = [] then Inl ResourceUnsupported
      else if \<not> is_jobj raw \<or> po_id pod \<noteq> expected_pod_id \<or> jget raw ''id'' \<noteq> JStr expected_pod_id
      then Inl (CpuPodReadinessUnknown expected_pod_id)
      else if usec t < usec (ap_planned_at plan) then Inl (CpuPodReadinessUnknown expected_pod_id)
      else if ready_deadline plan \<le> usec t then Inl (CpuPodMismatch expected_pod_id)
      else if Contradiction \<in> set facts then Inl (CpuPodMismatch expected_pod_id)
      else if Missing \<in> set facts then Inl (CpuPodReadinessUnknown expected_pod_id)
      else if jget raw ''status'' = JStr ''RUNNING'' then running_observation read K raw plan expected_pod_id t
      else Inr \<lparr> oc_pod_id = expected_pod_id, oc_request_sha256 = sk_request_digest K (ap_request plan),
                 oc_observed_at = t, oc_phase = Phase_pending, oc_started_at = None,
                 oc_compute_hourly_usd = None \<rparr>)"

definition reconcile_cpu_candidates :: "sdk \<Rightarrow> PodResource list \<Rightarrow> CpuEnvironmentAcquisitionPlan
    \<Rightarrow> py_error + PodResource option" where
  "reconcile_cpu_candidates K pods plan =
     (case filter (\<lambda>pod. po_name pod = cpu_pod_name K (ap_request plan)) pods of
        [] \<Rightarrow> Inr None
      | [pod] \<Rightarrow> Inr (Some pod)
      | _ \<Rightarrow> Inl ResourceOutcomeUnknown)"

section \<open>A running Pod is the planned one\<close>

lemma facts_ok:
  assumes "Contradiction \<notin> set (placement_facts K plan raw)" "Missing \<notin> set (placement_facts K plan raw)"
  shows "list_all (\<lambda>f. f = As_expected) (placement_facts K plan raw)"
  using assms unfolding list_all_iff by (metis fact.exhaust)

lemma running_rate_pos: "running_rate v = Some r \<Longrightarrow> 0 < r"
  by (auto simp: running_rate_def split: json.splits if_splits)

lemma started_at_bounds: "started_at read v lo hi = Some t \<Longrightarrow> lo \<le> usec t \<and> usec t \<le> hi"
  by (auto simp: started_at_def split: option.splits if_splits)

text \<open>
  A CPU Pod is accepted only in the planned shape and window.  Every fact of the Pod that is
  read is the planned one (name, image, cloud, disk, data center, empty ports, environment and mounts, no GPU,
  no global network, flavor, count and memory); the observation is inside the ready window; a running Pod
  costs at most the planned compute rate and was started after the plan.  Every other outcome is one of the
  three resource errors, and the Pod id in an error is the expected one.
\<close>

theorem cpu_readiness_is_planned:
  "case inspect_cpu_readiness read K pod plan expected_pod_id t of
     Inl e \<Rightarrow> e \<in> {ResourceUnsupported, CpuPodReadinessUnknown expected_pod_id, CpuPodMismatch expected_pod_id}
   | Inr ob \<Rightarrow>
       oc_pod_id ob = expected_pod_id \<and> po_id pod = expected_pod_id \<and> oc_observed_at ob = t
       \<and> list_all (\<lambda>f. f = As_expected) (placement_facts K plan (po_raw pod))
       \<and> usec (ap_planned_at plan) \<le> usec t \<and> usec t < ready_deadline plan
       \<and> (case oc_phase ob of
            Phase_pending \<Rightarrow> jget (po_raw pod) ''status'' \<noteq> JStr ''RUNNING''
          | Phase_running \<Rightarrow> \<exists>rate started. oc_compute_hourly_usd ob = Some rate \<and> 0 < rate
              \<and> rate \<le> dval (cm_compute_cost_per_hr (ap_catalog plan))
              \<and> oc_started_at ob = Some started \<and> usec (ap_planned_at plan) \<le> usec started
              \<and> usec started \<le> usec t)"
proof -
  let ?run = "running_observation read K (po_raw pod) plan expected_pod_id t"
  have running: "case ?run of
      Inl e \<Rightarrow> e \<in> {CpuPodReadinessUnknown expected_pod_id, CpuPodMismatch expected_pod_id}
    | Inr ob \<Rightarrow> oc_pod_id ob = expected_pod_id \<and> oc_observed_at ob = t \<and> oc_phase ob = Phase_running
        \<and> (\<exists>rate started. oc_compute_hourly_usd ob = Some rate \<and> 0 < rate
              \<and> rate \<le> dval (cm_compute_cost_per_hr (ap_catalog plan))
              \<and> oc_started_at ob = Some started \<and> usec (ap_planned_at plan) \<le> usec started
              \<and> usec started \<le> usec t)"
    using running_rate_pos [of "jget (po_raw pod) ''cost''"]
      started_at_bounds [of read "jget (po_raw pod) ''startedAt''" "usec (ap_planned_at plan)" "usec t"]
    by (auto simp: running_observation_def split: option.splits)
  show ?thesis
  proof (cases "Contradiction \<in> set (placement_facts K plan (po_raw pod))
      \<or> Missing \<in> set (placement_facts K plan (po_raw pod))")
    case True
    then show ?thesis by (auto simp: inspect_cpu_readiness_def Let_def)
  next
    case False
    then have facts: "list_all (\<lambda>f. f = As_expected) (placement_facts K plan (po_raw pod))"
      by (intro facts_ok) auto
    with False running show ?thesis
      by (auto simp: inspect_cpu_readiness_def Let_def split: sum.splits if_splits)
  qed
qed

end
