(* ===== verification/Py_Float.thy ===== *)
theory Py_Float
  imports Billing
begin

text \<open>
  Floating point numbers of the language.  A finite \<^verbatim>\<open>float\<close> is represented by the decimal number that
  its \<^verbatim>\<open>repr\<close> denotes, as elsewhere in the development; here are the rounding to binary64, the \<^verbatim>\<open>repr\<close>, the
  operations that mixed decimal and float cost computations use, and \<^verbatim>\<open>math.isclose\<close>.
\<close>

section \<open>Definitions\<close>

function bit_length :: "int \<Rightarrow> nat" where
  "bit_length n = (if n \<le> 0 then 0 else Suc (bit_length (n div 2)))"
  by pat_completeness auto
termination
  by (relation "measure nat") auto

declare bit_length.simps [simp del]

text \<open>The exponent of the leading bit of a positive rational.\<close>

definition flog2 :: "rat \<Rightarrow> int" where
  "flog2 x = (case quotient_of x of (a, b) \<Rightarrow>
     let k = int (bit_length a) - int (bit_length b) in if 2 powi k \<le> x then k else k - 1)"

text \<open>Rounding half to even to 53 bits, with gradual underflow; \<^verbatim>\<open>None\<close> is an overflow to infinity.\<close>

definition binary64 :: "rat \<Rightarrow> rat option" where
  "binary64 x =
     (if x = 0 then Some 0
      else let e = max (flog2 \<bar>x\<bar> - 52) (- 1074); r = of_int (round_half_even (x / 2 powi e)) * 2 powi e
        in if 2 powi 1024 \<le> \<bar>r\<bar> then None else Some r)"

text \<open>The number of \<^verbatim>\<open>repr\<close>: the nearest decimal of the fewest digits that reads back as the same float.\<close>

definition repr_value :: "rat \<Rightarrow> rat" where
  "repr_value v = (case find (\<lambda>p. binary64 (round_sig p v) = Some v) [1..<18] of
     None \<Rightarrow> v | Some p \<Rightarrow> round_sig p v)"

definition to_float :: "rat \<Rightarrow> amount" where
  "to_float x = (case binary64 x of None \<Rightarrow> NaNInf | Some v \<Rightarrow> Fin (repr_value v))"

text \<open>The exact value of the float that a number denotes.\<close>

definition float_value :: "rat \<Rightarrow> rat" where
  "float_value x = (case binary64 x of None \<Rightarrow> x | Some v \<Rightarrow> v)"

definition float_add :: "rat \<Rightarrow> rat \<Rightarrow> amount" where
  "float_add a b = to_float (float_value a + float_value b)"

definition isclose :: "rat \<Rightarrow> amount \<Rightarrow> amount \<Rightarrow> bool" where
  "isclose tolerance x y =
     (case (x, y) of
        (Fin a, Fin b) \<Rightarrow>
          (let u = float_value a; v = float_value b; tol = float_value tolerance;
               diff = float_value \<bar>v - u\<bar>
           in u = v \<or> diff \<le> float_value \<bar>tol * v\<bar> \<or> diff \<le> float_value \<bar>tol * u\<bar> \<or> diff \<le> tol)
      | _ \<Rightarrow> False)"

text \<open>\<^verbatim>\<open>timedelta.total_seconds()\<close> of a number of microseconds.\<close>

definition total_seconds :: "int \<Rightarrow> rat" where
  "total_seconds micros = float_value (of_int micros / 1000000)"

text \<open>The \<^verbatim>\<open>repr\<close> of that float, which is what \<^verbatim>\<open>Decimal(str(...))\<close> reads.\<close>

definition total_seconds_repr :: "int \<Rightarrow> rat" where
  "total_seconds_repr micros = repr_value (total_seconds micros)"

text \<open>Addition in the default decimal context.\<close>

definition dec_add :: "rat \<Rightarrow> rat \<Rightarrow> rat" where
  "dec_add x y = round_sig default_prec (x + y)"

end
