(* ===== verification/Ollama_Contracts.thy ===== *)
theory Ollama_Contracts
  imports Py_Float Pod_Billing
begin

text \<open>
  The contracts and the cost policy of \<^verbatim>\<open>ollama_contracts.py\<close>: requests, plans, leases, the choice between
  Serverless and a dedicated Pod, and the authorized cost of a running lease.  Costs are floats; a
  quantity that is infinite or not a number is \<open>NaNInf\<close>.  Numbers are taken to be in the range of floats.
\<close>

section \<open>Definitions\<close>

subsection \<open>Enumerations\<close>

datatype OllamaLeaseMode = M_AUTO | M_SERVERLESS | M_POD

datatype OllamaResourceType = T_ENDPOINT | T_POD

datatype OllamaLeaseState = L_REQUESTED | L_PROVISIONING | L_RECONCILE_REQUIRED | L_WAITING_FOR_MODEL
  | L_READY | L_RELEASING | L_TERMINATED | L_FAILED

datatype OllamaTeardownState = D_NOT_REQUESTED | D_PENDING | D_RETRYABLE_FAILURE | D_COMPLETE

datatype OllamaNonComputeCostComponent = X_CONTAINER_DISK | X_NETWORK_VOLUME | X_MODEL_TRANSFER
  | X_RETRY_ALLOWANCE

fun mode_value :: "OllamaLeaseMode \<Rightarrow> string" where
  "mode_value M_AUTO = ''auto''"
| "mode_value M_SERVERLESS = ''serverless_load_balancer''"
| "mode_value M_POD = ''dedicated_pod''"

fun resource_type_value :: "OllamaResourceType \<Rightarrow> string" where
  "resource_type_value T_ENDPOINT = ''serverless_endpoint''"
| "resource_type_value T_POD = ''pod''"

fun lease_state_value :: "OllamaLeaseState \<Rightarrow> string" where
  "lease_state_value L_REQUESTED = ''requested''"
| "lease_state_value L_PROVISIONING = ''provisioning''"
| "lease_state_value L_RECONCILE_REQUIRED = ''reconcile_required''"
| "lease_state_value L_WAITING_FOR_MODEL = ''waiting_for_model''"
| "lease_state_value L_READY = ''ready''"
| "lease_state_value L_RELEASING = ''releasing''"
| "lease_state_value L_TERMINATED = ''terminated''"
| "lease_state_value L_FAILED = ''failed''"

fun teardown_value :: "OllamaTeardownState \<Rightarrow> string" where
  "teardown_value D_NOT_REQUESTED = ''not_requested''"
| "teardown_value D_PENDING = ''pending''"
| "teardown_value D_RETRYABLE_FAILURE = ''retryable_failure''"
| "teardown_value D_COMPLETE = ''complete''"

fun component_value :: "OllamaNonComputeCostComponent \<Rightarrow> string" where
  "component_value X_CONTAINER_DISK = ''container_disk''"
| "component_value X_NETWORK_VOLUME = ''network_volume''"
| "component_value X_MODEL_TRANSFER = ''model_transfer''"
| "component_value X_RETRY_ALLOWANCE = ''retry_allowance''"

subsection \<open>Non-compute costs\<close>

definition bad_cost :: "amount \<Rightarrow> bool" where
  "bad_cost a \<longleftrightarrow> \<not> finite_amount a \<or> usd a < 0"

record OllamaNonComputeCostPolicy =
  oy_estimated_cost_usd :: amount
  oy_maximum_cost_usd :: amount
  oy_covered_components :: "OllamaNonComputeCostComponent list"

definition cost_policy_post_init :: "OllamaNonComputeCostPolicy \<Rightarrow> py_error option" where
  "cost_policy_post_init y = first_error
     [(bad_cost (oy_estimated_cost_usd y), ValueError),
      (bad_cost (oy_maximum_cost_usd y), ValueError),
      (usd (oy_maximum_cost_usd y) < usd (oy_estimated_cost_usd y), ValueError),
      (oy_covered_components y = [] \<or> \<not> distinct (oy_covered_components y), ValueError),
      (sort_key component_value (oy_covered_components y) \<noteq> oy_covered_components y, ValueError)]"

subsection \<open>Requests\<close>

record OllamaResourceConstraints =
  ox_min_vram_gb :: int
  ox_gpu_count :: int
  ox_cloud :: CloudType
  ox_min_cuda_version :: "string option"
  ox_allowed_gpu_ids :: "string list"
  ox_allowed_gpu_pools :: "string list"
  ox_allowed_data_center_ids :: "string list"
  ox_max_hourly_rate :: "amount option"

definition ollama_constraints_post_init :: "OllamaResourceConstraints \<Rightarrow> py_error option" where
  "ollama_constraints_post_init x = first_error
     [(ox_min_vram_gb x < 1 \<or> ox_gpu_count x < 1, ValueError),
      (case ox_max_hourly_rate x of None \<Rightarrow> False | Some m \<Rightarrow> \<not> finite_amount m \<or> usd m \<le> 0, ValueError)]"

text \<open>The constructor of the requirements validates them and stores the normalized CUDA floor.\<close>

definition ollama_requirements :: "OllamaResourceConstraints \<Rightarrow> ComputeProduct
    \<Rightarrow> py_error + PlacementRequirements" where
  "ollama_requirements x product =
     (let r = \<lparr> pr_product = product, pr_min_vram_gb = ox_min_vram_gb x, pr_gpu_count = ox_gpu_count x,
            pr_cloud = ox_cloud x, pr_min_cuda_version = ox_min_cuda_version x,
            pr_max_cost_per_hr = ox_max_hourly_rate x, pr_allowed_gpu_ids = ox_allowed_gpu_ids x,
            pr_allowed_gpu_pools = ox_allowed_gpu_pools x,
            pr_allowed_data_center_ids = ox_allowed_data_center_ids x,
            pr_minimum_availability = AV_LOW, pr_benchmark_id = Some ''ollama-interactive'' \<rparr>
      in case requirements_post_init r of
           Some e \<Rightarrow> Inl e
         | None \<Rightarrow> (case normalize_cuda_floor (pr_min_cuda_version r) of
               Inl e \<Rightarrow> Inl e | Inr v \<Rightarrow> Inr (r\<lparr>pr_min_cuda_version := v\<rparr>)))"

definition constraints_dict :: "OllamaResourceConstraints \<Rightarrow> json" where
  "constraints_dict x = JObj
     [(''min_vram_gb'', JInt (ox_min_vram_gb x)), (''gpu_count'', JInt (ox_gpu_count x)),
      (''cloud'', JStr (cloud_value (ox_cloud x))),
      (''min_cuda_version'', jopt JStr (ox_min_cuda_version x)),
      (''allowed_gpu_ids'', jstrs (ox_allowed_gpu_ids x)),
      (''allowed_gpu_pools'', jstrs (ox_allowed_gpu_pools x)),
      (''allowed_data_center_ids'', jstrs (ox_allowed_data_center_ids x)),
      (''max_hourly_rate'', jopt JAmount (ox_max_hourly_rate x))]"

record OllamaLeaseRequest =
  oq_lease_id :: string
  oq_owner_id :: string
  oq_workload_id :: string
  oq_model :: string
  oq_constraints :: OllamaResourceConstraints
  oq_expected_session_seconds :: int
  oq_expected_active_seconds :: int
  oq_serverless_initialization_seconds :: int
  oq_serverless_idle_tail_seconds :: int
  oq_idle_timeout_seconds :: int
  oq_readiness_timeout_seconds :: int
  oq_hard_deadline :: datetime
  oq_max_authorized_cost :: amount
  oq_mode :: OllamaLeaseMode
  oq_requested_at :: "datetime option"

definition ollama_request_post_init :: "OllamaLeaseRequest \<Rightarrow> py_error option" where
  "ollama_request_post_init q = first_error
     (map (\<lambda>s. (\<not> nonblank s, ValueError)) [oq_lease_id q, oq_owner_id q, oq_workload_id q, oq_model q]
      @ [(list_ex (\<lambda>n. n \<le> 0) [oq_expected_session_seconds q, oq_expected_active_seconds q,
            oq_idle_timeout_seconds q, oq_readiness_timeout_seconds q], ValueError),
         (list_ex (\<lambda>n. n < 0) [oq_serverless_initialization_seconds q, oq_serverless_idle_tail_seconds q],
            ValueError),
         (oq_expected_session_seconds q < oq_expected_active_seconds q, ValueError),
         (\<not> finite_amount (oq_max_authorized_cost q) \<or> usd (oq_max_authorized_cost q) \<le> 0, ValueError),
         (\<not> is_aware (oq_hard_deadline q), ValueError)]
      @ (case oq_requested_at q of
           None \<Rightarrow> []
         | Some t \<Rightarrow> [(\<not> is_aware t, ValueError), (usec (oq_hard_deadline q) \<le> usec t, ValueError)]))"

definition ollama_fingerprint :: "(json \<Rightarrow> string) \<Rightarrow> OllamaLeaseRequest \<Rightarrow> string" where
  "ollama_fingerprint jsha q = jsha (JObj
     [(''owner_id'', JStr (oq_owner_id q)), (''workload_id'', JStr (oq_workload_id q)),
      (''model'', JStr (oq_model q)), (''constraints'', constraints_dict (oq_constraints q)),
      (''expected_session_seconds'', JInt (oq_expected_session_seconds q)),
      (''expected_active_seconds'', JInt (oq_expected_active_seconds q)),
      (''serverless_initialization_seconds'', JInt (oq_serverless_initialization_seconds q)),
      (''serverless_idle_tail_seconds'', JInt (oq_serverless_idle_tail_seconds q)),
      (''idle_timeout_seconds'', JInt (oq_idle_timeout_seconds q)),
      (''readiness_timeout_seconds'', JInt (oq_readiness_timeout_seconds q)),
      (''hard_deadline'', JTime (oq_hard_deadline q)),
      (''max_authorized_cost'', JAmount (oq_max_authorized_cost q)),
      (''mode'', JStr (mode_value (oq_mode q))), (''requested_at'', jopt JTime (oq_requested_at q))])"

subsection \<open>Costs\<close>

definition rated_cost :: "amount \<Rightarrow> int \<Rightarrow> int \<Rightarrow> amount" where
  "rated_cost hourly_rate secs gpu_count =
     (case hourly_rate of
        NaNInf \<Rightarrow> NaNInf
      | Fin r \<Rightarrow> to_float (dec_div (dec_mul (dec_mul r (of_int secs)) (of_int gpu_count)) 3600))"

definition cost_sum :: "amount \<Rightarrow> amount \<Rightarrow> amount" where
  "cost_sum x y =
     (case (x, y) of (Fin a, Fin b) \<Rightarrow> to_float (dec_add (dec_add 0 a) b) | _ \<Rightarrow> NaNInf)"

subsection \<open>Plans\<close>

record OllamaPlacementPlan =
  op_mode :: OllamaLeaseMode
  op_resource_type :: OllamaResourceType
  op_placement :: PlacementDecision
  op_estimated_compute_cost :: amount
  op_maximum_compute_cost :: amount
  op_estimated_non_compute_cost :: amount
  op_maximum_non_compute_cost :: amount
  op_estimated_cost :: amount
  op_cost_ceiling :: amount
  op_estimated_billable_seconds :: int
  op_maximum_billable_seconds :: int
  op_maximum_concurrent_workers :: int
  op_non_compute_components :: "OllamaNonComputeCostComponent list"
  op_maximum_serverless_cold_starts :: int

definition close :: "amount \<Rightarrow> amount \<Rightarrow> bool" where
  "close = isclose (1 / 10 ^ 12)"

definition amount_sum :: "amount \<Rightarrow> amount \<Rightarrow> amount" where
  "amount_sum x y = (case (x, y) of (Fin a, Fin b) \<Rightarrow> float_add a b | _ \<Rightarrow> NaNInf)"

definition ollama_plan_post_init :: "OllamaPlacementPlan \<Rightarrow> py_error option" where
  "ollama_plan_post_init p =
     (let maximum = op_maximum_serverless_cold_starts p;
          rate = pd_offered_cost_per_hr (op_placement p); gpus = pd_gpu_count (op_placement p) in
      first_error
        ([(maximum < 0, ValueError),
          (op_resource_type p = T_ENDPOINT \<and> maximum < 1, ValueError),
          (op_resource_type p = T_POD \<and> maximum \<noteq> 0, ValueError)]
         @ map (\<lambda>c. (bad_cost c, ValueError))
             [op_estimated_compute_cost p, op_maximum_compute_cost p, op_estimated_non_compute_cost p,
              op_maximum_non_compute_cost p, op_estimated_cost p, op_cost_ceiling p]
         @ map (\<lambda>n. (n < 1, ValueError))
             [op_estimated_billable_seconds p, op_maximum_billable_seconds p, op_maximum_concurrent_workers p]
         @ [(usd (op_maximum_compute_cost p) < usd (op_estimated_compute_cost p), ValueError),
            (op_maximum_billable_seconds p < op_estimated_billable_seconds p, ValueError),
            (usd (op_maximum_non_compute_cost p) < usd (op_estimated_non_compute_cost p), ValueError),
            (\<not> close (op_estimated_compute_cost p) (rated_cost rate (op_estimated_billable_seconds p) gpus)
              \<or> \<not> close (op_maximum_compute_cost p) (rated_cost rate (op_maximum_billable_seconds p) gpus),
              ValueError),
            (op_resource_type p = T_POD \<and> op_maximum_concurrent_workers p \<noteq> 1, ValueError),
            (\<not> close (op_estimated_cost p)
                (amount_sum (op_estimated_compute_cost p) (op_estimated_non_compute_cost p)), ValueError),
            (\<not> close (op_cost_ceiling p)
                (amount_sum (op_maximum_compute_cost p) (op_maximum_non_compute_cost p)), ValueError),
            (usd (op_cost_ceiling p) < usd (op_estimated_cost p), ValueError)]
         @ nested_error (cost_policy_post_init
             \<lparr> oy_estimated_cost_usd = op_estimated_non_compute_cost p,
               oy_maximum_cost_usd = op_maximum_non_compute_cost p,
               oy_covered_components = op_non_compute_components p \<rparr>)))"

definition checked_plan :: "OllamaPlacementPlan \<Rightarrow> py_error + OllamaPlacementPlan" where
  "checked_plan p = (case ollama_plan_post_init p of Some e \<Rightarrow> Inl e | None \<Rightarrow> Inr p)"

definition maximum_serverless_cold_starts :: "int \<Rightarrow> int \<Rightarrow> int option" where
  "maximum_serverless_cold_starts expected_session_seconds idle_tail_seconds =
     (if idle_tail_seconds \<le> 0 then None else Some (1 + expected_session_seconds div idle_tail_seconds))"

definition required_policy :: "(OllamaLeaseMode \<times> OllamaNonComputeCostPolicy) list \<Rightarrow> OllamaLeaseMode
    \<Rightarrow> py_error + OllamaNonComputeCostPolicy" where
  "required_policy policies mode =
     (case map_of policies mode of None \<Rightarrow> Inl RunPodManagerError | Some y \<Rightarrow> Inr y)"

definition costed_plan :: "OllamaLeaseMode \<Rightarrow> OllamaResourceType \<Rightarrow> PlacementDecision
    \<Rightarrow> OllamaNonComputeCostPolicy \<Rightarrow> int \<Rightarrow> int \<Rightarrow> int \<Rightarrow> int \<Rightarrow> py_error + OllamaPlacementPlan" where
  "costed_plan mode rtype d policy billable maximum_billable workers cold_starts =
     (let estimated_compute = rated_cost (pd_offered_cost_per_hr d) billable (pd_gpu_count d);
          maximum_compute = rated_cost (pd_offered_cost_per_hr d) maximum_billable (pd_gpu_count d)
      in checked_plan
        \<lparr> op_mode = mode, op_resource_type = rtype, op_placement = d,
          op_estimated_compute_cost = estimated_compute, op_maximum_compute_cost = maximum_compute,
          op_estimated_non_compute_cost = oy_estimated_cost_usd policy,
          op_maximum_non_compute_cost = oy_maximum_cost_usd policy,
          op_estimated_cost = cost_sum estimated_compute (oy_estimated_cost_usd policy),
          op_cost_ceiling = cost_sum maximum_compute (oy_maximum_cost_usd policy),
          op_estimated_billable_seconds = billable, op_maximum_billable_seconds = maximum_billable,
          op_maximum_concurrent_workers = workers,
          op_non_compute_components = oy_covered_components policy,
          op_maximum_serverless_cold_starts = cold_starts \<rparr>)"

definition serverless_candidate :: "OllamaLeaseRequest
    \<Rightarrow> (OllamaLeaseMode \<times> OllamaNonComputeCostPolicy) list \<Rightarrow> int \<Rightarrow> int \<Rightarrow> PlacementDecision option
    \<Rightarrow> py_error + OllamaPlacementPlan list" where
  "serverless_candidate q policies remaining_seconds workers decision =
     (case decision of
        None \<Rightarrow> Inr []
      | Some d \<Rightarrow>
          if oq_mode q \<notin> {M_AUTO, M_SERVERLESS} then Inr []
          else (case maximum_serverless_cold_starts (oq_expected_session_seconds q)
                  (oq_serverless_idle_tail_seconds q) of
              None \<Rightarrow> Inr []
            | Some cold_starts \<Rightarrow>
                bindE (required_policy policies M_SERVERLESS) (\<lambda>policy.
                let billable = oq_expected_active_seconds q + cold_starts
                      * (oq_serverless_initialization_seconds q + oq_serverless_idle_tail_seconds q)
                in bindE (costed_plan M_SERVERLESS T_ENDPOINT d policy billable
                     (max billable (remaining_seconds * workers)) workers cold_starts) (\<lambda>p. Inr [p]))))"

definition pod_candidate :: "OllamaLeaseRequest
    \<Rightarrow> (OllamaLeaseMode \<times> OllamaNonComputeCostPolicy) list \<Rightarrow> int \<Rightarrow> PlacementDecision option
    \<Rightarrow> py_error + OllamaPlacementPlan list" where
  "pod_candidate q policies remaining_seconds decision =
     (case decision of
        None \<Rightarrow> Inr []
      | Some d \<Rightarrow>
          if remaining_seconds < oq_expected_session_seconds q \<or> oq_mode q \<notin> {M_AUTO, M_POD} then Inr []
          else bindE (required_policy policies M_POD) (\<lambda>policy.
            bindE (costed_plan M_POD T_POD d policy (oq_expected_session_seconds q) remaining_seconds 1 0)
              (\<lambda>p. Inr [p])))"

text \<open>\<^verbatim>\<open>min(affordable, key=...)\<close>: the first of the cheapest.\<close>

fun cheapest :: "OllamaPlacementPlan \<Rightarrow> OllamaPlacementPlan list \<Rightarrow> OllamaPlacementPlan" where
  "cheapest best [] = best"
| "cheapest best (p # ps) =
     cheapest (if usd (op_estimated_cost p) < usd (op_estimated_cost best) then p else best) ps"

definition affordable_plan :: "OllamaLeaseRequest \<Rightarrow> OllamaPlacementPlan \<Rightarrow> bool" where
  "affordable_plan q p \<longleftrightarrow> usd (op_cost_ceiling p) \<le> usd (oq_max_authorized_cost q)"

definition plan_candidates :: "OllamaLeaseRequest \<Rightarrow> (ComputeProduct \<times> PlacementDecision) list
    \<Rightarrow> (OllamaLeaseMode \<times> OllamaNonComputeCostPolicy) list \<Rightarrow> int \<Rightarrow> int
    \<Rightarrow> py_error + OllamaPlacementPlan list" where
  "plan_candidates q decisions policies remaining_seconds workers =
     bindE (serverless_candidate q policies remaining_seconds workers (map_of decisions SERVERLESS)) (\<lambda>s.
     bindE (pod_candidate q policies remaining_seconds (map_of decisions POD)) (\<lambda>p. Inr (s @ p)))"

definition remaining_runtime :: "OllamaLeaseRequest \<Rightarrow> datetime \<Rightarrow> int" where
  "remaining_runtime q planned_at = \<lceil>total_seconds (usec (oq_hard_deadline q) - usec planned_at)\<rceil>"

definition select_ollama_plan :: "OllamaLeaseRequest \<Rightarrow> (ComputeProduct \<times> PlacementDecision) list
    \<Rightarrow> (OllamaLeaseMode \<times> OllamaNonComputeCostPolicy) list \<Rightarrow> datetime \<Rightarrow> int
    \<Rightarrow> py_error + OllamaPlacementPlan" where
  "select_ollama_plan q decisions policies planned_at serverless_max_workers =
     (if \<not> is_aware planned_at then Inl ValueError
      else if serverless_max_workers < 1 then Inl ValueError
      else if remaining_runtime q planned_at < 1 then Inl RunPodManagerError
      else bindE (plan_candidates q decisions policies (remaining_runtime q planned_at) serverless_max_workers)
        (\<lambda>candidates.
          case filter (affordable_plan q) candidates of
            [] \<Rightarrow> Inl RunPodManagerError
          | p # ps \<Rightarrow> Inr (cheapest p ps)))"

subsection \<open>Resources and leases\<close>

record ProvisionedOllamaResource =
  ow_resource_type :: OllamaResourceType
  ow_provider_resource_id :: string
  ow_resource_name :: string

record OllamaReadinessObservation =
  oo_provider_ready :: bool
  oo_route_url :: "string option"
  oo_provider_health_url :: "string option"
  oo_model_names :: "string list"

definition canonical_model_name :: "string \<Rightarrow> string" where
  "canonical_model_name v =
     (let normalized = strip_lower v in
      if CHR '':'' \<in> set normalized then normalized else normalized @ '':latest'')"

definition has_model :: "OllamaReadinessObservation \<Rightarrow> string \<Rightarrow> bool" where
  "has_model ob requested_model =
     list_ex (\<lambda>n. canonical_model_name n = canonical_model_name requested_model) (oo_model_names ob)"

text \<open>A row of \<^verbatim>\<open>ollama_leases\<close>; the JSON columns hold the values they encode.\<close>

record OllamaLease =
  ol_lease_id :: string
  ol_owner_id :: string
  ol_workload_id :: string
  ol_request_fingerprint :: string
  ol_model :: string
  ol_constraints_json :: json
  ol_mode :: "OllamaLeaseMode option"
  ol_resource_type :: "OllamaResourceType option"
  ol_provider_resource_id :: "string option"
  ol_resource_name :: "string option"
  ol_creation_uncertain :: bool
  ol_provision_attempt_id :: "string option"
  ol_provision_attempts :: int
  ol_route_url :: "string option"
  ol_provider_health_url :: "string option"
  ol_state :: OllamaLeaseState
  ol_teardown_state :: OllamaTeardownState
  ol_created_at :: datetime
  ol_updated_at :: datetime
  ol_provisioning_started_at :: "datetime option"
  ol_ready_at :: "datetime option"
  ol_last_used_at :: datetime
  ol_idle_deadline :: datetime
  ol_hard_deadline :: datetime
  ol_readiness_deadline :: datetime
  ol_model_pull_started_at :: "datetime option"
  ol_model_pull_attempts :: int
  ol_model_ready_at :: "datetime option"
  ol_expected_session_seconds :: int
  ol_expected_active_seconds :: int
  ol_serverless_initialization_seconds :: int
  ol_serverless_idle_tail_seconds :: int
  ol_idle_timeout_seconds :: int
  ol_offered_rate_per_hr :: "amount option"
  ol_estimated_cost :: "amount option"
  ol_estimated_compute_cost :: "amount option"
  ol_maximum_compute_cost :: "amount option"
  ol_estimated_non_compute_cost :: "amount option"
  ol_maximum_non_compute_cost :: "amount option"
  ol_cost_ceiling :: "amount option"
  ol_cost_policy_components :: "OllamaNonComputeCostComponent list"
  ol_maximum_concurrent_workers :: "int option"
  ol_estimated_billable_seconds :: "int option"
  ol_maximum_billable_seconds :: "int option"
  ol_accrued_estimated_cost :: amount
  ol_max_authorized_cost :: amount
  ol_cold_start_seconds :: "amount option"
  ol_selected_gpu_id :: "string option"
  ol_selected_gpu_pool :: "string option"
  ol_selected_gpu_name :: "string option"
  ol_catalog_observed_at :: "datetime option"
  ol_last_provider_error :: "string option"
  ol_termination_reason :: "string option"
  ol_teardown_attempts :: int
  ol_revision :: int
  ol_placement_gpu_count :: int

definition public_route_url :: "OllamaLease \<Rightarrow> string option" where
  "public_route_url l = (if ol_state l = L_READY then ol_route_url l else None)"

definition ollama_lease_to_dict :: "OllamaLease \<Rightarrow> json" where
  "ollama_lease_to_dict l = JObj
     [(''lease_id'', JStr (ol_lease_id l)), (''owner_id'', JStr (ol_owner_id l)),
      (''workload_id'', JStr (ol_workload_id l)), (''model'', JStr (ol_model l)),
      (''mode'', jopt (JStr \<circ> mode_value) (ol_mode l)),
      (''resource_type'', jopt (JStr \<circ> resource_type_value) (ol_resource_type l)),
      (''provider_resource_id'', jopt JStr (ol_provider_resource_id l)),
      (''provision_attempt_id'', jopt JStr (ol_provision_attempt_id l)),
      (''creation_uncertain'', JBool (ol_creation_uncertain l)),
      (''state'', JStr (lease_state_value (ol_state l))),
      (''teardown_state'', JStr (teardown_value (ol_teardown_state l))),
      (''created_at'', JTime (ol_created_at l)),
      (''provisioning_started_at'', jopt JTime (ol_provisioning_started_at l)),
      (''ready_at'', jopt JTime (ol_ready_at l)),
      (''readiness_deadline'', JTime (ol_readiness_deadline l)),
      (''last_used_at'', JTime (ol_last_used_at l)), (''idle_deadline'', JTime (ol_idle_deadline l)),
      (''hard_deadline'', JTime (ol_hard_deadline l)),
      (''offered_rate_per_hr'', jopt JAmount (ol_offered_rate_per_hr l)),
      (''estimated_cost'', jopt JAmount (ol_estimated_cost l)),
      (''estimated_compute_cost'', jopt JAmount (ol_estimated_compute_cost l)),
      (''maximum_compute_cost'', jopt JAmount (ol_maximum_compute_cost l)),
      (''estimated_non_compute_cost'', jopt JAmount (ol_estimated_non_compute_cost l)),
      (''maximum_non_compute_cost'', jopt JAmount (ol_maximum_non_compute_cost l)),
      (''cost_ceiling'', jopt JAmount (ol_cost_ceiling l)),
      (''cost_policy_components'', jstrs (map component_value (ol_cost_policy_components l))),
      (''maximum_concurrent_workers'', jopt JInt (ol_maximum_concurrent_workers l)),
      (''estimated_billable_seconds'', jopt JInt (ol_estimated_billable_seconds l)),
      (''maximum_billable_seconds'', jopt JInt (ol_maximum_billable_seconds l)),
      (''expected_session_seconds'', JInt (ol_expected_session_seconds l)),
      (''expected_active_seconds'', JInt (ol_expected_active_seconds l)),
      (''serverless_initialization_seconds'', JInt (ol_serverless_initialization_seconds l)),
      (''serverless_idle_tail_seconds'', JInt (ol_serverless_idle_tail_seconds l)),
      (''accrued_estimated_cost'', JAmount (ol_accrued_estimated_cost l)),
      (''max_authorized_cost'', JAmount (ol_max_authorized_cost l)),
      (''cold_start_seconds'', jopt JAmount (ol_cold_start_seconds l)),
      (''model_pull_started_at'', jopt JTime (ol_model_pull_started_at l)),
      (''model_ready_at'', jopt JTime (ol_model_ready_at l)),
      (''provision_attempts'', JInt (ol_provision_attempts l)),
      (''model_pull_attempts'', JInt (ol_model_pull_attempts l)),
      (''teardown_attempts'', JInt (ol_teardown_attempts l)),
      (''selected_gpu_id'', jopt JStr (ol_selected_gpu_id l)),
      (''selected_gpu_pool'', jopt JStr (ol_selected_gpu_pool l)),
      (''selected_gpu_name'', jopt JStr (ol_selected_gpu_name l)),
      (''catalog_observed_at'', jopt JTime (ol_catalog_observed_at l)),
      (''last_provider_error'', jopt JStr (ol_last_provider_error l)),
      (''termination_reason'', jopt JStr (ol_termination_reason l))]"

subsection \<open>The authorized cost of a lease\<close>

definition accrued_cost :: "OllamaLease \<Rightarrow> datetime \<Rightarrow> amount" where
  "accrued_cost l t =
     (case (ol_offered_rate_per_hr l, ol_provisioning_started_at l) of
        (Some rate, Some started) \<Rightarrow>
          (let elapsed = max 0 (min (usec t) (usec (ol_hard_deadline l)) - usec started) in
           case ol_maximum_concurrent_workers l of
             None \<Rightarrow> ol_max_authorized_cost l
           | Some multiplier \<Rightarrow>
               if multiplier < 1 then ol_max_authorized_cost l
               else (case rate of
                   NaNInf \<Rightarrow> NaNInf
                 | Fin r \<Rightarrow> to_float (dec_div (dec_mul (dec_mul (dec_mul r (total_seconds_repr elapsed))
                     (of_int multiplier)) (of_int (ol_placement_gpu_count l))) 3600)))
      | _ \<Rightarrow> ol_accrued_estimated_cost l)"

definition authorized_cost_exposure :: "OllamaLease \<Rightarrow> datetime \<Rightarrow> amount" where
  "authorized_cost_exposure l t =
     (case ol_maximum_non_compute_cost l of
        None \<Rightarrow> ol_max_authorized_cost l
      | Some overhead \<Rightarrow> cost_sum (accrued_cost l t) overhead)"

text \<open>Costs of a lease are never negative: a cost that is not finite is infinite, and it exceeds every cap.\<close>

definition over_authorized_cost :: "OllamaLease \<Rightarrow> datetime \<Rightarrow> bool" where
  "over_authorized_cost l t =
     (case authorized_cost_exposure l t of
        NaNInf \<Rightarrow> True | Fin x \<Rightarrow> usd (ol_max_authorized_cost l) \<le> x)"

subsection \<open>Names\<close>

definition resource_from_lease :: "OllamaLease \<Rightarrow> py_error + ProvisionedOllamaResource" where
  "resource_from_lease l =
     (case (ol_resource_type l, ol_provider_resource_id l, ol_resource_name l) of
        (Some rtype, Some i, Some n) \<Rightarrow>
          if i = [] \<or> n = [] then Inl RunPodManagerError
          else Inr \<lparr> ow_resource_type = rtype, ow_provider_resource_id = i, ow_resource_name = n \<rparr>
      | _ \<Rightarrow> Inl RunPodManagerError)"

definition ollama_resource_name :: "(string \<Rightarrow> string) \<Rightarrow> string \<Rightarrow> string" where
  "ollama_resource_name sha lease_id = ''kestrel-ollama-'' @ take 20 (sha lease_id)"

definition provision_attempt_id :: "(string \<Rightarrow> string) \<Rightarrow> (json \<Rightarrow> string) \<Rightarrow> OllamaLeaseRequest \<Rightarrow> string" where
  "provision_attempt_id sha jsha q =
     ''ollama-attempt-'' @ take 24 (sha (oq_lease_id q @ '':'' @ ollama_fingerprint jsha q))"

section \<open>The chosen plan is the cheapest that is authorized\<close>

lemma cheapest_mem: "cheapest best ps \<in> set (best # ps)"
  by (induction best ps rule: cheapest.induct) auto

lemma cheapest_le: "list_all (\<lambda>c. usd (op_estimated_cost (cheapest best ps)) \<le> usd (op_estimated_cost c)) (best # ps)"
proof (induction best ps rule: cheapest.induct)
  case (2 best p ps)
  then show ?case by (cases "usd (op_estimated_cost p) < usd (op_estimated_cost best)") simp_all
qed simp

text \<open>What a candidate fixes: its product, the checks of its constructor and the time it is rated for.\<close>

definition candidate_for :: "OllamaLeaseRequest \<Rightarrow> (ComputeProduct \<times> PlacementDecision) list \<Rightarrow> int
    \<Rightarrow> OllamaPlacementPlan \<Rightarrow> bool" where
  "candidate_for q decisions remaining_seconds p \<longleftrightarrow>
     ollama_plan_post_init p = None
     \<and> remaining_seconds * op_maximum_concurrent_workers p \<le> op_maximum_billable_seconds p
     \<and> (if op_mode p = M_SERVERLESS
        then op_resource_type p = T_ENDPOINT \<and> map_of decisions SERVERLESS = Some (op_placement p)
          \<and> oq_mode q \<in> {M_AUTO, M_SERVERLESS} \<and> 0 < oq_serverless_idle_tail_seconds q
          \<and> op_maximum_serverless_cold_starts p
              = 1 + oq_expected_session_seconds q div oq_serverless_idle_tail_seconds q
        else op_mode p = M_POD \<and> op_resource_type p = T_POD \<and> map_of decisions POD = Some (op_placement p)
          \<and> oq_mode q \<in> {M_AUTO, M_POD} \<and> oq_expected_session_seconds q \<le> remaining_seconds
          \<and> op_estimated_billable_seconds p = oq_expected_session_seconds q)"

lemma costed_plan_Inr:
  assumes "costed_plan mode rtype d policy billable maximum workers cold = Inr p"
  shows "ollama_plan_post_init p = None" "op_mode p = mode" "op_resource_type p = rtype"
    "op_placement p = d" "op_estimated_billable_seconds p = billable"
    "op_maximum_billable_seconds p = maximum" "op_maximum_concurrent_workers p = workers"
    "op_maximum_serverless_cold_starts p = cold"
  using assms by (auto simp: costed_plan_def checked_plan_def Let_def split: option.splits)

lemma serverless_candidate_Inr:
  assumes "serverless_candidate q policies remaining workers (map_of decisions SERVERLESS) = Inr ps" "p \<in> set ps"
  shows "candidate_for q decisions remaining p"
proof -
  from assms obtain d cold policy billable where
    d: "map_of decisions SERVERLESS = Some d" "oq_mode q \<in> {M_AUTO, M_SERVERLESS}"
      "maximum_serverless_cold_starts (oq_expected_session_seconds q) (oq_serverless_idle_tail_seconds q) = Some cold"
    and p: "costed_plan M_SERVERLESS T_ENDPOINT d policy billable (max billable (remaining * workers)) workers cold
      = Inr p"
    by (auto simp: serverless_candidate_def bindE_Inr Let_def split: option.splits if_splits)
  note f = costed_plan_Inr [OF p]
  from d(3) have "0 < oq_serverless_idle_tail_seconds q"
    "cold = 1 + oq_expected_session_seconds q div oq_serverless_idle_tail_seconds q"
    by (auto simp: maximum_serverless_cold_starts_def split: if_splits)
  then show ?thesis using f d by (simp add: candidate_for_def)
qed

lemma pod_candidate_Inr:
  assumes "pod_candidate q policies remaining (map_of decisions POD) = Inr ps" "p \<in> set ps"
  shows "candidate_for q decisions remaining p"
proof -
  from assms obtain d policy where
    d: "map_of decisions POD = Some d" "oq_mode q \<in> {M_AUTO, M_POD}" "oq_expected_session_seconds q \<le> remaining"
    and p: "costed_plan M_POD T_POD d policy (oq_expected_session_seconds q) remaining 1 0 = Inr p"
    by (auto simp: pod_candidate_def bindE_Inr split: option.splits if_splits)
  from costed_plan_Inr [OF p] d show ?thesis by (simp add: candidate_for_def)
qed

lemma checked_plan_Inl: "checked_plan p = Inl e \<Longrightarrow> e = ValueError"
proof -
  have y: "cost_policy_post_init y = Some x \<Longrightarrow> x = ValueError" for x y
    unfolding cost_policy_post_init_def by (erule first_error_ValueError [rotated]) simp
  assume "checked_plan p = Inl e"
  then have "ollama_plan_post_init p = Some e" by (simp add: checked_plan_def split: option.splits)
  then show ?thesis unfolding ollama_plan_post_init_def Let_def
    by (elim first_error_ValueError [rotated])
      (auto simp: nested_error_def dest: y split: option.splits)
qed

lemma candidates_Inl:
  "plan_candidates q decisions policies remaining workers = Inl e \<Longrightarrow> e \<in> {ValueError, RunPodManagerError}"
  by (auto simp: plan_candidates_def serverless_candidate_def pod_candidate_def bindE_Inl required_policy_def
      costed_plan_def Let_def dest!: checked_plan_Inl split: option.splits if_splits)

text \<open>
  C27.  Planning an Ollama lease picks an authorized mode at least cost.  A plan that is returned passes the
  checks of its constructor, is made from the placement of its own product in a mode the request allows, is
  rated at least for the whole time left on every worker it may run, has a ceiling within the authorized cost,
  and no affordable candidate has a smaller estimate.  Serverless is proposed only with a positive idle tail.
  The only errors are \<open>ValueError\<close> and \<open>RunPodManagerError\<close>.
\<close>

theorem ollama_plan_authorized:
  "case select_ollama_plan q decisions policies planned_at workers of
     Inl e \<Rightarrow> e \<in> {ValueError, RunPodManagerError}
   | Inr p \<Rightarrow> \<exists>candidates.
       plan_candidates q decisions policies (remaining_runtime q planned_at) workers = Inr candidates
       \<and> p \<in> set candidates \<and> list_all (candidate_for q decisions (remaining_runtime q planned_at)) candidates
       \<and> usd (op_cost_ceiling p) \<le> usd (oq_max_authorized_cost q)
       \<and> list_all (\<lambda>c. usd (op_estimated_cost p) \<le> usd (op_estimated_cost c))
           (filter (affordable_plan q) candidates)"
proof (cases "select_ollama_plan q decisions policies planned_at workers")
  case (Inl e)
  then show ?thesis
    by (auto simp: select_ollama_plan_def bindE_Inl neq_Nil_conv split: if_splits list.splits dest: candidates_Inl)
next
  case (Inr p)
  then obtain cs where cs: "plan_candidates q decisions policies (remaining_runtime q planned_at) workers = Inr cs"
    and pick: "(case filter (affordable_plan q) cs of [] \<Rightarrow> Inl RunPodManagerError
        | c # rest \<Rightarrow> Inr (cheapest c rest)) = Inr p"
    unfolding select_ollama_plan_def bindE_Inr by (auto simp: bindE_Inr split: if_splits)
  from pick obtain c rest where filtered: "filter (affordable_plan q) cs = c # rest" and p: "p = cheapest c rest"
    by (cases "filter (affordable_plan q) cs") auto
  have "p \<in> set (filter (affordable_plan q) cs)" unfolding filtered p by (rule cheapest_mem)
  then have "p \<in> set cs" "affordable_plan q p" by simp_all
  moreover have "list_all (\<lambda>c. usd (op_estimated_cost p) \<le> usd (op_estimated_cost c)) (filter (affordable_plan q) cs)"
    unfolding filtered p by (rule cheapest_le)
  moreover have "list_all (candidate_for q decisions (remaining_runtime q planned_at)) cs"
    using cs unfolding plan_candidates_def bindE_Inr list_all_iff
    by (auto dest: serverless_candidate_Inr pod_candidate_Inr)
  ultimately show ?thesis using cs unfolding Inr by (simp add: affordable_plan_def [of q p])
qed

end
