(* ===== verification/Ollama_Runtime.thy ===== *)
theory Ollama_Runtime
  imports Pod_Provider Ollama_Contracts
begin

text \<open>
  The configuration contract of the inference workload, \<^verbatim>\<open>ollama_runtime.py\<close>: the reviewed image by digest,
  the allowlist of models by digest, the storage path and the environment of the worker.  The text of
  an instant (\<^verbatim>\<open>isoformat\<close>) is a function argument.
\<close>

section \<open>Definitions\<close>

subsection \<open>Images and models by digest\<close>

definition ollama_image_repository :: string where
  "ollama_image_repository = ''ghcr.io/kestrelsovereignai/kestrel-cloud-runpod-ollama-runtime''"

text \<open>\<^verbatim>\<open>sha256:\<close> and 64 hexadecimal digits in lower case\<close>

definition digest_reference :: "string \<Rightarrow> bool" where
  "digest_reference s \<longleftrightarrow> take 7 s = ''sha256:'' \<and> length s = 71 \<and> list_all is_lower_hex (drop 7 s)"

definition immutable_image :: "string \<Rightarrow> bool" where
  "immutable_image img =
     (case partition_at (CHR ''@'') img of
        (name, Some digest) \<Rightarrow> name \<noteq> [] \<and> list_all (\<lambda>c. \<not> is_space c) name \<and> digest_reference digest
      | (_, None) \<Rightarrow> False)"

definition require_immutable_ollama_image :: "string \<Rightarrow> py_error + string" where
  "require_immutable_ollama_image img =
     (if \<not> immutable_image img then Inl RunPodManagerError
      else if fst (partition_at (CHR ''@'') img) \<noteq> ollama_image_repository then Inl RunPodManagerError
      else Inr img)"

definition is_pin_char :: "char \<Rightarrow> bool" where
  "is_pin_char c \<longleftrightarrow> (CHR ''a'' \<le> c \<and> c \<le> CHR ''z'') \<or> is_digit_char c"

definition pin_text :: "char set \<Rightarrow> string \<Rightarrow> bool" where
  "pin_text extra s \<longleftrightarrow> s \<noteq> [] \<and> is_pin_char (hd s) \<and> list_all (\<lambda>c. is_pin_char c \<or> c \<in> extra) s"

text \<open>\<^verbatim>\<open>name:tag@sha256:digest\<close>; neither the name nor the tag has a colon or an at sign.\<close>

definition model_pin :: "string \<Rightarrow> (string \<times> string) option" where
  "model_pin spec =
     (case partition_at (CHR ''@'') spec of
        (name, Some digest) \<Rightarrow>
          (case partition_at (CHR '':'') name of
             (repository, Some tag) \<Rightarrow>
               if pin_text {CHR ''.'', CHR ''_'', CHR ''/'', CHR ''-''} repository
                 \<and> pin_text {CHR ''.'', CHR ''_'', CHR ''-''} tag \<and> digest_reference digest
               then Some (name, digest) else None
           | (_, None) \<Rightarrow> None)
      | (_, None) \<Rightarrow> None)"

text \<open>\<^verbatim>\<open>str.split\<close> at one character\<close>

fun split_at :: "char \<Rightarrow> string \<Rightarrow> string list" where
  "split_at c [] = [[]]"
| "split_at c (x # xs) =
     (case split_at c xs of
        [] \<Rightarrow> [[x]]
      | y # ys \<Rightarrow> if x = c then [] # y # ys else (x # y) # ys)"

fun allowlist_entries :: "string list \<Rightarrow> (string \<times> string) list \<Rightarrow> py_error + (string \<times> string) list" where
  "allowlist_entries [] allowed = Inr allowed"
| "allowlist_entries (item # items) allowed =
     (let spec = trim is_space item in
      if spec = [] then allowlist_entries items allowed
      else case model_pin spec of
        None \<Rightarrow> Inl RunPodManagerError
      | Some (name, digest) \<Rightarrow>
          if name \<in> fst ` set allowed then Inl RunPodManagerError
          else allowlist_entries items (allowed @ [(name, digest)]))"

definition parse_ollama_model_allowlist :: "string \<Rightarrow> py_error + (string \<times> string) list" where
  "parse_ollama_model_allowlist raw =
     bindE (allowlist_entries (split_at (CHR '','') raw) []) (\<lambda>allowed.
     if allowed = [] then Inl RunPodManagerError else Inr allowed)"

subsection \<open>The storage path\<close>

text \<open>\<^verbatim>\<open>PurePosixPath\<close>: empty and dot components are dropped, exactly two leading slashes are kept.\<close>

definition posix_root :: "string \<Rightarrow> string" where
  "posix_root path =
     (if take 2 path = ''//'' \<and> take 3 path \<noteq> ''///'' then ''//''
      else if take 1 path = ''/'' then ''/'' else [])"

definition posix_parts :: "string \<Rightarrow> string list" where
  "posix_parts path = filter (\<lambda>p. p \<noteq> [] \<and> p \<noteq> ''.'') (split_at (CHR ''/'') path)"

fun join_with :: "char \<Rightarrow> string list \<Rightarrow> string" where
  "join_with c [] = []"
| "join_with c [x] = x"
| "join_with c (x # y # ys) = x @ c # join_with c (y # ys)"

definition posix_text :: "string \<Rightarrow> string" where
  "posix_text path =
     (let s = posix_root path @ join_with (CHR ''/'') (posix_parts path) in if s = [] then ''.'' else s)"

definition under_root :: "string \<Rightarrow> string \<Rightarrow> bool" where
  "under_root path base \<longleftrightarrow> path = base \<or> take (length base + 1) path = base @ ''/''"

definition model_storage_path :: "string \<Rightarrow> OllamaLeaseMode \<Rightarrow> py_error + string" where
  "model_storage_path path mode =
     (if posix_root path = [] \<or> posix_text path \<noteq> path \<or> ''..'' \<in> set (posix_parts path)
      then Inl RunPodManagerError
      else if \<not> list_ex (under_root path)
        (if mode = M_SERVERLESS then [''/models'', ''/runpod-volume''] else [''/models'', ''/workspace''])
      then Inl RunPodManagerError
      else Inr (posix_text path))"

subsection \<open>The environment of the worker\<close>

definition reserved_env :: "string list" where
  "reserved_env =
     [''HEALTH_CHECK_PATH'', ''KESTREL_OLLAMA_BEARER_TOKEN'', ''KESTREL_OLLAMA_BEARER_TOKEN_EXPIRES_AT'',
      ''KESTREL_OLLAMA_MODE'', ''KESTREL_OLLAMA_MODEL_STORAGE_PATH'',
      ''KESTREL_OLLAMA_PROVISION_REQUESTED_AT'', ''KESTREL_OLLAMA_REQUIRED_MODEL'', ''OLLAMA_HOST'',
      ''OLLAMA_MODELS'', ''OLLAMA_MODELS_PULL'', ''PORT'', ''PORT_HEALTH'']"

definition bad_bearer :: "string \<Rightarrow> bool" where
  "bad_bearer token \<longleftrightarrow> length token < 32 \<or> trim is_space token \<noteq> token
     \<or> list_ex (\<lambda>c. c = CHR 0x0D \<or> c = CHR 0x0A) token"

definition allowed_models :: "(string \<times> string) list \<Rightarrow> py_error + (string \<times> string) list" where
  "allowed_models profile_environment =
     (case map_of profile_environment ''KESTREL_OLLAMA_ALLOWED_MODELS'' of
        None \<Rightarrow> Inl RunPodManagerError
      | Some raw \<Rightarrow> if \<not> nonblank raw then Inl RunPodManagerError else parse_ollama_model_allowlist raw)"

definition runtime_settings :: "(datetime \<Rightarrow> string) \<Rightarrow> string \<Rightarrow> string \<Rightarrow> datetime \<Rightarrow> OllamaLeaseMode
    \<Rightarrow> string \<Rightarrow> datetime \<Rightarrow> (string \<times> string) list" where
  "runtime_settings rfc3339 model token expires_at mode storage_path requested_at =
     [(''HEALTH_CHECK_PATH'', ''/ping''), (''KESTREL_OLLAMA_BEARER_TOKEN'', token),
      (''KESTREL_OLLAMA_BEARER_TOKEN_EXPIRES_AT'', rfc3339 expires_at),
      (''KESTREL_OLLAMA_MODE'', mode_value mode), (''KESTREL_OLLAMA_MODEL_STORAGE_PATH'', storage_path),
      (''KESTREL_OLLAMA_PROVISION_REQUESTED_AT'', rfc3339 requested_at),
      (''KESTREL_OLLAMA_REQUIRED_MODEL'', model), (''PORT'', ''11434''), (''PORT_HEALTH'', ''11434'')]"

definition build_ollama_runtime_environment :: "(datetime \<Rightarrow> string) \<Rightarrow> (string \<times> string) list
    \<Rightarrow> string \<Rightarrow> string \<Rightarrow> datetime \<Rightarrow> OllamaLeaseMode \<Rightarrow> string \<Rightarrow> datetime
    \<Rightarrow> py_error + (string \<times> string) list" where
  "build_ollama_runtime_environment rfc3339 profile_environment model token expires_at mode path requested_at =
     (if list_ex (\<lambda>k. k \<in> fst ` set profile_environment) reserved_env then Inl RunPodManagerError
      else if mode = M_AUTO then Inl RunPodManagerError
      else bindE (model_storage_path path mode) (\<lambda>storage_path.
        if bad_bearer token then Inl RunPodManagerError
        else if \<not> is_aware expires_at \<or> \<not> is_aware requested_at then Inl RunPodManagerError
        else if usec expires_at \<le> usec requested_at then Inl RunPodManagerError
        else bindE (allowed_models profile_environment) (\<lambda>allowed.
          if model \<notin> fst ` set allowed then Inl RunPodManagerError
          else Inr (dict_merge profile_environment
            (runtime_settings rfc3339 model token expires_at mode storage_path requested_at)))))"

end
