(* ===== verification/Ollama_Repository.thy ===== *)
theory Ollama_Repository
  imports Ollama_Contracts
begin

text \<open>
  The SQLite store of \<^verbatim>\<open>ollama_repository.py\<close>: one table keyed by the lease id, idempotent insertion, the
  compare-and-set on the revision, and the reconstruction of a request from its row.  As for the Pod store,
  other processes may commit before every transaction.  The list \<open>uw_absent\<close> is shared with them: the provider
  resources whose teardown a provider call has confirmed.
\<close>

section \<open>Definitions\<close>

subsection \<open>Environment and state\<close>

datatype ollama_effect =
    Eff_provision OllamaLeaseRequest OllamaPlacementPlan string
  | Eff_pull ProvisionedOllamaResource string
  | Eff_teardown ProvisionedOllamaResource

record ollama_world =
  uw_table :: "OllamaLease list"
  uw_absent :: "string list"
  uw_tick :: nat
  uw_effects :: "ollama_effect list"

record ollama_repo_env =
  ue_interfere :: "nat \<Rightarrow> OllamaLease list \<times> string list \<Rightarrow> OllamaLease list \<times> string list"
  ue_wall_clock :: "nat \<Rightarrow> datetime"
  ue_sha :: "string \<Rightarrow> string"
  ue_jsha :: "json \<Rightarrow> string"

definition ollama_transaction :: "('e ollama_repo_env_scheme) \<Rightarrow> ollama_world \<Rightarrow> ollama_world" where
  "ollama_transaction E w =
     (case ue_interfere E (uw_tick w) (uw_table w, uw_absent w) of
        (t, a) \<Rightarrow> w\<lparr>uw_table := t, uw_absent := a, uw_tick := Suc (uw_tick w)\<rparr>)"

subsection \<open>Column updates\<close>

text \<open>
  \<^verbatim>\<open>_COLUMNS\<close>: the columns an update may set.  \<^verbatim>\<open>provider_health_url\<close> is one of them and is set by no caller.
\<close>

datatype ollama_change =
    OC_mode "OllamaLeaseMode option"
  | OC_resource_type "OllamaResourceType option"
  | OC_provider_resource_id "string option"
  | OC_resource_name "string option"
  | OC_creation_uncertain bool
  | OC_provision_attempt_id "string option"
  | OC_provision_attempts int
  | OC_route_url "string option"
  | OC_provider_health_url "string option"
  | OC_state OllamaLeaseState
  | OC_teardown_state OllamaTeardownState
  | OC_updated_at datetime
  | OC_provisioning_started_at "datetime option"
  | OC_ready_at "datetime option"
  | OC_last_used_at datetime
  | OC_idle_deadline datetime
  | OC_model_pull_started_at "datetime option"
  | OC_model_pull_attempts int
  | OC_model_ready_at "datetime option"
  | OC_offered_rate_per_hr "amount option"
  | OC_placement_gpu_count int
  | OC_estimated_cost "amount option"
  | OC_estimated_compute_cost "amount option"
  | OC_maximum_compute_cost "amount option"
  | OC_estimated_non_compute_cost "amount option"
  | OC_maximum_non_compute_cost "amount option"
  | OC_cost_ceiling "amount option"
  | OC_cost_policy_components "OllamaNonComputeCostComponent list"
  | OC_maximum_concurrent_workers "int option"
  | OC_estimated_billable_seconds "int option"
  | OC_maximum_billable_seconds "int option"
  | OC_accrued_estimated_cost amount
  | OC_cold_start_seconds "amount option"
  | OC_selected_gpu_id "string option"
  | OC_selected_gpu_pool "string option"
  | OC_selected_gpu_name "string option"
  | OC_catalog_observed_at "datetime option"
  | OC_last_provider_error "string option"
  | OC_termination_reason "string option"
  | OC_teardown_attempts int

fun apply_oc :: "ollama_change \<Rightarrow> OllamaLease \<Rightarrow> OllamaLease" where
  "apply_oc (OC_mode x) r = r\<lparr>ol_mode := x\<rparr>"
| "apply_oc (OC_resource_type x) r = r\<lparr>ol_resource_type := x\<rparr>"
| "apply_oc (OC_provider_resource_id x) r = r\<lparr>ol_provider_resource_id := x\<rparr>"
| "apply_oc (OC_resource_name x) r = r\<lparr>ol_resource_name := x\<rparr>"
| "apply_oc (OC_creation_uncertain x) r = r\<lparr>ol_creation_uncertain := x\<rparr>"
| "apply_oc (OC_provision_attempt_id x) r = r\<lparr>ol_provision_attempt_id := x\<rparr>"
| "apply_oc (OC_provision_attempts x) r = r\<lparr>ol_provision_attempts := x\<rparr>"
| "apply_oc (OC_route_url x) r = r\<lparr>ol_route_url := x\<rparr>"
| "apply_oc (OC_provider_health_url x) r = r\<lparr>ol_provider_health_url := x\<rparr>"
| "apply_oc (OC_state x) r = r\<lparr>ol_state := x\<rparr>"
| "apply_oc (OC_teardown_state x) r = r\<lparr>ol_teardown_state := x\<rparr>"
| "apply_oc (OC_updated_at x) r = r\<lparr>ol_updated_at := x\<rparr>"
| "apply_oc (OC_provisioning_started_at x) r = r\<lparr>ol_provisioning_started_at := x\<rparr>"
| "apply_oc (OC_ready_at x) r = r\<lparr>ol_ready_at := x\<rparr>"
| "apply_oc (OC_last_used_at x) r = r\<lparr>ol_last_used_at := x\<rparr>"
| "apply_oc (OC_idle_deadline x) r = r\<lparr>ol_idle_deadline := x\<rparr>"
| "apply_oc (OC_model_pull_started_at x) r = r\<lparr>ol_model_pull_started_at := x\<rparr>"
| "apply_oc (OC_model_pull_attempts x) r = r\<lparr>ol_model_pull_attempts := x\<rparr>"
| "apply_oc (OC_model_ready_at x) r = r\<lparr>ol_model_ready_at := x\<rparr>"
| "apply_oc (OC_offered_rate_per_hr x) r = r\<lparr>ol_offered_rate_per_hr := x\<rparr>"
| "apply_oc (OC_placement_gpu_count x) r = r\<lparr>ol_placement_gpu_count := x\<rparr>"
| "apply_oc (OC_estimated_cost x) r = r\<lparr>ol_estimated_cost := x\<rparr>"
| "apply_oc (OC_estimated_compute_cost x) r = r\<lparr>ol_estimated_compute_cost := x\<rparr>"
| "apply_oc (OC_maximum_compute_cost x) r = r\<lparr>ol_maximum_compute_cost := x\<rparr>"
| "apply_oc (OC_estimated_non_compute_cost x) r = r\<lparr>ol_estimated_non_compute_cost := x\<rparr>"
| "apply_oc (OC_maximum_non_compute_cost x) r = r\<lparr>ol_maximum_non_compute_cost := x\<rparr>"
| "apply_oc (OC_cost_ceiling x) r = r\<lparr>ol_cost_ceiling := x\<rparr>"
| "apply_oc (OC_cost_policy_components x) r = r\<lparr>ol_cost_policy_components := x\<rparr>"
| "apply_oc (OC_maximum_concurrent_workers x) r = r\<lparr>ol_maximum_concurrent_workers := x\<rparr>"
| "apply_oc (OC_estimated_billable_seconds x) r = r\<lparr>ol_estimated_billable_seconds := x\<rparr>"
| "apply_oc (OC_maximum_billable_seconds x) r = r\<lparr>ol_maximum_billable_seconds := x\<rparr>"
| "apply_oc (OC_accrued_estimated_cost x) r = r\<lparr>ol_accrued_estimated_cost := x\<rparr>"
| "apply_oc (OC_cold_start_seconds x) r = r\<lparr>ol_cold_start_seconds := x\<rparr>"
| "apply_oc (OC_selected_gpu_id x) r = r\<lparr>ol_selected_gpu_id := x\<rparr>"
| "apply_oc (OC_selected_gpu_pool x) r = r\<lparr>ol_selected_gpu_pool := x\<rparr>"
| "apply_oc (OC_selected_gpu_name x) r = r\<lparr>ol_selected_gpu_name := x\<rparr>"
| "apply_oc (OC_catalog_observed_at x) r = r\<lparr>ol_catalog_observed_at := x\<rparr>"
| "apply_oc (OC_last_provider_error x) r = r\<lparr>ol_last_provider_error := x\<rparr>"
| "apply_oc (OC_termination_reason x) r = r\<lparr>ol_termination_reason := x\<rparr>"
| "apply_oc (OC_teardown_attempts x) r = r\<lparr>ol_teardown_attempts := x\<rparr>"

definition apply_ocs :: "ollama_change list \<Rightarrow> OllamaLease \<Rightarrow> OllamaLease" where
  "apply_ocs cs r = fold apply_oc cs r"

text \<open>\<^verbatim>\<open>_db_value\<close> refuses a naive instant before the transaction starts.\<close>

fun oc_aware :: "ollama_change \<Rightarrow> bool" where
  "oc_aware (OC_updated_at t) = is_aware t"
| "oc_aware (OC_last_used_at t) = is_aware t"
| "oc_aware (OC_idle_deadline t) = is_aware t"
| "oc_aware (OC_provisioning_started_at (Some t)) = is_aware t"
| "oc_aware (OC_ready_at (Some t)) = is_aware t"
| "oc_aware (OC_model_pull_started_at (Some t)) = is_aware t"
| "oc_aware (OC_model_ready_at (Some t)) = is_aware t"
| "oc_aware (OC_catalog_observed_at (Some t)) = is_aware t"
| "oc_aware _ = True"

fun sets_ollama_updated_at :: "ollama_change \<Rightarrow> bool" where
  "sets_ollama_updated_at (OC_updated_at _) = True"
| "sets_ollama_updated_at _ = False"

subsection \<open>Table operations\<close>

definition lease_row :: "OllamaLease list \<Rightarrow> string \<Rightarrow> OllamaLease option" where
  "lease_row t k = find (\<lambda>r. ol_lease_id r = k) t"

definition replace_row :: "OllamaLease list \<Rightarrow> OllamaLease \<Rightarrow> OllamaLease list" where
  "replace_row t r' = map (\<lambda>r. if ol_lease_id r = ol_lease_id r' then r' else r) t"

text \<open>\<^verbatim>\<open>UPDATE ... SET ..., revision = revision + 1 WHERE lease_id = ? AND revision = ?\<close>\<close>

definition lease_cas :: "OllamaLease list \<Rightarrow> string \<Rightarrow> int \<Rightarrow> ollama_change list
    \<Rightarrow> py_error + (OllamaLease \<times> OllamaLease list)" where
  "lease_cas t k n changes =
     (case find (\<lambda>r. ol_lease_id r = k \<and> ol_revision r = n) t of
        None \<Rightarrow> Inl OllamaLeaseConflictError
      | Some r \<Rightarrow>
          let r' = (apply_ocs changes r)\<lparr>ol_revision := ol_revision r + 1\<rparr> in Inr (r', replace_row t r'))"

text \<open>Decoding a row: the cost components that are stored must be distinct.\<close>

definition ollama_from_row :: "OllamaLease \<Rightarrow> py_error + OllamaLease" where
  "ollama_from_row r = (if distinct (ol_cost_policy_components r) then Inr r else Inl RunPodManagerError)"

subsection \<open>Repository methods\<close>

definition ollama_cas :: "('e ollama_repo_env_scheme) \<Rightarrow> OllamaLease \<Rightarrow> ollama_change list
    \<Rightarrow> (ollama_world, OllamaLease) prog" where
  "ollama_cas E lease changes = (\<lambda>w0.
     if \<not> list_all oc_aware changes then (Inl ValueError, w0)
     else
       let w = ollama_transaction E w0;
           serialized = (if list_ex sets_ollama_updated_at changes then changes
             else changes @ [OC_updated_at (ue_wall_clock E (uw_tick w0))])
       in case lease_cas (uw_table w) (ol_lease_id lease) (ol_revision lease) serialized of
            Inl e \<Rightarrow> (Inl e, w)
          | Inr (r', t') \<Rightarrow> (ollama_from_row r', w\<lparr>uw_table := t'\<rparr>))"

definition ollama_get_row :: "('e ollama_repo_env_scheme) \<Rightarrow> string
    \<Rightarrow> (ollama_world, OllamaLease option) prog" where
  "ollama_get_row E k = (\<lambda>w0. let w = ollama_transaction E w0 in
     case lease_row (uw_table w) k of
       None \<Rightarrow> (Inr None, w)
     | Some r \<Rightarrow> (case ollama_from_row r of Inl e \<Rightarrow> (Inl e, w) | Inr l \<Rightarrow> (Inr (Some l), w)))"

definition ollama_list_rows :: "('e ollama_repo_env_scheme) \<Rightarrow> (ollama_world, OllamaLease list) prog" where
  "ollama_list_rows E = (\<lambda>w0. let w = ollama_transaction E w0 in
     (mapE ollama_from_row (sort_key ol_created_at (filter (\<lambda>r. ol_state r \<noteq> L_TERMINATED) (uw_table w))), w))"

definition dt_min :: "datetime \<Rightarrow> datetime \<Rightarrow> datetime" where
  "dt_min s t = (if usec t < usec s then t else s)"

definition ollama_new_row :: "('e ollama_repo_env_scheme) \<Rightarrow> OllamaLeaseRequest \<Rightarrow> datetime \<Rightarrow> OllamaLease" where
  "ollama_new_row E q t =
     (let started = (case oq_requested_at q of None \<Rightarrow> t | Some s \<Rightarrow> s) in
      \<lparr> ol_lease_id = oq_lease_id q, ol_owner_id = oq_owner_id q, ol_workload_id = oq_workload_id q,
        ol_request_fingerprint = ollama_fingerprint (ue_jsha E) q, ol_model = oq_model q,
        ol_constraints_json = constraints_dict (oq_constraints q), ol_mode = Some (oq_mode q),
        ol_resource_type = None, ol_provider_resource_id = None, ol_resource_name = None,
        ol_creation_uncertain = False, ol_provision_attempt_id = None, ol_provision_attempts = 0,
        ol_route_url = None, ol_provider_health_url = None, ol_state = L_REQUESTED,
        ol_teardown_state = D_NOT_REQUESTED, ol_created_at = t, ol_updated_at = t,
        ol_provisioning_started_at = None, ol_ready_at = None, ol_last_used_at = t,
        ol_idle_deadline = dt_min (dt_add t (seconds (oq_idle_timeout_seconds q))) (oq_hard_deadline q),
        ol_hard_deadline = oq_hard_deadline q,
        ol_readiness_deadline =
          dt_min (dt_add started (seconds (oq_readiness_timeout_seconds q))) (oq_hard_deadline q),
        ol_model_pull_started_at = None, ol_model_pull_attempts = 0, ol_model_ready_at = None,
        ol_expected_session_seconds = oq_expected_session_seconds q,
        ol_expected_active_seconds = oq_expected_active_seconds q,
        ol_serverless_initialization_seconds = oq_serverless_initialization_seconds q,
        ol_serverless_idle_tail_seconds = oq_serverless_idle_tail_seconds q,
        ol_idle_timeout_seconds = oq_idle_timeout_seconds q, ol_offered_rate_per_hr = None,
        ol_estimated_cost = None, ol_estimated_compute_cost = None, ol_maximum_compute_cost = None,
        ol_estimated_non_compute_cost = None, ol_maximum_non_compute_cost = None, ol_cost_ceiling = None,
        ol_cost_policy_components = [], ol_maximum_concurrent_workers = None,
        ol_estimated_billable_seconds = None, ol_maximum_billable_seconds = None,
        ol_accrued_estimated_cost = Fin 0, ol_max_authorized_cost = oq_max_authorized_cost q,
        ol_cold_start_seconds = None, ol_selected_gpu_id = None, ol_selected_gpu_pool = None,
        ol_selected_gpu_name = None, ol_catalog_observed_at = None, ol_last_provider_error = None,
        ol_termination_reason = None, ol_teardown_attempts = 0, ol_revision = 0,
        ol_placement_gpu_count = 1 \<rparr>)"

text \<open>An insertion that the primary key refuses is no error: the row that is there is read instead.\<close>

definition insert_request :: "('e ollama_repo_env_scheme) \<Rightarrow> OllamaLeaseRequest \<Rightarrow> datetime
    \<Rightarrow> (ollama_world, OllamaLease \<times> bool) prog" where
  "insert_request E q t = (\<lambda>w0.
     let w = ollama_transaction E w0;
         row = (case lease_row (uw_table w) (oq_lease_id q) of None \<Rightarrow> ollama_new_row E q t | Some r \<Rightarrow> r);
         inserted = (lease_row (uw_table w) (oq_lease_id q) = None);
         w' = (if inserted then w\<lparr>uw_table := uw_table w @ [row]\<rparr> else w)
     in case ollama_from_row row of
          Inl e \<Rightarrow> (Inl e, w')
        | Inr lease \<Rightarrow>
            if ol_request_fingerprint lease \<noteq> ollama_fingerprint (ue_jsha E) q
            then (Inl OllamaLeaseConflictError, w') else (Inr (lease, inserted), w'))"

subsection \<open>A request from its row\<close>

definition stored_int :: "json \<Rightarrow> string \<Rightarrow> py_error + int" where
  "stored_int v k = (case jget v k of JInt n \<Rightarrow> Inr n | _ \<Rightarrow> Inl TypeError)"

definition stored_string :: "json \<Rightarrow> string \<Rightarrow> py_error + string" where
  "stored_string v k =
     (case jget v k of JStr s \<Rightarrow> if s = [] then Inl ValueError else Inr s | _ \<Rightarrow> Inl TypeError)"

definition stored_opt_string :: "json \<Rightarrow> string \<Rightarrow> py_error + string option" where
  "stored_opt_string v k =
     (case jget v k of JNull \<Rightarrow> Inr None | JStr s \<Rightarrow> Inr (Some s) | _ \<Rightarrow> Inl TypeError)"

definition stored_opt_float :: "json \<Rightarrow> string \<Rightarrow> py_error + amount option" where
  "stored_opt_float v k =
     (case jget v k of
        JNull \<Rightarrow> Inr None
      | JInt n \<Rightarrow> Inr (Some (Fin (of_int n)))
      | JAmount a \<Rightarrow> if finite_amount a then Inr (Some a) else Inl ValueError
      | _ \<Rightarrow> Inl TypeError)"

fun json_string :: "json \<Rightarrow> py_error + string" where
  "json_string (JStr s) = Inr s"
| "json_string _ = Inl TypeError"

definition stored_strings :: "json \<Rightarrow> string \<Rightarrow> py_error + string list" where
  "stored_strings v k =
     (case jget v k of
        JList items \<Rightarrow> bindE (mapE json_string items) (\<lambda>xs.
          if [] \<in> set xs then Inl ValueError else Inr xs)
      | _ \<Rightarrow> Inl TypeError)"

definition stored_cloud :: "string \<Rightarrow> py_error + CloudType" where
  "stored_cloud s =
     (if s = cloud_value SECURE then Inr SECURE
      else if s = cloud_value COMMUNITY then Inr COMMUNITY else Inl ValueError)"

definition constraints_from_dict :: "json \<Rightarrow> py_error + OllamaResourceConstraints" where
  "constraints_from_dict v =
     bindE (stored_int v ''min_vram_gb'') (\<lambda>vram.
     bindE (stored_int v ''gpu_count'') (\<lambda>gpus.
     bindE (bindE (stored_string v ''cloud'') stored_cloud) (\<lambda>cloud.
     bindE (stored_opt_string v ''min_cuda_version'') (\<lambda>cuda.
     bindE (stored_strings v ''allowed_gpu_ids'') (\<lambda>ids.
     bindE (stored_strings v ''allowed_gpu_pools'') (\<lambda>pools.
     bindE (stored_strings v ''allowed_data_center_ids'') (\<lambda>centers.
     bindE (stored_opt_float v ''max_hourly_rate'') (\<lambda>rate.
     let x = \<lparr> ox_min_vram_gb = vram, ox_gpu_count = gpus, ox_cloud = cloud, ox_min_cuda_version = cuda,
            ox_allowed_gpu_ids = ids, ox_allowed_gpu_pools = pools, ox_allowed_data_center_ids = centers,
            ox_max_hourly_rate = rate \<rparr>
     in case ollama_constraints_post_init x of Some e \<Rightarrow> Inl e | None \<Rightarrow> Inr x))))))))"

text \<open>Only the errors of the constraints are converted; those of the request itself are raised as they are.\<close>

definition request_from_lease :: "OllamaLease \<Rightarrow> py_error + OllamaLeaseRequest" where
  "request_from_lease l =
     (if ol_state l \<noteq> L_REQUESTED then Inl RunPodManagerError
      else case ol_mode l of
        None \<Rightarrow> Inl RunPodManagerError
      | Some mode \<Rightarrow>
          if \<not> is_jobj (ol_constraints_json l) then Inl RunPodManagerError
          else (case constraints_from_dict (ol_constraints_json l) of
              Inl _ \<Rightarrow> Inl RunPodManagerError
            | Inr constraints \<Rightarrow>
                let q = \<lparr> oq_lease_id = ol_lease_id l, oq_owner_id = ol_owner_id l,
                      oq_workload_id = ol_workload_id l, oq_model = ol_model l,
                      oq_constraints = constraints,
                      oq_expected_session_seconds = ol_expected_session_seconds l,
                      oq_expected_active_seconds = ol_expected_active_seconds l,
                      oq_serverless_initialization_seconds = ol_serverless_initialization_seconds l,
                      oq_serverless_idle_tail_seconds = ol_serverless_idle_tail_seconds l,
                      oq_idle_timeout_seconds = ol_idle_timeout_seconds l,
                      oq_readiness_timeout_seconds =
                        max 1 \<lceil>total_seconds (usec (ol_readiness_deadline l) - usec (ol_created_at l))\<rceil>,
                      oq_hard_deadline = ol_hard_deadline l,
                      oq_max_authorized_cost = ol_max_authorized_cost l, oq_mode = mode,
                      oq_requested_at = None \<rparr>
                in case ollama_request_post_init q of Some e \<Rightarrow> Inl e | None \<Rightarrow> Inr q))"

end
