(* ===== verification/Ollama_Service.thy ===== *)
theory Ollama_Service
  imports Ollama_Repository
begin

text \<open>
  \<^verbatim>\<open>OllamaLeaseService\<close> of \<^verbatim>\<open>ollama_service.py\<close>: acquisition, readiness, renewal, release and the reconcile
  pass, each a program over the lease table.  The provider, the clock, the sleep and the cancellation of the
  caller are functions of the number of calls made so far.
\<close>

section \<open>Definitions\<close>

subsection \<open>Collaborators\<close>

record ollama_provider =
  up_validate :: "nat \<Rightarrow> OllamaLeaseRequest \<Rightarrow> py_error + unit"
  up_plan :: "nat \<Rightarrow> OllamaLeaseRequest \<Rightarrow> py_error + OllamaPlacementPlan"
  up_provision :: "nat \<Rightarrow> OllamaLeaseRequest \<Rightarrow> OllamaPlacementPlan \<Rightarrow> string
    \<Rightarrow> py_error + ProvisionedOllamaResource"
  up_find :: "nat \<Rightarrow> OllamaResourceType \<Rightarrow> string \<Rightarrow> py_error + ProvisionedOllamaResource option"
  up_observe :: "nat \<Rightarrow> ProvisionedOllamaResource \<Rightarrow> py_error + OllamaReadinessObservation"
  up_pull :: "nat \<Rightarrow> ProvisionedOllamaResource \<Rightarrow> string \<Rightarrow> string \<Rightarrow> py_error + unit"
  up_teardown :: "nat \<Rightarrow> ProvisionedOllamaResource \<Rightarrow> py_error + unit"

record ollama_env = ollama_repo_env +
  ue_fuel :: nat
  ue_clock :: "nat \<Rightarrow> datetime"
  ue_sleep :: "nat \<Rightarrow> py_error + unit"
  ue_cancelled :: "nat \<Rightarrow> bool"
  ue_error_text :: "py_error \<Rightarrow> string"
  ue_provider :: ollama_provider

definition outside :: "(nat \<Rightarrow> py_error + 'a) \<Rightarrow> (ollama_world, 'a) prog" where
  "outside f = (\<lambda>w. (f (uw_tick w), w\<lparr>uw_tick := Suc (uw_tick w)\<rparr>))"

definition effect_call :: "ollama_effect \<Rightarrow> (nat \<Rightarrow> py_error + 'a) \<Rightarrow> (ollama_world, 'a) prog" where
  "effect_call eff f = (\<lambda>w. (f (uw_tick w),
     w\<lparr>uw_tick := Suc (uw_tick w), uw_effects := uw_effects w @ [eff]\<rparr>))"

text \<open>A teardown that returns has read back that the resource is absent.\<close>

definition teardown_call :: "ollama_env \<Rightarrow> ProvisionedOllamaResource \<Rightarrow> (ollama_world, unit) prog" where
  "teardown_call E resource =
     seqM (effect_call (Eff_teardown resource) (\<lambda>n. up_teardown (ue_provider E) n resource)) (\<lambda>_ w.
     (Inr (), w\<lparr>uw_absent := ow_provider_resource_id resource # uw_absent w\<rparr>))"

definition joined_effect :: "ollama_env \<Rightarrow> (ollama_world, 'a) prog \<Rightarrow> (ollama_world, 'a) prog" where
  "joined_effect E effect = seqM effect (\<lambda>x.
     outside (\<lambda>n. if ue_cancelled E n then Inl CancelledError else Inr x))"

definition ollama_now :: "ollama_env \<Rightarrow> (ollama_world, datetime) prog" where
  "ollama_now E = outside (\<lambda>n. if is_aware (ue_clock E n) then Inr (ue_clock E n) else Inl ValueError)"

subsection \<open>Transitions\<close>

fun allowed_transitions :: "OllamaLeaseState \<Rightarrow> OllamaLeaseState list" where
  "allowed_transitions L_REQUESTED = [L_PROVISIONING, L_FAILED, L_TERMINATED]"
| "allowed_transitions L_PROVISIONING = [L_RECONCILE_REQUIRED, L_WAITING_FOR_MODEL, L_RELEASING, L_FAILED]"
| "allowed_transitions L_RECONCILE_REQUIRED = [L_WAITING_FOR_MODEL, L_RELEASING, L_FAILED]"
| "allowed_transitions L_WAITING_FOR_MODEL = [L_READY, L_RELEASING, L_FAILED]"
| "allowed_transitions L_READY = [L_RELEASING]"
| "allowed_transitions L_RELEASING = [L_TERMINATED]"
| "allowed_transitions L_FAILED = [L_RELEASING, L_TERMINATED]"
| "allowed_transitions L_TERMINATED = []"

definition ollama_transition :: "ollama_env \<Rightarrow> OllamaLease \<Rightarrow> OllamaLeaseState \<Rightarrow> ollama_change list
    \<Rightarrow> (ollama_world, OllamaLease) prog" where
  "ollama_transition E lease target changes =
     (if target \<noteq> ol_state lease \<and> target \<notin> set (allowed_transitions (ol_state lease))
      then raiseM RunPodManagerError
      else ollama_cas E lease (OC_state target # changes))"

definition ollama_required :: "ollama_env \<Rightarrow> string \<Rightarrow> (ollama_world, OllamaLease) prog" where
  "ollama_required E k = seqM (ollama_get_row E k) (\<lambda>found.
     case found of None \<Rightarrow> raiseM RunPodManagerError | Some lease \<Rightarrow> ret lease)"

definition authorize :: "OllamaLease \<Rightarrow> string \<Rightarrow> string \<Rightarrow> (ollama_world, unit) prog" where
  "authorize lease owner_id workload_id =
     (if ol_owner_id lease \<noteq> owner_id \<or> ol_workload_id lease \<noteq> workload_id
      then raiseM OllamaLeaseAuthorizationError else ret ())"

text \<open>\<^verbatim>\<open>except RunPodManagerError\<close>: every other exception passes.\<close>

definition catch_manager :: "(ollama_world, 'a) prog \<Rightarrow> (py_error \<Rightarrow> (ollama_world, 'b) prog)
    \<Rightarrow> ('a \<Rightarrow> (ollama_world, 'b) prog) \<Rightarrow> (ollama_world, 'b) prog" where
  "catch_manager m h f = try_elseM m (\<lambda>e. if is_manager_error e then h e else raiseM e) f"

definition error_of :: "ollama_env \<Rightarrow> py_error \<Rightarrow> ollama_change" where
  "error_of E e = OC_last_provider_error (Some (ue_error_text E e))"

definition prefixed_error :: "ollama_env \<Rightarrow> string \<Rightarrow> py_error \<Rightarrow> ollama_change" where
  "prefixed_error E prefix e = OC_last_provider_error (Some (prefix @ '': '' @ ue_error_text E e))"

definition reason_of :: "OllamaLease \<Rightarrow> string \<Rightarrow> ollama_change" where
  "reason_of lease reason = OC_termination_reason (Some
     (case ol_termination_reason lease of None \<Rightarrow> reason | Some r \<Rightarrow> if r = [] then reason else r))"

definition has_resource :: "OllamaLease \<Rightarrow> bool" where
  "has_resource lease \<longleftrightarrow> ol_provider_resource_id lease \<notin> {None, Some []}"

subsection \<open>Release\<close>

definition terminate_lease :: "ollama_env \<Rightarrow> OllamaLease \<Rightarrow> string \<Rightarrow> (ollama_world, OllamaLease) prog" where
  "terminate_lease E lease reason = ollama_transition E lease L_TERMINATED
     [OC_teardown_state D_COMPLETE, OC_last_provider_error None, reason_of lease reason]"

definition resolve_uncertain_release :: "ollama_env \<Rightarrow> OllamaLease \<Rightarrow> string
    \<Rightarrow> (ollama_world, OllamaLease) prog" where
  "resolve_uncertain_release E lease reason =
     (case (ol_resource_type lease, ol_resource_name lease) of
        (Some rtype, Some rname) \<Rightarrow>
          catch_manager (outside (\<lambda>n. up_find (ue_provider E) n rtype rname))
            (\<lambda>e. ollama_cas E lease [OC_teardown_state D_RETRYABLE_FAILURE, prefixed_error E reason e])
            (\<lambda>found. case found of
               Some resource \<Rightarrow> ollama_cas E lease
                 [OC_provider_resource_id (Some (ow_provider_resource_id resource)), OC_creation_uncertain False,
                  OC_teardown_state D_PENDING, OC_last_provider_error None]
             | None \<Rightarrow> ollama_cas E lease
                 [OC_teardown_state D_RETRYABLE_FAILURE,
                  OC_last_provider_error (Some (reason @ '': awaiting ambiguous creation reconciliation''))])
      | _ \<Rightarrow> ollama_cas E lease
          [OC_teardown_state D_RETRYABLE_FAILURE,
           OC_last_provider_error (Some (reason @ '': uncertain creation has no resource identity''))])"

definition teardown_effect :: "ollama_env \<Rightarrow> OllamaLease \<Rightarrow> string \<Rightarrow> (ollama_world, OllamaLease) prog" where
  "teardown_effect E lease reason =
     catch_manager (seqM (liftM (resource_from_lease lease)) (teardown_call E))
       (\<lambda>e. seqM (ollama_now E) (\<lambda>t.
          seqM (ollama_cas E lease [OC_teardown_state D_RETRYABLE_FAILURE, prefixed_error E reason e,
              OC_accrued_estimated_cost (accrued_cost lease t)]) (\<lambda>_.
          raiseM OllamaLeaseTeardownError)))
       (\<lambda>_. seqM (ollama_now E) (\<lambda>t.
          ollama_transition E lease L_TERMINATED
            [OC_teardown_state D_COMPLETE, OC_last_provider_error None,
             OC_accrued_estimated_cost (accrued_cost lease t), reason_of lease reason]))"

definition teardown_lease :: "ollama_env \<Rightarrow> OllamaLease \<Rightarrow> string \<Rightarrow> (ollama_world, OllamaLease) prog" where
  "teardown_lease E lease reason =
     seqM (ollama_cas E lease [OC_teardown_attempts (ol_teardown_attempts lease + 1)]) (\<lambda>lease.
     joined_effect E (teardown_effect E lease reason))"

definition release_in_progress :: "ollama_env \<Rightarrow> OllamaLease \<Rightarrow> string \<Rightarrow> (ollama_world, OllamaLease) prog" where
  "release_in_progress E lease reason =
     (if has_resource lease then teardown_lease E lease reason
      else if ol_creation_uncertain lease
      then seqM (resolve_uncertain_release E lease reason) (\<lambda>lease.
        if ol_creation_uncertain lease then raiseM OllamaLeaseTeardownError
        else if \<not> has_resource lease then terminate_lease E lease reason
        else teardown_lease E lease reason)
      else terminate_lease E lease reason)"

definition release_lease :: "ollama_env \<Rightarrow> OllamaLease \<Rightarrow> string \<Rightarrow> (ollama_world, OllamaLease) prog" where
  "release_lease E lease reason =
     (if ol_state lease = L_TERMINATED then ret lease
      else seqM (ollama_now E) (\<lambda>t.
        if ol_state lease = L_REQUESTED \<and> \<not> has_resource lease
        then ollama_transition E lease L_TERMINATED
          [OC_teardown_state D_COMPLETE, OC_accrued_estimated_cost (accrued_cost lease t),
           OC_last_provider_error None, reason_of lease reason]
        else if ol_state lease \<noteq> L_RELEASING
        then seqM (ollama_transition E lease L_RELEASING
            [OC_teardown_state D_PENDING, OC_route_url None, OC_accrued_estimated_cost (accrued_cost lease t),
             OC_last_provider_error None, reason_of lease reason])
          (\<lambda>lease. release_in_progress E lease reason)
        else release_in_progress E lease reason))"

subsection \<open>Readiness\<close>

definition idle_from :: "OllamaLease \<Rightarrow> datetime \<Rightarrow> datetime" where
  "idle_from lease t = dt_min (dt_add t (seconds (ol_idle_timeout_seconds lease))) (ol_hard_deadline lease)"

definition truthy_text :: "string option \<Rightarrow> bool" where
  "truthy_text x \<longleftrightarrow> x \<notin> {None, Some []}"

definition with_route :: "OllamaReadinessObservation \<Rightarrow> OllamaLease \<Rightarrow> OllamaLease" where
  "with_route ob lease = lease\<lparr>ol_route_url := oo_route_url ob,
     ol_provider_health_url := oo_provider_health_url ob\<rparr>"

definition past_hard_or_cost :: "OllamaLease \<Rightarrow> datetime \<Rightarrow> bool" where
  "past_hard_or_cost lease t \<longleftrightarrow> usec (ol_hard_deadline lease) \<le> usec t \<or> over_authorized_cost lease t"

definition become_ready :: "ollama_env \<Rightarrow> OllamaLease \<Rightarrow> OllamaReadinessObservation \<Rightarrow> datetime
    \<Rightarrow> (ollama_world, OllamaLease) prog" where
  "become_ready E lease ob t =
     (let started = (case ol_provisioning_started_at lease of None \<Rightarrow> ol_created_at lease | Some s \<Rightarrow> s) in
      seqM (ollama_transition E lease L_READY
        [OC_ready_at (Some t), OC_model_ready_at (Some t), OC_last_used_at t,
         OC_idle_deadline (idle_from lease t),
         OC_cold_start_seconds (Some (to_float (of_int (usec t - usec started) / 1000000))),
         OC_last_provider_error None]) (\<lambda>ready. ret (with_route ob ready)))"

definition start_pull :: "ollama_env \<Rightarrow> OllamaLease \<Rightarrow> ProvisionedOllamaResource \<Rightarrow> string \<Rightarrow> datetime
    \<Rightarrow> (ollama_world, OllamaLease) prog" where
  "start_pull E lease resource url t =
     seqM (ollama_cas E lease
       [OC_model_pull_started_at (Some (case ol_model_pull_started_at lease of None \<Rightarrow> t | Some s \<Rightarrow> s)),
        OC_model_pull_attempts (ol_model_pull_attempts lease + 1), OC_last_provider_error None]) (\<lambda>lease.
     catch_manager
       (effect_call (Eff_pull resource (ol_model lease))
         (\<lambda>n. up_pull (ue_provider E) n resource url (ol_model lease)))
       (\<lambda>e. ollama_cas E lease [error_of E e]) (\<lambda>_. ret lease))"

definition check_readiness_once :: "ollama_env \<Rightarrow> OllamaLease \<Rightarrow> (ollama_world, OllamaLease) prog" where
  "check_readiness_once E lease =
     seqM (liftM (resource_from_lease lease)) (\<lambda>resource.
     seqM (ollama_now E) (\<lambda>t.
     let accrued = OC_accrued_estimated_cost (accrued_cost lease t) in
     catch_manager (outside (\<lambda>n. up_observe (ue_provider E) n resource))
       (\<lambda>e. ollama_cas E lease [error_of E e, accrued])
       (\<lambda>ob. seqM (ollama_cas E lease [accrued]) (\<lambda>lease.
          if past_hard_or_cost lease t then release_lease E lease ''deadline_or_cost_cap''
          else if \<not> oo_provider_ready ob \<or> \<not> truthy_text (oo_route_url ob) then ret lease
          else if \<not> has_model ob (ol_model lease)
          then start_pull E lease resource (case oo_route_url ob of None \<Rightarrow> [] | Some u \<Rightarrow> u) t
          else become_ready E lease ob t))))"

definition ready_with_route :: "ollama_env \<Rightarrow> OllamaLease \<Rightarrow> (ollama_world, OllamaLease) prog" where
  "ready_with_route E lease =
     seqM (ollama_now E) (\<lambda>t.
     let accrued = OC_accrued_estimated_cost (accrued_cost lease t) in
     if usec (ol_hard_deadline lease) \<le> usec t \<or> usec (ol_idle_deadline lease) \<le> usec t
       \<or> over_authorized_cost lease t
     then release_lease E lease ''deadline_or_cost_cap''
     else catch_manager
       (seqM (liftM (resource_from_lease lease)) (\<lambda>resource.
          outside (\<lambda>n. up_observe (ue_provider E) n resource)))
       (\<lambda>e. seqM (ollama_cas E lease [error_of E e, accrued]) (\<lambda>_. raiseM OllamaLeaseReadinessError))
       (\<lambda>ob. if \<not> oo_provider_ready ob \<or> \<not> truthy_text (oo_route_url ob) \<or> \<not> has_model ob (ol_model lease)
          then seqM (ollama_cas E lease [OC_last_provider_error
              (Some ''ready route did not pass exact-model readiness''), accrued]) (\<lambda>_.
            raiseM OllamaLeaseReadinessError)
          else seqM (ollama_cas E lease [accrued, OC_last_provider_error None]) (\<lambda>durable.
            ret (with_route ob durable))))"

text \<open>The polling loop; \<open>Diverged\<close> when the fuel is used up.\<close>

fun wait_until_ready :: "nat \<Rightarrow> ollama_env \<Rightarrow> OllamaLease \<Rightarrow> (ollama_world, OllamaLease) prog" where
  "wait_until_ready 0 E lease = raiseM Diverged"
| "wait_until_ready (Suc n) E lease =
     (if ol_state lease \<noteq> L_WAITING_FOR_MODEL then ret lease
      else seqM (check_readiness_once E lease) (\<lambda>lease.
        if ol_state lease = L_READY then ret lease
        else seqM (ollama_now E) (\<lambda>t.
          if ol_state lease = L_WAITING_FOR_MODEL \<and> past_hard_or_cost lease t
          then release_lease E lease ''deadline_or_cost_cap''
          else if usec (ol_readiness_deadline lease) \<le> usec t
          then seqM (tryM (seqM (release_lease E lease ''readiness_timeout'') (\<lambda>_. ret ()))
              (\<lambda>e. if e = OllamaLeaseTeardownError then ret () else raiseM e)) (\<lambda>_.
            raiseM OllamaLeaseReadinessError)
          else seqM (outside (ue_sleep E)) (\<lambda>_. wait_until_ready n E lease))))"

subsection \<open>Provisioning\<close>

definition validate_plan :: "OllamaLeaseRequest \<Rightarrow> OllamaPlacementPlan \<Rightarrow> py_error + unit" where
  "validate_plan q p =
     (let rate = pd_offered_cost_per_hr (op_placement p) in
      case first_error
        [(op_mode p \<notin> (if oq_mode q \<noteq> M_AUTO then {oq_mode q} else {M_SERVERLESS, M_POD}),
           RunPodManagerError),
         (op_resource_type p \<noteq> (if op_mode p = M_SERVERLESS then T_ENDPOINT else T_POD), RunPodManagerError),
         (pr_product (pd_requirements (op_placement p))
           \<noteq> (if op_mode p = M_SERVERLESS then SERVERLESS else POD), RunPodManagerError),
         (bad_cost (op_estimated_cost p) \<or> \<not> finite_amount (op_cost_ceiling p)
           \<or> usd (op_cost_ceiling p) < usd (op_estimated_cost p)
           \<or> \<not> finite_amount rate \<or> usd rate \<le> 0 \<or> op_estimated_billable_seconds p \<le> 0, RunPodManagerError),
         (usd (oq_max_authorized_cost q) < usd (op_cost_ceiling p), RunPodManagerError),
         (case ox_max_hourly_rate (oq_constraints q) of None \<Rightarrow> False | Some m \<Rightarrow> usd m < usd rate,
           RunPodManagerError)] of
        Some e \<Rightarrow> Inl e
      | None \<Rightarrow> Inr ())"

definition claim_changes :: "ollama_env \<Rightarrow> OllamaLease \<Rightarrow> OllamaLeaseRequest \<Rightarrow> OllamaPlacementPlan
    \<Rightarrow> datetime \<Rightarrow> ollama_change list" where
  "claim_changes E lease q p t =
     [OC_mode (Some (op_mode p)), OC_resource_type (Some (op_resource_type p)),
      OC_resource_name (Some (ollama_resource_name (ue_sha E) (oq_lease_id q))),
      OC_creation_uncertain True,
      OC_provision_attempt_id (Some (provision_attempt_id (ue_sha E) (ue_jsha E) q)),
      OC_provision_attempts (ol_provision_attempts lease + 1), OC_provisioning_started_at (Some t),
      OC_offered_rate_per_hr (Some (pd_offered_cost_per_hr (op_placement p))),
      OC_placement_gpu_count (pd_gpu_count (op_placement p)),
      OC_estimated_cost (Some (op_estimated_cost p)),
      OC_estimated_compute_cost (Some (op_estimated_compute_cost p)),
      OC_maximum_compute_cost (Some (op_maximum_compute_cost p)),
      OC_estimated_non_compute_cost (Some (op_estimated_non_compute_cost p)),
      OC_maximum_non_compute_cost (Some (op_maximum_non_compute_cost p)),
      OC_cost_ceiling (Some (op_cost_ceiling p)),
      OC_cost_policy_components (op_non_compute_components p),
      OC_maximum_concurrent_workers (Some (op_maximum_concurrent_workers p)),
      OC_estimated_billable_seconds (Some (op_estimated_billable_seconds p)),
      OC_maximum_billable_seconds (Some (op_maximum_billable_seconds p)),
      OC_selected_gpu_id (Some (pd_gpu_id (op_placement p))),
      OC_selected_gpu_pool (pd_gpu_pool (op_placement p)),
      OC_selected_gpu_name (Some (pd_gpu_name (op_placement p))),
      OC_catalog_observed_at (Some (pd_catalog_observed_at (op_placement p)))]"

definition provision_effect :: "ollama_env \<Rightarrow> OllamaLease \<Rightarrow> OllamaLeaseRequest \<Rightarrow> OllamaPlacementPlan
    \<Rightarrow> string \<Rightarrow> (ollama_world, OllamaLease) prog" where
  "provision_effect E lease q p provider_name =
     catch_manager
       (effect_call (Eff_provision q p provider_name)
         (\<lambda>n. up_provision (ue_provider E) n q p provider_name))
       (\<lambda>e. seqM (ollama_transition E lease L_RECONCILE_REQUIRED [error_of E e]) (\<lambda>_. raiseM e))
       (\<lambda>resource. ollama_transition E lease L_WAITING_FOR_MODEL
          [OC_provider_resource_id (Some (ow_provider_resource_id resource)), OC_creation_uncertain False,
           OC_last_provider_error None])"

definition admit_plan :: "ollama_env \<Rightarrow> OllamaLeaseRequest \<Rightarrow> OllamaPlacementPlan option
    \<Rightarrow> (ollama_world, OllamaPlacementPlan) prog" where
  "admit_plan E q plan =
     seqM (case plan of Some p \<Rightarrow> ret p | None \<Rightarrow> outside (\<lambda>n. up_plan (ue_provider E) n q)) (\<lambda>p.
     seqM (liftM (validate_plan q p)) (\<lambda>_.
     seqM (outside (\<lambda>n. up_validate (ue_provider E) n (q\<lparr>oq_mode := op_mode p\<rparr>))) (\<lambda>_. ret p)))"

definition provision_requested :: "ollama_env \<Rightarrow> OllamaLease \<Rightarrow> OllamaLeaseRequest
    \<Rightarrow> OllamaPlacementPlan option \<Rightarrow> (ollama_world, OllamaLease) prog" where
  "provision_requested E lease q plan =
     (if ol_state lease \<noteq> L_REQUESTED then raiseM RunPodManagerError
      else catch_manager (admit_plan E q plan)
        (\<lambda>e. seqM (ollama_transition E lease L_FAILED [error_of E e]) (\<lambda>_. raiseM e))
        (\<lambda>p. let provider_name = ollama_resource_name (ue_sha E) (oq_lease_id q) in
          seqM (ollama_now E) (\<lambda>t.
          seqM (ollama_transition E lease L_PROVISIONING (claim_changes E lease q p t)) (\<lambda>lease.
          joined_effect E (provision_effect E lease q p provider_name)))))"

definition reconcile_creation :: "ollama_env \<Rightarrow> OllamaLease \<Rightarrow> (ollama_world, OllamaLease) prog" where
  "reconcile_creation E lease =
     (if has_resource lease then ollama_transition E lease L_WAITING_FOR_MODEL [OC_last_provider_error None]
      else case (ol_resource_type lease, ol_resource_name lease) of
        (Some rtype, Some rname) \<Rightarrow>
          catch_manager (outside (\<lambda>n. up_find (ue_provider E) n rtype rname))
            (\<lambda>e. ollama_cas E lease [error_of E e])
            (\<lambda>found. case found of
               None \<Rightarrow> ret lease
             | Some resource \<Rightarrow> ollama_transition E lease L_WAITING_FOR_MODEL
                 [OC_provider_resource_id (Some (ow_provider_resource_id resource)),
                  OC_creation_uncertain False, OC_last_provider_error None])
      | _ \<Rightarrow> ret lease)"

subsection \<open>The public operations\<close>

definition fresh_request_error :: "OllamaLeaseRequest \<Rightarrow> datetime \<Rightarrow> py_error option" where
  "fresh_request_error q t = first_error
     [(usec (oq_hard_deadline q) \<le> usec t, ValueError),
      (total_seconds (usec (oq_hard_deadline q) - usec t) < of_int (oq_expected_session_seconds q), ValueError),
      (usec (dt_min (dt_add (case oq_requested_at q of None \<Rightarrow> t | Some s \<Rightarrow> s)
          (seconds (oq_readiness_timeout_seconds q))) (oq_hard_deadline q)) \<le> usec t, ValueError)]"

definition readiness_over :: "OllamaLease \<Rightarrow> datetime \<Rightarrow> bool" where
  "readiness_over lease t \<longleftrightarrow>
     usec (dt_min (ol_readiness_deadline lease) (ol_hard_deadline lease)) \<le> usec t"

definition progress_lease :: "ollama_env \<Rightarrow> OllamaLeaseRequest \<Rightarrow> bool \<Rightarrow> OllamaPlacementPlan option
    \<Rightarrow> datetime \<Rightarrow> OllamaLease \<Rightarrow> (ollama_world, OllamaLease) prog" where
  "progress_lease E q wait plan t lease =
     (if ol_state lease = L_READY then ready_with_route E lease
      else if ol_state lease = L_REQUESTED \<and> readiness_over lease t then release_lease E lease ''expired''
      else
        seqM (if ol_state lease = L_REQUESTED then provision_requested E lease q plan
            else if ol_state lease \<in> {L_PROVISIONING, L_RECONCILE_REQUIRED} then reconcile_creation E lease
            else ret lease) (\<lambda>lease.
        if ol_state lease = L_WAITING_FOR_MODEL \<and> wait then wait_until_ready (ue_fuel E) E lease
        else ret lease))"

definition ollama_acquire :: "ollama_env \<Rightarrow> OllamaLeaseRequest \<Rightarrow> bool \<Rightarrow> OllamaPlacementPlan option
    \<Rightarrow> (ollama_world, OllamaLease) prog" where
  "ollama_acquire E q wait plan =
     seqM (ollama_now E) (\<lambda>t.
     seqM (ollama_get_row E (oq_lease_id q)) (\<lambda>existing.
     seqM (liftM (case existing of
         Some _ \<Rightarrow> Inr ()
       | None \<Rightarrow> (case fresh_request_error q t of None \<Rightarrow> Inr () | Some e \<Rightarrow> Inl e))) (\<lambda>_.
     seqM (insert_request E q t) (\<lambda>(lease, inserted).
     seqM (if inserted then ret () else authorize lease (oq_owner_id q) (oq_workload_id q)) (\<lambda>_.
     progress_lease E q wait plan t lease)))))"

definition ollama_get :: "ollama_env \<Rightarrow> string \<Rightarrow> string \<Rightarrow> string \<Rightarrow> (ollama_world, OllamaLease) prog" where
  "ollama_get E k owner_id workload_id =
     seqM (ollama_required E k) (\<lambda>lease.
     seqM (authorize lease owner_id workload_id) (\<lambda>_.
     if ol_state lease = L_READY then ready_with_route E lease else ret lease))"

definition renew_lease :: "ollama_env \<Rightarrow> OllamaLease \<Rightarrow> (ollama_world, OllamaLease) prog" where
  "renew_lease E lease =
     seqM (ready_with_route E lease) (\<lambda>lease.
     if ol_state lease \<noteq> L_READY then ret lease
     else seqM (ollama_now E) (\<lambda>t.
       if past_hard_or_cost lease t then release_lease E lease ''deadline_or_cost_cap''
       else seqM (ollama_cas E lease [OC_last_used_at t, OC_idle_deadline (idle_from lease t),
           OC_accrued_estimated_cost (accrued_cost lease t)]) (\<lambda>touched.
         ret (touched\<lparr>ol_route_url := ol_route_url lease,
              ol_provider_health_url := ol_provider_health_url lease\<rparr>))))"

definition ollama_touch :: "ollama_env \<Rightarrow> string \<Rightarrow> string \<Rightarrow> string \<Rightarrow> (ollama_world, OllamaLease) prog" where
  "ollama_touch E k owner_id workload_id =
     seqM (ollama_required E k) (\<lambda>lease.
     seqM (authorize lease owner_id workload_id) (\<lambda>_.
     if ol_state lease \<in> {L_FAILED, L_RELEASING, L_TERMINATED} then ret lease
     else if ol_state lease \<noteq> L_READY then raiseM RunPodManagerError
     else renew_lease E lease))"

definition ollama_release :: "ollama_env \<Rightarrow> string \<Rightarrow> string \<Rightarrow> string \<Rightarrow> (ollama_world, OllamaLease) prog" where
  "ollama_release E k owner_id workload_id =
     seqM (ollama_required E k) (\<lambda>lease.
     seqM (authorize lease owner_id workload_id) (\<lambda>_. release_lease E lease ''caller_release''))"

subsection \<open>Reconciliation\<close>

definition retried_release :: "ollama_env \<Rightarrow> OllamaLease \<Rightarrow> string \<Rightarrow> (ollama_world, OllamaLease option) prog" where
  "retried_release E lease reason =
     seqM (tryM (release_lease E lease reason)
       (\<lambda>e. if e = OllamaLeaseTeardownError then ollama_required E (ol_lease_id lease) else raiseM e))
       (\<lambda>lease. ret (Some lease))"

definition lease_expired :: "OllamaLease \<Rightarrow> datetime \<Rightarrow> bool" where
  "lease_expired lease t \<longleftrightarrow>
     usec (ol_hard_deadline lease) \<le> usec t
     \<or> ol_state lease = L_READY \<and> usec (ol_idle_deadline lease) \<le> usec t
     \<or> over_authorized_cost lease t
     \<or> ol_state lease \<in> {L_PROVISIONING, L_RECONCILE_REQUIRED, L_WAITING_FOR_MODEL}
       \<and> usec (ol_readiness_deadline lease) \<le> usec t"

definition reconcile_active_lease :: "ollama_env \<Rightarrow> OllamaLease \<Rightarrow> datetime
    \<Rightarrow> (ollama_world, OllamaLease option) prog" where
  "reconcile_active_lease E lease t =
     seqM (if ol_state lease \<in> {L_PROVISIONING, L_RECONCILE_REQUIRED} then reconcile_creation E lease
         else ret lease) (\<lambda>lease.
     if lease_expired lease t then retried_release E lease ''expired''
     else seqM (if ol_state lease = L_WAITING_FOR_MODEL then check_readiness_once E lease
         else if ol_state lease = L_READY then ready_with_route E lease
         else ret lease) (\<lambda>lease. ret (Some lease)))"

definition ollama_reconcile_one :: "ollama_env \<Rightarrow> string \<Rightarrow> (ollama_world, OllamaLease option) prog" where
  "ollama_reconcile_one E k =
     seqM (ollama_get_row E k) (\<lambda>found.
     case found of
       None \<Rightarrow> ret None
     | Some lease \<Rightarrow>
         if ol_state lease = L_TERMINATED then ret (Some lease)
         else seqM (ollama_now E) (\<lambda>t.
           if ol_state lease = L_RELEASING then retried_release E lease ''retry_teardown''
           else if ol_state lease = L_REQUESTED
           then (if readiness_over lease t
              then seqM (release_lease E lease ''expired'') (\<lambda>lease. ret (Some lease))
              else seqM (liftM (request_from_lease lease)) (\<lambda>q.
                seqM (provision_requested E lease q None) (\<lambda>lease. reconcile_active_lease E lease t)))
           else reconcile_active_lease E lease t))"

definition record_ollama_error :: "ollama_env \<Rightarrow> string \<Rightarrow> py_error
    \<Rightarrow> (ollama_world, OllamaLease option) prog" where
  "record_ollama_error E k err =
     seqM (ollama_get_row E k) (\<lambda>found.
     case found of
       None \<Rightarrow> ret None
     | Some lease \<Rightarrow>
         if ol_state lease = L_TERMINATED then ret (Some lease)
         else tryM (seqM (ollama_cas E lease [prefixed_error E ''reconcile'' err]) (\<lambda>lease. ret (Some lease)))
           (\<lambda>e. if e = OllamaLeaseConflictError then ollama_get_row E k else raiseM e))"

fun reconcile_leases :: "ollama_env \<Rightarrow> OllamaLease list \<Rightarrow> (ollama_world, OllamaLease list) prog" where
  "reconcile_leases E [] = ret []"
| "reconcile_leases E (initial # rest) =
     seqM (catch_manager (ollama_reconcile_one E (ol_lease_id initial))
        (record_ollama_error E (ol_lease_id initial)) ret) (\<lambda>lease.
     seqM (reconcile_leases E rest) (\<lambda>results.
     ret (case lease of None \<Rightarrow> results | Some l \<Rightarrow> l # results)))"

definition ollama_reconcile :: "ollama_env \<Rightarrow> (ollama_world, OllamaLease list) prog" where
  "ollama_reconcile E = seqM (ollama_list_rows E) (reconcile_leases E)"

definition ollama_reconcile_lease :: "ollama_env \<Rightarrow> string \<Rightarrow> string \<Rightarrow> string
    \<Rightarrow> (ollama_world, OllamaLease) prog" where
  "ollama_reconcile_lease E k owner_id workload_id =
     seqM (ollama_required E k) (\<lambda>lease.
     seqM (authorize lease owner_id workload_id) (\<lambda>_.
     catch_manager (ollama_reconcile_one E k)
       (\<lambda>e. seqM (record_ollama_error E k e) (\<lambda>recorded.
          case recorded of None \<Rightarrow> raiseM e | Some l \<Rightarrow> ret l))
       (\<lambda>reconciled. case reconciled of None \<Rightarrow> raiseM RunPodManagerError | Some l \<Rightarrow> ret l)))"

end
