(* ===== verification/Ollama_Provider.thy ===== *)
theory Ollama_Provider
  imports Ollama_Runtime Ollama_Service Pod_Transport
begin

text \<open>
  The capacity adapter of \<^verbatim>\<open>ollama_provider.py\<close>: planning on the live catalog, the create requests, recovery by
  name, readiness of the served model and teardown with its read-back.  The state is that of the
  control plane client together with the requests sent to the served model.
\<close>

section \<open>Definitions\<close>

subsection \<open>The deployment\<close>

record RunpodOllamaDeployment =
  dp_profile :: GPUProfile
  dp_serverless_workers_max :: int
  dp_serverless_request_count :: int
  dp_serverless_execution_timeout_ms :: int
  dp_serverless_flashboot :: FlashBoot
  dp_http_timeout_seconds :: rat
  dp_serverless_non_compute_cost :: OllamaNonComputeCostPolicy
  dp_pod_non_compute_cost :: OllamaNonComputeCostPolicy

definition has_network_volume :: "GPUProfile \<Rightarrow> bool" where
  "has_network_volume profile \<longleftrightarrow> text_or (gp_network_volume_id profile) [] \<noteq> []"

definition required_components :: "GPUProfile \<Rightarrow> OllamaNonComputeCostComponent list" where
  "required_components profile =
     [X_CONTAINER_DISK, X_MODEL_TRANSFER, X_RETRY_ALLOWANCE]
     @ (if has_network_volume profile then [X_NETWORK_VOLUME] else [])"

definition deployment_post_init :: "RunpodOllamaDeployment \<Rightarrow> py_error option" where
  "deployment_post_init d = first_error
     ([(dp_serverless_workers_max d < 1 \<or> dp_serverless_request_count d < 1, ValueError),
       (dp_serverless_execution_timeout_ms d < 1 \<or> dp_http_timeout_seconds d \<le> 0, ValueError)]
      @ map (\<lambda>policy. (set (oy_covered_components policy) \<noteq> set (required_components (dp_profile d)), ValueError))
          [dp_serverless_non_compute_cost d, dp_pod_non_compute_cost d])"

definition non_compute_cost_policies :: "RunpodOllamaDeployment
    \<Rightarrow> (OllamaLeaseMode \<times> OllamaNonComputeCostPolicy) list" where
  "non_compute_cost_policies d =
     [(M_SERVERLESS, dp_serverless_non_compute_cost d), (M_POD, dp_pod_non_compute_cost d)]"

record adapter_env = provider_env +
  pa_deployment :: RunpodOllamaDeployment
  pa_serverless_api_key :: "string option"
  pa_pod_bearer_token :: "string option"
  pa_rfc3339 :: "datetime \<Rightarrow> string"
  pa_http :: "nat \<Rightarrow> http_request \<Rightarrow> http_reply"

record adapter_world =
  aw_client :: client_world
  aw_http :: "http_request list"

definition on_client :: "(client_world, 'a) prog \<Rightarrow> (adapter_world, 'a) prog" where
  "on_client m = (\<lambda>w. case m (aw_client w) of (r, c) \<Rightarrow> (r, w\<lparr>aw_client := c\<rparr>))"

abbreviation client_of :: "adapter_env \<Rightarrow> client_env" where
  "client_of E \<equiv> client_env.truncate E"

abbreviation base_of :: "adapter_env \<Rightarrow> provider_env" where
  "base_of E \<equiv> provider_env.truncate E"

definition in_thread :: "adapter_env \<Rightarrow> (client_world, 'a) prog \<Rightarrow> (adapter_world, 'a) prog" where
  "in_thread E m = on_client (threaded (base_of E) m)"

definition adapter_now :: "adapter_env \<Rightarrow> (adapter_world, datetime) prog" where
  "adapter_now E = on_client (client_now E)"

subsection \<open>Credentials\<close>

definition credential :: "string option \<Rightarrow> string option" where
  "credential x = (case x of None \<Rightarrow> None | Some s \<Rightarrow> if s = [] then None else Some s)"

text \<open>\<^verbatim>\<open>hmac.compare_digest\<close> of two texts, which must be ASCII.\<close>

definition compare_digest :: "string \<Rightarrow> string \<Rightarrow> py_error + bool" where
  "compare_digest x y =
     (if list_all (\<lambda>c. (of_char c :: nat) < 128) (x @ y) then Inr (x = y) else Inl TypeError)"

fun any_equal :: "string \<Rightarrow> string list \<Rightarrow> py_error + bool" where
  "any_equal key [] = Inr False"
| "any_equal key (c # cs) =
     bindE (compare_digest key c) (\<lambda>same. if same then Inr True else any_equal key cs)"

definition adapter_init :: "string option \<Rightarrow> string option \<Rightarrow> string option \<Rightarrow> py_error + unit" where
  "adapter_init serverless_api_key pod_bearer_token control_plane_api_key =
     (let keys = map the (filter (\<lambda>k. k \<noteq> None) [credential serverless_api_key, credential pod_bearer_token]) in
      if keys = [] then Inl RunPodManagerError
      else bindE (case credential control_plane_api_key of
            None \<Rightarrow> Inr False | Some key \<Rightarrow> any_equal key keys) (\<lambda>shared.
        if shared then Inl RunPodManagerError
        else bindE (case (credential serverless_api_key, credential pod_bearer_token) of
              (Some s, Some p) \<Rightarrow> compare_digest s p | _ \<Rightarrow> Inr False) (\<lambda>same.
          if same then Inl RunPodManagerError else Inr ())))"

definition bearer_token_for :: "adapter_env \<Rightarrow> OllamaResourceType \<Rightarrow> py_error + string" where
  "bearer_token_for E rtype =
     (case credential (if rtype = T_ENDPOINT then pa_serverless_api_key E else pa_pod_bearer_token E) of
        None \<Rightarrow> Inl RunPodManagerError
      | Some token \<Rightarrow> Inr token)"

subsection \<open>Planning\<close>

definition requested_products :: "OllamaLeaseMode \<Rightarrow> ComputeProduct list" where
  "requested_products mode =
     (if mode = M_SERVERLESS then [SERVERLESS] else if mode = M_POD then [POD] else [SERVERLESS, POD])"

definition not_offered :: "adapter_env \<Rightarrow> OllamaLeaseRequest \<Rightarrow> ComputeProduct \<Rightarrow> bool" where
  "not_offered E q product \<longleftrightarrow>
     (product = SERVERLESS \<and> credential (pa_serverless_api_key E) = None)
     \<or> (product = POD \<and> credential (pa_pod_bearer_token E) = None)
     \<or> (product = SERVERLESS \<and> 3600 < oq_idle_timeout_seconds q)"

definition pooled_offers :: "ComputeProduct \<Rightarrow> GPUOffer list \<Rightarrow> py_error + GPUOffer list" where
  "pooled_offers product offers =
     (if product \<noteq> SERVERLESS then Inr offers
      else
        let poolless_available = list_ex (\<lambda>offer. go_pool offer = None
               \<and> go_availability offer \<notin> {None, Some AV_NONE}) offers;
            pooled = filter has_pool offers
        in if poolless_available \<and> pooled = [] then Inl RunPodManagerError else Inr pooled)"

text \<open>The decision for one product; a failure of the package leaves the product out.\<close>

definition catalog_decision :: "adapter_env \<Rightarrow> OllamaLeaseRequest \<Rightarrow> ComputeProduct
    \<Rightarrow> (adapter_world, (ComputeProduct \<times> PlacementDecision) list) prog" where
  "catalog_decision E q product =
     (if not_offered E q product then ret []
      else seqM (liftM (ollama_requirements (oq_constraints q) product)) (\<lambda>r.
        tryM
          (seqM (in_thread E (list_gpus (client_of E) True [product] (pr_gpu_count r) (pr_cloud r)
               (pr_min_cuda_version r))) (\<lambda>offers.
           seqM (liftM (pooled_offers product offers)) (\<lambda>offers.
           seqM (adapter_now E) (\<lambda>t.
           seqM (liftM (select_gpu offers r t)) (\<lambda>d. ret [(product, d)])))))
          (\<lambda>e. if is_manager_error e then ret [] else raiseM e)))"

fun catalog_decisions :: "adapter_env \<Rightarrow> OllamaLeaseRequest \<Rightarrow> ComputeProduct list
    \<Rightarrow> (adapter_world, (ComputeProduct \<times> PlacementDecision) list) prog" where
  "catalog_decisions E q [] = ret []"
| "catalog_decisions E q (product # products) =
     seqM (catalog_decision E q product) (\<lambda>ds.
     seqM (catalog_decisions E q products) (\<lambda>rest. ret (ds @ rest)))"

definition adapter_plan :: "adapter_env \<Rightarrow> OllamaLeaseRequest
    \<Rightarrow> (adapter_world, OllamaPlacementPlan) prog" where
  "adapter_plan E q =
     seqM (catalog_decisions E q (requested_products (oq_mode q))) (\<lambda>decisions.
     seqM (adapter_now E) (\<lambda>t.
     liftM (select_ollama_plan q decisions (non_compute_cost_policies (pa_deployment E)) t
       (dp_serverless_workers_max (pa_deployment E)))))"

subsection \<open>The runtime environment\<close>

definition deployed_image :: "adapter_env \<Rightarrow> py_error + string" where
  "deployed_image E =
     bindE (expand_refs (pe_environ E) (gp_image_name (dp_profile (pa_deployment E))))
       require_immutable_ollama_image"

definition storage_path :: "adapter_env \<Rightarrow> OllamaLeaseMode \<Rightarrow> py_error + string" where
  "storage_path E mode =
     (let profile = dp_profile (pa_deployment E) in
      if mode = M_SERVERLESS
      then (if has_network_volume profile \<and> dp_serverless_workers_max (pa_deployment E) \<noteq> 1
            then Inl RunPodManagerError
            else Inr (if has_network_volume profile then ''/runpod-volume/ollama'' else ''/models''))
      else Inr (if has_network_volume profile \<or> gp_volume_gb profile \<noteq> 0
        then strip_trailing (CHR ''/'') (text_or (gp_volume_mount_path profile) ''/workspace'') @ ''/ollama''
        else ''/models''))"

definition runtime_environment :: "adapter_env \<Rightarrow> OllamaLeaseRequest \<Rightarrow> OllamaLeaseMode \<Rightarrow> datetime
    \<Rightarrow> py_error + (string \<times> string) list" where
  "runtime_environment E q mode requested_at =
     bindE (deployed_image E) (\<lambda>_.
     bindE (bearer_token_for E (if mode = M_SERVERLESS then T_ENDPOINT else T_POD)) (\<lambda>token.
     bindE (storage_path E mode) (\<lambda>path.
     bindE (resolve_env_vars (base_of E)
         (map (\<lambda>(k, v). (k, JStr v)) (gp_env (dp_profile (pa_deployment E))))) (\<lambda>env.
     build_ollama_runtime_environment (pa_rfc3339 E) env (oq_model q) token (oq_hard_deadline q) mode path
       requested_at))))"

definition validate_runtime_request :: "adapter_env \<Rightarrow> OllamaLeaseRequest \<Rightarrow> (adapter_world, unit) prog" where
  "validate_runtime_request E q =
     (if oq_mode q = M_AUTO then raiseM RunPodManagerError
      else seqM (adapter_now E) (\<lambda>t.
        seqM (liftM (runtime_environment E q (oq_mode q) t)) (\<lambda>_. ret ())))"

subsection \<open>Provisioning\<close>

definition endpoint_request :: "adapter_env \<Rightarrow> OllamaLeaseRequest \<Rightarrow> OllamaPlacementPlan \<Rightarrow> string
    \<Rightarrow> string \<Rightarrow> string \<Rightarrow> (string \<times> string) list \<Rightarrow> EndpointCreateRequest" where
  "endpoint_request E q p resource_name img pool env =
     (let d = pa_deployment E; profile = dp_profile d in
      \<lparr> ec_name = resource_name, ec_image = img, ec_gpu_pools = [pool],
        ec_endpoint_type = ''LOAD_BALANCER'',
        ec_scaling = JObj [(''type'', JStr ''REQUEST_COUNT''),
          (''requestCount'', JInt (dp_serverless_request_count d))],
        ec_gpu_count = pd_gpu_count (op_placement p), ec_workers_min = 0,
        ec_workers_max = dp_serverless_workers_max d,
        ec_idle_timeout_seconds = Some (oq_idle_timeout_seconds q),
        ec_disk_gb = gp_container_disk_gb profile, ec_ports = gp_ports profile, ec_env = env, ec_args = None,
        ec_registry_id = gp_registry_id profile,
        ec_data_center_ids = ox_allowed_data_center_ids (oq_constraints q),
        ec_network_volume_ids =
          (if has_network_volume profile then [text_or (gp_network_volume_id profile) []] else []),
        ec_execution_timeout_ms = dp_serverless_execution_timeout_ms d,
        ec_flashboot = dp_serverless_flashboot d,
        ec_min_cuda_version = ox_min_cuda_version (oq_constraints q),
        ec_resource_schema_version = ERV_GA \<rparr>)"

definition volume_mounts :: "GPUProfile \<Rightarrow> json option" where
  "volume_mounts profile =
     (if has_network_volume profile
      then Some (JObj [(''network'', JList [JObj
             [(''volumeId'', JStr (text_or (gp_network_volume_id profile) [])),
              (''path'', JStr (text_or (gp_volume_mount_path profile) ''/workspace''))]])])
      else if gp_volume_gb profile \<noteq> 0
      then Some (JObj [(''persistent'', JObj
             [(''size'', JInt (gp_volume_gb profile)),
              (''path'', JStr (text_or (gp_volume_mount_path profile) ''/workspace''))])])
      else None)"

definition pod_request :: "adapter_env \<Rightarrow> OllamaLeaseRequest \<Rightarrow> OllamaPlacementPlan \<Rightarrow> string
    \<Rightarrow> string \<Rightarrow> (string \<times> string) list \<Rightarrow> PodCreateRequest" where
  "pod_request E q p resource_name img env =
     (let profile = dp_profile (pa_deployment E) in
      \<lparr> pc_name = resource_name, pc_image = img, pc_cloud = ox_cloud (oq_constraints q),
        pc_disk_gb = gp_container_disk_gb profile, pc_ports = gp_ports profile, pc_env = env, pc_args = None,
        pc_registry_id = gp_registry_id profile,
        pc_data_center_ids = ox_allowed_data_center_ids (oq_constraints q),
        pc_mounts = volume_mounts profile, pc_global_networking = False,
        pc_gpu_id = pd_gpu_id (op_placement p), pc_gpu_count = pd_gpu_count (op_placement p),
        pc_min_cuda_version = ox_min_cuda_version (oq_constraints q) \<rparr>)"

text \<open>The constructor of a request validates it before the request is handed to the client.\<close>

definition constructed :: "('a \<Rightarrow> py_error option) \<Rightarrow> 'a \<Rightarrow> py_error + 'a" where
  "constructed check x = (case check x of None \<Rightarrow> Inr x | Some e \<Rightarrow> Inl e)"

definition adapter_create :: "adapter_env \<Rightarrow> OllamaLeaseRequest \<Rightarrow> OllamaPlacementPlan \<Rightarrow> string
    \<Rightarrow> string \<Rightarrow> datetime \<Rightarrow> (adapter_world, string) prog" where
  "adapter_create E q p resource_name img t =
     (if op_resource_type p = T_ENDPOINT
      then seqM (liftM (runtime_environment E q M_SERVERLESS t)) (\<lambda>env.
        case credential (pd_gpu_pool (op_placement p)) of
          None \<Rightarrow> raiseM RunPodManagerError
        | Some pool \<Rightarrow>
            seqM (liftM (constructed endpoint_request_post_init
                (endpoint_request E q p resource_name img pool env))) (\<lambda>request.
            seqM (in_thread E (create_endpoint (client_of E) request)) (\<lambda>endpoint. ret (er_id endpoint))))
      else seqM (liftM (runtime_environment E q M_POD t)) (\<lambda>env.
        seqM (liftM (constructed pod_request_post_init (pod_request E q p resource_name img env))) (\<lambda>request.
        seqM (in_thread E (create_pod_request (client_of E) (pod_request_payload request))) (\<lambda>pod.
        ret (po_id pod)))))"

definition adapter_provision :: "adapter_env \<Rightarrow> OllamaLeaseRequest \<Rightarrow> OllamaPlacementPlan \<Rightarrow> string
    \<Rightarrow> (adapter_world, ProvisionedOllamaResource) prog" where
  "adapter_provision E q p resource_name =
     seqM (liftM (deployed_image E)) (\<lambda>img.
     seqM (adapter_now E) (\<lambda>t.
     seqM (adapter_create E q p resource_name img t) (\<lambda>i.
     ret \<lparr> ow_resource_type = op_resource_type p, ow_provider_resource_id = i,
           ow_resource_name = resource_name \<rparr>)))"

subsection \<open>Recovery by name\<close>

definition inventory :: "adapter_env \<Rightarrow> OllamaResourceType \<Rightarrow> (client_world, (string \<times> string) list) prog" where
  "inventory E rtype =
     (if rtype = T_ENDPOINT
      then seqM (list_endpoints (client_of E)) (\<lambda>es. ret (map (\<lambda>r. (er_id r, er_name r)) es))
      else seqM (list_pods (client_of E)) (\<lambda>ps. ret (map (\<lambda>r. (po_id r, po_name r)) ps)))"

definition adapter_find :: "adapter_env \<Rightarrow> OllamaResourceType \<Rightarrow> string
    \<Rightarrow> (adapter_world, ProvisionedOllamaResource option) prog" where
  "adapter_find E rtype resource_name =
     seqM (in_thread E (inventory E rtype)) (\<lambda>resources.
     case filter (\<lambda>(i, n). n = resource_name) resources of
       [] \<Rightarrow> ret None
     | [(i, n)] \<Rightarrow> ret (Some \<lparr> ow_resource_type = rtype, ow_provider_resource_id = i,
                          ow_resource_name = resource_name \<rparr>)
     | _ \<Rightarrow> raiseM RunPodManagerError)"

subsection \<open>The served model\<close>

definition http_get :: "adapter_env \<Rightarrow> string option \<Rightarrow> string \<Rightarrow> (adapter_world, http_reply) prog" where
  "http_get E token url = (\<lambda>w.
     let q = \<lparr> hr_method = ''GET'', hr_url = url, hr_bearer = credential token, hr_json = None \<rparr>;
         c = aw_client w
     in (Inr (pa_http E (cw_tick c) q),
         \<lparr> aw_client = c\<lparr>cw_tick := Suc (cw_tick c)\<rparr>, aw_http = aw_http w @ [q] \<rparr>))"

text \<open>Every \<^verbatim>\<open>httpx.HTTPError\<close> counts as an answer that is not good.\<close>

definition good_answer :: "(int \<Rightarrow> bool) \<Rightarrow> http_reply \<Rightarrow> py_error + bool" where
  "good_answer good reply =
     (case reply of
        Http_timeout \<Rightarrow> Inr False
      | Http_transport_failed \<Rightarrow> Inr False
      | Http_raises e \<Rightarrow> Inl e
      | Http_response status body \<Rightarrow> Inr (good status))"

definition healthy :: "adapter_env \<Rightarrow> string option \<Rightarrow> string \<Rightarrow> (adapter_world, bool) prog" where
  "healthy E token url = seqM (http_get E token url) (\<lambda>reply. liftM (good_answer (\<lambda>s. s = 200) reply))"

definition rejects_anonymous_requests :: "adapter_env \<Rightarrow> string \<Rightarrow> (adapter_world, bool) prog" where
  "rejects_anonymous_requests E base_url =
     seqM (http_get E None (strip_trailing (CHR ''/'') base_url @ ''/api/tags'')) (\<lambda>reply.
     liftM (good_answer (\<lambda>s. s \<in> {401, 403}) reply))"

fun model_name :: "json \<Rightarrow> string list" where
  "model_name item =
     (if \<not> is_jobj item then []
      else case json_or (jget item ''name'') (jget item ''model'') of
          JStr s \<Rightarrow> if s = [] then [] else [s]
        | _ \<Rightarrow> [])"

definition model_names :: "json option \<Rightarrow> string list" where
  "model_names body =
     (case body of
        None \<Rightarrow> []
      | Some payload \<Rightarrow>
          if \<not> is_jobj payload then []
          else case jget payload ''models'' of
              JList items \<Rightarrow> concat (map model_name items)
            | _ \<Rightarrow> [])"

definition served_models :: "adapter_env \<Rightarrow> string option \<Rightarrow> string \<Rightarrow> (adapter_world, string list) prog" where
  "served_models E token base_url =
     seqM (http_get E token (strip_trailing (CHR ''/'') base_url @ ''/api/tags'')) (\<lambda>reply.
     case reply of
       Http_timeout \<Rightarrow> ret []
     | Http_transport_failed \<Rightarrow> ret []
     | Http_raises e \<Rightarrow> if e = ValueError then ret [] else raiseM e
     | Http_response status body \<Rightarrow> ret (if success_status status then model_names body else []))"

text \<open>One port entry: not the inference port, or the end of the search with a route, none, or an error.\<close>

definition inference_route :: "provider_env \<Rightarrow> string \<Rightarrow> int \<Rightarrow> string \<Rightarrow> json
    \<Rightarrow> (py_error + string option) option" where
  "inference_route E pod_id port protocol item =
     (if \<not> is_jobj item
         \<or> int_of_json (json_or (jget item ''private'') (jget item ''privatePort'')) \<noteq> Some port
      then None
      else if map lower_char (text_entry E item ''type'') = ''http''
      then Some (Inr (Some (''https://'' @ pod_id @ ''-'' @ int_text port @ ''.proxy.runpod.net'')))
      else if strip_lower protocol \<noteq> ''https'' then Some (Inr None)
      else case (jget item ''ip'', json_or (jget item ''public'') (jget item ''publicPort'')) of
          (JStr ip, JInt n) \<Rightarrow> Some (Inr (Some (''https://'' @ ip @ '':'' @ int_text n)))
        | (JStr ip, JStr s) \<Rightarrow> (case python_int s of
              None \<Rightarrow> Some (Inl ValueError)
            | Some n \<Rightarrow> Some (Inr (Some (''https://'' @ ip @ '':'' @ int_text n))))
        | _ \<Rightarrow> None)"

fun first_inference_route :: "provider_env \<Rightarrow> string \<Rightarrow> int \<Rightarrow> string \<Rightarrow> json list
    \<Rightarrow> py_error + string option" where
  "first_inference_route E pod_id port protocol [] = Inr None"
| "first_inference_route E pod_id port protocol (item # items) =
     (case inference_route E pod_id port protocol item of
        None \<Rightarrow> first_inference_route E pod_id port protocol items
      | Some r \<Rightarrow> r)"

definition inference_base_url :: "provider_env \<Rightarrow> string \<Rightarrow> json \<Rightarrow> int \<Rightarrow> string
    \<Rightarrow> py_error + string option" where
  "inference_base_url E pod_id payload port protocol =
     (let runtime = jget payload ''runtime'' in
      if \<not> is_jobj runtime then Inr None
      else case jget runtime ''ports'' of
          JList items \<Rightarrow> first_inference_route E pod_id port protocol items
        | _ \<Rightarrow> Inr None)"

definition when_text :: "string option \<Rightarrow> (string \<Rightarrow> (adapter_world, 'a) prog) \<Rightarrow> 'a
    \<Rightarrow> (adapter_world, 'a) prog" where
  "when_text url m d = (case credential url of None \<Rightarrow> ret d | Some u \<Rightarrow> m u)"

definition observe_endpoint :: "adapter_env \<Rightarrow> string \<Rightarrow> (adapter_world, OllamaReadinessObservation) prog" where
  "observe_endpoint E endpoint_id =
     seqM (in_thread E (get_endpoint (client_of E) endpoint_id)) (\<lambda>endpoint.
     seqM (liftM (validate_endpoint_mounts (er_raw endpoint)
         (let profile = dp_profile (pa_deployment E) in
          if has_network_volume profile then [text_or (gp_network_volume_id profile) []] else []))) (\<lambda>_.
     let base_url = map_of (er_request_urls endpoint) ''base'';
         health_url = map_of (er_request_urls endpoint) ''health''
     in seqM (when_text health_url (healthy E (pa_serverless_api_key E)) False) (\<lambda>ready.
        seqM (when_text base_url (served_models E (pa_serverless_api_key E)) []) (\<lambda>names.
        ret \<lparr> oo_provider_ready = ready, oo_route_url = base_url,
              oo_provider_health_url = health_url, oo_model_names = names \<rparr>))))"

text \<open>The token goes to a Pod only after the Pod has refused an anonymous request.\<close>

definition probe_pod :: "adapter_env \<Rightarrow> string \<Rightarrow> string option \<Rightarrow> (adapter_world, bool \<times> string list) prog" where
  "probe_pod E status base_url =
     (let token = pa_pod_bearer_token E in
      seqM (when_text base_url (rejects_anonymous_requests E) False) (\<lambda>private_route.
      seqM (if private_route
            then when_text base_url (\<lambda>u. healthy E token (strip_trailing (CHR ''/'') u @ ''/ping'')) False
            else ret False) (\<lambda>runtime_ready.
      let ready = upper status = ''RUNNING'' \<and> private_route \<and> runtime_ready in
      seqM (if ready then when_text base_url (served_models E token) [] else ret []) (\<lambda>names.
      ret (ready, names)))))"

definition observe_pod :: "adapter_env \<Rightarrow> string \<Rightarrow> (adapter_world, OllamaReadinessObservation) prog" where
  "observe_pod E pod_id =
     (let profile = dp_profile (pa_deployment E) in
      seqM (in_thread E (get_pod (client_of E) pod_id)) (\<lambda>pod.
      seqM (liftM (inference_base_url (base_of E) pod_id (po_raw pod) (gp_inference_port profile)
          (gp_inference_protocol profile))) (\<lambda>base_url.
      seqM (probe_pod E (po_status pod) base_url) (\<lambda>(ready, names).
      ret \<lparr> oo_provider_ready = ready, oo_route_url = base_url, oo_provider_health_url = None,
            oo_model_names = names \<rparr>))))"

definition adapter_observe :: "adapter_env \<Rightarrow> ProvisionedOllamaResource
    \<Rightarrow> (adapter_world, OllamaReadinessObservation) prog" where
  "adapter_observe E resource =
     (if ow_resource_type resource = T_ENDPOINT
      then observe_endpoint E (ow_provider_resource_id resource)
      else observe_pod E (ow_provider_resource_id resource))"

definition adapter_pull :: "adapter_env \<Rightarrow> ProvisionedOllamaResource \<Rightarrow> string \<Rightarrow> string
    \<Rightarrow> (adapter_world, unit) prog" where
  "adapter_pull E resource url model = raiseM RunPodManagerError"

subsection \<open>Teardown\<close>

definition delete_command :: "adapter_env \<Rightarrow> ProvisionedOllamaResource \<Rightarrow> (client_world, unit) prog" where
  "delete_command E resource =
     (if ow_resource_type resource = T_ENDPOINT
      then delete_endpoint (client_of E) (ow_provider_resource_id resource)
      else seqM (pod_action (client_of E) (ow_provider_resource_id resource) ''terminate'') (\<lambda>_. ret ()))"

definition read_back :: "adapter_env \<Rightarrow> ProvisionedOllamaResource \<Rightarrow> (client_world, unit) prog" where
  "read_back E resource =
     (if ow_resource_type resource = T_ENDPOINT
      then seqM (get_endpoint (client_of E) (ow_provider_resource_id resource)) (\<lambda>_. ret ())
      else seqM (get_pod (client_of E) (ow_provider_resource_id resource)) (\<lambda>_. ret ()))"

text \<open>Only the 404 of the read-back is an observation of absence.\<close>

definition adapter_teardown :: "adapter_env \<Rightarrow> ProvisionedOllamaResource \<Rightarrow> (adapter_world, unit) prog" where
  "adapter_teardown E resource =
     seqM (tryM (in_thread E (delete_command E resource))
        (\<lambda>e. if e = RunPodAPIError (Some 404) then ret () else raiseM e)) (\<lambda>_.
     try_elseM (in_thread E (read_back E resource))
       (\<lambda>e. if e = RunPodAPIError (Some 404) then ret () else raiseM e)
       (\<lambda>_. raiseM RunPodManagerError))"

subsection \<open>The adapter as the lease service sees it\<close>

definition fresh_adapter :: adapter_world where
  "fresh_adapter = \<lparr> aw_client = fresh_client, aw_http = [] \<rparr>"

definition adapter_of :: "(nat \<Rightarrow> adapter_env) \<Rightarrow> ollama_provider" where
  "adapter_of Es =
     \<lparr> up_validate = (\<lambda>n q. fst (validate_runtime_request (Es n) q fresh_adapter)),
       up_plan = (\<lambda>n q. fst (adapter_plan (Es n) q fresh_adapter)),
       up_provision = (\<lambda>n q p s. fst (adapter_provision (Es n) q p s fresh_adapter)),
       up_find = (\<lambda>n rtype s. fst (adapter_find (Es n) rtype s fresh_adapter)),
       up_observe = (\<lambda>n resource. fst (adapter_observe (Es n) resource fresh_adapter)),
       up_pull = (\<lambda>n resource url model. fst (adapter_pull (Es n) resource url model fresh_adapter)),
       up_teardown = (\<lambda>n resource. fst (adapter_teardown (Es n) resource fresh_adapter)) \<rparr>"

end
