(* ===== verification/Ollama_Safety.thy ===== *)
theory Ollama_Safety
  imports Ollama_Service
begin

text \<open>
  What the Ollama lease service never undoes.  \<open>ol_evolves\<close> relates an earlier and a later version of a lease
  row, \<open>ol_inv\<close> is the invariant of a row, \<open>ollama_inv\<close> that of the table together with the creates sent so
  far.  Every transaction of the service is proved to keep the invariant and to change rows along
  \<open>ol_evolves\<close>, when the transactions of other processes do.  The two route columns, which live in
  host memory only, are left out of the comparison.
\<close>

section \<open>Definitions\<close>

definition no_route :: "OllamaLease \<Rightarrow> OllamaLease" where
  "no_route r = r\<lparr>ol_route_url := None, ol_provider_health_url := None\<rparr>"

text \<open>The columns that no update sets.\<close>

definition ol_identity :: "OllamaLease \<Rightarrow> (string \<times> string \<times> string \<times> string \<times> string \<times> json)
    \<times> (datetime \<times> datetime \<times> datetime) \<times> (int \<times> int \<times> int \<times> int \<times> int) \<times> amount" where
  "ol_identity r =
     ((ol_lease_id r, ol_owner_id r, ol_workload_id r, ol_request_fingerprint r, ol_model r,
       ol_constraints_json r), (ol_created_at r, ol_hard_deadline r, ol_readiness_deadline r),
      (ol_expected_session_seconds r, ol_expected_active_seconds r, ol_serverless_initialization_seconds r,
       ol_serverless_idle_tail_seconds r, ol_idle_timeout_seconds r), ol_max_authorized_cost r)"

text \<open>The columns that are set once, when provisioning is claimed.\<close>

definition claim_columns :: "OllamaLease \<Rightarrow> OllamaLeaseMode option \<times> OllamaResourceType option
    \<times> string option \<times> int \<times> amount option" where
  "claim_columns r =
     (ol_mode r, ol_resource_type r, ol_resource_name r, ol_provision_attempts r, ol_cost_ceiling r)"

abbreviation lifecycle :: "OllamaLeaseState \<Rightarrow> OllamaLeaseState \<Rightarrow> bool" where
  "lifecycle \<equiv> (\<lambda>s s'. s' \<in> set (allowed_transitions s))\<^sup>*\<^sup>*"

definition ol_evolves :: "OllamaLease \<Rightarrow> OllamaLease \<Rightarrow> bool" where
  "ol_evolves r r' \<longleftrightarrow>
     ol_identity r' = ol_identity r
     \<and> lifecycle (ol_state r) (ol_state r')
     \<and> (ol_state r \<noteq> L_REQUESTED \<longrightarrow> claim_columns r' = claim_columns r)
     \<and> keeps (ol_provider_resource_id r) (ol_provider_resource_id r')
     \<and> (ol_state r = L_TERMINATED \<longrightarrow> no_route r' = no_route r)
     \<and> ol_revision r \<le> ol_revision r' \<and> (ol_revision r' = ol_revision r \<longrightarrow> no_route r' = no_route r)"

text \<open>
  \<open>absent\<close>: the provider resources whose teardown was confirmed.  An attempted create stays uncertain until
  its resource is known, and a lease is terminated only when that resource is absent.
\<close>

definition ol_inv :: "string list \<Rightarrow> OllamaLease \<Rightarrow> bool" where
  "ol_inv absent r \<longleftrightarrow>
     ol_provider_resource_id r \<noteq> Some []
     \<and> ol_provision_attempts r \<in> {0, 1}
     \<and> (ol_provision_attempts r = 0 \<longrightarrow> ol_provider_resource_id r = None)
     \<and> ol_creation_uncertain r = (ol_provision_attempts r = 1 \<and> ol_provider_resource_id r = None)
     \<and> (ol_provision_attempts r = 1 \<longrightarrow> ol_resource_type r \<noteq> None \<and> ol_resource_name r \<notin> {None, Some []})
     \<and> (ol_state r \<in> {L_REQUESTED, L_FAILED} \<longrightarrow> ol_provision_attempts r = 0)
     \<and> (ol_state r \<in> {L_PROVISIONING, L_RECONCILE_REQUIRED, L_WAITING_FOR_MODEL, L_READY}
          \<longrightarrow> ol_provision_attempts r = 1)
     \<and> (ol_state r = L_TERMINATED \<longrightarrow> \<not> ol_creation_uncertain r \<and> ol_teardown_state r = D_COMPLETE
          \<and> (case ol_provider_resource_id r of None \<Rightarrow> True | Some i \<Rightarrow> i \<in> set absent))"

definition ol_table_inv :: "string list \<Rightarrow> OllamaLease list \<Rightarrow> bool" where
  "ol_table_inv absent t \<longleftrightarrow> distinct (map ol_lease_id t) \<and> (\<forall>r \<in> set t. ol_inv absent r)"

definition ol_table_evolves :: "OllamaLease list \<Rightarrow> OllamaLease list \<Rightarrow> bool" where
  "ol_table_evolves t t' \<longleftrightarrow>
     (\<forall>k r. lease_row t k = Some r \<longrightarrow> (\<exists>r'. lease_row t' k = Some r' \<and> ol_evolves r r'))"

definition created :: "ollama_effect list \<Rightarrow> string list" where
  "created es = concat (map (\<lambda>e. case e of Eff_provision q p n \<Rightarrow> [oq_lease_id q] | _ \<Rightarrow> []) es)"

text \<open>A create is sent for a row that claims it, for the owner of the row and with a plan that was validated.\<close>

definition create_claimed :: "OllamaLease list \<Rightarrow> ollama_effect \<Rightarrow> bool" where
  "create_claimed t e = (case e of
     Eff_provision q p n \<Rightarrow>
       validate_plan q p = Inr ()
       \<and> (\<exists>r. lease_row t (oq_lease_id q) = Some r \<and> ol_provision_attempts r = 1
            \<and> ol_owner_id r = oq_owner_id q \<and> ol_workload_id r = oq_workload_id q
            \<and> ol_resource_name r = Some n \<and> ol_resource_type r = Some (op_resource_type p)
            \<and> ol_mode r = Some (op_mode p) \<and> ol_cost_ceiling r = Some (op_cost_ceiling p))
   | _ \<Rightarrow> True)"

definition ollama_inv :: "ollama_world \<Rightarrow> bool" where
  "ollama_inv w \<longleftrightarrow> ol_table_inv (uw_absent w) (uw_table w)
     \<and> distinct (created (uw_effects w)) \<and> (\<forall>e \<in> set (uw_effects w). create_claimed (uw_table w) e)"

definition ollama_guar :: "ollama_world \<Rightarrow> ollama_world \<Rightarrow> bool" where
  "ollama_guar w w' \<longleftrightarrow> ol_table_evolves (uw_table w) (uw_table w') \<and> set (uw_absent w) \<subseteq> set (uw_absent w')
     \<and> (\<exists>es. uw_effects w' = uw_effects w @ es)"

text \<open>The other processes keep the same rules, and the provider never answers with an empty resource id.\<close>

definition ollama_rely :: "ollama_env \<Rightarrow> bool" where
  "ollama_rely E \<longleftrightarrow>
     (\<forall>n t a. ol_table_inv a t \<longrightarrow> (case ue_interfere E n (t, a) of (t', a') \<Rightarrow>
        ol_table_inv a' t' \<and> ol_table_evolves t t' \<and> set a \<subseteq> set a'))
     \<and> (\<forall>n q p s r. up_provision (ue_provider E) n q p s = Inr r \<longrightarrow> ow_provider_resource_id r \<noteq> [])
     \<and> (\<forall>n y s r. up_find (ue_provider E) n y s = Inr (Some r) \<longrightarrow> ow_provider_resource_id r \<noteq> [])"

definition ol_snap :: "OllamaLease \<Rightarrow> ollama_world \<Rightarrow> bool" where
  "ol_snap l w \<longleftrightarrow> ol_inv (uw_absent w) l
     \<and> (\<exists>r. lease_row (uw_table w) (ol_lease_id l) = Some r \<and> ol_evolves l r)"

text \<open>What an update must satisfy, and what it leaves.\<close>

definition oc_good :: "string list \<Rightarrow> OllamaLease \<Rightarrow> ollama_change list \<Rightarrow> bool" where
  "oc_good absent l cs \<longleftrightarrow> (let l' = apply_ocs cs l in
     \<not> list_ex sets_ollama_updated_at cs
     \<and> ol_state l \<noteq> L_TERMINATED \<and> lifecycle (ol_state l) (ol_state l')
     \<and> (ol_state l \<noteq> L_REQUESTED \<longrightarrow> claim_columns l' = claim_columns l)
     \<and> keeps (ol_provider_resource_id l) (ol_provider_resource_id l') \<and> ol_inv absent l')"

definition oc_done :: "OllamaLease \<Rightarrow> ollama_change list \<Rightarrow> OllamaLease \<Rightarrow> bool" where
  "oc_done l cs l' \<longleftrightarrow> (\<exists>t. no_route l' =
     no_route ((apply_ocs cs l)\<lparr>ol_updated_at := t, ol_revision := ol_revision l + 1\<rparr>))"

section \<open>Updates and the two route columns\<close>

named_theorems oc_simps \<open>evaluation of an update\<close>

lemma apply_ocs_simps [oc_simps]: "apply_ocs [] r = r" "apply_ocs (c # cs) r = apply_ocs cs (apply_oc c r)"
  by (simp_all add: apply_ocs_def)

lemma apply_ocs_append: "apply_ocs (cs @ ds) r = apply_ocs ds (apply_ocs cs r)"
  by (simp add: apply_ocs_def)

lemma no_route_apply_oc: "no_route (apply_oc c r) = no_route (apply_oc c (no_route r))"
  by (cases c) (simp_all add: no_route_def)

lemma no_route_apply_ocs: "no_route r = no_route l \<Longrightarrow> no_route (apply_ocs cs r) = no_route (apply_ocs cs l)"
proof (induction cs arbitrary: r l)
  case (Cons c cs)
  from Cons.prems have "no_route (apply_oc c r) = no_route (apply_oc c l)"
    using no_route_apply_oc [of c r] no_route_apply_oc [of c l] by simp
  from Cons.IH [OF this] show ?case by (simp add: apply_ocs_simps)
qed (simp add: apply_ocs_simps)

lemma ol_identity_apply_oc: "ol_identity (apply_oc c r) = ol_identity r" "ol_revision (apply_oc c r) = ol_revision r"
  by (cases c; simp add: ol_identity_def)+

lemma ol_identity_apply_ocs [simp]:
  "ol_identity (apply_ocs cs r) = ol_identity r" "ol_revision (apply_ocs cs r) = ol_revision r"
  by (induction cs arbitrary: r) (simp_all add: apply_ocs_simps ol_identity_apply_oc)

text \<open>Everything that is compared is read from the columns other than the routes.\<close>

lemma no_route_fields:
  assumes "no_route r = no_route l"
  shows "ol_identity r = ol_identity l" "claim_columns r = claim_columns l" "ol_state r = ol_state l"
    "ol_provider_resource_id r = ol_provider_resource_id l" "ol_revision r = ol_revision l"
    "ol_inv a r = ol_inv a l" "ol_creation_uncertain r = ol_creation_uncertain l"
    "ol_lease_id r = ol_lease_id l" "ol_provision_attempts r = ol_provision_attempts l"
    "ol_cost_policy_components r = ol_cost_policy_components l"
proof -
  have "ol_identity (no_route r) = ol_identity (no_route l)" "claim_columns (no_route r) = claim_columns (no_route l)"
    "ol_state (no_route r) = ol_state (no_route l)" "ol_inv a (no_route r) = ol_inv a (no_route l)"
    "ol_provider_resource_id (no_route r) = ol_provider_resource_id (no_route l)"
    "ol_revision (no_route r) = ol_revision (no_route l)"
    "ol_creation_uncertain (no_route r) = ol_creation_uncertain (no_route l)"
    "ol_lease_id (no_route r) = ol_lease_id (no_route l)"
    "ol_provision_attempts (no_route r) = ol_provision_attempts (no_route l)"
    "ol_cost_policy_components (no_route r) = ol_cost_policy_components (no_route l)"
    by (simp_all only: assms)
  then show "ol_identity r = ol_identity l" "claim_columns r = claim_columns l" "ol_state r = ol_state l"
    "ol_provider_resource_id r = ol_provider_resource_id l" "ol_revision r = ol_revision l"
    "ol_inv a r = ol_inv a l" "ol_creation_uncertain r = ol_creation_uncertain l"
    "ol_lease_id r = ol_lease_id l" "ol_provision_attempts r = ol_provision_attempts l"
    "ol_cost_policy_components r = ol_cost_policy_components l"
    by (simp_all add: no_route_def ol_identity_def claim_columns_def ol_inv_def)
qed

lemma no_route_idem [simp]: "no_route (no_route r) = no_route r"
  by (simp add: no_route_def)

lemma no_route_with_route [simp]: "no_route (with_route ob l) = no_route l"
  by (simp add: no_route_def with_route_def)

section \<open>The order on rows and tables\<close>

lemma ol_evolves_refl [simp]: "ol_evolves r r"
  by (simp add: ol_evolves_def)

lemma lifecycle_left: "lifecycle s s' \<Longrightarrow> s \<noteq> L_REQUESTED \<Longrightarrow> s' \<noteq> L_REQUESTED"
proof (induction rule: rtranclp_induct)
  case (step y z)
  then show ?case by (cases y) auto
qed

lemma lifecycle_final: "lifecycle L_TERMINATED s \<Longrightarrow> s = L_TERMINATED"
  by (erule converse_rtranclpE) auto

lemma ol_evolves_trans:
  assumes "ol_evolves a b" "ol_evolves b c"
  shows "ol_evolves a c"
proof -
  from assms show ?thesis
    unfolding ol_evolves_def
    by (auto intro: keeps_trans rtranclp_trans dest: lifecycle_left lifecycle_final)
qed

lemma ol_evolves_no_route:
  assumes "no_route r = no_route l"
  shows "ol_evolves r x = ol_evolves l x"
  unfolding ol_evolves_def using assms by (simp only: no_route_fields [OF assms])

lemma ol_identity_key: "ol_identity a = ol_identity b \<Longrightarrow> ol_lease_id a = ol_lease_id b"
  by (simp add: ol_identity_def)

lemma ol_evolves_key: "ol_evolves r r' \<Longrightarrow> ol_lease_id r' = ol_lease_id r"
  unfolding ol_evolves_def by (blast dest: ol_identity_key)

lemma ol_table_evolves_refl [simp]: "ol_table_evolves t t"
  by (auto simp: ol_table_evolves_def)

lemma ol_table_evolves_trans: "ol_table_evolves s t \<Longrightarrow> ol_table_evolves t u \<Longrightarrow> ol_table_evolves s u"
  unfolding ol_table_evolves_def by (meson ol_evolves_trans)

lemma ol_table_evolvesD:
  "ol_table_evolves t t' \<Longrightarrow> lease_row t k = Some r \<Longrightarrow> \<exists>r'. lease_row t' k = Some r' \<and> ol_evolves r r'"
  by (simp add: ol_table_evolves_def)

lemma lease_row_Some: "lease_row t k = Some r \<Longrightarrow> r \<in> set t \<and> ol_lease_id r = k"
  unfolding lease_row_def by (rule find_Some_mem)

lemma lease_row_mem: "distinct (map ol_lease_id t) \<Longrightarrow> r \<in> set t \<Longrightarrow> lease_row t (ol_lease_id r) = Some r"
  unfolding lease_row_def by (rule find_distinct_key)

lemma lease_row_replace:
  "lease_row (replace_row t r') k =
     (if k = ol_lease_id r' \<and> lease_row t k \<noteq> None then Some r' else lease_row t k)"
  unfolding lease_row_def replace_row_def by (induction t) auto

lemma replace_row_ids [simp]: "map ol_lease_id (replace_row t r') = map ol_lease_id t"
  by (auto simp: replace_row_def)

lemma set_replace_row: "x \<in> set (replace_row t r') \<Longrightarrow> x = r' \<or> x \<in> set t"
  by (auto simp: replace_row_def split: if_splits)

lemma ol_inv_mono: "ol_inv a r \<Longrightarrow> set a \<subseteq> set a' \<Longrightarrow> ol_inv a' r"
  unfolding ol_inv_def by (auto split: option.splits)

lemma oc_good_mono: "oc_good a l cs \<Longrightarrow> set a \<subseteq> set a' \<Longrightarrow> oc_good a' l cs"
  unfolding oc_good_def Let_def by (auto intro: ol_inv_mono)

lemma ol_table_inv_row: "ol_table_inv a t \<Longrightarrow> lease_row t k = Some r \<Longrightarrow> ol_inv a r \<and> ol_lease_id r = k"
  unfolding ol_table_inv_def by (blast dest: lease_row_Some)

interpretation osvc: guarantee_preorder ollama_inv ollama_guar
proof
  show "ollama_guar w w" for w by (simp add: ollama_guar_def)
  show "ollama_guar u w" if "ollama_guar u v" "ollama_guar v w" for u v w
    using that unfolding ollama_guar_def by (auto intro: ol_table_evolves_trans)
qed

abbreviation oks :: "(ollama_world \<Rightarrow> bool) \<Rightarrow> (ollama_world, 'a) prog \<Rightarrow> ('a \<Rightarrow> ollama_world \<Rightarrow> bool) \<Rightarrow> bool" where
  "oks P m Q \<equiv> safe ollama_inv ollama_guar P m Q"

lemma stable_ol_snap [simp]: "osvc.stable (ol_snap l)"
  unfolding osvc.stable_def ol_snap_def ollama_guar_def
  by (blast dest: ol_table_evolvesD intro: ol_evolves_trans ol_inv_mono)

lemma ol_snap_no_route:
  assumes "no_route l' = no_route l"
  shows "ol_snap l' w = ol_snap l w"
  unfolding ol_snap_def by (simp only: no_route_fields [OF assms] ol_evolves_no_route [OF assms])

lemma ol_snap_guar: "ollama_guar w w' \<Longrightarrow> ol_snap l w \<Longrightarrow> ol_snap l w'"
  using stable_ol_snap by (auto simp: osvc.stable_def)

section \<open>Transactions\<close>

lemma claim_identity:
  assumes "ol_evolves r r'" "ol_provision_attempts r = 1" "ol_inv a r"
  shows "claim_columns r' = claim_columns r" "ol_owner_id r' = ol_owner_id r" "ol_workload_id r' = ol_workload_id r"
proof -
  from assms(2,3) have "ol_state r \<noteq> L_REQUESTED" by (auto simp: ol_inv_def)
  with assms(1) show "claim_columns r' = claim_columns r" by (simp add: ol_evolves_def)
  from assms(1) have "ol_identity r' = ol_identity r" by (simp add: ol_evolves_def)
  then show "ol_owner_id r' = ol_owner_id r" "ol_workload_id r' = ol_workload_id r"
    by (simp_all add: ol_identity_def)
qed

lemma create_claimed_evolves:
  assumes "create_claimed t e" "ol_table_inv a t" "ol_table_evolves t t'"
  shows "create_claimed t' e"
proof (cases e)
  case (Eff_provision q p n)
  with assms(1) obtain r where r: "validate_plan q p = Inr ()" "lease_row t (oq_lease_id q) = Some r"
    "ol_provision_attempts r = 1" "ol_owner_id r = oq_owner_id q" "ol_workload_id r = oq_workload_id q"
    "ol_resource_name r = Some n" "ol_resource_type r = Some (op_resource_type p)"
    "ol_mode r = Some (op_mode p)" "ol_cost_ceiling r = Some (op_cost_ceiling p)"
    by (auto simp: create_claimed_def)
  from ol_table_evolvesD [OF assms(3) r(2)] obtain r' where
    r': "lease_row t' (oq_lease_id q) = Some r'" "ol_evolves r r'" by blast
  note c = claim_identity [OF r'(2) r(3)] ol_table_inv_row [OF assms(2) r(2)]
  then show ?thesis using r r'(1) Eff_provision unfolding create_claimed_def
    by (auto simp: claim_columns_def)
qed (simp_all add: create_claimed_def)

lemma ollama_commit:
  assumes "ollama_inv w" "ol_table_evolves (uw_table w) t'" "ol_table_inv a' t'" "set (uw_absent w) \<subseteq> set a'"
  shows "ollama_inv (w\<lparr>uw_table := t', uw_absent := a', uw_tick := n\<rparr>)
    \<and> ollama_guar w (w\<lparr>uw_table := t', uw_absent := a', uw_tick := n\<rparr>)"
  using assms create_claimed_evolves [OF _ _ assms(2)]
  unfolding ollama_inv_def ollama_guar_def by auto

lemma ollama_relyD:
  "ollama_rely E \<Longrightarrow> ol_table_inv a t \<Longrightarrow> (case ue_interfere E n (t, a) of (t', a') \<Rightarrow>
     ol_table_inv a' t' \<and> ol_table_evolves t t' \<and> set a \<subseteq> set a')"
  unfolding ollama_rely_def by (drule conjunct1) iprover

lemma ollama_transaction_ok:
  assumes "ollama_rely E" "ollama_inv w"
  shows "ollama_inv (ollama_transaction E w) \<and> ollama_guar w (ollama_transaction E w)"
proof -
  obtain t a where ta: "ue_interfere E (uw_tick w) (uw_table w, uw_absent w) = (t, a)" by fastforce
  have "ol_table_inv (uw_absent w) (uw_table w)" using assms(2) by (simp add: ollama_inv_def)
  note ollama_relyD [OF assms(1) this, of "uw_tick w"]
  then show ?thesis using ollama_commit [OF assms(2)] by (simp add: ollama_transaction_def ta)
qed

lemma ollama_transaction_effects [simp]: "uw_effects (ollama_transaction E w) = uw_effects w"
  by (simp add: ollama_transaction_def split: prod.splits)

lemma ol_evolves_no_route_right:
  assumes "no_route r' = no_route x"
  shows "ol_evolves r r' = ol_evolves r x"
  unfolding ol_evolves_def by (simp only: no_route_fields [OF assms] assms)

lemma no_route_stamp:
  assumes "no_route a = no_route b"
  shows "no_route (a\<lparr>ol_updated_at := t, ol_revision := n\<rparr>) = no_route (b\<lparr>ol_updated_at := t, ol_revision := n\<rparr>)"
proof -
  have "no_route (x\<lparr>ol_updated_at := t, ol_revision := n\<rparr>) = (no_route x)\<lparr>ol_updated_at := t, ol_revision := n\<rparr>" for x
    by (cases x) (simp add: no_route_def)
  then show ?thesis by (simp only: assms)
qed

lemma stamp_fields [simp]:
  "ol_identity (l\<lparr>ol_updated_at := t, ol_revision := n\<rparr>) = ol_identity l"
  "claim_columns (l\<lparr>ol_updated_at := t, ol_revision := n\<rparr>) = claim_columns l"
  "ol_inv a (l\<lparr>ol_updated_at := t, ol_revision := n\<rparr>) = ol_inv a l"
  by (simp_all add: ol_identity_def claim_columns_def ol_inv_def)

lemma oc_good_evolves:
  assumes "oc_good a l cs"
  shows "ol_evolves l ((apply_ocs cs l)\<lparr>ol_updated_at := t, ol_revision := ol_revision l + 1\<rparr>)"
    "ol_inv a ((apply_ocs cs l)\<lparr>ol_updated_at := t, ol_revision := ol_revision l + 1\<rparr>)"
  using assms by (simp_all add: oc_good_def Let_def ol_evolves_def)

lemma not_created:
  assumes "ollama_inv w" "lease_row (uw_table w) k = Some r" "ol_provision_attempts r = 0"
  shows "k \<notin> set (created (uw_effects w))"
proof
  assume "k \<in> set (created (uw_effects w))"
  then obtain q p n where "Eff_provision q p n \<in> set (uw_effects w)" "k = oq_lease_id q"
    by (auto simp: created_def split: ollama_effect.splits)
  with assms show False by (fastforce simp: ollama_inv_def create_claimed_def)
qed

lemma lease_cas_Inr:
  assumes "lease_cas t k n cs = Inr (r', t')" "distinct (map ol_lease_id t)"
  obtains r where "lease_row t k = Some r" "ol_revision r = n"
    "r' = (apply_ocs cs r)\<lparr>ol_revision := ol_revision r + 1\<rparr>" "t' = replace_row t r'"
proof -
  from assms(1) obtain r where r: "find (\<lambda>r. ol_lease_id r = k \<and> ol_revision r = n) t = Some r"
    "r' = (apply_ocs cs r)\<lparr>ol_revision := ol_revision r + 1\<rparr>" "t' = replace_row t r'"
    by (auto simp: lease_cas_def Let_def split: option.splits)
  from find_Some_mem [OF r(1)] have "r \<in> set t" "ol_lease_id r = k" "ol_revision r = n" by auto
  with lease_row_mem [OF assms(2)] r that show ?thesis by blast
qed

lemma replace_ok:
  assumes "ollama_inv w" "lease_row (uw_table w) k = Some r" "ol_evolves r r'" "ol_inv (uw_absent w) r'"
  shows "ollama_inv (w\<lparr>uw_table := replace_row (uw_table w) r'\<rparr>)
    \<and> ollama_guar w (w\<lparr>uw_table := replace_row (uw_table w) r'\<rparr>)
    \<and> lease_row (replace_row (uw_table w) r') k = Some r'"
proof -
  let ?t = "replace_row (uw_table w) r'"
  have key: "ol_lease_id r' = k" using lease_row_Some [OF assms(2)] ol_evolves_key [OF assms(3)] by simp
  have "ol_table_evolves (uw_table w) ?t"
    unfolding ol_table_evolves_def using assms(2,3) key by (auto simp: lease_row_replace)
  moreover have "ol_table_inv (uw_absent w) ?t"
    using assms(1,4) unfolding ollama_inv_def ol_table_inv_def by (auto dest: set_replace_row)
  ultimately show ?thesis
    using ollama_commit [OF assms(1), of ?t "uw_absent w" "uw_tick w"] assms(2) key
    by (simp add: lease_row_replace)
qed

lemma ollama_cas_ok:
  assumes rely: "ollama_rely E"
    and pre: "\<And>w. ollama_inv w \<Longrightarrow> P w \<Longrightarrow> ol_snap lease w \<and> oc_good (uw_absent w) lease cs"
  shows "oks P (ollama_cas E lease cs) (\<lambda>l' w. ol_snap l' w \<and> oc_done lease cs l'
    \<and> (ol_provision_attempts lease = 0 \<longrightarrow> ol_lease_id lease \<notin> set (created (uw_effects w))))"
proof (rule safeI)
  fix w res w'
  assume w: "ollama_inv w" "P w" and run: "ollama_cas E lease cs w = (res, w')"
  note snap = pre [OF w, THEN conjunct1]
  let ?w = "ollama_transaction E w" and ?u = "OC_updated_at (ue_wall_clock E (uw_tick w))"
  note b = ollama_transaction_ok [OF rely w(1)]
  have snap1: "ol_snap lease ?w" using ol_snap_guar b snap by blast
  have good: "oc_good (uw_absent ?w) lease cs"
    using oc_good_mono [OF pre [OF w, THEN conjunct2]] b by (simp add: ollama_guar_def)
  then have plain: "\<not> list_ex sets_ollama_updated_at cs" by (simp add: oc_good_def Let_def)
  show "ollama_inv w' \<and> ollama_guar w w' \<and> (\<forall>l'. res = Inr l' \<longrightarrow> ol_snap l' w' \<and> oc_done lease cs l'
    \<and> (ol_provision_attempts lease = 0 \<longrightarrow> ol_lease_id lease \<notin> set (created (uw_effects w'))))"
  proof (cases "list_all oc_aware cs")
    case False
    with run w osvc.G_refl show ?thesis by (auto simp: ollama_cas_def)
  next
    case aware: True
    show ?thesis
    proof (cases "lease_cas (uw_table ?w) (ol_lease_id lease) (ol_revision lease) (cs @ [?u])")
      case (Inl e)
      with run aware plain b show ?thesis by (auto simp: ollama_cas_def Let_def)
    next
      case (Inr p)
      obtain r' t' where p: "p = (r', t')" by (cases p)
      have "distinct (map ol_lease_id (uw_table ?w))" using b by (simp add: ollama_inv_def ol_table_inv_def)
      from lease_cas_Inr [OF Inr [unfolded p] this] obtain r where
        r: "lease_row (uw_table ?w) (ol_lease_id lease) = Some r" "ol_revision r = ol_revision lease"
        and r': "r' = (apply_ocs (cs @ [?u]) r)\<lparr>ol_revision := ol_revision r + 1\<rparr>"
        and t': "t' = replace_row (uw_table ?w) r'" by metis
      from snap1 r have same: "no_route r = no_route lease" by (auto simp: ol_snap_def ol_evolves_def)
      let ?l = "(apply_ocs cs lease)\<lparr>ol_updated_at := ue_wall_clock E (uw_tick w), ol_revision := ol_revision lease + 1\<rparr>"
      have "r' = (apply_ocs cs r)\<lparr>ol_updated_at := ue_wall_clock E (uw_tick w), ol_revision := ol_revision lease + 1\<rparr>"
        unfolding r' by (simp add: apply_ocs_append apply_ocs_simps r(2))
      then have nr: "no_route r' = no_route ?l"
        using no_route_stamp [OF no_route_apply_ocs [OF same]] by simp
      have "ol_evolves r r'" "ol_inv (uw_absent ?w) r'"
        using oc_good_evolves [OF good]
        by (simp_all only: ol_evolves_no_route_right [OF nr] ol_evolves_no_route [OF same] no_route_fields [OF nr])
      note ok = replace_ok [OF b [THEN conjunct1] r(1) this]
      from run aware plain have w': "w' = ?w\<lparr>uw_table := t'\<rparr>" "res = ollama_from_row r'"
        by (auto simp: ollama_cas_def Let_def Inr p)
      have "ol_lease_id r' = ol_lease_id lease" using lease_row_Some ok by blast
      with ok \<open>ol_inv (uw_absent ?w) r'\<close> have "ol_snap r' w'" unfolding w' t' ol_snap_def by simp
      moreover have "oc_done lease cs r'" unfolding oc_done_def using nr by blast
      moreover have "ol_lease_id lease \<notin> set (created (uw_effects w'))" if "ol_provision_attempts lease = 0"
        using not_created [OF b [THEN conjunct1] r(1)] no_route_fields(9) [OF same] that by (simp add: w')
      moreover have "l' = r'" if "res = Inr l'" for l'
        using that w'(2) by (simp add: ollama_from_row_def split: if_splits)
      ultimately show ?thesis using ok b osvc.G_trans unfolding w'(1) t' by blast
    qed
  qed
qed

end
