(* ===== verification/Ollama_Guarantee.thy ===== *)
theory Ollama_Guarantee
  imports Ollama_Safety
begin

text \<open>
  Operation by operation, the Ollama lease service keeps the invariant and the order on rows, on every outcome.
\<close>

section \<open>Updates that are admissible\<close>

text \<open>The columns that neither the invariant nor the order reads on a lease that is not terminated.\<close>

fun neutral :: "ollama_change \<Rightarrow> bool" where
  "neutral (OC_mode _) = False"
| "neutral (OC_resource_type _) = False"
| "neutral (OC_provider_resource_id _) = False"
| "neutral (OC_resource_name _) = False"
| "neutral (OC_creation_uncertain _) = False"
| "neutral (OC_provision_attempts _) = False"
| "neutral (OC_state _) = False"
| "neutral (OC_teardown_state _) = False"
| "neutral (OC_updated_at _) = False"
| "neutral (OC_cost_ceiling _) = False"
| "neutral _ = True"

lemma neutral_apply_oc:
  assumes "neutral c"
  shows "claim_columns (apply_oc c l) = claim_columns l" "ol_state (apply_oc c l) = ol_state l"
    "ol_provider_resource_id (apply_oc c l) = ol_provider_resource_id l"
    "ol_creation_uncertain (apply_oc c l) = ol_creation_uncertain l"
    "ol_teardown_state (apply_oc c l) = ol_teardown_state l" "\<not> sets_ollama_updated_at c"
  using assms by (cases c; simp add: claim_columns_def)+

lemma neutral_apply_ocs:
  assumes "list_all neutral cs"
  shows "claim_columns (apply_ocs cs l) = claim_columns l" "ol_state (apply_ocs cs l) = ol_state l"
    "ol_provider_resource_id (apply_ocs cs l) = ol_provider_resource_id l"
    "ol_creation_uncertain (apply_ocs cs l) = ol_creation_uncertain l"
    "ol_teardown_state (apply_ocs cs l) = ol_teardown_state l"
  using assms by (induction cs arbitrary: l) (simp_all add: apply_ocs_simps neutral_apply_oc)

lemma neutral_plain: "list_all neutral cs \<Longrightarrow> \<not> list_ex sets_ollama_updated_at cs"
  by (induction cs) (auto simp: neutral_apply_oc)

lemma claim_columnsD:
  "claim_columns l' = claim_columns l \<Longrightarrow> ol_resource_type l' = ol_resource_type l
     \<and> ol_resource_name l' = ol_resource_name l \<and> ol_provision_attempts l' = ol_provision_attempts l
     \<and> ol_mode l' = ol_mode l \<and> ol_cost_ceiling l' = ol_cost_ceiling l"
  by (simp add: claim_columns_def)

text \<open>The invariant of a row, from the columns it reads.\<close>

lemma ol_inv_cong:
  assumes "ol_inv a l" "claim_columns l' = claim_columns l" "ol_state l' \<noteq> L_TERMINATED"
    "ol_provider_resource_id l' = ol_provider_resource_id l" "ol_creation_uncertain l' = ol_creation_uncertain l"
    "ol_state l' \<in> {L_REQUESTED, L_FAILED} \<longrightarrow> ol_provision_attempts l = 0"
    "ol_state l' \<in> {L_PROVISIONING, L_RECONCILE_REQUIRED, L_WAITING_FOR_MODEL, L_READY} \<longrightarrow> ol_provision_attempts l = 1"
  shows "ol_inv a l'"
  using assms(1,3-) claim_columnsD [OF assms(2)] unfolding ol_inv_def by simp

lemma ol_inv_attempts:
  assumes "ol_inv a l"
  shows "ol_state l \<in> {L_REQUESTED, L_FAILED} \<Longrightarrow> ol_provision_attempts l = 0"
    "ol_state l \<in> {L_PROVISIONING, L_RECONCILE_REQUIRED, L_WAITING_FOR_MODEL, L_READY} \<Longrightarrow> ol_provision_attempts l = 1"
    "\<not> has_resource l \<Longrightarrow> ol_provider_resource_id l = None"
    "ol_creation_uncertain l = (ol_provision_attempts l = 1 \<and> ol_provider_resource_id l = None)"
  using assms by (auto simp: ol_inv_def has_resource_def)

lemma neutral_good:
  assumes "list_all neutral cs" "ol_state l \<noteq> L_TERMINATED" "ol_inv a l"
  shows "oc_good a l cs"
proof -
  note n = neutral_apply_ocs [OF assms(1)] neutral_plain [OF assms(1)]
  have "ol_inv a (apply_ocs cs l)"
    using assms(2) ol_inv_attempts(1,2) [OF assms(3)] by (intro ol_inv_cong [OF assms(3)]) (simp_all add: n)
  then show ?thesis using assms n by (simp add: oc_good_def Let_def)
qed

lemma teardown_state_good:
  assumes "list_all neutral cs" "ol_state l \<noteq> L_TERMINATED" "ol_inv a l"
  shows "oc_good a l (OC_teardown_state d # cs)"
proof -
  note n = neutral_apply_ocs [OF assms(1), of "l\<lparr>ol_teardown_state := d\<rparr>"] neutral_plain [OF assms(1)]
  have c: "claim_columns (l\<lparr>ol_teardown_state := d\<rparr>) = claim_columns l" by (simp add: claim_columns_def)
  have "ol_inv a (apply_ocs cs (l\<lparr>ol_teardown_state := d\<rparr>))"
    using assms(2) ol_inv_attempts(1,2) [OF assms(3)] by (intro ol_inv_cong [OF assms(3)]) (simp_all add: n c)
  then show ?thesis using assms n c by (simp add: oc_good_def Let_def apply_ocs_simps)
qed

text \<open>A move to a state in which nothing about the resource is claimed anew.\<close>

lemma move_good:
  assumes cs: "list_all neutral cs" and inv: "ol_inv a l"
    and target: "target \<in> {L_RECONCILE_REQUIRED, L_WAITING_FOR_MODEL, L_READY, L_RELEASING}
      \<or> target = L_FAILED \<and> ol_state l = L_REQUESTED"
    and allowed: "target = ol_state l \<or> target \<in> set (allowed_transitions (ol_state l))"
  shows "oc_good a l (OC_state target # cs)" "oc_good a l (OC_state target # OC_teardown_state d # cs)"
proof -
  have live: "ol_state l \<noteq> L_TERMINATED" using target allowed by auto
  have path: "lifecycle (ol_state l) target" using allowed by auto
  have att: "target \<in> {L_REQUESTED, L_FAILED} \<longrightarrow> ol_provision_attempts l = 0"
    "target \<in> {L_PROVISIONING, L_RECONCILE_REQUIRED, L_WAITING_FOR_MODEL, L_READY} \<longrightarrow> ol_provision_attempts l = 1"
    using ol_inv_attempts(1,2) [OF inv] target allowed by (cases "ol_state l"; auto)+
  let ?l = "l\<lparr>ol_state := target\<rparr>" and ?m = "l\<lparr>ol_state := target, ol_teardown_state := d\<rparr>"
  have c: "claim_columns ?l = claim_columns l" "claim_columns ?m = claim_columns l"
    by (simp_all add: claim_columns_def)
  note n = neutral_apply_ocs [OF cs, of ?l] neutral_apply_ocs [OF cs, of ?m] neutral_plain [OF cs] c
  have t: "target \<noteq> L_TERMINATED" using target by auto
  have "ol_inv a (apply_ocs cs ?l)" "ol_inv a (apply_ocs cs ?m)"
    using att t by (intro ol_inv_cong [OF inv]; simp add: n)+
  then show "oc_good a l (OC_state target # cs)" "oc_good a l (OC_state target # OC_teardown_state d # cs)"
    using live path n by (simp_all add: oc_good_def Let_def apply_ocs_simps)
qed

text \<open>The resource of an uncertain create is found.\<close>

lemma found_good:
  assumes "list_all neutral cs" "ol_inv a l" "ol_provider_resource_id l = None" "i \<noteq> []"
    "ol_state l \<in> {L_PROVISIONING, L_RECONCILE_REQUIRED, L_RELEASING}"
    "ol_provision_attempts l = 1" "target = ol_state l \<or> target \<in> set (allowed_transitions (ol_state l))"
    "target \<in> {L_WAITING_FOR_MODEL, L_RELEASING}"
  shows "oc_good a l (OC_state target # OC_provider_resource_id (Some i) # OC_creation_uncertain False # cs)"
proof -
  let ?l = "l\<lparr>ol_state := target, ol_provider_resource_id := Some i, ol_creation_uncertain := False\<rparr>"
  note n = neutral_apply_ocs [OF assms(1), of ?l] neutral_plain [OF assms(1)]
  have c: "claim_columns ?l = claim_columns l" by (simp add: claim_columns_def)
  have "ol_inv a (apply_ocs cs ?l)"
    using assms claim_columnsD [OF n(1)] n unfolding ol_inv_def by auto
  then show ?thesis using assms n c by (auto simp: oc_good_def Let_def apply_ocs_simps)
qed

lemma found_release_good:
  assumes "list_all neutral cs" "ol_inv a l" "ol_provider_resource_id l = None" "i \<noteq> []"
    "ol_state l \<noteq> L_TERMINATED" "ol_provision_attempts l = 1"
  shows "oc_good a l (OC_provider_resource_id (Some i) # OC_creation_uncertain False # OC_teardown_state d # cs)"
proof -
  let ?l = "l\<lparr>ol_provider_resource_id := Some i, ol_creation_uncertain := False, ol_teardown_state := d\<rparr>"
  note n = neutral_apply_ocs [OF assms(1), of ?l] neutral_plain [OF assms(1)]
  have c: "claim_columns ?l = claim_columns l" by (simp add: claim_columns_def)
  have "ol_inv a (apply_ocs cs ?l)"
    using assms claim_columnsD [OF n(1)] n unfolding ol_inv_def by auto
  then show ?thesis using assms n c by (simp add: oc_good_def Let_def apply_ocs_simps)
qed

lemma terminate_good:
  assumes "list_all neutral cs" "ol_inv a l" "\<not> ol_creation_uncertain l"
    "case ol_provider_resource_id l of None \<Rightarrow> True | Some i \<Rightarrow> i \<in> set a"
    "L_TERMINATED = ol_state l \<or> L_TERMINATED \<in> set (allowed_transitions (ol_state l))" "ol_state l \<noteq> L_TERMINATED"
  shows "oc_good a l (OC_state L_TERMINATED # OC_teardown_state D_COMPLETE # cs)"
proof -
  let ?l = "l\<lparr>ol_state := L_TERMINATED, ol_teardown_state := D_COMPLETE\<rparr>"
  note n = neutral_apply_ocs [OF assms(1), of ?l] neutral_plain [OF assms(1)]
  have c: "claim_columns ?l = claim_columns l" by (simp add: claim_columns_def)
  have "ol_inv a (apply_ocs cs ?l)"
    using assms(2-4) claim_columnsD [OF n(1)] n unfolding ol_inv_def by auto
  then show ?thesis using assms n c by (auto simp: oc_good_def Let_def apply_ocs_simps)
qed

lemma claim_good:
  assumes "ol_inv a l" "ol_state l = L_REQUESTED"
  shows "oc_good a l (OC_state L_PROVISIONING # claim_changes E l q p t)"
proof -
  have "ol_provision_attempts l = 0" "ol_provider_resource_id l = None" "ol_provider_resource_id l \<noteq> Some []"
    using assms by (auto simp: ol_inv_def)
  then show ?thesis
    using assms(2) by (simp add: oc_good_def Let_def apply_ocs_simps claim_changes_def ol_inv_def
        ollama_resource_name_def r_into_rtranclp)
qed

section \<open>Rules\<close>

lemma pass_seq:
  assumes "oks P m (\<lambda>x w. ol_snap (g x) w \<and> R x)" "\<And>x. R x \<Longrightarrow> oks (ol_snap (g x)) (f x) Q"
  shows "oks P (seqM m f) Q"
proof (rule osvc.safe_seq_from [OF assms(1), of "\<lambda>_. True"])
  show "oks (\<lambda>w. True \<and> ol_snap (g x) w \<and> R x) (f x) Q" for x
    by (cases "R x") (auto intro: safe_pre [OF assms(2)])
qed simp_all

lemmas next_seq = pass_seq [where g = id, unfolded id_def]

lemma keep_seq:
  assumes "oks P m (\<lambda>x w. R x)" "osvc.stable P" "\<And>x. R x \<Longrightarrow> oks P (f x) Q"
  shows "oks P (seqM m f) Q"
proof (rule osvc.safe_seq [OF assms(1,2)])
  show "oks (\<lambda>w. P w \<and> R x) (f x) Q" for x
    by (cases "R x") (auto intro: safe_pre [OF assms(3)])
qed

lemma keep_catch:
  assumes m: "oks P m (\<lambda>x w. R x)" and st: "osvc.stable P"
    and h: "\<And>e. oks P (h e) Q" and f: "\<And>x. R x \<Longrightarrow> oks P (f x) Q"
  shows "oks P (catch_manager m h f) Q"
  unfolding catch_manager_def
proof (rule osvc.safe_try_else [OF m st])
  show "oks P (if is_manager_error e then h e else raiseM e) Q" for e
    by (simp add: h osvc.safe_raise)
  show "oks (\<lambda>w. P w \<and> R x) (f x) Q" for x
    by (cases "R x") (auto intro: safe_pre [OF f])
qed

lemma outside_ok: "oks P (outside f) (\<lambda>x w. \<exists>n. f n = Inr x)"
  by (auto simp: safe_def outside_def ollama_inv_def ollama_guar_def)

lemma outside_snap: "oks (ol_snap l) (outside f) (\<lambda>x w. ol_snap l w \<and> (\<exists>n. f n = Inr x))"
  by (auto simp: safe_def outside_def ollama_inv_def ollama_guar_def ol_snap_def)

lemma ollama_now_ok: "oks P (ollama_now E) (\<lambda>t w. True)"
  unfolding ollama_now_def by (rule safe_post [OF outside_ok]) simp

lemma lift_ok: "oks P (liftM r) (\<lambda>x w. r = Inr x)"
  by (rule osvc.safe_lift)

lemma effect_ok:
  assumes "\<And>q p n. eff \<noteq> Eff_provision q p n"
  shows "oks P (effect_call eff f) (\<lambda>x w. \<exists>n. f n = Inr x)"
proof -
  have "created [eff] = []" "create_claimed t eff" for t
    using assms by (cases eff; simp add: created_def create_claimed_def)+
  then show ?thesis
    by (auto simp: safe_def effect_call_def ollama_inv_def ollama_guar_def created_def)
qed

lemma ret_ok: "(\<And>w. P w \<Longrightarrow> Q x w) \<Longrightarrow> oks P (ret x) Q"
  by (rule osvc.safe_ret)

lemma joined_ok:
  assumes "oks P m (\<lambda>x w. ol_snap (g x) w)"
  shows "oks P (joined_effect E m) (\<lambda>x w. ol_snap (g x) w)"
  unfolding joined_effect_def
proof (rule pass_seq [of P m g "\<lambda>_. True"])
  show "oks P m (\<lambda>x w. ol_snap (g x) w \<and> True)" using assms by simp
  show "oks (ol_snap (g x)) (outside (\<lambda>n. if ue_cancelled E n then Inl CancelledError else Inr x))
      (\<lambda>x w. ol_snap (g x) w)" for x
    by (rule safe_post [OF outside_snap]) (auto split: if_splits)
qed

text \<open>Updates of a lease that was read.\<close>

lemma ollama_cas_snap:
  assumes "ollama_rely E" "\<And>a. ol_inv a l \<Longrightarrow> oc_good a l cs"
  shows "oks (ol_snap l) (ollama_cas E l cs) (\<lambda>l' w. ol_snap l' w \<and> oc_done l cs l')"
  by (rule safe_post [OF ollama_cas_ok [OF assms(1)]]) (use assms(2) in \<open>auto simp: ol_snap_def\<close>)

lemma move_snap:
  assumes "ollama_rely E" "\<And>a. ol_inv a l \<Longrightarrow> target = ol_state l \<or> target \<in> set (allowed_transitions (ol_state l))
    \<Longrightarrow> oc_good a l (OC_state target # cs)"
  shows "oks (ol_snap l) (ollama_transition E l target cs)
    (\<lambda>l' w. ol_snap l' w \<and> oc_done l (OC_state target # cs) l')"
proof (cases "target = ol_state l \<or> target \<in> set (allowed_transitions (ol_state l))")
  case True
  then have "\<not> (target \<noteq> ol_state l \<and> target \<notin> set (allowed_transitions (ol_state l)))" by blast
  then show ?thesis unfolding ollama_transition_def
    using ollama_cas_snap [OF assms(1) assms(2) [OF _ True]] by (simp only: if_False)
next
  case False
  then show ?thesis unfolding ollama_transition_def by (simp add: osvc.safe_raise)
qed

lemma snap_only: "oks P m (\<lambda>l' w. ol_snap l' w \<and> R l') \<Longrightarrow> oks P m ol_snap"
  by (erule safe_post) simp

lemma oc_doneD:
  assumes "oc_done l cs l'"
  shows "ol_state l' = ol_state (apply_ocs cs l)"
    "ol_provider_resource_id l' = ol_provider_resource_id (apply_ocs cs l)"
    "ol_creation_uncertain l' = ol_creation_uncertain (apply_ocs cs l)"
    "claim_columns l' = claim_columns (apply_ocs cs l)" "ol_identity l' = ol_identity l"
proof -
  from assms obtain t where "no_route l' = no_route ((apply_ocs cs l)\<lparr>ol_updated_at := t, ol_revision := ol_revision l + 1\<rparr>)"
    by (auto simp: oc_done_def)
  from no_route_fields [OF this] show "ol_state l' = ol_state (apply_ocs cs l)"
    "ol_provider_resource_id l' = ol_provider_resource_id (apply_ocs cs l)"
    "ol_creation_uncertain l' = ol_creation_uncertain (apply_ocs cs l)"
    "claim_columns l' = claim_columns (apply_ocs cs l)" "ol_identity l' = ol_identity l"
    by simp_all
qed

lemma neutral_done:
  "oc_done l cs l' \<Longrightarrow> list_all neutral cs \<Longrightarrow> ol_state l' = ol_state l
     \<and> ol_provider_resource_id l' = ol_provider_resource_id l
     \<and> ol_creation_uncertain l' = ol_creation_uncertain l \<and> claim_columns l' = claim_columns l"
  by (simp add: oc_doneD neutral_apply_ocs)

lemma cas_neutral:
  assumes "ollama_rely E" "list_all neutral cs" "ol_state l \<noteq> L_TERMINATED"
  shows "oks (ol_snap l) (ollama_cas E l cs) (\<lambda>l' w. ol_snap l' w \<and> oc_done l cs l')"
  by (rule ollama_cas_snap [OF assms(1) neutral_good [OF assms(2,3)]])

lemma get_row_ok:
  assumes "ollama_rely E"
  shows "oks P (ollama_get_row E k) (\<lambda>found w. case found of None \<Rightarrow> True | Some l \<Rightarrow> ol_snap l w \<and> ol_lease_id l = k)"
proof (rule safeI)
  fix w r w'
  assume w: "ollama_inv w" and run: "ollama_get_row E k w = (r, w')"
  note b = ollama_transaction_ok [OF assms w]
  from run have w': "w' = ollama_transaction E w"
    by (auto simp: ollama_get_row_def Let_def split: option.splits sum.splits)
  have "ol_snap l w' \<and> ol_lease_id l = k" if "r = Inr (Some l)" for l
  proof -
    from run that have "lease_row (uw_table w') k = Some l"
      unfolding w' by (auto simp: ollama_get_row_def Let_def ollama_from_row_def split: option.splits sum.splits if_splits)
    with ol_table_inv_row [of "uw_absent w'" "uw_table w'" k l] b w' show ?thesis
      by (auto simp: ol_snap_def ollama_inv_def)
  qed
  then show "ollama_inv w' \<and> ollama_guar w w'
      \<and> (\<forall>x. r = Inr x \<longrightarrow> (case x of None \<Rightarrow> True | Some l \<Rightarrow> ol_snap l w' \<and> ol_lease_id l = k))"
    using b w' by (auto split: option.splits)
qed

lemma found_seq:
  assumes "ollama_rely E" "oks (\<lambda>_. True) (f None) Q"
    "\<And>l. ol_lease_id l = k \<Longrightarrow> oks (ol_snap l) (f (Some l)) Q"
  shows "oks P (seqM (ollama_get_row E k) f) Q"
proof (rule osvc.safe_seq_from [OF get_row_ok [OF assms(1)], of "\<lambda>_. True"])
  show "oks (\<lambda>w. True \<and> (case x of None \<Rightarrow> True | Some l \<Rightarrow> ol_snap l w \<and> ol_lease_id l = k)) (f x) Q" for x
  proof (cases x)
    case (Some l)
    then show ?thesis by (cases "ol_lease_id l = k") (auto intro: safe_pre [OF assms(3)])
  qed (auto intro: safe_pre [OF assms(2)])
qed simp_all

lemma required_seq:
  assumes "ollama_rely E" "\<And>l. ol_lease_id l = k \<Longrightarrow> oks (ol_snap l) (f l) Q"
  shows "oks P (seqM (ollama_required E k) f) Q"
  unfolding ollama_required_def seqM_assoc
  by (rule found_seq [OF assms(1)]) (auto intro: osvc.safe_raise assms(2))

lemma ollama_required_ok: "ollama_rely E \<Longrightarrow> oks P (ollama_required E k) ol_snap"
  unfolding ollama_required_def
  by (rule found_seq) (auto intro: osvc.safe_raise ret_ok)

section \<open>Release\<close>

lemmas neutral_simps = error_of_def prefixed_error_def reason_of_def

lemma teardown_call_ok:
  "oks (ol_snap l) (teardown_call E resource)
     (\<lambda>x w. ol_snap l w \<and> ow_provider_resource_id resource \<in> set (uw_absent w))"
  unfolding teardown_call_def
proof (rule osvc.safe_seq [OF effect_ok])
  show "oks (\<lambda>w. ol_snap l w \<and> (\<exists>n. up_teardown (ue_provider E) n resource = Inr x))
     (\<lambda>w. (Inr (), w\<lparr>uw_absent := ow_provider_resource_id resource # uw_absent w\<rparr>))
     (\<lambda>x w. ol_snap l w \<and> ow_provider_resource_id resource \<in> set (uw_absent w))" for x :: unit
  proof (rule safeI)
    fix w r w'
    assume w: "ollama_inv w" "ol_snap l w \<and> (\<exists>n. up_teardown (ue_provider E) n resource = Inr x)"
      and run: "(Inr (), w\<lparr>uw_absent := ow_provider_resource_id resource # uw_absent w\<rparr>) = (r, w')"
    let ?a = "ow_provider_resource_id resource # uw_absent w"
    have t: "ol_table_inv ?a (uw_table w)"
      using w(1) unfolding ollama_inv_def ol_table_inv_def by (auto intro: ol_inv_mono)
    note c = ollama_commit [OF w(1) ol_table_evolves_refl t, of "uw_tick w"]
    have "w' = w\<lparr>uw_table := uw_table w, uw_absent := ?a, uw_tick := uw_tick w\<rparr>"
      using run by (cases w) auto
    with c have "ollama_inv w' \<and> ollama_guar w w'" by auto
    moreover from this w(2) have "ol_snap l w'" using ol_snap_guar by blast
    moreover have "ow_provider_resource_id resource \<in> set (uw_absent w')" using run by auto
    ultimately show "ollama_inv w' \<and> ollama_guar w w'
        \<and> (\<forall>x. r = Inr x \<longrightarrow> ol_snap l w' \<and> ow_provider_resource_id resource \<in> set (uw_absent w'))"
      by blast
  qed
qed simp_all

lemma teardown_effect_ok:
  assumes rely: "ollama_rely E" and live: "ol_state l \<noteq> L_TERMINATED"
  shows "oks (ol_snap l) (teardown_effect E l reason) ol_snap"
  unfolding teardown_effect_def catch_manager_def
proof (rule osvc.safe_try_else [where R = "\<lambda>_ w. \<exists>i. ol_provider_resource_id l = Some i \<and> i \<in> set (uw_absent w)"])
  show "oks (ol_snap l) (seqM (liftM (resource_from_lease l)) (teardown_call E))
      (\<lambda>_ w. \<exists>i. ol_provider_resource_id l = Some i \<and> i \<in> set (uw_absent w))"
  proof (rule keep_seq [OF lift_ok stable_ol_snap])
    show "oks (ol_snap l) (teardown_call E x)
        (\<lambda>_ w. \<exists>i. ol_provider_resource_id l = Some i \<and> i \<in> set (uw_absent w))"
      if "resource_from_lease l = Inr x" for x
      by (rule safe_post [OF teardown_call_ok])
        (use that in \<open>auto simp: resource_from_lease_def split: option.splits if_splits\<close>)
  qed
  show "oks (ol_snap l) (if is_manager_error e then seqM (ollama_now E) (\<lambda>t.
      seqM (ollama_cas E l [OC_teardown_state D_RETRYABLE_FAILURE, prefixed_error E reason e,
        OC_accrued_estimated_cost (accrued_cost l t)]) (\<lambda>_. raiseM OllamaLeaseTeardownError)) else raiseM e) ol_snap" for e
  proof (intro osvc.safe_if osvc.safe_raise keep_seq [OF ollama_now_ok stable_ol_snap])
    show "oks (ol_snap l) (seqM (ollama_cas E l [OC_teardown_state D_RETRYABLE_FAILURE, prefixed_error E reason e,
        OC_accrued_estimated_cost (accrued_cost l t)]) (\<lambda>_. raiseM OllamaLeaseTeardownError)) ol_snap" for t
      by (rule pass_seq [where g = id and R = "\<lambda>_. True"])
        (auto intro!: safe_post [OF ollama_cas_snap [OF rely teardown_state_good]] osvc.safe_raise
          simp: live neutral_simps)
  qed
  let ?cs = "\<lambda>t. [OC_teardown_state D_COMPLETE, OC_last_provider_error None,
     OC_accrued_estimated_cost (accrued_cost l t), reason_of l reason]"
  have finish: "oks (\<lambda>w. ol_snap l w \<and> (\<exists>i. ol_provider_resource_id l = Some i \<and> i \<in> set (uw_absent w)))
      (ollama_transition E l L_TERMINATED (?cs t)) ol_snap" for t
  proof -
    have good: "ollama_inv w \<Longrightarrow> ol_snap l w \<and> (\<exists>i. ol_provider_resource_id l = Some i \<and> i \<in> set (uw_absent w))
        \<Longrightarrow> L_TERMINATED \<in> set (allowed_transitions (ol_state l))
        \<Longrightarrow> ol_snap l w \<and> oc_good (uw_absent w) l (OC_state L_TERMINATED # ?cs t)" for w
      using live ol_inv_attempts(4) [of "uw_absent w" l]
      by (auto simp: ol_snap_def neutral_simps intro!: terminate_good)
    show ?thesis
      unfolding ollama_transition_def
      using live by (auto intro!: osvc.safe_raise safe_post [OF ollama_cas_ok [OF rely good]])
  qed
  show "oks (\<lambda>w. ol_snap l w \<and> (\<exists>i. ol_provider_resource_id l = Some i \<and> i \<in> set (uw_absent w)))
      (seqM (ollama_now E) (\<lambda>t. ollama_transition E l L_TERMINATED (?cs t))) ol_snap" for x
  proof (rule keep_seq [OF ollama_now_ok])
    show "osvc.stable (\<lambda>w. ol_snap l w \<and> (\<exists>i. ol_provider_resource_id l = Some i \<and> i \<in> set (uw_absent w)))"
      unfolding osvc.stable_def using ol_snap_guar by (fastforce simp: ollama_guar_def)
  qed (rule finish)
qed simp

lemma teardown_lease_ok:
  assumes "ollama_rely E" "ol_state l \<noteq> L_TERMINATED"
  shows "oks (ol_snap l) (teardown_lease E l reason) ol_snap"
  unfolding teardown_lease_def
proof (rule next_seq)
  show "oks (ol_snap l) (ollama_cas E l [OC_teardown_attempts (ol_teardown_attempts l + 1)])
      (\<lambda>l' w. ol_snap l' w \<and> oc_done l [OC_teardown_attempts (ol_teardown_attempts l + 1)] l')"
    by (rule cas_neutral [OF assms(1) _ assms(2)]) simp
  show "oks (ol_snap l') (joined_effect E (teardown_effect E l' reason)) ol_snap"
    if "oc_done l [OC_teardown_attempts (ol_teardown_attempts l + 1)] l'" for l'
    using neutral_done [OF that] assms
    by (intro joined_ok [where g = id, unfolded id_def] teardown_effect_ok) simp_all
qed

lemma terminate_lease_ok:
  assumes "ollama_rely E" "ol_state l \<noteq> L_TERMINATED" "\<not> has_resource l" "\<not> ol_creation_uncertain l"
  shows "oks (ol_snap l) (terminate_lease E l reason) ol_snap"
  unfolding terminate_lease_def
  by (rule snap_only [OF move_snap [OF assms(1) terminate_good]])
    (use assms ol_inv_attempts(3) in \<open>auto simp: neutral_simps\<close>)

lemma resolve_uncertain_ok:
  assumes rely: "ollama_rely E" and live: "ol_state l \<noteq> L_TERMINATED"
    and unknown: "\<not> has_resource l" and uncertain: "ol_creation_uncertain l"
  shows "oks (ol_snap l) (resolve_uncertain_release E l reason)
    (\<lambda>l' w. ol_snap l' w \<and> ol_state l' = ol_state l)"
proof -
  have retry: "oks (ol_snap l) (ollama_cas E l (OC_teardown_state D_RETRYABLE_FAILURE # cs))
      (\<lambda>l' w. ol_snap l' w \<and> ol_state l' = ol_state l)" if "list_all neutral cs" for cs
    by (rule safe_post [OF ollama_cas_snap [OF rely teardown_state_good [OF that live]]])
      (auto dest!: oc_doneD(1) simp: apply_ocs_simps neutral_apply_ocs [OF that])
  have found: "oks (ol_snap l) (case found of
        Some resource \<Rightarrow> ollama_cas E l
          [OC_provider_resource_id (Some (ow_provider_resource_id resource)), OC_creation_uncertain False,
           OC_teardown_state D_PENDING, OC_last_provider_error None]
      | None \<Rightarrow> ollama_cas E l [OC_teardown_state D_RETRYABLE_FAILURE,
           OC_last_provider_error (Some (reason @ '': awaiting ambiguous creation reconciliation''))])
      (\<lambda>l' w. ol_snap l' w \<and> ol_state l' = ol_state l)"
    if "\<exists>n. up_find (ue_provider E) n rtype rname = Inr found" for found rtype rname
  proof (cases found)
    case (Some resource)
    with that rely have i: "ow_provider_resource_id resource \<noteq> []" by (auto simp: ollama_rely_def)
    let ?cs = "[OC_provider_resource_id (Some (ow_provider_resource_id resource)), OC_creation_uncertain False,
           OC_teardown_state D_PENDING, OC_last_provider_error None]"
    have "oc_good a l ?cs" if "ol_inv a l" for a
      using ol_inv_attempts(3,4) [OF that] unknown uncertain live i that
      by (intro found_release_good) simp_all
    then show ?thesis unfolding Some option.case
      by (intro safe_post [OF ollama_cas_snap [OF rely]]) (auto dest!: oc_doneD(1) simp: apply_ocs_simps)
  qed (simp add: retry)
  show ?thesis
    unfolding resolve_uncertain_release_def
    by (cases "ol_resource_type l"; cases "ol_resource_name l")
      (simp_all add: retry keep_catch [OF outside_ok stable_ol_snap retry found] prefixed_error_def)
qed

lemma release_in_progress_ok:
  assumes rely: "ollama_rely E" and live: "ol_state l \<noteq> L_TERMINATED"
  shows "oks (ol_snap l) (release_in_progress E l reason) ol_snap"
  unfolding release_in_progress_def
proof (intro osvc.safe_if teardown_lease_ok terminate_lease_ok rely live)
  assume "\<not> has_resource l" "ol_creation_uncertain l"
  note found = resolve_uncertain_ok [OF rely live this]
  show "oks (ol_snap l) (seqM (resolve_uncertain_release E l reason) (\<lambda>l.
      if ol_creation_uncertain l then raiseM OllamaLeaseTeardownError
      else if \<not> has_resource l then terminate_lease E l reason else teardown_lease E l reason)) ol_snap"
  proof (rule next_seq [OF found])
    show "oks (ol_snap l') (if ol_creation_uncertain l' then raiseM OllamaLeaseTeardownError
        else if \<not> has_resource l' then terminate_lease E l' reason else teardown_lease E l' reason) ol_snap"
      if "ol_state l' = ol_state l" for l'
      using live that by (intro osvc.safe_if osvc.safe_raise teardown_lease_ok terminate_lease_ok rely) simp_all
  qed
qed

lemma release_lease_ok:
  assumes rely: "ollama_rely E"
  shows "oks (ol_snap l) (release_lease E l reason) ol_snap"
  unfolding release_lease_def
proof (intro osvc.safe_if ret_ok keep_seq [OF ollama_now_ok stable_ol_snap])
  fix t
  assume live: "ol_state l \<noteq> L_TERMINATED"
  show "oks (ol_snap l) (ollama_transition E l L_TERMINATED
      [OC_teardown_state D_COMPLETE, OC_accrued_estimated_cost (accrued_cost l t), OC_last_provider_error None,
       reason_of l reason]) ol_snap"
    if "ol_state l = L_REQUESTED \<and> \<not> has_resource l"
    by (rule snap_only [OF move_snap [OF rely terminate_good]])
      (use that live ol_inv_attempts(1,3,4) in \<open>auto simp: neutral_simps\<close>)
  let ?cs = "[OC_teardown_state D_PENDING, OC_route_url None, OC_accrued_estimated_cost (accrued_cost l t),
      OC_last_provider_error None, reason_of l reason]"
  show "oks (ol_snap l) (seqM (ollama_transition E l L_RELEASING ?cs) (\<lambda>l. release_in_progress E l reason)) ol_snap"
  proof (rule next_seq)
    show "oks (ol_snap l) (ollama_transition E l L_RELEASING ?cs)
        (\<lambda>l' w. ol_snap l' w \<and> oc_done l (OC_state L_RELEASING # ?cs) l')"
      by (rule move_snap [OF rely move_good(2)]) (auto simp: neutral_simps)
    show "oks (ol_snap l') (release_in_progress E l' reason) ol_snap"
      if "oc_done l (OC_state L_RELEASING # ?cs) l'" for l'
      by (rule release_in_progress_ok [OF rely])
        (use oc_doneD(1) [OF that] in \<open>simp add: apply_ocs_simps neutral_simps\<close>)
  qed
  show "oks (ol_snap l) (release_in_progress E l reason) ol_snap"
    using live by (rule release_in_progress_ok [OF rely])
qed

section \<open>Readiness\<close>

lemma with_route_ok: "oks (ol_snap l) (ret (with_route ob l)) ol_snap"
  by (rule ret_ok) (simp only: ol_snap_no_route [OF no_route_with_route])

lemma become_ready_ok:
  assumes "ollama_rely E"
  shows "oks (ol_snap l) (become_ready E l ob t) ol_snap"
  unfolding become_ready_def Let_def
  by (rule next_seq [OF move_snap [OF assms move_good(1)] with_route_ok]) auto

lemma start_pull_ok:
  assumes rely: "ollama_rely E" and live: "ol_state l \<noteq> L_TERMINATED"
  shows "oks (ol_snap l) (start_pull E l resource url t) ol_snap"
  unfolding start_pull_def
proof (rule next_seq)
  let ?cs = "[OC_model_pull_started_at (Some (case ol_model_pull_started_at l of None \<Rightarrow> t | Some s \<Rightarrow> s)),
        OC_model_pull_attempts (ol_model_pull_attempts l + 1), OC_last_provider_error None]"
  show "oks (ol_snap l) (ollama_cas E l ?cs) (\<lambda>l' w. ol_snap l' w \<and> oc_done l ?cs l')"
    by (rule cas_neutral [OF rely _ live]) simp
  show "oks (ol_snap l') (catch_manager
       (effect_call (Eff_pull resource (ol_model l')) (\<lambda>n. up_pull (ue_provider E) n resource url (ol_model l')))
       (\<lambda>e. ollama_cas E l' [error_of E e]) (\<lambda>_. ret l')) ol_snap" if "oc_done l ?cs l'" for l'
  proof (rule keep_catch [OF effect_ok stable_ol_snap])
    show "oks (ol_snap l') (ollama_cas E l' [error_of E e]) ol_snap" for e
      by (rule snap_only [OF cas_neutral [OF rely]]) (use neutral_done [OF that] live in \<open>simp_all add: error_of_def\<close>)
  qed (auto intro: ret_ok)
qed

lemma check_readiness_ok:
  assumes rely: "ollama_rely E" and live: "ol_state l \<noteq> L_TERMINATED"
  shows "oks (ol_snap l) (check_readiness_once E l) ol_snap"
  unfolding check_readiness_once_def Let_def
proof (intro keep_seq [OF lift_ok stable_ol_snap] keep_seq [OF ollama_now_ok stable_ol_snap]
    keep_catch [OF outside_ok stable_ol_snap])
  show "oks (ol_snap l) (ollama_cas E l [error_of E e, OC_accrued_estimated_cost (accrued_cost l t)]) ol_snap" for e t
    by (rule snap_only [OF cas_neutral [OF rely _ live]]) (simp add: error_of_def)
  fix resource t ob
  let ?cs = "[OC_accrued_estimated_cost (accrued_cost l t)]"
  show "oks (ol_snap l) (seqM (ollama_cas E l ?cs) (\<lambda>l.
          if past_hard_or_cost l t then release_lease E l ''deadline_or_cost_cap''
          else if \<not> oo_provider_ready ob \<or> \<not> truthy_text (oo_route_url ob) then ret l
          else if \<not> has_model ob (ol_model l)
          then start_pull E l resource (case oo_route_url ob of None \<Rightarrow> [] | Some u \<Rightarrow> u) t
          else become_ready E l ob t)) ol_snap"
  proof (rule next_seq)
    show "oks (ol_snap l) (ollama_cas E l ?cs) (\<lambda>l' w. ol_snap l' w \<and> oc_done l ?cs l')"
      by (rule cas_neutral [OF rely _ live]) simp
    show "oks (ol_snap l') (if past_hard_or_cost l' t then release_lease E l' ''deadline_or_cost_cap''
          else if \<not> oo_provider_ready ob \<or> \<not> truthy_text (oo_route_url ob) then ret l'
          else if \<not> has_model ob (ol_model l')
          then start_pull E l' resource (case oo_route_url ob of None \<Rightarrow> [] | Some u \<Rightarrow> u) t
          else become_ready E l' ob t) ol_snap" if "oc_done l ?cs l'" for l'
      using neutral_done [OF that] live
      by (intro osvc.safe_if release_lease_ok start_pull_ok become_ready_ok ret_ok rely) simp_all
  qed
qed

lemma ready_with_route_ok:
  assumes rely: "ollama_rely E" and live: "ol_state l \<noteq> L_TERMINATED"
  shows "oks (ol_snap l) (ready_with_route E l) ol_snap"
proof -
  have note_error: "oks (ol_snap l) (seqM (ollama_cas E l cs) (\<lambda>_. raiseM e)) ol_snap" if "list_all neutral cs" for cs e
    by (rule next_seq [OF cas_neutral [OF rely that live]]) (rule osvc.safe_raise)
  have durable: "oks (ol_snap l) (seqM (ollama_cas E l cs) (\<lambda>d. ret (with_route ob d))) ol_snap"
    if "list_all neutral cs" for cs ob
    by (rule next_seq [OF cas_neutral [OF rely that live] with_route_ok])
  show ?thesis
    unfolding ready_with_route_def Let_def
  proof (intro keep_seq [OF ollama_now_ok stable_ol_snap] osvc.safe_if release_lease_ok rely)
    fix t
    have observe: "oks (ol_snap l) (seqM (liftM (resource_from_lease l)) (\<lambda>resource.
        outside (\<lambda>n. up_observe (ue_provider E) n resource))) (\<lambda>_ _. True)"
      by (rule keep_seq [OF lift_ok stable_ol_snap]) (rule safe_post [OF outside_ok], simp)
    show "oks (ol_snap l) (catch_manager
       (seqM (liftM (resource_from_lease l)) (\<lambda>resource.
          outside (\<lambda>n. up_observe (ue_provider E) n resource)))
       (\<lambda>e. seqM (ollama_cas E l [error_of E e, OC_accrued_estimated_cost (accrued_cost l t)])
          (\<lambda>_. raiseM OllamaLeaseReadinessError))
       (\<lambda>ob. if \<not> oo_provider_ready ob \<or> \<not> truthy_text (oo_route_url ob) \<or> \<not> has_model ob (ol_model l)
          then seqM (ollama_cas E l [OC_last_provider_error
              (Some ''ready route did not pass exact-model readiness''),
              OC_accrued_estimated_cost (accrued_cost l t)]) (\<lambda>_. raiseM OllamaLeaseReadinessError)
          else seqM (ollama_cas E l [OC_accrued_estimated_cost (accrued_cost l t), OC_last_provider_error None])
            (\<lambda>durable. ret (with_route ob durable)))) ol_snap"
      by (intro keep_catch [OF observe stable_ol_snap] osvc.safe_if note_error durable) (simp_all add: error_of_def)
  qed
qed

lemma wait_until_ready_ok: "ollama_rely E \<Longrightarrow> oks (ol_snap l) (wait_until_ready n E l) ol_snap"
proof (induction n arbitrary: l)
  case (Suc n)
  have timeout: "oks (ol_snap l') (seqM (tryM (seqM (release_lease E l' ''readiness_timeout'') (\<lambda>_. ret ()))
      (\<lambda>e. if e = OllamaLeaseTeardownError then ret () else raiseM e)) (\<lambda>_. raiseM OllamaLeaseReadinessError))
      ol_snap" for l'
  proof (rule keep_seq [where R = "\<lambda>_. True", OF osvc.safe_try stable_ol_snap])
    show "oks (ol_snap l') (seqM (release_lease E l' ''readiness_timeout'') (\<lambda>_. ret ())) (\<lambda>_ _. True)"
      by (rule keep_seq [where R = "\<lambda>_. True", OF safe_post [OF release_lease_ok [OF Suc.prems]] stable_ol_snap])
        (auto intro: ret_ok)
  qed (auto intro: ret_ok osvc.safe_raise osvc.safe_if)
  show ?case
    unfolding wait_until_ready.simps
  proof (rule osvc.safe_if)
    assume "\<not> ol_state l \<noteq> L_WAITING_FOR_MODEL"
    then have live: "ol_state l \<noteq> L_TERMINATED" by simp
    show "oks (ol_snap l) (seqM (check_readiness_once E l) (\<lambda>lease.
        if ol_state lease = L_READY then ret lease
        else seqM (ollama_now E) (\<lambda>t.
          if ol_state lease = L_WAITING_FOR_MODEL \<and> past_hard_or_cost lease t
          then release_lease E lease ''deadline_or_cost_cap''
          else if usec (ol_readiness_deadline lease) \<le> usec t
          then seqM (tryM (seqM (release_lease E lease ''readiness_timeout'') (\<lambda>_. ret ()))
              (\<lambda>e. if e = OllamaLeaseTeardownError then ret () else raiseM e)) (\<lambda>_.
            raiseM OllamaLeaseReadinessError)
          else seqM (outside (ue_sleep E)) (\<lambda>_. wait_until_ready n E lease)))) ol_snap"
      by (rule next_seq [where R = "\<lambda>_. True",
            OF safe_post [OF check_readiness_ok [OF Suc.prems live]]])
        (intro TrueI conjI osvc.safe_if ret_ok keep_seq [OF ollama_now_ok stable_ol_snap] release_lease_ok Suc
          timeout keep_seq [OF outside_ok stable_ol_snap] | assumption)+
  qed (auto intro: ret_ok)
qed (simp add: osvc.safe_raise)

end
