(* ===== verification/Ollama_Properties.thy ===== *)
theory Ollama_Properties
  imports Ollama_Guarantee
begin

text \<open>
  Provisioning, the public operations of the Ollama lease service, arbitrary sequences of them and what holds
  of every lease row, and of every create that was sent, at the end.
\<close>

section \<open>Provisioning\<close>

lemma lease_row_append:
  "lease_row (t @ [r]) k = (case lease_row t k of
     Some x \<Rightarrow> Some x | None \<Rightarrow> if ol_lease_id r = k then Some r else None)"
  unfolding lease_row_def by (induction t) auto

lemma append_ok:
  assumes w: "ollama_inv w" and none: "lease_row (uw_table w) (ol_lease_id r) = None"
    and inv: "ol_inv (uw_absent w) r"
  shows "ollama_inv (w\<lparr>uw_table := uw_table w @ [r]\<rparr>) \<and> ollama_guar w (w\<lparr>uw_table := uw_table w @ [r]\<rparr>)
    \<and> ol_snap r (w\<lparr>uw_table := uw_table w @ [r]\<rparr>)"
proof -
  let ?t = "uw_table w @ [r]"
  note row = lease_row_append [of "uw_table w" r]
  have "ol_lease_id r \<notin> ol_lease_id ` set (uw_table w)"
    using none unfolding lease_row_def find_None_iff by auto
  then have "ol_table_inv (uw_absent w) ?t"
    using w inv by (auto simp: ollama_inv_def ol_table_inv_def)
  moreover have "ol_table_evolves (uw_table w) ?t" by (auto simp: ol_table_evolves_def row)
  ultimately show ?thesis
    using ollama_commit [OF w, of ?t "uw_absent w" "uw_tick w"] inv none by (simp add: ol_snap_def row)
qed

lemma ollama_new_row_inv: "ol_inv a (ollama_new_row E q t)"
  by (simp add: ollama_new_row_def Let_def ol_inv_def)

lemma new_row_key [simp]: "ol_lease_id (ollama_new_row E q t) = oq_lease_id q"
  "ol_owner_id (ollama_new_row E q t) = oq_owner_id q" "ol_workload_id (ollama_new_row E q t) = oq_workload_id q"
  by (simp_all add: ollama_new_row_def Let_def)

definition owned_by :: "OllamaLeaseRequest \<Rightarrow> OllamaLease \<Rightarrow> bool" where
  "owned_by q l \<longleftrightarrow> ol_lease_id l = oq_lease_id q \<and> ol_owner_id l = oq_owner_id q
     \<and> ol_workload_id l = oq_workload_id q"

lemma insert_request_ok:
  assumes rely: "ollama_rely E"
  shows "oks P (insert_request E q t) (\<lambda>x w. ol_snap (fst x) w \<and> ol_lease_id (fst x) = oq_lease_id q
    \<and> (snd x \<longrightarrow> owned_by q (fst x)))"
proof (rule safeI)
  fix w res w'
  assume w: "ollama_inv w" and run: "insert_request E q t w = (res, w')"
  let ?w = "ollama_transaction E w"
  note b = ollama_transaction_ok [OF rely w]
  show "ollama_inv w' \<and> ollama_guar w w' \<and> (\<forall>x. res = Inr x \<longrightarrow>
      ol_snap (fst x) w' \<and> ol_lease_id (fst x) = oq_lease_id q \<and> (snd x \<longrightarrow> owned_by q (fst x)))"
  proof (cases "lease_row (uw_table ?w) (oq_lease_id q)")
    case None
    let ?r = "ollama_new_row E q t"
    note a = append_ok [of ?w ?r, simplified, OF b [THEN conjunct1] None ollama_new_row_inv]
    from run None have "w' = ?w\<lparr>uw_table := uw_table ?w @ [?r]\<rparr>" "\<And>x. res = Inr x \<Longrightarrow> x = (?r, True)"
      by (auto simp: insert_request_def Let_def ollama_from_row_def split: if_splits)
    with a b osvc.G_trans show ?thesis by (fastforce simp: owned_by_def)
  next
    case (Some r)
    with run have "w' = ?w" "\<And>x. res = Inr x \<Longrightarrow> x = (r, False)"
      by (auto simp: insert_request_def Let_def ollama_from_row_def split: if_splits)
    moreover have "ol_snap r ?w" "ol_lease_id r = oq_lease_id q"
      using ol_table_inv_row [OF _ Some] b Some by (auto simp: ol_snap_def ollama_inv_def)
    ultimately show ?thesis using b by auto
  qed
qed

text \<open>The claim of a create: the row is REQUESTED before, and no create of the lease was sent.\<close>

lemma claim_ok:
  assumes rely: "ollama_rely E" and state: "ol_state l = L_REQUESTED" and key: "ol_lease_id l = oq_lease_id q"
  shows "oks (ol_snap l) (ollama_transition E l L_PROVISIONING (claim_changes E l q p t))
    (\<lambda>l' w. ol_snap l' w \<and> oc_done l (OC_state L_PROVISIONING # claim_changes E l q p t) l'
      \<and> ol_provision_attempts l = 0 \<and> oq_lease_id q \<notin> set (created (uw_effects w)))"
proof -
  have good: "ollama_inv w \<Longrightarrow> ol_snap l w \<Longrightarrow>
      ol_snap l w \<and> oc_good (uw_absent w) l (OC_state L_PROVISIONING # claim_changes E l q p t)" for w
    using claim_good [OF _ state] by (simp add: ol_snap_def)
  have "oks (ol_snap l) (ollama_cas E l (OC_state L_PROVISIONING # claim_changes E l q p t))
      (\<lambda>l' w. ol_snap l' w \<and> oc_done l (OC_state L_PROVISIONING # claim_changes E l q p t) l'
        \<and> ol_provision_attempts l = 0 \<and> oq_lease_id q \<notin> set (created (uw_effects w)))"
  proof (cases "ol_provision_attempts l = 0")
    case True
    then show ?thesis by (intro safe_post [OF ollama_cas_ok [OF rely good]]) (simp_all add: key)
  next
    case False
    then have "\<not> ol_snap l w" for w
      using ol_inv_attempts(1) state by (auto simp: ol_snap_def)
    then show ?thesis by (simp add: safe_def)
  qed
  then show ?thesis unfolding ollama_transition_def by (simp add: state)
qed

definition claimed_by :: "OllamaLeaseRequest \<Rightarrow> OllamaPlacementPlan \<Rightarrow> string \<Rightarrow> OllamaLease \<Rightarrow> bool" where
  "claimed_by q p n l \<longleftrightarrow> owned_by q l \<and> ol_state l = L_PROVISIONING \<and> ol_provision_attempts l = 1
     \<and> ol_provider_resource_id l = None
     \<and> ol_resource_name l = Some n \<and> ol_resource_type l = Some (op_resource_type p)
     \<and> ol_mode l = Some (op_mode p) \<and> ol_cost_ceiling l = Some (op_cost_ceiling p)"

lemma claimed_row:
  assumes "claimed_by q p n l" "ol_evolves l r" "ol_inv a l"
  shows "ol_provision_attempts r = 1" "ol_owner_id r = oq_owner_id q" "ol_workload_id r = oq_workload_id q"
    "ol_resource_name r = Some n" "ol_resource_type r = Some (op_resource_type p)"
    "ol_mode r = Some (op_mode p)" "ol_cost_ceiling r = Some (op_cost_ceiling p)"
  using claim_identity [OF assms(2) _ assms(3)] assms(1)
  by (auto simp: claimed_by_def owned_by_def claim_columns_def)

lemma created_append: "created (es @ [Eff_provision q p n]) = created es @ [oq_lease_id q]"
  by (simp add: created_def)

lemma provision_call_ok:
  assumes claim: "claimed_by q p n l" and valid: "validate_plan q p = Inr ()"
  shows "oks (\<lambda>w. ol_snap l w \<and> oq_lease_id q \<notin> set (created (uw_effects w)))
    (effect_call (Eff_provision q p n) f) (\<lambda>x w. \<exists>n. f n = Inr x)"
proof (rule safeI)
  fix w r w'
  assume w: "ollama_inv w" "ol_snap l w \<and> oq_lease_id q \<notin> set (created (uw_effects w))"
    and run: "effect_call (Eff_provision q p n) f w = (r, w')"
  from w(2) claim obtain row where row: "lease_row (uw_table w) (oq_lease_id q) = Some row" "ol_evolves l row"
    "ol_inv (uw_absent w) l"
    by (auto simp: ol_snap_def claimed_by_def owned_by_def)
  from claimed_row [OF claim row(2,3)] row(1) valid
  have "create_claimed (uw_table w) (Eff_provision q p n)" by (simp add: create_claimed_def)
  with w run show "ollama_inv w' \<and> ollama_guar w w' \<and> (\<forall>x. r = Inr x \<longrightarrow> (\<exists>n. f n = Inr x))"
    by (auto simp: effect_call_def ollama_inv_def ollama_guar_def created_append)
qed

lemma provision_effect_ok:
  assumes rely: "ollama_rely E" and claim: "claimed_by q p n l" and valid: "validate_plan q p = Inr ()"
  shows "oks (\<lambda>w. ol_snap l w \<and> oq_lease_id q \<notin> set (created (uw_effects w))) (provision_effect E l q p n) ol_snap"
  unfolding provision_effect_def catch_manager_def
proof (rule osvc.safe_try_else_from [OF provision_call_ok [OF claim valid] stable_ol_snap])
  show "oks (ol_snap l) (if is_manager_error e
      then seqM (ollama_transition E l L_RECONCILE_REQUIRED [error_of E e]) (\<lambda>_. raiseM e) else raiseM e) ol_snap" for e
    by (intro osvc.safe_if osvc.safe_raise next_seq [OF move_snap [OF rely move_good(1)]]) (simp_all add: error_of_def)
  fix resource
  show "oks (\<lambda>w. ol_snap l w \<and> (\<exists>k. up_provision (ue_provider E) k q p n = Inr resource))
      (ollama_transition E l L_WAITING_FOR_MODEL
         [OC_provider_resource_id (Some (ow_provider_resource_id resource)), OC_creation_uncertain False,
          OC_last_provider_error None]) ol_snap"
  proof (cases "\<exists>k. up_provision (ue_provider E) k q p n = Inr resource")
    case True
    then have i: "ow_provider_resource_id resource \<noteq> []" using rely by (auto simp: ollama_rely_def)
    have "oks (ol_snap l) (ollama_transition E l L_WAITING_FOR_MODEL
         [OC_provider_resource_id (Some (ow_provider_resource_id resource)), OC_creation_uncertain False,
          OC_last_provider_error None]) ol_snap"
      by (rule snap_only [OF move_snap [OF rely found_good]]) (use claim i in \<open>auto simp: claimed_by_def\<close>)
    then show ?thesis by (rule safe_pre) simp
  qed (simp add: safe_def)
qed simp

lemma claim_done:
  assumes "oc_done l (OC_state L_PROVISIONING # claim_changes E l q p t) l'" "owned_by q l"
    "ol_provision_attempts l = 0" "ol_provider_resource_id l = None"
  shows "claimed_by q p (ollama_resource_name (ue_sha E) (oq_lease_id q)) l'"
proof -
  note d = oc_doneD [OF assms(1)]
  from d(5) have "owned_by q l'" using assms(2) by (simp add: owned_by_def ol_identity_def)
  then show ?thesis
    using d(1,2) d(4) assms(3,4) by (simp add: claimed_by_def claim_columns_def claim_changes_def apply_ocs_simps)
qed

lemma admit_plan_ok:
  "oks P (admit_plan E q plan) (\<lambda>p w. validate_plan q p = Inr ())" if "osvc.stable P"
  unfolding admit_plan_def
proof (rule keep_seq [where R = "\<lambda>_. True", OF _ that])
  show "oks P (case plan of None \<Rightarrow> outside (\<lambda>n. up_plan (ue_provider E) n q) | Some p \<Rightarrow> ret p) (\<lambda>_ _. True)"
    by (cases plan) (auto intro: ret_ok safe_post [OF outside_ok])
  show "oks P (seqM (liftM (validate_plan q p)) (\<lambda>_.
      seqM (outside (\<lambda>n. up_validate (ue_provider E) n (q\<lparr>oq_mode := op_mode p\<rparr>))) (\<lambda>_. ret p)))
      (\<lambda>p w. validate_plan q p = Inr ())" for p
    by (intro keep_seq [OF lift_ok that] keep_seq [OF outside_ok that] ret_ok) (simp add: unit_eq)
qed

lemma provision_requested_ok:
  assumes rely: "ollama_rely E" and owned: "owned_by q l"
  shows "oks (ol_snap l) (provision_requested E l q plan) ol_snap"
  unfolding provision_requested_def Let_def
proof (intro osvc.safe_if osvc.safe_raise keep_catch [OF admit_plan_ok stable_ol_snap] stable_ol_snap
    keep_seq [OF ollama_now_ok stable_ol_snap])
  assume "\<not> ol_state l \<noteq> L_REQUESTED"
  then have state: "ol_state l = L_REQUESTED" by simp
  show "oks (ol_snap l) (seqM (ollama_transition E l L_FAILED [error_of E e]) (\<lambda>_. raiseM e)) ol_snap" for e
    by (intro next_seq [OF move_snap [OF rely move_good(1)]] osvc.safe_raise) (simp_all add: error_of_def state)
  fix p t
  assume valid: "validate_plan q p = Inr ()"
  let ?n = "ollama_resource_name (ue_sha E) (oq_lease_id q)"
  show "oks (ol_snap l) (seqM (ollama_transition E l L_PROVISIONING (claim_changes E l q p t)) (\<lambda>l'.
      joined_effect E (provision_effect E l' q p ?n))) ol_snap"
  proof (rule osvc.safe_seq [OF claim_ok [OF rely state] stable_ol_snap])
    show "ol_lease_id l = oq_lease_id q" using owned by (simp add: owned_by_def)
    fix l'
    let ?R = "\<lambda>w. ol_snap l w \<and> ol_snap l' w \<and> oc_done l (OC_state L_PROVISIONING # claim_changes E l q p t) l'
        \<and> ol_provision_attempts l = 0 \<and> oq_lease_id q \<notin> set (created (uw_effects w))"
    show "oks ?R (joined_effect E (provision_effect E l' q p ?n)) ol_snap"
    proof (cases "claimed_by q p ?n l'")
      case True
      show ?thesis
        by (rule safe_pre [OF joined_ok [where g = id, unfolded id_def, OF provision_effect_ok [OF rely True valid]]]) simp
    next
      case False
      have "\<not> ?R w" for w
      proof
        assume R: "?R w"
        then have "ol_inv (uw_absent w) l" by (simp add: ol_snap_def)
        with R have "ol_provider_resource_id l = None" by (simp add: ol_inv_def)
        with R owned have "claimed_by q p ?n l'" by (intro claim_done [where t = t]) simp_all
        with False show False ..
      qed
      then show ?thesis unfolding safe_def by blast
    qed
  qed
qed

lemma reconcile_creation_ok:
  assumes rely: "ollama_rely E" and state: "ol_state l \<in> {L_PROVISIONING, L_RECONCILE_REQUIRED}"
  shows "oks (ol_snap l) (reconcile_creation E l) ol_snap"
proof -
  have known: "oks (ol_snap l) (ollama_transition E l L_WAITING_FOR_MODEL [OC_last_provider_error None]) ol_snap"
    by (rule snap_only [OF move_snap [OF rely move_good(1)]]) simp_all
  have failed: "oks (ol_snap l) (ollama_cas E l [error_of E e]) ol_snap" for e
    by (rule snap_only [OF cas_neutral [OF rely]]) (use state in \<open>auto simp: error_of_def\<close>)
  have found: "oks (ol_snap l) (case found of
        None \<Rightarrow> ret l
      | Some resource \<Rightarrow> ollama_transition E l L_WAITING_FOR_MODEL
          [OC_provider_resource_id (Some (ow_provider_resource_id resource)), OC_creation_uncertain False,
           OC_last_provider_error None]) ol_snap"
    if "\<not> has_resource l" "\<exists>n. up_find (ue_provider E) n rtype rname = Inr found" for found rtype rname
  proof (cases found)
    case (Some resource)
    with that rely have i: "ow_provider_resource_id resource \<noteq> []" by (auto simp: ollama_rely_def)
    show ?thesis unfolding Some option.case
      by (rule snap_only [OF move_snap [OF rely found_good]])
        (use i state that(1) ol_inv_attempts(2,3) in auto)
  qed (auto intro: ret_ok)
  show ?thesis
    unfolding reconcile_creation_def
    by (cases "ol_resource_type l"; cases "ol_resource_name l"; cases "has_resource l")
      (auto simp: known intro!: keep_catch [OF outside_ok stable_ol_snap failed found] ret_ok)
qed

section \<open>The public operations\<close>

lemma authorize_ok: "oks P (authorize l o1 wl) (\<lambda>_ w. ol_owner_id l = o1 \<and> ol_workload_id l = wl)"
  unfolding authorize_def by (auto intro: ret_ok osvc.safe_raise)

lemma owned_get_ok:
  assumes "ollama_rely E" "\<And>l. oks (ol_snap l) (f l) Q"
  shows "oks P (seqM (ollama_required E k) (\<lambda>l. seqM (authorize l o1 wl) (\<lambda>_. f l))) Q"
  by (rule required_seq [OF assms(1)], rule keep_seq [OF authorize_ok stable_ol_snap], rule assms(2))

lemma live_ready: "ol_state l = L_READY \<Longrightarrow> ol_state l \<noteq> L_TERMINATED"
  by simp

lemma progress_lease_ok:
  assumes rely: "ollama_rely E" and owned: "owned_by q l"
  shows "oks (ol_snap l) (progress_lease E q wait plan t l) ol_snap"
proof -
  have start: "oks (ol_snap l) (if ol_state l = L_REQUESTED then provision_requested E l q plan
      else if ol_state l \<in> {L_PROVISIONING, L_RECONCILE_REQUIRED} then reconcile_creation E l
      else ret l) (\<lambda>l w. ol_snap l w \<and> True)"
    by (simp add: provision_requested_ok [OF rely owned] reconcile_creation_ok [OF rely] ret_ok)
  show ?thesis
    unfolding progress_lease_def
    by (intro osvc.safe_if ready_with_route_ok release_lease_ok rely next_seq [OF start] wait_until_ready_ok ret_ok)
      (auto dest: live_ready)
qed

lemma ollama_acquire_ok:
  assumes rely: "ollama_rely E"
  shows "oks (\<lambda>_. True) (ollama_acquire E q wait plan) ol_snap"
  unfolding ollama_acquire_def case_prod_beta
proof (intro keep_seq [OF ollama_now_ok] keep_seq [where R = "\<lambda>_. True", OF safe_post [OF get_row_ok [OF rely]]]
    keep_seq [OF lift_ok] pass_seq [where g = fst, OF insert_request_ok [OF rely]] osvc.stable_const)
  fix t x
  assume x: "ol_lease_id (fst x) = oq_lease_id q \<and> (snd x \<longrightarrow> owned_by q (fst x))"
  show "oks (ol_snap (fst x)) (seqM (if snd x then ret () else authorize (fst x) (oq_owner_id q) (oq_workload_id q)) (\<lambda>_.
       progress_lease E q wait plan t (fst x))) ol_snap"
  proof (rule keep_seq [where R = "\<lambda>_. owned_by q (fst x)", OF _ stable_ol_snap])
    show "oks (ol_snap (fst x)) (if snd x then ret () else authorize (fst x) (oq_owner_id q) (oq_workload_id q))
        (\<lambda>_ w. owned_by q (fst x))"
      using x by (auto intro!: ret_ok safe_post [OF authorize_ok] simp: owned_by_def)
  qed (rule progress_lease_ok [OF rely])
qed simp

lemma ollama_get_ok: "ollama_rely E \<Longrightarrow> oks P (ollama_get E k o1 wl) ol_snap"
  unfolding ollama_get_def
  by (rule owned_get_ok) (auto intro!: osvc.safe_if ready_with_route_ok ret_ok)

lemma renew_lease_ok:
  assumes rely: "ollama_rely E" and "ol_state l = L_READY"
  shows "oks (ol_snap l) (renew_lease E l) ol_snap"
  unfolding renew_lease_def
proof (rule next_seq [where R = "\<lambda>_. True", OF safe_post [OF ready_with_route_ok [OF rely]]])
  fix l'
  have host_route: "oks (ol_snap x) (ret (x\<lparr>ol_route_url := u, ol_provider_health_url := v\<rparr>)) ol_snap" for x u v
    by (rule ret_ok) (subst ol_snap_no_route [of _ x], simp_all add: no_route_def)
  show "oks (ol_snap l') (if ol_state l' \<noteq> L_READY then ret l'
     else seqM (ollama_now E) (\<lambda>t.
       if past_hard_or_cost l' t then release_lease E l' ''deadline_or_cost_cap''
       else seqM (ollama_cas E l' [OC_last_used_at t, OC_idle_deadline (idle_from l' t),
           OC_accrued_estimated_cost (accrued_cost l' t)]) (\<lambda>touched.
         ret (touched\<lparr>ol_route_url := ol_route_url l', ol_provider_health_url := ol_provider_health_url l'\<rparr>)))) ol_snap"
    by (intro osvc.safe_if ret_ok keep_seq [OF ollama_now_ok stable_ol_snap] release_lease_ok rely
        next_seq [OF cas_neutral [OF rely] host_route]) simp_all
qed (use assms(2) in simp_all)

lemma ollama_touch_ok: "ollama_rely E \<Longrightarrow> oks P (ollama_touch E k o1 wl) ol_snap"
  unfolding ollama_touch_def
  by (rule owned_get_ok) (auto intro!: osvc.safe_if osvc.safe_raise renew_lease_ok ret_ok)

lemma ollama_release_ok: "ollama_rely E \<Longrightarrow> oks P (ollama_release E k o1 wl) ol_snap"
  unfolding ollama_release_def by (rule owned_get_ok) (auto intro: release_lease_ok)

section \<open>Reconciliation\<close>

abbreviation some_snap :: "OllamaLease option \<Rightarrow> ollama_world \<Rightarrow> bool" where
  "some_snap x w \<equiv> (case x of None \<Rightarrow> True | Some l \<Rightarrow> ol_snap l w)"

lemma ret_some: "oks (ol_snap l) (ret (Some l)) some_snap"
  by (rule ret_ok) simp

lemma to_some: "oks P m ol_snap \<Longrightarrow> oks P (seqM m (\<lambda>l. ret (Some l))) some_snap"
  by (rule next_seq [where R = "\<lambda>_. True"]) (auto intro: ret_some)

lemma retried_release_ok:
  assumes "ollama_rely E"
  shows "oks (ol_snap l) (retried_release E l reason) some_snap"
  unfolding retried_release_def
  by (intro to_some osvc.safe_try release_lease_ok stable_ol_snap assms osvc.safe_if osvc.safe_raise ollama_required_ok)

lemma reconcile_active_lease_ok:
  assumes rely: "ollama_rely E"
  shows "oks (ol_snap l) (reconcile_active_lease E l t) some_snap"
  unfolding reconcile_active_lease_def
proof (rule next_seq [where R = "\<lambda>_. True"])
  show "oks (ol_snap l) (if ol_state l \<in> {L_PROVISIONING, L_RECONCILE_REQUIRED} then reconcile_creation E l
         else ret l) (\<lambda>l w. ol_snap l w \<and> True)"
    by (auto intro!: osvc.safe_if ret_ok safe_post [OF reconcile_creation_ok [OF rely]])
  show "oks (ol_snap l') (if lease_expired l' t then retried_release E l' ''expired''
     else seqM (if ol_state l' = L_WAITING_FOR_MODEL then check_readiness_once E l'
         else if ol_state l' = L_READY then ready_with_route E l' else ret l') (\<lambda>lease. ret (Some lease))) some_snap" for l'
    by (intro osvc.safe_if retried_release_ok rely to_some check_readiness_ok ready_with_route_ok ret_ok) simp_all
qed

lemma request_from_lease_owned: "request_from_lease l = Inr q \<Longrightarrow> owned_by q l"
  by (auto simp: request_from_lease_def owned_by_def Let_def split: if_splits option.splits sum.splits)

lemma ollama_reconcile_one_ok:
  assumes rely: "ollama_rely E"
  shows "oks P (ollama_reconcile_one E k) some_snap"
  unfolding ollama_reconcile_one_def
proof (rule found_seq [OF rely])
  fix l
  have provision: "oks (ol_snap l) (seqM (liftM (request_from_lease l)) (\<lambda>q.
      seqM (provision_requested E l q None) (\<lambda>lease. reconcile_active_lease E lease t))) some_snap" for t
    by (intro keep_seq [OF lift_ok stable_ol_snap]
        next_seq [where R = "\<lambda>_. True", OF safe_post [OF provision_requested_ok [OF rely]]] reconcile_active_lease_ok rely)
      (auto dest: request_from_lease_owned)
  show "oks (ol_snap l) (case Some l of
       None \<Rightarrow> ret None
     | Some lease \<Rightarrow>
         if ol_state lease = L_TERMINATED then ret (Some lease)
         else seqM (ollama_now E) (\<lambda>t.
           if ol_state lease = L_RELEASING then retried_release E lease ''retry_teardown''
           else if ol_state lease = L_REQUESTED
           then (if readiness_over lease t
              then seqM (release_lease E lease ''expired'') (\<lambda>lease. ret (Some lease))
              else seqM (liftM (request_from_lease lease)) (\<lambda>q.
                seqM (provision_requested E lease q None) (\<lambda>lease. reconcile_active_lease E lease t)))
           else reconcile_active_lease E lease t)) some_snap"
    unfolding option.case
    by (intro osvc.safe_if ret_some keep_seq [OF ollama_now_ok stable_ol_snap] retried_release_ok to_some
        release_lease_ok reconcile_active_lease_ok provision rely)
qed (auto intro: ret_ok)

lemma get_some_ok: "ollama_rely E \<Longrightarrow> oks P (ollama_get_row E k) some_snap"
  by (rule safe_post [OF get_row_ok]) (auto split: option.splits)

lemma record_ollama_error_ok:
  assumes rely: "ollama_rely E"
  shows "oks P (record_ollama_error E k e) some_snap"
  unfolding record_ollama_error_def
proof (rule found_seq [OF rely])
  show "oks (ol_snap l) (case Some l of None \<Rightarrow> ret None
     | Some lease \<Rightarrow> if ol_state lease = L_TERMINATED then ret (Some lease)
         else tryM (seqM (ollama_cas E lease [prefixed_error E ''reconcile'' e]) (\<lambda>lease. ret (Some lease)))
           (\<lambda>e. if e = OllamaLeaseConflictError then ollama_get_row E k else raiseM e)) some_snap" for l
    unfolding option.case
    by (intro osvc.safe_if ret_some osvc.safe_try stable_ol_snap to_some snap_only [OF cas_neutral] rely
        osvc.safe_raise get_some_ok) (simp_all add: prefixed_error_def)
qed (auto intro: ret_ok)

lemma reconcile_catch_ok:
  assumes rely: "ollama_rely E"
  shows "oks (\<lambda>_. True) (catch_manager (ollama_reconcile_one E k) (record_ollama_error E k) ret) (\<lambda>_ _. True)"
  by (rule keep_catch [where R = "\<lambda>_. True", OF safe_post [OF ollama_reconcile_one_ok [OF rely]] osvc.stable_const
        safe_post [OF record_ollama_error_ok [OF rely]]]) (auto intro: ret_ok)

lemma reconcile_leases_ok: "ollama_rely E \<Longrightarrow> oks (\<lambda>_. True) (reconcile_leases E ls) (\<lambda>_ _. True)"
proof (induction ls)
  case (Cons l ls)
  show ?case
    unfolding reconcile_leases.simps
    by (intro keep_seq [where R = "\<lambda>_. True", OF reconcile_catch_ok [OF Cons.prems] osvc.stable_const]
        keep_seq [where R = "\<lambda>_. True", OF Cons.IH [OF Cons.prems] osvc.stable_const] ret_ok) simp
qed (auto intro: ret_ok)

lemma list_rows_ok: "ollama_rely E \<Longrightarrow> oks P (ollama_list_rows E) (\<lambda>_ _. True)"
  using ollama_transaction_ok by (auto simp: safe_def ollama_list_rows_def Let_def)

lemma ollama_reconcile_ok: "ollama_rely E \<Longrightarrow> oks (\<lambda>_. True) (ollama_reconcile E) (\<lambda>_ _. True)"
  unfolding ollama_reconcile_def
  by (rule keep_seq [where R = "\<lambda>_. True", OF list_rows_ok osvc.stable_const reconcile_leases_ok])

lemma ollama_reconcile_lease_ok:
  assumes rely: "ollama_rely E"
  shows "oks (\<lambda>_. True) (ollama_reconcile_lease E k o1 wl) (\<lambda>_ _. True)"
  unfolding ollama_reconcile_lease_def
proof (rule owned_get_ok [OF rely])
  show "oks (ol_snap l) (catch_manager (ollama_reconcile_one E k)
       (\<lambda>e. seqM (record_ollama_error E k e) (\<lambda>recorded. case recorded of None \<Rightarrow> raiseM e | Some l \<Rightarrow> ret l))
       (\<lambda>reconciled. case reconciled of None \<Rightarrow> raiseM RunPodManagerError | Some l \<Rightarrow> ret l)) (\<lambda>_ _. True)" for l
    by (rule keep_catch [where R = "\<lambda>_. True", OF safe_post [OF ollama_reconcile_one_ok [OF rely]] stable_ol_snap])
      (auto intro!: keep_seq [where R = "\<lambda>_. True", OF safe_post [OF record_ollama_error_ok [OF rely]] stable_ol_snap]
        ret_ok osvc.safe_raise split: option.splits)
qed

section \<open>Arbitrary sequences of operations\<close>

datatype ollama_call =
    OCall_acquire OllamaLeaseRequest bool "OllamaPlacementPlan option"
  | OCall_get string string string
  | OCall_touch string string string
  | OCall_release string string string
  | OCall_reconcile
  | OCall_reconcile_lease string string string

text \<open>The arguments of \<^verbatim>\<open>acquire\<close> are constructed, so the checks of their constructors come first.\<close>

fun exec_ollama_call :: "ollama_env \<Rightarrow> ollama_call \<Rightarrow> ollama_world \<Rightarrow> ollama_world" where
  "exec_ollama_call E (OCall_acquire q wait plan) w =
     (case first_error (nested_error (ollama_constraints_post_init (oq_constraints q))
         @ nested_error (ollama_request_post_init q)
         @ (case plan of None \<Rightarrow> [] | Some p \<Rightarrow> nested_error (ollama_plan_post_init p))) of
        Some e \<Rightarrow> w | None \<Rightarrow> snd (ollama_acquire E q wait plan w))"
| "exec_ollama_call E (OCall_get k o1 wl) w = snd (ollama_get E k o1 wl w)"
| "exec_ollama_call E (OCall_touch k o1 wl) w = snd (ollama_touch E k o1 wl w)"
| "exec_ollama_call E (OCall_release k o1 wl) w = snd (ollama_release E k o1 wl w)"
| "exec_ollama_call E OCall_reconcile w = snd (ollama_reconcile E w)"
| "exec_ollama_call E (OCall_reconcile_lease k o1 wl) w = snd (ollama_reconcile_lease E k o1 wl w)"

fun exec_ollama_calls :: "(ollama_env \<times> ollama_call) list \<Rightarrow> ollama_world \<Rightarrow> ollama_world" where
  "exec_ollama_calls [] w = w"
| "exec_ollama_calls ((E, c) # calls) w = exec_ollama_calls calls (exec_ollama_call E c w)"

definition empty_ollama_world :: ollama_world where
  "empty_ollama_world = \<lparr> uw_table = [], uw_absent = [], uw_tick = 0, uw_effects = [] \<rparr>"

lemma empty_ollama_inv [simp]: "ollama_inv empty_ollama_world"
  by (simp add: ollama_inv_def ol_table_inv_def empty_ollama_world_def created_def)

lemma oks_run: "oks (\<lambda>_. True) m Q \<Longrightarrow> ollama_inv w \<Longrightarrow> ollama_inv (snd (m w)) \<and> ollama_guar w (snd (m w))"
  by (cases "m w") (auto simp: safe_def)

lemma exec_ollama_call_ok:
  assumes "ollama_rely E" "ollama_inv w"
  shows "ollama_inv (exec_ollama_call E c w) \<and> ollama_guar w (exec_ollama_call E c w)"
proof (cases c)
  case (OCall_acquire q wait plan)
  with assms oks_run [OF ollama_acquire_ok [OF assms(1)] assms(2)] osvc.G_refl show ?thesis
    by (simp split: option.splits)
qed (simp_all add: oks_run [OF ollama_get_ok] oks_run [OF ollama_touch_ok] oks_run [OF ollama_release_ok]
  oks_run [OF ollama_reconcile_ok] oks_run [OF ollama_reconcile_lease_ok] assms)

lemma exec_ollama_calls_ok:
  "\<forall>(E, c) \<in> set calls. ollama_rely E \<Longrightarrow> ollama_inv w \<Longrightarrow>
   ollama_inv (exec_ollama_calls calls w) \<and> ollama_guar w (exec_ollama_calls calls w)"
proof (induction calls arbitrary: w)
  case (Cons Ec calls)
  obtain E c where Ec: "Ec = (E, c)" by (cases Ec)
  with Cons.prems have one: "ollama_inv (exec_ollama_call E c w) \<and> ollama_guar w (exec_ollama_call E c w)"
    by (intro exec_ollama_call_ok) auto
  with Cons.prems Cons.IH [of "exec_ollama_call E c w"] Ec
  have "ollama_inv (exec_ollama_calls calls (exec_ollama_call E c w))
    \<and> ollama_guar (exec_ollama_call E c w) (exec_ollama_calls calls (exec_ollama_call E c w))" by simp
  with one osvc.G_trans Ec show ?case by fastforce
qed (simp add: osvc.G_refl)

section \<open>Properties\<close>

text \<open>
  C25.  An Ollama lease follows its life cycle, whatever sequence of operations runs against whatever provider
  and with other processes writing to the same table under the same rules.  The state moves only along
  \<^verbatim>\<open>_ALLOWED_TRANSITIONS\<close>, a TERMINATED lease never changes again, the columns of the request never change,
  the plan, the resource name and the number of attempts are fixed once provisioning was claimed, and a provider
  resource id that was recorded is never lost or replaced.
\<close>

theorem ollama_lease_lifecycle:
  assumes "\<forall>(E, c) \<in> set calls. ollama_rely E" "ollama_inv w" "lease_row (uw_table w) k = Some r"
  shows "\<exists>r'. lease_row (uw_table (exec_ollama_calls calls w)) k = Some r'
    \<and> lifecycle (ol_state r) (ol_state r')
    \<and> (ol_state r = L_TERMINATED \<longrightarrow> no_route r' = no_route r)
    \<and> ol_identity r' = ol_identity r
    \<and> (ol_state r \<noteq> L_REQUESTED \<longrightarrow> claim_columns r' = claim_columns r)
    \<and> (ol_provider_resource_id r \<noteq> None \<longrightarrow> ol_provider_resource_id r' = ol_provider_resource_id r)
    \<and> ol_revision r \<le> ol_revision r'"
proof -
  from exec_ollama_calls_ok [OF assms(1,2)]
  have "ol_table_evolves (uw_table w) (uw_table (exec_ollama_calls calls w))" by (simp add: ollama_guar_def)
  from ol_table_evolvesD [OF this assms(3)] show ?thesis
    by (auto simp: ol_evolves_def keeps_def)
qed

text \<open>
  C23.  No create is written off.  At any time, a lease for which a create was claimed either knows the resource
  that was created, or is flagged as uncertain and is not TERMINATED; a TERMINATED lease has no uncertain create,
  and its resource, if a create was claimed, is known and some provider teardown of exactly that resource was
  confirmed.  A lease without a claim has no resource.
\<close>

theorem ollama_creates_accounted:
  assumes "\<forall>(E, c) \<in> set calls. ollama_rely E" "ollama_inv w" "lease_row (uw_table (exec_ollama_calls calls w)) k = Some r"
  shows "(if ol_provision_attempts r = 0 then ol_provider_resource_id r = None
     else ol_provision_attempts r = 1
       \<and> (case ol_provider_resource_id r of
            None \<Rightarrow> ol_creation_uncertain r \<and> ol_state r \<noteq> L_TERMINATED
          | Some i \<Rightarrow> i \<noteq> [] \<and> \<not> ol_creation_uncertain r
              \<and> (ol_state r = L_TERMINATED \<longrightarrow> i \<in> set (uw_absent (exec_ollama_calls calls w)))))
    \<and> (ol_state r = L_TERMINATED \<longrightarrow> ol_teardown_state r = D_COMPLETE)"
proof -
  from exec_ollama_calls_ok [OF assms(1,2)]
  have "ol_table_inv (uw_absent (exec_ollama_calls calls w)) (uw_table (exec_ollama_calls calls w))"
    by (simp add: ollama_inv_def)
  from ol_table_inv_row [OF this assms(3)] show ?thesis
    unfolding ol_inv_def by (auto split: option.splits)
qed

text \<open>
  C24.  A paid Ollama resource is created at most once per lease, and only as authorized.  In the log of any run
  the creates belong to different leases; every one was sent with a plan that \<^verbatim>\<open>validate_plan\<close> accepts for its
  request (so its ceiling is within the authorized cost and its mode is allowed) under the resource name, mode,
  type and ceiling that the row of the lease had recorded before, and for the owner and workload of that row.
\<close>

theorem ollama_creates_once:
  assumes "\<forall>(E, c) \<in> set calls. ollama_rely E" "ollama_inv w"
  shows "distinct (created (uw_effects (exec_ollama_calls calls w)))
    \<and> list_all (\<lambda>e. case e of
        Eff_provision q p n \<Rightarrow>
          validate_plan q p = Inr () \<and> usd (op_cost_ceiling p) \<le> usd (oq_max_authorized_cost q)
          \<and> (\<exists>r. lease_row (uw_table (exec_ollama_calls calls w)) (oq_lease_id q) = Some r
               \<and> ol_owner_id r = oq_owner_id q \<and> ol_workload_id r = oq_workload_id q
               \<and> ol_resource_name r = Some n \<and> ol_resource_type r = Some (op_resource_type p)
               \<and> ol_mode r = Some (op_mode p) \<and> ol_cost_ceiling r = Some (op_cost_ceiling p))
      | _ \<Rightarrow> True) (uw_effects (exec_ollama_calls calls w))"
proof -
  have ceiling: "usd (op_cost_ceiling p) \<le> usd (oq_max_authorized_cost q)" if "validate_plan q p = Inr ()" for q p
    using that by (auto simp: validate_plan_def Let_def first_error_None simp del: first_error.simps split: option.splits)
  from exec_ollama_calls_ok [OF assms]
  have "distinct (created (uw_effects (exec_ollama_calls calls w)))"
    "\<forall>e \<in> set (uw_effects (exec_ollama_calls calls w)). create_claimed (uw_table (exec_ollama_calls calls w)) e"
    by (simp_all add: ollama_inv_def)
  then show ?thesis
    unfolding list_all_iff create_claimed_def by (fastforce split: ollama_effect.splits dest: ceiling)
qed

text \<open>
  C26.  A caller that does not own an Ollama lease learns and changes nothing.  Whatever the state of the lease,
  get, touch, release and reconcile-lease with another owner or workload raise the authorization error after
  one read of the table: no row is written, and the provider is not called.
\<close>

theorem ollama_foreign_caller_refused:
  "case lease_row (uw_table (ollama_transaction E w)) k of
     None \<Rightarrow> ollama_get E k o1 wl w = (Inl RunPodManagerError, ollama_transaction E w)
       \<and> ollama_touch E k o1 wl w = (Inl RunPodManagerError, ollama_transaction E w)
       \<and> ollama_release E k o1 wl w = (Inl RunPodManagerError, ollama_transaction E w)
       \<and> ollama_reconcile_lease E k o1 wl w = (Inl RunPodManagerError, ollama_transaction E w)
   | Some r \<Rightarrow>
       if distinct (ol_cost_policy_components r) \<and> (ol_owner_id r, ol_workload_id r) \<noteq> (o1, wl)
       then ollama_get E k o1 wl w = (Inl OllamaLeaseAuthorizationError, ollama_transaction E w)
         \<and> ollama_touch E k o1 wl w = (Inl OllamaLeaseAuthorizationError, ollama_transaction E w)
         \<and> ollama_release E k o1 wl w = (Inl OllamaLeaseAuthorizationError, ollama_transaction E w)
         \<and> ollama_reconcile_lease E k o1 wl w = (Inl OllamaLeaseAuthorizationError, ollama_transaction E w)
       else True"
  by (simp add: ollama_get_def ollama_touch_def ollama_release_def ollama_reconcile_lease_def ollama_required_def
      seqM_def ollama_get_row_def Let_def ollama_from_row_def authorize_def raiseM_def ret_def split: option.split)

end
