(* ===== verification/Ollama_Adapter.thy ===== *)
theory Ollama_Adapter
  imports Ollama_Provider Ollama_Properties
begin

text \<open>
  What the Ollama adapter sends and what its answers rest on, and its fit with the lease service: it never
  answers with an empty resource id, which is what the service relies on.
\<close>

section \<open>Mutations of a run\<close>

abbreviation mutations_of :: "adapter_world \<Rightarrow> api_request list" where
  "mutations_of w \<equiv> mutations (aw_client w)"

text \<open>A run adds at most one mutating request, and one for which \<open>P\<close> holds.\<close>

definition one_more :: "(api_request \<Rightarrow> bool) \<Rightarrow> api_request list \<Rightarrow> api_request list \<Rightarrow> bool" where
  "one_more P before after \<longleftrightarrow> after = before \<or> (\<exists>q. P q \<and> after = before @ [q])"

definition client_sends :: "(api_request \<Rightarrow> bool) \<Rightarrow> (client_world, 'a) prog \<Rightarrow> bool" where
  "client_sends P m \<longleftrightarrow> (\<forall>w. one_more P (mutations w) (mutations (snd (m w))))"

definition sends :: "(api_request \<Rightarrow> bool) \<Rightarrow> (adapter_world, 'a) prog \<Rightarrow> bool" where
  "sends P m \<longleftrightarrow> (\<forall>w. one_more P (mutations_of w) (mutations_of (snd (m w))))"

abbreviation silent :: "(adapter_world, 'a) prog \<Rightarrow> bool" where
  "silent m \<equiv> sends (\<lambda>_. False) m"

named_theorems sent

lemma one_more_refl [simp]: "one_more P xs xs"
  by (simp add: one_more_def)

lemma one_more_False [simp]: "one_more (\<lambda>_. False) xs ys \<longleftrightarrow> ys = xs"
  by (auto simp: one_more_def)

lemma quiet_sends: "quiet m \<Longrightarrow> client_sends P m"
  by (simp add: quiet_def client_sends_def)

lemma pure_sends [sent]: "sends P (ret x)" "sends P (raiseM e)" "sends P (liftM r)"
  by (simp_all add: sends_def ret_def raiseM_def liftM_def)

lemma sends_on_client: "client_sends P m \<Longrightarrow> sends P (on_client m)"
  by (simp add: sends_def client_sends_def on_client_def split: prod.split) (metis snd_conv)

lemma client_sends_threaded: "client_sends P m \<Longrightarrow> client_sends P (threaded E m)"
  by (simp add: client_sends_def threaded_def mutations_def split: prod.split) (metis snd_conv)

lemma sends_in_thread: "client_sends P m \<Longrightarrow> sends P (in_thread E m)"
  unfolding in_thread_def by (intro sends_on_client client_sends_threaded)

lemma sends_seq:
  assumes m: "sends P m" and f: "\<And>x. silent (f x)"
  shows "sends P (seqM m f)"
  unfolding sends_def
proof
  fix w
  obtain r w1 where run: "m w = (r, w1)" by (cases "m w")
  with m have "one_more P (mutations_of w) (mutations_of w1)" by (metis sends_def snd_conv)
  with run f show "one_more P (mutations_of w) (mutations_of (snd (seqM m f w)))"
    by (cases r) (auto simp: seqM_def sends_def)
qed

lemma sends_after:
  assumes m: "silent m" and f: "\<And>x w w1. m w = (Inr x, w1) \<Longrightarrow> sends P (f x)"
  shows "sends P (seqM m f)"
  unfolding sends_def
proof
  fix w
  obtain r w1 where run: "m w = (r, w1)" by (cases "m w")
  with m have "mutations_of w1 = mutations_of w" by (metis sends_def snd_conv one_more_False)
  moreover have "sends P (f x)" if "r = Inr x" for x using run f that by blast
  ultimately show "one_more P (mutations_of w) (mutations_of (snd (seqM m f w)))"
    using run by (cases r) (auto simp: seqM_def sends_def, metis)
qed

lemma sends_lift: "(\<And>x. r = Inr x \<Longrightarrow> sends P (f x)) \<Longrightarrow> sends P (seqM (liftM r) f)"
  by (rule sends_after) (auto simp: liftM_def sends_def)

lemma sends_try:
  assumes m: "sends P m" and h: "\<And>e. silent (h e)"
  shows "sends P (tryM m h)"
  unfolding sends_def
proof
  fix w
  obtain r w1 where run: "m w = (r, w1)" by (cases "m w")
  with m have "one_more P (mutations_of w) (mutations_of w1)" by (metis sends_def snd_conv)
  with run h show "one_more P (mutations_of w) (mutations_of (snd (tryM m h w)))"
    by (cases r) (auto simp: tryM_def sends_def)
qed

lemma sends_try_else:
  assumes m: "sends P m" and h: "\<And>e. silent (h e)" and f: "\<And>x. silent (f x)"
  shows "sends P (try_elseM m h f)"
  unfolding sends_def
proof
  fix w
  obtain r w1 where run: "m w = (r, w1)" by (cases "m w")
  with m have "one_more P (mutations_of w) (mutations_of w1)" by (metis sends_def snd_conv)
  with run h f show "one_more P (mutations_of w) (mutations_of (snd (try_elseM m h f w)))"
    by (cases r) (auto simp: try_elseM_def sends_def)
qed

lemma silent_now [sent]: "silent (adapter_now E)"
  unfolding adapter_now_def by (intro sends_on_client quiet_sends quiet_client_now)

lemma request_json_mutations:
  assumes "\<not> safe_to_retry q"
  shows "mutations (snd (request_json E q expected ambiguous w)) = mutations w @ [q]"
  using assms by (simp add: request_json_world request_attempts_once mutations_def)

lemma client_sends_seq:
  assumes m: "client_sends P m" and f: "\<And>x. quiet (f x)"
  shows "client_sends P (seqM m f)"
  unfolding client_sends_def
proof
  fix w
  obtain r w1 where run: "m w = (r, w1)" by (cases "m w")
  with m have "one_more P (mutations w) (mutations w1)" by (metis client_sends_def snd_conv)
  with run f show "one_more P (mutations w) (mutations (snd (seqM m f w)))"
    by (cases r) (auto simp: seqM_def quiet_def)
qed

lemma client_sends_lift: "(\<And>x. r = Inr x \<Longrightarrow> client_sends P (f x)) \<Longrightarrow> client_sends P (seqM (liftM r) f)"
  by (cases r) (simp_all add: client_sends_def seqM_def liftM_def)

lemma client_sends_request: "\<not> safe_to_retry q \<Longrightarrow> P q \<Longrightarrow> client_sends P (request_json E q expected ambiguous)"
  unfolding client_sends_def by (auto simp: request_json_mutations one_more_def)

section \<open>Teardown is confirmed by the provider\<close>

definition resource_query :: "ProvisionedOllamaResource \<Rightarrow> api_request" where
  "resource_query resource =
     \<lparr> ar_method = ''GET'', ar_resource = (if ow_resource_type resource = T_ENDPOINT then ''/serverless/'' else ''/pods/'')
         @ quote_segment (ow_provider_resource_id resource), ar_params = [], ar_body = None \<rparr>"

definition resource_delete :: "ProvisionedOllamaResource \<Rightarrow> api_request" where
  "resource_delete resource =
     (if ow_resource_type resource = T_ENDPOINT
      then \<lparr> ar_method = ''DELETE'', ar_resource = ''/serverless/'' @ quote_segment (ow_provider_resource_id resource),
             ar_params = [], ar_body = None \<rparr>
      else pod_command (ow_provider_resource_id resource) ''terminate'')"

lemma delete_command_sends: "client_sends ((=) (resource_delete resource)) (delete_command E resource)"
proof (cases "ow_resource_type resource = T_ENDPOINT")
  case True
  then show ?thesis
    by (auto simp: delete_command_def delete_endpoint_def delete_resource_def segment_def resource_delete_def
        safe_to_retry_def safe_methods_def split: if_splits
        intro!: client_sends_lift client_sends_seq client_sends_request)
next
  case False
  then show ?thesis
    by (auto simp: delete_command_def pod_action_def segment_def resource_delete_def pod_command_def post_def
        safe_to_retry_def safe_methods_def split: if_splits
        intro!: client_sends_seq client_sends_lift client_sends_request)
qed

lemma quiet_read_back: "quiet (read_back E resource)"
  unfolding read_back_def get_endpoint_def get_pod_def
  by (auto intro!: quiet_seq quiet_get_json)

lemma adapter_teardown_sends: "sends ((=) (resource_delete resource)) (adapter_teardown E resource)"
  unfolding adapter_teardown_def
  by (intro sends_seq sends_try sends_in_thread delete_command_sends sends_try_else quiet_sends quiet_read_back)
    (auto intro: sent)

lemma truncate_base [simp]: "client_env.truncate (base_of E) = client_of E"
  by (simp add: client_env.truncate_def provider_env.truncate_def)

lemma get_json_404:
  assumes "library_exceptions_foreign (base_of E)"
    "fst (get_json (client_of E) resource params w) = Inl (RunPodAPIError (Some 404))"
  shows "\<exists>n body. ce_send (base_of E) n \<lparr> ar_method = ''GET'', ar_resource = resource, ar_params = params,
      ar_body = None \<rparr> = Api_reply 404 body"
proof -
  let ?q = "\<lparr> ar_method = ''GET'', ar_resource = resource, ar_params = params, ar_body = None \<rparr>"
  from assms(2) have "fst (request_json (client_of E) ?q [200] False w) = Inl (RunPodAPIError (Some 404))"
    by (auto simp: get_json_def seqM_def liftM_def required_payload_def split: prod.splits sum.splits option.splits)
  with not_found_send [OF assms(1), of ?q "[200]" False w] show ?thesis by simp
qed

lemma endpoint_from_dict_errors: "endpoint_from_dict v = Inl e \<Longrightarrow> e = RunPodManagerError"
  unfolding endpoint_from_dict_def bindE_def
  by (auto dest!: field_errors split: sum.splits option.splits json.splits)

lemma read_back_404:
  assumes "library_exceptions_foreign (base_of E)" "fst (read_back E resource w) = Inl (RunPodAPIError (Some 404))"
  shows "\<exists>n body. ce_send (base_of E) n (resource_query resource) = Api_reply 404 body"
proof -
  let ?i = "ow_provider_resource_id resource"
  have float: "pod_from_dict (ce_float E) v \<noteq> Inl (RunPodAPIError s)" for v s
    using foreign_not_404 [OF assms(1)] by (simp add: provider_env.truncate_def)
  from assms(2) have "fst (get_json (client_of E) ((if ow_resource_type resource = T_ENDPOINT then ''/serverless/''
      else ''/pods/'') @ quote_segment ?i) [] w) = Inl (RunPodAPIError (Some 404))"
    by (auto simp: read_back_def get_endpoint_def get_pod_def seqM_def liftM_def segment_def ret_def float
        dest: endpoint_from_dict_errors split: prod.splits sum.splits if_splits)
  from get_json_404 [OF assms(1) this] show ?thesis by (simp add: resource_query_def)
qed

text \<open>
  C28.  A torn down resource is gone.  When the adapter reports success, the provider has answered a GET of exactly
  this resource with 404; an acknowledged deletion, or a 404 of the deletion itself, is not enough.  Whatever the
  outcome, nothing is changed at the provider but by one deletion of this resource.
\<close>

theorem teardown_confirms_absence:
  assumes "library_exceptions_foreign (base_of E)"
  shows "(case fst (adapter_teardown E resource w) of
       Inl e \<Rightarrow> True
     | Inr _ \<Rightarrow> \<exists>n body. ce_send E n (resource_query resource) = Api_reply 404 body)
   \<and> (mutations_of (snd (adapter_teardown E resource w)) = mutations_of w
      \<or> mutations_of (snd (adapter_teardown E resource w)) = mutations_of w @ [resource_delete resource])"
proof
  show "case fst (adapter_teardown E resource w) of Inl e \<Rightarrow> True
     | Inr _ \<Rightarrow> \<exists>n body. ce_send E n (resource_query resource) = Api_reply 404 body"
  proof (cases "fst (adapter_teardown E resource w)")
    case (Inr u)
    then have "\<exists>w1. fst (in_thread E (read_back E resource) w1) = Inl (RunPodAPIError (Some 404))"
      by (auto simp: adapter_teardown_def seqM_def try_elseM_def ret_def raiseM_def
          split: prod.splits sum.splits if_splits) (metis fst_conv)
    then obtain w1 where "fst (in_thread E (read_back E resource) w1) = Inl (RunPodAPIError (Some 404))"
      by blast
    then have "fst (read_back E resource (aw_client w1)) = Inl (RunPodAPIError (Some 404))"
      by (auto simp: in_thread_def on_client_def threaded_def split: prod.splits if_splits)
    from read_back_404 [OF assms this] show ?thesis by (simp add: Inr provider_env.truncate_def)
  qed simp
  show "mutations_of (snd (adapter_teardown E resource w)) = mutations_of w
      \<or> mutations_of (snd (adapter_teardown E resource w)) = mutations_of w @ [resource_delete resource]"
    using adapter_teardown_sends [of resource E] by (auto simp: sends_def one_more_def)
qed

section \<open>Only the reviewed workload is created\<close>

lemma dict_merge_lookup: "map_of (dict_merge base overrides) = map_of base ++ map_of (rev overrides)"
proof (induction overrides arbitrary: base)
  case (Cons kv overrides)
  obtain k v where "kv = (k, v)" by (cases kv)
  with Cons.IH [of "AList.update k v base"] show ?case
    by (simp add: dict_merge_def update_conv' map_add_def fun_eq_iff split: option.split)
qed (simp add: dict_merge_def)

lemma allowlist_digests:
  "allowlist_entries items allowed = Inr result \<Longrightarrow> \<forall>(n, d) \<in> set allowed. digest_reference d
   \<Longrightarrow> \<forall>(n, d) \<in> set result. digest_reference d"
proof (induction items allowed rule: allowlist_entries.induct)
  case (2 item items allowed)
  have pin: "digest_reference d" if "model_pin spec = Some (n, d)" for spec n d
    using that by (auto simp: model_pin_def split: prod.splits option.splits if_splits)
  let ?spec = "trim is_space item"
  show ?case
  proof (cases "?spec = []")
    case True
    with 2 show ?thesis by simp
  next
    case False
    with 2(3) obtain n d where nd: "model_pin ?spec = Some (n, d)" "n \<notin> fst ` set allowed"
        "allowlist_entries items (allowed @ [(n, d)]) = Inr result"
      by (auto simp: Let_def split: option.splits if_splits)
    from 2(2) [OF refl False nd(1) refl nd(2,3)] 2(4) pin [OF nd(1)] show ?thesis by simp
  qed
qed simp

definition reviewed_environment :: "adapter_env \<Rightarrow> OllamaLeaseRequest \<Rightarrow> OllamaResourceType
    \<Rightarrow> (string \<times> string) list \<Rightarrow> bool" where
  "reviewed_environment E q rtype env \<longleftrightarrow>
     (\<exists>token raw allowed digest.
        bearer_token_for E rtype = Inr token \<and> map_of env ''KESTREL_OLLAMA_BEARER_TOKEN'' = Some token
        \<and> 32 \<le> length token
        \<and> map_of env ''KESTREL_OLLAMA_BEARER_TOKEN_EXPIRES_AT'' = Some (pa_rfc3339 E (oq_hard_deadline q))
        \<and> map_of env ''KESTREL_OLLAMA_REQUIRED_MODEL'' = Some (oq_model q)
        \<and> map_of env ''KESTREL_OLLAMA_ALLOWED_MODELS'' = Some raw
        \<and> parse_ollama_model_allowlist raw = Inr allowed
        \<and> map_of allowed (oq_model q) = Some digest \<and> digest_reference digest)"

lemma allowed_models_digest:
  assumes "allowed_models env = Inr allowed" "model \<in> fst ` set allowed"
  shows "\<exists>raw digest. map_of env ''KESTREL_OLLAMA_ALLOWED_MODELS'' = Some raw
    \<and> parse_ollama_model_allowlist raw = Inr allowed \<and> map_of allowed model = Some digest \<and> digest_reference digest"
proof -
  from assms(1) obtain raw where raw: "map_of env ''KESTREL_OLLAMA_ALLOWED_MODELS'' = Some raw"
      "parse_ollama_model_allowlist raw = Inr allowed"
    by (auto simp: allowed_models_def split: option.splits if_splits)
  then have digests: "\<forall>(n, d) \<in> set allowed. digest_reference d"
    using allowlist_digests by (fastforce simp: parse_ollama_model_allowlist_def bindE_Inr split: if_splits)
  from assms(2) obtain d where d: "map_of allowed model = Some d"
    by (metis map_of_eq_None_iff not_None_eq)
  with map_of_SomeD [OF d] digests raw show ?thesis by blast
qed

lemma built_environment_reviewed:
  assumes "build_ollama_runtime_environment (pa_rfc3339 E) profile_env (oq_model q) token (oq_hard_deadline q)
      mode path t = Inr env" "bearer_token_for E rtype = Inr token"
  shows "reviewed_environment E q rtype env"
proof -
  from assms(1) obtain storage allowed where
    token: "\<not> bad_bearer token" and allowed: "allowed_models profile_env = Inr allowed"
      "oq_model q \<in> fst ` set allowed"
    and env: "env = dict_merge profile_env (runtime_settings (pa_rfc3339 E) (oq_model q) token
      (oq_hard_deadline q) mode storage t)"
    unfolding build_ollama_runtime_environment_def by (auto simp: bindE_Inr split: if_splits)
  obtain raw digest where
    "map_of profile_env ''KESTREL_OLLAMA_ALLOWED_MODELS'' = Some raw"
    "parse_ollama_model_allowlist raw = Inr allowed" "map_of allowed (oq_model q) = Some digest"
    "digest_reference digest"
    using allowed_models_digest [OF allowed] by blast
  with assms(2) token show ?thesis
    unfolding reviewed_environment_def env dict_merge_lookup
    by (auto simp: runtime_settings_def bad_bearer_def map_add_def)
qed

lemma runtime_environment_reviewed:
  assumes "runtime_environment E q mode t = Inr env" "mode = (if rtype = T_ENDPOINT then M_SERVERLESS else M_POD)"
  shows "reviewed_environment E q rtype env"
proof -
  have "(if mode = M_SERVERLESS then T_ENDPOINT else T_POD) = rtype" using assms(2) by (cases rtype) simp_all
  with assms(1) show ?thesis
    unfolding runtime_environment_def bindE_Inr by (auto dest!: built_environment_reviewed)
qed

definition reviewed_create :: "adapter_env \<Rightarrow> OllamaLeaseRequest \<Rightarrow> OllamaPlacementPlan \<Rightarrow> string
    \<Rightarrow> api_request \<Rightarrow> bool" where
  "reviewed_create E q p resource_name r \<longleftrightarrow>
     (\<exists>body img env.
        r = post (if op_resource_type p = T_ENDPOINT then ''/serverless'' else ''/pods'') (Some body)
        \<and> jget body ''name'' = JStr resource_name \<and> jget body ''image'' = JStr img
        \<and> immutable_image img \<and> fst (partition_at (CHR ''@'') img) = ollama_image_repository
        \<and> jget body ''env'' = text_object env \<and> reviewed_environment E q (op_resource_type p) env)"

lemma deployed_image_reviewed:
  "deployed_image E = Inr img \<Longrightarrow> immutable_image img \<and> fst (partition_at (CHR ''@'') img) = ollama_image_repository"
  by (auto simp: deployed_image_def bindE_Inr require_immutable_ollama_image_def split: if_splits)

lemma post_unsafe: "\<not> safe_to_retry (post path body)"
  by (simp add: post_def safe_to_retry_def safe_methods_def)

lemma create_pod_sends:
  "(\<And>payload. body = Inr payload \<Longrightarrow> P (post ''/pods'' (Some payload))) \<Longrightarrow> client_sends P (create_pod_request E body)"
  unfolding create_pod_request_def
  by (auto intro!: client_sends_lift client_sends_seq client_sends_request post_unsafe)

lemma create_endpoint_sends:
  "(\<And>payload. endpoint_request_payload request = Inr payload \<Longrightarrow> P (post ''/serverless'' (Some payload)))
   \<Longrightarrow> client_sends P (create_endpoint E request)"
  unfolding create_endpoint_def
  by (cases "ec_resource_schema_version request = ERV_GA")
    (auto intro!: client_sends_lift client_sends_seq client_sends_request post_unsafe intro: quiet_sends)

lemma endpoint_payload_fields:
  "endpoint_request_payload r = Inr body \<Longrightarrow> jget body ''name'' = JStr (ec_name r)
     \<and> jget body ''image'' = JStr (ec_image r) \<and> jget body ''env'' = text_object (ec_env r)"
  by (auto simp: endpoint_request_payload_def bindE_Inr)

lemma pod_payload_fields:
  "pod_request_payload r = Inr body \<Longrightarrow> jget body ''name'' = JStr (pc_name r)
     \<and> jget body ''image'' = JStr (pc_image r) \<and> jget body ''env'' = text_object (pc_env r)"
  by (auto simp: pod_request_payload_def container_payload_def bindE_Inr split: option.splits)

lemma constructed_Inr: "constructed check x = Inr y \<Longrightarrow> y = x"
  by (simp add: constructed_def split: option.splits)

lemma adapter_create_sends:
  assumes "immutable_image img \<and> fst (partition_at (CHR ''@'') img) = ollama_image_repository"
  shows "sends (reviewed_create E q p resource_name) (adapter_create E q p resource_name img t)"
proof (cases "op_resource_type p = T_ENDPOINT")
  case True
  have "reviewed_create E q p resource_name (post ''/serverless'' (Some payload))"
    if "runtime_environment E q M_SERVERLESS t = Inr env"
      "constructed endpoint_request_post_init (endpoint_request E q p resource_name img pool env) = Inr request"
      "endpoint_request_payload request = Inr payload" for env pool request payload
    using endpoint_payload_fields [OF that(3)] constructed_Inr [OF that(2)] assms True
      runtime_environment_reviewed [OF that(1), of T_ENDPOINT]
    by (auto simp: reviewed_create_def endpoint_request_def Let_def)
  with True show ?thesis unfolding adapter_create_def
    by (auto intro!: sends_lift sends_seq sends_in_thread create_endpoint_sends intro: sent
        split: option.split)
next
  case False
  have "reviewed_create E q p resource_name (post ''/pods'' (Some payload))"
    if "runtime_environment E q M_POD t = Inr env"
      "constructed pod_request_post_init (pod_request E q p resource_name img env) = Inr request"
      "pod_request_payload request = Inr payload" for env request payload
    using pod_payload_fields [OF that(3)] constructed_Inr [OF that(2)] assms False
      runtime_environment_reviewed [OF that(1), of "op_resource_type p"]
    by (auto simp: reviewed_create_def pod_request_def Let_def)
  with False show ?thesis unfolding adapter_create_def
    by (auto intro!: sends_lift sends_seq sends_in_thread create_pod_sends intro: sent)
qed

text \<open>
  C29.  Provisioning creates the reviewed workload only.  At most one request changes anything at the provider: a
  create of the resource type of the plan under the durable name, with the reviewed image by digest, and an
  environment in which the bearer token is the workload credential of that resource type (at least 32
  characters, expiring with the lease) and the required model is the requested one, pinned by digest in the
  allowlist of the operator.
\<close>

theorem provision_sends_reviewed_workload:
  "mutations_of (snd (adapter_provision E q p resource_name w)) = mutations_of w
   \<or> (\<exists>r. reviewed_create E q p resource_name r
        \<and> mutations_of (snd (adapter_provision E q p resource_name w)) = mutations_of w @ [r])"
proof -
  have "sends (reviewed_create E q p resource_name) (adapter_provision E q p resource_name)"
    unfolding adapter_provision_def
    by (intro sends_lift sends_after [OF silent_now] sends_seq adapter_create_sends deployed_image_reviewed)
      (auto intro: sent)
  then show ?thesis by (auto simp: sends_def one_more_def)
qed

section \<open>The token of a Pod is sent only behind its gateway\<close>

lemma http_get_run: "http_get E token url w =
   (let q = \<lparr> hr_method = ''GET'', hr_url = url, hr_bearer = credential token, hr_json = None \<rparr> in
    (Inr (pa_http E (cw_tick (aw_client w)) q),
     \<lparr> aw_client = (aw_client w)\<lparr>cw_tick := Suc (cw_tick (aw_client w))\<rparr>, aw_http = aw_http w @ [q] \<rparr>))"
  by (simp add: http_get_def Let_def)

lemma in_thread_http [simp]: "aw_http (snd (in_thread E m w)) = aw_http w"
  by (simp add: in_thread_def on_client_def split: prod.split)

lemma inference_route_https:
  "inference_route E i port protocol item = Some (Inr (Some url)) \<Longrightarrow> take 8 url = ''https://''"
  by (auto simp: inference_route_def split: if_splits json.splits option.splits)

lemma first_inference_route_https:
  "first_inference_route E i port protocol items = Inr (Some url) \<Longrightarrow> take 8 url = ''https://''"
  by (induction items) (auto split: option.splits dest: inference_route_https)

lemma inference_base_url_https:
  "inference_base_url E i payload port protocol = Inr (Some url) \<Longrightarrow> take 8 url = ''https://''"
  by (auto simp: inference_base_url_def Let_def split: if_splits json.splits dest: first_inference_route_https)

text \<open>What a probe asks and concludes: \<open>base\<close> is the origin of the Pod.\<close>

definition behind_gateway :: "adapter_env \<Rightarrow> string \<Rightarrow> http_request list \<Rightarrow> bool" where
  "behind_gateway E base asked \<longleftrightarrow>
     (case asked of
        [] \<Rightarrow> True
      | first # rest \<Rightarrow>
          hr_bearer first = None \<and> hr_url first = strip_trailing (CHR ''/'') base @ ''/api/tags''
          \<and> (rest = [] \<or> (\<exists>n status body. pa_http E n first = Http_response status body \<and> status \<in> {401, 403}))
          \<and> list_all (\<lambda>r. hr_url r \<in> {strip_trailing (CHR ''/'') base @ ''/ping'',
                strip_trailing (CHR ''/'') base @ ''/api/tags''}) rest)"

definition ready_rests_on :: "adapter_env \<Rightarrow> http_request list \<Rightarrow> bool" where
  "ready_rests_on E asked \<longleftrightarrow>
     (\<exists>n q status body. q \<in> set asked \<and> hr_bearer q = None
        \<and> pa_http E n q = Http_response status body \<and> status \<in> {401, 403})
     \<and> (\<exists>n q body. q \<in> set asked \<and> hr_bearer q = credential (pa_pod_bearer_token E)
        \<and> pa_http E n q = Http_response 200 body)"

lemma served_models_run:
  "\<exists>q. aw_http (snd (served_models E token base w)) = aw_http w @ [q]
     \<and> hr_url q = strip_trailing (CHR ''/'') base @ ''/api/tags''"
  by (auto simp: served_models_def seqM_def http_get_run Let_def ret_def raiseM_def split: http_reply.split)

abbreviation anonymous_request :: "string \<Rightarrow> http_request" where
  "anonymous_request u \<equiv> \<lparr> hr_method = ''GET'', hr_url = strip_trailing (CHR ''/'') u @ ''/api/tags'',
     hr_bearer = None, hr_json = None \<rparr>"

abbreviation ping_request :: "adapter_env \<Rightarrow> string \<Rightarrow> http_request" where
  "ping_request E u \<equiv> \<lparr> hr_method = ''GET'', hr_url = strip_trailing (CHR ''/'') u @ ''/ping'',
     hr_bearer = credential (pa_pod_bearer_token E), hr_json = None \<rparr>"

definition after_requests :: "http_request list \<Rightarrow> adapter_world \<Rightarrow> adapter_world" where
  "after_requests qs w = \<lparr> aw_client = (aw_client w)\<lparr>cw_tick := cw_tick (aw_client w) + length qs\<rparr>,
     aw_http = aw_http w @ qs \<rparr>"

lemma anonymous_run:
  assumes "credential base_url = Some u"
  shows "when_text base_url (rejects_anonymous_requests E) False w =
    (good_answer (\<lambda>s. s \<in> {401, 403}) (pa_http E (cw_tick (aw_client w)) (anonymous_request u)),
     after_requests [anonymous_request u] w)"
  using assms
  by (simp add: when_text_def rejects_anonymous_requests_def seqM_def liftM_def http_get_run credential_def
      Let_def after_requests_def)

lemma ping_run:
  assumes "credential base_url = Some u"
  shows "when_text base_url (\<lambda>u. healthy E (pa_pod_bearer_token E) (strip_trailing (CHR ''/'') u @ ''/ping'')) False
      (after_requests [q] w) =
    (good_answer (\<lambda>s. s = 200) (pa_http E (Suc (cw_tick (aw_client w))) (ping_request E u)),
     after_requests [q, ping_request E u] w)"
  using assms
  by (simp add: when_text_def healthy_def seqM_def liftM_def http_get_run Let_def after_requests_def)

lemma probe_open_pod:
  assumes "credential base_url = Some u"
    "good_answer (\<lambda>s. s \<in> {401, 403}) (pa_http E (cw_tick (aw_client w)) (anonymous_request u)) \<noteq> Inr True"
  shows "snd (probe_pod E status base_url w) = after_requests [anonymous_request u] w
    \<and> (case fst (probe_pod E status base_url w) of Inl e \<Rightarrow> True | Inr (ready, names) \<Rightarrow> \<not> ready \<and> names = [])"
  using assms by (auto simp: probe_pod_def seqM_def anonymous_run ret_def Let_def split: sum.splits)

lemma probe_unready_pod:
  assumes "credential base_url = Some u"
    "good_answer (\<lambda>s. s \<in> {401, 403}) (pa_http E (cw_tick (aw_client w)) (anonymous_request u)) = Inr True"
    "good_answer (\<lambda>s. s = 200) (pa_http E (Suc (cw_tick (aw_client w))) (ping_request E u)) \<noteq> Inr True
       \<or> upper status \<noteq> ''RUNNING''"
  shows "snd (probe_pod E status base_url w) = after_requests [anonymous_request u, ping_request E u] w
    \<and> (case fst (probe_pod E status base_url w) of Inl e \<Rightarrow> True | Inr (ready, names) \<Rightarrow> \<not> ready \<and> names = [])"
  using assms by (auto simp: probe_pod_def seqM_def anonymous_run ping_run ret_def Let_def split: sum.splits)

lemma probe_ready_pod:
  assumes "credential base_url = Some u"
    "good_answer (\<lambda>s. s \<in> {401, 403}) (pa_http E (cw_tick (aw_client w)) (anonymous_request u)) = Inr True"
    "good_answer (\<lambda>s. s = 200) (pa_http E (Suc (cw_tick (aw_client w))) (ping_request E u)) = Inr True"
    "upper status = ''RUNNING''"
  shows "(\<exists>q. aw_http (snd (probe_pod E status base_url w))
        = aw_http w @ [anonymous_request u, ping_request E u, q]
      \<and> hr_url q = strip_trailing (CHR ''/'') u @ ''/api/tags'')
    \<and> (case fst (probe_pod E status base_url w) of Inl e \<Rightarrow> True | Inr (ready, names) \<Rightarrow> ready)"
proof -
  let ?w = "after_requests [anonymous_request u, ping_request E u] w"
  have models: "when_text base_url (served_models E (pa_pod_bearer_token E)) [] ?w
      = served_models E (pa_pod_bearer_token E) u ?w"
    using assms(1) by (simp add: when_text_def)
  have "aw_http ?w = aw_http w @ [anonymous_request u, ping_request E u]" by (simp add: after_requests_def)
  with served_models_run [of E "pa_pod_bearer_token E" u ?w] assms models show ?thesis
    by (auto simp: probe_pod_def seqM_def anonymous_run ping_run ret_def Let_def split: sum.split prod.split)
qed

lemma answeredD:
  "good_answer good reply = Inr True \<Longrightarrow> \<exists>status body. reply = Http_response status body \<and> good status"
  by (auto simp: good_answer_def split: http_reply.splits)

lemma probe_pod_behind_gateway:
  "\<exists>asked. aw_http (snd (probe_pod E status base_url w)) = aw_http w @ asked
     \<and> behind_gateway E (text_or base_url []) asked
     \<and> (case fst (probe_pod E status base_url w) of
          Inl e \<Rightarrow> True
        | Inr (ready, names) \<Rightarrow> if ready then ready_rests_on E asked else names = [])"
proof (cases "credential base_url")
  case None
  then show ?thesis
    by (intro exI [of _ "[]"])
      (simp add: probe_pod_def when_text_def seqM_def ret_def Let_def behind_gateway_def)
next
  case u: (Some u)
  then have base: "text_or base_url [] = u" by (auto simp: credential_def text_or_def split: option.splits if_splits)
  let ?n = "cw_tick (aw_client w)"
  let ?refused = "good_answer (\<lambda>s. s \<in> {401, 403}) (pa_http E ?n (anonymous_request u)) = Inr True"
  let ?healthy = "good_answer (\<lambda>s. s = 200) (pa_http E (Suc ?n) (ping_request E u)) = Inr True"
  show ?thesis
  proof (cases ?refused)
    case False
    from probe_open_pod [OF u False, of status] base show ?thesis
      by (intro exI [of _ "[anonymous_request u]"])
        (auto simp: behind_gateway_def after_requests_def split: sum.splits)
  next
    case refused: True
    from answeredD [OF refused] obtain s b where r1: "pa_http E ?n (anonymous_request u) = Http_response s b"
      "s \<in> {401, 403}" by blast
    show ?thesis
    proof (cases "?healthy \<and> upper status = ''RUNNING''")
      case False
      with probe_unready_pod [OF u refused, of status] base r1 show ?thesis
        by (intro exI [of _ "[anonymous_request u, ping_request E u]"])
          (auto simp: behind_gateway_def after_requests_def split: sum.splits)
    next
      case True
      then obtain q where q: "aw_http (snd (probe_pod E status base_url w))
          = aw_http w @ [anonymous_request u, ping_request E u, q]"
        "hr_url q = strip_trailing (CHR ''/'') u @ ''/api/tags''"
        and ready: "case fst (probe_pod E status base_url w) of Inl e \<Rightarrow> True | Inr (ready, names) \<Rightarrow> ready"
        using probe_ready_pod [OF u refused] by blast
      from True answeredD obtain b2 where "pa_http E (Suc ?n) (ping_request E u) = Http_response 200 b2" by blast
      with r1 have "ready_rests_on E [anonymous_request u, ping_request E u, q]"
        unfolding ready_rests_on_def
        by (intro conjI exI [of _ ?n] exI [of _ "Suc ?n"] exI [of _ "anonymous_request u"] exI [of _ "ping_request E u"])
          auto
      with q ready r1 base show ?thesis
        by (intro exI [of _ "[anonymous_request u, ping_request E u, q]"])
          (auto simp: behind_gateway_def split: sum.splits)
    qed
  qed
qed

text \<open>
  C30.  A Pod token is not given to an open Pod.  Of the requests that one readiness check sends to the Pod, the first
  is anonymous; any request with the token is sent only after that one was answered with 401 or 403.  All go to
  the same HTTPS origin.  The Pod is reported ready only when it refused the anonymous request and
  answered the authenticated health check with 200; otherwise no model is reported.
\<close>

theorem pod_token_behind_gateway:
  "\<exists>asked base. aw_http (snd (observe_pod E pod_id w)) = aw_http w @ asked
     \<and> (asked = [] \<or> take 8 base = ''https://'') \<and> behind_gateway E base asked
     \<and> (case fst (observe_pod E pod_id w) of
          Inl e \<Rightarrow> True
        | Inr ob \<Rightarrow> if oo_provider_ready ob then ready_rests_on E asked else oo_model_names ob = [])"
proof -
  let ?profile = "dp_profile (pa_deployment E)"
  obtain got w1 where get: "in_thread E (get_pod (client_of E) pod_id) w = (got, w1)"
    by (cases "in_thread E (get_pod (client_of E) pod_id) w")
  then have w1: "aw_http w1 = aw_http w" using in_thread_http by (metis snd_conv)
  show ?thesis
  proof (cases got)
    case (Inl e)
    with get w1 show ?thesis
      by (intro exI [of _ "[]"]) (simp add: observe_pod_def seqM_def Let_def behind_gateway_def)
  next
    case (Inr pod)
    define url where "url = inference_base_url (base_of E) pod_id (po_raw pod) (gp_inference_port ?profile)
        (gp_inference_protocol ?profile)"
    show ?thesis
    proof (cases url)
      case (Inl e)
      with get Inr w1 show ?thesis
        by (intro exI [of _ "[]"])
          (simp add: observe_pod_def seqM_def Let_def liftM_def behind_gateway_def flip: url_def)
    next
      case u: (Inr base_url)
      obtain asked where a: "aw_http (snd (probe_pod E (po_status pod) base_url w1)) = aw_http w1 @ asked"
        "behind_gateway E (text_or base_url []) asked"
        "case fst (probe_pod E (po_status pod) base_url w1) of Inl e \<Rightarrow> True
         | Inr (ready, names) \<Rightarrow>
             if ready then ready_rests_on E asked else names = []"
        using probe_pod_behind_gateway by blast
      have "asked = [] \<or> take 8 (text_or base_url []) = ''https://''"
      proof (cases "text_or base_url []")
        case Nil
        then have "probe_pod E (po_status pod) base_url w1 = (Inr (False, []), w1)"
          by (auto simp: probe_pod_def when_text_def credential_def text_or_def seqM_def ret_def Let_def
              split: option.splits if_splits)
        with a(1) show ?thesis by simp
      next
        case (Cons c cs)
        then have "base_url = Some (text_or base_url [])"
          by (auto simp: text_or_def split: option.splits if_splits)
        with u url_def have "take 8 (text_or base_url []) = ''https://''"
          using inference_base_url_https by metis
        then show ?thesis ..
      qed
      with get Inr w1 u a show ?thesis
        by (intro exI [of _ asked] exI [of _ "text_or base_url []"])
          (auto simp: observe_pod_def seqM_def Let_def liftM_def ret_def simp flip: url_def
            split: sum.splits prod.splits if_splits)
    qed
  qed
qed

end
