(* ===== verification/Ollama_Samples.thy ===== *)
theory Ollama_Samples
  imports Ollama_Properties
begin

text \<open>
  Concrete values for the Ollama lease service: a request, a dedicated Pod plan, a provider that creates and
  tears down, and a run that acquires a lease and releases it; with the witnesses of the properties.
\<close>

section \<open>Definitions\<close>

definition sample_ollama_constraints :: OllamaResourceConstraints where
  "sample_ollama_constraints = \<lparr> ox_min_vram_gb = 24, ox_gpu_count = 1, ox_cloud = SECURE, ox_min_cuda_version = None,
     ox_allowed_gpu_ids = [], ox_allowed_gpu_pools = [], ox_allowed_data_center_ids = [],
     ox_max_hourly_rate = None \<rparr>"

definition sample_ollama_request :: OllamaLeaseRequest where
  "sample_ollama_request = \<lparr> oq_lease_id = ''lease-1'', oq_owner_id = ''owner'', oq_workload_id = ''work'',
     oq_model = ''llama3'', oq_constraints = sample_ollama_constraints, oq_expected_session_seconds = 3600,
     oq_expected_active_seconds = 600, oq_serverless_initialization_seconds = 60,
     oq_serverless_idle_tail_seconds = 60, oq_idle_timeout_seconds = 900, oq_readiness_timeout_seconds = 900,
     oq_hard_deadline = Aware 7200000000, oq_max_authorized_cost = Fin 5, oq_mode = M_POD,
     oq_requested_at = None \<rparr>"

definition sample_ollama_decision :: PlacementDecision where
  "sample_ollama_decision = \<lparr> pd_gpu_id = ''gpu'', pd_gpu_pool = None, pd_gpu_name = ''GPU'', pd_memory_gb = 24,
     pd_cloud = SECURE, pd_gpu_count = 1, pd_offered_cost_per_hr = Fin (1 / 2), pd_availability = Some AV_HIGH,
     pd_catalog_observed_at = Aware 0,
     pd_requirements = \<lparr> pr_product = POD, pr_min_vram_gb = 24, pr_gpu_count = 1, pr_cloud = SECURE,
       pr_min_cuda_version = None, pr_max_cost_per_hr = None, pr_allowed_gpu_ids = [], pr_allowed_gpu_pools = [],
       pr_allowed_data_center_ids = [], pr_minimum_availability = AV_LOW,
       pr_benchmark_id = Some ''ollama-interactive'' \<rparr> \<rparr>"

definition sample_ollama_plan :: OllamaPlacementPlan where
  "sample_ollama_plan = \<lparr> op_mode = M_POD, op_resource_type = T_POD, op_placement = sample_ollama_decision,
     op_estimated_compute_cost = Fin (1 / 2), op_maximum_compute_cost = Fin 1,
     op_estimated_non_compute_cost = Fin 0, op_maximum_non_compute_cost = Fin 0,
     op_estimated_cost = Fin (1 / 2), op_cost_ceiling = Fin 1, op_estimated_billable_seconds = 3600,
     op_maximum_billable_seconds = 7200, op_maximum_concurrent_workers = 1,
     op_non_compute_components = [X_CONTAINER_DISK], op_maximum_serverless_cold_starts = 0 \<rparr>"

definition sample_ollama_provider :: ollama_provider where
  "sample_ollama_provider = \<lparr> up_validate = \<lambda>n q. Inr (), up_plan = \<lambda>n q. Inr sample_ollama_plan,
     up_provision = \<lambda>n q p s. Inr \<lparr> ow_resource_type = T_POD, ow_provider_resource_id = ''pod-1'', ow_resource_name = s \<rparr>,
     up_find = \<lambda>n y s. Inr None, up_observe = \<lambda>n r. Inl RunPodManagerError,
     up_pull = \<lambda>n r u m. Inr (), up_teardown = \<lambda>n r. Inr () \<rparr>"

definition sample_ollama_env :: ollama_env where
  "sample_ollama_env = \<lparr> ue_interfere = \<lambda>n x. x, ue_wall_clock = \<lambda>n. Aware (int n), ue_sha = \<lambda>s. s,
     ue_jsha = \<lambda>j. [], ue_fuel = 10, ue_clock = \<lambda>n. Aware (int n), ue_sleep = \<lambda>n. Inr (),
     ue_cancelled = \<lambda>n. False, ue_error_text = \<lambda>e. [], ue_provider = sample_ollama_provider \<rparr>"

definition sample_ollama_acquire :: "(ollama_env \<times> ollama_call) list" where
  "sample_ollama_acquire = [(sample_ollama_env, OCall_acquire sample_ollama_request False None)]"

definition sample_ollama_release :: "(ollama_env \<times> ollama_call) list" where
  "sample_ollama_release = [(sample_ollama_env, OCall_release ''lease-1'' ''owner'' ''work''),
     (sample_ollama_env, OCall_reconcile)]"

lemma sample_ollama_rely [simp]: "ollama_rely sample_ollama_env"
  by (simp add: ollama_rely_def sample_ollama_env_def sample_ollama_provider_def)

lemma acquire_rely: "\<forall>(E, c) \<in> set sample_ollama_acquire. ollama_rely E"
  and release_rely: "\<forall>(E, c) \<in> set sample_ollama_release. ollama_rely E"
  and run_rely: "\<forall>(E, c) \<in> set (sample_ollama_acquire @ sample_ollama_release). ollama_rely E"
  by (simp_all add: sample_ollama_acquire_def sample_ollama_release_def)

definition sample_ollama_world :: ollama_world where
  "sample_ollama_world = empty_ollama_world
     \<lparr>uw_table := [ollama_new_row sample_ollama_env sample_ollama_request (Aware 0)]\<rparr>"

lemma sample_ollama_inv [simp]: "ollama_inv sample_ollama_world"
  by (simp add: ollama_inv_def ol_table_inv_def sample_ollama_world_def empty_ollama_world_def created_def ollama_new_row_inv)

lemma sample_ollama_row: "lease_row (uw_table sample_ollama_world) ''lease-1''
    = Some (ollama_new_row sample_ollama_env sample_ollama_request (Aware 0))"
  by (simp add: sample_ollama_world_def empty_ollama_world_def lease_row_def sample_ollama_request_def)

lemma created_once:
  "created (uw_effects (exec_ollama_calls sample_ollama_acquire sample_ollama_world)) = [''lease-1'']"
  by code_simp

section \<open>Witnesses\<close>

theorem ollama_lease_lifecycle_witness:
  "\<exists>r'. lease_row (uw_table (exec_ollama_calls (sample_ollama_acquire @ sample_ollama_release) sample_ollama_world))
      ''lease-1'' = Some r' \<and> lifecycle L_REQUESTED (ol_state r') \<and> ol_owner_id r' = ''owner''"
  using ollama_lease_lifecycle [OF run_rely sample_ollama_inv sample_ollama_row]
  by (auto simp: ollama_new_row_def Let_def ol_identity_def sample_ollama_request_def)

theorem ollama_creates_accounted_witness:
  "\<exists>r. lease_row (uw_table (exec_ollama_calls (sample_ollama_acquire @ sample_ollama_release) sample_ollama_world))
      ''lease-1'' = Some r \<and> (ol_state r = L_TERMINATED \<longrightarrow> ol_teardown_state r = D_COMPLETE)"
proof -
  from exec_ollama_calls_ok [OF run_rely sample_ollama_inv]
  have "ol_table_evolves (uw_table sample_ollama_world)
    (uw_table (exec_ollama_calls (sample_ollama_acquire @ sample_ollama_release) sample_ollama_world))"
    by (simp add: ollama_guar_def)
  from ol_table_evolvesD [OF this sample_ollama_row] obtain r where
    "lease_row (uw_table (exec_ollama_calls (sample_ollama_acquire @ sample_ollama_release) sample_ollama_world))
      ''lease-1'' = Some r" by blast
  with ollama_creates_accounted [OF run_rely sample_ollama_inv this] show ?thesis by blast
qed

theorem ollama_creates_once_witness:
  "distinct (created (uw_effects (exec_ollama_calls sample_ollama_acquire sample_ollama_world)))
   \<and> created (uw_effects (exec_ollama_calls sample_ollama_acquire sample_ollama_world)) = [''lease-1'']"
  using ollama_creates_once [OF acquire_rely sample_ollama_inv] created_once by blast

end
