(* ===== verification/Ollama_Deployment.thy ===== *)
theory Ollama_Deployment
  imports Ollama_Adapter Ollama_Samples
begin

text \<open>
  The lease service together with its adapter, and with other copies of itself as the only other writers of
  the table: nothing is left to assume of them.  And the end of every operation once the clock advances.
\<close>

section \<open>The adapter never answers with an empty resource id\<close>

lemma string_field_nonempty: "string_field v k = Inr s \<Longrightarrow> s \<noteq> []"
  by (auto simp: string_field_def split: json.splits if_splits)

lemma pod_id_nonempty: "pod_from_dict fl v = Inr p \<Longrightarrow> po_id p \<noteq> []"
  unfolding pod_from_dict_def Let_def
  by (auto simp: bindE_Inr dest: string_field_nonempty split: if_splits sum.splits)

lemma endpoint_id_nonempty: "endpoint_from_dict v = Inr r \<Longrightarrow> er_id r \<noteq> []"
  unfolding endpoint_from_dict_def
  by (auto simp: bindE_Inr dest: string_field_nonempty split: json.splits option.splits)

lemma mapE_mem: "mapE f xs = Inr ys \<Longrightarrow> y \<in> set ys \<Longrightarrow> \<exists>x. f x = Inr y"
  by (induction xs arbitrary: ys) (auto simp: bindE_Inr)

lemma list_resources_mem:
  assumes "fst (list_resources E path key params parse w) = Inr xs" "x \<in> set xs"
  shows "\<exists>item. parse item = Inr x"
  using walk_pagesD [of "ce_max_inventory_pages E" E path key params parse None "[]" "[]" w xs] assms
  by (cases "list_resources E path key params parse w") (auto simp: list_resources_def dest: mapE_mem)

lemma fst_seq_Inr: "fst (seqM m f w) = Inr y \<Longrightarrow> \<exists>x w1. m w = (Inr x, w1) \<and> fst (f x w1) = Inr y"
  by (auto simp: seqM_def split: prod.splits sum.splits)

lemma fst_lift_Inr [simp]: "fst (liftM r w) = r" "fst (ret x w) = Inr x" "fst (raiseM e w) = Inl e"
  by (simp_all add: liftM_def ret_def raiseM_def)

lemma in_thread_Inr: "fst (in_thread E m w) = Inr x \<Longrightarrow> \<exists>c. fst (m c) = Inr x"
  by (auto simp: in_thread_def on_client_def threaded_def split: prod.splits if_splits) (metis fst_conv)

lemma in_thread_InrD: "in_thread E m w = (Inr x, w') \<Longrightarrow> \<exists>c. fst (m c) = Inr x"
  using in_thread_Inr by (metis fst_conv)

lemma create_endpoint_id: "fst (create_endpoint E request w) = Inr r \<Longrightarrow> er_id r \<noteq> []"
  unfolding create_endpoint_def
  by (auto dest!: fst_seq_Inr simp: bindE_Inr dest: endpoint_id_nonempty split: if_splits)

lemma create_pod_id: "fst (create_pod_request E body w) = Inr p \<Longrightarrow> po_id p \<noteq> []"
  unfolding create_pod_request_def
  by (auto dest!: fst_seq_Inr simp: bindE_Inr dest: pod_id_nonempty split: sum.splits)

lemma adapter_create_id: "fst (adapter_create E q p name img t w) = Inr i \<Longrightarrow> i \<noteq> []"
  unfolding adapter_create_def
  by (auto dest!: fst_seq_Inr in_thread_InrD create_endpoint_id create_pod_id split: if_splits option.splits)

lemma adapter_provision_id:
  "fst (adapter_provision E q p name w) = Inr r \<Longrightarrow> ow_provider_resource_id r \<noteq> []"
proof -
  assume "fst (adapter_provision E q p name w) = Inr r"
  then obtain img t i w1 w2 where "adapter_create E q p name img t w1 = (Inr i, w2)"
      "ow_provider_resource_id r = i"
    unfolding adapter_provision_def by (auto dest!: fst_seq_Inr)
  with adapter_create_id [of E q p name img t w1] show ?thesis by simp
qed

lemma inventory_ids:
  assumes "fst (inventory E rtype c) = Inr resources" "(i, n) \<in> set resources"
  shows "i \<noteq> []"
proof (cases "rtype = T_ENDPOINT")
  case True
  with assms obtain es where "fst (list_endpoints (client_of E) c) = Inr es" "\<exists>r \<in> set es. i = er_id r"
    by (auto simp: inventory_def dest!: fst_seq_Inr) (metis fst_conv)
  with list_resources_mem show ?thesis unfolding list_endpoints_def by (metis endpoint_id_nonempty)
next
  case False
  with assms obtain ps where "fst (list_pods (client_of E) c) = Inr ps" "\<exists>r \<in> set ps. i = po_id r"
    by (auto simp: inventory_def dest!: fst_seq_Inr) (metis fst_conv)
  with list_resources_mem show ?thesis unfolding list_pods_def by (metis pod_id_nonempty)
qed

lemma adapter_find_id:
  assumes "fst (adapter_find E rtype name w) = Inr (Some r)"
  shows "ow_provider_resource_id r \<noteq> []"
proof -
  from assms obtain resources w1 where found: "in_thread E (inventory E rtype) w = (Inr resources, w1)"
    and pick: "fst ((case filter (\<lambda>(i, n). n = name) resources of
       [] \<Rightarrow> ret None
     | [(i, n)] \<Rightarrow> ret (Some \<lparr> ow_resource_type = rtype, ow_provider_resource_id = i, ow_resource_name = name \<rparr>)
     | _ \<Rightarrow> raiseM RunPodManagerError) w1) = Inr (Some r)"
    unfolding adapter_find_def by (blast dest: fst_seq_Inr)
  from pick obtain n where "filter (\<lambda>(i, n). n = name) resources = [(ow_provider_resource_id r, n)]"
    by (auto split: list.splits)
  then have "(ow_provider_resource_id r, n) \<in> set resources"
    using filter_is_subset [of "\<lambda>(i, n). n = name" resources] by simp
  with in_thread_InrD [OF found] inventory_ids show ?thesis by metis
qed

section \<open>A closed deployment\<close>

text \<open>The other writers of the table are processes that run operations of this service.\<close>

definition by_peers :: "(nat \<Rightarrow> (ollama_env \<times> ollama_call) list) \<Rightarrow> nat \<Rightarrow> OllamaLease list \<times> string list
    \<Rightarrow> OllamaLease list \<times> string list" where
  "by_peers calls n = (\<lambda>(t, a).
     let w = exec_ollama_calls (calls n) \<lparr> uw_table = t, uw_absent = a, uw_tick = n, uw_effects = [] \<rparr>
     in (uw_table w, uw_absent w))"

lemma by_peers_ok:
  assumes "\<forall>(E, c) \<in> set (calls n). ollama_rely E" "ol_table_inv a t"
  shows "case by_peers calls n (t, a) of (t', a') \<Rightarrow>
    ol_table_inv a' t' \<and> ol_table_evolves t t' \<and> set a \<subseteq> set a'"
proof -
  let ?w = "\<lparr> uw_table = t, uw_absent = a, uw_tick = n, uw_effects = [] \<rparr>"
  have "ollama_inv ?w" using assms(2) by (simp add: ollama_inv_def created_def)
  from exec_ollama_calls_ok [OF assms(1) this] show ?thesis
    by (simp add: by_peers_def Let_def ollama_inv_def ollama_guar_def)
qed

text \<open>
  C31.  The service and its adapter fit together.  With the adapter of \<^verbatim>\<open>ollama_provider.py\<close> as provider, and with
  any operations of this service, run by other processes against providers that do the same, as the only
  other writers of the table, the condition under which the properties of the lease service are proved
  holds: no answer of Runpod is assumed to be of any form.
\<close>

theorem ollama_deployment_closed:
  assumes "\<forall>n. \<forall>(E', c) \<in> set (calls n). ollama_rely E'"
  shows "ollama_rely (E\<lparr>ue_interfere := by_peers calls, ue_provider := adapter_of Es\<rparr>)"
proof -
  have "case by_peers calls n (t, a) of (t', a') \<Rightarrow>
    ol_table_inv a' t' \<and> ol_table_evolves t t' \<and> set a \<subseteq> set a'" if "ol_table_inv a t" for n t a
    using by_peers_ok [OF spec [OF assms] that] .
  then show ?thesis
    unfolding ollama_rely_def adapter_of_def
    by (auto dest: adapter_provision_id adapter_find_id)
qed

end
