(* ===== verification/Ollama_Termination.thy ===== *)
theory Ollama_Termination
  imports Ollama_Deployment
begin

text \<open>
  The polling loop of the lease service ends.  Time is the number of calls made to the outside, and the
  clock advances with it; the readiness deadline of a lease is fixed, so the loop reaches it.
\<close>

section \<open>Programs that end\<close>

text \<open>Started anywhere, the program ends, does not set the number of calls back and returns only values with \<open>P\<close>.\<close>

definition ends :: "('a \<Rightarrow> bool) \<Rightarrow> (ollama_world, 'a) prog \<Rightarrow> bool" where
  "ends P m \<longleftrightarrow> (\<forall>w. uw_tick w \<le> uw_tick (snd (m w))
     \<and> (case fst (m w) of Inl e \<Rightarrow> e \<noteq> Diverged | Inr x \<Rightarrow> P x))"

named_theorems ending

lemma endsI: "(\<And>w r w'. m w = (r, w') \<Longrightarrow> uw_tick w \<le> uw_tick w'
    \<and> (case r of Inl e \<Rightarrow> e \<noteq> Diverged | Inr x \<Rightarrow> P x)) \<Longrightarrow> ends P m"
  unfolding ends_def by (metis prod.collapse)

lemma endsD: "ends P m \<Longrightarrow> m w = (r, w') \<Longrightarrow> uw_tick w \<le> uw_tick w'
    \<and> (case r of Inl e \<Rightarrow> e \<noteq> Diverged | Inr x \<Rightarrow> P x)"
  unfolding ends_def by (metis fst_conv snd_conv)

lemma ends_weaken: "ends P m \<Longrightarrow> (\<And>x. P x \<Longrightarrow> Q x) \<Longrightarrow> ends Q m"
  unfolding ends_def by (metis (mono_tags, lifting) old.sum.exhaust old.sum.simps(5,6))

lemma ends_ret: "P x \<Longrightarrow> ends P (ret x)"
  by (simp add: ends_def ret_def)

lemma ends_raise: "e \<noteq> Diverged \<Longrightarrow> ends P (raiseM e)"
  by (simp add: ends_def raiseM_def)

lemma ends_lift: "(\<And>e. r = Inl e \<Longrightarrow> e \<noteq> Diverged) \<Longrightarrow> (\<And>x. r = Inr x \<Longrightarrow> P x) \<Longrightarrow> ends P (liftM r)"
  by (simp add: ends_def liftM_def split: sum.split)

lemma ends_seq: "ends P m \<Longrightarrow> (\<And>x. P x \<Longrightarrow> ends Q (f x)) \<Longrightarrow> ends Q (seqM m f)"
  by (rule endsI) (fastforce simp: seqM_def dest: endsD split: prod.splits sum.splits)

lemma ends_try: "ends P m \<Longrightarrow> (\<And>e. e \<noteq> Diverged \<Longrightarrow> ends P (h e)) \<Longrightarrow> ends P (tryM m h)"
  by (rule endsI) (fastforce simp: tryM_def dest: endsD split: prod.splits sum.splits)

lemma ends_catch: "ends P m \<Longrightarrow> (\<And>e. ends Q (h e)) \<Longrightarrow> (\<And>x. P x \<Longrightarrow> ends Q (f x)) \<Longrightarrow> ends Q (catch_manager m h f)"
  unfolding catch_manager_def
  by (rule endsI) (fastforce simp: try_elseM_def raiseM_def dest: endsD split: prod.splits sum.splits if_splits)

lemma ends_if: "(c \<Longrightarrow> ends P m) \<Longrightarrow> (\<not> c \<Longrightarrow> ends P m') \<Longrightarrow> ends P (if c then m else m')"
  by simp

lemma ends_outside: "(\<And>n. f n \<noteq> Inl Diverged) \<Longrightarrow> ends (\<lambda>_. True) (outside f)"
  by (auto simp: ends_def outside_def split: sum.split)

lemma ends_effect: "(\<And>n. f n \<noteq> Inl Diverged) \<Longrightarrow> ends (\<lambda>_. True) (effect_call eff f)"
  by (auto simp: ends_def effect_call_def split: sum.split)

lemma ends_now [ending]: "ends (\<lambda>_. True) (ollama_now E)"
  unfolding ollama_now_def by (rule ends_outside) simp

section \<open>The operations of a poll\<close>

lemma apply_ocs_id [simp]: "ol_lease_id (apply_ocs cs r) = ol_lease_id r"
proof -
  have one: "ol_lease_id (apply_oc c r) = ol_lease_id r" for c r by (cases c) simp_all
  show ?thesis unfolding apply_ocs_def by (induction cs arbitrary: r) (simp_all add: one)
qed

text \<open>\<open>same_lease k target\<close>: the lease is the one with key \<open>k\<close>, in state \<open>target\<close> if one is given.\<close>

definition same_lease :: "string \<Rightarrow> OllamaLeaseState option \<Rightarrow> OllamaLease \<Rightarrow> bool" where
  "same_lease k target l \<longleftrightarrow> ol_lease_id l = k \<and> (case target of None \<Rightarrow> True | Some s \<Rightarrow> ol_state l = s)"

lemma same_lease_None [simp]: "same_lease k None l \<longleftrightarrow> ol_lease_id l = k"
  by (simp add: same_lease_def)

lemma same_lease_weaken: "same_lease k target l \<Longrightarrow> ol_lease_id l = k"
  by (simp add: same_lease_def)

fun keeps_state :: "ollama_change \<Rightarrow> bool" where
  "keeps_state (OC_state _) = False"
| "keeps_state _ = True"

lemma apply_ocs_state: "list_all keeps_state cs \<Longrightarrow> ol_state (apply_ocs cs r) = ol_state r"
proof -
  have one: "keeps_state c \<Longrightarrow> ol_state (apply_oc c r) = ol_state r" for c r by (cases c) simp_all
  show "list_all keeps_state cs \<Longrightarrow> ol_state (apply_ocs cs r) = ol_state r"
    unfolding apply_ocs_def by (induction cs arbitrary: r) (simp_all add: one)
qed

lemma cas_result:
  assumes "ollama_cas E l cs w = (Inr l', w')"
  shows "\<exists>r t n. ol_lease_id r = ol_lease_id l
    \<and> l' = (apply_ocs (if list_ex sets_ollama_updated_at cs then cs else cs @ [OC_updated_at t]) r)
        \<lparr>ol_revision := n\<rparr>"
  using assms
  by (auto simp: ollama_cas_def lease_cas_def ollama_from_row_def Let_def
      split: if_splits sum.splits option.splits dest!: find_Some_mem; blast)

lemma ends_cas_any: "ends (\<lambda>l'. \<exists>r t n. ol_lease_id r = ol_lease_id l
    \<and> l' = (apply_ocs (if list_ex sets_ollama_updated_at cs then cs else cs @ [OC_updated_at t]) r)
        \<lparr>ol_revision := n\<rparr>) (ollama_cas E l cs)"
proof (rule endsI)
  fix w r w'
  assume run: "ollama_cas E l cs w = (r, w')"
  then have "uw_tick w \<le> uw_tick w'" "r \<noteq> Inl Diverged"
    by (auto simp: ollama_cas_def lease_cas_def ollama_from_row_def ollama_transaction_def Let_def
        split: if_splits sum.splits option.splits prod.splits)
  with cas_result [of E l cs w] run show "uw_tick w \<le> uw_tick w' \<and> (case r of Inl e \<Rightarrow> e \<noteq> Diverged
    | Inr l' \<Rightarrow> \<exists>r t n. ol_lease_id r = ol_lease_id l
        \<and> l' = (apply_ocs (if list_ex sets_ollama_updated_at cs then cs else cs @ [OC_updated_at t]) r)
            \<lparr>ol_revision := n\<rparr>)"
    by (cases r) simp_all
qed

lemma ends_cas [ending]: "ends (same_lease (ol_lease_id l) None) (ollama_cas E l cs)"
  by (rule ends_weaken [OF ends_cas_any]) auto

lemma ends_move:
  assumes "list_all keeps_state cs"
  shows "ends (same_lease (ol_lease_id l) (Some target)) (ollama_transition E l target cs)"
proof -
  have "ol_state (apply_ocs (if b then OC_state target # cs else (OC_state target # cs) @ [OC_updated_at t]) r)
      = target" for b t r
    using assms by (cases b) (simp_all add: apply_ocs_def apply_ocs_state [unfolded apply_ocs_def])
  then show ?thesis unfolding ollama_transition_def
    by (intro ends_if ends_raise ends_weaken [OF ends_cas_any]) (auto simp: same_lease_def)
qed

definition answers_end :: "ollama_env \<Rightarrow> bool" where
  "answers_end E \<longleftrightarrow>
     (\<forall>n y s. up_find (ue_provider E) n y s \<noteq> Inl Diverged)
     \<and> (\<forall>n r. up_observe (ue_provider E) n r \<noteq> Inl Diverged)
     \<and> (\<forall>n r u m. up_pull (ue_provider E) n r u m \<noteq> Inl Diverged)
     \<and> (\<forall>n r. up_teardown (ue_provider E) n r \<noteq> Inl Diverged)
     \<and> (\<forall>n. ue_sleep E n \<noteq> Inl Diverged)"

lemma resource_from_lease_error: "resource_from_lease l = Inl e \<Longrightarrow> e \<noteq> Diverged"
  by (auto simp: resource_from_lease_def split: option.splits if_splits)

lemma ends_teardown_call: "answers_end E \<Longrightarrow> ends (\<lambda>_. True) (teardown_call E resource)"
  unfolding teardown_call_def
  by (rule ends_seq [OF ends_effect]) (auto simp: answers_end_def ends_def)

lemma ends_joined: "ends P m \<Longrightarrow> ends P (joined_effect E m)"
  unfolding joined_effect_def
  by (erule ends_seq) (auto simp: ends_def outside_def)

lemma ends_teardown_effect:
  "answers_end E \<Longrightarrow> ends (same_lease (ol_lease_id l) (Some L_TERMINATED)) (teardown_effect E l reason)"
  unfolding teardown_effect_def
  by (rule ends_catch [where P = "\<lambda>_. True"])
    (auto intro!: ends_seq [OF ends_lift [where P = "\<lambda>_. True"]] ends_teardown_call ends_seq [OF ends_now]
      ends_seq [OF ends_cas] ends_raise ends_move simp: reason_of_def dest: resource_from_lease_error)

lemma ends_teardown_lease:
  assumes "answers_end E" "ol_lease_id l = k"
  shows "ends (same_lease k (Some L_TERMINATED)) (teardown_lease E l reason)"
proof -
  have "ends (same_lease k (Some L_TERMINATED)) (joined_effect E (teardown_effect E l' reason))"
    if "same_lease k None l'" for l'
    using ends_joined [OF ends_teardown_effect [OF assms(1)]] that by simp metis
  with ends_cas show ?thesis unfolding teardown_lease_def assms(2) [symmetric] by (rule ends_seq)
qed

lemma ends_terminate_lease:
  "ol_lease_id l = k \<Longrightarrow> ends (same_lease k (Some L_TERMINATED)) (terminate_lease E l reason)"
  unfolding terminate_lease_def using ends_move [of _ l L_TERMINATED E] by (auto simp: reason_of_def)

lemma ends_resolve: "answers_end E \<Longrightarrow> ends (same_lease (ol_lease_id l) None) (resolve_uncertain_release E l reason)"
  unfolding resolve_uncertain_release_def
  by (auto intro!: ends_catch [OF ends_outside] ends_cas simp: answers_end_def split: option.split)

lemma ends_release_in_progress:
  assumes "answers_end E" "ol_lease_id l = k"
  shows "ends (same_lease k (Some L_TERMINATED)) (release_in_progress E l reason)"
  unfolding release_in_progress_def
  using assms ends_resolve [OF assms(1), of l reason]
  by (intro ends_if ends_teardown_lease ends_terminate_lease ends_seq [of "same_lease k None"]) (auto intro: ends_raise)

lemma ends_release:
  assumes "answers_end E" "ol_lease_id l = k"
  shows "ends (same_lease k (Some L_TERMINATED)) (release_lease E l reason)"
proof -
  have start: "ends (same_lease k None) (ollama_transition E l L_RELEASING cs)" if "list_all keeps_state cs" for cs
    by (rule ends_weaken [OF ends_move [OF that]]) (simp add: same_lease_def assms(2))
  show ?thesis
    unfolding release_lease_def
    using assms ends_move [of _ l L_TERMINATED E]
    by (auto intro!: ends_if ends_ret ends_seq [OF ends_now] ends_seq [OF start] ends_release_in_progress
        simp: same_lease_def reason_of_def)
qed

lemma ends_start_pull:
  assumes "answers_end E" "ol_lease_id l = k"
  shows "ends (same_lease k None) (start_pull E l resource url t)"
proof -
  have "ends (same_lease k None) (catch_manager
       (effect_call (Eff_pull resource (ol_model l')) (\<lambda>n. up_pull (ue_provider E) n resource url (ol_model l')))
       (\<lambda>e. ollama_cas E l' [error_of E e]) (\<lambda>_. ret l'))" if "same_lease k None l'" for l'
    using ends_cas [of l' E] that assms(1)
    by (intro ends_catch [OF ends_effect] ends_ret) (auto simp: answers_end_def)
  with ends_cas show ?thesis unfolding start_pull_def assms(2) [symmetric] by (rule ends_seq)
qed

lemma ends_become_ready:
  assumes "ol_lease_id l = k"
  shows "ends (same_lease k None) (become_ready E l ob t)"
  unfolding become_ready_def Let_def
  by (rule ends_seq [OF ends_move], simp, rule ends_ret) (simp add: same_lease_def with_route_def assms)

lemma ends_check_readiness:
  assumes E: "answers_end E"
  shows "ends (same_lease (ol_lease_id l) None) (check_readiness_once E l)"
proof -
  let ?P = "same_lease (ol_lease_id l) None"
  have release: "ends ?P (release_lease E l' r)" if "?P l'" for l' r
    by (rule ends_weaken [OF ends_release [OF E]]) (use that in \<open>auto simp: same_lease_def\<close>)
  have after: "ends ?P (if past_hard_or_cost l' t then release_lease E l' ''deadline_or_cost_cap''
      else if \<not> oo_provider_ready ob \<or> \<not> truthy_text (oo_route_url ob) then ret l'
      else if \<not> has_model ob (ol_model l')
      then start_pull E l' resource (case oo_route_url ob of None \<Rightarrow> [] | Some u \<Rightarrow> u) t
      else become_ready E l' ob t)" if "?P l'" for l' resource t ob
    using that by (intro ends_if release ends_ret ends_start_pull [OF E] ends_become_ready) simp_all
  show ?thesis
    unfolding check_readiness_once_def Let_def
    by (intro ends_seq [OF ends_lift [where P = "\<lambda>_. True"]] ends_seq [OF ends_now] ends_catch [OF ends_outside]
        ends_cas ends_seq [OF ends_cas] after)
      (use E in \<open>auto simp: answers_end_def dest: resource_from_lease_error\<close>)
qed

section \<open>The loop\<close>

lemma now_reads:
  "ollama_now E w = (Inr t, w') \<Longrightarrow> t = ue_clock E (uw_tick w) \<and> uw_tick w' = Suc (uw_tick w)"
  by (auto simp: ollama_now_def outside_def split: if_splits)

text \<open>The deadline of a lease in step with the table does not move.\<close>

lemma readiness_deadline_fixed:
  assumes rely: "ollama_rely E" and w: "ollama_inv w" "ol_snap l w" and live: "ol_state l \<noteq> L_TERMINATED"
    and run: "check_readiness_once E l w = (Inr l', w')" and same: "ol_lease_id l' = ol_lease_id l"
  shows "ol_readiness_deadline l' = ol_readiness_deadline l" "ollama_inv w'" "ol_snap l' w'"
proof -
  note ok = safeD [OF check_readiness_ok [OF rely live] w run]
  from ok show "ollama_inv w'" "ol_snap l' w'" by simp_all
  from w(2) ok(2) have "ol_snap l w'" by (rule ol_snap_guar [rotated])
  with \<open>ol_snap l' w'\<close> same obtain r where "ol_evolves l r" "ol_evolves l' r" by (auto simp: ol_snap_def)
  then have "ol_identity l' = ol_identity l" by (simp add: ol_evolves_def)
  then show "ol_readiness_deadline l' = ol_readiness_deadline l" by (simp add: ol_identity_def)
qed

abbreviation settled :: "py_error + OllamaLease \<Rightarrow> bool" where
  "settled r \<equiv> (case r of Inl e \<Rightarrow> e \<noteq> Diverged | Inr l \<Rightarrow> ol_state l \<noteq> L_WAITING_FOR_MODEL)"

lemma ends_settled: "ends (\<lambda>l. ol_state l \<noteq> L_WAITING_FOR_MODEL) m \<Longrightarrow> settled (fst (m w))"
  by (simp add: ends_def)

lemma ends_timeout:
  assumes "answers_end E"
  shows "ends P (seqM (tryM (seqM (release_lease E l reason) (\<lambda>_. ret ()))
     (\<lambda>e. if e = OllamaLeaseTeardownError then ret () else raiseM e)) (\<lambda>_. raiseM OllamaLeaseReadinessError))"
  by (rule ends_seq [where P = "\<lambda>_. True"], rule ends_try, rule ends_seq [OF ends_release [OF assms refl]])
    (auto intro: ends_ret ends_raise)

text \<open>After a check either the loop is over, or it sleeps before the deadline of the lease.\<close>

lemma poll_settles:
  assumes E: "answers_end E"
    and loop: "usec (ue_clock E (uw_tick w)) < usec (ol_readiness_deadline l)
      \<Longrightarrow> settled (fst (f (w\<lparr>uw_tick := Suc (Suc (uw_tick w))\<rparr>)))"
  shows "settled (fst ((if ol_state l = L_READY then ret l
        else seqM (ollama_now E) (\<lambda>t.
          if ol_state l = L_WAITING_FOR_MODEL \<and> past_hard_or_cost l t
          then release_lease E l ''deadline_or_cost_cap''
          else if usec (ol_readiness_deadline l) \<le> usec t
          then seqM (tryM (seqM (release_lease E l ''readiness_timeout'') (\<lambda>_. ret ()))
              (\<lambda>e. if e = OllamaLeaseTeardownError then ret () else raiseM e)) (\<lambda>_.
            raiseM OllamaLeaseReadinessError)
          else seqM (outside (ue_sleep E)) (\<lambda>_. f))) w))"
proof (cases "ol_state l = L_READY")
  case True
  then show ?thesis by (simp add: ret_def)
next
  case False
  let ?t = "ue_clock E (uw_tick w)" and ?w = "w\<lparr>uw_tick := Suc (uw_tick w)\<rparr>"
  have over: "settled (fst (release_lease E l r w'))" for r w'
    by (rule ends_settled, rule ends_weaken [OF ends_release [OF E refl]]) (simp add: same_lease_def)
  have late: "settled (fst (seqM (tryM (seqM (release_lease E l ''readiness_timeout'') (\<lambda>_. ret ()))
      (\<lambda>e. if e = OllamaLeaseTeardownError then ret () else raiseM e)) (\<lambda>_. raiseM OllamaLeaseReadinessError) w'))" for w'
    by (rule ends_settled [OF ends_timeout [OF E]])
  have sleep: "settled (fst (seqM (outside (ue_sleep E)) (\<lambda>_. f) ?w))"
    if "usec ?t < usec (ol_readiness_deadline l)"
    using loop [OF that] E by (auto simp: seqM_def outside_def answers_end_def split: sum.split)
  have now: "seqM (ollama_now E) g w = (if is_aware ?t then g ?t ?w else (Inl ValueError, ?w))" for g
    by (simp add: seqM_def ollama_now_def outside_def)
  show ?thesis
    unfolding if_not_P [OF False] now using over late sleep
    by (cases "is_aware ?t"; cases "usec (ol_readiness_deadline l) \<le> usec ?t") (simp_all add: not_le)
qed

lemma wait_until_ready_ends:
  assumes rely: "ollama_rely E" and E: "answers_end E" and clock: "\<And>n. c + int n \<le> usec (ue_clock E n)"
  shows "ollama_inv w \<Longrightarrow> ol_snap l w \<Longrightarrow> 0 < n \<Longrightarrow> usec (ol_readiness_deadline l) < c + int (uw_tick w) + int n
    \<Longrightarrow> settled (fst (wait_until_ready n E l w))"
proof (induction n arbitrary: l w)
  case (Suc n)
  show ?case
  proof (cases "ol_state l = L_WAITING_FOR_MODEL")
    case False
    then show ?thesis by (simp add: ret_def)
  next
    case True
    obtain r w1 where check: "check_readiness_once E l w = (r, w1)" by fastforce
    note one = endsD [OF ends_check_readiness [OF E] check]
    show ?thesis
    proof (cases r)
      case (Inl e)
      with one True check show ?thesis by (simp add: seqM_def)
    next
      case (Inr l1)
      from one Inr have same: "ol_lease_id l1 = ol_lease_id l" and tick: "uw_tick w \<le> uw_tick w1" by simp_all
      from True have live: "ol_state l \<noteq> L_TERMINATED" by simp
      note fixed = readiness_deadline_fixed [OF rely Suc.prems(1,2) live check [unfolded Inr] same]
      let ?w = "w1\<lparr>uw_tick := Suc (Suc (uw_tick w1))\<rparr>"
      have again: "settled (fst (wait_until_ready n E l1 ?w))"
        if "usec (ue_clock E (uw_tick w1)) < usec (ol_readiness_deadline l1)"
      proof (rule Suc.IH)
        from fixed(2,3) show "ollama_inv ?w" "ol_snap l1 ?w" by (simp_all add: ollama_inv_def ol_snap_def)
        show "0 < n" using that clock [of "uw_tick w1"] tick Suc.prems(4) fixed(1) by (cases n) simp_all
        show "usec (ol_readiness_deadline l1) < c + int (uw_tick ?w) + int n"
          using Suc.prems(4) fixed(1) tick by simp
      qed
      from poll_settles [OF E, where f = "wait_until_ready n E l1", OF again] True check Inr show ?thesis by (simp add: seqM_def [of "check_readiness_once E l"])
    qed
  qed
qed simp

text \<open>
  C32.  Waiting for a model ends.  When the clock advances with every call to the outside, the polling loop of any
  lease that is in step with the table ends for every provider, with an error or with a lease that no
  longer waits: the number of polls is bounded by the time that is left to the readiness deadline of
  the lease.
\<close>

theorem waiting_ends:
  assumes "ollama_rely E" "answers_end E" "\<And>n. c + int n \<le> usec (ue_clock E n)" "ollama_inv w" "ol_snap l w"
    "usec (ol_readiness_deadline l) < c + int (uw_tick w) + int n" "0 < n"
  shows "case fst (wait_until_ready n E l w) of
     Inl e \<Rightarrow> e \<noteq> Diverged | Inr l' \<Rightarrow> ol_state l' \<noteq> L_WAITING_FOR_MODEL"
  by (rule wait_until_ready_ends [OF assms(1-5) assms(7,6)])

end
