(* ===== verification/Ollama_Witnesses.thy ===== *)
theory Ollama_Witnesses
  imports Ollama_Termination Pod_Properties
begin

text \<open>Concrete runs of the Ollama adapter and of its composition with the lease service.\<close>

section \<open>Definitions\<close>

definition sample_deployment :: RunpodOllamaDeployment where
  "sample_deployment = \<lparr> dp_profile = sample_profile, dp_serverless_workers_max = 1,
     dp_serverless_request_count = 1, dp_serverless_execution_timeout_ms = 1000,
     dp_serverless_flashboot = FB_OFF, dp_http_timeout_seconds = 5,
     dp_serverless_non_compute_cost = \<lparr> oy_estimated_cost_usd = Fin 0, oy_maximum_cost_usd = Fin 0,
       oy_covered_components = [X_CONTAINER_DISK, X_MODEL_TRANSFER, X_RETRY_ALLOWANCE] \<rparr>,
     dp_pod_non_compute_cost = \<lparr> oy_estimated_cost_usd = Fin 0, oy_maximum_cost_usd = Fin 0,
       oy_covered_components = [X_CONTAINER_DISK, X_MODEL_TRANSFER, X_RETRY_ALLOWANCE] \<rparr> \<rparr>"

text \<open>A provider that accepts the deletion and then does not know the resource.\<close>

definition sample_adapter :: adapter_env where
  "sample_adapter = \<lparr> ce_send = \<lambda>n q. if ar_method q = ''GET'' then Api_reply 404 Body_empty else Api_reply 204 Body_empty,
     ce_clock = \<lambda>n. Aware (int n), ce_float = \<lambda>n. Inr (Fin (of_int n)), ce_max_safe_retries = 0,
     ce_max_inventory_pages = 1, pe_environ = \<lambda>s. None, pe_str = \<lambda>v. [], pe_to_float = \<lambda>a. a,
     pe_jsha = \<lambda>v. [], pe_read_datetime = \<lambda>s. None, pe_cancelled = \<lambda>n. False,
     pa_deployment = sample_deployment, pa_serverless_api_key = None, pa_pod_bearer_token = Some ''token'',
     pa_rfc3339 = \<lambda>t. [], pa_http = \<lambda>n q. Http_timeout \<rparr>"

definition sample_resource :: ProvisionedOllamaResource where
  "sample_resource = \<lparr> ow_resource_type = T_POD, ow_provider_resource_id = ''pod-1'', ow_resource_name = ''name'' \<rparr>"

definition waiting_row :: OllamaLease where
  "waiting_row = (ollama_new_row sample_ollama_env sample_ollama_request (Aware 0))
     \<lparr> ol_state := L_WAITING_FOR_MODEL, ol_provision_attempts := 1, ol_resource_type := Some T_POD,
       ol_resource_name := Some ''name'', ol_provider_resource_id := Some ''pod-1'',
       ol_readiness_deadline := Aware 50 \<rparr>"

definition waiting_world :: ollama_world where
  "waiting_world = empty_ollama_world\<lparr>uw_table := [waiting_row]\<rparr>"

section \<open>Witnesses\<close>

theorem teardown_confirms_absence_witness:
  "(case fst (adapter_teardown sample_adapter sample_resource fresh_adapter) of Inl e \<Rightarrow> False
     | Inr _ \<Rightarrow> \<exists>n body. ce_send sample_adapter n (resource_query sample_resource) = Api_reply 404 body)
   \<and> mutations_of (snd (adapter_teardown sample_adapter sample_resource fresh_adapter)) = [resource_delete sample_resource]"
proof -
  have "library_exceptions_foreign (base_of sample_adapter)"
    by (simp add: library_exceptions_foreign_def sample_adapter_def provider_env.truncate_def)
  note absent = teardown_confirms_absence [OF this, of sample_resource fresh_adapter]
  have "fst (adapter_teardown sample_adapter sample_resource fresh_adapter) = Inr ()"
    "mutations_of (snd (adapter_teardown sample_adapter sample_resource fresh_adapter)) = [resource_delete sample_resource]"
    by code_simp+
  with absent show ?thesis by simp
qed

theorem ollama_deployment_closed_witness:
  "ollama_rely (sample_ollama_env\<lparr>ue_interfere := by_peers (\<lambda>n. [(sample_ollama_env, OCall_reconcile)]),
     ue_provider := adapter_of (\<lambda>n. sample_adapter)\<rparr>)"
  by (rule ollama_deployment_closed) simp

theorem waiting_ends_witness:
  "ol_state waiting_row = L_WAITING_FOR_MODEL
   \<and> (case fst (wait_until_ready 60 sample_ollama_env waiting_row waiting_world) of
       Inl e \<Rightarrow> e \<noteq> Diverged | Inr l' \<Rightarrow> ol_state l' \<noteq> L_WAITING_FOR_MODEL)"
proof -
  have inv: "ol_inv a waiting_row" for a by (simp add: waiting_row_def ol_inv_def ollama_new_row_def Let_def)
  have row: "lease_row (uw_table waiting_world) (ol_lease_id waiting_row) = Some waiting_row"
    by (simp add: waiting_world_def empty_ollama_world_def lease_row_def)
  have "ollama_inv waiting_world"
    using inv by (simp add: ollama_inv_def ol_table_inv_def waiting_world_def empty_ollama_world_def created_def)
  moreover have "ol_snap waiting_row waiting_world"
    using inv row by (auto simp: ol_snap_def ol_evolves_def keeps_def)
  moreover have "answers_end sample_ollama_env"
    by (simp add: answers_end_def sample_ollama_env_def sample_ollama_provider_def)
  ultimately show ?thesis
    using waiting_ends [OF sample_ollama_rely, of 0 waiting_world waiting_row 60]
    by (simp add: sample_ollama_env_def waiting_row_def waiting_world_def empty_ollama_world_def)
qed

end
