(* ===== verification/Decimal_Text.thy ===== *)
theory Decimal_Text
  imports Py_Text Py_Float
begin

text \<open>
  Decimals as the serverless contracts keep them: read from text by the \<^verbatim>\<open>Decimal\<close> constructor, printed by
  \<open>decimal_text\<close> (\<^verbatim>\<open>format(value, "f")\<close>), made from the \<^verbatim>\<open>str\<close> of a float, added in the default
  context and summed exactly.  Coefficient and exponent are kept because digests are taken of the texts.
\<close>

section \<open>Definitions\<close>

definition split_sign :: "string \<Rightarrow> bool \<times> string" where
  "split_sign s =
     (case s of
        [] \<Rightarrow> (False, [])
      | c # cs \<Rightarrow> if c = CHR ''-'' then (True, cs) else if c = CHR ''+'' then (False, cs) else (False, s))"

definition signed :: "bool \<Rightarrow> int \<Rightarrow> int" where
  "signed negative n = (if negative then - n else n)"

definition special_decimal :: "string \<Rightarrow> bool" where
  "special_decimal s \<longleftrightarrow> s \<in> {''inf'', ''infinity''}
     \<or> (take 3 s = ''nan'' \<and> list_all is_digit_char (drop 3 s))
     \<or> (take 4 s = ''snan'' \<and> list_all is_digit_char (drop 4 s))"

definition decimal_number :: "bool \<Rightarrow> string \<Rightarrow> decimal option" where
  "decimal_number negative s =
     (case partition_at (CHR ''e'') s of (mantissa, exponent) \<Rightarrow>
      case partition_at (CHR ''.'') mantissa of (whole, fraction) \<Rightarrow>
      let frac = (case fraction of None \<Rightarrow> [] | Some f \<Rightarrow> f);
          c = signed negative (digits_val 0 (whole @ frac))
      in if \<not> digit_text (whole @ frac) then None
         else case exponent of
             None \<Rightarrow> Some (Dec c (- int (length frac)))
           | Some x \<Rightarrow> (case split_sign x of (down, ds) \<Rightarrow>
               if digit_text ds then Some (Dec c (signed down (digits_val 0 ds) - int (length frac)))
               else None))"

text \<open>\<^verbatim>\<open>Decimal(s)\<close>; \<^verbatim>\<open>None\<close> is \<^verbatim>\<open>InvalidOperation\<close>.\<close>

definition python_decimal :: "string \<Rightarrow> decimal option" where
  "python_decimal s =
     (case split_sign (filter (\<lambda>c. c \<noteq> CHR ''_'') (trim is_space s)) of (negative, body) \<Rightarrow>
      let b = map ascii_lower body
      in if special_decimal b then Some NonFinite else decimal_number negative b)"

text \<open>The decimal without a positive exponent, as it is read back from its text.\<close>

fun flat :: "decimal \<Rightarrow> decimal" where
  "flat (Dec c e) = (if 0 \<le> e then Dec (c * 10 ^ nat e) 0 else Dec c e)"
| "flat NonFinite = NonFinite"

text \<open>
  \<^verbatim>\<open>Decimal(str(x))\<close> of the float whose \<^verbatim>\<open>repr\<close> denotes \<open>v\<close>: at least one fractional digit, except in
  the exponent form of large numbers.
\<close>

definition float_decimal :: "amount \<Rightarrow> decimal" where
  "float_decimal a =
     (case a of
        NaNInf \<Rightarrow> NonFinite
      | Fin v \<Rightarrow>
          (case find (\<lambda>k. v * 10 ^ k = of_int \<lfloor>v * 10 ^ k\<rfloor>) [0..<400] of
             None \<Rightarrow> NonFinite
           | Some k \<Rightarrow>
               let j = (if k = 0 \<and> \<bar>v\<bar> < 10 ^ 16 then 1 else k) in Dec \<lfloor>v * 10 ^ j\<rfloor> (- int j)))"

text \<open>\<^verbatim>\<open>a + b\<close> in the default context: the exponent is the smaller one unless the sum is rounded.\<close>

definition dec_plus :: "decimal \<Rightarrow> decimal \<Rightarrow> decimal" where
  "dec_plus a b =
     (let v = dec_add (dval a) (dval b);
          low = min (expo a) (expo b);
          e = (if v = 0 then low else max low (flog10 \<bar>v\<bar> - (int default_prec - 1)))
      in Dec \<lfloor>v / 10 powi e\<rfloor> e)"

text \<open>The decimal that \<^verbatim>\<open>exact_decimal_sum\<close> returns; the sum starts with \<^verbatim>\<open>Decimal(0)\<close>.\<close>

definition decimal_sum :: "decimal list \<Rightarrow> py_error + decimal" where
  "decimal_sum items =
     (case exact_decimal_sum default_prec items of
        Inl e \<Rightarrow> Inl e
      | Inr v \<Rightarrow> let e = (if items = [] then 0 else min 0 (min_expo items)) in Inr (Dec \<lfloor>v / 10 powi e\<rfloor> e))"

definition negated :: "decimal \<Rightarrow> decimal" where
  "negated d = (case d of Dec c e \<Rightarrow> Dec (- c) e | NonFinite \<Rightarrow> NonFinite)"

definition positive_decimal :: "decimal \<Rightarrow> bool" where
  "positive_decimal d \<longleftrightarrow> is_finite d \<and> 0 < dval d"

definition nonnegative_decimal :: "decimal \<Rightarrow> bool" where
  "nonnegative_decimal d \<longleftrightarrow> is_finite d \<and> 0 \<le> dval d"

section \<open>Texts are read back\<close>

lemma dval_flat [simp]: "dval (flat d) = dval d"
  by (cases d) (auto simp: power_int_def)

lemma is_finite_flat [simp]: "is_finite (flat d) = is_finite d"
  by (cases d) auto

lemma flat_flat [simp]: "flat (flat d) = flat d"
  by (cases d) auto

lemma decimal_text_flat [simp]: "decimal_text (flat d) = decimal_text d"
  by (cases d) (auto simp: abs_mult mult_less_0_iff)

lemma digit_code: "is_digit_char c \<longleftrightarrow> 48 \<le> (of_char c :: int) \<and> (of_char c :: int) \<le> 57"
proof -
  have "(of_char c :: int) = int (of_char c)" by (simp add: of_char_def)
  then show ?thesis unfolding is_digit_char_def less_eq_char_def by simp
qed

lemma digit_of [simp]: "0 \<le> d \<Longrightarrow> d < 10 \<Longrightarrow> is_digit_char (digit_char d)"
  by (simp add: digit_code of_char_digit)

lemma digits_nat_text: "0 \<le> n \<Longrightarrow> list_all is_digit_char (nat_text n)"
proof (induction n rule: nat_text.induct)
  case (1 n)
  then show ?case by (cases "n < 10") (auto simp: nat_text.simps [of n])
qed

lemma digits_pad_text: "list_all is_digit_char (pad_text k n)"
  by (induction k arbitrary: n) auto

definition plain_char :: "char \<Rightarrow> bool" where
  "plain_char c \<longleftrightarrow> is_digit_char c \<or> c \<in> {CHR ''.'', CHR ''-''}"

lemma digit_char_facts:
  assumes "is_digit_char c"
  shows "\<not> is_space c" "\<not> (CHR ''A'' \<le> c)"
    "c \<noteq> CHR ''.''" "c \<noteq> CHR ''-''" "c \<noteq> CHR ''+''" "c \<noteq> CHR ''_''" "c \<noteq> CHR ''e''" "c \<noteq> CHR ''i''"
    "c \<noteq> CHR ''n''" "c \<noteq> CHR ''s''"
proof -
  have n: "48 \<le> (of_char c :: int)" "(of_char c :: int) \<le> 57" using assms by (simp_all add: digit_code)
  then show "\<not> is_space c" by (simp add: is_space_def Let_def)
  have "(of_char c :: int) = int (of_char c)" by (simp add: of_char_def)
  with n show "\<not> (CHR ''A'' \<le> c)" unfolding less_eq_char_def by simp
  show "c \<noteq> CHR ''.''" "c \<noteq> CHR ''-''" "c \<noteq> CHR ''+''" "c \<noteq> CHR ''_''" "c \<noteq> CHR ''e''" "c \<noteq> CHR ''i''"
    "c \<noteq> CHR ''n''" "c \<noteq> CHR ''s''"
    using assms by (auto simp: is_digit_char_def)
qed

lemma plain_char_facts:
  assumes "plain_char c"
  shows "\<not> is_space c" "c \<noteq> CHR ''_''" "ascii_lower c = c" "c \<noteq> CHR ''e''" "c \<noteq> CHR ''i''"
    "c \<noteq> CHR ''n''" "c \<noteq> CHR ''s''"
proof -
  have "is_digit_char c \<or> c = CHR ''.'' \<or> c = CHR ''-''" using assms by (auto simp: plain_char_def)
  then have "\<not> is_space c \<and> c \<noteq> CHR ''_'' \<and> ascii_lower c = c \<and> c \<noteq> CHR ''e'' \<and> c \<noteq> CHR ''i''
    \<and> c \<noteq> CHR ''n'' \<and> c \<noteq> CHR ''s''"
  proof (elim disjE)
    assume "is_digit_char c"
    then show ?thesis by (simp add: digit_char_facts ascii_lower_def)
  qed (simp_all add: is_space_def ascii_lower_def)
  then show "\<not> is_space c" "c \<noteq> CHR ''_''" "ascii_lower c = c" "c \<noteq> CHR ''e''" "c \<noteq> CHR ''i''"
    "c \<noteq> CHR ''n''" "c \<noteq> CHR ''s''" by blast+
qed

lemma trim_id: "list_all (\<lambda>c. \<not> P c) s \<Longrightarrow> trim P s = s"
proof -
  have "list_all (\<lambda>c. \<not> P c) s \<Longrightarrow> dropWhile P s = s" for s :: string
    by (cases s) auto
  then show "list_all (\<lambda>c. \<not> P c) s \<Longrightarrow> trim P s = s" by (simp add: trim_def)
qed

lemma plain_text_clean:
  assumes "list_all plain_char s"
  shows "filter (\<lambda>c. c \<noteq> CHR ''_'') (trim is_space s) = s" "map ascii_lower s = s"
    "partition_at (CHR ''e'') s = (s, None)"
proof -
  have no_space: "list_all (\<lambda>c. \<not> is_space c) s"
    using assms plain_char_facts(1) by (auto simp: list_all_iff)
  show "filter (\<lambda>c. c \<noteq> CHR ''_'') (trim is_space s) = s"
    unfolding trim_id [OF no_space] using assms plain_char_facts(2) by (auto simp: list_all_iff filter_id_conv)
  show "map ascii_lower s = s"
    using assms plain_char_facts(3) by (auto simp: list_all_iff map_idI)
  have "takeWhile (\<lambda>x. x \<noteq> CHR ''e'') s = s" "dropWhile (\<lambda>x. x \<noteq> CHR ''e'') s = []"
    using assms plain_char_facts(4) by (auto simp: list_all_iff takeWhile_eq_all_conv dropWhile_eq_Nil_conv)
  then show "partition_at (CHR ''e'') s = (s, None)" by (simp only: partition_at_def list.case)
qed

lemma not_special: "list_all plain_char s \<Longrightarrow> s \<noteq> [] \<Longrightarrow> \<not> special_decimal s"
  using plain_char_facts by (cases s) (fastforce simp: special_decimal_def)+

lemma partition_digits:
  "list_all is_digit_char w \<Longrightarrow> partition_at (CHR ''.'') (w @ CHR ''.'' # f) = (w, Some f)"
  "list_all is_digit_char w \<Longrightarrow> partition_at (CHR ''.'') w = (w, None)"
proof -
  assume "list_all is_digit_char w"
  then have dots: "\<forall>c \<in> set w. c \<noteq> CHR ''.''" using digit_char_facts(3) by (auto simp: list_all_iff)
  then show "partition_at (CHR ''.'') (w @ CHR ''.'' # f) = (w, Some f)"
    by (simp add: partition_at_def takeWhile_append2 dropWhile_append2)
  have "takeWhile (\<lambda>x. x \<noteq> CHR ''.'') w = w" "dropWhile (\<lambda>x. x \<noteq> CHR ''.'') w = []"
    using dots by (auto simp: takeWhile_eq_all_conv dropWhile_eq_Nil_conv)
  then show "partition_at (CHR ''.'') w = (w, None)" by (simp only: partition_at_def list.case)
qed

lemma decimal_number_plain:
  assumes "list_all is_digit_char w" "list_all is_digit_char f" "w \<noteq> []"
  shows "decimal_number negative (w @ CHR ''.'' # f)
      = Some (Dec (signed negative (digits_val 0 (w @ f))) (- int (length f)))"
    "decimal_number negative w = Some (Dec (signed negative (digits_val 0 w)) 0)"
proof -
  have "list_all plain_char (w @ CHR ''.'' # f)" "list_all plain_char w"
    using assms by (auto simp: list_all_iff plain_char_def)
  then show "decimal_number negative (w @ CHR ''.'' # f)
      = Some (Dec (signed negative (digits_val 0 (w @ f))) (- int (length f)))"
    "decimal_number negative w = Some (Dec (signed negative (digits_val 0 w)) 0)"
    using assms
    by (simp_all add: decimal_number_def plain_text_clean(3) partition_digits digit_text_def Let_def)
qed

lemma split_sign_text:
  assumes "w \<noteq> []" "list_all is_digit_char w"
  shows "split_sign ((if n then ''-'' else []) @ w @ f) = (n, w @ f)"
proof -
  obtain c cs where w: "w = c # cs" using assms(1) by (cases w) auto
  then have "c \<noteq> CHR ''-''" "c \<noteq> CHR ''+''" using assms(2) digit_char_facts(4,5) [of c] by (auto simp: w)
  then show ?thesis by (simp add: split_sign_def w)
qed

lemma python_decimal_text:
  assumes "is_finite d"
  shows "python_decimal (decimal_text d) = Some (flat d)"
proof -
  obtain c k where s: "scaled d = (c, k)" by fastforce
  have flat: "flat d = Dec c (- int k)" using assms s by (cases d) (auto split: if_splits)
  define w where "w = nat_text (if k = 0 then \<bar>c\<bar> else \<bar>c\<bar> div 10 ^ k)"
  define f where "f = (if k = 0 then [] else CHR ''.'' # pad_text k (\<bar>c\<bar> mod 10 ^ k))"
  have w: "list_all is_digit_char w" "w \<noteq> []"
    by (auto simp: w_def digits_nat_text pos_imp_zdiv_nonneg_iff)
  have f: "list_all plain_char f" using digits_pad_text by (auto simp: f_def plain_char_def list_all_iff)
  have shape: "decimal_text d = (if c < 0 then ''-'' else []) @ w @ f"
    using decimal_text_scaled [OF assms s] by (simp add: amount_text_def w_def f_def)
  have plain: "list_all plain_char (w @ f)" using w f by (auto simp: list_all_iff plain_char_def)
  then have "list_all plain_char (decimal_text d)" by (auto simp: shape plain_char_def)
  then have "python_decimal (decimal_text d) = decimal_number (c < 0) (w @ f)"
    using split_sign_text [OF w(2,1), of "c < 0" f] not_special [OF plain] w(2)
    by (simp add: python_decimal_def plain_text_clean(1) plain_text_clean(2) [OF plain] shape [symmetric] Let_def
        del: map_append)
  also have "\<dots> = Some (Dec c (- int k))"
  proof (cases "k = 0")
    case True
    then show ?thesis using w decimal_number_plain(2) [OF w(1) _ w(2)]
      by (simp add: f_def signed_def w_def digits_val_nat_text)
  next
    case False
    have "digits_val 0 (w @ pad_text k (\<bar>c\<bar> mod 10 ^ k)) = \<bar>c\<bar>"
      using False by (simp add: w_def digits_val_append digits_val_nat_text digits_val_pad
          pos_imp_zdiv_nonneg_iff div_mult_mod_eq)
    then show ?thesis
      using False decimal_number_plain(1) [OF w(1) digits_pad_text [of k "\<bar>c\<bar> mod 10 ^ k"] w(2), of "c < 0"]
      by (cases "c < 0") (simp_all add: f_def signed_def)
  qed
  finally show ?thesis using flat by simp
qed

lemma decimal_text_not_Nil: "is_finite d \<Longrightarrow> decimal_text d \<noteq> []"
  by (cases d) (auto simp: Let_def)

section \<open>Sums\<close>

text \<open>Multiples of a power of ten.\<close>

definition on_grid :: "int \<Rightarrow> rat \<Rightarrow> bool" where
  "on_grid k v \<longleftrightarrow> (\<exists>n. v = of_int n * 10 powi k)"

lemma on_grid_floor: "on_grid k v \<Longrightarrow> of_int \<lfloor>v / 10 powi k\<rfloor> * 10 powi k = v"
  by (auto simp: on_grid_def)

lemma on_grid_mono: "on_grid k v \<Longrightarrow> j \<le> k \<Longrightarrow> on_grid j v"
proof -
  assume "on_grid k v" "j \<le> k"
  then obtain n where "v = of_int n * 10 powi k" by (auto simp: on_grid_def)
  also have "(10::rat) powi k = 10 powi (k - j) * 10 powi j" by (simp add: power_int_diff)
  also have "(10::rat) powi (k - j) = 10 ^ nat (k - j)" using \<open>j \<le> k\<close> by (simp add: power_int_def)
  finally have "v = of_int (n * 10 ^ nat (k - j)) * 10 powi j" by simp
  then show ?thesis unfolding on_grid_def by blast
qed

lemma on_grid_add: "on_grid k v \<Longrightarrow> on_grid k w \<Longrightarrow> on_grid k (v + w)"
  unfolding on_grid_def by (metis distrib_right of_int_add)

lemma on_grid_dval: "is_finite d \<Longrightarrow> on_grid (expo d) (dval d)"
  by (cases d) (auto simp: on_grid_def)

lemma round_half_even_mono_int: "of_int n \<le> x \<Longrightarrow> n \<le> round_half_even x"
proof -
  assume "of_int n \<le> x"
  then have "n \<le> \<lfloor>x\<rfloor>" by (simp add: le_floor_iff)
  then show ?thesis by (auto simp: round_half_even_def Let_def)
qed

lemma flog10_unique: "0 < x \<Longrightarrow> 10 powi k \<le> x \<Longrightarrow> x < 10 powi (k + 1) \<Longrightarrow> flog10 x = k"
  using flog10_bounds [of x] powi_10_less_iff
  by (smt (verit, best) le_less_trans)

lemma powi_10_add: "(10::rat) powi a * 10 powi b = 10 powi (a + b)"
  by (simp add: power_int_add)

text \<open>A rounded number is a multiple of the unit of its last digit, and of the unit it had before.\<close>

lemma round_sig_grid:
  assumes x: "0 < x" and grid: "on_grid low x" and p: "0 < p"
  shows "0 < round_sig p x \<and> on_grid (max low (flog10 (round_sig p x) - (int p - 1))) (round_sig p x)"
proof -
  define g where "g = flog10 x - (int p - 1)"
  define r where "r = round_half_even (x / 10 powi g)"
  have v: "round_sig p x = of_int r * 10 powi g" using x by (simp add: round_sig_def g_def r_def Let_def)
  have pw: "(10::rat) powi (int p - 1) = of_int (10 ^ (p - 1))" "(10::rat) powi int p = of_int (10 ^ p)"
    using p by (simp_all add: power_int_def nat_diff_distrib)
  have ends: "10 powi (int p - 1) * 10 powi g = (10::rat) powi flog10 x"
    "10 powi int p * 10 powi g = (10::rat) powi (flog10 x + 1)"
    unfolding powi_10_add by (simp_all add: g_def)
  have "10 powi (int p - 1) \<le> x / 10 powi g" "x / 10 powi g < 10 powi int p"
    using flog10_bounds [OF x] unfolding ends [symmetric] by (simp_all add: pos_le_divide_eq pos_divide_less_eq)
  then have r: "10 ^ (p - 1) \<le> r" "r \<le> 10 ^ p"
    using round_half_even_mono_int [of "10 ^ (p - 1)" "x / 10 powi g"]
      round_half_even_le [of "x / 10 powi g" "10 ^ p"] unfolding r_def pw by simp_all
  have "(0::int) < 10 ^ (p - 1)" by simp
  with r(1) have "0 < r" by linarith
  then have pos: "0 < round_sig p x" unfolding v by simp
  show ?thesis
  proof (cases "g \<le> low")
    case True
    have "x / 10 powi g = of_int \<lfloor>x / 10 powi g\<rfloor>"
      using on_grid_floor [OF on_grid_mono [OF grid True]] by (subst nonzero_divide_eq_eq) simp_all
    then have "of_int r = x / 10 powi g" unfolding r_def by (metis round_half_even_int)
    then have "round_sig p x = x" by (simp add: v)
    with True grid pos show ?thesis by (simp add: g_def max_def)
  next
    case False
    have "of_int (10 ^ (p - 1)) * 10 powi g \<le> of_int r * (10::rat) powi g"
      by (intro mult_right_mono) (simp_all only: of_int_le_iff r(1), simp)
    then have size: "10 powi (flog10 x) \<le> round_sig p x" unfolding v pw(1) [symmetric] ends .
    consider "r < 10 ^ p" | "r = 10 ^ p" using r(2) by linarith
    then show ?thesis
    proof cases
      case 1
      then have "of_int r * 10 powi g < of_int (10 ^ p) * (10::rat) powi g"
        by (intro mult_strict_right_mono) (simp_all only: of_int_less_iff, simp)
      then have "round_sig p x < 10 powi (flog10 x + 1)" unfolding v pw(2) [symmetric] ends .
      then have "flog10 (round_sig p x) = flog10 x" using flog10_unique [OF pos size] by simp
      moreover have "on_grid g (round_sig p x)" unfolding on_grid_def v by blast
      ultimately show ?thesis using False pos by (simp add: g_def [symmetric] max_def)
    next
      case 2
      have v': "round_sig p x = 10 powi (flog10 x + 1)" unfolding v 2 pw(2) [symmetric] ends ..
      have "flog10 (round_sig p x) = flog10 x + 1"
        by (rule flog10_unique [OF pos]) (simp_all add: v' powi_10_less_iff)
      moreover have "on_grid (g + 1) (round_sig p x)"
      proof -
        have "round_sig p x = of_int (10 ^ (p - 1)) * 10 powi (g + 1)"
          unfolding v' pw(1) [symmetric] powi_10_add by (simp add: g_def add.commute)
        then show ?thesis unfolding on_grid_def by blast
      qed
      moreover have "max low (flog10 x + 1 - (int p - 1)) = g + 1" using False by (simp add: g_def max_def)
      ultimately show ?thesis using pos by simp
    qed
  qed
qed

lemma dval_dec_plus:
  assumes "is_finite a" "is_finite b" "0 \<le> dval a + dval b"
  shows "dval (dec_plus a b) = dec_add (dval a) (dval b)"
proof -
  define x low where "x = dval a + dval b" and "low = min (expo a) (expo b)"
  have grid: "on_grid low x"
    unfolding x_def low_def
    using assms by (intro on_grid_add) (auto intro: on_grid_mono on_grid_dval)
  have sum: "dec_add (dval a) (dval b) = round_sig default_prec x" by (simp add: dec_add_def x_def)
  consider "x = 0" | "0 < x" using assms(3) by (fastforce simp: x_def)
  then show ?thesis
  proof cases
    case 1
    then show ?thesis by (simp add: dec_plus_def sum round_sig_def)
  next
    case 2
    have "0 < default_prec" by (simp add: default_prec_def)
    note rounded = round_sig_grid [OF 2 grid this]
    then show ?thesis
      using on_grid_floor [OF rounded [THEN conjunct2]]
      by (simp add: dec_plus_def sum low_def [symmetric] Let_def)
  qed
qed

lemma on_grid_sum:
  "list_all is_finite items \<Longrightarrow> \<forall>d \<in> set items. k \<le> expo d \<Longrightarrow> on_grid k (sum_list (map dval items))"
proof (induction items)
  case Nil
  then show ?case by (auto simp: on_grid_def intro: exI [of _ 0])
next
  case (Cons d ds)
  then show ?case using on_grid_mono [OF on_grid_dval] by (auto intro!: on_grid_add)
qed

lemma decimal_sum_value:
  "decimal_sum items = (if list_all is_finite items
     then Inr (Dec (coeff (projr (decimal_sum items))) (expo (projr (decimal_sum items)))) else Inl ValueError)"
  "list_all is_finite items \<Longrightarrow> dval (projr (decimal_sum items)) = sum_list (map dval items)"
proof -
  define v e where "v = sum_list (map dval items)" and "e = (if items = [] then 0 else min 0 (min_expo items))"
  have exact: "exact_decimal_sum default_prec items = (if list_all is_finite items then Inr v else Inl ValueError)"
    by (simp add: exact_decimal_sum_value v_def list_all_iff)
  have sum: "decimal_sum items = (if list_all is_finite items then Inr (Dec \<lfloor>v / 10 powi e\<rfloor> e) else Inl ValueError)"
    by (simp add: decimal_sum_def exact e_def Let_def)
  then show "decimal_sum items = (if list_all is_finite items
     then Inr (Dec (coeff (projr (decimal_sum items))) (expo (projr (decimal_sum items)))) else Inl ValueError)"
    by simp
  assume finite: "list_all is_finite items"
  have "\<forall>d \<in> set items. e \<le> expo d" by (auto simp: e_def min_expo_def min_le_iff_disj)
  then have "of_int \<lfloor>v / 10 powi e\<rfloor> * 10 powi e = v"
    unfolding v_def by (intro on_grid_floor on_grid_sum finite)
  then show "dval (projr (decimal_sum items)) = sum_list (map dval items)" by (simp add: sum finite v_def)
qed

lemma decimal_sumD:
  assumes "decimal_sum items = Inr d"
  shows "list_all is_finite items" "is_finite d" "dval d = sum_list (map dval items)"
proof -
  show finite: "list_all is_finite items"
    using assms decimal_sum_value(1) [of items] by (cases "list_all is_finite items") auto
  show "is_finite d" using assms decimal_sum_value(1) [of items] finite by (cases d) auto
  show "dval d = sum_list (map dval items)" using decimal_sum_value(2) [OF finite] assms by simp
qed

lemma decimal_sum_error: "decimal_sum items = Inl e \<Longrightarrow> e = ValueError"
  using decimal_sum_value(1) [of items] by (cases "list_all is_finite items") auto

lemma decimal_sum_total: "list_all is_finite items \<Longrightarrow> \<exists>d. decimal_sum items = Inr d"
  using decimal_sum_value(1) [of items] by auto

end
