(* ===== verification/Serverless_Contracts.thy ===== *)
theory Serverless_Contracts
  imports Decimal_Text Runpod_Client
begin

text \<open>
  The capacity contracts of \<^verbatim>\<open>serverless_capacity_contracts.py\<close>: constraints, endpoint specifications,
  quote requests and quotes with their validation, digests and the worker cost.  The fields that the
  two requests and the two quotes of the source share are declared once, in \<open>job_envelope\<close>,
  \<open>capacity_request\<close> and \<open>capacity_quote\<close>.  SHA-256 of the canonical JSON text is the argument \<open>jsha\<close>.
\<close>

section \<open>Definitions\<close>

subsection \<open>Text and number checks\<close>

definition capacity_identifier :: "string \<Rightarrow> bool" where
  "capacity_identifier s \<longleftrightarrow> s \<noteq> [] \<and> length s \<le> 255 \<and> is_alnum (hd s) \<and> list_all is_ident_char s"

definition capacity_display_name :: "string \<Rightarrow> bool" where
  "capacity_display_name s \<longleftrightarrow> nonblank s \<and> length s \<le> 255 \<and> list_all (\<lambda>c. 32 \<le> (of_char c :: int)) s
     \<and> \<not> contains_text ''http://'' (map ascii_lower s) \<and> \<not> contains_text ''https://'' (map ascii_lower s)"

definition worker_reference_pinned :: "string \<Rightarrow> bool" where
  "worker_reference_pinned s \<longleftrightarrow> pinned_image s \<and> \<not> contains_text ''://'' s"

definition not_identifiers :: "string list \<Rightarrow> (bool \<times> py_error) list" where
  "not_identifiers values = map (\<lambda>s. (\<not> capacity_identifier s, ValueError)) values"

definition not_digests :: "string list \<Rightarrow> (bool \<times> py_error) list" where
  "not_digests values = map (\<lambda>s. (\<not> sha256_text s, ValueError)) values"

definition below :: "int \<Rightarrow> int list \<Rightarrow> (bool \<times> py_error) list" where
  "below n values = map (\<lambda>i. (i < n, ValueError)) values"

definition not_positive :: "decimal list \<Rightarrow> (bool \<times> py_error) list" where
  "not_positive values = map (\<lambda>d. (\<not> positive_decimal d, ValueError)) values"

definition not_nonnegative :: "decimal list \<Rightarrow> (bool \<times> py_error) list" where
  "not_nonnegative values = map (\<lambda>d. (\<not> nonnegative_decimal d, ValueError)) values"

definition not_aware :: "datetime list \<Rightarrow> (bool \<times> py_error) list" where
  "not_aware values = map (\<lambda>t. (\<not> is_aware t, ValueError)) values"

definition bad_cuda_floor :: "string option \<Rightarrow> bool" where
  "bad_cuda_floor v = (case normalize_cuda_floor v of Inl _ \<Rightarrow> True | Inr _ \<Rightarrow> False)"

definition capacity_contract :: string where
  "capacity_contract = ''serverless-capacity-v1''"

definition max_policy_ms :: int where
  "max_policy_ms = 604800000"

definition bad_execution_timeout :: "int \<Rightarrow> bool" where
  "bad_execution_timeout ms \<longleftrightarrow> \<not> (5000 \<le> ms \<and> ms \<le> max_policy_ms)"

definition bad_job_ttl :: "int \<Rightarrow> bool" where
  "bad_job_ttl ms \<longleftrightarrow> \<not> (10000 \<le> ms \<and> ms \<le> max_policy_ms)"

text \<open>The text that \<^verbatim>\<open>decimal_text\<close> gives for a decimal in a JSON object.\<close>

definition jdec :: "decimal \<Rightarrow> json" where
  "jdec d = JStr (decimal_text d)"

subsection \<open>Constraints\<close>

record ServerlessCapacityConstraints =
  sc_min_vram_gb :: int
  sc_gpu_count :: int
  sc_cloud :: CloudType
  sc_min_cuda_version :: "string option"
  sc_allowed_gpu_pools :: "string list"
  sc_allowed_data_center_ids :: "string list"
  sc_max_hourly_worker_rate_usd :: "decimal option"
  sc_minimum_availability :: Availability
  sc_benchmark_id :: string

definition identifier_list_checks :: "string list \<Rightarrow> (bool \<times> py_error) list" where
  "identifier_list_checks values =
     (values = [] \<or> \<not> distinct values, ValueError) # not_identifiers values"

definition capacity_constraints_post_init :: "ServerlessCapacityConstraints \<Rightarrow> py_error option" where
  "capacity_constraints_post_init c = first_error
     (below 1 [sc_min_vram_gb c, sc_gpu_count c]
      @ [(bad_cuda_floor (sc_min_cuda_version c), ValueError)]
      @ identifier_list_checks (sc_allowed_gpu_pools c)
      @ identifier_list_checks (sc_allowed_data_center_ids c)
      @ not_identifiers [sc_benchmark_id c]
      @ not_positive (case sc_max_hourly_worker_rate_usd c of None \<Rightarrow> [] | Some m \<Rightarrow> [m]))"

text \<open>The limit becomes a float, which may overflow or round to zero.\<close>

definition capacity_requirements :: "ServerlessCapacityConstraints \<Rightarrow> py_error + PlacementRequirements" where
  "capacity_requirements c =
     (let limit = map_option (\<lambda>d. to_float (dval d)) (sc_max_hourly_worker_rate_usd c);
          r = \<lparr> pr_product = SERVERLESS, pr_min_vram_gb = sc_min_vram_gb c, pr_gpu_count = sc_gpu_count c,
                pr_cloud = sc_cloud c, pr_min_cuda_version = sc_min_cuda_version c,
                pr_max_cost_per_hr = limit, pr_allowed_gpu_ids = [],
                pr_allowed_gpu_pools = sc_allowed_gpu_pools c,
                pr_allowed_data_center_ids = sc_allowed_data_center_ids c,
                pr_minimum_availability = sc_minimum_availability c,
                pr_benchmark_id = Some (sc_benchmark_id c) \<rparr>
      in if limit = Some NaNInf then Inl ValueError
         else case requirements_post_init r of Some e \<Rightarrow> Inl e | None \<Rightarrow> Inr r)"

definition capacity_constraints_dict :: "ServerlessCapacityConstraints \<Rightarrow> json" where
  "capacity_constraints_dict c = JObj
     [(''min_vram_gb'', JInt (sc_min_vram_gb c)), (''gpu_count'', JInt (sc_gpu_count c)),
      (''cloud'', JStr (cloud_value (sc_cloud c))),
      (''min_cuda_version'', jopt JStr (sc_min_cuda_version c)),
      (''allowed_gpu_pools'', jstrs (sc_allowed_gpu_pools c)),
      (''allowed_data_center_ids'', jstrs (sc_allowed_data_center_ids c)),
      (''max_hourly_worker_rate_usd'', jopt jdec (sc_max_hourly_worker_rate_usd c)),
      (''minimum_availability'', JStr (availability_value (sc_minimum_availability c))),
      (''benchmark_id'', JStr (sc_benchmark_id c))]"

subsection \<open>Endpoint specifications\<close>

record ServerlessEndpointSpec =
  ss_worker_reference :: string
  ss_constraints :: ServerlessCapacityConstraints
  ss_workers_min :: int
  ss_workers_max :: int
  ss_idle_tail_seconds :: int
  ss_scaling_type :: string
  ss_scaling_value :: decimal
  ss_execution_timeout_ms :: int
  ss_flashboot :: FlashBoot
  ss_disk_gb :: int
  ss_registry_id :: "string option"
  ss_network_volume_ids :: "string list"
  ss_resource_schema_version :: EndpointResourceVersion

definition endpoint_spec_post_init :: "ServerlessEndpointSpec \<Rightarrow> py_error option" where
  "endpoint_spec_post_init s = first_error
     ([(\<not> worker_reference_pinned (ss_worker_reference s), ValueError)]
      @ below 0 [ss_workers_min s] @ below 1 [ss_workers_max s]
      @ [(ss_workers_min s \<noteq> 0 \<or> ss_workers_max s \<noteq> 1, ValueError)]
      @ below 1 [ss_idle_tail_seconds s]
      @ [(3600 < ss_idle_tail_seconds s, ValueError), (ss_scaling_type s \<noteq> ''QUEUE_DELAY'', ValueError)]
      @ not_positive [ss_scaling_value s]
      @ [(dval (ss_scaling_value s) < 1 / 2, ValueError)]
      @ below 1 [ss_execution_timeout_ms s]
      @ [(bad_execution_timeout (ss_execution_timeout_ms s), ValueError)]
      @ below 1 [ss_disk_gb s]
      @ not_identifiers (case ss_registry_id s of None \<Rightarrow> [] | Some i \<Rightarrow> [i])
      @ [(ss_network_volume_ids s \<noteq> [], ValueError)])"

definition schema_version_entry :: "ServerlessEndpointSpec \<Rightarrow> (string \<times> json) list" where
  "schema_version_entry s =
     (if ss_resource_schema_version s = ERV_GA then [(''resource_schema_version'', JInt 2)] else [])"

definition endpoint_spec_sha256 :: "(json \<Rightarrow> string) \<Rightarrow> ServerlessEndpointSpec \<Rightarrow> string" where
  "endpoint_spec_sha256 jsha s = jsha (JObj
     ([(''worker_reference'', JStr (ss_worker_reference s))] @ schema_version_entry s
      @ [(''constraints'', capacity_constraints_dict (ss_constraints s)),
         (''workers'', JObj [(''min'', JInt (ss_workers_min s)), (''max'', JInt (ss_workers_max s))]),
         (''idle_tail_seconds'', JInt (ss_idle_tail_seconds s)),
         (''scaling_type'', JStr (ss_scaling_type s)), (''scaling_value'', jdec (ss_scaling_value s)),
         (''execution_timeout_ms'', JInt (ss_execution_timeout_ms s)),
         (''flashboot'', JStr (flashboot_value (ss_flashboot s))), (''disk_gb'', JInt (ss_disk_gb s)),
         (''registry_id'', jopt JStr (ss_registry_id s)),
         (''network_volume_ids'', jstrs (ss_network_volume_ids s))]))"

definition spec_request :: "ServerlessEndpointSpec \<Rightarrow> string \<Rightarrow> string \<Rightarrow> string \<Rightarrow> EndpointCreateRequest" where
  "spec_request s endpoint_name gpu_pool data_center_id =
     \<lparr> ec_name = endpoint_name, ec_image = ss_worker_reference s, ec_gpu_pools = [gpu_pool],
       ec_endpoint_type = ''QUEUE'',
       ec_scaling = JObj [(''type'', JStr (ss_scaling_type s)),
         (''queueDelay'', JNum (float_decimal (to_float (dval (ss_scaling_value s)))))],
       ec_gpu_count = sc_gpu_count (ss_constraints s), ec_workers_min = ss_workers_min s,
       ec_workers_max = ss_workers_max s, ec_idle_timeout_seconds = Some (ss_idle_tail_seconds s),
       ec_disk_gb = ss_disk_gb s, ec_ports = [], ec_env = [], ec_args = None,
       ec_registry_id = ss_registry_id s, ec_data_center_ids = [data_center_id],
       ec_network_volume_ids = ss_network_volume_ids s,
       ec_execution_timeout_ms = ss_execution_timeout_ms s, ec_flashboot = ss_flashboot s,
       ec_min_cuda_version = sc_min_cuda_version (ss_constraints s),
       ec_resource_schema_version = ss_resource_schema_version s \<rparr>"

definition spec_create_request :: "ServerlessEndpointSpec \<Rightarrow> string \<Rightarrow> string \<Rightarrow> string
    \<Rightarrow> py_error + EndpointCreateRequest" where
  "spec_create_request s endpoint_name gpu_pool data_center_id =
     (let r = spec_request s endpoint_name gpu_pool data_center_id in
      if \<not> capacity_identifier endpoint_name then Inl ValueError
      else if gpu_pool \<notin> set (sc_allowed_gpu_pools (ss_constraints s)) then Inl ValueError
      else if data_center_id \<notin> set (sc_allowed_data_center_ids (ss_constraints s)) then Inl ValueError
      else case endpoint_request_post_init r of Some e \<Rightarrow> Inl e | None \<Rightarrow> Inr r)"

definition operation_digest :: "(json \<Rightarrow> string) \<Rightarrow> ServerlessEndpointSpec \<Rightarrow> string \<Rightarrow> string \<Rightarrow> string
    \<Rightarrow> py_error + string" where
  "operation_digest jsha s endpoint_name gpu_pool data_center_id =
     bindE (spec_create_request s endpoint_name gpu_pool data_center_id) (\<lambda>r.
     bindE (endpoint_request_payload r) (\<lambda>payload. Inr (jsha payload)))"

record ServerlessEndpointProfile =
  sp_profile_id :: string
  sp_endpoint_id :: string
  sp_endpoint_name :: string
  sp_spec :: ServerlessEndpointSpec

definition endpoint_profile_post_init :: "ServerlessEndpointProfile \<Rightarrow> py_error option" where
  "endpoint_profile_post_init p =
     first_error (not_identifiers [sp_profile_id p, sp_endpoint_id p, sp_endpoint_name p])"

definition profile_sha256 :: "(json \<Rightarrow> string) \<Rightarrow> ServerlessEndpointProfile \<Rightarrow> string" where
  "profile_sha256 jsha p = jsha (JObj
     [(''profile_id'', JStr (sp_profile_id p)), (''endpoint_id'', JStr (sp_endpoint_id p)),
      (''endpoint_name'', JStr (sp_endpoint_name p)),
      (''endpoint_spec_sha256'', JStr (endpoint_spec_sha256 jsha (sp_spec p)))])"

record PlannedServerlessEndpoint =
  pn_plan_id :: string
  pn_endpoint_name :: string
  pn_spec :: ServerlessEndpointSpec

definition planned_endpoint_post_init :: "PlannedServerlessEndpoint \<Rightarrow> py_error option" where
  "planned_endpoint_post_init p = first_error (not_identifiers [pn_plan_id p, pn_endpoint_name p])"

definition plan_sha256 :: "(json \<Rightarrow> string) \<Rightarrow> PlannedServerlessEndpoint \<Rightarrow> string" where
  "plan_sha256 jsha p = jsha (JObj
     [(''plan_id'', JStr (pn_plan_id p)), (''endpoint_name'', JStr (pn_endpoint_name p)),
      (''endpoint_spec_sha256'', JStr (endpoint_spec_sha256 jsha (pn_spec p)))])"

subsection \<open>Quote requests\<close>

record job_envelope = 
  sl_workload_kind :: string
  sl_parameters_sha256 :: string
  sl_estimated_queue_delay_seconds :: "int option"
  sl_estimated_worker_start_seconds :: int
  sl_estimated_execution_seconds :: int
  sl_maximum_queue_delay_seconds :: int
  sl_maximum_worker_start_seconds :: int
  sl_maximum_execution_seconds :: int
  sl_maximum_billable_seconds :: int
  sl_job_execution_timeout_ms :: int
  sl_job_ttl_ms :: int
  sl_estimated_non_worker_cost_usd :: decimal
  sl_maximum_non_worker_cost_usd :: decimal

record capacity_request = job_envelope +
  sr_quote_ttl_seconds :: int

record ServerlessCapacityQuoteRequest = capacity_request +
  sr_profile :: ServerlessEndpointProfile

record PlannedServerlessCapacityQuoteRequest = capacity_request +
  sr_endpoint :: PlannedServerlessEndpoint

definition exceeds :: "int option \<Rightarrow> int \<Rightarrow> bool" where
  "exceeds x n = (case x of None \<Rightarrow> False | Some i \<Rightarrow> n < i)"

definition some_list :: "'a option \<Rightarrow> 'a list" where
  "some_list x = (case x of None \<Rightarrow> [] | Some a \<Rightarrow> [a])"

definition validate_capacity_request :: "'a capacity_request_scheme \<Rightarrow> ServerlessEndpointSpec
    \<Rightarrow> py_error option" where
  "validate_capacity_request q s = first_error
     (not_identifiers [sl_workload_kind q] @ not_digests [sl_parameters_sha256 q]
      @ below 0 (some_list (sl_estimated_queue_delay_seconds q) @ [sl_estimated_worker_start_seconds q])
      @ below 1 [sl_estimated_execution_seconds q, sl_maximum_queue_delay_seconds q,
          sl_maximum_worker_start_seconds q, sl_maximum_execution_seconds q, sl_maximum_billable_seconds q,
          sl_job_execution_timeout_ms q, sl_job_ttl_ms q]
      @ [(bad_execution_timeout (sl_job_execution_timeout_ms q), ValueError),
         (bad_job_ttl (sl_job_ttl_ms q), ValueError)]
      @ not_nonnegative [sl_estimated_non_worker_cost_usd q]
      @ not_positive [sl_maximum_non_worker_cost_usd q]
      @ below 1 [sr_quote_ttl_seconds q]
      @ [(300 < sr_quote_ttl_seconds q, ValueError),
         (exceeds (sl_estimated_queue_delay_seconds q) (sl_maximum_queue_delay_seconds q), ValueError),
         (sl_maximum_worker_start_seconds q < sl_estimated_worker_start_seconds q, ValueError),
         (sl_maximum_execution_seconds q < sl_estimated_execution_seconds q, ValueError),
         (sl_maximum_billable_seconds q \<noteq> sl_maximum_worker_start_seconds q
            + sl_maximum_execution_seconds q + ss_idle_tail_seconds s, ValueError),
         (sl_maximum_worker_start_seconds q + sl_maximum_execution_seconds q + ss_idle_tail_seconds s
            < sl_estimated_worker_start_seconds q + sl_estimated_execution_seconds q + ss_idle_tail_seconds s,
          ValueError),
         (ss_execution_timeout_ms s < sl_job_execution_timeout_ms q, ValueError),
         (sl_job_execution_timeout_ms q < sl_maximum_execution_seconds q * 1000, ValueError),
         (sl_job_ttl_ms q < (sl_maximum_queue_delay_seconds q + sl_maximum_worker_start_seconds q
            + sl_maximum_execution_seconds q) * 1000, ValueError),
         (dval (sl_maximum_non_worker_cost_usd q) < dval (sl_estimated_non_worker_cost_usd q), ValueError)])"

definition capacity_request_post_init :: "ServerlessCapacityQuoteRequest \<Rightarrow> py_error option" where
  "capacity_request_post_init q = validate_capacity_request q (sp_spec (sr_profile q))"

definition planned_request_post_init :: "PlannedServerlessCapacityQuoteRequest \<Rightarrow> py_error option" where
  "planned_request_post_init q = validate_capacity_request q (pn_spec (sr_endpoint q))"

subsection \<open>The worker cost\<close>

definition serverless_worker_cost_usd :: "decimal \<Rightarrow> int \<Rightarrow> int \<Rightarrow> py_error + decimal" where
  "serverless_worker_cost_usd rate gpu_count secs =
     (if \<not> positive_decimal rate \<or> gpu_count < 1 \<or> secs < 1 then Inl ValueError
      else
        let value = dec_div (dec_mul (dec_mul (dval rate) (of_int gpu_count)) (of_int secs)) 3600;
            micros = \<lceil>value * 10 ^ 6\<rceil>
        in if 10 ^ default_prec \<le> \<bar>micros\<bar> then Inl InvalidOperation else Inr (Dec micros (- 6)))"

subsection \<open>Quotes\<close>

record capacity_quote = job_envelope +
  sq_schema_version :: int
  sq_contract_version :: string
  sq_provider_quote_id :: string
  sq_catalog_observation_sha256 :: string
  sq_gpu_id :: string
  sq_gpu_pool :: string
  sq_gpu_name :: string
  sq_vram_gb :: int
  sq_data_center_id :: string
  sq_cloud :: CloudType
  sq_gpu_count :: int
  sq_min_cuda_version :: "string option"
  sq_availability :: Availability
  sq_benchmark_id :: string
  sq_hourly_worker_rate_usd :: decimal
  sq_idle_tail_seconds :: int
  sq_estimated_billable_seconds :: int
  sq_estimated_worker_cost_usd :: decimal
  sq_maximum_worker_cost_usd :: decimal
  sq_estimated_cost_usd :: decimal
  sq_cost_ceiling_usd :: decimal
  sq_catalog_observed_at :: datetime
  sq_expires_at :: datetime

record ServerlessCapacityQuote = capacity_quote +
  cq_profile_id :: string
  cq_endpoint_profile_sha256 :: string
  cq_endpoint_id :: string

record PlannedServerlessCapacityQuote = capacity_quote +
  pq_plan_id :: string
  pq_plan_sha256 :: string
  pq_endpoint_name :: string
  pq_endpoint_spec_sha256 :: string
  pq_operation_digest :: string
  pq_worker_reference :: string

definition cost_checks :: "'a capacity_quote_scheme \<Rightarrow> (bool \<times> py_error) list" where
  "cost_checks q =
     (case serverless_worker_cost_usd (sq_hourly_worker_rate_usd q) (sq_gpu_count q)
             (sq_estimated_billable_seconds q) of
        Inl e \<Rightarrow> [(True, e)]
      | Inr expected_worker \<Rightarrow>
          (case serverless_worker_cost_usd (sq_hourly_worker_rate_usd q) (sq_gpu_count q)
                  (sl_maximum_billable_seconds q) of
             Inl e \<Rightarrow> [(True, e)]
           | Inr maximum_worker \<Rightarrow>
               [(dval (sq_estimated_worker_cost_usd q) \<noteq> dval expected_worker
                 \<or> dval (sq_maximum_worker_cost_usd q) \<noteq> dval maximum_worker
                 \<or> dval (sq_estimated_cost_usd q)
                     \<noteq> dval (dec_plus expected_worker (sl_estimated_non_worker_cost_usd q))
                 \<or> dval (sq_cost_ceiling_usd q)
                     \<noteq> dval (dec_plus maximum_worker (sl_maximum_non_worker_cost_usd q)), ValueError)]))"

text \<open>
  The checks that both quotes make of the shared fields.  The two classes test them in a different
  order, but every check up to the cost is a \<^verbatim>\<open>ValueError\<close>.
\<close>

definition capacity_quote_checks :: "'a capacity_quote_scheme \<Rightarrow> (bool \<times> py_error) list" where
  "capacity_quote_checks q =
     [(sq_availability q = AV_NONE, ValueError)] @ below 1 [sq_gpu_count q, sq_vram_gb q]
     @ [(bad_cuda_floor (sq_min_cuda_version q), ValueError)]
     @ not_positive [sq_hourly_worker_rate_usd q, sq_estimated_worker_cost_usd q,
         sq_maximum_worker_cost_usd q, sq_estimated_cost_usd q, sq_cost_ceiling_usd q]
     @ not_nonnegative [sl_estimated_non_worker_cost_usd q]
     @ not_positive [sl_maximum_non_worker_cost_usd q]
     @ below 0 (some_list (sl_estimated_queue_delay_seconds q) @ [sl_estimated_worker_start_seconds q])
     @ below 1 [sl_estimated_execution_seconds q, sq_idle_tail_seconds q, sl_maximum_queue_delay_seconds q,
         sl_maximum_worker_start_seconds q, sl_maximum_execution_seconds q, sl_job_execution_timeout_ms q,
         sl_job_ttl_ms q, sq_estimated_billable_seconds q, sl_maximum_billable_seconds q]
     @ [(sq_estimated_billable_seconds q \<noteq> sl_estimated_worker_start_seconds q
           + sl_estimated_execution_seconds q + sq_idle_tail_seconds q, ValueError),
        (sl_maximum_billable_seconds q \<noteq> sl_maximum_worker_start_seconds q
           + sl_maximum_execution_seconds q + sq_idle_tail_seconds q, ValueError),
        (sl_maximum_billable_seconds q < sq_estimated_billable_seconds q, ValueError),
        (sl_maximum_worker_start_seconds q < sl_estimated_worker_start_seconds q, ValueError),
        (sl_maximum_execution_seconds q < sl_estimated_execution_seconds q, ValueError),
        (exceeds (sl_estimated_queue_delay_seconds q) (sl_maximum_queue_delay_seconds q), ValueError),
        (bad_execution_timeout (sl_job_execution_timeout_ms q), ValueError),
        (bad_job_ttl (sl_job_ttl_ms q), ValueError),
        (sl_job_execution_timeout_ms q < sl_maximum_execution_seconds q * 1000, ValueError),
        (sl_job_ttl_ms q < (sl_maximum_queue_delay_seconds q + sl_maximum_worker_start_seconds q
           + sl_maximum_execution_seconds q) * 1000, ValueError)]"

definition quote_end_checks :: "'a capacity_quote_scheme \<Rightarrow> (bool \<times> py_error) list" where
  "quote_end_checks q =
     cost_checks q
     @ [(dval (sq_cost_ceiling_usd q) < dval (sq_estimated_cost_usd q), ValueError)]
     @ not_aware [sq_catalog_observed_at q, sq_expires_at q]
     @ [(sq_expires_at q \<le> sq_catalog_observed_at q, ValueError)]"

definition capacity_quote_post_init :: "ServerlessCapacityQuote \<Rightarrow> py_error option" where
  "capacity_quote_post_init q = first_error
     ([(sq_schema_version q \<noteq> 1, ValueError), (sq_contract_version q \<noteq> capacity_contract, ValueError)]
      @ not_identifiers [sq_provider_quote_id q, sl_workload_kind q, cq_profile_id q, cq_endpoint_id q,
          sq_gpu_id q, sq_gpu_pool q, sq_data_center_id q, sq_benchmark_id q]
      @ [(\<not> capacity_display_name (sq_gpu_name q), ValueError)]
      @ not_digests [sl_parameters_sha256 q, cq_endpoint_profile_sha256 q, sq_catalog_observation_sha256 q]
      @ capacity_quote_checks q @ quote_end_checks q)"

definition planned_quote_post_init :: "PlannedServerlessCapacityQuote \<Rightarrow> py_error option" where
  "planned_quote_post_init q = first_error
     ([(sq_schema_version q \<noteq> 1, ValueError), (sq_contract_version q \<noteq> capacity_contract, ValueError)]
      @ not_identifiers [sq_provider_quote_id q, sl_workload_kind q, pq_plan_id q, pq_endpoint_name q,
          sq_gpu_id q, sq_gpu_pool q, sq_data_center_id q, sq_benchmark_id q]
      @ [(\<not> capacity_display_name (sq_gpu_name q), ValueError)]
      @ not_digests [sl_parameters_sha256 q, pq_plan_sha256 q, pq_endpoint_spec_sha256 q,
          pq_operation_digest q, sq_catalog_observation_sha256 q]
      @ [(\<not> worker_reference_pinned (pq_worker_reference q), ValueError)]
      @ capacity_quote_checks q
      @ [(dval (sl_maximum_non_worker_cost_usd q) < dval (sl_estimated_non_worker_cost_usd q), ValueError)]
      @ quote_end_checks q
      @ [(seconds 300 < usec (sq_expires_at q) - usec (sq_catalog_observed_at q), ValueError)])"

text \<open>The freshness and cost check of an accepted quote.\<close>

definition quote_assert_fresh :: "'a capacity_quote_scheme \<Rightarrow> datetime \<Rightarrow> decimal \<Rightarrow> py_error option" where
  "quote_assert_fresh q t accepted = first_error
     (not_aware [t] @ not_positive [accepted]
      @ [(\<not> (sq_catalog_observed_at q \<le> t \<and> t < sq_expires_at q), RunPodManagerError),
         (dval accepted \<noteq> dval (sq_cost_ceiling_usd q), RunPodManagerError)])"

definition planned_quote_evidence :: "PlannedServerlessCapacityQuote \<Rightarrow> json" where
  "planned_quote_evidence q = JObj
     [(''schema_version'', JInt (sq_schema_version q)), (''contract_version'', JStr (sq_contract_version q)),
      (''provider_quote_id'', JStr (sq_provider_quote_id q)), (''workload_kind'', JStr (sl_workload_kind q)),
      (''parameters_sha256'', JStr (sl_parameters_sha256 q)), (''plan_id'', JStr (pq_plan_id q)),
      (''plan_sha256'', JStr (pq_plan_sha256 q)), (''endpoint_name'', JStr (pq_endpoint_name q)),
      (''endpoint_spec_sha256'', JStr (pq_endpoint_spec_sha256 q)),
      (''operation_digest'', JStr (pq_operation_digest q)),
      (''worker_reference'', JStr (pq_worker_reference q)),
      (''catalog_observation_sha256'', JStr (sq_catalog_observation_sha256 q)),
      (''gpu_id'', JStr (sq_gpu_id q)), (''gpu_pool'', JStr (sq_gpu_pool q)),
      (''gpu_name'', JStr (sq_gpu_name q)), (''vram_gb'', JInt (sq_vram_gb q)),
      (''data_center_id'', JStr (sq_data_center_id q)), (''cloud'', JStr (cloud_value (sq_cloud q))),
      (''gpu_count'', JInt (sq_gpu_count q)), (''min_cuda_version'', jopt JStr (sq_min_cuda_version q)),
      (''availability'', JStr (availability_value (sq_availability q))),
      (''benchmark_id'', JStr (sq_benchmark_id q)),
      (''hourly_worker_rate_usd'', jdec (sq_hourly_worker_rate_usd q)),
      (''estimated_queue_delay_seconds'', jopt JInt (sl_estimated_queue_delay_seconds q)),
      (''estimated_worker_start_seconds'', JInt (sl_estimated_worker_start_seconds q)),
      (''estimated_execution_seconds'', JInt (sl_estimated_execution_seconds q)),
      (''idle_tail_seconds'', JInt (sq_idle_tail_seconds q)),
      (''maximum_queue_delay_seconds'', JInt (sl_maximum_queue_delay_seconds q)),
      (''maximum_worker_start_seconds'', JInt (sl_maximum_worker_start_seconds q)),
      (''maximum_execution_seconds'', JInt (sl_maximum_execution_seconds q)),
      (''job_execution_timeout_ms'', JInt (sl_job_execution_timeout_ms q)),
      (''job_ttl_ms'', JInt (sl_job_ttl_ms q)),
      (''estimated_billable_seconds'', JInt (sq_estimated_billable_seconds q)),
      (''maximum_billable_seconds'', JInt (sl_maximum_billable_seconds q)),
      (''estimated_worker_cost_usd'', jdec (sq_estimated_worker_cost_usd q)),
      (''maximum_worker_cost_usd'', jdec (sq_maximum_worker_cost_usd q)),
      (''estimated_non_worker_cost_usd'', jdec (sl_estimated_non_worker_cost_usd q)),
      (''maximum_non_worker_cost_usd'', jdec (sl_maximum_non_worker_cost_usd q)),
      (''estimated_cost_usd'', jdec (sq_estimated_cost_usd q)),
      (''cost_ceiling_usd'', jdec (sq_cost_ceiling_usd q)),
      (''catalog_observed_at'', JTime (sq_catalog_observed_at q)), (''expires_at'', JTime (sq_expires_at q))]"

definition quote_sha256 :: "(json \<Rightarrow> string) \<Rightarrow> PlannedServerlessCapacityQuote \<Rightarrow> string" where
  "quote_sha256 jsha q = jsha (planned_quote_evidence q)"

definition capacity_quote_to_dict :: "ServerlessCapacityQuote \<Rightarrow> json" where
  "capacity_quote_to_dict q = JObj
     [(''schema_version'', JInt (sq_schema_version q)), (''contract_version'', JStr (sq_contract_version q)),
      (''provider_quote_id'', JStr (sq_provider_quote_id q)), (''workload_kind'', JStr (sl_workload_kind q)),
      (''parameters_sha256'', JStr (sl_parameters_sha256 q)), (''profile_id'', JStr (cq_profile_id q)),
      (''endpoint_profile_sha256'', JStr (cq_endpoint_profile_sha256 q)),
      (''endpoint_id'', JStr (cq_endpoint_id q)),
      (''catalog_observation_sha256'', JStr (sq_catalog_observation_sha256 q)),
      (''gpu_id'', JStr (sq_gpu_id q)), (''gpu_pool'', JStr (sq_gpu_pool q)),
      (''gpu_name'', JStr (sq_gpu_name q)), (''vram_gb'', JInt (sq_vram_gb q)),
      (''data_center_id'', JStr (sq_data_center_id q)), (''cloud'', JStr (cloud_value (sq_cloud q))),
      (''gpu_count'', JInt (sq_gpu_count q)), (''min_cuda_version'', jopt JStr (sq_min_cuda_version q)),
      (''availability'', JStr (availability_value (sq_availability q))),
      (''benchmark_id'', JStr (sq_benchmark_id q)),
      (''hourly_worker_rate_usd'', jdec (sq_hourly_worker_rate_usd q)),
      (''estimated_queue_delay_seconds'', jopt JInt (sl_estimated_queue_delay_seconds q)),
      (''estimated_worker_start_seconds'', JInt (sl_estimated_worker_start_seconds q)),
      (''estimated_execution_seconds'', JInt (sl_estimated_execution_seconds q)),
      (''idle_tail_seconds'', JInt (sq_idle_tail_seconds q)),
      (''maximum_queue_delay_seconds'', JInt (sl_maximum_queue_delay_seconds q)),
      (''maximum_worker_start_seconds'', JInt (sl_maximum_worker_start_seconds q)),
      (''maximum_execution_seconds'', JInt (sl_maximum_execution_seconds q)),
      (''job_execution_timeout_ms'', JInt (sl_job_execution_timeout_ms q)),
      (''job_ttl_ms'', JInt (sl_job_ttl_ms q)),
      (''estimated_billable_seconds'', JInt (sq_estimated_billable_seconds q)),
      (''maximum_billable_seconds'', JInt (sl_maximum_billable_seconds q)),
      (''estimated_worker_cost_usd'', jdec (sq_estimated_worker_cost_usd q)),
      (''maximum_worker_cost_usd'', jdec (sq_maximum_worker_cost_usd q)),
      (''estimated_non_worker_cost_usd'', jdec (sl_estimated_non_worker_cost_usd q)),
      (''maximum_non_worker_cost_usd'', jdec (sl_maximum_non_worker_cost_usd q)),
      (''estimated_cost_usd'', jdec (sq_estimated_cost_usd q)),
      (''cost_ceiling_usd'', jdec (sq_cost_ceiling_usd q)),
      (''catalog_observed_at'', JTime (sq_catalog_observed_at q)), (''expires_at'', JTime (sq_expires_at q))]"

end
