(* ===== verification/Serverless_Receipts.thy ===== *)
theory Serverless_Receipts
  imports Serverless_Contracts
begin

text \<open>
  The evidence of \<^verbatim>\<open>serverless_capacity_contracts.py\<close>: activation, cleanup, submission, billing attempts and
  windows, endpoint-hour costs and the three billing receipts, each with its validation, identity digest
  and dictionary form.
\<close>

section \<open>Definitions\<close>

subsection \<open>Activation\<close>

record ServerlessEndpointActivationReceipt = 
  ac_schema_version :: int
  ac_contract_version :: string
  ac_provider_activation_id :: string
  ac_provider_quote_id :: string
  ac_quote_sha256 :: string
  ac_plan_id :: string
  ac_plan_sha256 :: string
  ac_endpoint_name :: string
  ac_endpoint_id :: string
  ac_endpoint_spec_sha256 :: string
  ac_operation_digest :: string
  ac_endpoint_readback_sha256 :: string
  ac_create_started_at :: datetime
  ac_activated_at :: datetime
  ac_readback_at :: datetime
  ac_reconciled_after_ambiguous_create :: bool

definition activation_identity :: "ServerlessEndpointActivationReceipt \<Rightarrow> json" where
  "activation_identity a = JObj
     [(''contract_version'', JStr (ac_contract_version a)),
      (''provider_quote_id'', JStr (ac_provider_quote_id a)), (''quote_sha256'', JStr (ac_quote_sha256 a)),
      (''plan_id'', JStr (ac_plan_id a)), (''plan_sha256'', JStr (ac_plan_sha256 a)),
      (''endpoint_name'', JStr (ac_endpoint_name a)), (''endpoint_id'', JStr (ac_endpoint_id a)),
      (''endpoint_spec_sha256'', JStr (ac_endpoint_spec_sha256 a)),
      (''operation_digest'', JStr (ac_operation_digest a)),
      (''endpoint_readback_sha256'', JStr (ac_endpoint_readback_sha256 a)),
      (''create_started_at'', JTime (ac_create_started_at a)), (''activated_at'', JTime (ac_activated_at a)),
      (''readback_at'', JTime (ac_readback_at a)),
      (''reconciled_after_ambiguous_create'', JBool (ac_reconciled_after_ambiguous_create a))]"

definition activation_id :: "(json \<Rightarrow> string) \<Rightarrow> ServerlessEndpointActivationReceipt \<Rightarrow> string" where
  "activation_id jsha a = ''runpod-serverless-activation:'' @ jsha (activation_identity a)"

definition activation_post_init :: "(json \<Rightarrow> string) \<Rightarrow> ServerlessEndpointActivationReceipt \<Rightarrow> py_error option" where
  "activation_post_init jsha a = first_error
     ([(ac_schema_version a \<noteq> 1, ValueError), (ac_contract_version a \<noteq> capacity_contract, ValueError)]
      @ not_identifiers [ac_provider_activation_id a, ac_provider_quote_id a, ac_plan_id a,
          ac_endpoint_name a, ac_endpoint_id a]
      @ not_digests [ac_quote_sha256 a, ac_plan_sha256 a, ac_endpoint_spec_sha256 a, ac_operation_digest a,
          ac_endpoint_readback_sha256 a]
      @ not_aware [ac_create_started_at a, ac_activated_at a, ac_readback_at a]
      @ [(\<not> (ac_create_started_at a \<le> ac_activated_at a \<and> ac_activated_at a \<le> ac_readback_at a), ValueError),
         (ac_provider_activation_id a \<noteq> activation_id jsha a, ValueError)])"

definition activation_validate_quote :: "(json \<Rightarrow> string) \<Rightarrow> ServerlessEndpointActivationReceipt
    \<Rightarrow> PlannedServerlessCapacityQuote \<Rightarrow> py_error + unit" where
  "activation_validate_quote jsha a q =
     (if ac_provider_quote_id a \<noteq> sq_provider_quote_id q \<or> ac_quote_sha256 a \<noteq> quote_sha256 jsha q
        \<or> ac_plan_id a \<noteq> pq_plan_id q \<or> ac_plan_sha256 a \<noteq> pq_plan_sha256 q
        \<or> ac_endpoint_name a \<noteq> pq_endpoint_name q \<or> ac_endpoint_spec_sha256 a \<noteq> pq_endpoint_spec_sha256 q
        \<or> ac_operation_digest a \<noteq> pq_operation_digest q
      then Inl RunPodManagerError else Inr ())"

definition activation_to_dict :: "ServerlessEndpointActivationReceipt \<Rightarrow> json" where
  "activation_to_dict a = JObj
     [(''schema_version'', JInt (ac_schema_version a)), (''contract_version'', JStr (ac_contract_version a)),
      (''provider_activation_id'', JStr (ac_provider_activation_id a)),
      (''provider_quote_id'', JStr (ac_provider_quote_id a)), (''quote_sha256'', JStr (ac_quote_sha256 a)),
      (''plan_id'', JStr (ac_plan_id a)), (''plan_sha256'', JStr (ac_plan_sha256 a)),
      (''endpoint_name'', JStr (ac_endpoint_name a)), (''endpoint_id'', JStr (ac_endpoint_id a)),
      (''endpoint_spec_sha256'', JStr (ac_endpoint_spec_sha256 a)),
      (''operation_digest'', JStr (ac_operation_digest a)),
      (''endpoint_readback_sha256'', JStr (ac_endpoint_readback_sha256 a)),
      (''create_started_at'', JTime (ac_create_started_at a)), (''activated_at'', JTime (ac_activated_at a)),
      (''readback_at'', JTime (ac_readback_at a)),
      (''reconciled_after_ambiguous_create'', JBool (ac_reconciled_after_ambiguous_create a))]"

subsection \<open>Cleanup\<close>

record ServerlessEndpointCleanupIntent = 
  ci_schema_version :: int
  ci_contract_version :: string
  ci_activation :: ServerlessEndpointActivationReceipt
  ci_workers_zero_observed_at :: datetime
  ci_delete_started_at :: datetime

definition intent_post_init :: "ServerlessEndpointCleanupIntent \<Rightarrow> py_error option" where
  "intent_post_init i = first_error
     ([(ci_schema_version i \<noteq> 1, ValueError), (ci_contract_version i \<noteq> capacity_contract, ValueError)]
      @ not_aware [ci_workers_zero_observed_at i, ci_delete_started_at i]
      @ [(\<not> (ac_readback_at (ci_activation i) \<le> ci_workers_zero_observed_at i
             \<and> ci_workers_zero_observed_at i \<le> ci_delete_started_at i), ValueError)])"

definition intent_entries :: "ServerlessEndpointCleanupIntent \<Rightarrow> (string \<times> json) list" where
  "intent_entries i =
     [(''schema_version'', JInt (ci_schema_version i)),
      (''contract_version'', JStr (ci_contract_version i)),
      (''activation'', activation_to_dict (ci_activation i)),
      (''workers_zero_observed_at'', JTime (ci_workers_zero_observed_at i)),
      (''delete_started_at'', JTime (ci_delete_started_at i))]"

definition cleanup_intent_id :: "(json \<Rightarrow> string) \<Rightarrow> ServerlessEndpointCleanupIntent \<Rightarrow> string" where
  "cleanup_intent_id jsha i = ''runpod-serverless-cleanup-intent:'' @ jsha (JObj (intent_entries i))"

definition intent_validate_activation :: "ServerlessEndpointCleanupIntent
    \<Rightarrow> ServerlessEndpointActivationReceipt \<Rightarrow> py_error + unit" where
  "intent_validate_activation i a = (if ci_activation i \<noteq> a then Inl RunPodManagerError else Inr ())"

definition intent_to_dict :: "(json \<Rightarrow> string) \<Rightarrow> ServerlessEndpointCleanupIntent \<Rightarrow> json" where
  "intent_to_dict jsha i =
     JObj (intent_entries i @ [(''provider_cleanup_intent_id'', JStr (cleanup_intent_id jsha i))])"

record ServerlessEndpointCleanupReceipt = 
  cu_schema_version :: int
  cu_contract_version :: string
  cu_provider_cleanup_id :: string
  cu_provider_quote_id :: string
  cu_quote_sha256 :: string
  cu_provider_activation_id :: string
  cu_endpoint_name :: string
  cu_endpoint_id :: string
  cu_endpoint_spec_sha256 :: string
  cu_operation_digest :: string
  cu_endpoint_readback_sha256 :: string
  cu_workers_zero_observed_at :: datetime
  cu_delete_started_at :: datetime
  cu_verified_absent_at :: datetime
  cu_reconciled_after_delete_error :: bool
  cu_cleanup_evidence_version :: int
  cu_cleanup_basis :: "string option"

definition cleanup_entries :: "ServerlessEndpointCleanupReceipt \<Rightarrow> (string \<times> json) list" where
  "cleanup_entries c =
     [(''contract_version'', JStr (cu_contract_version c)),
      (''provider_quote_id'', JStr (cu_provider_quote_id c)), (''quote_sha256'', JStr (cu_quote_sha256 c)),
      (''provider_activation_id'', JStr (cu_provider_activation_id c)),
      (''endpoint_name'', JStr (cu_endpoint_name c)), (''endpoint_id'', JStr (cu_endpoint_id c)),
      (''endpoint_spec_sha256'', JStr (cu_endpoint_spec_sha256 c)),
      (''operation_digest'', JStr (cu_operation_digest c)),
      (''endpoint_readback_sha256'', JStr (cu_endpoint_readback_sha256 c)),
      (''workers_zero_observed_at'', JTime (cu_workers_zero_observed_at c)),
      (''delete_started_at'', JTime (cu_delete_started_at c)),
      (''verified_absent_at'', JTime (cu_verified_absent_at c)),
      (''reconciled_after_delete_error'', JBool (cu_reconciled_after_delete_error c))]
     @ (if cu_cleanup_evidence_version c = 2
        then [(''cleanup_evidence_version'', JInt 2), (''cleanup_basis'', jopt JStr (cu_cleanup_basis c))]
        else [])"

definition cleanup_id :: "(json \<Rightarrow> string) \<Rightarrow> ServerlessEndpointCleanupReceipt \<Rightarrow> string" where
  "cleanup_id jsha c = ''runpod-serverless-cleanup:'' @ jsha (JObj (cleanup_entries c))"

definition cleanup_bases :: "(string option \<times> bool) list" where
  "cleanup_bases =
     [(Some ''delete_acknowledged'', False), (Some ''ambiguous_delete_verified_absent'', True),
      (Some ''interrupted_intent_verified_absent'', False)]"

definition cleanup_post_init :: "(json \<Rightarrow> string) \<Rightarrow> ServerlessEndpointCleanupReceipt \<Rightarrow> py_error option" where
  "cleanup_post_init jsha c = first_error
     ([(cu_schema_version c \<noteq> 1, ValueError), (cu_contract_version c \<noteq> capacity_contract, ValueError)]
      @ not_identifiers [cu_provider_cleanup_id c, cu_provider_quote_id c, cu_provider_activation_id c,
          cu_endpoint_name c, cu_endpoint_id c]
      @ not_digests [cu_quote_sha256 c, cu_endpoint_spec_sha256 c, cu_operation_digest c,
          cu_endpoint_readback_sha256 c]
      @ not_aware [cu_workers_zero_observed_at c, cu_delete_started_at c, cu_verified_absent_at c]
      @ [(\<not> (cu_workers_zero_observed_at c \<le> cu_delete_started_at c
             \<and> cu_delete_started_at c \<le> cu_verified_absent_at c), ValueError),
         (cu_cleanup_evidence_version c \<notin> {1, 2}, ValueError),
         (if cu_cleanup_evidence_version c = 1 then cu_cleanup_basis c \<noteq> None
          else (cu_cleanup_basis c, cu_reconciled_after_delete_error c) \<notin> set cleanup_bases, ValueError),
         (cu_provider_cleanup_id c \<noteq> cleanup_id jsha c, ValueError)])"

definition cleanup_validate_activation :: "ServerlessEndpointCleanupReceipt
    \<Rightarrow> ServerlessEndpointActivationReceipt \<Rightarrow> py_error + unit" where
  "cleanup_validate_activation c a =
     (if cu_provider_quote_id c \<noteq> ac_provider_quote_id a \<or> cu_quote_sha256 c \<noteq> ac_quote_sha256 a
        \<or> cu_provider_activation_id c \<noteq> ac_provider_activation_id a
        \<or> cu_endpoint_name c \<noteq> ac_endpoint_name a \<or> cu_endpoint_id c \<noteq> ac_endpoint_id a
        \<or> cu_endpoint_spec_sha256 c \<noteq> ac_endpoint_spec_sha256 a
        \<or> cu_operation_digest c \<noteq> ac_operation_digest a
        \<or> cu_endpoint_readback_sha256 c \<noteq> ac_endpoint_readback_sha256 a
      then Inl RunPodManagerError else Inr ())"

definition cleanup_to_dict :: "ServerlessEndpointCleanupReceipt \<Rightarrow> json" where
  "cleanup_to_dict c = JObj
     ([(''schema_version'', JInt (cu_schema_version c)),
       (''provider_cleanup_id'', JStr (cu_provider_cleanup_id c))] @ cleanup_entries c)"

subsection \<open>Submission\<close>

record ServerlessActivatedSubmission = 
  sb_provider_submission_id :: string
  sb_provider_quote_id :: string
  sb_quote_sha256 :: string
  sb_provider_activation_id :: string
  sb_endpoint_name :: string
  sb_endpoint_id :: string
  sb_endpoint_spec_sha256 :: string
  sb_operation_digest :: string
  sb_exclusive_window_sha256 :: string
  sb_authorized_at :: datetime
  sb_expires_at :: datetime

definition submission_identity :: "ServerlessActivatedSubmission \<Rightarrow> (string \<times> json) list" where
  "submission_identity s =
     [(''provider_quote_id'', JStr (sb_provider_quote_id s)), (''quote_sha256'', JStr (sb_quote_sha256 s)),
      (''provider_activation_id'', JStr (sb_provider_activation_id s)),
      (''endpoint_name'', JStr (sb_endpoint_name s)), (''endpoint_id'', JStr (sb_endpoint_id s)),
      (''endpoint_spec_sha256'', JStr (sb_endpoint_spec_sha256 s)),
      (''operation_digest'', JStr (sb_operation_digest s)),
      (''exclusive_window_sha256'', JStr (sb_exclusive_window_sha256 s)),
      (''authorized_at'', JTime (sb_authorized_at s)), (''expires_at'', JTime (sb_expires_at s))]"

definition submission_to_dict :: "ServerlessActivatedSubmission \<Rightarrow> json" where
  "submission_to_dict s = JObj ((''provider_submission_id'', JStr (sb_provider_submission_id s)) # submission_identity s)"

definition submission_id :: "(json \<Rightarrow> string) \<Rightarrow> ServerlessActivatedSubmission \<Rightarrow> string" where
  "submission_id jsha s = ''runpod-serverless-submission:'' @ jsha (JObj (submission_identity s))"

definition submission_post_init :: "(json \<Rightarrow> string) \<Rightarrow> ServerlessActivatedSubmission \<Rightarrow> py_error option" where
  "submission_post_init jsha s = first_error
     (not_identifiers [sb_provider_submission_id s, sb_provider_quote_id s, sb_provider_activation_id s,
        sb_endpoint_name s, sb_endpoint_id s]
      @ not_digests [sb_quote_sha256 s, sb_endpoint_spec_sha256 s, sb_operation_digest s,
          sb_exclusive_window_sha256 s]
      @ not_aware [sb_authorized_at s, sb_expires_at s]
      @ [(sb_expires_at s \<le> sb_authorized_at s, ValueError),
         (sb_provider_submission_id s \<noteq> submission_id jsha s, ValueError)])"

definition submission_validate :: "(json \<Rightarrow> string) \<Rightarrow> ServerlessActivatedSubmission
    \<Rightarrow> PlannedServerlessCapacityQuote \<Rightarrow> ServerlessEndpointActivationReceipt \<Rightarrow> py_error + unit" where
  "submission_validate jsha s q a =
     bindE (activation_validate_quote jsha a q) (\<lambda>_.
     if sb_provider_quote_id s \<noteq> sq_provider_quote_id q \<or> sb_quote_sha256 s \<noteq> quote_sha256 jsha q
        \<or> sb_provider_activation_id s \<noteq> ac_provider_activation_id a
        \<or> sb_endpoint_name s \<noteq> ac_endpoint_name a \<or> sb_endpoint_id s \<noteq> ac_endpoint_id a
        \<or> sb_endpoint_spec_sha256 s \<noteq> ac_endpoint_spec_sha256 a
        \<or> sb_operation_digest s \<noteq> ac_operation_digest a
        \<or> \<not> (sq_catalog_observed_at q \<le> sb_authorized_at s \<and> sb_authorized_at s < sq_expires_at q)
        \<or> sb_expires_at s \<noteq> sq_expires_at q
     then Inl RunPodManagerError else Inr ())"

subsection \<open>Endpoint hours\<close>

definition max_coverage_seconds :: int where
  "max_coverage_seconds = 608400"

definition max_exclusive_hours :: nat where
  "max_exclusive_hours = 171"

definition serverless_billing_hour_bounds :: "datetime \<Rightarrow> datetime \<Rightarrow> py_error + datetime \<times> datetime" where
  "serverless_billing_hour_bounds started_at coverage_until =
     (if \<not> is_aware started_at \<or> \<not> is_aware coverage_until then Inl ValueError
      else billing_hour_bounds started_at coverage_until)"

function hours_between :: "int \<Rightarrow> int \<Rightarrow> datetime list" where
  "hours_between cursor until = (if cursor < until then Aware cursor # hours_between (cursor + hour) until else [])"
  by pat_completeness auto
termination
  by (relation "measure (\<lambda>(cursor, until). nat (until - cursor))") auto

declare hours_between.simps [simp del]

definition serverless_billing_hour_starts :: "datetime \<Rightarrow> datetime \<Rightarrow> py_error + datetime list" where
  "serverless_billing_hour_starts started_at coverage_until =
     bindE (serverless_billing_hour_bounds started_at coverage_until) (\<lambda>(first, until).
     if seconds max_coverage_seconds < usec coverage_until - usec started_at then Inl ValueError
     else Inr (hours_between (usec first) (usec until)))"

fun contiguous_hours :: "datetime option \<Rightarrow> datetime list \<Rightarrow> bool" where
  "contiguous_hours previous [] = True"
| "contiguous_hours previous (t # ts) \<longleftrightarrow>
     is_aware t \<and> floor_hour (usec t) = usec t
     \<and> (case previous of None \<Rightarrow> True | Some p \<Rightarrow> t = dt_add p hour) \<and> contiguous_hours (Some t) ts"

definition normalized_exclusive_hours :: "datetime list \<Rightarrow> py_error + datetime list" where
  "normalized_exclusive_hours values =
     (if values = [] \<or> max_exclusive_hours < length values \<or> \<not> contiguous_hours None values
      then Inl ValueError else Inr values)"

definition ordered_hours_cover :: "datetime list \<Rightarrow> datetime list \<Rightarrow> bool" where
  "ordered_hours_cover actual required \<longleftrightarrow>
     actual \<noteq> [] \<and> required \<noteq> [] \<and> hd actual \<le> hd required \<and> last required \<le> last actual"

text \<open>The allocation of hours covers an interval; every failure is a \<^verbatim>\<open>ValueError\<close>.\<close>

definition hours_uncovered :: "datetime list \<Rightarrow> datetime \<Rightarrow> datetime \<Rightarrow> bool" where
  "hours_uncovered allocation started_at coverage_until =
     (case serverless_billing_hour_starts started_at coverage_until of
        Inl _ \<Rightarrow> True
      | Inr required \<Rightarrow>
          (case normalized_exclusive_hours allocation of
             Inl _ \<Rightarrow> True
           | Inr actual \<Rightarrow> \<not> ordered_hours_cover actual required))"

definition window_mismatch :: "datetime list \<Rightarrow> datetime \<Rightarrow> datetime \<Rightarrow> bool" where
  "window_mismatch allocation window_from window_until \<longleftrightarrow>
     window_from \<noteq> hd allocation \<or> window_until \<noteq> dt_add (last allocation) hour"

definition maximum_elapsed :: "'a capacity_quote_scheme \<Rightarrow> int" where
  "maximum_elapsed q = sl_maximum_queue_delay_seconds q + sl_maximum_worker_start_seconds q
     + sl_maximum_execution_seconds q"

subsection \<open>Attempts and ambiguous windows\<close>

record ServerlessBillingAttempt = 
  ba_attempt_id :: string
  ba_job_id :: string
  ba_endpoint_id :: string
  ba_provider_quote_id :: string
  ba_exclusive_window_sha256 :: string
  ba_exclusive_billing_hour_starts :: "datetime list"
  ba_submitted_at :: datetime
  ba_completed_at :: datetime

definition attempt_post_init :: "ServerlessBillingAttempt \<Rightarrow> py_error option" where
  "attempt_post_init a = first_error
     (not_identifiers [ba_attempt_id a, ba_job_id a, ba_endpoint_id a, ba_provider_quote_id a]
      @ not_digests [ba_exclusive_window_sha256 a]
      @ [(case normalized_exclusive_hours (ba_exclusive_billing_hour_starts a) of
            Inl _ \<Rightarrow> True | Inr _ \<Rightarrow> False, ValueError)]
      @ not_aware [ba_submitted_at a, ba_completed_at a]
      @ [(ba_completed_at a \<le> ba_submitted_at a, ValueError)])"

definition attempt_validate_quote :: "ServerlessBillingAttempt \<Rightarrow> ServerlessCapacityQuote \<Rightarrow> py_error + unit" where
  "attempt_validate_quote a q =
     (if ba_endpoint_id a \<noteq> cq_endpoint_id q then Inl RunPodManagerError
      else if ba_provider_quote_id a \<noteq> sq_provider_quote_id q then Inl RunPodManagerError
      else if \<not> (sq_catalog_observed_at q \<le> ba_submitted_at a \<and> ba_submitted_at a < sq_expires_at q)
      then Inl RunPodManagerError
      else if seconds (maximum_elapsed q) < usec (ba_completed_at a) - usec (ba_submitted_at a)
      then Inl RunPodManagerError
      else bindE (serverless_billing_hour_starts (ba_submitted_at a)
             (dt_add (ba_completed_at a) (seconds (sq_idle_tail_seconds q)))) (\<lambda>expected.
        if ordered_hours_cover (ba_exclusive_billing_hour_starts a) expected then Inr ()
        else Inl RunPodManagerError))"

record ServerlessAmbiguousBillingWindow = 
  bw_attempt_id :: string
  bw_endpoint_id :: string
  bw_provider_quote_id :: string
  bw_exclusive_window_sha256 :: string
  bw_exclusive_billing_hour_starts :: "datetime list"
  bw_attempted_at :: datetime
  bw_billable_coverage_until :: datetime
  bw_accepted_cost_ceiling_usd :: decimal

definition window_post_init :: "ServerlessAmbiguousBillingWindow \<Rightarrow> py_error option" where
  "window_post_init w = first_error
     (not_identifiers [bw_attempt_id w, bw_endpoint_id w, bw_provider_quote_id w]
      @ not_digests [bw_exclusive_window_sha256 w]
      @ not_aware [bw_attempted_at w, bw_billable_coverage_until w]
      @ [(hours_uncovered (bw_exclusive_billing_hour_starts w) (bw_attempted_at w)
            (bw_billable_coverage_until w), ValueError)]
      @ not_positive [bw_accepted_cost_ceiling_usd w])"

definition worst_case_coverage :: "datetime \<Rightarrow> 'a capacity_quote_scheme \<Rightarrow> datetime" where
  "worst_case_coverage attempted_at q =
     dt_add attempted_at (seconds (maximum_elapsed q + sq_idle_tail_seconds q))"

definition window_validate_quote :: "ServerlessAmbiguousBillingWindow \<Rightarrow> ServerlessCapacityQuote
    \<Rightarrow> py_error + unit" where
  "window_validate_quote w q =
     (if bw_endpoint_id w \<noteq> cq_endpoint_id q
        \<or> bw_provider_quote_id w \<noteq> sq_provider_quote_id q
        \<or> dval (bw_accepted_cost_ceiling_usd w) \<noteq> dval (sq_cost_ceiling_usd q)
        \<or> \<not> (sq_catalog_observed_at q \<le> bw_attempted_at w \<and> bw_attempted_at w < sq_expires_at q)
        \<or> bw_billable_coverage_until w \<noteq> worst_case_coverage (bw_attempted_at w) q
      then Inl RunPodManagerError else Inr ())"

definition window_validate_submission :: "(json \<Rightarrow> string) \<Rightarrow> ServerlessAmbiguousBillingWindow
    \<Rightarrow> PlannedServerlessCapacityQuote \<Rightarrow> ServerlessEndpointActivationReceipt
    \<Rightarrow> ServerlessActivatedSubmission \<Rightarrow> py_error + unit" where
  "window_validate_submission jsha w q a s =
     bindE (submission_validate jsha s q a) (\<lambda>_.
     if bw_endpoint_id w \<noteq> ac_endpoint_id a
        \<or> bw_provider_quote_id w \<noteq> sq_provider_quote_id q
        \<or> bw_exclusive_window_sha256 w \<noteq> sb_exclusive_window_sha256 s
        \<or> dval (bw_accepted_cost_ceiling_usd w) \<noteq> dval (sq_cost_ceiling_usd q)
        \<or> \<not> (sb_authorized_at s \<le> bw_attempted_at w \<and> bw_attempted_at w < sb_expires_at s)
        \<or> bw_billable_coverage_until w \<noteq> worst_case_coverage (bw_attempted_at w) q
     then Inl RunPodManagerError else Inr ())"

definition window_to_dict :: "ServerlessAmbiguousBillingWindow \<Rightarrow> json" where
  "window_to_dict w = JObj
     [(''attempt_id'', JStr (bw_attempt_id w)), (''endpoint_id'', JStr (bw_endpoint_id w)),
      (''provider_quote_id'', JStr (bw_provider_quote_id w)),
      (''exclusive_window_sha256'', JStr (bw_exclusive_window_sha256 w)),
      (''exclusive_billing_hour_starts'', JList (map JTime (bw_exclusive_billing_hour_starts w))),
      (''attempted_at'', JTime (bw_attempted_at w)),
      (''billable_coverage_until'', JTime (bw_billable_coverage_until w)),
      (''accepted_cost_ceiling_usd'', jdec (bw_accepted_cost_ceiling_usd w))]"

subsection \<open>Endpoint-hour costs\<close>

record ServerlessEndpointHourCost = 
  hc_provider_observation_id :: string
  hc_endpoint_id :: string
  hc_utc_hour_start :: datetime
  hc_utc_hour_end :: datetime
  hc_gpu_cost_usd :: decimal
  hc_cpu_cost_usd :: decimal
  hc_disk_cost_usd :: decimal
  hc_fee_cost_usd :: decimal
  hc_actual_cost_usd :: decimal

text \<open>The sum of the components, or an error for one that is not finite, differs from the total.\<close>

definition sum_differs :: "decimal list \<Rightarrow> decimal \<Rightarrow> bool" where
  "sum_differs components amount =
     (case decimal_sum components of Inl _ \<Rightarrow> True | Inr s \<Rightarrow> dval amount \<noteq> dval s)"

definition hour_cost_post_init :: "ServerlessEndpointHourCost \<Rightarrow> py_error option" where
  "hour_cost_post_init h = first_error
     (not_identifiers [hc_provider_observation_id h, hc_endpoint_id h]
      @ not_aware [hc_utc_hour_start h, hc_utc_hour_end h]
      @ [(floor_hour (usec (hc_utc_hour_start h)) \<noteq> usec (hc_utc_hour_start h)
          \<or> hc_utc_hour_end h \<noteq> dt_add (hc_utc_hour_start h) hour, ValueError)]
      @ not_nonnegative [hc_gpu_cost_usd h, hc_cpu_cost_usd h, hc_disk_cost_usd h, hc_fee_cost_usd h,
          hc_actual_cost_usd h]
      @ [(sum_differs [hc_gpu_cost_usd h, hc_cpu_cost_usd h, hc_disk_cost_usd h, hc_fee_cost_usd h]
            (hc_actual_cost_usd h), ValueError)])"

definition hour_cost_to_dict :: "ServerlessEndpointHourCost \<Rightarrow> json" where
  "hour_cost_to_dict h = JObj
     [(''provider_observation_id'', JStr (hc_provider_observation_id h)),
      (''endpoint_id'', JStr (hc_endpoint_id h)), (''utc_hour_start'', JTime (hc_utc_hour_start h)),
      (''utc_hour_end'', JTime (hc_utc_hour_end h)), (''gpu_cost_usd'', jdec (hc_gpu_cost_usd h)),
      (''cpu_cost_usd'', jdec (hc_cpu_cost_usd h)), (''disk_cost_usd'', jdec (hc_disk_cost_usd h)),
      (''fee_cost_usd'', jdec (hc_fee_cost_usd h)), (''actual_cost_usd'', jdec (hc_actual_cost_usd h))]"

text \<open>The five sums over the hours: GPU, CPU, disk, fee and total.\<close>

record cost_totals =
  ct_gpu_cost_usd :: decimal
  ct_cpu_cost_usd :: decimal
  ct_disk_cost_usd :: decimal
  ct_fee_cost_usd :: decimal
  ct_actual_cost_usd :: decimal

definition hour_cost_totals :: "ServerlessEndpointHourCost list \<Rightarrow> py_error + cost_totals" where
  "hour_cost_totals hs =
     bindE (decimal_sum (map hc_gpu_cost_usd hs)) (\<lambda>gpu.
     bindE (decimal_sum (map hc_cpu_cost_usd hs)) (\<lambda>cpu.
     bindE (decimal_sum (map hc_disk_cost_usd hs)) (\<lambda>disk.
     bindE (decimal_sum (map hc_fee_cost_usd hs)) (\<lambda>fee.
     bindE (decimal_sum (map hc_actual_cost_usd hs)) (\<lambda>actual.
     Inr \<lparr> ct_gpu_cost_usd = gpu, ct_cpu_cost_usd = cpu, ct_disk_cost_usd = disk, ct_fee_cost_usd = fee,
           ct_actual_cost_usd = actual \<rparr>)))))"

definition totals_entries :: "cost_totals \<Rightarrow> (string \<times> json) list" where
  "totals_entries t =
     [(''gpu_cost_usd'', jdec (ct_gpu_cost_usd t)), (''cpu_cost_usd'', jdec (ct_cpu_cost_usd t)),
      (''disk_cost_usd'', jdec (ct_disk_cost_usd t)), (''fee_cost_usd'', jdec (ct_fee_cost_usd t)),
      (''actual_cost_usd'', jdec (ct_actual_cost_usd t))]"

subsection \<open>The receipt of a job\<close>

record ServerlessBillingReceipt = 
  br_schema_version :: int
  br_contract_version :: string
  br_provider_billing_id :: string
  br_provider_quote_id :: string
  br_endpoint_profile_sha256 :: string
  br_endpoint_id :: string
  br_job_id :: string
  br_attempt_id :: string
  br_exclusive_window_sha256 :: string
  br_exclusive_billing_hour_starts :: "datetime list"
  br_attempt_started_at :: datetime
  br_attempt_completed_at :: datetime
  br_billable_coverage_until :: datetime
  br_billing_window_from :: datetime
  br_billing_window_until :: datetime
  br_hourly_worker_rate_usd :: decimal
  br_pre_execution_delay_ms :: "int option"
  br_worker_startup_ms :: "int option"
  br_execution_ms :: "int option"
  br_accepted_idle_tail_ms :: int
  br_idle_tail_ms :: "int option"
  br_gpu_cost_usd :: decimal
  br_cpu_cost_usd :: decimal
  br_disk_cost_usd :: decimal
  br_fee_cost_usd :: decimal
  br_actual_cost_usd :: decimal
  br_reconciled_at :: datetime

text \<open>
  \<^verbatim>\<open>int((completed - started).total_seconds() * 1_000)\<close>: a float product, cut off.
\<close>

definition attempt_ms :: "datetime \<Rightarrow> datetime \<Rightarrow> int" where
  "attempt_ms started completed = \<lfloor>float_value (total_seconds (usec completed - usec started) * 1000)\<rfloor>"

definition or_zero :: "int option \<Rightarrow> int" where
  "or_zero x = (case x of None \<Rightarrow> 0 | Some n \<Rightarrow> n)"

definition receipt_times_wrong :: "ServerlessBillingReceipt \<Rightarrow> bool" where
  "receipt_times_wrong r \<longleftrightarrow>
     \<not> (br_billing_window_from r \<le> br_attempt_started_at r
        \<and> br_attempt_started_at r < br_attempt_completed_at r
        \<and> br_attempt_completed_at r < br_billable_coverage_until r
        \<and> br_billable_coverage_until r \<le> br_billing_window_until r
        \<and> br_billing_window_until r \<le> br_reconciled_at r)"

definition billing_receipt_post_init :: "ServerlessBillingReceipt \<Rightarrow> py_error option" where
  "billing_receipt_post_init r = first_error
     ([(br_schema_version r \<noteq> 1, ValueError), (br_contract_version r \<noteq> capacity_contract, ValueError)]
      @ not_identifiers [br_provider_billing_id r, br_provider_quote_id r, br_endpoint_id r, br_job_id r,
          br_attempt_id r]
      @ not_digests [br_endpoint_profile_sha256 r, br_exclusive_window_sha256 r]
      @ not_aware [br_attempt_started_at r, br_attempt_completed_at r, br_billable_coverage_until r,
          br_billing_window_from r, br_billing_window_until r, br_reconciled_at r]
      @ [(receipt_times_wrong r, ValueError)]
      @ below 1 [br_accepted_idle_tail_ms r]
      @ [(br_billable_coverage_until r \<noteq> dt_add (br_attempt_completed_at r)
            (br_accepted_idle_tail_ms r * 1000), ValueError),
         (hours_uncovered (br_exclusive_billing_hour_starts r) (br_attempt_started_at r)
            (br_billable_coverage_until r), ValueError),
         (window_mismatch (br_exclusive_billing_hour_starts r) (br_billing_window_from r)
            (br_billing_window_until r), ValueError)]
      @ not_positive [br_hourly_worker_rate_usd r]
      @ below 0 (some_list (br_pre_execution_delay_ms r) @ some_list (br_worker_startup_ms r)
          @ some_list (br_execution_ms r) @ some_list (br_idle_tail_ms r))
      @ not_nonnegative [br_gpu_cost_usd r, br_cpu_cost_usd r, br_disk_cost_usd r, br_fee_cost_usd r,
          br_actual_cost_usd r]
      @ [(sum_differs [br_gpu_cost_usd r, br_cpu_cost_usd r, br_disk_cost_usd r, br_fee_cost_usd r]
            (br_actual_cost_usd r), ValueError),
         (attempt_ms (br_attempt_started_at r) (br_attempt_completed_at r)
            < or_zero (br_pre_execution_delay_ms r) + or_zero (br_execution_ms r), ValueError)])"

definition billing_receipt_to_dict :: "ServerlessBillingReceipt \<Rightarrow> json" where
  "billing_receipt_to_dict r = JObj
     [(''schema_version'', JInt (br_schema_version r)), (''contract_version'', JStr (br_contract_version r)),
      (''provider_billing_id'', JStr (br_provider_billing_id r)),
      (''provider_quote_id'', JStr (br_provider_quote_id r)),
      (''endpoint_profile_sha256'', JStr (br_endpoint_profile_sha256 r)),
      (''endpoint_id'', JStr (br_endpoint_id r)), (''job_id'', JStr (br_job_id r)),
      (''attempt_id'', JStr (br_attempt_id r)),
      (''exclusive_window_sha256'', JStr (br_exclusive_window_sha256 r)),
      (''exclusive_billing_hour_starts'', JList (map JTime (br_exclusive_billing_hour_starts r))),
      (''attempt_started_at'', JTime (br_attempt_started_at r)),
      (''attempt_completed_at'', JTime (br_attempt_completed_at r)),
      (''billable_coverage_until'', JTime (br_billable_coverage_until r)),
      (''billing_window_from'', JTime (br_billing_window_from r)),
      (''billing_window_until'', JTime (br_billing_window_until r)),
      (''hourly_worker_rate_usd'', jdec (br_hourly_worker_rate_usd r)),
      (''pre_execution_delay_ms'', jopt JInt (br_pre_execution_delay_ms r)),
      (''worker_startup_ms'', jopt JInt (br_worker_startup_ms r)),
      (''execution_ms'', jopt JInt (br_execution_ms r)),
      (''accepted_idle_tail_ms'', JInt (br_accepted_idle_tail_ms r)),
      (''idle_tail_ms'', jopt JInt (br_idle_tail_ms r)), (''gpu_cost_usd'', jdec (br_gpu_cost_usd r)),
      (''cpu_cost_usd'', jdec (br_cpu_cost_usd r)), (''disk_cost_usd'', jdec (br_disk_cost_usd r)),
      (''fee_cost_usd'', jdec (br_fee_cost_usd r)), (''actual_cost_usd'', jdec (br_actual_cost_usd r)),
      (''reconciled_at'', JTime (br_reconciled_at r))]"

subsection \<open>The receipt of an ambiguous window\<close>

record ServerlessAmbiguousWindowBillingReceipt = 
  am_schema_version :: int
  am_contract_version :: string
  am_provider_billing_id :: string
  am_provider_quote_id :: string
  am_endpoint_profile_sha256 :: string
  am_endpoint_id :: string
  am_attempt_id :: string
  am_exclusive_window_sha256 :: string
  am_exclusive_billing_hour_starts :: "datetime list"
  am_attempted_at :: datetime
  am_billable_coverage_until :: datetime
  am_billing_window_from :: datetime
  am_billing_window_until :: datetime
  am_accepted_cost_ceiling_usd :: decimal
  am_endpoint_hour_costs :: "ServerlessEndpointHourCost list"
  am_gpu_cost_usd :: decimal
  am_cpu_cost_usd :: decimal
  am_disk_cost_usd :: decimal
  am_fee_cost_usd :: decimal
  am_actual_cost_usd :: decimal
  am_capped_cost_usd :: decimal
  am_operator_loss_usd :: decimal
  am_reconciled_at :: datetime

definition hours_bound :: "string \<Rightarrow> datetime list \<Rightarrow> ServerlessEndpointHourCost list \<Rightarrow> bool" where
  "hours_bound endpoint_id allocation hs \<longleftrightarrow>
     hs \<noteq> [] \<and> list_all (\<lambda>h. hc_endpoint_id h = endpoint_id) hs
     \<and> distinct (map hc_provider_observation_id hs) \<and> map hc_utc_hour_start hs = allocation"

definition totals_differ :: "ServerlessEndpointHourCost list \<Rightarrow> decimal list \<Rightarrow> bool" where
  "totals_differ hs amounts =
     (case hour_cost_totals hs of
        Inl _ \<Rightarrow> True
      | Inr t \<Rightarrow> map dval amounts \<noteq> map dval [ct_gpu_cost_usd t, ct_cpu_cost_usd t, ct_disk_cost_usd t,
                                     ct_fee_cost_usd t, ct_actual_cost_usd t])"

text \<open>\<^verbatim>\<open>min(actual, ceiling)\<close> returns the first of two equal amounts.\<close>

definition decimal_min :: "decimal \<Rightarrow> decimal \<Rightarrow> decimal" where
  "decimal_min a b = (if dval b < dval a then b else a)"

definition ambiguous_receipt_post_init :: "ServerlessAmbiguousWindowBillingReceipt \<Rightarrow> py_error option" where
  "ambiguous_receipt_post_init r = first_error
     ([(am_schema_version r \<noteq> 1, ValueError), (am_contract_version r \<noteq> capacity_contract, ValueError)]
      @ not_identifiers [am_provider_billing_id r, am_provider_quote_id r, am_endpoint_id r, am_attempt_id r]
      @ not_digests [am_endpoint_profile_sha256 r, am_exclusive_window_sha256 r]
      @ not_aware [am_attempted_at r, am_billable_coverage_until r, am_billing_window_from r,
          am_billing_window_until r, am_reconciled_at r]
      @ [(\<not> (am_billing_window_from r \<le> am_attempted_at r
             \<and> am_attempted_at r < am_billable_coverage_until r
             \<and> am_billable_coverage_until r \<le> am_billing_window_until r
             \<and> am_billing_window_until r \<le> am_reconciled_at r), ValueError),
         (hours_uncovered (am_exclusive_billing_hour_starts r) (am_attempted_at r)
            (am_billable_coverage_until r), ValueError),
         (window_mismatch (am_exclusive_billing_hour_starts r) (am_billing_window_from r)
            (am_billing_window_until r), ValueError),
         (\<not> hours_bound (am_endpoint_id r) (am_exclusive_billing_hour_starts r) (am_endpoint_hour_costs r),
          ValueError)]
      @ not_positive [am_accepted_cost_ceiling_usd r]
      @ not_nonnegative [am_gpu_cost_usd r, am_cpu_cost_usd r, am_disk_cost_usd r, am_fee_cost_usd r,
          am_actual_cost_usd r, am_capped_cost_usd r, am_operator_loss_usd r]
      @ [(sum_differs [am_gpu_cost_usd r, am_cpu_cost_usd r, am_disk_cost_usd r, am_fee_cost_usd r]
            (am_actual_cost_usd r), ValueError),
         (totals_differ (am_endpoint_hour_costs r) [am_gpu_cost_usd r, am_cpu_cost_usd r,
            am_disk_cost_usd r, am_fee_cost_usd r, am_actual_cost_usd r], ValueError),
         (dval (am_capped_cost_usd r)
            \<noteq> dval (decimal_min (am_actual_cost_usd r) (am_accepted_cost_ceiling_usd r)), ValueError),
         (sum_differs [am_actual_cost_usd r, negated (am_capped_cost_usd r)] (am_operator_loss_usd r),
          ValueError)])"

definition ambiguous_receipt_to_dict :: "ServerlessAmbiguousWindowBillingReceipt \<Rightarrow> json" where
  "ambiguous_receipt_to_dict r = JObj
     [(''schema_version'', JInt (am_schema_version r)), (''contract_version'', JStr (am_contract_version r)),
      (''provider_billing_id'', JStr (am_provider_billing_id r)),
      (''provider_quote_id'', JStr (am_provider_quote_id r)),
      (''endpoint_profile_sha256'', JStr (am_endpoint_profile_sha256 r)),
      (''endpoint_id'', JStr (am_endpoint_id r)), (''attempt_id'', JStr (am_attempt_id r)),
      (''exclusive_window_sha256'', JStr (am_exclusive_window_sha256 r)),
      (''exclusive_billing_hour_starts'', JList (map JTime (am_exclusive_billing_hour_starts r))),
      (''attempted_at'', JTime (am_attempted_at r)),
      (''billable_coverage_until'', JTime (am_billable_coverage_until r)),
      (''billing_window_from'', JTime (am_billing_window_from r)),
      (''billing_window_until'', JTime (am_billing_window_until r)),
      (''accepted_cost_ceiling_usd'', jdec (am_accepted_cost_ceiling_usd r)),
      (''endpoint_hour_costs'', JList (map hour_cost_to_dict (am_endpoint_hour_costs r))),
      (''gpu_cost_usd'', jdec (am_gpu_cost_usd r)), (''cpu_cost_usd'', jdec (am_cpu_cost_usd r)),
      (''disk_cost_usd'', jdec (am_disk_cost_usd r)), (''fee_cost_usd'', jdec (am_fee_cost_usd r)),
      (''actual_cost_usd'', jdec (am_actual_cost_usd r)), (''capped_cost_usd'', jdec (am_capped_cost_usd r)),
      (''operator_loss_usd'', jdec (am_operator_loss_usd r)), (''reconciled_at'', JTime (am_reconciled_at r))]"

subsection \<open>The receipt of a retired endpoint\<close>

record ServerlessRetiredEndpointBillingReceipt = 
  rr_schema_version :: int
  rr_contract_version :: string
  rr_activation :: ServerlessEndpointActivationReceipt
  rr_cleanup :: ServerlessEndpointCleanupReceipt
  rr_endpoint_hour_costs :: "ServerlessEndpointHourCost list"
  rr_reconciled_at :: datetime

text \<open>The hours follow one another from the start of the window; the result is where they end.\<close>

fun lifecycle_hours :: "string \<Rightarrow> datetime \<Rightarrow> string list \<Rightarrow> ServerlessEndpointHourCost list \<Rightarrow> datetime option" where
  "lifecycle_hours endpoint_id cursor seen [] = Some cursor"
| "lifecycle_hours endpoint_id cursor seen (h # hs) =
     (if hc_endpoint_id h \<noteq> endpoint_id \<or> hc_utc_hour_start h \<noteq> cursor
        \<or> hc_provider_observation_id h \<in> set seen
      then None
      else lifecycle_hours endpoint_id (hc_utc_hour_end h) (hc_provider_observation_id h # seen) hs)"

definition billing_window :: "ServerlessRetiredEndpointBillingReceipt \<Rightarrow> py_error + datetime \<times> datetime" where
  "billing_window r = serverless_billing_hour_bounds (ac_create_started_at (rr_activation r))
     (cu_verified_absent_at (rr_cleanup r))"

definition retired_receipt_post_init :: "ServerlessRetiredEndpointBillingReceipt \<Rightarrow> py_error option" where
  "retired_receipt_post_init r =
     (case first_error [(rr_schema_version r \<noteq> 1, ValueError),
             (rr_contract_version r \<noteq> capacity_contract, ValueError)] of
        Some e \<Rightarrow> Some e
      | None \<Rightarrow>
          (case cleanup_validate_activation (rr_cleanup r) (rr_activation r) of
             Inl e \<Rightarrow> Some e
           | Inr _ \<Rightarrow>
               (case first_error ([(cu_workers_zero_observed_at (rr_cleanup r)
                         < ac_readback_at (rr_activation r), ValueError)] @ not_aware [rr_reconciled_at r]) of
                  Some e \<Rightarrow> Some e
                | None \<Rightarrow>
                    (case billing_window r of
                       Inl e \<Rightarrow> Some e
                     | Inr (start, until) \<Rightarrow> first_error
                         [(rr_reconciled_at r < until, ValueError), (rr_endpoint_hour_costs r = [], ValueError),
                          (lifecycle_hours (ac_endpoint_id (rr_activation r)) start []
                             (rr_endpoint_hour_costs r) \<noteq> Some until, ValueError)]))))"

definition retired_totals :: "ServerlessRetiredEndpointBillingReceipt \<Rightarrow> json" where
  "retired_totals r =
     (case hour_cost_totals (rr_endpoint_hour_costs r) of Inl _ \<Rightarrow> JNull | Inr t \<Rightarrow> JObj (totals_entries t))"

definition retired_entries :: "ServerlessRetiredEndpointBillingReceipt \<Rightarrow> (string \<times> json) list" where
  "retired_entries r =
     [(''schema_version'', JInt (rr_schema_version r)),
      (''contract_version'', JStr (rr_contract_version r)),
      (''cost_scope'', JStr ''endpoint_lifecycle''), (''provider_finality_confirmed'', JBool False),
      (''activation'', activation_to_dict (rr_activation r)),
      (''cleanup'', cleanup_to_dict (rr_cleanup r)),
      (''endpoint_hour_costs'', JList (map hour_cost_to_dict (rr_endpoint_hour_costs r))),
      (''cost_totals'', retired_totals r)]"

definition retired_billing_id :: "(json \<Rightarrow> string) \<Rightarrow> ServerlessRetiredEndpointBillingReceipt \<Rightarrow> string" where
  "retired_billing_id jsha r = ''runpod-retired-endpoint-billing:'' @ jsha (JObj (retired_entries r))"

definition retired_receipt_to_dict :: "(json \<Rightarrow> string) \<Rightarrow> ServerlessRetiredEndpointBillingReceipt \<Rightarrow> json" where
  "retired_receipt_to_dict jsha r = JObj
     (retired_entries r @ [(''provider_billing_id'', JStr (retired_billing_id jsha r)),
                           (''reconciled_at'', JTime (rr_reconciled_at r))])"

end
