(* ===== verification/Serverless_Codec.thy ===== *)
theory Serverless_Codec
  imports Serverless_Receipts
begin

text \<open>
  The readers of stored serverless evidence (\<^verbatim>\<open>from_dict\<close>).  The text that \<^verbatim>\<open>iso_datetime\<close> prints is the
  tagged value \<^verbatim>\<open>JTime\<close>; \<^verbatim>\<open>datetime.fromisoformat\<close> of any other text is the argument \<open>R\<close>.  Every reader
  demands the exact set of fields, reads them in the order of the source and builds the object through
  its validation.
\<close>

section \<open>Definitions\<close>

subsection \<open>Field readers\<close>

type_synonym text_reader = "string \<Rightarrow> datetime option"

definition stored_optional_string :: "json \<Rightarrow> py_error + string option" where
  "stored_optional_string v = (case v of
       JNull \<Rightarrow> Inr None
     | JStr s \<Rightarrow> if s = [] then Inl RunPodManagerError else Inr (Some s)
     | _ \<Rightarrow> Inl RunPodManagerError)"

definition stored_optional_int :: "json \<Rightarrow> py_error + int option" where
  "stored_optional_int v = (case v of
       JNull \<Rightarrow> Inr None | JInt n \<Rightarrow> Inr (Some n) | _ \<Rightarrow> Inl RunPodManagerError)"

definition required_decimal :: "json \<Rightarrow> string \<Rightarrow> py_error + decimal" where
  "required_decimal v k = (case jget v k of
       JStr s \<Rightarrow> (case python_decimal s of None \<Rightarrow> Inl RunPodManagerError | Some d \<Rightarrow> Inr d)
     | _ \<Rightarrow> Inl RunPodManagerError)"

definition parse_datetime :: "text_reader \<Rightarrow> json \<Rightarrow> py_error + datetime" where
  "parse_datetime R v = (case v of
       JTime t \<Rightarrow> if is_aware t then Inr t else Inl ValueError
     | JStr s \<Rightarrow> (case R s of
           None \<Rightarrow> Inl RunPodManagerError
         | Some t \<Rightarrow> if is_aware t then Inr t else Inl ValueError)
     | _ \<Rightarrow> Inl RunPodManagerError)"

definition required_datetime :: "text_reader \<Rightarrow> json \<Rightarrow> string \<Rightarrow> py_error + datetime" where
  "required_datetime R v k =
     (if jget v k = JStr [] then Inl RunPodManagerError else parse_datetime R (jget v k))"

definition required_datetimes :: "text_reader \<Rightarrow> json \<Rightarrow> string \<Rightarrow> py_error + datetime list" where
  "required_datetimes R v k = (case jget v k of
       JList items \<Rightarrow> if items = [] then Inl RunPodManagerError else mapE (parse_datetime R) items
     | _ \<Rightarrow> Inl RunPodManagerError)"

definition clouds :: "(string \<times> CloudType) list" where
  "clouds = map (\<lambda>c. (cloud_value c, c)) [SECURE, COMMUNITY]"

definition flashboots :: "(string \<times> FlashBoot) list" where
  "flashboots = map (\<lambda>f. (flashboot_value f, f)) [FB_OFF, FB_FLASHBOOT, FB_PRIORITY_FLASHBOOT]"

text \<open>The constructor of an enumeration class.\<close>

definition enum_of :: "(string \<times> 'a) list \<Rightarrow> json \<Rightarrow> string \<Rightarrow> py_error + 'a" where
  "enum_of table v k =
     bindE (required_string v k) (\<lambda>s. case map_of table s of None \<Rightarrow> Inl ValueError | Some x \<Rightarrow> Inr x)"

definition required_cloud :: "json \<Rightarrow> string \<Rightarrow> py_error + CloudType" where
  "required_cloud = enum_of clouds"

definition required_availability :: "json \<Rightarrow> string \<Rightarrow> py_error + Availability" where
  "required_availability = enum_of availabilities"

definition required_flashboot :: "json \<Rightarrow> string \<Rightarrow> py_error + FlashBoot" where
  "required_flashboot = enum_of flashboots"

definition required_flag :: "json \<Rightarrow> string \<Rightarrow> py_error + bool" where
  "required_flag v k = (case jget v k of JBool b \<Rightarrow> Inr b | _ \<Rightarrow> Inl RunPodManagerError)"

definition string_list :: "json \<Rightarrow> string \<Rightarrow> py_error + string list" where
  "string_list v k = (case jget v k of
       JList items \<Rightarrow> mapE (\<lambda>i. case i of JStr s \<Rightarrow> Inr s | _ \<Rightarrow> Inl RunPodManagerError) items
     | _ \<Rightarrow> Inl RunPodManagerError)"

subsection \<open>Specifications\<close>

definition constraint_fields :: "string list" where
  "constraint_fields =
     [''min_vram_gb'', ''gpu_count'', ''cloud'', ''min_cuda_version'', ''allowed_gpu_pools'',
      ''allowed_data_center_ids'', ''max_hourly_worker_rate_usd'', ''minimum_availability'', ''benchmark_id'']"

definition capacity_constraints_from_dict :: "json \<Rightarrow> py_error + ServerlessCapacityConstraints" where
  "capacity_constraints_from_dict v =
     bindE (exact_keys v constraint_fields) (\<lambda>_.
     bindE (string_list v ''allowed_gpu_pools'') (\<lambda>pools.
     bindE (string_list v ''allowed_data_center_ids'') (\<lambda>data_centers.
     bindE (case jget v ''max_hourly_worker_rate_usd'' of
         JNull \<Rightarrow> Inr () | JStr _ \<Rightarrow> Inr () | _ \<Rightarrow> Inl RunPodManagerError) (\<lambda>_.
     bindE (required_int v ''min_vram_gb'') (\<lambda>min_vram_gb.
     bindE (required_int v ''gpu_count'') (\<lambda>gpu_count.
     bindE (required_cloud v ''cloud'') (\<lambda>cloud.
     bindE (stored_optional_string (jget v ''min_cuda_version'')) (\<lambda>cuda.
     bindE (if jget v ''max_hourly_worker_rate_usd'' = JNull then Inr None
            else bindE (required_decimal v ''max_hourly_worker_rate_usd'') (\<lambda>d. Inr (Some d))) (\<lambda>rate.
     bindE (required_availability v ''minimum_availability'') (\<lambda>availability.
     bindE (required_string v ''benchmark_id'') (\<lambda>benchmark.
     let c = \<lparr> sc_min_vram_gb = min_vram_gb, sc_gpu_count = gpu_count, sc_cloud = cloud,
               sc_min_cuda_version = cuda, sc_allowed_gpu_pools = pools,
               sc_allowed_data_center_ids = data_centers, sc_max_hourly_worker_rate_usd = rate,
               sc_minimum_availability = availability, sc_benchmark_id = benchmark \<rparr>
     in case capacity_constraints_post_init c of Some e \<Rightarrow> Inl e | None \<Rightarrow> Inr c)))))))))))"

definition endpoint_spec_fields :: "string list" where
  "endpoint_spec_fields =
     [''worker_reference'', ''constraints'', ''workers_min'', ''workers_max'', ''idle_tail_seconds'',
      ''scaling_type'', ''scaling_value'', ''execution_timeout_ms'', ''flashboot'', ''disk_gb'',
      ''registry_id'', ''network_volume_ids'', ''spec_sha256'']"

definition endpoint_spec_to_dict :: "(json \<Rightarrow> string) \<Rightarrow> ServerlessEndpointSpec \<Rightarrow> json" where
  "endpoint_spec_to_dict jsha s = JObj
     ([(''worker_reference'', JStr (ss_worker_reference s))] @ schema_version_entry s
      @ [(''constraints'', capacity_constraints_dict (ss_constraints s)),
         (''workers_min'', JInt (ss_workers_min s)), (''workers_max'', JInt (ss_workers_max s)),
         (''idle_tail_seconds'', JInt (ss_idle_tail_seconds s)),
         (''scaling_type'', JStr (ss_scaling_type s)), (''scaling_value'', jdec (ss_scaling_value s)),
         (''execution_timeout_ms'', JInt (ss_execution_timeout_ms s)),
         (''flashboot'', JStr (flashboot_value (ss_flashboot s))), (''disk_gb'', JInt (ss_disk_gb s)),
         (''registry_id'', jopt JStr (ss_registry_id s)),
         (''network_volume_ids'', jstrs (ss_network_volume_ids s)),
         (''spec_sha256'', JStr (endpoint_spec_sha256 jsha s))])"

definition spec_schema_version :: "json \<Rightarrow> py_error + EndpointResourceVersion" where
  "spec_schema_version v =
     (if has_key v ''resource_schema_version''
      then bindE (exact_keys v (''resource_schema_version'' # endpoint_spec_fields)) (\<lambda>_.
           bindE (required_int v ''resource_schema_version'') (\<lambda>n.
           if n \<noteq> 2 then Inl RunPodManagerError else Inr ERV_GA))
      else bindE (exact_keys v endpoint_spec_fields) (\<lambda>_. Inr ERV_LEGACY))"

text \<open>A stored digest is checked against the parsed object.\<close>

definition matching_digest :: "json \<Rightarrow> string \<Rightarrow> string \<Rightarrow> 'a \<Rightarrow> py_error + 'a" where
  "matching_digest v k digest x =
     bindE (required_string v k) (\<lambda>stored.
     if \<not> sha256_text stored then Inl ValueError
     else if stored \<noteq> digest then Inl RunPodManagerError else Inr x)"

definition endpoint_spec_from_dict :: "(json \<Rightarrow> string) \<Rightarrow> json \<Rightarrow> py_error + ServerlessEndpointSpec" where
  "endpoint_spec_from_dict jsha v =
     bindE (spec_schema_version v) (\<lambda>version.
     if \<not> is_jobj (jget v ''constraints'') then Inl RunPodManagerError
     else bindE (string_list v ''network_volume_ids'') (\<lambda>volumes.
     bindE (case jget v ''registry_id'' of
         JNull \<Rightarrow> Inr None | JStr s \<Rightarrow> Inr (Some s) | _ \<Rightarrow> Inl RunPodManagerError) (\<lambda>registry.
     bindE (required_string v ''worker_reference'') (\<lambda>worker_reference.
     bindE (capacity_constraints_from_dict (jget v ''constraints'')) (\<lambda>c.
     bindE (required_int v ''workers_min'') (\<lambda>workers_min.
     bindE (required_int v ''workers_max'') (\<lambda>workers_max.
     bindE (required_int v ''idle_tail_seconds'') (\<lambda>idle.
     bindE (required_string v ''scaling_type'') (\<lambda>scaling_type.
     bindE (required_decimal v ''scaling_value'') (\<lambda>scaling_value.
     bindE (required_int v ''execution_timeout_ms'') (\<lambda>execution.
     bindE (required_flashboot v ''flashboot'') (\<lambda>flashboot.
     bindE (required_int v ''disk_gb'') (\<lambda>disk.
     let s = \<lparr> ss_worker_reference = worker_reference, ss_constraints = c, ss_workers_min = workers_min,
               ss_workers_max = workers_max, ss_idle_tail_seconds = idle, ss_scaling_type = scaling_type,
               ss_scaling_value = scaling_value, ss_execution_timeout_ms = execution,
               ss_flashboot = flashboot, ss_disk_gb = disk, ss_registry_id = registry,
               ss_network_volume_ids = volumes, ss_resource_schema_version = version \<rparr>
     in case endpoint_spec_post_init s of
          Some e \<Rightarrow> Inl e
        | None \<Rightarrow> matching_digest v ''spec_sha256'' (endpoint_spec_sha256 jsha s) s)))))))))))))"

definition planned_endpoint_to_dict :: "(json \<Rightarrow> string) \<Rightarrow> PlannedServerlessEndpoint \<Rightarrow> json" where
  "planned_endpoint_to_dict jsha p = JObj
     [(''plan_id'', JStr (pn_plan_id p)), (''endpoint_name'', JStr (pn_endpoint_name p)),
      (''spec'', endpoint_spec_to_dict jsha (pn_spec p)), (''plan_sha256'', JStr (plan_sha256 jsha p))]"

definition planned_endpoint_from_dict :: "(json \<Rightarrow> string) \<Rightarrow> json \<Rightarrow> py_error + PlannedServerlessEndpoint" where
  "planned_endpoint_from_dict jsha v =
     bindE (exact_keys v [''plan_id'', ''endpoint_name'', ''spec'', ''plan_sha256'']) (\<lambda>_.
     if \<not> is_jobj (jget v ''spec'') then Inl RunPodManagerError
     else bindE (required_string v ''plan_id'') (\<lambda>plan_id.
     bindE (required_string v ''endpoint_name'') (\<lambda>endpoint_name.
     bindE (endpoint_spec_from_dict jsha (jget v ''spec'')) (\<lambda>s.
     let p = \<lparr> pn_plan_id = plan_id, pn_endpoint_name = endpoint_name, pn_spec = s \<rparr>
     in case planned_endpoint_post_init p of
          Some e \<Rightarrow> Inl e
        | None \<Rightarrow> matching_digest v ''plan_sha256'' (plan_sha256 jsha p) p))))"

subsection \<open>Quotes\<close>

definition quote_fields :: "string list" where
  "quote_fields =
     [''schema_version'', ''contract_version'', ''provider_quote_id'', ''workload_kind'',
      ''parameters_sha256'', ''profile_id'', ''endpoint_profile_sha256'', ''endpoint_id'',
      ''catalog_observation_sha256'', ''gpu_id'', ''gpu_pool'', ''gpu_name'', ''vram_gb'', ''data_center_id'',
      ''cloud'', ''gpu_count'', ''min_cuda_version'', ''availability'', ''benchmark_id'',
      ''hourly_worker_rate_usd'', ''estimated_queue_delay_seconds'', ''estimated_worker_start_seconds'',
      ''estimated_execution_seconds'', ''idle_tail_seconds'', ''maximum_queue_delay_seconds'',
      ''maximum_worker_start_seconds'', ''maximum_execution_seconds'', ''job_execution_timeout_ms'',
      ''job_ttl_ms'', ''estimated_billable_seconds'', ''maximum_billable_seconds'',
      ''estimated_worker_cost_usd'', ''maximum_worker_cost_usd'', ''estimated_non_worker_cost_usd'',
      ''maximum_non_worker_cost_usd'', ''estimated_cost_usd'', ''cost_ceiling_usd'', ''catalog_observed_at'',
      ''expires_at'']"

definition capacity_quote_from_dict :: "text_reader \<Rightarrow> json \<Rightarrow> py_error + ServerlessCapacityQuote" where
  "capacity_quote_from_dict R v =
     bindE (exact_keys v quote_fields) (\<lambda>_.
     bindE (required_int v ''schema_version'') (\<lambda>v_schema_version.
     bindE (required_string v ''contract_version'') (\<lambda>v_contract_version.
     bindE (required_string v ''provider_quote_id'') (\<lambda>v_provider_quote_id.
     bindE (required_string v ''workload_kind'') (\<lambda>v_workload_kind.
     bindE (required_string v ''parameters_sha256'') (\<lambda>v_parameters_sha256.
     bindE (required_string v ''profile_id'') (\<lambda>v_profile_id.
     bindE (required_string v ''endpoint_profile_sha256'') (\<lambda>v_endpoint_profile_sha256.
     bindE (required_string v ''endpoint_id'') (\<lambda>v_endpoint_id.
     bindE (required_string v ''catalog_observation_sha256'') (\<lambda>v_catalog_observation_sha256.
     bindE (required_string v ''gpu_id'') (\<lambda>v_gpu_id.
     bindE (required_string v ''gpu_pool'') (\<lambda>v_gpu_pool.
     bindE (required_string v ''gpu_name'') (\<lambda>v_gpu_name.
     bindE (required_int v ''vram_gb'') (\<lambda>v_vram_gb.
     bindE (required_string v ''data_center_id'') (\<lambda>v_data_center_id.
     bindE (required_cloud v ''cloud'') (\<lambda>v_cloud.
     bindE (required_int v ''gpu_count'') (\<lambda>v_gpu_count.
     bindE (stored_optional_string (jget v ''min_cuda_version'')) (\<lambda>v_min_cuda_version.
     bindE (required_availability v ''availability'') (\<lambda>v_availability.
     bindE (required_string v ''benchmark_id'') (\<lambda>v_benchmark_id.
     bindE (required_decimal v ''hourly_worker_rate_usd'') (\<lambda>v_hourly_worker_rate_usd.
     bindE (stored_optional_int (jget v ''estimated_queue_delay_seconds'')) (\<lambda>v_estimated_queue_delay_seconds.
     bindE (required_int v ''estimated_worker_start_seconds'') (\<lambda>v_estimated_worker_start_seconds.
     bindE (required_int v ''estimated_execution_seconds'') (\<lambda>v_estimated_execution_seconds.
     bindE (required_int v ''idle_tail_seconds'') (\<lambda>v_idle_tail_seconds.
     bindE (required_int v ''maximum_queue_delay_seconds'') (\<lambda>v_maximum_queue_delay_seconds.
     bindE (required_int v ''maximum_worker_start_seconds'') (\<lambda>v_maximum_worker_start_seconds.
     bindE (required_int v ''maximum_execution_seconds'') (\<lambda>v_maximum_execution_seconds.
     bindE (required_int v ''job_execution_timeout_ms'') (\<lambda>v_job_execution_timeout_ms.
     bindE (required_int v ''job_ttl_ms'') (\<lambda>v_job_ttl_ms.
     bindE (required_int v ''estimated_billable_seconds'') (\<lambda>v_estimated_billable_seconds.
     bindE (required_int v ''maximum_billable_seconds'') (\<lambda>v_maximum_billable_seconds.
     bindE (required_decimal v ''estimated_worker_cost_usd'') (\<lambda>v_estimated_worker_cost_usd.
     bindE (required_decimal v ''maximum_worker_cost_usd'') (\<lambda>v_maximum_worker_cost_usd.
     bindE (required_decimal v ''estimated_non_worker_cost_usd'') (\<lambda>v_estimated_non_worker_cost_usd.
     bindE (required_decimal v ''maximum_non_worker_cost_usd'') (\<lambda>v_maximum_non_worker_cost_usd.
     bindE (required_decimal v ''estimated_cost_usd'') (\<lambda>v_estimated_cost_usd.
     bindE (required_decimal v ''cost_ceiling_usd'') (\<lambda>v_cost_ceiling_usd.
     bindE (required_datetime R v ''catalog_observed_at'') (\<lambda>v_catalog_observed_at.
     bindE (required_datetime R v ''expires_at'') (\<lambda>v_expires_at.
     let x = \<lparr> sl_workload_kind = v_workload_kind, sl_parameters_sha256 = v_parameters_sha256,
               sl_estimated_queue_delay_seconds = v_estimated_queue_delay_seconds,
               sl_estimated_worker_start_seconds = v_estimated_worker_start_seconds,
               sl_estimated_execution_seconds = v_estimated_execution_seconds,
               sl_maximum_queue_delay_seconds = v_maximum_queue_delay_seconds,
               sl_maximum_worker_start_seconds = v_maximum_worker_start_seconds,
               sl_maximum_execution_seconds = v_maximum_execution_seconds,
               sl_maximum_billable_seconds = v_maximum_billable_seconds,
               sl_job_execution_timeout_ms = v_job_execution_timeout_ms, sl_job_ttl_ms = v_job_ttl_ms,
               sl_estimated_non_worker_cost_usd = v_estimated_non_worker_cost_usd,
               sl_maximum_non_worker_cost_usd = v_maximum_non_worker_cost_usd, sq_schema_version = v_schema_version,
               sq_contract_version = v_contract_version, sq_provider_quote_id = v_provider_quote_id,
               sq_catalog_observation_sha256 = v_catalog_observation_sha256, sq_gpu_id = v_gpu_id,
               sq_gpu_pool = v_gpu_pool, sq_gpu_name = v_gpu_name, sq_vram_gb = v_vram_gb,
               sq_data_center_id = v_data_center_id, sq_cloud = v_cloud, sq_gpu_count = v_gpu_count,
               sq_min_cuda_version = v_min_cuda_version, sq_availability = v_availability,
               sq_benchmark_id = v_benchmark_id, sq_hourly_worker_rate_usd = v_hourly_worker_rate_usd,
               sq_idle_tail_seconds = v_idle_tail_seconds,
               sq_estimated_billable_seconds = v_estimated_billable_seconds,
               sq_estimated_worker_cost_usd = v_estimated_worker_cost_usd,
               sq_maximum_worker_cost_usd = v_maximum_worker_cost_usd, sq_estimated_cost_usd = v_estimated_cost_usd,
               sq_cost_ceiling_usd = v_cost_ceiling_usd, sq_catalog_observed_at = v_catalog_observed_at,
               sq_expires_at = v_expires_at, cq_profile_id = v_profile_id,
               cq_endpoint_profile_sha256 = v_endpoint_profile_sha256, cq_endpoint_id = v_endpoint_id \<rparr>
     in case capacity_quote_post_init x of Some e \<Rightarrow> Inl e | None \<Rightarrow> Inr x))))))))))))))))))))))))))))))))))))))))"

definition planned_quote_to_dict :: "(json \<Rightarrow> string) \<Rightarrow> PlannedServerlessCapacityQuote \<Rightarrow> json" where
  "planned_quote_to_dict jsha q = (case planned_quote_evidence q of
       JObj entries \<Rightarrow> JObj (entries @ [(''quote_sha256'', JStr (quote_sha256 jsha q))])
     | v \<Rightarrow> v)"

definition planned_quote_fields :: "string list" where
  "planned_quote_fields =
     [''schema_version'', ''contract_version'', ''provider_quote_id'', ''quote_sha256'', ''workload_kind'',
      ''parameters_sha256'', ''plan_id'', ''plan_sha256'', ''endpoint_name'', ''endpoint_spec_sha256'',
      ''operation_digest'', ''worker_reference'', ''catalog_observation_sha256'', ''gpu_id'', ''gpu_pool'',
      ''gpu_name'', ''vram_gb'', ''data_center_id'', ''cloud'', ''gpu_count'', ''min_cuda_version'',
      ''availability'', ''benchmark_id'', ''hourly_worker_rate_usd'', ''estimated_queue_delay_seconds'',
      ''estimated_worker_start_seconds'', ''estimated_execution_seconds'', ''idle_tail_seconds'',
      ''maximum_queue_delay_seconds'', ''maximum_worker_start_seconds'', ''maximum_execution_seconds'',
      ''job_execution_timeout_ms'', ''job_ttl_ms'', ''estimated_billable_seconds'',
      ''maximum_billable_seconds'', ''estimated_worker_cost_usd'', ''maximum_worker_cost_usd'',
      ''estimated_non_worker_cost_usd'', ''maximum_non_worker_cost_usd'', ''estimated_cost_usd'',
      ''cost_ceiling_usd'', ''catalog_observed_at'', ''expires_at'']"

definition planned_quote_from_dict :: "(json \<Rightarrow> string) \<Rightarrow> text_reader \<Rightarrow> json \<Rightarrow> py_error + PlannedServerlessCapacityQuote" where
  "planned_quote_from_dict jsha R v =
     bindE (exact_keys v planned_quote_fields) (\<lambda>_.
     bindE (required_string v ''quote_sha256'') (\<lambda>_.
     bindE (required_int v ''schema_version'') (\<lambda>v_schema_version.
     bindE (required_string v ''contract_version'') (\<lambda>v_contract_version.
     bindE (required_string v ''provider_quote_id'') (\<lambda>v_provider_quote_id.
     bindE (required_string v ''workload_kind'') (\<lambda>v_workload_kind.
     bindE (required_string v ''parameters_sha256'') (\<lambda>v_parameters_sha256.
     bindE (required_string v ''plan_id'') (\<lambda>v_plan_id.
     bindE (required_string v ''plan_sha256'') (\<lambda>v_plan_sha256.
     bindE (required_string v ''endpoint_name'') (\<lambda>v_endpoint_name.
     bindE (required_string v ''endpoint_spec_sha256'') (\<lambda>v_endpoint_spec_sha256.
     bindE (required_string v ''operation_digest'') (\<lambda>v_operation_digest.
     bindE (required_string v ''worker_reference'') (\<lambda>v_worker_reference.
     bindE (required_string v ''catalog_observation_sha256'') (\<lambda>v_catalog_observation_sha256.
     bindE (required_string v ''gpu_id'') (\<lambda>v_gpu_id.
     bindE (required_string v ''gpu_pool'') (\<lambda>v_gpu_pool.
     bindE (required_string v ''gpu_name'') (\<lambda>v_gpu_name.
     bindE (required_int v ''vram_gb'') (\<lambda>v_vram_gb.
     bindE (required_string v ''data_center_id'') (\<lambda>v_data_center_id.
     bindE (required_cloud v ''cloud'') (\<lambda>v_cloud.
     bindE (required_int v ''gpu_count'') (\<lambda>v_gpu_count.
     bindE (stored_optional_string (jget v ''min_cuda_version'')) (\<lambda>v_min_cuda_version.
     bindE (required_availability v ''availability'') (\<lambda>v_availability.
     bindE (required_string v ''benchmark_id'') (\<lambda>v_benchmark_id.
     bindE (required_decimal v ''hourly_worker_rate_usd'') (\<lambda>v_hourly_worker_rate_usd.
     bindE (stored_optional_int (jget v ''estimated_queue_delay_seconds'')) (\<lambda>v_estimated_queue_delay_seconds.
     bindE (required_int v ''estimated_worker_start_seconds'') (\<lambda>v_estimated_worker_start_seconds.
     bindE (required_int v ''estimated_execution_seconds'') (\<lambda>v_estimated_execution_seconds.
     bindE (required_int v ''idle_tail_seconds'') (\<lambda>v_idle_tail_seconds.
     bindE (required_int v ''maximum_queue_delay_seconds'') (\<lambda>v_maximum_queue_delay_seconds.
     bindE (required_int v ''maximum_worker_start_seconds'') (\<lambda>v_maximum_worker_start_seconds.
     bindE (required_int v ''maximum_execution_seconds'') (\<lambda>v_maximum_execution_seconds.
     bindE (required_int v ''job_execution_timeout_ms'') (\<lambda>v_job_execution_timeout_ms.
     bindE (required_int v ''job_ttl_ms'') (\<lambda>v_job_ttl_ms.
     bindE (required_int v ''estimated_billable_seconds'') (\<lambda>v_estimated_billable_seconds.
     bindE (required_int v ''maximum_billable_seconds'') (\<lambda>v_maximum_billable_seconds.
     bindE (required_decimal v ''estimated_worker_cost_usd'') (\<lambda>v_estimated_worker_cost_usd.
     bindE (required_decimal v ''maximum_worker_cost_usd'') (\<lambda>v_maximum_worker_cost_usd.
     bindE (required_decimal v ''estimated_non_worker_cost_usd'') (\<lambda>v_estimated_non_worker_cost_usd.
     bindE (required_decimal v ''maximum_non_worker_cost_usd'') (\<lambda>v_maximum_non_worker_cost_usd.
     bindE (required_decimal v ''estimated_cost_usd'') (\<lambda>v_estimated_cost_usd.
     bindE (required_decimal v ''cost_ceiling_usd'') (\<lambda>v_cost_ceiling_usd.
     bindE (required_datetime R v ''catalog_observed_at'') (\<lambda>v_catalog_observed_at.
     bindE (required_datetime R v ''expires_at'') (\<lambda>v_expires_at.
     let x = \<lparr> sl_workload_kind = v_workload_kind, sl_parameters_sha256 = v_parameters_sha256,
               sl_estimated_queue_delay_seconds = v_estimated_queue_delay_seconds,
               sl_estimated_worker_start_seconds = v_estimated_worker_start_seconds,
               sl_estimated_execution_seconds = v_estimated_execution_seconds,
               sl_maximum_queue_delay_seconds = v_maximum_queue_delay_seconds,
               sl_maximum_worker_start_seconds = v_maximum_worker_start_seconds,
               sl_maximum_execution_seconds = v_maximum_execution_seconds,
               sl_maximum_billable_seconds = v_maximum_billable_seconds,
               sl_job_execution_timeout_ms = v_job_execution_timeout_ms, sl_job_ttl_ms = v_job_ttl_ms,
               sl_estimated_non_worker_cost_usd = v_estimated_non_worker_cost_usd,
               sl_maximum_non_worker_cost_usd = v_maximum_non_worker_cost_usd, sq_schema_version = v_schema_version,
               sq_contract_version = v_contract_version, sq_provider_quote_id = v_provider_quote_id,
               sq_catalog_observation_sha256 = v_catalog_observation_sha256, sq_gpu_id = v_gpu_id,
               sq_gpu_pool = v_gpu_pool, sq_gpu_name = v_gpu_name, sq_vram_gb = v_vram_gb,
               sq_data_center_id = v_data_center_id, sq_cloud = v_cloud, sq_gpu_count = v_gpu_count,
               sq_min_cuda_version = v_min_cuda_version, sq_availability = v_availability,
               sq_benchmark_id = v_benchmark_id, sq_hourly_worker_rate_usd = v_hourly_worker_rate_usd,
               sq_idle_tail_seconds = v_idle_tail_seconds,
               sq_estimated_billable_seconds = v_estimated_billable_seconds,
               sq_estimated_worker_cost_usd = v_estimated_worker_cost_usd,
               sq_maximum_worker_cost_usd = v_maximum_worker_cost_usd, sq_estimated_cost_usd = v_estimated_cost_usd,
               sq_cost_ceiling_usd = v_cost_ceiling_usd, sq_catalog_observed_at = v_catalog_observed_at,
               sq_expires_at = v_expires_at, pq_plan_id = v_plan_id, pq_plan_sha256 = v_plan_sha256,
               pq_endpoint_name = v_endpoint_name, pq_endpoint_spec_sha256 = v_endpoint_spec_sha256,
               pq_operation_digest = v_operation_digest, pq_worker_reference = v_worker_reference \<rparr>
     in case planned_quote_post_init x of Some e \<Rightarrow> Inl e | None \<Rightarrow> matching_digest v ''quote_sha256'' (quote_sha256 jsha x) x))))))))))))))))))))))))))))))))))))))))))))"

subsection \<open>Activation, cleanup and submission\<close>

definition activation_fields :: "string list" where
  "activation_fields =
     [''schema_version'', ''contract_version'', ''provider_activation_id'', ''provider_quote_id'',
      ''quote_sha256'', ''plan_id'', ''plan_sha256'', ''endpoint_name'', ''endpoint_id'',
      ''endpoint_spec_sha256'', ''operation_digest'', ''endpoint_readback_sha256'', ''create_started_at'',
      ''activated_at'', ''readback_at'', ''reconciled_after_ambiguous_create'']"

definition activation_from_dict :: "(json \<Rightarrow> string) \<Rightarrow> text_reader \<Rightarrow> json \<Rightarrow> py_error + ServerlessEndpointActivationReceipt" where
  "activation_from_dict jsha R v =
     bindE (exact_keys v activation_fields) (\<lambda>_.
     bindE (required_flag v ''reconciled_after_ambiguous_create'') (\<lambda>v_reconciled_after_ambiguous_create.
     bindE (required_int v ''schema_version'') (\<lambda>v_schema_version.
     bindE (required_string v ''contract_version'') (\<lambda>v_contract_version.
     bindE (required_string v ''provider_activation_id'') (\<lambda>v_provider_activation_id.
     bindE (required_string v ''provider_quote_id'') (\<lambda>v_provider_quote_id.
     bindE (required_string v ''quote_sha256'') (\<lambda>v_quote_sha256.
     bindE (required_string v ''plan_id'') (\<lambda>v_plan_id.
     bindE (required_string v ''plan_sha256'') (\<lambda>v_plan_sha256.
     bindE (required_string v ''endpoint_name'') (\<lambda>v_endpoint_name.
     bindE (required_string v ''endpoint_id'') (\<lambda>v_endpoint_id.
     bindE (required_string v ''endpoint_spec_sha256'') (\<lambda>v_endpoint_spec_sha256.
     bindE (required_string v ''operation_digest'') (\<lambda>v_operation_digest.
     bindE (required_string v ''endpoint_readback_sha256'') (\<lambda>v_endpoint_readback_sha256.
     bindE (required_datetime R v ''create_started_at'') (\<lambda>v_create_started_at.
     bindE (required_datetime R v ''activated_at'') (\<lambda>v_activated_at.
     bindE (required_datetime R v ''readback_at'') (\<lambda>v_readback_at.
     let x = \<lparr> ac_schema_version = v_schema_version, ac_contract_version = v_contract_version,
               ac_provider_activation_id = v_provider_activation_id, ac_provider_quote_id = v_provider_quote_id,
               ac_quote_sha256 = v_quote_sha256, ac_plan_id = v_plan_id, ac_plan_sha256 = v_plan_sha256,
               ac_endpoint_name = v_endpoint_name, ac_endpoint_id = v_endpoint_id,
               ac_endpoint_spec_sha256 = v_endpoint_spec_sha256, ac_operation_digest = v_operation_digest,
               ac_endpoint_readback_sha256 = v_endpoint_readback_sha256, ac_create_started_at = v_create_started_at,
               ac_activated_at = v_activated_at, ac_readback_at = v_readback_at,
               ac_reconciled_after_ambiguous_create = v_reconciled_after_ambiguous_create \<rparr>
     in case activation_post_init jsha x of Some e \<Rightarrow> Inl e | None \<Rightarrow> Inr x)))))))))))))))))"

definition cleanup_intent_fields :: "string list" where
  "cleanup_intent_fields =
     [''schema_version'', ''contract_version'', ''activation'', ''workers_zero_observed_at'',
      ''delete_started_at'', ''provider_cleanup_intent_id'']"

definition intent_from_dict :: "(json \<Rightarrow> string) \<Rightarrow> text_reader \<Rightarrow> json \<Rightarrow> py_error + ServerlessEndpointCleanupIntent" where
  "intent_from_dict jsha R v =
     bindE (exact_keys v cleanup_intent_fields) (\<lambda>_.
     if \<not> is_jobj (jget v ''activation'') then Inl RunPodManagerError
     else bindE (required_int v ''schema_version'') (\<lambda>schema_version.
     bindE (required_string v ''contract_version'') (\<lambda>contract_version.
     bindE (activation_from_dict jsha R (jget v ''activation'')) (\<lambda>activation.
     bindE (required_datetime R v ''workers_zero_observed_at'') (\<lambda>workers_zero_observed_at.
     bindE (required_datetime R v ''delete_started_at'') (\<lambda>delete_started_at.
     let i = \<lparr> ci_schema_version = schema_version, ci_contract_version = contract_version,
               ci_activation = activation, ci_workers_zero_observed_at = workers_zero_observed_at,
               ci_delete_started_at = delete_started_at \<rparr>
     in case intent_post_init i of
          Some e \<Rightarrow> Inl e
        | None \<Rightarrow> if jget v ''provider_cleanup_intent_id'' \<noteq> JStr (cleanup_intent_id jsha i)
            then Inl RunPodManagerError else Inr i))))))"

definition cleanup_receipt_fields :: "string list" where
  "cleanup_receipt_fields =
     [''schema_version'', ''contract_version'', ''provider_cleanup_id'', ''provider_quote_id'',
      ''quote_sha256'', ''provider_activation_id'', ''endpoint_name'', ''endpoint_id'',
      ''endpoint_spec_sha256'', ''operation_digest'', ''endpoint_readback_sha256'',
      ''workers_zero_observed_at'', ''delete_started_at'', ''verified_absent_at'',
      ''reconciled_after_delete_error'']"

definition cleanup_version :: "json \<Rightarrow> py_error + int" where
  "cleanup_version v =
     (if has_key v ''cleanup_evidence_version''
      then bindE (exact_keys v (cleanup_receipt_fields @ [''cleanup_evidence_version'', ''cleanup_basis''])) (\<lambda>_.
           bindE (required_int v ''cleanup_evidence_version'') (\<lambda>n.
           if n \<noteq> 2 then Inl RunPodManagerError else Inr n))
      else bindE (exact_keys v cleanup_receipt_fields) (\<lambda>_. Inr 1))"

definition cleanup_from_dict :: "(json \<Rightarrow> string) \<Rightarrow> text_reader \<Rightarrow> json \<Rightarrow> py_error + ServerlessEndpointCleanupReceipt" where
  "cleanup_from_dict jsha R v =
     bindE (cleanup_version v) (\<lambda>version.
     bindE (required_flag v ''reconciled_after_delete_error'') (\<lambda>flag.
     bindE (required_int v ''schema_version'') (\<lambda>v_schema_version.
     bindE (required_string v ''contract_version'') (\<lambda>v_contract_version.
     bindE (required_string v ''provider_cleanup_id'') (\<lambda>v_provider_cleanup_id.
     bindE (required_string v ''provider_quote_id'') (\<lambda>v_provider_quote_id.
     bindE (required_string v ''quote_sha256'') (\<lambda>v_quote_sha256.
     bindE (required_string v ''provider_activation_id'') (\<lambda>v_provider_activation_id.
     bindE (required_string v ''endpoint_name'') (\<lambda>v_endpoint_name.
     bindE (required_string v ''endpoint_id'') (\<lambda>v_endpoint_id.
     bindE (required_string v ''endpoint_spec_sha256'') (\<lambda>v_endpoint_spec_sha256.
     bindE (required_string v ''operation_digest'') (\<lambda>v_operation_digest.
     bindE (required_string v ''endpoint_readback_sha256'') (\<lambda>v_endpoint_readback_sha256.
     bindE (required_datetime R v ''workers_zero_observed_at'') (\<lambda>v_workers_zero_observed_at.
     bindE (required_datetime R v ''delete_started_at'') (\<lambda>v_delete_started_at.
     bindE (required_datetime R v ''verified_absent_at'') (\<lambda>v_verified_absent_at.
     bindE (if version = 2 then bindE (required_string v ''cleanup_basis'') (\<lambda>s. Inr (Some s))
            else Inr None) (\<lambda>v_cleanup_basis.
     let x = \<lparr> cu_schema_version = v_schema_version, cu_contract_version = v_contract_version,
               cu_provider_cleanup_id = v_provider_cleanup_id, cu_provider_quote_id = v_provider_quote_id,
               cu_quote_sha256 = v_quote_sha256, cu_provider_activation_id = v_provider_activation_id,
               cu_endpoint_name = v_endpoint_name, cu_endpoint_id = v_endpoint_id,
               cu_endpoint_spec_sha256 = v_endpoint_spec_sha256, cu_operation_digest = v_operation_digest,
               cu_endpoint_readback_sha256 = v_endpoint_readback_sha256,
               cu_workers_zero_observed_at = v_workers_zero_observed_at, cu_delete_started_at = v_delete_started_at,
               cu_verified_absent_at = v_verified_absent_at, cu_reconciled_after_delete_error = flag,
               cu_cleanup_evidence_version = version, cu_cleanup_basis = v_cleanup_basis \<rparr>
     in case cleanup_post_init jsha x of Some e \<Rightarrow> Inl e | None \<Rightarrow> Inr x)))))))))))))))))"

definition submission_fields :: "string list" where
  "submission_fields =
     [''provider_submission_id'', ''provider_quote_id'', ''quote_sha256'', ''provider_activation_id'',
      ''endpoint_name'', ''endpoint_id'', ''endpoint_spec_sha256'', ''operation_digest'',
      ''exclusive_window_sha256'', ''authorized_at'', ''expires_at'']"

definition submission_from_dict :: "(json \<Rightarrow> string) \<Rightarrow> text_reader \<Rightarrow> json \<Rightarrow> py_error + ServerlessActivatedSubmission" where
  "submission_from_dict jsha R v =
     bindE (exact_keys v submission_fields) (\<lambda>_.
     bindE (required_string v ''provider_submission_id'') (\<lambda>v_provider_submission_id.
     bindE (required_string v ''provider_quote_id'') (\<lambda>v_provider_quote_id.
     bindE (required_string v ''quote_sha256'') (\<lambda>v_quote_sha256.
     bindE (required_string v ''provider_activation_id'') (\<lambda>v_provider_activation_id.
     bindE (required_string v ''endpoint_name'') (\<lambda>v_endpoint_name.
     bindE (required_string v ''endpoint_id'') (\<lambda>v_endpoint_id.
     bindE (required_string v ''endpoint_spec_sha256'') (\<lambda>v_endpoint_spec_sha256.
     bindE (required_string v ''operation_digest'') (\<lambda>v_operation_digest.
     bindE (required_string v ''exclusive_window_sha256'') (\<lambda>v_exclusive_window_sha256.
     bindE (required_datetime R v ''authorized_at'') (\<lambda>v_authorized_at.
     bindE (required_datetime R v ''expires_at'') (\<lambda>v_expires_at.
     let x = \<lparr> sb_provider_submission_id = v_provider_submission_id, sb_provider_quote_id = v_provider_quote_id,
               sb_quote_sha256 = v_quote_sha256, sb_provider_activation_id = v_provider_activation_id,
               sb_endpoint_name = v_endpoint_name, sb_endpoint_id = v_endpoint_id,
               sb_endpoint_spec_sha256 = v_endpoint_spec_sha256, sb_operation_digest = v_operation_digest,
               sb_exclusive_window_sha256 = v_exclusive_window_sha256, sb_authorized_at = v_authorized_at,
               sb_expires_at = v_expires_at \<rparr>
     in case submission_post_init jsha x of Some e \<Rightarrow> Inl e | None \<Rightarrow> Inr x))))))))))))"

subsection \<open>Billing evidence\<close>

definition window_fields :: "string list" where
  "window_fields =
     [''attempt_id'', ''endpoint_id'', ''provider_quote_id'', ''exclusive_window_sha256'',
      ''exclusive_billing_hour_starts'', ''attempted_at'', ''billable_coverage_until'',
      ''accepted_cost_ceiling_usd'']"

definition window_from_dict :: "text_reader \<Rightarrow> json \<Rightarrow> py_error + ServerlessAmbiguousBillingWindow" where
  "window_from_dict R v =
     bindE (exact_keys v window_fields) (\<lambda>_.
     bindE (required_string v ''attempt_id'') (\<lambda>v_attempt_id.
     bindE (required_string v ''endpoint_id'') (\<lambda>v_endpoint_id.
     bindE (required_string v ''provider_quote_id'') (\<lambda>v_provider_quote_id.
     bindE (required_string v ''exclusive_window_sha256'') (\<lambda>v_exclusive_window_sha256.
     bindE (required_datetimes R v ''exclusive_billing_hour_starts'') (\<lambda>v_exclusive_billing_hour_starts.
     bindE (required_datetime R v ''attempted_at'') (\<lambda>v_attempted_at.
     bindE (required_datetime R v ''billable_coverage_until'') (\<lambda>v_billable_coverage_until.
     bindE (required_decimal v ''accepted_cost_ceiling_usd'') (\<lambda>v_accepted_cost_ceiling_usd.
     let x = \<lparr> bw_attempt_id = v_attempt_id, bw_endpoint_id = v_endpoint_id,
               bw_provider_quote_id = v_provider_quote_id, bw_exclusive_window_sha256 = v_exclusive_window_sha256,
               bw_exclusive_billing_hour_starts = v_exclusive_billing_hour_starts, bw_attempted_at = v_attempted_at,
               bw_billable_coverage_until = v_billable_coverage_until,
               bw_accepted_cost_ceiling_usd = v_accepted_cost_ceiling_usd \<rparr>
     in case window_post_init x of Some e \<Rightarrow> Inl e | None \<Rightarrow> Inr x)))))))))"

definition hour_cost_fields :: "string list" where
  "hour_cost_fields =
     [''provider_observation_id'', ''endpoint_id'', ''utc_hour_start'', ''utc_hour_end'', ''gpu_cost_usd'',
      ''cpu_cost_usd'', ''disk_cost_usd'', ''fee_cost_usd'', ''actual_cost_usd'']"

definition hour_cost_from_dict :: "text_reader \<Rightarrow> json \<Rightarrow> py_error + ServerlessEndpointHourCost" where
  "hour_cost_from_dict R v =
     bindE (exact_keys v hour_cost_fields) (\<lambda>_.
     bindE (required_string v ''provider_observation_id'') (\<lambda>v_provider_observation_id.
     bindE (required_string v ''endpoint_id'') (\<lambda>v_endpoint_id.
     bindE (required_datetime R v ''utc_hour_start'') (\<lambda>v_utc_hour_start.
     bindE (required_datetime R v ''utc_hour_end'') (\<lambda>v_utc_hour_end.
     bindE (required_decimal v ''gpu_cost_usd'') (\<lambda>v_gpu_cost_usd.
     bindE (required_decimal v ''cpu_cost_usd'') (\<lambda>v_cpu_cost_usd.
     bindE (required_decimal v ''disk_cost_usd'') (\<lambda>v_disk_cost_usd.
     bindE (required_decimal v ''fee_cost_usd'') (\<lambda>v_fee_cost_usd.
     bindE (required_decimal v ''actual_cost_usd'') (\<lambda>v_actual_cost_usd.
     let x = \<lparr> hc_provider_observation_id = v_provider_observation_id, hc_endpoint_id = v_endpoint_id,
               hc_utc_hour_start = v_utc_hour_start, hc_utc_hour_end = v_utc_hour_end,
               hc_gpu_cost_usd = v_gpu_cost_usd, hc_cpu_cost_usd = v_cpu_cost_usd, hc_disk_cost_usd = v_disk_cost_usd,
               hc_fee_cost_usd = v_fee_cost_usd, hc_actual_cost_usd = v_actual_cost_usd \<rparr>
     in case hour_cost_post_init x of Some e \<Rightarrow> Inl e | None \<Rightarrow> Inr x))))))))))"

definition required_hour_costs :: "text_reader \<Rightarrow> json \<Rightarrow> string \<Rightarrow> py_error + ServerlessEndpointHourCost list" where
  "required_hour_costs R v k = (case jget v k of
       JList items \<Rightarrow> if items = [] then Inl RunPodManagerError
         else mapE (\<lambda>i. if is_jobj i then hour_cost_from_dict R i else Inl RunPodManagerError) items
     | _ \<Rightarrow> Inl RunPodManagerError)"

definition receipt_fields :: "string list" where
  "receipt_fields =
     [''schema_version'', ''contract_version'', ''provider_billing_id'', ''provider_quote_id'',
      ''endpoint_profile_sha256'', ''endpoint_id'', ''job_id'', ''attempt_id'', ''exclusive_window_sha256'',
      ''exclusive_billing_hour_starts'', ''attempt_started_at'', ''attempt_completed_at'',
      ''billable_coverage_until'', ''billing_window_from'', ''billing_window_until'',
      ''hourly_worker_rate_usd'', ''pre_execution_delay_ms'', ''worker_startup_ms'', ''execution_ms'',
      ''accepted_idle_tail_ms'', ''idle_tail_ms'', ''gpu_cost_usd'', ''cpu_cost_usd'', ''disk_cost_usd'',
      ''fee_cost_usd'', ''actual_cost_usd'', ''reconciled_at'']"

definition billing_receipt_from_dict :: "text_reader \<Rightarrow> json \<Rightarrow> py_error + ServerlessBillingReceipt" where
  "billing_receipt_from_dict R v =
     bindE (exact_keys v receipt_fields) (\<lambda>_.
     bindE (required_int v ''schema_version'') (\<lambda>v_schema_version.
     bindE (required_string v ''contract_version'') (\<lambda>v_contract_version.
     bindE (required_string v ''provider_billing_id'') (\<lambda>v_provider_billing_id.
     bindE (required_string v ''provider_quote_id'') (\<lambda>v_provider_quote_id.
     bindE (required_string v ''endpoint_profile_sha256'') (\<lambda>v_endpoint_profile_sha256.
     bindE (required_string v ''endpoint_id'') (\<lambda>v_endpoint_id.
     bindE (required_string v ''job_id'') (\<lambda>v_job_id.
     bindE (required_string v ''attempt_id'') (\<lambda>v_attempt_id.
     bindE (required_string v ''exclusive_window_sha256'') (\<lambda>v_exclusive_window_sha256.
     bindE (required_datetimes R v ''exclusive_billing_hour_starts'') (\<lambda>v_exclusive_billing_hour_starts.
     bindE (required_datetime R v ''attempt_started_at'') (\<lambda>v_attempt_started_at.
     bindE (required_datetime R v ''attempt_completed_at'') (\<lambda>v_attempt_completed_at.
     bindE (required_datetime R v ''billable_coverage_until'') (\<lambda>v_billable_coverage_until.
     bindE (required_datetime R v ''billing_window_from'') (\<lambda>v_billing_window_from.
     bindE (required_datetime R v ''billing_window_until'') (\<lambda>v_billing_window_until.
     bindE (required_decimal v ''hourly_worker_rate_usd'') (\<lambda>v_hourly_worker_rate_usd.
     bindE (stored_optional_int (jget v ''pre_execution_delay_ms'')) (\<lambda>v_pre_execution_delay_ms.
     bindE (stored_optional_int (jget v ''worker_startup_ms'')) (\<lambda>v_worker_startup_ms.
     bindE (stored_optional_int (jget v ''execution_ms'')) (\<lambda>v_execution_ms.
     bindE (required_int v ''accepted_idle_tail_ms'') (\<lambda>v_accepted_idle_tail_ms.
     bindE (stored_optional_int (jget v ''idle_tail_ms'')) (\<lambda>v_idle_tail_ms.
     bindE (required_decimal v ''gpu_cost_usd'') (\<lambda>v_gpu_cost_usd.
     bindE (required_decimal v ''cpu_cost_usd'') (\<lambda>v_cpu_cost_usd.
     bindE (required_decimal v ''disk_cost_usd'') (\<lambda>v_disk_cost_usd.
     bindE (required_decimal v ''fee_cost_usd'') (\<lambda>v_fee_cost_usd.
     bindE (required_decimal v ''actual_cost_usd'') (\<lambda>v_actual_cost_usd.
     bindE (required_datetime R v ''reconciled_at'') (\<lambda>v_reconciled_at.
     let x = \<lparr> br_schema_version = v_schema_version, br_contract_version = v_contract_version,
               br_provider_billing_id = v_provider_billing_id, br_provider_quote_id = v_provider_quote_id,
               br_endpoint_profile_sha256 = v_endpoint_profile_sha256, br_endpoint_id = v_endpoint_id,
               br_job_id = v_job_id, br_attempt_id = v_attempt_id,
               br_exclusive_window_sha256 = v_exclusive_window_sha256,
               br_exclusive_billing_hour_starts = v_exclusive_billing_hour_starts,
               br_attempt_started_at = v_attempt_started_at, br_attempt_completed_at = v_attempt_completed_at,
               br_billable_coverage_until = v_billable_coverage_until, br_billing_window_from = v_billing_window_from,
               br_billing_window_until = v_billing_window_until, br_hourly_worker_rate_usd = v_hourly_worker_rate_usd,
               br_pre_execution_delay_ms = v_pre_execution_delay_ms, br_worker_startup_ms = v_worker_startup_ms,
               br_execution_ms = v_execution_ms, br_accepted_idle_tail_ms = v_accepted_idle_tail_ms,
               br_idle_tail_ms = v_idle_tail_ms, br_gpu_cost_usd = v_gpu_cost_usd, br_cpu_cost_usd = v_cpu_cost_usd,
               br_disk_cost_usd = v_disk_cost_usd, br_fee_cost_usd = v_fee_cost_usd,
               br_actual_cost_usd = v_actual_cost_usd, br_reconciled_at = v_reconciled_at \<rparr>
     in case billing_receipt_post_init x of Some e \<Rightarrow> Inl e | None \<Rightarrow> Inr x))))))))))))))))))))))))))))"

definition ambiguous_receipt_fields :: "string list" where
  "ambiguous_receipt_fields =
     [''schema_version'', ''contract_version'', ''provider_billing_id'', ''provider_quote_id'',
      ''endpoint_profile_sha256'', ''endpoint_id'', ''attempt_id'', ''exclusive_window_sha256'',
      ''exclusive_billing_hour_starts'', ''attempted_at'', ''billable_coverage_until'',
      ''billing_window_from'', ''billing_window_until'', ''accepted_cost_ceiling_usd'',
      ''endpoint_hour_costs'', ''gpu_cost_usd'', ''cpu_cost_usd'', ''disk_cost_usd'', ''fee_cost_usd'',
      ''actual_cost_usd'', ''capped_cost_usd'', ''operator_loss_usd'', ''reconciled_at'']"

definition ambiguous_receipt_from_dict :: "text_reader \<Rightarrow> json \<Rightarrow> py_error + ServerlessAmbiguousWindowBillingReceipt" where
  "ambiguous_receipt_from_dict R v =
     bindE (exact_keys v ambiguous_receipt_fields) (\<lambda>_.
     bindE (required_int v ''schema_version'') (\<lambda>v_schema_version.
     bindE (required_string v ''contract_version'') (\<lambda>v_contract_version.
     bindE (required_string v ''provider_billing_id'') (\<lambda>v_provider_billing_id.
     bindE (required_string v ''provider_quote_id'') (\<lambda>v_provider_quote_id.
     bindE (required_string v ''endpoint_profile_sha256'') (\<lambda>v_endpoint_profile_sha256.
     bindE (required_string v ''endpoint_id'') (\<lambda>v_endpoint_id.
     bindE (required_string v ''attempt_id'') (\<lambda>v_attempt_id.
     bindE (required_string v ''exclusive_window_sha256'') (\<lambda>v_exclusive_window_sha256.
     bindE (required_datetimes R v ''exclusive_billing_hour_starts'') (\<lambda>v_exclusive_billing_hour_starts.
     bindE (required_datetime R v ''attempted_at'') (\<lambda>v_attempted_at.
     bindE (required_datetime R v ''billable_coverage_until'') (\<lambda>v_billable_coverage_until.
     bindE (required_datetime R v ''billing_window_from'') (\<lambda>v_billing_window_from.
     bindE (required_datetime R v ''billing_window_until'') (\<lambda>v_billing_window_until.
     bindE (required_decimal v ''accepted_cost_ceiling_usd'') (\<lambda>v_accepted_cost_ceiling_usd.
     bindE (required_hour_costs R v ''endpoint_hour_costs'') (\<lambda>v_endpoint_hour_costs.
     bindE (required_decimal v ''gpu_cost_usd'') (\<lambda>v_gpu_cost_usd.
     bindE (required_decimal v ''cpu_cost_usd'') (\<lambda>v_cpu_cost_usd.
     bindE (required_decimal v ''disk_cost_usd'') (\<lambda>v_disk_cost_usd.
     bindE (required_decimal v ''fee_cost_usd'') (\<lambda>v_fee_cost_usd.
     bindE (required_decimal v ''actual_cost_usd'') (\<lambda>v_actual_cost_usd.
     bindE (required_decimal v ''capped_cost_usd'') (\<lambda>v_capped_cost_usd.
     bindE (required_decimal v ''operator_loss_usd'') (\<lambda>v_operator_loss_usd.
     bindE (required_datetime R v ''reconciled_at'') (\<lambda>v_reconciled_at.
     let x = \<lparr> am_schema_version = v_schema_version, am_contract_version = v_contract_version,
               am_provider_billing_id = v_provider_billing_id, am_provider_quote_id = v_provider_quote_id,
               am_endpoint_profile_sha256 = v_endpoint_profile_sha256, am_endpoint_id = v_endpoint_id,
               am_attempt_id = v_attempt_id, am_exclusive_window_sha256 = v_exclusive_window_sha256,
               am_exclusive_billing_hour_starts = v_exclusive_billing_hour_starts, am_attempted_at = v_attempted_at,
               am_billable_coverage_until = v_billable_coverage_until, am_billing_window_from = v_billing_window_from,
               am_billing_window_until = v_billing_window_until,
               am_accepted_cost_ceiling_usd = v_accepted_cost_ceiling_usd,
               am_endpoint_hour_costs = v_endpoint_hour_costs, am_gpu_cost_usd = v_gpu_cost_usd,
               am_cpu_cost_usd = v_cpu_cost_usd, am_disk_cost_usd = v_disk_cost_usd, am_fee_cost_usd = v_fee_cost_usd,
               am_actual_cost_usd = v_actual_cost_usd, am_capped_cost_usd = v_capped_cost_usd,
               am_operator_loss_usd = v_operator_loss_usd, am_reconciled_at = v_reconciled_at \<rparr>
     in case ambiguous_receipt_post_init x of Some e \<Rightarrow> Inl e | None \<Rightarrow> Inr x))))))))))))))))))))))))"

definition retired_receipt_fields :: "string list" where
  "retired_receipt_fields =
     [''schema_version'', ''contract_version'', ''cost_scope'', ''provider_finality_confirmed'',
      ''activation'', ''cleanup'', ''endpoint_hour_costs'', ''cost_totals'', ''provider_billing_id'',
      ''reconciled_at'']"

definition retired_receipt_from_dict :: "(json \<Rightarrow> string) \<Rightarrow> text_reader \<Rightarrow> json
    \<Rightarrow> py_error + ServerlessRetiredEndpointBillingReceipt" where
  "retired_receipt_from_dict jsha R v =
     bindE (exact_keys v retired_receipt_fields) (\<lambda>_.
     if jget v ''cost_scope'' \<noteq> JStr ''endpoint_lifecycle''
       \<or> jget v ''provider_finality_confirmed'' \<noteq> JBool False
       \<or> \<not> is_jobj (jget v ''activation'') \<or> \<not> is_jobj (jget v ''cleanup'')
     then Inl RunPodManagerError
     else bindE (required_int v ''schema_version'') (\<lambda>schema_version.
     bindE (required_string v ''contract_version'') (\<lambda>contract_version.
     bindE (activation_from_dict jsha R (jget v ''activation'')) (\<lambda>activation.
     bindE (cleanup_from_dict jsha R (jget v ''cleanup'')) (\<lambda>cleanup.
     bindE (required_hour_costs R v ''endpoint_hour_costs'') (\<lambda>hs.
     bindE (required_datetime R v ''reconciled_at'') (\<lambda>reconciled_at.
     let r = \<lparr> rr_schema_version = schema_version, rr_contract_version = contract_version,
               rr_activation = activation, rr_cleanup = cleanup, rr_endpoint_hour_costs = hs,
               rr_reconciled_at = reconciled_at \<rparr>
     in case retired_receipt_post_init r of
          Some e \<Rightarrow> Inl e
        | None \<Rightarrow> if jget v ''provider_billing_id'' \<noteq> JStr (retired_billing_id jsha r)
              \<or> jget v ''cost_totals'' \<noteq> retired_totals r
            then Inl RunPodManagerError else Inr r)))))))"

end
