(* ===== verification/Serverless_Checks.thy ===== *)
theory Serverless_Checks
  imports Serverless_Codec Pod_Provider
begin

text \<open>
  The checks of \<^verbatim>\<open>serverless_capacity_provider.py\<close> that do no I/O: the binding of a quote to its request, the
  drift of a placement, the choice of the data center, the endpoint configuration read back, and the
  billing page.  Each returns the first error the source raises.
\<close>

section \<open>Definitions\<close>

subsection \<open>Field readers\<close>

definition mapping_value :: "json \<Rightarrow> py_error + json" where
  "mapping_value v = (if is_jobj v then Inr v else Inl RunPodManagerError)"

definition nonneg_integer :: "json \<Rightarrow> py_error + int" where
  "nonneg_integer v = (case v of JInt n \<Rightarrow> if n < 0 then Inl RunPodManagerError else Inr n
     | _ \<Rightarrow> Inl RunPodManagerError)"

definition nonneg_decimal :: "json \<Rightarrow> py_error + decimal" where
  "nonneg_decimal v =
     (let checked = (\<lambda>d. if \<not> is_finite d \<or> dval d < 0 then Inl RunPodManagerError else Inr d)
      in case v of JInt n \<Rightarrow> checked (Dec n 0) | JNum d \<Rightarrow> checked d | _ \<Rightarrow> Inl RunPodManagerError)"

definition string_tuple :: "json \<Rightarrow> py_error + string list" where
  "string_tuple v = (case v of
       JList items \<Rightarrow> mapE (\<lambda>i. case i of JStr s \<Rightarrow> if s = [] then Inl RunPodManagerError else Inr s
                                   | _ \<Rightarrow> Inl RunPodManagerError) items
     | _ \<Rightarrow> Inl RunPodManagerError)"

definition page_keys :: "json \<Rightarrow> string list \<Rightarrow> py_error + unit" where
  "page_keys v expected = (if set (jkeys v) \<noteq> set expected then Inl RunPodManagerError else Inr ())"

text \<open>Python compares numbers by value: \<^verbatim>\<open>5 == 5.0\<close> and \<^verbatim>\<open>1 == True\<close>.\<close>

definition equals_int :: "json \<Rightarrow> int \<Rightarrow> bool" where
  "equals_int v n = (case v of
       JInt m \<Rightarrow> m = n | JNum d \<Rightarrow> is_finite d \<and> dval d = of_int n
     | JBool b \<Rightarrow> n = (if b then 1 else 0) | _ \<Rightarrow> False)"

text \<open>A result that must equal the expected one.\<close>

definition must :: "py_error + 'a \<Rightarrow> 'a \<Rightarrow> py_error + unit" where
  "must r expected = bindE r (\<lambda>x. if x = expected then Inr () else Inl RunPodManagerError)"

definition require_that :: "bool \<Rightarrow> py_error + unit" where
  "require_that ok = (if ok then Inr () else Inl RunPodManagerError)"

subsection \<open>Requests and quotes\<close>

definition envelope_differs :: "'a job_envelope_scheme \<Rightarrow> 'b job_envelope_scheme \<Rightarrow> bool" where
  "envelope_differs r q \<longleftrightarrow>
     sl_estimated_queue_delay_seconds r \<noteq> sl_estimated_queue_delay_seconds q
     \<or> sl_estimated_worker_start_seconds r \<noteq> sl_estimated_worker_start_seconds q
     \<or> sl_estimated_execution_seconds r \<noteq> sl_estimated_execution_seconds q
     \<or> sl_maximum_queue_delay_seconds r \<noteq> sl_maximum_queue_delay_seconds q
     \<or> sl_maximum_worker_start_seconds r \<noteq> sl_maximum_worker_start_seconds q
     \<or> sl_maximum_execution_seconds r \<noteq> sl_maximum_execution_seconds q
     \<or> sl_job_execution_timeout_ms r \<noteq> sl_job_execution_timeout_ms q
     \<or> sl_job_ttl_ms r \<noteq> sl_job_ttl_ms q
     \<or> sl_maximum_billable_seconds r \<noteq> sl_maximum_billable_seconds q
     \<or> dval (sl_estimated_non_worker_cost_usd r) \<noteq> dval (sl_estimated_non_worker_cost_usd q)
     \<or> dval (sl_maximum_non_worker_cost_usd r) \<noteq> dval (sl_maximum_non_worker_cost_usd q)"

definition constraints_differ :: "ServerlessEndpointSpec \<Rightarrow> 'a capacity_quote_scheme \<Rightarrow> bool" where
  "constraints_differ s q \<longleftrightarrow>
     sc_gpu_count (ss_constraints s) \<noteq> sq_gpu_count q \<or> sc_cloud (ss_constraints s) \<noteq> sq_cloud q
     \<or> sc_min_cuda_version (ss_constraints s) \<noteq> sq_min_cuda_version q
     \<or> sq_gpu_pool q \<notin> set (sc_allowed_gpu_pools (ss_constraints s))
     \<or> sq_data_center_id q \<notin> set (sc_allowed_data_center_ids (ss_constraints s))
     \<or> sc_benchmark_id (ss_constraints s) \<noteq> sq_benchmark_id q
     \<or> ss_idle_tail_seconds s \<noteq> sq_idle_tail_seconds q"

definition validate_request_binding :: "(json \<Rightarrow> string) \<Rightarrow> ServerlessCapacityQuoteRequest
    \<Rightarrow> ServerlessCapacityQuote \<Rightarrow> py_error + unit" where
  "validate_request_binding jsha r q =
     (let p = sr_profile r in require_that (\<not>
        (sl_workload_kind r \<noteq> sl_workload_kind q \<or> sl_parameters_sha256 r \<noteq> sl_parameters_sha256 q
         \<or> sp_profile_id p \<noteq> cq_profile_id q \<or> profile_sha256 jsha p \<noteq> cq_endpoint_profile_sha256 q
         \<or> sp_endpoint_id p \<noteq> cq_endpoint_id q
         \<or> constraints_differ (sp_spec p) q \<or> envelope_differs r q)))"

text \<open>
  The digest of the create request is compared in the middle of the condition; building that
  request raises \<^verbatim>\<open>ValueError\<close> for a pool or a data center that the plan does not allow.
\<close>

definition validate_planned_request_binding :: "(json \<Rightarrow> string) \<Rightarrow> PlannedServerlessCapacityQuoteRequest
    \<Rightarrow> PlannedServerlessCapacityQuote \<Rightarrow> py_error + unit" where
  "validate_planned_request_binding jsha r q =
     (let p = sr_endpoint r; s = pn_spec p in
      if sl_workload_kind r \<noteq> sl_workload_kind q \<or> sl_parameters_sha256 r \<noteq> sl_parameters_sha256 q
        \<or> pn_plan_id p \<noteq> pq_plan_id q \<or> plan_sha256 jsha p \<noteq> pq_plan_sha256 q
        \<or> pn_endpoint_name p \<noteq> pq_endpoint_name q
        \<or> endpoint_spec_sha256 jsha s \<noteq> pq_endpoint_spec_sha256 q
        \<or> ss_worker_reference s \<noteq> pq_worker_reference q
      then Inl RunPodManagerError
      else bindE (operation_digest jsha s (pn_endpoint_name p) (sq_gpu_pool q) (sq_data_center_id q))
        (\<lambda>digest. require_that
          (\<not> (digest \<noteq> pq_operation_digest q \<or> constraints_differ s q \<or> envelope_differs r q))))"

definition planned_dimensions_differ :: "PlannedServerlessCapacityQuote \<Rightarrow> PlannedServerlessCapacityQuote
    \<Rightarrow> bool" where
  "planned_dimensions_differ c a \<longleftrightarrow>
     sl_workload_kind c \<noteq> sl_workload_kind a \<or> sl_parameters_sha256 c \<noteq> sl_parameters_sha256 a
     \<or> pq_plan_id c \<noteq> pq_plan_id a \<or> pq_plan_sha256 c \<noteq> pq_plan_sha256 a
     \<or> pq_endpoint_name c \<noteq> pq_endpoint_name a \<or> pq_endpoint_spec_sha256 c \<noteq> pq_endpoint_spec_sha256 a
     \<or> pq_operation_digest c \<noteq> pq_operation_digest a \<or> pq_worker_reference c \<noteq> pq_worker_reference a
     \<or> sq_gpu_id c \<noteq> sq_gpu_id a \<or> sq_gpu_pool c \<noteq> sq_gpu_pool a \<or> sq_vram_gb c \<noteq> sq_vram_gb a
     \<or> sq_data_center_id c \<noteq> sq_data_center_id a \<or> sq_cloud c \<noteq> sq_cloud a
     \<or> sq_gpu_count c \<noteq> sq_gpu_count a \<or> sq_min_cuda_version c \<noteq> sq_min_cuda_version a
     \<or> sq_availability c \<noteq> sq_availability a \<or> sq_benchmark_id c \<noteq> sq_benchmark_id a"

definition validate_planned_quote_drift :: "PlannedServerlessCapacityQuote
    \<Rightarrow> PlannedServerlessCapacityQuote \<Rightarrow> decimal \<Rightarrow> py_error + unit" where
  "validate_planned_quote_drift current accepted accepted_cost =
     (if planned_dimensions_differ current accepted then Inl RunPodManagerError
      else if dval (sq_hourly_worker_rate_usd accepted) < dval (sq_hourly_worker_rate_usd current)
      then Inl RunPodManagerError
      else if dval accepted_cost < dval (sq_cost_ceiling_usd current) then Inl RunPodManagerError
      else Inr ())"

definition dimensions_differ :: "ServerlessCapacityQuote \<Rightarrow> ServerlessCapacityQuote \<Rightarrow> bool" where
  "dimensions_differ c a \<longleftrightarrow>
     cq_profile_id c \<noteq> cq_profile_id a \<or> cq_endpoint_profile_sha256 c \<noteq> cq_endpoint_profile_sha256 a
     \<or> cq_endpoint_id c \<noteq> cq_endpoint_id a \<or> sq_gpu_id c \<noteq> sq_gpu_id a \<or> sq_gpu_pool c \<noteq> sq_gpu_pool a
     \<or> sq_vram_gb c \<noteq> sq_vram_gb a \<or> sq_data_center_id c \<noteq> sq_data_center_id a
     \<or> sq_cloud c \<noteq> sq_cloud a \<or> sq_gpu_count c \<noteq> sq_gpu_count a
     \<or> sq_min_cuda_version c \<noteq> sq_min_cuda_version a \<or> sq_benchmark_id c \<noteq> sq_benchmark_id a"

definition validate_quote_drift :: "ServerlessCapacityQuote \<Rightarrow> ServerlessCapacityQuote \<Rightarrow> decimal
    \<Rightarrow> py_error + unit" where
  "validate_quote_drift current accepted accepted_cost =
     (if dimensions_differ current accepted then Inl RunPodManagerError
      else if dval (sq_hourly_worker_rate_usd accepted) < dval (sq_hourly_worker_rate_usd current)
      then Inl RunPodManagerError
      else if dval accepted_cost < dval (sq_cost_ceiling_usd current) then Inl RunPodManagerError
      else Inr ())"

definition quote_request_identity :: "'a job_envelope_scheme \<Rightarrow> ServerlessEndpointSpec
    \<Rightarrow> (string \<times> json) list" where
  "quote_request_identity r s =
     [(''estimated_queue_delay_seconds'', jopt JInt (sl_estimated_queue_delay_seconds r)),
      (''estimated_worker_start_seconds'', JInt (sl_estimated_worker_start_seconds r)),
      (''estimated_execution_seconds'', JInt (sl_estimated_execution_seconds r)),
      (''idle_tail_seconds'', JInt (ss_idle_tail_seconds s)),
      (''maximum_queue_delay_seconds'', JInt (sl_maximum_queue_delay_seconds r)),
      (''maximum_worker_start_seconds'', JInt (sl_maximum_worker_start_seconds r)),
      (''maximum_execution_seconds'', JInt (sl_maximum_execution_seconds r)),
      (''job_execution_timeout_ms'', JInt (sl_job_execution_timeout_ms r)),
      (''job_ttl_ms'', JInt (sl_job_ttl_ms r)),
      (''maximum_billable_seconds'', JInt (sl_maximum_billable_seconds r)),
      (''estimated_non_worker_cost_usd'', jdec (sl_estimated_non_worker_cost_usd r)),
      (''maximum_non_worker_cost_usd'', jdec (sl_maximum_non_worker_cost_usd r))]"

record quote_costs =
  qc_estimated_billable_seconds :: int
  qc_estimated_worker_cost_usd :: decimal
  qc_maximum_worker_cost_usd :: decimal
  qc_estimated_cost_usd :: decimal
  qc_cost_ceiling_usd :: decimal

definition quote_amounts :: "'a job_envelope_scheme \<Rightarrow> ServerlessEndpointSpec \<Rightarrow> decimal
    \<Rightarrow> py_error + quote_costs" where
  "quote_amounts r s hourly =
     (let n = sc_gpu_count (ss_constraints s);
          estimated_billable = sl_estimated_worker_start_seconds r + sl_estimated_execution_seconds r
            + ss_idle_tail_seconds s
      in bindE (serverless_worker_cost_usd hourly n estimated_billable) (\<lambda>estimated_worker.
         bindE (serverless_worker_cost_usd hourly n (sl_maximum_billable_seconds r)) (\<lambda>maximum_worker.
         Inr \<lparr> qc_estimated_billable_seconds = estimated_billable,
               qc_estimated_worker_cost_usd = estimated_worker, qc_maximum_worker_cost_usd = maximum_worker,
               qc_estimated_cost_usd = dec_plus estimated_worker (sl_estimated_non_worker_cost_usd r),
               qc_cost_ceiling_usd = dec_plus maximum_worker (sl_maximum_non_worker_cost_usd r) \<rparr>)))"

subsection \<open>The catalog\<close>

definition unsafe_rate :: "amount \<Rightarrow> bool" where
  "unsafe_rate a \<longleftrightarrow> \<not> finite_amount a \<or> usd a < 0"

definition unsafe_offer :: "GPUOffer \<Rightarrow> bool" where
  "unsafe_offer g \<longleftrightarrow>
     list_ex unsafe_rate ([go_secure_price_per_hr g, go_community_price_per_hr g]
       @ some_list (go_serverless_price_per_hr g))
     \<or> go_memory_gb g < 0 \<or> go_secure_max_count g < 0 \<or> go_community_max_count g < 0"

definition validate_catalog_numbers :: "GPUOffer list \<Rightarrow> py_error + unit" where
  "validate_catalog_numbers offers = require_that (\<not> list_ex unsafe_offer offers)"

definition rank_of :: "string \<Rightarrow> int" where
  "rank_of s = (case map_of availabilities s of None \<Rightarrow> 0 | Some a \<Rightarrow> availability_rank a)"

text \<open>The allowed data centers with enough availability, in the order of the offer.\<close>

fun data_center_matches :: "ServerlessCapacityConstraints \<Rightarrow> DataCenter list
    \<Rightarrow> py_error + (string \<times> string) list" where
  "data_center_matches c [] = Inr []"
| "data_center_matches c (d # ds) =
     (case dc_id d of
        None \<Rightarrow> data_center_matches c ds
      | Some i \<Rightarrow>
          if i \<notin> set (sc_allowed_data_center_ids c) then data_center_matches c ds
          else (case dc_availability d of
              None \<Rightarrow> Inl RunPodManagerError
            | Some a \<Rightarrow>
                if map_of availabilities a = None then Inl RunPodManagerError
                else bindE (data_center_matches c ds) (\<lambda>rest.
                  Inr (if availability_rank (sc_minimum_availability c) \<le> rank_of a then (i, a) # rest else rest))))"

definition select_data_center :: "GPUOffer \<Rightarrow> ServerlessEndpointSpec \<Rightarrow> py_error + string" where
  "select_data_center offer s =
     bindE (data_center_matches (ss_constraints s) (go_data_centers offer)) (\<lambda>found.
     case sort_key (\<lambda>(i, a). (- rank_of a, i)) found of
       [] \<Rightarrow> Inl RunPodManagerError
     | (i, a) # _ \<Rightarrow> Inr i)"

definition catalog_observation_sha256 :: "(json \<Rightarrow> string) \<Rightarrow> GPUOffer \<Rightarrow> ServerlessEndpointSpec
    \<Rightarrow> string \<Rightarrow> py_error + string" where
  "catalog_observation_sha256 jsha offer s data_center_id =
     bindE (price_for offer (sc_cloud (ss_constraints s)) SERVERLESS) (\<lambda>price.
     Inr (jsha (JObj
       [(''product'', JStr (product_value SERVERLESS)), (''gpu_id'', JStr (go_id offer)),
        (''gpu_pool'', jopt JStr (go_pool offer)), (''gpu_name'', JStr (go_name offer)),
        (''manufacturer'', JStr (go_manufacturer offer)), (''vram_gb'', JInt (go_memory_gb offer)),
        (''cloud'', JStr (cloud_value (sc_cloud (ss_constraints s)))),
        (''gpu_count'', JInt (sc_gpu_count (ss_constraints s))),
        (''hourly_worker_rate_usd'', jdec (float_decimal price)),
        (''availability'', jopt (\<lambda>a. JStr (availability_value a)) (go_availability offer)),
        (''data_center_id'', JStr data_center_id),
        (''data_center_availability'',
           (case find (\<lambda>d. dc_id d = Some data_center_id) (go_data_centers offer) of
              None \<Rightarrow> JNull | Some d \<Rightarrow> jopt JStr (dc_availability d))),
        (''min_cuda_version'', jopt JStr (go_availability_min_cuda_version offer))])))"

subsection \<open>The endpoint that was read back\<close>

definition endpoint_gpu :: "json \<Rightarrow> ServerlessEndpointSpec \<Rightarrow> string \<Rightarrow> string option \<Rightarrow> py_error + unit" where
  "endpoint_gpu gpu s gpu_pool expected_floor =
     bindE (must (string_tuple (jget gpu ''pools'')) [gpu_pool]) (\<lambda>_.
     bindE (must (nonneg_integer (jget gpu ''count'')) (sc_gpu_count (ss_constraints s))) (\<lambda>_.
     bindE (require_that (has_key gpu ''minCudaVersion'' \<and> has_key gpu ''allowedCudaVersions'')) (\<lambda>_.
     bindE (require_that (jget gpu ''minCudaVersion'' = jopt JStr expected_floor)) (\<lambda>_.
     must (string_tuple (jget gpu ''allowedCudaVersions'')) []))))"

definition endpoint_workers :: "json \<Rightarrow> ServerlessEndpointSpec \<Rightarrow> py_error + unit" where
  "endpoint_workers workers s =
     bindE (must (nonneg_integer (jget workers ''min'')) (ss_workers_min s)) (\<lambda>_.
     bindE (must (nonneg_integer (jget workers ''max'')) (ss_workers_max s)) (\<lambda>_.
     must (nonneg_integer (jget workers ''idleTimeout'')) (ss_idle_tail_seconds s)))"

definition endpoint_scaling :: "json \<Rightarrow> ServerlessEndpointSpec \<Rightarrow> py_error + unit" where
  "endpoint_scaling scaling s =
     (if jget scaling ''type'' \<noteq> JStr (ss_scaling_type s) then Inl RunPodManagerError
      else bindE (nonneg_decimal (jget scaling ''queueDelay'')) (\<lambda>d.
        require_that (dval d = dval (ss_scaling_value s))))"

definition endpoint_runtime :: "json \<Rightarrow> ServerlessEndpointSpec \<Rightarrow> string \<Rightarrow> py_error + unit" where
  "endpoint_runtime raw s data_center_id =
     bindE (must (string_tuple (jget raw ''dataCenterIds'')) [data_center_id]) (\<lambda>_.
     bindE (must (string_tuple (jget raw ''networkVolumes'')) (ss_network_volume_ids s)) (\<lambda>_.
     bindE (require_that (jget raw ''image'' = JStr (ss_worker_reference s)
         \<and> equals_int (jget raw ''timeout'') (ss_execution_timeout_ms s)
         \<and> jget raw ''flashboot'' = JStr (flashboot_value (ss_flashboot s))
         \<and> equals_int (jget raw ''disk'') (ss_disk_gb s))) (\<lambda>_.
     bindE (must (string_tuple (jget raw ''ports'')) []) (\<lambda>_.
     bindE (mapping_value (jget raw ''env'')) (\<lambda>env.
     bindE (require_that (jkeys env = [])) (\<lambda>_.
     bindE (require_that (jget raw ''args'' = JNull)) (\<lambda>_.
     require_that (jget raw ''registry'' = jopt JStr (ss_registry_id s)))))))))"

definition normalized_config :: "string \<Rightarrow> ServerlessEndpointSpec \<Rightarrow> string \<Rightarrow> string \<Rightarrow> string option
    \<Rightarrow> json" where
  "normalized_config name s gpu_pool data_center_id expected_floor =
     (let ga = (ss_resource_schema_version s = ERV_GA) in JObj
       ([(''name'', JStr name), (''image'', JStr (ss_worker_reference s)), (''type'', JStr ''QUEUE''),
         (''gpu'', JObj ([(''pools'', jstrs [gpu_pool]),
            (''count'', JInt (sc_gpu_count (ss_constraints s)))]
            @ (if ga then [(''minCudaVersion'', jopt JStr expected_floor), (''allowedCudaVersions'', JList [])]
               else []))),
         (''workers'', JObj [(''min'', JInt (ss_workers_min s)), (''max'', JInt (ss_workers_max s)),
            (''idleTimeout'', JInt (ss_idle_tail_seconds s))]),
         (''scaling'', JObj [(''type'', JStr (ss_scaling_type s)), (''queueDelay'', jdec (ss_scaling_value s))]),
         (''disk'', JInt (ss_disk_gb s)), (''ports'', JList []), (''env'', JObj []), (''args'', JNull),
         (''registry'', jopt JStr (ss_registry_id s)), (''dataCenterIds'', jstrs [data_center_id]),
         (''networkVolumes'', jstrs (ss_network_volume_ids s))]
        @ (if ga then [(''mounts'', JObj
             [(''network'', JList (map (\<lambda>v. JObj [(''volumeId'', JStr v)]) (ss_network_volume_ids s))),
              (''global'', JList [])])] else [])
        @ [(''timeout'', JInt (ss_execution_timeout_ms s)),
           (''flashboot'', JStr (flashboot_value (ss_flashboot s)))]))"

definition validate_endpoint_config :: "EndpointResource \<Rightarrow> ServerlessEndpointSpec \<Rightarrow> string \<Rightarrow> string
    \<Rightarrow> py_error + json" where
  "validate_endpoint_config endpoint s gpu_pool data_center_id =
     (let raw = er_raw endpoint in
      if \<not> is_jobj raw \<or> jget raw ''type'' \<noteq> JStr ''QUEUE'' then Inl RunPodManagerError
      else bindE (mapping_value (jget raw ''gpu'')) (\<lambda>gpu.
        bindE (mapping_value (jget raw ''workers'')) (\<lambda>workers.
        bindE (mapping_value (jget raw ''scaling'')) (\<lambda>scaling.
        bindE (if ss_resource_schema_version s = ERV_GA
               then normalize_cuda_floor (sc_min_cuda_version (ss_constraints s)) else Inr None)
          (\<lambda>expected_floor.
        bindE (endpoint_gpu gpu s gpu_pool expected_floor) (\<lambda>_.
        bindE (validate_endpoint_mounts raw (ss_network_volume_ids s)) (\<lambda>_.
        bindE (endpoint_workers workers s) (\<lambda>_.
        bindE (endpoint_scaling scaling s) (\<lambda>_.
        bindE (endpoint_runtime raw s data_center_id) (\<lambda>_.
        Inr (normalized_config (er_name endpoint) s gpu_pool data_center_id expected_floor)))))))))))"

definition validate_endpoint_binding :: "EndpointResource \<Rightarrow> ServerlessEndpointProfile \<Rightarrow> string \<Rightarrow> string
    \<Rightarrow> py_error + unit" where
  "validate_endpoint_binding endpoint p gpu_pool data_center_id =
     (if er_id endpoint \<noteq> sp_endpoint_id p \<or> er_name endpoint \<noteq> sp_endpoint_name p
        \<or> er_endpoint_type endpoint \<noteq> Some ''QUEUE''
      then Inl RunPodManagerError
      else bindE (validate_endpoint_config endpoint (sp_spec p) gpu_pool data_center_id) (\<lambda>_. Inr ()))"

definition validate_planned_endpoint_binding :: "(json \<Rightarrow> string) \<Rightarrow> EndpointResource
    \<Rightarrow> PlannedServerlessEndpoint \<Rightarrow> string \<Rightarrow> string \<Rightarrow> string \<Rightarrow> py_error + string" where
  "validate_planned_endpoint_binding jsha endpoint p expected_endpoint_id gpu_pool data_center_id =
     (if er_id endpoint \<noteq> expected_endpoint_id \<or> er_name endpoint \<noteq> pn_endpoint_name p
        \<or> er_endpoint_type endpoint \<noteq> Some ''QUEUE''
      then Inl RunPodManagerError
      else bindE (validate_endpoint_config endpoint (pn_spec p) gpu_pool data_center_id) (\<lambda>config.
        Inr (jsha (JObj [(''endpoint_id'', JStr (er_id endpoint)), (''endpoint_name'', JStr (er_name endpoint)),
                         (''immutable_config'', config)]))))"

definition terminal_job_states :: "string list" where
  "terminal_job_states = [''COMPLETED'', ''FAILED'', ''CANCELLED'', ''TIMED_OUT'']"

definition negative_time :: "int option \<Rightarrow> bool" where
  "negative_time t = (case t of None \<Rightarrow> False | Some n \<Rightarrow> n < 0)"

definition validate_terminal_job :: "ServerlessJob \<Rightarrow> ServerlessBillingAttempt \<Rightarrow> py_error + unit" where
  "validate_terminal_job job a = require_that
     (sj_id job = ba_job_id a \<and> map ascii_upper (sj_status job) \<in> set terminal_job_states
      \<and> \<not> negative_time (sj_delay_time_ms job) \<and> \<not> negative_time (sj_execution_time_ms job))"

subsection \<open>Evidence\<close>

text \<open>The digests that identify a receipt do not cover the identity itself.\<close>

definition planned_activation_receipt :: "(json \<Rightarrow> string) \<Rightarrow> PlannedServerlessCapacityQuote \<Rightarrow> string
    \<Rightarrow> string \<Rightarrow> datetime \<Rightarrow> datetime \<Rightarrow> datetime \<Rightarrow> bool
    \<Rightarrow> py_error + ServerlessEndpointActivationReceipt" where
  "planned_activation_receipt jsha q endpoint_id readback_digest create_started_at activated_at readback_at
     reconciled =
     (let a = \<lparr> ac_schema_version = 1, ac_contract_version = capacity_contract,
            ac_provider_activation_id = [], ac_provider_quote_id = sq_provider_quote_id q,
            ac_quote_sha256 = quote_sha256 jsha q, ac_plan_id = pq_plan_id q,
            ac_plan_sha256 = pq_plan_sha256 q, ac_endpoint_name = pq_endpoint_name q,
            ac_endpoint_id = endpoint_id, ac_endpoint_spec_sha256 = pq_endpoint_spec_sha256 q,
            ac_operation_digest = pq_operation_digest q, ac_endpoint_readback_sha256 = readback_digest,
            ac_create_started_at = create_started_at, ac_activated_at = activated_at,
            ac_readback_at = readback_at, ac_reconciled_after_ambiguous_create = reconciled \<rparr>;
          receipt = a\<lparr> ac_provider_activation_id := activation_id jsha a \<rparr>
      in case activation_post_init jsha receipt of Some e \<Rightarrow> Inl e | None \<Rightarrow> Inr receipt)"

definition activated_submission :: "(json \<Rightarrow> string) \<Rightarrow> PlannedServerlessCapacityQuote
    \<Rightarrow> ServerlessEndpointActivationReceipt \<Rightarrow> string \<Rightarrow> datetime \<Rightarrow> py_error + ServerlessActivatedSubmission" where
  "activated_submission jsha q a exclusive_window_sha256 authorized_at =
     (let b = \<lparr> sb_provider_submission_id = [], sb_provider_quote_id = sq_provider_quote_id q,
            sb_quote_sha256 = quote_sha256 jsha q, sb_provider_activation_id = ac_provider_activation_id a,
            sb_endpoint_name = ac_endpoint_name a, sb_endpoint_id = ac_endpoint_id a,
            sb_endpoint_spec_sha256 = ac_endpoint_spec_sha256 a, sb_operation_digest = ac_operation_digest a,
            sb_exclusive_window_sha256 = exclusive_window_sha256, sb_authorized_at = authorized_at,
            sb_expires_at = sq_expires_at q \<rparr>;
          submission = b\<lparr> sb_provider_submission_id := submission_id jsha b \<rparr>
      in case submission_post_init jsha submission of Some e \<Rightarrow> Inl e | None \<Rightarrow> Inr submission)"

definition cleanup_receipt :: "(json \<Rightarrow> string) \<Rightarrow> ServerlessEndpointCleanupIntent \<Rightarrow> datetime \<Rightarrow> string
    \<Rightarrow> py_error + ServerlessEndpointCleanupReceipt" where
  "cleanup_receipt jsha i verified_absent_at basis =
     (let a = ci_activation i;
          c = \<lparr> cu_schema_version = 1, cu_contract_version = ac_contract_version a,
            cu_provider_cleanup_id = [], cu_provider_quote_id = ac_provider_quote_id a,
            cu_quote_sha256 = ac_quote_sha256 a, cu_provider_activation_id = ac_provider_activation_id a,
            cu_endpoint_name = ac_endpoint_name a, cu_endpoint_id = ac_endpoint_id a,
            cu_endpoint_spec_sha256 = ac_endpoint_spec_sha256 a, cu_operation_digest = ac_operation_digest a,
            cu_endpoint_readback_sha256 = ac_endpoint_readback_sha256 a,
            cu_workers_zero_observed_at = ci_workers_zero_observed_at i,
            cu_delete_started_at = ci_delete_started_at i, cu_verified_absent_at = verified_absent_at,
            cu_reconciled_after_delete_error = (basis = ''ambiguous_delete_verified_absent''),
            cu_cleanup_evidence_version = 2, cu_cleanup_basis = Some basis \<rparr>;
          receipt = c\<lparr> cu_provider_cleanup_id := cleanup_id jsha c \<rparr>
      in case cleanup_post_init jsha receipt of Some e \<Rightarrow> Inl e | None \<Rightarrow> Inr receipt)"

subsection \<open>Billing pages\<close>

definition billing_record_keys :: "string list" where
  "billing_record_keys = [''startTime'', ''endTime'', ''serverlessId'', ''totalAmount'', ''gpuAmount'',
     ''cpuAmount'', ''diskAmount'', ''feeAmount'']"

definition billing_metadata_keys :: "string list" where
  "billing_metadata_keys = [''query'', ''recordCount'', ''uniqueServerlessCount'', ''totals'']"

definition billing_query_keys :: "string list" where
  "billing_query_keys = [''startTime'', ''endTime'', ''bucketSize'', ''serverlessId'']"

definition billing_total_keys :: "string list" where
  "billing_total_keys = [''totalAmount'', ''gpuAmount'', ''cpuAmount'', ''diskAmount'', ''feeAmount'']"

definition amounts_from_mapping :: "json \<Rightarrow> py_error + cost_totals" where
  "amounts_from_mapping v =
     bindE (billing_amounts default_prec (raw_amount v)
              [''gpuAmount'', ''cpuAmount'', ''diskAmount'', ''feeAmount'']) (\<lambda>amounts.
     Inr \<lparr> ct_gpu_cost_usd = amount_at amounts ''gpuAmount'', ct_cpu_cost_usd = amount_at amounts ''cpuAmount'',
           ct_disk_cost_usd = amount_at amounts ''diskAmount'', ct_fee_cost_usd = amount_at amounts ''feeAmount'',
           ct_actual_cost_usd = amount_at amounts ''totalAmount'' \<rparr>)"

definition check_query_echo :: "text_reader \<Rightarrow> json \<Rightarrow> string \<Rightarrow> datetime \<Rightarrow> datetime \<Rightarrow> py_error + unit" where
  "check_query_echo R query endpoint_id window_from window_until =
     (if jget query ''serverlessId'' \<noteq> JStr endpoint_id \<or> jget query ''bucketSize'' \<noteq> JStr ''hour''
      then Inl RunPodManagerError
      else bindE (required_datetime R query ''startTime'') (\<lambda>start.
        if start \<noteq> window_from then Inl RunPodManagerError
        else bindE (required_datetime R query ''endTime'') (\<lambda>end_time.
          require_that (end_time = window_until))))"

definition billed_record :: "text_reader \<Rightarrow> string \<Rightarrow> json \<Rightarrow> py_error + datetime \<times> datetime \<times> cost_totals" where
  "billed_record R endpoint_id v =
     bindE (page_keys v billing_record_keys) (\<lambda>_.
     if jget v ''serverlessId'' \<noteq> JStr endpoint_id then Inl RunPodManagerError
     else bindE (required_datetime R v ''startTime'') (\<lambda>record_from.
       bindE (required_datetime R v ''endTime'') (\<lambda>record_until.
       bindE (amounts_from_mapping v) (\<lambda>amounts. Inr (record_from, record_until, amounts)))))"

definition observation_identity :: "string \<Rightarrow> datetime \<Rightarrow> datetime \<Rightarrow> cost_totals \<Rightarrow> json" where
  "observation_identity endpoint_id record_from record_until t = JObj
     [(''source'', JStr ''runpod-v2-serverless-billing''), (''startTime'', JTime record_from),
      (''endTime'', JTime record_until), (''serverlessId'', JStr endpoint_id),
      (''totalAmount'', jdec (ct_actual_cost_usd t)), (''gpuAmount'', jdec (ct_gpu_cost_usd t)),
      (''cpuAmount'', jdec (ct_cpu_cost_usd t)), (''diskAmount'', jdec (ct_disk_cost_usd t)),
      (''feeAmount'', jdec (ct_fee_cost_usd t))]"

definition hour_cost_of :: "(json \<Rightarrow> string) \<Rightarrow> string \<Rightarrow> datetime \<Rightarrow> datetime \<Rightarrow> cost_totals
    \<Rightarrow> py_error + ServerlessEndpointHourCost" where
  "hour_cost_of jsha endpoint_id record_from record_until t =
     (let h = \<lparr> hc_provider_observation_id = ''runpod-serverless-hour:''
              @ jsha (observation_identity endpoint_id record_from record_until t),
            hc_endpoint_id = endpoint_id, hc_utc_hour_start = record_from, hc_utc_hour_end = record_until,
            hc_gpu_cost_usd = ct_gpu_cost_usd t, hc_cpu_cost_usd = ct_cpu_cost_usd t,
            hc_disk_cost_usd = ct_disk_cost_usd t, hc_fee_cost_usd = ct_fee_cost_usd t,
            hc_actual_cost_usd = ct_actual_cost_usd t \<rparr>
      in case hour_cost_post_init h of
           Some e \<Rightarrow> Inl (if e = ValueError then RunPodManagerError else e) | None \<Rightarrow> Inr h)"

text \<open>
  The walk over the records in the order of their start.  \<open>None\<close> is an hour that is still open; the
  other result holds the hours and where they end.
\<close>

fun record_walk :: "(json \<Rightarrow> string) \<Rightarrow> string \<Rightarrow> datetime \<Rightarrow> datetime
    \<Rightarrow> (datetime \<times> datetime \<times> cost_totals) list
    \<Rightarrow> py_error + (ServerlessEndpointHourCost list \<times> datetime) option" where
  "record_walk jsha endpoint_id window_until cursor [] = Inr (Some ([], cursor))"
| "record_walk jsha endpoint_id window_until cursor ((record_from, record_until, t) # rs) =
     (if record_until \<le> record_from then Inl RunPodManagerError
      else if cursor < record_from \<and> record_from < window_until then Inr None
      else if record_from \<noteq> cursor then Inl RunPodManagerError
      else if window_until < record_until then Inl RunPodManagerError
      else if record_until < dt_add record_from hour then Inr None
      else if record_until \<noteq> dt_add record_from hour then Inl RunPodManagerError
      else bindE (hour_cost_of jsha endpoint_id record_from record_until t) (\<lambda>h.
        bindE (record_walk jsha endpoint_id window_until record_until rs) (\<lambda>rest.
        Inr (case rest of None \<Rightarrow> None | Some (hs, c) \<Rightarrow> Some (h # hs, c)))))"

definition same_totals :: "cost_totals \<Rightarrow> cost_totals \<Rightarrow> bool" where
  "same_totals s t \<longleftrightarrow>
     dval (ct_gpu_cost_usd s) = dval (ct_gpu_cost_usd t) \<and> dval (ct_cpu_cost_usd s) = dval (ct_cpu_cost_usd t)
     \<and> dval (ct_disk_cost_usd s) = dval (ct_disk_cost_usd t)
     \<and> dval (ct_fee_cost_usd s) = dval (ct_fee_cost_usd t)
     \<and> dval (ct_actual_cost_usd s) = dval (ct_actual_cost_usd t)"

definition authoritative_hour_costs :: "(json \<Rightarrow> string) \<Rightarrow> text_reader \<Rightarrow> BillingPage \<Rightarrow> string \<Rightarrow> datetime
    \<Rightarrow> datetime \<Rightarrow> py_error + ServerlessEndpointHourCost list option" where
  "authoritative_hour_costs jsha R page endpoint_id window_from window_until =
     (let metadata = bp_metadata page; records = bp_records page in
      bindE (page_keys metadata billing_metadata_keys) (\<lambda>_.
      bindE (mapping_value (jget metadata ''query'')) (\<lambda>query.
      bindE (mapping_value (jget metadata ''totals'')) (\<lambda>totals.
      bindE (page_keys query billing_query_keys) (\<lambda>_.
      bindE (page_keys totals billing_total_keys) (\<lambda>_.
      bindE (check_query_echo R query endpoint_id window_from window_until) (\<lambda>_.
      bindE (nonneg_integer (jget metadata ''recordCount'')) (\<lambda>record_count.
      bindE (nonneg_integer (jget metadata ''uniqueServerlessCount'')) (\<lambda>unique_count.
      if record_count \<noteq> int (length records) then Inl RunPodManagerError
      else if records = [] then (if unique_count \<notin> {0, 1} then Inl RunPodManagerError else Inr None)
      else if unique_count \<noteq> 1 then Inl RunPodManagerError
      else bindE (mapE (billed_record R endpoint_id) records) (\<lambda>parsed.
        bindE (record_walk jsha endpoint_id window_until window_from (sort_key fst parsed)) (\<lambda>walked.
        case walked of
          None \<Rightarrow> Inr None
        | Some (hs, cursor) \<Rightarrow>
            if cursor < window_until then Inr None
            else bindE (amounts_from_mapping totals) (\<lambda>expected.
              bindE (hour_cost_totals hs) (\<lambda>summed.
              if same_totals summed expected then Inr (Some hs) else Inl RunPodManagerError)))))))))))))"

end
