(* ===== verification/Serverless_Provider.thy ===== *)
theory Serverless_Provider
  imports Serverless_Checks
begin

text \<open>
  The REST adapter of \<^verbatim>\<open>serverless_capacity_provider.py\<close>: quotes, activation and adoption of a planned
  endpoint, its cleanup, and the three ways of billing.  Every operation is a program over the state of the
  control plane client.  \<open>persist\<close> is the host's callback that stores a cleanup intent; \<open>batch_hours\<close> and
  \<open>has_job_client\<close> are the arguments of the constructor.
\<close>

section \<open>Definitions\<close>

subsection \<open>Catalog and quotes\<close>

record catalog_selection =
  cs_observed_at :: datetime
  cs_gpu_id :: string
  cs_gpu_pool :: string
  cs_gpu_name :: string
  cs_vram_gb :: int
  cs_data_center_id :: string
  cs_availability :: Availability
  cs_hourly_worker_rate_usd :: decimal
  cs_observation_sha256 :: string

definition select_capacity :: "(json \<Rightarrow> string) \<Rightarrow> ServerlessEndpointSpec \<Rightarrow> PlacementRequirements
    \<Rightarrow> GPUOffer list \<Rightarrow> datetime \<Rightarrow> py_error + catalog_selection" where
  "select_capacity jsha s r offers observed_at =
     bindE (select_gpu offers r observed_at) (\<lambda>placement.
     case (pd_gpu_pool placement, pd_availability placement) of
       (Some pool, Some availability) \<Rightarrow>
         let offer = hd (filter (\<lambda>g. go_pool g = Some pool) offers) in
         bindE (select_data_center offer s) (\<lambda>data_center_id.
         bindE (catalog_observation_sha256 jsha offer s data_center_id) (\<lambda>digest.
         Inr \<lparr> cs_observed_at = observed_at, cs_gpu_id = pd_gpu_id placement, cs_gpu_pool = pool,
               cs_gpu_name = pd_gpu_name placement, cs_vram_gb = pd_memory_gb placement,
               cs_data_center_id = data_center_id, cs_availability = availability,
               cs_hourly_worker_rate_usd = float_decimal (pd_offered_cost_per_hr placement),
               cs_observation_sha256 = digest \<rparr>))
     | _ \<Rightarrow> Inl RunPodManagerError)"

definition observe_catalog :: "provider_env \<Rightarrow> ServerlessEndpointSpec \<Rightarrow> (client_world, catalog_selection) prog" where
  "observe_catalog E s =
     (if ss_resource_schema_version s \<noteq> ERV_GA then raiseM RunPodManagerError
      else seqM (liftM (capacity_requirements (ss_constraints s))) (\<lambda>r.
        seqM (threaded E (list_gpus (client_env.truncate E) True [SERVERLESS] (pr_gpu_count r) (pr_cloud r)
               (pr_min_cuda_version r))) (\<lambda>offers.
        seqM (liftM (validate_catalog_numbers offers)) (\<lambda>_.
        seqM (provider_now E) (\<lambda>observed_at.
        liftM (select_capacity (pe_jsha E) s r offers observed_at))))))"

definition quote_of_profile :: "(json \<Rightarrow> string) \<Rightarrow> ServerlessCapacityQuoteRequest \<Rightarrow> catalog_selection
    \<Rightarrow> quote_costs \<Rightarrow> py_error + ServerlessCapacityQuote" where
  "quote_of_profile jsha r sel costs =
     (let p = sr_profile r; s = sp_spec p; c = ss_constraints s;
          expires_at = dt_add (cs_observed_at sel) (seconds (sr_quote_ttl_seconds r));
          identity = JObj
            ([(''contract_version'', JStr capacity_contract), (''workload_kind'', JStr (sl_workload_kind r)),
              (''parameters_sha256'', JStr (sl_parameters_sha256 r)), (''profile_id'', JStr (sp_profile_id p)),
              (''endpoint_profile_sha256'', JStr (profile_sha256 jsha p)),
              (''endpoint_id'', JStr (sp_endpoint_id p)),
              (''catalog_observation_sha256'', JStr (cs_observation_sha256 sel)),
              (''gpu_id'', JStr (cs_gpu_id sel)), (''gpu_pool'', JStr (cs_gpu_pool sel)),
              (''vram_gb'', JInt (cs_vram_gb sel)), (''data_center_id'', JStr (cs_data_center_id sel)),
              (''cloud'', JStr (cloud_value (sc_cloud c))), (''gpu_count'', JInt (sc_gpu_count c)),
              (''min_cuda_version'', jopt JStr (sc_min_cuda_version c)),
              (''availability'', JStr (availability_value (cs_availability sel))),
              (''benchmark_id'', JStr (sc_benchmark_id c)),
              (''hourly_worker_rate_usd'', jdec (cs_hourly_worker_rate_usd sel))]
             @ quote_request_identity r s
             @ [(''catalog_observed_at'', JTime (cs_observed_at sel)), (''expires_at'', JTime expires_at)]);
          q = \<lparr> sl_workload_kind = sl_workload_kind r, sl_parameters_sha256 = sl_parameters_sha256 r,
               sl_estimated_queue_delay_seconds = sl_estimated_queue_delay_seconds r,
               sl_estimated_worker_start_seconds = sl_estimated_worker_start_seconds r,
               sl_estimated_execution_seconds = sl_estimated_execution_seconds r,
               sl_maximum_queue_delay_seconds = sl_maximum_queue_delay_seconds r,
               sl_maximum_worker_start_seconds = sl_maximum_worker_start_seconds r,
               sl_maximum_execution_seconds = sl_maximum_execution_seconds r,
               sl_maximum_billable_seconds = sl_maximum_billable_seconds r,
               sl_job_execution_timeout_ms = sl_job_execution_timeout_ms r, sl_job_ttl_ms = sl_job_ttl_ms r,
               sl_estimated_non_worker_cost_usd = sl_estimated_non_worker_cost_usd r,
               sl_maximum_non_worker_cost_usd = sl_maximum_non_worker_cost_usd r,
               sq_schema_version = 1, sq_contract_version = capacity_contract,
               sq_provider_quote_id = ''runpod-serverless:'' @ jsha identity,
               sq_catalog_observation_sha256 = cs_observation_sha256 sel, sq_gpu_id = cs_gpu_id sel,
               sq_gpu_pool = cs_gpu_pool sel, sq_gpu_name = cs_gpu_name sel, sq_vram_gb = cs_vram_gb sel,
               sq_data_center_id = cs_data_center_id sel, sq_cloud = sc_cloud c, sq_gpu_count = sc_gpu_count c,
               sq_min_cuda_version = sc_min_cuda_version c, sq_availability = cs_availability sel,
               sq_benchmark_id = sc_benchmark_id c,
               sq_hourly_worker_rate_usd = cs_hourly_worker_rate_usd sel,
               sq_idle_tail_seconds = ss_idle_tail_seconds s,
               sq_estimated_billable_seconds = qc_estimated_billable_seconds costs,
               sq_estimated_worker_cost_usd = qc_estimated_worker_cost_usd costs,
               sq_maximum_worker_cost_usd = qc_maximum_worker_cost_usd costs,
               sq_estimated_cost_usd = qc_estimated_cost_usd costs,
               sq_cost_ceiling_usd = qc_cost_ceiling_usd costs,
               sq_catalog_observed_at = cs_observed_at sel, sq_expires_at = expires_at,
               cq_profile_id = sp_profile_id p, cq_endpoint_profile_sha256 = profile_sha256 jsha p,
               cq_endpoint_id = sp_endpoint_id p \<rparr>
      in case capacity_quote_post_init q of Some e \<Rightarrow> Inl e | None \<Rightarrow> Inr q)"

definition observe_quote :: "provider_env \<Rightarrow> ServerlessCapacityQuoteRequest
    \<Rightarrow> (client_world, ServerlessCapacityQuote) prog" where
  "observe_quote E r =
     (let p = sr_profile r; s = sp_spec p in
      seqM (observe_catalog E s) (\<lambda>sel.
      seqM (threaded E (get_endpoint (client_env.truncate E) (sp_endpoint_id p))) (\<lambda>endpoint.
      seqM (liftM (validate_endpoint_binding endpoint p (cs_gpu_pool sel) (cs_data_center_id sel))) (\<lambda>_.
      seqM (liftM (quote_amounts r s (cs_hourly_worker_rate_usd sel))) (\<lambda>costs.
      liftM (quote_of_profile (pe_jsha E) r sel costs))))))"

definition quote_of_plan :: "(json \<Rightarrow> string) \<Rightarrow> PlannedServerlessCapacityQuoteRequest \<Rightarrow> catalog_selection
    \<Rightarrow> string \<Rightarrow> quote_costs \<Rightarrow> py_error + PlannedServerlessCapacityQuote" where
  "quote_of_plan jsha r sel digest costs =
     (let p = sr_endpoint r; s = pn_spec p; c = ss_constraints s;
          expires_at = dt_add (cs_observed_at sel) (seconds (sr_quote_ttl_seconds r));
          identity = JObj
            ([(''contract_version'', JStr capacity_contract), (''workload_kind'', JStr (sl_workload_kind r)),
              (''parameters_sha256'', JStr (sl_parameters_sha256 r)), (''plan_id'', JStr (pn_plan_id p)),
              (''plan_sha256'', JStr (plan_sha256 jsha p)), (''endpoint_name'', JStr (pn_endpoint_name p)),
              (''endpoint_spec_sha256'', JStr (endpoint_spec_sha256 jsha s)),
              (''operation_digest'', JStr digest), (''worker_reference'', JStr (ss_worker_reference s)),
              (''catalog_observation_sha256'', JStr (cs_observation_sha256 sel)),
              (''gpu_id'', JStr (cs_gpu_id sel)), (''gpu_pool'', JStr (cs_gpu_pool sel)),
              (''vram_gb'', JInt (cs_vram_gb sel)), (''data_center_id'', JStr (cs_data_center_id sel)),
              (''cloud'', JStr (cloud_value (sc_cloud c))), (''gpu_count'', JInt (sc_gpu_count c)),
              (''min_cuda_version'', jopt JStr (sc_min_cuda_version c)),
              (''availability'', JStr (availability_value (cs_availability sel))),
              (''benchmark_id'', JStr (sc_benchmark_id c)),
              (''hourly_worker_rate_usd'', jdec (cs_hourly_worker_rate_usd sel))]
             @ quote_request_identity r s
             @ [(''catalog_observed_at'', JTime (cs_observed_at sel)), (''expires_at'', JTime expires_at)]);
          q = \<lparr> sl_workload_kind = sl_workload_kind r, sl_parameters_sha256 = sl_parameters_sha256 r,
               sl_estimated_queue_delay_seconds = sl_estimated_queue_delay_seconds r,
               sl_estimated_worker_start_seconds = sl_estimated_worker_start_seconds r,
               sl_estimated_execution_seconds = sl_estimated_execution_seconds r,
               sl_maximum_queue_delay_seconds = sl_maximum_queue_delay_seconds r,
               sl_maximum_worker_start_seconds = sl_maximum_worker_start_seconds r,
               sl_maximum_execution_seconds = sl_maximum_execution_seconds r,
               sl_maximum_billable_seconds = sl_maximum_billable_seconds r,
               sl_job_execution_timeout_ms = sl_job_execution_timeout_ms r, sl_job_ttl_ms = sl_job_ttl_ms r,
               sl_estimated_non_worker_cost_usd = sl_estimated_non_worker_cost_usd r,
               sl_maximum_non_worker_cost_usd = sl_maximum_non_worker_cost_usd r,
               sq_schema_version = 1, sq_contract_version = capacity_contract,
               sq_provider_quote_id = ''runpod-serverless-plan:'' @ jsha identity,
               sq_catalog_observation_sha256 = cs_observation_sha256 sel, sq_gpu_id = cs_gpu_id sel,
               sq_gpu_pool = cs_gpu_pool sel, sq_gpu_name = cs_gpu_name sel, sq_vram_gb = cs_vram_gb sel,
               sq_data_center_id = cs_data_center_id sel, sq_cloud = sc_cloud c, sq_gpu_count = sc_gpu_count c,
               sq_min_cuda_version = sc_min_cuda_version c, sq_availability = cs_availability sel,
               sq_benchmark_id = sc_benchmark_id c,
               sq_hourly_worker_rate_usd = cs_hourly_worker_rate_usd sel,
               sq_idle_tail_seconds = ss_idle_tail_seconds s,
               sq_estimated_billable_seconds = qc_estimated_billable_seconds costs,
               sq_estimated_worker_cost_usd = qc_estimated_worker_cost_usd costs,
               sq_maximum_worker_cost_usd = qc_maximum_worker_cost_usd costs,
               sq_estimated_cost_usd = qc_estimated_cost_usd costs,
               sq_cost_ceiling_usd = qc_cost_ceiling_usd costs,
               sq_catalog_observed_at = cs_observed_at sel, sq_expires_at = expires_at,
               pq_plan_id = pn_plan_id p, pq_plan_sha256 = plan_sha256 jsha p,
               pq_endpoint_name = pn_endpoint_name p,
               pq_endpoint_spec_sha256 = endpoint_spec_sha256 jsha s, pq_operation_digest = digest,
               pq_worker_reference = ss_worker_reference s \<rparr>
      in case planned_quote_post_init q of Some e \<Rightarrow> Inl e | None \<Rightarrow> Inr q)"

definition observe_planned_quote :: "provider_env \<Rightarrow> PlannedServerlessCapacityQuoteRequest
    \<Rightarrow> (client_world, PlannedServerlessCapacityQuote) prog" where
  "observe_planned_quote E r =
     (let p = sr_endpoint r; s = pn_spec p in
      seqM (observe_catalog E s) (\<lambda>sel.
      seqM (liftM (operation_digest (pe_jsha E) s (pn_endpoint_name p) (cs_gpu_pool sel)
             (cs_data_center_id sel))) (\<lambda>digest.
      seqM (liftM (quote_amounts r s (cs_hourly_worker_rate_usd sel))) (\<lambda>costs.
      liftM (quote_of_plan (pe_jsha E) r sel digest costs)))))"

text \<open>\<^verbatim>\<open>assert_fresh\<close> as a step of a program.\<close>

definition assert_fresh :: "'a capacity_quote_scheme \<Rightarrow> datetime \<Rightarrow> decimal \<Rightarrow> (client_world, unit) prog" where
  "assert_fresh q t accepted =
     (case quote_assert_fresh q t accepted of Some e \<Rightarrow> raiseM e | None \<Rightarrow> ret ())"

definition validate_quote_for_submission :: "provider_env \<Rightarrow> ServerlessCapacityQuoteRequest
    \<Rightarrow> ServerlessCapacityQuote \<Rightarrow> decimal \<Rightarrow> (client_world, ServerlessCapacityQuote) prog" where
  "validate_quote_for_submission E r q accepted =
     seqM (provider_now E) (\<lambda>t.
     seqM (assert_fresh q t accepted) (\<lambda>_.
     seqM (liftM (validate_request_binding (pe_jsha E) r q)) (\<lambda>_.
     seqM (observe_quote E r) (\<lambda>current.
     seqM (liftM (validate_quote_drift current q accepted)) (\<lambda>_. ret q)))))"

subsection \<open>Activation\<close>

definition named_endpoints :: "string \<Rightarrow> EndpointResource list \<Rightarrow> EndpointResource list" where
  "named_endpoints name endpoints = filter (\<lambda>e. er_name e = name) endpoints"

text \<open>A receipt of an earlier activation is checked against the endpoint as it is now.\<close>

definition replay_activation :: "provider_env \<Rightarrow> PlannedServerlessCapacityQuoteRequest
    \<Rightarrow> PlannedServerlessCapacityQuote \<Rightarrow> ServerlessEndpointActivationReceipt
    \<Rightarrow> (client_world, ServerlessEndpointActivationReceipt) prog" where
  "replay_activation E r q prior =
     seqM (liftM (activation_validate_quote (pe_jsha E) prior q)) (\<lambda>_.
     seqM (threaded E (get_endpoint (client_env.truncate E) (ac_endpoint_id prior))) (\<lambda>endpoint.
     seqM (liftM (validate_planned_endpoint_binding (pe_jsha E) endpoint (sr_endpoint r) (ac_endpoint_id prior)
            (sq_gpu_pool q) (sq_data_center_id q))) (\<lambda>digest.
     if digest \<noteq> ac_endpoint_readback_sha256 prior
     then raiseM (ServerlessEndpointActivationError (pq_endpoint_name q) [ac_endpoint_id prior])
     else ret prior)))"

text \<open>The one create request, and the recovery of an ambiguous result from the inventory.\<close>

definition create_or_reconcile :: "provider_env \<Rightarrow> EndpointCreateRequest \<Rightarrow> string
    \<Rightarrow> (client_world, EndpointResource \<times> bool) prog" where
  "create_or_reconcile E request name =
     tryM (seqM (owned E (create_endpoint (client_env.truncate E) request)) (\<lambda>e. ret (e, False)))
       (\<lambda>err. if err = RunPodAmbiguousResultError
          then seqM (threaded E (list_endpoints (client_env.truncate E))) (\<lambda>found.
            case named_endpoints name found of
              [e] \<Rightarrow> ret (e, True)
            | named \<Rightarrow> raiseM (ServerlessEndpointActivationError name (map er_id named)))
          else if is_manager_error err then raiseM (ServerlessEndpointActivationError name [])
          else raiseM err)"

text \<open>
  What follows the create: the exact readback and the receipt.  Only the readback and its check are in the
  \<^verbatim>\<open>try\<close> block.
\<close>

definition read_back_created :: "provider_env \<Rightarrow> PlannedServerlessCapacityQuoteRequest
    \<Rightarrow> PlannedServerlessCapacityQuote \<Rightarrow> string \<Rightarrow> (client_world, EndpointResource \<times> string) prog" where
  "read_back_created E r q endpoint_id =
     tryM (seqM (threaded E (get_endpoint (client_env.truncate E) endpoint_id)) (\<lambda>endpoint.
           seqM (liftM (validate_planned_endpoint_binding (pe_jsha E) endpoint (sr_endpoint r) endpoint_id
                  (sq_gpu_pool q) (sq_data_center_id q))) (\<lambda>digest. ret (endpoint, digest))))
       (\<lambda>err. if is_manager_error err
          then raiseM (ServerlessEndpointActivationError (pq_endpoint_name q) [endpoint_id]) else raiseM err)"

definition activate_created :: "provider_env \<Rightarrow> PlannedServerlessCapacityQuoteRequest
    \<Rightarrow> PlannedServerlessCapacityQuote \<Rightarrow> datetime \<Rightarrow> EndpointResource \<Rightarrow> bool
    \<Rightarrow> (client_world, ServerlessEndpointActivationReceipt) prog" where
  "activate_created E r q create_started_at created ambiguous =
     seqM (provider_now E) (\<lambda>activated_at.
     if er_name created \<noteq> pq_endpoint_name q
     then raiseM (ServerlessEndpointActivationError (pq_endpoint_name q) [er_id created])
     else seqM (read_back_created E r q (er_id created)) (\<lambda>(endpoint, digest).
       seqM (provider_now E) (\<lambda>readback_at.
       liftM (planned_activation_receipt (pe_jsha E) q (er_id endpoint) digest create_started_at activated_at
         readback_at ambiguous))))"

definition purchase_endpoint :: "provider_env \<Rightarrow> PlannedServerlessCapacityQuoteRequest
    \<Rightarrow> PlannedServerlessCapacityQuote \<Rightarrow> decimal \<Rightarrow> (client_world, ServerlessEndpointActivationReceipt) prog" where
  "purchase_endpoint E r q accepted =
     seqM (provider_now E) (\<lambda>t.
     seqM (assert_fresh q t accepted) (\<lambda>_.
     seqM (observe_planned_quote E r) (\<lambda>current.
     seqM (liftM (validate_planned_quote_drift current q accepted)) (\<lambda>_.
     seqM (threaded E (list_endpoints (client_env.truncate E))) (\<lambda>existing.
     if named_endpoints (pq_endpoint_name q) existing \<noteq> []
     then raiseM (ServerlessEndpointActivationError (pq_endpoint_name q)
            (map er_id (named_endpoints (pq_endpoint_name q) existing)))
     else seqM (liftM (spec_create_request (pn_spec (sr_endpoint r)) (pq_endpoint_name q) (sq_gpu_pool q)
            (sq_data_center_id q))) (\<lambda>request.
       seqM (liftM (endpoint_request_payload request)) (\<lambda>payload.
       if pe_jsha E payload \<noteq> pq_operation_digest q then raiseM RunPodManagerError
       else seqM (provider_now E) (\<lambda>create_started_at.
         seqM (create_or_reconcile E request (pq_endpoint_name q)) (\<lambda>(created, ambiguous).
         activate_created E r q create_started_at created ambiguous)))))))))"

definition activate_planned_endpoint :: "provider_env \<Rightarrow> PlannedServerlessCapacityQuoteRequest
    \<Rightarrow> PlannedServerlessCapacityQuote \<Rightarrow> decimal \<Rightarrow> ServerlessEndpointActivationReceipt option
    \<Rightarrow> (client_world, ServerlessEndpointActivationReceipt) prog" where
  "activate_planned_endpoint E r q accepted prior_receipt =
     seqM (liftM (validate_planned_request_binding (pe_jsha E) r q)) (\<lambda>_.
     case prior_receipt of
       Some prior \<Rightarrow> replay_activation E r q prior
     | None \<Rightarrow> purchase_endpoint E r q accepted)"

text \<open>Errors of the readback itself propagate; only its check is an ownership verdict.\<close>

definition adopt_planned_endpoint :: "provider_env \<Rightarrow> PlannedServerlessCapacityQuoteRequest
    \<Rightarrow> PlannedServerlessCapacityQuote \<Rightarrow> (client_world, ServerlessEndpointActivationReceipt) prog" where
  "adopt_planned_endpoint E r q =
     seqM (liftM (validate_planned_request_binding (pe_jsha E) r q)) (\<lambda>_.
     seqM (threaded E (list_endpoints (client_env.truncate E))) (\<lambda>existing.
     case named_endpoints (pq_endpoint_name q) existing of
       [observed] \<Rightarrow>
         seqM (threaded E (get_endpoint (client_env.truncate E) (er_id observed))) (\<lambda>endpoint.
         seqM (case validate_planned_endpoint_binding (pe_jsha E) endpoint (sr_endpoint r) (er_id observed)
                 (sq_gpu_pool q) (sq_data_center_id q) of
               Inr digest \<Rightarrow> ret digest
             | Inl e \<Rightarrow> raiseM (if is_manager_error e
                 then ServerlessEndpointActivationError (pq_endpoint_name q) [er_id observed] else e))
           (\<lambda>digest.
         seqM (provider_now E) (\<lambda>adopted_at.
         liftM (planned_activation_receipt (pe_jsha E) q (er_id endpoint) digest adopted_at adopted_at adopted_at
           True))))
     | named \<Rightarrow> raiseM (ServerlessEndpointActivationError (pq_endpoint_name q) (map er_id named))))"

definition authorize_planned_submission :: "provider_env \<Rightarrow> PlannedServerlessCapacityQuoteRequest
    \<Rightarrow> PlannedServerlessCapacityQuote \<Rightarrow> ServerlessEndpointActivationReceipt \<Rightarrow> decimal \<Rightarrow> string
    \<Rightarrow> (client_world, ServerlessActivatedSubmission) prog" where
  "authorize_planned_submission E r q activation accepted exclusive_window_sha256 =
     seqM (liftM (validate_planned_request_binding (pe_jsha E) r q)) (\<lambda>_.
     seqM (liftM (activation_validate_quote (pe_jsha E) activation q)) (\<lambda>_.
     seqM (provider_now E) (\<lambda>t.
     seqM (assert_fresh q t accepted) (\<lambda>_.
     seqM (observe_planned_quote E r) (\<lambda>current.
     seqM (liftM (validate_planned_quote_drift current q accepted)) (\<lambda>_.
     seqM (threaded E (get_endpoint (client_env.truncate E) (ac_endpoint_id activation))) (\<lambda>endpoint.
     seqM (liftM (validate_planned_endpoint_binding (pe_jsha E) endpoint (sr_endpoint r)
            (ac_endpoint_id activation) (sq_gpu_pool q) (sq_data_center_id q))) (\<lambda>digest.
     if digest \<noteq> ac_endpoint_readback_sha256 activation then raiseM RunPodManagerError
     else liftM (activated_submission (pe_jsha E) q activation exclusive_window_sha256 t)))))))))"

end
