(* ===== verification/Serverless_Settlement.thy ===== *)
theory Serverless_Settlement
  imports Serverless_Provider
begin

text \<open>
  The second half of \<^verbatim>\<open>serverless_capacity_provider.py\<close>: the cleanup of an activated endpoint with its
  durable intent, and the billing of a retired endpoint, of a job and of an ambiguous window.
\<close>

section \<open>Definitions\<close>

subsection \<open>Cleanup\<close>

definition endpoint_cleanup_error :: "ServerlessEndpointActivationReceipt \<Rightarrow> py_error" where
  "endpoint_cleanup_error a = ServerlessEndpointCleanupError (ac_endpoint_name a) (ac_endpoint_id a)"

text \<open>Only the typed 404 of the exact GET denotes a missing endpoint.\<close>

definition cleanup_endpoint_resource :: "provider_env \<Rightarrow> ServerlessEndpointActivationReceipt
    \<Rightarrow> (client_world, EndpointResource option) prog" where
  "cleanup_endpoint_resource E a =
     tryM (seqM (threaded E (get_endpoint (client_env.truncate E) (ac_endpoint_id a))) (\<lambda>e. ret (Some e)))
       (\<lambda>err. if err = RunPodAPIError (Some 404) then ret None else raiseM err)"

definition verify_cleanup_absence :: "provider_env \<Rightarrow> ServerlessEndpointActivationReceipt
    \<Rightarrow> (client_world, datetime) prog" where
  "verify_cleanup_absence E a =
     seqM (cleanup_endpoint_resource E a) (\<lambda>found.
     if found \<noteq> None then raiseM (endpoint_cleanup_error a)
     else seqM (threaded E (list_endpoints (client_env.truncate E))) (\<lambda>resources.
       if list_ex (\<lambda>e. er_id e = ac_endpoint_id a \<or> er_name e = ac_endpoint_name a) resources
       then raiseM (endpoint_cleanup_error a) else provider_now E))"

definition worker_summary_keys :: "string list" where
  "worker_summary_keys = [''running'', ''idle'', ''initializing'', ''throttled'', ''unhealthy'', ''total'']"

text \<open>No workers, by the list and by every counter of the summary; every failure is the same error.\<close>

definition no_workers :: "json \<Rightarrow> bool" where
  "no_workers page \<longleftrightarrow>
     jget page ''workers'' = JList [] \<and> is_jobj (jget page ''summary'')
     \<and> set (jkeys (jget page ''summary'')) = set worker_summary_keys
     \<and> list_all (\<lambda>k. nonneg_integer (jget (jget page ''summary'') k) = Inr 0) worker_summary_keys"

type_synonym intent_store =
  "(nat \<Rightarrow> ServerlessEndpointCleanupIntent \<Rightarrow> py_error + ServerlessEndpointCleanupIntent option) option"

text \<open>The callback may raise, or answer with something that is not the intent.\<close>

definition acknowledge_intent :: "intent_store \<Rightarrow> ServerlessEndpointActivationReceipt
    \<Rightarrow> ServerlessEndpointCleanupIntent \<Rightarrow> (client_world, unit) prog" where
  "acknowledge_intent persist a i =
     (case persist of
        None \<Rightarrow> ret ()
      | Some f \<Rightarrow> seqM (\<lambda>w. (f (cw_tick w) i, w\<lparr>cw_tick := Suc (cw_tick w)\<rparr>)) (\<lambda>answer.
          if answer \<noteq> Some i then raiseM (endpoint_cleanup_error a) else ret ()))"

definition cleanup_intent :: "provider_env \<Rightarrow> ServerlessEndpointActivationReceipt
    \<Rightarrow> ServerlessEndpointCleanupIntent option \<Rightarrow> (client_world, ServerlessEndpointCleanupIntent) prog" where
  "cleanup_intent E a prior_intent =
     (case prior_intent of
        Some i \<Rightarrow> ret i
      | None \<Rightarrow>
          seqM (provider_now E) (\<lambda>zero_at.
          seqM (provider_now E) (\<lambda>started_at.
          let i = \<lparr> ci_schema_version = 1, ci_contract_version = capacity_contract, ci_activation = a,
                ci_workers_zero_observed_at = zero_at, ci_delete_started_at = started_at \<rparr>
          in case intent_post_init i of Some e \<Rightarrow> raiseM e | None \<Rightarrow> ret i)))"

text \<open>The one delete request; the text is the basis of the receipt.\<close>

definition delete_activated :: "provider_env \<Rightarrow> ServerlessEndpointActivationReceipt
    \<Rightarrow> (client_world, string) prog" where
  "delete_activated E a =
     tryM (seqM (owned E (delete_endpoint (client_env.truncate E) (ac_endpoint_id a)))
            (\<lambda>_. ret ''delete_acknowledged''))
       (\<lambda>err. if err = RunPodAmbiguousResultError then ret ''ambiguous_delete_verified_absent''
          else if is_manager_error err then raiseM (endpoint_cleanup_error a) else raiseM err)"

definition cleanup_present :: "provider_env \<Rightarrow> PlannedServerlessCapacityQuoteRequest
    \<Rightarrow> PlannedServerlessCapacityQuote \<Rightarrow> ServerlessEndpointActivationReceipt
    \<Rightarrow> ServerlessEndpointCleanupIntent option \<Rightarrow> intent_store \<Rightarrow> EndpointResource
    \<Rightarrow> (client_world, ServerlessEndpointCleanupReceipt) prog" where
  "cleanup_present E r q a prior_intent persist endpoint =
     seqM (liftM (validate_planned_endpoint_binding (pe_jsha E) endpoint (sr_endpoint r) (ac_endpoint_id a)
            (sq_gpu_pool q) (sq_data_center_id q))) (\<lambda>digest.
     if digest \<noteq> ac_endpoint_readback_sha256 a then raiseM (endpoint_cleanup_error a)
     else seqM (threaded E (list_endpoint_workers (client_env.truncate E) (ac_endpoint_id a))) (\<lambda>page.
       if \<not> no_workers page then raiseM (endpoint_cleanup_error a)
       else seqM (cleanup_intent E a prior_intent) (\<lambda>intent.
         seqM (acknowledge_intent persist a intent) (\<lambda>_.
         seqM (delete_activated E a) (\<lambda>basis.
         seqM (verify_cleanup_absence E a) (\<lambda>verified_absent_at.
         liftM (cleanup_receipt (pe_jsha E) intent verified_absent_at basis)))))))"

definition cleanup_missing :: "provider_env \<Rightarrow> ServerlessEndpointActivationReceipt
    \<Rightarrow> ServerlessEndpointCleanupIntent option \<Rightarrow> (client_world, ServerlessEndpointCleanupReceipt) prog" where
  "cleanup_missing E a prior_intent =
     (case prior_intent of
        None \<Rightarrow> raiseM (endpoint_cleanup_error a)
      | Some intent \<Rightarrow> seqM (verify_cleanup_absence E a) (\<lambda>verified_absent_at.
          liftM (cleanup_receipt (pe_jsha E) intent verified_absent_at ''interrupted_intent_verified_absent'')))"

definition replay_cleanup :: "provider_env \<Rightarrow> ServerlessEndpointActivationReceipt
    \<Rightarrow> ServerlessEndpointCleanupIntent option \<Rightarrow> ServerlessEndpointCleanupReceipt
    \<Rightarrow> (client_world, ServerlessEndpointCleanupReceipt) prog" where
  "replay_cleanup E a prior_intent receipt =
     seqM (liftM (cleanup_validate_activation receipt a)) (\<lambda>_.
     if (case prior_intent of None \<Rightarrow> False
         | Some i \<Rightarrow> cu_workers_zero_observed_at receipt \<noteq> ci_workers_zero_observed_at i
             \<or> cu_delete_started_at receipt \<noteq> ci_delete_started_at i)
     then raiseM (endpoint_cleanup_error a)
     else seqM (verify_cleanup_absence E a) (\<lambda>_. ret receipt))"

definition check_prior_intent :: "provider_env \<Rightarrow> ServerlessEndpointActivationReceipt
    \<Rightarrow> ServerlessEndpointCleanupIntent option \<Rightarrow> (client_world, unit) prog" where
  "check_prior_intent E a prior_intent =
     (case prior_intent of
        None \<Rightarrow> ret ()
      | Some i \<Rightarrow> seqM (liftM (intent_validate_activation i a)) (\<lambda>_.
          seqM (provider_now E) (\<lambda>t. if t < ci_delete_started_at i then raiseM (endpoint_cleanup_error a) else ret ())))"

definition cleanup_effect :: "provider_env \<Rightarrow> PlannedServerlessCapacityQuoteRequest
    \<Rightarrow> PlannedServerlessCapacityQuote \<Rightarrow> ServerlessEndpointActivationReceipt
    \<Rightarrow> ServerlessEndpointCleanupReceipt option \<Rightarrow> ServerlessEndpointCleanupIntent option \<Rightarrow> intent_store
    \<Rightarrow> (client_world, ServerlessEndpointCleanupReceipt) prog" where
  "cleanup_effect E r q a prior_receipt prior_intent persist =
     seqM (liftM (validate_planned_request_binding (pe_jsha E) r q)) (\<lambda>_.
     seqM (liftM (activation_validate_quote (pe_jsha E) a q)) (\<lambda>_.
     seqM (check_prior_intent E a prior_intent) (\<lambda>_.
     case prior_receipt of
       Some receipt \<Rightarrow> replay_cleanup E a prior_intent receipt
     | None \<Rightarrow> seqM (cleanup_endpoint_resource E a) (\<lambda>found.
         case found of
           None \<Rightarrow> cleanup_missing E a prior_intent
         | Some endpoint \<Rightarrow> cleanup_present E r q a prior_intent persist endpoint))))"

definition cleanup_planned_endpoint :: "provider_env \<Rightarrow> PlannedServerlessCapacityQuoteRequest
    \<Rightarrow> PlannedServerlessCapacityQuote \<Rightarrow> ServerlessEndpointActivationReceipt
    \<Rightarrow> ServerlessEndpointCleanupReceipt option \<Rightarrow> ServerlessEndpointCleanupIntent option \<Rightarrow> intent_store
    \<Rightarrow> (client_world, ServerlessEndpointCleanupReceipt) prog" where
  "cleanup_planned_endpoint E r q a prior_receipt prior_intent persist =
     owned E (cleanup_effect E r q a prior_receipt prior_intent persist)"

subsection \<open>The billing of whole hours\<close>

definition batch_end :: "int \<Rightarrow> datetime \<Rightarrow> datetime \<Rightarrow> datetime" where
  "batch_end batch_hours window_until cursor = min window_until
     (dt_add cursor (min batch_hours ((usec window_until - usec cursor) div hour) * hour))"

lemma batch_end_progress:
  assumes "\<not> usec (batch_end n until cursor) \<le> usec cursor"
  shows "usec cursor < usec until"
proof (rule ccontr)
  assume "\<not> usec cursor < usec until"
  then have "min n ((usec until - usec cursor) div hour) * hour \<le> 0"
    by (simp add: hour_def mult_nonpos_nonneg min.coboundedI2)
  moreover have "usec (dt_add cursor d) = usec cursor + d" for d by (cases cursor) auto
  ultimately show False using assms \<open>\<not> usec cursor < usec until\<close> by (auto simp: batch_end_def min_def split: if_splits)
qed

text \<open>
  The batches of the observation.  A batch that does not advance would be asked for ever; the outcome
  \<open>Diverged\<close> stands for that.
\<close>

function billing_batches :: "provider_env \<Rightarrow> string \<Rightarrow> int \<Rightarrow> datetime \<Rightarrow> datetime
    \<Rightarrow> (client_world, ServerlessEndpointHourCost list option) prog" where
  "billing_batches E endpoint_id batch_hours window_until cursor =
     (if \<not> cursor < window_until then ret (Some [])
      else if usec (batch_end batch_hours window_until cursor) \<le> usec cursor then raiseM Diverged
      else seqM (owned E (serverless_billing (client_env.truncate E) (Some cursor)
             (Some (batch_end batch_hours window_until cursor)) (Some ''hour'') None (Some endpoint_id))) (\<lambda>page.
        seqM (liftM (authoritative_hour_costs (pe_jsha E) (pe_read_datetime E) page endpoint_id cursor
               (batch_end batch_hours window_until cursor))) (\<lambda>observed.
        case observed of
          None \<Rightarrow> ret None
        | Some hs \<Rightarrow>
            seqM (billing_batches E endpoint_id batch_hours window_until
                   (batch_end batch_hours window_until cursor)) (\<lambda>rest.
            ret (case rest of None \<Rightarrow> None | Some hs' \<Rightarrow> Some (hs @ hs'))))))"
  by pat_completeness auto

termination
  by (relation "measure (\<lambda>(E, endpoint_id, n, until, cursor). nat (usec until - usec cursor))")
    (auto dest: batch_end_progress)

declare billing_batches.simps [simp del]

definition read_exact_serverless_billing :: "provider_env \<Rightarrow> string \<Rightarrow> datetime \<Rightarrow> datetime \<Rightarrow> int
    \<Rightarrow> (client_world, ServerlessEndpointHourCost list option) prog" where
  "read_exact_serverless_billing E endpoint_id created_at verified_absent_at batch_hours =
     (if \<not> capacity_identifier endpoint_id \<or> batch_hours < 1 then raiseM ValueError
      else seqM (liftM (serverless_billing_hour_bounds created_at verified_absent_at))
        (\<lambda>(window_from, window_until).
        seqM (provider_now E) (\<lambda>t.
        if t < window_until then ret None
        else billing_batches E endpoint_id batch_hours window_until window_from)))"

definition retired_endpoint_billing :: "provider_env \<Rightarrow> int \<Rightarrow> PlannedServerlessCapacityQuoteRequest
    \<Rightarrow> PlannedServerlessCapacityQuote \<Rightarrow> ServerlessEndpointActivationReceipt
    \<Rightarrow> ServerlessEndpointCleanupReceipt
    \<Rightarrow> (client_world, ServerlessRetiredEndpointBillingReceipt option) prog" where
  "retired_endpoint_billing E batch_hours r q a c =
     seqM (liftM (validate_planned_request_binding (pe_jsha E) r q)) (\<lambda>_.
     seqM (liftM (activation_validate_quote (pe_jsha E) a q)) (\<lambda>_.
     seqM (liftM (cleanup_validate_activation c a)) (\<lambda>_.
     if cu_workers_zero_observed_at c < ac_readback_at a then raiseM RunPodManagerError
     else seqM (read_exact_serverless_billing E (ac_endpoint_id a) (ac_create_started_at a)
            (cu_verified_absent_at c) batch_hours) (\<lambda>costs.
       case costs of
         None \<Rightarrow> ret None
       | Some hs \<Rightarrow> seqM (provider_now E) (\<lambda>t.
           let receipt = \<lparr> rr_schema_version = 1, rr_contract_version = capacity_contract, rr_activation = a,
                 rr_cleanup = c, rr_endpoint_hour_costs = hs, rr_reconciled_at = t \<rparr>
           in case retired_receipt_post_init receipt of
                Some e \<Rightarrow> raiseM e | None \<Rightarrow> ret (Some receipt))))))"

subsection \<open>The billing of a job\<close>

definition job_exceeds :: "int option \<Rightarrow> int \<Rightarrow> bool" where
  "job_exceeds t maximum = (case t of None \<Rightarrow> False | Some n \<Rightarrow> maximum * 1000 < n)"

definition job_billing_receipt :: "(json \<Rightarrow> string) \<Rightarrow> ServerlessBillingAttempt \<Rightarrow> 'a capacity_quote_scheme
    \<Rightarrow> string \<Rightarrow> ServerlessJob \<Rightarrow> cost_totals \<Rightarrow> datetime \<Rightarrow> py_error + ServerlessBillingReceipt" where
  "job_billing_receipt jsha a q endpoint_profile_sha256 job t reconciled_at =
     (let hours = ba_exclusive_billing_hour_starts a;
          coverage_until = dt_add (ba_completed_at a) (seconds (sq_idle_tail_seconds q));
          window_from = hd hours; window_until = dt_add (last hours) hour;
          identity = JObj
            ([(''contract_version'', JStr capacity_contract),
              (''provider_quote_id'', JStr (sq_provider_quote_id q)),
              (''endpoint_profile_sha256'', JStr endpoint_profile_sha256),
              (''endpoint_id'', JStr (ba_endpoint_id a)), (''job_id'', JStr (ba_job_id a)),
              (''attempt_id'', JStr (ba_attempt_id a)),
              (''exclusive_window_sha256'', JStr (ba_exclusive_window_sha256 a)),
              (''exclusive_billing_hour_starts'', JList (map JTime hours)),
              (''attempt_started_at'', JTime (ba_submitted_at a)),
              (''attempt_completed_at'', JTime (ba_completed_at a)),
              (''billable_coverage_until'', JTime coverage_until),
              (''billing_window_from'', JTime window_from), (''billing_window_until'', JTime window_until),
              (''hourly_worker_rate_usd'', jdec (sq_hourly_worker_rate_usd q)),
              (''pre_execution_delay_ms'', jopt JInt (sj_delay_time_ms job)), (''worker_startup_ms'', JNull),
              (''execution_ms'', jopt JInt (sj_execution_time_ms job)),
              (''accepted_idle_tail_ms'', JInt (sq_idle_tail_seconds q * 1000)), (''idle_tail_ms'', JNull)]
             @ totals_entries t);
          receipt = \<lparr> br_schema_version = 1, br_contract_version = capacity_contract,
            br_provider_billing_id = ''runpod-serverless-billing:'' @ jsha identity,
            br_provider_quote_id = sq_provider_quote_id q,
            br_endpoint_profile_sha256 = endpoint_profile_sha256, br_endpoint_id = ba_endpoint_id a,
            br_job_id = ba_job_id a, br_attempt_id = ba_attempt_id a,
            br_exclusive_window_sha256 = ba_exclusive_window_sha256 a,
            br_exclusive_billing_hour_starts = hours, br_attempt_started_at = ba_submitted_at a,
            br_attempt_completed_at = ba_completed_at a, br_billable_coverage_until = coverage_until,
            br_billing_window_from = window_from, br_billing_window_until = window_until,
            br_hourly_worker_rate_usd = sq_hourly_worker_rate_usd q,
            br_pre_execution_delay_ms = sj_delay_time_ms job, br_worker_startup_ms = None,
            br_execution_ms = sj_execution_time_ms job,
            br_accepted_idle_tail_ms = sq_idle_tail_seconds q * 1000, br_idle_tail_ms = None,
            br_gpu_cost_usd = ct_gpu_cost_usd t, br_cpu_cost_usd = ct_cpu_cost_usd t,
            br_disk_cost_usd = ct_disk_cost_usd t, br_fee_cost_usd = ct_fee_cost_usd t,
            br_actual_cost_usd = ct_actual_cost_usd t, br_reconciled_at = reconciled_at \<rparr>
      in case billing_receipt_post_init receipt of Some e \<Rightarrow> Inl e | None \<Rightarrow> Inr receipt)"

text \<open>The page of the allocated hours, once they have closed; \<open>None\<close> while they settle.\<close>

definition window_costs :: "provider_env \<Rightarrow> string \<Rightarrow> datetime list
    \<Rightarrow> (client_world, ServerlessEndpointHourCost list option) prog" where
  "window_costs E endpoint_id hours =
     (let window_from = hd hours; window_until = dt_add (last hours) hour in
      seqM (threaded E (serverless_billing (client_env.truncate E) (Some window_from) (Some window_until)
             (Some ''hour'') None (Some endpoint_id))) (\<lambda>page.
      liftM (authoritative_hour_costs (pe_jsha E) (pe_read_datetime E) page endpoint_id window_from
        window_until)))"

definition final_billing_bound :: "provider_env \<Rightarrow> bool \<Rightarrow> ServerlessBillingAttempt \<Rightarrow> 'a capacity_quote_scheme
    \<Rightarrow> string \<Rightarrow> (client_world, ServerlessBillingReceipt option) prog" where
  "final_billing_bound E has_job_client a q endpoint_profile_sha256 =
     (if \<not> has_job_client then raiseM RunPodManagerError
      else seqM (provider_now E) (\<lambda>t.
        if t < ba_completed_at a then raiseM RunPodManagerError
        else seqM (threaded E (job_status (client_env.truncate E) (ba_endpoint_id a) (ba_job_id a) None)) (\<lambda>job.
          seqM (liftM (validate_terminal_job job a)) (\<lambda>_.
          if job_exceeds (sj_delay_time_ms job)
               (sl_maximum_queue_delay_seconds q + sl_maximum_worker_start_seconds q)
             \<or> job_exceeds (sj_execution_time_ms job) (sl_maximum_execution_seconds q)
          then raiseM RunPodManagerError
          else if t < dt_add (last (ba_exclusive_billing_hour_starts a)) hour then ret None
          else seqM (window_costs E (ba_endpoint_id a) (ba_exclusive_billing_hour_starts a)) (\<lambda>costs.
            case costs of
              None \<Rightarrow> ret None
            | Some hs \<Rightarrow> seqM (liftM (hour_cost_totals hs)) (\<lambda>totals.
                seqM (liftM (job_billing_receipt (pe_jsha E) a q endpoint_profile_sha256 job totals t))
                  (\<lambda>receipt. ret (Some receipt))))))))"

definition final_billing :: "provider_env \<Rightarrow> bool \<Rightarrow> ServerlessBillingAttempt \<Rightarrow> ServerlessCapacityQuote
    \<Rightarrow> (client_world, ServerlessBillingReceipt option) prog" where
  "final_billing E has_job_client a q =
     seqM (liftM (attempt_validate_quote a q)) (\<lambda>_.
     final_billing_bound E has_job_client a q (cq_endpoint_profile_sha256 q))"

definition attempt_in_submission :: "ServerlessBillingAttempt \<Rightarrow> PlannedServerlessCapacityQuote
    \<Rightarrow> ServerlessEndpointActivationReceipt \<Rightarrow> ServerlessActivatedSubmission \<Rightarrow> py_error + unit" where
  "attempt_in_submission a q activation s =
     (if ba_endpoint_id a \<noteq> ac_endpoint_id activation \<or> ba_provider_quote_id a \<noteq> sq_provider_quote_id q
        \<or> ba_exclusive_window_sha256 a \<noteq> sb_exclusive_window_sha256 s
      then Inl RunPodManagerError
      else if \<not> (sb_authorized_at s \<le> ba_submitted_at a \<and> ba_submitted_at a < sb_expires_at s)
      then Inl RunPodManagerError
      else if seconds (maximum_elapsed q) < usec (ba_completed_at a) - usec (ba_submitted_at a)
      then Inl RunPodManagerError
      else bindE (serverless_billing_hour_starts (ba_submitted_at a)
             (dt_add (ba_completed_at a) (seconds (sq_idle_tail_seconds q)))) (\<lambda>required.
        let expected = ba_exclusive_billing_hour_starts a in
        require_that (\<not> (expected = [] \<or> hd required < hd expected \<or> last expected < last required))))"

definition final_activated_billing :: "provider_env \<Rightarrow> bool \<Rightarrow> ServerlessBillingAttempt
    \<Rightarrow> PlannedServerlessCapacityQuote \<Rightarrow> ServerlessEndpointActivationReceipt \<Rightarrow> ServerlessActivatedSubmission
    \<Rightarrow> (client_world, ServerlessBillingReceipt option) prog" where
  "final_activated_billing E has_job_client a q activation s =
     seqM (liftM (submission_validate (pe_jsha E) s q activation)) (\<lambda>_.
     seqM (liftM (attempt_in_submission a q activation s)) (\<lambda>_.
     final_billing_bound E has_job_client a q (pq_endpoint_spec_sha256 q)))"

subsection \<open>The billing of an ambiguous window\<close>

definition ambiguous_billing_receipt :: "(json \<Rightarrow> string) \<Rightarrow> ServerlessAmbiguousBillingWindow
    \<Rightarrow> 'a capacity_quote_scheme \<Rightarrow> string \<Rightarrow> ServerlessEndpointHourCost list \<Rightarrow> datetime
    \<Rightarrow> py_error + ServerlessAmbiguousWindowBillingReceipt" where
  "ambiguous_billing_receipt jsha b q endpoint_profile_sha256 hs reconciled_at =
     (let hours = bw_exclusive_billing_hour_starts b;
          window_from = hd hours; window_until = dt_add (last hours) hour in
      bindE (hour_cost_totals hs) (\<lambda>t.
      let actual = ct_actual_cost_usd t;
          capped = decimal_min actual (bw_accepted_cost_ceiling_usd b) in
      bindE (decimal_sum [actual, negated capped]) (\<lambda>loss.
      let identity = JObj
            ([(''contract_version'', JStr capacity_contract),
              (''provider_quote_id'', JStr (sq_provider_quote_id q)),
              (''endpoint_profile_sha256'', JStr endpoint_profile_sha256),
              (''endpoint_id'', JStr (bw_endpoint_id b)), (''attempt_id'', JStr (bw_attempt_id b)),
              (''exclusive_window_sha256'', JStr (bw_exclusive_window_sha256 b)),
              (''exclusive_billing_hour_starts'', JList (map JTime hours)),
              (''attempted_at'', JTime (bw_attempted_at b)),
              (''billable_coverage_until'', JTime (bw_billable_coverage_until b)),
              (''billing_window_from'', JTime window_from), (''billing_window_until'', JTime window_until),
              (''accepted_cost_ceiling_usd'', jdec (bw_accepted_cost_ceiling_usd b)),
              (''endpoint_hour_costs'', JList (map hour_cost_to_dict hs))]
             @ totals_entries t
             @ [(''capped_cost_usd'', jdec capped), (''operator_loss_usd'', jdec loss)]);
          receipt = \<lparr> am_schema_version = 1, am_contract_version = capacity_contract,
            am_provider_billing_id = ''runpod-serverless-ambiguous-billing:'' @ jsha identity,
            am_provider_quote_id = sq_provider_quote_id q,
            am_endpoint_profile_sha256 = endpoint_profile_sha256, am_endpoint_id = bw_endpoint_id b,
            am_attempt_id = bw_attempt_id b, am_exclusive_window_sha256 = bw_exclusive_window_sha256 b,
            am_exclusive_billing_hour_starts = hours, am_attempted_at = bw_attempted_at b,
            am_billable_coverage_until = bw_billable_coverage_until b, am_billing_window_from = window_from,
            am_billing_window_until = window_until,
            am_accepted_cost_ceiling_usd = bw_accepted_cost_ceiling_usd b, am_endpoint_hour_costs = hs,
            am_gpu_cost_usd = ct_gpu_cost_usd t, am_cpu_cost_usd = ct_cpu_cost_usd t,
            am_disk_cost_usd = ct_disk_cost_usd t, am_fee_cost_usd = ct_fee_cost_usd t,
            am_actual_cost_usd = actual, am_capped_cost_usd = capped, am_operator_loss_usd = loss,
            am_reconciled_at = reconciled_at \<rparr>
      in case ambiguous_receipt_post_init receipt of Some e \<Rightarrow> Inl e | None \<Rightarrow> Inr receipt)))"

definition ambiguous_billing_bound :: "provider_env \<Rightarrow> ServerlessAmbiguousBillingWindow
    \<Rightarrow> 'a capacity_quote_scheme \<Rightarrow> string
    \<Rightarrow> (client_world, ServerlessAmbiguousWindowBillingReceipt option) prog" where
  "ambiguous_billing_bound E b q endpoint_profile_sha256 =
     seqM (provider_now E) (\<lambda>t.
     if t < dt_add (last (bw_exclusive_billing_hour_starts b)) hour then ret None
     else seqM (window_costs E (bw_endpoint_id b) (bw_exclusive_billing_hour_starts b)) (\<lambda>costs.
       case costs of
         None \<Rightarrow> ret None
       | Some hs \<Rightarrow> seqM (liftM (ambiguous_billing_receipt (pe_jsha E) b q endpoint_profile_sha256 hs t))
           (\<lambda>receipt. ret (Some receipt))))"

definition final_ambiguous_window_billing :: "provider_env \<Rightarrow> ServerlessAmbiguousBillingWindow
    \<Rightarrow> ServerlessCapacityQuote \<Rightarrow> (client_world, ServerlessAmbiguousWindowBillingReceipt option) prog" where
  "final_ambiguous_window_billing E b q =
     seqM (liftM (window_validate_quote b q)) (\<lambda>_.
     ambiguous_billing_bound E b q (cq_endpoint_profile_sha256 q))"

definition final_activated_ambiguous_window_billing :: "provider_env \<Rightarrow> ServerlessAmbiguousBillingWindow
    \<Rightarrow> PlannedServerlessCapacityQuote \<Rightarrow> ServerlessEndpointActivationReceipt \<Rightarrow> ServerlessActivatedSubmission
    \<Rightarrow> (client_world, ServerlessAmbiguousWindowBillingReceipt option) prog" where
  "final_activated_ambiguous_window_billing E b q activation s =
     seqM (liftM (window_validate_submission (pe_jsha E) b q activation s)) (\<lambda>_.
     ambiguous_billing_bound E b q (pq_endpoint_spec_sha256 q))"

end
