(* ===== verification/Serverless_Roundtrip.thy ===== *)
theory Serverless_Roundtrip
  imports Serverless_Codec
begin

text \<open>
  What is stored is read back: every object that passes its validation is recovered from its dictionary,
  with each decimal in the form its text denotes (\<open>flat\<close>, the same number and the same text).
\<close>

section \<open>Facts of validated objects\<close>

lemma first_error_app [simp]:
  "first_error (xs @ ys) = None \<longleftrightarrow> first_error xs = None \<and> first_error ys = None"
  by (auto simp: first_error_append split: option.splits)

lemma first_error_Cons [simp]: "first_error (p # ps) = None \<longleftrightarrow> \<not> fst p \<and> first_error ps = None"
  by (cases p) simp

declare first_error.simps(2) [simp del]

lemma check_lists_None [simp]:
  "first_error (not_identifiers xs) = None \<longleftrightarrow> list_all capacity_identifier xs"
  "first_error (not_digests xs) = None \<longleftrightarrow> list_all sha256_text xs"
  "first_error (below n is) = None \<longleftrightarrow> list_all (\<lambda>i. n \<le> i) is"
  "first_error (not_positive ds) = None \<longleftrightarrow> list_all positive_decimal ds"
  "first_error (not_nonnegative ds) = None \<longleftrightarrow> list_all nonnegative_decimal ds"
  "first_error (not_aware ts) = None \<longleftrightarrow> list_all is_aware ts"
  by (simp_all add: first_error_None not_identifiers_def not_digests_def below_def not_positive_def
      not_nonnegative_def not_aware_def list_all_iff not_less)

lemma nonempty_texts:
  "capacity_identifier s \<Longrightarrow> s \<noteq> []" "sha256_text s \<Longrightarrow> s \<noteq> []"
  "worker_reference_pinned s \<Longrightarrow> s \<noteq> []" "capacity_display_name s \<Longrightarrow> s \<noteq> []"
  by (auto simp: capacity_identifier_def sha256_text_def worker_reference_pinned_def pinned_image_def
      capacity_display_name_def nonblank_def)

lemma finite_decimals: "positive_decimal d \<Longrightarrow> is_finite d" "nonnegative_decimal d \<Longrightarrow> is_finite d"
  by (simp_all add: positive_decimal_def nonnegative_decimal_def)

lemma flat_checks [simp]:
  "positive_decimal (flat d) = positive_decimal d" "nonnegative_decimal (flat d) = nonnegative_decimal d"
  "jdec (flat d) = jdec d"
  by (simp_all add: positive_decimal_def nonnegative_decimal_def jdec_def)

lemma enums_read_back [simp]:
  "map_of clouds (cloud_value c) = Some c" "cloud_value c \<noteq> []"
  by (cases c; simp add: clouds_def)+

lemma flashboots_read_back [simp]:
  "map_of flashboots (flashboot_value f) = Some f" "flashboot_value f \<noteq> []"
  by (cases f; simp add: flashboots_def)+

lemma availabilities_read_back [simp]:
  "map_of availabilities (availability_value a) = Some a" "availability_value a \<noteq> []"
  by (cases a; simp add: availabilities_def)+

lemma required_decimal_jdec: "jget v k = jdec d \<Longrightarrow> is_finite d \<Longrightarrow> required_decimal v k = Inr (flat d)"
  by (simp add: required_decimal_def jdec_def python_decimal_text)

lemma mapE_id: "(\<And>x. x \<in> set xs \<Longrightarrow> f (g x) = Inr (h x)) \<Longrightarrow> mapE f (map g xs) = Inr (map h xs)"
  by (induction xs) auto

lemma times_read_back: "list_all is_aware ts \<Longrightarrow> mapE (parse_datetime R) (map JTime ts) = Inr ts"
  using mapE_id [of ts "parse_datetime R" JTime id] by (simp add: parse_datetime_def list_all_iff)

lemma strings_read_back: "jget v k = jstrs xs \<Longrightarrow> string_list v k = Inr xs"
  using mapE_id [of xs "\<lambda>i. case i of JStr s \<Rightarrow> Inr s | _ \<Rightarrow> Inl RunPodManagerError" JStr id]
  by (simp add: string_list_def jstrs_def)

lemma contiguous_aware: "contiguous_hours p ts \<Longrightarrow> list_all is_aware ts"
  by (induction p ts rule: contiguous_hours.induct) auto

lemma hours_coveredD:
  assumes "\<not> hours_uncovered allocation a b"
  shows "allocation \<noteq> []" "list_all is_aware allocation"
  using assms contiguous_aware [of None allocation]
  by (auto simp: hours_uncovered_def normalized_exclusive_hours_def split: sum.splits if_splits)

lemmas readers = exact_keys_def required_string_def required_int_def required_flag_def required_datetime_def
  parse_datetime_def stored_optional_string_def stored_optional_int_def required_cloud_def
  required_flashboot_def required_availability_def enum_of_def required_datetimes_def times_read_back
  required_decimal_jdec matching_digest_def nonempty_texts finite_decimals

section \<open>Sums do not depend on the form of a decimal\<close>

lemma decimal_sum_flat [simp]: "decimal_sum (map flat ds) = decimal_sum ds"
proof -
  have "min 0 (Min (expo ` flat ` set ds)) = min 0 (Min (expo ` set ds))" if "ds \<noteq> []" "list_all is_finite ds"
  proof -
    have low: "min 0 (expo (flat d)) = min 0 (expo d)" if "d \<in> set ds" for d
      by (cases d) (auto simp: min_def)
    have mono: "mono (min (0::int))" by (auto simp: mono_def)
    have "min 0 (Min (expo ` flat ` set ds)) = Min (min 0 ` expo ` flat ` set ds)"
      using \<open>ds \<noteq> []\<close> by (intro mono_Min_commute [OF mono]) auto
    also have "min 0 ` expo ` flat ` set ds = min 0 ` expo ` set ds"
      unfolding image_image using low by (intro image_cong) auto
    also have "Min (min 0 ` expo ` set ds) = min 0 (Min (expo ` set ds))"
      using \<open>ds \<noteq> []\<close> by (intro mono_Min_commute [OF mono, symmetric]) auto
    finally show ?thesis .
  qed
  then show ?thesis
    by (simp add: decimal_sum_def exact_decimal_sum_value min_expo_def list_all_iff comp_def)
qed

lemma sum_differs_iff:
  "sum_differs ds a \<longleftrightarrow> \<not> list_all is_finite ds \<or> dval a \<noteq> sum_list (map dval ds)"
  using decimal_sum_total [of ds] decimal_sumD [of ds]
  by (auto simp: sum_differs_def split: sum.splits dest: decimal_sum_error)

lemma negated_facts [simp]: "is_finite (negated d) = is_finite d" "dval (negated d) = - dval d"
  by (cases d; simp add: negated_def)+

lemma sum_differs_flat:
  "sum_differs [flat a, flat b, flat c, flat d] (flat t) = sum_differs [a, b, c, d] t"
  "sum_differs [flat a, negated (flat b)] (flat t) = sum_differs [a, negated b] t"
  by (simp_all add: sum_differs_iff)

lemma serverless_worker_cost_flat [simp]:
  "serverless_worker_cost_usd (flat rate) n secs = serverless_worker_cost_usd rate n secs"
  by (simp add: serverless_worker_cost_usd_def)

lemma round_sig_nonneg: "0 \<le> x \<Longrightarrow> 0 \<le> round_sig p x"
  using round_half_even_mono_int [of 0 "x / 10 powi e" for e] by (simp add: round_sig_def Let_def)

lemma worker_cost_nonnegative:
  assumes "serverless_worker_cost_usd rate n secs = Inr d"
  shows "is_finite d \<and> 0 \<le> dval d"
proof -
  have "0 \<le> dval rate * of_int n * of_int secs" and rest: "0 < dval rate" "1 \<le> n" "1 \<le> secs"
    using assms by (auto simp: serverless_worker_cost_usd_def positive_decimal_def split: if_splits)
  then have "0 \<le> dec_div (dec_mul (dec_mul (dval rate) (of_int n)) (of_int secs)) 3600"
    by (simp add: dec_mul_def dec_div_def round_sig_nonneg)
  then show ?thesis
    using assms by (auto simp: serverless_worker_cost_usd_def Let_def split: if_splits)
qed

lemma dec_plus_flat:
  assumes "is_finite a" "0 \<le> dval a" "is_finite b" "0 \<le> dval b"
  shows "dval (dec_plus a (flat b)) = dval (dec_plus a b)"
  using assms by (simp add: dval_dec_plus)

section \<open>Endpoint evidence\<close>

lemma activation_roundtrip:
  assumes "activation_post_init jsha x = None"
  shows "activation_from_dict jsha R (activation_to_dict x) = Inr x"
proof -
  note valid = assms [unfolded activation_post_init_def, simplified]
  have facts: "ac_schema_version x = 1" "ac_contract_version x = capacity_contract" "ac_provider_activation_id x \<noteq> []" "ac_provider_quote_id x \<noteq> []" "ac_quote_sha256 x \<noteq> []" "ac_plan_id x \<noteq> []" "ac_plan_sha256 x \<noteq> []" "ac_endpoint_name x \<noteq> []" "ac_endpoint_id x \<noteq> []" "ac_endpoint_spec_sha256 x \<noteq> []" "ac_operation_digest x \<noteq> []" "ac_endpoint_readback_sha256 x \<noteq> []" "is_aware (ac_create_started_at x)" "is_aware (ac_activated_at x)" "is_aware (ac_readback_at x)"
    using valid nonempty_texts finite_decimals by blast+
  show ?thesis
    using assms facts by (cases x) (simp add: activation_from_dict_def activation_to_dict_def activation_fields_def capacity_contract_def readers insert_commute)
qed

lemma submission_roundtrip:
  assumes "submission_post_init jsha x = None"
  shows "submission_from_dict jsha R (submission_to_dict x) = Inr x"
proof -
  note valid = assms [unfolded submission_post_init_def, simplified]
  have facts: "sb_provider_submission_id x \<noteq> []" "sb_provider_quote_id x \<noteq> []" "sb_quote_sha256 x \<noteq> []" "sb_provider_activation_id x \<noteq> []" "sb_endpoint_name x \<noteq> []" "sb_endpoint_id x \<noteq> []" "sb_endpoint_spec_sha256 x \<noteq> []" "sb_operation_digest x \<noteq> []" "sb_exclusive_window_sha256 x \<noteq> []" "is_aware (sb_authorized_at x)" "is_aware (sb_expires_at x)"
    using valid nonempty_texts finite_decimals by blast+
  show ?thesis
    using assms facts by (cases x) (simp add: submission_from_dict_def submission_to_dict_def submission_identity_def submission_fields_def readers insert_commute)
qed

lemma cleanup_roundtrip:
  assumes "cleanup_post_init jsha x = None"
  shows "cleanup_from_dict jsha R (cleanup_to_dict x) = Inr x"
proof -
  note valid = assms [unfolded cleanup_post_init_def, simplified]
  have facts: "cu_schema_version x = 1" "cu_contract_version x = capacity_contract" "cu_provider_cleanup_id x \<noteq> []" "cu_provider_quote_id x \<noteq> []" "cu_quote_sha256 x \<noteq> []" "cu_provider_activation_id x \<noteq> []" "cu_endpoint_name x \<noteq> []" "cu_endpoint_id x \<noteq> []" "cu_endpoint_spec_sha256 x \<noteq> []" "cu_operation_digest x \<noteq> []" "cu_endpoint_readback_sha256 x \<noteq> []" "is_aware (cu_workers_zero_observed_at x)" "is_aware (cu_delete_started_at x)" "is_aware (cu_verified_absent_at x)"
    using valid nonempty_texts finite_decimals by blast+
  have "cu_cleanup_evidence_version x = 1 \<and> cu_cleanup_basis x = None
      \<or> cu_cleanup_evidence_version x = 2 \<and> cu_cleanup_basis x \<in> fst ` set cleanup_bases"
    using valid by (force split: if_splits)
  then have basis: "cu_cleanup_evidence_version x = 1 \<and> cu_cleanup_basis x = None
      \<or> cu_cleanup_evidence_version x = 2 \<and> (\<exists>b. cu_cleanup_basis x = Some b \<and> b \<noteq> [])"
    by (auto simp: cleanup_bases_def)
  show ?thesis
    using basis by (elim disjE conjE exE; use assms facts in \<open>cases x; simp add: cleanup_from_dict_def cleanup_to_dict_def cleanup_entries_def cleanup_version_def cleanup_receipt_fields_def capacity_contract_def has_key_def jopt_def readers insert_commute\<close>)
qed

lemma intent_roundtrip:
  assumes "intent_post_init x = None" "activation_post_init jsha (ci_activation x) = None"
  shows "intent_from_dict jsha R (intent_to_dict jsha x) = Inr x"
proof -
  note valid = assms(1) [unfolded intent_post_init_def, simplified]
  have facts: "ci_schema_version x = 1" "ci_contract_version x = capacity_contract"
    "is_aware (ci_workers_zero_observed_at x)" "is_aware (ci_delete_started_at x)"
    using valid by blast+
  have "is_jobj (activation_to_dict a)" for a by (simp add: activation_to_dict_def)
  then show ?thesis
    using assms(1) facts activation_roundtrip [OF assms(2), of R]
    by (cases x) (simp add: intent_from_dict_def intent_to_dict_def intent_entries_def cleanup_intent_fields_def
        capacity_contract_def readers insert_commute)
qed

definition flat_hour_cost :: "ServerlessEndpointHourCost \<Rightarrow> ServerlessEndpointHourCost" where
  "flat_hour_cost x = x
     \<lparr> hc_gpu_cost_usd := flat (hc_gpu_cost_usd x),
       hc_cpu_cost_usd := flat (hc_cpu_cost_usd x),
       hc_disk_cost_usd := flat (hc_disk_cost_usd x),
       hc_fee_cost_usd := flat (hc_fee_cost_usd x),
       hc_actual_cost_usd := flat (hc_actual_cost_usd x) \<rparr>"

lemma flat_hour_cost_valid: "hour_cost_post_init (flat_hour_cost x) = hour_cost_post_init x"
  by (simp add: hour_cost_post_init_def flat_hour_cost_def sum_differs_flat not_positive_def not_nonnegative_def)

lemma hour_cost_roundtrip:
  assumes "hour_cost_post_init x = None"
  shows "hour_cost_from_dict R (hour_cost_to_dict x) = Inr (flat_hour_cost x)"
proof -
  note valid = assms [unfolded hour_cost_post_init_def, simplified]
  have facts: "hc_provider_observation_id x \<noteq> []" "hc_endpoint_id x \<noteq> []" "is_aware (hc_utc_hour_start x)" "is_aware (hc_utc_hour_end x)" "is_finite (hc_gpu_cost_usd x)" "is_finite (hc_cpu_cost_usd x)" "is_finite (hc_disk_cost_usd x)" "is_finite (hc_fee_cost_usd x)" "is_finite (hc_actual_cost_usd x)"
    using valid nonempty_texts finite_decimals by blast+
  show ?thesis
    using trans [OF flat_hour_cost_valid assms] facts by (cases x) (simp add: hour_cost_from_dict_def hour_cost_to_dict_def hour_cost_fields_def flat_hour_cost_def readers insert_commute)
qed

definition flat_window :: "ServerlessAmbiguousBillingWindow \<Rightarrow> ServerlessAmbiguousBillingWindow" where
  "flat_window x = x
     \<lparr> bw_accepted_cost_ceiling_usd := flat (bw_accepted_cost_ceiling_usd x) \<rparr>"

lemma flat_window_valid: "window_post_init (flat_window x) = window_post_init x"
  by (simp add: window_post_init_def flat_window_def sum_differs_flat not_positive_def not_nonnegative_def)

lemma window_roundtrip:
  assumes "window_post_init x = None"
  shows "window_from_dict R (window_to_dict x) = Inr (flat_window x)"
proof -
  note valid = assms [unfolded window_post_init_def, simplified]
  have facts: "bw_attempt_id x \<noteq> []" "bw_endpoint_id x \<noteq> []" "bw_provider_quote_id x \<noteq> []" "bw_exclusive_window_sha256 x \<noteq> []" "is_aware (bw_attempted_at x)" "is_aware (bw_billable_coverage_until x)" "is_finite (bw_accepted_cost_ceiling_usd x)" "\<not> hours_uncovered (bw_exclusive_billing_hour_starts x) (bw_attempted_at x) (bw_billable_coverage_until x)"
    using valid nonempty_texts finite_decimals by blast+
  show ?thesis
    using trans [OF flat_window_valid assms] facts by (cases x) (simp add: window_from_dict_def window_to_dict_def window_fields_def flat_window_def hours_coveredD readers insert_commute)
qed

section \<open>Planned quotes\<close>

definition flat_quote :: "PlannedServerlessCapacityQuote \<Rightarrow> PlannedServerlessCapacityQuote" where
  "flat_quote x = x
     \<lparr> sl_estimated_non_worker_cost_usd := flat (sl_estimated_non_worker_cost_usd x),
       sl_maximum_non_worker_cost_usd := flat (sl_maximum_non_worker_cost_usd x),
       sq_hourly_worker_rate_usd := flat (sq_hourly_worker_rate_usd x),
       sq_estimated_worker_cost_usd := flat (sq_estimated_worker_cost_usd x),
       sq_maximum_worker_cost_usd := flat (sq_maximum_worker_cost_usd x),
       sq_estimated_cost_usd := flat (sq_estimated_cost_usd x),
       sq_cost_ceiling_usd := flat (sq_cost_ceiling_usd x) \<rparr>"

lemma cost_checks_flat:
  assumes "nonnegative_decimal (sl_estimated_non_worker_cost_usd x)"
    "positive_decimal (sl_maximum_non_worker_cost_usd x)"
  shows "cost_checks (flat_quote x) = cost_checks x"
proof -
  have "dval (dec_plus w (flat d)) = dval (dec_plus w d)"
    if "serverless_worker_cost_usd r n t = Inr w" "nonnegative_decimal d" for w d r n t
    using dec_plus_flat [of w d] worker_cost_nonnegative [OF that(1)] that(2)
    by (simp add: nonnegative_decimal_def)
  moreover have "nonnegative_decimal (sl_maximum_non_worker_cost_usd x)"
    using assms(2) by (simp add: positive_decimal_def nonnegative_decimal_def)
  ultimately show ?thesis
    using assms(1) by (auto simp: cost_checks_def flat_quote_def split: sum.splits)
qed

lemma flat_quote_valid:
  assumes "planned_quote_post_init x = None"
  shows "planned_quote_post_init (flat_quote x) = None"
proof -
  note valid = assms [unfolded planned_quote_post_init_def capacity_quote_checks_def quote_end_checks_def, simplified]
  have "cost_checks (flat_quote x) = cost_checks x"
    using valid by (intro cost_checks_flat) blast+
  then show ?thesis
    using assms
    by (simp add: planned_quote_post_init_def capacity_quote_checks_def quote_end_checks_def)
      (simp add: flat_quote_def)
qed

lemma quote_sha256_flat [simp]: "quote_sha256 jsha (flat_quote x) = quote_sha256 jsha x"
  by (simp add: quote_sha256_def planned_quote_evidence_def flat_quote_def)

lemma cuda_floor_not_empty: "\<not> bad_cuda_floor (Some v) \<Longrightarrow> v \<noteq> []"
  by (auto simp: bad_cuda_floor_def normalize_cuda_floor_def partition_dot_def digit_text_def)

lemma planned_quote_keys: "set (jkeys (planned_quote_to_dict jsha x)) = set planned_quote_fields"
  by (simp add: planned_quote_to_dict_def planned_quote_evidence_def planned_quote_fields_def insert_commute)

lemma planned_quote_lookups:
  "jget (planned_quote_to_dict jsha x) ''schema_version'' = JInt (sq_schema_version x)"
  "jget (planned_quote_to_dict jsha x) ''contract_version'' = JStr (sq_contract_version x)"
  "jget (planned_quote_to_dict jsha x) ''provider_quote_id'' = JStr (sq_provider_quote_id x)"
  "jget (planned_quote_to_dict jsha x) ''workload_kind'' = JStr (sl_workload_kind x)"
  "jget (planned_quote_to_dict jsha x) ''parameters_sha256'' = JStr (sl_parameters_sha256 x)"
  "jget (planned_quote_to_dict jsha x) ''plan_id'' = JStr (pq_plan_id x)"
  "jget (planned_quote_to_dict jsha x) ''plan_sha256'' = JStr (pq_plan_sha256 x)"
  "jget (planned_quote_to_dict jsha x) ''endpoint_name'' = JStr (pq_endpoint_name x)"
  "jget (planned_quote_to_dict jsha x) ''endpoint_spec_sha256'' = JStr (pq_endpoint_spec_sha256 x)"
  "jget (planned_quote_to_dict jsha x) ''operation_digest'' = JStr (pq_operation_digest x)"
  "jget (planned_quote_to_dict jsha x) ''worker_reference'' = JStr (pq_worker_reference x)"
  "jget (planned_quote_to_dict jsha x) ''catalog_observation_sha256'' = JStr (sq_catalog_observation_sha256 x)"
  "jget (planned_quote_to_dict jsha x) ''gpu_id'' = JStr (sq_gpu_id x)"
  "jget (planned_quote_to_dict jsha x) ''gpu_pool'' = JStr (sq_gpu_pool x)"
  "jget (planned_quote_to_dict jsha x) ''gpu_name'' = JStr (sq_gpu_name x)"
  "jget (planned_quote_to_dict jsha x) ''vram_gb'' = JInt (sq_vram_gb x)"
  "jget (planned_quote_to_dict jsha x) ''data_center_id'' = JStr (sq_data_center_id x)"
  "jget (planned_quote_to_dict jsha x) ''cloud'' = JStr (cloud_value (sq_cloud x))"
  "jget (planned_quote_to_dict jsha x) ''gpu_count'' = JInt (sq_gpu_count x)"
  "jget (planned_quote_to_dict jsha x) ''min_cuda_version'' = jopt JStr (sq_min_cuda_version x)"
  "jget (planned_quote_to_dict jsha x) ''availability'' = JStr (availability_value (sq_availability x))"
  "jget (planned_quote_to_dict jsha x) ''benchmark_id'' = JStr (sq_benchmark_id x)"
  "jget (planned_quote_to_dict jsha x) ''hourly_worker_rate_usd'' = jdec (sq_hourly_worker_rate_usd x)"
  "jget (planned_quote_to_dict jsha x) ''estimated_queue_delay_seconds'' = jopt JInt (sl_estimated_queue_delay_seconds x)"
  "jget (planned_quote_to_dict jsha x) ''estimated_worker_start_seconds'' = JInt (sl_estimated_worker_start_seconds x)"
  "jget (planned_quote_to_dict jsha x) ''estimated_execution_seconds'' = JInt (sl_estimated_execution_seconds x)"
  "jget (planned_quote_to_dict jsha x) ''idle_tail_seconds'' = JInt (sq_idle_tail_seconds x)"
  "jget (planned_quote_to_dict jsha x) ''maximum_queue_delay_seconds'' = JInt (sl_maximum_queue_delay_seconds x)"
  "jget (planned_quote_to_dict jsha x) ''maximum_worker_start_seconds'' = JInt (sl_maximum_worker_start_seconds x)"
  "jget (planned_quote_to_dict jsha x) ''maximum_execution_seconds'' = JInt (sl_maximum_execution_seconds x)"
  "jget (planned_quote_to_dict jsha x) ''job_execution_timeout_ms'' = JInt (sl_job_execution_timeout_ms x)"
  "jget (planned_quote_to_dict jsha x) ''job_ttl_ms'' = JInt (sl_job_ttl_ms x)"
  "jget (planned_quote_to_dict jsha x) ''estimated_billable_seconds'' = JInt (sq_estimated_billable_seconds x)"
  "jget (planned_quote_to_dict jsha x) ''maximum_billable_seconds'' = JInt (sl_maximum_billable_seconds x)"
  "jget (planned_quote_to_dict jsha x) ''estimated_worker_cost_usd'' = jdec (sq_estimated_worker_cost_usd x)"
  "jget (planned_quote_to_dict jsha x) ''maximum_worker_cost_usd'' = jdec (sq_maximum_worker_cost_usd x)"
  "jget (planned_quote_to_dict jsha x) ''estimated_non_worker_cost_usd'' = jdec (sl_estimated_non_worker_cost_usd x)"
  "jget (planned_quote_to_dict jsha x) ''maximum_non_worker_cost_usd'' = jdec (sl_maximum_non_worker_cost_usd x)"
  "jget (planned_quote_to_dict jsha x) ''estimated_cost_usd'' = jdec (sq_estimated_cost_usd x)"
  "jget (planned_quote_to_dict jsha x) ''cost_ceiling_usd'' = jdec (sq_cost_ceiling_usd x)"
  "jget (planned_quote_to_dict jsha x) ''catalog_observed_at'' = JTime (sq_catalog_observed_at x)"
  "jget (planned_quote_to_dict jsha x) ''expires_at'' = JTime (sq_expires_at x)"
  "jget (planned_quote_to_dict jsha x) ''quote_sha256'' = JStr (quote_sha256 jsha x)"
  by (simp_all add: planned_quote_to_dict_def planned_quote_evidence_def)

lemma flat_quote_fields:
  "\<lparr> sl_workload_kind = sl_workload_kind x, sl_parameters_sha256 = sl_parameters_sha256 x,
     sl_estimated_queue_delay_seconds = sl_estimated_queue_delay_seconds x,
     sl_estimated_worker_start_seconds = sl_estimated_worker_start_seconds x,
     sl_estimated_execution_seconds = sl_estimated_execution_seconds x,
     sl_maximum_queue_delay_seconds = sl_maximum_queue_delay_seconds x,
     sl_maximum_worker_start_seconds = sl_maximum_worker_start_seconds x,
     sl_maximum_execution_seconds = sl_maximum_execution_seconds x,
     sl_maximum_billable_seconds = sl_maximum_billable_seconds x,
     sl_job_execution_timeout_ms = sl_job_execution_timeout_ms x, sl_job_ttl_ms = sl_job_ttl_ms x,
     sl_estimated_non_worker_cost_usd = flat (sl_estimated_non_worker_cost_usd x),
     sl_maximum_non_worker_cost_usd = flat (sl_maximum_non_worker_cost_usd x), sq_schema_version = sq_schema_version x,
     sq_contract_version = sq_contract_version x, sq_provider_quote_id = sq_provider_quote_id x,
     sq_catalog_observation_sha256 = sq_catalog_observation_sha256 x, sq_gpu_id = sq_gpu_id x,
     sq_gpu_pool = sq_gpu_pool x, sq_gpu_name = sq_gpu_name x, sq_vram_gb = sq_vram_gb x,
     sq_data_center_id = sq_data_center_id x, sq_cloud = sq_cloud x, sq_gpu_count = sq_gpu_count x,
     sq_min_cuda_version = sq_min_cuda_version x, sq_availability = sq_availability x,
     sq_benchmark_id = sq_benchmark_id x, sq_hourly_worker_rate_usd = flat (sq_hourly_worker_rate_usd x),
     sq_idle_tail_seconds = sq_idle_tail_seconds x,
     sq_estimated_billable_seconds = sq_estimated_billable_seconds x,
     sq_estimated_worker_cost_usd = flat (sq_estimated_worker_cost_usd x),
     sq_maximum_worker_cost_usd = flat (sq_maximum_worker_cost_usd x), sq_estimated_cost_usd = flat (sq_estimated_cost_usd x),
     sq_cost_ceiling_usd = flat (sq_cost_ceiling_usd x), sq_catalog_observed_at = sq_catalog_observed_at x,
     sq_expires_at = sq_expires_at x, pq_plan_id = pq_plan_id x, pq_plan_sha256 = pq_plan_sha256 x,
     pq_endpoint_name = pq_endpoint_name x, pq_endpoint_spec_sha256 = pq_endpoint_spec_sha256 x,
     pq_operation_digest = pq_operation_digest x, pq_worker_reference = pq_worker_reference x \<rparr> = flat_quote x"
  by (cases x) (simp add: flat_quote_def)

text \<open>
  C14.  A stored quote is read back.  The dictionary of a valid planned quote, with its digest, is accepted by the reader
  and gives the same quote, with every amount in the form its text has (so 1E+2 becomes 100); whatever the
  reader of instants and the digest are.
\<close>

theorem planned_quote_roundtrip:
  assumes "planned_quote_post_init x = None" "sha256_text (quote_sha256 jsha x)"
  shows "planned_quote_from_dict jsha R (planned_quote_to_dict jsha x) = Inr (flat_quote x)"
proof -
  note valid = assms(1) [unfolded planned_quote_post_init_def capacity_quote_checks_def quote_end_checks_def, simplified]
  have facts: "sq_schema_version x = 1" "sq_contract_version x = capacity_contract" "\<not> bad_cuda_floor (sq_min_cuda_version x)" "sq_provider_quote_id x \<noteq> []" "sl_workload_kind x \<noteq> []" "sl_parameters_sha256 x \<noteq> []" "pq_plan_id x \<noteq> []" "pq_plan_sha256 x \<noteq> []" "pq_endpoint_name x \<noteq> []" "pq_endpoint_spec_sha256 x \<noteq> []" "pq_operation_digest x \<noteq> []" "pq_worker_reference x \<noteq> []" "sq_catalog_observation_sha256 x \<noteq> []" "sq_gpu_id x \<noteq> []" "sq_gpu_pool x \<noteq> []" "sq_gpu_name x \<noteq> []" "sq_data_center_id x \<noteq> []" "sq_benchmark_id x \<noteq> []" "is_finite (sl_estimated_non_worker_cost_usd x)" "is_finite (sl_maximum_non_worker_cost_usd x)" "is_finite (sq_hourly_worker_rate_usd x)" "is_finite (sq_estimated_worker_cost_usd x)" "is_finite (sq_maximum_worker_cost_usd x)" "is_finite (sq_estimated_cost_usd x)" "is_finite (sq_cost_ceiling_usd x)" "is_aware (sq_catalog_observed_at x)" "is_aware (sq_expires_at x)"
    using valid nonempty_texts finite_decimals by blast+
  have cuda: "stored_optional_string (jopt JStr (sq_min_cuda_version x)) = Inr (sq_min_cuda_version x)"
    using facts(3) by (cases "sq_min_cuda_version x") (auto simp: stored_optional_string_def jopt_def dest: cuda_floor_not_empty)
  have queue: "stored_optional_int (jopt JInt (sl_estimated_queue_delay_seconds x)) = Inr (sl_estimated_queue_delay_seconds x)"
    by (cases "sl_estimated_queue_delay_seconds x") (auto simp: stored_optional_int_def jopt_def)
  show ?thesis
    using flat_quote_fields [of x] flat_quote_valid [OF assms(1)] quote_sha256_flat [of jsha x] assms(2) facts cuda queue
    by (simp add: planned_quote_from_dict_def exact_keys_def planned_quote_keys planned_quote_lookups
        capacity_contract_def Let_def required_string_def required_int_def required_datetime_def parse_datetime_def required_cloud_def required_availability_def enum_of_def required_decimal_jdec matching_digest_def nonempty_texts)
qed

section \<open>The receipt of a retired endpoint\<close>

definition flat_retired :: "ServerlessRetiredEndpointBillingReceipt \<Rightarrow> ServerlessRetiredEndpointBillingReceipt" where
  "flat_retired x = x\<lparr> rr_endpoint_hour_costs := map flat_hour_cost (rr_endpoint_hour_costs x) \<rparr>"

lemma lifecycle_hours_flat [simp]:
  "lifecycle_hours i cursor seen (map flat_hour_cost hs) = lifecycle_hours i cursor seen hs"
  by (induction hs arbitrary: cursor seen) (simp_all add: flat_hour_cost_def)

lemma hour_costs_flat:
  "map hour_cost_to_dict (map flat_hour_cost hs) = map hour_cost_to_dict hs"
  "hour_cost_totals (map flat_hour_cost hs) = hour_cost_totals hs"
  using decimal_sum_flat [of "map hc_gpu_cost_usd hs"] decimal_sum_flat [of "map hc_cpu_cost_usd hs"]
    decimal_sum_flat [of "map hc_disk_cost_usd hs"] decimal_sum_flat [of "map hc_fee_cost_usd hs"]
    decimal_sum_flat [of "map hc_actual_cost_usd hs"]
  by (simp_all add: hour_cost_to_dict_def hour_cost_totals_def flat_hour_cost_def comp_def)

lemma flat_retired_entries:
  "retired_receipt_post_init (flat_retired x) = retired_receipt_post_init x"
  "retired_entries (flat_retired x) = retired_entries x" "retired_totals (flat_retired x) = retired_totals x"
  using hour_costs_flat
  by (simp_all add: retired_receipt_post_init_def billing_window_def retired_entries_def retired_totals_def
      flat_retired_def cong: option.case_cong sum.case_cong)

lemma hour_costs_read_back:
  assumes "list_all (\<lambda>h. hour_cost_post_init h = None) hs" "hs \<noteq> []"
    "jget v k = JList (map hour_cost_to_dict hs)"
  shows "required_hour_costs R v k = Inr (map flat_hour_cost hs)"
proof -
  have "is_jobj (hour_cost_to_dict h)" for h by (simp add: hour_cost_to_dict_def)
  then show ?thesis
  using mapE_id [of hs "\<lambda>i. if is_jobj i then hour_cost_from_dict R i else Inl RunPodManagerError"
      hour_cost_to_dict flat_hour_cost] assms
  by (simp add: required_hour_costs_def list_all_iff hour_cost_roundtrip)
qed

lemma retired_roundtrip:
  assumes "retired_receipt_post_init x = None" "activation_post_init jsha (rr_activation x) = None"
    "cleanup_post_init jsha (rr_cleanup x) = None"
    "list_all (\<lambda>h. hour_cost_post_init h = None) (rr_endpoint_hour_costs x)"
  shows "retired_receipt_from_dict jsha R (retired_receipt_to_dict jsha x) = Inr (flat_retired x)"
proof -
  have facts: "rr_schema_version x = 1" "rr_contract_version x = capacity_contract"
    "is_aware (rr_reconciled_at x)" "rr_endpoint_hour_costs x \<noteq> []"
    using assms(1) by (auto simp: retired_receipt_post_init_def split: option.splits sum.splits prod.splits)
  have objects: "is_jobj (activation_to_dict a)" "is_jobj (cleanup_to_dict c)" for a c
    by (simp_all add: activation_to_dict_def cleanup_to_dict_def)
  have costs: "required_hour_costs R v k = Inr (map flat_hour_cost (rr_endpoint_hour_costs x))"
    if "jget v k = JList (map hour_cost_to_dict (rr_endpoint_hour_costs x))" for v k
    by (rule hour_costs_read_back [OF assms(4) facts(4) that])
  have read: "x\<lparr> rr_endpoint_hour_costs := map flat_hour_cost (rr_endpoint_hour_costs x) \<rparr> = flat_retired x"
    by (simp add: flat_retired_def)
  have id: "retired_billing_id jsha (flat_retired x) = retired_billing_id jsha x"
    by (simp add: retired_billing_id_def flat_retired_entries)
  show ?thesis
    using facts objects costs activation_roundtrip [OF assms(2), of R] cleanup_roundtrip [OF assms(3), of R]
      flat_retired_entries(1,3) [of x] id assms(1)
    by (cases x) (simp add: retired_receipt_from_dict_def retired_receipt_to_dict_def retired_entries_def
        retired_receipt_fields_def flat_retired_def capacity_contract_def exact_keys_def required_string_def
        required_int_def required_datetime_def parse_datetime_def insert_commute)
qed

end
