(* ===== verification/Serverless_Properties.thy ===== *)
theory Serverless_Properties
  imports Serverless_Settlement Serverless_Roundtrip Ollama_Adapter
begin

text \<open>
  What the Serverless provider changes at Runpod and what its receipts rest on.  Rules of elimination for
  successful runs (\<open>run_elims\<close>) and of the relation \<open>client_sends\<close> carry the proofs.
\<close>

section \<open>Successful runs\<close>

lemma seqM_run:
  assumes "seqM m f w = (Inr y, w')"
  obtains x w1 where "m w = (Inr x, w1)" "f x w1 = (Inr y, w')"
  using assms by (auto simp: seqM_def split: prod.splits sum.splits)

lemma liftM_run:
  assumes "liftM r w = (Inr y, w')"
  obtains "r = Inr y" "w' = w"
  using assms by (simp add: liftM_def)

lemma ret_run:
  assumes "ret x w = (Inr y, w')"
  obtains "y = x" "w' = w"
  using assms by (simp add: ret_def)

lemma raiseM_run:
  assumes "raiseM e w = (Inr y, w')"
  obtains False
  using assms by (simp add: raiseM_def)

lemma tryM_run:
  assumes "tryM m h w = (Inr y, w')"
  obtains "m w = (Inr y, w')" | e w1 where "m w = (Inl e, w1)" "h e w1 = (Inr y, w')"
  using assms by (auto simp: tryM_def split: prod.splits sum.splits)

lemma threaded_run:
  assumes "threaded E m w = (Inr y, w')"
  obtains w1 where "m w = (Inr y, w1)"
  using assms by (auto simp: threaded_def split: prod.splits if_splits)

lemma owned_run:
  assumes "owned E m w = (Inr y, w')"
  obtains w1 where "m w = (Inr y, w1)"
  using assms by (auto simp: owned_def seqM_def split: prod.splits sum.splits if_splits)

lemma failed_thread:
  assumes "threaded E m w = (Inl e, w')" "e \<noteq> CancelledError"
  obtains w1 where "m w = (Inl e, w1)"
  using assms by (auto simp: threaded_def split: prod.splits if_splits)

lemmas run_elims = seqM_run liftM_run ret_run raiseM_run tryM_run

section \<open>Runs that only read\<close>

named_theorems reads

lemma quiet_threaded [reads]: "quiet m \<Longrightarrow> quiet (threaded E m)"
  by (simp add: quiet_def threaded_def mutations_def split: prod.split) (metis snd_conv)

lemma quiet_owned [reads]: "quiet m \<Longrightarrow> quiet (owned E m)"
  unfolding owned_def by (intro quiet_seq) (simp_all add: quiet_tick)

lemma quiet_walk_pages: "quiet (walk_pages n E path key params parse cursor cursors ids)"
proof (induction n E path key params parse cursor cursors ids rule: walk_pages.induct)
  case (2 n E path key params parse cursor cursors ids)
  show ?case
    by (auto intro!: quiet_seq quiet_get_json 2 split: option.split)
qed simp

lemma quiet_get_endpoint [reads]: "quiet (get_endpoint E i)"
  unfolding get_endpoint_def by (intro quiet_seq quiet_get_json quiet_ret)

lemma quiet_list_endpoints [reads]: "quiet (list_endpoints E)"
  unfolding list_endpoints_def list_resources_def by (rule quiet_walk_pages)

lemma quiet_serverless_billing [reads]: "quiet (serverless_billing E t u b n i)"
  unfolding serverless_billing_def by (intro quiet_seq quiet_get_json quiet_ret)

lemma quiet_list_workers [reads]: "quiet (list_endpoint_workers E i)"
  unfolding list_endpoint_workers_def by (auto intro!: quiet_seq quiet_get_json)

lemma quiet_job_status [reads]: "quiet (job_status E i j n)"
  unfolding job_status_def by (intro quiet_seq quiet_get_json quiet_ret)

lemmas [reads] = quiet_ret quiet_seq quiet_try quiet_provider_now quiet_list_gpus

lemma quiet_assert_fresh [reads]: "quiet (assert_fresh q t accepted)"
  unfolding assert_fresh_def by (simp split: option.split)

lemma quiet_observe_catalog [reads]: "quiet (observe_catalog E s)"
  unfolding observe_catalog_def by (auto intro!: reads)

lemma quiet_planned_quote [reads]: "quiet (observe_planned_quote E r)"
  unfolding observe_planned_quote_def Let_def by (intro reads)

lemma quiet_observe_quote [reads]: "quiet (observe_quote E r)"
  unfolding observe_quote_def Let_def by (intro reads)

lemma quiet_replay_activation [reads]: "quiet (replay_activation E r q prior)"
  unfolding replay_activation_def by (auto intro!: reads)

lemma quiet_read_back_created [reads]: "quiet (read_back_created E r q i)"
  unfolding read_back_created_def by (auto intro!: reads)

lemma quiet_activate_created [reads]: "quiet (activate_created E r q t endpoint ambiguous)"
  unfolding activate_created_def by (auto intro!: reads split: prod.split)

lemma quiet_adopt [reads]: "quiet (adopt_planned_endpoint E r q)"
  unfolding adopt_planned_endpoint_def by (auto intro!: reads split: list.split sum.split)

lemma quiet_authorize [reads]: "quiet (authorize_planned_submission E r q a accepted x)"
  unfolding authorize_planned_submission_def by (auto intro!: reads)

lemma quiet_verify_absence [reads]: "quiet (verify_cleanup_absence E a)"
  unfolding verify_cleanup_absence_def cleanup_endpoint_resource_def by (auto intro!: reads)

lemma quiet_billing_batches [reads]: "quiet (billing_batches E i n until cursor)"
proof (induction E i n until cursor rule: billing_batches.induct)
  case (1 E i n until cursor)
  show ?case
    by (subst billing_batches.simps) (auto intro!: reads 1 split: option.split)
qed

section \<open>Activation\<close>

lemma client_sends_owned: "client_sends P m \<Longrightarrow> client_sends P (owned E m)"
  unfolding owned_def by (intro client_sends_seq) (simp_all add: quiet_tick)

lemma client_sends_try:
  assumes m: "client_sends P m" and h: "\<And>e. quiet (h e)"
  shows "client_sends P (tryM m h)"
  unfolding client_sends_def
proof
  fix w
  obtain r w1 where run: "m w = (r, w1)" by (cases "m w")
  with m have "one_more P (mutations w) (mutations w1)" by (metis client_sends_def snd_conv)
  with run h show "one_more P (mutations w) (mutations (snd (tryM m h w)))"
    by (cases r) (auto simp: tryM_def quiet_def)
qed

lemma client_sends_after:
  assumes m: "quiet m" and f: "\<And>x w w1. m w = (Inr x, w1) \<Longrightarrow> client_sends P (f x)"
  shows "client_sends P (seqM m f)"
  unfolding client_sends_def
proof
  fix w
  obtain r w1 where run: "m w = (r, w1)" by (cases "m w")
  with m have "mutations w1 = mutations w" by (metis quiet_def snd_conv)
  moreover have "client_sends P (f x)" if "r = Inr x" for x using run f that by blast
  ultimately show "one_more P (mutations w) (mutations (snd (seqM m f w)))"
    using run by (cases r) (auto simp: seqM_def client_sends_def, metis)
qed

text \<open>The create that an accepted quote allows, and what was observed before it is sent.\<close>

definition authorized_create :: "provider_env \<Rightarrow> PlannedServerlessCapacityQuote \<Rightarrow> decimal \<Rightarrow> api_request \<Rightarrow> bool" where
  "authorized_create E q accepted a \<longleftrightarrow>
     (\<exists>body t current w1 w2 existing.
        a = post ''/serverless'' (Some body) \<and> pe_jsha E body = pq_operation_digest q
        \<and> jget body ''name'' = JStr (pq_endpoint_name q)
        \<and> quote_assert_fresh q t accepted = None \<and> validate_planned_quote_drift current q accepted = Inr ()
        \<and> list_endpoints (client_env.truncate E) w1 = (Inr existing, w2)
        \<and> named_endpoints (pq_endpoint_name q) existing = [])"

lemma create_or_reconcile_sends:
  assumes "\<And>payload. endpoint_request_payload request = Inr payload \<Longrightarrow> P (post ''/serverless'' (Some payload))"
  shows "client_sends P (create_or_reconcile E request name)"
  unfolding create_or_reconcile_def
  by (intro client_sends_try client_sends_seq client_sends_owned create_endpoint_sends assms)
    (auto intro!: reads split: list.split)

lemma spec_create_request_name: "spec_create_request s name pool dc = Inr request \<Longrightarrow> ec_name request = name"
  by (auto simp: spec_create_request_def Let_def spec_request_def split: if_splits option.splits)

lemma purchase_sends: "client_sends (authorized_create E q accepted) (purchase_endpoint E r q accepted)"
  unfolding purchase_endpoint_def
proof (intro client_sends_after reads, goal_cases)
  case (1 t w0 w1 u w2 w3 current w4 w5 v w6 w7 existing w8 w9)
  then obtain w10 where existing: "list_endpoints (client_env.truncate E) w8 = (Inr existing, w10)"
    by (auto elim: threaded_run)
  have fresh: "quote_assert_fresh q t accepted = None"
    using 1(2) by (auto simp: assert_fresh_def ret_def raiseM_def split: option.splits)
  have drift: "validate_planned_quote_drift current q accepted = Inr ()" using 1(4) by (simp add: liftM_def)
  show ?case
  proof (cases "named_endpoints (pq_endpoint_name q) existing = []")
    case True
    have "authorized_create E q accepted (post ''/serverless'' (Some body))"
      if "spec_create_request (pn_spec (sr_endpoint r)) (pq_endpoint_name q) (sq_gpu_pool q) (sq_data_center_id q)
          = Inr request" "endpoint_request_payload request = Inr body" "pe_jsha E body = pq_operation_digest q"
      for request body
      using existing fresh drift True that endpoint_payload_fields [OF that(2)] spec_create_request_name [OF that(1)]
      unfolding authorized_create_def by metis
    then show ?thesis using True
      by (auto intro!: client_sends_lift client_sends_after [OF quiet_provider_now] client_sends_seq
          create_or_reconcile_sends quiet_activate_created quiet_sends [OF quiet_ret(2)] split: prod.split)
  qed (simp add: quiet_sends)
qed


section \<open>Cleanup\<close>

definition endpoint_query :: "string \<Rightarrow> api_request" where
  "endpoint_query i = \<lparr> ar_method = ''GET'', ar_resource = ''/serverless/'' @ quote_segment i,
     ar_params = [], ar_body = None \<rparr>"

text \<open>The delete that a cleanup may send, and what was observed and stored before it is sent.\<close>

definition authorized_delete :: "provider_env \<Rightarrow> ServerlessEndpointActivationReceipt \<Rightarrow> intent_store
    \<Rightarrow> api_request \<Rightarrow> bool" where
  "authorized_delete E a persist d \<longleftrightarrow>
     d = \<lparr> ar_method = ''DELETE'', ar_resource = ''/serverless/'' @ quote_segment (ac_endpoint_id a),
           ar_params = [], ar_body = None \<rparr>
     \<and> (\<exists>page w1 w2. list_endpoint_workers (client_env.truncate E) (ac_endpoint_id a) w1 = (Inr page, w2)
          \<and> no_workers page)
     \<and> (\<exists>i n. ci_activation i = a \<and> (case persist of None \<Rightarrow> True | Some f \<Rightarrow> f n i = Inr (Some i)))"

definition observed_absent :: "provider_env \<Rightarrow> ServerlessEndpointActivationReceipt \<Rightarrow> bool" where
  "observed_absent E a \<longleftrightarrow>
     (\<exists>n body. ce_send E n (endpoint_query (ac_endpoint_id a)) = Api_reply 404 body)
     \<and> (\<exists>w1 w2 es. list_endpoints (client_env.truncate E) w1 = (Inr es, w2)
          \<and> list_all (\<lambda>e. er_id e \<noteq> ac_endpoint_id a \<and> er_name e \<noteq> ac_endpoint_name a) es)"

lemma endpoint_missing:
  assumes "library_exceptions_foreign E" "cleanup_endpoint_resource E a w = (Inr None, w')"
  shows "\<exists>n body. ce_send E n (endpoint_query (ac_endpoint_id a)) = Api_reply 404 body"
proof -
  from assms(2) obtain w1 where "get_endpoint (client_env.truncate E) (ac_endpoint_id a) w = (Inl (RunPodAPIError (Some 404)), w1)"
    unfolding cleanup_endpoint_resource_def
    by (auto simp: seqM_def tryM_def ret_def raiseM_def threaded_def split: prod.splits sum.splits if_splits)
  then have "fst (get_json (client_env.truncate E) (''/serverless/'' @ quote_segment (ac_endpoint_id a)) [] w)
      = Inl (RunPodAPIError (Some 404))"
    by (auto simp: get_endpoint_def seqM_def liftM_def segment_def dest: endpoint_from_dict_errors
        split: prod.splits sum.splits if_splits)
  then have "fst (request_json (client_env.truncate E) (endpoint_query (ac_endpoint_id a)) [200] False w)
      = Inl (RunPodAPIError (Some 404))"
    by (auto simp: get_json_def endpoint_query_def seqM_def liftM_def required_payload_def
        split: prod.splits sum.splits option.splits)
  from not_found_send [OF assms(1) this] show ?thesis by simp
qed

lemma absence_verified:
  assumes "library_exceptions_foreign E" "verify_cleanup_absence E a w = (Inr t, w')"
  shows "observed_absent E a"
proof -
  from assms(2) obtain w1 w2 w3 es where gone: "cleanup_endpoint_resource E a w = (Inr None, w1)"
    and listed: "threaded E (list_endpoints (client_env.truncate E)) w2 = (Inr es, w3)"
    and none: "\<not> list_ex (\<lambda>e. er_id e = ac_endpoint_id a \<or> er_name e = ac_endpoint_name a) es"
    unfolding verify_cleanup_absence_def by (auto elim!: run_elims split: if_splits)
  from listed obtain w4 where "list_endpoints (client_env.truncate E) w2 = (Inr es, w4)" by (rule threaded_run)
  with none endpoint_missing [OF assms(1) gone] show ?thesis
    unfolding observed_absent_def list_ex_iff list_all_iff by blast
qed

lemma cleanup_receipt_bound: "cleanup_receipt jsha i t basis = Inr c \<Longrightarrow> cleanup_validate_activation c (ci_activation i) = Inr ()"
  by (auto simp: cleanup_receipt_def cleanup_validate_activation_def Let_def split: option.splits)

lemma intent_of_activation:
  assumes "cleanup_intent E a prior_intent w = (Inr i, w')"
    "case prior_intent of None \<Rightarrow> True | Some i \<Rightarrow> ci_activation i = a"
  shows "ci_activation i = a"
  using assms unfolding cleanup_intent_def by (auto elim!: run_elims simp: Let_def split: option.splits)

lemma acknowledged:
  "acknowledge_intent persist a i w = (Inr u, w') \<Longrightarrow> \<exists>n. case persist of None \<Rightarrow> True | Some f \<Rightarrow> f n i = Inr (Some i)"
  unfolding acknowledge_intent_def by (auto elim!: run_elims split: option.splits if_splits)

lemma quiet_acknowledge [reads]: "quiet (acknowledge_intent persist a i)"
  unfolding acknowledge_intent_def by (auto intro!: reads quiet_tick split: option.split)

lemma quiet_cleanup_intent [reads]: "quiet (cleanup_intent E a prior_intent)"
  unfolding cleanup_intent_def Let_def by (auto intro!: reads split: option.split)

lemma quiet_check_prior_intent [reads]: "quiet (check_prior_intent E a prior_intent)"
  unfolding check_prior_intent_def by (auto intro!: reads split: option.split)

lemma quiet_endpoint_resource [reads]: "quiet (cleanup_endpoint_resource E a)"
  unfolding cleanup_endpoint_resource_def by (auto intro!: reads)

lemma delete_activated_sends:
  "(\<And>d. d = \<lparr> ar_method = ''DELETE'', ar_resource = ''/serverless/'' @ quote_segment (ac_endpoint_id a),
      ar_params = [], ar_body = None \<rparr> \<Longrightarrow> P d) \<Longrightarrow> client_sends P (delete_activated E a)"
  unfolding delete_activated_def delete_endpoint_def delete_resource_def
  by (intro client_sends_try client_sends_seq client_sends_owned client_sends_lift client_sends_request)
    (auto simp: segment_def safe_to_retry_def safe_methods_def intro: reads split: if_splits)

lemma cleanup_present_sends:
  assumes "case prior_intent of None \<Rightarrow> True | Some i \<Rightarrow> ci_activation i = a"
  shows "client_sends (authorized_delete E a persist) (cleanup_present E r q a prior_intent persist endpoint)"
  unfolding cleanup_present_def
proof (rule client_sends_lift, goal_cases)
  case (1 digest)
  show ?case
  proof (cases "digest = ac_endpoint_readback_sha256 a")
    case True
    have "client_sends (authorized_delete E a persist) (seqM (delete_activated E a) (\<lambda>basis.
         seqM (verify_cleanup_absence E a) (\<lambda>t. liftM (cleanup_receipt (pe_jsha E) i t basis))))"
      if "threaded E (list_endpoint_workers (client_env.truncate E) (ac_endpoint_id a)) w1 = (Inr page, w2)"
        "no_workers page" "cleanup_intent E a prior_intent w3 = (Inr i, w4)"
        "acknowledge_intent persist a i w5 = (Inr u, w6)" for page i u w1 w2 w3 w4 w5 w6
    proof (intro client_sends_seq delete_activated_sends)
      fix d :: api_request
      assume "d = \<lparr> ar_method = ''DELETE'', ar_resource = ''/serverless/'' @ quote_segment (ac_endpoint_id a),
        ar_params = [], ar_body = None \<rparr>"
      with that acknowledged [OF that(4)] intent_of_activation [OF that(3) assms]
      show "authorized_delete E a persist d"
        unfolding authorized_delete_def by (blast elim: threaded_run)
    qed (intro reads)
    with True show ?thesis
      by (auto intro!: client_sends_after [OF quiet_threaded [OF quiet_list_workers]]
          client_sends_after [OF quiet_cleanup_intent] client_sends_after [OF quiet_acknowledge]
          quiet_sends [OF quiet_ret(2)])
  qed (simp add: quiet_sends)
qed

lemma prior_intent_checked:
  "check_prior_intent E a prior_intent w = (Inr u, w') \<Longrightarrow> case prior_intent of None \<Rightarrow> True | Some i \<Rightarrow> ci_activation i = a"
  unfolding check_prior_intent_def
  by (auto elim!: run_elims simp: intent_validate_activation_def split: option.splits if_splits)

lemma cleanup_effect_sends:
  "client_sends (\<lambda>d. prior_receipt = None \<and> authorized_delete E a persist d)
     (cleanup_effect E r q a prior_receipt prior_intent persist)"
proof (cases prior_receipt)
  case None
  show ?thesis unfolding cleanup_effect_def cleanup_missing_def None
    by (auto intro!: client_sends_lift client_sends_after [OF quiet_check_prior_intent]
        client_sends_after [OF quiet_endpoint_resource] quiet_sends [OF quiet_ret(2)]
        quiet_sends [OF quiet_seq [OF quiet_verify_absence quiet_ret(3)]]
        split: option.split dest!: prior_intent_checked simp: cleanup_present_sends)
next
  case (Some receipt)
  then show ?thesis unfolding cleanup_effect_def replay_cleanup_def
    by (auto intro!: quiet_sends reads split: option.split)
qed

lemma replay_observes:
  assumes "library_exceptions_foreign E" "replay_cleanup E a prior_intent receipt w = (Inr c, w')"
  shows "observed_absent E a \<and> cleanup_validate_activation c a = Inr ()"
  using assms unfolding replay_cleanup_def
  by (auto elim!: run_elims dest: absence_verified split: if_splits option.splits)

lemma missing_observes:
  assumes "library_exceptions_foreign E" "cleanup_missing E a prior_intent w = (Inr c, w')"
    "case prior_intent of None \<Rightarrow> True | Some i \<Rightarrow> ci_activation i = a"
  shows "observed_absent E a \<and> cleanup_validate_activation c a = Inr ()"
  using assms unfolding cleanup_missing_def
  by (auto elim!: run_elims dest: absence_verified cleanup_receipt_bound split: option.splits)

lemma present_observes:
  assumes "library_exceptions_foreign E"
    "cleanup_present E r q a prior_intent persist endpoint w = (Inr c, w')"
    "case prior_intent of None \<Rightarrow> True | Some i \<Rightarrow> ci_activation i = a"
  shows "observed_absent E a \<and> cleanup_validate_activation c a = Inr ()"
proof -
  from assms(2) obtain i t basis w1 w2 w3 w4 where intent: "cleanup_intent E a prior_intent w1 = (Inr i, w2)"
    and absent: "verify_cleanup_absence E a w3 = (Inr t, w4)"
    and receipt: "cleanup_receipt (pe_jsha E) i t basis = Inr c"
    unfolding cleanup_present_def by (auto elim!: seqM_run liftM_run raiseM_run split: if_splits)
  from absence_verified [OF assms(1) absent] cleanup_receipt_bound [OF receipt]
    intent_of_activation [OF intent assms(3)] show ?thesis by simp
qed

lemma cleanup_effect_observes:
  assumes "library_exceptions_foreign E"
    "cleanup_effect E r q a prior_receipt prior_intent persist w = (Inr c, w')"
  shows "observed_absent E a \<and> cleanup_validate_activation c a = Inr ()"
proof -
  from assms(2) obtain w1 w2 w3 u where checked: "check_prior_intent E a prior_intent w1 = (Inr u, w2)"
    and run: "(case prior_receipt of
       Some receipt \<Rightarrow> replay_cleanup E a prior_intent receipt
     | None \<Rightarrow> seqM (cleanup_endpoint_resource E a) (\<lambda>found.
         case found of
           None \<Rightarrow> cleanup_missing E a prior_intent
         | Some endpoint \<Rightarrow> cleanup_present E r q a prior_intent persist endpoint)) w2 = (Inr c, w')"
    unfolding cleanup_effect_def by (auto elim!: seqM_run liftM_run)
  note prior = prior_intent_checked [OF checked]
  show ?thesis
  proof (cases prior_receipt)
    case (Some receipt)
    with run replay_observes [OF assms(1)] show ?thesis by auto
  next
    case None
    with run obtain found w4 where "(case found of None \<Rightarrow> cleanup_missing E a prior_intent
         | Some endpoint \<Rightarrow> cleanup_present E r q a prior_intent persist endpoint) w4 = (Inr c, w')"
      by (auto elim: seqM_run)
    with missing_observes [OF assms(1) _ prior] present_observes [OF assms(1) _ prior] show ?thesis
      by (cases found) auto
  qed
qed


section \<open>Billing\<close>

lemma hours_between_append:
  assumes "a + int n * hour \<le> until"
  shows "hours_between a (a + int n * hour) @ hours_between (a + int n * hour) until = hours_between a until"
  using assms
proof (induction n arbitrary: a)
  case 0
  then show ?case by (simp add: hours_between.simps [of a a])
next
  case (Suc n)
  have step: "a + int (Suc n) * hour = (a + hour) + int n * hour" by (simp add: algebra_simps)
  have "0 < hour" "0 \<le> int n * hour" by (simp_all add: hour_def)
  with step have below: "a < a + int (Suc n) * hour" by linarith
  with Suc.prems have "a < until" by linarith
  with below Suc.IH [of "a + hour"] Suc.prems show ?case
    unfolding step by (simp add: hours_between.simps [of a])
qed

definition hour_bill_of :: "string \<Rightarrow> ServerlessEndpointHourCost \<Rightarrow> bool" where
  "hour_bill_of i h \<longleftrightarrow> hc_endpoint_id h = i \<and> hour_cost_post_init h = None"

lemma hour_cost_ofD:
  "hour_cost_of jsha i t u c = Inr h \<Longrightarrow> hc_utc_hour_start h = t \<and> hour_bill_of i h"
  by (auto simp: hour_cost_of_def hour_bill_of_def Let_def split: option.splits)

lemma record_walk_hours:
  assumes "record_walk jsha i until cursor rs = Inr (Some (hs, c))" "is_aware cursor"
  shows "c = Aware (usec cursor + int (length hs) * hour)
    \<and> map hc_utc_hour_start hs = hours_between (usec cursor) (usec c)
    \<and> (hs = [] \<or> c \<le> until) \<and> list_all (hour_bill_of i) hs"
  using assms
proof (induction jsha i until cursor rs arbitrary: hs c rule: record_walk.induct)
  case (1 jsha i until cursor)
  then show ?case by (cases cursor) (auto simp: hours_between.simps)
next
  case (2 jsha i until cursor first stop t rs)
  from "2.prems"(1) obtain h hs' where
    go: "\<not> stop \<le> first" "\<not> (cursor < first \<and> first < until)" "first = cursor" "\<not> until < stop"
      "\<not> stop < dt_add first hour" "stop = dt_add first hour"
    and h: "hour_cost_of jsha i first stop t = Inr h"
    and rest: "record_walk jsha i until stop rs = Inr (Some (hs', c))" and hs: "hs = h # hs'"
    by (auto simp: bindE_Inr split: if_splits option.splits)
  have stop: "stop = Aware (usec cursor + hour)" using go "2.prems"(2) by (cases cursor) auto
  have "is_aware stop" using stop by simp
  note IH = "2.IH" [OF go(1,2) _ go(4,5) _ rest this]
  from IH go(3,6) have IH: "c = Aware (usec stop + int (length hs') * hour)"
    "map hc_utc_hour_start hs' = hours_between (usec stop) (usec c)" "hs' = [] \<or> c \<le> until"
    "list_all (hour_bill_of i) hs'"
    by (blast+)
  have "usec cursor < usec c" using IH(1) stop by (simp add: hour_def)
  moreover have "Aware (usec cursor) = cursor" using "2.prems"(2) by (cases cursor) auto
  ultimately show ?case
    using IH stop hs go hour_cost_ofD [OF h] by (auto simp: hours_between.simps [of "usec cursor"] algebra_simps)
qed

lemma authoritative_hours:
  assumes "authoritative_hour_costs jsha R page i cursor until = Inr (Some hs)" "is_aware cursor" "cursor \<le> until"
  shows "until = Aware (usec cursor + int (length hs) * hour)
    \<and> map hc_utc_hour_start hs = hours_between (usec cursor) (usec until) \<and> list_all (hour_bill_of i) hs"
proof -
  from assms(1) obtain c rs where walk: "record_walk jsha i until cursor rs = Inr (Some (hs, c))" "\<not> c < until"
    by (auto simp: authoritative_hour_costs_def Let_def bindE_Inr split: if_splits option.splits)
  note hours = record_walk_hours [OF walk(1) assms(2)]
  have "c \<le> until"
  proof (cases "hs = []")
    case True
    with hours assms(2,3) show ?thesis by (cases cursor) auto
  qed (use hours in blast)
  with walk(2) have "c = until" by simp
  with hours show ?thesis by simp
qed

lemma billing_batches_hours:
  assumes "billing_batches E i n until cursor w = (Inr (Some hs), w')" "is_aware cursor" "is_aware until"
    "cursor \<le> until"
  shows "map hc_utc_hour_start hs = hours_between (usec cursor) (usec until) \<and> list_all (hour_bill_of i) hs"
  using assms
proof (induction E i n until cursor arbitrary: w hs w' rule: billing_batches.induct)
  case (1 E i n until cursor)
  show ?case
  proof (cases "cursor < until")
    case False
    with 1(2-5) show ?thesis
      by (cases cursor; cases until) (auto simp: billing_batches.simps ret_def hours_between.simps)
  next
    case True
    let ?b = "batch_end n until cursor"
    from 1(2) True obtain page hs1 hs2 w1 w2 w3 where move: "\<not> usec ?b \<le> usec cursor"
      and page: "authoritative_hour_costs (pe_jsha E) (pe_read_datetime E) page i cursor ?b = Inr (Some hs1)"
      and rest: "billing_batches E i n until ?b w1 = (Inr (Some hs2), w2)" and hs: "hs = hs1 @ hs2"
      by (subst (asm) billing_batches.simps) (auto elim!: run_elims split: if_splits option.splits)
    have aware: "is_aware ?b" "?b \<le> until" "cursor \<le> ?b"
      using 1(3,4) move by (cases cursor; cases until; simp add: batch_end_def min_def split: if_splits)+
    from authoritative_hours [OF page 1(3) aware(3)]
    have first: "?b = Aware (usec cursor + int (length hs1) * hour)"
      "map hc_utc_hour_start hs1 = hours_between (usec cursor) (usec ?b)" "list_all (hour_bill_of i) hs1"
      by blast+
    from 1(1) [OF _ move rest aware(1) 1(4) aware(2)] True
    have second: "map hc_utc_hour_start hs2 = hours_between (usec ?b) (usec until)" "list_all (hour_bill_of i) hs2"
      by blast+
    have "usec cursor + int (length hs1) * hour \<le> usec until"
      using aware(2) first(1) 1(4) by (cases until) auto
    from hours_between_append [OF this] first second hs show ?thesis by simp
  qed
qed

lemma read_exact_hours:
  assumes "read_exact_serverless_billing E i created_at absent_at batch_hours w = (Inr (Some hs), w')"
  shows "\<exists>start end_at t w1 w2. serverless_billing_hour_bounds created_at absent_at = Inr (start, end_at)
    \<and> map hc_utc_hour_start hs = hours_between (usec start) (usec end_at) \<and> list_all (hour_bill_of i) hs
    \<and> provider_now E w1 = (Inr t, w2) \<and> end_at \<le> t"
proof -
  from assms obtain start end_at t w1 w2 where
    bounds: "serverless_billing_hour_bounds created_at absent_at = Inr (start, end_at)"
    and clock: "provider_now E w1 = (Inr t, w2)" "end_at \<le> t"
    and run: "billing_batches E i batch_hours end_at start w2 = (Inr (Some hs), w')"
    unfolding read_exact_serverless_billing_def
    by (auto elim!: seqM_run liftM_run ret_run raiseM_run split: if_splits)
  have "floor_hour (usec created_at) \<le> usec absent_at" if "usec created_at < usec absent_at"
    using that floor_hour_props(1) [of "usec created_at"] by simp
  then have aware: "is_aware start" "is_aware end_at" "start \<le> end_at"
    using bounds floor_hour_props(2) [of "usec absent_at"]
    by (cases created_at; cases absent_at; force simp: serverless_billing_hour_bounds_def
        billing_hour_bounds_def Let_def split: if_splits)+
  from billing_batches_hours [OF run aware] bounds clock show ?thesis by blast
qed


lemma first_error_append_None: "first_error (xs @ ys) = None \<longleftrightarrow> first_error xs = None \<and> first_error ys = None"
  by (induction xs) auto

lemma ambiguous_receipt_valid:
  assumes "ambiguous_receipt_post_init r = None"
  shows "nonnegative_decimal (am_actual_cost_usd r)" "nonnegative_decimal (am_capped_cost_usd r)"
    "nonnegative_decimal (am_operator_loss_usd r)"
    "hours_bound (am_endpoint_id r) (am_exclusive_billing_hour_starts r) (am_endpoint_hour_costs r)"
  using assms by (simp_all add: ambiguous_receipt_post_init_def first_error_append_None del: first_error.simps(2))

text \<open>
  An ambiguous window costs the host at most what it accepted.  The receipt of a window splits the cost of its
  hours into a capped part and a loss of the operator, exactly and whatever the precision of the decimal context:
  the capped part is at most the accepted ceiling, the loss is not negative and is zero unless the ceiling was
  exceeded; the hours billed are those of the window, each for its endpoint.
\<close>

theorem ambiguous_cost_split:
  "case ambiguous_billing_receipt jsha b q profile_digest hs t of
     Inl e \<Rightarrow> True
   | Inr r \<Rightarrow>
       dval (am_actual_cost_usd r) = sum_list (map (\<lambda>h. dval (hc_actual_cost_usd h)) hs)
       \<and> dval (am_capped_cost_usd r) + dval (am_operator_loss_usd r) = dval (am_actual_cost_usd r)
       \<and> dval (am_capped_cost_usd r) \<le> dval (bw_accepted_cost_ceiling_usd b)
       \<and> 0 \<le> dval (am_capped_cost_usd r) \<and> 0 \<le> dval (am_operator_loss_usd r)
       \<and> (0 < dval (am_operator_loss_usd r)
          \<longleftrightarrow> dval (bw_accepted_cost_ceiling_usd b) < dval (am_actual_cost_usd r))
       \<and> map hc_utc_hour_start hs = bw_exclusive_billing_hour_starts b
       \<and> list_all (\<lambda>h. hc_endpoint_id h = bw_endpoint_id b) hs"
proof (cases "ambiguous_billing_receipt jsha b q profile_digest hs t")
  case (Inr r)
  then obtain totals loss where totals: "hour_cost_totals hs = Inr totals"
    and loss: "decimal_sum [ct_actual_cost_usd totals,
        negated (decimal_min (ct_actual_cost_usd totals) (bw_accepted_cost_ceiling_usd b))] = Inr loss"
    and valid: "ambiguous_receipt_post_init r = None"
    and r: "am_actual_cost_usd r = ct_actual_cost_usd totals"
      "am_capped_cost_usd r = decimal_min (ct_actual_cost_usd totals) (bw_accepted_cost_ceiling_usd b)"
      "am_operator_loss_usd r = loss" "am_endpoint_id r = bw_endpoint_id b"
      "am_exclusive_billing_hour_starts r = bw_exclusive_billing_hour_starts b" "am_endpoint_hour_costs r = hs"
    by (auto simp: ambiguous_billing_receipt_def Let_def bindE_Inr split: option.splits)
  have sum: "decimal_sum (map hc_actual_cost_usd hs) = Inr (ct_actual_cost_usd totals)"
    using totals by (auto simp: hour_cost_totals_def bindE_Inr)
  have actual: "dval (ct_actual_cost_usd totals) = sum_list (map (\<lambda>h. dval (hc_actual_cost_usd h)) hs)"
    using decimal_sumD(3) [OF sum] by (simp add: comp_def)
  have split: "dval loss = dval (ct_actual_cost_usd totals)
      - dval (decimal_min (ct_actual_cost_usd totals) (bw_accepted_cost_ceiling_usd b))"
    using decimal_sumD(3) [OF loss] by simp
  have hours: "map hc_utc_hour_start hs = bw_exclusive_billing_hour_starts b"
    "list_all (\<lambda>h. hc_endpoint_id h = bw_endpoint_id b) hs"
    using ambiguous_receipt_valid(4) [OF valid] r by (simp_all add: hours_bound_def)
  have "0 \<le> dval (am_capped_cost_usd r)" "0 \<le> dval (am_operator_loss_usd r)"
    using ambiguous_receipt_valid(2,3) [OF valid] by (simp_all add: nonnegative_decimal_def)
  with actual split hours r show ?thesis unfolding Inr by (auto simp: decimal_min_def)
qed simp

section \<open>Two edges of the checks\<close>

text \<open>
  The length of an attempt in milliseconds goes through a binary float: an attempt of 1.005 seconds counts as 1004 ms,
  and a job that took all of it is rejected.
\<close>

lemma attempt_ms_truncates: "attempt_ms (Aware 0) (Aware 1005000) = 1004"
  by code_simp

text \<open>
  The digest of the create request is computed before the pool is compared, so a quote for a pool that the plan does not
  allow ends in a \<^verbatim>\<open>ValueError\<close> and not in the error of the check.
\<close>

lemma foreign_pool_value_error:
  assumes "sl_workload_kind r = sl_workload_kind q" "sl_parameters_sha256 r = sl_parameters_sha256 q"
    "pn_plan_id (sr_endpoint r) = pq_plan_id q" "plan_sha256 jsha (sr_endpoint r) = pq_plan_sha256 q"
    "pn_endpoint_name (sr_endpoint r) = pq_endpoint_name q"
    "endpoint_spec_sha256 jsha (pn_spec (sr_endpoint r)) = pq_endpoint_spec_sha256 q"
    "ss_worker_reference (pn_spec (sr_endpoint r)) = pq_worker_reference q"
    "sq_gpu_pool q \<notin> set (sc_allowed_gpu_pools (ss_constraints (pn_spec (sr_endpoint r))))"
  shows "validate_planned_request_binding jsha r q = Inl ValueError"
  using assms
  by (simp add: validate_planned_request_binding_def operation_digest_def spec_create_request_def Let_def bindE_def)

section \<open>Witnesses\<close>

definition sample_digest :: string where
  "sample_digest = replicate 64 (CHR ''a'')"

definition sample_planned_quote :: PlannedServerlessCapacityQuote where
  "sample_planned_quote =
     \<lparr> sl_workload_kind = ''embedding'', sl_parameters_sha256 = sample_digest,
       sl_estimated_queue_delay_seconds = Some 5, sl_estimated_worker_start_seconds = 10,
       sl_estimated_execution_seconds = 50, sl_maximum_queue_delay_seconds = 30,
       sl_maximum_worker_start_seconds = 20, sl_maximum_execution_seconds = 100,
       sl_maximum_billable_seconds = 180, sl_job_execution_timeout_ms = 200000, sl_job_ttl_ms = 300000,
       sl_estimated_non_worker_cost_usd = Dec 0 0, sl_maximum_non_worker_cost_usd = Dec 1 (- 2),
       sq_schema_version = 1, sq_contract_version = capacity_contract,
       sq_provider_quote_id = ''runpod-serverless-plan:1'', sq_catalog_observation_sha256 = sample_digest,
       sq_gpu_id = ''gpu-1'', sq_gpu_pool = ''ADA_24'', sq_gpu_name = ''L4'', sq_vram_gb = 24,
       sq_data_center_id = ''EU-RO-1'', sq_cloud = SECURE, sq_gpu_count = 1, sq_min_cuda_version = None,
       sq_availability = AV_HIGH, sq_benchmark_id = ''bench-1'', sq_hourly_worker_rate_usd = Dec 36 (- 1),
       sq_idle_tail_seconds = 60, sq_estimated_billable_seconds = 120,
       sq_estimated_worker_cost_usd = Dec 12 (- 2), sq_maximum_worker_cost_usd = Dec 18 (- 2),
       sq_estimated_cost_usd = Dec 12 (- 2), sq_cost_ceiling_usd = Dec 19 (- 2),
       sq_catalog_observed_at = Aware 0, sq_expires_at = Aware 60000000,
       pq_plan_id = ''plan-1'', pq_plan_sha256 = sample_digest, pq_endpoint_name = ''kestrel-1'',
       pq_endpoint_spec_sha256 = sample_digest, pq_operation_digest = sample_digest,
       pq_worker_reference = ''ghcr.io/kestrel/worker@sha256:'' @ sample_digest \<rparr>"

lemma sample_planned_quote_valid: "planned_quote_post_init sample_planned_quote = None"
  by code_simp

lemma sample_digest_text: "sha256_text sample_digest"
  by code_simp

theorem planned_quote_roundtrip_witness:
  "\<forall>R. planned_quote_from_dict (\<lambda>_. sample_digest) R (planned_quote_to_dict (\<lambda>_. sample_digest) sample_planned_quote)
     = Inr (flat_quote sample_planned_quote)"
  using planned_quote_roundtrip [OF sample_planned_quote_valid, of "\<lambda>_. sample_digest"]
  by (simp add: quote_sha256_def sample_digest_text)


end
