(* ===== verification/Base64url.thy ===== *)
theory Base64url
  imports Runpod_Models "HOL-Library.Word"
begin

text \<open>
  Unpadded URL-safe base64 of the standard library, as \<^verbatim>\<open>signed_invocations.py\<close> uses it: \<open>encode_groups\<close> is
  \<^verbatim>\<open>urlsafe_b64encode\<close> without its padding and \<open>decode_groups\<close> is \<^verbatim>\<open>urlsafe_b64decode\<close> of a text of the alphabet
  that was padded to a multiple of four.  The decoder ignores the unused bits of the last character, and fails
  only for a single character left over.
\<close>

type_synonym byte = "8 word"

section \<open>Definitions\<close>

definition b64_char :: "nat \<Rightarrow> char" where
  "b64_char n =
     (if n < 26 then char_of (n + 65) else if n < 52 then char_of (n + 71)
      else if n < 62 then char_of (n - 4) else if n = 62 then CHR ''-'' else CHR ''_'')"

definition b64_value :: "char \<Rightarrow> nat option" where
  "b64_value c = (let n = (of_char c :: nat) in
     if 65 \<le> n \<and> n \<le> 90 then Some (n - 65) else if 97 \<le> n \<and> n \<le> 122 then Some (n - 71)
     else if 48 \<le> n \<and> n \<le> 57 then Some (n + 4) else if n = 45 then Some 62
     else if n = 95 then Some 63 else None)"

fun encode_groups :: "byte list \<Rightarrow> string" where
  "encode_groups (a # b # c # rest) =
     (let n = unat a * 65536 + unat b * 256 + unat c in
      [b64_char (n div 262144), b64_char (n div 4096 mod 64), b64_char (n div 64 mod 64), b64_char (n mod 64)]
      @ encode_groups rest)"
| "encode_groups [a, b] =
     (let n = (unat a * 256 + unat b) * 4 in
      [b64_char (n div 4096), b64_char (n div 64 mod 64), b64_char (n mod 64)])"
| "encode_groups [a] = (let n = unat a * 16 in [b64_char (n div 64), b64_char (n mod 64)])"
| "encode_groups [] = []"

fun decode_groups :: "nat list \<Rightarrow> byte list option" where
  "decode_groups (p # q # r # s # rest) =
     (let n = p * 262144 + q * 4096 + r * 64 + s in
      map_option (\<lambda>bytes. [of_nat (n div 65536), of_nat (n div 256 mod 256), of_nat (n mod 256)] @ bytes)
        (decode_groups rest))"
| "decode_groups [p, q, r] =
     (let n = p * 4096 + q * 64 + r in Some [of_nat (n div 1024), of_nat (n div 4 mod 256)])"
| "decode_groups [p, q] = Some [of_nat ((p * 64 + q) div 16)]"
| "decode_groups [p] = None"
| "decode_groups [] = Some []"

section \<open>Encoding is read back\<close>

lemma byte_bound: "unat (b :: byte) < 256"
  using unsigned_less [of b, where ?'a = nat] by simp

lemma b64_read_back: "n < 64 \<Longrightarrow> b64_value (b64_char n) = Some n"
  by (auto simp: b64_char_def b64_value_def Let_def)

lemma group_digits:
  fixes n :: nat
  shows "n div 262144 * 262144 + n div 4096 mod 64 * 4096 + n div 64 mod 64 * 64 + n mod 64 = n"
    "n div 4096 * 4096 + n div 64 mod 64 * 64 + n mod 64 = n" "n div 64 * 64 + n mod 64 = n"
proof -
  have high: "n div 4096 = n div 64 div 64" "n div 262144 = n div 64 div 64 div 64"
    by (simp_all flip: div_mult2_eq)
  have step: "m div 64 * 64 + m mod 64 = m" for m :: nat by simp
  show "n div 64 * 64 + n mod 64 = n" by (rule step)
  show "n div 4096 * 4096 + n div 64 mod 64 * 64 + n mod 64 = n"
    using step [of n] step [of "n div 64"] unfolding high by linarith
  show "n div 262144 * 262144 + n div 4096 mod 64 * 4096 + n div 64 mod 64 * 64 + n mod 64 = n"
    using step [of n] step [of "n div 64"] step [of "n div 64 div 64"] unfolding high by linarith
qed

lemma group_bytes:
  fixes a b c :: nat
  assumes "a < 256" "b < 256" "c < 256"
  shows "(a * 65536 + b * 256 + c) div 65536 = a" "(a * 65536 + b * 256 + c) div 256 mod 256 = b"
    "(a * 65536 + b * 256 + c) mod 256 = c" "(a * 256 + b) * 4 div 1024 = a" "(a * 256 + b) * 4 div 4 mod 256 = b"
    "(a * 65536 + b * 256 + c) div 262144 < 64" "(a * 256 + b) * 4 div 4096 < 64" "a * 16 div 64 < 64"
proof -
  have byte: "(y * 256 + x) div 256 = y" "(y * 256 + x) mod 256 = x" if "x < 256" for x y :: nat
    using that by simp_all
  have n: "a * 65536 + b * 256 + c = (a * 256 + b) * 256 + c" by simp
  have "(a * 65536 + b * 256 + c) div 256 = a * 256 + b" unfolding n by (rule byte(1) [OF assms(3)])
  then show "(a * 65536 + b * 256 + c) div 256 mod 256 = b" by (simp only: byte(2) [OF assms(2)])
  have "m div 65536 = m div 256 div 256" for m :: nat by (simp flip: div_mult2_eq)
  with \<open>(a * 65536 + b * 256 + c) div 256 = a * 256 + b\<close>
  show "(a * 65536 + b * 256 + c) div 65536 = a" by (simp only: byte(1) [OF assms(2)])
  show "(a * 65536 + b * 256 + c) mod 256 = c" unfolding n by (rule byte(2) [OF assms(3)])
  have four: "(a * 256 + b) * 4 div 4 = a * 256 + b" by simp
  show "(a * 256 + b) * 4 div 4 mod 256 = b" unfolding four by (rule byte(2) [OF assms(2)])
  have "(a * 256 + b) * 4 div 1024 = (a * 256 + b) * 4 div 4 div 256" by (simp flip: div_mult2_eq)
  then show "(a * 256 + b) * 4 div 1024 = a" unfolding four by (simp only: byte(1) [OF assms(2)])
  show "(a * 65536 + b * 256 + c) div 262144 < 64" "(a * 256 + b) * 4 div 4096 < 64" "a * 16 div 64 < 64"
    using assms by (simp_all add: div_less_iff_less_mult)
qed

theorem base64_roundtrip:
  "list_all (\<lambda>c. b64_value c \<noteq> None) (encode_groups bytes)
   \<and> decode_groups (map (the \<circ> b64_value) (encode_groups bytes)) = Some bytes"
proof (induction bytes rule: encode_groups.induct)
  case (1 a b c rest)
  define n where "n = unat a * 65536 + unat b * 256 + unat c"
  note bytes = group_bytes [of "unat a" "unat b" "unat c", OF byte_bound byte_bound byte_bound, folded n_def]
  let ?rest = "map (the \<circ> b64_value) (encode_groups rest)"
  have encoded: "encode_groups (a # b # c # rest) = [b64_char (n div 262144), b64_char (n div 4096 mod 64),
      b64_char (n div 64 mod 64), b64_char (n mod 64)] @ encode_groups rest"
    by (simp only: encode_groups.simps Let_def n_def)
  have "b64_value (b64_char (n div 262144)) = Some (n div 262144)" by (rule b64_read_back) (rule bytes(6))
  then have digits: "map (the \<circ> b64_value) (encode_groups (a # b # c # rest))
      = (n div 262144) # (n div 4096 mod 64) # (n div 64 mod 64) # (n mod 64) # ?rest"
    "list_all (\<lambda>c. b64_value c \<noteq> None) (encode_groups (a # b # c # rest))"
    using 1 unfolding encoded by (simp_all add: b64_read_back)
  have "decode_groups ((n div 262144) # (n div 4096 mod 64) # (n div 64 mod 64) # (n mod 64) # ?rest)
      = map_option (\<lambda>bytes. [of_nat (n div 65536), of_nat (n div 256 mod 256), of_nat (n mod 256)] @ bytes)
          (decode_groups ?rest)"
    by (simp only: decode_groups.simps Let_def group_digits)
  also have "\<dots> = Some (a # b # c # rest)" using 1 unfolding bytes(1-3) by (simp add: comp_def)
  finally show ?case using digits(2) by (simp only: digits(1))
next
  case (2 a b)
  define n where "n = (unat a * 256 + unat b) * 4"
  note bytes = group_bytes [of "unat a" "unat b" "unat b", OF byte_bound byte_bound byte_bound, folded n_def]
  have encoded: "encode_groups [a, b] = [b64_char (n div 4096), b64_char (n div 64 mod 64), b64_char (n mod 64)]"
    by (simp only: encode_groups.simps Let_def n_def)
  have "b64_value (b64_char (n div 4096)) = Some (n div 4096)" by (rule b64_read_back) (rule bytes(7))
  then have digits: "map (the \<circ> b64_value) (encode_groups [a, b]) = [n div 4096, n div 64 mod 64, n mod 64]"
    "list_all (\<lambda>c. b64_value c \<noteq> None) (encode_groups [a, b])"
    unfolding encoded by (simp_all add: b64_read_back)
  have "decode_groups [n div 4096, n div 64 mod 64, n mod 64]
      = Some [of_nat (n div 1024), of_nat (n div 4 mod 256)]"
    by (simp only: decode_groups.simps Let_def group_digits)
  also have "\<dots> = Some [a, b]" unfolding bytes(4,5) by simp
  finally show ?case using digits(2) by (simp only: digits(1))
next
  case (3 a)
  define n where "n = unat a * 16"
  note bytes = group_bytes [of "unat a" "unat a" "unat a", OF byte_bound byte_bound byte_bound, folded n_def]
  have encoded: "encode_groups [a] = [b64_char (n div 64), b64_char (n mod 64)]"
    by (simp only: encode_groups.simps Let_def n_def)
  have "b64_value (b64_char (n div 64)) = Some (n div 64)" by (rule b64_read_back) (rule bytes(8))
  then have digits: "map (the \<circ> b64_value) (encode_groups [a]) = [n div 64, n mod 64]"
    "list_all (\<lambda>c. b64_value c \<noteq> None) (encode_groups [a])"
    unfolding encoded by (simp_all add: b64_read_back)
  have "decode_groups [n div 64, n mod 64] = Some [of_nat (n div 16)]"
    by (simp only: decode_groups.simps group_digits)
  also have "\<dots> = Some [a]" unfolding n_def by simp
  finally show ?case using digits(2) by (simp only: digits(1))
qed simp

end
