(* ===== verification/Signed_Invocations.thy ===== *)
theory Signed_Invocations
  imports Base64url Serverless_Codec Py_Float
begin

text \<open>
  The signed receipts of \<^verbatim>\<open>signed_invocations.py\<close>.  Its wrapper \<^verbatim>\<open>_contract_boundary\<close> turns every exception of a
  public function into one class, so the error type has one value and a validation is a predicate.  The digests
  and Ed25519 come from other packages: they are the fields of \<open>signed_env\<close>.  A key is the list of its raw bytes.
  The canonical text of a JSON value is represented by the value with sorted keys, which determines it.
\<close>

section \<open>Definitions\<close>

subsection \<open>Errors and digests\<close>

datatype signed_error = SignedInvocationError

definition accept :: "bool \<Rightarrow> 'a \<Rightarrow> signed_error + 'a" where
  "accept ok x = (if ok then Inr x else Inl SignedInvocationError)"

datatype loaded_key = Ed25519 "byte list" | Other_key | Invalid_der

record signed_env =
  sg_json_hex :: "json \<Rightarrow> string"
  sg_text_hex :: "string \<Rightarrow> string option"
  sg_bytes_hex :: "byte list \<Rightarrow> string"
  sg_read_time :: text_reader
  sg_load_public :: "byte list \<Rightarrow> loaded_key"
  sg_load_private :: "byte list \<Rightarrow> loaded_key"
  sg_public_der :: "byte list \<Rightarrow> byte list"
  sg_sign :: "byte list \<Rightarrow> json \<Rightarrow> byte list"
  sg_verify :: "byte list \<Rightarrow> byte list \<Rightarrow> json \<Rightarrow> bool"

text \<open>\<^verbatim>\<open>json.dumps(sort_keys=True)\<close>: the keys of every object in order.\<close>

fun sort_json :: "json \<Rightarrow> json" where
  "sort_json (JObj kvs) = JObj (sort_key fst (map (\<lambda>(k, v). (k, sort_json v)) kvs))"
| "sort_json (JList xs) = JList (map sort_json xs)"
| "sort_json v = v"

definition canonical_sha256 :: "signed_env \<Rightarrow> json \<Rightarrow> string" where
  "canonical_sha256 E v = ''sha256:'' @ sg_json_hex E (sort_json v)"

definition utf8_sha256 :: "signed_env \<Rightarrow> string \<Rightarrow> signed_error + string" where
  "utf8_sha256 E s = (case sg_text_hex E s of
     None \<Rightarrow> Inl SignedInvocationError | Some h \<Rightarrow> Inr (''sha256:'' @ h))"

definition max_json_depth :: nat where
  "max_json_depth = 64"

text \<open>
  The values that \<^verbatim>\<open>_require_exact_json_values\<close> accepts: no decimal, no instant, no NaN, and at most 64 levels
  below the top; \<open>room\<close> is the number of levels left.
\<close>

fun exact_json :: "nat \<Rightarrow> json \<Rightarrow> bool" where
  "exact_json room (JObj kvs) = list_all (\<lambda>(k, v). (case room of 0 \<Rightarrow> False | Suc n \<Rightarrow> exact_json n v)) kvs"
| "exact_json room (JList xs) = list_all (\<lambda>v. (case room of 0 \<Rightarrow> False | Suc n \<Rightarrow> exact_json n v)) xs"
| "exact_json room (JNum d) = is_finite d"
| "exact_json room (JAmount a) = False"
| "exact_json room (JTime t) = False"
| "exact_json room v = True"

definition canonical_json_object :: "json \<Rightarrow> signed_error + json" where
  "canonical_json_object v = accept (is_jobj v \<and> exact_json max_json_depth v) (sort_json v)"

subsection \<open>Text formats\<close>

definition signed_identifier :: "string \<Rightarrow> bool" where
  "signed_identifier s \<longleftrightarrow> s \<noteq> [] \<and> length s \<le> 255 \<and> is_alnum (hd s)
     \<and> list_all (\<lambda>c. is_ident_char c \<or> c = CHR ''@'' \<or> c = CHR ''+'') s"

definition prefixed_sha256 :: "string \<Rightarrow> bool" where
  "prefixed_sha256 s \<longleftrightarrow> take 7 s = ''sha256:'' \<and> sha256_text (drop 7 s)"

definition is_route_char :: "char \<Rightarrow> bool" where
  "is_route_char c \<longleftrightarrow> is_alnum c \<or> c \<in> set ''._~!$&()*+,;=:@/-'' \<or> of_char c = (39 :: int)"

definition relative_route :: "string \<Rightarrow> bool" where
  "relative_route s \<longleftrightarrow>
     s \<noteq> [] \<and> hd s = CHR ''/'' \<and> 2 \<le> length s \<and> length s \<le> 512 \<and> list_all is_route_char (tl s)
     \<and> \<not> contains_text ''//'' s \<and> \<not> contains_text ''/../'' (s @ ''/'') \<and> \<not> contains_text ''/./'' (s @ ''/'')"

definition optionally :: "('a \<Rightarrow> bool) \<Rightarrow> 'a option \<Rightarrow> bool" where
  "optionally P x = (case x of None \<Rightarrow> True | Some v \<Rightarrow> P v)"

definition base64url_decode :: "string \<Rightarrow> signed_error + byte list" where
  "base64url_decode s =
     (if s = [] \<or> \<not> list_all (\<lambda>c. b64_value c \<noteq> None) s then Inl SignedInvocationError
      else case decode_groups (map (the \<circ> b64_value) s) of
          None \<Rightarrow> Inl SignedInvocationError | Some bytes \<Rightarrow> Inr bytes)"

definition phase_evidence_sha256 :: "signed_env \<Rightarrow> string \<Rightarrow> json \<Rightarrow> signed_error + string" where
  "phase_evidence_sha256 E phase evidence =
     (if \<not> signed_identifier phase then Inl SignedInvocationError
      else bindE (canonical_json_object evidence) (\<lambda>normalized.
        accept (jget normalized ''phase'' = JStr phase) (canonical_sha256 E normalized)))"

definition iso :: "datetime \<Rightarrow> signed_error + json" where
  "iso t = accept (is_aware t) (JTime t)"

definition parse_time :: "signed_env \<Rightarrow> json \<Rightarrow> signed_error + datetime" where
  "parse_time E v = (case v of
       JTime t \<Rightarrow> accept (is_aware t) t
     | JStr s \<Rightarrow> (case sg_read_time E s of
           None \<Rightarrow> Inl SignedInvocationError | Some t \<Rightarrow> accept (is_aware t) t)
     | _ \<Rightarrow> Inl SignedInvocationError)"

definition payload_string :: "json \<Rightarrow> signed_error + string" where
  "payload_string v = (case v of JStr s \<Rightarrow> Inr s | _ \<Rightarrow> Inl SignedInvocationError)"

definition optional_payload_string :: "json \<Rightarrow> signed_error + string option" where
  "optional_payload_string v = (case v of
     JNull \<Rightarrow> Inr None | JStr s \<Rightarrow> Inr (Some s) | _ \<Rightarrow> Inl SignedInvocationError)"

definition optional_sha256 :: "json \<Rightarrow> signed_error + string option" where
  "optional_sha256 v = (case v of
     JNull \<Rightarrow> Inr None | JStr s \<Rightarrow> accept (prefixed_sha256 s) (Some s) | _ \<Rightarrow> Inl SignedInvocationError)"

definition strict_int :: "json \<Rightarrow> signed_error + int" where
  "strict_int v = (case v of JInt n \<Rightarrow> Inr n | _ \<Rightarrow> Inl SignedInvocationError)"

definition object_of :: "json \<Rightarrow> string list \<Rightarrow> signed_error + unit" where
  "object_of v names = accept (is_jobj v \<and> set (jkeys v) = set names) ()"

subsection \<open>The request\<close>

record AttestedInvokeRequest =
  ir_run_id :: string
  ir_phase :: string
  ir_request_id :: string
  ir_input :: string
  ir_model :: "string option"
  ir_provider :: "string option"
  ir_session_id :: "string option"
  ir_operation_digest :: "string option"
  ir_quote_digest :: "string option"
  ir_resource_plan_digest :: "string option"

definition invoke_request_valid :: "AttestedInvokeRequest \<Rightarrow> bool" where
  "invoke_request_valid r \<longleftrightarrow>
     list_all signed_identifier [ir_run_id r, ir_phase r, ir_request_id r] \<and> ir_input r \<noteq> []
     \<and> list_all (optionally signed_identifier) [ir_model r, ir_provider r, ir_session_id r]
     \<and> list_all (optionally prefixed_sha256)
         [ir_operation_digest r, ir_quote_digest r, ir_resource_plan_digest r]"

definition invoke_request_to_payload :: "AttestedInvokeRequest \<Rightarrow> json" where
  "invoke_request_to_payload r = JObj
     [(''run_id'', JStr (ir_run_id r)), (''phase'', JStr (ir_phase r)),
      (''request_id'', JStr (ir_request_id r)), (''input'', JStr (ir_input r)),
      (''model'', jopt JStr (ir_model r)), (''provider'', jopt JStr (ir_provider r)),
      (''session_id'', jopt JStr (ir_session_id r)),
      (''operation_digest'', jopt JStr (ir_operation_digest r)),
      (''quote_digest'', jopt JStr (ir_quote_digest r)),
      (''resource_plan_digest'', jopt JStr (ir_resource_plan_digest r))]"

definition invoke_request_fields :: "string list" where
  "invoke_request_fields =
     [''run_id'', ''phase'', ''request_id'', ''input'', ''model'', ''provider'', ''session_id'',
      ''operation_digest'', ''quote_digest'', ''resource_plan_digest'']"

definition invoke_request_from_payload :: "json \<Rightarrow> signed_error + AttestedInvokeRequest" where
  "invoke_request_from_payload v =
     bindE (object_of v invoke_request_fields) (\<lambda>_.
     bindE (payload_string (jget v ''run_id'')) (\<lambda>run_id.
     bindE (payload_string (jget v ''phase'')) (\<lambda>phase.
     bindE (payload_string (jget v ''request_id'')) (\<lambda>request_id.
     bindE (payload_string (jget v ''input'')) (\<lambda>input.
     bindE (optional_payload_string (jget v ''model'')) (\<lambda>model.
     bindE (optional_payload_string (jget v ''provider'')) (\<lambda>provider.
     bindE (optional_payload_string (jget v ''session_id'')) (\<lambda>session_id.
     bindE (optional_sha256 (jget v ''operation_digest'')) (\<lambda>operation_digest.
     bindE (optional_sha256 (jget v ''quote_digest'')) (\<lambda>quote_digest.
     bindE (optional_sha256 (jget v ''resource_plan_digest'')) (\<lambda>resource_plan_digest.
     let r = \<lparr> ir_run_id = run_id, ir_phase = phase, ir_request_id = request_id, ir_input = input,
           ir_model = model, ir_provider = provider, ir_session_id = session_id,
           ir_operation_digest = operation_digest, ir_quote_digest = quote_digest,
           ir_resource_plan_digest = resource_plan_digest \<rparr>
     in accept (invoke_request_valid r) r)))))))))))"

subsection \<open>The pinned trust\<close>

record ReceiptTrust =
  tk_target :: string
  tk_route :: string
  tk_key_id :: string
  tk_public_key_spki_b64 :: string
  tk_public_key_sha256 :: string
  tk_owner_binding_sha256 :: string
  tk_companion_id :: string
  tk_agent_id :: string

definition trust_valid :: "signed_env \<Rightarrow> ReceiptTrust \<Rightarrow> bool" where
  "trust_valid E t \<longleftrightarrow>
     signed_identifier (tk_target t) \<and> relative_route (tk_route t)
     \<and> list_all signed_identifier [tk_key_id t, tk_companion_id t, tk_agent_id t]
     \<and> list_all prefixed_sha256 [tk_public_key_sha256 t, tk_owner_binding_sha256 t]
     \<and> (case base64url_decode (tk_public_key_spki_b64 t) of
          Inl _ \<Rightarrow> False
        | Inr der \<Rightarrow> ''sha256:'' @ sg_bytes_hex E der = tk_public_key_sha256 t
            \<and> (case sg_load_public E der of Ed25519 _ \<Rightarrow> True | _ \<Rightarrow> False))"

definition trust_fields :: "string list" where
  "trust_fields = [''target'', ''route'', ''key_id'', ''public_key_spki_b64'', ''public_key_sha256'',
     ''owner_binding_sha256'', ''companion_id'', ''agent_id'']"

definition trust_to_payload :: "ReceiptTrust \<Rightarrow> json" where
  "trust_to_payload t = JObj
     [(''target'', JStr (tk_target t)), (''route'', JStr (tk_route t)), (''key_id'', JStr (tk_key_id t)),
      (''public_key_spki_b64'', JStr (tk_public_key_spki_b64 t)),
      (''public_key_sha256'', JStr (tk_public_key_sha256 t)),
      (''owner_binding_sha256'', JStr (tk_owner_binding_sha256 t)),
      (''companion_id'', JStr (tk_companion_id t)), (''agent_id'', JStr (tk_agent_id t))]"

definition trust_from_payload :: "signed_env \<Rightarrow> json \<Rightarrow> signed_error + ReceiptTrust" where
  "trust_from_payload E v =
     bindE (object_of v trust_fields) (\<lambda>_.
     bindE (payload_string (jget v ''target'')) (\<lambda>target.
     bindE (payload_string (jget v ''route'')) (\<lambda>trust_route.
     bindE (payload_string (jget v ''key_id'')) (\<lambda>key_id.
     bindE (payload_string (jget v ''public_key_spki_b64'')) (\<lambda>spki.
     bindE (payload_string (jget v ''public_key_sha256'')) (\<lambda>key_digest.
     bindE (payload_string (jget v ''owner_binding_sha256'')) (\<lambda>owner_binding.
     bindE (payload_string (jget v ''companion_id'')) (\<lambda>companion_id.
     bindE (payload_string (jget v ''agent_id'')) (\<lambda>agent_id.
     let t = \<lparr> tk_target = target, tk_route = trust_route, tk_key_id = key_id,
           tk_public_key_spki_b64 = spki, tk_public_key_sha256 = key_digest,
           tk_owner_binding_sha256 = owner_binding, tk_companion_id = companion_id,
           tk_agent_id = agent_id \<rparr>
     in accept (trust_valid E t) t)))))))))"

subsection \<open>The receipt\<close>

definition receipt_contract :: string where
  "receipt_contract = ''frinz-agent-invocation-receipt-v1''"

definition receipt_algorithm :: string where
  "receipt_algorithm = ''Ed25519''"

definition authenticated_transport :: string where
  "authenticated_transport = ''frinz_authenticated_http''"

record ServerInvokeReceipt =
  vr_receipt_id :: string
  vr_run_id :: string
  vr_phase :: string
  vr_route :: string
  vr_request_id :: string
  vr_owner_binding_sha256 :: string
  vr_companion_id :: string
  vr_agent_id :: string
  vr_input_sha256 :: string
  vr_response_sha256 :: string
  vr_transport :: string
  vr_model :: "string option"
  vr_provider :: "string option"
  vr_session_id :: "string option"
  vr_operation_digest :: "string option"
  vr_quote_digest :: "string option"
  vr_resource_plan_digest :: "string option"
  vr_evidence_digest :: string
  vr_started_at :: datetime
  vr_completed_at :: datetime
  vr_elapsed_ms :: int
  vr_issued_at :: datetime
  vr_key_id :: string
  vr_public_key_sha256 :: string
  vr_signature_b64 :: string
  vr_contract :: string
  vr_signature_algorithm :: string

text \<open>\<^verbatim>\<open>round\<close> of a float goes to the even neighbour at a half.\<close>

definition elapsed_ms :: "datetime \<Rightarrow> datetime \<Rightarrow> int" where
  "elapsed_ms started completed =
     round_half_even (float_value (total_seconds (usec completed - usec started) * 1000))"

definition receipt_valid :: "ServerInvokeReceipt \<Rightarrow> bool" where
  "receipt_valid r \<longleftrightarrow>
     vr_contract r = receipt_contract \<and> vr_signature_algorithm r = receipt_algorithm
     \<and> list_all signed_identifier [vr_receipt_id r, vr_run_id r, vr_phase r, vr_request_id r,
         vr_companion_id r, vr_agent_id r, vr_transport r, vr_key_id r]
     \<and> vr_transport r = authenticated_transport \<and> relative_route (vr_route r)
     \<and> list_all prefixed_sha256 [vr_owner_binding_sha256 r, vr_input_sha256 r, vr_response_sha256 r,
         vr_evidence_digest r, vr_public_key_sha256 r]
     \<and> list_all (optionally prefixed_sha256)
         [vr_operation_digest r, vr_quote_digest r, vr_resource_plan_digest r]
     \<and> list_all (optionally signed_identifier) [vr_model r, vr_provider r, vr_session_id r]
     \<and> list_all is_aware [vr_started_at r, vr_completed_at r, vr_issued_at r]
     \<and> vr_started_at r \<le> vr_completed_at r \<and> vr_completed_at r \<le> vr_issued_at r
     \<and> 0 \<le> vr_elapsed_ms r \<and> vr_elapsed_ms r = elapsed_ms (vr_started_at r) (vr_completed_at r)
     \<and> (case base64url_decode (vr_signature_b64 r) of Inl _ \<Rightarrow> False | Inr bytes \<Rightarrow> length bytes = 64)"

definition signed_payload :: "ServerInvokeReceipt \<Rightarrow> json" where
  "signed_payload r = JObj
     [(''run_id'', JStr (vr_run_id r)), (''phase'', JStr (vr_phase r)), (''route'', JStr (vr_route r)),
      (''request_id'', JStr (vr_request_id r)),
      (''owner_binding_sha256'', JStr (vr_owner_binding_sha256 r)),
      (''companion_id'', JStr (vr_companion_id r)), (''agent_id'', JStr (vr_agent_id r)),
      (''input_sha256'', JStr (vr_input_sha256 r)), (''response_sha256'', JStr (vr_response_sha256 r)),
      (''transport'', JStr (vr_transport r)), (''model'', jopt JStr (vr_model r)),
      (''provider'', jopt JStr (vr_provider r)), (''session_id'', jopt JStr (vr_session_id r)),
      (''operation_digest'', jopt JStr (vr_operation_digest r)),
      (''quote_digest'', jopt JStr (vr_quote_digest r)),
      (''resource_plan_digest'', jopt JStr (vr_resource_plan_digest r)),
      (''evidence_digest'', JStr (vr_evidence_digest r)), (''started_at'', JTime (vr_started_at r)),
      (''completed_at'', JTime (vr_completed_at r)), (''elapsed_ms'', JInt (vr_elapsed_ms r)),
      (''issued_at'', JTime (vr_issued_at r)), (''receipt_id'', JStr (vr_receipt_id r))]"

text \<open>The envelope of a payload with the text of a signature.\<close>

definition receipt_envelope :: "json \<Rightarrow> string \<Rightarrow> string \<Rightarrow> string \<Rightarrow> string \<Rightarrow> string \<Rightarrow> json" where
  "receipt_envelope payload contract algorithm key_id key_digest signature = JObj
     [(''contract'', JStr contract), (''payload'', payload),
      (''signature'', JObj [(''algorithm'', JStr algorithm), (''key_id'', JStr key_id),
         (''public_key_sha256'', JStr key_digest), (''value'', JStr signature)])]"

definition receipt_to_payload :: "ServerInvokeReceipt \<Rightarrow> json" where
  "receipt_to_payload r = receipt_envelope (signed_payload r) (vr_contract r) (vr_signature_algorithm r)
     (vr_key_id r) (vr_public_key_sha256 r) (vr_signature_b64 r)"

definition receipt_payload_fields :: "string list" where
  "receipt_payload_fields =
     [''run_id'', ''phase'', ''route'', ''request_id'', ''owner_binding_sha256'', ''companion_id'', ''agent_id'',
      ''input_sha256'', ''response_sha256'', ''transport'', ''model'', ''provider'', ''session_id'',
      ''operation_digest'', ''quote_digest'', ''resource_plan_digest'', ''evidence_digest'', ''started_at'',
      ''completed_at'', ''elapsed_ms'', ''issued_at'', ''receipt_id'']"

definition receipt_from_payload :: "signed_env \<Rightarrow> json \<Rightarrow> signed_error + ServerInvokeReceipt" where
  "receipt_from_payload E v =
     bindE (object_of v [''contract'', ''payload'', ''signature'']) (\<lambda>_.
     let p = jget v ''payload''; s = jget v ''signature'' in
     bindE (object_of p receipt_payload_fields) (\<lambda>_.
     bindE (object_of s [''algorithm'', ''key_id'', ''public_key_sha256'', ''value'']) (\<lambda>_.
     bindE (payload_string (jget v ''contract'')) (\<lambda>contract.
     bindE (payload_string (jget p ''receipt_id'')) (\<lambda>receipt_id.
     bindE (payload_string (jget p ''run_id'')) (\<lambda>run_id.
     bindE (payload_string (jget p ''phase'')) (\<lambda>phase.
     bindE (payload_string (jget p ''route'')) (\<lambda>receipt_route.
     bindE (payload_string (jget p ''request_id'')) (\<lambda>request_id.
     bindE (payload_string (jget p ''owner_binding_sha256'')) (\<lambda>owner_binding.
     bindE (payload_string (jget p ''companion_id'')) (\<lambda>companion_id.
     bindE (payload_string (jget p ''agent_id'')) (\<lambda>agent_id.
     bindE (payload_string (jget p ''input_sha256'')) (\<lambda>input_digest.
     bindE (payload_string (jget p ''response_sha256'')) (\<lambda>response_digest.
     bindE (payload_string (jget p ''transport'')) (\<lambda>transport.
     bindE (optional_payload_string (jget p ''model'')) (\<lambda>model.
     bindE (optional_payload_string (jget p ''provider'')) (\<lambda>provider.
     bindE (optional_payload_string (jget p ''session_id'')) (\<lambda>session_id.
     bindE (optional_sha256 (jget p ''operation_digest'')) (\<lambda>operation_digest.
     bindE (optional_sha256 (jget p ''quote_digest'')) (\<lambda>quote_digest.
     bindE (optional_sha256 (jget p ''resource_plan_digest'')) (\<lambda>resource_plan_digest.
     bindE (payload_string (jget p ''evidence_digest'')) (\<lambda>evidence_digest.
     bindE (parse_time E (jget p ''started_at'')) (\<lambda>started_at.
     bindE (parse_time E (jget p ''completed_at'')) (\<lambda>completed_at.
     bindE (strict_int (jget p ''elapsed_ms'')) (\<lambda>elapsed.
     bindE (parse_time E (jget p ''issued_at'')) (\<lambda>issued_at.
     bindE (payload_string (jget s ''key_id'')) (\<lambda>key_id.
     bindE (payload_string (jget s ''public_key_sha256'')) (\<lambda>key_digest.
     bindE (payload_string (jget s ''value'')) (\<lambda>signature.
     bindE (payload_string (jget s ''algorithm'')) (\<lambda>algorithm.
     let r = \<lparr> vr_receipt_id = receipt_id, vr_run_id = run_id, vr_phase = phase, vr_route = receipt_route,
           vr_request_id = request_id, vr_owner_binding_sha256 = owner_binding,
           vr_companion_id = companion_id, vr_agent_id = agent_id, vr_input_sha256 = input_digest,
           vr_response_sha256 = response_digest, vr_transport = transport, vr_model = model,
           vr_provider = provider, vr_session_id = session_id, vr_operation_digest = operation_digest,
           vr_quote_digest = quote_digest, vr_resource_plan_digest = resource_plan_digest,
           vr_evidence_digest = evidence_digest, vr_started_at = started_at,
           vr_completed_at = completed_at, vr_elapsed_ms = elapsed, vr_issued_at = issued_at,
           vr_key_id = key_id, vr_public_key_sha256 = key_digest, vr_signature_b64 = signature,
           vr_contract = contract, vr_signature_algorithm = algorithm \<rparr>
     in accept (receipt_valid r) r))))))))))))))))))))))))))))))"

subsection \<open>The response\<close>

record AttestedInvokeResponse =
  vs_response :: string
  vs_model :: "string option"
  vs_provider :: "string option"
  vs_session_id :: "string option"
  vs_phase_evidence :: json
  vs_invocation_receipt :: ServerInvokeReceipt

text \<open>The constructor: its checks, after which the evidence is stored in its canonical form.\<close>

definition make_response :: "signed_env \<Rightarrow> AttestedInvokeResponse \<Rightarrow> signed_error + AttestedInvokeResponse" where
  "make_response E x =
     (let r = vs_invocation_receipt x in
      if \<not> list_all (optionally signed_identifier) [vs_model x, vs_provider x, vs_session_id x]
      then Inl SignedInvocationError
      else bindE (utf8_sha256 E (vs_response x)) (\<lambda>response_digest.
        if vr_response_sha256 r \<noteq> response_digest \<or> vr_model r \<noteq> vs_model x
          \<or> vr_provider r \<noteq> vs_provider x \<or> vr_session_id r \<noteq> vs_session_id x
        then Inl SignedInvocationError
        else bindE (canonical_json_object (vs_phase_evidence x)) (\<lambda>normalized.
          bindE (phase_evidence_sha256 E (vr_phase r) normalized) (\<lambda>digest.
          accept (vr_evidence_digest r = digest) (x\<lparr> vs_phase_evidence := normalized \<rparr>)))))"

definition response_to_payload :: "AttestedInvokeResponse \<Rightarrow> json" where
  "response_to_payload x = JObj
     [(''response'', JStr (vs_response x)), (''model'', jopt JStr (vs_model x)),
      (''provider'', jopt JStr (vs_provider x)), (''session_id'', jopt JStr (vs_session_id x)),
      (''phase_evidence'', vs_phase_evidence x),
      (''invocation_receipt'', receipt_to_payload (vs_invocation_receipt x))]"

definition response_from_payload :: "signed_env \<Rightarrow> json \<Rightarrow> signed_error + AttestedInvokeResponse" where
  "response_from_payload E v =
     bindE (object_of v [''response'', ''model'', ''provider'', ''session_id'', ''phase_evidence'',
        ''invocation_receipt'']) (\<lambda>_.
     if \<not> is_jobj (jget v ''phase_evidence'') then Inl SignedInvocationError
     else bindE (payload_string (jget v ''response'')) (\<lambda>response.
       bindE (optional_payload_string (jget v ''model'')) (\<lambda>model.
       bindE (optional_payload_string (jget v ''provider'')) (\<lambda>provider.
       bindE (optional_payload_string (jget v ''session_id'')) (\<lambda>session_id.
       bindE (receipt_from_payload E (jget v ''invocation_receipt'')) (\<lambda>receipt.
       make_response E \<lparr> vs_response = response, vs_model = model, vs_provider = provider,
         vs_session_id = session_id, vs_phase_evidence = jget v ''phase_evidence'',
         vs_invocation_receipt = receipt \<rparr>))))))"

subsection \<open>The verifier and the signer\<close>

text \<open>The trust set of a verifier.\<close>

definition make_verifier :: "ReceiptTrust list \<Rightarrow> signed_error + ReceiptTrust list" where
  "make_verifier trusts = accept (trusts \<noteq> [] \<and> distinct (map tk_target trusts)) trusts"

definition trust_matches :: "ServerInvokeReceipt \<Rightarrow> ReceiptTrust \<Rightarrow> bool" where
  "trust_matches r t \<longleftrightarrow>
     vr_route r = tk_route t \<and> vr_owner_binding_sha256 r = tk_owner_binding_sha256 t
     \<and> vr_companion_id r = tk_companion_id t \<and> vr_agent_id r = tk_agent_id t
     \<and> vr_key_id r = tk_key_id t \<and> vr_public_key_sha256 r = tk_public_key_sha256 t"

definition verify_signature :: "signed_env \<Rightarrow> ReceiptTrust \<Rightarrow> ServerInvokeReceipt \<Rightarrow> signed_error + string" where
  "verify_signature E t r =
     bindE (base64url_decode (tk_public_key_spki_b64 t)) (\<lambda>der.
     case sg_load_public E der of
       Ed25519 k \<Rightarrow> bindE (base64url_decode (vr_signature_b64 r)) (\<lambda>signature.
         accept (sg_verify E k signature (sort_json (signed_payload r))) (tk_target t))
     | _ \<Rightarrow> Inl SignedInvocationError)"

definition verify_receipt :: "signed_env \<Rightarrow> ReceiptTrust list \<Rightarrow> ServerInvokeReceipt \<Rightarrow> string \<Rightarrow> string
    \<Rightarrow> string \<Rightarrow> string \<Rightarrow> string option \<Rightarrow> string option \<Rightarrow> string option \<Rightarrow> signed_error + string" where
  "verify_receipt E trusts r run_id phase request_id input_text op_digest quote_digest plan_digest =
     (case filter (trust_matches r) trusts of
        [t] \<Rightarrow>
          if \<not> list_all signed_identifier [run_id, phase, request_id] then Inl SignedInvocationError
          else if vr_run_id r \<noteq> run_id \<or> vr_phase r \<noteq> phase \<or> vr_request_id r \<noteq> request_id
          then Inl SignedInvocationError
          else bindE (utf8_sha256 E input_text) (\<lambda>input_digest.
            if vr_input_sha256 r \<noteq> input_digest \<or> vr_operation_digest r \<noteq> op_digest
              \<or> vr_quote_digest r \<noteq> quote_digest \<or> vr_resource_plan_digest r \<noteq> plan_digest
            then Inl SignedInvocationError
            else verify_signature E t r)
      | _ \<Rightarrow> Inl SignedInvocationError)"

definition verify_phase_evidence :: "signed_env \<Rightarrow> ServerInvokeReceipt \<Rightarrow> json \<Rightarrow> signed_error + unit" where
  "verify_phase_evidence E r evidence =
     bindE (phase_evidence_sha256 E (vr_phase r) evidence) (\<lambda>digest.
     accept (vr_evidence_digest r = digest) ())"

record InvokeReceiptSigner =
  ig_key :: "byte list"
  ig_key_id :: string
  ig_public_key_sha256 :: string

definition make_signer :: "signed_env \<Rightarrow> string \<Rightarrow> string \<Rightarrow> signed_error + InvokeReceiptSigner" where
  "make_signer E private_key_b64 key_id =
     (if \<not> signed_identifier key_id then Inl SignedInvocationError
      else bindE (base64url_decode private_key_b64) (\<lambda>der.
        case sg_load_private E der of
          Ed25519 k \<Rightarrow> Inr \<lparr> ig_key = k, ig_key_id = key_id,
             ig_public_key_sha256 = ''sha256:'' @ sg_bytes_hex E (sg_public_der E k) \<rparr>
        | _ \<Rightarrow> Inl SignedInvocationError))"

text \<open>
  Signing: the payload is read as a receipt with a zero signature, so that what is signed is its normal form.
\<close>

definition sign_receipt :: "signed_env \<Rightarrow> InvokeReceiptSigner \<Rightarrow> json \<Rightarrow> signed_error + ServerInvokeReceipt" where
  "sign_receipt E s payload =
     (if \<not> is_jobj payload then Inl SignedInvocationError
      else
        let envelope = (\<lambda>p signature. receipt_envelope p receipt_contract receipt_algorithm (ig_key_id s)
              (ig_public_key_sha256 s) (encode_groups signature))
        in bindE (receipt_from_payload E (envelope payload (replicate 64 0))) (\<lambda>unsigned.
           receipt_from_payload E (envelope (signed_payload unsigned)
             (sg_sign E (ig_key s) (sort_json (signed_payload unsigned))))))"

end
