(* ===== verification/Dogfood_Contracts.thy ===== *)
theory Dogfood_Contracts
  imports Signed_Invocations
begin

text \<open>
  The contracts of \<^verbatim>\<open>dogfood_contracts.py\<close>: identities, plans, attempts, quotes and observations of a live run, with
  their validation, payloads and the check that evidence is free of content.  As in \<^verbatim>\<open>signed_invocations.py\<close>
  a wrapper turns every exception into one class.
\<close>

section \<open>Definitions\<close>

datatype dogfood_error = DogfoodSafetyError

definition admit :: "bool \<Rightarrow> 'a \<Rightarrow> dogfood_error + 'a" where
  "admit ok x = (if ok then Inr x else Inl DogfoodSafetyError)"

subsection \<open>Enumerations\<close>

datatype ResourceType = RT_POD | RT_SERVERLESS_ENDPOINT | RT_NETWORK_VOLUME

datatype DogfoodLane = LANE_OLLAMA | LANE_LORA | LANE_SELFIE

datatype DogfoodPhase =
  PRE_LORA_SELFIE | OLLAMA_QUOTE | OLLAMA_ACQUIRE | OLLAMA_INFERENCE | OLLAMA_STREAM
  | OLLAMA_RESTART_RECONCILE | OLLAMA_REPLAY | OLLAMA_CROSS_OWNER | OLLAMA_RELEASE | LORA_QUOTE
  | LORA_SUBMIT | LORA_POLL | LORA_CANCEL_LATE_RESULT | LORA_UPLOAD_ACK_INTERRUPT | LORA_REPLAY
  | LORA_CROSS_OWNER | LORA_PROMOTE | SELFIE_QUOTE | EXPIRED_CAPABILITY | COST_CAP_REFUSAL
  | PRIVACY_CLOUD_REFUSAL | POST_LORA_SELFIE | BILLING_RECONCILE | CLEANUP

fun dogfood_type_value :: "ResourceType \<Rightarrow> string" where
  "dogfood_type_value RT_POD = ''pod''"
| "dogfood_type_value RT_SERVERLESS_ENDPOINT = ''serverless_endpoint''"
| "dogfood_type_value RT_NETWORK_VOLUME = ''network_volume''"

fun lane_value :: "DogfoodLane \<Rightarrow> string" where
  "lane_value LANE_OLLAMA = ''ollama''"
| "lane_value LANE_LORA = ''lora''"
| "lane_value LANE_SELFIE = ''selfie''"

definition phases :: "(string \<times> DogfoodPhase) list" where
  "phases =
     [(''pre_lora_selfie'', PRE_LORA_SELFIE), (''ollama_quote'', OLLAMA_QUOTE),
      (''ollama_acquire'', OLLAMA_ACQUIRE), (''ollama_inference'', OLLAMA_INFERENCE),
      (''ollama_stream'', OLLAMA_STREAM), (''ollama_restart_reconcile'', OLLAMA_RESTART_RECONCILE),
      (''ollama_replay'', OLLAMA_REPLAY), (''ollama_cross_owner'', OLLAMA_CROSS_OWNER),
      (''ollama_release'', OLLAMA_RELEASE), (''lora_quote'', LORA_QUOTE), (''lora_submit'', LORA_SUBMIT),
      (''lora_poll'', LORA_POLL), (''lora_cancel_late_result'', LORA_CANCEL_LATE_RESULT),
      (''lora_upload_ack_interrupt'', LORA_UPLOAD_ACK_INTERRUPT), (''lora_replay'', LORA_REPLAY),
      (''lora_cross_owner'', LORA_CROSS_OWNER), (''lora_promote'', LORA_PROMOTE),
      (''selfie_quote'', SELFIE_QUOTE), (''expired_capability'', EXPIRED_CAPABILITY),
      (''cost_cap_refusal'', COST_CAP_REFUSAL), (''privacy_cloud_refusal'', PRIVACY_CLOUD_REFUSAL),
      (''post_lora_selfie'', POST_LORA_SELFIE), (''billing_reconcile'', BILLING_RECONCILE),
      (''cleanup'', CLEANUP)]"

definition phase_value :: "DogfoodPhase \<Rightarrow> string" where
  "phase_value p = fst (hd (filter (\<lambda>x. snd x = p) phases))"

definition resource_mutating_phases :: "DogfoodPhase list" where
  "resource_mutating_phases =
     [OLLAMA_ACQUIRE, LORA_SUBMIT, LORA_CANCEL_LATE_RESULT, LORA_UPLOAD_ACK_INTERRUPT, POST_LORA_SELFIE]"

subsection \<open>Payload values\<close>

definition dogfood_identifier :: "string \<Rightarrow> bool" where
  "dogfood_identifier s \<longleftrightarrow> signed_identifier s \<and> \<not> contains_text ''://'' s"

definition is_sha256 :: "string \<Rightarrow> bool" where
  "is_sha256 s = prefixed_sha256 s"

definition dogfood_string :: "json \<Rightarrow> dogfood_error + string" where
  "dogfood_string v = (case v of JStr s \<Rightarrow> Inr s | _ \<Rightarrow> Inl DogfoodSafetyError)"

definition dogfood_iso :: "datetime \<Rightarrow> dogfood_error + json" where
  "dogfood_iso t = admit (is_aware t) (JTime t)"

definition dogfood_time :: "text_reader \<Rightarrow> json \<Rightarrow> dogfood_error + datetime" where
  "dogfood_time R v = (case v of
       JTime t \<Rightarrow> admit (is_aware t) t
     | JStr s \<Rightarrow> (case R s of None \<Rightarrow> Inl DogfoodSafetyError | Some t \<Rightarrow> admit (is_aware t) t)
     | _ \<Rightarrow> Inl DogfoodSafetyError)"

definition dogfood_object :: "json \<Rightarrow> string list \<Rightarrow> dogfood_error + unit" where
  "dogfood_object v names = admit (is_jobj v \<and> set (jkeys v) = set names) ()"

text \<open>The member of an enumeration with a given value.\<close>

definition member_of :: "(string \<times> 'a) list \<Rightarrow> json \<Rightarrow> dogfood_error + 'a" where
  "member_of members v = bindE (dogfood_string v) (\<lambda>s. case map_of members s of
     None \<Rightarrow> Inl DogfoodSafetyError | Some x \<Rightarrow> Inr x)"

definition resource_types :: "(string \<times> ResourceType) list" where
  "resource_types = map (\<lambda>t. (dogfood_type_value t, t)) [RT_POD, RT_SERVERLESS_ENDPOINT, RT_NETWORK_VOLUME]"

definition lanes :: "(string \<times> DogfoodLane) list" where
  "lanes = map (\<lambda>l. (lane_value l, l)) [LANE_OLLAMA, LANE_LORA, LANE_SELFIE]"

text \<open>\<^verbatim>\<open>str(Decimal)\<close>: plain notation while the exponent is not positive and not too small.\<close>

definition decimal_str :: "decimal \<Rightarrow> string" where
  "decimal_str d = (case d of
       NonFinite \<Rightarrow> ''NaN''
     | Dec c e \<Rightarrow>
         let digits = nat_text \<bar>c\<bar>; n = int (length digits); left = e + n;
             point = (if e \<le> 0 \<and> - 6 < left then left else 1);
             mantissa =
               (if point \<le> 0 then ''0.'' @ replicate (nat (- point)) (CHR ''0'') @ digits
                else if n \<le> point then digits @ replicate (nat (point - n)) (CHR ''0'')
                else take (nat point) digits @ ''.'' @ drop (nat point) digits);
             suffix = (if left = point then []
               else ''E'' @ (if left < point then ''-'' else ''+'') @ nat_text \<bar>left - point\<bar>)
         in (if c < 0 then ''-'' else []) @ mantissa @ suffix)"

subsection \<open>Content-free evidence\<close>

definition timing_fields :: "string list" where
  "timing_fields = [''placement'', ''image_pull'', ''container_boot'', ''queue_delay'', ''model_load'',
     ''input_fetch'', ''inference'', ''training'', ''upload'', ''total'']"

definition operational_timing_fields :: "string list" where
  "operational_timing_fields = timing_fields @ [''cleanup'', ''billing_reconcile'']"

definition sensitive_key_parts :: "string list" where
  "sensitive_key_parts = [''api_key'', ''authorization'', ''bearer'', ''credential'', ''endpoint'', ''prompt'',
     ''response'', ''secret'', ''signed_url'', ''token'', ''url'', ''weight_bytes'']"

definition has_suffix :: "string \<Rightarrow> string \<Rightarrow> bool" where
  "has_suffix ending s \<longleftrightarrow> length ending \<le> length s \<and> drop (length s - length ending) s = ending"

definition sensitive_key :: "string \<Rightarrow> bool" where
  "sensitive_key k \<longleftrightarrow>
     (let n = map ascii_lower k in
      \<not> has_suffix ''_digest'' n \<and> \<not> has_suffix ''_sha256'' n
      \<and> list_ex (\<lambda>part. contains_text part n) sensitive_key_parts)"

text \<open>The characters that \<^verbatim>\<open>\w\<close> matches in the first 256 code points.\<close>

definition is_word_char :: "char \<Rightarrow> bool" where
  "is_word_char c \<longleftrightarrow>
     is_alnum c \<or> c = CHR ''_''
     \<or> (let n = (of_char c :: int) in n \<in> {170, 178, 179, 181, 185, 186, 188, 189, 190}
        \<or> (192 \<le> n \<and> n \<noteq> 215 \<and> n \<noteq> 247))"

definition starts_with :: "string \<Rightarrow> string \<Rightarrow> bool" where
  "starts_with prefix s \<longleftrightarrow> take (length prefix) s = prefix"

text \<open>\<^verbatim>\<open>\s*[=:]\<close> at the head of a text.\<close>

definition assignment_follows :: "string \<Rightarrow> bool" where
  "assignment_follows s =
     (case dropWhile is_space s of [] \<Rightarrow> False | c # _ \<Rightarrow> c = CHR ''='' \<or> c = CHR '':'')"

definition api_key_at :: "string \<Rightarrow> bool" where
  "api_key_at s \<longleftrightarrow>
     starts_with ''api'' s
     \<and> (let rest = drop 3 s;
            key = (if starts_with ''_'' rest \<or> starts_with ''-'' rest then drop 1 rest else rest)
        in starts_with ''key'' key \<and> assignment_follows (drop 3 key))"

text \<open>A match of \<^verbatim>\<open>_SENSITIVE_VALUE\<close> at the head of a lower-case text; \<open>previous\<close> is the character before.\<close>

definition credential_at :: "char option \<Rightarrow> string \<Rightarrow> bool" where
  "credential_at previous s \<longleftrightarrow>
     starts_with ''http://'' s \<or> starts_with ''https://'' s
     \<or> ((case previous of None \<Rightarrow> True | Some c \<Rightarrow> \<not> is_word_char c) \<and> starts_with ''bearer'' s
        \<and> (case drop 6 s of [] \<Rightarrow> False | c # _ \<Rightarrow> is_space c))
     \<or> api_key_at s
     \<or> list_ex (\<lambda>word. starts_with word s \<and> assignment_follows (drop (length word) s))
         [''token'', ''password'', ''secret'', ''signature'']"

fun credential_in :: "char option \<Rightarrow> string \<Rightarrow> bool" where
  "credential_in previous [] = False"
| "credential_in previous (c # s) \<longleftrightarrow> credential_at previous (c # s) \<or> credential_in (Some c) s"

definition sensitive_value :: "string \<Rightarrow> bool" where
  "sensitive_value s = credential_in None (map ascii_lower s)"

text \<open>\<open>room\<close> is the number of levels that may still be entered.\<close>

fun content_free :: "nat \<Rightarrow> json \<Rightarrow> bool" where
  "content_free room (JObj kvs) =
     list_all (\<lambda>(k, v). \<not> sensitive_key k \<and> (case room of 0 \<Rightarrow> False | Suc n \<Rightarrow> content_free n v)) kvs"
| "content_free room (JList xs) = list_all (\<lambda>v. (case room of 0 \<Rightarrow> False | Suc n \<Rightarrow> content_free n v)) xs"
| "content_free room (JStr s) = (\<not> sensitive_value s)"
| "content_free room v = True"

subsection \<open>Resources and plans\<close>

record ResourceIdentity =
  dr_resource_type :: ResourceType
  dr_resource_id :: string
  dr_resource_name :: string

definition resource_identity_valid :: "ResourceIdentity \<Rightarrow> bool" where
  "resource_identity_valid r \<longleftrightarrow> dogfood_identifier (dr_resource_id r) \<and> dogfood_identifier (dr_resource_name r)"

definition resource_identity_to_payload :: "ResourceIdentity \<Rightarrow> json" where
  "resource_identity_to_payload r = JObj
     [(''resource_type'', JStr (dogfood_type_value (dr_resource_type r))),
      (''resource_id'', JStr (dr_resource_id r)), (''resource_name'', JStr (dr_resource_name r))]"

definition resource_identity_from_payload :: "json \<Rightarrow> dogfood_error + ResourceIdentity" where
  "resource_identity_from_payload v =
     bindE (dogfood_object v [''resource_type'', ''resource_id'', ''resource_name'']) (\<lambda>_.
     bindE (member_of resource_types (jget v ''resource_type'')) (\<lambda>resource_type.
     bindE (dogfood_string (jget v ''resource_id'')) (\<lambda>resource_id.
     bindE (dogfood_string (jget v ''resource_name'')) (\<lambda>name.
     let r = \<lparr> dr_resource_type = resource_type, dr_resource_id = resource_id, dr_resource_name = name \<rparr>
     in admit (resource_identity_valid r) r))))"

record ExpectedResource =
  de_resource_type :: ResourceType
  de_resource_name :: string
  de_lane :: DogfoodLane

definition expected_resource_valid :: "ExpectedResource \<Rightarrow> bool" where
  "expected_resource_valid r = dogfood_identifier (de_resource_name r)"

definition expected_resource_to_payload :: "ExpectedResource \<Rightarrow> json" where
  "expected_resource_to_payload r = JObj
     [(''resource_type'', JStr (dogfood_type_value (de_resource_type r))),
      (''resource_name'', JStr (de_resource_name r)), (''lane'', JStr (lane_value (de_lane r)))]"

definition expected_resource_from_payload :: "json \<Rightarrow> dogfood_error + ExpectedResource" where
  "expected_resource_from_payload v =
     bindE (dogfood_object v [''resource_type'', ''resource_name'', ''lane'']) (\<lambda>_.
     bindE (member_of resource_types (jget v ''resource_type'')) (\<lambda>resource_type.
     bindE (dogfood_string (jget v ''resource_name'')) (\<lambda>name.
     bindE (member_of lanes (jget v ''lane'')) (\<lambda>lane.
     let r = \<lparr> de_resource_type = resource_type, de_resource_name = name, de_lane = lane \<rparr>
     in admit (expected_resource_valid r) r))))"

record ResourcePlan =
  dl_run_id :: string
  dl_phase :: DogfoodPhase
  dl_lane :: DogfoodLane
  dl_plan_id :: string
  dl_cleanup_family_id :: string
  dl_expected_resources :: "ExpectedResource list"
  dl_initial_resources :: "ExpectedResource list"

definition resource_plan_valid :: "ResourcePlan \<Rightarrow> bool" where
  "resource_plan_valid p \<longleftrightarrow>
     dogfood_identifier (dl_run_id p) \<and> dl_phase p \<in> set resource_mutating_phases
     \<and> dogfood_identifier (dl_plan_id p) \<and> dogfood_identifier (dl_cleanup_family_id p)
     \<and> dl_expected_resources p \<noteq> [] \<and> list_all (\<lambda>r. de_lane r = dl_lane p) (dl_expected_resources p)
     \<and> distinct (map (\<lambda>r. (de_resource_type r, de_resource_name r)) (dl_expected_resources p))
     \<and> dl_initial_resources p \<noteq> []
     \<and> list_all (\<lambda>r. r \<in> set (dl_expected_resources p)) (dl_initial_resources p)"

text \<open>The constructor; without initial resources all expected ones are initial.\<close>

definition make_resource_plan :: "string \<Rightarrow> DogfoodPhase \<Rightarrow> DogfoodLane \<Rightarrow> string \<Rightarrow> string
    \<Rightarrow> ExpectedResource list \<Rightarrow> ExpectedResource list option \<Rightarrow> dogfood_error + ResourcePlan" where
  "make_resource_plan run_id phase lane plan_id family expected initial =
     (let p = \<lparr> dl_run_id = run_id, dl_phase = phase, dl_lane = lane, dl_plan_id = plan_id,
           dl_cleanup_family_id = family, dl_expected_resources = expected,
           dl_initial_resources = (case initial of None \<Rightarrow> expected | Some rs \<Rightarrow> rs) \<rparr>
      in admit (resource_plan_valid p) p)"

definition resource_plan_to_payload :: "ResourcePlan \<Rightarrow> json" where
  "resource_plan_to_payload p = JObj
     [(''run_id'', JStr (dl_run_id p)), (''phase'', JStr (phase_value (dl_phase p))),
      (''lane'', JStr (lane_value (dl_lane p))), (''plan_id'', JStr (dl_plan_id p)),
      (''cleanup_family_id'', JStr (dl_cleanup_family_id p)),
      (''expected_resources'', JList (map expected_resource_to_payload (dl_expected_resources p))),
      (''initial_resources'', JList (map expected_resource_to_payload (dl_initial_resources p)))]"

definition resource_plan_digest :: "signed_env \<Rightarrow> ResourcePlan \<Rightarrow> string" where
  "resource_plan_digest E p = canonical_sha256 E (resource_plan_to_payload p)"

definition resource_plan_from_payload :: "json \<Rightarrow> dogfood_error + ResourcePlan" where
  "resource_plan_from_payload v =
     bindE (dogfood_object v [''run_id'', ''phase'', ''lane'', ''plan_id'', ''cleanup_family_id'',
        ''expected_resources'', ''initial_resources'']) (\<lambda>_.
     case (jget v ''expected_resources'', jget v ''initial_resources'') of
       (JList expected, JList initial) \<Rightarrow>
         bindE (dogfood_string (jget v ''run_id'')) (\<lambda>run_id.
         bindE (member_of phases (jget v ''phase'')) (\<lambda>phase.
         bindE (member_of lanes (jget v ''lane'')) (\<lambda>lane.
         bindE (dogfood_string (jget v ''plan_id'')) (\<lambda>plan_id.
         bindE (dogfood_string (jget v ''cleanup_family_id'')) (\<lambda>family.
         bindE (mapE expected_resource_from_payload expected) (\<lambda>es.
         bindE (mapE expected_resource_from_payload initial) (\<lambda>is.
         make_resource_plan run_id phase lane plan_id family es (Some is))))))))
     | _ \<Rightarrow> Inl DogfoodSafetyError)"

subsection \<open>Attempts and quotes\<close>

record ProviderAttemptIdentity =
  dt_run_id :: string
  dt_attempt_id :: string
  dt_phase :: DogfoodPhase
  dt_lane :: DogfoodLane
  dt_plan_digest :: string
  dt_quote_digest :: string
  dt_resource :: ResourceIdentity
  dt_provider_operation_id :: string
  dt_exclusive_window_sha256 :: string
  dt_started_at :: datetime
  dt_completed_at :: datetime

definition attempt_valid :: "ProviderAttemptIdentity \<Rightarrow> bool" where
  "attempt_valid a \<longleftrightarrow>
     list_all dogfood_identifier [dt_run_id a, dt_attempt_id a, dt_provider_operation_id a]
     \<and> dt_phase a \<in> set resource_mutating_phases
     \<and> list_all is_sha256 [dt_plan_digest a, dt_quote_digest a, dt_exclusive_window_sha256 a]
     \<and> is_aware (dt_started_at a) \<and> is_aware (dt_completed_at a) \<and> dt_started_at a \<le> dt_completed_at a"

definition attempt_to_payload :: "ProviderAttemptIdentity \<Rightarrow> json" where
  "attempt_to_payload a = JObj
     [(''run_id'', JStr (dt_run_id a)), (''attempt_id'', JStr (dt_attempt_id a)),
      (''phase'', JStr (phase_value (dt_phase a))), (''lane'', JStr (lane_value (dt_lane a))),
      (''plan_digest'', JStr (dt_plan_digest a)), (''quote_digest'', JStr (dt_quote_digest a)),
      (''resource'', resource_identity_to_payload (dt_resource a)),
      (''provider_operation_id'', JStr (dt_provider_operation_id a)),
      (''exclusive_window_sha256'', JStr (dt_exclusive_window_sha256 a)),
      (''started_at'', JTime (dt_started_at a)), (''completed_at'', JTime (dt_completed_at a))]"

definition attempt_fields :: "string list" where
  "attempt_fields = [''run_id'', ''attempt_id'', ''phase'', ''lane'', ''plan_digest'', ''quote_digest'',
     ''resource'', ''provider_operation_id'', ''exclusive_window_sha256'', ''started_at'', ''completed_at'']"

definition attempt_from_payload :: "text_reader \<Rightarrow> json \<Rightarrow> dogfood_error + ProviderAttemptIdentity" where
  "attempt_from_payload R v =
     bindE (dogfood_object v attempt_fields) (\<lambda>_.
     bindE (member_of phases (jget v ''phase'')) (\<lambda>phase.
     bindE (member_of lanes (jget v ''lane'')) (\<lambda>lane.
     bindE (dogfood_string (jget v ''run_id'')) (\<lambda>run_id.
     bindE (dogfood_string (jget v ''attempt_id'')) (\<lambda>attempt_id.
     bindE (dogfood_string (jget v ''plan_digest'')) (\<lambda>plan_digest.
     bindE (dogfood_string (jget v ''quote_digest'')) (\<lambda>quote_digest.
     bindE (resource_identity_from_payload (jget v ''resource'')) (\<lambda>resource.
     bindE (dogfood_string (jget v ''provider_operation_id'')) (\<lambda>operation_id.
     bindE (dogfood_string (jget v ''exclusive_window_sha256'')) (\<lambda>window.
     bindE (dogfood_time R (jget v ''started_at'')) (\<lambda>started_at.
     bindE (dogfood_time R (jget v ''completed_at'')) (\<lambda>completed_at.
     let a = \<lparr> dt_run_id = run_id, dt_attempt_id = attempt_id, dt_phase = phase, dt_lane = lane,
           dt_plan_digest = plan_digest, dt_quote_digest = quote_digest, dt_resource = resource,
           dt_provider_operation_id = operation_id, dt_exclusive_window_sha256 = window,
           dt_started_at = started_at, dt_completed_at = completed_at \<rparr>
     in admit (attempt_valid a) a))))))))))))"

record SpendQuote =
  dq_run_id :: string
  dq_lane :: DogfoodLane
  dq_quote_id :: string
  dq_estimated_cost_usd :: decimal
  dq_hard_cap_usd :: decimal
  dq_observed_at :: datetime
  dq_expires_at :: datetime
  dq_operation_digest :: "string option"
  dq_provider_quote_sha256 :: "string option"
  dq_endpoint_plan_sha256 :: "string option"

definition spend_quote_valid :: "SpendQuote \<Rightarrow> bool" where
  "spend_quote_valid q \<longleftrightarrow>
     dogfood_identifier (dq_run_id q) \<and> dogfood_identifier (dq_quote_id q)
     \<and> positive_decimal (dq_estimated_cost_usd q) \<and> positive_decimal (dq_hard_cap_usd q)
     \<and> dval (dq_estimated_cost_usd q) \<le> dval (dq_hard_cap_usd q)
     \<and> list_all (optionally is_sha256)
         [dq_operation_digest q, dq_provider_quote_sha256 q, dq_endpoint_plan_sha256 q]
     \<and> is_aware (dq_observed_at q) \<and> is_aware (dq_expires_at q)
     \<and> dq_observed_at q < dq_expires_at q
     \<and> dq_expires_at q \<le> dt_add (dq_observed_at q) (seconds 300)"

definition spend_quote_to_payload :: "SpendQuote \<Rightarrow> json" where
  "spend_quote_to_payload q = JObj
     [(''run_id'', JStr (dq_run_id q)), (''lane'', JStr (lane_value (dq_lane q))),
      (''quote_id'', JStr (dq_quote_id q)),
      (''estimated_cost_usd'', JStr (decimal_str (dq_estimated_cost_usd q))),
      (''hard_cap_usd'', JStr (decimal_str (dq_hard_cap_usd q))),
      (''observed_at'', JTime (dq_observed_at q)), (''expires_at'', JTime (dq_expires_at q)),
      (''operation_digest'', jopt JStr (dq_operation_digest q)),
      (''provider_quote_sha256'', jopt JStr (dq_provider_quote_sha256 q)),
      (''endpoint_plan_sha256'', jopt JStr (dq_endpoint_plan_sha256 q))]"

definition spend_quote_digest :: "signed_env \<Rightarrow> SpendQuote \<Rightarrow> string" where
  "spend_quote_digest E q = canonical_sha256 E (spend_quote_to_payload q)"

subsection \<open>Observations\<close>

record PhaseObservation =
  dv_phase :: DogfoodPhase
  dv_state_transitions :: "string list"
  dv_timings_ms :: "(string \<times> int) list"
  dv_artifact_digests :: "string list"
  dv_estimated_cost_usd :: "decimal option"
  dv_actual_cost_usd :: "decimal option"
  dv_billing_receipt_digest :: "string option"
  dv_provider :: "string option"
  dv_model :: "string option"
  dv_product_consent_count :: int
  dv_trained_weight_digest :: "string option"
  dv_promoted_weight_digest :: "string option"
  dv_weight_digest_used :: "string option"
  dv_output_image_digest :: "string option"
  dv_uploaded_artifact_digest :: "string option"
  dv_recovered_artifact_digest :: "string option"
  dv_recovered_resource_plan_digest :: "string option"
  dv_provider_ack_interruption_count :: int
  dv_recovery_count :: int
  dv_publication_count :: int
  dv_promotion_count :: int
  dv_provider_attempts :: "ProviderAttemptIdentity list"

definition observation_digests :: "PhaseObservation \<Rightarrow> string option list" where
  "observation_digests ob =
     [dv_billing_receipt_digest ob, dv_trained_weight_digest ob, dv_promoted_weight_digest ob,
      dv_weight_digest_used ob, dv_output_image_digest ob, dv_uploaded_artifact_digest ob,
      dv_recovered_artifact_digest ob, dv_recovered_resource_plan_digest ob]"

definition phase_observation_valid :: "PhaseObservation \<Rightarrow> bool" where
  "phase_observation_valid ob \<longleftrightarrow>
     dv_state_transitions ob \<noteq> [] \<and> list_all dogfood_identifier (dv_state_transitions ob)
     \<and> list_all (\<lambda>(k, n). k \<in> set operational_timing_fields \<and> 0 \<le> n) (dv_timings_ms ob)
     \<and> list_all is_sha256 (dv_artifact_digests ob)
     \<and> list_all (optionally is_sha256) (observation_digests ob)
     \<and> optionally nonnegative_decimal (dv_estimated_cost_usd ob)
     \<and> optionally nonnegative_decimal (dv_actual_cost_usd ob)
     \<and> optionally dogfood_identifier (dv_provider ob) \<and> optionally dogfood_identifier (dv_model ob)
     \<and> list_all (\<lambda>n. 0 \<le> n) [dv_product_consent_count ob, dv_provider_ack_interruption_count ob,
         dv_recovery_count ob, dv_publication_count ob, dv_promotion_count ob]
     \<and> distinct (map dt_attempt_id (dv_provider_attempts ob))"

definition binding_entries :: "PhaseObservation \<Rightarrow> (string \<times> json) list" where
  "binding_entries ob =
     [(''phase'', JStr (phase_value (dv_phase ob))),
      (''state_transitions'', jstrs (dv_state_transitions ob)),
      (''timings_ms'', JObj (sort_key fst (map (\<lambda>(k, n). (k, JInt n)) (dv_timings_ms ob)))),
      (''artifact_digests'', jstrs (dv_artifact_digests ob)),
      (''estimated_cost_usd'', jopt (\<lambda>d. JStr (decimal_str d)) (dv_estimated_cost_usd ob)),
      (''actual_cost_usd'', jopt (\<lambda>d. JStr (decimal_str d)) (dv_actual_cost_usd ob)),
      (''billing_receipt_digest'', jopt JStr (dv_billing_receipt_digest ob)),
      (''provider'', jopt JStr (dv_provider ob)), (''model'', jopt JStr (dv_model ob)),
      (''product_consent_count'', JInt (dv_product_consent_count ob)),
      (''trained_weight_digest'', jopt JStr (dv_trained_weight_digest ob)),
      (''promoted_weight_digest'', jopt JStr (dv_promoted_weight_digest ob)),
      (''weight_digest_used'', jopt JStr (dv_weight_digest_used ob)),
      (''output_image_digest'', jopt JStr (dv_output_image_digest ob)),
      (''uploaded_artifact_digest'', jopt JStr (dv_uploaded_artifact_digest ob)),
      (''recovered_artifact_digest'', jopt JStr (dv_recovered_artifact_digest ob)),
      (''recovered_resource_plan_digest'', jopt JStr (dv_recovered_resource_plan_digest ob)),
      (''provider_ack_interruption_count'', JInt (dv_provider_ack_interruption_count ob)),
      (''recovery_count'', JInt (dv_recovery_count ob)), (''publication_count'', JInt (dv_publication_count ob)),
      (''promotion_count'', JInt (dv_promotion_count ob)),
      (''provider_attempts'', JList (map attempt_to_payload (dv_provider_attempts ob)))]"

definition dogfood_contract :: string where
  "dogfood_contract = ''runpod-kite-live-dogfood-v1''"

definition max_evidence_depth :: nat where
  "max_evidence_depth = 64"

definition to_evidence :: "PhaseObservation \<Rightarrow> string \<Rightarrow> datetime \<Rightarrow> dogfood_error + json" where
  "to_evidence ob run_id observed_at =
     (if \<not> dogfood_identifier run_id then Inl DogfoodSafetyError
      else bindE (dogfood_iso observed_at) (\<lambda>at_text.
        let payload = JObj ([(''contract'', JStr dogfood_contract), (''event'', JStr ''phase_observation''),
              (''run_id'', JStr run_id), (''observed_at'', at_text)] @ binding_entries ob)
        in admit (content_free max_evidence_depth payload) payload))"

end
