(* ===== verification/Signed_Properties.thy ===== *)
theory Signed_Properties
  imports Signed_Invocations Pod_Billing
begin

text \<open>
  What a verified receipt says, the round trips of the signed objects, and the agreement of signer and verifier.
\<close>

section \<open>Round trips\<close>

lemma accept_Inr [simp]: "accept ok x = Inr y \<longleftrightarrow> ok \<and> y = x"
  by (auto simp: accept_def)

lemma accept_True [simp]: "accept True x = Inr x"
  by (simp add: accept_def)

lemma signed_strings_read_back [simp]:
  "payload_string (JStr s) = Inr s" "optional_payload_string (jopt JStr x) = Inr x"
  by (auto simp: payload_string_def optional_payload_string_def jopt_def split: option.split)

lemma digest_read_back: "optionally prefixed_sha256 x \<Longrightarrow> optional_sha256 (jopt JStr x) = Inr x"
  by (auto simp: optional_sha256_def jopt_def optionally_def accept_def split: option.splits)

lemma time_read_back: "is_aware t \<Longrightarrow> parse_time E (JTime t) = Inr t"
  by (simp add: parse_time_def)

lemma object_of_fields: "map fst kvs = names \<Longrightarrow> object_of (JObj kvs) names = Inr ()"
  by (auto simp: object_of_def)

theorem invoke_request_roundtrip:
  assumes "invoke_request_valid r"
  shows "invoke_request_from_payload (invoke_request_to_payload r) = Inr r"
proof -
  have "object_of (invoke_request_to_payload r) invoke_request_fields = Inr ()"
    unfolding invoke_request_to_payload_def by (rule object_of_fields) (simp add: invoke_request_fields_def)
  with assms show ?thesis
    by (simp add: invoke_request_from_payload_def invoke_request_valid_def digest_read_back)
      (simp add: invoke_request_to_payload_def digest_read_back)
qed

lemma signed_payload_lookup:
  shows "jget (signed_payload r) ''run_id'' = JStr (vr_run_id r)"
  "jget (signed_payload r) ''phase'' = JStr (vr_phase r)"
  "jget (signed_payload r) ''route'' = JStr (vr_route r)"
  "jget (signed_payload r) ''request_id'' = JStr (vr_request_id r)"
  "jget (signed_payload r) ''owner_binding_sha256'' = JStr (vr_owner_binding_sha256 r)"
  "jget (signed_payload r) ''companion_id'' = JStr (vr_companion_id r)"
  "jget (signed_payload r) ''agent_id'' = JStr (vr_agent_id r)"
  "jget (signed_payload r) ''input_sha256'' = JStr (vr_input_sha256 r)"
  "jget (signed_payload r) ''response_sha256'' = JStr (vr_response_sha256 r)"
  "jget (signed_payload r) ''transport'' = JStr (vr_transport r)"
  "jget (signed_payload r) ''model'' = jopt JStr (vr_model r)"
  "jget (signed_payload r) ''provider'' = jopt JStr (vr_provider r)"
  "jget (signed_payload r) ''session_id'' = jopt JStr (vr_session_id r)"
  "jget (signed_payload r) ''operation_digest'' = jopt JStr (vr_operation_digest r)"
  "jget (signed_payload r) ''quote_digest'' = jopt JStr (vr_quote_digest r)"
  "jget (signed_payload r) ''resource_plan_digest'' = jopt JStr (vr_resource_plan_digest r)"
  "jget (signed_payload r) ''evidence_digest'' = JStr (vr_evidence_digest r)"
  "jget (signed_payload r) ''started_at'' = JTime (vr_started_at r)"
  "jget (signed_payload r) ''completed_at'' = JTime (vr_completed_at r)"
  "jget (signed_payload r) ''elapsed_ms'' = JInt (vr_elapsed_ms r)"
  "jget (signed_payload r) ''issued_at'' = JTime (vr_issued_at r)"
  "jget (signed_payload r) ''receipt_id'' = JStr (vr_receipt_id r)"
  by (simp_all add: signed_payload_def)

text \<open>What is read from the payload of a receipt under any signature.\<close>

lemma read_envelope:
  assumes "list_all is_aware [vr_started_at r, vr_completed_at r, vr_issued_at r]"
    "list_all (optionally prefixed_sha256) [vr_operation_digest r, vr_quote_digest r, vr_resource_plan_digest r]"
  shows "receipt_from_payload E (receipt_envelope (signed_payload r) c a k d s) =
    (let r' = r\<lparr> vr_key_id := k, vr_public_key_sha256 := d, vr_signature_b64 := s, vr_contract := c,
           vr_signature_algorithm := a \<rparr>
     in accept (receipt_valid r') r')"
proof -
  let ?v = "receipt_envelope (signed_payload r) c a k d s"
  have fields: "object_of ?v [''contract'', ''payload'', ''signature''] = Inr ()"
    "object_of (signed_payload r) receipt_payload_fields = Inr ()"
    "object_of (jget ?v ''signature'') [''algorithm'', ''key_id'', ''public_key_sha256'', ''value''] = Inr ()"
    unfolding receipt_envelope_def signed_payload_def
    by (auto intro!: object_of_fields simp: receipt_payload_fields_def)
  have envelope: "jget ?v ''payload'' = signed_payload r" "jget ?v ''contract'' = JStr c"
    "jget (jget ?v ''signature'') ''algorithm'' = JStr a" "jget (jget ?v ''signature'') ''key_id'' = JStr k"
    "jget (jget ?v ''signature'') ''public_key_sha256'' = JStr d"
    "jget (jget ?v ''signature'') ''value'' = JStr s"
    by (simp_all add: receipt_envelope_def)
  have read: "optional_sha256 (jopt JStr (vr_operation_digest r)) = Inr (vr_operation_digest r)"
    "optional_sha256 (jopt JStr (vr_quote_digest r)) = Inr (vr_quote_digest r)"
    "optional_sha256 (jopt JStr (vr_resource_plan_digest r)) = Inr (vr_resource_plan_digest r)"
    "parse_time E (JTime (vr_started_at r)) = Inr (vr_started_at r)"
    "parse_time E (JTime (vr_completed_at r)) = Inr (vr_completed_at r)"
    "parse_time E (JTime (vr_issued_at r)) = Inr (vr_issued_at r)"
    using assms by (simp_all add: digest_read_back time_read_back)
  note got = signed_payload_lookup
  show ?thesis
    unfolding receipt_from_payload_def Let_def envelope fields bindE_simps got signed_strings_read_back read
    by (cases r) (simp add: strict_int_def)
qed

lemma read_back_receipt:
  assumes "receipt_valid r"
  shows "receipt_from_payload E (receipt_to_payload r) = Inr r"
proof -
  have same: "r\<lparr> vr_key_id := vr_key_id r, vr_public_key_sha256 := vr_public_key_sha256 r,
      vr_signature_b64 := vr_signature_b64 r, vr_contract := vr_contract r,
      vr_signature_algorithm := vr_signature_algorithm r \<rparr> = r"
    by (cases r) simp
  have "list_all is_aware [vr_started_at r, vr_completed_at r, vr_issued_at r]"
    "list_all (optionally prefixed_sha256) [vr_operation_digest r, vr_quote_digest r, vr_resource_plan_digest r]"
    using assms by (simp_all add: receipt_valid_def)
  from read_envelope [OF this] assms show ?thesis
    unfolding receipt_to_payload_def by (simp add: same Let_def)
qed

theorem trust_roundtrip:
  assumes "trust_valid E t"
  shows "trust_from_payload E (trust_to_payload t) = Inr t"
proof -
  have "object_of (trust_to_payload t) trust_fields = Inr ()"
    unfolding trust_to_payload_def by (rule object_of_fields) (simp add: trust_fields_def)
  moreover have "jget (trust_to_payload t) ''target'' = JStr (tk_target t)"
    "jget (trust_to_payload t) ''route'' = JStr (tk_route t)"
    "jget (trust_to_payload t) ''key_id'' = JStr (tk_key_id t)"
    "jget (trust_to_payload t) ''public_key_spki_b64'' = JStr (tk_public_key_spki_b64 t)"
    "jget (trust_to_payload t) ''public_key_sha256'' = JStr (tk_public_key_sha256 t)"
    "jget (trust_to_payload t) ''owner_binding_sha256'' = JStr (tk_owner_binding_sha256 t)"
    "jget (trust_to_payload t) ''companion_id'' = JStr (tk_companion_id t)"
    "jget (trust_to_payload t) ''agent_id'' = JStr (tk_agent_id t)"
    by (simp_all add: trust_to_payload_def)
  ultimately show ?thesis using assms by (cases t) (simp add: trust_from_payload_def)
qed

section \<open>The canonical form\<close>

lemma insort_key_map: "(\<And>x. key (f x) = key x) \<Longrightarrow> insort_key key (f x) (map f ys) = map f (insort_key key x ys)"
  by (induction ys) simp_all

lemma sort_key_map: "(\<And>x. key (f x) = key x) \<Longrightarrow> sort_key key (map f xs) = map f (sort_key key xs)"
  by (induction xs) (simp_all add: insort_key_map)

lemma sort_key_sorted: "sorted (map key xs) \<Longrightarrow> sort_key key xs = xs"
  by (induction xs) (auto simp: insort_is_Cons)

lemma sort_json_idem [simp]: "sort_json (sort_json v) = sort_json v"
proof (induction v rule: sort_json.induct)
  case (1 kvs)
  let ?f = "\<lambda>(k, v). (k, sort_json v)"
  have key: "fst (?f x) = fst x" for x by (cases x) simp
  have "map ?f (map ?f kvs) = map ?f kvs" using 1 by (auto simp: case_prod_unfold)
  then have "map ?f (sort_key fst (map ?f kvs)) = sort_key fst (map ?f kvs)"
    by (simp only: sort_key_map [of fst, OF key, symmetric])
  then show ?case by (simp only: sort_json.simps) (simp add: sort_key_sorted)
qed simp_all

lemma is_jobj_sorted [simp]: "is_jobj (sort_json v) = is_jobj v"
  by (cases v) simp_all

lemma lookup_sorted:
  assumes "distinct (map fst kvs)"
  shows "map_of (sort_key fst kvs) = map_of kvs"
proof -
  have "distinct (map fst (sort_key fst kvs))"
    using assms by (metis distinct_map distinct_sort set_sort)
  with assms show ?thesis by (simp add: map_of_inject_set)
qed

lemma jget_sorted:
  assumes "distinct (jkeys v)"
  shows "jget (sort_json v) k = sort_json (jget v k)"
proof (cases v)
  case (JObj kvs)
  let ?f = "\<lambda>(k, v). (k, sort_json v)"
  have "map fst (map ?f kvs) = map fst kvs" by (induction kvs) auto
  then have "distinct (map fst (map ?f kvs))" using assms unfolding JObj by (simp only: jkeys.simps)
  then have "map_of (sort_key fst (map ?f kvs)) = map_of (map ?f kvs)" by (rule lookup_sorted)
  then show ?thesis unfolding JObj by (simp add: map_of_map split: option.split)
qed simp_all

lemma exact_json_sorted: "exact_json n (sort_json v) = exact_json n v"
proof (induction n v rule: exact_json.induct)
  case (1 room kvs)
  then show ?case by (auto simp: list_all_iff case_prod_unfold split: nat.splits)
next
  case (2 room xs)
  then show ?case by (auto simp: list_all_iff split: nat.splits)
qed simp_all

section \<open>Verification\<close>

lemma signed_payload_distinct: "distinct (jkeys (signed_payload r))"
  by (simp add: signed_payload_def)

text \<open>What the signed form of a payload says of the receipt, its request and its target.\<close>

definition signed_for :: "json \<Rightarrow> ReceiptTrust \<Rightarrow> string \<Rightarrow> string \<Rightarrow> string \<Rightarrow> string
    \<Rightarrow> string option \<Rightarrow> string option \<Rightarrow> string option \<Rightarrow> bool" where
  "signed_for m t run_id phase request_id input_digest op_digest quote_digest plan_digest \<longleftrightarrow>
     jget m ''run_id'' = JStr run_id \<and> jget m ''phase'' = JStr phase \<and> jget m ''request_id'' = JStr request_id
     \<and> jget m ''input_sha256'' = JStr input_digest \<and> jget m ''operation_digest'' = jopt JStr op_digest
     \<and> jget m ''quote_digest'' = jopt JStr quote_digest
     \<and> jget m ''resource_plan_digest'' = jopt JStr plan_digest
     \<and> jget m ''route'' = JStr (tk_route t)
     \<and> jget m ''owner_binding_sha256'' = JStr (tk_owner_binding_sha256 t)
     \<and> jget m ''companion_id'' = JStr (tk_companion_id t) \<and> jget m ''agent_id'' = JStr (tk_agent_id t)"

lemma sort_json_atoms [simp]: "sort_json (jopt JStr x) = jopt JStr x"
  by (cases x) (simp_all add: jopt_def)


text \<open>The documented behaviour of the Ed25519 package: 64 bytes that the public key of the signer accepts.\<close>

definition ed25519_documented :: "signed_env \<Rightarrow> bool" where
  "ed25519_documented E \<longleftrightarrow>
     (\<forall>k m. length (sg_sign E k m) = 64
        \<and> (\<exists>p. sg_load_public E (sg_public_der E k) = Ed25519 p \<and> sg_verify E p (sg_sign E k m) m))"

lemma decode_encoded: "bytes \<noteq> [] \<Longrightarrow> base64url_decode (encode_groups bytes) = Inr bytes"
  using base64_roundtrip [of bytes]
  by (cases bytes rule: encode_groups.cases) (auto simp: base64url_decode_def Let_def split: option.splits)

lemma sign_receiptD:
  assumes "sign_receipt E s payload = Inr r"
  shows "receipt_valid r \<and> vr_signature_b64 r
    = encode_groups (sg_sign E (ig_key s) (sort_json (signed_payload r)))"
proof -
  let ?sign = "\<lambda>u. sg_sign E (ig_key s) (sort_json (signed_payload u))"
  from assms obtain u x where u: "receipt_from_payload E x = Inr u"
    and r: "receipt_from_payload E (receipt_envelope (signed_payload u) receipt_contract receipt_algorithm
        (ig_key_id s) (ig_public_key_sha256 s) (encode_groups (?sign u))) = Inr r"
    by (auto simp: sign_receipt_def bindE_Inr Let_def split: if_splits)
  have "receipt_valid u" using u by (auto simp: receipt_from_payload_def bindE_Inr Let_def)
  then have "list_all is_aware [vr_started_at u, vr_completed_at u, vr_issued_at u]"
    "list_all (optionally prefixed_sha256) [vr_operation_digest u, vr_quote_digest u, vr_resource_plan_digest u]"
    by (simp_all add: receipt_valid_def)
  from r [unfolded read_envelope [OF this]] show ?thesis
    by (auto simp: Let_def signed_payload_def)
qed

text \<open>
  C20.  What the signer issues the verifier accepts.  With keys and signatures as Ed25519 documents them, a receipt that
  was signed survives its wire format, and the verifier that pins the key of the signer for this route and identity
  accepts it for the request it was made for and names the pinned target.
\<close>

theorem signed_receipt_verifies:
  assumes "ed25519_documented E" "sign_receipt E s payload = Inr r"
    "base64url_decode (tk_public_key_spki_b64 t) = Inr (sg_public_der E (ig_key s))"
    "filter (trust_matches r) trusts = [t]" "utf8_sha256 E input_text = Inr (vr_input_sha256 r)"
  shows "receipt_from_payload E (receipt_to_payload r) = Inr r
    \<and> verify_receipt E trusts r (vr_run_id r) (vr_phase r) (vr_request_id r) input_text
        (vr_operation_digest r) (vr_quote_digest r) (vr_resource_plan_digest r) = Inr (tk_target t)"
proof
  from sign_receiptD [OF assms(2)] have valid: "receipt_valid r" and
    sig: "vr_signature_b64 r = encode_groups (sg_sign E (ig_key s) (sort_json (signed_payload r)))" by blast+
  show "receipt_from_payload E (receipt_to_payload r) = Inr r" by (rule read_back_receipt [OF valid])
  let ?m = "sort_json (signed_payload r)"
  from assms(1) obtain p where p: "sg_load_public E (sg_public_der E (ig_key s)) = Ed25519 p"
    "sg_verify E p (sg_sign E (ig_key s) ?m) ?m" "length (sg_sign E (ig_key s) ?m) = 64"
    unfolding ed25519_documented_def by blast
  then have "sg_sign E (ig_key s) ?m \<noteq> []" by auto
  from decode_encoded [OF this] p have "verify_signature E t r = Inr (tk_target t)"
    by (simp add: verify_signature_def assms(3) sig)
  moreover have "list_all signed_identifier [vr_run_id r, vr_phase r, vr_request_id r]"
    using valid by (simp add: receipt_valid_def)
  ultimately show "verify_receipt E trusts r (vr_run_id r) (vr_phase r) (vr_request_id r) input_text
      (vr_operation_digest r) (vr_quote_digest r) (vr_resource_plan_digest r) = Inr (tk_target t)"
    by (simp add: verify_receipt_def assms(4,5))
qed

section \<open>Responses\<close>

text \<open>
  C21.  The evidence of an accepted response verifies.  A response is accepted only if the digest of its text and its
  model, provider and session are those of its receipt; its stored evidence is canonical, verifies against the
  receipt, and the response survives its wire format.
\<close>

theorem response_evidence_verifies:
  "case make_response E x of
     Inl e \<Rightarrow> True
   | Inr y \<Rightarrow>
       utf8_sha256 E (vs_response y) = Inr (vr_response_sha256 (vs_invocation_receipt y))
       \<and> sort_json (vs_phase_evidence y) = vs_phase_evidence y
       \<and> verify_phase_evidence E (vs_invocation_receipt y) (vs_phase_evidence y) = Inr ()
       \<and> (if receipt_valid (vs_invocation_receipt y)
          then response_from_payload E (response_to_payload y) = Inr y else True)"
proof (cases "make_response E x")
  case (Inr y)
  let ?r = "vs_invocation_receipt x"
  from Inr obtain normalized where
    ids: "list_all (optionally signed_identifier) [vs_model x, vs_provider x, vs_session_id x]"
    and same: "utf8_sha256 E (vs_response x) = Inr (vr_response_sha256 ?r)" "vr_model ?r = vs_model x"
      "vr_provider ?r = vs_provider x" "vr_session_id ?r = vs_session_id x"
    and canonical: "canonical_json_object (vs_phase_evidence x) = Inr normalized"
    and digest: "phase_evidence_sha256 E (vr_phase ?r) normalized = Inr (vr_evidence_digest ?r)"
    and y: "y = x\<lparr> vs_phase_evidence := normalized \<rparr>"
    by (auto simp: make_response_def Let_def bindE_Inr split: if_splits)
  have shape: "is_jobj normalized" "canonical_json_object normalized = Inr normalized" "sort_json normalized = normalized"
    using canonical by (auto simp: canonical_json_object_def exact_json_sorted)
  have again: "make_response E y = Inr y"
    unfolding y using ids same digest shape(2) by (simp add: make_response_def Let_def)
  have "response_from_payload E (response_to_payload y) = Inr y" if "receipt_valid (vs_invocation_receipt y)"
  proof -
    have "object_of (response_to_payload y) [''response'', ''model'', ''provider'', ''session_id'', ''phase_evidence'',
        ''invocation_receipt''] = Inr ()"
      unfolding response_to_payload_def by (rule object_of_fields) simp
    moreover have "jget (response_to_payload y) ''response'' = JStr (vs_response y)"
      "jget (response_to_payload y) ''model'' = jopt JStr (vs_model y)"
      "jget (response_to_payload y) ''provider'' = jopt JStr (vs_provider y)"
      "jget (response_to_payload y) ''session_id'' = jopt JStr (vs_session_id y)"
      "jget (response_to_payload y) ''phase_evidence'' = vs_phase_evidence y"
      "jget (response_to_payload y) ''invocation_receipt'' = receipt_to_payload (vs_invocation_receipt y)"
      by (simp_all add: response_to_payload_def)
    moreover have "is_jobj (vs_phase_evidence y)" using shape(1) y by simp
    moreover have "make_response E \<lparr> vs_response = vs_response y, vs_model = vs_model y, vs_provider = vs_provider y,
         vs_session_id = vs_session_id y, vs_phase_evidence = vs_phase_evidence y,
         vs_invocation_receipt = vs_invocation_receipt y \<rparr> = Inr y"
      using again by (cases y) simp
    ultimately show ?thesis
      using read_back_receipt [OF that] by (simp add: response_from_payload_def)
  qed
  with y same digest shape show ?thesis unfolding Inr by (simp add: verify_phase_evidence_def)
qed simp

section \<open>A witness\<close>

definition sample_hex :: string where
  "sample_hex = replicate 64 (CHR ''a'')"

definition sample_signed_env :: signed_env where
  "sample_signed_env = \<lparr> sg_json_hex = (\<lambda>v. sample_hex), sg_text_hex = (\<lambda>s. Some sample_hex),
     sg_bytes_hex = (\<lambda>b. sample_hex), sg_read_time = (\<lambda>s. None), sg_load_public = Ed25519,
     sg_load_private = Ed25519, sg_public_der = (\<lambda>k. k), sg_sign = (\<lambda>k m. replicate 64 7),
     sg_verify = (\<lambda>p s m. s = replicate 64 7) \<rparr>"

definition sample_signer :: InvokeReceiptSigner where
  "sample_signer = \<lparr> ig_key = [1, 2, 3], ig_key_id = ''key-1'', ig_public_key_sha256 = ''sha256:'' @ sample_hex \<rparr>"

definition sample_trust :: ReceiptTrust where
  "sample_trust = \<lparr> tk_target = ''target-1'', tk_route = ''/api/invoke'', tk_key_id = ''key-1'',
     tk_public_key_spki_b64 = encode_groups [1, 2, 3], tk_public_key_sha256 = ''sha256:'' @ sample_hex,
     tk_owner_binding_sha256 = ''sha256:'' @ sample_hex, tk_companion_id = ''kite'', tk_agent_id = ''agent-1'' \<rparr>"

definition sample_receipt :: ServerInvokeReceipt where
  "sample_receipt =
     \<lparr> vr_receipt_id = ''receipt-1'', vr_run_id = ''run-1'', vr_phase = ''lora_submit'', vr_route = ''/api/invoke'',
       vr_request_id = ''request-1'', vr_owner_binding_sha256 = ''sha256:'' @ sample_hex,
       vr_companion_id = ''kite'', vr_agent_id = ''agent-1'', vr_input_sha256 = ''sha256:'' @ sample_hex,
       vr_response_sha256 = ''sha256:'' @ sample_hex, vr_transport = authenticated_transport,
       vr_model = Some ''m-1'', vr_provider = None, vr_session_id = None, vr_operation_digest = None,
       vr_quote_digest = None, vr_resource_plan_digest = None, vr_evidence_digest = ''sha256:'' @ sample_hex,
       vr_started_at = Aware 0, vr_completed_at = Aware 0, vr_elapsed_ms = 0,
       vr_issued_at = Aware 2000000, vr_key_id = ''key-1'', vr_public_key_sha256 = ''sha256:'' @ sample_hex,
       vr_signature_b64 = encode_groups (replicate 64 7), vr_contract = receipt_contract,
       vr_signature_algorithm = receipt_algorithm \<rparr>"

definition zero_signed :: "ServerInvokeReceipt \<Rightarrow> ServerInvokeReceipt" where
  "zero_signed r = r\<lparr> vr_signature_b64 := encode_groups (replicate 64 0) \<rparr>"

lemma sample_texts:
  "list_all signed_identifier [''receipt-1'', ''run-1'', ''lora_submit'', ''request-1'', ''kite'', ''agent-1'',
     authenticated_transport, ''key-1'', ''m-1'']"
  "relative_route ''/api/invoke''" "prefixed_sha256 (''sha256:'' @ sample_hex)"
  by code_simp+

lemma no_time_elapsed: "elapsed_ms t t = 0"
  by (simp add: elapsed_ms_def total_seconds_def float_value_def binary64_def round_half_even_def)

lemma sample_receipt_valid: "receipt_valid sample_receipt" "receipt_valid (zero_signed sample_receipt)"
proof -
  have "base64url_decode (encode_groups (replicate 64 b)) = Inr (replicate 64 b)" for b
    by (rule decode_encoded) simp
  then show "receipt_valid sample_receipt" "receipt_valid (zero_signed sample_receipt)"
    using sample_texts no_time_elapsed [of "Aware 0"]
    by (simp_all add: receipt_valid_def sample_receipt_def zero_signed_def optionally_def)
qed

lemma sample_signed: "sign_receipt sample_signed_env sample_signer (signed_payload sample_receipt) = Inr sample_receipt"
proof -
  have times: "list_all is_aware [vr_started_at sample_receipt, vr_completed_at sample_receipt,
      vr_issued_at sample_receipt]"
    "list_all (optionally prefixed_sha256) [vr_operation_digest sample_receipt, vr_quote_digest sample_receipt,
      vr_resource_plan_digest sample_receipt]"
    by (simp_all add: sample_receipt_def optionally_def)
  let ?read = "\<lambda>p sig. receipt_from_payload sample_signed_env (receipt_envelope p receipt_contract receipt_algorithm
      ''key-1'' (''sha256:'' @ sample_hex) (encode_groups sig))"
  have same: "sample_receipt\<lparr> vr_key_id := ''key-1'', vr_public_key_sha256 := ''sha256:'' @ sample_hex,
      vr_signature_b64 := encode_groups sig, vr_contract := receipt_contract,
      vr_signature_algorithm := receipt_algorithm \<rparr> = sample_receipt\<lparr> vr_signature_b64 := encode_groups sig \<rparr>" for sig
    by (simp add: sample_receipt_def)
  have "sample_receipt\<lparr> vr_signature_b64 := encode_groups (replicate 64 7) \<rparr> = sample_receipt"
    by (simp add: sample_receipt_def)
  then have read: "?read (signed_payload sample_receipt) (replicate 64 0) = Inr (zero_signed sample_receipt)"
    "?read (signed_payload sample_receipt) (replicate 64 7) = Inr sample_receipt"
    unfolding read_envelope [OF times] Let_def same using sample_receipt_valid by (simp_all add: zero_signed_def)
  have "signed_payload (zero_signed sample_receipt) = signed_payload sample_receipt"
    by (simp add: signed_payload_def zero_signed_def)
  moreover have "sg_sign sample_signed_env k m = replicate 64 7" for k m by (simp add: sample_signed_env_def)
  moreover have "is_jobj (signed_payload sample_receipt)" by (simp add: signed_payload_def)
  ultimately show ?thesis using read
    unfolding sign_receipt_def Let_def by (simp add: sample_signer_def)
qed

theorem signed_receipt_verifies_witness:
  "receipt_from_payload sample_signed_env (receipt_to_payload sample_receipt) = Inr sample_receipt
   \<and> verify_receipt sample_signed_env [sample_trust] sample_receipt ''run-1'' ''lora_submit'' ''request-1'' ''hello''
       None None None = Inr ''target-1''"
proof -
  have "ed25519_documented sample_signed_env" by (simp add: ed25519_documented_def sample_signed_env_def)
  moreover have "base64url_decode (tk_public_key_spki_b64 sample_trust)
      = Inr (sg_public_der sample_signed_env (ig_key sample_signer))"
    using decode_encoded [of "[1, 2, 3]"] by (simp add: sample_trust_def sample_signed_env_def sample_signer_def)
  moreover have "filter (trust_matches sample_receipt) [sample_trust] = [sample_trust]"
    by (simp add: trust_matches_def sample_trust_def sample_receipt_def)
  moreover have "utf8_sha256 sample_signed_env ''hello'' = Inr (vr_input_sha256 sample_receipt)"
    by (simp add: utf8_sha256_def sample_signed_env_def sample_receipt_def)
  ultimately show ?thesis
    using signed_receipt_verifies [OF _ sample_signed, of sample_trust "[sample_trust]" "''hello''"]
    by (simp add: sample_receipt_def sample_trust_def)
qed

end
