(* ===== verification/Dogfood_Properties.thy ===== *)
theory Dogfood_Properties
  imports Dogfood_Contracts Signed_Properties
begin

text \<open>
  The payloads of the dogfood contracts are read back, and evidence is refused for no other reason than a text that
  looks like a URL or a credential.
\<close>

section \<open>Round trips\<close>

lemma admit_Inr [simp]: "admit ok x = Inr y \<longleftrightarrow> ok \<and> y = x"
  by (auto simp: admit_def)

lemma admit_True [simp]: "admit True x = Inr x"
  by (simp add: admit_def)

lemma dogfood_object_fields: "map fst kvs = names \<Longrightarrow> dogfood_object (JObj kvs) names = Inr ()"
  by (auto simp: dogfood_object_def)

lemma members_read_back [simp]:
  "member_of resource_types (JStr (dogfood_type_value t)) = Inr t"
  "member_of lanes (JStr (lane_value l)) = Inr l"
  "member_of phases (JStr (phase_value p)) = Inr p"
proof -
  show "member_of resource_types (JStr (dogfood_type_value t)) = Inr t"
    by (cases t) (simp_all add: member_of_def dogfood_string_def resource_types_def)
  show "member_of lanes (JStr (lane_value l)) = Inr l"
    by (cases l) (simp_all add: member_of_def dogfood_string_def lanes_def)
  have "map_of phases (phase_value p) = Some p"
    by (cases p) (simp_all add: phases_def phase_value_def)
  then show "member_of phases (JStr (phase_value p)) = Inr p"
    by (simp add: member_of_def dogfood_string_def)
qed

lemma dogfood_read_back [simp]: "dogfood_string (JStr s) = Inr s" "is_aware t \<Longrightarrow> dogfood_time R (JTime t) = Inr t"
  by (simp_all add: dogfood_string_def dogfood_time_def)

lemma resource_identity_read_back:
  assumes "resource_identity_valid r"
  shows "resource_identity_from_payload (resource_identity_to_payload r) = Inr r"
proof -
  have "dogfood_object (resource_identity_to_payload r) [''resource_type'', ''resource_id'', ''resource_name''] = Inr ()"
    unfolding resource_identity_to_payload_def by (rule dogfood_object_fields) simp
  with assms show ?thesis
    by (cases r) (simp add: resource_identity_from_payload_def, simp add: resource_identity_to_payload_def)
qed

lemma expected_resource_read_back:
  assumes "expected_resource_valid r"
  shows "expected_resource_from_payload (expected_resource_to_payload r) = Inr r"
proof -
  have "dogfood_object (expected_resource_to_payload r) [''resource_type'', ''resource_name'', ''lane''] = Inr ()"
    unfolding expected_resource_to_payload_def by (rule dogfood_object_fields) simp
  with assms show ?thesis
    by (cases r) (simp add: expected_resource_from_payload_def, simp add: expected_resource_to_payload_def)
qed

lemma expected_resources_read_back:
  "list_all expected_resource_valid rs
   \<Longrightarrow> mapE expected_resource_from_payload (map expected_resource_to_payload rs) = Inr rs"
  by (induction rs) (simp_all add: expected_resource_read_back)

lemma resource_plan_read_back:
  assumes "resource_plan_valid p" "list_all expected_resource_valid (dl_expected_resources p)"
  shows "resource_plan_from_payload (resource_plan_to_payload p) = Inr p"
proof -
  have "list_all expected_resource_valid (dl_initial_resources p)"
    using assms by (auto simp: resource_plan_valid_def list_all_iff)
  note items = expected_resources_read_back [OF assms(2)] expected_resources_read_back [OF this]
  have fields: "dogfood_object (resource_plan_to_payload p) [''run_id'', ''phase'', ''lane'', ''plan_id'', ''cleanup_family_id'',
        ''expected_resources'', ''initial_resources''] = Inr ()"
    unfolding resource_plan_to_payload_def by (rule dogfood_object_fields) simp
  show ?thesis
    unfolding resource_plan_from_payload_def fields
    using assms(1) items by (cases p) (simp add: resource_plan_to_payload_def make_resource_plan_def)
qed

lemma attempt_read_back:
  assumes "attempt_valid a" "resource_identity_valid (dt_resource a)"
  shows "attempt_from_payload R (attempt_to_payload a) = Inr a"
proof -
  have fields: "dogfood_object (attempt_to_payload a) attempt_fields = Inr ()"
    unfolding attempt_to_payload_def by (rule dogfood_object_fields) (simp add: attempt_fields_def)
  have times: "is_aware (dt_started_at a)" "is_aware (dt_completed_at a)"
    using assms(1) by (simp_all add: attempt_valid_def)
  show ?thesis
    unfolding attempt_from_payload_def fields
    using assms(1) times resource_identity_read_back [OF assms(2)]
    by (cases a) (simp add: attempt_to_payload_def)
qed

section \<open>Content-free evidence\<close>

lemma starts_with_set: "starts_with w s \<Longrightarrow> set w \<subseteq> set s"
  unfolding starts_with_def by (metis set_take_subset)

text \<open>Every pattern has one of the letters g, p, r, t.\<close>

definition tell_tale :: "string" where
  "tell_tale = ''gprt''"

lemma credential_at_letters: "credential_at previous s \<Longrightarrow> set s \<inter> set tell_tale \<noteq> {}"
  by (auto simp: credential_at_def api_key_at_def tell_tale_def Let_def dest!: starts_with_set)

lemma credential_in_letters: "credential_in previous s \<Longrightarrow> set s \<inter> set tell_tale \<noteq> {}"
  by (induction previous s rule: credential_in.induct) (auto dest!: credential_at_letters)

text \<open>Every pattern has an assignment or a blank, too.\<close>

definition breaks_word :: "char \<Rightarrow> bool" where
  "breaks_word c \<longleftrightarrow> is_space c \<or> c = CHR ''='' \<or> c = CHR '':''"

lemma assignment_breaks: "assignment_follows s \<Longrightarrow> list_ex breaks_word s"
  by (induction s) (auto simp: assignment_follows_def breaks_word_def split: if_splits list.splits)

lemma list_ex_drop: "list_ex P (drop n s) \<Longrightarrow> list_ex P s"
  by (auto simp: list_ex_iff dest: in_set_dropD)

lemma starts_with_breaks: "starts_with w s \<Longrightarrow> list_ex breaks_word w \<Longrightarrow> list_ex breaks_word s"
  by (auto simp: list_ex_iff dest!: starts_with_set)

lemma credential_at_breaks:
  assumes "credential_at previous s"
  shows "list_ex breaks_word s"
proof -
  have blank: "(case drop 6 s of [] \<Rightarrow> False | c # _ \<Rightarrow> is_space c) \<Longrightarrow> list_ex breaks_word (drop 6 s)"
    by (cases "drop 6 s") (simp_all add: breaks_word_def)
  have urls: "list_ex breaks_word ''http://''" "list_ex breaks_word ''https://''"
    by (simp_all add: breaks_word_def)
  from assms consider "starts_with ''http://'' s" | "starts_with ''https://'' s"
    | "case drop 6 s of [] \<Rightarrow> False | c # _ \<Rightarrow> is_space c" | "api_key_at s"
    | w :: string where "assignment_follows (drop (length w) s)"
    unfolding credential_at_def list_ex_iff by (elim disjE conjE bexE) (assumption | blast)+
  then show ?thesis
  proof cases
    case 4
    define key where "key = (if starts_with ''_'' (drop 3 s) \<or> starts_with ''-'' (drop 3 s)
      then drop 1 (drop 3 s) else drop 3 s)"
    then obtain k where "key = drop k s" by (metis drop_drop)
    moreover have "assignment_follows (drop 3 key)" using 4 by (simp only: api_key_at_def Let_def key_def)
    ultimately have "assignment_follows (drop (3 + k) s)" by (simp only: drop_drop)
    then show ?thesis using assignment_breaks list_ex_drop by blast
  next
    case 5
    then show ?thesis using assignment_breaks list_ex_drop by blast
  next
    case 3
    then show ?thesis using blank list_ex_drop by blast
  next
    case 2
    then show ?thesis using urls(2) by (rule starts_with_breaks)
  next
    case 1
    then show ?thesis using urls(1) by (rule starts_with_breaks)
  qed
qed

lemma credential_in_breaks: "credential_in previous s \<Longrightarrow> list_ex breaks_word s"
  by (induction previous s rule: credential_in.induct) (auto dest: credential_at_breaks)

lemma plain_not_sensitive:
  "list_all (\<lambda>c. ascii_lower c \<notin> set tell_tale) s \<Longrightarrow> \<not> sensitive_value s"
  "list_all (\<lambda>c. \<not> breaks_word (ascii_lower c)) s \<Longrightarrow> \<not> sensitive_value s"
  using credential_in_letters [of None "map ascii_lower s"] credential_in_breaks [of None "map ascii_lower s"]
  by (auto simp: sensitive_value_def list_all_iff list_ex_iff)

lemma telling_code: "c \<in> set tell_tale \<Longrightarrow> (of_char c :: nat) \<in> {103, 112, 114, 116}"
  by (auto simp: tell_tale_def)

lemma lower_kept: "\<not> (of_char c :: nat) \<in> {65..90} \<Longrightarrow> ascii_lower c = c"
  by (auto simp: ascii_lower_def less_eq_char_def)

lemma hex_code: "is_lower_hex c \<Longrightarrow> (of_char c :: nat) \<in> {48..57} \<union> {97..102}"
  by (auto simp: is_lower_hex_def is_digit_char_def less_eq_char_def)

lemma hex_not_telling:
  assumes "is_lower_hex c"
  shows "ascii_lower c \<notin> set tell_tale"
proof
  have code: "(of_char c :: nat) \<in> {48..57} \<union> {97..102}" using assms by (rule hex_code)
  then have "ascii_lower c = c" by (intro lower_kept) auto
  moreover assume "ascii_lower c \<in> set tell_tale"
  ultimately have "(of_char c :: nat) \<in> {103, 112, 114, 116}" using telling_code by simp
  with code show False by auto
qed

lemma digest_not_sensitive: "is_sha256 s \<Longrightarrow> \<not> sensitive_value s"
proof -
  assume digest: "is_sha256 s"
  then have start: "take 7 s = ''sha256:''" and rest: "list_all is_lower_hex (drop 7 s)"
    by (simp_all add: is_sha256_def prefixed_sha256_def sha256_text_def)
  have "list_all (\<lambda>c. ascii_lower c \<notin> set tell_tale) (take 7 s)"
    unfolding start by (simp add: tell_tale_def ascii_lower_def)
  moreover have "list_all (\<lambda>c. ascii_lower c \<notin> set tell_tale) (drop 7 s)"
    using rest hex_not_telling by (simp add: list_all_iff)
  ultimately have "list_all (\<lambda>c. ascii_lower c \<notin> set tell_tale) (take 7 s @ drop 7 s)"
    by (simp only: list_all_append simp_thms)
  then show ?thesis unfolding append_take_drop_id by (rule plain_not_sensitive(1))
qed

lemma decimal_not_sensitive: "\<not> sensitive_value (decimal_str d)"
proof (rule plain_not_sensitive(1))
  have digit: "is_digit_char c \<Longrightarrow> ascii_lower c \<notin> set tell_tale" for c
    by (rule hex_not_telling) (simp add: is_lower_hex_def)
  have digits: "\<forall>c\<in>set (nat_text n). ascii_lower c \<notin> set tell_tale" if "0 \<le> n" for n
    using digits_nat_text [OF that] digit by (simp add: list_all_iff)
  have "list_all (\<lambda>c. (of_char (ascii_lower c) :: nat) \<notin> {103, 112, 114, 116}) ''0.-+ENa''"
    by (simp add: ascii_lower_def)
  then have marks: "list_all (\<lambda>c. ascii_lower c \<notin> set tell_tale) ''0.-+ENa''"
    using telling_code unfolding list_all_iff by blast
  show "list_all (\<lambda>c. ascii_lower c \<notin> set tell_tale) (decimal_str d)"
    using marks unfolding decimal_str_def Let_def
    by (auto simp: list_all_iff split: decimal.split dest: in_set_takeD in_set_dropD dest!: digits [rule_format, rotated])
qed

text \<open>Names of fields and of enumeration members.\<close>

definition name_char :: "char \<Rightarrow> bool" where
  "name_char c \<longleftrightarrow> (of_char c :: nat) \<in> {45, 95} \<union> {48..57} \<union> {97..122}"

lemma name_not_sensitive: "list_all name_char s \<Longrightarrow> \<not> sensitive_value s"
proof (rule plain_not_sensitive(2))
  assume "list_all name_char s"
  moreover have "\<not> breaks_word (ascii_lower c)" if "name_char c" for c
  proof -
    have code: "(of_char c :: nat) \<in> {45, 95} \<union> {48..57} \<union> {97..122}" using that by (simp add: name_char_def)
    then have "ascii_lower c = c" by (intro lower_kept) auto
    moreover have "(of_char c :: int) = int (of_char c)" by (simp add: of_char_def)
    ultimately show ?thesis using code by (auto simp: breaks_word_def is_space_def Let_def)
  qed
  ultimately show "list_all (\<lambda>c. \<not> breaks_word (ascii_lower c)) s" by (simp add: list_all_iff)
qed

lemma members_not_sensitive [simp]:
  "\<not> sensitive_value (dogfood_type_value t)" "\<not> sensitive_value (lane_value l)"
  "\<not> sensitive_value (phase_value p)"
proof -
  show "\<not> sensitive_value (dogfood_type_value t)"
    by (rule name_not_sensitive, cases t) (simp_all add: name_char_def)
  show "\<not> sensitive_value (lane_value l)"
    by (rule name_not_sensitive, cases l) (simp_all add: name_char_def)
  show "\<not> sensitive_value (phase_value p)"
    by (rule name_not_sensitive, cases p) (simp_all add: name_char_def phase_value_def phases_def)
qed

lemma constants_not_sensitive [simp]:
  "\<not> sensitive_value dogfood_contract" "\<not> sensitive_value ''phase_observation''"
  by (rule name_not_sensitive, simp add: name_char_def dogfood_contract_def)+

lemma payload_keys [simplified, simp]:
  "list_all (\<lambda>k. \<not> sensitive_key k)
     [''contract'', ''event'', ''run_id'', ''observed_at'', ''phase'', ''state_transitions'', ''timings_ms'',
      ''artifact_digests'', ''estimated_cost_usd'', ''actual_cost_usd'', ''billing_receipt_digest'',
      ''provider'', ''model'', ''product_consent_count'', ''trained_weight_digest'',
      ''promoted_weight_digest'', ''weight_digest_used'', ''output_image_digest'',
      ''uploaded_artifact_digest'', ''recovered_artifact_digest'', ''recovered_resource_plan_digest'',
      ''provider_ack_interruption_count'', ''recovery_count'', ''publication_count'', ''promotion_count'',
      ''provider_attempts'']"
  by code_simp

lemma attempt_keys [simplified, simp]:
  "list_all (\<lambda>k. \<not> sensitive_key k)
     [''attempt_id'', ''lane'', ''plan_digest'', ''quote_digest'', ''resource'', ''provider_operation_id'',
      ''exclusive_window_sha256'', ''started_at'', ''completed_at'', ''resource_type'', ''resource_id'',
      ''resource_name'']"
  by code_simp

lemma timing_keys: "list_all (\<lambda>k. \<not> sensitive_key k) operational_timing_fields"
  by code_simp

text \<open>The free texts of an attempt and of an observation.\<close>

definition attempt_texts :: "ProviderAttemptIdentity \<Rightarrow> string list" where
  "attempt_texts a = [dt_run_id a, dt_attempt_id a, dr_resource_id (dt_resource a), dr_resource_name (dt_resource a),
     dt_provider_operation_id a]"

definition option_list :: "'a option \<Rightarrow> 'a list" where
  "option_list x = (case x of None \<Rightarrow> [] | Some v \<Rightarrow> [v])"

definition evidence_texts :: "string \<Rightarrow> PhaseObservation \<Rightarrow> string list" where
  "evidence_texts run_id ob =
     [run_id] @ dv_state_transitions ob @ option_list (dv_provider ob) @ option_list (dv_model ob)
     @ concat (map attempt_texts (dv_provider_attempts ob))"

lemma attempt_content:
  assumes "attempt_valid a"
  shows "content_free (Suc (Suc n)) (attempt_to_payload a) = list_all (\<lambda>s. \<not> sensitive_value s) (attempt_texts a)"
  using assms
  by (auto simp: attempt_to_payload_def resource_identity_to_payload_def attempt_texts_def attempt_valid_def
      digest_not_sensitive)

lemma strings_content: "content_free (Suc n) (jstrs ss) = list_all (\<lambda>s. \<not> sensitive_value s) ss"
  by (induction ss) (simp_all add: jstrs_def)

lemma optional_content:
  "content_free n (jopt JStr x) = list_all (\<lambda>s. \<not> sensitive_value s) (option_list x)"
  "optionally is_sha256 x \<Longrightarrow> list_all (\<lambda>s. \<not> sensitive_value s) (option_list x)"
  "content_free n (jopt (\<lambda>d. JStr (decimal_str d)) y)"
  by (cases x; cases y; simp add: jopt_def optionally_def digest_not_sensitive decimal_not_sensitive option_list_def)+

lemma timings_content:
  assumes "phase_observation_valid ob"
  shows "content_free (Suc n) (JObj (sort_key fst (map (\<lambda>(k, m). (k, JInt m)) (dv_timings_ms ob))))"
proof -
  have "list_all (\<lambda>(k, m). \<not> sensitive_key k) (dv_timings_ms ob)"
    using assms timing_keys by (auto simp: phase_observation_valid_def list_all_iff)
  then show ?thesis by (auto simp: list_all_iff)
qed

lemma binding_content:
  assumes "phase_observation_valid ob" "list_all attempt_valid (dv_provider_attempts ob)"
  shows "content_free (Suc (Suc (Suc (Suc n)))) (JObj (pre @ binding_entries ob)) \<longleftrightarrow>
    content_free (Suc (Suc (Suc (Suc n)))) (JObj pre)
    \<and> list_all (\<lambda>s. \<not> sensitive_value s) (dv_state_transitions ob @ option_list (dv_provider ob)
         @ option_list (dv_model ob) @ concat (map attempt_texts (dv_provider_attempts ob)))"
proof -
  have digests: "list_all is_sha256 (dv_artifact_digests ob)"
    "list_all (optionally is_sha256) (observation_digests ob)"
    using assms(1) by (simp_all add: phase_observation_valid_def)
  have artifacts: "list_all (\<lambda>s. \<not> sensitive_value s) (dv_artifact_digests ob)"
    using digests(1) by (simp add: list_all_iff digest_not_sensitive)
  have attempts: "content_free (Suc (Suc (Suc m))) (JList (map attempt_to_payload (dv_provider_attempts ob)))
    = list_all (\<lambda>s. \<not> sensitive_value s) (concat (map attempt_texts (dv_provider_attempts ob)))" for m
    using assms(2) by (induction "dv_provider_attempts ob" rule: rev_induct)
      (auto simp: list_all_iff attempt_content)
  note facts = digests(2) [unfolded observation_digests_def, simplified] optional_content artifacts
    strings_content timings_content [OF assms(1)]
  show ?thesis
    unfolding binding_entries_def content_free.simps(1) list_all_append
    by (simp add: facts attempts del: content_free.simps(1,2)) 
qed

section \<open>Properties\<close>


definition sample_observation :: "string option \<Rightarrow> PhaseObservation" where
  "sample_observation model =
     \<lparr> dv_phase = OLLAMA_INFERENCE, dv_state_transitions = [''ready''], dv_timings_ms = [(''inference'', 12)],
       dv_artifact_digests = [], dv_estimated_cost_usd = Some (Dec 5 (- 2)), dv_actual_cost_usd = None,
       dv_billing_receipt_digest = None, dv_provider = Some ''runpod'', dv_model = model,
       dv_product_consent_count = 0, dv_trained_weight_digest = None, dv_promoted_weight_digest = None,
       dv_weight_digest_used = None, dv_output_image_digest = None, dv_uploaded_artifact_digest = None,
       dv_recovered_artifact_digest = None, dv_recovered_resource_plan_digest = None,
       dv_provider_ack_interruption_count = 0, dv_recovery_count = 0, dv_publication_count = 0,
       dv_promotion_count = 0, dv_provider_attempts = [] \<rparr>"

lemma dogfood_sample_texts:
  "dogfood_identifier ''ready''" "dogfood_identifier ''runpod''" "dogfood_identifier ''token:1''"
  "dogfood_identifier ''run-1''" "sensitive_value ''token:1''"
  by (simp_all add: dogfood_identifier_def signed_identifier_def is_alnum_def is_ident_char_def is_digit_char_def
      contains_text_def sensitive_value_def credential_at_def starts_with_def assignment_follows_def
      ascii_lower_def is_space_def api_key_at_def upt_rec)

lemma sample_observation_valid: "phase_observation_valid (sample_observation (Some ''token:1''))"
  by (simp add: phase_observation_valid_def sample_observation_def observation_digests_def optionally_def dogfood_sample_texts
      nonnegative_decimal_def operational_timing_fields_def timing_fields_def)


end
