(* ===== verification/Session_Manager.thy ===== *)
theory Session_Manager
  imports Pod_Properties Runpod_Models Py_Float
begin

text \<open>
  The session manager of \<^verbatim>\<open>core.py\<close> with the sessions of \<^verbatim>\<open>models.py\<close>: programs over the table of the lease service,
  the one session the manager remembers, and the calls made so far.  The provider (\<^verbatim>\<open>GPUProvider\<close>), the clock, the
  environment variables and the metering callback are functions of the environment.  Tasks of one process that
  wait for the manager's lock are not interleaved; other processes act on the table as in the lease service.
\<close>

section \<open>Definitions\<close>

datatype PodStatus = PS_OFFLINE | PS_PROVISIONING | PS_LOADING | PS_READY | PS_TERMINATING | PS_ERROR

fun pod_status_value :: "PodStatus \<Rightarrow> string" where
  "pod_status_value PS_OFFLINE = ''offline''"
| "pod_status_value PS_PROVISIONING = ''provisioning''"
| "pod_status_value PS_LOADING = ''loading''"
| "pod_status_value PS_READY = ''ready''"
| "pod_status_value PS_TERMINATING = ''terminating''"
| "pod_status_value PS_ERROR = ''error''"

record RunPodSession =
  rs_pod_id :: string
  rs_profile :: GPUProfile
  rs_task_profile :: string
  rs_model_name :: string
  rs_pod_type :: "string option"
  rs_status :: PodStatus
  rs_ttl_seconds :: int
  rs_started_at :: datetime
  rs_expires_at :: datetime
  rs_backend_base_url :: "string option"
  rs_inference_url :: "string option"
  rs_image_endpoint :: "string option"
  rs_runtime :: json
  rs_gpu_type_id :: json
  rs_cost_per_hr :: json
  rs_placement :: "PlacementDecision option"
  rs_companion_id :: "string option"
  rs_user_id :: "string option"
  rs_training_cleanup_token :: "string option"

definition session_active :: "RunPodSession \<Rightarrow> bool" where
  "session_active s \<longleftrightarrow> rs_status s \<notin> {PS_OFFLINE, PS_TERMINATING, PS_ERROR}"

text \<open>What the manager asked of others, in order; the last two are the answers of the lease service.\<close>

datatype manager_call =
    MC_get string
  | MC_post string "(string \<times> string) list"
  | MC_start_pod string
  | MC_resume_pod string
  | MC_stop_pod string
  | MC_terminate_pod string
  | MC_release string
  | MC_record_job string string
  | MC_record_error string py_error
  | MC_request_cancellation string
  | MC_acquire string
  | MC_acquired string "py_error option"

text \<open>Answers of \<^verbatim>\<open>httpx\<close>: status, JSON value and content, or an exception of the named class.\<close>

datatype training_reply =
    Reply int "json option" string
  | Reply_connect_error
  | Reply_timeout string
  | Reply_other string
  | Reply_cancelled

record metering_record =
  mr_companion_id :: string
  mr_user_id :: string
  mr_resource_type :: string
  mr_duration_seconds :: rat
  mr_operation_id :: string

record manager_world =
  mw_service :: world
  mw_tick :: nat
  mw_session :: "RunPodSession option"
  mw_calls :: "manager_call list"

record manager_env =
  me_service :: svc_env
  me_now :: "nat \<Rightarrow> datetime"
  me_sleep :: "nat \<Rightarrow> py_error + unit"
  me_uuid4 :: "nat \<Rightarrow> string"
  me_http :: "nat \<Rightarrow> manager_call \<Rightarrow> training_reply"
  me_direct :: bool
  me_list_pods :: "nat \<Rightarrow> py_error + json list"
  me_start_pod :: "nat \<Rightarrow> GPUProfile \<Rightarrow> (string \<times> json) list \<Rightarrow> py_error + (json \<times> PlacementDecision option)"
  me_get_status :: "nat \<Rightarrow> string \<Rightarrow> py_error + json"
  me_resume_pod :: "nat \<Rightarrow> string \<Rightarrow> json \<Rightarrow> py_error + json"
  me_stop_pod :: "nat \<Rightarrow> string \<Rightarrow> py_error + unit"
  me_terminate_pod :: "(nat \<Rightarrow> string \<Rightarrow> py_error + unit) option"
  me_metering :: "(nat \<Rightarrow> metering_record \<Rightarrow> py_error + unit) option"
  me_environ :: "string \<Rightarrow> string option"
  me_text :: "json \<Rightarrow> string"
  me_decode :: "string \<Rightarrow> string"
  me_default_ttl_seconds :: int
  me_max_ttl_seconds :: int
  me_readiness_timeout :: int
  me_pod_ready_timeout :: int
  me_fuel :: nat

subsection \<open>Steps\<close>

definition ask :: "(nat \<Rightarrow> py_error + 'a) \<Rightarrow> (manager_world, 'a) prog" where
  "ask f = (\<lambda>w. (f (mw_tick w), w\<lparr> mw_tick := Suc (mw_tick w) \<rparr>))"

definition called :: "manager_call \<Rightarrow> (manager_world, unit) prog" where
  "called c = (\<lambda>w. (Inr (), w\<lparr> mw_calls := mw_calls w @ [c] \<rparr>))"

definition on_service :: "(world, 'a) prog \<Rightarrow> (manager_world, 'a) prog" where
  "on_service m = (\<lambda>w. case m (mw_service w) of (r, v) \<Rightarrow> (r, w\<lparr> mw_service := v \<rparr>))"

definition the_session :: "(manager_world, RunPodSession option) prog" where
  "the_session = (\<lambda>w. (Inr (mw_session w), w))"

definition set_session :: "RunPodSession option \<Rightarrow> (manager_world, unit) prog" where
  "set_session s = (\<lambda>w. (Inr (), w\<lparr> mw_session := s \<rparr>))"

definition utc_now :: "manager_env \<Rightarrow> (manager_world, datetime) prog" where
  "utc_now E = ask (\<lambda>n. Inr (me_now E n))"

definition given_text :: "string option \<Rightarrow> bool" where
  "given_text x \<longleftrightarrow> x \<notin> {None, Some []}"

definition given_int :: "int option \<Rightarrow> int \<Rightarrow> int" where
  "given_int x preset = (case x of None \<Rightarrow> preset | Some n \<Rightarrow> if n = 0 then preset else n)"

subsection \<open>Profiles, limits and environment variables\<close>

definition me_profiles :: "manager_env \<Rightarrow> (string \<times> GPUProfile) list" where
  "me_profiles E = sv_profiles (me_service E)"

definition select_profile :: "manager_env \<Rightarrow> string \<Rightarrow> py_error + GPUProfile" where
  "select_profile E name =
     (case map_of (me_profiles E) name of None \<Rightarrow> Inl RunPodManagerError | Some p \<Rightarrow> Inr p)"

definition validate_ttl :: "manager_env \<Rightarrow> int option \<Rightarrow> py_error + int" where
  "validate_ttl E ttl_seconds =
     (let ttl = given_int ttl_seconds (me_default_ttl_seconds E)
      in if me_max_ttl_seconds E < ttl then Inl RunPodManagerError else Inr ttl)"

definition require_uniform_profile_cloud :: "manager_env \<Rightarrow> CloudType option \<Rightarrow> py_error + CloudType" where
  "require_uniform_profile_cloud E expected =
     (case remdups (map (\<lambda>(k, p). gp_cloud p) (me_profiles E)) of
        [cloud] \<Rightarrow> if expected \<noteq> None \<and> expected \<noteq> Some cloud then Inl RunPodManagerError else Inr cloud
      | _ \<Rightarrow> Inl RunPodManagerError)"

text \<open>\<^verbatim>\<open>${NAME}\<close> is replaced by the value of the variable, by nothing when it is not set.\<close>

function expand_text :: "(string \<Rightarrow> string option) \<Rightarrow> string \<Rightarrow> string" where
  "expand_text env [] = []"
| "expand_text env (c # s) =
     (let name = takeWhile (\<lambda>x. x \<noteq> CHR ''}'') (drop 1 s); rest = drop (Suc (length name)) s
      in if c = CHR ''$'' \<and> take 1 s = ''{'' \<and> name \<noteq> [] \<and> rest \<noteq> []
         then (case env name of None \<Rightarrow> [] | Some v \<Rightarrow> v) @ expand_text env (tl rest)
         else c # expand_text env s)"
  by pat_completeness auto

termination expand_text
  by (relation "measure (\<lambda>(env, s). length s)") (auto simp: less_Suc_eq_le)

definition expand_single_env_var :: "manager_env \<Rightarrow> string option \<Rightarrow> string option" where
  "expand_single_env_var E v =
     (case v of
        None \<Rightarrow> None
      | Some s \<Rightarrow>
          if s = [] \<or> \<not> contains_text ''${'' s then Some s
          else let expanded = expand_text (me_environ E) s in if expanded = [] then None else Some expanded)"

definition map_status :: "json \<Rightarrow> py_error + PodStatus" where
  "map_status raw =
     (if (case raw of JStr s \<Rightarrow> False | _ \<Rightarrow> truthy raw) then Inl AttributeError
      else let n = (case raw of JStr s \<Rightarrow> map lower_char s | _ \<Rightarrow> []) in Inr
       (if n \<in> {''running'', ''ready''} then PS_READY
        else if n \<in> {''starting'', ''provisioning''} then PS_PROVISIONING
        else if n = ''loading'' then PS_LOADING
        else if n \<in> {''stopping'', ''terminating''} then PS_TERMINATING
        else if n \<in> {''exited'', ''terminated'', ''stopped''} then PS_OFFLINE
        else if n \<in> {''failed'', ''error''} then PS_ERROR
        else PS_OFFLINE))"

subsection \<open>Observation of the provider\<close>

definition py_int :: "json \<Rightarrow> py_error + int" where
  "py_int v = (case v of
       JInt n \<Rightarrow> Inr n
     | JBool b \<Rightarrow> Inr (if b then 1 else 0)
     | JStr s \<Rightarrow> (case python_int s of None \<Rightarrow> Inl ValueError | Some n \<Rightarrow> Inr n)
     | JNum d \<Rightarrow> if is_finite d then Inr (if dval d < 0 then \<lceil>dval d\<rceil> else \<lfloor>dval d\<rfloor>) else Inl ValueError
     | _ \<Rightarrow> Inl TypeError)"

definition session_text :: "manager_env \<Rightarrow> json \<Rightarrow> string" where
  "session_text E v = (case v of JStr s \<Rightarrow> s | _ \<Rightarrow> me_text E v)"

definition entry_or :: "json \<Rightarrow> string \<Rightarrow> json \<Rightarrow> json" where
  "entry_or v k other = (if k \<in> set (jkeys v) then jget v k else other)"

text \<open>The route that one entry of the runtime's ports gives, if any.\<close>

definition session_route :: "manager_env \<Rightarrow> RunPodSession \<Rightarrow> json \<Rightarrow> py_error + string option" where
  "session_route E s item =
     (if \<not> is_jobj item then Inl AttributeError
      else let private_port = json_or (jget item ''private'') (jget item ''privatePort'') in
        if \<not> truthy private_port then Inr None
        else bindE (py_int private_port) (\<lambda>n.
          if n \<noteq> gp_inference_port (rs_profile s) then Inr None
          else let ip = jget item ''ip'';
                   public_port = json_or (jget item ''public'') (jget item ''publicPort'');
                   direct = truthy ip \<and> truthy public_port;
                   is_public = truthy (entry_or item ''isIpPublic'' (JBool direct));
                   port_type = map lower_char (session_text E (entry_or item ''type'' (JStr [])))
            in Inr (if port_type = ''http'' \<or> (direct \<and> \<not> is_public)
                    then Some (''https://'' @ rs_pod_id s @ ''-'' @ session_text E private_port @ ''.proxy.runpod.net'')
                    else if direct
                    then Some (gp_inference_protocol (rs_profile s) @ ''://'' @ session_text E ip @ '':''
                               @ session_text E public_port)
                    else None)))"

definition with_session_route :: "RunPodSession \<Rightarrow> string \<Rightarrow> RunPodSession" where
  "with_session_route s base_url =
     (let p = rs_profile s in
      s\<lparr> rs_backend_base_url := Some base_url,
         rs_inference_url := Some (rstrip (CHR ''/'') (base_url @ gp_inference_base_path p)),
         rs_image_endpoint := (if given_text (gp_image_invoke_path p)
           then Some (base_url @ the (gp_image_invoke_path p)) else rs_image_endpoint s) \<rparr>)"

text \<open>The ports are read in order; the session keeps what was read before an exception.\<close>

fun read_ports :: "manager_env \<Rightarrow> RunPodSession \<Rightarrow> json list \<Rightarrow> py_error option \<times> RunPodSession" where
  "read_ports E s [] = (None, s)"
| "read_ports E s (item # items) =
     (case session_route E s item of
        Inl e \<Rightarrow> (Some e, s)
      | Inr None \<Rightarrow> read_ports E s items
      | Inr (Some url) \<Rightarrow> read_ports E (with_session_route s url) items)"

definition remaining_ttl_seconds :: "RunPodSession \<Rightarrow> datetime \<Rightarrow> int" where
  "remaining_ttl_seconds s t = max 0 \<lfloor>float_value (total_seconds (usec (rs_expires_at s) - usec t))\<rfloor>"

definition observe_runtime :: "manager_env \<Rightarrow> RunPodSession \<Rightarrow> json \<Rightarrow> py_error option \<times> RunPodSession" where
  "observe_runtime E s pod_info =
     (let safe_info = sanitize_resource_payload pod_info;
          raw_status = json_or (jget safe_info ''status'') (jget safe_info ''desiredStatus'')
      in case map_status raw_status of
           Inl e \<Rightarrow> (Some e, s)
         | Inr status \<Rightarrow>
             let s1 = s\<lparr> rs_status := status, rs_runtime := safe_info \<rparr>;
                 runtime = json_or (jget safe_info ''runtime'') (JObj [])
             in if \<not> is_jobj runtime then (Some AttributeError, s1)
                else case entry_or runtime ''ports'' (JList []) of
                    JList items \<Rightarrow> read_ports E s1 items
                  | JStr cs \<Rightarrow> (if cs = [] then None else Some AttributeError, s1)
                  | JObj kvs \<Rightarrow> (if kvs = [] then None else Some AttributeError, s1)
                  | _ \<Rightarrow> (Some TypeError, s1))"

definition update_session_from_runtime :: "manager_env \<Rightarrow> RunPodSession \<Rightarrow> json
    \<Rightarrow> (manager_world, RunPodSession) prog" where
  "update_session_from_runtime E s pod_info =
     (if \<not> truthy pod_info then ret s
      else case observe_runtime E s pod_info of
          (Some e, s') \<Rightarrow> seqM (set_session (Some s')) (\<lambda>_. raiseM e)
        | (None, s') \<Rightarrow> seqM (utc_now E) (\<lambda>t.
            let s'' = (if remaining_ttl_seconds s' t = 0 then s'\<lparr> rs_status := PS_TERMINATING \<rparr> else s')
            in seqM (set_session (Some s'')) (\<lambda>_. ret s'')))"

definition session_to_dict :: "RunPodSession \<Rightarrow> datetime \<Rightarrow> (string \<times> json) list" where
  "session_to_dict s t =
     [(''pod_id'', JStr (rs_pod_id s)), (''profile'', JStr (gp_id (rs_profile s))),
      (''task_profile'', JStr (rs_task_profile s)), (''model_name'', JStr (rs_model_name s)),
      (''status'', JStr (pod_status_value (rs_status s))),
      (''backend_base_url'', jopt JStr (rs_backend_base_url s)),
      (''inference_url'', jopt JStr (rs_inference_url s)),
      (''image_endpoint'', jopt JStr (rs_image_endpoint s)), (''ttl_seconds'', JInt (rs_ttl_seconds s)),
      (''remaining_ttl_seconds'', JInt (remaining_ttl_seconds s t)), (''gpu_type_id'', rs_gpu_type_id s),
      (''cost_per_hr'', rs_cost_per_hr s),
      (''vram_gb'', jopt (\<lambda>p. JInt (pd_memory_gb p)) (rs_placement s)), (''runtime'', rs_runtime s),
      (''training_cleanup_token'', jopt JStr (rs_training_cleanup_token s))]"

definition offline_payload :: json where
  "offline_payload = JObj [(''active'', JBool False), (''status'', JStr (pod_status_value PS_OFFLINE))]"

definition get_session_status :: "manager_env \<Rightarrow> bool \<Rightarrow> (manager_world, json) prog" where
  "get_session_status E refresh =
     seqM the_session (\<lambda>found. case found of
       None \<Rightarrow> ret offline_payload
     | Some s \<Rightarrow>
         seqM (if refresh
               then seqM (ask (\<lambda>n. me_get_status E n (rs_pod_id s))) (update_session_from_runtime E s)
               else ret s) (\<lambda>s'.
         seqM (utc_now E) (\<lambda>t.
         ret (JObj (session_to_dict s' t @ [(''active'', JBool (session_active s'))])))))"

subsection \<open>Waiting for a session\<close>

definition pause :: "manager_env \<Rightarrow> (manager_world, unit) prog" where
  "pause E = ask (me_sleep E)"

text \<open>The first loop of \<^verbatim>\<open>_wait_until_ready\<close>; \<open>fuel\<close> bounds the number of rounds.\<close>

primrec wait_for_status :: "nat \<Rightarrow> manager_env \<Rightarrow> datetime \<Rightarrow> (manager_world, unit) prog" where
  "wait_for_status 0 E deadline = raiseM Diverged"
| "wait_for_status (Suc fuel) E deadline =
     seqM (utc_now E) (\<lambda>t.
     if \<not> t < deadline then raiseM RunPodManagerError
     else seqM (get_session_status E True) (\<lambda>status.
       if jget status ''status'' = JStr (pod_status_value PS_READY) then ret ()
       else seqM (pause E) (\<lambda>_. wait_for_status fuel E deadline)))"

text \<open>The second loop waits for a route; it gives up without an error.\<close>

primrec wait_for_route :: "nat \<Rightarrow> manager_env \<Rightarrow> datetime \<Rightarrow> (manager_world, unit) prog" where
  "wait_for_route 0 E deadline = raiseM Diverged"
| "wait_for_route (Suc fuel) E deadline =
     seqM (utc_now E) (\<lambda>t.
     if \<not> t < deadline then ret ()
     else seqM the_session (\<lambda>found.
       if (case found of None \<Rightarrow> False | Some s \<Rightarrow> given_text (rs_backend_base_url s)) then ret ()
       else seqM (get_session_status E True) (\<lambda>_. seqM (pause E) (\<lambda>_. wait_for_route fuel E deadline))))"

definition session_timeout :: "manager_env \<Rightarrow> RunPodSession \<Rightarrow> int" where
  "session_timeout E s = given_int (gp_readiness_timeout_seconds (rs_profile s)) (me_readiness_timeout E)"

definition wait_for_session :: "manager_env \<Rightarrow> (manager_world, unit) prog" where
  "wait_for_session E =
     seqM the_session (\<lambda>found. case found of
       None \<Rightarrow> ret ()
     | Some s \<Rightarrow>
         seqM (utc_now E) (\<lambda>t.
         seqM (wait_for_status (me_fuel E) E (dt_add t (seconds (session_timeout E s)))) (\<lambda>_.
         seqM (utc_now E) (\<lambda>t2.
         wait_for_route (me_fuel E) E (dt_add t2 (seconds 120))))))"

primrec poll_ready :: "nat \<Rightarrow> manager_env \<Rightarrow> datetime \<Rightarrow> (manager_world, bool) prog" where
  "poll_ready 0 E deadline = raiseM Diverged"
| "poll_ready (Suc fuel) E deadline =
     seqM (utc_now E) (\<lambda>t.
     if \<not> t < deadline then ret False
     else seqM (get_session_status E True) (\<lambda>payload.
       let status = jget payload ''status'' in
       if status = JStr (pod_status_value PS_READY) then ret True
       else if status \<in> {JStr (pod_status_value PS_ERROR), JStr (pod_status_value PS_TERMINATING)} then ret False
       else seqM (pause E) (\<lambda>_. poll_ready fuel E deadline)))"

definition wait_for_ready :: "manager_env \<Rightarrow> RunPodSession option \<Rightarrow> int option \<Rightarrow> (manager_world, bool) prog" where
  "wait_for_ready E session timeout =
     seqM (case session of None \<Rightarrow> the_session | Some s \<Rightarrow> ret (Some s)) (\<lambda>target. case target of
       None \<Rightarrow> ret False
     | Some s \<Rightarrow> seqM (utc_now E) (\<lambda>t.
         poll_ready (me_fuel E) E (dt_add t (seconds (given_int timeout (session_timeout E s))))))"

subsection \<open>Sessions\<close>

definition no_active_session :: "(manager_world, unit) prog" where
  "no_active_session = seqM the_session (\<lambda>found. case found of
     None \<Rightarrow> ret () | Some s \<Rightarrow> if session_active s then raiseM RunPodManagerError else ret ())"

text \<open>An id is kept as text; without one the Pod is not recorded.\<close>

definition session_pod_id :: "manager_env \<Rightarrow> json \<Rightarrow> string option" where
  "session_pod_id E response =
     (let v = json_or (jget response ''id'') (jget response ''podId'')
      in if truthy v then Some (session_text E v) else None)"

definition new_session :: "string \<Rightarrow> GPUProfile \<Rightarrow> string \<Rightarrow> string \<Rightarrow> string option \<Rightarrow> int \<Rightarrow> datetime \<Rightarrow> RunPodSession" where
  "new_session pod_id profile task_profile model pod_type ttl started_at =
     \<lparr> rs_pod_id = pod_id, rs_profile = profile, rs_task_profile = task_profile, rs_model_name = model,
       rs_pod_type = pod_type, rs_status = PS_PROVISIONING, rs_ttl_seconds = ttl, rs_started_at = started_at,
       rs_expires_at = dt_add started_at (seconds ttl), rs_backend_base_url = None, rs_inference_url = None,
       rs_image_endpoint = None, rs_runtime = JObj [], rs_gpu_type_id = JNull, rs_cost_per_hr = JNull,
       rs_placement = None, rs_companion_id = None, rs_user_id = None, rs_training_cleanup_token = None \<rparr>"

definition request_pod :: "manager_env \<Rightarrow> GPUProfile \<Rightarrow> (string \<times> json) list
    \<Rightarrow> (manager_world, json \<times> PlacementDecision option) prog" where
  "request_pod E profile metadata =
     tryM (seqM (called (MC_start_pod (gp_id profile))) (\<lambda>_. ask (\<lambda>n. me_start_pod E n profile metadata)))
       (\<lambda>e. if is_manager_error e \<and> e \<noteq> RunPodAmbiguousResultError then raiseM RunPodManagerError else raiseM e)"

text \<open>What follows the answer of the provider.\<close>

definition start_answered :: "manager_env \<Rightarrow> string \<Rightarrow> string \<Rightarrow> string option \<Rightarrow> GPUProfile \<Rightarrow> int
    \<Rightarrow> json \<times> PlacementDecision option \<Rightarrow> (manager_world, json) prog" where
  "start_answered E task_profile model pod_type profile ttl answer =
     (let (response, placement) = answer; gpu = json_or (jget response ''gpu'') (JObj []) in
      case session_pod_id E response of
        None \<Rightarrow> raiseM RunPodManagerError
      | Some pod_id \<Rightarrow>
          seqM (utc_now E) (\<lambda>started_at.
          let s = new_session pod_id profile task_profile model
                (if given_text pod_type then pod_type else gp_pod_type profile) ttl started_at
          in if placement = None \<and> \<not> is_jobj gpu then raiseM AttributeError
             else seqM (set_session (Some (s\<lparr>
                 rs_gpu_type_id := (case placement of None \<Rightarrow> jget gpu ''id'' | Some p \<Rightarrow> JStr (pd_gpu_id p)),
                 rs_cost_per_hr := (case placement of None \<Rightarrow> jget response ''cost''
                   | Some p \<Rightarrow> JAmount (pd_offered_cost_per_hr p)),
                 rs_placement := placement \<rparr>))) (\<lambda>_.
               seqM (wait_for_session E) (\<lambda>_. get_session_status E True))))"

definition start_session :: "manager_env \<Rightarrow> string \<Rightarrow> string option \<Rightarrow> int option \<Rightarrow> string option
    \<Rightarrow> (string \<times> json) list \<Rightarrow> (manager_world, json) prog" where
  "start_session E task_profile model ttl_seconds pod_type metadata =
     seqM (liftM (select_profile E task_profile)) (\<lambda>profile.
     seqM (liftM (validate_ttl E ttl_seconds)) (\<lambda>ttl.
     let chosen = (if given_text model then model else gp_default_model profile) in
     if \<not> given_text chosen then raiseM RunPodManagerError
     else seqM no_active_session (\<lambda>_.
       seqM (request_pod E profile metadata) (start_answered E task_profile (the chosen) pod_type profile ttl))))"

text \<open>\<^verbatim>\<open>resume_stopped_pod\<close>: the new session replaces the one that is remembered.\<close>

definition resume_stopped_pod :: "manager_env \<Rightarrow> json \<Rightarrow> GPUProfile \<Rightarrow> int \<Rightarrow> (manager_world, RunPodSession) prog" where
  "resume_stopped_pod E pod profile ttl_seconds =
     (if ''id'' \<notin> set (jkeys pod) then raiseM KeyError
      else let pod_id = session_text E (jget pod ''id''); gpu = json_or (jget pod ''gpu'') (JObj []) in
        if \<not> is_jobj gpu then raiseM AttributeError
        else if \<not> given_text (gp_default_model profile) then raiseM RunPodManagerError
        else seqM (called (MC_resume_pod pod_id)) (\<lambda>_.
          seqM (ask (\<lambda>n. me_resume_pod E n pod_id (entry_or gpu ''count'' (entry_or pod ''gpuCount'' (JInt 1)))))
          (\<lambda>resumed.
          let resumed_gpu = json_or (json_or (jget resumed ''gpu'') (jget pod ''gpu'')) (JObj []) in
          seqM (utc_now E) (\<lambda>started_at.
          if \<not> is_jobj resumed_gpu then raiseM AttributeError
          else let s = (new_session pod_id profile (gp_task_type profile) (the (gp_default_model profile))
                  (gp_pod_type profile) ttl_seconds started_at)
                \<lparr> rs_gpu_type_id := jget resumed_gpu ''id'',
                  rs_cost_per_hr := entry_or resumed ''cost'' (jget pod ''cost'') \<rparr>
            in seqM (set_session (Some s)) (\<lambda>_.
               seqM (wait_for_session E) (\<lambda>_.
               seqM the_session (\<lambda>now_session. ret (case now_session of None \<Rightarrow> s | Some s' \<Rightarrow> s'))))))))"

subsection \<open>The end of a session\<close>

definition release_capacity :: "manager_env \<Rightarrow> string \<Rightarrow> string \<Rightarrow> (manager_world, TrainingPodLease) prog" where
  "release_capacity E cleanup_token reason =
     seqM (called (MC_release cleanup_token)) (\<lambda>_. on_service (release (me_service E) cleanup_token reason))"

text \<open>\<^verbatim>\<open>release_training_pod\<close>: a session of the token, or of a later attempt of its family, ends with the lease.\<close>

definition release_training_pod :: "manager_env \<Rightarrow> string \<Rightarrow> string \<Rightarrow> (manager_world, TrainingPodLease) prog" where
  "release_training_pod E cleanup_token reason =
     seqM (release_capacity E cleanup_token reason) (\<lambda>lease.
     seqM the_session (\<lambda>found.
     let session_token = (case found of None \<Rightarrow> None | Some s \<Rightarrow> rs_training_cleanup_token s) in
     seqM (if given_text session_token then on_service (repo_get (me_service E) (the session_token)) else ret None)
       (\<lambda>session_lease.
     seqM (if found \<noteq> None \<and> (session_token = Some cleanup_token
               \<or> (case session_lease of None \<Rightarrow> False | Some l \<Rightarrow> l_root_cleanup_token l = cleanup_token))
           then set_session None else ret ()) (\<lambda>_.
     ret lease))))"

definition record_metering :: "manager_env \<Rightarrow> RunPodSession \<Rightarrow> (manager_world, unit) prog" where
  "record_metering E s =
     (case me_metering E of
        None \<Rightarrow> ret ()
      | Some callback \<Rightarrow>
          if \<not> given_text (rs_companion_id s) \<or> \<not> given_text (rs_user_id s) then ret ()
          else seqM (utc_now E) (\<lambda>t.
            tryM (ask (\<lambda>n. callback n
                \<lparr> mr_companion_id = the (rs_companion_id s), mr_user_id = the (rs_user_id s),
                  mr_resource_type = (if truthy (rs_gpu_type_id s) then session_text E (rs_gpu_type_id s) else ''unknown''),
                  mr_duration_seconds = total_seconds (usec t - usec (rs_started_at s)),
                  mr_operation_id = rs_pod_id s \<rparr>))
              (\<lambda>e. if e = CancelledError then raiseM e else ret ())))"

fun cleanup_state_name :: "TrainingPodCleanupState \<Rightarrow> string" where
  "cleanup_state_name C_NOT_REQUESTED = ''not_requested''"
| "cleanup_state_name C_PENDING = ''pending''"
| "cleanup_state_name C_RETRYABLE_FAILURE = ''retryable_failure''"
| "cleanup_state_name C_COMPLETE = ''complete''"
| "cleanup_state_name C_NOT_OWNED = ''not_owned''"

definition stop_session :: "manager_env \<Rightarrow> (manager_world, json) prog" where
  "stop_session E =
     seqM the_session (\<lambda>found. case found of
       None \<Rightarrow> ret offline_payload
     | Some s \<Rightarrow>
         if given_text (rs_training_cleanup_token s)
         then seqM (release_training_pod E (the (rs_training_cleanup_token s)) ''manager stop_session'') (\<lambda>lease.
              seqM (set_session None) (\<lambda>_.
              seqM (utc_now E) (\<lambda>t.
              ret (JObj (session_to_dict (s\<lparr> rs_status := PS_OFFLINE \<rparr>) t
                @ [(''active'', JBool False),
                   (''training_cleanup_state'', JStr (cleanup_state_name (l_cleanup_state lease)))])))))
         else seqM (called (MC_stop_pod (rs_pod_id s))) (\<lambda>_.
              seqM (ask (\<lambda>n. me_stop_pod E n (rs_pod_id s))) (\<lambda>_.
              seqM (set_session None) (\<lambda>_.
              seqM (record_metering E s) (\<lambda>_.
              seqM (utc_now E) (\<lambda>t.
              ret (JObj (session_to_dict (s\<lparr> rs_status := PS_TERMINATING \<rparr>) t
                @ [(''active'', JBool False)]))))))))"

definition terminate_at_provider :: "manager_env \<Rightarrow> string \<Rightarrow> (manager_world, unit) prog" where
  "terminate_at_provider E pod_id =
     (case me_terminate_pod E of
        None \<Rightarrow> raiseM RunPodManagerError
      | Some f \<Rightarrow> seqM (called (MC_terminate_pod pod_id)) (\<lambda>_. ask (\<lambda>n. f n pod_id)))"

text \<open>A session is compared by value where the code compares the object.\<close>

definition terminate_session :: "manager_env \<Rightarrow> RunPodSession \<Rightarrow> (manager_world, unit) prog" where
  "terminate_session E s =
     (if rs_pod_id s = [] then ret ()
      else seqM (terminate_at_provider E (rs_pod_id s)) (\<lambda>_.
        seqM the_session (\<lambda>found. if found = Some s then set_session None else ret ())))"

definition terminate_pod_by_id :: "manager_env \<Rightarrow> string \<Rightarrow> (manager_world, unit) prog" where
  "terminate_pod_by_id E pod_id =
     seqM (terminate_at_provider E pod_id) (\<lambda>_.
     seqM the_session (\<lambda>found. case found of
       None \<Rightarrow> ret () | Some s \<Rightarrow> if rs_pod_id s = pod_id then set_session None else ret ()))"

subsection \<open>Stopped Pods\<close>

definition stopped_names :: "(string \<times> string) list" where
  "stopped_names = [(''lora_training'', ''kestrel-lora''), (''lora_inference'', ''kestrel-selfie''),
     (''ollama_server'', ''kestrel-ollama'')]"

text \<open>\<^verbatim>\<open>fragment in pod.get("name", "")\<close>\<close>

definition name_contains :: "string \<Rightarrow> json \<Rightarrow> py_error + bool" where
  "name_contains fragment pod =
     (if ''name'' \<notin> set (jkeys pod) then Inr False
      else case jget pod ''name'' of
          JStr s \<Rightarrow> Inr (contains_text fragment s)
        | JList xs \<Rightarrow> Inr (JStr fragment \<in> set xs)
        | JObj kvs \<Rightarrow> Inr (fragment \<in> set (map fst kvs))
        | _ \<Rightarrow> Inl TypeError)"

fun first_stopped :: "string \<Rightarrow> json list \<Rightarrow> py_error + json option" where
  "first_stopped fragment [] = Inr None"
| "first_stopped fragment (pod # pods) =
     (if json_or (jget pod ''status'') (jget pod ''desiredStatus'') \<noteq> JStr ''EXITED'' then first_stopped fragment pods
      else bindE (name_contains fragment pod) (\<lambda>b.
        if \<not> b then first_stopped fragment pods
        else if ''id'' \<notin> set (jkeys pod) then Inl KeyError else Inr (Some pod)))"

definition find_stopped_pod :: "manager_env \<Rightarrow> string \<Rightarrow> (manager_world, json option) prog" where
  "find_stopped_pod E purpose =
     (if \<not> me_direct E then ret None
      else seqM (ask (me_list_pods E)) (\<lambda>pods.
        case map_of stopped_names purpose of
          None \<Rightarrow> raiseM RunPodManagerError
        | Some fragment \<Rightarrow> liftM (first_stopped fragment pods)))"

end
