(* ===== verification/Training.thy ===== *)
theory Training
  imports Session_Manager
begin

text \<open>
  The training client of \<^verbatim>\<open>training.py\<close>: acquisition of capacity through the lease service, the HTTP calls to
  the worker and what is recorded of them.  \<^verbatim>\<open>httpx\<close> is the function \<open>me_http\<close> of the environment.
\<close>

section \<open>Definitions\<close>

subsection \<open>HTTP calls\<close>

definition http_call :: "manager_env \<Rightarrow> manager_call \<Rightarrow> (manager_world, training_reply) prog" where
  "http_call E c = seqM (called c) (\<lambda>_. ask (\<lambda>n. Inr (me_http E n c)))"

fun is_http_error :: "py_error \<Rightarrow> bool" where
  "is_http_error HttpxConnectError = True"
| "is_http_error HttpxStatusError = True"
| "is_http_error (HttpxTimeoutException _) = True"
| "is_http_error (HttpxOtherError _) = True"
| "is_http_error _ = False"

text \<open>\<^verbatim>\<open>response.raise_for_status()\<close> and \<^verbatim>\<open>response.json()\<close>.\<close>

fun content_of :: "training_reply \<Rightarrow> py_error + string" where
  "content_of (Reply status body content) = (if 200 \<le> status \<and> status < 300 then Inr content else Inl HttpxStatusError)"
| "content_of Reply_connect_error = Inl HttpxConnectError"
| "content_of (Reply_timeout name) = Inl (HttpxTimeoutException name)"
| "content_of (Reply_other name) = Inl (HttpxOtherError name)"
| "content_of Reply_cancelled = Inl CancelledError"

fun reply_json :: "training_reply \<Rightarrow> py_error + json" where
  "reply_json (Reply status body content) = (case body of None \<Rightarrow> Inl ValueError | Some v \<Rightarrow> Inr v)"
| "reply_json r = Inl CancelledError"

definition checked_json :: "training_reply \<Rightarrow> py_error + json" where
  "checked_json r = bindE (content_of r) (\<lambda>_. reply_json r)"

definition training_token :: "RunPodSession \<Rightarrow> py_error + string" where
  "training_token s =
     (if given_text (rs_training_cleanup_token s) then Inr (the (rs_training_cleanup_token s)) else Inl RunPodManagerError)"

text \<open>The start of every operation on a session: its route and its token.\<close>

definition routed :: "RunPodSession \<Rightarrow> (string \<Rightarrow> string \<Rightarrow> (manager_world, 'a) prog) \<Rightarrow> (manager_world, 'a) prog" where
  "routed s f =
     (if \<not> given_text (rs_backend_base_url s) then raiseM RunPodManagerError
      else seqM (liftM (training_token s)) (\<lambda>token. f (the (rs_backend_base_url s)) token))"

definition training_heartbeat :: "manager_env \<Rightarrow> string \<Rightarrow> (manager_world, TrainingPodLease) prog" where
  "training_heartbeat E token = on_service (heartbeat (me_service E) token)"

definition note_error :: "manager_env \<Rightarrow> string \<Rightarrow> py_error \<Rightarrow> (manager_world, TrainingPodLease) prog" where
  "note_error E token e =
     seqM (called (MC_record_error token e)) (\<lambda>_. on_service (record_operation_error (me_service E) token e))"

definition note_job :: "manager_env \<Rightarrow> string \<Rightarrow> string \<Rightarrow> (manager_world, string) prog" where
  "note_job E token job_id =
     seqM (called (MC_record_job token job_id)) (\<lambda>_.
     seqM (on_service (record_job (me_service E) token job_id)) (\<lambda>_. ret job_id))"

definition note_cancellation :: "manager_env \<Rightarrow> string \<Rightarrow> (manager_world, TrainingPodLease) prog" where
  "note_cancellation E token =
     seqM (called (MC_request_cancellation token)) (\<lambda>_. on_service (request_cancellation (me_service E) token))"

text \<open>\<^verbatim>\<open>_release_after_cancellation\<close>: the shielded release runs to its end.\<close>

definition release_after_cancellation :: "manager_env \<Rightarrow> string \<Rightarrow> string \<Rightarrow> (manager_world, unit) prog" where
  "release_after_cancellation E token operation =
     seqM (release_capacity E token (operation @ '' cancellation'')) (\<lambda>_. ret ())"

text \<open>A failure is recorded, the capacity is released, and \<open>e\<close> is raised unless the release fails.\<close>

definition stop_capacity :: "manager_env \<Rightarrow> string \<Rightarrow> py_error \<Rightarrow> string \<Rightarrow> py_error \<Rightarrow> (manager_world, 'a) prog" where
  "stop_capacity E token recorded reason e =
     seqM (note_error E token recorded) (\<lambda>_.
     seqM (release_capacity E token reason) (\<lambda>_. raiseM e))"

definition cancel_capacity :: "manager_env \<Rightarrow> string \<Rightarrow> string \<Rightarrow> (manager_world, 'a) prog" where
  "cancel_capacity E token operation =
     seqM (note_cancellation E token) (\<lambda>_.
     seqM (release_after_cancellation E token operation) (\<lambda>_. raiseM CancelledError))"

text \<open>\<^verbatim>\<open>except (httpx.HTTPError, ValueError)\<close>: the failure is recorded, the capacity kept.\<close>

definition observed_failure :: "manager_env \<Rightarrow> string \<Rightarrow> py_error \<Rightarrow> (manager_world, 'a) prog" where
  "observed_failure E token e =
     (if is_http_error e \<or> e = ValueError
      then seqM (note_error E token e) (\<lambda>_. raiseM RunPodManagerError) else raiseM e)"

subsection \<open>Readiness\<close>

datatype readiness = Ready_now | Ready_later | Ready_never py_error

text \<open>What one answer of \<^verbatim>\<open>/ready\<close> means.\<close>

definition readiness_of :: "manager_env \<Rightarrow> int \<Rightarrow> json option \<Rightarrow> string \<Rightarrow> readiness" where
  "readiness_of E status body content =
     (if status = 200
      then (case body of None \<Rightarrow> Ready_never ValueError
            | Some v \<Rightarrow> if is_jobj v then Ready_now else Ready_never AttributeError)
      else if status = 503
      then let detail = (case body of
               None \<Rightarrow> JStr (take 100 (me_decode E content))
             | Some v \<Rightarrow> if is_jobj v then entry_or v ''detail'' (JStr ''loading'')
                 else JStr (take 100 (me_decode E content)))
           in if contains_text ''Training in progress'' (session_text E detail)
              then Ready_never RunPodManagerError else Ready_later
      else if status = 404 then Ready_now
      else Ready_later)"

primrec ready_rounds :: "nat \<Rightarrow> manager_env \<Rightarrow> string \<Rightarrow> string \<Rightarrow> datetime \<Rightarrow> (manager_world, unit) prog" where
  "ready_rounds 0 E token url deadline = raiseM Diverged"
| "ready_rounds (Suc fuel) E token url deadline =
     seqM (utc_now E) (\<lambda>t.
     if \<not> t < deadline then raiseM RunPodManagerError
     else seqM (training_heartbeat E token) (\<lambda>_.
       seqM (http_call E (MC_get url)) (\<lambda>r.
       let again = seqM (pause E) (\<lambda>_. ready_rounds fuel E token url deadline) in
       case r of
         Reply status body content \<Rightarrow>
           (case readiness_of E status body content of
              Ready_now \<Rightarrow> ret () | Ready_never e \<Rightarrow> raiseM e | Ready_later \<Rightarrow> again)
       | Reply_connect_error \<Rightarrow> seqM (note_error E token HttpxConnectError) (\<lambda>_. again)
       | Reply_timeout name \<Rightarrow>
           seqM (note_error E token (HttpxTimeoutException ''TimeoutException'')) (\<lambda>_. again)
       | Reply_other name \<Rightarrow> raiseM (HttpxOtherError name)
       | Reply_cancelled \<Rightarrow> raiseM CancelledError)))"

definition wait_for_training_ready :: "manager_env \<Rightarrow> RunPodSession \<Rightarrow> int \<Rightarrow> (manager_world, unit) prog" where
  "wait_for_training_ready E s timeout =
     routed s (\<lambda>url token.
     seqM (utc_now E) (\<lambda>t.
     ready_rounds (me_fuel E) E token (url @ ''/ready'') (dt_add t (seconds timeout))))"

subsection \<open>Acquisition\<close>

definition record_training_session :: "manager_env \<Rightarrow> TrainingPodLease \<Rightarrow> GPUProfile \<Rightarrow> string \<Rightarrow> int
    \<Rightarrow> (manager_world, RunPodSession) prog" where
  "record_training_session E lease profile companion_id ttl_seconds =
     (if \<not> given_text (l_provider_pod_id lease) \<or> \<not> given_text (l_backend_base_url lease)
      then raiseM RunPodManagerError
      else let s = (new_session (the (l_provider_pod_id lease)) profile ''training'' ''flux-lora-trainer''
             (gp_pod_type profile) ttl_seconds (l_created_at lease))
             \<lparr> rs_status := PS_READY, rs_expires_at := l_hard_deadline lease,
               rs_backend_base_url := l_backend_base_url lease, rs_companion_id := Some companion_id,
               rs_training_cleanup_token := Some (l_cleanup_token lease) \<rparr>
        in seqM (set_session (Some s)) (\<lambda>_. ret s))"

definition training_request :: "manager_env \<Rightarrow> datetime \<Rightarrow> string \<Rightarrow> string \<Rightarrow> string \<Rightarrow> GPUProfile
    \<Rightarrow> TrainingPodSource \<Rightarrow> string option \<Rightarrow> int \<Rightarrow> TrainingPodRequest" where
  "training_request E t cleanup_token root_token companion_id profile source pod_id ttl_seconds =
     (let readiness_seconds = min (given_int (gp_readiness_timeout_seconds profile) (me_pod_ready_timeout E))
            (ttl_seconds - 1)
      in \<lparr> tr_cleanup_token = cleanup_token, tr_root_cleanup_token = root_token,
           tr_companion_id = companion_id, tr_profile_id = gp_id profile, tr_source = source,
           tr_resource_name = durable_training_name (re_sha (me_service E)) cleanup_token,
           tr_provider_pod_id = pod_id, tr_created_at = t,
           tr_readiness_deadline = dt_add t (seconds readiness_seconds),
           tr_hard_deadline = dt_add t (seconds ttl_seconds), tr_capacity_spec = None \<rparr>)"

definition acquire_capacity :: "manager_env \<Rightarrow> TrainingPodRequest \<Rightarrow> (manager_world, TrainingPodLease) prog" where
  "acquire_capacity E request =
     seqM (called (MC_acquire (tr_cleanup_token request))) (\<lambda>_.
     try_elseM (on_service (acquire (me_service E) request None))
       (\<lambda>e. seqM (called (MC_acquired (tr_cleanup_token request) (Some e))) (\<lambda>_. raiseM e))
       (\<lambda>lease. seqM (called (MC_acquired (tr_cleanup_token request) None)) (\<lambda>_. ret lease)))"

definition acquire_training_session :: "manager_env \<Rightarrow> string \<Rightarrow> GPUProfile \<Rightarrow> int \<Rightarrow> TrainingPodSource
    \<Rightarrow> string option \<Rightarrow> string \<Rightarrow> string \<Rightarrow> (manager_world, RunPodSession) prog" where
  "acquire_training_session E companion_id profile ttl_seconds source pod_id cleanup_token root_token =
     seqM no_active_session (\<lambda>_.
     seqM (utc_now E) (\<lambda>t.
     let request = training_request E t cleanup_token root_token companion_id profile source pod_id ttl_seconds in
     case request_post_init (re_sha (me_service E)) (re_jsha (me_service E)) request of
       Some e \<Rightarrow> raiseM e
     | None \<Rightarrow> seqM (acquire_capacity E request) (\<lambda>lease.
         record_training_session E lease profile companion_id ttl_seconds)))"

text \<open>A profile that failed without cost may be followed by the next one.\<close>

fun safe_failure :: "py_error \<Rightarrow> bool" where
  "safe_failure (TrainingPodLifecycleError op token pod cleanup billing_risk) =
     (\<not> billing_risk \<and> cleanup \<in> {C_COMPLETE, C_NOT_OWNED})"
| "safe_failure (TrainingPodCleanupError op token pod cleanup billing_risk) =
     (\<not> billing_risk \<and> cleanup \<in> {C_COMPLETE, C_NOT_OWNED})"
| "safe_failure _ = False"

fun try_profiles :: "manager_env \<Rightarrow> string \<Rightarrow> int \<Rightarrow> string \<Rightarrow> py_error option \<Rightarrow> string list
    \<Rightarrow> (manager_world, RunPodSession) prog" where
  "try_profiles E companion_id ttl_seconds root_token last_error [] =
     raiseM (case last_error of None \<Rightarrow> RunPodManagerError | Some e \<Rightarrow> e)"
| "try_profiles E companion_id ttl_seconds root_token last_error (name # names) =
     (case map_of (me_profiles E) name of
        None \<Rightarrow> try_profiles E companion_id ttl_seconds root_token last_error names
      | Some profile \<Rightarrow>
          let token = (if last_error = None then root_token
            else fallback_training_cleanup_token (sv_uuid5_url (me_service E)) root_token name)
          in tryM (acquire_training_session E companion_id profile ttl_seconds CREATED None token root_token)
               (\<lambda>e. if is_lifecycle_error e \<and> safe_failure e
                    then try_profiles E companion_id ttl_seconds root_token (Some e) names else raiseM e))"

definition reuse_stopped_pod :: "manager_env \<Rightarrow> string \<Rightarrow> int \<Rightarrow> string \<Rightarrow> json \<Rightarrow> (manager_world, RunPodSession) prog" where
  "reuse_stopped_pod E companion_id ttl_seconds root_token pod =
     seqM (liftM (select_profile E ''training'')) (\<lambda>profile.
     case jget pod ''id'' of
       JStr pod_id \<Rightarrow>
         if pod_id = [] then raiseM RunPodManagerError
         else acquire_training_session E companion_id profile ttl_seconds STOPPED_REUSE (Some pod_id)
                root_token root_token
     | _ \<Rightarrow> raiseM RunPodManagerError)"

text \<open>\<^verbatim>\<open>start_training_pod\<close> once the family has no active attempt.\<close>

definition new_training_attempt :: "manager_env \<Rightarrow> string \<Rightarrow> int \<Rightarrow> string \<Rightarrow> (manager_world, RunPodSession) prog" where
  "new_training_attempt E companion_id ttl_seconds root_token =
     (let persistent = (case map_of (me_profiles E) ''training'' of
            None \<Rightarrow> None
          | Some profile \<Rightarrow> let pod_id = expand_single_env_var E (gp_persistent_pod_id profile)
              in if given_text pod_id then Some (profile, the pod_id) else None)
      in case persistent of
           Some (profile, pod_id) \<Rightarrow> acquire_training_session E companion_id profile ttl_seconds
             CONFIGURED_PERSISTENT (Some pod_id) root_token root_token
         | None \<Rightarrow> seqM (find_stopped_pod E ''lora_training'') (\<lambda>stopped. case stopped of
               Some pod \<Rightarrow> reuse_stopped_pod E companion_id ttl_seconds root_token pod
             | None \<Rightarrow> try_profiles E companion_id ttl_seconds root_token None TRAINING_PROFILE_IDS))"

definition start_training_pod :: "manager_env \<Rightarrow> string \<Rightarrow> string option \<Rightarrow> (manager_world, RunPodSession) prog" where
  "start_training_pod E companion_id cleanup_token =
     seqM (liftM (validate_ttl E (Some 3600))) (\<lambda>ttl_seconds.
     seqM (if given_text cleanup_token then ret (the cleanup_token)
           else ask (\<lambda>n. Inr (''training:'' @ me_uuid4 E n))) (\<lambda>root_token.
     seqM (on_service (get_active_family_attempt (me_service E) root_token)) (\<lambda>found. case found of
       None \<Rightarrow> new_training_attempt E companion_id ttl_seconds root_token
     | Some attempt \<Rightarrow>
         if l_companion_id attempt \<noteq> companion_id then raiseM RunPodManagerError
         else if l_state attempt \<noteq> S_READY then raiseM RunPodManagerError
         else seqM (training_heartbeat E (l_cleanup_token attempt)) (\<lambda>lease.
           seqM (liftM (select_profile E (l_profile_id lease))) (\<lambda>profile.
           record_training_session E lease profile companion_id ttl_seconds)))))"

subsection \<open>Submission\<close>

text \<open>The companion of a running job; a list or an object cannot be looked up in a set.\<close>

definition companion_matches :: "string \<Rightarrow> json \<Rightarrow> py_error + bool" where
  "companion_matches companion_id v = (case v of
     JNull \<Rightarrow> Inr True | JStr s \<Rightarrow> Inr (s = companion_id) | JList _ \<Rightarrow> Inl TypeError | JObj _ \<Rightarrow> Inl TypeError
   | _ \<Rightarrow> Inr False)"

definition current_job_id :: "string \<Rightarrow> json \<Rightarrow> py_error + string option" where
  "current_job_id companion_id payload =
     (if \<not> is_jobj payload then Inr None
      else let current = jget payload ''current_job'';
               raw_id = (if is_jobj current then json_or (jget current ''job_id'') (jget current ''id'')
                 else jget payload ''job_id'');
               raw_companion = (if is_jobj current then jget current ''companion_id'' else jget payload ''companion_id'')
        in case raw_id of
             JStr job \<Rightarrow> if job = [] then Inr None
               else bindE (companion_matches companion_id raw_companion) (\<lambda>b. Inr (if b then Some job else None))
           | _ \<Rightarrow> Inr None)"

definition recovered_job :: "string \<Rightarrow> training_reply \<Rightarrow> py_error + string option" where
  "recovered_job companion_id r = (case r of
       Reply status body content \<Rightarrow>
         if status \<noteq> 200 then Inr None
         else (case body of None \<Rightarrow> Inr None | Some v \<Rightarrow> current_job_id companion_id v)
     | Reply_cancelled \<Rightarrow> Inl CancelledError
     | _ \<Rightarrow> Inr None)"

definition recover_or_cleanup_submission :: "manager_env \<Rightarrow> string \<Rightarrow> string \<Rightarrow> string \<Rightarrow> py_error
    \<Rightarrow> (manager_world, string) prog" where
  "recover_or_cleanup_submission E url companion_id token cause =
     seqM (http_call E (MC_get (url @ ''/current-job''))) (\<lambda>r.
     seqM (liftM (recovered_job companion_id r)) (\<lambda>job. case job of
       Some job_id \<Rightarrow> note_job E token job_id
     | None \<Rightarrow> stop_capacity E token cause ''training submission failure'' RunPodManagerError))"

definition png_magic :: string where
  "png_magic = map char_of [137 :: nat, 80, 78, 71, 13, 10, 26, 10]"

definition submission_form :: "string \<Rightarrow> string \<Rightarrow> string option \<Rightarrow> (string \<times> string) list" where
  "submission_form avatar_data companion_id callback_url =
     (let png = (take 8 avatar_data = png_magic) in
      [(''image.filename'', if png then ''avatar.png'' else ''avatar.jpg''),
       (''image.type'', if png then ''image/png'' else ''image/jpeg''), (''image'', avatar_data),
       (''companion_id'', companion_id)]
      @ (if given_text callback_url then [(''callback_url'', the callback_url)] else []))"

text \<open>The object that answers the POST.\<close>

definition submission_result :: "training_reply \<Rightarrow> py_error + json" where
  "submission_result r = bindE (checked_json r) (\<lambda>v. if is_jobj v then Inr v else Inl RunPodManagerError)"

definition submission_failed :: "manager_env \<Rightarrow> string \<Rightarrow> string \<Rightarrow> string \<Rightarrow> py_error \<Rightarrow> (manager_world, string) prog" where
  "submission_failed E url companion_id token e =
     (case e of
        CancelledError \<Rightarrow> cancel_capacity E token ''training submission''
      | HttpxConnectError \<Rightarrow> recover_or_cleanup_submission E url companion_id token e
      | HttpxStatusError \<Rightarrow> recover_or_cleanup_submission E url companion_id token e
      | HttpxTimeoutException name \<Rightarrow> recover_or_cleanup_submission E url companion_id token e
      | _ \<Rightarrow> if e = ValueError \<or> is_manager_error e
            then stop_capacity E token e ''invalid submission response'' RunPodManagerError
            else raiseM e)"

definition submit_when_ready :: "manager_env \<Rightarrow> string \<Rightarrow> string \<Rightarrow> string \<Rightarrow> string \<Rightarrow> string option
    \<Rightarrow> (manager_world, string) prog" where
  "submit_when_ready E url token avatar_data companion_id callback_url =
     seqM (http_call E (MC_post (url @ ''/train'') (submission_form avatar_data companion_id callback_url))) (\<lambda>r.
     case submission_result r of
       Inl e \<Rightarrow> submission_failed E url companion_id token e
     | Inr v \<Rightarrow> (case jget v ''job_id'' of
           JStr job_id \<Rightarrow> if job_id = [] then stop_capacity E token RunPodManagerError ''missing training job ID''
               RunPodManagerError else note_job E token job_id
         | _ \<Rightarrow> stop_capacity E token RunPodManagerError ''missing training job ID'' RunPodManagerError))"

definition submit_training_job :: "manager_env \<Rightarrow> RunPodSession \<Rightarrow> string \<Rightarrow> string \<Rightarrow> string option \<Rightarrow> bool
    \<Rightarrow> (manager_world, string) prog" where
  "submit_training_job E s avatar_data companion_id callback_url wait =
     routed s (\<lambda>url token.
       try_elseM (if wait then wait_for_training_ready E s 600 else ret ())
         (\<lambda>e. if e = CancelledError then cancel_capacity E token ''model readiness''
              else if is_manager_error e then stop_capacity E token e ''model readiness failure'' e
              else raiseM e)
         (\<lambda>_. submit_when_ready E url token avatar_data companion_id callback_url))"

subsection \<open>Jobs\<close>

definition get_current_job :: "manager_env \<Rightarrow> RunPodSession \<Rightarrow> (manager_world, json option) prog" where
  "get_current_job E s =
     routed s (\<lambda>url token.
     seqM (training_heartbeat E token) (\<lambda>_.
     seqM (http_call E (MC_get (url @ ''/current-job''))) (\<lambda>r.
     if (case r of Reply status _ _ \<Rightarrow> status = 404 | _ \<Rightarrow> False) then ret None
     else case checked_json r of
         Inl e \<Rightarrow> observed_failure E token e
       | Inr v \<Rightarrow> if \<not> is_jobj v then raiseM AttributeError
           else ret (if truthy (jget v ''current_job'') then Some v else None))))"

definition cancel_training_job :: "manager_env \<Rightarrow> RunPodSession \<Rightarrow> string \<Rightarrow> (manager_world, json) prog" where
  "cancel_training_job E s job_id =
     routed s (\<lambda>url token.
     seqM (note_cancellation E token) (\<lambda>_.
     seqM (http_call E (MC_post (url @ ''/cancel/'' @ job_id) [])) (\<lambda>r.
     case submission_result r of
       Inl e \<Rightarrow>
         if e = CancelledError
         then seqM (release_after_cancellation E token ''job cancellation'') (\<lambda>_. raiseM CancelledError)
         else if is_http_error e \<or> e = ValueError \<or> is_manager_error e
         then stop_capacity E token e ''job cancellation failure'' RunPodManagerError
         else raiseM e
     | Inr v \<Rightarrow> seqM (release_capacity E token ''job cancelled'') (\<lambda>_. ret v))))"

definition clear_current_job :: "manager_env \<Rightarrow> RunPodSession \<Rightarrow> (manager_world, json) prog" where
  "clear_current_job E s =
     routed s (\<lambda>url token.
     seqM (training_heartbeat E token) (\<lambda>_.
     seqM (http_call E (MC_post (url @ ''/clear-current-job'') [])) (\<lambda>r.
     case checked_json r of
       Inl e \<Rightarrow> observed_failure E token e
     | Inr v \<Rightarrow> if is_jobj v then ret v
         else seqM (note_error E token RunPodManagerError) (\<lambda>_. raiseM RunPodManagerError))))"

definition status_entry :: "json \<Rightarrow> string option" where
  "status_entry v = (case json_or (jget v ''status'') (jget v ''state'') of
     JStr s \<Rightarrow> if s = [] then None else Some s | _ \<Rightarrow> None)"

definition poll_training_status :: "manager_env \<Rightarrow> RunPodSession \<Rightarrow> string \<Rightarrow> (manager_world, json) prog" where
  "poll_training_status E s job_id =
     routed s (\<lambda>url token.
     seqM (training_heartbeat E token) (\<lambda>_.
     seqM (http_call E (MC_get (url @ ''/status/'' @ job_id))) (\<lambda>r.
     case checked_json r of
       Inl e \<Rightarrow> observed_failure E token e
     | Inr v \<Rightarrow>
         (case (if is_jobj v then status_entry v else None) of
            None \<Rightarrow> seqM (note_error E token RunPodManagerError) (\<lambda>_. raiseM RunPodManagerError)
          | Some status \<Rightarrow> seqM (on_service (record_status (me_service E) token status)) (\<lambda>_. ret v)))))"

definition download_lora :: "manager_env \<Rightarrow> RunPodSession \<Rightarrow> string \<Rightarrow> (manager_world, string) prog" where
  "download_lora E s job_id =
     routed s (\<lambda>url token.
     seqM (training_heartbeat E token) (\<lambda>_.
     seqM (http_call E (MC_get (url @ ''/download/'' @ job_id))) (\<lambda>r.
     case content_of r of
       Inl e \<Rightarrow> observed_failure E token e
     | Inr content \<Rightarrow> seqM (on_service (record_result_retrieved (me_service E) token)) (\<lambda>_. ret content))))"

definition generate_with_lora :: "manager_env \<Rightarrow> RunPodSession \<Rightarrow> string \<Rightarrow> string \<Rightarrow> int \<Rightarrow> (manager_world, json) prog" where
  "generate_with_lora E s prompt lora_path num_outputs =
     (if \<not> given_text (rs_backend_base_url s) then raiseM RunPodManagerError
      else seqM (http_call E (MC_post (the (rs_backend_base_url s) @ ''/generate'')
          [(''prompt'', prompt), (''lora_path'', lora_path), (''num_outputs'', me_text E (JInt num_outputs)),
           (''aspect_ratio'', ''1:1''), (''output_format'', ''jpg'')])) (\<lambda>r. liftM (checked_json r)))"

subsection \<open>Reconciliation\<close>

text \<open>\<^verbatim>\<open>_reconcile_training_workload_status\<close>, the observer that the lease service calls.\<close>

definition reconcile_training_workload_status :: "(string \<Rightarrow> training_reply) \<Rightarrow> TrainingPodLease
    \<Rightarrow> py_error + string option" where
  "reconcile_training_workload_status get lease =
     (if \<not> given_text (l_backend_base_url lease) \<or> \<not> given_text (l_provider_job_id lease) then Inr None
      else case checked_json (get (the (l_backend_base_url lease) @ ''/status/'' @ the (l_provider_job_id lease))) of
          Inl e \<Rightarrow> Inl (if is_http_error e \<or> e = ValueError then RunPodManagerError else e)
        | Inr v \<Rightarrow> if \<not> is_jobj v then Inl RunPodManagerError
            else case status_entry v of None \<Rightarrow> Inl RunPodManagerError | Some status \<Rightarrow> Inr (Some status))"

definition reconcile_training_pods :: "manager_env \<Rightarrow> (manager_world, TrainingPodLease list) prog" where
  "reconcile_training_pods E = on_service (reconcile (me_service E))"

definition get_training_pod_lease :: "manager_env \<Rightarrow> string \<Rightarrow> (manager_world, TrainingPodLease) prog" where
  "get_training_pod_lease E cleanup_token =
     seqM (on_service (repo_get (me_service E) cleanup_token)) (\<lambda>found.
     case found of None \<Rightarrow> raiseM RunPodManagerError | Some lease \<Rightarrow> ret lease)"

text \<open>\<^verbatim>\<open>start_inference_pod\<close>: a stopped Pod is resumed, otherwise a session is started.\<close>

definition start_inference_pod :: "manager_env \<Rightarrow> string \<Rightarrow> (manager_world, RunPodSession option) prog" where
  "start_inference_pod E companion_id =
     tryM (seqM (liftM (select_profile E ''image'')) (\<lambda>profile.
       seqM (find_stopped_pod E ''lora_inference'') (\<lambda>stopped. case stopped of
         Some pod \<Rightarrow> seqM (resume_stopped_pod E pod profile 600) (\<lambda>s. ret (Some s))
       | None \<Rightarrow> seqM (start_session E ''image'' (Some ''flux-with-lora'') (Some 600) None
             [(''name'', JStr (''kestrel-selfie-'' @ take 8 companion_id)),
              (''companion_id'', JStr companion_id), (''purpose'', JStr ''lora_inference'')])
           (\<lambda>_. the_session))))
       (\<lambda>e. if is_manager_error e \<and> e \<noteq> RunPodAmbiguousResultError then ret None else raiseM e)"

end
