(* ===== verification/Training_Safety.thy ===== *)
theory Training_Safety
  imports Training
begin

text \<open>
  What the training client does to the table it does through the lease service: every operation of the manager
  keeps the invariant of the table and the order of its rows.  Third interpretation of \<open>guarantee_preorder\<close>.
\<close>

section \<open>The guarantee of the manager\<close>

definition manager_inv :: "manager_world \<Rightarrow> bool" where
  "manager_inv w = lease_inv (mw_service w)"

definition manager_guar :: "manager_world \<Rightarrow> manager_world \<Rightarrow> bool" where
  "manager_guar w w' = lease_guar (mw_service w) (mw_service w')"

interpretation mgr: guarantee_preorder manager_inv manager_guar
  by unfold_locales (auto simp: manager_guar_def intro: svc.G_refl svc.G_trans)

abbreviation keeps_leases :: "(manager_world, 'a) prog \<Rightarrow> bool" where
  "keeps_leases m \<equiv> safe manager_inv manager_guar (\<lambda>_. True) m (\<lambda>_ _. True)"

lemma keeps_service: "ok (\<lambda>_. True) m Q \<Longrightarrow> keeps_leases (on_service m)"
  by (auto simp: safe_def manager_inv_def manager_guar_def on_service_def split: prod.splits)

lemma keeps_steps:
  "keeps_leases (ask f)" "keeps_leases (called c)" "keeps_leases the_session" "keeps_leases (set_session s)"
  by (auto simp: safe_def manager_inv_def manager_guar_def ask_def called_def the_session_def set_session_def
      svc.G_refl)

lemma keeps_seq:
  assumes "keeps_leases m" "\<And>x. keeps_leases (f x)"
  shows "keeps_leases (seqM m f)"
  by (rule mgr.safe_seq [OF assms(1) mgr.stable_const]) (use assms(2) in simp)

lemma keeps_try: "keeps_leases m \<Longrightarrow> (\<And>e. keeps_leases (h e)) \<Longrightarrow> keeps_leases (tryM m h)"
  by (rule mgr.safe_try) simp_all

lemma keeps_try_else:
  assumes "keeps_leases m" "\<And>e. keeps_leases (h e)" "\<And>x. keeps_leases (f x)"
  shows "keeps_leases (try_elseM m h f)"
  by (rule mgr.safe_try_else [OF assms(1) mgr.stable_const]) (use assms(2,3) in simp_all)

lemma keeps_basic: "keeps_leases (ret x)" "keeps_leases (raiseM e)" "keeps_leases (liftM r)"
  by (simp_all add: mgr.safe_ret mgr.safe_raise mgr.safe_lift)

lemmas keeps_intros = keeps_seq keeps_try keeps_try_else keeps_basic keeps_steps mgr.safe_if

section \<open>Every operation\<close>

lemma keeps_calls:
  assumes "rely (me_service E)"
  shows "keeps_leases (training_heartbeat E token)" "keeps_leases (note_error E token e)"
    "keeps_leases (note_job E token job)" "keeps_leases (note_cancellation E token)"
    "keeps_leases (release_capacity E token reason)" "keeps_leases (http_call E c)"
    "keeps_leases (utc_now E)" "keeps_leases (pause E)"
  unfolding training_heartbeat_def note_error_def note_job_def note_cancellation_def release_capacity_def
    http_call_def utc_now_def pause_def
  using assms
  by (intro keeps_intros keeps_service [OF heartbeat_ok] keeps_service [OF record_operation_error_ok]
      keeps_service [OF record_job_ok] keeps_service [OF request_cancellation_ok] keeps_service [OF release_ok];
      assumption)+

lemma keeps_updates: "keeps_leases (update_session_from_runtime E s v)"
  unfolding update_session_from_runtime_def utc_now_def Let_def
  by (auto intro!: keeps_intros split: prod.split option.split)

lemma keeps_status: "keeps_leases (get_session_status E refresh)"
  unfolding get_session_status_def utc_now_def
  by (auto intro!: keeps_intros keeps_updates split: option.split)

lemma keeps_waiting:
  "keeps_leases (wait_for_status n E t)" "keeps_leases (wait_for_route n E t)" "keeps_leases (poll_ready n E t)"
  by (induction n; auto intro!: keeps_intros keeps_status simp: utc_now_def pause_def Let_def)+

lemma keeps_wait_until_ready: "keeps_leases (wait_for_session E)" "keeps_leases (wait_for_ready E s timeout)"
  by (auto simp: wait_for_session_def wait_for_ready_def utc_now_def
      intro!: keeps_intros keeps_waiting split: option.split)

lemma keeps_no_active_session: "keeps_leases no_active_session"
  by (auto simp: no_active_session_def intro!: keeps_intros split: option.split)

lemma keeps_start_session: "keeps_leases (start_session E profile model ttl pod_type metadata)"
  by (auto simp: start_session_def start_answered_def request_pod_def utc_now_def Let_def
      intro!: keeps_intros keeps_no_active_session keeps_wait_until_ready keeps_status split: option.split prod.split)

lemma keeps_resume_stopped_pod: "keeps_leases (resume_stopped_pod E pod profile ttl)"
  by (auto simp: resume_stopped_pod_def utc_now_def Let_def intro!: keeps_intros keeps_wait_until_ready)

lemma keeps_release_training_pod:
  assumes "rely (me_service E)"
  shows "keeps_leases (release_training_pod E token reason)"
  unfolding release_training_pod_def Let_def
  by (intro keeps_intros keeps_calls keeps_service [OF repo_get_ok] assms)

lemma keeps_stop_session:
  assumes "rely (me_service E)"
  shows "keeps_leases (stop_session E)"
  by (auto simp: stop_session_def record_metering_def utc_now_def
      intro!: keeps_intros keeps_release_training_pod assms split: option.split)

lemma keeps_terminate: "keeps_leases (terminate_session E s)" "keeps_leases (terminate_pod_by_id E pod)"
  by (auto simp: terminate_session_def terminate_pod_by_id_def terminate_at_provider_def
      intro!: keeps_intros split: option.split)

lemma keeps_find_stopped_pod: "keeps_leases (find_stopped_pod E purpose)"
  by (auto simp: find_stopped_pod_def intro!: keeps_intros split: option.split)

lemma keeps_record_session: "keeps_leases (record_training_session E l profile companion ttl)"
  by (auto simp: record_training_session_def Let_def intro!: keeps_intros)

lemma keeps_acquire_training_session:
  assumes "rely (me_service E)"
  shows "keeps_leases (acquire_training_session E companion profile ttl source pod token family)"
proof -
  have "keeps_leases (acquire_capacity E q)"
    if "request_post_init (re_sha (me_service E)) (re_jsha (me_service E)) q = None" for q
    unfolding acquire_capacity_def acquire_def
    by (intro keeps_intros keeps_service [OF acquire_lease_ok [OF assms request_post_init_claim [OF that]]])
  then show ?thesis
    by (auto simp: acquire_training_session_def Let_def utc_now_def
        intro!: keeps_intros keeps_no_active_session keeps_record_session split: option.split)
qed

lemma keeps_try_profiles:
  assumes "rely (me_service E)"
  shows "keeps_leases (try_profiles E companion ttl family last_error names)"
  by (induction names arbitrary: last_error)
    (auto simp: Let_def intro!: keeps_intros keeps_acquire_training_session assms split: option.split)

lemma keeps_start_training_pod:
  assumes "rely (me_service E)"
  shows "keeps_leases (start_training_pod E companion token)"
proof -
  have "keeps_leases (reuse_stopped_pod E companion ttl family pod)" for ttl family pod
    unfolding reuse_stopped_pod_def
    by (auto intro!: keeps_intros keeps_acquire_training_session assms split: json.split)
  then have "keeps_leases (new_training_attempt E companion ttl family)" for ttl family
    unfolding new_training_attempt_def Let_def
    by (auto intro!: keeps_intros keeps_acquire_training_session keeps_find_stopped_pod keeps_try_profiles assms
        split: option.split prod.split)
  then show ?thesis
    unfolding start_training_pod_def
    by (auto intro!: keeps_intros keeps_calls keeps_record_session assms
        keeps_service [OF get_active_family_attempt_ok] split: option.split)
qed

lemma keeps_routed: "(\<And>url token. keeps_leases (f url token)) \<Longrightarrow> keeps_leases (routed s f)"
  by (auto simp: routed_def intro!: keeps_intros)

lemma keeps_ready_rounds:
  assumes "rely (me_service E)"
  shows "keeps_leases (ready_rounds n E token url t)"
  by (induction n) (auto simp: Let_def intro!: keeps_intros keeps_calls assms split: training_reply.split readiness.split)

lemma keeps_stopping:
  assumes "rely (me_service E)"
  shows "keeps_leases (stop_capacity E token e reason e')" "keeps_leases (release_after_cancellation E token operation)"
    "keeps_leases (cancel_capacity E token operation)" "keeps_leases (observed_failure E token e)"
  unfolding stop_capacity_def cancel_capacity_def release_after_cancellation_def observed_failure_def
  by (intro keeps_intros keeps_calls assms)+

lemma keeps_wait_for_training_ready:
  assumes "rely (me_service E)"
  shows "keeps_leases (wait_for_training_ready E s timeout)"
  unfolding wait_for_training_ready_def
  by (intro keeps_routed keeps_intros keeps_calls keeps_ready_rounds assms)

lemma keeps_submission:
  assumes "rely (me_service E)"
  shows "keeps_leases (submit_training_job E s avatar companion callback wait)"
proof -
  note rules = keeps_intros keeps_calls [OF assms] keeps_stopping [OF assms]
  have recover: "keeps_leases (recover_or_cleanup_submission E url companion token e)" for url token e
    unfolding recover_or_cleanup_submission_def by (auto intro!: rules split: option.split)
  have failed: "keeps_leases (submission_failed E url companion token e)" for url token e
    unfolding submission_failed_def by (auto intro!: rules recover split: py_error.split)
  have submit: "keeps_leases (submit_when_ready E url token avatar companion callback)" for url token
    unfolding submit_when_ready_def by (auto intro!: rules failed split: sum.split json.split)
  show ?thesis
    unfolding submit_training_job_def
    by (auto intro!: keeps_routed rules submit keeps_wait_for_training_ready assms)
qed

lemma keeps_jobs:
  assumes "rely (me_service E)"
  shows "keeps_leases (get_current_job E s)" "keeps_leases (cancel_training_job E s job)"
    "keeps_leases (clear_current_job E s)" "keeps_leases (poll_training_status E s job)"
    "keeps_leases (download_lora E s job)" "keeps_leases (generate_with_lora E s prompt lora n)"
  unfolding get_current_job_def cancel_training_job_def clear_current_job_def poll_training_status_def
    download_lora_def generate_with_lora_def
  by (auto intro!: keeps_routed keeps_intros keeps_calls [OF assms] keeps_stopping [OF assms]
      keeps_service [OF record_status_ok [OF assms]] keeps_service [OF record_result_retrieved_ok [OF assms]]
      split: sum.split option.split training_reply.split)

lemma keeps_start_inference_pod: "keeps_leases (start_inference_pod E companion)"
  unfolding start_inference_pod_def
  by (auto intro!: keeps_intros keeps_find_stopped_pod keeps_resume_stopped_pod keeps_start_session
      split: option.split)

section \<open>Sequences of operations\<close>

datatype client_call =
    CC_start_session string "string option" "int option" "string option" "(string \<times> json) list"
  | CC_get_status bool
  | CC_wait_for_ready "RunPodSession option" "int option"
  | CC_stop_session
  | CC_terminate_session RunPodSession
  | CC_terminate_pod string
  | CC_start_inference_pod string
  | CC_start_training_pod string "string option"
  | CC_submit_training_job RunPodSession string string "string option" bool
  | CC_get_current_job RunPodSession
  | CC_cancel_training_job RunPodSession string
  | CC_clear_current_job RunPodSession
  | CC_poll_training_status RunPodSession string
  | CC_download_lora RunPodSession string
  | CC_generate_with_lora RunPodSession string string int
  | CC_release_training_pod string string
  | CC_reconcile_training_pods

fun exec_client :: "manager_env \<Rightarrow> client_call \<Rightarrow> manager_world \<Rightarrow> manager_world" where
  "exec_client E (CC_start_session profile model ttl pod_type metadata) w =
     snd (start_session E profile model ttl pod_type metadata w)"
| "exec_client E (CC_get_status refresh) w = snd (get_session_status E refresh w)"
| "exec_client E (CC_wait_for_ready s timeout) w = snd (wait_for_ready E s timeout w)"
| "exec_client E CC_stop_session w = snd (stop_session E w)"
| "exec_client E (CC_terminate_session s) w = snd (terminate_session E s w)"
| "exec_client E (CC_terminate_pod pod_id) w = snd (terminate_pod_by_id E pod_id w)"
| "exec_client E (CC_start_inference_pod companion) w = snd (start_inference_pod E companion w)"
| "exec_client E (CC_start_training_pod companion token) w = snd (start_training_pod E companion token w)"
| "exec_client E (CC_submit_training_job s avatar companion callback ready) w =
     snd (submit_training_job E s avatar companion callback ready w)"
| "exec_client E (CC_get_current_job s) w = snd (get_current_job E s w)"
| "exec_client E (CC_cancel_training_job s job) w = snd (cancel_training_job E s job w)"
| "exec_client E (CC_clear_current_job s) w = snd (clear_current_job E s w)"
| "exec_client E (CC_poll_training_status s job) w = snd (poll_training_status E s job w)"
| "exec_client E (CC_download_lora s job) w = snd (download_lora E s job w)"
| "exec_client E (CC_generate_with_lora s prompt lora n) w = snd (generate_with_lora E s prompt lora n w)"
| "exec_client E (CC_release_training_pod token reason) w = snd (release_training_pod E token reason w)"
| "exec_client E CC_reconcile_training_pods w = snd (reconcile_training_pods E w)"

fun exec_clients :: "(manager_env \<times> client_call) list \<Rightarrow> manager_world \<Rightarrow> manager_world" where
  "exec_clients [] w = w"
| "exec_clients ((E, c) # calls) w = exec_clients calls (exec_client E c w)"

lemma keeps_exec: "keeps_leases m \<Longrightarrow> manager_inv w \<Longrightarrow> manager_inv (snd (m w)) \<and> manager_guar w (snd (m w))"
  by (cases "m w") (auto simp: safe_def)

lemma exec_client_keeps:
  assumes "rely (me_service E)" "manager_inv w"
  shows "manager_inv (exec_client E c w) \<and> manager_guar w (exec_client E c w)"
proof -
  note here = assms(1)
  have "keeps_leases (reconcile_training_pods E)"
    unfolding reconcile_training_pods_def by (rule keeps_service [OF reconcile_ok [OF here]])
  then show ?thesis
    by (cases c) (simp_all add: keeps_exec [OF _ assms(2)] keeps_start_session keeps_status keeps_wait_until_ready
        keeps_stop_session [OF here] keeps_terminate keeps_start_inference_pod keeps_start_training_pod [OF here]
        keeps_submission [OF here] keeps_jobs [OF here] keeps_release_training_pod [OF here])
qed

lemma exec_clients_keep:
  "\<forall>(E, c) \<in> set calls. rely (me_service E) \<Longrightarrow> manager_inv w \<Longrightarrow>
   manager_inv (exec_clients calls w) \<and> manager_guar w (exec_clients calls w)"
proof (induction calls arbitrary: w)
  case (Cons Ec calls)
  obtain E c where Ec: "Ec = (E, c)" by (cases Ec)
  with Cons.prems exec_client_keeps [of E w c] Cons.IH [of "exec_client E c w"] mgr.G_trans
  show ?case by fastforce
qed (simp add: mgr.G_refl)

end
