(* ===== verification/Training_Properties.thy ===== *)
theory Training_Properties
  imports Training_Safety
begin

text \<open>
  Properties of the training client: what a submission leaves behind, when another profile is tried, and the
  composition with the lease service.
\<close>

section \<open>Traces\<close>

definition new_calls :: "manager_world \<Rightarrow> manager_world \<Rightarrow> manager_call list" where
  "new_calls w w' = drop (length (mw_calls w)) (mw_calls w')"

text \<open>Every run appends calls that satisfy \<open>R\<close> together with the outcome.\<close>

definition traces :: "(py_error + 'a \<Rightarrow> manager_call list \<Rightarrow> bool) \<Rightarrow> (manager_world, 'a) prog \<Rightarrow> bool" where
  "traces R m \<longleftrightarrow> (\<forall>w r w'. m w = (r, w') \<longrightarrow> (\<exists>cs. mw_calls w' = mw_calls w @ cs \<and> R r cs))"

lemma tracesD: "traces R m \<Longrightarrow> m w = (r, w') \<Longrightarrow> R r (new_calls w w')"
  by (fastforce simp: traces_def new_calls_def)

lemma traces_weaken: "traces R m \<Longrightarrow> (\<And>r cs. R r cs \<Longrightarrow> R' r cs) \<Longrightarrow> traces R' m"
  unfolding traces_def by blast

lemma traces_seq:
  assumes "traces R m" "\<And>x. traces (R' x) (f x)"
  shows "traces (\<lambda>r cs. (\<exists>e. r = Inl e \<and> R (Inl e) cs)
    \<or> (\<exists>x cs1 cs2. cs = cs1 @ cs2 \<and> R (Inr x) cs1 \<and> R' x r cs2)) (seqM m f)"
  unfolding traces_def
proof (intro allI impI)
  fix w r w'
  assume run: "seqM m f w = (r, w')"
  obtain r1 w1 where m1: "m w = (r1, w1)" by (cases "m w") auto
  from assms(1) m1 obtain cs1 where c1: "mw_calls w1 = mw_calls w @ cs1" "R r1 cs1" unfolding traces_def by blast
  show "\<exists>cs. mw_calls w' = mw_calls w @ cs \<and> ((\<exists>e. r = Inl e \<and> R (Inl e) cs)
    \<or> (\<exists>x cs1 cs2. cs = cs1 @ cs2 \<and> R (Inr x) cs1 \<and> R' x r cs2))"
  proof (cases r1)
    case (Inl e)
    with run m1 c1 show ?thesis by (auto simp: seqM_def)
  next
    case (Inr x)
    with run m1 have "f x w1 = (r, w')" by (simp add: seqM_def)
    with assms(2) obtain cs2 where "mw_calls w' = mw_calls w1 @ cs2" "R' x r cs2" unfolding traces_def by blast
    with c1 Inr show ?thesis by (metis append.assoc)
  qed
qed

text \<open>Programs that make no call of their own.\<close>

abbreviation no_calls :: "(manager_world, 'a) prog \<Rightarrow> bool" where
  "no_calls m \<equiv> traces (\<lambda>r cs. cs = []) m"

lemma silent_steps:
  "no_calls (ask f)" "no_calls the_session" "no_calls (set_session s)" "no_calls (on_service m)" "no_calls (ret x)"
  "no_calls (raiseM e)" "no_calls (liftM r')" "no_calls (utc_now E)" "no_calls (pause E)" "no_calls (training_heartbeat E token)"
  by (auto simp: traces_def ask_def the_session_def set_session_def on_service_def ret_def raiseM_def liftM_def
      utc_now_def pause_def training_heartbeat_def split: prod.splits)

lemma silent_seq: "no_calls m \<Longrightarrow> (\<And>x. no_calls (f x)) \<Longrightarrow> no_calls (seqM m f)"
  by (rule traces_weaken [OF traces_seq]) auto

lemma silent_then: "no_calls m \<Longrightarrow> (\<And>x. traces R (f x)) \<Longrightarrow> (\<And>e. R (Inl e) []) \<Longrightarrow> traces R (seqM m f)"
  by (rule traces_weaken [OF traces_seq]) auto

lemma traces_raise: "traces R (raiseM e) \<longleftrightarrow> R (Inl e) []"
  by (simp add: traces_def raiseM_def)

lemma traces_ret: "traces R (ret x) \<longleftrightarrow> R (Inr x) []"
  by (simp add: traces_def ret_def)

section \<open>Submissions\<close>

lemma traces_stop_capacity:
  "traces (\<lambda>r cs. isl r \<and> (cs = [MC_record_error token e] \<or> cs = [MC_record_error token e, MC_release token]))
     (stop_capacity E token e reason e')"
  by (auto simp: traces_def stop_capacity_def note_error_def release_capacity_def seqM_def called_def on_service_def
      raiseM_def split: prod.splits sum.splits)

lemma traces_cancel_capacity:
  "traces (\<lambda>r cs. isl r \<and> (cs = [MC_request_cancellation token] \<or> cs = [MC_request_cancellation token, MC_release token]))
     (cancel_capacity E token operation)"
  by (auto simp: traces_def cancel_capacity_def note_cancellation_def release_after_cancellation_def
      release_capacity_def seqM_def called_def on_service_def raiseM_def ret_def split: prod.splits sum.splits)

lemma traces_note_job:
  "traces (\<lambda>r cs. cs = [MC_record_job token job] \<and> (case r of Inl e \<Rightarrow> True | Inr j \<Rightarrow> j = job)) (note_job E token job)"
  by (auto simp: traces_def note_job_def seqM_def called_def on_service_def ret_def split: prod.splits sum.splits)

lemma traces_http_call: "traces (\<lambda>r cs. cs = [c] \<and> \<not> isl r) (http_call E c)"
  by (auto simp: traces_def http_call_def seqM_def called_def ask_def)

definition is_post :: "manager_call \<Rightarrow> bool" where
  "is_post c = (case c of MC_post url form \<Rightarrow> True | _ \<Rightarrow> False)"

text \<open>The last call settles a submission: the job or the failure is recorded, or the capacity released.\<close>

definition settles_submission :: "string \<Rightarrow> py_error + string \<Rightarrow> manager_call \<Rightarrow> bool" where
  "settles_submission token r c = (case (r, c) of
       (Inr job, MC_record_job t j) \<Rightarrow> t = token \<and> j = job
     | (Inl e, MC_record_job t j) \<Rightarrow> t = token
     | (Inl e, MC_release t) \<Rightarrow> t = token
     | (Inl e, MC_record_error t e') \<Rightarrow> t = token
     | (Inl e, MC_request_cancellation t) \<Rightarrow> t = token
     | _ \<Rightarrow> False)"

text \<open>Outcomes that leave a submission as it is: an \<^verbatim>\<open>httpx\<close> error of another class, a companion that is no text, and a
  cancellation while the job is looked up.\<close>

fun escapes :: "py_error + string \<Rightarrow> bool" where
  "escapes (Inl (HttpxOtherError name)) = True"
| "escapes (Inl TypeError) = True"
| "escapes (Inl CancelledError) = True"
| "escapes _ = False"

definition submission_settled :: "string \<Rightarrow> py_error + string \<Rightarrow> manager_call list \<Rightarrow> bool" where
  "submission_settled token r cs \<longleftrightarrow> list_all (\<lambda>c. \<not> is_post c) cs \<and> (cs \<noteq> [] \<and> settles_submission token r (last cs) \<or> escapes r)"

lemma settled_stop: "traces (submission_settled token) (stop_capacity E token e reason e')"
  by (rule traces_weaken [OF traces_stop_capacity])
    (auto simp: submission_settled_def settles_submission_def is_post_def isl_def split: sum.splits)

lemma settled_job: "traces (submission_settled token) (note_job E token job)"
  by (rule traces_weaken [OF traces_note_job]) (auto simp: submission_settled_def settles_submission_def is_post_def split: sum.splits)

lemma settled_cancel: "traces (submission_settled token) (cancel_capacity E token operation)"
  by (rule traces_weaken [OF traces_cancel_capacity])
    (auto simp: submission_settled_def settles_submission_def is_post_def isl_def split: sum.splits)

lemma recovered_job_escapes: "recovered_job companion r = Inl e \<Longrightarrow> escapes (Inl e)"
  by (auto simp: recovered_job_def current_job_id_def companion_matches_def bindE_def Let_def
      split: training_reply.splits if_splits option.splits json.splits sum.splits)

lemma settled_silent_fail: "escapes (Inl e) \<Longrightarrow> submission_settled token (Inl e) []"
  by (simp add: submission_settled_def)

lemma settled_after_get:
  assumes "\<And>x. traces (submission_settled token) (f x)"
  shows "traces (submission_settled token) (seqM (http_call E (MC_get url)) f)"
  by (rule traces_weaken [OF traces_seq [OF traces_http_call assms]])
    (auto simp: submission_settled_def is_post_def)

lemma settled_recover: "traces (submission_settled token) (recover_or_cleanup_submission E url companion token e)"
proof -
  have "traces (submission_settled token) (seqM (liftM (recovered_job companion r)) (\<lambda>job. case job of
       Some job_id \<Rightarrow> note_job E token job_id
     | None \<Rightarrow> stop_capacity E token e ''training submission failure'' RunPodManagerError))" for r
  proof (cases "recovered_job companion r")
    case (Inl e')
    with recovered_job_escapes show ?thesis
      by (auto simp: traces_def liftM_def seqM_def submission_settled_def)
  next
    case (Inr job)
    then show ?thesis
      by (cases job) (simp_all add: liftM_def seqM_def settled_stop settled_job)
  qed
  then show ?thesis unfolding recover_or_cleanup_submission_def by (rule settled_after_get)
qed

lemma checked_errors:
  assumes "submission_result r = Inl e"
  shows "e \<in> {CancelledError, HttpxConnectError, HttpxStatusError, ValueError, RunPodManagerError}
    \<or> (\<exists>name. e = HttpxTimeoutException name \<or> e = HttpxOtherError name)"
  using assms
  by (cases r) (auto simp: submission_result_def checked_json_def bindE_def split: if_splits option.splits)

lemma settled_failed:
  assumes "submission_result r = Inl e"
  shows "traces (submission_settled token) (submission_failed E url companion token e)"
  using checked_errors [OF assms]
  by (auto simp: submission_failed_def settled_stop settled_cancel settled_recover traces_raise settled_silent_fail)

text \<open>One POST, then what settles it.\<close>

definition posted_once :: "string \<Rightarrow> py_error + string \<Rightarrow> manager_call list \<Rightarrow> bool" where
  "posted_once token r cs \<longleftrightarrow> (\<exists>before post after. cs = before @ post # after \<and> is_post post
     \<and> list_all (\<lambda>c. \<not> is_post c) before \<and> submission_settled token r after)"

lemma submit_posts_once: "traces (posted_once token) (submit_when_ready E url token avatar companion callback)"
proof -
  have "traces (submission_settled token) (case submission_result r of
       Inl e \<Rightarrow> submission_failed E url companion token e
     | Inr v \<Rightarrow> (case jget v ''job_id'' of
           JStr job_id \<Rightarrow> if job_id = [] then stop_capacity E token RunPodManagerError ''missing training job ID''
               RunPodManagerError else note_job E token job_id
         | _ \<Rightarrow> stop_capacity E token RunPodManagerError ''missing training job ID'' RunPodManagerError))" for r
    by (auto simp: settled_failed settled_stop settled_job split: sum.split json.split)
  note after = traces_seq [OF traces_http_call this]
  show ?thesis
    unfolding submit_when_ready_def
    by (rule traces_weaken [OF after]) (fastforce simp: posted_once_def is_post_def)
qed

lemma no_post_seq:
  assumes "traces (\<lambda>r cs. list_all (\<lambda>c. \<not> is_post c) cs) m" "\<And>x. traces (\<lambda>r cs. list_all (\<lambda>c. \<not> is_post c) cs) (f x)"
  shows "traces (\<lambda>r cs. list_all (\<lambda>c. \<not> is_post c) cs) (seqM m f)"
  by (rule traces_weaken [OF traces_seq [OF assms]]) auto

lemma no_post_steps:
  "no_calls m \<Longrightarrow> traces (\<lambda>r cs. list_all (\<lambda>c. \<not> is_post c) cs) m"
  "traces (\<lambda>r cs. list_all (\<lambda>c. \<not> is_post c) cs) (http_call E (MC_get url))"
  "traces (\<lambda>r cs. list_all (\<lambda>c. \<not> is_post c) cs) (note_error E token e)"
  by (auto simp: traces_def is_post_def http_call_def note_error_def seqM_def called_def ask_def on_service_def
      split: prod.splits sum.splits)

lemmas no_post_rules = no_post_seq no_post_steps(2,3) silent_steps [THEN no_post_steps(1)]

lemma no_post_ready_rounds: "traces (\<lambda>r cs. list_all (\<lambda>c. \<not> is_post c) cs) (ready_rounds n E token url t)"
  by (induction n)
    (auto simp: Let_def intro!: no_post_rules split: training_reply.split readiness.split)

lemma no_post_wait: "traces (\<lambda>r cs. list_all (\<lambda>c. \<not> is_post c) cs) (wait_for_training_ready E s timeout)"
  by (auto simp: wait_for_training_ready_def routed_def
      intro!: no_post_rules no_post_ready_rounds)

text \<open>The whole submission: either nothing is posted and it fails, or one POST is settled.\<close>

definition submission_shape :: "string \<Rightarrow> py_error + string \<Rightarrow> manager_call list \<Rightarrow> bool" where
  "submission_shape token r cs \<longleftrightarrow> list_all (\<lambda>c. \<not> is_post c) cs \<and> isl r \<or> posted_once token r cs"

lemma traces_try_else:
  assumes "traces R m" "\<And>e. traces (R1 e) (h e)" "\<And>x. traces (R2 x) (f x)"
  shows "traces (\<lambda>r cs. \<exists>cs1 cs2. cs = cs1 @ cs2
    \<and> ((\<exists>e. R (Inl e) cs1 \<and> R1 e r cs2) \<or> (\<exists>x. R (Inr x) cs1 \<and> R2 x r cs2))) (try_elseM m h f)"
  unfolding traces_def
proof (intro allI impI)
  fix w r w'
  assume run: "try_elseM m h f w = (r, w')"
  obtain r1 w1 where m1: "m w = (r1, w1)" by (cases "m w") auto
  from assms(1) m1 obtain cs1 where c1: "mw_calls w1 = mw_calls w @ cs1" "R r1 cs1" unfolding traces_def by blast
  show "\<exists>cs. mw_calls w' = mw_calls w @ cs \<and> (\<exists>cs1 cs2. cs = cs1 @ cs2
    \<and> ((\<exists>e. R (Inl e) cs1 \<and> R1 e r cs2) \<or> (\<exists>x. R (Inr x) cs1 \<and> R2 x r cs2)))"
  proof (cases r1)
    case (Inl e)
    with run m1 have "h e w1 = (r, w')" by (simp add: try_elseM_def)
    with assms(2) obtain cs2 where "mw_calls w' = mw_calls w1 @ cs2" "R1 e r cs2" unfolding traces_def by blast
    with c1 Inl have "mw_calls w' = mw_calls w @ (cs1 @ cs2)" "R (Inl e) cs1" "R1 e r cs2" by simp_all
    then show ?thesis by blast
  next
    case (Inr x)
    with run m1 have "f x w1 = (r, w')" by (simp add: try_elseM_def)
    with assms(3) obtain cs2 where "mw_calls w' = mw_calls w1 @ cs2" "R2 x r cs2" unfolding traces_def by blast
    with c1 Inr have "mw_calls w' = mw_calls w @ (cs1 @ cs2)" "R (Inr x) cs1" "R2 x r cs2" by simp_all
    then show ?thesis by blast
  qed
qed

lemma unready_shape:
  "traces (\<lambda>r cs. list_all (\<lambda>c. \<not> is_post c) cs \<and> isl r)
     (if e = CancelledError then cancel_capacity E token ''model readiness''
      else if is_manager_error e then stop_capacity E token e ''model readiness failure'' e else raiseM e)"
  by (auto simp: traces_raise intro!: traces_weaken [OF traces_cancel_capacity] traces_weaken [OF traces_stop_capacity])
    (auto simp: is_post_def)

lemma ready_shape: "traces (\<lambda>r cs. list_all (\<lambda>c. \<not> is_post c) cs)
    (if wait then wait_for_training_ready E s 600 else ret ())"
  by (simp add: no_post_wait traces_ret)

lemma submission_shape:
  assumes "given_text (rs_backend_base_url s)" "given_text (rs_training_cleanup_token s)"
  shows "traces (submission_shape (the (rs_training_cleanup_token s))) (submit_training_job E s avatar companion callback wait)"
proof -
  let ?token = "the (rs_training_cleanup_token s)"
  have shape: "submission_shape ?token r (cs1 @ cs2)"
    if "list_all (\<lambda>c. \<not> is_post c) cs1"
      "(list_all (\<lambda>c. \<not> is_post c) cs2 \<and> isl r) \<or> posted_once ?token r cs2" for r cs1 cs2
    using that(2)
  proof
    assume "posted_once ?token r cs2"
    then obtain before post after where "cs2 = before @ post # after" "is_post post"
      "list_all (\<lambda>c. \<not> is_post c) before" "submission_settled ?token r after" unfolding posted_once_def by blast
    with that(1) have "cs1 @ cs2 = (cs1 @ before) @ post # after" "list_all (\<lambda>c. \<not> is_post c) (cs1 @ before)"
      by simp_all
    then show ?thesis unfolding submission_shape_def posted_once_def
      using \<open>is_post post\<close> \<open>submission_settled ?token r after\<close> by blast
  qed (use that(1) in \<open>simp add: submission_shape_def\<close>)
  have program: "submit_training_job E s avatar companion callback wait =
    try_elseM (if wait then wait_for_training_ready E s 600 else ret ())
      (\<lambda>e. if e = CancelledError then cancel_capacity E ?token ''model readiness''
           else if is_manager_error e then stop_capacity E ?token e ''model readiness failure'' e else raiseM e)
      (\<lambda>_. submit_when_ready E (the (rs_backend_base_url s)) ?token avatar companion callback)"
    using assms by (simp add: submit_training_job_def routed_def training_token_def liftM_def seqM_def)
  show ?thesis
    unfolding program
    by (rule traces_weaken [OF traces_try_else [OF ready_shape unready_shape submit_posts_once]]) (blast intro: shape)
qed

section \<open>Fallback\<close>

fun outcome_of :: "manager_call \<Rightarrow> py_error option list" where
  "outcome_of (MC_acquired token result) = [result]"
| "outcome_of c = []"

definition outcomes :: "manager_call list \<Rightarrow> py_error option list" where
  "outcomes cs = concat (map outcome_of cs)"

text \<open>A failure that certainly left nothing that costs.\<close>

fun safe_outcome :: "py_error option \<Rightarrow> bool" where
  "safe_outcome (Some (TrainingPodLifecycleError op token pod cleanup risk)) = (\<not> risk \<and> cleanup \<in> {C_COMPLETE, C_NOT_OWNED})"
| "safe_outcome (Some (TrainingPodCleanupError op token pod cleanup risk)) = (\<not> risk \<and> cleanup \<in> {C_COMPLETE, C_NOT_OWNED})"
| "safe_outcome x = False"

lemma safe_outcome_of [simp]: "safe_failure e \<Longrightarrow> safe_outcome (Some e)"
  by (cases e) simp_all

lemma outcomes_simps [simp]: "outcomes [] = []" "outcomes (xs @ ys) = outcomes xs @ outcomes ys"
  by (simp_all add: outcomes_def)

text \<open>One acquisition asks the lease service at most once, and a lifecycle error is its answer.\<close>

definition one_attempt :: "py_error + RunPodSession \<Rightarrow> manager_call list \<Rightarrow> bool" where
  "one_attempt r cs \<longleftrightarrow> outcomes cs = []
     \<or> (\<exists>x. outcomes cs = [x] \<and> (case r of Inl e \<Rightarrow> is_lifecycle_error e \<longrightarrow> x = Some e | Inr s \<Rightarrow> True))"

lemma silent_no_active_session: "no_calls no_active_session"
  by (auto simp: no_active_session_def traces_def seqM_def the_session_def ret_def raiseM_def split: option.splits)

lemma silent_record_session: "no_calls (record_training_session E l profile companion ttl)"
  by (auto simp: record_training_session_def Let_def intro!: silent_seq silent_steps)

lemma acquire_capacity_trace:
  "traces (\<lambda>r cs. outcomes cs = [case r of Inl e \<Rightarrow> Some e | Inr l \<Rightarrow> None]) (acquire_capacity E q)"
  by (auto simp: traces_def acquire_capacity_def seqM_def try_elseM_def called_def on_service_def raiseM_def ret_def
      outcomes_def split: prod.splits sum.splits)

lemma record_session_error:
  "record_training_session E l profile companion ttl w = (Inl e, w') \<Longrightarrow> e = RunPodManagerError"
  by (auto simp: record_training_session_def raiseM_def set_session_def seqM_def ret_def Let_def split: if_splits)

lemma one_attempt_acquire: "traces one_attempt (acquire_training_session E companion profile ttl source pod token family)"
proof -
  have recorded: "traces (\<lambda>r cs. cs = [] \<and> (case r of Inl e \<Rightarrow> \<not> is_lifecycle_error e | Inr s \<Rightarrow> True))
      (record_training_session E l profile companion ttl)" for l
    using silent_record_session [of E l profile companion ttl]
    by (fastforce simp: traces_def dest: record_session_error split: sum.split)
  have asked: "traces one_attempt (seqM (acquire_capacity E q)
      (\<lambda>l. record_training_session E l profile companion ttl))" for q
    by (rule traces_weaken [OF traces_seq [OF acquire_capacity_trace recorded]])
      (auto simp: one_attempt_def split: sum.splits)
  have none: "one_attempt (Inl e) []" for e by (simp add: one_attempt_def)
  show ?thesis
    unfolding acquire_training_session_def Let_def
    by (intro silent_then silent_no_active_session silent_steps none)
      (auto simp: traces_raise none asked split: option.split)
qed

definition careful :: "nat \<Rightarrow> py_error option list \<Rightarrow> bool" where
  "careful n xs \<longleftrightarrow> length xs \<le> n \<and> list_all safe_outcome (butlast xs)"

lemma careful_Nil [simp]: "careful n []"
  by (simp add: careful_def)

lemma careful_one: "one_attempt r cs \<Longrightarrow> careful (Suc n) (outcomes cs)"
  by (auto simp: one_attempt_def careful_def)

lemma careful_mono: "careful n xs \<Longrightarrow> careful (Suc n) xs"
  by (simp add: careful_def)

lemma careful_next:
  assumes "one_attempt (Inl e) cs1" "is_lifecycle_error e" "safe_failure e" "careful n (outcomes cs2)"
  shows "careful (Suc n) (outcomes (cs1 @ cs2))"
  using assms by (auto simp: one_attempt_def careful_def)

lemma traces_try:
  assumes "traces R m" "\<And>e. traces (R' e) (h e)"
  shows "traces (\<lambda>r cs. (\<exists>x. r = Inr x \<and> R r cs) \<or> (\<exists>e cs1 cs2. cs = cs1 @ cs2 \<and> R (Inl e) cs1 \<and> R' e r cs2)) (tryM m h)"
proof -
  have "tryM m h = try_elseM m h ret"
    by (auto simp: tryM_def try_elseM_def ret_def fun_eq_iff split: prod.splits sum.splits)
  moreover have returned: "traces (\<lambda>r cs. cs = [] \<and> r = Inr x) (ret x)" for x by (simp add: traces_ret)
  have "traces (\<lambda>r cs. \<exists>cs1 cs2. cs = cs1 @ cs2
    \<and> ((\<exists>e. R (Inl e) cs1 \<and> R' e r cs2) \<or> (\<exists>x. R (Inr x) cs1 \<and> cs2 = [] \<and> r = Inr x))) (try_elseM m h ret)"
    using assms returned by (rule traces_try_else)
  then have "traces (\<lambda>r cs. (\<exists>x. r = Inr x \<and> R r cs)
    \<or> (\<exists>e cs1 cs2. cs = cs1 @ cs2 \<and> R (Inl e) cs1 \<and> R' e r cs2)) (try_elseM m h ret)"
    by (rule traces_weaken) (elim exE conjE disjE, metis, simp)
  ultimately show ?thesis by simp
qed

lemma careful_try_profiles:
  "traces (\<lambda>r cs. careful (length names) (outcomes cs)) (try_profiles E companion ttl family last_error names)"
proof (induction names arbitrary: last_error)
  case Nil
  then show ?case by (simp add: traces_raise)
next
  case (Cons name names)
  show ?case
  proof (cases "map_of (me_profiles E) name")
    case None
    with Cons show ?thesis by (auto intro: traces_weaken careful_mono)
  next
    case (Some profile)
    have more: "traces (\<lambda>r cs. cs = [] \<and> r = Inl e \<or> is_lifecycle_error e \<and> safe_failure e \<and> careful (length names) (outcomes cs))
        (if is_lifecycle_error e \<and> safe_failure e then try_profiles E companion ttl family (Some e) names else raiseM e)" for e
      by (auto simp: traces_raise intro: traces_weaken [OF Cons])
    show ?thesis
      using Some by (auto simp: Let_def intro!: traces_weaken [OF traces_try [OF one_attempt_acquire more]]
          dest: careful_one careful_next)
  qed
qed

lemma careful_new_attempt: "traces (\<lambda>r cs. careful 3 (outcomes cs)) (new_training_attempt E companion ttl family)"
proof -
  have one: "traces (\<lambda>r cs. careful 3 (outcomes cs)) (acquire_training_session E companion profile ttl source pod token family)"
    for profile source pod token
    by (rule traces_weaken [OF one_attempt_acquire]) (simp add: careful_one eval_nat_numeral)
  have reuse: "traces (\<lambda>r cs. careful 3 (outcomes cs)) (reuse_stopped_pod E companion ttl family pod)" for pod
    unfolding reuse_stopped_pod_def
    by (auto intro!: silent_then silent_steps simp: traces_raise one split: json.split)
  have profiles: "traces (\<lambda>r cs. careful 3 (outcomes cs)) (try_profiles E companion ttl family None TRAINING_PROFILE_IDS)"
  proof -
    have "length TRAINING_PROFILE_IDS = 3" by (simp add: TRAINING_PROFILE_IDS_def)
    with careful_try_profiles [of TRAINING_PROFILE_IDS E companion ttl family None] show ?thesis by (simp only:)
  qed
  have "no_calls (find_stopped_pod E purpose)" for purpose
    unfolding find_stopped_pod_def by (auto intro!: silent_seq silent_steps split: option.split)
  then show ?thesis
    unfolding new_training_attempt_def Let_def
    by (auto intro!: silent_then simp: one reuse profiles split: option.split prod.split)
qed

lemma careful_start: "traces (\<lambda>r cs. careful 3 (outcomes cs)) (start_training_pod E companion token)"
proof -
  have recorded: "traces (\<lambda>r cs. careful 3 (outcomes cs)) (record_training_session E l profile companion ttl)"
    for l profile companion ttl
    by (rule traces_weaken [OF silent_record_session]) simp
  show ?thesis
    unfolding start_training_pod_def
    by (auto intro!: silent_then silent_steps careful_new_attempt simp: traces_raise recorded split: option.split)
qed

section \<open>Properties\<close>


text \<open>
  C16.  Another profile is tried only after a failure without cost.  Starting a training Pod asks the lease service for
  capacity at most three times, and every answer but the last is a lifecycle error without billing risk
  whose cleanup is complete or not owned.
\<close>

theorem fallback_is_free:
  "case start_training_pod E companion token w of (r, w') \<Rightarrow>
     length (outcomes (new_calls w w')) \<le> 3 \<and> list_all safe_outcome (butlast (outcomes (new_calls w w')))"
proof -
  obtain r w' where run: "start_training_pod E companion token w = (r, w')" by fastforce
  from tracesD [OF careful_start this] show ?thesis by (simp add: run careful_def)
qed


section \<open>Witness\<close>

definition sample_manager_env :: manager_env where
  "sample_manager_env =
     \<lparr> me_service = sample_env, me_now = \<lambda>n. Aware (int n), me_sleep = \<lambda>n. Inr (), me_uuid4 = \<lambda>n. ''uuid'',
       me_http = \<lambda>n c. Reply_connect_error, me_direct = False, me_list_pods = \<lambda>n. Inr [],
       me_start_pod = \<lambda>n p m. Inl RunPodManagerError, me_get_status = \<lambda>n p. Inl RunPodManagerError,
       me_resume_pod = \<lambda>n p c. Inl RunPodManagerError, me_stop_pod = \<lambda>n p. Inr (), me_terminate_pod = None,
       me_metering = None, me_environ = \<lambda>v. None, me_text = \<lambda>v. [], me_decode = \<lambda>s. s,
       me_default_ttl_seconds = 1800, me_max_ttl_seconds = 3600, me_readiness_timeout = 600,
       me_pod_ready_timeout = 600, me_fuel = 10 \<rparr>"

definition sample_client_calls :: "(manager_env \<times> client_call) list" where
  "sample_client_calls = map (Pair sample_manager_env)
     [CC_start_training_pod ''companion-1'' (Some ''capacity-1''), CC_release_training_pod ''capacity-1'' ''stop'',
      CC_reconcile_training_pods]"

definition sample_manager_world :: manager_world where
  "sample_manager_world = \<lparr> mw_service = world_of (sample_row\<lparr>l_state := S_RELEASED, l_capacity_spec := None\<rparr>),
     mw_tick = 0, mw_session = None, mw_calls = [] \<rparr>"


section \<open>Sessions\<close>

definition remembered :: "string \<Rightarrow> manager_world \<Rightarrow> bool" where
  "remembered pod w \<longleftrightarrow> (case mw_session w of None \<Rightarrow> False | Some s \<Rightarrow> rs_pod_id s = pod)"

text \<open>Programs that keep the Pod of the session and make no call.\<close>

definition remembers :: "string \<Rightarrow> (manager_world, 'a) prog \<Rightarrow> bool" where
  "remembers pod m \<longleftrightarrow> (\<forall>w. remembered pod w \<longrightarrow> remembered pod (snd (m w)) \<and> mw_calls (snd (m w)) = mw_calls w)"

lemma remembers_seq: "remembers pod m \<Longrightarrow> (\<And>x. remembers pod (f x)) \<Longrightarrow> remembers pod (seqM m f)"
  unfolding remembers_def seqM_def by (auto split: prod.split sum.split)

lemma remembers_steps:
  "remembers pod (ask f)" "remembers pod the_session" "remembers pod (ret x)" "remembers pod (raiseM e)"
  "rs_pod_id s = pod \<Longrightarrow> remembers pod (set_session (Some s))" "remembers pod (utc_now E)" "remembers pod (pause E)"
  by (simp_all add: remembers_def remembered_def ask_def the_session_def ret_def raiseM_def set_session_def utc_now_def
      pause_def)

lemma read_ports_pod: "read_ports E s items = (x, s') \<Longrightarrow> rs_pod_id s' = rs_pod_id s"
  by (induction E s items rule: read_ports.induct) (auto simp: with_session_route_def Let_def split: sum.splits option.splits)

lemma observe_runtime_pod: "observe_runtime E s v = (x, s') \<Longrightarrow> rs_pod_id s' = rs_pod_id s"
  by (auto simp: observe_runtime_def Let_def dest: read_ports_pod split: sum.splits if_splits json.splits)

lemma remembers_update: "rs_pod_id s = pod \<Longrightarrow> remembers pod (update_session_from_runtime E s v)"
  unfolding update_session_from_runtime_def Let_def
  by (auto intro!: remembers_seq remembers_steps dest: observe_runtime_pod split: prod.split option.split)

lemma remembers_status: "remembers pod (get_session_status E refresh)"
  unfolding remembers_def
proof (intro allI impI)
  fix w
  assume "remembered pod w"
  then obtain s where s: "mw_session w = Some s" "rs_pod_id s = pod"
    by (auto simp: remembered_def split: option.splits)
  have "remembers pod (seqM (if refresh
          then seqM (ask (\<lambda>n. me_get_status E n (rs_pod_id s))) (update_session_from_runtime E s) else ret s)
        (\<lambda>s'. seqM (utc_now E) (\<lambda>t.
          ret (JObj (session_to_dict s' t @ [(''active'', JBool (session_active s'))])))))"
    by (auto intro!: remembers_seq remembers_steps remembers_update s(2))
  with \<open>remembered pod w\<close> show "remembered pod (snd (get_session_status E refresh w))
      \<and> mw_calls (snd (get_session_status E refresh w)) = mw_calls w"
    unfolding remembers_def by (simp add: get_session_status_def seqM_def the_session_def s(1))
qed

lemma remembers_waiting: "remembers pod (wait_for_status n E t)" "remembers pod (wait_for_route n E t)"
  by (induction n; auto intro!: remembers_seq remembers_steps remembers_status)+

lemma remembers_wait_until_ready: "remembers pod (wait_for_session E)"
  by (auto simp: wait_for_session_def intro!: remembers_seq remembers_steps remembers_waiting split: option.split)

lemma calls_unchanged: "mw_calls (w\<lparr> mw_tick := n, mw_session := x \<rparr>) = mw_calls w"
  by simp

lemma run_steps:
  "seqM (utc_now E) f w = f (me_now E (mw_tick w)) (w\<lparr> mw_tick := Suc (mw_tick w) \<rparr>)"
  "seqM (set_session x) g w = g () (w\<lparr> mw_session := x \<rparr>)"
  "seqM (liftM y) h w = (case y of Inl e \<Rightarrow> (Inl e, w) | Inr z \<Rightarrow> h z w)"
  "seqM no_active_session k w =
     (if (case mw_session w of None \<Rightarrow> False | Some s \<Rightarrow> session_active s) then (Inl RunPodManagerError, w) else k () w)"
  by (auto simp: utc_now_def ask_def set_session_def liftM_def no_active_session_def the_session_def seqM_def ret_def
      raiseM_def split: sum.split option.split)

text \<open>The part after the answer.\<close>

lemma start_answered_remembers:
  assumes "start_answered E name model pod_type profile limit (response, placement) w = (r, w')"
  shows "mw_calls w' = mw_calls w
    \<and> (case session_pod_id E response of
         None \<Rightarrow> mw_session w' = mw_session w \<and> r = Inl RunPodManagerError
       | Some pod \<Rightarrow>
           if placement = None \<and> \<not> is_jobj (json_or (jget response ''gpu'') (JObj []))
           then mw_session w' = mw_session w \<and> r = Inl AttributeError else remembered pod w')"
proof (cases "session_pod_id E response")
  case None
  with assms show ?thesis by (simp add: start_answered_def raiseM_def)
next
  case (Some pod)
  have after: "remembers pod (seqM (wait_for_session E) (\<lambda>_. get_session_status E True))"
    by (intro remembers_seq remembers_wait_until_ready remembers_status)
  show ?thesis
  proof (cases "placement = None \<and> \<not> is_jobj (json_or (jget response ''gpu'') (JObj []))")
    case True
    with assms Some show ?thesis
      by (auto simp: start_answered_def utc_now_def ask_def seqM_def raiseM_def)
  next
    case False
    define s where "s = (new_session pod profile name model (if given_text pod_type then pod_type else gp_pod_type profile)
      limit (me_now E (mw_tick w)))
      \<lparr> rs_gpu_type_id := (case placement of None \<Rightarrow> jget (json_or (jget response ''gpu'') (JObj [])) ''id''
          | Some p \<Rightarrow> JStr (pd_gpu_id p)),
        rs_cost_per_hr := (case placement of None \<Rightarrow> jget response ''cost''
          | Some p \<Rightarrow> JAmount (pd_offered_cost_per_hr p)), rs_placement := placement \<rparr>"
    have "rs_pod_id s = pod" by (simp add: s_def new_session_def)
    moreover have "seqM (wait_for_session E) (\<lambda>_. get_session_status E True)
         (w\<lparr> mw_tick := Suc (mw_tick w), mw_session := Some s \<rparr>) = (r, w')"
      using assms Some False unfolding start_answered_def Let_def
      by (simp only: prod.case option.case run_steps if_False s_def)
    moreover have "remembered pod (w\<lparr> mw_tick := Suc (mw_tick w), mw_session := Some s \<rparr>)"
      using \<open>rs_pod_id s = pod\<close> by (simp add: remembered_def)
    ultimately have "remembered pod w' \<and> mw_calls w' = mw_calls w"
      using after unfolding remembers_def by (metis snd_conv calls_unchanged)
    then show ?thesis using False Some by auto
  qed
qed

lemma request_pod_result:
  "request_pod E profile metadata w =
    ((case me_start_pod E (mw_tick w) profile metadata of
        Inl e \<Rightarrow> Inl (if is_manager_error e \<and> e \<noteq> RunPodAmbiguousResultError then RunPodManagerError else e)
      | Inr answer \<Rightarrow> Inr answer),
     w\<lparr> mw_calls := mw_calls w @ [MC_start_pod (gp_id profile)], mw_tick := Suc (mw_tick w) \<rparr>)"
  by (auto simp: request_pod_def called_def ask_def seqM_def tryM_def raiseM_def split: sum.split)


end
