(* ===== verification/Spec2Isabelle.thy ===== *)
theory Spec2Isabelle
  imports Pod_Properties Pod_Transport Cpu_Realized Ollama_Witnesses Serverless_Properties Dogfood_Properties
    Training_Properties
begin

text \<open>
  Verification of \<^verbatim>\<open>kestrel-cloud-runpod\<close>: the durable Pod capacity and Ollama lease subsystems.

  The program.  A host asks the lease service \<^verbatim>\<open>PodCapacityLeaseService\<close>
  (\<^verbatim>\<open>pod_capacity_service.py\<close>) for a GPU Pod.  The service persists a claim in a SQLite table
  (\<^verbatim>\<open>pod_capacity_repository.py\<close>) before any provider mutation, creates or starts the Pod through
  the provider interface, drives a catalog workload on its worker through the transport interface,
  and tears the Pod down with authoritative billing.  A separate process
  (\<^verbatim>\<open>pod_capacity_reconciler.py\<close>) repeats the same transitions after crashes.  All writers share
  only the table, and every write is a compare-and-set on the row's revision.

  The theories, in the order of the code:

  \<^item> \<^verbatim>\<open>Runpod_Prelude\<close>: instants (aware or naive, in microseconds), the exceptions as the datatype
    \<open>py_error\<close>, programs \<open>'w \<Rightarrow> (py_error + 'a) \<times> 'w\<close> with return, raise, sequencing and the two forms
    of \<^verbatim>\<open>try\<close>, the relational triple \<open>safe\<close> and the locale \<open>guarantee_preorder\<close> with its rules.
  \<^item> \<^verbatim>\<open>Decimal_Arith\<close>, \<^verbatim>\<open>Billing\<close>: the decimal arithmetic of the standard library that the code uses
    (rounding at the context precision), \<^verbatim>\<open>billing.py\<close> and \<^verbatim>\<open>pod_cost_usd\<close>.
  \<^item> \<^verbatim>\<open>Placement\<close>: \<^verbatim>\<open>placement.py\<close> and the offers of \<^verbatim>\<open>models.py\<close>.
  \<^item> \<^verbatim>\<open>Pod_Contracts\<close>, \<^verbatim>\<open>Pod_Evidence\<close>, \<^verbatim>\<open>Pod_Codec\<close>: the dataclasses of
    \<^verbatim>\<open>pod_capacity_contracts.py\<close> as records with the source's field names behind a two-letter prefix,
    their \<^verbatim>\<open>__post_init__\<close> validation as \<open>_post_init\<close> functions returning the first exception,
    identities, fingerprints, evidence, the artifact handoff and the worker envelope.
  \<^item> \<^verbatim>\<open>Pod_Repository\<close>: the table, its three partial unique indexes, reservation, compare-and-set and
    queries.  The interface \<open>cas_store\<close> states the laws of the compare-and-set; the table is its
    interpretation \<open>lease_store\<close>.
  \<^item> \<^verbatim>\<open>Pod_Transitions\<close>, \<^verbatim>\<open>Pod_Release\<close>, \<^verbatim>\<open>Pod_Acquire\<close>, \<^verbatim>\<open>Pod_Catalog\<close>, \<^verbatim>\<open>Pod_Reconcile\<close>: the methods of
    the service and the reconcile pass, one definition per method (long methods are split at their
    branches), composed as the code composes them.
  \<^item> \<^verbatim>\<open>Pod_Safety\<close>, \<^verbatim>\<open>Pod_Guarantee\<close>: the history order of a lease row (\<open>row_evolves\<close>), the table
    invariant, and the proof, operation by operation, that every transaction of the service follows
    the order.  The locale \<open>guarantee_preorder\<close> is interpreted here as \<open>svc\<close>.
  \<^item> \<^verbatim>\<open>Pod_Samples\<close>, \<^verbatim>\<open>Pod_Properties\<close>: concrete contract values for the witnesses, arbitrary sequences
    of operations (\<open>exec_calls\<close>) and the properties that hold of all of them.

  \<^item> \<^verbatim>\<open>Py_Text\<close>, \<^verbatim>\<open>Pod_Transport\<close>: integer texts, percent quoting and \<^verbatim>\<open>urlsplit\<close> of the standard library, and
    the worker client of \<^verbatim>\<open>pod_transport.py\<close>; \<open>transport_of\<close> is its implementation of the service's transport
    interface.
  \<^item> \<^verbatim>\<open>Runpod_Models\<close>, \<^verbatim>\<open>Runpod_Client\<close>: the resources and requests of \<^verbatim>\<open>models.py\<close> and the API client of
    \<^verbatim>\<open>clients.py\<close> as programs over the log of requests sent; httpx is the function \<open>ce_send\<close>.
  \<^item> \<^verbatim>\<open>Runpod_Providers\<close>, \<^verbatim>\<open>Pod_Billing\<close>, \<^verbatim>\<open>Pod_Provider\<close>: \<^verbatim>\<open>DirectRunPodProvider\<close> of \<^verbatim>\<open>providers.py\<close>,
    \<^verbatim>\<open>pod_billing.py\<close> and \<^verbatim>\<open>pod_capacity_provider.py\<close>; \<open>provider_of\<close> is the implementation of the service's
    provider interface.
  \<^item> \<^verbatim>\<open>Cpu_Catalog\<close>, \<^verbatim>\<open>Cpu_Environment\<close>, \<^verbatim>\<open>Cpu_Realized\<close>: the CPU catalog and its match, the acquisition
    planner with its cost policy, and the inspection of an owned CPU Pod.  The contract types of \<^verbatim>\<open>kestrel_sdk\<close>
    are outside the repository: the record \<open>sdk\<close> holds their validators, dumps and digest as parameters.
  \<^item> \<^verbatim>\<open>Py_Float\<close>: rounding to binary64, \<^verbatim>\<open>math.isclose\<close>, \<^verbatim>\<open>timedelta.total_seconds\<close> and the addition of
    decimals, as far as the cost policies use them.
  \<^item> \<^verbatim>\<open>Ollama_Contracts\<close>, \<^verbatim>\<open>Ollama_Repository\<close>, \<^verbatim>\<open>Ollama_Service\<close>: the second lease service of the program, for
    inference endpoints and Pods that serve a model.  Plan selection with its cost ceilings, the SQLite
    table with its compare-and-set, and every operation of \<^verbatim>\<open>OllamaLeaseService\<close> with the reconcile pass.
  \<^item> \<^verbatim>\<open>Ollama_Safety\<close>, \<^verbatim>\<open>Ollama_Guarantee\<close>, \<^verbatim>\<open>Ollama_Properties\<close>, \<^verbatim>\<open>Ollama_Samples\<close>: the order of versions of
    a row (\<open>ol_evolves\<close>), the invariant of the table and of the creates sent (\<open>ollama_inv\<close>), the proof that
    every operation keeps both (a second interpretation, \<open>osvc\<close>, of \<open>guarantee_preorder\<close>), and the
    properties of arbitrary sequences of operations (\<open>exec_ollama_calls\<close>).
  \<^item> \<^verbatim>\<open>Ollama_Runtime\<close>, \<^verbatim>\<open>Ollama_Provider\<close>: the runtime contract of \<^verbatim>\<open>ollama_runtime.py\<close> (image and models by
    digest, storage path, environment of the worker) and the adapter of \<^verbatim>\<open>ollama_provider.py\<close> over the API
    client; \<open>adapter_of\<close> is the implementation of the provider interface of the Ollama service.
  \<^item> \<^verbatim>\<open>Ollama_Adapter\<close>, \<^verbatim>\<open>Ollama_Deployment\<close>, \<^verbatim>\<open>Ollama_Termination\<close>, \<^verbatim>\<open>Ollama_Witnesses\<close>: what the adapter
    sends (the relation \<open>sends\<close>), the composition of the service with its adapter, the end of the polling
    loop, and concrete runs.

  \<^item> \<^verbatim>\<open>Decimal_Text\<close>: the \<^verbatim>\<open>Decimal\<close> constructor, decimal sums and additions with the exponents they have.
  \<^item> \<^verbatim>\<open>Serverless_Contracts\<close>, \<^verbatim>\<open>Serverless_Receipts\<close>, \<^verbatim>\<open>Serverless_Codec\<close>, \<^verbatim>\<open>Serverless_Roundtrip\<close>: the dataclasses of
    \<^verbatim>\<open>serverless_capacity_contracts.py\<close> (specifications, quotes, activation, cleanup, submission and billing
    evidence) with their validation and digests, their dictionaries and readers, and the proof that what is
    stored is read back.
  \<^item> \<^verbatim>\<open>Serverless_Checks\<close>, \<^verbatim>\<open>Serverless_Provider\<close>, \<^verbatim>\<open>Serverless_Settlement\<close>, \<^verbatim>\<open>Serverless_Properties\<close>: the adapter of
    \<^verbatim>\<open>serverless_capacity_provider.py\<close> over the API client.  Its checks without I/O; quotes, activation, adoption and
    the authorization of submissions; cleanup with the durable intent and the three ways of billing; and the
    proofs of what it may change at the provider and what its receipts rest on.
  \<^item> \<^verbatim>\<open>Base64url\<close>, \<^verbatim>\<open>Signed_Invocations\<close>, \<^verbatim>\<open>Signed_Properties\<close>: the receipts of \<^verbatim>\<open>signed_invocations.py\<close> with their
    signer and verifier.  The record \<open>signed_env\<close> holds SHA-256, UTF-8, DER and Ed25519; \<open>ed25519_documented\<close> is
    the documented behaviour of keys and signatures.  A canonical text is represented by the sorted value it encodes.
  \<^item> \<^verbatim>\<open>Dogfood_Contracts\<close>, \<^verbatim>\<open>Dogfood_Properties\<close>: the plans, quotes, attempts and observations of
    \<^verbatim>\<open>dogfood_contracts.py\<close>, and the check that evidence has no URL and no credential.
  \<^item> \<^verbatim>\<open>Session_Manager\<close>, \<^verbatim>\<open>Training\<close>: the session manager of \<^verbatim>\<open>core.py\<close> and the training client of \<^verbatim>\<open>training.py\<close> as
    programs over the table of the lease service, the remembered session and the log \<open>mw_calls\<close> of what they asked.
  \<^item> \<^verbatim>\<open>Training_Safety\<close>, \<^verbatim>\<open>Training_Properties\<close>: a third interpretation of \<open>guarantee_preorder\<close> (\<open>mgr\<close>), which lifts the
    guarantee of the lease service to its client, and what the logs of submissions, acquisitions and sessions are.

  State and environment.  The state \<open>world\<close> is the table, a tick that numbers the calls to the
  outside, and the list of provider mutations issued so far.  The environment \<open>svc_env\<close> holds the
  collaborators as functions of the tick (provider, secret store, worker transport, clock,
  cancellation), so every answer, exception and delay is allowed.  Before each transaction the
  function \<open>re_interfere\<close> replaces the table by what other processes committed; the properties
  assume only \<open>rely\<close>, and \<open>service_satisfies_rely\<close> shows that the service's own transactions are of
  this kind.  The Ollama service has its own state \<open>ollama_world\<close> of the same shape; \<open>uw_absent\<close> collects the
  resources whose teardown a provider confirmed to any process, so that "TERMINATED implies absent" can be
  stated of the table.  Its rely condition \<open>ollama_rely\<close> also asks that the provider never answers
  with an empty resource id.

  Loops.  The retry loops of the service and the polling loops of the Ollama service and of the session manager have no bound; those of
  the API client have the configured ones.  Each takes fuel (\<open>sv_fuel\<close>, \<open>ue_fuel\<close>, \<open>me_fuel\<close>); the outcome
  \<open>Diverged\<close> stands for a run still going when it is used up.  The invariants hold at every point
  of the run and hence whatever the fuel is.

  Abstractions.  Times are totally ordered instants; SHA-256, the canonical JSON digest and UUID5
  are functions of the environment about which nothing is assumed.  Error texts and the chaining of
  exceptions are dropped, exception classes are kept; the texts that the Ollama service stores are the function
  \<open>ue_error_text\<close> of the exception.  The text of an instant is the function \<open>pa_rfc3339\<close>, the answers of the
  served model are the function \<open>pa_http\<close>.  Rows hold decoded values: the JSON text of
  a column is represented by the value it encodes, except that reading a specification back loses
  its environment values, as \<^verbatim>\<open>PodCapacitySpec.from_dict\<close> does.  Type checks of values of the
  declared type are dropped.  SQLite errors other than \<^verbatim>\<open>IntegrityError\<close>, schema migration, logging, argument
  parsing and the advisory file lock are not modelled.

  Not modelled: the log streams and rate limit notes of the client (side channels that change no state), the
  managed platform proxy (a second transport to the same operations), the \<^verbatim>\<open>to_dict\<close>/\<^verbatim>\<open>from_dict\<close> pairs of
  the Pod contracts that the service and its table do not use, the manager mixin of \<^verbatim>\<open>ollama.py\<close>, the reading of
  the configuration in \<^verbatim>\<open>core.py\<close>, the SDK registration of \<^verbatim>\<open>feature.py\<close> and \<^verbatim>\<open>inference_provider.py\<close> (objects of
  frameworks outside the repository), the certificates of \<^verbatim>\<open>remote_worker_tls.py\<close> (calls into a package) and the
  scripts.  The overflow of an instant shifted to UTC is not modelled either: instants are unbounded.
\<close>

end
